(* ===== verification/Prelude.thy ===== *)
theory Prelude
  imports Main "HOL-Library.Char_ord" "HOL-Library.List_Lexorder" "HOL-Library.Sublist"
begin

text \<open>
  Shared vocabulary of the development: the exceptions of the program as values, the
  result type and its sequencing, and the operations of Python's \<open>str\<close> that the source
  uses. A \<open>str\<close> is a HOL \<open>string\<close> whose characters are read as code points
  below 256. An exception is its class together with a short form of its message.
\<close>

section \<open>Exceptions and results\<close>

datatype exn =
    ValueError string
  | TypeError string
  | RuntimeError string
  | KeyError string
  | IntegrityError string
  | AttestationError string
  | ModelExecutionAuthorizationError string
  | OverflowError string
  | ConcurrencyError string string int int
  | IdempotencyConflict string
  | AttestationReplay string
  | ContractRevisionConflict string
  | TaskNotFound string
  | InvalidTransition string
  | LeaseUnavailable string
  | StaleFence string
  | ProjectionError string
  | ArtifactNotFound string
  | ArtifactCorruption string
  | OSError string
  | VerificationSigningGatewayRejected string
  | VerificationSigningGatewayReplay string
  | VerificationSigningGatewayUnavailable string
  | CanonicalTypeGateError string
  | FidelityHarnessError string
  | SourcePreparationError string
  | BuilderError string
  | FreezeRejected string
  | ConfigurationError string
  | PolicyViolation string
  | CapabilityError string
  | ProviderResponseError string
  | ExecutionPolicyError string
  | ProofValidationError string string
  | ProofDependencyEvidenceError string
  | ProofDependencyRejected string

type_synonym 'a result = "exn + 'a"

text \<open>
  \<open>AttestationError\<close>, \<open>ModelExecutionAuthorizationError\<close>, \<open>CanonicalTypeGateError\<close>,
  \<open>FidelityHarnessError\<close>, \<open>SourcePreparationError\<close>, the errors of proof dependencies and pydantic's
  validation failure are subclasses of \<open>ValueError\<close> in the source; \<open>is_value_error\<close> is what an
  \<open>except ValueError\<close> clause catches. \<open>ProofValidationError\<close> is the Prover's \<open>ValidationError\<close>, with its code.
\<close>

fun is_value_error :: "exn \<Rightarrow> bool" where
  "is_value_error (ValueError m) = True"
| "is_value_error (AttestationError m) = True"
| "is_value_error (ModelExecutionAuthorizationError m) = True"
| "is_value_error (CanonicalTypeGateError m) = True"
| "is_value_error (FidelityHarnessError m) = True"
| "is_value_error (SourcePreparationError m) = True"
| "is_value_error (ProofDependencyEvidenceError m) = True"
| "is_value_error (ProofDependencyRejected m) = True"
| "is_value_error _ = False"

fun is_attestation_error :: "exn \<Rightarrow> bool" where
  "is_attestation_error (AttestationError m) = True"
| "is_attestation_error _ = False"

fun is_stale_fence :: "exn \<Rightarrow> bool" where
  "is_stale_fence (StaleFence m) = True"
| "is_stale_fence _ = False"

fun bindE :: "'e + 'a \<Rightarrow> ('a \<Rightarrow> 'e + 'b) \<Rightarrow> 'e + 'b" where
  "bindE (Inl e) f = Inl e"
| "bindE (Inr x) f = f x"

definition require :: "bool \<Rightarrow> 'e \<Rightarrow> 'e + unit" where
  "require ok e = (if ok then Inr () else Inl e)"

text \<open>An \<open>except C: raise D\<close> clause: errors of the caught class are replaced.\<close>

fun catchE :: "(exn \<Rightarrow> bool) \<Rightarrow> exn \<Rightarrow> 'a result \<Rightarrow> 'a result" where
  "catchE p d (Inl e) = Inl (if p e then d else e)"
| "catchE p d (Inr x) = Inr x"

fun map_resultE :: "('a \<Rightarrow> 'b result) \<Rightarrow> 'a list \<Rightarrow> 'b list result" where
  "map_resultE f [] = Inr []"
| "map_resultE f (x # xs) = bindE (f x) (\<lambda>y. bindE (map_resultE f xs) (\<lambda>ys. Inr (y # ys)))"

named_theorems result_simps \<open>elimination of sequenced results\<close>

lemma bindE_eq_Inr [result_simps]: "bindE m f = Inr y \<longleftrightarrow> (\<exists>x. m = Inr x \<and> f x = Inr y)"
  by (cases m) auto

lemma bindE_eq_Inl [result_simps]:
  "bindE m f = Inl e \<longleftrightarrow> m = Inl e \<or> (\<exists>x. m = Inr x \<and> f x = Inl e)"
  by (cases m) auto

lemma require_eq_Inr [result_simps]: "require ok e = Inr u \<longleftrightarrow> ok"
  by (simp add: require_def)

lemma require_eq_Inl [result_simps]: "require ok e = Inl e' \<longleftrightarrow> \<not> ok \<and> e' = e"
  by (auto simp: require_def)

lemma require_True [simp]: "require True e = Inr ()"
  by (simp add: require_def)

lemma catchE_eq_Inr [result_simps]: "catchE p d r = Inr x \<longleftrightarrow> r = Inr x"
  by (cases r) auto

lemma catchE_eq_Inl [result_simps]:
  "catchE p d r = Inl e \<longleftrightarrow> (\<exists>e'. r = Inl e' \<and> e = (if p e' then d else e'))"
  by (cases r) auto

lemma bindE_assoc: "bindE (bindE m f) g = bindE m (\<lambda>x. bindE (f x) g)"
  by (cases m) auto

lemma bindE_Inr_right [simp]: "bindE m Inr = m"
  by (cases m) auto

lemma bindE_cong [fundef_cong]:
  "m = m' \<Longrightarrow> (\<And>x. m' = Inr x \<Longrightarrow> f x = f' x) \<Longrightarrow> bindE m f = bindE m' f'"
  by (cases m') auto

lemma map_resultE_Inr:
  "map_resultE f xs = Inr ys \<longleftrightarrow> list_all2 (\<lambda>x y. f x = Inr y) xs ys"
  by (induction xs arbitrary: ys) (auto simp: result_simps list_all2_Cons1)

lemma map_resultE_all: "\<forall>x \<in> set xs. f x = Inr (g x) \<Longrightarrow> map_resultE f xs = Inr (map g xs)"
  by (induction xs) auto

lemma map_resultE_length: "map_resultE f xs = Inr ys \<Longrightarrow> length ys = length xs"
  by (auto simp: map_resultE_Inr dest: list_all2_lengthD)

text \<open>A sequence of guards, each raising \<open>ValueError\<close> when it fails, and its outcome.\<close>

type_synonym checks = "(bool \<times> string) list"

fun require_all :: "checks \<Rightarrow> unit result" where
  "require_all [] = Inr ()"
| "require_all ((ok, m) # cs) = (if ok then require_all cs else Inl (ValueError m))"

definition opt_all :: "('a \<Rightarrow> bool) \<Rightarrow> 'a option \<Rightarrow> bool" where
  "opt_all p x = (case x of None \<Rightarrow> True | Some v \<Rightarrow> p v)"

lemma opt_all_simps [simp]: "opt_all p None" "opt_all p (Some v) = p v"
  by (simp_all add: opt_all_def)

lemma opt_all_iff: "opt_all p x \<longleftrightarrow> (\<forall>v. x = Some v \<longrightarrow> p v)"
  by (cases x) auto

lemma require_all_eq_Inr [result_simps]: "require_all cs = Inr u \<longleftrightarrow> list_all fst cs"
  by (induction cs rule: require_all.induct) auto

lemma require_all_append: "require_all (cs @ ds) = bindE (require_all cs) (\<lambda>_. require_all ds)"
  by (induction cs rule: require_all.induct) auto

lemma require_all_Inl: "require_all cs = Inl e \<Longrightarrow> is_value_error e \<and> \<not> list_all fst cs"
  by (induction cs rule: require_all.induct) (auto split: if_splits)

declare require_all.simps [simp del]

section \<open>Characters\<close>

abbreviation code :: "char \<Rightarrow> nat" where
  "code c \<equiv> of_char c"

definition is_digit :: "char \<Rightarrow> bool" where
  "is_digit c \<longleftrightarrow> 48 \<le> code c \<and> code c \<le> 57"

definition is_lower :: "char \<Rightarrow> bool" where
  "is_lower c \<longleftrightarrow> 97 \<le> code c \<and> code c \<le> 122"

definition is_upper :: "char \<Rightarrow> bool" where
  "is_upper c \<longleftrightarrow> 65 \<le> code c \<and> code c \<le> 90"

definition is_alnum :: "char \<Rightarrow> bool" where
  "is_alnum c \<longleftrightarrow> is_digit c \<or> is_lower c \<or> is_upper c"

definition is_hex :: "char \<Rightarrow> bool" where
  "is_hex c \<longleftrightarrow> is_digit c \<or> (97 \<le> code c \<and> code c \<le> 102)"

lemmas char_class_defs = is_digit_def is_lower_def is_upper_def is_alnum_def is_hex_def

lemma not_digit [simp]:
  "\<not> is_digit (CHR ''e'')" "\<not> is_digit (CHR ''.'')" "\<not> is_digit (CHR ''-'')"
  "\<not> is_digit (CHR ''+'')" "\<not> is_digit (CHR '','')" "\<not> is_digit (CHR '']'')"
  "\<not> is_digit (CHR ''}'')" "\<not> is_digit (CHR ''['')" "\<not> is_digit (CHR ''{'')"
  "\<not> is_digit (CHR 0x22)" "\<not> is_digit (CHR ''n'')" "\<not> is_digit (CHR ''t'')"
  "\<not> is_digit (CHR ''f'')"
  by (simp_all add: is_digit_def)

lemma is_digit_neq: "is_digit c \<Longrightarrow> \<not> is_digit d \<Longrightarrow> c \<noteq> d"
  by auto

lemma code_less_256 [simp]: "code c < 256"
  by simp

lemma char_of_code [simp]: "char_of (code c) = c"
  by simp

lemma code_char_of [simp]: "n < 256 \<Longrightarrow> code (char_of n) = n"
  by simp

lemma code_eq_iff: "code c = code d \<longleftrightarrow> c = d"
  by (metis char_of_code)

text \<open>\<open>str.isspace\<close> on code points below 256, and the white space pydantic trims.\<close>

definition py_isspace :: "char \<Rightarrow> bool" where
  "py_isspace c \<longleftrightarrow>
     (9 \<le> code c \<and> code c \<le> 13) \<or> (28 \<le> code c \<and> code c \<le> 32) \<or> code c = 133 \<or> code c = 160"

definition white_space :: "char \<Rightarrow> bool" where
  "white_space c \<longleftrightarrow>
     (9 \<le> code c \<and> code c \<le> 13) \<or> code c = 32 \<or> code c = 133 \<or> code c = 160"

section \<open>Strings\<close>

definition strip_by :: "(char \<Rightarrow> bool) \<Rightarrow> string \<Rightarrow> string" where
  "strip_by p s = rev (dropWhile p (rev (dropWhile p s)))"

definition py_strip :: "string \<Rightarrow> string" where
  "py_strip = strip_by py_isspace"

definition py_rstrip :: "string \<Rightarrow> string" where
  "py_rstrip s = rev (dropWhile py_isspace (rev s))"

text \<open>What \<open>str_strip_whitespace=True\<close> does to a string field of a contract.\<close>

definition strip_ws :: "string \<Rightarrow> string" where
  "strip_ws = strip_by white_space"

definition py_lower_char :: "char \<Rightarrow> char" where
  "py_lower_char c =
     (if is_upper c \<or> (192 \<le> code c \<and> code c \<le> 222 \<and> code c \<noteq> 215)
      then char_of (code c + 32) else c)"

definition py_lower :: "string \<Rightarrow> string" where
  "py_lower = map py_lower_char"

text \<open>\<open>needle in s\<close>, \<open>s.removeprefix\<close>, \<open>s.rpartition\<close> and \<open>s.replace\<close> on one character.\<close>

definition py_contains :: "string \<Rightarrow> string \<Rightarrow> bool" where
  "py_contains needle s \<longleftrightarrow> sublist needle s"

fun removeprefix :: "string \<Rightarrow> string \<Rightarrow> string" where
  "removeprefix p s = (if prefix p s then drop (length p) s else s)"

definition rpartition :: "char \<Rightarrow> string \<Rightarrow> string \<times> string \<times> string" where
  "rpartition sep s =
     (if sep \<in> set s
      then let tail = rev (takeWhile (\<lambda>c. c \<noteq> sep) (rev s))
           in (take (length s - length tail - 1) s, [sep], tail)
      else ([], [], s))"

definition replace_char :: "char \<Rightarrow> string \<Rightarrow> string \<Rightarrow> string" where
  "replace_char c r s = concat (map (\<lambda>d. if d = c then r else [d]) s)"

fun join_with :: "string \<Rightarrow> string list \<Rightarrow> string" where
  "join_with sep [] = []"
| "join_with sep [x] = x"
| "join_with sep (x # y # xs) = x @ sep @ join_with sep (y # xs)"

definition all_chars :: "(char \<Rightarrow> bool) \<Rightarrow> string \<Rightarrow> bool" where
  "all_chars p s \<longleftrightarrow> list_all p s"

text \<open>The regular expressions for SHA-256 values and for safe identifiers.\<close>

definition is_sha256_text :: "string \<Rightarrow> bool" where
  "is_sha256_text s \<longleftrightarrow> length s = 64 \<and> all_chars is_hex s"

definition nonblank :: "string \<Rightarrow> bool" where
  "nonblank s \<longleftrightarrow> py_strip s \<noteq> []"

text \<open>The truth value of an optional string: \<open>None\<close> and the empty string are false.\<close>

definition truthy :: "string option \<Rightarrow> bool" where
  "truthy x \<longleftrightarrow> x \<noteq> None \<and> x \<noteq> Some []"

fun split_char :: "char \<Rightarrow> string \<Rightarrow> string list" where
  "split_char sep [] = [[]]"
| "split_char sep (c # s) =
     (if c = sep then [] # split_char sep s
      else case split_char sep s of [] \<Rightarrow> [[c]] | p # ps \<Rightarrow> (c # p) # ps)"

definition image_digest_pattern :: "string \<Rightarrow> bool" where
  "image_digest_pattern s \<longleftrightarrow> prefix ''sha256:'' s \<and> is_sha256_text (drop 7 s)"

text \<open>\<open>^[A-Za-z0-9][A-Za-z0-9<extra>]{0,n-1}$\<close>\<close>

definition ident_pattern :: "string \<Rightarrow> nat \<Rightarrow> string \<Rightarrow> bool" where
  "ident_pattern extra n s \<longleftrightarrow> s \<noteq> [] \<and> length s \<le> n \<and> is_alnum (hd s) \<and>
     all_chars (\<lambda>c. is_alnum c \<or> c \<in> set extra) s"

lemma all_chars_simps [simp]:
  "all_chars p [] \<longleftrightarrow> True"
  "all_chars p (c # s) \<longleftrightarrow> p c \<and> all_chars p s"
  "all_chars p (s @ t) \<longleftrightarrow> all_chars p s \<and> all_chars p t"
  by (simp_all add: all_chars_def)

lemma all_chars_iff: "all_chars p s \<longleftrightarrow> (\<forall>c \<in> set s. p c)"
  by (simp add: all_chars_def list_all_iff)

lemma dropWhile_fixpoint: "(s = [] \<or> \<not> p (hd s)) \<Longrightarrow> dropWhile p s = s"
  by (cases s) auto

lemma strip_by_fixpoint:
  assumes "s = [] \<or> (\<not> p (hd s) \<and> \<not> p (last s))"
  shows "strip_by p s = s"
proof (cases "s = []")
  case False
  then have "dropWhile p s = s" and "dropWhile p (rev s) = rev s"
    using assms by (auto intro!: dropWhile_fixpoint simp: hd_rev)
  then show ?thesis by (simp add: strip_by_def)
qed (simp add: strip_by_def)

lemma strip_by_ends:
  assumes "strip_by p s \<noteq> []"
  shows "\<not> p (hd (strip_by p s)) \<and> \<not> p (last (strip_by p s))"
proof -
  define t where "t = dropWhile p s"
  define u where "u = dropWhile p (rev t)"
  have st: "strip_by p s = rev u"
    by (simp add: strip_by_def t_def u_def)
  then have "u \<noteq> []" using assms by auto
  then have "\<not> p (hd u)" using hd_dropWhile [of p "rev t"] u_def by auto
  moreover have "\<not> p (last u)"
  proof -
    have "t \<noteq> []" using \<open>u \<noteq> []\<close> u_def by auto
    have "last u = last (rev t)" using \<open>u \<noteq> []\<close> u_def
      by (metis dropWhile_eq_drop last_drop length_drop length_greater_0_conv zero_less_diff)
    also have "\<dots> = hd t" using \<open>t \<noteq> []\<close> by (simp add: last_rev)
    finally show ?thesis
      using hd_dropWhile [of p s] \<open>t \<noteq> []\<close> t_def by auto
  qed
  ultimately show ?thesis
    using st \<open>u \<noteq> []\<close> by (simp add: hd_rev last_rev)
qed

lemma strip_by_idem [simp]: "strip_by p (strip_by p s) = strip_by p s"
  using strip_by_ends strip_by_fixpoint by blast

lemma strip_ws_idem [simp]: "strip_ws (strip_ws s) = strip_ws s"
  by (simp add: strip_ws_def)

lemma map_strip_ws_idem [simp]: "map strip_ws (map strip_ws xs) = map strip_ws xs"
  by simp

lemma map_option_strip_ws_idem [simp]:
  "map_option strip_ws (map_option strip_ws x) = map_option strip_ws x"
  by (cases x) auto

lemma is_hex_not_space: "is_hex c \<Longrightarrow> \<not> white_space c"
  by (auto simp: char_class_defs white_space_def)

lemma strip_ws_all: "(\<And>c. c \<in> set s \<Longrightarrow> \<not> white_space c) \<Longrightarrow> strip_ws s = s"
  unfolding strip_ws_def by (rule strip_by_fixpoint) (cases "s = []"; simp)

lemma strip_ws_hex: "all_chars is_hex s \<Longrightarrow> strip_ws s = s"
  by (rule strip_ws_all) (auto simp: all_chars_iff dest: is_hex_not_space)

section \<open>Decimal numbers\<close>

definition digit_char :: "nat \<Rightarrow> char" where
  "digit_char n = char_of (48 + n)"

fun nat_text :: "nat \<Rightarrow> string" where
  "nat_text n = (if n < 10 then [digit_char n] else nat_text (n div 10) @ [digit_char (n mod 10)])"

declare nat_text.simps [simp del]

definition int_text :: "int \<Rightarrow> string" where
  "int_text i = (if i < 0 then CHR ''-'' # nat_text (nat (- i)) else nat_text (nat i))"

definition nat_of_text :: "string \<Rightarrow> nat" where
  "nat_of_text s = foldl (\<lambda>n c. 10 * n + (code c - 48)) 0 s"

definition pad_left :: "nat \<Rightarrow> string \<Rightarrow> string" where
  "pad_left w s = replicate (w - length s) (CHR ''0'') @ s"

lemma code_digit_char [simp]: "n < 10 \<Longrightarrow> code (digit_char n) = 48 + n"
  by (simp add: digit_char_def)

lemma is_digit_digit_char [simp]: "n < 10 \<Longrightarrow> is_digit (digit_char n)"
  by (simp add: is_digit_def)

lemma nat_text_digits: "all_chars is_digit (nat_text n)"
proof (induction n rule: nat_text.induct)
  case (1 n)
  then show ?case by (subst nat_text.simps) simp
qed

lemma nat_text_nonempty [simp]: "nat_text n \<noteq> []"
  by (subst nat_text.simps) simp

lemma nat_of_text_snoc: "nat_of_text (s @ [c]) = 10 * nat_of_text s + (code c - 48)"
  by (simp add: nat_of_text_def)

lemma nat_of_nat_text [simp]: "nat_of_text (nat_text n) = n"
proof (induction n rule: nat_text.induct)
  case (1 n)
  show ?case
  proof (cases "n < 10")
    case True
    then show ?thesis by (subst nat_text.simps) (simp add: nat_of_text_def)
  next
    case False
    then show ?thesis using "1.IH" by (subst nat_text.simps) (simp add: nat_of_text_snoc)
  qed
qed

lemma nat_text_inj [simp]: "nat_text m = nat_text n \<longleftrightarrow> m = n"
  by (metis nat_of_nat_text)

lemma nat_text_hd_zero: "hd (nat_text n) = CHR ''0'' \<Longrightarrow> n = 0"
proof (induction n rule: nat_text.induct)
  case (1 n)
  show ?case
  proof (cases "n < 10")
    case True
    then have "code (digit_char n) = code (CHR ''0'')"
      using "1.prems" nat_text.simps [of n] by simp
    with True show ?thesis by simp
  next
    case False
    then have "hd (nat_text (n div 10)) = CHR ''0''"
      using "1.prems" nat_text.simps [of n] by simp
    with "1.IH" False show ?thesis by simp
  qed
qed

section \<open>Lists and sorted sets\<close>

definition sorted_set :: "'a::linorder list \<Rightarrow> 'a list" where
  "sorted_set xs = sort (remdups xs)"

lemma set_sorted_set [simp]: "set (sorted_set xs) = set xs"
  by (simp add: sorted_set_def)

lemma insort_key_map_values:
  "insort_key fst (k, f v) (map (\<lambda>(k, v). (k, f v)) ys) = map (\<lambda>(k, v). (k, f v)) (insort_key fst (k, v) ys)"
  by (induction ys) auto

lemma sort_key_map_values:
  "sort_key fst (map (\<lambda>(k, v). (k, f v)) xs) = map (\<lambda>(k, v). (k, f v)) (sort_key fst xs)"
  by (induction xs) (auto simp: insort_key_map_values)

lemma takeWhile_append_stop:
  "all_chars p s \<Longrightarrow> (t = [] \<or> \<not> p (hd t)) \<Longrightarrow> takeWhile p (s @ t) = s \<and> dropWhile p (s @ t) = t"
  by (cases t) (auto simp: all_chars_iff takeWhile_append2 dropWhile_append2)

section \<open>Dictionaries\<close>

text \<open>A \<open>dict\<close> as the list of its items in insertion order; \<open>dict_set\<close> is \<open>d[k] = v\<close>.\<close>

fun dict_set :: "'k \<Rightarrow> 'v \<Rightarrow> ('k \<times> 'v) list \<Rightarrow> ('k \<times> 'v) list" where
  "dict_set k v [] = [(k, v)]"
| "dict_set k v ((k', v') # d) = (if k' = k then (k, v) # d else (k', v') # dict_set k v d)"

definition dict_of :: "('k \<times> 'v) list \<Rightarrow> ('k \<times> 'v) list" where
  "dict_of items = foldl (\<lambda>d (k, v). dict_set k v d) [] items"

text \<open>A field \<open>dict[str, _]\<close>: the keys are strings of the contract, so they are trimmed too.\<close>

definition strip_keys :: "(string \<times> 'v) list \<Rightarrow> (string \<times> 'v) list" where
  "strip_keys d = dict_of (map (\<lambda>(k, v). (strip_ws k, v)) d)"

lemma dict_set_new: "k \<notin> fst ` set d \<Longrightarrow> dict_set k v d = d @ [(k, v)]"
  by (induction d) auto

lemma fst_set_dict_set: "set (map fst (dict_set k v d)) = insert k (set (map fst d))"
  by (induction d rule: dict_set.induct) auto

lemma distinct_dict_set: "distinct (map fst d) \<Longrightarrow> distinct (map fst (dict_set k v d))"
  by (induction d rule: dict_set.induct) (auto simp: fst_set_dict_set simp del: set_map)

lemma map_of_dict_set [simp]: "map_of (dict_set k v d) = (map_of d)(k \<mapsto> v)"
  by (induction d rule: dict_set.induct) auto

lemma dict_of_snoc: "dict_of (xs @ [(k, v)]) = dict_set k v (dict_of xs)"
  by (simp add: dict_of_def)

lemma dict_of_Nil [simp]: "dict_of [] = []"
  by (simp add: dict_of_def)

lemma fst_set_dict_of: "set (map fst (dict_of d)) = set (map fst d)"
proof (induction d rule: rev_induct)
  case (snoc kv d)
  obtain k v where "kv = (k, v)" by fastforce
  then show ?case using snoc fst_set_dict_set [of k v "dict_of d"] by (simp add: dict_of_snoc)
qed simp

lemma map_of_dict_of: "map_of (dict_of d) = map_of (rev d)"
proof (induction d rule: rev_induct)
  case (snoc kv d)
  then show ?case by (cases kv) (simp add: dict_of_snoc)
qed simp

lemma map_of_rev: "distinct (map fst d) \<Longrightarrow> map_of (rev d) = map_of d"
  by (rule map_of_eqI) (auto simp: map_of_eq_Some_iff rev_map [symmetric] image_iff)

lemma dict_of_distinct: "distinct (map fst d) \<Longrightarrow> dict_of d = d"
proof (induction d rule: rev_induct)
  case (snoc kv d)
  then show ?case
    by (cases kv) (simp add: dict_of_snoc dict_set_new)
qed simp

lemma distinct_dict_of: "distinct (map fst (dict_of d))"
proof (induction d rule: rev_induct)
  case (snoc kv d)
  then show ?case by (cases kv) (simp add: dict_of_snoc distinct_dict_set)
qed simp

lemma strip_keys_idem [simp]: "strip_keys (strip_keys d) = strip_keys d"
proof -
  have "\<forall>k \<in> set (map fst (strip_keys d)). strip_ws k = k"
    unfolding strip_keys_def fst_set_dict_of by auto
  then have "map (\<lambda>(k, v). (strip_ws k, v)) (strip_keys d) = strip_keys d"
    by (intro map_idI) force
  then have "strip_keys (strip_keys d) = dict_of (strip_keys d)"
    by (simp add: strip_keys_def [of "strip_keys d"])
  also have "\<dots> = strip_keys d"
    by (rule dict_of_distinct) (simp add: strip_keys_def distinct_dict_of)
  finally show ?thesis .
qed

end
