(* ===== verification/Base.thy ===== *)
theory Base
  imports Prelude
begin

text \<open>
  \<open>base.py\<close>: the immutable base of every contract. A contract class is given by how its
  string fields are trimmed and by its list of guards (field constraints, then the model
  validator); \<open>construct\<close> is \<open>model_validate\<close> with the configuration of \<open>ContractModel\<close>, and
  \<open>model_copy\<close> is the revalidating copy. The second part models \<open>_deep_freeze\<close> on Python
  containers. Shown: construction and copy produce valid contracts only, are idempotent and
  raise nothing but \<open>ValueError\<close>; freezing leaves no mutable container and no other change.
\<close>

section \<open>Contract models\<close>

definition construct :: "('a \<Rightarrow> 'a) \<Rightarrow> ('a \<Rightarrow> checks) \<Rightarrow> 'a \<Rightarrow> 'a result" where
  "construct strip guards raw =
     (let self = strip raw in bindE (require_all (guards self)) (\<lambda>_. Inr self))"

text \<open>\<open>model_copy(update=...)\<close>: the updated dump is validated again as a whole.\<close>

definition model_copy :: "('a \<Rightarrow> 'a result) \<Rightarrow> ('a \<Rightarrow> 'a) \<Rightarrow> 'a \<Rightarrow> 'a result" where
  "model_copy init update self = init (update self)"

lemma construct_Inr: "construct s g raw = Inr x \<longleftrightarrow> x = s raw \<and> list_all fst (g x)"
  by (auto simp: construct_def Let_def result_simps)

lemma construct_Inl: "construct s g raw = Inl e \<Longrightarrow> is_value_error e \<and> \<not> list_all fst (g (s raw))"
  by (auto simp: construct_def Let_def result_simps dest: require_all_Inl)

text \<open>
  The interface of a contract class. Its one law, that trimming is idempotent, makes
  construction a closure: what it returns is valid and is returned unchanged.
\<close>

locale contract_model =
  fixes strip :: "'a \<Rightarrow> 'a"
    and guards :: "'a \<Rightarrow> checks"
  assumes strip_idem: "strip (strip x) = strip x"
begin

lemma init_valid: "construct strip guards raw = Inr x \<Longrightarrow> construct strip guards x = Inr x"
  by (auto simp: construct_Inr strip_idem)

lemma init_idem:
  "construct strip guards raw = Inr x \<Longrightarrow> construct strip guards x = Inr y \<Longrightarrow> y = x"
  using init_valid by fastforce

lemma init_guards: "construct strip guards raw = Inr x \<Longrightarrow> list_all fst (guards x)"
  by (auto simp: construct_Inr)

lemma init_fixed:
  "construct strip guards x = Inr x \<longleftrightarrow> strip x = x \<and> list_all fst (guards x)"
  by (auto simp: construct_Inr)

lemma init_error: "construct strip guards raw = Inl e \<Longrightarrow> is_value_error e"
  by (simp add: construct_Inl)

lemma copy_valid:
  "model_copy (construct strip guards) update x = Inr y \<Longrightarrow> construct strip guards y = Inr y"
  unfolding model_copy_def by (rule init_valid)

lemma copy_identity:
  "construct strip guards raw = Inr x \<Longrightarrow> model_copy (construct strip guards) id x = Inr x"
  unfolding model_copy_def by (simp add: init_valid)

end

section \<open>Freezing containers\<close>

text \<open>
  The containers a contract field may hold. \<open>PValue\<close> is any immutable scalar, \<open>PContract\<close> a
  nested contract. Mappings keep insertion order; sets are given by a list of their elements.
\<close>

datatype pyvalue =
    PValue string
  | PContract string
  | PFrozenDict "(pyvalue \<times> pyvalue) list"
  | PDict "(pyvalue \<times> pyvalue) list"
  | PList "pyvalue list"
  | PTuple "pyvalue list"
  | PSet "pyvalue list"
  | PFrozenSet "pyvalue list"

fun deep_freeze :: "pyvalue \<Rightarrow> pyvalue" where
  "deep_freeze (PFrozenDict d) = PFrozenDict d"
| "deep_freeze (PContract c) = PContract c"
| "deep_freeze (PDict d) = PFrozenDict (dict_of (map (\<lambda>(k, v). (deep_freeze k, deep_freeze v)) d))"
| "deep_freeze (PList xs) = PTuple (map deep_freeze xs)"
| "deep_freeze (PTuple xs) = PTuple (map deep_freeze xs)"
| "deep_freeze (PSet xs) = PFrozenSet (map deep_freeze xs)"
| "deep_freeze (PFrozenSet xs) = PFrozenSet (map deep_freeze xs)"
| "deep_freeze (PValue v) = PValue v"

text \<open>The operations of \<open>FrozenDict\<close>: every mutator raises, \<open>|\<close> merges and freezes again.\<close>

datatype dict_mutation =
    SetItem pyvalue pyvalue | DelItem pyvalue | InPlaceOr pyvalue | Clear | Pop pyvalue
  | PopItem | SetDefault pyvalue pyvalue | Update pyvalue

definition FrozenDict_mutate :: "(pyvalue \<times> pyvalue) list \<Rightarrow> dict_mutation \<Rightarrow> pyvalue result" where
  "FrozenDict_mutate d m = Inl (TypeError ''contract mappings are immutable'')"

definition FrozenDict_or :: "(pyvalue \<times> pyvalue) list \<Rightarrow> (pyvalue \<times> pyvalue) list \<Rightarrow> pyvalue result" where
  "FrozenDict_or d other =
     (case deep_freeze (PDict (dict_of (d @ other))) of
        PFrozenDict m \<Rightarrow> Inr (PFrozenDict m)
      | _ \<Rightarrow> Inl (TypeError ''merge did not produce an immutable mapping''))"

text \<open>No \<open>dict\<close>, \<open>list\<close> or \<open>set\<close> at any depth.\<close>

fun immutable :: "pyvalue \<Rightarrow> bool" where
  "immutable (PDict d) = False"
| "immutable (PList xs) = False"
| "immutable (PSet xs) = False"
| "immutable (PFrozenDict d) = list_all (\<lambda>(k, v). immutable k \<and> immutable v) d"
| "immutable (PTuple xs) = list_all immutable xs"
| "immutable (PFrozenSet xs) = list_all immutable xs"
| "immutable _ = True"

text \<open>The \<open>FrozenDict\<close>s inside a value were built by freezing.\<close>

fun frozen_inside :: "pyvalue \<Rightarrow> bool" where
  "frozen_inside (PFrozenDict d) = list_all (\<lambda>(k, v). immutable k \<and> immutable v) d"
| "frozen_inside (PDict d) = list_all (\<lambda>(k, v). frozen_inside k \<and> frozen_inside v) d"
| "frozen_inside (PList xs) = list_all frozen_inside xs"
| "frozen_inside (PTuple xs) = list_all frozen_inside xs"
| "frozen_inside (PSet xs) = list_all frozen_inside xs"
| "frozen_inside (PFrozenSet xs) = list_all frozen_inside xs"
| "frozen_inside _ = True"

lemma set_dict_of: "set (dict_of d) \<subseteq> set d"
proof (induction d rule: rev_induct)
  case (snoc kv d)
  have "set (dict_set k v e) \<subseteq> insert (k, v) (set e)" for k v and e :: "('a \<times> 'b) list"
    by (induction e rule: dict_set.induct) auto
  then show ?case using snoc by (cases kv) (fastforce simp: dict_of_snoc)
qed (simp add: dict_of_def)

lemma immutable_frozen_inside: "immutable v \<Longrightarrow> frozen_inside v"
  by (induction v) (auto simp: list_all_iff)

lemma deep_freeze_immutable: "frozen_inside v \<Longrightarrow> immutable (deep_freeze v)"
proof (induction v rule: deep_freeze.induct)
  case (3 d)
  let ?f = "map (\<lambda>(k, v). (deep_freeze k, deep_freeze v)) d"
  have "list_all (\<lambda>(k, v). immutable k \<and> immutable v) ?f"
    using 3 by (fastforce simp: list_all_iff)
  then show ?case using set_dict_of [of ?f] by (auto simp: list_all_iff)
qed (auto simp: list_all_iff)

lemma deep_freeze_fixed: "immutable v \<Longrightarrow> deep_freeze v = v"
  by (induction v) (auto simp: list_all_iff intro: map_idI)

text \<open>
  Freezing a contract payload leaves no mutable container at any depth, provided the
  \<open>FrozenDict\<close>s already inside hold frozen values, and freezing again changes nothing.
\<close>

theorem deep_freeze_correct:
  assumes "frozen_inside v"
  shows "immutable (deep_freeze v) \<and> deep_freeze (deep_freeze v) = deep_freeze v"
  using deep_freeze_immutable [OF assms] deep_freeze_fixed by blast

theorem deep_freeze_correct_witness:
  "immutable (deep_freeze (PDict [(PValue ''k'', PList [PValue ''a'', PSet [PValue ''b'']]),
     (PValue ''m'', PFrozenDict [(PValue ''x'', PTuple [])])]))"
  using deep_freeze_correct [of "PDict [(PValue ''k'', PList [PValue ''a'', PSet [PValue ''b'']]),
     (PValue ''m'', PFrozenDict [(PValue ''x'', PTuple [])])]"] by simp

lemma map_of_freeze_items:
  "list_all (immutable \<circ> fst) d \<Longrightarrow>
     map_of (map (\<lambda>(k, v). (deep_freeze k, deep_freeze v)) d) = map_option deep_freeze \<circ> map_of d"
  by (induction d) (auto simp: deep_freeze_fixed fun_eq_iff)

lemma list_all_dict_of: "list_all P d \<Longrightarrow> list_all P (dict_of d)"
  using set_dict_of by (fastforce simp: list_all_iff)

lemma freeze_items_distinct:
  "list_all (immutable \<circ> fst) d \<Longrightarrow> distinct (map fst d) \<Longrightarrow>
     dict_of (map (\<lambda>(k, v). (deep_freeze k, deep_freeze v)) d) = map (\<lambda>(k, v). (deep_freeze k, deep_freeze v)) d"
proof (rule dict_of_distinct)
  assume "list_all (immutable \<circ> fst) d" "distinct (map fst d)"
  then show "distinct (map fst (map (\<lambda>(k, v). (deep_freeze k, deep_freeze v)) d))"
    by (simp add: list_all_iff deep_freeze_fixed split_beta comp_def cong: map_cong)
qed

text \<open>
  Merging with \<open>|\<close> always yields an immutable \<open>FrozenDict\<close> (the defensive \<open>TypeError\<close>
  is unreachable), in which the entries of the right operand win and are frozen.
\<close>

theorem FrozenDict_or_result:
  assumes "distinct (map fst d)" "distinct (map fst other)"
    and "list_all (\<lambda>(k, v). immutable k \<and> frozen_inside v) (d @ other)"
  shows "\<exists>m. FrozenDict_or d other = Inr (PFrozenDict m) \<and> immutable (PFrozenDict m) \<and>
    map_of m = map_option deep_freeze \<circ> (map_of d ++ map_of other)"
proof -
  let ?e = "dict_of (d @ other)"
  let ?m = "map (\<lambda>(k, v). (deep_freeze k, deep_freeze v)) ?e"
  have e: "list_all (\<lambda>(k, v). immutable k \<and> frozen_inside v) ?e"
    using assms(3) by (rule list_all_dict_of)
  then have keys: "list_all (immutable \<circ> fst) ?e"
    by (auto simp: list_all_iff)
  have "FrozenDict_or d other = Inr (PFrozenDict ?m)"
    using freeze_items_distinct [OF keys distinct_dict_of] by (simp add: FrozenDict_or_def)
  moreover have "immutable (PFrozenDict ?m)"
    using e by (auto simp: list_all_iff deep_freeze_immutable immutable_frozen_inside)
  moreover have "map_of ?e = map_of d ++ map_of other"
    using assms(1,2) by (simp add: map_of_dict_of map_of_rev)
  ultimately show ?thesis using map_of_freeze_items [OF keys] by auto
qed

theorem FrozenDict_or_result_witness:
  "\<exists>m. FrozenDict_or [(PValue ''a'', PValue ''1'')] [(PValue ''a'', PList [])] = Inr (PFrozenDict m) \<and>
     map_of m (PValue ''a'') = Some (PTuple [])"
  using FrozenDict_or_result [of "[(PValue ''a'', PValue ''1'')]" "[(PValue ''a'', PList [])]"]
  by auto

end
