(* ===== verification/Json.thy ===== *)
theory Json
  imports Prelude
begin

text \<open>
  JSON values as the program exchanges them, the canonical encoder \<open>canonical_json\<close>
  (\<open>json.dumps\<close> with sorted keys, no white space and ASCII output) and the strict loader
  that rejects duplicate keys and every text that is not its own canonical form.
  A float is kept as the text Python's \<open>repr\<close> prints for it, which determines it.
  Shown: the loader inverts the encoder up to the order of the keys, the encoder is a
  complete invariant of a value, and the loader accepts canonical texts only.
\<close>

section \<open>Values\<close>

datatype json =
    JNull
  | JBool bool
  | JInt int
  | JFloat string
  | JStr string
  | JList "json list"
  | JObj "(string \<times> json) list"

type_synonym json_object = "(string \<times> json) list"

abbreviation (input) JStrs :: "string list \<Rightarrow> json" where
  "JStrs xs \<equiv> JList (map JStr xs)"

definition JOpt :: "('a \<Rightarrow> json) \<Rightarrow> 'a option \<Rightarrow> json" where
  "JOpt f x = (case x of None \<Rightarrow> JNull | Some y \<Rightarrow> f y)"

text \<open>The texts \<open>float.__repr__\<close> produces for finite floats, and the number they denote.\<close>

definition float_fraction :: "string \<Rightarrow> bool" where
  "float_fraction f \<longleftrightarrow> length f \<ge> 2 \<and> hd f = CHR ''.'' \<and> all_chars is_digit (tl f)"

definition float_exponent :: "string \<Rightarrow> bool" where
  "float_exponent x \<longleftrightarrow> length x \<ge> 4 \<and> hd x = CHR ''e'' \<and>
     (hd (tl x) = CHR ''+'' \<or> hd (tl x) = CHR ''-'') \<and> all_chars is_digit (tl (tl x))"

definition float_unsigned :: "string \<Rightarrow> string" where
  "float_unsigned s = (if prefix ''-'' s then tl s else s)"

definition float_parts :: "string \<Rightarrow> string \<times> string \<times> string" where
  "float_parts s =
     (let t = float_unsigned s; m = takeWhile (\<lambda>c. c \<noteq> CHR ''e'') t
      in (takeWhile (\<lambda>c. c \<noteq> CHR ''.'') m, dropWhile (\<lambda>c. c \<noteq> CHR ''.'') m,
          dropWhile (\<lambda>c. c \<noteq> CHR ''e'') t))"

definition float_text_ok :: "string \<Rightarrow> bool" where
  "float_text_ok s =
     (case float_parts s of (whole, frac, expo) \<Rightarrow>
        whole \<noteq> [] \<and> all_chars is_digit whole \<and> (whole = ''0'' \<or> hd whole \<noteq> CHR ''0'') \<and>
        (if expo = [] then float_fraction frac
         else length whole = 1 \<and> (frac = [] \<or> float_fraction frac) \<and> float_exponent expo))"

definition float_scaled :: "string \<Rightarrow> int \<times> int" where
  "float_scaled s =
     (case float_parts s of (whole, frac, expo) \<Rightarrow>
        ((if prefix ''-'' s then -1 else 1) * int (nat_of_text (whole @ tl frac)),
         (if expo = [] then 0
          else (if hd (tl expo) = CHR ''-'' then -1 else 1) * int (nat_of_text (tl (tl expo))))
         - int (length (tl frac))))"

definition float_ge_zero :: "string \<Rightarrow> bool" where
  "float_ge_zero s \<longleftrightarrow> fst (float_scaled s) \<ge> 0"

definition float_le_one :: "string \<Rightarrow> bool" where
  "float_le_one s =
     (case float_scaled s of (m, e) \<Rightarrow> m * 10 ^ nat e \<le> 10 ^ nat (- e))"

text \<open>A well-formed value: dictionaries have distinct keys, floats are printed floats.\<close>

fun json_wf :: "json \<Rightarrow> bool" where
  "json_wf (JFloat t) = float_text_ok t"
| "json_wf (JList vs) = list_all json_wf vs"
| "json_wf (JObj kvs) = (distinct (map fst kvs) \<and> list_all (\<lambda>kv. json_wf (snd kv)) kvs)"
| "json_wf _ = True"

text \<open>Python compares dictionaries without regard to order; \<open>json_norm\<close> sorts the keys.\<close>

fun json_norm :: "json \<Rightarrow> json" where
  "json_norm (JList vs) = JList (map json_norm vs)"
| "json_norm (JObj kvs) = JObj (sort_key fst (map (\<lambda>kv. (fst kv, json_norm (snd kv))) kvs))"
| "json_norm v = v"

definition obj_get :: "json_object \<Rightarrow> string \<Rightarrow> json option" where
  "obj_get kvs k = map_of kvs k"

text \<open>\<open>model_dump(exclude=...)\<close> of a contract: the named top-level fields are left out.\<close>

fun dump_exclude :: "string list \<Rightarrow> json \<Rightarrow> json" where
  "dump_exclude ks (JObj kvs) = JObj (filter (\<lambda>kv. fst kv \<notin> set ks) kvs)"
| "dump_exclude ks v = v"

section \<open>The canonical encoder\<close>

definition hex_digit :: "nat \<Rightarrow> char" where
  "hex_digit n = (if n < 10 then char_of (48 + n) else char_of (87 + n))"

definition hex_value :: "char \<Rightarrow> nat" where
  "hex_value c = (if is_digit c then code c - 48 else code c - 87)"

definition escape_char :: "char \<Rightarrow> string" where
  "escape_char c =
     (if c = CHR 0x22 then [CHR 0x5C, CHR 0x22]
      else if c = CHR 0x5C then [CHR 0x5C, CHR 0x5C]
      else if code c = 10 then [CHR 0x5C, CHR ''n'']
      else if code c = 13 then [CHR 0x5C, CHR ''r'']
      else if code c = 9 then [CHR 0x5C, CHR ''t'']
      else if code c = 12 then [CHR 0x5C, CHR ''f'']
      else if code c = 8 then [CHR 0x5C, CHR ''b'']
      else if 32 \<le> code c \<and> code c \<le> 126 then [c]
      else [CHR 0x5C, CHR ''u'', CHR ''0'', CHR ''0'',
            hex_digit (code c div 16), hex_digit (code c mod 16)])"

definition quote_text :: "string \<Rightarrow> string" where
  "quote_text s = CHR 0x22 # concat (map escape_char s) @ [CHR 0x22]"

fun canonical_json :: "json \<Rightarrow> string" where
  "canonical_json JNull = ''null''"
| "canonical_json (JBool b) = (if b then ''true'' else ''false'')"
| "canonical_json (JInt i) = int_text i"
| "canonical_json (JFloat t) = t"
| "canonical_json (JStr s) = quote_text s"
| "canonical_json (JList vs) = CHR ''['' # join_with '','' (map canonical_json vs) @ '']''"
| "canonical_json (JObj kvs) =
     CHR ''{'' # join_with '',''
       (map (\<lambda>kt. quote_text (fst kt) @ '':'' @ snd kt)
         (sort_key fst (map (\<lambda>kv. (fst kv, canonical_json (snd kv))) kvs))) @ ''}''"

section \<open>The loader\<close>

definition unescape :: "char \<Rightarrow> char option" where
  "unescape e =
     (if e = CHR 0x22 \<or> e = CHR 0x5C \<or> e = CHR ''/'' then Some e
      else if e = CHR ''n'' then Some (char_of (10 :: nat))
      else if e = CHR ''r'' then Some (char_of (13 :: nat))
      else if e = CHR ''t'' then Some (char_of (9 :: nat))
      else if e = CHR ''f'' then Some (char_of (12 :: nat))
      else if e = CHR ''b'' then Some (char_of (8 :: nat))
      else None)"

definition hex4 :: "char \<Rightarrow> char \<Rightarrow> char \<Rightarrow> char \<Rightarrow> nat option" where
  "hex4 a b c d =
     (if is_hex a \<and> is_hex b \<and> is_hex c \<and> is_hex d
      then Some (((hex_value a * 16 + hex_value b) * 16 + hex_value c) * 16 + hex_value d)
      else None)"

fun parse_chars :: "string \<Rightarrow> (string \<times> string) option" where
  "parse_chars [] = None"
| "parse_chars (c # r) =
     (if c = CHR 0x22 then Some ([], r)
      else if c = CHR 0x5C then
        (case r of
           [] \<Rightarrow> None
         | e # r1 \<Rightarrow>
             if e = CHR ''u'' then
               (case r1 of
                  h1 # h2 # h3 # h4 # r2 \<Rightarrow>
                    (case hex4 h1 h2 h3 h4 of
                       None \<Rightarrow> None
                     | Some n \<Rightarrow>
                         if n < 256
                         then map_option (\<lambda>(s, t). (char_of n # s, t)) (parse_chars r2) else None)
                | _ \<Rightarrow> None)
             else
               (case unescape e of
                  None \<Rightarrow> None
                | Some x \<Rightarrow> map_option (\<lambda>(s, t). (x # s, t)) (parse_chars r1)))
      else if code c < 32 then None
      else map_option (\<lambda>(s, t). (c # s, t)) (parse_chars r))"

definition number_char :: "char \<Rightarrow> bool" where
  "number_char c \<longleftrightarrow> is_digit c \<or> c = CHR ''-'' \<or> c = CHR ''+'' \<or> c = CHR ''.'' \<or> c = CHR ''e''"

definition int_of_text :: "string \<Rightarrow> int option" where
  "int_of_text s =
     (let t = float_unsigned s
      in if t \<noteq> [] \<and> all_chars is_digit t \<and> (t = ''0'' \<or> hd t \<noteq> CHR ''0'')
         then Some ((if prefix ''-'' s then -1 else 1) * int (nat_of_text t)) else None)"

definition parse_number :: "string \<Rightarrow> (json \<times> string) option" where
  "parse_number s =
     (let token = takeWhile number_char s; rest = dropWhile number_char s
      in case int_of_text token of
           Some i \<Rightarrow> Some (JInt i, rest)
         | None \<Rightarrow> if float_text_ok token then Some (JFloat token, rest) else None)"

text \<open>
  \<open>json.loads\<close> with the hook \<open>_unique_json_object\<close>, on texts without white space between
  tokens. The fuel bounds the nesting; the length of the text is enough for every
  canonical text, and any other text is rejected by the canonical comparison below.
\<close>

fun parse_value :: "nat \<Rightarrow> string \<Rightarrow> (json \<times> string) option"
and parse_elements :: "nat \<Rightarrow> string \<Rightarrow> (json list \<times> string) option"
and parse_members :: "nat \<Rightarrow> string \<Rightarrow> (json_object \<times> string) option" where
  "parse_value 0 s = None"
| "parse_value (Suc n) s =
     (case s of
        [] \<Rightarrow> None
      | c # r \<Rightarrow>
          if c = CHR 0x22 then map_option (\<lambda>(t, r'). (JStr t, r')) (parse_chars r)
          else if c = CHR ''['' then
            (if prefix '']'' r then Some (JList [], tl r)
             else map_option (\<lambda>(vs, r'). (JList vs, r')) (parse_elements n r))
          else if c = CHR ''{'' then
            (if prefix ''}'' r then Some (JObj [], tl r)
             else (case parse_members n r of
                     None \<Rightarrow> None
                   | Some (kvs, r') \<Rightarrow> if distinct (map fst kvs) then Some (JObj kvs, r') else None))
          else if prefix ''null'' s then Some (JNull, drop 4 s)
          else if prefix ''true'' s then Some (JBool True, drop 4 s)
          else if prefix ''false'' s then Some (JBool False, drop 5 s)
          else parse_number s)"
| "parse_elements 0 s = None"
| "parse_elements (Suc n) s =
     (case parse_value n s of
        None \<Rightarrow> None
      | Some (v, r) \<Rightarrow>
          if prefix '','' r then map_option (\<lambda>(vs, r'). (v # vs, r')) (parse_elements n (tl r))
          else if prefix '']'' r then Some ([v], tl r)
          else None)"
| "parse_members 0 s = None"
| "parse_members (Suc n) s =
     (if prefix [CHR 0x22] s then
        (case parse_chars (tl s) of
           None \<Rightarrow> None
         | Some (k, r) \<Rightarrow>
             if prefix '':'' r then
               (case parse_value n (tl r) of
                  None \<Rightarrow> None
                | Some (v, r1) \<Rightarrow>
                    if prefix '','' r1
                    then map_option (\<lambda>(kvs, r'). ((k, v) # kvs, r')) (parse_members n (tl r1))
                    else if prefix ''}'' r1 then Some ([(k, v)], tl r1)
                    else None)
             else None)
      else None)"

definition json_loads :: "string \<Rightarrow> json option" where
  "json_loads s =
     (case parse_value (Suc (length s)) s of Some (v, []) \<Rightarrow> Some v | _ \<Rightarrow> None)"

definition load_canonical_json :: "string \<Rightarrow> json result" where
  "load_canonical_json s =
     (case json_loads s of
        None \<Rightarrow> Inl (ProjectionError ''not canonical JSON'')
      | Some v \<Rightarrow> if canonical_json v = s then Inr v
                  else Inl (ProjectionError ''not canonical JSON''))"

definition load_canonical_json_object :: "string \<Rightarrow> json_object result" where
  "load_canonical_json_object s =
     bindE (load_canonical_json s) (\<lambda>v.
       case v of JObj kvs \<Rightarrow> Inr kvs | _ \<Rightarrow> Inl (ProjectionError ''must be a JSON object''))"

section \<open>Strings round trip\<close>

lemma hex_digit_props: "n < 16 \<Longrightarrow> is_hex (hex_digit n) \<and> hex_value (hex_digit n) = n"
  by (auto simp: hex_digit_def hex_value_def char_class_defs)

lemma hex4_escape: "hex4 (CHR ''0'') (CHR ''0'') (hex_digit (code c div 16)) (hex_digit (code c mod 16))
    = Some (code c)"
proof -
  have "code c div 16 < 16" using code_less_256 [of c] by (simp del: code_less_256)
  then show ?thesis
    using hex_digit_props [of "code c div 16"] hex_digit_props [of "code c mod 16"]
    by (simp add: hex4_def hex_value_def char_class_defs)
qed

lemma parse_chars_escape:
  "parse_chars (escape_char c @ r) = map_option (\<lambda>(s, t). (c # s, t)) (parse_chars r)"
proof -
  have special: "code c = n \<Longrightarrow> n < 256 \<Longrightarrow> c = char_of n" for n
    by (metis char_of_code)
  show ?thesis
    by (auto simp: escape_char_def unescape_def hex4_escape dest: special)
qed

lemma parse_chars_quoted:
  "parse_chars (concat (map escape_char s) @ CHR 0x22 # r) = Some (s, r)"
  by (induction s) (simp_all add: parse_chars_escape)

section \<open>Numbers round trip\<close>

lemma digits_no_minus: "all_chars is_digit s \<Longrightarrow> \<not> prefix ''-'' s"
  by (cases s) auto

lemma int_text_number: "all_chars number_char (int_text i)"
  using nat_text_digits by (auto simp: int_text_def all_chars_iff number_char_def)

lemma nat_text_canonical: "nat_text n = ''0'' \<or> hd (nat_text n) \<noteq> CHR ''0''"
proof (cases "hd (nat_text n) = CHR ''0''")
  case True
  then have "n = 0" by (rule nat_text_hd_zero)
  then show ?thesis by (simp add: nat_text.simps [of 0] digit_char_def)
qed simp

lemma int_of_int_text [simp]: "int_of_text (int_text i) = Some i"
proof -
  have "\<not> prefix ''-'' (nat_text n)" for n
    using nat_text_digits by (rule digits_no_minus)
  then show ?thesis
    using nat_text_canonical nat_text_digits
    by (auto simp: int_of_text_def int_text_def float_unsigned_def)
qed

lemma is_digit_number: "is_digit c \<Longrightarrow> number_char c"
  by (simp add: number_char_def)

lemma takeWhile_dropWhile_eq: "all_chars p (takeWhile q s) \<Longrightarrow> all_chars p (dropWhile q s) \<Longrightarrow> all_chars p s"
  by (metis all_chars_simps(3) takeWhile_dropWhile_id)

lemma float_fraction_number: "float_fraction f \<Longrightarrow> all_chars number_char f"
  by (cases f) (auto simp: float_fraction_def all_chars_iff number_char_def)

lemma float_exponent_number: "float_exponent x \<Longrightarrow> all_chars number_char x"
  by (cases x; cases "tl x") (auto simp: float_exponent_def all_chars_iff number_char_def)

lemma float_text_number:
  assumes "float_text_ok s"
  shows "all_chars number_char s"
proof -
  define t where "t = float_unsigned s"
  define m where "m = takeWhile (\<lambda>c. c \<noteq> CHR ''e'') t"
  have parts: "float_parts s = (takeWhile (\<lambda>c. c \<noteq> CHR ''.'') m,
      dropWhile (\<lambda>c. c \<noteq> CHR ''.'') m, dropWhile (\<lambda>c. c \<noteq> CHR ''e'') t)"
    by (simp add: float_parts_def Let_def t_def m_def)
  have shape: "all_chars is_digit whole \<and> (frac = [] \<or> float_fraction frac) \<and>
      (expo = [] \<or> float_exponent expo)"
    if "float_parts s = (whole, frac, expo)" for whole frac expo
    using assms that by (cases "expo = []") (simp_all add: float_text_ok_def)
  from shape [OF parts] have "all_chars number_char (takeWhile (\<lambda>c. c \<noteq> CHR ''.'') m)"
    by (simp add: all_chars_iff is_digit_number)
  moreover from shape [OF parts] have "all_chars number_char (dropWhile (\<lambda>c. c \<noteq> CHR ''.'') m)"
    by (metis all_chars_simps(1) float_fraction_number)
  moreover from shape [OF parts] have "all_chars number_char (dropWhile (\<lambda>c. c \<noteq> CHR ''e'') t)"
    by (metis all_chars_simps(1) float_exponent_number)
  ultimately have "all_chars number_char m" and "all_chars number_char (dropWhile (\<lambda>c. c \<noteq> CHR ''e'') t)"
    by (auto intro: takeWhile_dropWhile_eq)
  then have "all_chars number_char t"
    unfolding m_def by (rule takeWhile_dropWhile_eq)
  then show ?thesis
    by (cases s) (simp_all add: t_def float_unsigned_def number_char_def split: if_splits)
qed

lemma digits_span:
  assumes "all_chars is_digit t" "\<not> is_digit d"
  shows "takeWhile (\<lambda>c. c \<noteq> d) t = t" and "dropWhile (\<lambda>c. c \<noteq> d) t = []"
  using assms by (auto simp: takeWhile_eq_all_conv dropWhile_eq_Nil_conv all_chars_iff)

lemma float_text_not_int: "float_text_ok s \<Longrightarrow> int_of_text s = None"
proof (rule ccontr)
  assume ok: "float_text_ok s" and "int_of_text s \<noteq> None"
  then have d: "all_chars is_digit (float_unsigned s)"
    by (auto simp: int_of_text_def Let_def split: if_splits)
  from ok show False
    by (simp add: float_text_ok_def float_parts_def Let_def float_fraction_def
        digits_span [OF d])
qed

lemma float_text_hd:
  assumes "float_text_ok s"
  shows "s \<noteq> [] \<and> (is_digit (hd s) \<or> hd s = CHR ''-'')"
proof -
  define whole where "whole = fst (float_parts s)"
  have w: "whole \<noteq> []" "all_chars is_digit whole"
    using assms by (auto simp: float_text_ok_def whole_def)
  have "prefix whole (float_unsigned s)"
    unfolding whole_def float_parts_def Let_def
    by (simp add: prefix_order.order_trans [OF takeWhile_is_prefix takeWhile_is_prefix])
  with w have "float_unsigned s \<noteq> [] \<and> is_digit (hd (float_unsigned s))"
    by (cases whole) (auto simp: prefix_def)
  then show ?thesis
    by (cases s) (auto simp: float_unsigned_def split: if_splits)
qed

lemma int_text_hd: "int_text i \<noteq> [] \<and> (is_digit (hd (int_text i)) \<or> hd (int_text i) = CHR ''-'')"
  using nat_text_digits [of "nat i"] nat_text_nonempty [of "nat i"]
  by (cases "nat_text (nat i)") (auto simp: int_text_def)

text \<open>What may follow a value in a canonical text.\<close>

definition value_end :: "string \<Rightarrow> bool" where
  "value_end r \<longleftrightarrow> r = [] \<or> hd r = CHR '','' \<or> hd r = CHR '']'' \<or> hd r = CHR ''}''"

lemma parse_number_token:
  assumes "all_chars number_char tok" "value_end r"
  shows "takeWhile number_char (tok @ r) = tok \<and> dropWhile number_char (tok @ r) = r"
proof -
  have "\<not> number_char (CHR '','')" "\<not> number_char (CHR '']'')" "\<not> number_char (CHR ''}'')"
    by (simp_all add: number_char_def)
  with assms(2) have "r = [] \<or> \<not> number_char (hd r)"
    unfolding value_end_def by metis
  with assms(1) show ?thesis by (rule takeWhile_append_stop)
qed

lemma parse_number_int: "value_end r \<Longrightarrow> parse_number (int_text i @ r) = Some (JInt i, r)"
  using parse_number_token [OF int_text_number, of r i] by (simp add: parse_number_def)

lemma parse_number_float:
  "float_text_ok t \<Longrightarrow> value_end r \<Longrightarrow> parse_number (t @ r) = Some (JFloat t, r)"
  using parse_number_token [OF float_text_number, of t r] float_text_not_int
  by (simp add: parse_number_def)

lemma parse_value_number:
  assumes "s \<noteq> []" "is_digit (hd s) \<or> hd s = CHR ''-''"
  shows "parse_value (Suc n) s = parse_number s"
proof (cases s)
  case (Cons c r)
  then have "is_digit c \<or> c = CHR ''-''" using assms(2) by simp
  then have "c \<noteq> CHR 0x22" "c \<noteq> CHR ''[''" "c \<noteq> CHR ''{''"
    "CHR ''n'' \<noteq> c" "CHR ''t'' \<noteq> c" "CHR ''f'' \<noteq> c"
    by auto
  then show ?thesis by (simp add: Cons)
qed (use assms in simp)

section \<open>Values round trip\<close>

lemma join_with_Cons: "xs \<noteq> [] \<Longrightarrow> join_with sep (x # xs) = x @ sep @ join_with sep xs"
  by (cases xs) auto

text \<open>The texts of elements and of members, with the bracket that closes them.\<close>

definition member_text :: "string \<times> json \<Rightarrow> string" where
  "member_text kv = quote_text (fst kv) @ '':'' @ canonical_json (snd kv)"

lemma canonical_json_obj:
  "canonical_json (JObj kvs) = CHR ''{'' # join_with '','' (map member_text (sort_key fst kvs)) @ ''}''"
proof -
  have "sort_key fst (map (\<lambda>kv. (fst kv, canonical_json (snd kv))) kvs)
      = map (\<lambda>(k, v). (k, canonical_json v)) (sort_key fst kvs)"
    using sort_key_map_values [of canonical_json kvs] by (simp add: case_prod_beta')
  then show ?thesis by (simp add: member_text_def [abs_def] comp_def case_prod_beta')
qed

lemma quote_text_length: "2 \<le> length (quote_text s)"
  by (simp add: quote_text_def)

lemma parse_chars_quote: "parse_chars (tl (quote_text k @ r)) = Some (k, r)"
  by (simp add: quote_text_def parse_chars_quoted)

lemma parse_value_str: "parse_value (Suc n) (quote_text s @ r) = Some (JStr s, r)"
  by (simp add: quote_text_def parse_chars_quoted)

lemma value_end_simps [simp]:
  "value_end []" "value_end ('','' @ r)" "value_end ('']'' @ r)" "value_end (''}'' @ r)"
  "value_end (CHR '','' # r)" "value_end (CHR '']'' # r)" "value_end (CHR ''}'' # r)"
  by (simp_all add: value_end_def)

definition parses :: "json \<Rightarrow> bool" where
  "parses v \<longleftrightarrow> (\<forall>n r. length (canonical_json v) < n \<longrightarrow> value_end r \<longrightarrow>
      parse_value n (canonical_json v @ r) = Some (json_norm v, r))"

lemma parsesD:
  "parses v \<Longrightarrow> length (canonical_json v) < n \<Longrightarrow> value_end r \<Longrightarrow>
     parse_value n (canonical_json v @ r) = Some (json_norm v, r)"
  by (simp add: parses_def)

lemma parse_elements_texts:
  assumes "vs \<noteq> []" "\<forall>v \<in> set vs. parses v"
    and "length (join_with '','' (map canonical_json vs)) + 1 < n"
  shows "parse_elements n (join_with '','' (map canonical_json vs) @ '']'' @ r)
    = Some (map json_norm vs, r)"
  using assms
proof (induction vs arbitrary: n)
  case (Cons v vs)
  then obtain m where n: "n = Suc m" by (cases n) auto
  show ?case
  proof (cases "vs = []")
    case True
    then show ?thesis
      using parsesD [of v m "'']'' @ r"] Cons.prems by (simp add: n)
  next
    case False
    let ?rest = "join_with '','' (map canonical_json vs) @ '']'' @ r"
    have tx: "join_with '','' (map canonical_json (v # vs)) @ '']'' @ r
        = canonical_json v @ '','' @ ?rest"
      using False by (simp add: join_with_Cons)
    have len: "length (canonical_json v) < m" "length (join_with '','' (map canonical_json vs)) + 1 < m"
      using Cons.prems(3) False by (auto simp: n join_with_Cons)
    have "parse_value m (canonical_json v @ '','' @ ?rest) = Some (json_norm v, '','' @ ?rest)"
      using Cons.prems(2) len(1) by (intro parsesD) auto
    moreover have "parse_elements m ?rest = Some (map json_norm vs, r)"
      using Cons False len(2) by auto
    ultimately show ?thesis unfolding tx by (simp add: n)
  qed
qed simp

lemma parse_members_texts:
  assumes "kvs \<noteq> []" "\<forall>kv \<in> set kvs. parses (snd kv)"
    and "length (join_with '','' (map member_text kvs)) + 1 < n"
  shows "parse_members n (join_with '','' (map member_text kvs) @ ''}'' @ r)
    = Some (map (\<lambda>kv. (fst kv, json_norm (snd kv))) kvs, r)"
  using assms
proof (induction kvs arbitrary: n)
  case (Cons kv kvs)
  then obtain m where n: "n = Suc m" by (cases n) auto
  let ?v = "snd kv"
  have step: "parse_members n (quote_text (fst kv) @ '':'' @ canonical_json ?v @ t)
      = (if prefix '','' t
         then map_option (\<lambda>(kvs, r'). ((fst kv, json_norm ?v) # kvs, r')) (parse_members m (tl t))
         else if prefix ''}'' t then Some ([(fst kv, json_norm ?v)], tl t) else None)"
    if "length (canonical_json ?v) < m" "value_end t" for t
  proof -
    have "prefix [CHR 0x22] (quote_text (fst kv) @ u)" for u
      by (simp add: quote_text_def)
    moreover have "parse_value m (canonical_json ?v @ t) = Some (json_norm ?v, t)"
      using Cons.prems(2) that by (intro parsesD) auto
    ultimately show ?thesis by (simp add: n parse_chars_quote)
  qed
  show ?case
  proof (cases "kvs = []")
    case True
    then show ?thesis
      using step [of "''}'' @ r"] Cons.prems(3) by (simp add: n member_text_def)
  next
    case False
    let ?rest = "join_with '','' (map member_text kvs) @ ''}'' @ r"
    have tx: "join_with '','' (map member_text (kv # kvs)) @ ''}'' @ r
        = quote_text (fst kv) @ '':'' @ canonical_json ?v @ '','' @ ?rest"
      using False by (simp add: join_with_Cons member_text_def)
    have len: "length (canonical_json ?v) < m" "length (join_with '','' (map member_text kvs)) + 1 < m"
      using Cons.prems(3) False by (auto simp: n join_with_Cons member_text_def [of kv])
    have "parse_members m ?rest = Some (map (\<lambda>kv. (fst kv, json_norm (snd kv))) kvs, r)"
      using Cons False len(2) by auto
    then show ?thesis unfolding tx using step [of "'','' @ ?rest"] len(1) by simp
  qed
qed simp

lemma canonical_json_hd:
  assumes "json_wf v"
  shows "canonical_json v \<noteq> [] \<and> hd (canonical_json v) \<noteq> CHR '']''"
proof -
  have "c \<noteq> CHR '']''" if "is_digit c \<or> c = CHR ''-''" for c
    using that by auto
  then show ?thesis
    using assms int_text_hd float_text_hd by (cases v) (auto simp: quote_text_def)
qed

lemma join_texts_hd:
  assumes "xs \<noteq> []" "f (hd xs) \<noteq> []"
  shows "join_with sep (map f xs) \<noteq> [] \<and> hd (join_with sep (map f xs)) = hd (f (hd xs))"
  using assms by (cases xs; cases "tl xs") auto

lemma parses_list:
  assumes "\<forall>v \<in> set vs. parses v" "\<forall>v \<in> set vs. json_wf v"
  shows "parses (JList vs)"
  unfolding parses_def
proof (intro allI impI)
  fix n r assume n: "length (canonical_json (JList vs)) < n" and "value_end r"
  then obtain m where m: "n = Suc m" by (cases n) auto
  show "parse_value n (canonical_json (JList vs) @ r) = Some (json_norm (JList vs), r)"
  proof (cases "vs = []")
    case False
    let ?t = "join_with '','' (map canonical_json vs)"
    have "json_wf (hd vs)" using False assms(2) by simp
    then have "?t \<noteq> [] \<and> hd ?t \<noteq> CHR '']''"
      using False canonical_json_hd [of "hd vs"] join_texts_hd [of vs canonical_json "'',''"] by auto
    then have "\<not> prefix '']'' (?t @ '']'' @ r)" by (cases ?t) auto
    moreover have "parse_elements m (?t @ '']'' @ r) = Some (map json_norm vs, r)"
      using False assms(1) n by (intro parse_elements_texts) (auto simp: m)
    ultimately show ?thesis by (simp add: m)
  qed (simp add: m)
qed

lemma parses_obj:
  assumes "distinct (map fst kvs)" "\<forall>kv \<in> set kvs. parses (snd kv)"
  shows "parses (JObj kvs)"
  unfolding parses_def
proof (intro allI impI)
  fix n r assume n: "length (canonical_json (JObj kvs)) < n" and "value_end r"
  then obtain m where m: "n = Suc m" by (cases n) auto
  let ?s = "sort_key fst kvs"
  have norm: "json_norm (JObj kvs) = JObj (map (\<lambda>kv. (fst kv, json_norm (snd kv))) ?s)"
    using sort_key_map_values [of json_norm kvs] by (simp add: case_prod_beta')
  show "parse_value n (canonical_json (JObj kvs) @ r) = Some (json_norm (JObj kvs), r)"
  proof (cases "kvs = []")
    case False
    let ?t = "join_with '','' (map member_text ?s)"
    have ne: "?s \<noteq> []" using False by (metis set_empty set_sort)
    have mt: "member_text kv \<noteq> [] \<and> hd (member_text kv) = CHR 0x22" for kv
      by (simp add: member_text_def quote_text_def)
    then have "?t \<noteq> [] \<and> hd ?t = CHR 0x22"
      using join_texts_hd [of ?s member_text "'',''"] ne by auto
    then have "\<not> prefix ''}'' (?t @ ''}'' @ r)" by (cases ?t) auto
    moreover have "parse_members m (?t @ ''}'' @ r)
        = Some (map (\<lambda>kv. (fst kv, json_norm (snd kv))) ?s, r)"
      using ne assms(2) n
      by (intro parse_members_texts) (auto simp: m canonical_json_obj simp del: canonical_json.simps)
    moreover have "distinct (map fst ?s)"
      using assms(1) by (simp add: distinct_map)
    ultimately show ?thesis
      by (simp add: m norm canonical_json_obj comp_def del: canonical_json.simps json_norm.simps)
  qed (simp add: m)
qed

lemma canonical_parses: "json_wf v \<Longrightarrow> parses v"
proof (induction v rule: canonical_json.induct)
  case (3 i)
  have "parse_value n (int_text i @ r) = Some (JInt i, r)" if "0 < n" "value_end r" for n r
    using that int_text_hd [of i] parse_value_number [of "int_text i @ r"]
    by (cases n) (simp_all add: parse_number_int del: parse_value.simps)
  then show ?case by (simp add: parses_def)
next
  case (4 t)
  have "parse_value n (t @ r) = Some (JFloat t, r)" if "0 < n" "value_end r" for n r
    using that 4 float_text_hd [of t] parse_value_number [of "t @ r"]
    by (cases n) (simp_all add: parse_number_float del: parse_value.simps)
  then show ?case by (auto simp: parses_def)
next
  case (5 s)
  have "parse_value n (quote_text s @ r) = Some (JStr s, r)" if "0 < n" for n r
    using that by (cases n) (simp_all add: parse_value_str del: parse_value.simps)
  then show ?case by (simp add: parses_def)
next
  case (6 vs)
  then show ?case by (intro parses_list) (auto simp: list_all_iff)
next
  case (7 kvs)
  then show ?case by (intro parses_obj) (auto simp: list_all_iff)
qed (auto simp: parses_def dest!: less_imp_Suc_add)

section \<open>What the encoder and the loader guarantee\<close>

lemma json_loads_canonical: "json_wf v \<Longrightarrow> json_loads (canonical_json v) = Some (json_norm v)"
  using canonical_parses [of v] parsesD [of v "Suc (length (canonical_json v))" "[]"]
  by (simp add: json_loads_def)

lemma sort_key_fst_norm: "map fst (sort_key fst (map (\<lambda>kv. (fst kv, f (snd kv))) kvs)) = map fst (sort_key fst kvs)"
  using sort_key_map_values [of f kvs] by (simp add: case_prod_beta' comp_def)

lemma json_norm_obj: "json_norm (JObj kvs) = JObj (map (\<lambda>kv. (fst kv, json_norm (snd kv))) (sort_key fst kvs))"
  using sort_key_map_values [of json_norm kvs] by (simp add: case_prod_beta')

lemma json_norm_wf [simp]: "json_wf (json_norm v) = json_wf v"
proof (induction v rule: json_norm.induct)
  case (1 vs)
  then show ?case by (auto simp: list_all_iff)
next
  case (2 kvs)
  have "distinct (map fst (sort_key fst kvs)) = distinct (map fst kvs)"
    by (simp add: distinct_map)
  with 2 show ?case
    by (auto simp: json_norm_obj list_all_iff comp_def simp del: json_norm.simps)
qed auto

lemma sort_key_sorted_map:
  "sort_key fst (map (\<lambda>kv. (fst kv, f (snd kv))) (sort_key fst kvs)) = map (\<lambda>kv. (fst kv, f (snd kv))) (sort_key fst kvs)"
  by (rule sort_key_id_if_sorted) (simp add: comp_def)

lemma canonical_json_norm [simp]: "canonical_json (json_norm v) = canonical_json v"
proof (induction v rule: json_norm.induct)
  case (1 vs)
  then show ?case by (simp add: comp_def cong: map_cong)
next
  case (2 kvs)
  have "map member_text (map (\<lambda>kv. (fst kv, json_norm (snd kv))) (sort_key fst kvs))
      = map member_text (sort_key fst kvs)"
    using 2 by (auto simp: member_text_def)
  then show ?case
    by (simp only: json_norm_obj canonical_json_obj sort_key_sorted_map)
qed auto

lemma json_norm_idem [simp]: "json_norm (json_norm v) = json_norm v"
proof (induction v rule: json_norm.induct)
  case (1 vs)
  then show ?case by (simp add: comp_def cong: map_cong)
next
  case (2 kvs)
  have "map (\<lambda>kv. (fst kv, json_norm (snd kv))) (map (\<lambda>kv. (fst kv, json_norm (snd kv))) (sort_key fst kvs))
      = map (\<lambda>kv. (fst kv, json_norm (snd kv))) (sort_key fst kvs)"
    using 2 by auto
  then show ?case by (simp add: json_norm_obj sort_key_sorted_map del: json_norm.simps)
qed auto

lemma load_canonical_json_dump:
  "json_wf v \<Longrightarrow> load_canonical_json (canonical_json v) = Inr (json_norm v)"
  by (simp add: load_canonical_json_def json_loads_canonical)

lemma load_canonical_json_Inr: "load_canonical_json s = Inr v \<Longrightarrow> canonical_json v = s"
  by (auto simp: load_canonical_json_def split: option.splits if_splits)

text \<open>
  What a client of a canonical codec relies on: decoding inverts encoding up to the normal
  form, and only canonical texts decode.
\<close>

locale codec =
  fixes encode :: "'v \<Rightarrow> string"
    and decode :: "string \<Rightarrow> 'v result"
    and norm :: "'v \<Rightarrow> 'v"
    and wf :: "'v \<Rightarrow> bool"
  assumes decode_encode: "wf v \<Longrightarrow> decode (encode v) = Inr (norm v)"
    and encode_norm: "encode (norm v) = encode v"
    and decode_canonical: "decode s = Inr v \<Longrightarrow> encode v = s"
begin

lemma encode_eq_iff:
  assumes "wf v" "wf w"
  shows "encode v = encode w \<longleftrightarrow> norm v = norm w"
  by (metis assms decode_encode encode_norm sum.inject(2))

lemma decode_inj: "decode s = Inr v \<Longrightarrow> decode t = Inr v \<Longrightarrow> s = t"
  using decode_canonical by blast

lemma stored_text_stable: "wf v \<Longrightarrow> decode (encode v) = Inr u \<Longrightarrow> encode u = encode v"
  by (auto simp: decode_encode encode_norm)

end

interpretation json_codec: codec canonical_json load_canonical_json json_norm json_wf
  by unfold_locales (auto simp: load_canonical_json_dump dest: load_canonical_json_Inr)

lemma json_norm_is_obj: "json_norm v = JObj kvs \<longleftrightarrow>
    (\<exists>ps. v = JObj ps \<and> kvs = map (\<lambda>kv. (fst kv, json_norm (snd kv))) (sort_key fst ps))"
  by (cases v) (auto simp: json_norm_obj simp del: json_norm.simps(2))

text \<open>The members of a dictionary as a loader returns them.\<close>

definition norm_members :: "json_object \<Rightarrow> json_object" where
  "norm_members kvs = map (\<lambda>kv. (fst kv, json_norm (snd kv))) (sort_key fst kvs)"

lemma json_norm_members: "json_norm (JObj kvs) = JObj (norm_members kvs)"
  by (simp add: json_norm_obj norm_members_def del: json_norm.simps)

lemma load_object_dump:
  "json_wf (JObj kvs) \<Longrightarrow> load_canonical_json_object (canonical_json (JObj kvs)) = Inr (norm_members kvs)"
  using load_canonical_json_dump [of "JObj kvs"]
  by (simp add: load_canonical_json_object_def json_norm_members
      del: json_norm.simps canonical_json.simps)

lemma map_of_norm_members:
  assumes "distinct (map fst kvs)"
  shows "map_of (norm_members kvs) k = map_option json_norm (map_of kvs k)"
proof -
  have "map_of (sort_key fst kvs) = map_of kvs"
    using assms by (intro map_of_inject_set [THEN iffD2]) (auto simp: distinct_map)
  moreover have "(\<lambda>kv. (fst kv, json_norm (snd kv))) = (\<lambda>(k :: string, v). (k, json_norm v))"
    by (simp add: fun_eq_iff)
  ultimately show ?thesis
    unfolding norm_members_def by (simp only: map_of_map comp_apply)
qed

lemma obj_get_norm_members:
  "json_wf (JObj kvs) \<Longrightarrow> obj_get (norm_members kvs) k = map_option json_norm (obj_get kvs k)"
  by (simp add: obj_get_def map_of_norm_members)

text \<open>One field of a dumped contract, as a Python value.\<close>

fun dump_field :: "json \<Rightarrow> string \<Rightarrow> json option" where
  "dump_field (JObj kvs) k = map_option json_norm (obj_get kvs k)"
| "dump_field v k = None"

lemma dump_exclude_wf: "json_wf v \<Longrightarrow> json_wf (dump_exclude ks v)"
  by (cases v) (auto simp: list_all_iff distinct_map_filter)

lemma map_of_filter_key: "p k \<Longrightarrow> map_of (filter (\<lambda>kv. p (fst kv)) kvs) k = map_of kvs k"
  by (induction kvs) auto

lemma dump_exclude_field: "k \<notin> set ks \<Longrightarrow> dump_field (dump_exclude ks v) k = dump_field v k"
  by (cases v) (simp_all add: obj_get_def map_of_filter_key [where p = "\<lambda>k. k \<notin> set ks"])

lemma json_norm_field:
  assumes "json_wf v" "json_wf w" "json_norm v = json_norm w"
  shows "dump_field v k = dump_field w k"
proof (cases v)
  case (JObj a)
  then obtain b where b: "w = JObj b" using assms(3) by (cases w) auto
  then have "norm_members a = norm_members b"
    using assms(3) JObj by (simp add: json_norm_members del: json_norm.simps)
  then show ?thesis
    using assms(1,2) JObj b obj_get_norm_members by (metis dump_field.simps(1))
qed (use assms(3) in \<open>cases w; simp\<close>)+

section \<open>Properties\<close>

text \<open>C32. The strict loader inverts the canonical encoder: what it reads back is the value
  that was written, with the keys of every dictionary in sorted order.\<close>

theorem canonical_json_round_trip:
  assumes "json_wf v"
  shows "load_canonical_json (canonical_json v) = Inr (json_norm v)"
  using assms by (rule json_codec.decode_encode)

theorem canonical_json_round_trip_witness:
  "load_canonical_json (canonical_json (JObj [(''b'', JInt (-12)), (''a'', JList [JStr [CHR 0x22, CHR 0x0A], JFloat ''0.5''])]))
     = Inr (JObj [(''a'', JList [JStr [CHR 0x22, CHR 0x0A], JFloat ''0.5'']), (''b'', JInt (-12))])"
proof -
  have "json_wf (JObj [(''b'', JInt (-12)), (''a'', JList [JStr [CHR 0x22, CHR 0x0A], JFloat ''0.5''])])"
    by code_simp
  from canonical_json_round_trip [OF this] show ?thesis by simp
qed

text \<open>Two values have the same canonical text exactly when they are equal as Python
  values, that is up to the order of dictionary keys.\<close>

theorem canonical_json_complete_invariant:
  assumes "json_wf v" "json_wf w"
  shows "canonical_json v = canonical_json w \<longleftrightarrow> json_norm v = json_norm w"
  using assms by (rule json_codec.encode_eq_iff)

theorem canonical_json_complete_invariant_witness:
  "canonical_json (JObj [(''a'', JNull), (''b'', JBool True)])
     = canonical_json (JObj [(''b'', JBool True), (''a'', JNull)])"
  using canonical_json_complete_invariant
    [of "JObj [(''a'', JNull), (''b'', JBool True)]" "JObj [(''b'', JBool True), (''a'', JNull)]"]
  by simp

end
