(* ===== verification/Digests.thy ===== *)
theory Digests
  imports Json "HOL-Library.Word"
begin

unbundle bit_operations_syntax

text \<open>
  The hash functions of the standard library the program calls: \<open>hashlib.sha256\<close>,
  \<open>hmac.digest(..., "sha256")\<close> and \<open>uuid.uuid5\<close> (with its SHA-1), on byte strings, and
  the UTF-8 encoding of a text. Bytes are the characters of a \<open>string\<close>. The theorems of
  the development use only the shape of the results and that a text determines its bytes.
\<close>

type_synonym w32 = "32 word"

section \<open>Bytes and words\<close>

definition utf8_char :: "char \<Rightarrow> string" where
  "utf8_char c =
     (if code c < 128 then [c]
      else [char_of (192 + code c div 64), char_of (128 + code c mod 64)])"

definition utf8 :: "string \<Rightarrow> string" where
  "utf8 s = concat (map utf8_char s)"

definition hex_byte :: "char \<Rightarrow> string" where
  "hex_byte c = [hex_digit (code c div 16), hex_digit (code c mod 16)]"

definition hex_text :: "string \<Rightarrow> string" where
  "hex_text bs = concat (map hex_byte bs)"

definition rotr :: "nat \<Rightarrow> w32 \<Rightarrow> w32" where
  "rotr n x = (drop_bit n x OR push_bit (32 - n) x)"

definition rotl :: "nat \<Rightarrow> w32 \<Rightarrow> w32" where
  "rotl n x = (push_bit n x OR drop_bit (32 - n) x)"

fun be_words :: "string \<Rightarrow> w32 list" where
  "be_words (a # b # c # d # r) =
     word_of_int (((of_char a * 256 + of_char b) * 256 + of_char c) * 256 + of_char d) # be_words r"
| "be_words _ = []"

fun be_bytes :: "nat \<Rightarrow> int \<Rightarrow> string" where
  "be_bytes 0 n = []"
| "be_bytes (Suc k) n = be_bytes k (n div 256) @ [char_of (n mod 256)]"

definition word_bytes :: "w32 \<Rightarrow> string" where
  "word_bytes w = be_bytes 4 (uint w)"

definition md_pad :: "string \<Rightarrow> string" where
  "md_pad m = m @ char_of (128 :: nat) # replicate ((119 - length m mod 64) mod 64) (char_of (0 :: nat))
     @ be_bytes 8 (int (8 * length m))"

fun chunks64 :: "string \<Rightarrow> string list" where
  "chunks64 s = (if s = [] then [] else take 64 s # chunks64 (drop 64 s))"

declare chunks64.simps [simp del]

section \<open>SHA-256\<close>

definition sha256_k :: "w32 list" where
  "sha256_k =
    [1116352408, 1899447441, 3049323471, 3921009573, 961987163, 1508970993, 2453635748,
     2870763221, 3624381080, 310598401, 607225278, 1426881987, 1925078388, 2162078206,
     2614888103, 3248222580, 3835390401, 4022224774, 264347078, 604807628, 770255983,
     1249150122, 1555081692, 1996064986, 2554220882, 2821834349, 2952996808, 3210313671,
     3336571891, 3584528711, 113926993, 338241895, 666307205, 773529912, 1294757372,
     1396182291, 1695183700, 1986661051, 2177026350, 2456956037, 2730485921, 2820302411,
     3259730800, 3345764771, 3516065817, 3600352804, 4094571909, 275423344, 430227734,
     506948616, 659060556, 883997877, 958139571, 1322822218, 1537002063, 1747873779,
     1955562222, 2024104815, 2227730452, 2361852424, 2428436474, 2756734187, 3204031479,
     3329325298]"

datatype sha256_state = Sha256State w32 w32 w32 w32 w32 w32 w32 w32

definition sha256_init :: sha256_state where
  "sha256_init = Sha256State 1779033703 3144134277 1013904242 2773480762
     1359893119 2600822924 528734635 1541459225"

text \<open>The message schedule, most recent word first.\<close>

fun sha256_extend :: "nat \<Rightarrow> w32 list \<Rightarrow> w32 list" where
  "sha256_extend 0 r = r"
| "sha256_extend (Suc n) r =
     (let w2 = r ! 1; w15 = r ! 14;
          s1 = (rotr 17 w2 XOR rotr 19 w2 XOR drop_bit 10 w2);
          s0 = (rotr 7 w15 XOR rotr 18 w15 XOR drop_bit 3 w15)
      in sha256_extend n ((s1 + r ! 6 + s0 + r ! 15) # r))"

fun sha256_round :: "w32 \<times> w32 \<Rightarrow> sha256_state \<Rightarrow> sha256_state" where
  "sha256_round (k, w) (Sha256State a b c d e f g h) =
     (let t1 = h + (rotr 6 e XOR rotr 11 e XOR rotr 25 e) + ((e AND f) XOR (NOT e AND g)) + k + w;
          t2 = (rotr 2 a XOR rotr 13 a XOR rotr 22 a) + ((a AND b) XOR (a AND c) XOR (b AND c))
      in Sha256State (t1 + t2) a b c (d + t1) e f g)"

fun sha256_add :: "sha256_state \<Rightarrow> sha256_state \<Rightarrow> sha256_state" where
  "sha256_add (Sha256State a b c d e f g h) (Sha256State a' b' c' d' e' f' g' h') =
     Sha256State (a + a') (b + b') (c + c') (d + d') (e + e') (f + f') (g + g') (h + h')"

definition sha256_block :: "string \<Rightarrow> sha256_state \<Rightarrow> sha256_state" where
  "sha256_block blk st =
     sha256_add st (fold sha256_round (zip sha256_k (rev (sha256_extend 48 (rev (be_words blk))))) st)"

fun sha256_output :: "sha256_state \<Rightarrow> string" where
  "sha256_output (Sha256State a b c d e f g h) = concat (map word_bytes [a, b, c, d, e, f, g, h])"

definition sha256 :: "string \<Rightarrow> string" where
  "sha256 m = sha256_output (fold sha256_block (chunks64 (md_pad m)) sha256_init)"

definition sha256_hexdigest :: "string \<Rightarrow> string" where
  "sha256_hexdigest m = hex_text (sha256 m)"

section \<open>HMAC\<close>

definition hmac_key :: "string \<Rightarrow> string" where
  "hmac_key k = (let k0 = (if length k > 64 then sha256 k else k)
     in k0 @ replicate (64 - length k0) (char_of (0 :: nat)))"

definition xor_byte :: "nat \<Rightarrow> char \<Rightarrow> char" where
  "xor_byte n c = char_of (code c XOR n)"

definition hmac_sha256 :: "string \<Rightarrow> string \<Rightarrow> string" where
  "hmac_sha256 k m =
     sha256 (map (xor_byte 0x5c) (hmac_key k) @ sha256 (map (xor_byte 0x36) (hmac_key k) @ m))"

definition hmac_hex :: "string \<Rightarrow> string \<Rightarrow> string" where
  "hmac_hex k m = hex_text (hmac_sha256 k m)"

section \<open>SHA-1 and name-based UUIDs\<close>

datatype sha1_state = Sha1State w32 w32 w32 w32 w32

fun sha1_extend :: "nat \<Rightarrow> w32 list \<Rightarrow> w32 list" where
  "sha1_extend 0 r = r"
| "sha1_extend (Suc n) r =
     sha1_extend n (rotl 1 (r ! 2 XOR r ! 7 XOR r ! 13 XOR r ! 15) # r)"

fun sha1_round :: "nat \<times> w32 \<Rightarrow> sha1_state \<Rightarrow> sha1_state" where
  "sha1_round (t, w) (Sha1State a b c d e) =
     (let (f, k) =
        (if t < 20 then ((b AND c) OR (NOT b AND d), 1518500249)
         else if t < 40 then (b XOR c XOR d, 1859775393)
         else if t < 60 then ((b AND c) OR (b AND d) OR (c AND d), 2400959708)
         else (b XOR c XOR d, 3395469782))
      in Sha1State (rotl 5 a + f + e + k + w) a (rotl 30 b) c d)"

fun sha1_add :: "sha1_state \<Rightarrow> sha1_state \<Rightarrow> sha1_state" where
  "sha1_add (Sha1State a b c d e) (Sha1State a' b' c' d' e') =
     Sha1State (a + a') (b + b') (c + c') (d + d') (e + e')"

definition sha1_block :: "string \<Rightarrow> sha1_state \<Rightarrow> sha1_state" where
  "sha1_block blk st =
     sha1_add st (fold sha1_round (zip [0..<80] (rev (sha1_extend 64 (rev (be_words blk))))) st)"

fun sha1_output :: "sha1_state \<Rightarrow> string" where
  "sha1_output (Sha1State a b c d e) = concat (map word_bytes [a, b, c, d, e])"

definition sha1 :: "string \<Rightarrow> string" where
  "sha1 m = sha1_output (fold sha1_block (chunks64 (md_pad m))
     (Sha1State 1732584193 4023233417 2562383102 271733878 3285377520))"

definition namespace_url :: string where
  "namespace_url = map char_of
     [0x6b, 0xa7, 0xb8, 0x11, 0x9d, 0xad, 0x11, 0xd1, 0x80, 0xb4, 0x00, 0xc0, 0x4f, 0xd4, 0x30, 0xc8 :: nat]"

definition uuid_text :: "string \<Rightarrow> string" where
  "uuid_text bs = hex_text (take 4 bs) @ ''-'' @ hex_text (take 2 (drop 4 bs)) @ ''-''
     @ hex_text (take 2 (drop 6 bs)) @ ''-'' @ hex_text (take 2 (drop 8 bs)) @ ''-''
     @ hex_text (take 6 (drop 10 bs))"

definition uuid5_url :: "string \<Rightarrow> string" where
  "uuid5_url name =
     (let h = take 16 (sha1 (namespace_url @ utf8 name));
          h1 = h[6 := char_of (code (h ! 6) mod 16 + 80)]
      in uuid_text (h1[8 := char_of (code (h ! 8) mod 64 + 128)]))"

section \<open>Shapes of the results\<close>

lemma length_be_bytes [simp]: "length (be_bytes k n) = k"
  by (induction k arbitrary: n) simp_all

lemma length_word_bytes [simp]: "length (word_bytes w) = 4"
  by (simp add: word_bytes_def)

lemma length_sha256 [simp]: "length (sha256 m) = 32"
  unfolding sha256_def by (cases "fold sha256_block (chunks64 (md_pad m)) sha256_init") simp

lemma length_sha1 [simp]: "length (sha1 m) = 20"
  unfolding sha1_def
  by (cases "fold sha1_block (chunks64 (md_pad m))
     (Sha1State 1732584193 4023233417 2562383102 271733878 3285377520)") simp

lemma length_hmac_sha256 [simp]: "length (hmac_sha256 k m) = 32"
  by (simp add: hmac_sha256_def)

lemma hex_byte_hex: "all_chars is_hex (hex_byte c)"
proof -
  have "code c div 16 < 16" using code_less_256 [of c] by (simp del: code_less_256)
  then show ?thesis using hex_digit_props by (simp add: hex_byte_def)
qed

lemma hex_text_hex [simp]: "all_chars is_hex (hex_text bs)"
  by (induction bs) (simp_all add: hex_text_def hex_byte_hex)

lemma length_hex_text [simp]: "length (hex_text bs) = 2 * length bs"
  by (induction bs) (simp_all add: hex_text_def hex_byte_def)

lemma hex_byte_inj: "hex_byte c = hex_byte d \<longleftrightarrow> c = d"
proof
  assume eq: "hex_byte c = hex_byte d"
  have lt: "code x div 16 < 16" for x using code_less_256 [of x] by (simp del: code_less_256)
  from eq have "hex_digit (code c div 16) = hex_digit (code d div 16)"
    and "hex_digit (code c mod 16) = hex_digit (code d mod 16)"
    by (simp_all add: hex_byte_def)
  then have "code c div 16 = code d div 16" "code c mod 16 = code d mod 16"
    using hex_digit_props lt by (metis, metis mod_less_divisor zero_less_numeral)
  then have "code c = code d" by (metis div_mult_mod_eq)
  then show "c = d" by (simp add: code_eq_iff)
qed simp

lemma hex_text_inj: "hex_text s = hex_text t \<longleftrightarrow> s = t"
proof
  assume "hex_text s = hex_text t"
  then show "s = t"
  proof (induction s arbitrary: t)
    case Nil
    then show ?case by (cases t) (simp_all add: hex_text_def hex_byte_def)
  next
    case (Cons c s)
    then obtain d t' where t: "t = d # t'" by (cases t) (simp_all add: hex_text_def hex_byte_def)
    with Cons.prems have "hex_byte c @ hex_text s = hex_byte d @ hex_text t'"
      by (simp add: hex_text_def)
    then have "hex_byte c = hex_byte d" and "hex_text s = hex_text t'"
      by (simp_all add: hex_byte_def)
    then show ?case using Cons.IH t by (simp add: hex_byte_inj)
  qed
qed simp

lemma sha256_hexdigest_shape [simp]: "is_sha256_text (sha256_hexdigest m)"
  by (simp add: is_sha256_text_def sha256_hexdigest_def)

lemma hmac_hex_shape [simp]: "is_sha256_text (hmac_hex k m)"
  by (simp add: is_sha256_text_def hmac_hex_def)

lemma uuid5_shape:
  "length (uuid5_url name) = 36 \<and> all_chars (\<lambda>c. is_hex c \<or> c = CHR ''-'') (uuid5_url name)"
proof -
  have hex: "all_chars (\<lambda>c. is_hex c \<or> c = CHR ''-'') (hex_text bs)" for bs
    using hex_text_hex [of bs] unfolding all_chars_iff by blast
  then show ?thesis by (simp add: uuid5_url_def uuid_text_def Let_def)
qed

lemma utf8_ascii: "all_chars (\<lambda>c. code c < 128) s \<Longrightarrow> utf8 s = s"
  by (induction s) (simp_all add: utf8_def utf8_char_def)

text \<open>UTF-8 determines the text.\<close>

lemma utf8_char_cancel:
  assumes "utf8_char c @ s = utf8_char d @ t"
  shows "c = d \<and> s = t"
proof -
  have lt: "192 + code x div 64 < 256" "128 + code x mod 64 < 256" for x
    using code_less_256 [of x] by (auto simp del: code_less_256)
  have two: "code c = code d"
    if "char_of (192 + code c div 64) = (char_of (192 + code d div 64) :: char)"
      "char_of (128 + code c mod 64) = (char_of (128 + code d mod 64) :: char)"
  proof -
    from that have "code c div 64 = code d div 64" "code c mod 64 = code d mod 64"
      using lt code_char_of by (metis add_left_cancel)+
    then show ?thesis by (metis div_mult_mod_eq)
  qed
  have one: "x \<noteq> char_of (192 + code y div 64)" if "code x < 128" for x y
  proof
    assume "x = char_of (192 + code y div 64)"
    then have "code x = 192 + code y div 64" using lt(1) [of y] by simp
    with that show False by simp
  qed
  show ?thesis
  proof (cases "code c < 128"; cases "code d < 128")
    assume "code c < 128" "\<not> code d < 128"
    then show ?thesis using assms one by (simp add: utf8_char_def)
  next
    assume "\<not> code c < 128" "code d < 128"
    then show ?thesis using assms one [of d c] by (simp add: utf8_char_def)
  next
    assume "\<not> code c < 128" "\<not> code d < 128"
    then show ?thesis using assms two by (simp add: utf8_char_def code_eq_iff)
  qed (use assms in \<open>simp add: utf8_char_def\<close>)
qed

lemma utf8_char_nonempty: "utf8_char c \<noteq> []"
  by (simp add: utf8_char_def)

lemma utf8_inj: "utf8 s = utf8 t \<longleftrightarrow> s = t"
proof
  assume "utf8 s = utf8 t"
  then show "s = t"
  proof (induction s arbitrary: t)
    case Nil
    then show ?case by (cases t) (simp_all add: utf8_def utf8_char_nonempty)
  next
    case (Cons c s)
    then obtain d t' where t: "t = d # t'"
      by (cases t) (simp_all add: utf8_def utf8_char_nonempty)
    with Cons.prems have "utf8_char c @ utf8 s = utf8_char d @ utf8 t'" by (simp add: utf8_def)
    then show ?case using utf8_char_cancel Cons.IH t by blast
  qed
qed simp

end
