(* ===== verification/Hashing.thy ===== *)
theory Hashing
  imports Digests
begin

text \<open>
  \<open>hashing.py\<close>: typed digests, durable identifiers and the hash of a canonical payload.
  Shown: a digest binds its kind and its payload up to an explicit SHA-256 collision,
  computed digests satisfy the digest schema, and identifiers carry their namespace.
\<close>

section \<open>Kinds and digests\<close>

datatype HashKindV1 =
    SOURCE_BYTES | SOURCE_SPAN | SOURCE_PREPARATION | STATEMENT_SOURCE | ELABORATED_TYPE
  | ENVIRONMENT | GRAPH_SNAPSHOT | CONTRACT | PROOF_SOURCE | TRUSTED_STATEMENT
  | WORKSPACE_MANIFEST | PROOF_BOUNDARY | BUNDLE | FREEZE_EVIDENCE | VERIFICATION_REPORT
  | VERIFICATION_EVIDENCE | DEPENDENCY_MANIFEST | VERIFICATION_COMMAND
  | MODEL_EXECUTION_APPROVAL | MODEL_EXECUTION_AUTHORIZATION | ATTESTATION_PAYLOAD
  | EVENT | CONFIG | PROMPT | TOOL

fun HashKindV1_value :: "HashKindV1 \<Rightarrow> string" where
  "HashKindV1_value SOURCE_BYTES = ''source_bytes''"
| "HashKindV1_value SOURCE_SPAN = ''source_span''"
| "HashKindV1_value SOURCE_PREPARATION = ''source_preparation''"
| "HashKindV1_value STATEMENT_SOURCE = ''statement_source''"
| "HashKindV1_value ELABORATED_TYPE = ''elaborated_type''"
| "HashKindV1_value ENVIRONMENT = ''environment''"
| "HashKindV1_value GRAPH_SNAPSHOT = ''graph_snapshot''"
| "HashKindV1_value CONTRACT = ''contract''"
| "HashKindV1_value PROOF_SOURCE = ''proof_source''"
| "HashKindV1_value TRUSTED_STATEMENT = ''trusted_statement''"
| "HashKindV1_value WORKSPACE_MANIFEST = ''workspace_manifest''"
| "HashKindV1_value PROOF_BOUNDARY = ''proof_boundary''"
| "HashKindV1_value BUNDLE = ''bundle''"
| "HashKindV1_value FREEZE_EVIDENCE = ''freeze_evidence''"
| "HashKindV1_value VERIFICATION_REPORT = ''verification_report''"
| "HashKindV1_value VERIFICATION_EVIDENCE = ''verification_evidence''"
| "HashKindV1_value DEPENDENCY_MANIFEST = ''dependency_manifest''"
| "HashKindV1_value VERIFICATION_COMMAND = ''verification_command''"
| "HashKindV1_value MODEL_EXECUTION_APPROVAL = ''model_execution_approval''"
| "HashKindV1_value MODEL_EXECUTION_AUTHORIZATION = ''model_execution_authorization''"
| "HashKindV1_value ATTESTATION_PAYLOAD = ''attestation_payload''"
| "HashKindV1_value EVENT = ''event''"
| "HashKindV1_value CONFIG = ''config''"
| "HashKindV1_value PROMPT = ''prompt''"
| "HashKindV1_value TOOL = ''tool''"

record DigestV1 =
  dg_kind :: HashKindV1
  dg_value :: string

text \<open>
  Construction of a digest: the value is lower-cased before validation, stripped, and must
  match \<open>^[0-9a-f]{64}$\<close>. The fields \<open>schema_version\<close> and \<open>algorithm\<close> are constants.
\<close>

definition DigestV1_init :: "DigestV1 \<Rightarrow> DigestV1 result" where
  "DigestV1_init raw =
     (let self = raw\<lparr>dg_value := strip_ws (py_lower (dg_value raw))\<rparr>
      in if is_sha256_text (dg_value self) then Inr self
         else Inl (ValueError ''digest value pattern''))"

definition dump_DigestV1 :: "DigestV1 \<Rightarrow> json" where
  "dump_DigestV1 d = JObj
     [(''schema_version'', JStr ''1.0''), (''kind'', JStr (HashKindV1_value (dg_kind d))),
      (''algorithm'', JStr ''sha256''), (''value'', JStr (dg_value d))]"

section \<open>Identifiers\<close>

record StableIdentifierV1 =
  si_namespace :: string
  si_value :: string

definition namespace_char :: "char \<Rightarrow> bool" where
  "namespace_char c \<longleftrightarrow>
     is_lower c \<or> is_digit c \<or> c = CHR ''_'' \<or> c = CHR ''.'' \<or> c = CHR ''-''"

definition uuid_char :: "char \<Rightarrow> bool" where
  "uuid_char c \<longleftrightarrow> is_hex c \<or> c = CHR ''-''"

definition urn_prefix :: string where
  "urn_prefix = ''urn:autolean:v1:''"

text \<open>The pattern \<open>^urn:autolean:v1:[a-z0-9_.-]+:[0-9a-f-]{36}$\<close>; neither class has a colon.\<close>

definition urn_pattern :: "string \<Rightarrow> bool" where
  "urn_pattern s \<longleftrightarrow> prefix urn_prefix s \<and>
     (let body = drop (length urn_prefix) s;
          ns = takeWhile (\<lambda>c. c \<noteq> CHR '':'') body;
          rest = dropWhile (\<lambda>c. c \<noteq> CHR '':'') body
      in ns \<noteq> [] \<and> all_chars namespace_char ns \<and> length rest = 37 \<and> all_chars uuid_char (tl rest))"

definition StableIdentifierV1_init :: "StableIdentifierV1 \<Rightarrow> StableIdentifierV1 result" where
  "StableIdentifierV1_init raw =
     (let self = \<lparr>si_namespace = strip_ws (si_namespace raw), si_value = strip_ws (si_value raw)\<rparr>;
          ns = si_namespace self;
          embedded = fst (rpartition (CHR '':'') (removeprefix urn_prefix (si_value self)))
      in if ns = [] \<or> length ns > 128 then Inl (ValueError ''namespace length'')
         else if \<not> all_chars namespace_char ns then Inl (ValueError ''namespace pattern'')
         else if \<not> urn_pattern (si_value self) then Inl (ValueError ''identifier pattern'')
         else if embedded = [] \<or> embedded \<noteq> ns
           then Inl (ValueError ''identifier namespace must match'')
         else Inr self)"

definition dump_StableIdentifierV1 :: "StableIdentifierV1 \<Rightarrow> json" where
  "dump_StableIdentifierV1 i = JObj
     [(''schema_version'', JStr ''1.0''), (''namespace'', JStr (si_namespace i)),
      (''value'', JStr (si_value i))]"

section \<open>Hashing\<close>

definition canonical_json_bytes :: "json \<Rightarrow> string" where
  "canonical_json_bytes v = utf8 (canonical_json v)"

definition digest_bytes :: "HashKindV1 \<Rightarrow> string \<Rightarrow> DigestV1" where
  "digest_bytes k payload = \<lparr>dg_kind = k, dg_value = sha256_hexdigest payload\<rparr>"

definition digest_text :: "HashKindV1 \<Rightarrow> string \<Rightarrow> DigestV1" where
  "digest_text k payload = digest_bytes k (utf8 payload)"

definition digest_model :: "HashKindV1 \<Rightarrow> json \<Rightarrow> DigestV1" where
  "digest_model k v = digest_bytes k (canonical_json_bytes v)"

definition stable_identifier :: "string \<Rightarrow> string \<Rightarrow> StableIdentifierV1 result" where
  "stable_identifier namespace external_key =
     (if \<not> nonblank namespace then Inl (ValueError ''namespace must not be empty'')
      else if external_key = [] then Inl (ValueError ''external_key must not be empty'')
      else
        let normalized = replace_char (CHR '' '') ''-'' (py_lower (py_strip namespace));
            identifier = uuid5_url (''autolean:'' @ normalized @ '':'' @ external_key)
        in StableIdentifierV1_init
             \<lparr>si_namespace = normalized, si_value = urn_prefix @ normalized @ '':'' @ identifier\<rparr>)"

definition require_digest_kind :: "DigestV1 \<Rightarrow> HashKindV1 \<Rightarrow> unit result" where
  "require_digest_kind d expected =
     require (dg_kind d = expected) (ValueError ''digest kind'')"

section \<open>Binding\<close>

text \<open>Two inputs of a hash function that collide.\<close>

definition collides :: "(string \<Rightarrow> string) \<Rightarrow> string \<Rightarrow> string \<Rightarrow> bool" where
  "collides H a b \<longleftrightarrow> a \<noteq> b \<and> H a = H b"

text \<open>
  Two given JSON values whose canonical bytes collide under SHA-256. The theorems name the
  two values: that some collision exists at all is a fact of counting.
\<close>

definition json_collision :: "json \<Rightarrow> json \<Rightarrow> bool" where
  "json_collision v w \<longleftrightarrow> collides sha256_hexdigest (canonical_json_bytes v) (canonical_json_bytes w)"

text \<open>
  What a content hash promises its clients: if the preimages determine the values, equal
  hashes give equal values, unless the preimages are a collision of the hash function.
\<close>

locale hash_binding =
  fixes H :: "string \<Rightarrow> string"
    and preimage :: "'v \<Rightarrow> string"
    and norm :: "'v \<Rightarrow> 'n"
    and wf :: "'v \<Rightarrow> bool"
  assumes preimage_inj: "wf v \<Longrightarrow> wf w \<Longrightarrow> preimage v = preimage w \<Longrightarrow> norm v = norm w"
begin

lemma hash_binds:
  assumes "wf v" "wf w" "H (preimage v) = H (preimage w)"
  shows "norm v = norm w \<or> collides H (preimage v) (preimage w)"
  using assms(3) preimage_inj [OF assms(1,2)] unfolding collides_def by blast

end

lemma canonical_json_bytes_inj:
  assumes "json_wf v" "json_wf w" "canonical_json_bytes v = canonical_json_bytes w"
  shows "json_norm v = json_norm w"
proof -
  have "canonical_json v = canonical_json w"
    using assms(3) unfolding canonical_json_bytes_def utf8_inj .
  then show ?thesis using json_codec.encode_eq_iff [OF assms(1,2)] by (rule iffD1 [rotated])
qed

interpretation json_hash: hash_binding sha256_hexdigest canonical_json_bytes json_norm json_wf
  by (rule hash_binding.intro) (rule canonical_json_bytes_inj)

interpretation text_hash: hash_binding sha256_hexdigest utf8 id "\<lambda>_. True"
  by unfold_locales (simp add: utf8_inj)

lemma digest_model_simps [simp]:
  "dg_kind (digest_model k v) = k"
  "dg_value (digest_model k v) = sha256_hexdigest (canonical_json_bytes v)"
  by (simp_all add: digest_model_def digest_bytes_def)

lemma digest_text_simps [simp]:
  "dg_kind (digest_text k s) = k"
  "dg_value (digest_text k s) = sha256_hexdigest (utf8 s)"
  by (simp_all add: digest_text_def digest_bytes_def)

lemma digest_bytes_simps [simp]:
  "dg_kind (digest_bytes k s) = k" "dg_value (digest_bytes k s) = sha256_hexdigest s"
  by (simp_all add: digest_bytes_def)

lemma require_digest_kind_Inr [simp]: "require_digest_kind d k = Inr u \<longleftrightarrow> dg_kind d = k"
  by (simp add: require_digest_kind_def result_simps)

lemma HashKindV1_value_nth:
  "HashKindV1_value k = HashKindV1_value k' \<longleftrightarrow> k = k'"
proof -
  have len: "length (HashKindV1_value SOURCE_BYTES) = 12" by simp
  show ?thesis by (cases k; cases k'; simp)
qed

lemma py_lower_hex: "all_chars is_hex s \<Longrightarrow> py_lower s = s"
  by (induction s) (auto simp: py_lower_def py_lower_char_def char_class_defs)

lemma sha256_text_fixed: "is_sha256_text s \<Longrightarrow> strip_ws (py_lower s) = s"
  by (simp add: is_sha256_text_def py_lower_hex strip_ws_hex)

lemma DigestV1_init_fixed: "is_sha256_text (dg_value d) \<Longrightarrow> DigestV1_init d = Inr d"
  by (simp add: DigestV1_init_def Let_def sha256_text_fixed)

lemma DigestV1_init_Inr: "DigestV1_init raw = Inr d \<Longrightarrow> is_sha256_text (dg_value d) \<and> dg_kind d = dg_kind raw"
  by (auto simp: DigestV1_init_def Let_def split: if_splits)

lemma dump_DigestV1_inj: "json_norm (dump_DigestV1 d) = json_norm (dump_DigestV1 e) \<longleftrightarrow> d = e"
  by (auto simp: dump_DigestV1_def HashKindV1_value_nth intro: DigestV1.equality)

lemma dump_DigestV1_wf [simp]: "json_wf (dump_DigestV1 d)"
  by (simp add: dump_DigestV1_def)

lemma dump_StableIdentifierV1_wf [simp]: "json_wf (dump_StableIdentifierV1 d)"
  by (simp add: dump_StableIdentifierV1_def)

lemma dump_StableIdentifierV1_inj:
  "json_norm (dump_StableIdentifierV1 d) = json_norm (dump_StableIdentifierV1 e) \<longleftrightarrow> d = e"
  by (auto simp: dump_StableIdentifierV1_def intro: StableIdentifierV1.equality)

section \<open>Identifier construction\<close>

definition normalized_namespace :: "string \<Rightarrow> string" where
  "normalized_namespace ns = replace_char (CHR '' '') ''-'' (py_lower (py_strip ns))"

lemma replace_char_single: "replace_char c [r] s = map (\<lambda>d. if d = c then r else d) s"
  by (induction s) (simp_all add: replace_char_def)

lemma white_space_isspace: "white_space c \<Longrightarrow> py_isspace c"
  by (auto simp: white_space_def py_isspace_def)

lemma py_lower_char_space: "white_space (py_lower_char c) \<longleftrightarrow> white_space c"
  by (auto simp: white_space_def py_lower_char_def char_class_defs)

lemma normalized_namespace_map:
  "normalized_namespace ns
     = map (\<lambda>c. if py_lower_char c = CHR '' '' then CHR ''-'' else py_lower_char c) (py_strip ns)"
  by (simp add: normalized_namespace_def replace_char_single py_lower_def)

lemma normalized_namespace_empty: "normalized_namespace ns = [] \<longleftrightarrow> \<not> nonblank ns"
  by (simp add: normalized_namespace_map nonblank_def)

lemma strip_normalized_namespace [simp]: "strip_ws (normalized_namespace ns) = normalized_namespace ns"
  unfolding strip_ws_def
proof (rule strip_by_fixpoint)
  show "normalized_namespace ns = [] \<or>
    \<not> white_space (hd (normalized_namespace ns)) \<and> \<not> white_space (last (normalized_namespace ns))"
  proof (cases "py_strip ns = []")
    case False
    then have "\<not> py_isspace (hd (py_strip ns)) \<and> \<not> py_isspace (last (py_strip ns))"
      by (simp add: py_strip_def strip_by_ends)
    moreover have "\<not> white_space (CHR ''-'')" by (simp add: white_space_def)
    ultimately show ?thesis using False
      by (auto simp: normalized_namespace_map hd_map last_map py_lower_char_space
        dest: white_space_isspace)
  qed (simp add: normalized_namespace_map)
qed

lemma namespace_char_no_colon: "all_chars namespace_char s \<Longrightarrow> CHR '':'' \<notin> set s"
  by (auto simp: all_chars_iff namespace_char_def char_class_defs)

lemma uuid_no_colon: "CHR '':'' \<notin> set (uuid5_url s)"
  using uuid5_shape [of s] by (auto simp: all_chars_iff char_class_defs)

lemma rpartition_last:
  "c \<notin> set t \<Longrightarrow> rpartition c (s @ c # t) = (s, [c], t)"
proof -
  assume "c \<notin> set t"
  then have "takeWhile (\<lambda>d. d \<noteq> c) (rev t @ c # rev s) = rev t"
    by (subst takeWhile_append2) auto
  then show ?thesis by (simp add: rpartition_def Let_def)
qed

lemma strip_urn: "strip_ws (urn_prefix @ s @ CHR '':'' # uuid5_url k) = urn_prefix @ s @ CHR '':'' # uuid5_url k"
proof -
  have u: "uuid5_url k \<noteq> []"
    using uuid5_shape [of k] by auto
  then have "last (uuid5_url k) \<in> set (uuid5_url k)" by simp
  then have "\<not> white_space (last (uuid5_url k))"
    using uuid5_shape [of k] by (auto simp: all_chars_iff white_space_def char_class_defs)
  then show ?thesis unfolding strip_ws_def using u
    by (intro strip_by_fixpoint) (simp add: urn_prefix_def white_space_def)
qed

lemma urn_pattern_urn:
  assumes "CHR '':'' \<notin> set s"
  shows "urn_pattern (urn_prefix @ s @ CHR '':'' # uuid5_url k) \<longleftrightarrow> s \<noteq> [] \<and> all_chars namespace_char s"
proof -
  have "takeWhile (\<lambda>c. c \<noteq> CHR '':'') (s @ CHR '':'' # uuid5_url k) = s"
    and "dropWhile (\<lambda>c. c \<noteq> CHR '':'') (s @ CHR '':'' # uuid5_url k) = CHR '':'' # uuid5_url k"
    using assms by (subst takeWhile_append2 dropWhile_append2; auto)+
  then show ?thesis
    using uuid5_shape [of k] by (simp add: urn_pattern_def Let_def uuid_char_def [abs_def])
qed

text \<open>
  C33. The typed digest of a canonical payload binds both its kind and its payload: two
  payloads with the same \<open>digest_model\<close> have the same kind and the same canonical value,
  unless their canonical bytes are a collision of SHA-256.
\<close>

theorem digest_model_binds:
  assumes "json_wf v" "json_wf w" "digest_model k v = digest_model k' w"
  shows "k = k' \<and> (json_norm v = json_norm w
    \<or> collides sha256_hexdigest (canonical_json_bytes v) (canonical_json_bytes w))"
proof -
  have "k = k'" and "sha256_hexdigest (canonical_json_bytes v) = sha256_hexdigest (canonical_json_bytes w)"
    using arg_cong [OF assms(3), of dg_kind] arg_cong [OF assms(3), of dg_value] by simp_all
  then show ?thesis using json_hash.hash_binds [OF assms(1,2)] by blast
qed

theorem digest_model_binds_witness:
  "digest_model CONFIG (JObj [(''a'', JNull), (''b'', JInt 1)])
     = digest_model CONFIG (JObj [(''b'', JInt 1), (''a'', JNull)]) \<and>
   json_norm (JObj [(''a'', JNull), (''b'', JInt 1)]) = json_norm (JObj [(''b'', JInt 1), (''a'', JNull)])"
proof -
  let ?v = "JObj [(''a'', JNull), (''b'', JInt 1)]" and ?w = "JObj [(''b'', JInt 1), (''a'', JNull)]"
  have n: "json_norm ?v = json_norm ?w" by simp
  then have "canonical_json ?v = canonical_json ?w" using json_codec.encode_eq_iff by simp
  then have d: "digest_model CONFIG ?v = digest_model CONFIG ?w"
    by (simp add: digest_model_def canonical_json_bytes_def)
  show ?thesis using digest_model_binds [of ?v ?w, OF _ _ d] n d by simp
qed

text \<open>
  \<open>stable_identifier\<close> returns exactly when the namespace is not blank, the key is not
  empty and the normalised namespace has at most 128 characters, all of \<open>[a-z0-9_.-]\<close>;
  the identifier is then \<open>urn:autolean:v1:<namespace>:<uuid5>\<close>. In particular the schema
  of the identifier rejects nothing else that the function builds.
\<close>

theorem stable_identifier_result:
  "stable_identifier ns key = Inr i \<longleftrightarrow>
     nonblank ns \<and> key \<noteq> [] \<and> length (normalized_namespace ns) \<le> 128 \<and>
     all_chars namespace_char (normalized_namespace ns) \<and>
     i = \<lparr>si_namespace = normalized_namespace ns,
          si_value = urn_prefix @ normalized_namespace ns @ '':''
            @ uuid5_url (''autolean:'' @ normalized_namespace ns @ '':'' @ key)\<rparr>"
  using namespace_char_no_colon [of "normalized_namespace ns"]
    normalized_namespace_empty [of ns]
  by (auto simp: stable_identifier_def StableIdentifierV1_init_def Let_def
      simp flip: normalized_namespace_def
      simp: strip_urn urn_pattern_urn rpartition_last uuid_no_colon split: if_splits)

end
