(* ===== verification/Datetime.thy ===== *)
theory Datetime
  imports Json
begin

text \<open>
  Python's \<open>datetime\<close>: an instant in microseconds since the Unix epoch and the UTC offset
  in minutes, absent for a naive value (whose instant is its reading taken as UTC).
  Two aware values are compared by instant. The texts are those of \<open>isoformat\<close> and of
  pydantic's JSON mode; the calendar follows CPython's ordinal arithmetic.
\<close>

record datetime =
  dt_us :: int
  dt_tz :: "int option"

definition utc :: "int \<Rightarrow> datetime" where
  "utc us = \<lparr>dt_us = us, dt_tz = Some 0\<rparr>"

definition aware :: "datetime \<Rightarrow> bool" where
  "aware t \<longleftrightarrow> dt_tz t \<noteq> None"

text \<open>\<open>t.astimezone(UTC)\<close> of an aware value.\<close>

definition as_utc :: "datetime \<Rightarrow> datetime" where
  "as_utc t = utc (dt_us t)"

section \<open>The calendar\<close>

definition is_leap :: "int \<Rightarrow> bool" where
  "is_leap y \<longleftrightarrow> y mod 4 = 0 \<and> (y mod 100 \<noteq> 0 \<or> y mod 400 = 0)"

definition days_before_year :: "int \<Rightarrow> int" where
  "days_before_year y = (y - 1) * 365 + (y - 1) div 4 - (y - 1) div 100 + (y - 1) div 400"

definition days_before_month_table :: "int list" where
  "days_before_month_table = [0, 31, 59, 90, 120, 151, 181, 212, 243, 273, 304, 334]"

definition days_before_month :: "int \<Rightarrow> int \<Rightarrow> int" where
  "days_before_month y m =
     days_before_month_table ! nat (m - 1) + (if m > 2 \<and> is_leap y then 1 else 0)"

definition ymd2ord :: "int \<Rightarrow> int \<Rightarrow> int \<Rightarrow> int" where
  "ymd2ord y m d = days_before_year y + days_before_month y m + d"

definition month_of_yearday :: "int \<Rightarrow> int \<Rightarrow> int" where
  "month_of_yearday y n =
     (if n < days_before_month y 2 then 1 else if n < days_before_month y 3 then 2
      else if n < days_before_month y 4 then 3 else if n < days_before_month y 5 then 4
      else if n < days_before_month y 6 then 5 else if n < days_before_month y 7 then 6
      else if n < days_before_month y 8 then 7 else if n < days_before_month y 9 then 8
      else if n < days_before_month y 10 then 9 else if n < days_before_month y 11 then 10
      else if n < days_before_month y 12 then 11 else 12)"

definition ord2ymd :: "int \<Rightarrow> int \<times> int \<times> int" where
  "ord2ymd ord =
     (let n0 = ord - 1;
          n400 = n0 div 146097; r400 = n0 mod 146097;
          n100 = r400 div 36524; r100 = r400 mod 36524;
          n4 = r100 div 1461; r4 = r100 mod 1461;
          n1 = r4 div 365; r1 = r4 mod 365;
          y = n400 * 400 + 1 + n100 * 100 + n4 * 4 + n1
      in if n1 = 4 \<or> n100 = 4 then (y - 1, 12, 31)
         else let m = month_of_yearday y r1 in (y, m, r1 - days_before_month y m + 1))"

section \<open>Texts\<close>

definition pad_nat :: "nat \<Rightarrow> int \<Rightarrow> string" where
  "pad_nat w n = pad_left w (nat_text (nat n))"

definition epoch_ordinal :: int where
  "epoch_ordinal = 719163"

definition local_us :: "datetime \<Rightarrow> int" where
  "local_us t = dt_us t + (case dt_tz t of None \<Rightarrow> 0 | Some m \<Rightarrow> m * 60000000)"

definition date_time_text :: "datetime \<Rightarrow> string" where
  "date_time_text t =
     (let us = local_us t;
          s = us div 1000000;
          (y, m, d) = ord2ymd (epoch_ordinal + s div 86400);
          sec = s mod 86400
      in pad_nat 4 y @ ''-'' @ pad_nat 2 m @ ''-'' @ pad_nat 2 d @ ''T''
         @ pad_nat 2 (sec div 3600) @ '':'' @ pad_nat 2 (sec div 60 mod 60) @ '':''
         @ pad_nat 2 (sec mod 60))"

definition micros_text :: "datetime \<Rightarrow> string" where
  "micros_text t = ''.'' @ pad_nat 6 (local_us t mod 1000000)"

definition offset_text :: "int \<Rightarrow> string" where
  "offset_text m =
     (if m < 0 then ''-'' else ''+'') @ pad_nat 2 (\<bar>m\<bar> div 60) @ '':'' @ pad_nat 2 (\<bar>m\<bar> mod 60)"

definition optional_micros :: "datetime \<Rightarrow> string" where
  "optional_micros t = (if local_us t mod 1000000 = 0 then [] else micros_text t)"

text \<open>\<open>t.isoformat()\<close>.\<close>

definition isoformat :: "datetime \<Rightarrow> string" where
  "isoformat t = date_time_text t @ optional_micros t
     @ (case dt_tz t of None \<Rightarrow> [] | Some m \<Rightarrow> offset_text m)"

text \<open>\<open>t.astimezone(UTC).isoformat(timespec="microseconds").replace("+00:00", "Z")\<close>.\<close>

definition utc_micros_text :: "datetime \<Rightarrow> string" where
  "utc_micros_text t = date_time_text (as_utc t) @ micros_text (as_utc t) @ ''Z''"

text \<open>How a \<open>datetime\<close> field appears in \<open>model_dump(mode="json")\<close>.\<close>

definition dump_datetime :: "datetime \<Rightarrow> json" where
  "dump_datetime t = JStr (date_time_text t @ optional_micros t
     @ (case dt_tz t of None \<Rightarrow> [] | Some m \<Rightarrow> if m = 0 then ''Z'' else offset_text m))"

lemma aware_utc [simp]: "aware (utc us)" "dt_us (utc us) = us"
  by (simp_all add: aware_def utc_def)

lemma as_utc_simps [simp]: "aware (as_utc t)" "dt_us (as_utc t) = dt_us t"
  by (simp_all add: as_utc_def)

end
