(* ===== verification/Graphs.thy ===== *)
theory Graphs
  imports Base Hashing Datetime "HOL-Library.While_Combinator"
begin

text \<open>
  \<open>graphs.py\<close>: the mathematical, formal and execution graphs of a task and their alignment.
  \<open>validate_graph\<close> is Kahn's algorithm as the source runs it, with its in-degree table,
  work queue and visited counter. Shown: it terminates and accepts exactly the graphs with
  unique identifiers, known endpoints, no self-loops and (unless cycles are allowed) no
  cycle; the classes accept exactly the structures their validators describe.
\<close>

section \<open>Kinds and elements\<close>

datatype MathematicalNodeKindV1 =
    MNK_DEFINITION | MNK_THEOREM | MNK_LEMMA | MNK_EXAMPLE
  | MNK_NOTATION | MNK_CONVENTION

fun MathematicalNodeKindV1_value :: "MathematicalNodeKindV1 \<Rightarrow> string" where
  "MathematicalNodeKindV1_value MNK_DEFINITION = ''definition''"
| "MathematicalNodeKindV1_value MNK_THEOREM = ''theorem''"
| "MathematicalNodeKindV1_value MNK_LEMMA = ''lemma''"
| "MathematicalNodeKindV1_value MNK_EXAMPLE = ''example''"
| "MathematicalNodeKindV1_value MNK_NOTATION = ''notation''"
| "MathematicalNodeKindV1_value MNK_CONVENTION = ''convention''"

lemma MathematicalNodeKindV1_value_inj [simp]: "MathematicalNodeKindV1_value a = MathematicalNodeKindV1_value b \<longleftrightarrow> a = b"
  by (cases a; cases b; simp)

datatype MathematicalEdgeKindV1 =
    MEK_USES | MEK_DEFINES | MEK_SPECIALIZES | MEK_EQUIVALENT_TO
  | MEK_MOTIVATES

fun MathematicalEdgeKindV1_value :: "MathematicalEdgeKindV1 \<Rightarrow> string" where
  "MathematicalEdgeKindV1_value MEK_USES = ''uses''"
| "MathematicalEdgeKindV1_value MEK_DEFINES = ''defines''"
| "MathematicalEdgeKindV1_value MEK_SPECIALIZES = ''specializes''"
| "MathematicalEdgeKindV1_value MEK_EQUIVALENT_TO = ''equivalent_to''"
| "MathematicalEdgeKindV1_value MEK_MOTIVATES = ''motivates''"

lemma MathematicalEdgeKindV1_value_inj [simp]: "MathematicalEdgeKindV1_value a = MathematicalEdgeKindV1_value b \<longleftrightarrow> a = b"
  by (cases a; cases b; simp)

datatype FormalNodeKindV1 =
    FNK_DEFINITION | FNK_THEOREM | FNK_INSTANCE | FNK_NOTATION
  | FNK_IMPORT

fun FormalNodeKindV1_value :: "FormalNodeKindV1 \<Rightarrow> string" where
  "FormalNodeKindV1_value FNK_DEFINITION = ''definition''"
| "FormalNodeKindV1_value FNK_THEOREM = ''theorem''"
| "FormalNodeKindV1_value FNK_INSTANCE = ''instance''"
| "FormalNodeKindV1_value FNK_NOTATION = ''notation''"
| "FormalNodeKindV1_value FNK_IMPORT = ''import''"

lemma FormalNodeKindV1_value_inj [simp]: "FormalNodeKindV1_value a = FormalNodeKindV1_value b \<longleftrightarrow> a = b"
  by (cases a; cases b; simp)

datatype FormalEdgeKindV1 =
    FEK_SIGNATURE_DEPENDS_ON | FEK_BODY_DEPENDS_ON | FEK_IMPORTS | FEK_INSTANCE_DEPENDS_ON

fun FormalEdgeKindV1_value :: "FormalEdgeKindV1 \<Rightarrow> string" where
  "FormalEdgeKindV1_value FEK_SIGNATURE_DEPENDS_ON = ''signature_depends_on''"
| "FormalEdgeKindV1_value FEK_BODY_DEPENDS_ON = ''body_depends_on''"
| "FormalEdgeKindV1_value FEK_IMPORTS = ''imports''"
| "FormalEdgeKindV1_value FEK_INSTANCE_DEPENDS_ON = ''instance_depends_on''"

lemma FormalEdgeKindV1_value_inj [simp]: "FormalEdgeKindV1_value a = FormalEdgeKindV1_value b \<longleftrightarrow> a = b"
  by (cases a; cases b; simp)

datatype ExecutionNodeKindV1 =
    ENK_INGEST | ENK_RIGHTS_REVIEW | ENK_NORMALIZE | ENK_FORMALIZE
  | ENK_FIDELITY_REVIEW | ENK_PROVE | ENK_VERIFY | ENK_INTEGRATE

fun ExecutionNodeKindV1_value :: "ExecutionNodeKindV1 \<Rightarrow> string" where
  "ExecutionNodeKindV1_value ENK_INGEST = ''ingest''"
| "ExecutionNodeKindV1_value ENK_RIGHTS_REVIEW = ''rights_review''"
| "ExecutionNodeKindV1_value ENK_NORMALIZE = ''normalize''"
| "ExecutionNodeKindV1_value ENK_FORMALIZE = ''formalize''"
| "ExecutionNodeKindV1_value ENK_FIDELITY_REVIEW = ''fidelity_review''"
| "ExecutionNodeKindV1_value ENK_PROVE = ''prove''"
| "ExecutionNodeKindV1_value ENK_VERIFY = ''verify''"
| "ExecutionNodeKindV1_value ENK_INTEGRATE = ''integrate''"

lemma ExecutionNodeKindV1_value_inj [simp]: "ExecutionNodeKindV1_value a = ExecutionNodeKindV1_value b \<longleftrightarrow> a = b"
  by (cases a; cases b; simp)

datatype ExecutionEdgeKindV1 =
    EEK_BLOCKED_BY | EEK_PRODUCES | EEK_RETRY_OF | EEK_SUPERSEDES

fun ExecutionEdgeKindV1_value :: "ExecutionEdgeKindV1 \<Rightarrow> string" where
  "ExecutionEdgeKindV1_value EEK_BLOCKED_BY = ''blocked_by''"
| "ExecutionEdgeKindV1_value EEK_PRODUCES = ''produces''"
| "ExecutionEdgeKindV1_value EEK_RETRY_OF = ''retry_of''"
| "ExecutionEdgeKindV1_value EEK_SUPERSEDES = ''supersedes''"

lemma ExecutionEdgeKindV1_value_inj [simp]: "ExecutionEdgeKindV1_value a = ExecutionEdgeKindV1_value b \<longleftrightarrow> a = b"
  by (cases a; cases b; simp)

record MathematicalNodeV1 =
  mn_node_id :: StableIdentifierV1
  mn_kind :: MathematicalNodeKindV1
  mn_label :: string
  mn_source_span_ids :: "StableIdentifierV1 list"
  mn_metadata :: json_object

definition MathematicalNodeV1_strip :: "MathematicalNodeV1 \<Rightarrow> MathematicalNodeV1" where
  "MathematicalNodeV1_strip x = x\<lparr>mn_label := strip_ws (mn_label x),
     mn_metadata := strip_keys (mn_metadata x)\<rparr>"

definition dump_MathematicalNodeV1 :: "MathematicalNodeV1 \<Rightarrow> json" where
  "dump_MathematicalNodeV1 x = JObj
     [(''node_id'', dump_StableIdentifierV1 (mn_node_id x)),
      (''kind'', JStr (MathematicalNodeKindV1_value (mn_kind x))),
      (''label'', JStr (mn_label x)),
      (''source_span_ids'', JList (map dump_StableIdentifierV1 (mn_source_span_ids x))),
      (''metadata'', JObj (mn_metadata x))]"

definition MathematicalNodeV1_guards :: "MathematicalNodeV1 \<Rightarrow> checks" where
  "MathematicalNodeV1_guards x = [((mn_label x) \<noteq> [], ''label min_length'')]"

definition MathematicalNodeV1_init :: "MathematicalNodeV1 \<Rightarrow> MathematicalNodeV1 result" where
  "MathematicalNodeV1_init = construct MathematicalNodeV1_strip MathematicalNodeV1_guards"

interpretation mn_model: contract_model MathematicalNodeV1_strip MathematicalNodeV1_guards
  by unfold_locales (simp add: MathematicalNodeV1_strip_def)

record MathematicalEdgeV1 =
  me_edge_id :: StableIdentifierV1
  me_source :: StableIdentifierV1
  me_target :: StableIdentifierV1
  me_kind :: MathematicalEdgeKindV1

definition dump_MathematicalEdgeV1 :: "MathematicalEdgeV1 \<Rightarrow> json" where
  "dump_MathematicalEdgeV1 x = JObj
     [(''edge_id'', dump_StableIdentifierV1 (me_edge_id x)),
      (''source'', dump_StableIdentifierV1 (me_source x)),
      (''target'', dump_StableIdentifierV1 (me_target x)),
      (''kind'', JStr (MathematicalEdgeKindV1_value (me_kind x)))]"

definition MathematicalEdgeV1_guards :: "MathematicalEdgeV1 \<Rightarrow> checks" where
  "MathematicalEdgeV1_guards x = []"

definition MathematicalEdgeV1_init :: "MathematicalEdgeV1 \<Rightarrow> MathematicalEdgeV1 result" where
  "MathematicalEdgeV1_init = construct id MathematicalEdgeV1_guards"

interpretation me_model: contract_model id MathematicalEdgeV1_guards
  by unfold_locales simp

record FormalNodeV1 =
  fn_node_id :: StableIdentifierV1
  fn_kind :: FormalNodeKindV1
  fn_declaration_name :: string
  fn_metadata :: json_object

definition FormalNodeV1_strip :: "FormalNodeV1 \<Rightarrow> FormalNodeV1" where
  "FormalNodeV1_strip x = x\<lparr>fn_declaration_name := strip_ws (fn_declaration_name x),
     fn_metadata := strip_keys (fn_metadata x)\<rparr>"

definition dump_FormalNodeV1 :: "FormalNodeV1 \<Rightarrow> json" where
  "dump_FormalNodeV1 x = JObj
     [(''node_id'', dump_StableIdentifierV1 (fn_node_id x)),
      (''kind'', JStr (FormalNodeKindV1_value (fn_kind x))),
      (''declaration_name'', JStr (fn_declaration_name x)),
      (''metadata'', JObj (fn_metadata x))]"

definition FormalNodeV1_guards :: "FormalNodeV1 \<Rightarrow> checks" where
  "FormalNodeV1_guards x = [((fn_declaration_name x) \<noteq> [], ''declaration_name min_length'')]"

definition FormalNodeV1_init :: "FormalNodeV1 \<Rightarrow> FormalNodeV1 result" where
  "FormalNodeV1_init = construct FormalNodeV1_strip FormalNodeV1_guards"

interpretation fn_model: contract_model FormalNodeV1_strip FormalNodeV1_guards
  by unfold_locales (simp add: FormalNodeV1_strip_def)

record FormalEdgeV1 =
  fe_edge_id :: StableIdentifierV1
  fe_source :: StableIdentifierV1
  fe_target :: StableIdentifierV1
  fe_kind :: FormalEdgeKindV1

definition dump_FormalEdgeV1 :: "FormalEdgeV1 \<Rightarrow> json" where
  "dump_FormalEdgeV1 x = JObj
     [(''edge_id'', dump_StableIdentifierV1 (fe_edge_id x)),
      (''source'', dump_StableIdentifierV1 (fe_source x)),
      (''target'', dump_StableIdentifierV1 (fe_target x)),
      (''kind'', JStr (FormalEdgeKindV1_value (fe_kind x)))]"

definition FormalEdgeV1_guards :: "FormalEdgeV1 \<Rightarrow> checks" where
  "FormalEdgeV1_guards x = []"

definition FormalEdgeV1_init :: "FormalEdgeV1 \<Rightarrow> FormalEdgeV1 result" where
  "FormalEdgeV1_init = construct id FormalEdgeV1_guards"

interpretation fe_model: contract_model id FormalEdgeV1_guards
  by unfold_locales simp

record ExecutionNodeV1 =
  en_node_id :: StableIdentifierV1
  en_kind :: ExecutionNodeKindV1
  en_label :: string
  en_metadata :: json_object

definition ExecutionNodeV1_strip :: "ExecutionNodeV1 \<Rightarrow> ExecutionNodeV1" where
  "ExecutionNodeV1_strip x = x\<lparr>en_label := strip_ws (en_label x),
     en_metadata := strip_keys (en_metadata x)\<rparr>"

definition dump_ExecutionNodeV1 :: "ExecutionNodeV1 \<Rightarrow> json" where
  "dump_ExecutionNodeV1 x = JObj
     [(''node_id'', dump_StableIdentifierV1 (en_node_id x)),
      (''kind'', JStr (ExecutionNodeKindV1_value (en_kind x))),
      (''label'', JStr (en_label x)),
      (''metadata'', JObj (en_metadata x))]"

definition ExecutionNodeV1_guards :: "ExecutionNodeV1 \<Rightarrow> checks" where
  "ExecutionNodeV1_guards x = [((en_label x) \<noteq> [], ''label min_length'')]"

definition ExecutionNodeV1_init :: "ExecutionNodeV1 \<Rightarrow> ExecutionNodeV1 result" where
  "ExecutionNodeV1_init = construct ExecutionNodeV1_strip ExecutionNodeV1_guards"

interpretation en_model: contract_model ExecutionNodeV1_strip ExecutionNodeV1_guards
  by unfold_locales (simp add: ExecutionNodeV1_strip_def)

record ExecutionEdgeV1 =
  ee_edge_id :: StableIdentifierV1
  ee_source :: StableIdentifierV1
  ee_target :: StableIdentifierV1
  ee_kind :: ExecutionEdgeKindV1

definition dump_ExecutionEdgeV1 :: "ExecutionEdgeV1 \<Rightarrow> json" where
  "dump_ExecutionEdgeV1 x = JObj
     [(''edge_id'', dump_StableIdentifierV1 (ee_edge_id x)),
      (''source'', dump_StableIdentifierV1 (ee_source x)),
      (''target'', dump_StableIdentifierV1 (ee_target x)),
      (''kind'', JStr (ExecutionEdgeKindV1_value (ee_kind x)))]"

definition ExecutionEdgeV1_guards :: "ExecutionEdgeV1 \<Rightarrow> checks" where
  "ExecutionEdgeV1_guards x = []"

definition ExecutionEdgeV1_init :: "ExecutionEdgeV1 \<Rightarrow> ExecutionEdgeV1 result" where
  "ExecutionEdgeV1_init = construct id ExecutionEdgeV1_guards"

interpretation ee_model: contract_model id ExecutionEdgeV1_guards
  by unfold_locales simp

section \<open>Graph validation\<close>

text \<open>
  The function is applied to nodes and edges of any of the three graphs; it reads their
  identifier values only. An edge is its identifier, its source and its target.
\<close>

type_synonym edge = "string \<times> string \<times> string"

type_synonym adjacency = "string \<Rightarrow> string list"

type_synonym indegree = "string \<Rightarrow> int"

fun add_edges :: "string list \<Rightarrow> edge list \<Rightarrow> adjacency \<Rightarrow> indegree \<Rightarrow> (adjacency \<times> indegree) result" where
  "add_edges known [] adj ind = Inr (adj, ind)"
| "add_edges known ((i, s, t) # es) adj ind =
     (if s \<notin> set known \<or> t \<notin> set known
        then Inl (ValueError ''every graph edge endpoint must reference a graph node'')
      else if s = t then Inl (ValueError ''self-referential graph edges are not allowed'')
      else add_edges known es (adj(s := adj s @ [t])) (ind(t := ind t + 1)))"

text \<open>The inner loop: every target loses one incoming edge and is queued when none is left.\<close>

fun release_targets :: "string list \<Rightarrow> indegree \<Rightarrow> string list \<Rightarrow> indegree \<times> string list" where
  "release_targets [] ind queue = (ind, queue)"
| "release_targets (t # ts) ind queue =
     release_targets ts (ind(t := ind t - 1)) (if ind t - 1 = 0 then queue @ [t] else queue)"

definition kahn_step ::
  "adjacency \<Rightarrow> indegree \<times> string list \<times> nat \<Rightarrow> indegree \<times> string list \<times> nat" where
  "kahn_step adj = (\<lambda>(ind, queue, visited).
     case release_targets (adj (hd queue)) ind (tl queue) of
       (ind', queue') \<Rightarrow> (ind', queue', visited + 1))"

definition kahn_visited :: "adjacency \<Rightarrow> indegree \<Rightarrow> string list \<Rightarrow> nat option" where
  "kahn_visited adj ind queue =
     map_option (\<lambda>(ind, queue, visited). visited)
       (while_option (\<lambda>(ind, queue, visited). queue \<noteq> []) (kahn_step adj) (ind, queue, 0))"

text \<open>The \<open>None\<close> branch is a loop that never ends; it is shown not to occur.\<close>

definition validate_graph :: "string list \<Rightarrow> edge list \<Rightarrow> bool \<Rightarrow> unit result" where
  "validate_graph node_ids edges allow_cycles =
     (if length node_ids \<noteq> card (set node_ids)
        then Inl (ValueError ''graph node identifiers must be unique'')
      else if length (map fst edges) \<noteq> card (set (map fst edges))
        then Inl (ValueError ''graph edge identifiers must be unique'')
      else bindE (add_edges node_ids edges (\<lambda>_. []) (\<lambda>_. 0)) (\<lambda>(adj, ind).
        if allow_cycles then Inr ()
        else case kahn_visited adj ind (filter (\<lambda>n. ind n = 0) node_ids) of
               None \<Rightarrow> Inl (RuntimeError ''diverges'')
             | Some visited \<Rightarrow>
                 require (visited = length node_ids) (ValueError ''dependency graph must be acyclic'')))"

definition graph_ok :: "string list \<Rightarrow> edge list \<Rightarrow> bool \<Rightarrow> bool" where
  "graph_ok ids es allow \<longleftrightarrow> validate_graph ids es allow = Inr ()"

section \<open>Graphs\<close>

definition math_edge :: "MathematicalEdgeV1 \<Rightarrow> edge" where
  "math_edge e = (si_value (me_edge_id e), si_value (me_source e), si_value (me_target e))"

definition formal_edge :: "FormalEdgeV1 \<Rightarrow> edge" where
  "formal_edge e = (si_value (fe_edge_id e), si_value (fe_source e), si_value (fe_target e))"

definition execution_edge :: "ExecutionEdgeV1 \<Rightarrow> edge" where
  "execution_edge e = (si_value (ee_edge_id e), si_value (ee_source e), si_value (ee_target e))"

definition is_dependency :: "MathematicalEdgeV1 \<Rightarrow> bool" where
  "is_dependency e \<longleftrightarrow> me_kind e \<notin> {MEK_EQUIVALENT_TO, MEK_MOTIVATES}"

record MathematicalGraphV1 =
  mg_graph_id :: StableIdentifierV1
  mg_revision :: int
  mg_nodes :: "MathematicalNodeV1 list"
  mg_edges :: "MathematicalEdgeV1 list"

definition dump_MathematicalGraphV1 :: "MathematicalGraphV1 \<Rightarrow> json" where
  "dump_MathematicalGraphV1 x = JObj
     [(''schema_version'', JStr ''1.0''),
      (''graph_id'', dump_StableIdentifierV1 (mg_graph_id x)),
      (''revision'', JInt (mg_revision x)),
      (''nodes'', JList (map dump_MathematicalNodeV1 (mg_nodes x))),
      (''edges'', JList (map dump_MathematicalEdgeV1 (mg_edges x)))]"

definition MathematicalGraphV1_guards :: "MathematicalGraphV1 \<Rightarrow> checks" where
  "MathematicalGraphV1_guards x = [((mg_revision x) \<ge> 1, ''revision ge''),
     (graph_ok (map (si_value \<circ> mn_node_id) (mg_nodes x)) (map math_edge (mg_edges x)) True, ''graph structure''),
     (graph_ok (map (si_value \<circ> mn_node_id) (mg_nodes x)) (map math_edge (filter is_dependency (mg_edges x))) False, ''dependency graph'')]"

definition MathematicalGraphV1_init :: "MathematicalGraphV1 \<Rightarrow> MathematicalGraphV1 result" where
  "MathematicalGraphV1_init = construct id MathematicalGraphV1_guards"

interpretation mg_model: contract_model id MathematicalGraphV1_guards
  by unfold_locales simp

record FormalGraphV1 =
  fg_graph_id :: StableIdentifierV1
  fg_revision :: int
  fg_nodes :: "FormalNodeV1 list"
  fg_edges :: "FormalEdgeV1 list"

definition dump_FormalGraphV1 :: "FormalGraphV1 \<Rightarrow> json" where
  "dump_FormalGraphV1 x = JObj
     [(''schema_version'', JStr ''1.0''),
      (''graph_id'', dump_StableIdentifierV1 (fg_graph_id x)),
      (''revision'', JInt (fg_revision x)),
      (''nodes'', JList (map dump_FormalNodeV1 (fg_nodes x))),
      (''edges'', JList (map dump_FormalEdgeV1 (fg_edges x)))]"

definition FormalGraphV1_guards :: "FormalGraphV1 \<Rightarrow> checks" where
  "FormalGraphV1_guards x = [((fg_revision x) \<ge> 1, ''revision ge''),
     (graph_ok (map (si_value \<circ> fn_node_id) (fg_nodes x)) (map formal_edge (fg_edges x)) False, ''graph structure'')]"

definition FormalGraphV1_init :: "FormalGraphV1 \<Rightarrow> FormalGraphV1 result" where
  "FormalGraphV1_init = construct id FormalGraphV1_guards"

interpretation fg_model: contract_model id FormalGraphV1_guards
  by unfold_locales simp

record ExecutionGraphV1 =
  eg_graph_id :: StableIdentifierV1
  eg_revision :: int
  eg_nodes :: "ExecutionNodeV1 list"
  eg_edges :: "ExecutionEdgeV1 list"

definition dump_ExecutionGraphV1 :: "ExecutionGraphV1 \<Rightarrow> json" where
  "dump_ExecutionGraphV1 x = JObj
     [(''schema_version'', JStr ''1.0''),
      (''graph_id'', dump_StableIdentifierV1 (eg_graph_id x)),
      (''revision'', JInt (eg_revision x)),
      (''nodes'', JList (map dump_ExecutionNodeV1 (eg_nodes x))),
      (''edges'', JList (map dump_ExecutionEdgeV1 (eg_edges x)))]"

definition ExecutionGraphV1_guards :: "ExecutionGraphV1 \<Rightarrow> checks" where
  "ExecutionGraphV1_guards x = [((eg_revision x) \<ge> 1, ''revision ge''),
     (graph_ok (map (si_value \<circ> en_node_id) (eg_nodes x)) (map execution_edge (eg_edges x)) False, ''graph structure'')]"

definition ExecutionGraphV1_init :: "ExecutionGraphV1 \<Rightarrow> ExecutionGraphV1 result" where
  "ExecutionGraphV1_init = construct id ExecutionGraphV1_guards"

interpretation eg_model: contract_model id ExecutionGraphV1_guards
  by unfold_locales simp

datatype AlignmentRelationV1 =
    AR_FORMALIZES | AR_DEFINES | AR_SUPPORTS | AR_APPROXIMATES

fun AlignmentRelationV1_value :: "AlignmentRelationV1 \<Rightarrow> string" where
  "AlignmentRelationV1_value AR_FORMALIZES = ''formalizes''"
| "AlignmentRelationV1_value AR_DEFINES = ''defines''"
| "AlignmentRelationV1_value AR_SUPPORTS = ''supports''"
| "AlignmentRelationV1_value AR_APPROXIMATES = ''approximates''"

lemma AlignmentRelationV1_value_inj [simp]: "AlignmentRelationV1_value a = AlignmentRelationV1_value b \<longleftrightarrow> a = b"
  by (cases a; cases b; simp)

record CrossGraphAlignmentV1 =
  ca_alignment_id :: StableIdentifierV1
  ca_mathematical_node_id :: StableIdentifierV1
  ca_formal_node_id :: StableIdentifierV1
  ca_relation :: AlignmentRelationV1
  ca_source_span_ids :: "StableIdentifierV1 list"
  ca_confidence :: string
  ca_reviewer_id :: "string option"

definition CrossGraphAlignmentV1_strip :: "CrossGraphAlignmentV1 \<Rightarrow> CrossGraphAlignmentV1" where
  "CrossGraphAlignmentV1_strip x = x\<lparr>ca_reviewer_id := map_option strip_ws (ca_reviewer_id x)\<rparr>"

definition dump_CrossGraphAlignmentV1 :: "CrossGraphAlignmentV1 \<Rightarrow> json" where
  "dump_CrossGraphAlignmentV1 x = JObj
     [(''alignment_id'', dump_StableIdentifierV1 (ca_alignment_id x)),
      (''mathematical_node_id'', dump_StableIdentifierV1 (ca_mathematical_node_id x)),
      (''formal_node_id'', dump_StableIdentifierV1 (ca_formal_node_id x)),
      (''relation'', JStr (AlignmentRelationV1_value (ca_relation x))),
      (''source_span_ids'', JList (map dump_StableIdentifierV1 (ca_source_span_ids x))),
      (''confidence'', JFloat (ca_confidence x)),
      (''reviewer_id'', JOpt JStr (ca_reviewer_id x))]"

definition CrossGraphAlignmentV1_guards :: "CrossGraphAlignmentV1 \<Rightarrow> checks" where
  "CrossGraphAlignmentV1_guards x = [(float_ge_zero (ca_confidence x), ''confidence ge''),
     (float_le_one (ca_confidence x), ''confidence le'')]"

definition CrossGraphAlignmentV1_init :: "CrossGraphAlignmentV1 \<Rightarrow> CrossGraphAlignmentV1 result" where
  "CrossGraphAlignmentV1_init = construct CrossGraphAlignmentV1_strip CrossGraphAlignmentV1_guards"

interpretation ca_model: contract_model CrossGraphAlignmentV1_strip CrossGraphAlignmentV1_guards
  by unfold_locales (simp add: CrossGraphAlignmentV1_strip_def)

record GraphBundleV1 =
  gb_mathematical :: MathematicalGraphV1
  gb_formal :: FormalGraphV1
  gb_execution :: ExecutionGraphV1
  gb_alignments :: "CrossGraphAlignmentV1 list"

definition dump_GraphBundleV1 :: "GraphBundleV1 \<Rightarrow> json" where
  "dump_GraphBundleV1 x = JObj
     [(''schema_version'', JStr ''1.0''),
      (''mathematical'', dump_MathematicalGraphV1 (gb_mathematical x)),
      (''formal'', dump_FormalGraphV1 (gb_formal x)),
      (''execution'', dump_ExecutionGraphV1 (gb_execution x)),
      (''alignments'', JList (map dump_CrossGraphAlignmentV1 (gb_alignments x)))]"

definition GraphBundleV1_guards :: "GraphBundleV1 \<Rightarrow> checks" where
  "GraphBundleV1_guards x = [(distinct (map (si_value \<circ> ca_alignment_id) (gb_alignments x)), ''alignment identifiers must be unique''),
     (\<forall>a \<in> set (gb_alignments x). si_value (ca_mathematical_node_id a) \<in> set (map (si_value \<circ> mn_node_id) (mg_nodes (gb_mathematical x))) \<and> si_value (ca_formal_node_id a) \<in> set (map (si_value \<circ> fn_node_id) (fg_nodes (gb_formal x))), ''alignment references an unknown node'')]"

definition GraphBundleV1_init :: "GraphBundleV1 \<Rightarrow> GraphBundleV1 result" where
  "GraphBundleV1_init = construct id GraphBundleV1_guards"

interpretation gb_model: contract_model id GraphBundleV1_guards
  by unfold_locales simp

section \<open>Correctness of the validation\<close>

definition edge_rel :: "edge list \<Rightarrow> (string \<times> string) set" where
  "edge_rel es = snd ` set es"

definition edges_known :: "string list \<Rightarrow> edge list \<Rightarrow> bool" where
  "edges_known ids es \<longleftrightarrow> (\<forall>(i, s, t) \<in> set es. s \<in> set ids \<and> t \<in> set ids \<and> s \<noteq> t)"

definition targets_of :: "edge list \<Rightarrow> string \<Rightarrow> string list" where
  "targets_of es s = map (\<lambda>e. snd (snd e)) (filter (\<lambda>e. fst (snd e) = s) es)"

definition pending :: "edge list \<Rightarrow> string set \<Rightarrow> string \<Rightarrow> nat" where
  "pending es ps t = length (filter (\<lambda>e. snd (snd e) = t \<and> fst (snd e) \<notin> ps) es)"

lemma length_neq_card: "length xs \<noteq> card (set xs) \<longleftrightarrow> \<not> distinct xs"
  by (metis card_distinct distinct_card)

lemma edges_known_Cons:
  "edges_known ids ((i, s, t) # es) \<longleftrightarrow> s \<in> set ids \<and> t \<in> set ids \<and> s \<noteq> t \<and> edges_known ids es"
  by (auto simp: edges_known_def)

lemma targets_of_Cons: "targets_of ((i, s, t) # es) s' = (if s' = s then t # targets_of es s' else targets_of es s')"
  by (simp add: targets_of_def)

lemma pending_Cons:
  "pending ((i, s, t) # es) ps t' = (if t' = t \<and> s \<notin> ps then 1 else 0) + pending es ps t'"
  by (simp add: pending_def)

lemma add_edges_known:
  "edges_known ids es \<Longrightarrow> add_edges ids es adj ind
     = Inr (\<lambda>s. adj s @ targets_of es s, \<lambda>t. ind t + int (pending es {} t))"
proof (induction ids es adj ind rule: add_edges.induct)
  case (1 known adj ind)
  then show ?case by (simp add: targets_of_def pending_def)
next
  case (2 known i s t es adj ind)
  then show ?case
    by (auto simp: edges_known_Cons targets_of_Cons pending_Cons fun_eq_iff fun_upd_def)
qed

lemma add_edges_unknown: "\<not> edges_known ids es \<Longrightarrow> \<exists>m. add_edges ids es adj ind = Inl (ValueError m)"
proof (induction ids es adj ind rule: add_edges.induct)
  case (1 known adj ind)
  then show ?case by (simp add: edges_known_def)
next
  case (2 known i s t es adj ind)
  then show ?case by (auto simp: edges_known_Cons fun_upd_def)
qed

subsection \<open>One turn of the work loop\<close>

lemma release_targets_spec:
  assumes "\<And>t. int (count_list ts t) \<le> ind t"
  shows "\<exists>new. release_targets ts ind queue = (\<lambda>t. ind t - int (count_list ts t), queue @ new) \<and>
    distinct new \<and> set new = {t \<in> set ts. ind t = int (count_list ts t)}"
  using assms
proof (induction ts arbitrary: ind queue)
  case Nil
  then show ?case by simp
next
  case (Cons t ts)
  let ?ind = "ind(t := ind t - 1)"
  let ?q = "if ind t - 1 = 0 then queue @ [t] else queue"
  have le: "int (count_list ts u) \<le> ?ind u" for u
    using Cons.prems [of u] by (auto split: if_splits)
  obtain new where new:
    "release_targets ts ?ind ?q = (\<lambda>u. ?ind u - int (count_list ts u), ?q @ new)"
    "distinct new" "set new = {u \<in> set ts. ?ind u = int (count_list ts u)}"
    using Cons.IH [of ?ind ?q, OF le] by blast
  have ind: "(\<lambda>u. ?ind u - int (count_list ts u)) = (\<lambda>u. ind u - int (count_list (t # ts) u))"
    by auto
  show ?case
  proof (cases "ind t - 1 = 0")
    case True
    then have "count_list ts t = 0" using le [of t] by simp
    then have "t \<notin> set ts" by (simp add: count_list_0_iff)
    have "set (t # new) = {u \<in> set (t # ts). ind u = int (count_list (t # ts) u)}"
      using \<open>t \<notin> set ts\<close> \<open>count_list ts t = 0\<close> True by (auto simp: new(3))
    moreover have "distinct (t # new)" using \<open>t \<notin> set ts\<close> new(2) by (simp add: new(3))
    moreover have "release_targets (t # ts) ind queue = (\<lambda>u. ind u - int (count_list (t # ts) u), queue @ (t # new))"
      using new(1) True unfolding ind by simp
    ultimately show ?thesis by blast
  next
    case False
    then have "set new = {u \<in> set (t # ts). ind u = int (count_list (t # ts) u)}"
      unfolding new(3) using le [of t] by (auto simp: count_list_0_iff)
    then show ?thesis using new False ind by (intro exI [of _ new]) auto
  qed
qed

lemma pending_step:
  assumes "n \<notin> ps"
  shows "pending es ps t = pending es (insert n ps) t + count_list (targets_of es n) t"
  using assms by (induction es) (auto simp: pending_def targets_of_def)

lemma targets_set: "t \<in> set (targets_of es n) \<longleftrightarrow> (n, t) \<in> edge_rel es"
  by (force simp: targets_of_def edge_rel_def)

lemma pending_zero: "pending es ps t = 0 \<longleftrightarrow> (\<forall>s. (s, t) \<in> edge_rel es \<longrightarrow> s \<in> ps)"
  by (force simp: pending_def edge_rel_def filter_empty_conv)

text \<open>
  What holds at the head of the loop when the nodes \<open>ps\<close> have been processed: the table
  counts the edges from unprocessed nodes, and a node is processed or queued exactly when
  none is left; every processed node comes after its predecessors.
\<close>

definition kahn_inv :: "string list \<Rightarrow> edge list \<Rightarrow> string list \<Rightarrow> indegree \<times> string list \<times> nat \<Rightarrow> bool" where
  "kahn_inv ids es ps = (\<lambda>(ind, queue, visited).
     distinct (ps @ queue) \<and> set (ps @ queue) = {n \<in> set ids. ind n = 0} \<and>
     visited = length ps \<and> (\<forall>t. ind t = int (pending es (set ps) t)) \<and>
     (\<forall>i < length ps. \<forall>s. (s, ps ! i) \<in> edge_rel es \<longrightarrow> s \<in> set (take i ps)))"

lemma kahn_inv_start:
  assumes "distinct ids"
  shows "kahn_inv ids es [] (\<lambda>t. int (pending es {} t), filter (\<lambda>n. int (pending es {} n) = 0) ids, 0)"
  using assms by (auto simp: kahn_inv_def)

lemma kahn_inv_step:
  assumes inv: "kahn_inv ids es ps (ind, n # queue, visited)" and known: "edges_known ids es"
  shows "kahn_inv ids es (ps @ [n]) (kahn_step (targets_of es) (ind, n # queue, visited))"
proof -
  let ?ts = "targets_of es n"
  have ind: "ind t = int (pending es (set ps) t)" for t
    using inv by (auto simp: kahn_inv_def)
  have n: "n \<notin> set ps" and dist: "distinct (ps @ n # queue)" and zero: "set (ps @ n # queue) = {n \<in> set ids. ind n = 0}"
    using inv by (auto simp: kahn_inv_def)
  have step: "pending es (set ps) t = pending es (insert n (set ps)) t + count_list ?ts t" for t
    by (rule pending_step [OF n])
  obtain new where new:
    "release_targets ?ts ind queue = (\<lambda>t. ind t - int (count_list ?ts t), queue @ new)"
    "distinct new" "set new = {t \<in> set ?ts. ind t = int (count_list ?ts t)}"
    using release_targets_spec [of ?ts ind queue] step by (auto simp: ind)
  have pos: "t \<in> set new \<Longrightarrow> ind t \<noteq> 0" for t
    using new(3) count_list_0_iff by fastforce
  have ids: "set new \<subseteq> set ids"
    using known new(3) targets_set by (fastforce simp: edges_known_def edge_rel_def)
  have "t \<in> set (ps @ n # queue @ new) \<longleftrightarrow> t \<in> set ids \<and> ind t - int (count_list ?ts t) = 0" for t
  proof (cases "ind t = 0")
    case True
    then have "count_list ?ts t = 0" using step [of t] by (simp add: ind)
    then show ?thesis using True zero pos ids by auto
  next
    case False
    then have "t \<notin> set (ps @ n # queue)" using zero by blast
    moreover have "ind t = int (count_list ?ts t) \<Longrightarrow> t \<in> set ?ts"
      using False by (cases "t \<in> set ?ts") auto
    ultimately show ?thesis using ids new(3) by auto
  qed
  moreover have "distinct (ps @ n # queue @ new)"
    using dist new(2) pos zero by auto
  moreover have "(s, n) \<in> edge_rel es \<Longrightarrow> s \<in> set ps" for s
  proof -
    assume "(s, n) \<in> edge_rel es"
    moreover have "ind n = 0" using zero by auto
    ultimately show ?thesis using pending_zero [of es "set ps" n] by (simp add: ind)
  qed
  ultimately show ?thesis
    using inv step by (auto simp: kahn_inv_def kahn_step_def new ind nth_append less_Suc_eq)
qed

lemma kahn_inv_length:
  assumes "kahn_inv ids es ps (ind, queue, visited)"
  shows "length (ps @ queue) \<le> card (set ids)"
proof -
  have "distinct (ps @ queue)" "set (ps @ queue) \<subseteq> set ids"
    using assms unfolding kahn_inv_def prod.case by blast+
  then show ?thesis using card_mono [of "set ids" "set (ps @ queue)"] distinct_card by fastforce
qed

lemma kahn_terminates:
  assumes known: "edges_known ids es" and "kahn_inv ids es ps st"
  shows "\<exists>ps' st'. while_option (\<lambda>(ind, queue, visited). queue \<noteq> []) (kahn_step (targets_of es)) st = Some st' \<and>
    fst (snd st') = [] \<and> kahn_inv ids es ps' st'"
  using assms(2)
proof (induction "card (set ids) - length ps" arbitrary: ps st rule: less_induct)
  case less
  obtain ind queue visited where st: "st = (ind, queue, visited)" by (cases st) auto
  show ?case
  proof (cases queue)
    case Nil
    then show ?thesis using less.prems by (auto simp: st while_option_unfold)
  next
    case (Cons n q)
    let ?st = "kahn_step (targets_of es) st"
    have inv: "kahn_inv ids es (ps @ [n]) ?st"
      using kahn_inv_step [OF _ known] less.prems by (simp add: st Cons)
    have "length ps < card (set ids)"
      using kahn_inv_length [of ids es ps ind queue visited] less.prems by (simp add: st Cons)
    then have "card (set ids) - length (ps @ [n]) < card (set ids) - length ps" by simp
    from less.hyps [OF this inv] show ?thesis
      by (subst while_option_unfold) (simp add: st Cons)
  qed
qed

lemma ordered_acyclic:
  assumes "set ps = N" "R \<subseteq> N \<times> N"
    and ord: "\<And>i s. i < length ps \<Longrightarrow> (s, ps ! i) \<in> R \<Longrightarrow> s \<in> set (take i ps)"
  shows "acyclic R"
proof -
  define pos where "pos n = length (takeWhile (\<lambda>m. m \<noteq> n) ps)" for n
  have "pos s < pos t" if "(s, t) \<in> R" for s t
  proof -
    have "t \<in> set ps" using that assms by auto
    then have lt: "pos t < length ps"
      unfolding pos_def by (metis (mono_tags, lifting) length_takeWhile_le le_neq_implies_less
          takeWhile_eq_all_conv takeWhile_eq_take take_all_iff order_refl)
    then have "ps ! pos t = t"
      unfolding pos_def using nth_length_takeWhile by fastforce
    then have "s \<in> set (take (pos t) ps)" using ord [OF lt] that by simp
    then obtain j where j: "j < pos t" "j < length ps" "ps ! j = s"
      by (auto simp: in_set_conv_nth)
    have "pos s \<le> j"
    proof (rule ccontr)
      assume "\<not> pos s \<le> j"
      then have "j < length (takeWhile (\<lambda>m. m \<noteq> s) ps)" by (simp add: pos_def)
      then have "takeWhile (\<lambda>m. m \<noteq> s) ps ! j \<noteq> s"
        using nth_mem set_takeWhileD by fastforce
      then show False using j takeWhile_nth [OF \<open>j < length (takeWhile (\<lambda>m. m \<noteq> s) ps)\<close>] by simp
    qed
    then show ?thesis using j by simp
  qed
  then have "R \<subseteq> measure pos" by auto
  then show ?thesis using wf_subset [OF wf_measure] wf_acyclic by blast
qed

lemma kahn_final:
  assumes known: "edges_known ids es" and inv: "kahn_inv ids es ps (ind, [], visited)"
    and dist: "distinct ids"
  shows "visited = length ids \<longleftrightarrow> acyclic (edge_rel es)"
proof -
  have ps: "distinct ps" "set ps = {n \<in> set ids. ind n = 0}" "visited = length ps"
    and ind: "\<And>t. ind t = int (pending es (set ps) t)"
    and ord: "\<And>i s. i < length ps \<Longrightarrow> (s, ps ! i) \<in> edge_rel es \<Longrightarrow> s \<in> set (take i ps)"
    using inv unfolding kahn_inv_def prod.case append_Nil2 by blast+
  have sub: "edge_rel es \<subseteq> set ids \<times> set ids"
    using known by (auto simp: edges_known_def edge_rel_def)
  have "visited = length ids \<longleftrightarrow> set ps = set ids"
    using ps dist by (metis (no_types, lifting) List.finite_set card_subset_eq distinct_card
        mem_Collect_eq subsetI)
  also have "\<dots> \<longleftrightarrow> acyclic (edge_rel es)"
  proof
    assume "set ps = set ids"
    then show "acyclic (edge_rel es)" using ordered_acyclic [OF _ sub ord] by blast
  next
    assume "acyclic (edge_rel es)"
    then have "wf (edge_rel es)" by (simp add: finite_acyclic_wf edge_rel_def)
    show "set ps = set ids"
    proof (rule ccontr)
      assume "set ps \<noteq> set ids"
      then obtain n0 where "n0 \<in> set ids - set ps" using ps(2) by blast
      then obtain n where n: "n \<in> set ids - set ps"
        and min: "\<And>s. (s, n) \<in> edge_rel es \<Longrightarrow> s \<notin> set ids - set ps"
        using wfE_min [OF \<open>wf (edge_rel es)\<close>] by metis
      then have "pending es (set ps) n = 0" using sub by (auto simp: pending_zero)
      then show False using n ps(2) ind [of n] by auto
    qed
  qed
  finally show ?thesis .
qed

lemma kahn_visited_acyclic:
  assumes "edges_known ids es" "distinct ids"
  shows "\<exists>v. kahn_visited (targets_of es) (\<lambda>t. int (pending es {} t))
      (filter (\<lambda>n. int (pending es {} n) = 0) ids) = Some v \<and>
    (v = length ids \<longleftrightarrow> acyclic (edge_rel es))"
proof -
  obtain ps' ind v where
    "while_option (\<lambda>(ind, queue, visited). queue \<noteq> []) (kahn_step (targets_of es))
       (\<lambda>t. int (pending es {} t), filter (\<lambda>n. int (pending es {} n) = 0) ids, 0) = Some (ind, [], v)"
    "kahn_inv ids es ps' (ind, [], v)"
    using kahn_terminates [OF assms(1) kahn_inv_start [OF assms(2)]] by fastforce
  then show ?thesis
    using kahn_final [OF assms(1) _ assms(2)] by (fastforce simp: kahn_visited_def)
qed

text \<open>
  C34. \<open>_validate_graph\<close> terminates and accepts exactly the well-formed graphs: node and edge
  identifiers are unique, every endpoint is a node, no edge is a self-loop, and, unless
  cycles are allowed, the edges are acyclic. It rejects every other graph with \<open>ValueError\<close>.
\<close>

theorem validate_graph_correct:
  "(if distinct ids \<and> distinct (map fst es) \<and> edges_known ids es \<and> (allow \<or> acyclic (edge_rel es))
    then validate_graph ids es allow = Inr ()
    else \<exists>m. validate_graph ids es allow = Inl (ValueError m))"
proof (cases "distinct ids \<and> distinct (map fst es) \<and> edges_known ids es")
  case True
  then show ?thesis
    using add_edges_known [of ids es "\<lambda>_. []" "\<lambda>_. 0"] kahn_visited_acyclic [of ids es]
    by (auto simp: validate_graph_def length_neq_card require_def simp del: length_map set_map)
next
  case False
  then show ?thesis
    using add_edges_unknown [of ids es "\<lambda>_. []" "\<lambda>_. 0"]
    by (auto simp: validate_graph_def length_neq_card simp del: length_map set_map)
qed

lemma graph_ok_iff:
  "graph_ok ids es allow \<longleftrightarrow>
     distinct ids \<and> distinct (map fst es) \<and> edges_known ids es \<and> (allow \<or> acyclic (edge_rel es))"
proof (cases "distinct ids \<and> distinct (map fst es) \<and> edges_known ids es")
  case True
  then show ?thesis
    using add_edges_known [of ids es "\<lambda>_. []" "\<lambda>_. 0"] kahn_visited_acyclic [of ids es]
    by (auto simp: graph_ok_def validate_graph_def length_neq_card require_def simp del: length_map set_map)
next
  case False
  then show ?thesis
    using add_edges_unknown [of ids es "\<lambda>_. []" "\<lambda>_. 0"]
    by (auto simp: graph_ok_def validate_graph_def length_neq_card simp del: length_map set_map)
qed

lemma edges_known_filter: "edges_known ids (map f es) \<Longrightarrow> edges_known ids (map f (filter p es))"
  by (auto simp: edges_known_def)

text \<open>
  A mathematical graph is accepted exactly when its revision is positive, its
  identifiers are unique, all edges join two different known nodes, and its dependency
  edges are acyclic; equivalence and motivation edges may form cycles.
\<close>

theorem MathematicalGraphV1_accepts:
  "MathematicalGraphV1_init raw = Inr g \<longleftrightarrow>
     g = raw \<and> mg_revision raw \<ge> 1 \<and>
     distinct (map (si_value \<circ> mn_node_id) (mg_nodes raw)) \<and>
     distinct (map (si_value \<circ> me_edge_id) (mg_edges raw)) \<and>
     edges_known (map (si_value \<circ> mn_node_id) (mg_nodes raw)) (map math_edge (mg_edges raw)) \<and>
     acyclic (edge_rel (map math_edge (filter is_dependency (mg_edges raw))))"
proof -
  have "map (si_value \<circ> me_edge_id) es = map fst (map math_edge es)" for es
    by (simp add: math_edge_def)
  moreover have "distinct (map fst (map math_edge es)) \<Longrightarrow>
      distinct (map fst (map math_edge (filter is_dependency es)))" for es
    by (simp add: distinct_map_filter)
  ultimately show ?thesis
    by (auto simp: MathematicalGraphV1_init_def construct_Inr MathematicalGraphV1_guards_def
        graph_ok_iff edges_known_filter simp del: map_map)
qed

end
