(* ===== verification/Attestation.thy ===== *)
theory Attestation
  imports Base Hashing Datetime
begin

text \<open>
  \<open>attestation.py\<close>: signed authority decisions, the HMAC signer and the verification keyring.
  The clock readings and the random nonce are arguments; a lifetime is a whole number of
  microseconds. The locale \<open>attestation_verifier\<close> states what a client of any verifier may
  rely on and is interpreted by the HMAC keyring. Shown: the exact acceptance condition of
  the verifier, that what a signer issues verifies during its lifetime, that an accepted
  attestation binds one purpose and one payload, and that a signature binds every field.
\<close>

section \<open>Attestations and keys\<close>

datatype AttestationPurposeV1 =
    AP_BUILDER_FREEZE | AP_VERIFICATION | AP_MODEL_EXECUTION

fun AttestationPurposeV1_value :: "AttestationPurposeV1 \<Rightarrow> string" where
  "AttestationPurposeV1_value AP_BUILDER_FREEZE = ''builder_freeze''"
| "AttestationPurposeV1_value AP_VERIFICATION = ''verification''"
| "AttestationPurposeV1_value AP_MODEL_EXECUTION = ''model_execution''"

lemma AttestationPurposeV1_value_inj [simp]: "AttestationPurposeV1_value a = AttestationPurposeV1_value b \<longleftrightarrow> a = b"
  by (cases a; cases b; simp)

definition key_id_pattern :: "string \<Rightarrow> bool" where
  "key_id_pattern = ident_pattern ''._-'' 128"

definition nonce_pattern :: "string \<Rightarrow> bool" where
  "nonce_pattern s \<longleftrightarrow> 16 \<le> length s \<and> length s \<le> 256 \<and>
     all_chars (\<lambda>c. is_alnum c \<or> c \<in> set ''._-'') s"

record AttestationV1 =
  at_schema_version :: string
  at_purpose :: AttestationPurposeV1
  at_key_id :: string
  at_issued_at :: datetime
  at_expires_at :: datetime
  at_nonce :: string
  at_evidence_identity :: string
  at_payload_hash :: DigestV1
  at_signature :: string

definition AttestationV1_strip :: "AttestationV1 \<Rightarrow> AttestationV1" where
  "AttestationV1_strip x = x\<lparr>at_schema_version := strip_ws (at_schema_version x),
     at_key_id := strip_ws (at_key_id x),
     at_nonce := strip_ws (at_nonce x),
     at_evidence_identity := strip_ws (at_evidence_identity x),
     at_signature := strip_ws (at_signature x)\<rparr>"

definition dump_AttestationV1 :: "AttestationV1 \<Rightarrow> json" where
  "dump_AttestationV1 x = JObj
     [(''schema_version'', JStr (at_schema_version x)),
      (''purpose'', JStr (AttestationPurposeV1_value (at_purpose x))),
      (''key_id'', JStr (at_key_id x)),
      (''issued_at'', dump_datetime (at_issued_at x)),
      (''expires_at'', dump_datetime (at_expires_at x)),
      (''nonce'', JStr (at_nonce x)),
      (''evidence_identity'', JStr (at_evidence_identity x)),
      (''payload_hash'', dump_DigestV1 (at_payload_hash x)),
      (''signature'', JStr (at_signature x))]"

definition AttestationV1_guards :: "AttestationV1 \<Rightarrow> checks" where
  "AttestationV1_guards x = [((at_key_id x) \<noteq> [], ''key_id min_length''),
     (length (at_key_id x) \<le> 128, ''key_id max_length''),
     (length (at_nonce x) \<ge> 16, ''nonce min_length''),
     (length (at_nonce x) \<le> 256, ''nonce max_length''),
     ((at_evidence_identity x) \<noteq> [], ''evidence_identity min_length''),
     (length (at_evidence_identity x) \<le> 512, ''evidence_identity max_length''),
     (length (at_signature x) \<ge> 64, ''signature min_length''),
     (length (at_signature x) \<le> 64, ''signature max_length''),
     (at_schema_version x = ''1.0'', ''unsupported attestation schema version''),
     (key_id_pattern (at_key_id x), ''attestation key_id is not a safe identifier''),
     (nonce_pattern (at_nonce x), ''attestation nonce is not a safe V1 nonce''),
     (is_sha256_text (at_signature x), ''attestation signature must be a lowercase SHA-256 HMAC''),
     (aware (at_issued_at x) \<and> aware (at_expires_at x), ''attestation timestamps must be timezone-aware''),
     (dt_us (at_expires_at x) > dt_us (at_issued_at x), ''attestation expiry must be after issuance''),
     (dg_kind (at_payload_hash x) = ATTESTATION_PAYLOAD, ''payload_hash kind'')]"

definition AttestationV1_init :: "AttestationV1 \<Rightarrow> AttestationV1 result" where
  "AttestationV1_init = construct AttestationV1_strip AttestationV1_guards"

interpretation at_model: contract_model AttestationV1_strip AttestationV1_guards
  by unfold_locales (simp add: AttestationV1_strip_def)

record HmacAttestationKeyV1 =
  hk_key_id :: string
  hk_secret :: string
  hk_allowed_purposes :: "AttestationPurposeV1 set"
  hk_revoked :: bool

definition HmacAttestationKeyV1_init :: "HmacAttestationKeyV1 \<Rightarrow> HmacAttestationKeyV1 result" where
  "HmacAttestationKeyV1_init k =
     bindE (require_all
       [(key_id_pattern (hk_key_id k), ''attestation key_id is not a safe identifier''),
        (length (hk_secret k) \<ge> 32, ''HMAC attestation secrets must contain at least 32 bytes''),
        (hk_allowed_purposes k \<noteq> {}, ''an attestation key must authorize at least one purpose'')])
       (\<lambda>_. Inr k)"

section \<open>Preimages\<close>

definition normalized_utc :: "datetime \<Rightarrow> datetime result" where
  "normalized_utc t =
     (if aware t then Inr (as_utc t)
      else Inl (AttestationError ''attestation clock returned a naive timestamp''))"

definition payload_envelope :: "AttestationPurposeV1 \<Rightarrow> json_object \<Rightarrow> json" where
  "payload_envelope purpose payload = JObj
     [(''schema_version'', JStr ''1.0''),
      (''domain'', JStr ''autolean.attestation.payload.v1''),
      (''purpose'', JStr (AttestationPurposeV1_value purpose)),
      (''payload'', JObj payload)]"

definition attestation_payload_hash :: "AttestationPurposeV1 \<Rightarrow> json_object \<Rightarrow> DigestV1" where
  "attestation_payload_hash purpose payload =
     digest_model ATTESTATION_PAYLOAD (payload_envelope purpose payload)"

text \<open>The timestamps of an attestation are aware, so \<open>_utc_text\<close> does not raise on them.\<close>

definition signature_envelope :: "AttestationV1 \<Rightarrow> json" where
  "signature_envelope a = JObj
     [(''schema_version'', JStr ''1.0''),
      (''domain'', JStr ''autolean.attestation.hmac-sha256.v1''),
      (''purpose'', JStr (AttestationPurposeV1_value (at_purpose a))),
      (''key_id'', JStr (at_key_id a)),
      (''issued_at'', JStr (utc_micros_text (at_issued_at a))),
      (''expires_at'', JStr (utc_micros_text (at_expires_at a))),
      (''nonce'', JStr (at_nonce a)),
      (''evidence_identity'', JStr (at_evidence_identity a)),
      (''payload_hash'', JStr (dg_value (at_payload_hash a)))]"

definition signature_message :: "AttestationV1 \<Rightarrow> string" where
  "signature_message a = canonical_json_bytes (signature_envelope a)"

definition attestation_signature :: "string \<Rightarrow> AttestationV1 \<Rightarrow> string" where
  "attestation_signature secret a = hmac_hex secret (signature_message a)"

section \<open>Signer and verifier\<close>

text \<open>\<open>now\<close> is the reading of the signer's clock, \<open>token\<close> the value of \<open>secrets.token_hex(24)\<close>.\<close>

definition HmacAttestationSignerV1_issue ::
  "HmacAttestationKeyV1 \<Rightarrow> datetime \<Rightarrow> string \<Rightarrow> AttestationPurposeV1 \<Rightarrow> json_object \<Rightarrow> string
     \<Rightarrow> int \<Rightarrow> string option \<Rightarrow> AttestationV1 result" where
  "HmacAttestationSignerV1_issue key now token purpose payload evidence_identity ttl nonce =
     bindE (require (\<not> hk_revoked key)
       (AttestationError ''a revoked attestation key cannot issue a signature'')) (\<lambda>_.
     bindE (require (purpose \<in> hk_allowed_purposes key)
       (AttestationError ''attestation key is not authorized for this purpose'')) (\<lambda>_.
     bindE (require (nonblank evidence_identity)
       (AttestationError ''attestation evidence_identity must not be empty'')) (\<lambda>_.
     bindE (require (ttl > 0) (AttestationError ''attestation ttl_seconds must be positive'')) (\<lambda>_.
     bindE (normalized_utc now) (\<lambda>issued_at.
     bindE (AttestationV1_init
       \<lparr>at_schema_version = ''1.0'', at_purpose = purpose, at_key_id = hk_key_id key,
        at_issued_at = issued_at, at_expires_at = issued_at\<lparr>dt_us := dt_us issued_at + ttl\<rparr>,
        at_nonce = (case nonce of None \<Rightarrow> token | Some n \<Rightarrow> if n = [] then token else n),
        at_evidence_identity = evidence_identity,
        at_payload_hash = attestation_payload_hash purpose payload,
        at_signature = replicate 64 (CHR ''0'')\<rparr>) (\<lambda>unsigned.
     model_copy AttestationV1_init
       (\<lambda>x. x\<lparr>at_signature := attestation_signature (hk_secret key) unsigned\<rparr>) unsigned))))))"

type_synonym keyring = "(string \<times> HmacAttestationKeyV1) list"

definition HmacAttestationVerifierV1_init :: "keyring \<Rightarrow> keyring result" where
  "HmacAttestationVerifierV1_init keys =
     bindE (require_all
       [(keys \<noteq> [], ''an attestation verifier requires at least one trusted key''),
        (\<forall>(key_id, key) \<in> set keys. key_id = hk_key_id key, ''attestation keyring keys must match their key_id'')])
       (\<lambda>_. Inr keys)"

definition HmacAttestationVerifierV1_verify ::
  "keyring \<Rightarrow> datetime \<Rightarrow> AttestationV1 \<Rightarrow> AttestationPurposeV1 \<Rightarrow> json_object \<Rightarrow> unit result" where
  "HmacAttestationVerifierV1_verify keys now a expected payload =
     bindE (require (at_purpose a = expected)
       (AttestationError ''attestation purpose does not match the requested authority'')) (\<lambda>_.
     case map_of keys (at_key_id a) of
       None \<Rightarrow> Inl (AttestationError ''attestation key is not in the trusted allowlist'')
     | Some key \<Rightarrow>
         bindE (require (\<not> hk_revoked key) (AttestationError ''attestation key is revoked'')) (\<lambda>_.
         bindE (require (expected \<in> hk_allowed_purposes key)
           (AttestationError ''attestation key is not authorized for this purpose'')) (\<lambda>_.
         bindE (require (\<not> (expected \<in> {AP_BUILDER_FREEZE, AP_VERIFICATION} \<and>
             hk_allowed_purposes key \<noteq> {expected}))
           (AttestationError ''Builder and verifier authority keys must be role-dedicated'')) (\<lambda>_.
         bindE (normalized_utc now) (\<lambda>now.
         bindE (require (\<not> dt_us (at_issued_at a) > dt_us now)
           (AttestationError ''attestation was issued in the future'')) (\<lambda>_.
         bindE (require (\<not> dt_us (at_expires_at a) \<le> dt_us now)
           (AttestationError ''attestation has expired'')) (\<lambda>_.
         bindE (require (dg_value (at_payload_hash a) = dg_value (attestation_payload_hash expected payload))
           (AttestationError ''attestation payload hash does not match'')) (\<lambda>_.
         require (at_signature a = attestation_signature (hk_secret key) a)
           (AttestationError ''attestation signature does not match'')))))))))"

section \<open>The contract of a verifier\<close>

text \<open>
  What the control plane relies on when it is given some \<open>AttestationVerifierV1\<close>: an accepted
  attestation has the requested purpose, commits to the given payload and is within its
  lifetime; a rejection is an \<open>AttestationError\<close>.
\<close>

locale attestation_verifier =
  fixes verify :: "datetime \<Rightarrow> AttestationV1 \<Rightarrow> AttestationPurposeV1 \<Rightarrow> json_object \<Rightarrow> unit result"
  assumes accepted_purpose: "verify now a p payload = Inr u \<Longrightarrow> at_purpose a = p"
    and accepted_payload: "verify now a p payload = Inr u \<Longrightarrow>
      dg_value (at_payload_hash a) = dg_value (attestation_payload_hash p payload)"
    and accepted_window: "verify now a p payload = Inr u \<Longrightarrow>
      dt_us (at_issued_at a) \<le> dt_us now \<and> dt_us now < dt_us (at_expires_at a)"
    and rejected_error: "verify now a p payload = Inl e \<Longrightarrow> is_attestation_error e"
begin

lemma one_purpose:
  "verify now a p payload = Inr u \<Longrightarrow> verify now' a p' payload' = Inr u' \<Longrightarrow> p = p'"
  using accepted_purpose by metis

lemma expired_rejected:
  "dt_us (at_expires_at a) \<le> dt_us now \<Longrightarrow> \<exists>e. verify now a p payload = Inl e \<and> is_attestation_error e"
  by (cases "verify now a p payload") (auto dest: accepted_window rejected_error)

lemma payload_bound:
  assumes "verify now a p payload = Inr u" "verify now' a p' payload' = Inr u'"
    and wf: "json_wf (JObj payload)" "json_wf (JObj payload')"
  shows "json_norm (JObj payload) = json_norm (JObj payload') \<or>
    json_collision (payload_envelope p payload) (payload_envelope p' payload')"
proof -
  have "p = p'" using one_purpose assms(1,2) .
  moreover have "sha256_hexdigest (canonical_json_bytes (payload_envelope p payload))
      = sha256_hexdigest (canonical_json_bytes (payload_envelope p' payload'))"
    using accepted_payload assms(1,2) by (metis attestation_payload_hash_def digest_model_simps(2))
  moreover have "json_wf (payload_envelope p payload)" "json_wf (payload_envelope p' payload')"
    using wf by (simp_all add: payload_envelope_def)
  ultimately have "json_norm (payload_envelope p payload) = json_norm (payload_envelope p' payload')
      \<or> json_collision (payload_envelope p payload) (payload_envelope p' payload')"
    unfolding json_collision_def using json_hash.hash_binds by blast
  then show ?thesis by (auto simp: payload_envelope_def)
qed

end

lemma HmacAttestationVerifierV1_verify_Inr:
  "HmacAttestationVerifierV1_verify keys now a p payload = Inr u \<longleftrightarrow>
     at_purpose a = p \<and>
     (\<exists>key. map_of keys (at_key_id a) = Some key \<and> \<not> hk_revoked key \<and>
        p \<in> hk_allowed_purposes key \<and> (p = AP_MODEL_EXECUTION \<or> hk_allowed_purposes key = {p}) \<and>
        aware now \<and> dt_us (at_issued_at a) \<le> dt_us now \<and> dt_us now < dt_us (at_expires_at a) \<and>
        dg_value (at_payload_hash a) = dg_value (attestation_payload_hash p payload) \<and>
        at_signature a = attestation_signature (hk_secret key) a)"
  by (cases p)
    (auto simp: HmacAttestationVerifierV1_verify_def normalized_utc_def result_simps not_le not_less
      split: option.splits if_splits)

lemma HmacAttestationVerifierV1_verify_Inl:
  "HmacAttestationVerifierV1_verify keys now a p payload = Inl e \<Longrightarrow> is_attestation_error e"
  by (auto simp: HmacAttestationVerifierV1_verify_def normalized_utc_def result_simps
      split: option.splits if_splits)

interpretation hmac_verifier: attestation_verifier "HmacAttestationVerifierV1_verify keys" for keys
  by unfold_locales
    (auto simp: HmacAttestationVerifierV1_verify_Inr dest: HmacAttestationVerifierV1_verify_Inl)

section \<open>Issued attestations\<close>

lemma signature_message_unsigned [simp]: "signature_message (a\<lparr>at_signature := s\<rparr>) = signature_message a"
  by (simp add: signature_message_def signature_envelope_def)

lemma signature_message_inj:
  assumes "signature_message a = signature_message b"
  shows "at_purpose a = at_purpose b \<and> utc_micros_text (at_issued_at a) = utc_micros_text (at_issued_at b) \<and>
    utc_micros_text (at_expires_at a) = utc_micros_text (at_expires_at b) \<and> at_nonce a = at_nonce b \<and>
    at_evidence_identity a = at_evidence_identity b \<and>
    dg_value (at_payload_hash a) = dg_value (at_payload_hash b)"
proof -
  have "json_wf (signature_envelope x)" for x by (simp add: signature_envelope_def)
  then have "json_norm (signature_envelope a) = json_norm (signature_envelope b)"
    using assms unfolding signature_message_def by (intro canonical_json_bytes_inj)
  then show ?thesis by (simp add: signature_envelope_def)
qed

lemma attestation_signature_unsigned [simp]:
  "attestation_signature k (a\<lparr>at_signature := s\<rparr>) = attestation_signature k a"
  by (simp add: attestation_signature_def)

lemma attestation_signature_shape [simp]: "is_sha256_text (attestation_signature k a)"
  by (simp add: attestation_signature_def)

lemma strip_sha256_text: "is_sha256_text s \<Longrightarrow> strip_ws s = s"
  by (simp add: is_sha256_text_def strip_ws_hex)

lemma ident_pattern_strip:
  assumes "ident_pattern extra n s" "\<forall>c \<in> set extra. \<not> white_space c"
  shows "strip_ws s = s"
proof (rule strip_ws_all)
  fix c assume "c \<in> set s"
  then show "\<not> white_space c"
    using assms by (auto simp: ident_pattern_def all_chars_iff white_space_def char_class_defs)
qed

lemma key_id_strip: "key_id_pattern s \<Longrightarrow> strip_ws s = s"
  by (rule ident_pattern_strip [of "''._-''" 128]) (auto simp: key_id_pattern_def white_space_def)

lemma resign_strip:
  "AttestationV1_strip x = x \<Longrightarrow> is_sha256_text s \<Longrightarrow>
     AttestationV1_strip (x\<lparr>at_signature := s\<rparr>) = x\<lparr>at_signature := s\<rparr>"
  by (cases x) (auto simp: AttestationV1_strip_def strip_sha256_text)

lemma issue_Inr:
  assumes "HmacAttestationSignerV1_issue key now token p payload ev ttl nonce = Inr a"
  shows "\<exists>unsigned. AttestationV1_strip unsigned = unsigned \<and>
      a = unsigned\<lparr>at_signature := attestation_signature (hk_secret key) unsigned\<rparr> \<and>
      at_purpose a = p \<and> at_key_id a = strip_ws (hk_key_id key) \<and>
      at_issued_at a = as_utc now \<and> dt_us (at_expires_at a) = dt_us now + ttl \<and>
      at_payload_hash a = attestation_payload_hash p payload \<and>
      at_evidence_identity a = strip_ws ev \<and>
      AttestationV1_init a = Inr a"
proof -
  obtain unsigned where un: "AttestationV1_init
       \<lparr>at_schema_version = ''1.0'', at_purpose = p, at_key_id = hk_key_id key,
        at_issued_at = as_utc now, at_expires_at = (as_utc now)\<lparr>dt_us := dt_us now + ttl\<rparr>,
        at_nonce = (case nonce of None \<Rightarrow> token | Some n \<Rightarrow> if n = [] then token else n),
        at_evidence_identity = ev,
        at_payload_hash = attestation_payload_hash p payload,
        at_signature = replicate 64 (CHR ''0'')\<rparr> = Inr unsigned"
    and a: "AttestationV1_init (unsigned\<lparr>at_signature := attestation_signature (hk_secret key) unsigned\<rparr>) = Inr a"
    using assms
    by (auto simp: HmacAttestationSignerV1_issue_def normalized_utc_def result_simps model_copy_def
        split: if_splits)
  have fixed: "AttestationV1_strip unsigned = unsigned"
    using un by (auto simp: AttestationV1_init_def construct_Inr at_model.strip_idem)
  have eq: "a = unsigned\<lparr>at_signature := attestation_signature (hk_secret key) unsigned\<rparr>"
    using a resign_strip [OF fixed attestation_signature_shape]
    by (auto simp: AttestationV1_init_def construct_Inr)
  have "AttestationV1_init a = Inr a"
    using a at_model.init_valid unfolding AttestationV1_init_def by blast
  then show ?thesis
    using fixed eq un
    by (intro exI [of _ unsigned]) (auto simp: AttestationV1_init_def construct_Inr AttestationV1_strip_def)
qed

lemma nonblank_strip: "nonblank s \<Longrightarrow> strip_ws s \<noteq> []"
proof -
  assume "nonblank s"
  then obtain c where "c \<in> set s" "\<not> py_isspace c"
    unfolding nonblank_def py_strip_def strip_by_def by (metis dropWhile_eq_Nil_conv rev_is_Nil_conv set_dropWhileD set_rev)
  then have c: "c \<in> set s" "\<not> white_space c" using white_space_isspace by auto
  then have "c \<in> set (dropWhile white_space s)"
    by (metis UnE set_append set_takeWhileD takeWhile_dropWhile_id)
  then show ?thesis using c unfolding strip_ws_def strip_by_def
    by (metis dropWhile_eq_Nil_conv rev_is_Nil_conv set_rev)
qed

text \<open>When a signer returns: the guards of \<open>issue\<close> and of the schema, on the given values.\<close>

lemma issue_succeeds:
  assumes "HmacAttestationKeyV1_init key = Inr key" "\<not> hk_revoked key" "p \<in> hk_allowed_purposes key"
    and "nonblank ev" "length (strip_ws ev) \<le> 512" "ttl > 0" "aware now" "n \<noteq> []"
    and "nonce_pattern n"
  shows "\<exists>a. HmacAttestationSignerV1_issue key now token p payload ev ttl (Some n) = Inr a"
proof -
  let ?raw = "\<lparr>at_schema_version = ''1.0'', at_purpose = p, at_key_id = hk_key_id key,
        at_issued_at = as_utc now, at_expires_at = (as_utc now)\<lparr>dt_us := dt_us now + ttl\<rparr>,
        at_nonce = n, at_evidence_identity = ev,
        at_payload_hash = attestation_payload_hash p payload,
        at_signature = replicate 64 (CHR ''0'')\<rparr>"
  have kid: "key_id_pattern (hk_key_id key)"
    using assms(1) by (simp add: HmacAttestationKeyV1_init_def result_simps)
  have "\<not> white_space c" if "c \<in> set n" for c
    using that assms(9) by (auto simp: nonce_pattern_def all_chars_iff white_space_def char_class_defs)
  then have n: "strip_ws n = n" by (rule strip_ws_all)
  have z: "is_sha256_text (replicate 64 (CHR ''0''))"
    by (simp add: is_sha256_text_def all_chars_iff char_class_defs)
  have v: "strip_ws ''1.0'' = ''1.0''" by (rule strip_ws_all) (auto simp: white_space_def)
  have aw: "aware ((as_utc now)\<lparr>dt_us := u\<rparr>)" for u
    by (simp add: aware_def as_utc_def utc_def)
  have strip: "AttestationV1_strip ?raw = ?raw\<lparr>at_evidence_identity := strip_ws ev\<rparr>"
    using kid by (simp add: AttestationV1_strip_def n v key_id_strip strip_sha256_text [OF z])
  have guards: "list_all fst (AttestationV1_guards (?raw\<lparr>at_evidence_identity := strip_ws ev, at_signature := sg\<rparr>))"
    if "is_sha256_text sg" for sg
    using assms kid aw nonblank_strip [OF assms(4)] that
    by (auto simp: AttestationV1_guards_def nonce_pattern_def key_id_pattern_def ident_pattern_def
        attestation_payload_hash_def is_sha256_text_def)
  let ?un = "?raw\<lparr>at_evidence_identity := strip_ws ev\<rparr>"
  have 1: "AttestationV1_init ?raw = Inr ?un"
    using guards [OF z] by (simp add: AttestationV1_init_def construct_Inr strip)
  have "AttestationV1_strip ?un = ?un"
    using at_model.strip_idem [of ?raw] by (simp only: strip)
  then have 2: "AttestationV1_init (?un\<lparr>at_signature := attestation_signature (hk_secret key) ?un\<rparr>)
      = Inr (?un\<lparr>at_signature := attestation_signature (hk_secret key) ?un\<rparr>)"
    using guards [of "attestation_signature (hk_secret key) ?un"] resign_strip [of ?un]
    by (simp add: AttestationV1_init_def construct_Inr)
  show ?thesis
    unfolding HmacAttestationSignerV1_issue_def
    using assms 1 2 by (simp add: normalized_utc_def model_copy_def)
qed

definition sample_key :: HmacAttestationKeyV1 where
  "sample_key = \<lparr>hk_key_id = ''k1'', hk_secret = replicate 32 (CHR ''s''),
     hk_allowed_purposes = {AP_VERIFICATION}, hk_revoked = False\<rparr>"

lemma sample_key_ok: "HmacAttestationKeyV1_init sample_key = Inr sample_key"
  by (simp add: HmacAttestationKeyV1_init_def sample_key_def result_simps key_id_pattern_def
      ident_pattern_def char_class_defs)

lemma sample_issue:
  "\<exists>a. HmacAttestationSignerV1_issue sample_key (utc 0) [] AP_VERIFICATION [] ''e'' 10 (Some ''aaaaaaaaaaaaaaaa'') = Inr a"
  by (rule issue_succeeds [OF sample_key_ok])
    (simp_all add: sample_key_def nonblank_def py_strip_def strip_ws_def strip_by_def py_isspace_def
      white_space_def nonce_pattern_def char_class_defs)

text \<open>
  Round trip of the HMAC authority: whatever a signer issues is a valid attestation, and
  a keyring that holds the signer's key accepts it for the same purpose and payload at every
  moment of its lifetime, provided Builder and verifier keys are role-dedicated.
\<close>

theorem attestation_issue_verify:
  assumes issued: "HmacAttestationSignerV1_issue key now token p payload ev ttl nonce = Inr a"
    and key: "HmacAttestationKeyV1_init key = Inr key" "map_of keys (hk_key_id key) = Some key"
    and role: "p = AP_MODEL_EXECUTION \<or> hk_allowed_purposes key = {p}"
    and window: "aware now'" "dt_us now \<le> dt_us now'" "dt_us now' < dt_us now + ttl"
  shows "AttestationV1_init a = Inr a \<and> HmacAttestationVerifierV1_verify keys now' a p payload = Inr ()"
proof -
  obtain unsigned where a: "a = unsigned\<lparr>at_signature := attestation_signature (hk_secret key) unsigned\<rparr>"
    "at_purpose a = p" "at_key_id a = strip_ws (hk_key_id key)" "at_issued_at a = as_utc now"
    "dt_us (at_expires_at a) = dt_us now + ttl" "at_payload_hash a = attestation_payload_hash p payload"
    "AttestationV1_init a = Inr a"
    using issue_Inr [OF issued] by blast
  have "at_key_id a = hk_key_id key"
    using a(3) key(1) key_id_strip by (simp add: HmacAttestationKeyV1_init_def result_simps)
  moreover have "\<not> hk_revoked key" "p \<in> hk_allowed_purposes key"
    using issued by (auto simp: HmacAttestationSignerV1_issue_def result_simps)
  moreover have "at_signature a = attestation_signature (hk_secret key) a"
    by (simp add: a(1))
  ultimately show ?thesis
    using a key(2) role window by (simp add: HmacAttestationVerifierV1_verify_Inr)
qed

text \<open>
  An attestation cannot be reused: accepted twice, even at different times, it was
  accepted for the same purpose and for the same payload, unless the two payload envelopes
  themselves are a SHA-256 collision.
\<close>

theorem attestation_binds_payload:
  assumes "HmacAttestationVerifierV1_verify keys now a p payload = Inr ()"
    and "HmacAttestationVerifierV1_verify keys now' a p' payload' = Inr ()"
    and "json_wf (JObj payload)" "json_wf (JObj payload')"
  shows "p = p' \<and> (json_norm (JObj payload) = json_norm (JObj payload') \<or>
    json_collision (payload_envelope p payload) (payload_envelope p' payload'))"
  using hmac_verifier.one_purpose [OF assms(1,2)] hmac_verifier.payload_bound [OF assms] by blast

text \<open>
  A signature authenticates every field: two attestations accepted under the same key
  with the same signature agree on purpose, both timestamps, nonce, evidence identity and
  payload hash, or their messages are a collision of the keyed HMAC.
\<close>

theorem attestation_signature_binds:
  assumes "HmacAttestationVerifierV1_verify keys now a p payload = Inr ()"
    and "HmacAttestationVerifierV1_verify keys now' b p' payload' = Inr ()"
    and "at_key_id a = at_key_id b" "at_signature a = at_signature b"
  shows "(p = p' \<and> utc_micros_text (at_issued_at a) = utc_micros_text (at_issued_at b) \<and>
      utc_micros_text (at_expires_at a) = utc_micros_text (at_expires_at b) \<and>
      at_nonce a = at_nonce b \<and> at_evidence_identity a = at_evidence_identity b \<and>
      dg_value (at_payload_hash a) = dg_value (at_payload_hash b)) \<or>
    (\<exists>key. map_of keys (at_key_id a) = Some key \<and>
       collides (hmac_hex (hk_secret key)) (signature_message a) (signature_message b))"
proof -
  obtain key where key: "map_of keys (at_key_id a) = Some key"
    and sig: "hmac_hex (hk_secret key) (signature_message a) = hmac_hex (hk_secret key) (signature_message b)"
    and p: "at_purpose a = p" "at_purpose b = p'"
    using assms by (auto simp: HmacAttestationVerifierV1_verify_Inr attestation_signature_def)
  show ?thesis
  proof (cases "signature_message a = signature_message b")
    case True
    then show ?thesis using signature_message_inj [OF True] p by simp
  qed (use key sig in \<open>auto simp: collides_def\<close>)
qed

lemma payload_hash_norm:
  assumes "json_wf (JObj payload)" "json_wf (JObj payload')" "json_norm (JObj payload) = json_norm (JObj payload')"
  shows "attestation_payload_hash p payload = attestation_payload_hash p payload'"
proof -
  have "canonical_json (payload_envelope p payload) = canonical_json (payload_envelope p payload')"
    using assms by (subst json_codec.encode_eq_iff) (auto simp: payload_envelope_def)
  then show ?thesis by (simp add: attestation_payload_hash_def digest_model_def canonical_json_bytes_def)
qed

text \<open>
  C35. What an issued attestation is good for. A keyring that holds the signer's key (dedicated
  to its role where the source demands it) accepts the attestation exactly for the purpose and the
  JSON value it was issued over, and exactly in the half-open window from the issuing instant to the
  end of its lifetime, unless the two payload envelopes are a SHA-256 collision. And no
  altered attestation passes with its key identifier and signature: whatever is accepted under them,
  for any purpose, payload and time, has the purpose, timestamps, nonce, evidence identity and
  payload hash that were issued, or the two signed messages are a collision of the keyed HMAC.
\<close>

theorem attestation_accepted_exactly:
  assumes issued: "HmacAttestationSignerV1_issue key now token p payload ev ttl nonce = Inr a"
    and key: "HmacAttestationKeyV1_init key = Inr key" "map_of keys (hk_key_id key) = Some key"
    and role: "p = AP_MODEL_EXECUTION \<or> hk_allowed_purposes key = {p}"
    and wf: "json_wf (JObj payload)" "json_wf (JObj payload')" and clock: "aware now'"
  shows "((HmacAttestationVerifierV1_verify keys now' a p' payload' = Inr () \<longleftrightarrow>
        p' = p \<and> dt_us now \<le> dt_us now' \<and> dt_us now' < dt_us now + ttl \<and>
        json_norm (JObj payload') = json_norm (JObj payload)) \<or>
      json_collision (payload_envelope p' payload') (payload_envelope p payload)) \<and>
    (\<forall>b. at_key_id b = at_key_id a \<and> at_signature b = at_signature a \<and>
        HmacAttestationVerifierV1_verify keys now' b p' payload' = Inr () \<longrightarrow>
      (at_purpose b = p \<and> utc_micros_text (at_issued_at b) = utc_micros_text (at_issued_at a) \<and>
       utc_micros_text (at_expires_at b) = utc_micros_text (at_expires_at a) \<and> at_nonce b = at_nonce a \<and>
       at_evidence_identity b = at_evidence_identity a \<and>
       dg_value (at_payload_hash b) = dg_value (attestation_payload_hash p payload)) \<or>
      collides (hmac_hex (hk_secret key)) (signature_message b) (signature_message a))"
proof (intro conjI allI impI)
  obtain unsigned where a: "a = unsigned\<lparr>at_signature := attestation_signature (hk_secret key) unsigned\<rparr>"
    "at_purpose a = p" "at_key_id a = strip_ws (hk_key_id key)" "at_issued_at a = as_utc now"
    "dt_us (at_expires_at a) = dt_us now + ttl" "at_payload_hash a = attestation_payload_hash p payload"
    using issue_Inr [OF issued] by blast
  have id: "at_key_id a = hk_key_id key"
    using a(3) key(1) key_id_strip by (simp add: HmacAttestationKeyV1_init_def result_simps)
  have key_ok: "\<not> hk_revoked key" "p \<in> hk_allowed_purposes key"
    using issued by (auto simp: HmacAttestationSignerV1_issue_def result_simps)
  have sig: "at_signature a = attestation_signature (hk_secret key) a" by (simp add: a(1))
  let ?ok = "HmacAttestationVerifierV1_verify keys now' a p' payload' = Inr ()"
  have iff: "?ok \<longleftrightarrow> p' = p \<and> dt_us now \<le> dt_us now' \<and> dt_us now' < dt_us now + ttl \<and>
      dg_value (attestation_payload_hash p payload) = dg_value (attestation_payload_hash p payload')"
    using a id key_ok sig key(2) role clock by (auto simp: HmacAttestationVerifierV1_verify_Inr)
  show "(?ok \<longleftrightarrow> p' = p \<and> dt_us now \<le> dt_us now' \<and> dt_us now' < dt_us now + ttl \<and>
        json_norm (JObj payload') = json_norm (JObj payload)) \<or>
      json_collision (payload_envelope p' payload') (payload_envelope p payload)"
  proof (cases ?ok)
    case True
    then have "HmacAttestationVerifierV1_verify keys now' a p payload = Inr ()"
      using iff a id key_ok sig key(2) role clock by (auto simp: HmacAttestationVerifierV1_verify_Inr)
    then show ?thesis using hmac_verifier.payload_bound [OF True _ wf(2,1)] iff True by blast
  next
    case False
    then show ?thesis using iff payload_hash_norm [OF wf, of p] by auto
  qed
  fix b
  assume b: "at_key_id b = at_key_id a \<and> at_signature b = at_signature a \<and>
    HmacAttestationVerifierV1_verify keys now' b p' payload' = Inr ()"
  then have "hmac_hex (hk_secret key) (signature_message b) = hmac_hex (hk_secret key) (signature_message a)"
    using sig id key(2) by (auto simp: HmacAttestationVerifierV1_verify_Inr attestation_signature_def)
  moreover have "at_purpose b = p \<and> utc_micros_text (at_issued_at b) = utc_micros_text (at_issued_at a) \<and>
       utc_micros_text (at_expires_at b) = utc_micros_text (at_expires_at a) \<and> at_nonce b = at_nonce a \<and>
       at_evidence_identity b = at_evidence_identity a \<and>
       dg_value (at_payload_hash b) = dg_value (attestation_payload_hash p payload)"
    if "signature_message b = signature_message a"
    using signature_message_inj [OF that] a(2,6) by simp
  ultimately show "(at_purpose b = p \<and> utc_micros_text (at_issued_at b) = utc_micros_text (at_issued_at a) \<and>
       utc_micros_text (at_expires_at b) = utc_micros_text (at_expires_at a) \<and> at_nonce b = at_nonce a \<and>
       at_evidence_identity b = at_evidence_identity a \<and>
       dg_value (at_payload_hash b) = dg_value (attestation_payload_hash p payload)) \<or>
      collides (hmac_hex (hk_secret key)) (signature_message b) (signature_message a)"
    unfolding collides_def by blast
qed

theorem attestation_accepted_exactly_witness:
  "\<exists>a. HmacAttestationSignerV1_issue sample_key (utc 0) [] AP_VERIFICATION [] ''e'' 10 (Some ''aaaaaaaaaaaaaaaa'') = Inr a \<and>
     (\<exists>e. HmacAttestationVerifierV1_verify [(''k1'', sample_key)] (utc 10) a AP_VERIFICATION [] = Inl e)"
proof -
  obtain a where a: "HmacAttestationSignerV1_issue sample_key (utc 0) [] AP_VERIFICATION [] ''e'' 10
      (Some ''aaaaaaaaaaaaaaaa'') = Inr a" using sample_issue by blast
  have "\<not> json_collision (payload_envelope AP_VERIFICATION []) (payload_envelope AP_VERIFICATION [])"
    by (simp add: json_collision_def collides_def)
  then have "HmacAttestationVerifierV1_verify [(''k1'', sample_key)] (utc 10) a AP_VERIFICATION [] \<noteq> Inr ()"
    using attestation_accepted_exactly [OF a sample_key_ok, of "[(''k1'', sample_key)]" "[]" "utc 10" AP_VERIFICATION]
    by (simp add: sample_key_def)
  then show ?thesis
    using a by (cases "HmacAttestationVerifierV1_verify [(''k1'', sample_key)] (utc 10) a AP_VERIFICATION []") auto
qed

theorem attestation_issue_verify_witness:
  "\<exists>a. HmacAttestationSignerV1_issue sample_key (utc 0) [] AP_VERIFICATION [] ''e'' 10 (Some ''aaaaaaaaaaaaaaaa'') = Inr a \<and>
     HmacAttestationVerifierV1_verify [(''k1'', sample_key)] (utc 9) a AP_VERIFICATION [] = Inr ()"
proof -
  obtain a where a: "HmacAttestationSignerV1_issue sample_key (utc 0) [] AP_VERIFICATION [] ''e'' 10
      (Some ''aaaaaaaaaaaaaaaa'') = Inr a" using sample_issue by blast
  show ?thesis
    using attestation_issue_verify [OF a sample_key_ok, of "[(''k1'', sample_key)]" "utc 9"] a
    by (auto simp: sample_key_def)
qed

text \<open>An attestation of \<open>sample_key\<close> that a keyring with this key accepts.\<close>

lemma sample_accepted:
  obtains a where "HmacAttestationVerifierV1_verify [(''k1'', sample_key)] (utc 9) a AP_VERIFICATION [] = Inr ()"
    and "HmacAttestationVerifierV1_verify [(''k1'', sample_key)] (utc 1) a AP_VERIFICATION [] = Inr ()"
proof -
  obtain a unsigned where "AttestationV1_strip unsigned = unsigned"
    and a: "a = unsigned\<lparr>at_signature := attestation_signature (hk_secret sample_key) unsigned\<rparr>"
      "at_purpose a = AP_VERIFICATION" "at_key_id a = strip_ws (hk_key_id sample_key)"
      "at_issued_at a = as_utc (utc 0)" "dt_us (at_expires_at a) = dt_us (utc 0) + 10"
      "at_payload_hash a = attestation_payload_hash AP_VERIFICATION []"
    using sample_issue issue_Inr by blast
  have "strip_ws ''k1'' = ''k1''" by (rule strip_ws_all) (auto simp: white_space_def)
  then show thesis
    using a by (intro that [of a]) (auto simp: HmacAttestationVerifierV1_verify_Inr sample_key_def)
qed

text \<open>A signed attestation for any purpose and payload, for the witnesses of later theories.\<close>

definition sample_key_for :: "AttestationPurposeV1 \<Rightarrow> HmacAttestationKeyV1" where
  "sample_key_for purpose = sample_key\<lparr>hk_allowed_purposes := {purpose}\<rparr>"

definition sample_attestation :: "AttestationPurposeV1 \<Rightarrow> json_object \<Rightarrow> AttestationV1" where
  "sample_attestation purpose p =
     (let unsigned = \<lparr>at_schema_version = ''1.0'', at_purpose = purpose, at_key_id = ''k1'', at_issued_at = utc 0,
        at_expires_at = utc 10, at_nonce = ''aaaaaaaaaaaaaaaa'', at_evidence_identity = ''e'',
        at_payload_hash = attestation_payload_hash purpose p, at_signature = ''''\<rparr>
      in unsigned\<lparr>at_signature := attestation_signature (hk_secret sample_key) unsigned\<rparr>)"

lemma sample_attested:
  "HmacAttestationVerifierV1_verify [(''k1'', sample_key_for purpose)] (utc 1) (sample_attestation purpose p) purpose p = Inr ()"
  "at_payload_hash (sample_attestation purpose p) = attestation_payload_hash purpose p"
  by (simp_all add: HmacAttestationVerifierV1_verify_Inr sample_attestation_def Let_def sample_key_def sample_key_for_def
      attestation_signature_def signature_message_def signature_envelope_def)

theorem attestation_binds_payload_witness:
  "\<exists>a. HmacAttestationVerifierV1_verify [(''k1'', sample_key)] (utc 9) a AP_VERIFICATION [] = Inr () \<and>
     (json_norm (JObj []) = json_norm (JObj []) \<or>
      json_collision (payload_envelope AP_VERIFICATION []) (payload_envelope AP_VERIFICATION []))"
proof -
  obtain a where
    a: "HmacAttestationVerifierV1_verify [(''k1'', sample_key)] (utc 9) a AP_VERIFICATION [] = Inr ()"
      "HmacAttestationVerifierV1_verify [(''k1'', sample_key)] (utc 1) a AP_VERIFICATION [] = Inr ()"
    by (rule sample_accepted)
  show ?thesis using attestation_binds_payload [OF a] a(1) by (intro exI [of _ a]) simp
qed

theorem attestation_signature_binds_witness:
  "\<exists>a b. HmacAttestationVerifierV1_verify [(''k1'', sample_key)] (utc 9) a AP_VERIFICATION [] = Inr () \<and>
     HmacAttestationVerifierV1_verify [(''k1'', sample_key)] (utc 1) b AP_VERIFICATION [] = Inr () \<and>
     (at_nonce a = at_nonce b \<or>
      (\<exists>key. collides (hmac_hex (hk_secret key)) (signature_message a) (signature_message b)))"
proof -
  obtain a where
    a: "HmacAttestationVerifierV1_verify [(''k1'', sample_key)] (utc 9) a AP_VERIFICATION [] = Inr ()"
      "HmacAttestationVerifierV1_verify [(''k1'', sample_key)] (utc 1) a AP_VERIFICATION [] = Inr ()"
    by (rule sample_accepted)
  show ?thesis using attestation_signature_binds [OF a] a by blast
qed

end

