(* ===== verification/Contracts.thy ===== *)
theory Contracts
  imports Graphs Attestation
begin

text \<open>
  \<open>models.py\<close>, first part: the records that make up a statement contract (source, rights,
  mathematical and formal specification, policy, provenance, fidelity report, freeze record)
  and the contract itself. Each class is a record with its trimming, its guards in the order
  of the source, its constructor and its JSON dump; constant \<open>Literal\<close> fields appear in the
  dump only. Shown: what a valid frozen contract guarantees, and that the semantic hash
  covers exactly the fields other than \<open>status\<close> and \<open>freeze\<close>.
\<close>

section \<open>Identifiers of Lean\<close>

definition lean_ident_start :: "char \<Rightarrow> bool" where
  "lean_ident_start c \<longleftrightarrow> is_lower c \<or> is_upper c \<or> c = CHR ''_''"

definition lean_declaration :: "string \<Rightarrow> bool" where
  "lean_declaration s \<longleftrightarrow> s \<noteq> [] \<and> lean_ident_start (hd s) \<and>
     all_chars (\<lambda>c. is_alnum c \<or> c = CHR ''_'') s"

definition lean_namespace :: "string \<Rightarrow> bool" where
  "lean_namespace s \<longleftrightarrow> list_all lean_declaration (split_char (CHR ''.'') s)"

section \<open>Enumerations\<close>

datatype PermissionDecisionV1 =
    PD_ALLOW | PD_RESTRICTED | PD_UNKNOWN | PD_DENY

fun PermissionDecisionV1_value :: "PermissionDecisionV1 \<Rightarrow> string" where
  "PermissionDecisionV1_value PD_ALLOW = ''allow''"
| "PermissionDecisionV1_value PD_RESTRICTED = ''restricted''"
| "PermissionDecisionV1_value PD_UNKNOWN = ''unknown''"
| "PermissionDecisionV1_value PD_DENY = ''deny''"

lemma PermissionDecisionV1_value_inj [simp]: "PermissionDecisionV1_value a = PermissionDecisionV1_value b \<longleftrightarrow> a = b"
  by (cases a; cases b; simp)

datatype EndpointClassV1 =
    EC_NONE | EC_LOCAL | EC_APPROVED_EXTERNAL | EC_EXTERNAL

fun EndpointClassV1_value :: "EndpointClassV1 \<Rightarrow> string" where
  "EndpointClassV1_value EC_NONE = ''none''"
| "EndpointClassV1_value EC_LOCAL = ''local''"
| "EndpointClassV1_value EC_APPROVED_EXTERNAL = ''approved_external''"
| "EndpointClassV1_value EC_EXTERNAL = ''external''"

lemma EndpointClassV1_value_inj [simp]: "EndpointClassV1_value a = EndpointClassV1_value b \<longleftrightarrow> a = b"
  by (cases a; cases b; simp)

datatype TaskKindV1 =
    TK_KNOWN_THEOREM | TK_LIBRARY_GAP | TK_PROOF_RECONSTRUCTION | TK_OPEN_CONJECTURE

fun TaskKindV1_value :: "TaskKindV1 \<Rightarrow> string" where
  "TaskKindV1_value TK_KNOWN_THEOREM = ''known_theorem''"
| "TaskKindV1_value TK_LIBRARY_GAP = ''library_gap''"
| "TaskKindV1_value TK_PROOF_RECONSTRUCTION = ''proof_reconstruction''"
| "TaskKindV1_value TK_OPEN_CONJECTURE = ''open_conjecture''"

lemma TaskKindV1_value_inj [simp]: "TaskKindV1_value a = TaskKindV1_value b \<longleftrightarrow> a = b"
  by (cases a; cases b; simp)

datatype ReleaseTierV1 =
    RT_CALIBRATION | RT_SANDBOX | RT_DOWNSTREAM | RT_UPSTREAM_CANDIDATE
  | RT_CONJECTURE_QUARANTINE

fun ReleaseTierV1_value :: "ReleaseTierV1 \<Rightarrow> string" where
  "ReleaseTierV1_value RT_CALIBRATION = ''calibration''"
| "ReleaseTierV1_value RT_SANDBOX = ''sandbox''"
| "ReleaseTierV1_value RT_DOWNSTREAM = ''downstream''"
| "ReleaseTierV1_value RT_UPSTREAM_CANDIDATE = ''upstream_candidate''"
| "ReleaseTierV1_value RT_CONJECTURE_QUARANTINE = ''conjecture_quarantine''"

lemma ReleaseTierV1_value_inj [simp]: "ReleaseTierV1_value a = ReleaseTierV1_value b \<longleftrightarrow> a = b"
  by (cases a; cases b; simp)

datatype AxiomProfileV1 =
    AX_STRICT | AX_MATHLIB | AX_EXPLICIT_ALLOWLIST

fun AxiomProfileV1_value :: "AxiomProfileV1 \<Rightarrow> string" where
  "AxiomProfileV1_value AX_STRICT = ''strict''"
| "AxiomProfileV1_value AX_MATHLIB = ''mathlib''"
| "AxiomProfileV1_value AX_EXPLICIT_ALLOWLIST = ''explicit_allowlist''"

lemma AxiomProfileV1_value_inj [simp]: "AxiomProfileV1_value a = AxiomProfileV1_value b \<longleftrightarrow> a = b"
  by (cases a; cases b; simp)

datatype FidelityRiskV1 =
    FR_L0_REUSE | FR_L1_SIMPLE | FR_L2_REUSABLE_API | FR_L3_RESEARCH

fun FidelityRiskV1_value :: "FidelityRiskV1 \<Rightarrow> string" where
  "FidelityRiskV1_value FR_L0_REUSE = ''l0_reuse''"
| "FidelityRiskV1_value FR_L1_SIMPLE = ''l1_simple''"
| "FidelityRiskV1_value FR_L2_REUSABLE_API = ''l2_reusable_api''"
| "FidelityRiskV1_value FR_L3_RESEARCH = ''l3_research''"

lemma FidelityRiskV1_value_inj [simp]: "FidelityRiskV1_value a = FidelityRiskV1_value b \<longleftrightarrow> a = b"
  by (cases a; cases b; simp)

datatype StatementStatusV1 =
    SS_DRAFT | SS_UNDER_REVIEW | SS_FROZEN | SS_SUPERSEDED

fun StatementStatusV1_value :: "StatementStatusV1 \<Rightarrow> string" where
  "StatementStatusV1_value SS_DRAFT = ''draft''"
| "StatementStatusV1_value SS_UNDER_REVIEW = ''under_review''"
| "StatementStatusV1_value SS_FROZEN = ''frozen''"
| "StatementStatusV1_value SS_SUPERSEDED = ''superseded''"

lemma StatementStatusV1_value_inj [simp]: "StatementStatusV1_value a = StatementStatusV1_value b \<longleftrightarrow> a = b"
  by (cases a; cases b; simp)

datatype ProofStatusV1 =
    PS_CANDIDATE | PS_KERNEL_VERIFIED | PS_REJECTED

fun ProofStatusV1_value :: "ProofStatusV1 \<Rightarrow> string" where
  "ProofStatusV1_value PS_CANDIDATE = ''candidate''"
| "ProofStatusV1_value PS_KERNEL_VERIFIED = ''kernel_verified''"
| "ProofStatusV1_value PS_REJECTED = ''rejected''"

lemma ProofStatusV1_value_inj [simp]: "ProofStatusV1_value a = ProofStatusV1_value b \<longleftrightarrow> a = b"
  by (cases a; cases b; simp)

datatype IntegrationStatusV1 =
    IS_SANDBOX | IS_DOWNSTREAM_READY | IS_UPSTREAM_REVIEW | IS_MERGED

fun IntegrationStatusV1_value :: "IntegrationStatusV1 \<Rightarrow> string" where
  "IntegrationStatusV1_value IS_SANDBOX = ''sandbox''"
| "IntegrationStatusV1_value IS_DOWNSTREAM_READY = ''downstream_ready''"
| "IntegrationStatusV1_value IS_UPSTREAM_REVIEW = ''upstream_review''"
| "IntegrationStatusV1_value IS_MERGED = ''merged''"

lemma IntegrationStatusV1_value_inj [simp]: "IntegrationStatusV1_value a = IntegrationStatusV1_value b \<longleftrightarrow> a = b"
  by (cases a; cases b; simp)

section \<open>Sources and rights\<close>

record SourceSpanV1 =
  ss_span_id :: StableIdentifierV1
  ss_locator :: string
  ss_content_hash :: DigestV1
  ss_start_offset :: "int option"
  ss_end_offset :: "int option"
  ss_permitted_excerpt :: "string option"

definition SourceSpanV1_strip :: "SourceSpanV1 \<Rightarrow> SourceSpanV1" where
  "SourceSpanV1_strip x = x\<lparr>ss_locator := strip_ws (ss_locator x),
     ss_permitted_excerpt := map_option strip_ws (ss_permitted_excerpt x)\<rparr>"

definition dump_SourceSpanV1 :: "SourceSpanV1 \<Rightarrow> json" where
  "dump_SourceSpanV1 x = JObj
     [(''span_id'', dump_StableIdentifierV1 (ss_span_id x)),
      (''locator'', JStr (ss_locator x)),
      (''content_hash'', dump_DigestV1 (ss_content_hash x)),
      (''start_offset'', JOpt JInt (ss_start_offset x)),
      (''end_offset'', JOpt JInt (ss_end_offset x)),
      (''permitted_excerpt'', JOpt JStr (ss_permitted_excerpt x))]"

definition SourceSpanV1_guards :: "SourceSpanV1 \<Rightarrow> checks" where
  "SourceSpanV1_guards x = [((ss_locator x) \<noteq> [], ''locator min_length''),
     (opt_all (\<lambda>v. v \<ge> 0) (ss_start_offset x), ''start_offset ge''),
     (opt_all (\<lambda>v. v \<ge> 0) (ss_end_offset x), ''end_offset ge''),
     (dg_kind (ss_content_hash x) = SOURCE_SPAN, ''content_hash kind''),
     ((case (ss_start_offset x, ss_end_offset x) of (Some s, Some e) \<Rightarrow> s \<le> e | _ \<Rightarrow> True), ''end_offset must not precede start_offset''),
     (opt_all (\<lambda>v. digest_text SOURCE_SPAN v = ss_content_hash x) (ss_permitted_excerpt x), ''permitted_excerpt does not match content_hash'')]"

definition SourceSpanV1_init :: "SourceSpanV1 \<Rightarrow> SourceSpanV1 result" where
  "SourceSpanV1_init = construct SourceSpanV1_strip SourceSpanV1_guards"

interpretation ss_model: contract_model SourceSpanV1_strip SourceSpanV1_guards
  by unfold_locales (simp add: SourceSpanV1_strip_def)

record SourceRecordV1 =
  sr_source_id :: StableIdentifierV1
  sr_work_id :: string
  sr_title :: string
  sr_version :: string
  sr_locator :: string
  sr_content_hash :: DigestV1
  sr_snapshot_ref :: "string option"
  sr_retrieved_at :: datetime
  sr_spans :: "SourceSpanV1 list"
  sr_metadata :: json_object

definition SourceRecordV1_strip :: "SourceRecordV1 \<Rightarrow> SourceRecordV1" where
  "SourceRecordV1_strip x = x\<lparr>sr_work_id := strip_ws (sr_work_id x),
     sr_title := strip_ws (sr_title x),
     sr_version := strip_ws (sr_version x),
     sr_locator := strip_ws (sr_locator x),
     sr_snapshot_ref := map_option strip_ws (sr_snapshot_ref x),
     sr_metadata := strip_keys (sr_metadata x)\<rparr>"

definition dump_SourceRecordV1 :: "SourceRecordV1 \<Rightarrow> json" where
  "dump_SourceRecordV1 x = JObj
     [(''schema_version'', JStr ''1.0''),
      (''source_id'', dump_StableIdentifierV1 (sr_source_id x)),
      (''work_id'', JStr (sr_work_id x)),
      (''title'', JStr (sr_title x)),
      (''version'', JStr (sr_version x)),
      (''locator'', JStr (sr_locator x)),
      (''content_hash'', dump_DigestV1 (sr_content_hash x)),
      (''snapshot_ref'', JOpt JStr (sr_snapshot_ref x)),
      (''retrieved_at'', dump_datetime (sr_retrieved_at x)),
      (''spans'', JList (map dump_SourceSpanV1 (sr_spans x))),
      (''metadata'', JObj (sr_metadata x))]"

definition SourceRecordV1_guards :: "SourceRecordV1 \<Rightarrow> checks" where
  "SourceRecordV1_guards x = [((sr_work_id x) \<noteq> [], ''work_id min_length''),
     ((sr_title x) \<noteq> [], ''title min_length''),
     ((sr_version x) \<noteq> [], ''version min_length''),
     ((sr_locator x) \<noteq> [], ''locator min_length''),
     (dg_kind (sr_content_hash x) = SOURCE_BYTES, ''content_hash kind''),
     (distinct (map (si_value \<circ> ss_span_id) (sr_spans x)), ''source span identifiers must be unique'')]"

definition SourceRecordV1_init :: "SourceRecordV1 \<Rightarrow> SourceRecordV1 result" where
  "SourceRecordV1_init = construct SourceRecordV1_strip SourceRecordV1_guards"

interpretation sr_model: contract_model SourceRecordV1_strip SourceRecordV1_guards
  by unfold_locales (simp add: SourceRecordV1_strip_def)

record RightsRecordV1 =
  rr_rights_id :: StableIdentifierV1
  rr_source_id :: StableIdentifierV1
  rr_source_license :: "string option"
  rr_generated_code_license :: "string option"
  rr_overall_decision :: PermissionDecisionV1
  rr_redistribution :: PermissionDecisionV1
  rr_model_egress :: PermissionDecisionV1
  rr_training :: PermissionDecisionV1
  rr_embedding :: PermissionDecisionV1
  rr_allowed_endpoint_classes :: "EndpointClassV1 list"
  rr_attribution :: "string option"
  rr_restrictions :: "string list"
  rr_reviewed_by :: "string option"
  rr_reviewed_at :: "datetime option"

definition RightsRecordV1_strip :: "RightsRecordV1 \<Rightarrow> RightsRecordV1" where
  "RightsRecordV1_strip x = x\<lparr>rr_source_license := map_option strip_ws (rr_source_license x),
     rr_generated_code_license := map_option strip_ws (rr_generated_code_license x),
     rr_attribution := map_option strip_ws (rr_attribution x),
     rr_restrictions := map strip_ws (rr_restrictions x),
     rr_reviewed_by := map_option strip_ws (rr_reviewed_by x)\<rparr>"

definition dump_RightsRecordV1 :: "RightsRecordV1 \<Rightarrow> json" where
  "dump_RightsRecordV1 x = JObj
     [(''schema_version'', JStr ''1.0''),
      (''rights_id'', dump_StableIdentifierV1 (rr_rights_id x)),
      (''source_id'', dump_StableIdentifierV1 (rr_source_id x)),
      (''source_license'', JOpt JStr (rr_source_license x)),
      (''generated_code_license'', JOpt JStr (rr_generated_code_license x)),
      (''overall_decision'', JStr (PermissionDecisionV1_value (rr_overall_decision x))),
      (''redistribution'', JStr (PermissionDecisionV1_value (rr_redistribution x))),
      (''model_egress'', JStr (PermissionDecisionV1_value (rr_model_egress x))),
      (''training'', JStr (PermissionDecisionV1_value (rr_training x))),
      (''embedding'', JStr (PermissionDecisionV1_value (rr_embedding x))),
      (''allowed_endpoint_classes'', JList (map (\<lambda>v. JStr (EndpointClassV1_value v)) (rr_allowed_endpoint_classes x))),
      (''attribution'', JOpt JStr (rr_attribution x)),
      (''restrictions'', JList (map JStr (rr_restrictions x))),
      (''reviewed_by'', JOpt JStr (rr_reviewed_by x)),
      (''reviewed_at'', JOpt dump_datetime (rr_reviewed_at x))]"

definition RightsRecordV1_guards :: "RightsRecordV1 \<Rightarrow> checks" where
  "RightsRecordV1_guards x = [(rr_overall_decision x = PD_ALLOW \<longrightarrow> truthy (rr_source_license x), ''an allowed rights decision requires source_license''),
     (rr_overall_decision x = PD_ALLOW \<longrightarrow> truthy (rr_reviewed_by x) \<and> rr_reviewed_at x \<noteq> None, ''an allowed rights decision requires reviewer and timestamp''),
     (rr_model_egress x = PD_ALLOW \<longrightarrow> rr_allowed_endpoint_classes x \<noteq> [], ''allowed model egress requires explicit endpoint classes'')]"

definition RightsRecordV1_init :: "RightsRecordV1 \<Rightarrow> RightsRecordV1 result" where
  "RightsRecordV1_init = construct RightsRecordV1_strip RightsRecordV1_guards"

interpretation rr_model: contract_model RightsRecordV1_strip RightsRecordV1_guards
  by unfold_locales (simp add: RightsRecordV1_strip_def)

section \<open>Specifications\<close>

datatype AmbiguitySeverityV1 =
    AS_INFORMATIONAL | AS_BLOCKING

fun AmbiguitySeverityV1_value :: "AmbiguitySeverityV1 \<Rightarrow> string" where
  "AmbiguitySeverityV1_value AS_INFORMATIONAL = ''informational''"
| "AmbiguitySeverityV1_value AS_BLOCKING = ''blocking''"

lemma AmbiguitySeverityV1_value_inj [simp]: "AmbiguitySeverityV1_value a = AmbiguitySeverityV1_value b \<longleftrightarrow> a = b"
  by (cases a; cases b; simp)

record AmbiguityV1 =
  am_ambiguity_id :: StableIdentifierV1
  am_description :: string
  am_severity :: AmbiguitySeverityV1
  am_resolution :: "string option"
  am_resolved_by :: "string option"

definition AmbiguityV1_strip :: "AmbiguityV1 \<Rightarrow> AmbiguityV1" where
  "AmbiguityV1_strip x = x\<lparr>am_description := strip_ws (am_description x),
     am_resolution := map_option strip_ws (am_resolution x),
     am_resolved_by := map_option strip_ws (am_resolved_by x)\<rparr>"

definition dump_AmbiguityV1 :: "AmbiguityV1 \<Rightarrow> json" where
  "dump_AmbiguityV1 x = JObj
     [(''ambiguity_id'', dump_StableIdentifierV1 (am_ambiguity_id x)),
      (''description'', JStr (am_description x)),
      (''severity'', JStr (AmbiguitySeverityV1_value (am_severity x))),
      (''resolution'', JOpt JStr (am_resolution x)),
      (''resolved_by'', JOpt JStr (am_resolved_by x))]"

definition AmbiguityV1_guards :: "AmbiguityV1 \<Rightarrow> checks" where
  "AmbiguityV1_guards x = [((am_description x) \<noteq> [], ''description min_length''),
     ((am_resolution x = None) = (am_resolved_by x = None), ''resolution and resolved_by must be provided together'')]"

definition AmbiguityV1_init :: "AmbiguityV1 \<Rightarrow> AmbiguityV1 result" where
  "AmbiguityV1_init = construct AmbiguityV1_strip AmbiguityV1_guards"

interpretation am_model: contract_model AmbiguityV1_strip AmbiguityV1_guards
  by unfold_locales (simp add: AmbiguityV1_strip_def)

record MathematicalSpecificationV1 =
  ms_informal_statement :: string
  ms_normalized_statement :: string
  ms_assumptions :: "string list"
  ms_quantifier_order :: "string list"
  ms_notation_context :: "string list"
  ms_definitions :: "string list"
  ms_equality_notions :: "string list"
  ms_edge_cases :: "string list"
  ms_ambiguities :: "AmbiguityV1 list"

definition MathematicalSpecificationV1_strip :: "MathematicalSpecificationV1 \<Rightarrow> MathematicalSpecificationV1" where
  "MathematicalSpecificationV1_strip x = x\<lparr>ms_informal_statement := strip_ws (ms_informal_statement x),
     ms_normalized_statement := strip_ws (ms_normalized_statement x),
     ms_assumptions := map strip_ws (ms_assumptions x),
     ms_quantifier_order := map strip_ws (ms_quantifier_order x),
     ms_notation_context := map strip_ws (ms_notation_context x),
     ms_definitions := map strip_ws (ms_definitions x),
     ms_equality_notions := map strip_ws (ms_equality_notions x),
     ms_edge_cases := map strip_ws (ms_edge_cases x)\<rparr>"

definition dump_MathematicalSpecificationV1 :: "MathematicalSpecificationV1 \<Rightarrow> json" where
  "dump_MathematicalSpecificationV1 x = JObj
     [(''informal_statement'', JStr (ms_informal_statement x)),
      (''normalized_statement'', JStr (ms_normalized_statement x)),
      (''assumptions'', JList (map JStr (ms_assumptions x))),
      (''quantifier_order'', JList (map JStr (ms_quantifier_order x))),
      (''notation_context'', JList (map JStr (ms_notation_context x))),
      (''definitions'', JList (map JStr (ms_definitions x))),
      (''equality_notions'', JList (map JStr (ms_equality_notions x))),
      (''edge_cases'', JList (map JStr (ms_edge_cases x))),
      (''ambiguities'', JList (map dump_AmbiguityV1 (ms_ambiguities x)))]"

definition MathematicalSpecificationV1_guards :: "MathematicalSpecificationV1 \<Rightarrow> checks" where
  "MathematicalSpecificationV1_guards x = [((ms_informal_statement x) \<noteq> [], ''informal_statement min_length''),
     ((ms_normalized_statement x) \<noteq> [], ''normalized_statement min_length'')]"

definition MathematicalSpecificationV1_init :: "MathematicalSpecificationV1 \<Rightarrow> MathematicalSpecificationV1 result" where
  "MathematicalSpecificationV1_init = construct MathematicalSpecificationV1_strip MathematicalSpecificationV1_guards"

interpretation ms_model: contract_model MathematicalSpecificationV1_strip MathematicalSpecificationV1_guards
  by unfold_locales (simp add: MathematicalSpecificationV1_strip_def)

record OciVerifierExecutionPolicyV1 =
  op1_worker_image_digest :: string

definition OciVerifierExecutionPolicyV1_strip :: "OciVerifierExecutionPolicyV1 \<Rightarrow> OciVerifierExecutionPolicyV1" where
  "OciVerifierExecutionPolicyV1_strip x = x\<lparr>op1_worker_image_digest := strip_ws (op1_worker_image_digest x)\<rparr>"

definition dump_OciVerifierExecutionPolicyV1 :: "OciVerifierExecutionPolicyV1 \<Rightarrow> json" where
  "dump_OciVerifierExecutionPolicyV1 x = JObj
     [(''schema_version'', JStr ''1.0''),
      (''worker_image_digest'', JStr (op1_worker_image_digest x)),
      (''wrapper_protocol'', JStr ''autolean.oci-lean-wrapper.v1''),
      (''wrapper_executable'', JStr ''/opt/autolean/bin/autolean-lean-wrapper''),
      (''candidate_path'', JStr ''/input/Candidate.lean''),
      (''type_format'', JStr ''autolean.lean-pp-expr.v1''),
      (''network_mode'', JStr ''none''),
      (''read_only_root'', JBool True),
      (''drop_all_capabilities'', JBool True),
      (''no_new_privileges'', JBool True),
      (''source_mount_path'', JStr ''/source''),
      (''dependencies_mount_path'', JStr ''/deps''),
      (''source_mount_read_only'', JBool True),
      (''dependencies_mount_read_only'', JBool True),
      (''candidate_mount_read_only'', JBool True),
      (''workdir'', JStr ''/work'')]"

definition OciVerifierExecutionPolicyV1_guards :: "OciVerifierExecutionPolicyV1 \<Rightarrow> checks" where
  "OciVerifierExecutionPolicyV1_guards x = [(image_digest_pattern (op1_worker_image_digest x), ''worker_image_digest pattern'')]"

definition OciVerifierExecutionPolicyV1_init :: "OciVerifierExecutionPolicyV1 \<Rightarrow> OciVerifierExecutionPolicyV1 result" where
  "OciVerifierExecutionPolicyV1_init = construct OciVerifierExecutionPolicyV1_strip OciVerifierExecutionPolicyV1_guards"

interpretation op1_model: contract_model OciVerifierExecutionPolicyV1_strip OciVerifierExecutionPolicyV1_guards
  by unfold_locales (simp add: OciVerifierExecutionPolicyV1_strip_def)

definition OciVerifierExecutionPolicyV1_command_policy_hash :: "OciVerifierExecutionPolicyV1 \<Rightarrow> DigestV1" where
  "OciVerifierExecutionPolicyV1_command_policy_hash x =
     digest_model VERIFICATION_COMMAND (dump_exclude [''worker_image_digest''] (dump_OciVerifierExecutionPolicyV1 x))"

text \<open>The guards both \<open>wrapper_argv\<close> methods apply to the declaration they render.\<close>

definition canonical_declaration :: "string \<Rightarrow> unit result" where
  "canonical_declaration d = require_all
     [(d \<noteq> [] \<and> d = py_strip d, ''expected declaration must be a nonempty canonical identifier''),
      (CHR 0x00 \<notin> set d \<and> CHR 0x0A \<notin> set d, ''expected declaration contains a control character'')]"

definition OciVerifierExecutionPolicyV1_wrapper_argv ::
  "OciVerifierExecutionPolicyV1 \<Rightarrow> string \<Rightarrow> string list result" where
  "OciVerifierExecutionPolicyV1_wrapper_argv x d =
     bindE (canonical_declaration d) (\<lambda>_. Inr
       [''/opt/autolean/bin/autolean-lean-wrapper'', ''--protocol'', ''autolean.oci-lean-wrapper.v1'',
        ''--candidate'', ''/input/Candidate.lean'', ''--declaration'', d,
        ''--type-format'', ''autolean.lean-pp-expr.v1''])"

record OciVerifierExecutionPolicyV2 =
  op2_worker_image_digest :: string

definition OciVerifierExecutionPolicyV2_strip :: "OciVerifierExecutionPolicyV2 \<Rightarrow> OciVerifierExecutionPolicyV2" where
  "OciVerifierExecutionPolicyV2_strip x = x\<lparr>op2_worker_image_digest := strip_ws (op2_worker_image_digest x)\<rparr>"

definition dump_OciVerifierExecutionPolicyV2 :: "OciVerifierExecutionPolicyV2 \<Rightarrow> json" where
  "dump_OciVerifierExecutionPolicyV2 x = JObj
     [(''schema_version'', JStr ''2.0''),
      (''worker_image_digest'', JStr (op2_worker_image_digest x)),
      (''wrapper_protocol'', JStr ''autolean.oci-lean-wrapper.v2''),
      (''wrapper_executable'', JStr ''/opt/autolean/bin/autolean-lean-wrapper''),
      (''candidate_path'', JStr ''/input/Candidate.lean''),
      (''compiler_output_path'', JStr ''/output/Candidate.olean''),
      (''compiled_candidate_path'', JStr ''/compiled/Candidate.olean''),
      (''handoff_protocol'', JStr ''autolean.oci-compile-query-handoff.v1''),
      (''type_format'', JStr ''autolean.lean-pp-expr.v1''),
      (''network_mode'', JStr ''none''),
      (''read_only_root'', JBool True),
      (''drop_all_capabilities'', JBool True),
      (''no_new_privileges'', JBool True),
      (''runtime_user_mode'', JStr ''host-non-root''),
      (''source_mount_path'', JStr ''/source''),
      (''dependencies_mount_path'', JStr ''/deps''),
      (''source_mount_read_only'', JBool True),
      (''dependencies_mount_read_only'', JBool True),
      (''candidate_mount_read_only'', JBool True),
      (''workdir'', JStr ''/work'')]"

definition OciVerifierExecutionPolicyV2_guards :: "OciVerifierExecutionPolicyV2 \<Rightarrow> checks" where
  "OciVerifierExecutionPolicyV2_guards x = [(image_digest_pattern (op2_worker_image_digest x), ''worker_image_digest pattern'')]"

definition OciVerifierExecutionPolicyV2_init :: "OciVerifierExecutionPolicyV2 \<Rightarrow> OciVerifierExecutionPolicyV2 result" where
  "OciVerifierExecutionPolicyV2_init = construct OciVerifierExecutionPolicyV2_strip OciVerifierExecutionPolicyV2_guards"

interpretation op2_model: contract_model OciVerifierExecutionPolicyV2_strip OciVerifierExecutionPolicyV2_guards
  by unfold_locales (simp add: OciVerifierExecutionPolicyV2_strip_def)

definition OciVerifierExecutionPolicyV2_command_policy_hash :: "OciVerifierExecutionPolicyV2 \<Rightarrow> DigestV1" where
  "OciVerifierExecutionPolicyV2_command_policy_hash x =
     digest_model VERIFICATION_COMMAND (dump_exclude [''worker_image_digest''] (dump_OciVerifierExecutionPolicyV2 x))"

definition OciVerifierExecutionPolicyV2_compile_wrapper_argv ::
  "OciVerifierExecutionPolicyV2 \<Rightarrow> string list" where
  "OciVerifierExecutionPolicyV2_compile_wrapper_argv x =
     [''/opt/autolean/bin/autolean-lean-wrapper'', ''--protocol'', ''autolean.oci-lean-wrapper.v2'',
      ''--phase'', ''compile'', ''--candidate'', ''/input/Candidate.lean'',
      ''--output'', ''/output/Candidate.olean'']"

definition OciVerifierExecutionPolicyV2_wrapper_argv ::
  "OciVerifierExecutionPolicyV2 \<Rightarrow> string \<Rightarrow> string list result" where
  "OciVerifierExecutionPolicyV2_wrapper_argv x d =
     bindE (canonical_declaration d) (\<lambda>_. Inr
       [''/opt/autolean/bin/autolean-lean-wrapper'', ''--protocol'', ''autolean.oci-lean-wrapper.v2'',
        ''--phase'', ''query'', ''--compiled'', ''/compiled/Candidate.olean'', ''--declaration'', d,
        ''--type-format'', ''autolean.lean-pp-expr.v1''])"

text \<open>The union of the two policies, told apart by \<open>schema_version\<close>.\<close>

datatype OciVerifierExecutionPolicy =
    PolicyV1 OciVerifierExecutionPolicyV1
  | PolicyV2 OciVerifierExecutionPolicyV2

fun dump_OciVerifierExecutionPolicy :: "OciVerifierExecutionPolicy \<Rightarrow> json" where
  "dump_OciVerifierExecutionPolicy (PolicyV1 x) = dump_OciVerifierExecutionPolicyV1 x"
| "dump_OciVerifierExecutionPolicy (PolicyV2 x) = dump_OciVerifierExecutionPolicyV2 x"

record LeanEnvironmentV1 =
  le_lean_version :: string
  le_mathlib_revision :: string
  le_verifier_execution_policy :: OciVerifierExecutionPolicy
  le_lake_manifest_hash :: "DigestV1 option"
  le_environment_hash :: DigestV1

definition LeanEnvironmentV1_strip :: "LeanEnvironmentV1 \<Rightarrow> LeanEnvironmentV1" where
  "LeanEnvironmentV1_strip x = x\<lparr>le_lean_version := strip_ws (le_lean_version x),
     le_mathlib_revision := strip_ws (le_mathlib_revision x)\<rparr>"

definition dump_LeanEnvironmentV1 :: "LeanEnvironmentV1 \<Rightarrow> json" where
  "dump_LeanEnvironmentV1 x = JObj
     [(''lean_version'', JStr (le_lean_version x)),
      (''mathlib_revision'', JStr (le_mathlib_revision x)),
      (''verifier_execution_policy'', dump_OciVerifierExecutionPolicy (le_verifier_execution_policy x)),
      (''lake_manifest_hash'', JOpt dump_DigestV1 (le_lake_manifest_hash x)),
      (''environment_hash'', dump_DigestV1 (le_environment_hash x))]"

definition LeanEnvironmentV1_guards :: "LeanEnvironmentV1 \<Rightarrow> checks" where
  "LeanEnvironmentV1_guards x = [((le_lean_version x) \<noteq> [], ''lean_version min_length''),
     ((le_mathlib_revision x) \<noteq> [], ''mathlib_revision min_length''),
     (dg_kind (le_environment_hash x) = ENVIRONMENT, ''environment_hash kind''),
     (opt_all (\<lambda>h. dg_kind h = ENVIRONMENT) (le_lake_manifest_hash x), ''lake_manifest_hash kind'')]"

definition LeanEnvironmentV1_init :: "LeanEnvironmentV1 \<Rightarrow> LeanEnvironmentV1 result" where
  "LeanEnvironmentV1_init = construct LeanEnvironmentV1_strip LeanEnvironmentV1_guards"

interpretation le_model: contract_model LeanEnvironmentV1_strip LeanEnvironmentV1_guards
  by unfold_locales (simp add: LeanEnvironmentV1_strip_def)

record FormalSpecificationV1 =
  fs_declaration_name :: string
  fs_namespace :: string
  fs_lean_statement_source :: string
  fs_statement_source_hash :: DigestV1
  fs_elaborated_type :: "string option"
  fs_elaborated_type_hash :: "DigestV1 option"
  fs_environment :: LeanEnvironmentV1
  fs_imports_allowlist :: "string list"
  fs_axioms_allowlist :: "string list"

definition FormalSpecificationV1_strip :: "FormalSpecificationV1 \<Rightarrow> FormalSpecificationV1" where
  "FormalSpecificationV1_strip x = x\<lparr>fs_declaration_name := strip_ws (fs_declaration_name x),
     fs_namespace := strip_ws (fs_namespace x),
     fs_lean_statement_source := strip_ws (fs_lean_statement_source x),
     fs_elaborated_type := map_option strip_ws (fs_elaborated_type x),
     fs_imports_allowlist := map strip_ws (fs_imports_allowlist x),
     fs_axioms_allowlist := map strip_ws (fs_axioms_allowlist x)\<rparr>"

definition dump_FormalSpecificationV1 :: "FormalSpecificationV1 \<Rightarrow> json" where
  "dump_FormalSpecificationV1 x = JObj
     [(''declaration_name'', JStr (fs_declaration_name x)),
      (''namespace'', JStr (fs_namespace x)),
      (''lean_statement_source'', JStr (fs_lean_statement_source x)),
      (''statement_source_hash'', dump_DigestV1 (fs_statement_source_hash x)),
      (''elaborated_type'', JOpt JStr (fs_elaborated_type x)),
      (''elaborated_type_hash'', JOpt dump_DigestV1 (fs_elaborated_type_hash x)),
      (''environment'', dump_LeanEnvironmentV1 (fs_environment x)),
      (''imports_allowlist'', JList (map JStr (fs_imports_allowlist x))),
      (''axioms_allowlist'', JList (map JStr (fs_axioms_allowlist x)))]"

definition FormalSpecificationV1_guards :: "FormalSpecificationV1 \<Rightarrow> checks" where
  "FormalSpecificationV1_guards x = [((fs_declaration_name x) \<noteq> [], ''declaration_name min_length''),
     ((fs_namespace x) \<noteq> [], ''namespace min_length''),
     ((fs_lean_statement_source x) \<noteq> [], ''lean_statement_source min_length''),
     (dg_kind (fs_statement_source_hash x) = STATEMENT_SOURCE, ''statement_source_hash kind''),
     (digest_text STATEMENT_SOURCE (fs_lean_statement_source x) = fs_statement_source_hash x, ''lean_statement_source does not match statement_source_hash''),
     ((fs_elaborated_type x = None) = (fs_elaborated_type_hash x = None), ''elaborated_type and elaborated_type_hash must be provided together''),
     (opt_all (\<lambda>h. dg_kind h = ELABORATED_TYPE) (fs_elaborated_type_hash x), ''elaborated_type_hash kind''),
     (opt_all (\<lambda>t. Some (digest_text ELABORATED_TYPE t) = fs_elaborated_type_hash x) (fs_elaborated_type x), ''elaborated_type does not match elaborated_type_hash'')]"

definition FormalSpecificationV1_init :: "FormalSpecificationV1 \<Rightarrow> FormalSpecificationV1 result" where
  "FormalSpecificationV1_init = construct FormalSpecificationV1_strip FormalSpecificationV1_guards"

interpretation fs_model: contract_model FormalSpecificationV1_strip FormalSpecificationV1_guards
  by unfold_locales (simp add: FormalSpecificationV1_strip_def)

record AlignmentTargetV1 =
  al_source_span_id :: StableIdentifierV1
  al_formal_target :: string
  al_relation :: string
  al_confidence :: string
  al_reviewer_id :: "string option"

definition AlignmentTargetV1_strip :: "AlignmentTargetV1 \<Rightarrow> AlignmentTargetV1" where
  "AlignmentTargetV1_strip x = x\<lparr>al_formal_target := strip_ws (al_formal_target x),
     al_relation := strip_ws (al_relation x),
     al_reviewer_id := map_option strip_ws (al_reviewer_id x)\<rparr>"

definition dump_AlignmentTargetV1 :: "AlignmentTargetV1 \<Rightarrow> json" where
  "dump_AlignmentTargetV1 x = JObj
     [(''source_span_id'', dump_StableIdentifierV1 (al_source_span_id x)),
      (''formal_target'', JStr (al_formal_target x)),
      (''relation'', JStr (al_relation x)),
      (''confidence'', JFloat (al_confidence x)),
      (''reviewer_id'', JOpt JStr (al_reviewer_id x))]"

definition AlignmentTargetV1_guards :: "AlignmentTargetV1 \<Rightarrow> checks" where
  "AlignmentTargetV1_guards x = [((al_formal_target x) \<noteq> [], ''formal_target min_length''),
     ((al_relation x) \<noteq> [], ''relation min_length''),
     (float_ge_zero (al_confidence x), ''confidence ge''),
     (float_le_one (al_confidence x), ''confidence le'')]"

definition AlignmentTargetV1_init :: "AlignmentTargetV1 \<Rightarrow> AlignmentTargetV1 result" where
  "AlignmentTargetV1_init = construct AlignmentTargetV1_strip AlignmentTargetV1_guards"

interpretation al_model: contract_model AlignmentTargetV1_strip AlignmentTargetV1_guards
  by unfold_locales (simp add: AlignmentTargetV1_strip_def)

datatype DependencyKindV1 =
    DK_MATHEMATICAL | DK_FORMAL_SIGNATURE | DK_FORMAL_BODY | DK_TASK

fun DependencyKindV1_value :: "DependencyKindV1 \<Rightarrow> string" where
  "DependencyKindV1_value DK_MATHEMATICAL = ''mathematical''"
| "DependencyKindV1_value DK_FORMAL_SIGNATURE = ''formal_signature''"
| "DependencyKindV1_value DK_FORMAL_BODY = ''formal_body''"
| "DependencyKindV1_value DK_TASK = ''task''"

lemma DependencyKindV1_value_inj [simp]: "DependencyKindV1_value a = DependencyKindV1_value b \<longleftrightarrow> a = b"
  by (cases a; cases b; simp)

record DependencyReferenceV1 =
  dr_dependency_id :: StableIdentifierV1
  dr_kind :: DependencyKindV1
  dr_target :: string
  dr_required :: bool
  dr_rationale :: "string option"

definition DependencyReferenceV1_strip :: "DependencyReferenceV1 \<Rightarrow> DependencyReferenceV1" where
  "DependencyReferenceV1_strip x = x\<lparr>dr_target := strip_ws (dr_target x),
     dr_rationale := map_option strip_ws (dr_rationale x)\<rparr>"

definition dump_DependencyReferenceV1 :: "DependencyReferenceV1 \<Rightarrow> json" where
  "dump_DependencyReferenceV1 x = JObj
     [(''dependency_id'', dump_StableIdentifierV1 (dr_dependency_id x)),
      (''kind'', JStr (DependencyKindV1_value (dr_kind x))),
      (''target'', JStr (dr_target x)),
      (''required'', JBool (dr_required x)),
      (''rationale'', JOpt JStr (dr_rationale x))]"

definition DependencyReferenceV1_guards :: "DependencyReferenceV1 \<Rightarrow> checks" where
  "DependencyReferenceV1_guards x = [((dr_target x) \<noteq> [], ''target min_length'')]"

definition DependencyReferenceV1_init :: "DependencyReferenceV1 \<Rightarrow> DependencyReferenceV1 result" where
  "DependencyReferenceV1_init = construct DependencyReferenceV1_strip DependencyReferenceV1_guards"

interpretation dr_model: contract_model DependencyReferenceV1_strip DependencyReferenceV1_guards
  by unfold_locales (simp add: DependencyReferenceV1_strip_def)

section \<open>Policy and provenance\<close>

record EditRegionV1 =
  er_artifact_ref :: string
  er_start_line :: int
  er_end_line :: int

definition EditRegionV1_strip :: "EditRegionV1 \<Rightarrow> EditRegionV1" where
  "EditRegionV1_strip x = x\<lparr>er_artifact_ref := strip_ws (er_artifact_ref x)\<rparr>"

definition dump_EditRegionV1 :: "EditRegionV1 \<Rightarrow> json" where
  "dump_EditRegionV1 x = JObj
     [(''artifact_ref'', JStr (er_artifact_ref x)),
      (''start_line'', JInt (er_start_line x)),
      (''end_line'', JInt (er_end_line x))]"

definition EditRegionV1_guards :: "EditRegionV1 \<Rightarrow> checks" where
  "EditRegionV1_guards x = [((er_artifact_ref x) \<noteq> [], ''artifact_ref min_length''),
     ((er_start_line x) \<ge> 1, ''start_line ge''),
     ((er_end_line x) \<ge> 1, ''end_line ge''),
     (er_end_line x \<ge> er_start_line x, ''end_line must not precede start_line'')]"

definition EditRegionV1_init :: "EditRegionV1 \<Rightarrow> EditRegionV1 result" where
  "EditRegionV1_init = construct EditRegionV1_strip EditRegionV1_guards"

interpretation er_model: contract_model EditRegionV1_strip EditRegionV1_guards
  by unfold_locales (simp add: EditRegionV1_strip_def)

record OpenProblemPolicyV1 =
  opp_enabled :: bool
  opp_quarantine_required :: bool
  opp_required_independent_verifiers :: int
  opp_required_domain_expert_reviews :: int
  opp_require_clean_environment :: bool
  opp_require_strict_axiom_profile :: bool
  opp_forbid_post_freeze_statement_change :: bool

definition dump_OpenProblemPolicyV1 :: "OpenProblemPolicyV1 \<Rightarrow> json" where
  "dump_OpenProblemPolicyV1 x = JObj
     [(''enabled'', JBool (opp_enabled x)),
      (''quarantine_required'', JBool (opp_quarantine_required x)),
      (''required_independent_verifiers'', JInt (opp_required_independent_verifiers x)),
      (''required_domain_expert_reviews'', JInt (opp_required_domain_expert_reviews x)),
      (''require_clean_environment'', JBool (opp_require_clean_environment x)),
      (''require_strict_axiom_profile'', JBool (opp_require_strict_axiom_profile x)),
      (''forbid_post_freeze_statement_change'', JBool (opp_forbid_post_freeze_statement_change x))]"

definition OpenProblemPolicyV1_guards :: "OpenProblemPolicyV1 \<Rightarrow> checks" where
  "OpenProblemPolicyV1_guards x = [((opp_required_independent_verifiers x) \<ge> 1, ''required_independent_verifiers ge''),
     ((opp_required_domain_expert_reviews x) \<ge> 1, ''required_domain_expert_reviews ge'')]"

definition OpenProblemPolicyV1_init :: "OpenProblemPolicyV1 \<Rightarrow> OpenProblemPolicyV1 result" where
  "OpenProblemPolicyV1_init = construct id OpenProblemPolicyV1_guards"

interpretation opp_model: contract_model id OpenProblemPolicyV1_guards
  by unfold_locales simp

record TaskPolicyV1 =
  tp_release_tier :: ReleaseTierV1
  tp_fidelity_risk :: FidelityRiskV1
  tp_axiom_profile :: AxiomProfileV1
  tp_allowed_edit_regions :: "EditRegionV1 list"
  tp_proof_budget :: "(string \<times> int) list"
  tp_open_problem :: OpenProblemPolicyV1

definition TaskPolicyV1_strip :: "TaskPolicyV1 \<Rightarrow> TaskPolicyV1" where
  "TaskPolicyV1_strip x = x\<lparr>tp_proof_budget := strip_keys (tp_proof_budget x)\<rparr>"

definition dump_TaskPolicyV1 :: "TaskPolicyV1 \<Rightarrow> json" where
  "dump_TaskPolicyV1 x = JObj
     [(''release_tier'', JStr (ReleaseTierV1_value (tp_release_tier x))),
      (''fidelity_risk'', JStr (FidelityRiskV1_value (tp_fidelity_risk x))),
      (''axiom_profile'', JStr (AxiomProfileV1_value (tp_axiom_profile x))),
      (''allowed_edit_regions'', JList (map dump_EditRegionV1 (tp_allowed_edit_regions x))),
      (''proof_budget'', JObj (map (\<lambda>(k, v). (k, JInt v)) (tp_proof_budget x))),
      (''open_problem'', dump_OpenProblemPolicyV1 (tp_open_problem x))]"

definition TaskPolicyV1_guards :: "TaskPolicyV1 \<Rightarrow> checks" where
  "TaskPolicyV1_guards x = [(\<forall>(k, v) \<in> set (tp_proof_budget x). v \<ge> 0, ''proof budget values must be non-negative'')]"

definition TaskPolicyV1_init :: "TaskPolicyV1 \<Rightarrow> TaskPolicyV1 result" where
  "TaskPolicyV1_init = construct TaskPolicyV1_strip TaskPolicyV1_guards"

interpretation tp_model: contract_model TaskPolicyV1_strip TaskPolicyV1_guards
  by unfold_locales (simp add: TaskPolicyV1_strip_def)

datatype ActorKindV1 =
    AK_HUMAN | AK_MODEL | AK_TOOL | AK_SERVICE

fun ActorKindV1_value :: "ActorKindV1 \<Rightarrow> string" where
  "ActorKindV1_value AK_HUMAN = ''human''"
| "ActorKindV1_value AK_MODEL = ''model''"
| "ActorKindV1_value AK_TOOL = ''tool''"
| "ActorKindV1_value AK_SERVICE = ''service''"

lemma ActorKindV1_value_inj [simp]: "ActorKindV1_value a = ActorKindV1_value b \<longleftrightarrow> a = b"
  by (cases a; cases b; simp)

record ProvenanceTraceV1 =
  pt_trace_id :: StableIdentifierV1
  pt_actor_id :: string
  pt_actor_kind :: ActorKindV1
  pt_endpoint_class :: EndpointClassV1
  pt_provider :: "string option"
  pt_model_name :: "string option"
  pt_model_revision :: "string option"
  pt_config_hash :: "DigestV1 option"
  pt_prompt_hash :: "DigestV1 option"
  pt_tool_hashes :: "DigestV1 list"
  pt_created_at :: datetime

definition ProvenanceTraceV1_strip :: "ProvenanceTraceV1 \<Rightarrow> ProvenanceTraceV1" where
  "ProvenanceTraceV1_strip x = x\<lparr>pt_actor_id := strip_ws (pt_actor_id x),
     pt_provider := map_option strip_ws (pt_provider x),
     pt_model_name := map_option strip_ws (pt_model_name x),
     pt_model_revision := map_option strip_ws (pt_model_revision x)\<rparr>"

definition dump_ProvenanceTraceV1 :: "ProvenanceTraceV1 \<Rightarrow> json" where
  "dump_ProvenanceTraceV1 x = JObj
     [(''trace_id'', dump_StableIdentifierV1 (pt_trace_id x)),
      (''actor_id'', JStr (pt_actor_id x)),
      (''actor_kind'', JStr (ActorKindV1_value (pt_actor_kind x))),
      (''endpoint_class'', JStr (EndpointClassV1_value (pt_endpoint_class x))),
      (''provider'', JOpt JStr (pt_provider x)),
      (''model_name'', JOpt JStr (pt_model_name x)),
      (''model_revision'', JOpt JStr (pt_model_revision x)),
      (''config_hash'', JOpt dump_DigestV1 (pt_config_hash x)),
      (''prompt_hash'', JOpt dump_DigestV1 (pt_prompt_hash x)),
      (''tool_hashes'', JList (map dump_DigestV1 (pt_tool_hashes x))),
      (''created_at'', dump_datetime (pt_created_at x))]"

definition ProvenanceTraceV1_guards :: "ProvenanceTraceV1 \<Rightarrow> checks" where
  "ProvenanceTraceV1_guards x = [((pt_actor_id x) \<noteq> [], ''actor_id min_length''),
     (pt_actor_kind x = AK_MODEL \<longrightarrow> truthy (pt_provider x) \<and> truthy (pt_model_name x) \<and> truthy (pt_model_revision x), ''model provenance requires provider and name and revision''),
     (pt_actor_kind x = AK_MODEL \<longrightarrow> pt_endpoint_class x \<noteq> EC_NONE, ''model provenance requires an endpoint class''),
     (opt_all (\<lambda>h. dg_kind h = CONFIG) (pt_config_hash x), ''config_hash kind''),
     (opt_all (\<lambda>h. dg_kind h = PROMPT) (pt_prompt_hash x), ''prompt_hash kind''),
     (\<forall>h \<in> set (pt_tool_hashes x). dg_kind h = TOOL, ''tool_hashes kind'')]"

definition ProvenanceTraceV1_init :: "ProvenanceTraceV1 \<Rightarrow> ProvenanceTraceV1 result" where
  "ProvenanceTraceV1_init = construct ProvenanceTraceV1_strip ProvenanceTraceV1_guards"

interpretation pt_model: contract_model ProvenanceTraceV1_strip ProvenanceTraceV1_guards
  by unfold_locales (simp add: ProvenanceTraceV1_strip_def)

section \<open>Fidelity\<close>

datatype FidelityCheckKindV1 =
    FCK_SOURCE_PRESERVATION | FCK_REVERSE_RENDER | FCK_INDEPENDENT_TRANSLATION | FCK_POSITIVE_EXAMPLE
  | FCK_NEGATIVE_EXAMPLE | FCK_NON_VACUITY | FCK_ESTABLISHED_EQUIVALENCE | FCK_API_REVIEW

fun FidelityCheckKindV1_value :: "FidelityCheckKindV1 \<Rightarrow> string" where
  "FidelityCheckKindV1_value FCK_SOURCE_PRESERVATION = ''source_preservation''"
| "FidelityCheckKindV1_value FCK_REVERSE_RENDER = ''reverse_render''"
| "FidelityCheckKindV1_value FCK_INDEPENDENT_TRANSLATION = ''independent_translation''"
| "FidelityCheckKindV1_value FCK_POSITIVE_EXAMPLE = ''positive_example''"
| "FidelityCheckKindV1_value FCK_NEGATIVE_EXAMPLE = ''negative_example''"
| "FidelityCheckKindV1_value FCK_NON_VACUITY = ''non_vacuity''"
| "FidelityCheckKindV1_value FCK_ESTABLISHED_EQUIVALENCE = ''established_equivalence''"
| "FidelityCheckKindV1_value FCK_API_REVIEW = ''api_review''"

lemma FidelityCheckKindV1_value_inj [simp]: "FidelityCheckKindV1_value a = FidelityCheckKindV1_value b \<longleftrightarrow> a = b"
  by (cases a; cases b; simp)

record FidelityCheckV1 =
  fc_check_id :: StableIdentifierV1
  fc_kind :: FidelityCheckKindV1
  fc_passed :: bool
  fc_evidence :: string
  fc_reviewer_id :: string
  fc_independent :: bool

definition FidelityCheckV1_strip :: "FidelityCheckV1 \<Rightarrow> FidelityCheckV1" where
  "FidelityCheckV1_strip x = x\<lparr>fc_evidence := strip_ws (fc_evidence x),
     fc_reviewer_id := strip_ws (fc_reviewer_id x)\<rparr>"

definition dump_FidelityCheckV1 :: "FidelityCheckV1 \<Rightarrow> json" where
  "dump_FidelityCheckV1 x = JObj
     [(''check_id'', dump_StableIdentifierV1 (fc_check_id x)),
      (''kind'', JStr (FidelityCheckKindV1_value (fc_kind x))),
      (''passed'', JBool (fc_passed x)),
      (''evidence'', JStr (fc_evidence x)),
      (''reviewer_id'', JStr (fc_reviewer_id x)),
      (''independent'', JBool (fc_independent x))]"

definition FidelityCheckV1_guards :: "FidelityCheckV1 \<Rightarrow> checks" where
  "FidelityCheckV1_guards x = [((fc_evidence x) \<noteq> [], ''evidence min_length'')]"

definition FidelityCheckV1_init :: "FidelityCheckV1 \<Rightarrow> FidelityCheckV1 result" where
  "FidelityCheckV1_init = construct FidelityCheckV1_strip FidelityCheckV1_guards"

interpretation fc_model: contract_model FidelityCheckV1_strip FidelityCheckV1_guards
  by unfold_locales (simp add: FidelityCheckV1_strip_def)

datatype MutationKindV1 =
    MK_DROP_ASSUMPTION | MK_SWAP_QUANTIFIERS | MK_WEAKEN_RELATION | MK_REMOVE_SIDE_CONDITION
  | MK_DROP_NONEMPTY | MK_DROP_FINITE | MK_DROP_NOETHERIAN | MK_REVERSE_PARAMETERS
  | MK_CHANGE_EQUALITY_NOTION | MK_TOTALIZATION_TRAP | MK_TYPECLASS_COERCION | MK_VACUITY

fun MutationKindV1_value :: "MutationKindV1 \<Rightarrow> string" where
  "MutationKindV1_value MK_DROP_ASSUMPTION = ''drop_assumption''"
| "MutationKindV1_value MK_SWAP_QUANTIFIERS = ''swap_quantifiers''"
| "MutationKindV1_value MK_WEAKEN_RELATION = ''weaken_relation''"
| "MutationKindV1_value MK_REMOVE_SIDE_CONDITION = ''remove_side_condition''"
| "MutationKindV1_value MK_DROP_NONEMPTY = ''drop_nonempty''"
| "MutationKindV1_value MK_DROP_FINITE = ''drop_finite''"
| "MutationKindV1_value MK_DROP_NOETHERIAN = ''drop_noetherian''"
| "MutationKindV1_value MK_REVERSE_PARAMETERS = ''reverse_parameters''"
| "MutationKindV1_value MK_CHANGE_EQUALITY_NOTION = ''change_equality_notion''"
| "MutationKindV1_value MK_TOTALIZATION_TRAP = ''totalization_trap''"
| "MutationKindV1_value MK_TYPECLASS_COERCION = ''typeclass_coercion''"
| "MutationKindV1_value MK_VACUITY = ''vacuity''"

lemma MutationKindV1_value_inj [simp]: "MutationKindV1_value a = MutationKindV1_value b \<longleftrightarrow> a = b"
  by (cases a; cases b; simp)

record MutationProbeV1 =
  mp_probe_id :: StableIdentifierV1
  mp_kind :: MutationKindV1
  mp_target_path :: string
  mp_expected_failure :: string
  mp_mutated_statement_source :: string

definition MutationProbeV1_strip :: "MutationProbeV1 \<Rightarrow> MutationProbeV1" where
  "MutationProbeV1_strip x = x\<lparr>mp_target_path := strip_ws (mp_target_path x),
     mp_expected_failure := strip_ws (mp_expected_failure x),
     mp_mutated_statement_source := strip_ws (mp_mutated_statement_source x)\<rparr>"

definition dump_MutationProbeV1 :: "MutationProbeV1 \<Rightarrow> json" where
  "dump_MutationProbeV1 x = JObj
     [(''probe_id'', dump_StableIdentifierV1 (mp_probe_id x)),
      (''kind'', JStr (MutationKindV1_value (mp_kind x))),
      (''target_path'', JStr (mp_target_path x)),
      (''expected_failure'', JStr (mp_expected_failure x)),
      (''mutated_statement_source'', JStr (mp_mutated_statement_source x))]"

definition MutationProbeV1_guards :: "MutationProbeV1 \<Rightarrow> checks" where
  "MutationProbeV1_guards x = [((mp_target_path x) \<noteq> [], ''target_path min_length''),
     ((mp_expected_failure x) \<noteq> [], ''expected_failure min_length''),
     ((mp_mutated_statement_source x) \<noteq> [], ''mutated_statement_source min_length'')]"

definition MutationProbeV1_init :: "MutationProbeV1 \<Rightarrow> MutationProbeV1 result" where
  "MutationProbeV1_init = construct MutationProbeV1_strip MutationProbeV1_guards"

interpretation mp_model: contract_model MutationProbeV1_strip MutationProbeV1_guards
  by unfold_locales (simp add: MutationProbeV1_strip_def)

record MutationResultV1 =
  mr_probe :: MutationProbeV1
  mr_detected :: bool
  mr_evidence :: string
  mr_executed_by :: string

definition MutationResultV1_strip :: "MutationResultV1 \<Rightarrow> MutationResultV1" where
  "MutationResultV1_strip x = x\<lparr>mr_evidence := strip_ws (mr_evidence x),
     mr_executed_by := strip_ws (mr_executed_by x)\<rparr>"

definition dump_MutationResultV1 :: "MutationResultV1 \<Rightarrow> json" where
  "dump_MutationResultV1 x = JObj
     [(''probe'', dump_MutationProbeV1 (mr_probe x)),
      (''detected'', JBool (mr_detected x)),
      (''evidence'', JStr (mr_evidence x)),
      (''executed_by'', JStr (mr_executed_by x))]"

definition MutationResultV1_guards :: "MutationResultV1 \<Rightarrow> checks" where
  "MutationResultV1_guards x = [((mr_evidence x) \<noteq> [], ''evidence min_length''),
     ((mr_executed_by x) \<noteq> [], ''executed_by min_length'')]"

definition MutationResultV1_init :: "MutationResultV1 \<Rightarrow> MutationResultV1 result" where
  "MutationResultV1_init = construct MutationResultV1_strip MutationResultV1_guards"

interpretation mr_model: contract_model MutationResultV1_strip MutationResultV1_guards
  by unfold_locales (simp add: MutationResultV1_strip_def)

datatype ReviewerRoleV1 =
    RL_SEMANTIC_REVIEWER | RL_DOMAIN_EXPERT | RL_LIBRARY_REVIEWER | RL_INDEPENDENT_VERIFIER
  | RL_INTEGRATOR

fun ReviewerRoleV1_value :: "ReviewerRoleV1 \<Rightarrow> string" where
  "ReviewerRoleV1_value RL_SEMANTIC_REVIEWER = ''semantic_reviewer''"
| "ReviewerRoleV1_value RL_DOMAIN_EXPERT = ''domain_expert''"
| "ReviewerRoleV1_value RL_LIBRARY_REVIEWER = ''library_reviewer''"
| "ReviewerRoleV1_value RL_INDEPENDENT_VERIFIER = ''independent_verifier''"
| "ReviewerRoleV1_value RL_INTEGRATOR = ''integrator''"

lemma ReviewerRoleV1_value_inj [simp]: "ReviewerRoleV1_value a = ReviewerRoleV1_value b \<longleftrightarrow> a = b"
  by (cases a; cases b; simp)

datatype DecisionV1 =
    DC_ACCEPT | DC_REJECT | DC_REQUEST_CHANGES

fun DecisionV1_value :: "DecisionV1 \<Rightarrow> string" where
  "DecisionV1_value DC_ACCEPT = ''accept''"
| "DecisionV1_value DC_REJECT = ''reject''"
| "DecisionV1_value DC_REQUEST_CHANGES = ''request_changes''"

lemma DecisionV1_value_inj [simp]: "DecisionV1_value a = DecisionV1_value b \<longleftrightarrow> a = b"
  by (cases a; cases b; simp)

record ReviewerSignoffV1 =
  rs_signoff_id :: StableIdentifierV1
  rs_reviewer_id :: string
  rs_role :: ReviewerRoleV1
  rs_decision :: DecisionV1
  rs_independent :: bool
  rs_rationale :: string
  rs_reviewed_at :: datetime

definition ReviewerSignoffV1_strip :: "ReviewerSignoffV1 \<Rightarrow> ReviewerSignoffV1" where
  "ReviewerSignoffV1_strip x = x\<lparr>rs_reviewer_id := strip_ws (rs_reviewer_id x),
     rs_rationale := strip_ws (rs_rationale x)\<rparr>"

definition dump_ReviewerSignoffV1 :: "ReviewerSignoffV1 \<Rightarrow> json" where
  "dump_ReviewerSignoffV1 x = JObj
     [(''signoff_id'', dump_StableIdentifierV1 (rs_signoff_id x)),
      (''reviewer_id'', JStr (rs_reviewer_id x)),
      (''role'', JStr (ReviewerRoleV1_value (rs_role x))),
      (''decision'', JStr (DecisionV1_value (rs_decision x))),
      (''independent'', JBool (rs_independent x)),
      (''rationale'', JStr (rs_rationale x)),
      (''reviewed_at'', dump_datetime (rs_reviewed_at x))]"

definition ReviewerSignoffV1_guards :: "ReviewerSignoffV1 \<Rightarrow> checks" where
  "ReviewerSignoffV1_guards x = [((rs_reviewer_id x) \<noteq> [], ''reviewer_id min_length''),
     ((rs_rationale x) \<noteq> [], ''rationale min_length'')]"

definition ReviewerSignoffV1_init :: "ReviewerSignoffV1 \<Rightarrow> ReviewerSignoffV1 result" where
  "ReviewerSignoffV1_init = construct ReviewerSignoffV1_strip ReviewerSignoffV1_guards"

interpretation rs_model: contract_model ReviewerSignoffV1_strip ReviewerSignoffV1_guards
  by unfold_locales (simp add: ReviewerSignoffV1_strip_def)

record FidelityReportV1 =
  fr_report_id :: StableIdentifierV1
  fr_evidence_hash :: DigestV1
  fr_risk_level :: FidelityRiskV1
  fr_checks :: "FidelityCheckV1 list"
  fr_mutation_results :: "MutationResultV1 list"
  fr_signoffs :: "ReviewerSignoffV1 list"
  fr_generated_at :: datetime

definition dump_FidelityReportV1 :: "FidelityReportV1 \<Rightarrow> json" where
  "dump_FidelityReportV1 x = JObj
     [(''schema_version'', JStr ''1.0''),
      (''report_id'', dump_StableIdentifierV1 (fr_report_id x)),
      (''evidence_hash'', dump_DigestV1 (fr_evidence_hash x)),
      (''risk_level'', JStr (FidelityRiskV1_value (fr_risk_level x))),
      (''checks'', JList (map dump_FidelityCheckV1 (fr_checks x))),
      (''mutation_results'', JList (map dump_MutationResultV1 (fr_mutation_results x))),
      (''signoffs'', JList (map dump_ReviewerSignoffV1 (fr_signoffs x))),
      (''generated_at'', dump_datetime (fr_generated_at x))]"

definition FidelityReportV1_guards :: "FidelityReportV1 \<Rightarrow> checks" where
  "FidelityReportV1_guards x = [(dg_kind (fr_evidence_hash x) = FREEZE_EVIDENCE, ''evidence_hash kind'')]"

definition FidelityReportV1_init :: "FidelityReportV1 \<Rightarrow> FidelityReportV1 result" where
  "FidelityReportV1_init = construct id FidelityReportV1_guards"

interpretation fr_model: contract_model id FidelityReportV1_guards
  by unfold_locales simp

record FidelityEvidenceArtifactRefV1 =
  fa_digest :: DigestV1
  fa_size :: int

definition dump_FidelityEvidenceArtifactRefV1 :: "FidelityEvidenceArtifactRefV1 \<Rightarrow> json" where
  "dump_FidelityEvidenceArtifactRefV1 x = JObj
     [(''schema_version'', JStr ''1.0''),
      (''artifact_schema'', JStr ''autolean.builder-fidelity-evidence.v1''),
      (''digest'', dump_DigestV1 (fa_digest x)),
      (''size'', JInt (fa_size x)),
      (''media_type'', JStr ''application/vnd.autolean.builder-fidelity-evidence.v1+json'')]"

definition FidelityEvidenceArtifactRefV1_guards :: "FidelityEvidenceArtifactRefV1 \<Rightarrow> checks" where
  "FidelityEvidenceArtifactRefV1_guards x = [((fa_size x) > 0, ''size gt''),
     (dg_kind (fa_digest x) = FREEZE_EVIDENCE, ''digest kind'')]"

definition FidelityEvidenceArtifactRefV1_init :: "FidelityEvidenceArtifactRefV1 \<Rightarrow> FidelityEvidenceArtifactRefV1 result" where
  "FidelityEvidenceArtifactRefV1_init = construct id FidelityEvidenceArtifactRefV1_guards"

interpretation fa_model: contract_model id FidelityEvidenceArtifactRefV1_guards
  by unfold_locales simp

section \<open>Freezing and the statement contract\<close>

record FreezeRecordV1 =
  fz_contract_hash :: DigestV1
  fz_source_hash :: DigestV1
  fz_source_preparation_id :: "StableIdentifierV1 option"
  fz_source_preparation_hash :: "DigestV1 option"
  fz_statement_source_hash :: DigestV1
  fz_elaborated_type_hash :: "DigestV1 option"
  fz_frozen_by :: string
  fz_frozen_at :: datetime

definition FreezeRecordV1_strip :: "FreezeRecordV1 \<Rightarrow> FreezeRecordV1" where
  "FreezeRecordV1_strip x = x\<lparr>fz_frozen_by := strip_ws (fz_frozen_by x)\<rparr>"

definition dump_FreezeRecordV1 :: "FreezeRecordV1 \<Rightarrow> json" where
  "dump_FreezeRecordV1 x = JObj
     [(''contract_hash'', dump_DigestV1 (fz_contract_hash x)),
      (''source_hash'', dump_DigestV1 (fz_source_hash x)),
      (''source_preparation_id'', JOpt dump_StableIdentifierV1 (fz_source_preparation_id x)),
      (''source_preparation_hash'', JOpt dump_DigestV1 (fz_source_preparation_hash x)),
      (''statement_source_hash'', dump_DigestV1 (fz_statement_source_hash x)),
      (''elaborated_type_hash'', JOpt dump_DigestV1 (fz_elaborated_type_hash x)),
      (''frozen_by'', JStr (fz_frozen_by x)),
      (''frozen_at'', dump_datetime (fz_frozen_at x))]"

definition FreezeRecordV1_guards :: "FreezeRecordV1 \<Rightarrow> checks" where
  "FreezeRecordV1_guards x = [((fz_frozen_by x) \<noteq> [], ''frozen_by min_length''),
     (dg_kind (fz_contract_hash x) = CONTRACT, ''contract_hash kind''),
     (dg_kind (fz_source_hash x) = SOURCE_BYTES, ''source_hash kind''),
     ((fz_source_preparation_id x = None) = (fz_source_preparation_hash x = None), ''source preparation ID and hash must be present together''),
     (opt_all (\<lambda>i. si_namespace i = ''source-preparation'') (fz_source_preparation_id x), ''source_preparation_id must use the source-preparation namespace''),
     (opt_all (\<lambda>h. dg_kind h = SOURCE_PREPARATION) (fz_source_preparation_hash x), ''source_preparation_hash kind''),
     (dg_kind (fz_statement_source_hash x) = STATEMENT_SOURCE, ''statement_source_hash kind''),
     (opt_all (\<lambda>h. dg_kind h = ELABORATED_TYPE) (fz_elaborated_type_hash x), ''elaborated_type_hash kind'')]"

definition FreezeRecordV1_init :: "FreezeRecordV1 \<Rightarrow> FreezeRecordV1 result" where
  "FreezeRecordV1_init = construct FreezeRecordV1_strip FreezeRecordV1_guards"

interpretation fz_model: contract_model FreezeRecordV1_strip FreezeRecordV1_guards
  by unfold_locales (simp add: FreezeRecordV1_strip_def)

record StatementContractV1 =
  sc_contract_id :: StableIdentifierV1
  sc_revision :: int
  sc_task_kind :: TaskKindV1
  sc_source :: SourceRecordV1
  sc_rights :: RightsRecordV1
  sc_mathematics :: MathematicalSpecificationV1
  sc_formal :: FormalSpecificationV1
  sc_alignments :: "AlignmentTargetV1 list"
  sc_dependencies :: "DependencyReferenceV1 list"
  sc_policy :: TaskPolicyV1
  sc_fidelity :: "FidelityReportV1 option"
  sc_provenance :: "ProvenanceTraceV1 list"
  sc_status :: StatementStatusV1
  sc_freeze :: "FreezeRecordV1 option"

definition dump_StatementContractV1 :: "StatementContractV1 \<Rightarrow> json" where
  "dump_StatementContractV1 x = JObj
     [(''schema_version'', JStr ''1.0''),
      (''contract_id'', dump_StableIdentifierV1 (sc_contract_id x)),
      (''revision'', JInt (sc_revision x)),
      (''task_kind'', JStr (TaskKindV1_value (sc_task_kind x))),
      (''source'', dump_SourceRecordV1 (sc_source x)),
      (''rights'', dump_RightsRecordV1 (sc_rights x)),
      (''mathematics'', dump_MathematicalSpecificationV1 (sc_mathematics x)),
      (''formal'', dump_FormalSpecificationV1 (sc_formal x)),
      (''alignments'', JList (map dump_AlignmentTargetV1 (sc_alignments x))),
      (''dependencies'', JList (map dump_DependencyReferenceV1 (sc_dependencies x))),
      (''policy'', dump_TaskPolicyV1 (sc_policy x)),
      (''fidelity'', JOpt dump_FidelityReportV1 (sc_fidelity x)),
      (''provenance'', JList (map dump_ProvenanceTraceV1 (sc_provenance x))),
      (''status'', JStr (StatementStatusV1_value (sc_status x))),
      (''freeze'', JOpt dump_FreezeRecordV1 (sc_freeze x))]"

definition semantic_hash :: "StatementContractV1 \<Rightarrow> DigestV1" where
  "semantic_hash c = digest_model CONTRACT (dump_exclude [''status'', ''freeze''] (dump_StatementContractV1 c))"

definition StatementContractV1_guards :: "StatementContractV1 \<Rightarrow> checks" where
  "StatementContractV1_guards x = [((sc_revision x) \<ge> 1, ''revision ge''),
     (rr_source_id (sc_rights x) = sr_source_id (sc_source x), ''rights record must refer to the contract source''),
     (\<forall>item \<in> set (sc_alignments x). si_value (al_source_span_id item) \<in> set (map (si_value \<circ> ss_span_id) (sr_spans (sc_source x))), ''every alignment must reference a known source span''),
     (sc_task_kind x = TK_OPEN_CONJECTURE \<longrightarrow> opp_enabled (tp_open_problem (sc_policy x)), ''open conjectures require explicit open_problem enablement''),
     (sc_task_kind x = TK_OPEN_CONJECTURE \<longrightarrow> tp_release_tier (sc_policy x) = RT_CONJECTURE_QUARANTINE, ''open conjectures must remain in conjecture quarantine''),
     (sc_task_kind x = TK_OPEN_CONJECTURE \<longrightarrow> tp_fidelity_risk (sc_policy x) = FR_L3_RESEARCH, ''open conjectures require L3 fidelity review''),
     (sc_status x = SS_FROZEN \<longrightarrow> sc_freeze x \<noteq> None, ''frozen contracts require a freeze record''),
     (sc_status x = SS_FROZEN \<longrightarrow> opt_all (\<lambda>f. fz_contract_hash f = semantic_hash x) (sc_freeze x), ''freeze record does not match semantic contract payload''),
     (sc_status x = SS_FROZEN \<longrightarrow> opt_all (\<lambda>f. fz_source_hash f = sr_content_hash (sc_source x)) (sc_freeze x), ''freeze record source hash does not match source''),
     (sc_status x = SS_FROZEN \<longrightarrow> opt_all (\<lambda>f. fz_statement_source_hash f = fs_statement_source_hash (sc_formal x)) (sc_freeze x), ''freeze record statement hash does not match formal source''),
     (sc_status x = SS_FROZEN \<longrightarrow> opt_all (\<lambda>f. fz_elaborated_type_hash f = fs_elaborated_type_hash (sc_formal x)) (sc_freeze x), ''freeze record elaborated hash does not match formal type''),
     (sc_status x \<noteq> SS_FROZEN \<longrightarrow> sc_freeze x = None, ''only frozen contracts may contain a freeze record'')]"

definition StatementContractV1_init :: "StatementContractV1 \<Rightarrow> StatementContractV1 result" where
  "StatementContractV1_init = construct id StatementContractV1_guards"

interpretation sc_model: contract_model id StatementContractV1_guards
  by unfold_locales simp

end
