(* ===== verification/Handoff.thy ===== *)
theory Handoff
  imports Contracts
begin

text \<open>
  \<open>models.py\<close>, second part: the proof boundary a solver works against, its construction from
  a frozen contract, and the task bundle that hands both to the Prover with the payload a
  Builder authority attests. Shown: \<open>build_proof_boundary\<close> returns exactly the boundary that
  the bundle validator accepts (the only one), a frozen contract is bound to its source and
  statement, and the contract and handoff hashes determine what they name.
\<close>

section \<open>The proof boundary\<close>

record ProofBoundaryV1 =
  pb_contract_hash :: DigestV1
  pb_environment_hash :: DigestV1
  pb_trusted_statement_source :: string
  pb_trusted_statement_hash :: DigestV1
  pb_solver_manifest_hash :: DigestV1
  pb_allowed_write_paths :: "string list"
  pb_expected_declaration :: string
  pb_expected_elaborated_type_hash :: DigestV1
  pb_boundary_hash :: DigestV1

definition ProofBoundaryV1_strip :: "ProofBoundaryV1 \<Rightarrow> ProofBoundaryV1" where
  "ProofBoundaryV1_strip x = x\<lparr>pb_trusted_statement_source := strip_ws (pb_trusted_statement_source x),
     pb_expected_declaration := strip_ws (pb_expected_declaration x)\<rparr>"

definition dump_ProofBoundaryV1 :: "ProofBoundaryV1 \<Rightarrow> json" where
  "dump_ProofBoundaryV1 x = JObj
     [(''schema_version'', JStr ''1.0''),
      (''contract_hash'', dump_DigestV1 (pb_contract_hash x)),
      (''environment_hash'', dump_DigestV1 (pb_environment_hash x)),
      (''trusted_statement_path'', JStr ''TrustedStatement.lean''),
      (''trusted_statement_source'', JStr (pb_trusted_statement_source x)),
      (''trusted_statement_hash'', dump_DigestV1 (pb_trusted_statement_hash x)),
      (''solver_manifest_hash'', dump_DigestV1 (pb_solver_manifest_hash x)),
      (''allowed_write_paths'', JList (map JStr (pb_allowed_write_paths x))),
      (''candidate_path'', JStr ''Candidate.lean''),
      (''comparator_id'', JStr ''lean-exact-declaration-boundary.v1''),
      (''expected_declaration'', JStr (pb_expected_declaration x)),
      (''expected_elaborated_type_hash'', dump_DigestV1 (pb_expected_elaborated_type_hash x)),
      (''boundary_hash'', dump_DigestV1 (pb_boundary_hash x))]"

definition solver_manifest_payload :: "ProofBoundaryV1 \<Rightarrow> json" where
  "solver_manifest_payload b = JObj
     [(''schema_version'', JStr ''autolean.solver-workspace-manifest.v1''),
      (''contract_hash'', JStr (dg_value (pb_contract_hash b))),
      (''environment_hash'', JStr (dg_value (pb_environment_hash b))),
      (''trusted_statement_path'', JStr ''TrustedStatement.lean''),
      (''trusted_statement_hash'', JStr (dg_value (pb_trusted_statement_hash b))),
      (''allowed_write_paths'', JStrs (pb_allowed_write_paths b)),
      (''candidate_path'', JStr ''Candidate.lean''),
      (''comparator_id'', JStr ''lean-exact-declaration-boundary.v1''),
      (''expected_declaration'', JStr (pb_expected_declaration b)),
      (''expected_elaborated_type_hash'', JStr (dg_value (pb_expected_elaborated_type_hash b)))]"

definition render_solver_manifest :: "ProofBoundaryV1 \<Rightarrow> string" where
  "render_solver_manifest b = canonical_json (solver_manifest_payload b) @ [CHR 0x0A]"

definition ProofBoundaryV1_guards :: "ProofBoundaryV1 \<Rightarrow> checks" where
  "ProofBoundaryV1_guards x = [((pb_trusted_statement_source x) \<noteq> [], ''trusted_statement_source min_length''),
     (\<forall>v \<in> set (pb_allowed_write_paths x). v = ''Proof.lean'', ''allowed_write_paths literal''),
     ((pb_expected_declaration x) \<noteq> [], ''expected_declaration min_length''),
     (dg_kind (pb_contract_hash x) = CONTRACT, ''contract_hash kind''),
     (dg_kind (pb_environment_hash x) = ENVIRONMENT, ''environment_hash kind''),
     (dg_kind (pb_trusted_statement_hash x) = TRUSTED_STATEMENT, ''trusted_statement_hash kind''),
     (dg_kind (pb_solver_manifest_hash x) = WORKSPACE_MANIFEST, ''solver_manifest_hash kind''),
     (dg_kind (pb_expected_elaborated_type_hash x) = ELABORATED_TYPE, ''expected_elaborated_type_hash kind''),
     (dg_kind (pb_boundary_hash x) = PROOF_BOUNDARY, ''boundary_hash kind''),
     (pb_allowed_write_paths x = [''Proof.lean''], ''V1 proof boundaries permit only the Proof.lean proof slot''),
     (\<not> (py_contains (CHR 0x0A # '':= '') (pb_trusted_statement_source x) \<or> py_contains '':='' (pb_trusted_statement_source x)), ''trusted statement source must not contain a proof body''),
     (lean_namespace (fst (rpartition (CHR ''.'') (pb_expected_declaration x))), ''proof boundary declaration namespace is invalid''),
     (lean_declaration (snd (snd (rpartition (CHR ''.'') (pb_expected_declaration x)))), ''proof boundary declaration name is invalid''),
     (pb_trusted_statement_hash x = digest_text TRUSTED_STATEMENT (pb_trusted_statement_source x), ''trusted statement source does not match trusted_statement_hash''),
     (pb_solver_manifest_hash x = digest_text WORKSPACE_MANIFEST (render_solver_manifest x), ''solver manifest does not match solver_manifest_hash''),
     (pb_boundary_hash x = digest_model PROOF_BOUNDARY (dump_exclude [''boundary_hash''] (dump_ProofBoundaryV1 x)), ''proof boundary does not match boundary_hash'')]"

definition ProofBoundaryV1_init :: "ProofBoundaryV1 \<Rightarrow> ProofBoundaryV1 result" where
  "ProofBoundaryV1_init = construct ProofBoundaryV1_strip ProofBoundaryV1_guards"

interpretation pb_model: contract_model ProofBoundaryV1_strip ProofBoundaryV1_guards
  by unfold_locales (simp add: ProofBoundaryV1_strip_def)

definition render_trusted_statement :: "StatementContractV1 \<Rightarrow> string result" where
  "render_trusted_statement c =
     (let statement = py_rstrip (fs_lean_statement_source (sc_formal c));
          namespace = fs_namespace (sc_formal c);
          declaration = fs_declaration_name (sc_formal c);
          imports = map (\<lambda>item. ''import '' @ item) (fs_imports_allowlist (sc_formal c))
      in bindE (require_all
           [(\<not> py_contains '':='' statement,
               ''frozen Lean statement must be a declaration signature without a proof body''),
            (lean_namespace namespace, ''frozen Lean namespace is not a safe qualified identifier''),
            (lean_declaration declaration, ''frozen Lean declaration name is not a safe identifier'')])
         (\<lambda>_. Inr (join_with [CHR 0x0A]
           (imports @ (if imports = [] then [] else [[]]) @ [''namespace '' @ namespace, [], statement]))))"

definition expected_declaration :: "StatementContractV1 \<Rightarrow> string" where
  "expected_declaration c = fs_namespace (sc_formal c) @ ''.'' @ fs_declaration_name (sc_formal c)"

text \<open>
  The payload dictionary is built in the order of the source; the boundary hash is computed
  over it before it is added, and the whole is validated as a \<open>ProofBoundaryV1\<close>.
\<close>

definition build_proof_boundary :: "StatementContractV1 \<Rightarrow> ProofBoundaryV1 result" where
  "build_proof_boundary c =
     bindE (require (sc_status c = SS_FROZEN)
       (ValueError ''only a frozen contract can create a proof boundary'')) (\<lambda>_.
     case fs_elaborated_type_hash (sc_formal c) of
       None \<Rightarrow> Inl (ValueError ''a proof boundary requires an elaborated declaration type'')
     | Some elaborated_type_hash \<Rightarrow>
         bindE (render_trusted_statement c) (\<lambda>trusted_statement_source.
         let contract_hash = semantic_hash c;
             environment_hash = le_environment_hash (fs_environment (sc_formal c));
             trusted_statement_hash = digest_text TRUSTED_STATEMENT trusted_statement_source;
             payload =
               [(''schema_version'', JStr ''1.0''),
                (''contract_hash'', dump_DigestV1 contract_hash),
                (''environment_hash'', dump_DigestV1 environment_hash),
                (''trusted_statement_path'', JStr ''TrustedStatement.lean''),
                (''trusted_statement_source'', JStr trusted_statement_source),
                (''trusted_statement_hash'', dump_DigestV1 trusted_statement_hash),
                (''allowed_write_paths'', JStrs [''Proof.lean'']),
                (''candidate_path'', JStr ''Candidate.lean''),
                (''comparator_id'', JStr ''lean-exact-declaration-boundary.v1''),
                (''expected_declaration'', JStr (expected_declaration c)),
                (''expected_elaborated_type_hash'', dump_DigestV1 elaborated_type_hash)];
             manifest_payload = JObj
               [(''schema_version'', JStr ''autolean.solver-workspace-manifest.v1''),
                (''contract_hash'', JStr (dg_value contract_hash)),
                (''environment_hash'', JStr (dg_value environment_hash)),
                (''trusted_statement_path'', JStr ''TrustedStatement.lean''),
                (''trusted_statement_hash'', JStr (dg_value trusted_statement_hash)),
                (''allowed_write_paths'', JStrs [''Proof.lean'']),
                (''candidate_path'', JStr ''Candidate.lean''),
                (''comparator_id'', JStr ''lean-exact-declaration-boundary.v1''),
                (''expected_declaration'', JStr (expected_declaration c)),
                (''expected_elaborated_type_hash'', JStr (dg_value elaborated_type_hash))];
             solver_manifest_hash =
               digest_text WORKSPACE_MANIFEST (canonical_json manifest_payload @ [CHR 0x0A]);
             payload = payload @ [(''solver_manifest_hash'', dump_DigestV1 solver_manifest_hash)];
             boundary_hash = digest_model PROOF_BOUNDARY (JObj payload)
         in ProofBoundaryV1_init
              \<lparr>pb_contract_hash = contract_hash, pb_environment_hash = environment_hash,
               pb_trusted_statement_source = trusted_statement_source,
               pb_trusted_statement_hash = trusted_statement_hash,
               pb_solver_manifest_hash = solver_manifest_hash,
               pb_allowed_write_paths = [''Proof.lean''],
               pb_expected_declaration = expected_declaration c,
               pb_expected_elaborated_type_hash = elaborated_type_hash,
               pb_boundary_hash = boundary_hash\<rparr>))"

section \<open>The task bundle\<close>

record FormalizationTaskBundleV1 =
  tb_bundle_id :: StableIdentifierV1
  tb_contract :: StatementContractV1
  tb_graphs :: GraphBundleV1
  tb_graph_snapshot_hash :: DigestV1
  tb_proof_boundary :: ProofBoundaryV1
  tb_fidelity_evidence :: "FidelityEvidenceArtifactRefV1 option"
  tb_issued_at :: datetime
  tb_builder_attestation :: "AttestationV1 option"

definition dump_FormalizationTaskBundleV1 :: "FormalizationTaskBundleV1 \<Rightarrow> json" where
  "dump_FormalizationTaskBundleV1 x = JObj
     [(''schema_version'', JStr ''1.0''),
      (''bundle_id'', dump_StableIdentifierV1 (tb_bundle_id x)),
      (''contract'', dump_StatementContractV1 (tb_contract x)),
      (''graphs'', dump_GraphBundleV1 (tb_graphs x)),
      (''graph_snapshot_hash'', dump_DigestV1 (tb_graph_snapshot_hash x)),
      (''proof_boundary'', dump_ProofBoundaryV1 (tb_proof_boundary x)),
      (''fidelity_evidence'', JOpt dump_FidelityEvidenceArtifactRefV1 (tb_fidelity_evidence x)),
      (''issued_at'', dump_datetime (tb_issued_at x)),
      (''builder_attestation'', JOpt dump_AttestationV1 (tb_builder_attestation x))]"

definition handoff_hash :: "FormalizationTaskBundleV1 \<Rightarrow> DigestV1" where
  "handoff_hash b = digest_model BUNDLE (dump_exclude [''builder_attestation''] (dump_FormalizationTaskBundleV1 b))"

definition FormalizationTaskBundleV1_guards :: "FormalizationTaskBundleV1 \<Rightarrow> checks" where
  "FormalizationTaskBundleV1_guards x = [(sc_status (tb_contract x) = SS_FROZEN, ''only a frozen statement contract can be bridged''),
     (dg_kind (tb_graph_snapshot_hash x) = GRAPH_SNAPSHOT, ''graph_snapshot_hash kind''),
     (tb_graph_snapshot_hash x = digest_model GRAPH_SNAPSHOT (dump_GraphBundleV1 (tb_graphs x)), ''graph_snapshot_hash does not match graphs''),
     (pb_contract_hash (tb_proof_boundary x) = semantic_hash (tb_contract x), ''proof boundary does not bind the frozen contract''),
     (pb_environment_hash (tb_proof_boundary x) = le_environment_hash (fs_environment (sc_formal (tb_contract x))), ''proof boundary does not bind the contract environment''),
     (Some (pb_expected_elaborated_type_hash (tb_proof_boundary x)) = fs_elaborated_type_hash (sc_formal (tb_contract x)), ''proof boundary does not bind the elaborated declaration type''),
     (pb_expected_declaration (tb_proof_boundary x) = expected_declaration (tb_contract x), ''proof boundary comparator targets a different declaration''),
     (Inr (pb_trusted_statement_source (tb_proof_boundary x)) = render_trusted_statement (tb_contract x), ''proof boundary trusted statement differs from the frozen contract''),
     (sc_fidelity (tb_contract x) = None \<longrightarrow> tb_fidelity_evidence x = None, ''fidelity evidence cannot accompany a contract without a report''),
     (sc_fidelity (tb_contract x) \<noteq> None \<longrightarrow> tb_fidelity_evidence x \<noteq> None, ''a reviewed contract bundle requires fidelity evidence''),
     (opt_all (\<lambda>r. opt_all (\<lambda>e. fa_digest e = fr_evidence_hash r) (tb_fidelity_evidence x)) (sc_fidelity (tb_contract x)), ''fidelity artifact digest does not match the reviewed report''),
     (opt_all (\<lambda>a. at_purpose a = AP_BUILDER_FREEZE) (tb_builder_attestation x), ''bundle attestation must use the builder_freeze authority purpose'')]"

definition FormalizationTaskBundleV1_init :: "FormalizationTaskBundleV1 \<Rightarrow> FormalizationTaskBundleV1 result" where
  "FormalizationTaskBundleV1_init = construct id FormalizationTaskBundleV1_guards"

interpretation tb_model: contract_model id FormalizationTaskBundleV1_guards
  by unfold_locales simp

definition freeze_evidence_hash :: "StatementContractV1 \<Rightarrow> DigestV1 result" where
  "freeze_evidence_hash c =
     (case sc_freeze c of
        None \<Rightarrow> Inl (ValueError ''only a frozen contract has Builder freeze evidence'')
      | Some freeze \<Rightarrow>
          if sc_status c \<noteq> SS_FROZEN
          then Inl (ValueError ''only a frozen contract has Builder freeze evidence'')
          else Inr (digest_model FREEZE_EVIDENCE (JObj
            [(''schema_version'', JStr ''autolean.freeze-evidence.v1''),
             (''contract_id'', JStr (si_value (sc_contract_id c))),
             (''revision'', JInt (sc_revision c)),
             (''contract_hash'', JStr (dg_value (semantic_hash c))),
             (''freeze'', dump_FreezeRecordV1 freeze),
             (''fidelity'', JOpt dump_FidelityReportV1 (sc_fidelity c))])))"

definition builder_attestation_payload :: "FormalizationTaskBundleV1 \<Rightarrow> json_object result" where
  "builder_attestation_payload b =
     (let c = tb_contract b in
      bindE (freeze_evidence_hash c) (\<lambda>evidence_hash. Inr
        [(''schema_version'', JStr ''autolean.builder-freeze-attestation-payload.v1''),
         (''bundle_id'', JStr (si_value (tb_bundle_id b))),
         (''bundle_hash'', JStr (dg_value (handoff_hash b))),
         (''contract_id'', JStr (si_value (sc_contract_id c))),
         (''revision'', JInt (sc_revision c)),
         (''contract_hash'', JStr (dg_value (semantic_hash c))),
         (''proof_boundary_hash'', JStr (dg_value (pb_boundary_hash (tb_proof_boundary b)))),
         (''environment_hash'', JStr (dg_value (le_environment_hash (fs_environment (sc_formal c))))),
         (''freeze_evidence_hash'', JStr (dg_value evidence_hash))]))"

section \<open>The boundary is determined by the contract\<close>

text \<open>The boundary of a frozen contract as a record, with the manifest and hash methods of the class.\<close>

definition unsealed_boundary :: "StatementContractV1 \<Rightarrow> DigestV1 \<Rightarrow> string \<Rightarrow> ProofBoundaryV1" where
  "unsealed_boundary c h src =
     \<lparr>pb_contract_hash = semantic_hash c,
      pb_environment_hash = le_environment_hash (fs_environment (sc_formal c)),
      pb_trusted_statement_source = src,
      pb_trusted_statement_hash = digest_text TRUSTED_STATEMENT src,
      pb_solver_manifest_hash = digest_text WORKSPACE_MANIFEST [],
      pb_allowed_write_paths = [''Proof.lean''],
      pb_expected_declaration = expected_declaration c,
      pb_expected_elaborated_type_hash = h,
      pb_boundary_hash = digest_text PROOF_BOUNDARY []\<rparr>"

definition boundary_of :: "StatementContractV1 \<Rightarrow> DigestV1 \<Rightarrow> string \<Rightarrow> ProofBoundaryV1" where
  "boundary_of c h src =
     (let b = unsealed_boundary c h src;
          b' = b\<lparr>pb_solver_manifest_hash := digest_text WORKSPACE_MANIFEST (render_solver_manifest b)\<rparr>
      in b'\<lparr>pb_boundary_hash :=
           digest_model PROOF_BOUNDARY (dump_exclude [''boundary_hash''] (dump_ProofBoundaryV1 b'))\<rparr>)"

lemma render_solver_manifest_cong [simp]:
  "render_solver_manifest (b\<lparr>pb_solver_manifest_hash := h\<rparr>) = render_solver_manifest b"
  "render_solver_manifest (b\<lparr>pb_boundary_hash := h\<rparr>) = render_solver_manifest b"
  by (simp_all add: render_solver_manifest_def solver_manifest_payload_def)

lemma dump_boundary_cong [simp]:
  "dump_exclude [''boundary_hash''] (dump_ProofBoundaryV1 (b\<lparr>pb_boundary_hash := h\<rparr>))
     = dump_exclude [''boundary_hash''] (dump_ProofBoundaryV1 b)"
  by (simp add: dump_ProofBoundaryV1_def)

lemma digest_model_cong:
  "json_wf v \<Longrightarrow> json_wf w \<Longrightarrow> json_norm v = json_norm w \<Longrightarrow> digest_model k v = digest_model k w"
  using json_codec.encode_eq_iff [of v w] by (simp add: digest_model_def canonical_json_bytes_def)

lemma unsealed_fields [simp]:
  "pb_contract_hash (unsealed_boundary c h src) = semantic_hash c"
  "pb_environment_hash (unsealed_boundary c h src) = le_environment_hash (fs_environment (sc_formal c))"
  "pb_trusted_statement_source (unsealed_boundary c h src) = src"
  "pb_trusted_statement_hash (unsealed_boundary c h src) = digest_text TRUSTED_STATEMENT src"
  "pb_allowed_write_paths (unsealed_boundary c h src) = [''Proof.lean'']"
  "pb_expected_declaration (unsealed_boundary c h src) = expected_declaration c"
  "pb_expected_elaborated_type_hash (unsealed_boundary c h src) = h"
  by (simp_all add: unsealed_boundary_def)

lemma boundary_fields [simp]:
  "pb_contract_hash (boundary_of c h src) = semantic_hash c"
  "pb_environment_hash (boundary_of c h src) = le_environment_hash (fs_environment (sc_formal c))"
  "pb_trusted_statement_source (boundary_of c h src) = src"
  "pb_trusted_statement_hash (boundary_of c h src) = digest_text TRUSTED_STATEMENT src"
  "pb_allowed_write_paths (boundary_of c h src) = [''Proof.lean'']"
  "pb_expected_declaration (boundary_of c h src) = expected_declaration c"
  "pb_expected_elaborated_type_hash (boundary_of c h src) = h"
  by (simp_all add: boundary_of_def Let_def)

lemma boundary_solver_hash:
  "pb_solver_manifest_hash (boundary_of c h src)
     = digest_text WORKSPACE_MANIFEST (render_solver_manifest (boundary_of c h src))"
  by (simp add: boundary_of_def Let_def)

lemma boundary_seal:
  "pb_boundary_hash (boundary_of c h src)
     = digest_model PROOF_BOUNDARY (dump_exclude [''boundary_hash''] (dump_ProofBoundaryV1 (boundary_of c h src)))"
  by (simp add: boundary_of_def Let_def)

text \<open>The payload dictionary of the source and the dump of the boundary have the same digest.\<close>

lemma boundary_payload_digest:
  "digest_model PROOF_BOUNDARY (JObj [(''schema_version'', JStr ''1.0''),
      (''contract_hash'', dump_DigestV1 (pb_contract_hash b)),
      (''environment_hash'', dump_DigestV1 (pb_environment_hash b)),
      (''trusted_statement_path'', JStr ''TrustedStatement.lean''),
      (''trusted_statement_source'', JStr (pb_trusted_statement_source b)),
      (''trusted_statement_hash'', dump_DigestV1 (pb_trusted_statement_hash b)),
      (''allowed_write_paths'', JStrs (pb_allowed_write_paths b)),
      (''candidate_path'', JStr ''Candidate.lean''),
      (''comparator_id'', JStr ''lean-exact-declaration-boundary.v1''),
      (''expected_declaration'', JStr (pb_expected_declaration b)),
      (''expected_elaborated_type_hash'', dump_DigestV1 (pb_expected_elaborated_type_hash b)),
      (''solver_manifest_hash'', dump_DigestV1 (pb_solver_manifest_hash b))])
   = digest_model PROOF_BOUNDARY (dump_exclude [''boundary_hash''] (dump_ProofBoundaryV1 b))"
  by (rule digest_model_cong) (simp_all add: dump_ProofBoundaryV1_def list_all_iff)

lemma build_proof_boundary_eq:
  "build_proof_boundary c =
     bindE (require (sc_status c = SS_FROZEN)
       (ValueError ''only a frozen contract can create a proof boundary'')) (\<lambda>_.
     case fs_elaborated_type_hash (sc_formal c) of
       None \<Rightarrow> Inl (ValueError ''a proof boundary requires an elaborated declaration type'')
     | Some h \<Rightarrow> bindE (render_trusted_statement c) (\<lambda>src. ProofBoundaryV1_init (boundary_of c h src)))"
proof -
  have rec: "\<lparr>pb_contract_hash = semantic_hash c,
      pb_environment_hash = le_environment_hash (fs_environment (sc_formal c)),
      pb_trusted_statement_source = src, pb_trusted_statement_hash = digest_text TRUSTED_STATEMENT src,
      pb_solver_manifest_hash = pb_solver_manifest_hash (boundary_of c h src),
      pb_allowed_write_paths = [''Proof.lean''], pb_expected_declaration = expected_declaration c,
      pb_expected_elaborated_type_hash = h,
      pb_boundary_hash = pb_boundary_hash (boundary_of c h src)\<rparr> = boundary_of c h src" for h src
    by (rule ProofBoundaryV1.equality) simp_all
  have man: "digest_text WORKSPACE_MANIFEST (canonical_json (JObj
               [(''schema_version'', JStr ''autolean.solver-workspace-manifest.v1''),
                (''contract_hash'', JStr (dg_value (semantic_hash c))),
                (''environment_hash'', JStr (dg_value (le_environment_hash (fs_environment (sc_formal c))))),
                (''trusted_statement_path'', JStr ''TrustedStatement.lean''),
                (''trusted_statement_hash'', JStr (dg_value (digest_text TRUSTED_STATEMENT src))),
                (''allowed_write_paths'', JStrs [''Proof.lean'']),
                (''candidate_path'', JStr ''Candidate.lean''),
                (''comparator_id'', JStr ''lean-exact-declaration-boundary.v1''),
                (''expected_declaration'', JStr (expected_declaration c)),
                (''expected_elaborated_type_hash'', JStr (dg_value h))]) @ [CHR 0x0A])
      = pb_solver_manifest_hash (boundary_of c h src)" for h src
    unfolding boundary_solver_hash render_solver_manifest_def solver_manifest_payload_def boundary_fields ..
  have seal: "digest_model PROOF_BOUNDARY (JObj [(''schema_version'', JStr ''1.0''),
      (''contract_hash'', dump_DigestV1 (semantic_hash c)),
      (''environment_hash'', dump_DigestV1 (le_environment_hash (fs_environment (sc_formal c)))),
      (''trusted_statement_path'', JStr ''TrustedStatement.lean''),
      (''trusted_statement_source'', JStr src),
      (''trusted_statement_hash'', dump_DigestV1 (digest_text TRUSTED_STATEMENT src)),
      (''allowed_write_paths'', JStrs [''Proof.lean'']),
      (''candidate_path'', JStr ''Candidate.lean''),
      (''comparator_id'', JStr ''lean-exact-declaration-boundary.v1''),
      (''expected_declaration'', JStr (expected_declaration c)),
      (''expected_elaborated_type_hash'', dump_DigestV1 h),
      (''solver_manifest_hash'', dump_DigestV1 (pb_solver_manifest_hash (boundary_of c h src)))])
    = pb_boundary_hash (boundary_of c h src)" for h src
    using boundary_payload_digest [of "boundary_of c h src"]
    unfolding boundary_seal [symmetric] boundary_fields .
  show ?thesis
    unfolding build_proof_boundary_def Let_def append_Cons append_Nil man seal rec ..
qed

text \<open>A valid boundary with the fields of the contract is the built one.\<close>

lemma boundary_determined:
  assumes guards: "list_all fst (ProofBoundaryV1_guards b)"
    and "pb_contract_hash b = semantic_hash c"
    and "pb_environment_hash b = le_environment_hash (fs_environment (sc_formal c))"
    and "pb_expected_elaborated_type_hash b = h"
    and "pb_expected_declaration b = expected_declaration c"
    and "pb_trusted_statement_source b = src"
  shows "b = boundary_of c h src"
proof -
  have g: "pb_allowed_write_paths b = [''Proof.lean'']"
    "pb_trusted_statement_hash b = digest_text TRUSTED_STATEMENT src"
    "pb_solver_manifest_hash b = digest_text WORKSPACE_MANIFEST (render_solver_manifest b)"
    "pb_boundary_hash b = digest_model PROOF_BOUNDARY (dump_exclude [''boundary_hash''] (dump_ProofBoundaryV1 b))"
    using guards unfolding ProofBoundaryV1_guards_def list.pred_inject fst_conv assms(6) by blast+
  have m: "render_solver_manifest b = render_solver_manifest (boundary_of c h src)"
    using assms g by (simp add: render_solver_manifest_def solver_manifest_payload_def)
  then have "dump_exclude [''boundary_hash''] (dump_ProofBoundaryV1 b)
      = dump_exclude [''boundary_hash''] (dump_ProofBoundaryV1 (boundary_of c h src))"
    using assms g by (simp add: dump_ProofBoundaryV1_def boundary_solver_hash)
  then show ?thesis
    using assms g m by (intro ProofBoundaryV1.equality) (simp_all add: boundary_solver_hash boundary_seal)
qed

text \<open>
  \<open>build_proof_boundary\<close> creates the only valid proof boundary of a frozen contract: in
  every accepted task bundle whose boundary is itself valid, the boundary is the one the
  function returns for the bundle's contract.
\<close>

theorem bundle_boundary_is_built:
  assumes "FormalizationTaskBundleV1_init raw = Inr t"
    and "ProofBoundaryV1_init (tb_proof_boundary t) = Inr (tb_proof_boundary t)"
  shows "build_proof_boundary (tb_contract t) = Inr (tb_proof_boundary t)"
proof -
  let ?b = "tb_proof_boundary t" and ?c = "tb_contract t"
  have g: "sc_status ?c = SS_FROZEN" "pb_contract_hash ?b = semantic_hash ?c"
    "pb_environment_hash ?b = le_environment_hash (fs_environment (sc_formal ?c))"
    "fs_elaborated_type_hash (sc_formal ?c) = Some (pb_expected_elaborated_type_hash ?b)"
    "pb_expected_declaration ?b = expected_declaration ?c"
    "render_trusted_statement ?c = Inr (pb_trusted_statement_source ?b)"
    using assms(1) by (auto simp: FormalizationTaskBundleV1_init_def construct_Inr FormalizationTaskBundleV1_guards_def)
  have "list_all fst (ProofBoundaryV1_guards ?b)"
    using assms(2) by (simp add: ProofBoundaryV1_init_def construct_Inr)
  then have "?b = boundary_of ?c (pb_expected_elaborated_type_hash ?b) (pb_trusted_statement_source ?b)"
    using g by (intro boundary_determined) auto
  then show ?thesis
    using g assms(2) by (simp add: build_proof_boundary_eq)
qed

section \<open>The boundary exists for every renderable contract\<close>

lemma join_with_snoc: "xs \<noteq> [] \<Longrightarrow> join_with sep (xs @ [y]) = join_with sep xs @ sep @ y"
  by (induction sep xs rule: join_with.induct) auto

lemma hd_join_with: "x \<noteq> [] \<Longrightarrow> join_with sep (x # xs) \<noteq> [] \<and> hd (join_with sep (x # xs)) = hd x"
  by (cases xs) auto

lemma rstrip_last: "py_rstrip s \<noteq> [] \<Longrightarrow> \<not> white_space (last (py_rstrip s))"
  using hd_dropWhile [of py_isspace "rev s"] white_space_isspace
  by (auto simp: py_rstrip_def last_rev)

lemma nonblank_rstrip: "nonblank s \<longleftrightarrow> py_rstrip s \<noteq> []"
  by (auto simp: nonblank_def py_strip_def strip_by_def py_rstrip_def dropWhile_eq_Nil_conv)
    (metis set_dropWhileD, metis (full_types) UnE set_append set_takeWhileD takeWhile_dropWhile_id)

lemma rendered_source:
  assumes "render_trusted_statement c = Inr src"
  shows "\<exists>first rest. src = join_with [CHR 0x0A] (first # rest @ [py_rstrip (fs_lean_statement_source (sc_formal c))])
    \<and> first \<noteq> [] \<and> hd first \<in> {CHR ''i'', CHR ''n''}"
proof -
  let ?im = "map (\<lambda>item. ''import '' @ item) (fs_imports_allowlist (sc_formal c))"
  let ?ns = "''namespace '' @ fs_namespace (sc_formal c)"
  let ?st = "py_rstrip (fs_lean_statement_source (sc_formal c))"
  have src: "src = join_with [CHR 0x0A] (?im @ (if ?im = [] then [] else [[]]) @ [?ns, [], ?st])"
    using assms by (simp add: render_trusted_statement_def Let_def result_simps)
  show ?thesis
  proof (cases ?im)
    case Nil
    then show ?thesis using src by (intro exI [of _ ?ns] exI [of _ "[[]]"]) simp
  next
    case (Cons i im)
    then show ?thesis using src
      by (intro exI [of _ i] exI [of _ "im @ [[], ?ns, []]"]) auto
  qed
qed

lemma rendered_source_stripped:
  assumes "render_trusted_statement c = Inr src" "nonblank (fs_lean_statement_source (sc_formal c))"
  shows "src \<noteq> [] \<and> strip_ws src = src"
proof -
  let ?st = "py_rstrip (fs_lean_statement_source (sc_formal c))"
  obtain first rest where src: "src = join_with [CHR 0x0A] (first # rest @ [?st])"
    and f: "first \<noteq> []" "hd first \<in> {CHR ''i'', CHR ''n''}"
    using rendered_source [OF assms(1)] by blast
  have hd: "src \<noteq> []" "hd src = hd first"
    using hd_join_with [OF f(1)] src by auto
  have "src = join_with [CHR 0x0A] (first # rest) @ [CHR 0x0A] @ ?st"
    using join_with_snoc [of "first # rest"] src by simp
  moreover have "?st \<noteq> []" using assms(2) by (simp add: nonblank_rstrip)
  ultimately have "last src = last ?st" by simp
  then have "\<not> white_space (last src)" using rstrip_last \<open>?st \<noteq> []\<close> by metis
  moreover have "\<not> white_space (hd src)" using hd f by (auto simp: white_space_def)
  ultimately show ?thesis using hd unfolding strip_ws_def by (simp add: strip_by_fixpoint)
qed

lemma lean_declaration_chars:
  "lean_declaration d \<Longrightarrow> CHR ''.'' \<notin> set d \<and> CHR '':'' \<notin> set d \<and> (\<forall>c \<in> set d. \<not> white_space c)"
  by (auto simp: lean_declaration_def all_chars_iff white_space_def char_class_defs)

lemma split_char_set: "c \<in> set s \<Longrightarrow> c \<noteq> sep \<Longrightarrow> \<exists>p \<in> set (split_char sep s). c \<in> set p"
  by (induction sep s rule: split_char.induct) (auto split: list.splits)

lemma lean_namespace_chars: "lean_namespace s \<Longrightarrow> c \<in> set s \<Longrightarrow> \<not> white_space c"
  using split_char_set [of c s "CHR ''.''"] lean_declaration_chars
  by (cases "c = CHR ''.''") (auto simp: lean_namespace_def list_all_iff white_space_def)

lemma expected_declaration_ok:
  assumes "render_trusted_statement c = Inr src"
  shows "strip_ws (expected_declaration c) = expected_declaration c" "expected_declaration c \<noteq> []"
    "lean_namespace (fst (rpartition (CHR ''.'') (expected_declaration c)))"
    "lean_declaration (snd (snd (rpartition (CHR ''.'') (expected_declaration c))))"
proof -
  have ns: "lean_namespace (fs_namespace (sc_formal c))" and d: "lean_declaration (fs_declaration_name (sc_formal c))"
    using assms by (simp_all add: render_trusted_statement_def Let_def result_simps)
  have r: "rpartition (CHR ''.'') (expected_declaration c)
      = (fs_namespace (sc_formal c), ''.'', fs_declaration_name (sc_formal c))"
    using rpartition_last lean_declaration_chars [OF d] by (simp add: expected_declaration_def)
  show "lean_namespace (fst (rpartition (CHR ''.'') (expected_declaration c)))"
    "lean_declaration (snd (snd (rpartition (CHR ''.'') (expected_declaration c))))"
    using r ns d by simp_all
  show "strip_ws (expected_declaration c) = expected_declaration c"
    by (rule strip_ws_all)
      (use lean_namespace_chars [OF ns] lean_declaration_chars [OF d] in
        \<open>auto simp: expected_declaration_def white_space_def\<close>)
  show "expected_declaration c \<noteq> []" by (simp add: expected_declaration_def)
qed

lemma sublist_pair: "sublist [a, b] (c # s) \<longleftrightarrow> (c = a \<and> s \<noteq> [] \<and> hd s = b) \<or> sublist [a, b] s"
  by (cases s) (auto simp: sublist_Cons_right)

lemma sublist_pair_append:
  "n \<noteq> a \<Longrightarrow> n \<noteq> b \<Longrightarrow> sublist [a, b] (s @ n # t) \<longleftrightarrow> sublist [a, b] s \<or> sublist [a, b] t"
proof (induction s)
  case Nil
  then show ?case by (simp add: sublist_pair)
next
  case (Cons c s)
  then show ?case by (cases s) (auto simp: sublist_pair)
qed

lemma sublist_pair_join:
  "n \<noteq> a \<Longrightarrow> n \<noteq> b \<Longrightarrow> sublist [a, b] (join_with [n] xs) \<longleftrightarrow> (\<exists>x \<in> set xs. sublist [a, b] x)"
  by (induction "[n]" xs rule: join_with.induct) (auto simp: sublist_pair_append)

text \<open>A contract from which a proof boundary can be rendered.\<close>

definition renderable :: "StatementContractV1 \<Rightarrow> bool" where
  "renderable c \<longleftrightarrow>
     lean_namespace (fs_namespace (sc_formal c)) \<and> lean_declaration (fs_declaration_name (sc_formal c)) \<and>
     \<not> py_contains '':='' (py_rstrip (fs_lean_statement_source (sc_formal c))) \<and>
     (\<forall>item \<in> set (fs_imports_allowlist (sc_formal c)). \<not> py_contains '':='' (''import '' @ item))"

lemma render_Inr:
  "lean_namespace (fs_namespace (sc_formal c)) \<and> lean_declaration (fs_declaration_name (sc_formal c)) \<and>
   \<not> py_contains '':='' (py_rstrip (fs_lean_statement_source (sc_formal c)))
   \<longleftrightarrow> (\<exists>src. render_trusted_statement c = Inr src)"
  by (auto simp: render_trusted_statement_def Let_def result_simps)

lemma namespace_no_proof: "lean_namespace s \<Longrightarrow> \<not> sublist '':='' (''namespace '' @ s)"
proof
  assume "lean_namespace s" "sublist '':='' (''namespace '' @ s)"
  then have "set '':='' \<subseteq> set (''namespace '' @ s)" by (intro set_mono_sublist)
  then have "CHR '':'' \<in> set s" by simp
  then obtain p where "p \<in> set (split_char (CHR ''.'') s)" "CHR '':'' \<in> set p"
    using split_char_set by blast
  then show False using \<open>lean_namespace s\<close> lean_declaration_chars
    unfolding lean_namespace_def list_all_iff by blast
qed

lemma rendered_no_proof:
  assumes "render_trusted_statement c = Inr src"
  shows "\<not> py_contains '':='' src \<longleftrightarrow> renderable c"
proof -
  let ?im = "map (\<lambda>item. ''import '' @ item) (fs_imports_allowlist (sc_formal c))"
  let ?ns = "''namespace '' @ fs_namespace (sc_formal c)"
  let ?st = "py_rstrip (fs_lean_statement_source (sc_formal c))"
  have src: "src = join_with [CHR 0x0A] (?im @ (if ?im = [] then [] else [[]]) @ [?ns, [], ?st])"
    using assms by (simp add: render_trusted_statement_def Let_def result_simps)
  have ok: "lean_namespace (fs_namespace (sc_formal c))" "lean_declaration (fs_declaration_name (sc_formal c))"
    "\<not> py_contains '':='' ?st" using render_Inr assms by blast+
  have "sublist '':='' src \<longleftrightarrow> (\<exists>x \<in> set (?im @ (if ?im = [] then [] else [[]]) @ [?ns, [], ?st]). sublist '':='' x)"
    unfolding src by (rule sublist_pair_join) simp_all
  then show ?thesis
    using ok namespace_no_proof [OF ok(1)] by (auto simp: renderable_def py_contains_def)
qed

lemma build_proof_boundary_succeeds:
  assumes "sc_status c = SS_FROZEN" "fs_elaborated_type_hash (sc_formal c) = Some h"
    and "render_trusted_statement c = Inr src" "nonblank (fs_lean_statement_source (sc_formal c))"
    and kinds: "dg_kind h = ELABORATED_TYPE" "dg_kind (le_environment_hash (fs_environment (sc_formal c))) = ENVIRONMENT"
    and "renderable c"
  shows "build_proof_boundary c = Inr (boundary_of c h src)"
proof -
  let ?b = "boundary_of c h src"
  note decl = expected_declaration_ok [OF assms(3)]
  have src: "src \<noteq> []" "strip_ws src = src" using rendered_source_stripped [OF assms(3,4)] by auto
  have body: "\<not> py_contains '':='' src" using rendered_no_proof assms(3,7) by blast
  moreover have "\<not> py_contains (CHR 0x0A # '':= '') src"
  proof
    assume "py_contains (CHR 0x0A # '':= '') src"
    then obtain ps ss where "src = ps @ (CHR 0x0A # '':= '') @ ss"
      unfolding py_contains_def sublist_def by blast
    then have "src = (ps @ [CHR 0x0A]) @ '':='' @ ('' '' @ ss)" by simp
    then show False using body unfolding py_contains_def sublist_def by blast
  qed
  ultimately have "list_all fst (ProofBoundaryV1_guards ?b)"
    using decl kinds src
    by (simp add: ProofBoundaryV1_guards_def boundary_solver_hash boundary_seal semantic_hash_def
        del: dump_exclude.simps)
  moreover have "ProofBoundaryV1_strip ?b = ?b"
    using decl(1) src(2) by (intro ProofBoundaryV1.equality) (simp_all add: ProofBoundaryV1_strip_def)
  ultimately have "ProofBoundaryV1_init ?b = Inr ?b"
    by (simp add: ProofBoundaryV1_init_def construct_Inr)
  then show ?thesis using assms(1-3) by (simp add: build_proof_boundary_eq)
qed

lemma build_proof_boundary_Inr:
  assumes "build_proof_boundary c = Inr b" "nonblank (fs_lean_statement_source (sc_formal c))"
  shows "\<exists>h src. sc_status c = SS_FROZEN \<and> fs_elaborated_type_hash (sc_formal c) = Some h \<and>
    render_trusted_statement c = Inr src \<and> b = boundary_of c h src \<and>
    ProofBoundaryV1_init b = Inr b \<and> renderable c"
proof -
  obtain h src where c: "sc_status c = SS_FROZEN" "fs_elaborated_type_hash (sc_formal c) = Some h"
    and r: "render_trusted_statement c = Inr src" and init: "ProofBoundaryV1_init (boundary_of c h src) = Inr b"
    using assms(1) by (auto simp: build_proof_boundary_eq result_simps split: option.splits)
  have "strip_ws src = src" using rendered_source_stripped [OF r assms(2)] by blast
  then have "ProofBoundaryV1_strip (boundary_of c h src) = boundary_of c h src"
    using expected_declaration_ok(1) [OF r]
    by (intro ProofBoundaryV1.equality) (simp_all add: ProofBoundaryV1_strip_def)
  then have b: "b = boundary_of c h src" and "list_all fst (ProofBoundaryV1_guards b)"
    using init by (auto simp: ProofBoundaryV1_init_def construct_Inr)
  then have "\<not> py_contains '':='' src"
    unfolding ProofBoundaryV1_guards_def list.pred_inject fst_conv by simp
  then show ?thesis using c r b init rendered_no_proof by auto
qed

text \<open>
  Conversely, the boundary \<open>build_proof_boundary\<close> returns is valid and is accepted in a
  bundle: with the graph hash, the fidelity reference and the attestation purpose in order,
  the bundle of the contract and this boundary passes its validator unchanged.
\<close>

theorem built_boundary_is_accepted:
  assumes "build_proof_boundary (tb_contract t) = Inr (tb_proof_boundary t)"
    and "nonblank (fs_lean_statement_source (sc_formal (tb_contract t)))"
    and "tb_graph_snapshot_hash t = digest_model GRAPH_SNAPSHOT (dump_GraphBundleV1 (tb_graphs t))"
    and "map_option fa_digest (tb_fidelity_evidence t) = map_option fr_evidence_hash (sc_fidelity (tb_contract t))"
    and "opt_all (\<lambda>a. at_purpose a = AP_BUILDER_FREEZE) (tb_builder_attestation t)"
  shows "ProofBoundaryV1_init (tb_proof_boundary t) = Inr (tb_proof_boundary t) \<and>
    FormalizationTaskBundleV1_init t = Inr t"
proof -
  obtain h src where "sc_status (tb_contract t) = SS_FROZEN"
    "fs_elaborated_type_hash (sc_formal (tb_contract t)) = Some h"
    "render_trusted_statement (tb_contract t) = Inr src" "tb_proof_boundary t = boundary_of (tb_contract t) h src"
    and valid: "ProofBoundaryV1_init (tb_proof_boundary t) = Inr (tb_proof_boundary t)"
    using build_proof_boundary_Inr [OF assms(1,2)] by blast
  then have "list_all fst (FormalizationTaskBundleV1_guards t)"
    using assms(3-5)
    by (cases "tb_fidelity_evidence t"; cases "sc_fidelity (tb_contract t)")
      (simp_all add: FormalizationTaskBundleV1_guards_def)
  then show ?thesis using valid by (simp add: FormalizationTaskBundleV1_init_def construct_Inr)
qed

text \<open>
  When a proof boundary exists. For a contract whose formal specification and
  environment are valid and whose statement is not blank, \<open>build_proof_boundary\<close> returns
  exactly if the contract is frozen, has an elaborated type, names a safe Lean namespace and
  declaration, and neither the statement nor an allowed import contains a proof body.
\<close>

theorem build_proof_boundary_returns:
  assumes "FormalSpecificationV1_init (sc_formal c) = Inr (sc_formal c)"
    and "LeanEnvironmentV1_init (fs_environment (sc_formal c)) = Inr (fs_environment (sc_formal c))"
    and "nonblank (fs_lean_statement_source (sc_formal c))"
  shows "(\<exists>b. build_proof_boundary c = Inr b) \<longleftrightarrow>
    sc_status c = SS_FROZEN \<and> fs_elaborated_type (sc_formal c) \<noteq> None \<and> renderable c"
proof -
  have f: "(fs_elaborated_type (sc_formal c) = None) = (fs_elaborated_type_hash (sc_formal c) = None)"
    "opt_all (\<lambda>h. dg_kind h = ELABORATED_TYPE) (fs_elaborated_type_hash (sc_formal c))"
    and e: "dg_kind (le_environment_hash (fs_environment (sc_formal c))) = ENVIRONMENT"
    using assms(1,2)
    by (simp_all add: FormalSpecificationV1_init_def LeanEnvironmentV1_init_def construct_Inr
        FormalSpecificationV1_guards_def LeanEnvironmentV1_guards_def)
  show ?thesis
  proof
    assume "\<exists>b. build_proof_boundary c = Inr b"
    then show "sc_status c = SS_FROZEN \<and> fs_elaborated_type (sc_formal c) \<noteq> None \<and> renderable c"
      using build_proof_boundary_Inr assms(3) f(1) by fastforce
  next
    assume r: "sc_status c = SS_FROZEN \<and> fs_elaborated_type (sc_formal c) \<noteq> None \<and> renderable c"
    then obtain h where "fs_elaborated_type_hash (sc_formal c) = Some h" using f(1) by auto
    moreover obtain src where "render_trusted_statement c = Inr src"
      using r render_Inr unfolding renderable_def by blast
    ultimately show "\<exists>b. build_proof_boundary c = Inr b"
      using build_proof_boundary_succeeds r e f(2) assms(3) by fastforce
  qed
qed

section \<open>What the contract hashes determine\<close>

lemma semantic_hash_status [simp]:
  "semantic_hash (c\<lparr>sc_status := s, sc_freeze := f\<rparr>) = semantic_hash c"
  by (simp add: semantic_hash_def dump_StatementContractV1_def)

lemma handoff_hash_attestation [simp]:
  "handoff_hash (t\<lparr>tb_builder_attestation := a\<rparr>) = handoff_hash t"
  by (simp add: handoff_hash_def dump_FormalizationTaskBundleV1_def)

lemma digest_model_fields:
  assumes "json_wf v" "json_wf w" "digest_model k v = digest_model k w"
  shows "dump_field v f = dump_field w f \<or> json_collision v w"
proof -
  have "sha256_hexdigest (canonical_json_bytes v) = sha256_hexdigest (canonical_json_bytes w)"
    using arg_cong [OF assms(3), of dg_value] by simp
  then show ?thesis
    unfolding json_collision_def using json_hash.hash_binds [OF assms(1,2)] json_norm_field [OF assms(1,2)] by blast
qed

lemma excluded_digest_fields:
  assumes "json_wf v" "json_wf w" "f \<notin> set ks"
    and "digest_model k (dump_exclude ks v) = digest_model k (dump_exclude ks w)"
  shows "dump_field v f = dump_field w f \<or> json_collision (dump_exclude ks v) (dump_exclude ks w)"
proof -
  have "json_wf (dump_exclude ks v)" "json_wf (dump_exclude ks w)"
    using assms(1,2) dump_exclude_wf by blast+
  from digest_model_fields [OF this assms(4), of f] show ?thesis
    unfolding dump_exclude_field [OF assms(3)] by blast
qed

lemma semantic_hash_fields:
  assumes "json_wf (dump_StatementContractV1 c)" "json_wf (dump_StatementContractV1 d)"
    and "semantic_hash c = semantic_hash d" "f \<noteq> ''status''" "f \<noteq> ''freeze''"
  shows "dump_field (dump_StatementContractV1 c) f = dump_field (dump_StatementContractV1 d) f
    \<or> json_collision (dump_exclude [''status'', ''freeze''] (dump_StatementContractV1 c))
      (dump_exclude [''status'', ''freeze''] (dump_StatementContractV1 d))"
  by (rule excluded_digest_fields [OF assms(1,2), of f "[''status'', ''freeze'']" CONTRACT])
    (use assms(3-5) in \<open>simp_all add: semantic_hash_def\<close>)

lemma field_formal:
  "dump_field (dump_StatementContractV1 c) ''formal'' = Some (json_norm (dump_FormalSpecificationV1 (sc_formal c)))"
  by (simp add: dump_StatementContractV1_def obj_get_def)

lemma wf_formal: "json_wf (dump_StatementContractV1 c) \<Longrightarrow> json_wf (dump_FormalSpecificationV1 (sc_formal c))"
  by (simp add: dump_StatementContractV1_def)

lemma formal_fields_determined:
  assumes "json_wf (dump_FormalSpecificationV1 f)" "json_wf (dump_FormalSpecificationV1 g)"
    and "json_norm (dump_FormalSpecificationV1 f) = json_norm (dump_FormalSpecificationV1 g)"
  shows "fs_lean_statement_source f = fs_lean_statement_source g \<and> fs_namespace f = fs_namespace g \<and>
    fs_declaration_name f = fs_declaration_name g"
proof -
  have "dump_field (dump_FormalSpecificationV1 f) k = dump_field (dump_FormalSpecificationV1 g) k" for k
    using json_norm_field [OF assms] .
  from this [of "''lean_statement_source''"] this [of "''namespace''"] this [of "''declaration_name''"]
  show ?thesis by (simp add: dump_FormalSpecificationV1_def obj_get_def)
qed

text \<open>
  Two contracts with the same semantic hash state the same theorem: they agree on the
  Lean statement, its namespace and declaration name, and in every other field of the
  contract except \<open>status\<close> and \<open>freeze\<close> (as JSON values), unless the two hashed dumps
  themselves are a SHA-256 collision.
\<close>

theorem semantic_hash_binds:
  assumes "json_wf (dump_StatementContractV1 c)" "json_wf (dump_StatementContractV1 d)"
    and "semantic_hash c = semantic_hash d"
  shows "(fs_lean_statement_source (sc_formal c) = fs_lean_statement_source (sc_formal d) \<and>
      fs_namespace (sc_formal c) = fs_namespace (sc_formal d) \<and>
      fs_declaration_name (sc_formal c) = fs_declaration_name (sc_formal d) \<and>
      (\<forall>f. f \<noteq> ''status'' \<and> f \<noteq> ''freeze'' \<longrightarrow>
         dump_field (dump_StatementContractV1 c) f = dump_field (dump_StatementContractV1 d) f)) \<or>
    json_collision (dump_exclude [''status'', ''freeze''] (dump_StatementContractV1 c))
      (dump_exclude [''status'', ''freeze''] (dump_StatementContractV1 d))"
proof (cases "json_collision (dump_exclude [''status'', ''freeze''] (dump_StatementContractV1 c))
      (dump_exclude [''status'', ''freeze''] (dump_StatementContractV1 d))")
  case False
  then have all: "dump_field (dump_StatementContractV1 c) f = dump_field (dump_StatementContractV1 d) f"
    if "f \<noteq> ''status''" "f \<noteq> ''freeze''" for f
    using semantic_hash_fields [OF assms that] by blast
  have "json_norm (dump_FormalSpecificationV1 (sc_formal c)) = json_norm (dump_FormalSpecificationV1 (sc_formal d))"
    using all [of "''formal''"] unfolding field_formal by simp
  from formal_fields_determined [OF wf_formal wf_formal this, OF assms(1,2)] show ?thesis
    using all by blast
qed blast

text \<open>
  A frozen contract is bound to its content: its freeze record carries its own semantic
  hash, the hash of its source and the SHA-256 of its Lean statement text, and the semantic
  hash is the one the contract had before it was frozen.
\<close>

theorem frozen_contract_binding:
  assumes "StatementContractV1_init raw = Inr c" "sc_status c = SS_FROZEN"
    and "FormalSpecificationV1_init (sc_formal c) = Inr (sc_formal c)"
  shows "\<exists>f. sc_freeze c = Some f \<and> fz_contract_hash f = semantic_hash c \<and>
    fz_contract_hash f = semantic_hash (c\<lparr>sc_status := SS_DRAFT, sc_freeze := None\<rparr>) \<and>
    fz_source_hash f = sr_content_hash (sc_source c) \<and>
    fz_statement_source_hash f = digest_text STATEMENT_SOURCE (fs_lean_statement_source (sc_formal c)) \<and>
    fz_elaborated_type_hash f = map_option (digest_text ELABORATED_TYPE) (fs_elaborated_type (sc_formal c))"
proof -
  have g: "list_all fst (StatementContractV1_guards c)" "list_all fst (FormalSpecificationV1_guards (sc_formal c))"
    using assms(1,3) by (auto simp: StatementContractV1_init_def FormalSpecificationV1_init_def construct_Inr)
  obtain f where f: "sc_freeze c = Some f" "fz_contract_hash f = semantic_hash c"
    "fz_source_hash f = sr_content_hash (sc_source c)"
    "fz_statement_source_hash f = fs_statement_source_hash (sc_formal c)"
    "fz_elaborated_type_hash f = fs_elaborated_type_hash (sc_formal c)"
    using g(1) assms(2) by (auto simp: StatementContractV1_guards_def)
  have "fs_statement_source_hash (sc_formal c) = digest_text STATEMENT_SOURCE (fs_lean_statement_source (sc_formal c))"
    and "fs_elaborated_type_hash (sc_formal c) = map_option (digest_text ELABORATED_TYPE) (fs_elaborated_type (sc_formal c))"
    using g(2) by (auto simp: FormalSpecificationV1_guards_def opt_all_def split: option.splits)
  then show ?thesis using f by simp
qed

text \<open>
  The payload a Builder authority attests identifies the handoff: two bundles with the
  same attested payload have the same bundle identifier and contract revision, and their
  bundle, contract, boundary and environment hashes agree, so their content agrees in every
  field but the attestation, unless the two hashed dumps themselves are a SHA-256 collision.
\<close>

theorem builder_payload_binds:
  assumes "builder_attestation_payload s = Inr p" "builder_attestation_payload t = Inr p"
    and "json_wf (dump_FormalizationTaskBundleV1 s)" "json_wf (dump_FormalizationTaskBundleV1 t)"
  shows "si_value (tb_bundle_id s) = si_value (tb_bundle_id t) \<and>
    sc_revision (tb_contract s) = sc_revision (tb_contract t) \<and>
    dg_value (pb_boundary_hash (tb_proof_boundary s)) = dg_value (pb_boundary_hash (tb_proof_boundary t)) \<and>
    ((\<forall>f. f \<noteq> ''builder_attestation'' \<longrightarrow>
       dump_field (dump_FormalizationTaskBundleV1 s) f = dump_field (dump_FormalizationTaskBundleV1 t) f) \<or>
     json_collision (dump_exclude [''builder_attestation''] (dump_FormalizationTaskBundleV1 s))
        (dump_exclude [''builder_attestation''] (dump_FormalizationTaskBundleV1 t)))"
proof -
  have p: "si_value (tb_bundle_id s) = si_value (tb_bundle_id t)"
    "sc_revision (tb_contract s) = sc_revision (tb_contract t)"
    "dg_value (pb_boundary_hash (tb_proof_boundary s)) = dg_value (pb_boundary_hash (tb_proof_boundary t))"
    and "dg_value (handoff_hash s) = dg_value (handoff_hash t)"
    using assms(1,2) by (auto simp: builder_attestation_payload_def Let_def result_simps)
  then have h: "handoff_hash s = handoff_hash t"
    by (intro DigestV1.equality) (simp_all add: handoff_hash_def)
  have "dump_field (dump_FormalizationTaskBundleV1 s) f = dump_field (dump_FormalizationTaskBundleV1 t) f
      \<or> json_collision (dump_exclude [''builder_attestation''] (dump_FormalizationTaskBundleV1 s))
        (dump_exclude [''builder_attestation''] (dump_FormalizationTaskBundleV1 t))" if "f \<noteq> ''builder_attestation''" for f
    by (rule excluded_digest_fields [OF assms(3,4), of f "[''builder_attestation'']" BUNDLE])
      (use h that in \<open>simp_all add: handoff_hash_def\<close>)
  then show ?thesis using p by blast
qed

section \<open>A sample task\<close>

definition sample_id :: "string \<Rightarrow> StableIdentifierV1" where
  "sample_id ns = \<lparr>si_namespace = ns, si_value = urn_prefix @ ns @ '':00000000-0000-0000-0000-000000000000''\<rparr>"

definition sample_environment :: LeanEnvironmentV1 where
  "sample_environment =
     \<lparr>le_lean_version = ''4.9.0'', le_mathlib_revision = ''abc'',
      le_verifier_execution_policy = PolicyV1 \<lparr>op1_worker_image_digest = ''sha256:'' @ replicate 64 (CHR ''0'')\<rparr>,
      le_lake_manifest_hash = None, le_environment_hash = digest_text ENVIRONMENT ''env''\<rparr>"

definition sample_formal :: FormalSpecificationV1 where
  "sample_formal =
     \<lparr>fs_declaration_name = ''foo'', fs_namespace = ''N.M'', fs_lean_statement_source = ''theorem foo : True'',
      fs_statement_source_hash = digest_text STATEMENT_SOURCE ''theorem foo : True'',
      fs_elaborated_type = Some ''True'', fs_elaborated_type_hash = Some (digest_text ELABORATED_TYPE ''True''),
      fs_environment = sample_environment, fs_imports_allowlist = [''Mathlib''], fs_axioms_allowlist = []\<rparr>"

definition sample_draft :: StatementContractV1 where
  "sample_draft =
     \<lparr>sc_contract_id = sample_id ''contract'', sc_revision = 1, sc_task_kind = TK_KNOWN_THEOREM,
      sc_source = \<lparr>sr_source_id = sample_id ''source'', sr_work_id = ''w'', sr_title = ''t'', sr_version = ''1'',
        sr_locator = ''l'', sr_content_hash = digest_text SOURCE_BYTES ''book'', sr_snapshot_ref = None,
        sr_retrieved_at = utc 0, sr_spans = [], sr_metadata = []\<rparr>,
      sc_rights = \<lparr>rr_rights_id = sample_id ''rights'', rr_source_id = sample_id ''source'',
        rr_source_license = None, rr_generated_code_license = None, rr_overall_decision = PD_UNKNOWN,
        rr_redistribution = PD_UNKNOWN, rr_model_egress = PD_UNKNOWN, rr_training = PD_UNKNOWN,
        rr_embedding = PD_UNKNOWN, rr_allowed_endpoint_classes = [], rr_attribution = None,
        rr_restrictions = [], rr_reviewed_by = None, rr_reviewed_at = None\<rparr>,
      sc_mathematics = \<lparr>ms_informal_statement = ''i'', ms_normalized_statement = ''n'', ms_assumptions = [],
        ms_quantifier_order = [], ms_notation_context = [], ms_definitions = [], ms_equality_notions = [],
        ms_edge_cases = [], ms_ambiguities = []\<rparr>,
      sc_formal = sample_formal, sc_alignments = [], sc_dependencies = [],
      sc_policy = \<lparr>tp_release_tier = RT_SANDBOX, tp_fidelity_risk = FR_L1_SIMPLE, tp_axiom_profile = AX_STRICT,
        tp_allowed_edit_regions = [], tp_proof_budget = [],
        tp_open_problem = \<lparr>opp_enabled = False, opp_quarantine_required = True,
          opp_required_independent_verifiers = 2, opp_required_domain_expert_reviews = 1,
          opp_require_clean_environment = True, opp_require_strict_axiom_profile = True,
          opp_forbid_post_freeze_statement_change = True\<rparr>\<rparr>,
      sc_fidelity = None, sc_provenance = [], sc_status = SS_DRAFT, sc_freeze = None\<rparr>"

definition sample_contract :: StatementContractV1 where
  "sample_contract = sample_draft\<lparr>sc_status := SS_FROZEN, sc_freeze := Some
     \<lparr>fz_contract_hash = semantic_hash sample_draft, fz_source_hash = digest_text SOURCE_BYTES ''book'',
      fz_source_preparation_id = None, fz_source_preparation_hash = None,
      fz_statement_source_hash = digest_text STATEMENT_SOURCE ''theorem foo : True'',
      fz_elaborated_type_hash = Some (digest_text ELABORATED_TYPE ''True''),
      fz_frozen_by = ''me'', fz_frozen_at = utc 1\<rparr>\<rparr>"

definition sample_graphs :: GraphBundleV1 where
  "sample_graphs =
     \<lparr>gb_mathematical = \<lparr>mg_graph_id = sample_id ''graph'', mg_revision = 1, mg_nodes = [], mg_edges = []\<rparr>,
      gb_formal = \<lparr>fg_graph_id = sample_id ''graph'', fg_revision = 1, fg_nodes = [], fg_edges = []\<rparr>,
      gb_execution = \<lparr>eg_graph_id = sample_id ''graph'', eg_revision = 1, eg_nodes = [], eg_edges = []\<rparr>,
      gb_alignments = []\<rparr>"

definition sample_bundle :: FormalizationTaskBundleV1 where
  "sample_bundle =
     \<lparr>tb_bundle_id = sample_id ''bundle'', tb_contract = sample_contract, tb_graphs = sample_graphs,
      tb_graph_snapshot_hash = digest_model GRAPH_SNAPSHOT (dump_GraphBundleV1 sample_graphs),
      tb_proof_boundary = boundary_of sample_contract (digest_text ELABORATED_TYPE ''True'')
        (case render_trusted_statement sample_contract of Inr src \<Rightarrow> src | Inl _ \<Rightarrow> []),
      tb_fidelity_evidence = None, tb_issued_at = utc 2, tb_builder_attestation = None\<rparr>"

lemma strip_ws_ends: "s = [] \<or> \<not> white_space (hd s) \<and> \<not> white_space (last s) \<Longrightarrow> strip_ws s = s"
  unfolding strip_ws_def by (rule strip_by_fixpoint)

lemma sample_formal_ok: "FormalSpecificationV1_init sample_formal = Inr sample_formal"
  by (simp add: FormalSpecificationV1_init_def construct_Inr FormalSpecificationV1_strip_def
      FormalSpecificationV1_guards_def sample_formal_def strip_ws_ends white_space_def)

lemma sample_environment_ok: "LeanEnvironmentV1_init sample_environment = Inr sample_environment"
  by (simp add: LeanEnvironmentV1_init_def construct_Inr LeanEnvironmentV1_strip_def
      LeanEnvironmentV1_guards_def sample_environment_def strip_ws_ends white_space_def)

lemma sample_contract_simps [simp]:
  "sc_formal sample_contract = sample_formal" "sc_status sample_contract = SS_FROZEN"
  "sc_fidelity sample_contract = None"
  by (simp_all add: sample_contract_def sample_draft_def)

lemma sample_contract_hash [simp]: "semantic_hash sample_contract = semantic_hash sample_draft"
  by (simp add: sample_contract_def)

lemma sample_contract_ok: "StatementContractV1_init sample_contract = Inr sample_contract"
proof -
  have "list_all fst (StatementContractV1_guards sample_contract)"
    by (simp add: StatementContractV1_guards_def) (simp add: sample_contract_def sample_draft_def sample_formal_def)
  then show ?thesis by (simp add: StatementContractV1_init_def construct_Inr)
qed

lemma sample_contract_wf: "json_wf (dump_StatementContractV1 sample_contract)"
  by (simp add: sample_contract_def sample_draft_def sample_formal_def sample_environment_def JOpt_def
      dump_StatementContractV1_def dump_SourceRecordV1_def dump_RightsRecordV1_def
      dump_MathematicalSpecificationV1_def dump_FormalSpecificationV1_def dump_LeanEnvironmentV1_def
      dump_OciVerifierExecutionPolicyV1_def dump_TaskPolicyV1_def dump_OpenProblemPolicyV1_def
      dump_FreezeRecordV1_def dump_datetime_def)

lemma sample_renderable: "renderable sample_contract" "nonblank (fs_lean_statement_source sample_formal)"
  by (simp_all add: renderable_def sample_formal_def lean_namespace_def lean_declaration_def
      lean_ident_start_def char_class_defs py_contains_def sublist_code py_rstrip_def py_isspace_def
      nonblank_rstrip)

lemma sample_boundary: "build_proof_boundary sample_contract = Inr (tb_proof_boundary sample_bundle)"
proof -
  obtain src where src: "render_trusted_statement sample_contract = Inr src"
    using sample_renderable render_Inr unfolding renderable_def by blast
  have "build_proof_boundary sample_contract = Inr (boundary_of sample_contract (digest_text ELABORATED_TYPE ''True'') src)"
    by (rule build_proof_boundary_succeeds)
      (use src sample_renderable in \<open>simp_all add: sample_formal_def sample_environment_def\<close>)
  then show ?thesis using src by (simp add: sample_bundle_def)
qed

lemma sample_bundle_simps [simp]:
  "tb_contract sample_bundle = sample_contract" "tb_builder_attestation sample_bundle = None"
  "tb_fidelity_evidence sample_bundle = None"
  "tb_graph_snapshot_hash sample_bundle = digest_model GRAPH_SNAPSHOT (dump_GraphBundleV1 (tb_graphs sample_bundle))"
  by (simp_all add: sample_bundle_def)

lemma sample_payload: "\<exists>p. builder_attestation_payload sample_bundle = Inr p"
  by (simp add: builder_attestation_payload_def Let_def freeze_evidence_hash_def)
    (simp add: sample_contract_def)

lemma sample_bundle_wf: "json_wf (dump_FormalizationTaskBundleV1 sample_bundle)"
  using sample_contract_wf
  by (simp add: dump_FormalizationTaskBundleV1_def sample_bundle_def sample_graphs_def JOpt_def
      dump_GraphBundleV1_def dump_MathematicalGraphV1_def dump_FormalGraphV1_def dump_ExecutionGraphV1_def
      dump_datetime_def dump_ProofBoundaryV1_def)

theorem built_boundary_is_accepted_witness: "FormalizationTaskBundleV1_init sample_bundle = Inr sample_bundle"
  using built_boundary_is_accepted [of sample_bundle] sample_boundary sample_renderable by simp

theorem build_proof_boundary_returns_witness: "\<exists>b. build_proof_boundary sample_contract = Inr b"
  using build_proof_boundary_returns [of sample_contract] sample_formal_ok sample_environment_ok sample_renderable
  by (simp add: sample_formal_def)

lemma sample_accepted_parts:
  "ProofBoundaryV1_init (tb_proof_boundary sample_bundle) = Inr (tb_proof_boundary sample_bundle)"
  "FormalizationTaskBundleV1_init sample_bundle = Inr sample_bundle"
proof -
  show b: "ProofBoundaryV1_init (tb_proof_boundary sample_bundle) = Inr (tb_proof_boundary sample_bundle)"
    using build_proof_boundary_Inr [OF sample_boundary] sample_renderable by auto
  obtain h src where "fs_elaborated_type_hash (sc_formal sample_contract) = Some h"
    "render_trusted_statement sample_contract = Inr src" "tb_proof_boundary sample_bundle = boundary_of sample_contract h src"
    using build_proof_boundary_Inr [OF sample_boundary] sample_renderable by auto
  then show "FormalizationTaskBundleV1_init sample_bundle = Inr sample_bundle"
    by (simp add: FormalizationTaskBundleV1_init_def construct_Inr FormalizationTaskBundleV1_guards_def)
qed

theorem bundle_boundary_is_built_witness:
  "build_proof_boundary (tb_contract sample_bundle) = Inr (tb_proof_boundary sample_bundle)"
  using bundle_boundary_is_built [OF sample_accepted_parts(2,1)] .

theorem semantic_hash_binds_witness:
  "fs_namespace (sc_formal sample_contract) = fs_namespace (sc_formal sample_contract) \<or>
   json_collision (dump_exclude [''status'', ''freeze''] (dump_StatementContractV1 sample_contract))
      (dump_exclude [''status'', ''freeze''] (dump_StatementContractV1 sample_contract))"
  using semantic_hash_binds [OF sample_contract_wf sample_contract_wf refl] by blast

theorem frozen_contract_binding_witness:
  "\<exists>f. sc_freeze sample_contract = Some f \<and> fz_contract_hash f = semantic_hash sample_draft"
  using frozen_contract_binding [OF sample_contract_ok] sample_formal_ok by fastforce

theorem builder_payload_binds_witness:
  "\<exists>p. builder_attestation_payload sample_bundle = Inr p \<and>
     si_value (tb_bundle_id sample_bundle) = si_value (tb_bundle_id sample_bundle)"
proof -
  obtain p where p: "builder_attestation_payload sample_bundle = Inr p" using sample_payload by blast
  show ?thesis using builder_payload_binds [OF p p sample_bundle_wf sample_bundle_wf] p by blast
qed

end
