(* ===== verification/Submissions.thy ===== *)
theory Submissions
  imports Handoff
begin

text \<open>
  \<open>models.py\<close>, third part: proof submissions, gap reports and change requests, the evidence a
  verifier retains, the verification report with the payload its authority attests, review
  decisions and event envelopes. Shown: the attested payload determines the report it
  vouches for, and the transcript hash of a two-phase OCI run determines both phases.
\<close>

section \<open>Submissions\<close>

record AttemptMetricsV1 =
  mt_input_tokens :: int
  mt_output_tokens :: int
  mt_cached_input_tokens :: int
  mt_cost_usd :: string
  mt_elapsed_ms :: int

definition dump_AttemptMetricsV1 :: "AttemptMetricsV1 \<Rightarrow> json" where
  "dump_AttemptMetricsV1 x = JObj
     [(''input_tokens'', JInt (mt_input_tokens x)),
      (''output_tokens'', JInt (mt_output_tokens x)),
      (''cached_input_tokens'', JInt (mt_cached_input_tokens x)),
      (''cost_usd'', JFloat (mt_cost_usd x)),
      (''elapsed_ms'', JInt (mt_elapsed_ms x))]"

definition AttemptMetricsV1_guards :: "AttemptMetricsV1 \<Rightarrow> checks" where
  "AttemptMetricsV1_guards x = [((mt_input_tokens x) \<ge> 0, ''input_tokens ge''),
     ((mt_output_tokens x) \<ge> 0, ''output_tokens ge''),
     ((mt_cached_input_tokens x) \<ge> 0, ''cached_input_tokens ge''),
     (float_ge_zero (mt_cost_usd x), ''cost_usd ge''),
     ((mt_elapsed_ms x) \<ge> 0, ''elapsed_ms ge'')]"

definition AttemptMetricsV1_init :: "AttemptMetricsV1 \<Rightarrow> AttemptMetricsV1 result" where
  "AttemptMetricsV1_init = construct id AttemptMetricsV1_guards"

interpretation mt_model: contract_model id AttemptMetricsV1_guards
  by unfold_locales simp

record ProofSubmissionV1 =
  ps_proof_id :: StableIdentifierV1
  ps_contract_id :: StableIdentifierV1
  ps_revision :: int
  ps_contract_hash :: DigestV1
  ps_proof_boundary_hash :: DigestV1
  ps_proof_source :: string
  ps_proof_source_hash :: DigestV1
  ps_environment_hash :: DigestV1
  ps_dependency_manifest :: "string list"
  ps_provenance :: "ProvenanceTraceV1 list"
  ps_metrics :: AttemptMetricsV1
  ps_status :: ProofStatusV1
  ps_submitted_at :: datetime

definition ProofSubmissionV1_strip :: "ProofSubmissionV1 \<Rightarrow> ProofSubmissionV1" where
  "ProofSubmissionV1_strip x = x\<lparr>ps_proof_source := strip_ws (ps_proof_source x),
     ps_dependency_manifest := map strip_ws (ps_dependency_manifest x)\<rparr>"

definition dump_ProofSubmissionV1 :: "ProofSubmissionV1 \<Rightarrow> json" where
  "dump_ProofSubmissionV1 x = JObj
     [(''schema_version'', JStr ''1.0''),
      (''proof_id'', dump_StableIdentifierV1 (ps_proof_id x)),
      (''contract_id'', dump_StableIdentifierV1 (ps_contract_id x)),
      (''revision'', JInt (ps_revision x)),
      (''contract_hash'', dump_DigestV1 (ps_contract_hash x)),
      (''proof_boundary_hash'', dump_DigestV1 (ps_proof_boundary_hash x)),
      (''proof_source'', JStr (ps_proof_source x)),
      (''proof_source_hash'', dump_DigestV1 (ps_proof_source_hash x)),
      (''environment_hash'', dump_DigestV1 (ps_environment_hash x)),
      (''dependency_manifest'', JList (map JStr (ps_dependency_manifest x))),
      (''provenance'', JList (map dump_ProvenanceTraceV1 (ps_provenance x))),
      (''metrics'', dump_AttemptMetricsV1 (ps_metrics x)),
      (''status'', JStr (ProofStatusV1_value (ps_status x))),
      (''submitted_at'', dump_datetime (ps_submitted_at x))]"

definition ProofSubmissionV1_guards :: "ProofSubmissionV1 \<Rightarrow> checks" where
  "ProofSubmissionV1_guards x = [((ps_revision x) \<ge> 1, ''revision ge''),
     ((ps_proof_source x) \<noteq> [], ''proof_source min_length''),
     (dg_kind (ps_contract_hash x) = CONTRACT, ''contract_hash kind''),
     (dg_kind (ps_proof_boundary_hash x) = PROOF_BOUNDARY, ''proof_boundary_hash kind''),
     (dg_kind (ps_proof_source_hash x) = PROOF_SOURCE, ''proof_source_hash kind''),
     (dg_kind (ps_environment_hash x) = ENVIRONMENT, ''environment_hash kind''),
     (digest_text PROOF_SOURCE (ps_proof_source x) = ps_proof_source_hash x, ''proof_source does not match proof_source_hash'')]"

definition ProofSubmissionV1_init :: "ProofSubmissionV1 \<Rightarrow> ProofSubmissionV1 result" where
  "ProofSubmissionV1_init = construct ProofSubmissionV1_strip ProofSubmissionV1_guards"

interpretation ps_model: contract_model ProofSubmissionV1_strip ProofSubmissionV1_guards
  by unfold_locales (simp add: ProofSubmissionV1_strip_def)

definition proof_dependency_manifest_hash :: "ProofSubmissionV1 \<Rightarrow> DigestV1" where
  "proof_dependency_manifest_hash s = digest_model DEPENDENCY_MANIFEST (JObj
     [(''schema_version'', JStr ''autolean.proof-dependency-manifest.v1''),
      (''proof_id'', JStr (si_value (ps_proof_id s))),
      (''dependencies'', JStrs (ps_dependency_manifest s))])"

datatype GapKindV1 =
    GK_MISSING_DEFINITION | GK_MISSING_LEMMA | GK_BAD_STATEMENT | GK_AMBIGUOUS_SOURCE
  | GK_API_MISMATCH | GK_VERSION_DRIFT | GK_RESOURCE_EXHAUSTED

fun GapKindV1_value :: "GapKindV1 \<Rightarrow> string" where
  "GapKindV1_value GK_MISSING_DEFINITION = ''missing_definition''"
| "GapKindV1_value GK_MISSING_LEMMA = ''missing_lemma''"
| "GapKindV1_value GK_BAD_STATEMENT = ''bad_statement''"
| "GapKindV1_value GK_AMBIGUOUS_SOURCE = ''ambiguous_source''"
| "GapKindV1_value GK_API_MISMATCH = ''api_mismatch''"
| "GapKindV1_value GK_VERSION_DRIFT = ''version_drift''"
| "GapKindV1_value GK_RESOURCE_EXHAUSTED = ''resource_exhausted''"

lemma GapKindV1_value_inj [simp]: "GapKindV1_value a = GapKindV1_value b \<longleftrightarrow> a = b"
  by (cases a; cases b; simp)

record GapReportV1 =
  gr_report_id :: StableIdentifierV1
  gr_contract_id :: StableIdentifierV1
  gr_revision :: int
  gr_contract_hash :: DigestV1
  gr_kind :: GapKindV1
  gr_evidence :: string
  gr_minimal_reproducer :: "string option"
  gr_affected_nodes :: "StableIdentifierV1 list"
  gr_suggested_action :: "string option"
  gr_reported_by :: string
  gr_created_at :: datetime

definition GapReportV1_strip :: "GapReportV1 \<Rightarrow> GapReportV1" where
  "GapReportV1_strip x = x\<lparr>gr_evidence := strip_ws (gr_evidence x),
     gr_minimal_reproducer := map_option strip_ws (gr_minimal_reproducer x),
     gr_suggested_action := map_option strip_ws (gr_suggested_action x),
     gr_reported_by := strip_ws (gr_reported_by x)\<rparr>"

definition dump_GapReportV1 :: "GapReportV1 \<Rightarrow> json" where
  "dump_GapReportV1 x = JObj
     [(''schema_version'', JStr ''1.0''),
      (''report_id'', dump_StableIdentifierV1 (gr_report_id x)),
      (''contract_id'', dump_StableIdentifierV1 (gr_contract_id x)),
      (''revision'', JInt (gr_revision x)),
      (''contract_hash'', dump_DigestV1 (gr_contract_hash x)),
      (''kind'', JStr (GapKindV1_value (gr_kind x))),
      (''evidence'', JStr (gr_evidence x)),
      (''minimal_reproducer'', JOpt JStr (gr_minimal_reproducer x)),
      (''affected_nodes'', JList (map dump_StableIdentifierV1 (gr_affected_nodes x))),
      (''suggested_action'', JOpt JStr (gr_suggested_action x)),
      (''reported_by'', JStr (gr_reported_by x)),
      (''created_at'', dump_datetime (gr_created_at x))]"

definition GapReportV1_guards :: "GapReportV1 \<Rightarrow> checks" where
  "GapReportV1_guards x = [((gr_revision x) \<ge> 1, ''revision ge''),
     ((gr_evidence x) \<noteq> [], ''evidence min_length''),
     ((gr_reported_by x) \<noteq> [], ''reported_by min_length''),
     (dg_kind (gr_contract_hash x) = CONTRACT, ''contract_hash kind'')]"

definition GapReportV1_init :: "GapReportV1 \<Rightarrow> GapReportV1 result" where
  "GapReportV1_init = construct GapReportV1_strip GapReportV1_guards"

interpretation gr_model: contract_model GapReportV1_strip GapReportV1_guards
  by unfold_locales (simp add: GapReportV1_strip_def)

record ContractChangeV1 =
  cc_path :: string
  cc_operation :: string
  cc_before :: json
  cc_after :: json
  cc_semantic :: bool

definition ContractChangeV1_strip :: "ContractChangeV1 \<Rightarrow> ContractChangeV1" where
  "ContractChangeV1_strip x = x\<lparr>cc_path := strip_ws (cc_path x)\<rparr>"

definition dump_ContractChangeV1 :: "ContractChangeV1 \<Rightarrow> json" where
  "dump_ContractChangeV1 x = JObj
     [(''path'', JStr (cc_path x)),
      (''operation'', JStr (cc_operation x)),
      (''before'', (cc_before x)),
      (''after'', (cc_after x)),
      (''semantic'', JBool (cc_semantic x))]"

definition ContractChangeV1_guards :: "ContractChangeV1 \<Rightarrow> checks" where
  "ContractChangeV1_guards x = [((cc_path x) \<noteq> [], ''path min_length''),
     ((cc_operation x) \<in> set [''add'', ''remove'', ''replace''], ''operation literal'')]"

definition ContractChangeV1_init :: "ContractChangeV1 \<Rightarrow> ContractChangeV1 result" where
  "ContractChangeV1_init = construct ContractChangeV1_strip ContractChangeV1_guards"

interpretation cc_model: contract_model ContractChangeV1_strip ContractChangeV1_guards
  by unfold_locales (simp add: ContractChangeV1_strip_def)

record ContractChangeRequestV1 =
  cr_request_id :: StableIdentifierV1
  cr_contract_id :: StableIdentifierV1
  cr_old_revision :: int
  cr_old_contract_hash :: DigestV1
  cr_proposed_changes :: "ContractChangeV1 list"
  cr_semantic_impact :: string
  cr_evidence :: string
  cr_requested_by :: string
  cr_created_at :: datetime

definition ContractChangeRequestV1_strip :: "ContractChangeRequestV1 \<Rightarrow> ContractChangeRequestV1" where
  "ContractChangeRequestV1_strip x = x\<lparr>cr_semantic_impact := strip_ws (cr_semantic_impact x),
     cr_evidence := strip_ws (cr_evidence x),
     cr_requested_by := strip_ws (cr_requested_by x)\<rparr>"

definition dump_ContractChangeRequestV1 :: "ContractChangeRequestV1 \<Rightarrow> json" where
  "dump_ContractChangeRequestV1 x = JObj
     [(''schema_version'', JStr ''1.0''),
      (''request_id'', dump_StableIdentifierV1 (cr_request_id x)),
      (''contract_id'', dump_StableIdentifierV1 (cr_contract_id x)),
      (''old_revision'', JInt (cr_old_revision x)),
      (''old_contract_hash'', dump_DigestV1 (cr_old_contract_hash x)),
      (''proposed_changes'', JList (map dump_ContractChangeV1 (cr_proposed_changes x))),
      (''semantic_impact'', JStr (cr_semantic_impact x)),
      (''evidence'', JStr (cr_evidence x)),
      (''requested_by'', JStr (cr_requested_by x)),
      (''created_at'', dump_datetime (cr_created_at x))]"

definition ContractChangeRequestV1_guards :: "ContractChangeRequestV1 \<Rightarrow> checks" where
  "ContractChangeRequestV1_guards x = [((cr_old_revision x) \<ge> 1, ''old_revision ge''),
     ((cr_proposed_changes x) \<noteq> [], ''proposed_changes min_length''),
     ((cr_semantic_impact x) \<noteq> [], ''semantic_impact min_length''),
     ((cr_evidence x) \<noteq> [], ''evidence min_length''),
     ((cr_requested_by x) \<noteq> [], ''requested_by min_length''),
     (dg_kind (cr_old_contract_hash x) = CONTRACT, ''old_contract_hash kind'')]"

definition ContractChangeRequestV1_init :: "ContractChangeRequestV1 \<Rightarrow> ContractChangeRequestV1 result" where
  "ContractChangeRequestV1_init = construct ContractChangeRequestV1_strip ContractChangeRequestV1_guards"

interpretation cr_model: contract_model ContractChangeRequestV1_strip ContractChangeRequestV1_guards
  by unfold_locales (simp add: ContractChangeRequestV1_strip_def)

section \<open>Verification evidence\<close>

record VerificationArtifactEnvironmentV1 =
  ve_environment_hash :: DigestV1
  ve_lean_version :: string
  ve_mathlib_revision :: string
  ve_lake_manifest_hash :: "DigestV1 option"

definition VerificationArtifactEnvironmentV1_strip :: "VerificationArtifactEnvironmentV1 \<Rightarrow> VerificationArtifactEnvironmentV1" where
  "VerificationArtifactEnvironmentV1_strip x = x\<lparr>ve_lean_version := strip_ws (ve_lean_version x),
     ve_mathlib_revision := strip_ws (ve_mathlib_revision x)\<rparr>"

definition dump_VerificationArtifactEnvironmentV1 :: "VerificationArtifactEnvironmentV1 \<Rightarrow> json" where
  "dump_VerificationArtifactEnvironmentV1 x = JObj
     [(''environment_hash'', dump_DigestV1 (ve_environment_hash x)),
      (''lean_version'', JStr (ve_lean_version x)),
      (''mathlib_revision'', JStr (ve_mathlib_revision x)),
      (''lake_manifest_hash'', JOpt dump_DigestV1 (ve_lake_manifest_hash x))]"

definition VerificationArtifactEnvironmentV1_guards :: "VerificationArtifactEnvironmentV1 \<Rightarrow> checks" where
  "VerificationArtifactEnvironmentV1_guards x = [((ve_lean_version x) \<noteq> [], ''lean_version min_length''),
     ((ve_mathlib_revision x) \<noteq> [], ''mathlib_revision min_length''),
     (dg_kind (ve_environment_hash x) = ENVIRONMENT, ''environment_hash kind''),
     (opt_all (\<lambda>h. dg_kind h = ENVIRONMENT) (ve_lake_manifest_hash x), ''lake_manifest_hash kind'')]"

definition VerificationArtifactEnvironmentV1_init :: "VerificationArtifactEnvironmentV1 \<Rightarrow> VerificationArtifactEnvironmentV1 result" where
  "VerificationArtifactEnvironmentV1_init = construct VerificationArtifactEnvironmentV1_strip VerificationArtifactEnvironmentV1_guards"

interpretation ve_model: contract_model VerificationArtifactEnvironmentV1_strip VerificationArtifactEnvironmentV1_guards
  by unfold_locales (simp add: VerificationArtifactEnvironmentV1_strip_def)

record OciVerificationArtifactV1 =
  oa1_worker_image_digest :: string
  oa1_wrapper_protocol :: string
  oa1_command_policy_hash :: DigestV1
  oa1_command_hash :: DigestV1
  oa1_candidate_sha256 :: string
  oa1_trusted_statement_sha256 :: string
  oa1_bundle_manifest_sha256 :: string

definition OciVerificationArtifactV1_strip :: "OciVerificationArtifactV1 \<Rightarrow> OciVerificationArtifactV1" where
  "OciVerificationArtifactV1_strip x = x\<lparr>oa1_worker_image_digest := strip_ws (oa1_worker_image_digest x),
     oa1_wrapper_protocol := strip_ws (oa1_wrapper_protocol x),
     oa1_candidate_sha256 := strip_ws (oa1_candidate_sha256 x),
     oa1_trusted_statement_sha256 := strip_ws (oa1_trusted_statement_sha256 x),
     oa1_bundle_manifest_sha256 := strip_ws (oa1_bundle_manifest_sha256 x)\<rparr>"

definition dump_OciVerificationArtifactV1 :: "OciVerificationArtifactV1 \<Rightarrow> json" where
  "dump_OciVerificationArtifactV1 x = JObj
     [(''schema_version'', JStr ''autolean.oci-execution-evidence.v1''),
      (''worker_image_digest'', JStr (oa1_worker_image_digest x)),
      (''wrapper_protocol'', JStr (oa1_wrapper_protocol x)),
      (''command_policy_hash'', dump_DigestV1 (oa1_command_policy_hash x)),
      (''command_hash'', dump_DigestV1 (oa1_command_hash x)),
      (''candidate_sha256'', JStr (oa1_candidate_sha256 x)),
      (''trusted_statement_sha256'', JStr (oa1_trusted_statement_sha256 x)),
      (''bundle_manifest_sha256'', JStr (oa1_bundle_manifest_sha256 x))]"

definition OciVerificationArtifactV1_guards :: "OciVerificationArtifactV1 \<Rightarrow> checks" where
  "OciVerificationArtifactV1_guards x = [(image_digest_pattern (oa1_worker_image_digest x), ''worker_image_digest pattern''),
     ((oa1_wrapper_protocol x) \<noteq> [], ''wrapper_protocol min_length''),
     (length (oa1_wrapper_protocol x) \<le> 128, ''wrapper_protocol max_length''),
     (ident_pattern ''._-'' 128 (oa1_wrapper_protocol x), ''wrapper_protocol pattern''),
     (is_sha256_text (oa1_candidate_sha256 x), ''candidate_sha256 pattern''),
     (is_sha256_text (oa1_trusted_statement_sha256 x), ''trusted_statement_sha256 pattern''),
     (is_sha256_text (oa1_bundle_manifest_sha256 x), ''bundle_manifest_sha256 pattern''),
     (dg_kind (oa1_command_policy_hash x) = VERIFICATION_COMMAND, ''command_policy_hash kind''),
     (dg_kind (oa1_command_hash x) = VERIFICATION_COMMAND, ''command_hash kind'')]"

definition OciVerificationArtifactV1_init :: "OciVerificationArtifactV1 \<Rightarrow> OciVerificationArtifactV1 result" where
  "OciVerificationArtifactV1_init = construct OciVerificationArtifactV1_strip OciVerificationArtifactV1_guards"

interpretation oa1_model: contract_model OciVerificationArtifactV1_strip OciVerificationArtifactV1_guards
  by unfold_locales (simp add: OciVerificationArtifactV1_strip_def)

record OciExecutionAuthorityV1 =
  oe_execution_claim_hash :: string
  oe_worker_id :: string
  oe_fencing_token :: int
  oe_expires_at :: datetime
  oe_wrapper_identity_hash :: string

definition OciExecutionAuthorityV1_strip :: "OciExecutionAuthorityV1 \<Rightarrow> OciExecutionAuthorityV1" where
  "OciExecutionAuthorityV1_strip x = x\<lparr>oe_execution_claim_hash := strip_ws (oe_execution_claim_hash x),
     oe_worker_id := strip_ws (oe_worker_id x),
     oe_wrapper_identity_hash := strip_ws (oe_wrapper_identity_hash x)\<rparr>"

definition dump_OciExecutionAuthorityV1 :: "OciExecutionAuthorityV1 \<Rightarrow> json" where
  "dump_OciExecutionAuthorityV1 x = JObj
     [(''schema_version'', JStr ''autolean.oci-execution-authority.v1''),
      (''status'', JStr ''lease-bound-pending-gateway''),
      (''execution_claim_hash'', JStr (oe_execution_claim_hash x)),
      (''worker_id'', JStr (oe_worker_id x)),
      (''fencing_token'', JInt (oe_fencing_token x)),
      (''expires_at'', dump_datetime (oe_expires_at x)),
      (''wrapper_identity_hash'', JStr (oe_wrapper_identity_hash x))]"

definition OciExecutionAuthorityV1_guards :: "OciExecutionAuthorityV1 \<Rightarrow> checks" where
  "OciExecutionAuthorityV1_guards x = [(is_sha256_text (oe_execution_claim_hash x), ''execution_claim_hash pattern''),
     ((oe_worker_id x) \<noteq> [], ''worker_id min_length''),
     (length (oe_worker_id x) \<le> 256, ''worker_id max_length''),
     (ident_pattern ''._:-'' 256 (oe_worker_id x), ''worker_id pattern''),
     ((oe_fencing_token x) > 0, ''fencing_token gt''),
     (is_sha256_text (oe_wrapper_identity_hash x), ''wrapper_identity_hash pattern''),
     (aware (oe_expires_at x), ''OCI execution authority lease expiry must be timezone-aware'')]"

definition OciExecutionAuthorityV1_init :: "OciExecutionAuthorityV1 \<Rightarrow> OciExecutionAuthorityV1 result" where
  "OciExecutionAuthorityV1_init = construct OciExecutionAuthorityV1_strip OciExecutionAuthorityV1_guards"

interpretation oe_model: contract_model OciExecutionAuthorityV1_strip OciExecutionAuthorityV1_guards
  by unfold_locales (simp add: OciExecutionAuthorityV1_strip_def)

record OciVerificationArtifactV2 =
  oa2_worker_image_digest :: string
  oa2_wrapper_protocol :: string
  oa2_command_policy_hash :: DigestV1
  oa2_command_hash :: DigestV1
  oa2_compile_command_hash :: DigestV1
  oa2_query_command_hash :: DigestV1
  oa2_sealed_candidate_sha256 :: string
  oa2_candidate_sha256 :: string
  oa2_trusted_statement_sha256 :: string
  oa2_bundle_manifest_sha256 :: string
  oa2_execution_authority :: OciExecutionAuthorityV1

definition OciVerificationArtifactV2_strip :: "OciVerificationArtifactV2 \<Rightarrow> OciVerificationArtifactV2" where
  "OciVerificationArtifactV2_strip x = x\<lparr>oa2_worker_image_digest := strip_ws (oa2_worker_image_digest x),
     oa2_wrapper_protocol := strip_ws (oa2_wrapper_protocol x),
     oa2_sealed_candidate_sha256 := strip_ws (oa2_sealed_candidate_sha256 x),
     oa2_candidate_sha256 := strip_ws (oa2_candidate_sha256 x),
     oa2_trusted_statement_sha256 := strip_ws (oa2_trusted_statement_sha256 x),
     oa2_bundle_manifest_sha256 := strip_ws (oa2_bundle_manifest_sha256 x)\<rparr>"

definition dump_OciVerificationArtifactV2 :: "OciVerificationArtifactV2 \<Rightarrow> json" where
  "dump_OciVerificationArtifactV2 x = JObj
     [(''schema_version'', JStr ''autolean.oci-execution-evidence.v2''),
      (''worker_image_digest'', JStr (oa2_worker_image_digest x)),
      (''wrapper_protocol'', JStr (oa2_wrapper_protocol x)),
      (''command_policy_hash'', dump_DigestV1 (oa2_command_policy_hash x)),
      (''command_hash'', dump_DigestV1 (oa2_command_hash x)),
      (''compile_command_hash'', dump_DigestV1 (oa2_compile_command_hash x)),
      (''query_command_hash'', dump_DigestV1 (oa2_query_command_hash x)),
      (''sealed_candidate_sha256'', JStr (oa2_sealed_candidate_sha256 x)),
      (''handoff_protocol'', JStr ''autolean.oci-compile-query-handoff.v1''),
      (''candidate_sha256'', JStr (oa2_candidate_sha256 x)),
      (''trusted_statement_sha256'', JStr (oa2_trusted_statement_sha256 x)),
      (''bundle_manifest_sha256'', JStr (oa2_bundle_manifest_sha256 x)),
      (''execution_authority'', dump_OciExecutionAuthorityV1 (oa2_execution_authority x))]"

definition oci_transcript :: "OciVerificationArtifactV2 \<Rightarrow> json" where
  "oci_transcript x = JObj
     [(''schema_version'', JStr ''autolean.oci-command-transcript.v2''),
      (''handoff_protocol'', JStr ''autolean.oci-compile-query-handoff.v1''),
      (''compile_command_hash'', JStr (dg_value (oa2_compile_command_hash x))),
      (''query_command_hash'', JStr (dg_value (oa2_query_command_hash x))),
      (''sealed_candidate_sha256'', JStr (oa2_sealed_candidate_sha256 x))]"

definition OciVerificationArtifactV2_guards :: "OciVerificationArtifactV2 \<Rightarrow> checks" where
  "OciVerificationArtifactV2_guards x = [(image_digest_pattern (oa2_worker_image_digest x), ''worker_image_digest pattern''),
     ((oa2_wrapper_protocol x) \<noteq> [], ''wrapper_protocol min_length''),
     (length (oa2_wrapper_protocol x) \<le> 128, ''wrapper_protocol max_length''),
     (ident_pattern ''._-'' 128 (oa2_wrapper_protocol x), ''wrapper_protocol pattern''),
     (is_sha256_text (oa2_sealed_candidate_sha256 x), ''sealed_candidate_sha256 pattern''),
     (is_sha256_text (oa2_candidate_sha256 x), ''candidate_sha256 pattern''),
     (is_sha256_text (oa2_trusted_statement_sha256 x), ''trusted_statement_sha256 pattern''),
     (is_sha256_text (oa2_bundle_manifest_sha256 x), ''bundle_manifest_sha256 pattern''),
     (dg_kind (oa2_command_policy_hash x) = VERIFICATION_COMMAND, ''command_policy_hash kind''),
     (dg_kind (oa2_command_hash x) = VERIFICATION_COMMAND, ''command_hash kind''),
     (dg_kind (oa2_compile_command_hash x) = VERIFICATION_COMMAND, ''compile_command_hash kind''),
     (dg_kind (oa2_query_command_hash x) = VERIFICATION_COMMAND, ''query_command_hash kind''),
     (dg_value (oa2_command_hash x) = sha256_hexdigest (utf8 (canonical_json (oci_transcript x))), ''command_hash does not bind the OCI compile/query handoff'')]"

definition OciVerificationArtifactV2_init :: "OciVerificationArtifactV2 \<Rightarrow> OciVerificationArtifactV2 result" where
  "OciVerificationArtifactV2_init = construct OciVerificationArtifactV2_strip OciVerificationArtifactV2_guards"

interpretation oa2_model: contract_model OciVerificationArtifactV2_strip OciVerificationArtifactV2_guards
  by unfold_locales (simp add: OciVerificationArtifactV2_strip_def)

record VerificationEvidenceArtifactV1 =
  va1_evidence_id :: StableIdentifierV1
  va1_bundle_id :: StableIdentifierV1
  va1_bundle_hash :: DigestV1
  va1_contract_id :: StableIdentifierV1
  va1_revision :: int
  va1_contract_hash :: DigestV1
  va1_proof_id :: StableIdentifierV1
  va1_proof_boundary_hash :: DigestV1
  va1_proof_submission_artifact_digest :: string
  va1_dependency_manifest_hash :: DigestV1
  va1_verification_report_id :: StableIdentifierV1
  va1_verification_observation_hash :: DigestV1
  va1_environment :: VerificationArtifactEnvironmentV1
  va1_oci :: OciVerificationArtifactV1

definition VerificationEvidenceArtifactV1_strip :: "VerificationEvidenceArtifactV1 \<Rightarrow> VerificationEvidenceArtifactV1" where
  "VerificationEvidenceArtifactV1_strip x = x\<lparr>va1_proof_submission_artifact_digest := strip_ws (va1_proof_submission_artifact_digest x)\<rparr>"

definition dump_VerificationEvidenceArtifactV1 :: "VerificationEvidenceArtifactV1 \<Rightarrow> json" where
  "dump_VerificationEvidenceArtifactV1 x = JObj
     [(''schema_version'', JStr ''autolean.verification-evidence-artifact.v1''),
      (''evidence_id'', dump_StableIdentifierV1 (va1_evidence_id x)),
      (''bundle_id'', dump_StableIdentifierV1 (va1_bundle_id x)),
      (''bundle_hash'', dump_DigestV1 (va1_bundle_hash x)),
      (''contract_id'', dump_StableIdentifierV1 (va1_contract_id x)),
      (''revision'', JInt (va1_revision x)),
      (''contract_hash'', dump_DigestV1 (va1_contract_hash x)),
      (''proof_id'', dump_StableIdentifierV1 (va1_proof_id x)),
      (''proof_boundary_hash'', dump_DigestV1 (va1_proof_boundary_hash x)),
      (''proof_submission_artifact_digest'', JStr (va1_proof_submission_artifact_digest x)),
      (''dependency_manifest_hash'', dump_DigestV1 (va1_dependency_manifest_hash x)),
      (''verification_report_id'', dump_StableIdentifierV1 (va1_verification_report_id x)),
      (''verification_observation_hash'', dump_DigestV1 (va1_verification_observation_hash x)),
      (''environment'', dump_VerificationArtifactEnvironmentV1 (va1_environment x)),
      (''oci'', dump_OciVerificationArtifactV1 (va1_oci x))]"

definition VerificationEvidenceArtifactV1_guards :: "VerificationEvidenceArtifactV1 \<Rightarrow> checks" where
  "VerificationEvidenceArtifactV1_guards x = [((va1_revision x) \<ge> 1, ''revision ge''),
     (is_sha256_text (va1_proof_submission_artifact_digest x), ''proof_submission_artifact_digest pattern''),
     (dg_kind (va1_bundle_hash x) = BUNDLE, ''bundle_hash kind''),
     (dg_kind (va1_contract_hash x) = CONTRACT, ''contract_hash kind''),
     (dg_kind (va1_proof_boundary_hash x) = PROOF_BOUNDARY, ''proof_boundary_hash kind''),
     (dg_kind (va1_dependency_manifest_hash x) = DEPENDENCY_MANIFEST, ''dependency_manifest_hash kind''),
     (dg_kind (va1_verification_observation_hash x) = VERIFICATION_REPORT, ''verification_observation_hash kind'')]"

definition VerificationEvidenceArtifactV1_init :: "VerificationEvidenceArtifactV1 \<Rightarrow> VerificationEvidenceArtifactV1 result" where
  "VerificationEvidenceArtifactV1_init = construct VerificationEvidenceArtifactV1_strip VerificationEvidenceArtifactV1_guards"

interpretation va1_model: contract_model VerificationEvidenceArtifactV1_strip VerificationEvidenceArtifactV1_guards
  by unfold_locales (simp add: VerificationEvidenceArtifactV1_strip_def)

record VerificationEvidenceArtifactV2 =
  va2_evidence_id :: StableIdentifierV1
  va2_bundle_id :: StableIdentifierV1
  va2_bundle_hash :: DigestV1
  va2_contract_id :: StableIdentifierV1
  va2_revision :: int
  va2_contract_hash :: DigestV1
  va2_proof_id :: StableIdentifierV1
  va2_proof_boundary_hash :: DigestV1
  va2_proof_submission_artifact_digest :: string
  va2_dependency_manifest_hash :: DigestV1
  va2_verification_report_id :: StableIdentifierV1
  va2_verification_observation_hash :: DigestV1
  va2_environment :: VerificationArtifactEnvironmentV1
  va2_oci :: OciVerificationArtifactV2

definition VerificationEvidenceArtifactV2_strip :: "VerificationEvidenceArtifactV2 \<Rightarrow> VerificationEvidenceArtifactV2" where
  "VerificationEvidenceArtifactV2_strip x = x\<lparr>va2_proof_submission_artifact_digest := strip_ws (va2_proof_submission_artifact_digest x)\<rparr>"

definition dump_VerificationEvidenceArtifactV2 :: "VerificationEvidenceArtifactV2 \<Rightarrow> json" where
  "dump_VerificationEvidenceArtifactV2 x = JObj
     [(''schema_version'', JStr ''autolean.verification-evidence-artifact.v2''),
      (''evidence_id'', dump_StableIdentifierV1 (va2_evidence_id x)),
      (''bundle_id'', dump_StableIdentifierV1 (va2_bundle_id x)),
      (''bundle_hash'', dump_DigestV1 (va2_bundle_hash x)),
      (''contract_id'', dump_StableIdentifierV1 (va2_contract_id x)),
      (''revision'', JInt (va2_revision x)),
      (''contract_hash'', dump_DigestV1 (va2_contract_hash x)),
      (''proof_id'', dump_StableIdentifierV1 (va2_proof_id x)),
      (''proof_boundary_hash'', dump_DigestV1 (va2_proof_boundary_hash x)),
      (''proof_submission_artifact_digest'', JStr (va2_proof_submission_artifact_digest x)),
      (''dependency_manifest_hash'', dump_DigestV1 (va2_dependency_manifest_hash x)),
      (''verification_report_id'', dump_StableIdentifierV1 (va2_verification_report_id x)),
      (''verification_observation_hash'', dump_DigestV1 (va2_verification_observation_hash x)),
      (''environment'', dump_VerificationArtifactEnvironmentV1 (va2_environment x)),
      (''oci'', dump_OciVerificationArtifactV2 (va2_oci x))]"

definition VerificationEvidenceArtifactV2_guards :: "VerificationEvidenceArtifactV2 \<Rightarrow> checks" where
  "VerificationEvidenceArtifactV2_guards x = [((va2_revision x) \<ge> 1, ''revision ge''),
     (is_sha256_text (va2_proof_submission_artifact_digest x), ''proof_submission_artifact_digest pattern''),
     (dg_kind (va2_bundle_hash x) = BUNDLE, ''bundle_hash kind''),
     (dg_kind (va2_contract_hash x) = CONTRACT, ''contract_hash kind''),
     (dg_kind (va2_proof_boundary_hash x) = PROOF_BOUNDARY, ''proof_boundary_hash kind''),
     (dg_kind (va2_dependency_manifest_hash x) = DEPENDENCY_MANIFEST, ''dependency_manifest_hash kind''),
     (dg_kind (va2_verification_observation_hash x) = VERIFICATION_REPORT, ''verification_observation_hash kind'')]"

definition VerificationEvidenceArtifactV2_init :: "VerificationEvidenceArtifactV2 \<Rightarrow> VerificationEvidenceArtifactV2 result" where
  "VerificationEvidenceArtifactV2_init = construct VerificationEvidenceArtifactV2_strip VerificationEvidenceArtifactV2_guards"

interpretation va2_model: contract_model VerificationEvidenceArtifactV2_strip VerificationEvidenceArtifactV2_guards
  by unfold_locales (simp add: VerificationEvidenceArtifactV2_strip_def)

record VerificationEvidenceV1 =
  ev_evidence_id :: StableIdentifierV1
  ev_environment_hash :: DigestV1
  ev_worker_image_digest :: string
  ev_wrapper_protocol :: string
  ev_lean_version :: string
  ev_mathlib_revision :: string
  ev_lake_manifest_hash :: "DigestV1 option"
  ev_dependency_manifest_hash :: DigestV1
  ev_command_policy_hash :: DigestV1
  ev_command_hash :: DigestV1
  ev_evidence_artifact_digest :: string
  ev_captured_at :: datetime

definition VerificationEvidenceV1_strip :: "VerificationEvidenceV1 \<Rightarrow> VerificationEvidenceV1" where
  "VerificationEvidenceV1_strip x = x\<lparr>ev_worker_image_digest := strip_ws (ev_worker_image_digest x),
     ev_wrapper_protocol := strip_ws (ev_wrapper_protocol x),
     ev_lean_version := strip_ws (ev_lean_version x),
     ev_mathlib_revision := strip_ws (ev_mathlib_revision x),
     ev_evidence_artifact_digest := strip_ws (ev_evidence_artifact_digest x)\<rparr>"

definition dump_VerificationEvidenceV1 :: "VerificationEvidenceV1 \<Rightarrow> json" where
  "dump_VerificationEvidenceV1 x = JObj
     [(''evidence_id'', dump_StableIdentifierV1 (ev_evidence_id x)),
      (''environment_hash'', dump_DigestV1 (ev_environment_hash x)),
      (''worker_image_digest'', JStr (ev_worker_image_digest x)),
      (''wrapper_protocol'', JStr (ev_wrapper_protocol x)),
      (''lean_version'', JStr (ev_lean_version x)),
      (''mathlib_revision'', JStr (ev_mathlib_revision x)),
      (''lake_manifest_hash'', JOpt dump_DigestV1 (ev_lake_manifest_hash x)),
      (''dependency_manifest_hash'', dump_DigestV1 (ev_dependency_manifest_hash x)),
      (''command_policy_hash'', dump_DigestV1 (ev_command_policy_hash x)),
      (''command_hash'', dump_DigestV1 (ev_command_hash x)),
      (''evidence_artifact_digest'', JStr (ev_evidence_artifact_digest x)),
      (''captured_at'', dump_datetime (ev_captured_at x))]"

definition VerificationEvidenceV1_guards :: "VerificationEvidenceV1 \<Rightarrow> checks" where
  "VerificationEvidenceV1_guards x = [(image_digest_pattern (ev_worker_image_digest x), ''worker_image_digest pattern''),
     ((ev_wrapper_protocol x) \<noteq> [], ''wrapper_protocol min_length''),
     (length (ev_wrapper_protocol x) \<le> 128, ''wrapper_protocol max_length''),
     (ident_pattern ''._-'' 128 (ev_wrapper_protocol x), ''wrapper_protocol pattern''),
     ((ev_lean_version x) \<noteq> [], ''lean_version min_length''),
     ((ev_mathlib_revision x) \<noteq> [], ''mathlib_revision min_length''),
     (is_sha256_text (ev_evidence_artifact_digest x), ''evidence_artifact_digest pattern''),
     (dg_kind (ev_environment_hash x) = ENVIRONMENT, ''environment_hash kind''),
     (opt_all (\<lambda>h. dg_kind h = ENVIRONMENT) (ev_lake_manifest_hash x), ''lake_manifest_hash kind''),
     (dg_kind (ev_dependency_manifest_hash x) = DEPENDENCY_MANIFEST, ''dependency_manifest_hash kind''),
     (dg_kind (ev_command_policy_hash x) = VERIFICATION_COMMAND, ''command_policy_hash kind''),
     (dg_kind (ev_command_hash x) = VERIFICATION_COMMAND, ''command_hash kind''),
     (aware (ev_captured_at x), ''verification evidence timestamp must be timezone-aware'')]"

definition VerificationEvidenceV1_init :: "VerificationEvidenceV1 \<Rightarrow> VerificationEvidenceV1 result" where
  "VerificationEvidenceV1_init = construct VerificationEvidenceV1_strip VerificationEvidenceV1_guards"

interpretation ev_model: contract_model VerificationEvidenceV1_strip VerificationEvidenceV1_guards
  by unfold_locales (simp add: VerificationEvidenceV1_strip_def)

definition evidence_hash :: "VerificationEvidenceV1 \<Rightarrow> DigestV1" where
  "evidence_hash e = digest_model VERIFICATION_EVIDENCE (dump_VerificationEvidenceV1 e)"

record VerificationReportV1 =
  vr_report_id :: StableIdentifierV1
  vr_proof_id :: StableIdentifierV1
  vr_contract_hash :: DigestV1
  vr_proof_boundary_hash :: DigestV1
  vr_verifier_id :: string
  vr_independent :: bool
  vr_kernel_passed :: bool
  vr_build_passed :: bool
  vr_dependency_check_passed :: bool
  vr_clean_environment :: bool
  vr_environment_hash :: DigestV1
  vr_axiom_profile :: AxiomProfileV1
  vr_observed_axioms :: "string list"
  vr_details :: string
  vr_verified_at :: datetime
  vr_evidence :: "VerificationEvidenceV1 option"
  vr_verifier_attestation :: "AttestationV1 option"

definition VerificationReportV1_strip :: "VerificationReportV1 \<Rightarrow> VerificationReportV1" where
  "VerificationReportV1_strip x = x\<lparr>vr_verifier_id := strip_ws (vr_verifier_id x),
     vr_observed_axioms := map strip_ws (vr_observed_axioms x),
     vr_details := strip_ws (vr_details x)\<rparr>"

definition dump_VerificationReportV1 :: "VerificationReportV1 \<Rightarrow> json" where
  "dump_VerificationReportV1 x = JObj
     [(''schema_version'', JStr ''1.0''),
      (''report_id'', dump_StableIdentifierV1 (vr_report_id x)),
      (''proof_id'', dump_StableIdentifierV1 (vr_proof_id x)),
      (''contract_hash'', dump_DigestV1 (vr_contract_hash x)),
      (''proof_boundary_hash'', dump_DigestV1 (vr_proof_boundary_hash x)),
      (''verifier_id'', JStr (vr_verifier_id x)),
      (''independent'', JBool (vr_independent x)),
      (''kernel_passed'', JBool (vr_kernel_passed x)),
      (''build_passed'', JBool (vr_build_passed x)),
      (''dependency_check_passed'', JBool (vr_dependency_check_passed x)),
      (''clean_environment'', JBool (vr_clean_environment x)),
      (''environment_hash'', dump_DigestV1 (vr_environment_hash x)),
      (''axiom_profile'', JStr (AxiomProfileV1_value (vr_axiom_profile x))),
      (''observed_axioms'', JList (map JStr (vr_observed_axioms x))),
      (''details'', JStr (vr_details x)),
      (''verified_at'', dump_datetime (vr_verified_at x)),
      (''evidence'', JOpt dump_VerificationEvidenceV1 (vr_evidence x)),
      (''verifier_attestation'', JOpt dump_AttestationV1 (vr_verifier_attestation x))]"

definition VerificationReportV1_guards :: "VerificationReportV1 \<Rightarrow> checks" where
  "VerificationReportV1_guards x = [((vr_verifier_id x) \<noteq> [], ''verifier_id min_length''),
     ((vr_details x) \<noteq> [], ''details min_length''),
     (dg_kind (vr_contract_hash x) = CONTRACT, ''contract_hash kind''),
     (dg_kind (vr_proof_boundary_hash x) = PROOF_BOUNDARY, ''proof_boundary_hash kind''),
     (dg_kind (vr_environment_hash x) = ENVIRONMENT, ''environment_hash kind''),
     (opt_all (\<lambda>a. at_purpose a = AP_VERIFICATION) (vr_verifier_attestation x), ''verification report attestation must use the verification purpose'')]"

definition VerificationReportV1_init :: "VerificationReportV1 \<Rightarrow> VerificationReportV1 result" where
  "VerificationReportV1_init = construct VerificationReportV1_strip VerificationReportV1_guards"

interpretation vr_model: contract_model VerificationReportV1_strip VerificationReportV1_guards
  by unfold_locales (simp add: VerificationReportV1_strip_def)

definition report_hash :: "VerificationReportV1 \<Rightarrow> DigestV1" where
  "report_hash r =
     digest_model VERIFICATION_REPORT (dump_exclude [''verifier_attestation''] (dump_VerificationReportV1 r))"

definition verification_attestation_payload ::
  "string \<Rightarrow> string \<Rightarrow> string \<Rightarrow> string \<Rightarrow> int \<Rightarrow> DigestV1 \<Rightarrow> DigestV1 \<Rightarrow> DigestV1
     \<Rightarrow> VerificationReportV1 \<Rightarrow> json_object result" where
  "verification_attestation_payload bundle_id bundle_hash proof_submission_artifact_digest contract_id
     revision contract_hash proof_boundary_hash environment_hash report =
     bindE (require_all
       [(is_sha256_text proof_submission_artifact_digest,
           ''proof_submission_artifact_digest must be a lowercase SHA-256 digest''),
        (nonblank bundle_id \<and> is_sha256_text bundle_hash \<and> nonblank contract_id \<and> revision \<ge> 1,
           ''verification attestation payload has an invalid task binding''),
        (dg_kind contract_hash = CONTRACT, ''contract_hash kind''),
        (dg_kind proof_boundary_hash = PROOF_BOUNDARY, ''proof_boundary_hash kind''),
        (dg_kind environment_hash = ENVIRONMENT, ''environment_hash kind'')]) (\<lambda>_. Inr
       [(''schema_version'', JStr ''autolean.verification-attestation-payload.v1''),
        (''bundle_id'', JStr bundle_id),
        (''bundle_hash'', JStr bundle_hash),
        (''proof_id'', JStr (si_value (vr_proof_id report))),
        (''proof_submission_artifact_digest'', JStr proof_submission_artifact_digest),
        (''contract_id'', JStr contract_id),
        (''revision'', JInt revision),
        (''contract_hash'', JStr (dg_value contract_hash)),
        (''proof_boundary_hash'', JStr (dg_value proof_boundary_hash)),
        (''environment_hash'', JStr (dg_value environment_hash)),
        (''verification_report_hash'', JStr (dg_value (report_hash report))),
        (''verifier_id'', JStr (vr_verifier_id report)),
        (''verification_evidence_hash'',
           JOpt (\<lambda>e. JStr (dg_value (evidence_hash e))) (vr_evidence report))])"

section \<open>Reviews and events\<close>

record ReviewDecisionV1 =
  rd_review_id :: StableIdentifierV1
  rd_artifact_id :: StableIdentifierV1
  rd_artifact_kind :: string
  rd_reviewer_id :: string
  rd_role :: ReviewerRoleV1
  rd_decision :: DecisionV1
  rd_independent :: bool
  rd_rationale :: string
  rd_reviewed_at :: datetime

definition ReviewDecisionV1_strip :: "ReviewDecisionV1 \<Rightarrow> ReviewDecisionV1" where
  "ReviewDecisionV1_strip x = x\<lparr>rd_artifact_kind := strip_ws (rd_artifact_kind x),
     rd_reviewer_id := strip_ws (rd_reviewer_id x),
     rd_rationale := strip_ws (rd_rationale x)\<rparr>"

definition dump_ReviewDecisionV1 :: "ReviewDecisionV1 \<Rightarrow> json" where
  "dump_ReviewDecisionV1 x = JObj
     [(''schema_version'', JStr ''1.0''),
      (''review_id'', dump_StableIdentifierV1 (rd_review_id x)),
      (''artifact_id'', dump_StableIdentifierV1 (rd_artifact_id x)),
      (''artifact_kind'', JStr (rd_artifact_kind x)),
      (''reviewer_id'', JStr (rd_reviewer_id x)),
      (''role'', JStr (ReviewerRoleV1_value (rd_role x))),
      (''decision'', JStr (DecisionV1_value (rd_decision x))),
      (''independent'', JBool (rd_independent x)),
      (''rationale'', JStr (rd_rationale x)),
      (''reviewed_at'', dump_datetime (rd_reviewed_at x))]"

definition ReviewDecisionV1_guards :: "ReviewDecisionV1 \<Rightarrow> checks" where
  "ReviewDecisionV1_guards x = [((rd_artifact_kind x) \<noteq> [], ''artifact_kind min_length''),
     ((rd_reviewer_id x) \<noteq> [], ''reviewer_id min_length''),
     ((rd_rationale x) \<noteq> [], ''rationale min_length'')]"

definition ReviewDecisionV1_init :: "ReviewDecisionV1 \<Rightarrow> ReviewDecisionV1 result" where
  "ReviewDecisionV1_init = construct ReviewDecisionV1_strip ReviewDecisionV1_guards"

interpretation rd_model: contract_model ReviewDecisionV1_strip ReviewDecisionV1_guards
  by unfold_locales (simp add: ReviewDecisionV1_strip_def)

record EventEnvelopeV1 =
  ee1_event_id :: StableIdentifierV1
  ee1_stream_id :: StableIdentifierV1
  ee1_sequence :: int
  ee1_event_type :: string
  ee1_actor_id :: string
  ee1_occurred_at :: datetime
  ee1_payload :: json_object
  ee1_previous_event_hash :: "DigestV1 option"
  ee1_event_hash :: DigestV1

definition EventEnvelopeV1_strip :: "EventEnvelopeV1 \<Rightarrow> EventEnvelopeV1" where
  "EventEnvelopeV1_strip x = x\<lparr>ee1_event_type := strip_ws (ee1_event_type x),
     ee1_actor_id := strip_ws (ee1_actor_id x),
     ee1_payload := strip_keys (ee1_payload x)\<rparr>"

definition dump_EventEnvelopeV1 :: "EventEnvelopeV1 \<Rightarrow> json" where
  "dump_EventEnvelopeV1 x = JObj
     [(''schema_version'', JStr ''1.0''),
      (''event_id'', dump_StableIdentifierV1 (ee1_event_id x)),
      (''stream_id'', dump_StableIdentifierV1 (ee1_stream_id x)),
      (''sequence'', JInt (ee1_sequence x)),
      (''event_type'', JStr (ee1_event_type x)),
      (''actor_id'', JStr (ee1_actor_id x)),
      (''occurred_at'', dump_datetime (ee1_occurred_at x)),
      (''payload'', JObj (ee1_payload x)),
      (''previous_event_hash'', JOpt dump_DigestV1 (ee1_previous_event_hash x)),
      (''event_hash'', dump_DigestV1 (ee1_event_hash x))]"

definition EventEnvelopeV1_guards :: "EventEnvelopeV1 \<Rightarrow> checks" where
  "EventEnvelopeV1_guards x = [((ee1_sequence x) \<ge> 0, ''sequence ge''),
     ((ee1_event_type x) \<noteq> [], ''event_type min_length''),
     ((ee1_actor_id x) \<noteq> [], ''actor_id min_length''),
     (opt_all (\<lambda>h. dg_kind h = EVENT) (ee1_previous_event_hash x), ''previous_event_hash kind''),
     (dg_kind (ee1_event_hash x) = EVENT, ''event_hash kind''),
     (digest_model EVENT (dump_exclude [''event_hash''] (dump_EventEnvelopeV1 x)) = ee1_event_hash x, ''event_hash does not match event payload'')]"

definition EventEnvelopeV1_init :: "EventEnvelopeV1 \<Rightarrow> EventEnvelopeV1 result" where
  "EventEnvelopeV1_init = construct EventEnvelopeV1_strip EventEnvelopeV1_guards"

interpretation ee1_model: contract_model EventEnvelopeV1_strip EventEnvelopeV1_guards
  by unfold_locales (simp add: EventEnvelopeV1_strip_def)

record OpenProblemReleaseDecisionV1 =
  ord1_releasable :: bool
  ord1_failures :: "string list"
  ord1_contract_hash :: DigestV1
  ord1_evaluated_at :: datetime

definition OpenProblemReleaseDecisionV1_strip :: "OpenProblemReleaseDecisionV1 \<Rightarrow> OpenProblemReleaseDecisionV1" where
  "OpenProblemReleaseDecisionV1_strip x = x\<lparr>ord1_failures := map strip_ws (ord1_failures x)\<rparr>"

definition dump_OpenProblemReleaseDecisionV1 :: "OpenProblemReleaseDecisionV1 \<Rightarrow> json" where
  "dump_OpenProblemReleaseDecisionV1 x = JObj
     [(''schema_version'', JStr ''1.0''),
      (''releasable'', JBool (ord1_releasable x)),
      (''failures'', JList (map JStr (ord1_failures x))),
      (''contract_hash'', dump_DigestV1 (ord1_contract_hash x)),
      (''evaluated_at'', dump_datetime (ord1_evaluated_at x))]"

definition OpenProblemReleaseDecisionV1_guards :: "OpenProblemReleaseDecisionV1 \<Rightarrow> checks" where
  "OpenProblemReleaseDecisionV1_guards x = []"

definition OpenProblemReleaseDecisionV1_init :: "OpenProblemReleaseDecisionV1 \<Rightarrow> OpenProblemReleaseDecisionV1 result" where
  "OpenProblemReleaseDecisionV1_init = construct OpenProblemReleaseDecisionV1_strip OpenProblemReleaseDecisionV1_guards"

interpretation ord1_model: contract_model OpenProblemReleaseDecisionV1_strip OpenProblemReleaseDecisionV1_guards
  by unfold_locales (simp add: OpenProblemReleaseDecisionV1_strip_def)

section \<open>Binding\<close>

text \<open>
  The transcript hash of a valid two-phase OCI artifact fixes both phases: two valid
  artifacts with the same command hash have the same compile command, query command and
  sealed candidate, or their transcripts are a collision of SHA-256.
\<close>

theorem oci_transcript_binds:
  assumes "OciVerificationArtifactV2_init x0 = Inr x" "OciVerificationArtifactV2_init y0 = Inr y"
    and "oa2_command_hash x = oa2_command_hash y"
  shows "(oa2_compile_command_hash x = oa2_compile_command_hash y \<and>
      oa2_query_command_hash x = oa2_query_command_hash y \<and>
      oa2_sealed_candidate_sha256 x = oa2_sealed_candidate_sha256 y) \<or>
    collides sha256_hexdigest (canonical_json_bytes (oci_transcript x)) (canonical_json_bytes (oci_transcript y))"
proof -
  have g: "list_all fst (OciVerificationArtifactV2_guards z)"
    if "OciVerificationArtifactV2_init z0 = Inr z" for z0 z
    using that by (auto simp: OciVerificationArtifactV2_init_def construct_Inr)
  have k: "dg_kind (oa2_compile_command_hash z) = VERIFICATION_COMMAND"
    "dg_kind (oa2_query_command_hash z) = VERIFICATION_COMMAND"
    "dg_value (oa2_command_hash z) = sha256_hexdigest (canonical_json_bytes (oci_transcript z))"
    if "OciVerificationArtifactV2_init z0 = Inr z" for z0 z
    using g [OF that] by (simp_all add: OciVerificationArtifactV2_guards_def canonical_json_bytes_def)
  have wf: "json_wf (oci_transcript z)" for z by (simp add: oci_transcript_def)
  have "json_norm (oci_transcript x) = json_norm (oci_transcript y) \<or>
      collides sha256_hexdigest (canonical_json_bytes (oci_transcript x)) (canonical_json_bytes (oci_transcript y))"
    using json_hash.hash_binds [OF wf wf] k(3) [OF assms(1)] k(3) [OF assms(2)] assms(3) by metis
  then show ?thesis
    using k(1,2) [OF assms(1)] k(1,2) [OF assms(2)]
    by (auto simp: oci_transcript_def intro: DigestV1.equality)
qed

text \<open>
  What an independent verifier attests determines the report: two reports with the same
  attestation payload are about the same proof and verifier and agree in every field but the
  attached attestation, unless the two hashed dumps themselves are a SHA-256 collision.
\<close>

theorem verification_payload_binds:
  assumes "verification_attestation_payload b bh ps ci rv ch pbh eh r = Inr p"
    and "verification_attestation_payload b' bh' ps' ci' rv' ch' pbh' eh' s = Inr p"
    and "json_wf (dump_VerificationReportV1 r)" "json_wf (dump_VerificationReportV1 s)"
  shows "b = b' \<and> bh = bh' \<and> ps = ps' \<and> ci = ci' \<and> rv = rv' \<and> ch = ch' \<and> pbh = pbh' \<and> eh = eh' \<and>
    si_value (vr_proof_id r) = si_value (vr_proof_id s) \<and> vr_verifier_id r = vr_verifier_id s \<and>
    ((\<forall>f. f \<noteq> ''verifier_attestation'' \<longrightarrow>
       dump_field (dump_VerificationReportV1 r) f = dump_field (dump_VerificationReportV1 s) f) \<or>
     json_collision (dump_exclude [''verifier_attestation''] (dump_VerificationReportV1 r))
        (dump_exclude [''verifier_attestation''] (dump_VerificationReportV1 s)))"
proof -
  have p: "b = b' \<and> bh = bh' \<and> ps = ps' \<and> ci = ci' \<and> rv = rv' \<and>
      si_value (vr_proof_id r) = si_value (vr_proof_id s) \<and> vr_verifier_id r = vr_verifier_id s"
    and d: "dg_value ch = dg_value ch'" "dg_value pbh = dg_value pbh'" "dg_value eh = dg_value eh'"
      "dg_kind ch = dg_kind ch'" "dg_kind pbh = dg_kind pbh'" "dg_kind eh = dg_kind eh'"
    and rh: "dg_value (report_hash r) = dg_value (report_hash s)"
    using assms(1,2) by (auto simp: verification_attestation_payload_def result_simps)
  have h: "report_hash r = report_hash s"
    using rh by (intro DigestV1.equality) (simp_all add: report_hash_def)
  have "dump_field (dump_VerificationReportV1 r) f = dump_field (dump_VerificationReportV1 s) f
      \<or> json_collision (dump_exclude [''verifier_attestation''] (dump_VerificationReportV1 r))
        (dump_exclude [''verifier_attestation''] (dump_VerificationReportV1 s))" if "f \<noteq> ''verifier_attestation''" for f
    by (rule excluded_digest_fields [OF assms(3,4), of f "[''verifier_attestation'']" VERIFICATION_REPORT])
      (use h that in \<open>simp_all add: report_hash_def\<close>)
  moreover have "ch = ch' \<and> pbh = pbh' \<and> eh = eh'"
    using d by (auto intro: DigestV1.equality)
  ultimately show ?thesis using p by blast
qed

section \<open>A sample report\<close>

definition sample_oci :: OciVerificationArtifactV2 where
  "sample_oci =
     (let x = \<lparr>oa2_worker_image_digest = ''sha256:'' @ replicate 64 (CHR ''0''), oa2_wrapper_protocol = ''p'',
        oa2_command_policy_hash = digest_text VERIFICATION_COMMAND ''a'',
        oa2_command_hash = digest_text VERIFICATION_COMMAND ''b'',
        oa2_compile_command_hash = digest_text VERIFICATION_COMMAND ''c'',
        oa2_query_command_hash = digest_text VERIFICATION_COMMAND ''q'',
        oa2_sealed_candidate_sha256 = replicate 64 (CHR ''1''), oa2_candidate_sha256 = replicate 64 (CHR ''2''),
        oa2_trusted_statement_sha256 = replicate 64 (CHR ''3''),
        oa2_bundle_manifest_sha256 = replicate 64 (CHR ''4''),
        oa2_execution_authority = \<lparr>oe_execution_claim_hash = replicate 64 (CHR ''5''), oe_worker_id = ''w'',
          oe_fencing_token = 1, oe_expires_at = utc 9, oe_wrapper_identity_hash = replicate 64 (CHR ''6'')\<rparr>\<rparr>
      in x\<lparr>oa2_command_hash := digest_text VERIFICATION_COMMAND (canonical_json (oci_transcript x))\<rparr>)"

definition sample_report :: VerificationReportV1 where
  "sample_report =
     \<lparr>vr_report_id = sample_id ''report'', vr_proof_id = sample_id ''proof'',
      vr_contract_hash = digest_text CONTRACT ''c'', vr_proof_boundary_hash = digest_text PROOF_BOUNDARY ''b'',
      vr_verifier_id = ''v'', vr_independent = True, vr_kernel_passed = True, vr_build_passed = True,
      vr_dependency_check_passed = True, vr_clean_environment = True,
      vr_environment_hash = digest_text ENVIRONMENT ''env'', vr_axiom_profile = AX_STRICT,
      vr_observed_axioms = [], vr_details = ''d'', vr_verified_at = utc 3, vr_evidence = None,
      vr_verifier_attestation = None\<rparr>"

lemma replicate_hex: "is_hex c \<Longrightarrow> is_sha256_text (replicate 64 c)"
  by (auto simp: is_sha256_text_def all_chars_iff)

lemma sample_oci_ok: "\<exists>x. OciVerificationArtifactV2_init sample_oci = Inr x"
proof -
  have strip: "strip_ws (''sha256:'' @ replicate 64 (CHR ''0'')) = ''sha256:'' @ replicate 64 (CHR ''0'')"
    "strip_ws ''p'' = ''p''"
    by (auto intro!: strip_ws_ends simp: white_space_def)
  have hex: "strip_ws (replicate 64 c) = replicate 64 c" if "is_hex c" for c
    using replicate_hex [OF that] strip_sha256_text by blast
  have d: "is_hex (CHR ''0'')" "is_hex (CHR ''1'')" "is_hex (CHR ''2'')" "is_hex (CHR ''3'')" "is_hex (CHR ''4'')"
    by (simp_all add: char_class_defs)
  have s: "OciVerificationArtifactV2_strip sample_oci = sample_oci"
    by (intro OciVerificationArtifactV2.equality)
      (simp_all add: OciVerificationArtifactV2_strip_def sample_oci_def Let_def strip hex d del: replicate_Suc append.simps)
  have "list_all fst (OciVerificationArtifactV2_guards sample_oci)"
    using d by (simp add: OciVerificationArtifactV2_guards_def sample_oci_def Let_def image_digest_pattern_def
        replicate_hex oci_transcript_def ident_pattern_def char_class_defs del: canonical_json.simps)
  then show ?thesis using s by (auto simp: OciVerificationArtifactV2_init_def construct_Inr)
qed

lemma sample_report_wf: "json_wf (dump_VerificationReportV1 sample_report)"
  by (simp add: dump_VerificationReportV1_def sample_report_def JOpt_def dump_datetime_def)

lemma sample_report_payload:
  "\<exists>p. verification_attestation_payload ''b'' (sha256_hexdigest []) (sha256_hexdigest []) ''c'' 1
     (digest_text CONTRACT ''c'') (digest_text PROOF_BOUNDARY ''b'') (digest_text ENVIRONMENT ''env'')
     sample_report = Inr p"
  by (simp add: verification_attestation_payload_def require_all.simps nonblank_def py_strip_def strip_by_def
      py_isspace_def)

theorem oci_transcript_binds_witness:
  "\<exists>x. OciVerificationArtifactV2_init sample_oci = Inr x \<and>
     oa2_compile_command_hash x = oa2_compile_command_hash x"
proof -
  obtain x where x: "OciVerificationArtifactV2_init sample_oci = Inr x" using sample_oci_ok by blast
  show ?thesis using oci_transcript_binds [OF x x refl] x by blast
qed

theorem verification_payload_binds_witness:
  "\<exists>p. verification_attestation_payload ''b'' (sha256_hexdigest []) (sha256_hexdigest []) ''c'' 1
     (digest_text CONTRACT ''c'') (digest_text PROOF_BOUNDARY ''b'') (digest_text ENVIRONMENT ''env'')
     sample_report = Inr p \<and> si_value (vr_proof_id sample_report) = si_value (sample_id ''proof'')"
proof -
  obtain p where p: "verification_attestation_payload ''b'' (sha256_hexdigest []) (sha256_hexdigest []) ''c'' 1
     (digest_text CONTRACT ''c'') (digest_text PROOF_BOUNDARY ''b'') (digest_text ENVIRONMENT ''env'')
     sample_report = Inr p" using sample_report_payload by blast
  show ?thesis
    using verification_payload_binds [OF p p sample_report_wf sample_report_wf] p
    by (auto simp: sample_report_def)
qed

end
