(* ===== verification/Payloads.thy ===== *)
theory Payloads
  imports Submissions
begin

text \<open>
  Shared access to JSON payloads for the checks of the control plane: \<open>dict.get\<close>, chains of
  \<open>or\<close> whose operands may raise, strict loading of canonical JSON text, and the parsing of a
  typed digest. Python compares dictionaries without regard to order; objects loaded from
  canonical text have their keys in order, so equality of such objects is \<open>=\<close> after
  \<open>norm_members\<close>.
\<close>

section \<open>Values\<close>

definition get_value :: "json_object \<Rightarrow> string \<Rightarrow> json" where
  "get_value obj k = (case obj_get obj k of None \<Rightarrow> JNull | Some v \<Rightarrow> v)"

fun orE :: "bool result list \<Rightarrow> bool result" where
  "orE [] = Inr False"
| "orE (m # ms) = bindE m (\<lambda>b. if b then Inr True else orE ms)"

definition refuse_if :: "bool result list \<Rightarrow> string \<Rightarrow> unit result" where
  "refuse_if ms m = bindE (orE ms) (\<lambda>bad. require (\<not> bad) (InvalidTransition m))"

definition differs :: "'a result \<Rightarrow> 'a result \<Rightarrow> bool result" where
  "differs a b = bindE a (\<lambda>x. bindE b (\<lambda>y. Inr (x \<noteq> y)))"

fun forE :: "('a \<Rightarrow> unit result) \<Rightarrow> 'a list \<Rightarrow> unit result" where
  "forE f [] = Inr ()"
| "forE f (x # xs) = bindE (f x) (\<lambda>_. forE f xs)"

lemma orE_False [result_simps]: "orE ms = Inr False \<longleftrightarrow> list_all (\<lambda>m. m = Inr False) ms"
  by (induction ms) (auto simp: result_simps split: if_splits)

lemma refuse_if_Inr [result_simps]: "refuse_if ms m = Inr u \<longleftrightarrow> list_all (\<lambda>m. m = Inr False) ms"
proof -
  have "refuse_if ms m = Inr u \<longleftrightarrow> orE ms = Inr False"
    by (cases "orE ms") (auto simp: refuse_if_def result_simps)
  then show ?thesis by (simp add: orE_False)
qed

lemma differs_False [result_simps]: "differs a b = Inr False \<longleftrightarrow> (\<exists>x. a = Inr x \<and> b = Inr x)"
  by (auto simp: differs_def result_simps)

lemma forE_Inr [result_simps]: "forE f xs = Inr u \<longleftrightarrow> list_all (\<lambda>x. f x = Inr ()) xs"
  by (induction xs) (auto simp: result_simps)

text \<open>\<open>json.loads(canonical_json(value))\<close> for a dictionary of JSON values.\<close>

definition json_object_of :: "json_object \<Rightarrow> json_object" where
  "json_object_of kvs = norm_members kvs"

lemma get_value_norm:
  assumes "distinct (map fst kvs)"
  shows "get_value (json_object_of kvs) k = json_norm (get_value kvs k)"
  using map_of_norm_members [OF assms]
  by (simp add: get_value_def obj_get_def json_object_of_def split: option.split)

text \<open>The word characters of a regular expression, for code points below 256.\<close>

definition is_word_char :: "char \<Rightarrow> bool" where
  "is_word_char c \<longleftrightarrow> is_alnum c \<or> c = CHR ''_'' \<or>
     code c \<in> {170, 178, 179, 181, 185, 186, 188, 189, 190} \<or>
     (192 \<le> code c \<and> code c \<noteq> 215 \<and> code c \<noteq> 247)"

section \<open>Typed digests\<close>

definition all_hash_kinds :: "HashKindV1 list" where
  "all_hash_kinds =
     [SOURCE_BYTES, SOURCE_SPAN, SOURCE_PREPARATION, STATEMENT_SOURCE, ELABORATED_TYPE, ENVIRONMENT,
      GRAPH_SNAPSHOT, CONTRACT, PROOF_SOURCE, TRUSTED_STATEMENT, WORKSPACE_MANIFEST, PROOF_BOUNDARY, BUNDLE,
      FREEZE_EVIDENCE, VERIFICATION_REPORT, VERIFICATION_EVIDENCE, DEPENDENCY_MANIFEST, VERIFICATION_COMMAND,
      MODEL_EXECUTION_APPROVAL, MODEL_EXECUTION_AUTHORIZATION, ATTESTATION_PAYLOAD, EVENT, CONFIG, PROMPT, TOOL]"

definition hash_kind_of :: "string \<Rightarrow> HashKindV1 option" where
  "hash_kind_of s = find (\<lambda>k. HashKindV1_value k = s) all_hash_kinds"

definition digest_fields :: "string list" where
  "digest_fields = [''schema_version'', ''kind'', ''algorithm'', ''value'']"

text \<open>\<open>DigestV1.model_validate\<close> of an object that has exactly the fields of a digest.\<close>

definition DigestV1_validate :: "json_object \<Rightarrow> DigestV1 result" where
  "DigestV1_validate raw =
     (case (get_value raw ''kind'', get_value raw ''value'') of
        (JStr kind, JStr v) \<Rightarrow>
          (case hash_kind_of kind of
             Some k \<Rightarrow>
               if get_value raw ''schema_version'' = JStr ''1.0'' \<and> get_value raw ''algorithm'' = JStr ''sha256''
               then DigestV1_init \<lparr>dg_kind = k, dg_value = v\<rparr>
               else Inl (ValueError ''digest literal'')
           | None \<Rightarrow> Inl (ValueError ''digest kind''))
      | _ \<Rightarrow> Inl (ValueError ''digest fields''))"

lemma hash_kind_of_value [simp]: "hash_kind_of (HashKindV1_value k) = Some k"
  by (cases k) (simp_all add: hash_kind_of_def all_hash_kinds_def)

lemma all_hash_kinds_complete: "k \<in> set all_hash_kinds"
  by (cases k) (simp_all add: all_hash_kinds_def)

end
