(* ===== verification/CanonicalType.thy ===== *)
theory CanonicalType
  imports Payloads
begin

text \<open>
  \<open>builder_fidelity.py\<close>: admission of Builder's canonical-type record at registration. All
  failures are \<open>InvalidTransition\<close>. Shown: an admitted record was explicitly allowed as
  test-only evidence, never claims promotion authority or equivalence, and every candidate in
  the fidelity artifact was observed, in the frozen environment, to elaborate to exactly the
  canonical type of the frozen statement.
\<close>

section \<open>Field access\<close>

definition bf_exact :: "json_object \<Rightarrow> string list \<Rightarrow> unit result" where
  "bf_exact v expected =
     require (set (map fst v) = set expected) (InvalidTransition ''unexpected or missing fields'')"

definition bf_object :: "json \<Rightarrow> json_object result" where
  "bf_object v = (case v of JObj kvs \<Rightarrow> Inr kvs | _ \<Rightarrow> Inl (InvalidTransition ''must be a JSON object''))"

definition bf_list :: "json_object \<Rightarrow> string \<Rightarrow> json list result" where
  "bf_list v k = (case get_value v k of JList vs \<Rightarrow> Inr vs | _ \<Rightarrow> Inl (InvalidTransition ''must be a list''))"

definition bf_text :: "json_object \<Rightarrow> string \<Rightarrow> string result" where
  "bf_text v k =
     (case get_value v k of
        JStr s \<Rightarrow> if s = [] then Inl (InvalidTransition ''must be text'') else Inr s
      | _ \<Rightarrow> Inl (InvalidTransition ''must be text''))"

definition text_items :: "json list \<Rightarrow> string list result" where
  "text_items = map_resultE (\<lambda>v. case v of
     JStr s \<Rightarrow> if s = [] then Inl (InvalidTransition ''must contain text'') else Inr s
   | _ \<Rightarrow> Inl (InvalidTransition ''must contain text''))"

definition bf_texts :: "json_object \<Rightarrow> string \<Rightarrow> string list result" where
  "bf_texts v k = bindE (bf_list v k) text_items"

definition bf_integer :: "json_object \<Rightarrow> string \<Rightarrow> int result" where
  "bf_integer v k = (case get_value v k of JInt i \<Rightarrow> Inr i | _ \<Rightarrow> Inl (InvalidTransition ''must be an integer''))"

definition bf_sha256 :: "json_object \<Rightarrow> string \<Rightarrow> string result" where
  "bf_sha256 v k =
     bindE (bf_text v k) (\<lambda>s.
     bindE (require (is_sha256_text s) (InvalidTransition ''is not SHA-256'')) (\<lambda>_. Inr s))"

definition bf_digest :: "json_object \<Rightarrow> string \<Rightarrow> HashKindV1 \<Rightarrow> DigestV1 result" where
  "bf_digest v k kind =
     bindE (bf_object (get_value v k)) (\<lambda>raw.
     bindE (bf_exact raw digest_fields) (\<lambda>_.
     bindE (catchE is_value_error (InvalidTransition ''is invalid'') (DigestV1_validate raw)) (\<lambda>d.
     bindE (require (dg_kind d = kind) (InvalidTransition ''unexpected kind'')) (\<lambda>_. Inr d))))"

definition bf_canonical_json_object :: "string \<Rightarrow> json_object result" where
  "bf_canonical_json_object s =
     (case json_loads s of
        None \<Rightarrow> Inl (InvalidTransition ''evidence is not strict JSON'')
      | Some parsed \<Rightarrow>
          bindE (bf_object parsed) (\<lambda>obj.
          bindE (require (canonical_json_bytes (JObj obj) = utf8 s)
            (InvalidTransition ''evidence is not canonically serialized'')) (\<lambda>_. Inr obj)))"

section \<open>The closed field sets\<close>

definition check_fields :: "string list" where
  "check_fields = [''check_name'', ''authority'', ''passed'', ''evidence'']"

definition envelope_fields :: "string list" where
  "envelope_fields = [''schema_version'', ''record'', ''record_hash'']"

definition record_fields :: "string list" where
  "record_fields =
     [''schema_version'', ''claim'', ''definitional_equivalence_claimed'', ''semantic_equivalence_claimed'',
      ''promotion_authority'', ''contract_id'', ''revision'', ''draft_contract_hash'', ''source_hash'',
      ''generation_task_hash'', ''selected_statement_hash'', ''environment_hash'', ''expected_elaborated_type_hash'',
      ''environment'', ''reference'', ''candidates'']"

definition environment_fields :: "string list" where
  "environment_fields =
     [''assurance'', ''adapter_id'', ''image'', ''worker_image_digest'', ''lean_version'', ''mathlib_revision'',
      ''lake_manifest_sha256'', ''type_format'', ''query_schema_version'', ''query_protocol'', ''query_identity_sha256'',
      ''build_receipt_canonical_sha256'', ''execution_policy_sha256'', ''source_inputs_sha256'', ''source_rendering_profile'']"

definition observation_fields :: "string list" where
  "observation_fields =
     [''subject_id'', ''statement_source_hash'', ''declaration'', ''canonical_type'', ''canonical_type_hash'',
      ''canonical_type_sha256'', ''environment_facts_sha256'', ''query'']"

definition query_sha256_fields :: "string list" where
  "query_sha256_fields =
     [''query_output_sha256'', ''source_snapshot_sha256'', ''sealed_candidate_sha256'',
      ''candidate_direct_imports_sha256'', ''module_import_closure_sha256'', ''observed_axioms_sha256'']"

definition query_fields :: "string list" where
  "query_fields =
     [''query_output_canonical_json'', ''query_output_sha256'', ''source_snapshot_sha256'', ''sealed_candidate_sha256'',
      ''candidate_direct_imports_sha256'', ''module_import_closure_sha256'', ''observed_axioms'', ''observed_axioms_sha256'']"

definition scripted_raw_fields :: "string list" where
  "scripted_raw_fields =
     [''canonical_type'', ''canonical_type_sha256'', ''declaration'', ''imports_allowlist'', ''observed_axioms'',
      ''observed_axioms_sha256'', ''schema_version'', ''source_snapshot_sha256'', ''statement_source_hash'', ''subject_id'']"

definition local_raw_fields :: "string list" where
  "local_raw_fields =
     [''build_receipt_canonical_sha256'', ''execution_policy'', ''execution_policy_sha256'', ''image'', ''observation'',
      ''schema_version'', ''sealed_candidate_sha256'', ''source_inputs_sha256'', ''source_snapshot_sha256'']"

definition local_observation_fields :: "string list" where
  "local_observation_fields =
     [''candidate_direct_imports'', ''candidate_direct_imports_sha256'', ''declarations'', ''image_identity'',
      ''module_import_closure'', ''module_import_closure_sha256'']"

definition local_declaration_fields :: "string list" where
  "local_declaration_fields =
     [''canonical_type'', ''canonical_type_sha256'', ''declaration'', ''observed_axioms'', ''observed_axioms_sha256'']"

definition local_execution_policy_fields :: "string list" where
  "local_execution_policy_fields = [''container_policy'', ''image'', ''phases'', ''schema_version'']"

definition assurance_profile :: "string \<Rightarrow> string list option" where
  "assurance_profile a =
     (if a = ''scripted_fake'' then Some
        [''autolean_builder.testing.ScriptedCanonicalTypeQuery'', ''autolean.scripted-canonical-query.v1'',
         ''autolean.scripted-canonical-query.v1'', ''autolean.scripted-header.v1'']
      else if a = ''local_oci_prefreeze'' then Some
        [''scripts.oci_mathlib_worker.query_declarations'', ''autolean.mathlib-declaration-query-evidence.v1'',
         ''autolean.mathlib-declaration-query.v1'', ''autolean.declaration-type-observation.v1'']
      else None)"

section \<open>Raw query outputs\<close>

text \<open>What an observation is compared with.\<close>

record type_subject =
  ts_assurance :: string
  ts_environment :: json_object
  ts_subject_id :: string
  ts_statement_source :: string
  ts_statement_source_hash :: DigestV1
  ts_declaration :: string
  ts_imports_allowlist :: "string list"
  ts_canonical_type :: string
  ts_canonical_type_hash :: DigestV1
  ts_environment_hash :: string

definition header_keyword :: "string \<Rightarrow> string option" where
  "header_keyword s =
     find (\<lambda>kw. prefix kw s \<and> (drop (length kw) s = [] \<or> \<not> is_word_char (hd (drop (length kw) s))))
       [''theorem'', ''lemma'']"

definition render_oci_type_query_source_hash :: "string \<Rightarrow> string \<Rightarrow> string list \<Rightarrow> string result" where
  "render_oci_type_query_source_hash statement_source namespace imports_allowlist =
     bindE (if py_contains '':='' statement_source then Inr statement_source
            else case header_keyword statement_source of
                   None \<Rightarrow> Inl (InvalidTransition ''Builder local OCI statement is not a theorem or lemma'')
                 | Some kw \<Rightarrow> Inr (''axiom'' @ drop (length kw) statement_source)) (\<lambda>carrier.
     let imports = map (\<lambda>name. ''import '' @ name) imports_allowlist;
         lines = imports @ (if imports = [] then [] else [[]])
           @ [''namespace '' @ namespace, [], carrier, []]
     in Inr (sha256_hexdigest (utf8 (join_with [CHR 0x0A] lines))))"

definition validate_scripted_raw_query_output ::
  "json_object \<Rightarrow> type_subject \<Rightarrow> string \<Rightarrow> json_object \<Rightarrow> string list \<Rightarrow> unit result" where
  "validate_scripted_raw_query_output doc s canonical_type_sha256 query observed_axioms =
     bindE (bf_exact doc scripted_raw_fields) (\<lambda>_.
     refuse_if
       [differs (bf_text doc ''schema_version'') (Inr ''autolean.scripted-canonical-query-output.v1''),
        differs (bf_text doc ''subject_id'') (Inr (ts_subject_id s)),
        differs (bf_digest doc ''statement_source_hash'' STATEMENT_SOURCE) (Inr (ts_statement_source_hash s)),
        differs (bf_text doc ''declaration'') (Inr (ts_declaration s)),
        differs (bf_text doc ''canonical_type'') (Inr (ts_canonical_type s)),
        differs (bf_sha256 doc ''canonical_type_sha256'') (Inr canonical_type_sha256),
        differs (bf_texts doc ''imports_allowlist'') (Inr (ts_imports_allowlist s)),
        differs (bf_sha256 doc ''source_snapshot_sha256'') (Inr (sha256_hexdigest (utf8 (ts_statement_source s)))),
        differs (bf_sha256 doc ''source_snapshot_sha256'') (bf_sha256 query ''source_snapshot_sha256''),
        differs (bf_texts doc ''observed_axioms'') (Inr observed_axioms),
        differs (bf_sha256 doc ''observed_axioms_sha256'') (bf_sha256 query ''observed_axioms_sha256'')]
       ''Builder scripted raw query output is detached'')"

definition line_hash :: "json \<Rightarrow> string" where
  "line_hash v = sha256_hexdigest (canonical_json_bytes v @ [CHR 0x0A])"

definition is_query_phase :: "json \<Rightarrow> bool" where
  "is_query_phase v = (case v of JObj kvs \<Rightarrow> get_value kvs ''name'' = JStr ''query'' | _ \<Rightarrow> False)"

definition validate_local_oci_raw_query_output ::
  "json_object \<Rightarrow> type_subject \<Rightarrow> string \<Rightarrow> json_object \<Rightarrow> string list \<Rightarrow> unit result" where
  "validate_local_oci_raw_query_output doc s canonical_type_sha256 query observed_axioms =
     (let env = ts_environment s in
     bindE (bf_exact doc local_raw_fields) (\<lambda>_.
     bindE (bf_object (get_value doc ''observation'')) (\<lambda>raw.
     bindE (bf_exact raw local_observation_fields) (\<lambda>_.
     bindE (bf_list raw ''declarations'') (\<lambda>declarations.
     bindE (require (length declarations = 1) (InvalidTransition ''Builder local OCI query must contain one declaration'')) (\<lambda>_.
     bindE (bf_object (hd declarations)) (\<lambda>decl.
     bindE (bf_exact decl local_declaration_fields) (\<lambda>_.
     bindE (bf_object (get_value doc ''execution_policy'')) (\<lambda>policy.
     bindE (bf_exact policy local_execution_policy_fields) (\<lambda>_.
     bindE (bf_object (get_value raw ''image_identity'')) (\<lambda>identity.
     bindE (bf_list policy ''phases'') (\<lambda>phases.
     bindE (require (length (filter is_query_phase phases) = 1)
       (InvalidTransition ''Builder local OCI execution policy has no unique query phase'')) (\<lambda>_.
     bindE (bf_object (hd (filter is_query_phase phases))) (\<lambda>phase.
     bindE (bf_texts raw ''candidate_direct_imports'') (\<lambda>direct_imports.
     bindE (bf_texts raw ''module_import_closure'') (\<lambda>import_closure.
     bindE (render_oci_type_query_source_hash (ts_statement_source s)
       (fst (rpartition (CHR ''.'') (ts_declaration s))) (ts_imports_allowlist s)) (\<lambda>expected_snapshot.
     refuse_if
       [differs (bf_text doc ''schema_version'') (bf_text env ''query_schema_version''),
        differs (bf_text doc ''image'') (bf_text env ''image''),
        differs (bf_sha256 doc ''build_receipt_canonical_sha256'') (bf_sha256 env ''build_receipt_canonical_sha256''),
        differs (bf_sha256 doc ''execution_policy_sha256'') (bf_sha256 env ''execution_policy_sha256''),
        differs (bf_sha256 doc ''source_inputs_sha256'') (bf_sha256 env ''source_inputs_sha256''),
        differs (bf_sha256 doc ''source_snapshot_sha256'') (Inr expected_snapshot),
        differs (bf_sha256 doc ''source_snapshot_sha256'') (bf_sha256 query ''source_snapshot_sha256''),
        differs (bf_sha256 doc ''sealed_candidate_sha256'') (bf_sha256 query ''sealed_candidate_sha256''),
        differs (bf_text policy ''image'') (bf_text env ''image''),
        differs (bf_text policy ''schema_version'') (Inr ''autolean.mathlib-declaration-execution-policy.v1''),
        Inr (get_value phase ''declarations'' \<noteq> JList [JStr (ts_declaration s)]),
        bindE (bf_text env ''query_protocol'') (\<lambda>p. Inr (get_value phase ''protocol'' \<noteq> JStr p)),
        differs (Inr (line_hash (JObj policy))) (bf_sha256 env ''execution_policy_sha256''),
        differs (Inr (sha256_hexdigest (canonical_json_bytes (JObj identity)))) (bf_sha256 env ''query_identity_sha256''),
        differs (bf_sha256 raw ''candidate_direct_imports_sha256'') (bf_sha256 query ''candidate_direct_imports_sha256''),
        differs (Inr (line_hash (JStrs direct_imports))) (bf_sha256 query ''candidate_direct_imports_sha256''),
        differs (bf_sha256 raw ''module_import_closure_sha256'') (bf_sha256 query ''module_import_closure_sha256''),
        differs (Inr (line_hash (JStrs import_closure))) (bf_sha256 query ''module_import_closure_sha256''),
        Inr (\<not> set (ts_imports_allowlist s) \<subseteq> set direct_imports),
        Inr (\<not> set direct_imports \<subseteq> set (ts_imports_allowlist s) \<union> {''Init''}),
        Inr (''Candidate'' \<notin> set import_closure),
        differs (bf_text decl ''declaration'') (Inr (ts_declaration s)),
        differs (bf_text decl ''canonical_type'') (Inr (ts_canonical_type s)),
        differs (bf_sha256 decl ''canonical_type_sha256'') (Inr canonical_type_sha256),
        differs (bf_texts decl ''observed_axioms'') (Inr observed_axioms),
        differs (bf_sha256 decl ''observed_axioms_sha256'') (bf_sha256 query ''observed_axioms_sha256'')]
       ''Builder local OCI raw query output is detached'')))))))))))))))))"

definition validate_raw_query_output ::
  "json_object \<Rightarrow> type_subject \<Rightarrow> string \<Rightarrow> json_object \<Rightarrow> string list \<Rightarrow> unit result" where
  "validate_raw_query_output doc s canonical_type_sha256 query observed_axioms =
     (if ts_assurance s = ''scripted_fake''
      then validate_scripted_raw_query_output doc s canonical_type_sha256 query observed_axioms
      else if ts_assurance s = ''local_oci_prefreeze''
      then validate_local_oci_raw_query_output doc s canonical_type_sha256 query observed_axioms
      else Inl (InvalidTransition ''Builder canonical type assurance is unsupported''))"

section \<open>Observations and environment\<close>

text \<open>
  The canonical query output is ASCII text (the encoder escapes everything else), so its
  ASCII and UTF-8 encodings agree and \<open>encode("ascii")\<close> does not raise.
\<close>

definition validate_observation :: "json_object \<Rightarrow> type_subject \<Rightarrow> unit result" where
  "validate_observation obs s =
     bindE (bf_exact obs observation_fields) (\<lambda>_.
     bindE (bf_text obs ''canonical_type'') (\<lambda>canonical_type.
     bindE (bf_digest obs ''canonical_type_hash'' ELABORATED_TYPE) (\<lambda>observed_type_hash.
     bindE (refuse_if
       [differs (bf_text obs ''subject_id'') (Inr (ts_subject_id s)),
        differs (bf_text obs ''declaration'') (Inr (ts_declaration s)),
        Inr (canonical_type \<noteq> ts_canonical_type s),
        differs (bf_sha256 obs ''canonical_type_sha256'') (Inr (sha256_hexdigest (utf8 canonical_type))),
        differs (bf_sha256 obs ''environment_facts_sha256'') (Inr (ts_environment_hash s)),
        differs (bf_digest obs ''statement_source_hash'' STATEMENT_SOURCE) (Inr (ts_statement_source_hash s)),
        Inr (observed_type_hash \<noteq> ts_canonical_type_hash s),
        Inr (observed_type_hash \<noteq> digest_text ELABORATED_TYPE canonical_type)]
       ''Builder canonical type observation differs from its Builder inputs'') (\<lambda>_.
     bindE (bf_object (get_value obs ''query'')) (\<lambda>query.
     bindE (bf_exact query query_fields) (\<lambda>_.
     bindE (forE (\<lambda>k. bindE (bf_sha256 query k) (\<lambda>_. Inr ())) query_sha256_fields) (\<lambda>_.
     bindE (bf_text query ''query_output_canonical_json'') (\<lambda>query_output.
     bindE (bf_canonical_json_object query_output) (\<lambda>document.
     bindE (refuse_if [differs (bf_sha256 query ''query_output_sha256'') (Inr (sha256_hexdigest query_output))]
       ''Builder canonical query output hash is inconsistent'') (\<lambda>_.
     bindE (bf_texts query ''observed_axioms'') (\<lambda>axioms.
     bindE (require (axioms = sort (remdups axioms) \<and> list_all (\<lambda>a. a = py_strip a) axioms)
       (InvalidTransition ''Builder canonical type observed axioms are invalid'')) (\<lambda>_.
     bindE (refuse_if [differs (bf_sha256 query ''observed_axioms_sha256'') (Inr (line_hash (JStrs axioms)))]
       ''Builder canonical type observed axiom hash is inconsistent'') (\<lambda>_.
     bindE (bf_sha256 obs ''canonical_type_sha256'') (\<lambda>canonical_type_sha256.
     validate_raw_query_output document (s\<lparr>ts_canonical_type := canonical_type\<rparr>) canonical_type_sha256 query axioms))))))))))))))"

definition py_endswith :: "string \<Rightarrow> string \<Rightarrow> bool" where
  "py_endswith s suf \<longleftrightarrow> suffix suf s"

definition policy_worker_image_digest :: "OciVerifierExecutionPolicy \<Rightarrow> string" where
  "policy_worker_image_digest p =
     (case p of PolicyV1 x \<Rightarrow> op1_worker_image_digest x | PolicyV2 x \<Rightarrow> op2_worker_image_digest x)"

definition validate_environment ::
  "FormalizationTaskBundleV1 \<Rightarrow> json_object \<Rightarrow> bool \<Rightarrow> (string \<times> string) result" where
  "validate_environment bundle env allow_test_only_non_authoritative =
     bindE (bf_exact env environment_fields) (\<lambda>_.
     bindE (bf_text env ''assurance'') (\<lambda>assurance.
     case assurance_profile assurance of
       None \<Rightarrow> Inl (InvalidTransition ''Builder canonical type assurance is unsupported'')
     | Some profile \<Rightarrow>
         bindE (require allow_test_only_non_authoritative
           (InvalidTransition ''non-authoritative canonical type evidence cannot be registered'')) (\<lambda>_.
         let formal_environment = fs_environment (sc_formal (tb_contract bundle)) in
         bindE (bf_text env ''worker_image_digest'') (\<lambda>worker_digest.
         bindE (refuse_if
           [differs (bf_text env ''lean_version'') (Inr (le_lean_version formal_environment)),
            differs (bf_text env ''mathlib_revision'') (Inr (le_mathlib_revision formal_environment)),
            Inr (worker_digest \<noteq> policy_worker_image_digest (le_verifier_execution_policy formal_environment)),
            bindE (bf_text env ''image'') (\<lambda>image. Inr (\<not> py_endswith image (''@'' @ worker_digest))),
            Inr (get_value env ''lake_manifest_sha256'' \<noteq>
              JOpt JStr (map_option dg_value (le_lake_manifest_hash formal_environment))),
            differs (bf_text env ''type_format'') (Inr ''autolean.lean-pp-expr.v1'')]
           ''Builder canonical type environment differs from the frozen contract'') (\<lambda>_.
         bindE (map_resultE (bf_text env)
           [''adapter_id'', ''query_schema_version'', ''query_protocol'', ''source_rendering_profile'']) (\<lambda>observed_profile.
         bindE (require (observed_profile = profile)
           (InvalidTransition ''Builder canonical type assurance differs from its closed execution profile'')) (\<lambda>_.
         bindE (forE (\<lambda>k. bindE (bf_sha256 env k) (\<lambda>_. Inr ()))
           [''query_identity_sha256'', ''build_receipt_canonical_sha256'', ''execution_policy_sha256'', ''source_inputs_sha256'']) (\<lambda>_.
         Inr (assurance, sha256_hexdigest (canonical_json_bytes (JObj env)))))))))))"

section \<open>Admission\<close>

record CanonicalTypeAdmission =
  ca_assurance :: string
  ca_promotion_authority :: bool

definition is_canonical_check :: "json_object \<Rightarrow> bool" where
  "is_canonical_check check \<longleftrightarrow> get_value check ''check_name'' = JStr ''canonical_elaborated_type_identity''"

definition unique_canonical_check :: "json list \<Rightarrow> json_object result" where
  "unique_canonical_check vs =
     bindE (map_resultE bf_object vs) (\<lambda>checks.
     case filter is_canonical_check checks of
       [check] \<Rightarrow>
         bindE (bf_exact check check_fields) (\<lambda>_.
         bindE (refuse_if [differs (bf_text check ''authority'') (Inr ''automatic''),
                           Inr (get_value check ''passed'' \<noteq> JBool True)]
           ''Builder canonical type check is not an automatic pass'') (\<lambda>_. Inr check))
     | _ \<Rightarrow> Inl (InvalidTransition ''Builder fidelity artifact requires exactly one canonical type check''))"

definition validate_candidate_observation :: "type_subject \<Rightarrow> json \<times> json \<Rightarrow> string result" where
  "validate_candidate_observation s cv =
     bindE (bf_object (fst cv)) (\<lambda>candidate.
     bindE (bf_text candidate ''candidate_id'') (\<lambda>candidate_id.
     bindE (bf_object (snd cv)) (\<lambda>obs.
     bindE (bf_text candidate ''lean_statement_source'') (\<lambda>source.
     bindE (validate_observation obs
       (s\<lparr>ts_subject_id := candidate_id, ts_statement_source := source,
          ts_statement_source_hash := digest_text STATEMENT_SOURCE source\<rparr>)) (\<lambda>_.
     Inr candidate_id)))))"

definition canonical_type_record :: "json_object \<Rightarrow> json_object result" where
  "canonical_type_record artifact =
     bindE (bf_list artifact ''automatic_checks'') (\<lambda>automatic_checks.
     bindE (unique_canonical_check automatic_checks) (\<lambda>check.
     bindE (bf_text check ''evidence'') (\<lambda>evidence.
     bindE (bf_canonical_json_object evidence) (\<lambda>envelope.
     bindE (bf_exact envelope envelope_fields) (\<lambda>_.
     bindE (refuse_if [differs (bf_text envelope ''schema_version'') (Inr ''autolean.builder-canonical-type-check.v1'')]
       ''Builder canonical type check envelope has an unexpected schema'') (\<lambda>_.
     bindE (bf_object (get_value envelope ''record'')) (\<lambda>record.
     bindE (bf_digest envelope ''record_hash'' FREEZE_EVIDENCE) (\<lambda>record_hash.
     bindE (require (record_hash = digest_bytes FREEZE_EVIDENCE (canonical_json_bytes (JObj record)))
       (InvalidTransition ''Builder canonical type record hash is inconsistent'')) (\<lambda>_.
     bindE (bf_exact record record_fields) (\<lambda>_.
     bindE (refuse_if
       [differs (bf_text record ''schema_version'') (Inr ''autolean.builder-canonical-type-gate.v1''),
        differs (bf_text record ''claim'') (Inr ''exact_canonical_printer_text_identity''),
        Inr (get_value record ''definitional_equivalence_claimed'' \<noteq> JBool False),
        Inr (get_value record ''semantic_equivalence_claimed'' \<noteq> JBool False),
        Inr (get_value record ''promotion_authority'' \<noteq> JBool False)]
       ''Builder canonical type record changes or overstates its claim'') (\<lambda>_.
     Inr record)))))))))))"

definition validate_canonical_type_check ::
  "FormalizationTaskBundleV1 \<Rightarrow> json_object \<Rightarrow> json_object \<Rightarrow> DigestV1 \<Rightarrow> bool \<Rightarrow> CanonicalTypeAdmission result" where
  "validate_canonical_type_check bundle artifact task generation_task_hash allow_test_only_non_authoritative =
     bindE (canonical_type_record artifact) (\<lambda>record.
     let contract = tb_contract bundle; formal = sc_formal contract in
     case (fs_elaborated_type formal, fs_elaborated_type_hash formal) of
       (Some elaborated_type, Some elaborated_type_hash) \<Rightarrow>
         bindE (bf_digest task ''draft_contract_hash'' CONTRACT) (\<lambda>draft_contract_hash.
         bindE (bf_digest task ''source_hash'' SOURCE_BYTES) (\<lambda>source_hash.
         bindE (forE (\<lambda>(key, expected).
             refuse_if [differs (bf_digest record key (dg_kind expected)) (Inr expected)]
               ''Builder canonical type record has a different digest'')
           [(''draft_contract_hash'', draft_contract_hash), (''source_hash'', source_hash),
            (''generation_task_hash'', generation_task_hash),
            (''selected_statement_hash'', fs_statement_source_hash formal),
            (''environment_hash'', le_environment_hash (fs_environment formal)),
            (''expected_elaborated_type_hash'', elaborated_type_hash)]) (\<lambda>_.
         bindE (refuse_if
           [differs (bf_text record ''contract_id'') (Inr (si_value (sc_contract_id contract))),
            differs (bf_integer record ''revision'') (Inr (sc_revision contract))]
           ''Builder canonical type record targets another contract revision'') (\<lambda>_.
         bindE (bf_object (get_value record ''environment'')) (\<lambda>environment.
         bindE (validate_environment bundle environment allow_test_only_non_authoritative) (\<lambda>(assurance, environment_hash).
         let subject = \<lparr>ts_assurance = assurance, ts_environment = environment,
               ts_subject_id = ''contract-selected-reference'', ts_statement_source = fs_lean_statement_source formal,
               ts_statement_source_hash = fs_statement_source_hash formal,
               ts_declaration = fs_namespace formal @ ''.'' @ fs_declaration_name formal,
               ts_imports_allowlist = fs_imports_allowlist formal, ts_canonical_type = elaborated_type,
               ts_canonical_type_hash = elaborated_type_hash, ts_environment_hash = environment_hash\<rparr> in
         bindE (bf_object (get_value record ''reference'')) (\<lambda>reference.
         bindE (validate_observation reference subject) (\<lambda>_.
         bindE (bf_list artifact ''candidates'') (\<lambda>candidates.
         bindE (bf_list record ''candidates'') (\<lambda>observations.
         bindE (require (length candidates = length observations)
           (InvalidTransition ''Builder canonical type record has a different candidate count'')) (\<lambda>_.
         bindE (map_resultE (validate_candidate_observation subject) (zip candidates observations)) (\<lambda>candidate_ids.
         bindE (require (distinct candidate_ids)
           (InvalidTransition ''Builder canonical type record repeats a candidate identifier'')) (\<lambda>_.
         Inr \<lparr>ca_assurance = assurance, ca_promotion_authority = False\<rparr>)))))))))))))
     | _ \<Rightarrow> Inl (InvalidTransition ''Builder canonical type record requires an elaborated contract''))"

section \<open>What an admission shows\<close>

lemma bf_text_Inr [result_simps]: "bf_text v k = Inr s \<longleftrightarrow> get_value v k = JStr s \<and> s \<noteq> []"
  by (auto simp: bf_text_def split: json.splits if_splits)

lemma bf_list_Inr [result_simps]: "bf_list v k = Inr vs \<longleftrightarrow> get_value v k = JList vs"
  by (auto simp: bf_list_def split: json.splits)

lemma bf_object_Inr [result_simps]: "bf_object v = Inr kvs \<longleftrightarrow> v = JObj kvs"
  by (auto simp: bf_object_def split: json.splits)

lemma bf_sha256_Inr [result_simps]: "bf_sha256 v k = Inr s \<longleftrightarrow> get_value v k = JStr s \<and> is_sha256_text s"
  by (auto simp: bf_sha256_def result_simps is_sha256_text_def)

lemma validate_observation_Inr:
  assumes "validate_observation obs s = Inr u"
  shows "get_value obs ''subject_id'' = JStr (ts_subject_id s) \<and> get_value obs ''declaration'' = JStr (ts_declaration s) \<and>
    get_value obs ''canonical_type'' = JStr (ts_canonical_type s) \<and>
    get_value obs ''environment_facts_sha256'' = JStr (ts_environment_hash s) \<and>
    bf_digest obs ''statement_source_hash'' STATEMENT_SOURCE = Inr (ts_statement_source_hash s) \<and>
    ts_canonical_type_hash s = digest_text ELABORATED_TYPE (ts_canonical_type s)"
  using assms by (auto simp: validate_observation_def result_simps)

lemma validate_environment_Inr:
  assumes "validate_environment bundle env allow = Inr (assurance, h)"
  shows "allow \<and> assurance \<in> {''scripted_fake'', ''local_oci_prefreeze''} \<and>
    h = sha256_hexdigest (canonical_json_bytes (JObj env)) \<and>
    get_value env ''lean_version'' = JStr (le_lean_version (fs_environment (sc_formal (tb_contract bundle)))) \<and>
    get_value env ''worker_image_digest''
      = JStr (policy_worker_image_digest (le_verifier_execution_policy (fs_environment (sc_formal (tb_contract bundle)))))"
  using assms
  by (auto simp: validate_environment_def result_simps Let_def assurance_profile_def split: option.splits if_splits)

lemma validate_candidate_Inr:
  assumes "validate_candidate_observation s (cand, obs) = Inr cid"
  shows "\<exists>c o'. cand = JObj c \<and> obs = JObj o' \<and> get_value c ''candidate_id'' = JStr cid \<and>
    get_value o' ''subject_id'' = JStr cid \<and> get_value o' ''declaration'' = JStr (ts_declaration s) \<and>
    get_value o' ''canonical_type'' = JStr (ts_canonical_type s) \<and>
    get_value o' ''environment_facts_sha256'' = JStr (ts_environment_hash s) \<and>
    (\<exists>source. get_value c ''lean_statement_source'' = JStr source \<and>
       bf_digest o' ''statement_source_hash'' STATEMENT_SOURCE = Inr (digest_text STATEMENT_SOURCE source))"
  using assms by (auto simp: validate_candidate_observation_def result_simps dest!: validate_observation_Inr)

lemma validate_canonical_type_check_Inr:
  assumes "validate_canonical_type_check bundle artifact task gth allow = Inr adm"
  obtains t env h s candidates observations ids where
    "fs_elaborated_type (sc_formal (tb_contract bundle)) = Some t"
    "validate_environment bundle env allow = Inr (ca_assurance adm, h)"
    "ts_declaration s = fs_namespace (sc_formal (tb_contract bundle)) @ ''.'' @ fs_declaration_name (sc_formal (tb_contract bundle))"
    "ts_canonical_type s = t" "ts_environment_hash s = h"
    "get_value artifact ''candidates'' = JList candidates" "length candidates = length observations"
    "map_resultE (validate_candidate_observation s) (zip candidates observations) = Inr ids" "distinct ids"
    "\<not> ca_promotion_authority adm"
proof -
  let ?formal = "sc_formal (tb_contract bundle)"
  obtain t th where t: "fs_elaborated_type ?formal = Some t" "fs_elaborated_type_hash ?formal = Some th"
    using assms by (auto simp: validate_canonical_type_check_def bindE_eq_Inr Let_def split: option.splits)
  obtain env ah s candidates observations ids where
    "validate_environment bundle env allow = Inr ah"
    "ts_declaration s = fs_namespace ?formal @ ''.'' @ fs_declaration_name ?formal"
    "ts_canonical_type s = t" "ts_environment_hash s = snd ah"
    "get_value artifact ''candidates'' = JList candidates" "length candidates = length observations"
    "map_resultE (validate_candidate_observation s) (zip candidates observations) = Inr ids" "distinct ids"
    "adm = \<lparr>ca_assurance = fst ah, ca_promotion_authority = False\<rparr>"
    using assms
    by (simp only: validate_canonical_type_check_def Let_def t prod.case option.case bindE_eq_Inr require_eq_Inr
        bf_list_Inr case_prod_unfold fst_conv snd_conv) (elim exE conjE, rule that, assumption, simp_all)
  then show thesis
    by (intro that [OF t(1), of env "snd ah" s candidates observations ids]) (cases ah; simp)+
qed

lemma map_resultE_nth:
  assumes "map_resultE f xs = Inr ys"
  shows "length ys = length xs \<and> (\<forall>i < length xs. f (xs ! i) = Inr (ys ! i))"
  using assms
proof (induction xs arbitrary: ys)
  case (Cons x xs)
  then show ?case by (auto simp: bindE_eq_Inr nth_Cons split: nat.splits)
qed simp

text \<open>
  An admitted record is only ever test-only evidence without promotion authority, made in an
  environment with the Lean version and worker image of the frozen contract; its candidates
  have distinct identifiers, and for each one the record holds an observation of that very
  source text under the contract's declaration name with the contract's elaborated type.
\<close>

lemma canonical_type_admission:
  assumes "validate_canonical_type_check bundle artifact task gth allow = Inr adm"
  shows "allow \<and> \<not> ca_promotion_authority adm \<and> ca_assurance adm \<in> {''scripted_fake'', ''local_oci_prefreeze''} \<and>
    (\<exists>t candidates observations ids. fs_elaborated_type (sc_formal (tb_contract bundle)) = Some t \<and>
       get_value artifact ''candidates'' = JList candidates \<and> length observations = length candidates \<and>
       length ids = length candidates \<and> distinct ids \<and>
       (\<forall>i < length candidates. \<exists>c obs source. candidates ! i = JObj c \<and> observations ! i = JObj obs \<and>
          get_value c ''candidate_id'' = JStr (ids ! i) \<and> get_value obs ''subject_id'' = JStr (ids ! i) \<and>
          get_value obs ''canonical_type'' = JStr t \<and>
          get_value obs ''declaration'' = JStr (fs_namespace (sc_formal (tb_contract bundle)) @ ''.''
            @ fs_declaration_name (sc_formal (tb_contract bundle))) \<and>
          get_value c ''lean_statement_source'' = JStr source \<and>
          bf_digest obs ''statement_source_hash'' STATEMENT_SOURCE = Inr (digest_text STATEMENT_SOURCE source)))"
proof -
  obtain t env h s candidates observations ids where
    t: "fs_elaborated_type (sc_formal (tb_contract bundle)) = Some t"
    and e: "validate_environment bundle env allow = Inr (ca_assurance adm, h)"
    and s: "ts_declaration s = fs_namespace (sc_formal (tb_contract bundle)) @ ''.'' @ fs_declaration_name (sc_formal (tb_contract bundle))"
      "ts_canonical_type s = t" "ts_environment_hash s = h"
    and c: "get_value artifact ''candidates'' = JList candidates" "length candidates = length observations"
      "map_resultE (validate_candidate_observation s) (zip candidates observations) = Inr ids" "distinct ids"
      "\<not> ca_promotion_authority adm"
    using validate_canonical_type_check_Inr [OF assms] .
  have each: "\<exists>c obs source. candidates ! i = JObj c \<and> observations ! i = JObj obs \<and>
          get_value c ''candidate_id'' = JStr (ids ! i) \<and> get_value obs ''subject_id'' = JStr (ids ! i) \<and>
          get_value obs ''canonical_type'' = JStr t \<and> get_value obs ''declaration'' = JStr (ts_declaration s) \<and>
          get_value c ''lean_statement_source'' = JStr source \<and>
          bf_digest obs ''statement_source_hash'' STATEMENT_SOURCE = Inr (digest_text STATEMENT_SOURCE source)"
    if "i < length candidates" for i
    using validate_candidate_Inr [of s "candidates ! i" "observations ! i" "ids ! i"]
      map_resultE_nth [OF c(3)] c(2) that s(2) by fastforce
  have "length ids = length candidates" using map_resultE_nth [OF c(3)] c(2) by simp
  then show ?thesis
    using validate_environment_Inr [OF e] t c(1,2,4,5) each unfolding s(1) by metis
qed

end
