(* ===== verification/Artifacts.thy ===== *)
theory Artifacts
  imports Hashing
begin

text \<open>
  \<open>artifacts.py\<close>: the immutable blob store addressed by SHA-256. The file system below the
  root of the store is a map from path components to nodes; a link node says whether it
  points to a directory. Temporary files have fresh names and are gone when an operation
  returns, so they are not part of the state; what other processes did to the files between
  the existence test and the publishing link of a \<open>put\<close> is the argument \<open>others\<close>. Shown:
  reads return only bytes with the requested digest, a stored blob reads back as it was
  put even if other writers interfere, and a healthy store stays healthy and never changes
  a blob.
\<close>

section \<open>References and the file system\<close>

record ArtifactRef =
  af_digest :: string
  af_size :: int
  af_algorithm :: string

definition ArtifactRef_init :: "ArtifactRef \<Rightarrow> ArtifactRef result" where
  "ArtifactRef_init r =
     bindE (require_all
       [(af_algorithm r = ''sha256'', ''only sha256 artifacts are supported''),
        (is_sha256_text (af_digest r), ''digest must be 64 lowercase hexadecimal characters''),
        (af_size r \<ge> 0, ''artifact size must be non-negative'')])
       (\<lambda>_. Inr r)"

definition artifact_uri :: "ArtifactRef \<Rightarrow> string" where
  "artifact_uri r = ''sha256:'' @ af_digest r"

datatype fs_node = FileNode string | DirNode | LinkNode bool

type_synonym path = "string list"
type_synonym store_fs = "path \<Rightarrow> fs_node option"

definition is_file :: "store_fs \<Rightarrow> path \<Rightarrow> bool" where
  "is_file fs p = (case fs p of Some (FileNode _) \<Rightarrow> True | _ \<Rightarrow> False)"

text \<open>\<open>lstat\<close> below a regular file raises \<open>NotADirectoryError\<close>, which is not caught.\<close>

definition is_link_or_reparse_point :: "store_fs \<Rightarrow> path \<Rightarrow> bool result" where
  "is_link_or_reparse_point fs p =
     (if list_ex (is_file fs) (map (\<lambda>k. take k p) [0..<length p]) then Inl (OSError ''not a directory'')
      else Inr (case fs p of Some (LinkNode _) \<Rightarrow> True | _ \<Rightarrow> False))"

definition assert_no_link_or_reparse_point :: "store_fs \<Rightarrow> path \<Rightarrow> unit result" where
  "assert_no_link_or_reparse_point fs p =
     bindE (is_link_or_reparse_point fs p) (\<lambda>linked.
     require (\<not> linked) (ArtifactCorruption ''artifact store must not follow symbolic links or reparse points''))"

text \<open>Every path below is relative to the root, so it cannot escape the store.\<close>

definition assert_safe_store_path :: "store_fs \<Rightarrow> path \<Rightarrow> unit result" where
  "assert_safe_store_path fs p =
     bindE (map_resultE (\<lambda>k. assert_no_link_or_reparse_point fs (take k p)) [0..<Suc (length p)]) (\<lambda>_. Inr ())"

definition blob_path :: "string \<Rightarrow> path" where
  "blob_path digest = [''sha256'', take 2 digest, take 2 (drop 2 digest), digest]"

definition path_for_digest :: "store_fs \<Rightarrow> string \<Rightarrow> path result" where
  "path_for_digest fs digest =
     bindE (require (is_sha256_text digest) (ValueError ''digest must be 64 lowercase hexadecimal characters'')) (\<lambda>_.
     bindE (assert_safe_store_path fs (blob_path digest)) (\<lambda>_.
     Inr (blob_path digest)))"

text \<open>\<open>mkdir(parents=True, exist_ok=True)\<close>.\<close>

definition mkdir :: "path \<Rightarrow> store_fs \<Rightarrow> store_fs result" where
  "mkdir p fs =
     (case fs p of
        None \<Rightarrow> Inr (fs(p \<mapsto> DirNode))
      | Some DirNode \<Rightarrow> Inr fs
      | Some (LinkNode True) \<Rightarrow> Inr fs
      | _ \<Rightarrow> Inl (OSError ''file exists''))"

fun mkdirs :: "path list \<Rightarrow> store_fs \<Rightarrow> store_fs result" where
  "mkdirs [] fs = Inr fs"
| "mkdirs (p # ps) fs = bindE (mkdir p fs) (mkdirs ps)"

definition ancestors :: "path \<Rightarrow> path list" where
  "ancestors p = map (\<lambda>k. take k p) [0..<length p]"

definition ArtifactStore_init :: "store_fs \<Rightarrow> store_fs result" where
  "ArtifactStore_init fs =
     bindE (mkdir [] fs) (\<lambda>fs1.
     bindE (assert_no_link_or_reparse_point fs1 []) (\<lambda>_.
     bindE (mkdir [''sha256''] fs1) (\<lambda>fs2.
     bindE (assert_safe_store_path fs2 [''sha256'']) (\<lambda>_. Inr fs2))))"

section \<open>Reading\<close>

text \<open>The loop \<open>while chunk := handle.read(n)\<close>: the bytes fed to the hash, and their count.\<close>

function read_chunks :: "nat \<Rightarrow> string \<Rightarrow> string \<times> int \<Rightarrow> string \<times> int" where
  "read_chunks n data (hashed, count) =
     (if take n data = [] then (hashed, count)
      else read_chunks n (drop n data) (hashed @ take n data, count + int (length (take n data))))"
  by pat_completeness auto

termination
  by (relation "measure (\<lambda>(n, data, _). length data)") (auto simp: take_eq_Nil)

definition chunk_bytes :: nat where
  "chunk_bytes = 1048576"

definition verify_artifact :: "store_fs \<Rightarrow> ArtifactRef \<Rightarrow> unit result" where
  "verify_artifact fs r =
     bindE (path_for_digest fs (af_digest r)) (\<lambda>path.
     case fs path of
       Some (FileNode data) \<Rightarrow>
         (let (hashed, size) = read_chunks chunk_bytes data ([], 0) in
          require (size = af_size r \<and> sha256_hexdigest hashed = af_digest r)
            (ArtifactCorruption ''failed integrity verification''))
     | _ \<Rightarrow> Inl (ArtifactNotFound ''artifact does not exist''))"

definition verify_bytes :: "string \<Rightarrow> int \<Rightarrow> string \<Rightarrow> unit result" where
  "verify_bytes digest expected_size data =
     require (int (length data) = expected_size \<and> sha256_hexdigest data = digest)
       (ArtifactCorruption ''failed integrity verification'')"

type_synonym artifact_handle = "ArtifactRef + string"

definition handle_digest :: "artifact_handle \<Rightarrow> string" where
  "handle_digest h = (case h of Inl r \<Rightarrow> af_digest r | Inr d \<Rightarrow> d)"

definition get_bytes :: "store_fs \<Rightarrow> artifact_handle \<Rightarrow> string result" where
  "get_bytes fs h =
     bindE (path_for_digest fs (handle_digest h)) (\<lambda>path.
     case fs path of
       Some (FileNode data) \<Rightarrow>
         bindE (verify_bytes (handle_digest h) (case h of Inl r \<Rightarrow> af_size r | Inr _ \<Rightarrow> int (length data)) data) (\<lambda>_.
         Inr data)
     | _ \<Rightarrow> Inl (ArtifactNotFound ''artifact does not exist''))"

definition path_for :: "store_fs \<Rightarrow> artifact_handle \<Rightarrow> path result" where
  "path_for fs h =
     bindE (path_for_digest fs (handle_digest h)) (\<lambda>path.
     bindE (require (is_file fs path) (ArtifactNotFound ''artifact does not exist'')) (\<lambda>_. Inr path))"

text \<open>\<open>open\<close> returns a handle on the file; the bytes it will read are the model's value.\<close>

definition open_artifact :: "store_fs \<Rightarrow> artifact_handle \<Rightarrow> string result" where
  "open_artifact fs h =
     bindE (path_for_digest fs (handle_digest h)) (\<lambda>path.
     case fs path of
       Some (FileNode data) \<Rightarrow>
         bindE (case h of Inl r \<Rightarrow> verify_artifact fs r | Inr _ \<Rightarrow> Inr ()) (\<lambda>_. Inr data)
     | _ \<Rightarrow> Inl (ArtifactNotFound ''artifact does not exist''))"

definition artifact_exists :: "store_fs \<Rightarrow> artifact_handle \<Rightarrow> bool result" where
  "artifact_exists fs h = bindE (path_for_digest fs (handle_digest h)) (\<lambda>path. Inr (is_file fs path))"

section \<open>Writing\<close>

text \<open>\<open>os.link\<close> with \<open>FileExistsError\<close> suppressed.\<close>

definition publish :: "path \<Rightarrow> string \<Rightarrow> store_fs \<Rightarrow> store_fs result" where
  "publish target data fs =
     (if fs target \<noteq> None then Inr fs
      else if fs (butlast target) = Some DirNode then Inr (fs(target \<mapsto> FileNode data))
      else Inl (OSError ''no such directory''))"

definition put_bytes :: "(store_fs \<Rightarrow> store_fs) \<Rightarrow> string \<Rightarrow> store_fs \<Rightarrow> ArtifactRef result \<times> store_fs" where
  "put_bytes others data fs =
     (let digest = sha256_hexdigest data in
      case bindE (path_for_digest fs digest) (\<lambda>target.
           bindE (ArtifactRef_init \<lparr>af_digest = digest, af_size = int (length data), af_algorithm = ''sha256''\<rparr>) (\<lambda>reference.
           Inr (target, reference))) of
        Inl e \<Rightarrow> (Inl e, fs)
      | Inr (target, reference) \<Rightarrow>
          if fs target \<noteq> None then (bindE (verify_artifact fs reference) (\<lambda>_. Inr reference), fs)
          else
            (case mkdirs (ancestors target) fs of
               Inl e \<Rightarrow> (Inl e, fs)
             | Inr fs1 \<Rightarrow>
                 (case publish target data (others fs1) of
                    Inl e \<Rightarrow> (Inl e, others fs1)
                  | Inr fs2 \<Rightarrow> (bindE (verify_artifact fs2 reference) (\<lambda>_. Inr reference), fs2))))"

definition put_json :: "(store_fs \<Rightarrow> store_fs) \<Rightarrow> json \<Rightarrow> store_fs \<Rightarrow> ArtifactRef result \<times> store_fs" where
  "put_json others value = put_bytes others (utf8 (canonical_json value))"

text \<open>\<open>source\<close> is the node at the source path, which lies outside the store.\<close>

definition put_file ::
  "(store_fs \<Rightarrow> store_fs) \<Rightarrow> fs_node option \<Rightarrow> int \<Rightarrow> store_fs \<Rightarrow> ArtifactRef result \<times> store_fs" where
  "put_file others source chunk_size fs =
     (if chunk_size \<le> 0 then (Inl (ValueError ''chunk_size must be positive''), fs)
      else
        case source of
          Some (LinkNode _) \<Rightarrow> (Inl (ArtifactCorruption ''artifact source must not be a symbolic link or reparse point''), fs)
        | Some (FileNode content) \<Rightarrow>
            (case mkdirs [[], [''.incoming'']] fs of
               Inl e \<Rightarrow> (Inl e, fs)
             | Inr fs0 \<Rightarrow>
                 let (written, size) = read_chunks (nat chunk_size) content ([], 0) in
                 (case bindE (ArtifactRef_init \<lparr>af_digest = sha256_hexdigest written, af_size = size, af_algorithm = ''sha256''\<rparr>) (\<lambda>reference.
                       bindE (path_for_digest fs0 (af_digest reference)) (\<lambda>target.
                       bindE (mkdirs (ancestors target) fs0) (\<lambda>fs1. Inr (reference, target, fs1)))) of
                    Inl e \<Rightarrow> (Inl e, fs0)
                  | Inr (reference, target, fs1) \<Rightarrow>
                      if fs1 target \<noteq> None then (bindE (verify_artifact fs1 reference) (\<lambda>_. Inr reference), fs1)
                      else
                        (case publish target written (others fs1) of
                           Inl e \<Rightarrow> (Inl e, others fs1)
                         | Inr fs2 \<Rightarrow> (bindE (verify_artifact fs2 reference) (\<lambda>_. Inr reference), fs2))))
        | _ \<Rightarrow> (Inl (ArtifactNotFound ''artifact source does not exist''), fs))"

section \<open>Reading in chunks\<close>

declare read_chunks.simps [simp del]

text \<open>The chunked loop hashes exactly the content of the file, whatever the chunk size.\<close>

lemma read_chunks_all: "n > 0 \<Longrightarrow> read_chunks n data (hashed, count) = (hashed @ data, count + int (length data))"
proof (induction n data "(hashed, count)" arbitrary: hashed count rule: read_chunks.induct)
  case (1 n data hashed count)
  show ?case
  proof (cases "data = []")
    case False
    then have ne: "take n data \<noteq> []" using 1(2) by simp
    have "read_chunks n data (hashed, count)
        = read_chunks n (drop n data) (hashed @ take n data, count + int (length (take n data)))"
      using ne by (subst read_chunks.simps) simp
    also have "\<dots> = ((hashed @ take n data) @ drop n data, count + int (length (take n data)) + int (length (drop n data)))"
      using 1(1) [OF ne 1(2)] .
    also have "\<dots> = (hashed @ data, count + int (length data))"
      by (simp add: of_nat_diff min_def)
    finally show ?thesis .
  qed (simp add: read_chunks.simps)
qed

lemma verify_artifact_Inr:
  "verify_artifact fs r = Inr u \<longleftrightarrow>
     (\<exists>path data. path_for_digest fs (af_digest r) = Inr path \<and> fs path = Some (FileNode data) \<and>
        int (length data) = af_size r \<and> sha256_hexdigest data = af_digest r)"
proof (cases "path_for_digest fs (af_digest r)")
  case (Inr p)
  then show ?thesis
    by (cases "fs p") (auto simp: verify_artifact_def result_simps read_chunks_all chunk_bytes_def split: fs_node.splits)
qed (simp add: verify_artifact_def)

lemma get_bytes_Inr:
  "get_bytes fs h = Inr data \<longleftrightarrow>
     (\<exists>path. path_for_digest fs (handle_digest h) = Inr path \<and> fs path = Some (FileNode data) \<and>
        int (length data) = (case h of Inl r \<Rightarrow> af_size r | Inr _ \<Rightarrow> int (length data)) \<and>
        sha256_hexdigest data = handle_digest h)"
proof (cases "path_for_digest fs (handle_digest h)")
  case (Inr p)
  then show ?thesis
    by (cases "fs p") (auto simp: get_bytes_def verify_bytes_def result_simps split: fs_node.splits)
qed (simp add: get_bytes_def)

lemma path_for_digest_Inr: "path_for_digest fs d = Inr p \<Longrightarrow> p = blob_path d"
  by (auto simp: path_for_digest_def result_simps)

lemma map_resultE_ok: "map_resultE f xs = Inr ys \<Longrightarrow> x \<in> set xs \<Longrightarrow> \<exists>y. f x = Inr y"
  by (induction xs arbitrary: ys) (auto simp: result_simps)

lemma safe_path_no_links:
  assumes "path_for_digest fs d = Inr p" "k \<le> length p"
  shows "fs (take k p) \<noteq> Some (LinkNode b)"
proof -
  have "p = blob_path d" using path_for_digest_Inr assms(1) .
  then obtain u where "map_resultE (\<lambda>k. assert_no_link_or_reparse_point fs (take k p)) [0..<Suc (length p)] = Inr u"
    using assms(1) by (auto simp: path_for_digest_def assert_safe_store_path_def result_simps)
  then obtain y where "assert_no_link_or_reparse_point fs (take k p) = Inr y"
    using map_resultE_ok [of _ _ u k] assms(2) by fastforce
  then show ?thesis
    by (auto simp: assert_no_link_or_reparse_point_def is_link_or_reparse_point_def result_simps split: if_splits)
qed

text \<open>
  C36. Reads are authenticated: whatever is on the disk, the bytes \<open>get_bytes\<close> returns have the
  requested SHA-256 and, for a reference, the recorded size, they are the content of the
  blob file of that digest, and no component of the path to it is a link.
\<close>

theorem artifact_reads_are_authentic:
  assumes "get_bytes fs h = Inr data"
  shows "sha256_hexdigest data = handle_digest h \<and> fs (blob_path (handle_digest h)) = Some (FileNode data) \<and>
    (\<forall>r. h = Inl r \<longrightarrow> int (length data) = af_size r) \<and>
    (\<forall>k b. k \<le> 4 \<longrightarrow> fs (take k (blob_path (handle_digest h))) \<noteq> Some (LinkNode b))"
proof -
  obtain p where p: "path_for_digest fs (handle_digest h) = Inr p" "fs p = Some (FileNode data)"
    "int (length data) = (case h of Inl r \<Rightarrow> af_size r | Inr _ \<Rightarrow> int (length data))"
    "sha256_hexdigest data = handle_digest h"
    using assms get_bytes_Inr by blast
  have "p = blob_path (handle_digest h)" using path_for_digest_Inr p(1) .
  moreover have "length p = 4" using calculation by (simp add: blob_path_def)
  ultimately show ?thesis using p safe_path_no_links [OF p(1)] by auto
qed

lemma put_bytes_verified:
  assumes "put_bytes others data fs = (Inr ref, fs')"
  shows "ref = \<lparr>af_digest = sha256_hexdigest data, af_size = int (length data), af_algorithm = ''sha256''\<rparr> \<and>
    verify_artifact fs' ref = Inr ()"
  using assms
  by (auto simp: put_bytes_def Let_def ArtifactRef_init_def result_simps split: sum.splits if_splits prod.splits)

text \<open>
  What was put can be got: whatever other processes do to the files while a blob is
  being stored, if \<open>put_bytes\<close> returns a reference then it names the SHA-256 and the size of
  the data, and reading it back returns the data, unless the stored bytes and the data are
  themselves a SHA-256 collision.
\<close>

theorem artifact_put_get:
  assumes "put_bytes others data fs = (Inr ref, fs')"
  shows "af_digest ref = sha256_hexdigest data \<and> af_size ref = int (length data) \<and>
    (\<exists>stored. get_bytes fs' (Inl ref) = Inr stored \<and> (stored = data \<or> collides sha256_hexdigest stored data))"
proof -
  note ref = put_bytes_verified [OF assms]
  obtain path stored where "path_for_digest fs' (af_digest ref) = Inr path" "fs' path = Some (FileNode stored)"
    "int (length stored) = af_size ref" "sha256_hexdigest stored = af_digest ref"
    using ref verify_artifact_Inr by blast
  then have "get_bytes fs' (Inl ref) = Inr stored" by (simp add: get_bytes_Inr handle_digest_def)
  then show ?thesis using ref \<open>sha256_hexdigest stored = af_digest ref\<close> by (auto simp: collides_def)
qed

section \<open>Healthy stores\<close>

definition healthy :: "store_fs \<Rightarrow> bool" where
  "healthy fs \<longleftrightarrow> fs [] = Some DirNode \<and> fs [''sha256''] = Some DirNode \<and>
     (\<forall>p b. fs p \<noteq> Some (LinkNode b)) \<and>
     (\<forall>a b. fs [''sha256'', a] \<in> {None, Some DirNode} \<and> fs [''sha256'', a, b] \<in> {None, Some DirNode}) \<and>
     (\<forall>d. is_sha256_text d \<longrightarrow>
        fs (blob_path d) = None \<or> (\<exists>data. fs (blob_path d) = Some (FileNode data) \<and> sha256_hexdigest data = d))"

lemma healthy_prefix:
  assumes "healthy fs" "k < 4"
  shows "fs (take k (blob_path d)) \<in> {None, Some DirNode}"
proof -
  have "k = 0 \<or> k = 1 \<or> k = 2 \<or> k = 3" using assms(2) by auto
  then show ?thesis
    using assms(1) unfolding healthy_def blob_path_def by (elim disjE) (simp_all add: numeral_eq_Suc)
qed

lemma healthy_path_for_digest:
  assumes "healthy fs" "is_sha256_text d"
  shows "path_for_digest fs d = Inr (blob_path d)"
proof -
  have len: "length (blob_path d) = 4" by (simp add: blob_path_def)
  have "is_link_or_reparse_point fs (take k (blob_path d)) = Inr False" if "k \<le> 4" for k
  proof -
    have "\<not> is_file fs (take j (take k (blob_path d)))" if "j < length (take k (blob_path d))" for j
      using healthy_prefix [OF assms(1), of j d] that \<open>k \<le> 4\<close> len
      by (auto simp: is_file_def min_def split: if_splits)
    then show ?thesis using assms(1)
      by (auto simp: is_link_or_reparse_point_def list_ex_iff healthy_def split: option.splits fs_node.splits)
  qed
  then have "assert_no_link_or_reparse_point fs (take k (blob_path d)) = Inr ()" if "k \<in> set [0..<Suc 4]" for k
    using that by (simp add: assert_no_link_or_reparse_point_def)
  then have "\<exists>u. map_resultE (\<lambda>k. assert_no_link_or_reparse_point fs (take k (blob_path d))) ks = Inr u"
    if "set ks \<subseteq> set [0..<Suc 4]" for ks
    using that by (induction ks) auto
  then show ?thesis
    using assms(2) len by (fastforce simp: path_for_digest_def assert_safe_store_path_def require_def)
qed

lemma healthy_dir:
  assumes "healthy fs" "length p < 4" "fs p = None"
  shows "healthy (fs(p \<mapsto> DirNode))"
proof -
  have "p \<noteq> blob_path d" for d using assms(2) by (auto simp: blob_path_def)
  then show ?thesis using assms(1,3) unfolding healthy_def by auto
qed

lemma healthy_blob:
  assumes "healthy fs" "fs (blob_path (sha256_hexdigest data)) = None"
  shows "healthy (fs(blob_path (sha256_hexdigest data) \<mapsto> FileNode data))"
proof -
  have "blob_path d = blob_path d' \<longleftrightarrow> d = d'" for d d' by (auto simp: blob_path_def)
  then show ?thesis using assms unfolding healthy_def by (auto simp: blob_path_def)
qed

lemma blob_ancestors: "ancestors (blob_path d) = map (\<lambda>k. take k (blob_path d)) [0..<4]"
proof -
  have "length (blob_path d) = 4" by (simp add: blob_path_def)
  then show ?thesis by (simp add: ancestors_def)
qed

lemma healthy_mkdirs:
  assumes "healthy fs" "set ks \<subseteq> {..<4}"
  shows "\<exists>fs'. mkdirs (map (\<lambda>k. take k (blob_path d)) ks) fs = Inr fs' \<and> healthy fs' \<and> fs \<subseteq>\<^sub>m fs' \<and>
    (\<forall>k \<in> set ks. fs' (take k (blob_path d)) = Some DirNode) \<and> fs' (blob_path d) = fs (blob_path d)"
  using assms
proof (induction ks arbitrary: fs)
  case (Cons k ks)
  let ?p = "take k (blob_path d)"
  have p: "length ?p < 4" "?p \<noteq> blob_path d" using Cons.prems(2) by (auto simp: blob_path_def)
  obtain fs1 where fs1: "mkdir ?p fs = Inr fs1" "healthy fs1" "fs \<subseteq>\<^sub>m fs1" "fs1 ?p = Some DirNode"
    "fs1 (blob_path d) = fs (blob_path d)"
  proof (cases "fs ?p")
    case None
    then have "fs \<subseteq>\<^sub>m fs(?p \<mapsto> DirNode)" by (auto simp: map_le_def)
    then show thesis
      using None healthy_dir [OF Cons.prems(1) p(1)] p(2) [symmetric]
      by (intro that [of "fs(?p \<mapsto> DirNode)"]) (auto simp: mkdir_def)
  next
    case (Some n)
    then have "n = DirNode" using healthy_prefix [OF Cons.prems(1), of k d] Cons.prems(2) by simp
    then show thesis using that [of fs] Some Cons.prems(1) by (simp add: mkdir_def)
  qed
  obtain fs' where fs': "mkdirs (map (\<lambda>k. take k (blob_path d)) ks) fs1 = Inr fs'" "healthy fs'" "fs1 \<subseteq>\<^sub>m fs'"
    "\<forall>k \<in> set ks. fs' (take k (blob_path d)) = Some DirNode" "fs' (blob_path d) = fs1 (blob_path d)"
    using Cons.IH [OF fs1(2)] Cons.prems(2) by auto
  have "fs' ?p = Some DirNode" using fs'(3) fs1(4) by (metis domI map_le_def)
  then show ?case using fs1 fs' map_le_trans by auto
qed simp

lemma healthy_blob_dirs:
  assumes "healthy fs"
  obtains fs' where "mkdirs (ancestors (blob_path d)) fs = Inr fs'" "healthy fs'" "fs \<subseteq>\<^sub>m fs'"
    "fs' (butlast (blob_path d)) = Some DirNode" "fs' (blob_path d) = fs (blob_path d)"
proof -
  have "set [0..<4] \<subseteq> {..<4 :: nat}" by auto
  then obtain fs' where fs': "mkdirs (ancestors (blob_path d)) fs = Inr fs'" "healthy fs'" "fs \<subseteq>\<^sub>m fs'"
    "\<forall>k \<in> set [0..<4]. fs' (take k (blob_path d)) = Some DirNode" "fs' (blob_path d) = fs (blob_path d)"
    using healthy_mkdirs [OF assms] unfolding blob_ancestors by blast
  have "butlast (blob_path d) = take 3 (blob_path d)" by (simp add: blob_path_def)
  then show thesis using that [OF fs'(1-3) _ fs'(5)] fs'(4) by simp
qed

lemma healthy_put:
  assumes "healthy fs" "\<And>f. healthy f \<Longrightarrow> healthy (others f) \<and> f \<subseteq>\<^sub>m others f"
  shows "\<exists>r fs'. put_bytes others data fs = (r, fs') \<and> healthy fs' \<and> fs \<subseteq>\<^sub>m fs' \<and>
    ((\<exists>ref. r = Inr ref) \<or>
     (\<exists>stored. fs' (blob_path (sha256_hexdigest data)) = Some (FileNode stored) \<and> collides sha256_hexdigest stored data))"
proof -
  let ?d = "sha256_hexdigest data"
  let ?t = "blob_path ?d"
  let ?ref = "\<lparr>af_digest = ?d, af_size = int (length data), af_algorithm = ''sha256''\<rparr>"
  have path: "path_for_digest f ?d = Inr ?t" if "healthy f" for f
    using healthy_path_for_digest [OF that] by simp
  have ref: "ArtifactRef_init ?ref = Inr ?ref" by (simp add: ArtifactRef_init_def result_simps)
  have check: "verify_artifact f ?ref = Inr () \<or>
      (\<exists>stored. f ?t = Some (FileNode stored) \<and> collides sha256_hexdigest stored data)"
    if f: "healthy f" "f ?t \<noteq> None" for f
  proof -
    obtain stored where st: "f ?t = Some (FileNode stored)" "sha256_hexdigest stored = ?d"
      using f unfolding healthy_def by force
    show ?thesis
    proof (cases "stored = data")
      case True
      then show ?thesis using st path [OF f(1)] by (simp add: verify_artifact_Inr)
    qed (use st in \<open>auto simp: collides_def\<close>)
  qed
  show ?thesis
  proof (cases "fs ?t = None")
    case False
    then show ?thesis
      using check [OF assms(1)] path [OF assms(1)] ref assms(1)
      by (auto simp: put_bytes_def Let_def bindE_eq_Inr)
  next
    case True
    obtain fs1 where fs1: "mkdirs (ancestors ?t) fs = Inr fs1" "healthy fs1" "fs \<subseteq>\<^sub>m fs1"
      "fs1 (butlast ?t) = Some DirNode"
      using healthy_blob_dirs [OF assms(1), of ?d] .
    let ?f = "others fs1"
    have f: "healthy ?f" "fs1 \<subseteq>\<^sub>m ?f" using assms(2) fs1(2) by blast+
    have dir: "?f (butlast ?t) = Some DirNode" using f(2) fs1(4) by (metis domI map_le_def)
    define fs2 where "fs2 = (if ?f ?t \<noteq> None then ?f else ?f(?t \<mapsto> FileNode data))"
    have pub: "publish ?t data ?f = Inr fs2" using dir by (simp add: publish_def fs2_def)
    have fs2: "healthy fs2" "?f \<subseteq>\<^sub>m fs2" "fs2 ?t \<noteq> None"
      using f(1) healthy_blob [OF f(1)] by (auto simp: fs2_def map_le_def)
    have "put_bytes others data fs = (bindE (verify_artifact fs2 ?ref) (\<lambda>_. Inr ?ref), fs2)"
      using True path [OF assms(1)] ref fs1(1) pub by (simp add: put_bytes_def Let_def)
    moreover have "fs \<subseteq>\<^sub>m fs2" using fs1(3) f(2) fs2(2) map_le_trans by blast
    ultimately show ?thesis using check [OF fs2(1,3)] fs2(1) by (auto simp: bindE_eq_Inr)
  qed
qed

text \<open>
  C37. A healthy store stays healthy: if no links are planted and every blob file holds data of
  its digest, then storing any data, concurrently with writers that only add to the store
  and keep it healthy, keeps it healthy, changes no existing file, and succeeds, unless the
  bytes already stored under the digest collide with the data under SHA-256.
\<close>

theorem healthy_store_put:
  assumes "healthy fs" "\<And>f. healthy f \<Longrightarrow> healthy (others f) \<and> f \<subseteq>\<^sub>m others f"
  shows "\<exists>r fs'. put_bytes others data fs = (r, fs') \<and> healthy fs' \<and> fs \<subseteq>\<^sub>m fs' \<and>
    ((\<exists>ref. r = Inr ref) \<or>
     (\<exists>stored. fs' (blob_path (sha256_hexdigest data)) = Some (FileNode stored) \<and> collides sha256_hexdigest stored data))"
  using healthy_put [OF assms] .

section \<open>Witnesses\<close>

definition sample_store :: store_fs where
  "sample_store = [[] \<mapsto> DirNode, [''sha256''] \<mapsto> DirNode]"

lemma sample_store_healthy: "healthy sample_store"
  by (simp add: healthy_def sample_store_def blob_path_def)

lemma fresh_put:
  assumes "healthy fs" "fs (blob_path (sha256_hexdigest data)) = None"
  shows "\<exists>ref fs'. put_bytes id data fs = (Inr ref, fs')"
proof -
  let ?d = "sha256_hexdigest data"
  let ?ref = "\<lparr>af_digest = ?d, af_size = int (length data), af_algorithm = ''sha256''\<rparr>"
  obtain fs1 where fs1: "mkdirs (ancestors (blob_path ?d)) fs = Inr fs1" "healthy fs1"
    "fs1 (butlast (blob_path ?d)) = Some DirNode" "fs1 (blob_path ?d) = fs (blob_path ?d)"
    using healthy_blob_dirs [OF assms(1), of ?d] .
  have "healthy (fs1(blob_path ?d \<mapsto> FileNode data))" using healthy_blob fs1(2,4) assms(2) by simp
  then have "verify_artifact (fs1(blob_path ?d \<mapsto> FileNode data)) ?ref = Inr ()"
    using healthy_path_for_digest by (simp add: verify_artifact_Inr)
  then show ?thesis
    using healthy_path_for_digest [OF assms(1), of ?d] assms(2) fs1(1,3,4)
    by (simp add: put_bytes_def Let_def ArtifactRef_init_def require_all.simps publish_def)
qed

lemma sample_put: "\<exists>ref fs'. put_bytes id data sample_store = (Inr ref, fs')"
  by (rule fresh_put [OF sample_store_healthy]) (simp add: sample_store_def blob_path_def)

theorem artifact_put_get_witness:
  "\<exists>ref fs' stored. put_bytes id ''blob'' sample_store = (Inr ref, fs') \<and> get_bytes fs' (Inl ref) = Inr stored \<and>
    (stored = ''blob'' \<or> collides sha256_hexdigest stored ''blob'')"
proof -
  obtain ref fs' where r: "put_bytes id ''blob'' sample_store = (Inr ref, fs')" using sample_put by blast
  show ?thesis using artifact_put_get [OF r] r by blast
qed

theorem artifact_reads_are_authentic_witness:
  "\<exists>ref fs' stored. put_bytes id ''blob'' sample_store = (Inr ref, fs') \<and> get_bytes fs' (Inl ref) = Inr stored \<and>
    sha256_hexdigest stored = af_digest ref"
proof -
  obtain ref fs' where r: "put_bytes id ''blob'' sample_store = (Inr ref, fs')" using sample_put by blast
  obtain path stored where "path_for_digest fs' (af_digest ref) = Inr path" "fs' path = Some (FileNode stored)"
    "int (length stored) = af_size ref" "sha256_hexdigest stored = af_digest ref"
    using put_bytes_verified [OF r] verify_artifact_Inr by blast
  then have g: "get_bytes fs' (Inl ref) = Inr stored" by (simp add: get_bytes_Inr handle_digest_def)
  show ?thesis using artifact_reads_are_authentic [OF g] g r by (auto simp: handle_digest_def)
qed

theorem healthy_store_put_witness: "\<exists>r fs'. put_bytes id ''blob'' sample_store = (r, fs') \<and> healthy fs'"
  using healthy_store_put [OF sample_store_healthy, of id "''blob''"] by auto

end
