(* ===== verification/Leases.thy ===== *)
theory Leases
  imports Datetime
begin

text \<open>
  \<open>leases.py\<close>: fenced worker leases in SQLite. The two tables are fields of a record that the
  event store extends, since both live in one database file; a transaction that raises
  leaves the state unchanged. Instants are whole microseconds: the \<open>REAL\<close> epoch columns hold
  \<open>timestamp()\<close> values, which are exact to the microsecond and order-preserving before 2242.
  The clock reading of an operation is its first argument. A lifetime is a whole number of
  microseconds: the source takes float seconds, tests \<open>ttl_seconds <= 0\<close> and rounds in \<open>timedelta\<close>, so
  a positive lifetime below half a microsecond, which grants a lease that has already expired, is
  outside the model, and so is the \<open>OverflowError\<close> of an expiry after the year 9999.
  Shown: fencing tokens of a job only grow, a running lease excludes every other worker, and a
  holder whose token was superseded never becomes current again, whatever steps other workers take.
\<close>

section \<open>State and operations\<close>

record Lease =
  ls_job_id :: string
  ls_holder_id :: string
  ls_fencing_token :: int
  ls_expires_at :: datetime

definition Lease_init :: "Lease \<Rightarrow> Lease result" where
  "Lease_init l =
     bindE (require_all
       [(nonblank (ls_job_id l) \<and> nonblank (ls_holder_id l), ''job_id and holder_id must not be empty''),
        (ls_fencing_token l > 0, ''fencing_token must be positive''),
        (aware (ls_expires_at l), ''expires_at must be timezone-aware'')])
       (\<lambda>_. Inr l)"

record lease_row =
  lr_holder_id :: string
  lr_fencing_token :: int
  lr_expires_at :: int
  lr_updated_at :: int

record lease_db =
  worker_leases :: "string \<Rightarrow> lease_row option"
  lease_counters :: "string \<Rightarrow> int option"

definition lease_utc_now :: "datetime \<Rightarrow> datetime result" where
  "lease_utc_now clock =
     (if aware clock then Inr (as_utc clock)
      else Inl (ValueError ''lease clock must return a timezone-aware datetime''))"

definition row_to_lease :: "string \<Rightarrow> lease_row \<Rightarrow> Lease result" where
  "row_to_lease job row = Lease_init
     \<lparr>ls_job_id = job, ls_holder_id = lr_holder_id row, ls_fencing_token = lr_fencing_token row,
      ls_expires_at = utc (lr_expires_at row)\<rparr>"

text \<open>The part of \<open>claim\<close> that issues a new token and replaces the row.\<close>

definition next_token :: "'a lease_db_scheme \<Rightarrow> string \<Rightarrow> int" where
  "next_token db job = (case lease_counters db job of None \<Rightarrow> 1 | Some n \<Rightarrow> n + 1)"

definition grant :: "int \<Rightarrow> string \<Rightarrow> string \<Rightarrow> int \<Rightarrow> 'a lease_db_scheme \<Rightarrow> 'a lease_db_scheme" where
  "grant now job holder ttl db =
     (let token = next_token db job in
      db\<lparr>lease_counters := (lease_counters db)(job \<mapsto> token),
         worker_leases := (worker_leases db)(job \<mapsto>
           \<lparr>lr_holder_id = holder, lr_fencing_token = token, lr_expires_at = now + ttl, lr_updated_at = now\<rparr>)\<rparr>)"

definition live_row :: "'a lease_db_scheme \<Rightarrow> int \<Rightarrow> string \<Rightarrow> lease_row option" where
  "live_row db now job =
     (case worker_leases db job of
        Some row \<Rightarrow> if lr_expires_at row > now then Some row else None
      | None \<Rightarrow> None)"

definition claim ::
  "datetime \<Rightarrow> string \<Rightarrow> string \<Rightarrow> int \<Rightarrow> 'a lease_db_scheme \<Rightarrow> Lease result \<times> 'a lease_db_scheme" where
  "claim clock job holder ttl db =
     (case bindE (require_all
         [(nonblank job \<and> nonblank holder, ''job_id and holder_id must not be empty''),
          (ttl > 0, ''ttl_seconds must be positive'')]) (\<lambda>_. lease_utc_now clock) of
        Inl e \<Rightarrow> (Inl e, db)
      | Inr now \<Rightarrow>
          (case live_row db (dt_us now) job of
             Some row \<Rightarrow>
               if lr_holder_id row \<noteq> holder
               then (Inl (LeaseUnavailable ''job is leased by another worker''), db)
               else (row_to_lease job row, db)
           | None \<Rightarrow>
               (Lease_init \<lparr>ls_job_id = job, ls_holder_id = holder, ls_fencing_token = next_token db job,
                  ls_expires_at = utc (dt_us now + ttl)\<rparr>,
                grant (dt_us now) job holder ttl db)))"

definition row_matches :: "lease_row \<Rightarrow> Lease \<Rightarrow> bool" where
  "row_matches row l \<longleftrightarrow> lr_holder_id row = ls_holder_id l \<and> lr_fencing_token row = ls_fencing_token l"

definition renew :: "datetime \<Rightarrow> Lease \<Rightarrow> int \<Rightarrow> 'a lease_db_scheme \<Rightarrow> Lease result \<times> 'a lease_db_scheme" where
  "renew clock l ttl db =
     (case bindE (require_all [(ttl > 0, ''ttl_seconds must be positive'')]) (\<lambda>_. lease_utc_now clock) of
        Inl e \<Rightarrow> (Inl e, db)
      | Inr now \<Rightarrow>
          (case worker_leases db (ls_job_id l) of
             Some row \<Rightarrow>
               if row_matches row l \<and> lr_expires_at row > dt_us now
               then (Lease_init (l\<lparr>ls_expires_at := utc (dt_us now + ttl)\<rparr>),
                     db\<lparr>worker_leases := (worker_leases db)(ls_job_id l \<mapsto>
                       row\<lparr>lr_expires_at := dt_us now + ttl, lr_updated_at := dt_us now\<rparr>)\<rparr>)
               else (Inl (StaleFence ''lease cannot be renewed because its fencing token is stale''), db)
           | None \<Rightarrow> (Inl (StaleFence ''lease cannot be renewed because its fencing token is stale''), db)))"

definition assert_current :: "datetime \<Rightarrow> Lease \<Rightarrow> 'a lease_db_scheme \<Rightarrow> unit result" where
  "assert_current clock l db =
     bindE (lease_utc_now clock) (\<lambda>now.
     case worker_leases db (ls_job_id l) of
       None \<Rightarrow> Inl (StaleFence ''lease no longer exists'')
     | Some row \<Rightarrow>
         require (row_matches row l \<and> \<not> lr_expires_at row \<le> dt_us now)
           (StaleFence ''lease fencing token is stale or expired''))"

definition current :: "datetime \<Rightarrow> string \<Rightarrow> 'a lease_db_scheme \<Rightarrow> Lease option result" where
  "current clock job db =
     bindE (require_all [(nonblank job, ''job_id must not be empty'')]) (\<lambda>_.
     bindE (lease_utc_now clock) (\<lambda>now.
     case worker_leases db job of
       None \<Rightarrow> Inr None
     | Some row \<Rightarrow>
         if lr_expires_at row \<le> dt_us now then Inr None
         else bindE (row_to_lease job row) (\<lambda>l. Inr (Some l))))"

text \<open>
  \<open>release\<close> checks the lease and deletes its row in a second transaction, so other workers
  may act in between; \<open>release_delete\<close> is that transaction.
\<close>

definition release_delete :: "Lease \<Rightarrow> 'a lease_db_scheme \<Rightarrow> unit result \<times> 'a lease_db_scheme" where
  "release_delete l db =
     (case worker_leases db (ls_job_id l) of
        Some row \<Rightarrow>
          if row_matches row l
          then (Inr (), db\<lparr>worker_leases := (worker_leases db)(ls_job_id l := None)\<rparr>)
          else (Inl (StaleFence ''lease fencing token became stale before release''), db)
      | None \<Rightarrow> (Inl (StaleFence ''lease fencing token became stale before release''), db))"

definition release :: "datetime \<Rightarrow> Lease \<Rightarrow> 'a lease_db_scheme \<Rightarrow> unit result \<times> 'a lease_db_scheme" where
  "release clock l db =
     (case assert_current clock l db of Inl e \<Rightarrow> (Inl e, db) | Inr _ \<Rightarrow> release_delete l db)"

definition empty_leases :: lease_db where
  "empty_leases = \<lparr>worker_leases = \<lambda>_. None, lease_counters = \<lambda>_. None\<rparr>"

section \<open>The contract of a fencing service\<close>

text \<open>
  What a client that commits under a fence relies on. \<open>issued s job\<close> is the last token issued
  (0 before the first) and \<open>holder s job\<close> the recorded holder and token, live or not.
\<close>

locale fencing =
  fixes step :: "'s \<Rightarrow> 's \<Rightarrow> bool"
    and inv :: "'s \<Rightarrow> bool"
    and issued :: "'s \<Rightarrow> string \<Rightarrow> int"
    and holder :: "'s \<Rightarrow> string \<Rightarrow> (string \<times> int) option"
  assumes inv_step: "inv s \<Longrightarrow> step s s' \<Longrightarrow> inv s'"
    and holder_issued: "inv s \<Longrightarrow> holder s job = Some (h, t) \<Longrightarrow> t = issued s job"
    and issued_mono: "inv s \<Longrightarrow> step s s' \<Longrightarrow> issued s job \<le> issued s' job"
    and holder_kept: "inv s \<Longrightarrow> step s s' \<Longrightarrow> issued s' job = issued s job \<Longrightarrow>
      holder s' job = Some p \<Longrightarrow> holder s job = Some p"
begin

lemma inv_steps: "step\<^sup>*\<^sup>* s s' \<Longrightarrow> inv s \<Longrightarrow> inv s'"
  by (induction rule: rtranclp_induct) (auto intro: inv_step)

lemma issued_steps: "step\<^sup>*\<^sup>* s s' \<Longrightarrow> inv s \<Longrightarrow> issued s job \<le> issued s' job"
proof (induction rule: rtranclp_induct)
  case (step t u)
  then show ?case using issued_mono inv_steps order_trans by blast
qed simp

lemma holder_steps:
  "step\<^sup>*\<^sup>* s s' \<Longrightarrow> inv s \<Longrightarrow> issued s' job = issued s job \<Longrightarrow> holder s' job = Some p \<Longrightarrow>
     holder s job = Some p"
proof (induction rule: rtranclp_induct)
  case (step t u)
  have inv: "inv t" using inv_steps step by blast
  have "issued s job \<le> issued t job" "issued t job \<le> issued u job"
    using issued_steps issued_mono inv step by blast+
  then have eq: "issued t job = issued u job" "issued t job = issued s job" using step.prems by simp_all
  then have "holder t job = Some p" using holder_kept [OF inv] step by simp
  then show ?case using step.IH step.prems eq by simp
qed simp

lemma stale_forever:
  "step\<^sup>*\<^sup>* s s' \<Longrightarrow> inv s \<Longrightarrow> t < issued s job \<Longrightarrow> holder s' job \<noteq> Some (h, t)"
proof
  assume "step\<^sup>*\<^sup>* s s'" "inv s" "t < issued s job" "holder s' job = Some (h, t)"
  then have "t = issued s' job" "issued s job \<le> issued s' job"
    using holder_issued [OF inv_steps] issued_steps by blast+
  then show False using \<open>t < issued s job\<close> by simp
qed

lemma one_holder:
  assumes "step\<^sup>*\<^sup>* s s'" "inv s" "holder s job = Some (h, t)" "holder s' job = Some (h', t')"
  shows "t \<le> t' \<and> (t' = t \<longrightarrow> h' = h)"
proof -
  have t: "t = issued s job" "t' = issued s' job"
    using holder_issued assms inv_steps by blast+
  moreover have "t' = t \<Longrightarrow> holder s job = Some (h', t')"
    using holder_steps [OF assms(1,2) _ assms(4)] t by simp
  ultimately show ?thesis using issued_steps [OF assms(1,2)] assms(3) by auto
qed

end

section \<open>Leases implement the contract\<close>

definition lease_inv :: "'a lease_db_scheme \<Rightarrow> bool" where
  "lease_inv db \<longleftrightarrow>
     (\<forall>job row. worker_leases db job = Some row \<longrightarrow> lease_counters db job = Some (lr_fencing_token row)) \<and>
     (\<forall>job n. lease_counters db job = Some n \<longrightarrow> n > 0)"

definition last_issued :: "'a lease_db_scheme \<Rightarrow> string \<Rightarrow> int" where
  "last_issued db job = (case lease_counters db job of None \<Rightarrow> 0 | Some n \<Rightarrow> n)"

definition recorded_holder :: "'a lease_db_scheme \<Rightarrow> string \<Rightarrow> (string \<times> int) option" where
  "recorded_holder db job =
     map_option (\<lambda>row. (lr_holder_id row, lr_fencing_token row)) (worker_leases db job)"

text \<open>One transaction of any worker, at any reading of its clock.\<close>

inductive lease_step :: "'a lease_db_scheme \<Rightarrow> 'a lease_db_scheme \<Rightarrow> bool" where
  claim: "claim clock job holder ttl db = (r, db') \<Longrightarrow> lease_step db db'"
| renew: "renew clock l ttl db = (r', db') \<Longrightarrow> lease_step db db'"
| release: "release_delete l db = (r'', db') \<Longrightarrow> lease_step db db'"

inductive_cases lease_stepE: "lease_step db db'"

lemma lease_utc_now_Inr [result_simps]: "lease_utc_now c = Inr t \<longleftrightarrow> aware c \<and> t = as_utc c"
  by (auto simp: lease_utc_now_def)

lemma grant_simps [simp]:
  "worker_leases (grant now job h ttl db) = (worker_leases db)(job \<mapsto>
     \<lparr>lr_holder_id = h, lr_fencing_token = next_token db job, lr_expires_at = now + ttl, lr_updated_at = now\<rparr>)"
  "lease_counters (grant now job h ttl db) = (lease_counters db)(job \<mapsto> next_token db job)"
  by (simp_all add: grant_def Let_def)

lemma claim_cases:
  obtains (unchanged) "snd (claim clock job holder ttl db) = db"
  | (granted) now where "snd (claim clock job holder ttl db) = grant now job holder ttl db"
proof -
  have "snd (claim clock job holder ttl db) = db \<or> (\<exists>now. snd (claim clock job holder ttl db) = grant now job holder ttl db)"
    unfolding claim_def by (auto split: sum.splits option.splits)
  then show thesis using that by blast
qed

text \<open>
  Every transaction leaves the tables as they are, issues the next token of one job, extends
  or deletes the row of one job.
\<close>

lemma lease_step_effect:
  assumes "lease_step db db'"
  obtains (unchanged) "db' = db"
  | (granted) now job h ttl where "db' = grant now job h ttl db"
  | (renewed) job row e u where "worker_leases db job = Some row"
      "db' = db\<lparr>worker_leases := (worker_leases db)(job \<mapsto> row\<lparr>lr_expires_at := e, lr_updated_at := u\<rparr>)\<rparr>"
  | (deleted) job where "db' = db\<lparr>worker_leases := (worker_leases db)(job := None)\<rparr>"
  using assms
proof cases
  case (claim clock job holder ttl r)
  then have "db' = snd (claim clock job holder ttl db)" by simp
  then show ?thesis
    by (cases rule: claim_cases [of clock job holder ttl db]) (auto intro: unchanged granted)
next
  case (renew clock l ttl r')
  then show ?thesis
    by (auto simp: renew_def split: sum.splits option.splits if_splits intro: unchanged renewed)
next
  case (release l r'')
  then show ?thesis
    by (auto simp: release_delete_def split: option.splits if_splits intro: unchanged deleted)
qed

lemma next_token_issued: "next_token db job = last_issued db job + 1"
  by (simp add: next_token_def last_issued_def split: option.splits)

lemma last_issued_grant:
  "last_issued (grant now job h ttl db) j = (if j = job then last_issued db job + 1 else last_issued db j)"
  by (simp add: last_issued_def next_token_def split: option.splits)

lemma last_issued_leases [simp]: "last_issued (db\<lparr>worker_leases := w\<rparr>) = last_issued db"
  by (simp add: last_issued_def fun_eq_iff)

lemma last_issued_nonneg: "lease_inv db \<Longrightarrow> 0 \<le> last_issued db job"
  by (cases "lease_counters db job") (auto simp: lease_inv_def last_issued_def intro: order_less_imp_le)

lemma lease_inv_grant: "lease_inv db \<Longrightarrow> lease_inv (grant now job h ttl db)"
  using last_issued_nonneg [of db job] by (auto simp: lease_inv_def next_token_issued)

lemma lease_inv_step: "lease_inv db \<Longrightarrow> lease_step db db' \<Longrightarrow> lease_inv db'"
  by (erule lease_step_effect) (auto simp: lease_inv_grant, auto simp: lease_inv_def)

lemma last_issued_step: "lease_step db db' \<Longrightarrow> last_issued db job \<le> last_issued db' job"
  by (erule lease_step_effect) (auto simp: last_issued_grant)

lemma recorded_holder_step:
  assumes "lease_step db db'" "last_issued db' job = last_issued db job" "recorded_holder db' job = Some p"
  shows "recorded_holder db job = Some p"
  using assms(1)
proof (cases rule: lease_step_effect)
  case (granted now j h ttl)
  then show ?thesis
    using assms(2,3) by (auto simp: last_issued_grant recorded_holder_def split: if_splits)
next
  case (renewed j row e u)
  then show ?thesis using assms(3) by (auto simp: recorded_holder_def split: if_splits)
next
  case (deleted j)
  then show ?thesis using assms(3) by (auto simp: recorded_holder_def split: if_splits)
qed (use assms(3) in simp)

lemma recorded_holder_issued:
  "lease_inv db \<Longrightarrow> recorded_holder db job = Some (h, t) \<Longrightarrow> t = last_issued db job"
  by (auto simp: lease_inv_def recorded_holder_def last_issued_def)

interpretation leases: fencing lease_step lease_inv last_issued recorded_holder
  by unfold_locales
    (auto intro: lease_inv_step recorded_holder_issued last_issued_step recorded_holder_step)

section \<open>Properties\<close>

lemma Lease_init_Inr [result_simps]:
  "Lease_init l = Inr l' \<longleftrightarrow> l' = l \<and> nonblank (ls_job_id l) \<and> nonblank (ls_holder_id l) \<and>
     ls_fencing_token l > 0 \<and> aware (ls_expires_at l)"
  by (auto simp: Lease_init_def result_simps)

text \<open>A successful claim: the returned lease is the recorded row of the new state.\<close>

lemma claim_Inr:
  assumes "claim clock job holder ttl db = (Inr l, db')"
  shows "ls_job_id l = job \<and> ls_holder_id l = holder \<and> aware clock \<and> ttl > 0 \<and> lease_step db db' \<and>
    (\<exists>row. worker_leases db' job = Some row \<and> row_matches row l \<and> lr_expires_at row > dt_us clock \<and>
       ls_expires_at l = utc (lr_expires_at row))"
proof -
  have now: "aware clock" "ttl > 0"
    "(case live_row db (dt_us clock) job of
         Some row \<Rightarrow> if lr_holder_id row \<noteq> holder
           then (Inl (LeaseUnavailable ''job is leased by another worker''), db) else (row_to_lease job row, db)
       | None \<Rightarrow> (Lease_init \<lparr>ls_job_id = job, ls_holder_id = holder, ls_fencing_token = next_token db job,
            ls_expires_at = utc (dt_us clock + ttl)\<rparr>, grant (dt_us clock) job holder ttl db)) = (Inr l, db')"
    using assms unfolding claim_def by (auto simp: result_simps split: sum.splits option.splits)
  have "lease_step db db'" using assms by (rule lease_step.claim)
  then show ?thesis
    using now assms
    by (auto simp: live_row_def row_to_lease_def result_simps row_matches_def split: option.splits if_splits)
qed

lemma claim_recorded:
  "claim clock job holder ttl db = (Inr l, db') \<Longrightarrow>
     recorded_holder db' (ls_job_id l) = Some (ls_holder_id l, ls_fencing_token l)"
  using claim_Inr by (fastforce simp: recorded_holder_def row_matches_def)

lemma assert_current_Inr:
  "assert_current clock l db = Inr u \<Longrightarrow> recorded_holder db (ls_job_id l) = Some (ls_holder_id l, ls_fencing_token l)"
  by (auto simp: assert_current_def recorded_holder_def row_matches_def result_simps split: option.splits)

text \<open>
  What anyone may do while a granted lease \<open>l\<close> runs: claim at clock readings before its expiry
  (at any reading for other jobs), renew or release any other lease; its own holder may
  also renew it, but not to an earlier expiry.
\<close>

definition same_fence :: "Lease \<Rightarrow> Lease \<Rightarrow> bool" where
  "same_fence l l' \<longleftrightarrow> ls_job_id l = ls_job_id l' \<and> ls_holder_id l = ls_holder_id l' \<and>
     ls_fencing_token l = ls_fencing_token l'"

inductive other_step :: "Lease \<Rightarrow> 'a lease_db_scheme \<Rightarrow> 'a lease_db_scheme \<Rightarrow> bool" for l where
  claim: "claim clock job holder ttl db = (r, db') \<Longrightarrow>
    job \<noteq> ls_job_id l \<or> dt_us clock < dt_us (ls_expires_at l) \<Longrightarrow> other_step l db db'"
| renew: "renew clock l' ttl db = (r', db') \<Longrightarrow>
    \<not> same_fence l' l \<or> dt_us clock + ttl \<ge> dt_us (ls_expires_at l) \<Longrightarrow> other_step l db db'"
| release: "release_delete l' db = (r'', db') \<Longrightarrow> \<not> same_fence l' l \<Longrightarrow> other_step l db db'"

definition held :: "Lease \<Rightarrow> 'a lease_db_scheme \<Rightarrow> bool" where
  "held l db \<longleftrightarrow> (\<exists>row. worker_leases db (ls_job_id l) = Some row \<and> row_matches row l \<and>
     lr_expires_at row \<ge> dt_us (ls_expires_at l))"

lemma held_step:
  assumes "other_step l db db'" "held l db"
  shows "held l db'"
  using assms(1)
proof cases
  case (claim clock job holder ttl r)
  then show ?thesis
    using assms(2)
    by (cases "job = ls_job_id l")
      (auto simp: held_def claim_def live_row_def result_simps split: sum.splits option.splits if_splits)
next
  case (renew clock l' ttl r')
  then show ?thesis
    using assms(2)
    by (cases "ls_job_id l' = ls_job_id l")
      (auto simp: held_def renew_def row_matches_def same_fence_def result_simps split: sum.splits option.splits if_splits)
next
  case (release l' r'')
  then show ?thesis
    using assms(2)
    by (cases "ls_job_id l' = ls_job_id l")
      (auto simp: held_def release_delete_def row_matches_def same_fence_def split: option.splits if_splits)
qed

lemma held_steps: "(other_step l)\<^sup>*\<^sup>* db db' \<Longrightarrow> held l db \<Longrightarrow> held l db'"
  by (induction rule: rtranclp_induct) (auto intro: held_step)

text \<open>
  C31. A granted lease excludes every other worker until it expires. After a successful claim, and
  after any later claims of anyone before the expiry and renewals and releases of other leases, at
  every clock reading before the expiry the lease passes \<open>assert_current\<close>; a claim of any other
  worker is refused with \<open>LeaseUnavailable\<close> and changes nothing; a further claim of the
  holder returns the lease under the same fencing token, not shortened, and changes nothing;
  and no lease of the job with another holder or token passes \<open>assert_current\<close> at any time. The
  token is the last one issued for the job.
\<close>

theorem claim_exclusive:
  assumes "lease_inv db" "claim clock job holder ttl db = (Inr l, db1)" "(other_step l)\<^sup>*\<^sup>* db1 db2"
    and "aware time" "dt_us time < dt_us (ls_expires_at l)"
  shows "ls_fencing_token l = last_issued db1 job \<and> assert_current time l db2 = Inr () \<and>
    (\<forall>other time'. ls_job_id other = job \<and> assert_current time' other db2 = Inr () \<longrightarrow>
       ls_holder_id other = holder \<and> ls_fencing_token other = ls_fencing_token l) \<and>
    (\<forall>h ttl'. h \<noteq> holder \<and> nonblank h \<and> ttl' > 0 \<longrightarrow>
       (\<exists>m. claim time job h ttl' db2 = (Inl (LeaseUnavailable m), db2))) \<and>
    (\<forall>ttl'. ttl' > 0 \<longrightarrow> (\<exists>l'. claim time job holder ttl' db2 = (Inr l', db2) \<and> same_fence l' l \<and>
       dt_us (ls_expires_at l) \<le> dt_us (ls_expires_at l')))"
proof (intro conjI)
  note c = claim_Inr [OF assms(2)] and r = claim_recorded [OF assms(2)]
  have "lease_inv db1" using leases.inv_step assms(1) c by blast
  then show token: "ls_fencing_token l = last_issued db1 job" using recorded_holder_issued r c by blast
  have "held l db1" using c by (auto simp: held_def)
  then have "held l db2" using held_steps assms(3) by blast
  then obtain row where row: "worker_leases db2 job = Some row" "row_matches row l"
    "lr_expires_at row \<ge> dt_us (ls_expires_at l)"
    using c by (auto simp: held_def)
  then have live: "live_row db2 (dt_us time) job = Some row" using assms(5) by (simp add: live_row_def)
  show "assert_current time l db2 = Inr ()"
    using row c assms(4,5) by (auto simp: assert_current_def result_simps)
  show "\<forall>other time'. ls_job_id other = job \<and> assert_current time' other db2 = Inr () \<longrightarrow>
       ls_holder_id other = holder \<and> ls_fencing_token other = ls_fencing_token l"
    using row c by (auto simp: assert_current_def row_matches_def result_simps)
  have ids: "nonblank job" "nonblank holder" "ls_fencing_token l > 0"
    using assms(1,2) last_issued_nonneg [of db job] token
    by (auto simp: claim_def result_simps row_to_lease_def split: sum.splits option.splits if_splits)
  show "\<forall>h ttl'. h \<noteq> holder \<and> nonblank h \<and> ttl' > 0 \<longrightarrow>
       (\<exists>m. claim time job h ttl' db2 = (Inl (LeaseUnavailable m), db2))"
    using live row(2) c ids assms(4) by (simp add: claim_def require_all.simps lease_utc_now_def row_matches_def)
  show "\<forall>ttl'. ttl' > 0 \<longrightarrow> (\<exists>l'. claim time job holder ttl' db2 = (Inr l', db2) \<and> same_fence l' l \<and>
       dt_us (ls_expires_at l) \<le> dt_us (ls_expires_at l'))"
    using live row(2,3) c ids assms(4)
    by (simp add: claim_def require_all.simps lease_utc_now_def row_matches_def row_to_lease_def Lease_init_def
        same_fence_def)
qed

text \<open>
  C30. Fencing tokens of a job never decrease: between two successful claims, with any
  transactions of any workers in between, the later token is at least the earlier one, and
  it is equal only if the same holder still has the same lease.
\<close>

theorem fencing_tokens_grow:
  assumes "lease_inv db" "claim c1 job h1 ttl1 db = (Inr l1, db1)"
    and "lease_step\<^sup>*\<^sup>* db1 db2" "claim c2 job h2 ttl2 db2 = (Inr l2, db3)"
  shows "ls_fencing_token l1 \<le> ls_fencing_token l2 \<and>
    (ls_fencing_token l2 = ls_fencing_token l1 \<longrightarrow> h2 = h1)"
proof -
  note c1 = claim_Inr [OF assms(2)] and c2 = claim_Inr [OF assms(4)]
  have "lease_inv db1" using leases.inv_step assms(1) c1 by blast
  moreover have "lease_step\<^sup>*\<^sup>* db1 db3" using assms(3) c2 by auto
  moreover have "recorded_holder db1 job = Some (h1, ls_fencing_token l1)"
    "recorded_holder db3 job = Some (h2, ls_fencing_token l2)"
    using claim_recorded [OF assms(2)] claim_recorded [OF assms(4)] c1 c2 by simp_all
  ultimately show ?thesis using leases.one_holder [of db1 db3 job] by blast
qed

text \<open>
  A superseded lease is dead for ever: once a claim returned another token for the job,
  then after any further transactions the old lease fails \<open>assert_current\<close>, \<open>renew\<close> and \<open>release\<close>,
  and none of them changes the database.
\<close>

theorem superseded_lease_is_stale:
  assumes "lease_inv db" "claim c1 job h1 ttl1 db = (Inr l1, db1)" "lease_step\<^sup>*\<^sup>* db1 db2"
    and "claim c2 job h2 ttl2 db2 = (Inr l2, db3)" "ls_fencing_token l2 \<noteq> ls_fencing_token l1"
    and "lease_step\<^sup>*\<^sup>* db3 db4"
  shows "(\<exists>e. assert_current c l1 db4 = Inl e) \<and> (\<exists>e. renew c l1 ttl db4 = (Inl e, db4)) \<and>
    (\<exists>e. release c l1 db4 = (Inl e, db4))"
proof -
  note c1 = claim_Inr [OF assms(2)] and c2 = claim_Inr [OF assms(4)]
  have inv1: "lease_inv db1" and s13: "lease_step\<^sup>*\<^sup>* db1 db3"
    using leases.inv_step assms(1,3) c1 c2 by (blast, auto)
  have inv3: "lease_inv db3" using leases.inv_steps inv1 s13 by blast
  have h: "recorded_holder db1 job = Some (h1, ls_fencing_token l1)"
    "recorded_holder db3 job = Some (h2, ls_fencing_token l2)"
    using claim_recorded [OF assms(2)] claim_recorded [OF assms(4)] c1 c2 by simp_all
  then have "ls_fencing_token l1 < last_issued db3 job"
    using leases.one_holder [OF s13 inv1 h] assms(5) recorded_holder_issued [OF inv3 h(2)] by simp
  then have "recorded_holder db4 job \<noteq> Some (ls_holder_id l1, ls_fencing_token l1)"
    using leases.stale_forever assms(6) inv3 by blast
  then have no: "worker_leases db4 (ls_job_id l1) = Some row \<Longrightarrow> \<not> row_matches row l1" for row
    using c1 by (auto simp: recorded_holder_def row_matches_def)
  then have "\<exists>e. assert_current c l1 db4 = Inl e"
    by (cases "assert_current c l1 db4") (auto simp: assert_current_def result_simps split: option.splits)
  moreover have "\<exists>e. renew c l1 ttl db4 = (Inl e, db4)"
    using no by (auto simp: renew_def split: sum.splits option.splits)
  ultimately show ?thesis by (auto simp: release_def)
qed

text \<open>
  Renewing keeps the fence: a successful renewal was made by the current holder, keeps
  holder and token, leaves all other jobs and counters alone, and the renewed lease is
  current until its new expiry.
\<close>

theorem renew_keeps_fence:
  assumes "renew clock l ttl db = (Inr l', db')"
  shows "assert_current clock l db = Inr () \<and> ls_holder_id l' = ls_holder_id l \<and>
    ls_fencing_token l' = ls_fencing_token l \<and> lease_counters db' = lease_counters db \<and>
    (\<forall>j. j \<noteq> ls_job_id l \<longrightarrow> worker_leases db' j = worker_leases db j) \<and>
    (\<forall>time. aware time \<and> dt_us time < dt_us (ls_expires_at l') \<longrightarrow> assert_current time l' db' = Inr ())"
  using assms
  by (auto simp: renew_def assert_current_def result_simps row_matches_def
      split: sum.splits option.splits if_splits)

section \<open>Witnesses\<close>

lemma empty_leases_inv: "lease_inv empty_leases"
  by (simp add: lease_inv_def empty_leases_def)

lemma sample_nonblank: "nonblank ''j''" "nonblank ''a''" "nonblank ''b''"
  by (simp_all add: nonblank_def py_strip_def strip_by_def py_isspace_def)

definition sample_lease :: "string \<Rightarrow> int \<Rightarrow> int \<Rightarrow> Lease" where
  "sample_lease h t e = \<lparr>ls_job_id = ''j'', ls_holder_id = h, ls_fencing_token = t, ls_expires_at = utc e\<rparr>"

lemma sample_claims:
  "claim (utc 0) ''j'' ''a'' 5 empty_leases = (Inr (sample_lease ''a'' 1 5), grant 0 ''j'' ''a'' 5 empty_leases)"
  "claim (utc 7) ''j'' ''b'' 5 (grant 0 ''j'' ''a'' 5 empty_leases)
     = (Inr (sample_lease ''b'' 2 12), grant 7 ''j'' ''b'' 5 (grant 0 ''j'' ''a'' 5 empty_leases))"
  by (simp_all add: claim_def lease_utc_now_def require_all.simps sample_nonblank live_row_def
      empty_leases_def next_token_def Lease_init_def sample_lease_def)

text \<open>The holder renews at 3, another worker tries at 4.\<close>

theorem claim_exclusive_witness:
  "\<exists>m. claim (utc 4) ''j'' ''b'' 5 (snd (renew (utc 3) (sample_lease ''a'' 1 5) 6 (grant 0 ''j'' ''a'' 5 empty_leases)))
     = (Inl (LeaseUnavailable m), snd (renew (utc 3) (sample_lease ''a'' 1 5) 6 (grant 0 ''j'' ''a'' 5 empty_leases)))"
proof -
  let ?db1 = "grant 0 ''j'' ''a'' 5 empty_leases"
  have "other_step (sample_lease ''a'' 1 5) ?db1 (snd (renew (utc 3) (sample_lease ''a'' 1 5) 6 ?db1))"
    by (rule other_step.renew [OF prod.collapse [symmetric]]) (simp add: sample_lease_def)
  then have "(other_step (sample_lease ''a'' 1 5))\<^sup>*\<^sup>* ?db1 (snd (renew (utc 3) (sample_lease ''a'' 1 5) 6 ?db1))" ..
  from claim_exclusive [OF empty_leases_inv sample_claims(1) this, of "utc 4"] show ?thesis
    by (simp add: sample_lease_def sample_nonblank)
qed

theorem fencing_tokens_grow_witness:
  "ls_fencing_token (sample_lease ''a'' 1 5) \<le> ls_fencing_token (sample_lease ''b'' 2 12)"
  using fencing_tokens_grow [OF empty_leases_inv sample_claims(1) rtranclp.rtrancl_refl sample_claims(2)] by blast

theorem superseded_lease_is_stale_witness:
  "\<exists>e. release (utc 8) (sample_lease ''a'' 1 5) (grant 7 ''j'' ''b'' 5 (grant 0 ''j'' ''a'' 5 empty_leases))
     = (Inl e, grant 7 ''j'' ''b'' 5 (grant 0 ''j'' ''a'' 5 empty_leases))"
proof -
  have "ls_fencing_token (sample_lease ''b'' 2 12) \<noteq> ls_fencing_token (sample_lease ''a'' 1 5)"
    by (simp add: sample_lease_def)
  from superseded_lease_is_stale [OF empty_leases_inv sample_claims(1) rtranclp.rtrancl_refl sample_claims(2)
      this rtranclp.rtrancl_refl] show ?thesis by blast
qed

theorem renew_keeps_fence_witness:
  "\<exists>db'. renew (utc 3) (sample_lease ''a'' 1 5) 6 (grant 0 ''j'' ''a'' 5 empty_leases) = (Inr (sample_lease ''a'' 1 9), db')
     \<and> assert_current (utc 8) (sample_lease ''a'' 1 9) db' = Inr ()"
proof -
  have "\<exists>db'. renew (utc 3) (sample_lease ''a'' 1 5) 6 (grant 0 ''j'' ''a'' 5 empty_leases) = (Inr (sample_lease ''a'' 1 9), db')"
    by (simp add: renew_def lease_utc_now_def require_all.simps sample_nonblank row_matches_def
        empty_leases_def next_token_def Lease_init_def sample_lease_def)
  then obtain db' where r: "renew (utc 3) (sample_lease ''a'' 1 5) 6 (grant 0 ''j'' ''a'' 5 empty_leases) = (Inr (sample_lease ''a'' 1 9), db')"
    by blast
  show ?thesis using renew_keeps_fence [OF r] r by (auto simp: sample_lease_def)
qed

end
