(* ===== verification/Events.thy ===== *)
theory Events
  imports Leases Hashing
begin

text \<open>
  \<open>events.py\<close>: the append-only event log with per-entity compare-and-swap, command
  idempotency, one-time attestation nonces and the projection of contract revisions. The
  tables are fields of one record that extends the lease tables; a write transaction is a
  function from a state to a result with a new state, and a raised error discards it. Clock
  readings (\<open>clk\<close>, one per call in the order of the source) and the results of \<open>uuid4\<close>
  (\<open>ids\<close>) are arguments. Unique, check and foreign-key constraints of the schema raise
  \<open>IntegrityError\<close>; the triggers that forbid updates and deletes are reflected by the absence
  of such operations.
\<close>

section \<open>Values\<close>

record NewEvent =
  ne_event_type :: string
  ne_payload :: json_object
  ne_metadata :: json_object

record StoredEvent =
  se_global_position :: int
  se_event_id :: string
  se_entity_type :: string
  se_entity_id :: string
  se_entity_sequence :: int
  se_event_type :: string
  se_payload :: json_object
  se_metadata :: json_object
  se_recorded_at :: string

record Idempotency =
  id_scope :: string
  id_key :: string
  id_request_hash :: string

definition Idempotency_init :: "Idempotency \<Rightarrow> Idempotency result" where
  "Idempotency_init i =
     bindE (require_all
       [(nonblank (id_scope i), ''idempotency scope must not be empty''),
        (nonblank (id_key i), ''idempotency key must not be empty''),
        (length (id_request_hash i) = 64, ''request_hash must be a SHA-256 hex digest'')])
       (\<lambda>_. Inr i)"

record AttestationNonce =
  an_purpose :: string
  an_key_id :: string
  an_nonce :: string
  an_payload_hash :: string

definition attestation_nonce_pattern :: "string \<Rightarrow> bool" where
  "attestation_nonce_pattern s \<longleftrightarrow> 16 \<le> length s \<and> length s \<le> 256 \<and>
     all_chars (\<lambda>c. is_alnum c \<or> c \<in> set ''._-'') s"

definition AttestationNonce_init :: "AttestationNonce \<Rightarrow> AttestationNonce result" where
  "AttestationNonce_init n =
     bindE (require_all
       [(nonblank (an_purpose n) \<and> length (an_purpose n) \<le> 128, ''attestation nonce purpose must be a bounded non-empty string''),
        (nonblank (an_key_id n) \<and> length (an_key_id n) \<le> 128, ''attestation nonce key_id must be a bounded non-empty string''),
        (attestation_nonce_pattern (an_nonce n), ''attestation nonce must use the safe V1 nonce format''),
        (is_sha256_text (an_payload_hash n), ''attestation nonce payload_hash must be a SHA-256 digest'')])
       (\<lambda>_. Inr n)"

record ContractRevisionBinding =
  cb_contract_id :: string
  cb_revision :: int
  cb_bundle_id :: string
  cb_bundle_hash :: string
  cb_contract_hash :: string

definition ContractRevisionBinding_init :: "ContractRevisionBinding \<Rightarrow> ContractRevisionBinding result" where
  "ContractRevisionBinding_init b =
     bindE (require_all
       [(nonblank (cb_contract_id b) \<and> nonblank (cb_bundle_id b), ''contract_id and bundle_id must not be empty''),
        (cb_revision b \<ge> 1, ''contract revision must be positive''),
        (is_sha256_text (cb_bundle_hash b), ''bundle_hash must be a SHA-256 digest''),
        (is_sha256_text (cb_contract_hash b), ''contract_hash must be a SHA-256 digest'')])
       (\<lambda>_. Inr b)"

definition request_hash :: "json \<Rightarrow> string" where
  "request_hash v = sha256_hexdigest (utf8 (canonical_json v))"

section \<open>Tables\<close>

record event_row =
  er_global_position :: int
  er_event_id :: string
  er_entity_type :: string
  er_entity_id :: string
  er_entity_sequence :: int
  er_event_type :: string
  er_payload_json :: string
  er_metadata_json :: string
  er_recorded_at :: string

record idempotency_row =
  ir_request_hash :: string
  ir_event_ids_json :: string
  ir_created_at :: string

record nonce_row =
  nr_payload_hash :: string
  nr_entity_type :: string
  nr_entity_id :: string
  nr_consumed_at :: string

record event_db = lease_db +
  events :: "event_row list"
  entity_versions :: "string \<times> string \<Rightarrow> int option"
  idempotency_records :: "string \<times> string \<Rightarrow> idempotency_row option"
  attestation_nonce_uses :: "string \<times> string \<times> string \<Rightarrow> nonce_row option"
  contract_revision_bindings :: "(ContractRevisionBinding \<times> string) list"

type_synonym 'a tx = "event_db \<Rightarrow> ('a \<times> event_db) result"

definition write_transaction :: "'a tx \<Rightarrow> event_db \<Rightarrow> 'a result \<times> event_db" where
  "write_transaction body db =
     (case body db of Inl e \<Rightarrow> (Inl e, db) | Inr (x, db') \<Rightarrow> (Inr x, db'))"

definition event_utc_now :: "datetime \<Rightarrow> datetime result" where
  "event_utc_now clock =
     (if aware clock then Inr (as_utc clock)
      else Inl (ValueError ''event clock must return a timezone-aware datetime''))"

definition event_now_text :: "datetime \<Rightarrow> string result" where
  "event_now_text clock = bindE (event_utc_now clock) (\<lambda>now. Inr (utc_micros_text now))"

section \<open>Reading\<close>

definition row_to_event :: "event_row \<Rightarrow> StoredEvent result" where
  "row_to_event r =
     bindE (load_canonical_json_object (er_payload_json r)) (\<lambda>payload.
     bindE (load_canonical_json_object (er_metadata_json r)) (\<lambda>metadata. Inr
       \<lparr>se_global_position = er_global_position r, se_event_id = er_event_id r,
        se_entity_type = er_entity_type r, se_entity_id = er_entity_id r,
        se_entity_sequence = er_entity_sequence r, se_event_type = er_event_type r,
        se_payload = payload, se_metadata = metadata, se_recorded_at = er_recorded_at r\<rparr>))"

definition event_by_id :: "event_db \<Rightarrow> string \<Rightarrow> event_row option" where
  "event_by_id db i = find (\<lambda>r. er_event_id r = i) (events db)"

definition events_by_ids :: "event_db \<Rightarrow> string list \<Rightarrow> StoredEvent list result" where
  "events_by_ids db = map_resultE (\<lambda>i.
     case event_by_id db i of
       None \<Rightarrow> Inl (RuntimeError ''idempotency record references missing event'')
     | Some r \<Rightarrow> row_to_event r)"

fun json_strings :: "json list \<Rightarrow> string list option" where
  "json_strings [] = Some []"
| "json_strings (JStr s # vs) = (if s = [] then None else map_option ((#) s) (json_strings vs))"
| "json_strings _ = None"

definition resolve_idempotency :: "event_db \<Rightarrow> idempotency_row \<Rightarrow> Idempotency \<Rightarrow> StoredEvent list result" where
  "resolve_idempotency db row value =
     bindE (require (ir_request_hash row = id_request_hash value)
       (IdempotencyConflict ''idempotency key was reused for another request'')) (\<lambda>_.
     bindE (load_canonical_json (ir_event_ids_json row)) (\<lambda>decoded.
     case decoded of
       JList vs \<Rightarrow>
         (case json_strings vs of
            Some event_ids \<Rightarrow>
              if event_ids = [] \<or> \<not> distinct event_ids
              then Inl (ProjectionError ''idempotency event IDs must be a unique non-empty string list'')
              else events_by_ids db event_ids
          | None \<Rightarrow> Inl (ProjectionError ''idempotency event IDs must be a unique non-empty string list''))
     | _ \<Rightarrow> Inl (ProjectionError ''idempotency event IDs must be a unique non-empty string list'')))"

definition existing_idempotency :: "event_db \<Rightarrow> Idempotency option \<Rightarrow> StoredEvent list option result" where
  "existing_idempotency db value =
     (case value of
        None \<Rightarrow> Inr None
      | Some i \<Rightarrow>
          (case idempotency_records db (id_scope i, id_key i) of
             None \<Rightarrow> Inr None
           | Some row \<Rightarrow> bindE (resolve_idempotency db row i) (\<lambda>evs. Inr (Some evs))))"

definition lookup_idempotency :: "event_db \<Rightarrow> Idempotency \<Rightarrow> StoredEvent list option result" where
  "lookup_idempotency db value = existing_idempotency db (Some value)"

definition current_sequence :: "event_db \<Rightarrow> string \<Rightarrow> string \<Rightarrow> int" where
  "current_sequence db et ei = (case entity_versions db (et, ei) of None \<Rightarrow> 0 | Some n \<Rightarrow> n)"

definition in_stream :: "string \<Rightarrow> string \<Rightarrow> event_row \<Rightarrow> bool" where
  "in_stream et ei r \<longleftrightarrow> er_entity_type r = et \<and> er_entity_id r = ei"

definition read_stream :: "event_db \<Rightarrow> string \<Rightarrow> string \<Rightarrow> int \<Rightarrow> StoredEvent list result" where
  "read_stream db et ei after_sequence = map_resultE row_to_event
     (sort_key er_entity_sequence
       (filter (\<lambda>r. in_stream et ei r \<and> er_entity_sequence r > after_sequence) (events db)))"

definition read_all :: "event_db \<Rightarrow> int \<Rightarrow> int option \<Rightarrow> StoredEvent list result" where
  "read_all db after_position limit =
     (let rows = sort_key er_global_position (filter (\<lambda>r. er_global_position r > after_position) (events db))
      in case limit of
           None \<Rightarrow> map_resultE row_to_event rows
         | Some n \<Rightarrow>
             if n \<le> 0 then Inl (ValueError ''limit must be positive'')
             else map_resultE row_to_event (take (nat n) rows))"

definition count_events :: "event_db \<Rightarrow> string option \<Rightarrow> nat" where
  "count_events db entity_type =
     (case entity_type of
        None \<Rightarrow> length (events db)
      | Some et \<Rightarrow> length (filter (\<lambda>r. er_entity_type r = et) (events db)))"

section \<open>Writing inside a transaction\<close>

definition insert_event :: "event_row \<Rightarrow> event_db \<Rightarrow> event_db result" where
  "insert_event r db =
     bindE (require (er_event_id r \<notin> set (map er_event_id (events db))) (IntegrityError ''event_id'')) (\<lambda>_.
     bindE (require (er_entity_sequence r > 0) (IntegrityError ''entity_sequence'')) (\<lambda>_.
     bindE (require (\<forall>x \<in> set (events db). \<not> (in_stream (er_entity_type r) (er_entity_id r) x \<and>
         er_entity_sequence x = er_entity_sequence r)) (IntegrityError ''entity stream'')) (\<lambda>_.
     Inr (db\<lparr>events := events db @ [r]\<rparr>))))"

fun insert_events ::
  "(nat \<Rightarrow> string) \<Rightarrow> string \<Rightarrow> string \<Rightarrow> int \<Rightarrow> string \<Rightarrow> nat \<Rightarrow> NewEvent list \<Rightarrow> event_db
     \<Rightarrow> (string list \<times> event_db) result" where
  "insert_events ids et ei expected at k [] db = Inr ([], db)"
| "insert_events ids et ei expected at k (e # es) db =
     bindE (insert_event
       \<lparr>er_global_position = int (length (events db)) + 1, er_event_id = ids k, er_entity_type = et,
        er_entity_id = ei, er_entity_sequence = expected + int k + 1, er_event_type = ne_event_type e,
        er_payload_json = canonical_json (JObj (ne_payload e)),
        er_metadata_json = canonical_json (JObj (ne_metadata e)), er_recorded_at = at\<rparr> db) (\<lambda>db'.
     bindE (insert_events ids et ei expected at (Suc k) es db') (\<lambda>(event_ids, db'').
     Inr (ids k # event_ids, db'')))"

definition record_idempotency :: "Idempotency \<Rightarrow> string list \<Rightarrow> string \<Rightarrow> event_db \<Rightarrow> event_db result" where
  "record_idempotency value event_ids recorded_at db =
     bindE (require (idempotency_records db (id_scope value, id_key value) = None)
       (IntegrityError ''idempotency_records'')) (\<lambda>_.
     Inr (db\<lparr>idempotency_records := (idempotency_records db)((id_scope value, id_key value) \<mapsto>
       \<lparr>ir_request_hash = id_request_hash value, ir_event_ids_json = canonical_json (JStrs event_ids),
        ir_created_at = recorded_at\<rparr>)\<rparr>))"

definition nonce_key :: "AttestationNonce \<Rightarrow> string \<times> string \<times> string" where
  "nonce_key n = (an_purpose n, an_key_id n, an_nonce n)"

definition consume_attestation_nonce ::
  "datetime \<Rightarrow> AttestationNonce \<Rightarrow> string \<Rightarrow> string \<Rightarrow> event_db \<Rightarrow> event_db result" where
  "consume_attestation_nonce clock value et ei db =
     bindE (require (attestation_nonce_uses db (nonce_key value) = None)
       (AttestationReplay ''attestation nonce was already consumed'')) (\<lambda>_.
     bindE (event_now_text clock) (\<lambda>at.
     Inr (db\<lparr>attestation_nonce_uses := (attestation_nonce_uses db)(nonce_key value \<mapsto>
       \<lparr>nr_payload_hash = an_payload_hash value, nr_entity_type = et, nr_entity_id = ei, nr_consumed_at = at\<rparr>)\<rparr>)))"

definition assert_current_fence :: "datetime \<Rightarrow> string \<Rightarrow> Lease \<Rightarrow> event_db \<Rightarrow> unit result" where
  "assert_current_fence clock task_id l db =
     bindE (require (ls_job_id l = task_id) (StaleFence ''lease belongs to a different task'')) (\<lambda>_.
     bindE (event_utc_now clock) (\<lambda>now.
     case worker_leases db task_id of
       None \<Rightarrow> Inl (StaleFence ''lease no longer exists'')
     | Some row \<Rightarrow>
         require (row_matches row l \<and> \<not> lr_expires_at row \<le> dt_us now)
           (StaleFence ''lease fencing token is stale or expired'')))"

text \<open>
  The compare-and-swap on \<open>entity_versions\<close>: the \<open>UPDATE ... AND sequence = ?\<close> reads the row
  the same transaction has just compared, so its row count is always one.
\<close>

definition append_locked ::
  "(nat \<Rightarrow> datetime) \<Rightarrow> (nat \<Rightarrow> string) \<Rightarrow> string \<Rightarrow> string \<Rightarrow> int \<Rightarrow> NewEvent list \<Rightarrow> Idempotency option
     \<Rightarrow> bool \<Rightarrow> AttestationNonce option \<Rightarrow> StoredEvent list tx" where
  "append_locked clk ids et ei expected evs idempotency idempotency_checked nonce db =
     bindE (if idempotency_checked then Inr None else existing_idempotency db idempotency) (\<lambda>existing.
     case existing of
       Some stored \<Rightarrow> Inr (stored, db)
     | None \<Rightarrow>
         bindE (case nonce of None \<Rightarrow> Inr db | Some n \<Rightarrow> consume_attestation_nonce (clk 0) n et ei db) (\<lambda>db1.
         let actual = current_sequence db1 et ei in
         if actual \<noteq> expected then Inl (ConcurrencyError et ei expected actual)
         else
           let db2 = db1\<lparr>entity_versions := (entity_versions db1)((et, ei) \<mapsto> expected + int (length evs))\<rparr> in
           bindE (event_now_text (clk 1)) (\<lambda>recorded_at.
           bindE (insert_events ids et ei expected recorded_at 0 evs db2) (\<lambda>(event_ids, db3).
           bindE (case idempotency of
                    None \<Rightarrow> Inr db3
                  | Some i \<Rightarrow> record_idempotency i event_ids recorded_at db3) (\<lambda>db4.
           bindE (events_by_ids db4 event_ids) (\<lambda>stored. Inr (stored, db4)))))))"

definition validate_append_request :: "string \<Rightarrow> string \<Rightarrow> int \<Rightarrow> NewEvent list \<Rightarrow> unit result" where
  "validate_append_request et ei expected evs = require_all
     [(nonblank et \<and> nonblank ei, ''entity_type and entity_id must not be empty''),
      (expected \<ge> 0, ''expected_sequence must be non-negative''),
      (evs \<noteq> [], ''at least one event is required''),
      (list_all (\<lambda>e. nonblank (ne_event_type e)) evs, ''event_type must not be empty'')]"

section \<open>The append operations\<close>

definition append_events ::
  "(nat \<Rightarrow> datetime) \<Rightarrow> (nat \<Rightarrow> string) \<Rightarrow> string \<Rightarrow> string \<Rightarrow> int \<Rightarrow> NewEvent list \<Rightarrow> Idempotency option
     \<Rightarrow> AttestationNonce option \<Rightarrow> event_db \<Rightarrow> StoredEvent list result \<times> event_db" where
  "append_events clk ids et ei expected evs idempotency nonce db =
     (case bindE (validate_append_request et ei expected evs) (\<lambda>_.
           require (\<not> (et = ''task'' \<and> list_ex (\<lambda>e. ne_event_type e = ''task.registered'') evs))
             (ValueError ''task.registered must use append_contract_revision_registration'')) of
        Inl e \<Rightarrow> (Inl e, db)
      | Inr _ \<Rightarrow> write_transaction (append_locked clk ids et ei expected evs idempotency False nonce) db)"

definition bundle_id_of :: "json_object \<Rightarrow> string option" where
  "bundle_id_of payload = (case obj_get payload ''bundle_id'' of Some (JStr s) \<Rightarrow> Some s | _ \<Rightarrow> None)"

definition validate_fenced_task_binding :: "string \<Rightarrow> NewEvent list \<Rightarrow> unit result" where
  "validate_fenced_task_binding task_id evs = require_all (concat (map (\<lambda>e.
     [(truthy (bundle_id_of (ne_payload e)), ''fenced event payload must include a non-empty bundle_id''),
      (bundle_id_of (ne_payload e) = Some task_id, ''fenced event payload bundle_id must match task_id'')]) evs))"

definition assert_fenced_replay_task_binding :: "string \<Rightarrow> StoredEvent list \<Rightarrow> unit result" where
  "assert_fenced_replay_task_binding task_id evs =
     require (list_all (\<lambda>e. bundle_id_of (se_payload e) = Some task_id) evs)
       (IdempotencyConflict ''idempotency replay does not belong to the requested fenced task'')"

definition append_fenced ::
  "(nat \<Rightarrow> datetime) \<Rightarrow> (nat \<Rightarrow> string) \<Rightarrow> string \<Rightarrow> string \<Rightarrow> string \<Rightarrow> Lease \<Rightarrow> int \<Rightarrow> NewEvent list
     \<Rightarrow> Idempotency option \<Rightarrow> AttestationNonce option \<Rightarrow> event_db \<Rightarrow> StoredEvent list result \<times> event_db" where
  "append_fenced clk ids et ei task_id l expected evs idempotency nonce db =
     (case bindE (validate_append_request et ei expected evs) (\<lambda>_.
           bindE (require (nonblank task_id) (ValueError ''task_id must not be empty'')) (\<lambda>_.
           validate_fenced_task_binding task_id evs)) of
        Inl e \<Rightarrow> (Inl e, db)
      | Inr _ \<Rightarrow> write_transaction (\<lambda>db.
          bindE (existing_idempotency db idempotency) (\<lambda>existing.
          case existing of
            Some stored \<Rightarrow> bindE (assert_fenced_replay_task_binding task_id stored) (\<lambda>_. Inr (stored, db))
          | None \<Rightarrow>
              bindE (assert_current_fence (clk 2) task_id l db) (\<lambda>_.
              append_locked clk ids et ei expected evs idempotency True nonce db))) db)"

section \<open>Contract revisions\<close>

definition required_text :: "json_object \<Rightarrow> string \<Rightarrow> string result" where
  "required_text payload k =
     (case obj_get payload k of
        Some (JStr s) \<Rightarrow> if s = [] then Inl (ProjectionError k) else Inr s
      | _ \<Rightarrow> Inl (ProjectionError k))"

definition registration_binding_from_payload :: "json_object \<Rightarrow> ContractRevisionBinding result" where
  "registration_binding_from_payload payload =
     (case obj_get payload ''revision'' of
        Some (JInt revision) \<Rightarrow>
          bindE (required_text payload ''contract_id'') (\<lambda>contract_id.
          bindE (required_text payload ''bundle_id'') (\<lambda>bundle_id.
          bindE (required_text payload ''bundle_hash'') (\<lambda>bundle_hash.
          bindE (required_text payload ''contract_hash'') (\<lambda>contract_hash.
          catchE is_value_error (ProjectionError ''task.registered event has invalid binding fields'')
            (ContractRevisionBinding_init
              \<lparr>cb_contract_id = contract_id, cb_revision = revision, cb_bundle_id = bundle_id,
               cb_bundle_hash = bundle_hash, cb_contract_hash = contract_hash\<rparr>)))))
      | _ \<Rightarrow> Inl (ProjectionError ''task.registered event has invalid revision''))"

definition registration_binding_from_event_row :: "event_row \<Rightarrow> ContractRevisionBinding result" where
  "registration_binding_from_event_row r =
     bindE (load_canonical_json_object (er_payload_json r)) (\<lambda>payload.
     bindE (registration_binding_from_payload payload) (\<lambda>binding.
     bindE (require (er_entity_id r = cb_bundle_id binding)
       (ProjectionError ''task.registered event stream ID does not match its bundle ID'')) (\<lambda>_.
     Inr binding)))"

definition registration_binding_from_projection_row ::
  "ContractRevisionBinding \<times> string \<Rightarrow> ContractRevisionBinding result" where
  "registration_binding_from_projection_row row =
     catchE is_value_error (ProjectionError ''contract revision projection contains invalid fields'')
       (ContractRevisionBinding_init (fst row))"

definition binding_key :: "ContractRevisionBinding \<Rightarrow> string \<times> int" where
  "binding_key b = (cb_contract_id b, cb_revision b)"

definition contract_revision_projection_row ::
  "event_db \<Rightarrow> string \<times> int \<Rightarrow> (ContractRevisionBinding \<times> string) option" where
  "contract_revision_projection_row db key =
     find (\<lambda>row. binding_key (fst row) = key) (contract_revision_bindings db)"

definition insert_contract_revision_binding ::
  "ContractRevisionBinding \<Rightarrow> string \<Rightarrow> event_db \<Rightarrow> event_db result" where
  "insert_contract_revision_binding binding event_id db =
     (if cb_revision binding > 0 \<and>
         (\<forall>row \<in> set (contract_revision_bindings db).
            binding_key (fst row) \<noteq> binding_key binding \<and> cb_bundle_id (fst row) \<noteq> cb_bundle_id binding \<and>
            snd row \<noteq> event_id) \<and>
         event_id \<in> set (map er_event_id (events db))
      then Inr (db\<lparr>contract_revision_bindings := contract_revision_bindings db @ [(binding, event_id)]\<rparr>)
      else Inl (IntegrityError ''contract_revision_bindings''))"

definition assert_registration_events_match ::
  "event_db \<Rightarrow> ContractRevisionBinding \<Rightarrow> StoredEvent list \<Rightarrow> unit result" where
  "assert_registration_events_match db binding evs =
     (case evs of
        [event] \<Rightarrow>
          bindE (if se_entity_type event \<noteq> ''task'' \<or> se_entity_id event \<noteq> cb_bundle_id binding
                    \<or> se_event_type event \<noteq> ''task.registered''
                 then Inr False
                 else bindE (registration_binding_from_payload (se_payload event)) (\<lambda>b. Inr (b = binding))) (\<lambda>ok.
          bindE (require ok (ProjectionError ''registration replay does not match the requested contract-revision binding'')) (\<lambda>_.
          case contract_revision_projection_row db (binding_key binding) of
            None \<Rightarrow> Inl (ProjectionError ''registration replay has no canonical contract-revision projection'')
          | Some projected \<Rightarrow>
              bindE (registration_binding_from_projection_row projected) (\<lambda>b.
              require (b = binding \<and> snd projected = se_event_id event)
                (ProjectionError ''registration replay disagrees with the canonical contract-revision projection''))))
      | _ \<Rightarrow> Inl (ProjectionError ''registration idempotency record must reference exactly one event''))"

definition register_locked ::
  "(nat \<Rightarrow> datetime) \<Rightarrow> (nat \<Rightarrow> string) \<Rightarrow> ContractRevisionBinding \<Rightarrow> NewEvent \<Rightarrow> Idempotency
     \<Rightarrow> AttestationNonce \<Rightarrow> StoredEvent list tx" where
  "register_locked clk ids binding event idempotency nonce db =
     bindE (existing_idempotency db (Some idempotency)) (\<lambda>replayed.
     case replayed of
       Some stored \<Rightarrow> bindE (assert_registration_events_match db binding stored) (\<lambda>_. Inr (stored, db))
     | None \<Rightarrow>
         let existing = contract_revision_projection_row db (binding_key binding);
             existing_for_bundle =
               find (\<lambda>row. cb_bundle_id (fst row) = cb_bundle_id binding) (contract_revision_bindings db)
         in case (if existing \<noteq> None then existing else existing_for_bundle) of
              Some selected \<Rightarrow>
                bindE (registration_binding_from_projection_row selected) (\<lambda>projected_binding.
                if projected_binding \<noteq> binding then
                  bindE (consume_attestation_nonce (clk 0) nonce ''task'' (cb_bundle_id binding) db) (\<lambda>_.
                  Inl (ContractRevisionConflict ''contract revision or bundle ID is already bound''))
                else
                  bindE (events_by_ids db [snd selected]) (\<lambda>stored.
                  bindE (assert_registration_events_match db binding stored) (\<lambda>_.
                  bindE (event_now_text (clk 2)) (\<lambda>recorded_at.
                  bindE (record_idempotency idempotency [snd selected] recorded_at db) (\<lambda>db'.
                  Inr (stored, db'))))))
            | None \<Rightarrow>
                bindE (append_locked clk ids ''task'' (cb_bundle_id binding) 0 [event] (Some idempotency) True (Some nonce) db)
                  (\<lambda>(registered, db').
                bindE (catchE (\<lambda>e. case e of IntegrityError _ \<Rightarrow> True | _ \<Rightarrow> False)
                         (ContractRevisionConflict ''contract revision or bundle ID is already bound'')
                         (insert_contract_revision_binding binding (se_event_id (hd registered)) db')) (\<lambda>db''.
                Inr (registered, db''))))"

definition append_contract_revision_registration ::
  "(nat \<Rightarrow> datetime) \<Rightarrow> (nat \<Rightarrow> string) \<Rightarrow> ContractRevisionBinding \<Rightarrow> NewEvent \<Rightarrow> Idempotency
     \<Rightarrow> AttestationNonce \<Rightarrow> event_db \<Rightarrow> StoredEvent list result \<times> event_db" where
  "append_contract_revision_registration clk ids binding event idempotency nonce db =
     (case bindE (require (ne_event_type event = ''task.registered'')
             (ValueError ''registration event must have type task.registered'')) (\<lambda>_.
           validate_append_request ''task'' (cb_bundle_id binding) 0 [event]) of
        Inl e \<Rightarrow> (Inl e, db)
      | Inr _ \<Rightarrow> write_transaction (register_locked clk ids binding event idempotency nonce) db)"

section \<open>Opening a store\<close>

text \<open>
  The check and backfill of the contract-revision projection when a store is opened. The
  dictionaries of the source, keyed by contract and revision, are lists here in insertion
  order with the same key tests.
\<close>

fun expected_bindings ::
  "event_row list \<Rightarrow> (ContractRevisionBinding \<times> string) list \<Rightarrow> (ContractRevisionBinding \<times> string) list result" where
  "expected_bindings [] expected = Inr expected"
| "expected_bindings (row # rows) expected =
     bindE (registration_binding_from_event_row row) (\<lambda>binding.
     bindE (require (binding_key binding \<notin> set (map (binding_key \<circ> fst) expected))
       (ProjectionError ''legacy registration events contain a duplicate contract revision'')) (\<lambda>_.
     bindE (require (cb_bundle_id binding \<notin> set (map (cb_bundle_id \<circ> fst) expected))
       (ProjectionError ''legacy registration events bind one bundle ID to multiple contract revisions'')) (\<lambda>_.
     expected_bindings rows (expected @ [(binding, er_event_id row)]))))"

fun backfill_bindings ::
  "(ContractRevisionBinding \<times> string) list \<Rightarrow> (ContractRevisionBinding \<times> string) list \<Rightarrow> event_db \<Rightarrow> event_db result" where
  "backfill_bindings projected [] db = Inr db"
| "backfill_bindings projected ((binding, event_id) # rest) db =
     (case find (\<lambda>row. binding_key (fst row) = binding_key binding) projected of
        Some existing \<Rightarrow>
          if existing \<noteq> (binding, event_id)
          then Inl (ProjectionError ''contract revision projection disagrees with its canonical registration event'')
          else backfill_bindings projected rest db
      | None \<Rightarrow>
          bindE (catchE (\<lambda>e. case e of IntegrityError _ \<Rightarrow> True | _ \<Rightarrow> False)
                   (ProjectionError ''legacy registration events violate the unique binding'')
                   (insert_contract_revision_binding binding event_id db)) (\<lambda>db'.
          backfill_bindings projected rest db'))"

definition is_registration :: "event_row \<Rightarrow> bool" where
  "is_registration r \<longleftrightarrow> er_entity_type r = ''task'' \<and> er_event_type r = ''task.registered''"

definition initialize_contract_revision_bindings :: "event_db \<Rightarrow> unit result \<times> event_db" where
  "initialize_contract_revision_bindings = write_transaction (\<lambda>db.
     bindE (expected_bindings (sort_key er_global_position (filter is_registration (events db))) []) (\<lambda>expected.
     bindE (map_resultE (\<lambda>row. bindE (registration_binding_from_projection_row row) (\<lambda>b. Inr (b, snd row)))
              (contract_revision_bindings db)) (\<lambda>projected.
     bindE (require (set (map (binding_key \<circ> fst) projected) \<subseteq> set (map (binding_key \<circ> fst) expected))
       (ProjectionError ''contract revision projection contains no canonical registration event'')) (\<lambda>_.
     bindE (backfill_bindings projected expected db) (\<lambda>db'. Inr ((), db'))))))"

end

