(* ===== verification/EventLog.thy ===== *)
theory EventLog
  imports Events
begin

text \<open>
  Correctness of the event store: the effect of every transaction, the invariant of the
  tables, the step relation of all writers (event appends, registrations and lease
  transactions interleaved in any order) and what no later step can undo. Two locales carry
  the arguments about histories: a log that only grows and a table whose entries stay.
\<close>

section \<open>Histories\<close>

locale append_log =
  fixes step :: "'s \<Rightarrow> 's \<Rightarrow> bool"
    and log :: "'s \<Rightarrow> 'e list"
  assumes log_step: "step s s' \<Longrightarrow> prefix (log s) (log s')"
begin

lemma log_steps: "step\<^sup>*\<^sup>* s s' \<Longrightarrow> prefix (log s) (log s')"
  by (induction rule: rtranclp_induct) (auto dest: log_step intro: prefix_order.order_trans)

lemma entry_kept: "step\<^sup>*\<^sup>* s s' \<Longrightarrow> i < length (log s) \<Longrightarrow> log s' ! i = log s ! i \<and> i < length (log s')"
  using log_steps [of s s'] by (auto simp: prefix_def nth_append)

lemma find_kept: "step\<^sup>*\<^sup>* s s' \<Longrightarrow> find p (log s) = Some e \<Longrightarrow> find p (log s') = Some e"
proof -
  assume "step\<^sup>*\<^sup>* s s'" and f: "find p (log s) = Some e"
  then obtain t where t: "log s' = log s @ t" using log_steps by (auto simp: prefix_def)
  have "find p (xs @ t) = Some e" if "find p xs = Some e" for xs
    using that by (induction xs) (auto split: if_splits)
  then show "find p (log s') = Some e" using f t by simp
qed

end

locale write_once_table =
  fixes step :: "'s \<Rightarrow> 's \<Rightarrow> bool"
    and table :: "'s \<Rightarrow> 'k \<Rightarrow> 'v option"
  assumes table_step: "step s s' \<Longrightarrow> table s k = Some v \<Longrightarrow> table s' k = Some v"
begin

lemma table_steps: "step\<^sup>*\<^sup>* s s' \<Longrightarrow> table s k = Some v \<Longrightarrow> table s' k = Some v"
  by (induction rule: rtranclp_induct) (auto intro: table_step)

end

section \<open>The effect of a transaction\<close>

lemma event_now_text_Inr [result_simps]:
  "event_now_text c = Inr t \<longleftrightarrow> aware c \<and> t = utc_micros_text (as_utc c)"
  by (auto simp: event_now_text_def event_utc_now_def)

fun new_rows ::
  "(nat \<Rightarrow> string) \<Rightarrow> string \<Rightarrow> string \<Rightarrow> int \<Rightarrow> string \<Rightarrow> nat \<Rightarrow> nat \<Rightarrow> NewEvent list \<Rightarrow> event_row list" where
  "new_rows ids et ei expected at k n [] = []"
| "new_rows ids et ei expected at k n (e # es) =
     \<lparr>er_global_position = int n + 1, er_event_id = ids k, er_entity_type = et,
      er_entity_id = ei, er_entity_sequence = expected + int k + 1, er_event_type = ne_event_type e,
      er_payload_json = canonical_json (JObj (ne_payload e)),
      er_metadata_json = canonical_json (JObj (ne_metadata e)), er_recorded_at = at\<rparr>
     # new_rows ids et ei expected at (Suc k) (Suc n) es"

lemma length_new_rows [simp]: "length (new_rows ids et ei ex at k n es) = length es"
  by (induction es arbitrary: k n) auto

lemma new_rows_ids: "map er_event_id (new_rows ids et ei ex at k n es) = map ids [k..<k + length es]"
  by (induction es arbitrary: k n) (auto simp: upt_conv_Cons simp del: upt_Suc)

lemma new_rows_positions:
  "map er_global_position (new_rows ids et ei ex at k n es) = map (\<lambda>i. int i + 1) [n..<n + length es]"
  by (induction es arbitrary: k n) (auto simp: upt_conv_Cons simp del: upt_Suc)

lemma new_rows_sequences:
  "map er_entity_sequence (new_rows ids et ei ex at k n es) = map (\<lambda>i. ex + int i + 1) [k..<k + length es]"
  by (induction es arbitrary: k n) (auto simp: upt_conv_Cons simp del: upt_Suc)

lemma new_rows_stream:
  "filter (in_stream et' ei') (new_rows ids et ei ex at k n es)
     = (if et' = et \<and> ei' = ei then new_rows ids et ei ex at k n es else [])"
  by (induction es arbitrary: k n) (auto simp: in_stream_def)

lemma insert_events_Inr:
  assumes "insert_events ids et ei ex at k evs db = Inr (l, db')"
  shows "l = map ids [k..<k + length evs] \<and>
    db' = db\<lparr>events := events db @ new_rows ids et ei ex at k (length (events db)) evs\<rparr> \<and>
    distinct l \<and> set l \<inter> set (map er_event_id (events db)) = {}"
  using assms
proof (induction evs arbitrary: k db l db')
  case (Cons e es)
  let ?r = "\<lparr>er_global_position = int (length (events db)) + 1, er_event_id = ids k, er_entity_type = et,
        er_entity_id = ei, er_entity_sequence = ex + int k + 1, er_event_type = ne_event_type e,
        er_payload_json = canonical_json (JObj (ne_payload e)),
        er_metadata_json = canonical_json (JObj (ne_metadata e)), er_recorded_at = at\<rparr>"
  obtain l' where ins: "ids k \<notin> set (map er_event_id (events db))"
    and rec: "insert_events ids et ei ex at (Suc k) es (db\<lparr>events := events db @ [?r]\<rparr>) = Inr (l', db')"
    and l: "l = ids k # l'"
    using Cons.prems by (auto simp: result_simps insert_event_def)
  note IH = Cons.IH [OF rec]
  have "set l' \<inter> set (map er_event_id (events (db\<lparr>events := events db @ [?r]\<rparr>))) = {}"
    using IH by blast
  moreover have "distinct l'" using IH by blast
  ultimately have d: "distinct l" "set l \<inter> set (map er_event_id (events db)) = {}"
    using ins l by auto
  have "l = map ids [k..<k + length (e # es)]"
    using IH l by (simp add: upt_conv_Cons del: upt_Suc)
  moreover have "db' = db\<lparr>events := events db @ new_rows ids et ei ex at k (length (events db)) (e # es)\<rparr>"
    using IH by (simp del: canonical_json.simps)
  ultimately show ?case using d by (intro conjI)
qed simp

definition append_effect ::
  "(nat \<Rightarrow> string) \<Rightarrow> string \<Rightarrow> string \<Rightarrow> int \<Rightarrow> NewEvent list \<Rightarrow> Idempotency option \<Rightarrow> AttestationNonce option
     \<Rightarrow> string \<Rightarrow> string \<Rightarrow> event_db \<Rightarrow> event_db" where
  "append_effect ids et ei ex evs idem nonce at0 at db = db
     \<lparr>events := events db @ new_rows ids et ei ex at 0 (length (events db)) evs,
      entity_versions := (entity_versions db)((et, ei) \<mapsto> ex + int (length evs)),
      attestation_nonce_uses := (case nonce of None \<Rightarrow> attestation_nonce_uses db
        | Some n \<Rightarrow> (attestation_nonce_uses db)(nonce_key n \<mapsto>
           \<lparr>nr_payload_hash = an_payload_hash n, nr_entity_type = et, nr_entity_id = ei, nr_consumed_at = at0\<rparr>)),
      idempotency_records := (case idem of None \<Rightarrow> idempotency_records db
        | Some i \<Rightarrow> (idempotency_records db)((id_scope i, id_key i) \<mapsto>
           \<lparr>ir_request_hash = id_request_hash i,
            ir_event_ids_json = canonical_json (JStrs (map ids [0..<length evs])), ir_created_at = at\<rparr>))\<rparr>"

text \<open>A transaction of \<open>append_locked\<close> that commits is a replay or appends the new rows.\<close>

lemma append_locked_cases:
  assumes "append_locked clk ids et ei ex evs idem checked nonce db = Inr (stored, db')"
  obtains (replay) "\<not> checked" "existing_idempotency db idem = Inr (Some stored)" "db' = db"
  | (wrote) at0 at where "checked \<or> existing_idempotency db idem = Inr None"
      "current_sequence db et ei = ex"
      "db' = append_effect ids et ei ex evs idem nonce at0 at db"
      "\<And>n. nonce = Some n \<Longrightarrow> attestation_nonce_uses db (nonce_key n) = None"
      "\<And>i. idem = Some i \<Longrightarrow> idempotency_records db (id_scope i, id_key i) = None"
      "distinct (map ids [0..<length evs])"
      "set (map ids [0..<length evs]) \<inter> set (map er_event_id (events db)) = {}"
      "events_by_ids db' (map ids [0..<length evs]) = Inr stored"
      "aware (clk 1)" "at = utc_micros_text (as_utc (clk 1))"
proof -
  obtain existing where ex: "(if checked then Inr None else existing_idempotency db idem) = Inr existing"
    using assms by (auto simp: append_locked_def result_simps)
  show thesis
  proof (cases existing)
    case (Some s)
    then show thesis
      using assms ex by (intro replay) (auto simp: append_locked_def result_simps split: if_splits)
  next
    case None
    obtain db1 db3 l where
      db1: "(case nonce of None \<Rightarrow> Inr db | Some n \<Rightarrow> consume_attestation_nonce (clk 0) n et ei db) = Inr db1"
      and seq: "current_sequence db1 et ei = ex"
      and at: "aware (clk 1)"
      and ins: "insert_events ids et ei ex (utc_micros_text (as_utc (clk 1))) 0 evs
        (db1\<lparr>entity_versions := (entity_versions db1)((et, ei) \<mapsto> ex + int (length evs))\<rparr>) = Inr (l, db3)"
      and idem: "(case idem of None \<Rightarrow> Inr db3
        | Some i \<Rightarrow> record_idempotency i l (utc_micros_text (as_utc (clk 1))) db3) = Inr db'"
      and by_ids: "events_by_ids db' l = Inr stored"
      using assms ex None
      by (auto simp: append_locked_def result_simps Let_def simp del: One_nat_def split: if_splits)
    note ins' = insert_events_Inr [OF ins]
    define at0 where "at0 = utc_micros_text (as_utc (clk 0))"
    define nu where "nu = (case nonce of None \<Rightarrow> attestation_nonce_uses db
        | Some n \<Rightarrow> (attestation_nonce_uses db)(nonce_key n \<mapsto>
           \<lparr>nr_payload_hash = an_payload_hash n, nr_entity_type = et, nr_entity_id = ei, nr_consumed_at = at0\<rparr>))"
    have db1': "db1 = db\<lparr>attestation_nonce_uses := nu\<rparr>"
      and fresh: "\<And>n. nonce = Some n \<Longrightarrow> attestation_nonce_uses db (nonce_key n) = None"
      using db1 by (auto simp: consume_attestation_nonce_def result_simps at0_def nu_def split: option.splits)
    show thesis
    proof (rule wrote [of at0 "utc_micros_text (as_utc (clk 1))"])
      show "db' = append_effect ids et ei ex evs idem nonce at0 (utc_micros_text (as_utc (clk 1))) db"
        using ins' idem db1'
        by (cases idem) (auto simp: append_effect_def record_idempotency_def result_simps nu_def
            simp del: canonical_json.simps map_map One_nat_def)
      show "current_sequence db et ei = ex" using seq db1' by (simp add: current_sequence_def)
      show "idempotency_records db (id_scope i, id_key i) = None" if "idem = Some i" for i
        using that ins' idem db1' by (simp add: record_idempotency_def result_simps)
    qed (use ex None fresh ins' by_ids at db1' in \<open>auto simp del: One_nat_def split: if_splits\<close>)
  qed
qed

section \<open>The invariant of the tables\<close>

definition log_inv :: "event_db \<Rightarrow> bool" where
  "log_inv db \<longleftrightarrow>
     map er_global_position (events db) = map (\<lambda>i. int i + 1) [0..<length (events db)] \<and>
     distinct (map er_event_id (events db)) \<and> [] \<notin> set (map er_event_id (events db)) \<and>
     (\<forall>et ei. current_sequence db et ei \<ge> 0 \<and>
        map er_entity_sequence (filter (in_stream et ei) (events db))
          = map (\<lambda>i. int i + 1) [0..<nat (current_sequence db et ei)]) \<and>
     (\<forall>r \<in> set (events db). \<exists>s. row_to_event r = Inr s)"

definition idempotency_inv :: "event_db \<Rightarrow> bool" where
  "idempotency_inv db \<longleftrightarrow>
     (\<forall>k row. idempotency_records db k = Some row \<longrightarrow>
        (\<exists>l. l \<noteq> [] \<and> distinct l \<and> [] \<notin> set l \<and> set l \<subseteq> set (map er_event_id (events db)) \<and>
           ir_event_ids_json row = canonical_json (JStrs l)))"

definition binding_inv :: "event_db \<Rightarrow> bool" where
  "binding_inv db \<longleftrightarrow>
     distinct (map (binding_key \<circ> fst) (contract_revision_bindings db)) \<and>
     distinct (map (cb_bundle_id \<circ> fst) (contract_revision_bindings db)) \<and>
     distinct (map snd (contract_revision_bindings db)) \<and>
     set (map snd (contract_revision_bindings db)) \<subseteq> set (map er_event_id (events db)) \<and>
     (\<forall>row \<in> set (contract_revision_bindings db). ContractRevisionBinding_init (fst row) = Inr (fst row))"

definition event_inv :: "event_db \<Rightarrow> bool" where
  "event_inv db \<longleftrightarrow> lease_inv db \<and> log_inv db \<and> idempotency_inv db \<and> binding_inv db"

definition event_wf :: "NewEvent \<Rightarrow> bool" where
  "event_wf e \<longleftrightarrow> json_wf (JObj (ne_payload e)) \<and> json_wf (JObj (ne_metadata e))"

text \<open>What a committed event reads back as: its payloads with their keys in order.\<close>

fun stored_events ::
  "(nat \<Rightarrow> string) \<Rightarrow> string \<Rightarrow> string \<Rightarrow> int \<Rightarrow> string \<Rightarrow> nat \<Rightarrow> nat \<Rightarrow> NewEvent list \<Rightarrow> StoredEvent list" where
  "stored_events ids et ei ex at k n [] = []"
| "stored_events ids et ei ex at k n (e # es) =
     \<lparr>se_global_position = int n + 1, se_event_id = ids k, se_entity_type = et, se_entity_id = ei,
      se_entity_sequence = ex + int k + 1, se_event_type = ne_event_type e,
      se_payload = norm_members (ne_payload e), se_metadata = norm_members (ne_metadata e),
      se_recorded_at = at\<rparr> # stored_events ids et ei ex at (Suc k) (Suc n) es"

lemma new_rows_read:
  "list_all event_wf es \<Longrightarrow>
     map row_to_event (new_rows ids et ei ex at k n es) = map Inr (stored_events ids et ei ex at k n es)"
  by (induction es arbitrary: k n)
    (simp_all add: row_to_event_def event_wf_def load_object_dump del: canonical_json.simps json_wf.simps)

lemma new_rows_readable:
  assumes "list_all event_wf es" "r \<in> set (new_rows ids et ei ex at k n es)"
  shows "\<exists>s. row_to_event r = Inr s"
proof -
  have "row_to_event r \<in> set (map row_to_event (new_rows ids et ei ex at k n es))" using assms(2) by simp
  then show ?thesis unfolding new_rows_read [OF assms(1)] by auto
qed

lemma find_distinct:
  "distinct (map f xs) \<Longrightarrow> x \<in> set xs \<Longrightarrow> find (\<lambda>y. f y = f x) xs = Some x"
  by (induction xs) auto

lemma event_by_id_row:
  "distinct (map er_event_id (events db)) \<Longrightarrow> r \<in> set (events db) \<Longrightarrow> event_by_id db (er_event_id r) = Some r"
  unfolding event_by_id_def by (rule find_distinct)

lemma map_resultE_map: "map_resultE f (map g xs) = map_resultE (\<lambda>x. f (g x)) xs"
  by (induction xs) auto

lemma map_resultE_cong: "(\<And>x. x \<in> set xs \<Longrightarrow> f x = g x) \<Longrightarrow> map_resultE f xs = map_resultE g xs"
  by (induction xs) auto

lemma events_by_ids_rows:
  assumes "distinct (map er_event_id (events db))" "set rows \<subseteq> set (events db)"
  shows "events_by_ids db (map er_event_id rows) = map_resultE row_to_event rows"
  unfolding events_by_ids_def map_resultE_map
  using assms by (intro map_resultE_cong) (auto simp: event_by_id_row)

lemma map_resultE_map_Inr: "map f xs = map Inr ys \<Longrightarrow> map_resultE f xs = Inr ys"
  by (induction xs arbitrary: ys) auto

lemma events_by_ids_exist:
  assumes "log_inv db" "set l \<subseteq> set (map er_event_id (events db))"
  shows "\<exists>stored. events_by_ids db l = Inr stored"
  using assms(2)
proof (induction l)
  case (Cons i l)
  then obtain r where r: "r \<in> set (events db)" "i = er_event_id r" by auto
  then have "event_by_id db i = Some r" using assms(1) event_by_id_row by (auto simp: log_inv_def)
  moreover obtain s where "row_to_event r = Inr s" using r assms(1) by (auto simp: log_inv_def)
  ultimately show ?case using Cons by (auto simp: events_by_ids_def)
qed (simp add: events_by_ids_def)

lemma append_effect_simps [simp]:
  "events (append_effect ids et ei ex evs idem nonce at0 at db)
     = events db @ new_rows ids et ei ex at 0 (length (events db)) evs"
  "contract_revision_bindings (append_effect ids et ei ex evs idem nonce at0 at db) = contract_revision_bindings db"
  "worker_leases (append_effect ids et ei ex evs idem nonce at0 at db) = worker_leases db"
  "lease_counters (append_effect ids et ei ex evs idem nonce at0 at db) = lease_counters db"
  by (simp_all add: append_effect_def)

lemma current_sequence_effect:
  "current_sequence (append_effect ids et ei ex evs idem nonce at0 at db) et' ei'
     = (if et' = et \<and> ei' = ei then ex + int (length evs) else current_sequence db et' ei')"
  by (simp add: current_sequence_def append_effect_def)

lemma upt_append: "[0..<m + n] = [0..<m] @ map ((+) m) [0..<n]"
  by (induction n) simp_all

lemma log_inv_effect:
  assumes inv: "log_inv db" and seq: "current_sequence db et ei = ex" and wf: "list_all event_wf evs"
    and ids: "\<forall>k. ids k \<noteq> []"
    and fresh: "distinct (map ids [0..<length evs])"
      "set (map ids [0..<length evs]) \<inter> set (map er_event_id (events db)) = {}"
  shows "log_inv (append_effect ids et ei ex evs idem nonce at0 at db)"
proof -
  let ?db = "append_effect ids et ei ex evs idem nonce at0 at db"
  let ?n = "length (events db)" and ?m = "length evs"
  let ?rows = "new_rows ids et ei ex at 0 ?n evs"
  have pos: "map er_global_position (events db) = map (\<lambda>i. int i + 1) [0..<?n]"
    and dist: "distinct (map er_event_id (events db))" "[] \<notin> set (map er_event_id (events db))"
    and str: "\<And>et ei. current_sequence db et ei \<ge> 0 \<and> map er_entity_sequence (filter (in_stream et ei) (events db))
          = map (\<lambda>i. int i + 1) [0..<nat (current_sequence db et ei)]"
    and rd: "\<And>r. r \<in> set (events db) \<Longrightarrow> \<exists>s. row_to_event r = Inr s"
    using inv by (auto simp: log_inv_def)
  have "map er_global_position (events ?db) = map (\<lambda>i. int i + 1) [0..<length (events ?db)]"
    using pos upt_add_eq_append [of 0 ?n ?m] by (simp add: new_rows_positions)
  moreover have "distinct (map er_event_id (events ?db))"
    using dist fresh by (simp add: new_rows_ids) blast
  moreover have "[] \<notin> set (map ids [0..<?m])" using ids by (metis (no_types) imageE list.set_map)
  then have "[] \<notin> set (map er_event_id (events ?db))"
    using dist(2) unfolding append_effect_simps map_append new_rows_ids by simp
  moreover have "current_sequence ?db et' ei' \<ge> 0 \<and> map er_entity_sequence (filter (in_stream et' ei') (events ?db))
      = map (\<lambda>i. int i + 1) [0..<nat (current_sequence ?db et' ei')]" for et' ei'
  proof (cases "et' = et \<and> ei' = ei")
    case True
    have "nat (ex + int ?m) = nat ex + ?m" using str [of et ei] seq by auto
    then show ?thesis
      using str [of et ei] seq True
      by (simp add: current_sequence_effect new_rows_stream new_rows_sequences upt_append [of "nat ex"])
  next
    case False
    then show ?thesis using str [of et' ei'] by (auto simp: current_sequence_effect new_rows_stream)
  qed
  moreover have "\<exists>s. row_to_event r = Inr s" if "r \<in> set (events ?db)" for r
    using that rd new_rows_readable [OF wf] by auto
  ultimately show ?thesis unfolding log_inv_def by blast
qed

lemma idempotency_inv_effect:
  assumes inv: "idempotency_inv db" and evs: "evs \<noteq> []" and ids: "distinct (map ids [0..<length evs])" "\<forall>k. ids k \<noteq> []"
  shows "idempotency_inv (append_effect ids et ei ex evs idem nonce at0 at db)"
  unfolding idempotency_inv_def
proof (intro allI impI)
  let ?db = "append_effect ids et ei ex evs idem nonce at0 at db"
  let ?l = "map ids [0..<length evs]"
  fix k row assume row: "idempotency_records ?db k = Some row"
  show "\<exists>l. l \<noteq> [] \<and> distinct l \<and> [] \<notin> set l \<and> set l \<subseteq> set (map er_event_id (events ?db)) \<and>
      ir_event_ids_json row = canonical_json (JStrs l)"
  proof (cases "idempotency_records db k = Some row")
    case True
    then obtain l where "l \<noteq> []" "distinct l" "[] \<notin> set l" "set l \<subseteq> set (map er_event_id (events db))"
      "ir_event_ids_json row = canonical_json (JStrs l)"
      using inv unfolding idempotency_inv_def by blast
    moreover have "set (map er_event_id (events db)) \<subseteq> set (map er_event_id (events ?db))" by auto
    ultimately show ?thesis by blast
  next
    case False
    then obtain i where "idem = Some i" "ir_event_ids_json row = canonical_json (JStrs ?l)"
      using row by (auto simp: append_effect_def split: option.splits if_splits)
    moreover have "?l \<noteq> []" using evs by simp
    moreover have "[] \<notin> set ?l" using ids(2) by (metis (no_types) imageE list.set_map)
    moreover have "set ?l \<subseteq> set (map er_event_id (events ?db))"
      unfolding append_effect_simps map_append new_rows_ids by simp
    ultimately show ?thesis using ids(1) by blast
  qed
qed

lemma event_inv_effect:
  assumes "event_inv db" "current_sequence db et ei = ex" "list_all event_wf evs" "evs \<noteq> []"
    and "distinct (map ids [0..<length evs])" "\<forall>k. ids k \<noteq> []"
    and "set (map ids [0..<length evs]) \<inter> set (map er_event_id (events db)) = {}"
  shows "event_inv (append_effect ids et ei ex evs idem nonce at0 at db)"
proof -
  have "binding_inv (append_effect ids et ei ex evs idem nonce at0 at db)"
    using assms(1) by (auto simp: event_inv_def binding_inv_def)
  moreover have "lease_inv (append_effect ids et ei ex evs idem nonce at0 at db)"
    using assms(1) by (simp add: event_inv_def lease_inv_def)
  moreover have "log_inv (append_effect ids et ei ex evs idem nonce at0 at db)"
    by (rule log_inv_effect) (use assms in \<open>simp_all add: event_inv_def\<close>)
  moreover have "idempotency_inv (append_effect ids et ei ex evs idem nonce at0 at db)"
    by (rule idempotency_inv_effect) (use assms in \<open>simp_all add: event_inv_def\<close>)
  ultimately show ?thesis unfolding event_inv_def by blast
qed

section \<open>Idempotency records\<close>

lemma json_strings_map: "[] \<notin> set l \<Longrightarrow> json_strings (map JStr l) = Some l"
  by (induction l) auto

lemma json_strs_wf: "json_wf (JStrs l)" "json_norm (JStrs l) = JStrs l"
  by (auto simp: list_all_iff)

lemma resolve_idempotency_inv:
  assumes "ir_event_ids_json row = canonical_json (JStrs l)" "l \<noteq> []" "distinct l" "[] \<notin> set l"
    and "ir_request_hash row = id_request_hash i"
  shows "resolve_idempotency db row i = events_by_ids db l"
  using assms json_strings_map [OF assms(4)] json_strs_wf
  by (simp add: resolve_idempotency_def load_canonical_json_dump del: canonical_json.simps json_wf.simps json_norm.simps)

lemma existing_idempotency_conflict:
  assumes "idempotency_records db (id_scope i, id_key i) = Some row" "ir_request_hash row \<noteq> id_request_hash i"
  shows "\<exists>m. existing_idempotency db (Some i) = Inl (IdempotencyConflict m)"
  using assms by (simp add: existing_idempotency_def resolve_idempotency_def require_def)

text \<open>A record of a command that committed resolves to the same events in every later state.\<close>

definition replays :: "event_db \<Rightarrow> Idempotency \<Rightarrow> StoredEvent list \<Rightarrow> bool" where
  "replays db i stored \<longleftrightarrow>
     (\<exists>row l. idempotency_records db (id_scope i, id_key i) = Some row \<and> ir_request_hash row = id_request_hash i \<and>
        ir_event_ids_json row = canonical_json (JStrs l) \<and> l \<noteq> [] \<and> distinct l \<and> [] \<notin> set l \<and>
        events_by_ids db l = Inr stored)"

lemma replays_existing: "replays db i stored \<Longrightarrow> existing_idempotency db (Some i) = Inr (Some stored)"
  by (auto simp: replays_def existing_idempotency_def resolve_idempotency_inv)

lemma existing_replays:
  assumes "idempotency_inv db" "existing_idempotency db (Some i) = Inr (Some stored)"
  shows "replays db i stored"
proof -
  obtain row where row: "idempotency_records db (id_scope i, id_key i) = Some row"
    "resolve_idempotency db row i = Inr stored"
    using assms(2) by (auto simp: existing_idempotency_def result_simps split: option.splits)
  moreover have h: "ir_request_hash row = id_request_hash i"
    using row(2) by (auto simp: resolve_idempotency_def result_simps)
  moreover obtain l where l: "l \<noteq> []" "distinct l" "[] \<notin> set l" "ir_event_ids_json row = canonical_json (JStrs l)"
    using assms(1) row(1) unfolding idempotency_inv_def by blast
  ultimately show ?thesis unfolding replays_def using resolve_idempotency_inv [OF l(4,1-3) h] by metis
qed

lemma existing_none: "existing_idempotency db (Some i) = Inr None \<longleftrightarrow> idempotency_records db (id_scope i, id_key i) = None"
  by (auto simp: existing_idempotency_def result_simps split: option.splits)

lemma events_by_ids_prefix:
  assumes "prefix (events db) (events db')" "events_by_ids db l = Inr stored"
  shows "events_by_ids db' l = Inr stored"
proof -
  obtain t where t: "events db' = events db @ t" using assms(1) by (auto simp: prefix_def)
  have find: "find p (xs @ t) = Some r" if "find p xs = Some r" for p r and xs :: "event_row list"
    using that by (induction xs) (auto split: if_splits)
  have "event_by_id db' i = Some r" if "event_by_id db i = Some r" for i r
    using that find t by (simp add: event_by_id_def)
  then show ?thesis
    using assms(2) unfolding events_by_ids_def map_resultE_Inr
    by (elim list_all2_mono) (auto split: option.splits)
qed

section \<open>Registrations\<close>

lemma register_locked_cases:
  assumes "register_locked clk ids b e i n db = Inr (stored, db')"
  obtains (replay) "existing_idempotency db (Some i) = Inr (Some stored)" "db' = db"
      "assert_registration_events_match db b stored = Inr ()"
  | (linked) eid at where "existing_idempotency db (Some i) = Inr None"
      "(b, eid) \<in> set (contract_revision_bindings db)" "events_by_ids db [eid] = Inr stored"
      "db' = db\<lparr>idempotency_records := (idempotency_records db)((id_scope i, id_key i) \<mapsto>
         \<lparr>ir_request_hash = id_request_hash i, ir_event_ids_json = canonical_json (JStrs [eid]), ir_created_at = at\<rparr>)\<rparr>"
  | (registered) db1 where "existing_idempotency db (Some i) = Inr None"
      "append_locked clk ids ''task'' (cb_bundle_id b) 0 [e] (Some i) True (Some n) db = Inr (stored, db1)"
      "db' = db1\<lparr>contract_revision_bindings := contract_revision_bindings db1 @ [(b, se_event_id (hd stored))]\<rparr>"
      "\<forall>row \<in> set (contract_revision_bindings db1). binding_key (fst row) \<noteq> binding_key b \<and>
         cb_bundle_id (fst row) \<noteq> cb_bundle_id b \<and> snd row \<noteq> se_event_id (hd stored)"
      "se_event_id (hd stored) \<in> set (map er_event_id (events db1))"
proof -
  obtain replayed where r: "existing_idempotency db (Some i) = Inr replayed"
    using assms by (auto simp: register_locked_def result_simps)
  show thesis
  proof (cases replayed)
    case (Some s)
    then show thesis using assms r by (intro replay) (auto simp: register_locked_def result_simps)
  next
    case None
    define sel where "sel = (if contract_revision_projection_row db (binding_key b) \<noteq> None
      then contract_revision_projection_row db (binding_key b)
      else find (\<lambda>row. cb_bundle_id (fst row) = cb_bundle_id b) (contract_revision_bindings db))"
    show thesis
    proof (cases sel)
      case (Some selected)
      then have sel: "selected \<in> set (contract_revision_bindings db)"
        by (auto simp: sel_def contract_revision_projection_row_def find_Some_iff split: if_splits)
      obtain pb where pb: "registration_binding_from_projection_row selected = Inr pb" "pb = b"
        and st: "events_by_ids db [snd selected] = Inr stored"
        and db': "record_idempotency i [snd selected] (utc_micros_text (as_utc (clk 2))) db = Inr db'"
        using assms r None Some unfolding register_locked_def sel_def [symmetric] Let_def
        by (auto simp: result_simps simp flip: sel_def split: if_splits)
      have "fst selected = b"
        using pb by (auto simp: registration_binding_from_projection_row_def ContractRevisionBinding_init_def result_simps)
      then have "(b, snd selected) \<in> set (contract_revision_bindings db)" using sel by (metis prod.collapse)
      then show thesis using linked r None st db' by (auto simp: record_idempotency_def result_simps)
    next
      case none: None
      then show thesis
        using assms r None registered unfolding register_locked_def sel_def [symmetric] Let_def
        by (auto simp: result_simps insert_contract_revision_binding_def simp flip: sel_def split: if_splits)
    qed
  qed
qed

section \<open>All writers together\<close>

text \<open>
  One transaction of any client of the database. The event payloads are JSON values, the
  identifiers of \<open>uuid4\<close> are not empty and a binding was built by its constructor.
\<close>

inductive event_step :: "event_db \<Rightarrow> event_db \<Rightarrow> bool" where
  append: "append_events clk ids et ei ex evs idem nonce db = (r, db') \<Longrightarrow> list_all event_wf evs \<Longrightarrow>
    \<forall>k. ids k \<noteq> [] \<Longrightarrow> event_step db db'"
| fenced: "append_fenced clk ids et ei task l ex evs idem nonce db = (r, db') \<Longrightarrow> list_all event_wf evs \<Longrightarrow>
    \<forall>k. ids k \<noteq> [] \<Longrightarrow> event_step db db'"
| register: "append_contract_revision_registration clk ids b e i n db = (r, db') \<Longrightarrow> event_wf e \<Longrightarrow>
    \<forall>k. ids k \<noteq> [] \<Longrightarrow> ContractRevisionBinding_init b = Inr b \<Longrightarrow> event_step db db'"
| lease: "lease_step db db' \<Longrightarrow> event_step db db'"

text \<open>Every committed transaction is one of these changes.\<close>

lemma append_request_nonempty: "validate_append_request et ei ex evs = Inr u \<Longrightarrow> evs \<noteq> []"
  by (simp add: validate_append_request_def result_simps)

lemma append_events_cases:
  assumes "append_events clk ids et ei ex evs idem nonce db = (r, db')"
  obtains (unchanged) "db' = db"
  | (wrote) stored where "r = Inr stored" "evs \<noteq> []"
      "append_locked clk ids et ei ex evs idem False nonce db = Inr (stored, db')"
  using assms
  by (auto simp: append_events_def write_transaction_def bindE_eq_Inr require_eq_Inr
      split: sum.splits prod.splits dest: append_request_nonempty)

lemma append_fenced_cases:
  assumes "append_fenced clk ids et ei task l ex evs idem nonce db = (r, db')"
  obtains (unchanged) "db' = db"
  | (wrote) stored where "r = Inr stored" "evs \<noteq> []" "existing_idempotency db idem = Inr None"
      "assert_current_fence (clk 2) task l db = Inr ()"
      "append_locked clk ids et ei ex evs idem True nonce db = Inr (stored, db')"
  using assms
  by (auto simp: append_fenced_def write_transaction_def bindE_eq_Inr require_eq_Inr
      split: sum.splits prod.splits option.splits dest: append_request_nonempty)

lemma registration_cases:
  assumes "append_contract_revision_registration clk ids b e i n db = (r, db')"
  obtains (unchanged) "db' = db"
  | (wrote) stored where "r = Inr stored" "register_locked clk ids b e i n db = Inr (stored, db')"
  using assms
  by (auto simp: append_contract_revision_registration_def write_transaction_def
      split: sum.splits prod.splits)

definition extends :: "event_db \<Rightarrow> event_db \<Rightarrow> bool" where
  "extends db db' \<longleftrightarrow> prefix (events db) (events db') \<and>
     prefix (contract_revision_bindings db) (contract_revision_bindings db') \<and>
     idempotency_records db \<subseteq>\<^sub>m idempotency_records db' \<and>
     attestation_nonce_uses db \<subseteq>\<^sub>m attestation_nonce_uses db'"

lemma extends_refl [simp]: "extends db db"
  by (simp add: extends_def)

lemma map_le_upd: "m k = None \<Longrightarrow> m \<subseteq>\<^sub>m m(k \<mapsto> v)"
  by (auto simp: map_le_def)

lemma append_effect_extends:
  assumes "\<And>n. nonce = Some n \<Longrightarrow> attestation_nonce_uses db (nonce_key n) = None"
    and "\<And>i. idem = Some i \<Longrightarrow> idempotency_records db (id_scope i, id_key i) = None"
  shows "extends db (append_effect ids et ei ex evs idem nonce at0 at db)"
  using assms by (auto simp: extends_def append_effect_def map_le_upd split: option.splits)

lemma append_locked_extends:
  assumes "append_locked clk ids et ei ex evs idem checked nonce db = Inr (stored, db')"
  shows "extends db db'"
  using assms by (cases rule: append_locked_cases) (auto intro!: append_effect_extends)

lemma lease_step_tables:
  fixes db db' :: event_db
  assumes "lease_step db db'"
  shows "events db' = events db" "entity_versions db' = entity_versions db"
    "idempotency_records db' = idempotency_records db"
    "attestation_nonce_uses db' = attestation_nonce_uses db"
    "contract_revision_bindings db' = contract_revision_bindings db"
  using assms by (cases rule: lease_step_effect; simp add: grant_def Let_def)+

lemma register_locked_extends:
  assumes "register_locked clk ids b e i n db = Inr (stored, db')"
  shows "extends db db'"
  using assms
proof (cases rule: register_locked_cases)
  case (linked eid at)
  then show ?thesis by (auto simp: extends_def existing_none map_le_upd)
next
  case (registered db1)
  then show ?thesis using append_locked_extends [OF registered(2)] by (auto simp: extends_def prefix_def)
qed simp

lemma event_step_extends: "event_step db db' \<Longrightarrow> extends db db'"
proof (induction rule: event_step.induct)
  case (append clk ids et ei ex evs idem nonce db r db')
  then show ?case by (cases rule: append_events_cases [OF append(1)]) (auto dest: append_locked_extends)
next
  case (fenced clk ids et ei task l ex evs idem nonce db r db')
  then show ?case by (cases rule: append_fenced_cases [OF fenced(1)]) (auto dest: append_locked_extends)
next
  case (register clk ids b e i n db r db')
  then show ?case by (cases rule: registration_cases [OF register(1)]) (auto dest: register_locked_extends)
next
  case (lease db db')
  then show ?case by (simp add: extends_def lease_step_tables)
qed

interpretation event_log: append_log event_step events
  using event_step_extends by unfold_locales (auto simp: extends_def)

interpretation binding_log: append_log event_step contract_revision_bindings
  using event_step_extends by unfold_locales (auto simp: extends_def)

interpretation nonce_table: write_once_table event_step attestation_nonce_uses
  using event_step_extends by unfold_locales (force simp: extends_def map_le_def dom_def)

interpretation idempotency_table: write_once_table event_step idempotency_records
  using event_step_extends by unfold_locales (force simp: extends_def map_le_def dom_def)

lemma append_locked_inv:
  assumes "append_locked clk ids et ei ex evs idem checked nonce db = Inr (stored, db')"
    and "event_inv db" "list_all event_wf evs" "evs \<noteq> []" "\<forall>k. ids k \<noteq> []"
  shows "event_inv db'"
  using assms(1)
proof (cases rule: append_locked_cases)
  case (wrote at0 at)
  then show ?thesis using event_inv_effect assms by metis
qed (use assms(2) in simp)

lemma event_inv_link:
  assumes "event_inv db" "eid \<in> set (map er_event_id (events db))" "ir_event_ids_json row = canonical_json (JStrs [eid])"
  shows "event_inv (db\<lparr>idempotency_records := (idempotency_records db)(k \<mapsto> row)\<rparr>)"
proof -
  have "eid \<noteq> []" using assms(1,2) unfolding event_inv_def log_inv_def by blast
  then have "\<exists>l. l \<noteq> [] \<and> distinct l \<and> [] \<notin> set l \<and> set l \<subseteq> set (map er_event_id (events db)) \<and>
      ir_event_ids_json row = canonical_json (JStrs l)"
    using assms(2,3) by (intro exI [of _ "[eid]"]) simp
  then have "idempotency_inv (db\<lparr>idempotency_records := (idempotency_records db)(k \<mapsto> row)\<rparr>)"
    using assms(1) unfolding event_inv_def idempotency_inv_def by simp
  then show ?thesis
    using assms(1) by (simp add: event_inv_def lease_inv_def log_inv_def binding_inv_def current_sequence_def)
qed

lemma event_inv_bind:
  assumes "event_inv db" "ContractRevisionBinding_init b = Inr b" "eid \<in> set (map er_event_id (events db))"
    and "\<forall>row \<in> set (contract_revision_bindings db). binding_key (fst row) \<noteq> binding_key b \<and>
         cb_bundle_id (fst row) \<noteq> cb_bundle_id b \<and> snd row \<noteq> eid"
  shows "event_inv (db\<lparr>contract_revision_bindings := contract_revision_bindings db @ [(b, eid)]\<rparr>)"
proof -
  have "binding_inv (db\<lparr>contract_revision_bindings := contract_revision_bindings db @ [(b, eid)]\<rparr>)"
    using assms unfolding event_inv_def binding_inv_def by (auto simp: image_iff)
  then show ?thesis
    using assms(1)
    by (simp add: event_inv_def lease_inv_def log_inv_def idempotency_inv_def current_sequence_def)
qed

lemma register_locked_inv:
  assumes "register_locked clk ids b e i n db = Inr (stored, db')" "event_inv db" "event_wf e"
    and "\<forall>k. ids k \<noteq> []" "ContractRevisionBinding_init b = Inr b"
  shows "event_inv db'"
  using assms(1)
proof (cases rule: register_locked_cases)
  case (linked eid at)
  have "eid \<in> set (map er_event_id (events db))"
    using assms(2) linked(2) unfolding event_inv_def binding_inv_def by force
  then show ?thesis using linked(4) event_inv_link [OF assms(2)] by simp
next
  case (registered db1)
  have "event_inv db1" using append_locked_inv [OF registered(2)] assms by simp
  then show ?thesis using event_inv_bind registered assms(5) by simp
qed (use assms(2) in simp)

lemma event_inv_lease: "event_inv db \<Longrightarrow> lease_step db db' \<Longrightarrow> event_inv db'"
  using lease_inv_step [of db db'] lease_step_tables [of db db']
  by (simp add: event_inv_def log_inv_def idempotency_inv_def binding_inv_def current_sequence_def)

lemma event_inv_step: "event_step db db' \<Longrightarrow> event_inv db \<Longrightarrow> event_inv db'"
proof (induction rule: event_step.induct)
  case (append clk ids et ei ex evs idem nonce db r db')
  then show ?case by (cases rule: append_events_cases [OF append(1)]) (auto intro: append_locked_inv)
next
  case (fenced clk ids et ei task l ex evs idem nonce db r db')
  then show ?case by (cases rule: append_fenced_cases [OF fenced(1)]) (auto intro: append_locked_inv)
next
  case (register clk ids b e i n db r db')
  then show ?case by (cases rule: registration_cases [OF register(1)]) (auto intro: register_locked_inv)
qed (auto intro: event_inv_lease)

lemma event_inv_steps: "event_step\<^sup>*\<^sup>* db db' \<Longrightarrow> event_inv db \<Longrightarrow> event_inv db'"
  by (induction rule: rtranclp_induct) (auto intro: event_inv_step)

definition empty_store :: event_db where
  "empty_store = \<lparr>worker_leases = \<lambda>_. None, lease_counters = \<lambda>_. None, events = [],
     entity_versions = \<lambda>_. None, idempotency_records = \<lambda>_. None, attestation_nonce_uses = \<lambda>_. None,
     contract_revision_bindings = []\<rparr>"

lemma empty_store_inv: "event_inv empty_store"
  by (simp add: event_inv_def lease_inv_def log_inv_def idempotency_inv_def binding_inv_def
      current_sequence_def empty_store_def)

text \<open>The lease tables as a fencing service under all the steps of the store.\<close>

lemma append_locked_leases:
  assumes "append_locked clk ids et ei ex evs idem checked nonce db = Inr (stored, db')"
  shows "worker_leases db' = worker_leases db" "lease_counters db' = lease_counters db"
  using assms by (cases rule: append_locked_cases; simp)+

lemma register_locked_leases:
  assumes "register_locked clk ids b e i n db = Inr (stored, db')"
  shows "worker_leases db' = worker_leases db" "lease_counters db' = lease_counters db"
  using assms by (cases rule: register_locked_cases; simp add: append_locked_leases)+

lemma event_step_leases:
  "event_step db db' \<Longrightarrow> lease_step db db' \<or> worker_leases db' = worker_leases db \<and> lease_counters db' = lease_counters db"
proof (induction rule: event_step.induct)
  case (append clk ids et ei ex evs idem nonce db r db')
  then show ?case by (cases rule: append_events_cases [OF append(1)]) (auto simp: append_locked_leases)
next
  case (fenced clk ids et ei task l ex evs idem nonce db r db')
  then show ?case by (cases rule: append_fenced_cases [OF fenced(1)]) (auto simp: append_locked_leases)
next
  case (register clk ids b e i n db r db')
  then show ?case by (cases rule: registration_cases [OF register(1)]) (auto simp: register_locked_leases)
qed auto

interpretation store_leases: fencing event_step event_inv last_issued recorded_holder
proof
  fix db db' :: event_db and job p
  assume "event_inv db" "event_step db db'"
  then show "event_inv db'" by (auto intro: event_inv_step)
  show "last_issued db job \<le> last_issued db' job"
    using event_step_leases [OF \<open>event_step db db'\<close>] last_issued_step by (auto simp: last_issued_def)
  show "recorded_holder db job = Some p"
    if "last_issued db' job = last_issued db job" "recorded_holder db' job = Some p"
    using event_step_leases [OF \<open>event_step db db'\<close>] recorded_holder_step [OF _ that] that(2)
    by (auto simp: recorded_holder_def)
next
  fix db :: event_db and job h t
  assume "event_inv db" "recorded_holder db job = Some (h, t)"
  then show "t = last_issued db job" using recorded_holder_issued by (auto simp: event_inv_def)
qed

end
