(* ===== verification/EventProps.thy ===== *)
theory EventProps
  imports EventLog
begin

text \<open>
  What the event store promises its clients, over every interleaving of transactions:
  consistent streams, immutable history, optimistic locking without lost updates, exact
  replay of committed commands, one-time nonces, fenced writes and immutable bindings of
  contract revisions.
\<close>

section \<open>Streams\<close>

lemma sort_key_upt:
  assumes "map f xs = map (\<lambda>i. int i + 1) [0..<n]"
  shows "sort_key f xs = xs"
proof -
  have "sorted (map f xs)" unfolding assms by (auto simp: sorted_iff_nth_mono)
  then show ?thesis by (rule sort_key_id_if_sorted)
qed

lemma stream_sequences_positive:
  assumes "log_inv db" "r \<in> set (filter (in_stream et ei) (events db))"
  shows "er_entity_sequence r > 0"
proof -
  have "er_entity_sequence r \<in> set (map er_entity_sequence (filter (in_stream et ei) (events db)))"
    using assms(2) by simp
  also have "\<dots> = set (map (\<lambda>i. int i + 1) [0..<nat (current_sequence db et ei)])"
    using assms(1) unfolding log_inv_def by metis
  finally show ?thesis by auto
qed

lemma row_to_event_sequence: "row_to_event r = Inr s \<Longrightarrow> se_entity_sequence s = er_entity_sequence r"
  by (auto simp: row_to_event_def result_simps)

lemma map_resultE_readable:
  assumes "\<forall>r \<in> set rows. \<exists>s. row_to_event r = Inr s"
  shows "\<exists>stored. map_resultE row_to_event rows = Inr stored \<and>
    map se_entity_sequence stored = map er_entity_sequence rows"
  using assms by (induction rows) (auto simp: row_to_event_sequence)

lemma current_sequence_length:
  assumes "log_inv db"
  shows "current_sequence db et ei = int (length (filter (in_stream et ei) (events db)))"
proof -
  have "length (filter (in_stream et ei) (events db)) = nat (current_sequence db et ei)"
    using assms unfolding log_inv_def by (metis length_map length_upt diff_zero)
  moreover have "current_sequence db et ei \<ge> 0" using assms unfolding log_inv_def by blast
  ultimately show ?thesis by simp
qed

lemma read_stream_rows:
  assumes "log_inv db"
  shows "read_stream db et ei 0 = map_resultE row_to_event (filter (in_stream et ei) (events db))"
proof -
  let ?rows = "filter (in_stream et ei) (events db)"
  have seq: "map er_entity_sequence ?rows = map (\<lambda>i. int i + 1) [0..<nat (current_sequence db et ei)]"
    using assms by (auto simp: log_inv_def)
  have "filter (\<lambda>r. in_stream et ei r \<and> er_entity_sequence r > 0) (events db) = ?rows"
    using stream_sequences_positive [OF assms, of _ et ei] by (intro filter_cong) auto
  then show ?thesis using sort_key_upt [OF seq] by (simp add: read_stream_def)
qed

text \<open>
  C25. In every reachable state of the store the log is consistent: event identifiers are
  unique, global positions are 1, 2, 3, ... in order, and every stream can be read back and
  has the entity sequence numbers 1, 2, ..., \<open>current_sequence\<close> without gap or repetition.
\<close>

theorem streams_are_contiguous:
  assumes "event_step\<^sup>*\<^sup>* empty_store db"
  shows "distinct (map er_event_id (events db)) \<and>
    map er_global_position (events db) = map (\<lambda>i. int i + 1) [0..<length (events db)] \<and>
    (\<exists>stored. read_stream db et ei 0 = Inr stored \<and>
       map se_entity_sequence stored = map (\<lambda>i. int i + 1) [0..<nat (current_sequence db et ei)])"
proof -
  have inv: "log_inv db" using event_inv_steps [OF assms empty_store_inv] by (simp add: event_inv_def)
  let ?rows = "filter (in_stream et ei) (events db)"
  have seq: "map er_entity_sequence ?rows = map (\<lambda>i. int i + 1) [0..<nat (current_sequence db et ei)]"
    and rd: "\<forall>r \<in> set ?rows. \<exists>s. row_to_event r = Inr s"
    using inv by (auto simp: log_inv_def)
  show ?thesis
    using read_stream_rows [OF inv, of et ei] map_resultE_readable [OF rd] seq inv unfolding log_inv_def by auto
qed

text \<open>
  C28. History is immutable: whatever transactions follow, every committed event keeps its
  place and its content, and no idempotency record, consumed nonce or contract-revision
  binding is ever changed or removed.
\<close>

theorem history_is_immutable:
  assumes "event_step\<^sup>*\<^sup>* db db'"
  shows "prefix (events db) (events db') \<and>
    prefix (contract_revision_bindings db) (contract_revision_bindings db') \<and>
    idempotency_records db \<subseteq>\<^sub>m idempotency_records db' \<and>
    attestation_nonce_uses db \<subseteq>\<^sub>m attestation_nonce_uses db'"
proof -
  have "idempotency_records db \<subseteq>\<^sub>m idempotency_records db'"
    using idempotency_table.table_steps [OF assms] by (force simp: map_le_def dom_def)
  moreover have "attestation_nonce_uses db \<subseteq>\<^sub>m attestation_nonce_uses db'"
    using nonce_table.table_steps [OF assms] by (force simp: map_le_def dom_def)
  ultimately show ?thesis
    using event_log.log_steps [OF assms] binding_log.log_steps [OF assms] by blast
qed

section \<open>Appending\<close>

lemma insert_events_succeeds:
  assumes "distinct (map ids [k..<k + length evs])"
    and "set (map ids [k..<k + length evs]) \<inter> set (map er_event_id (events db)) = {}"
    and "ex \<ge> 0" "\<forall>r \<in> set (events db). in_stream et ei r \<longrightarrow> er_entity_sequence r \<le> ex + int k"
  shows "\<exists>l db'. insert_events ids et ei ex at k evs db = Inr (l, db')"
  using assms
proof (induction evs arbitrary: k db)
  case (Cons e es)
  let ?r = "\<lparr>er_global_position = int (length (events db)) + 1, er_event_id = ids k, er_entity_type = et,
        er_entity_id = ei, er_entity_sequence = ex + int k + 1, er_event_type = ne_event_type e,
        er_payload_json = canonical_json (JObj (ne_payload e)),
        er_metadata_json = canonical_json (JObj (ne_metadata e)), er_recorded_at = at\<rparr>"
  let ?db = "db\<lparr>events := events db @ [?r]\<rparr>"
  have ids: "map ids [k..<k + length (e # es)] = ids k # map ids [Suc k..<Suc k + length es]"
    by (simp add: upt_conv_Cons del: upt_Suc)
  have "insert_event ?r db = Inr ?db"
    using Cons.prems unfolding ids by (auto simp: insert_event_def require_def in_stream_def)
  moreover have "\<exists>l db'. insert_events ids et ei ex at (Suc k) es ?db = Inr (l, db')"
  proof (rule Cons.IH)
    show "distinct (map ids [Suc k..<Suc k + length es])" using Cons.prems(1) unfolding ids by simp
    have "set (map ids [Suc k..<Suc k + length es]) \<inter> set (map er_event_id (events db)) = {}"
      using Cons.prems(2) unfolding ids by auto
    moreover have "ids k \<notin> set (map ids [Suc k..<Suc k + length es])" using Cons.prems(1) unfolding ids by simp
    ultimately show "set (map ids [Suc k..<Suc k + length es]) \<inter> set (map er_event_id (events ?db)) = {}"
      by (simp del: set_map upt_Suc)
    show "\<forall>r \<in> set (events ?db). in_stream et ei r \<longrightarrow> er_entity_sequence r \<le> ex + int (Suc k)"
      using Cons.prems(4) by auto
  qed (use Cons.prems in simp)
  ultimately show ?case by (auto simp del: canonical_json.simps)
qed simp

lemma stream_sequences_bounded:
  assumes "log_inv db" "r \<in> set (events db)" "in_stream et ei r"
  shows "er_entity_sequence r \<le> current_sequence db et ei"
proof -
  have "er_entity_sequence r \<in> set (map er_entity_sequence (filter (in_stream et ei) (events db)))"
    using assms(2,3) by simp
  also have "\<dots> = set (map (\<lambda>i. int i + 1) [0..<nat (current_sequence db et ei)])"
    using assms(1) unfolding log_inv_def by metis
  finally show ?thesis by auto
qed

text \<open>The state and the events of a successful append.\<close>

lemma events_by_ids_effect:
  assumes inv: "log_inv db" and "current_sequence db et ei = ex" and wf: "list_all event_wf evs"
    and "\<forall>k. ids k \<noteq> []" "distinct (map ids [0..<length evs])"
    and "set (map ids [0..<length evs]) \<inter> set (map er_event_id (events db)) = {}"
  shows "events_by_ids (append_effect ids et ei ex evs idem nonce at0 at db) (map ids [0..<length evs])
    = Inr (stored_events ids et ei ex at 0 (length (events db)) evs)"
proof -
  let ?db = "append_effect ids et ei ex evs idem nonce at0 at db"
  let ?rows = "new_rows ids et ei ex at 0 (length (events db)) evs"
  have "distinct (map er_event_id (events ?db))"
    using log_inv_effect [OF assms(1-6)] unfolding log_inv_def by blast
  then have "events_by_ids ?db (map er_event_id ?rows) = map_resultE row_to_event ?rows"
    by (intro events_by_ids_rows) auto
  then show ?thesis using map_resultE_map_Inr [OF new_rows_read [OF wf]] by (simp add: new_rows_ids)
qed

lemma append_locked_succeeds:
  assumes inv: "event_inv db" and seq: "current_sequence db et ei = ex"
    and idem: "existing_idempotency db idem = Inr None"
    and nonce: "\<And>n. nonce = Some n \<Longrightarrow> attestation_nonce_uses db (nonce_key n) = None"
    and clk: "aware (clk 0)" "aware (clk 1)"
    and wf: "list_all event_wf evs"
    and ids: "\<forall>k. ids k \<noteq> []" "distinct (map ids [0..<length evs])"
      "set (map ids [0..<length evs]) \<inter> set (map er_event_id (events db)) = {}"
  shows "append_locked clk ids et ei ex evs idem checked nonce db =
    Inr (stored_events ids et ei ex (utc_micros_text (as_utc (clk 1))) 0 (length (events db)) evs,
         append_effect ids et ei ex evs idem nonce (utc_micros_text (as_utc (clk 0)))
           (utc_micros_text (as_utc (clk 1))) db)"
proof -
  let ?consumed = "utc_micros_text (as_utc (clk 0))" and ?at = "utc_micros_text (as_utc (clk 1))"
  define nu where "nu = (case nonce of None \<Rightarrow> attestation_nonce_uses db
        | Some n \<Rightarrow> (attestation_nonce_uses db)(nonce_key n \<mapsto>
           \<lparr>nr_payload_hash = an_payload_hash n, nr_entity_type = et, nr_entity_id = ei, nr_consumed_at = ?consumed\<rparr>))"
  have log: "log_inv db" using inv by (simp add: event_inv_def)
  have 1: "(case nonce of None \<Rightarrow> Inr db | Some n \<Rightarrow> consume_attestation_nonce (clk 0) n et ei db)
      = Inr (db\<lparr>attestation_nonce_uses := nu\<rparr>)"
    using nonce clk
    by (auto simp: consume_attestation_nonce_def event_now_text_def event_utc_now_def nu_def require_def split: option.splits)
  let ?db2 = "db\<lparr>attestation_nonce_uses := nu, entity_versions := (entity_versions db)((et, ei) \<mapsto> ex + int (length evs))\<rparr>"
  have "ex \<ge> 0" using log seq by (auto simp: log_inv_def)
  moreover have "\<forall>r \<in> set (events ?db2). in_stream et ei r \<longrightarrow> er_entity_sequence r \<le> ex + int 0"
    using stream_sequences_bounded [OF log] seq by auto
  ultimately obtain l db3 where ins: "insert_events ids et ei ex ?at 0 evs ?db2 = Inr (l, db3)"
    using insert_events_succeeds [of ids 0 evs ?db2 ex et ei ?at] ids by auto
  note ins' = insert_events_Inr [OF ins]
  have rec: "(case idem of None \<Rightarrow> Inr db3 | Some i \<Rightarrow> record_idempotency i l ?at db3)
      = Inr (append_effect ids et ei ex evs idem nonce ?consumed ?at db)"
    using ins' idem
    by (auto simp: append_effect_def record_idempotency_def nu_def existing_none require_def
        simp del: canonical_json.simps map_map split: option.splits)
  have l: "l = map ids [0..<length evs]" using ins' by simp
  show ?thesis
    using seq idem events_by_ids_effect [OF log seq wf ids, of idem nonce ?consumed ?at] clk
    by (simp add: append_locked_def 1 ins [unfolded l] rec [unfolded l] Let_def current_sequence_def
        event_now_text_def event_utc_now_def del: One_nat_def)
qed

text \<open>
  Appending succeeds whenever it should, and does exactly what it says: on a store in its
  invariant, a well-formed request with the right expected sequence, an unused idempotency
  key, an unused nonce, an aware clock and fresh identifiers commits; it returns the new
  events, numbered consecutively after the expected sequence, and later reads of the stream
  see them at its end.
\<close>

theorem append_commits:
  assumes "event_inv db" "current_sequence db et ei = ex"
    and "validate_append_request et ei ex evs = Inr ()"
    and "et \<noteq> ''task'' \<or> list_all (\<lambda>e. ne_event_type e \<noteq> ''task.registered'') evs"
    and "existing_idempotency db idem = Inr None"
    and "opt_all (\<lambda>n. attestation_nonce_uses db (nonce_key n) = None) nonce"
    and "aware (clk 0)" "aware (clk 1)" "list_all event_wf evs"
    and "\<forall>k. ids k \<noteq> []" "distinct (map ids [0..<length evs])"
      "set (map ids [0..<length evs]) \<inter> set (map er_event_id (events db)) = {}"
  shows "\<exists>stored db'. append_events clk ids et ei ex evs idem nonce db = (Inr stored, db') \<and>
    stored = stored_events ids et ei ex (utc_micros_text (as_utc (clk 1))) 0 (length (events db)) evs \<and>
    current_sequence db' et ei = ex + int (length evs) \<and>
    events db' = events db @ new_rows ids et ei ex (utc_micros_text (as_utc (clk 1))) 0 (length (events db)) evs \<and>
    map row_to_event (drop (length (events db)) (events db')) = map Inr stored"
proof -
  have "append_locked clk ids et ei ex evs idem False nonce db =
    Inr (stored_events ids et ei ex (utc_micros_text (as_utc (clk 1))) 0 (length (events db)) evs,
         append_effect ids et ei ex evs idem nonce (utc_micros_text (as_utc (clk 0)))
           (utc_micros_text (as_utc (clk 1))) db)"
    using assms by (intro append_locked_succeeds) auto
  moreover have "\<not> (et = ''task'' \<and> list_ex (\<lambda>e. ne_event_type e = ''task.registered'') evs)"
    using assms(4) by (auto simp: list_ex_iff list_all_iff)
  ultimately show ?thesis
    using assms(3) by (simp add: append_events_def write_transaction_def current_sequence_effect
        new_rows_read [OF assms(9)] del: One_nat_def)
qed

lemma current_sequence_steps:
  assumes "event_step\<^sup>*\<^sup>* db db'" "event_inv db"
  shows "current_sequence db et ei \<le> current_sequence db' et ei"
proof -
  have "log_inv db" "log_inv db'"
    using assms event_inv_steps by (auto simp: event_inv_def)
  moreover obtain t where "events db' = events db @ t"
    using event_log.log_steps [OF assms(1)] by (auto simp: prefix_def)
  ultimately show ?thesis by (simp add: current_sequence_length)
qed

section \<open>Commands\<close>

text \<open>
  The three write commands of the store as values, so that a property can speak of any later
  command. \<open>run_command\<close> is the operation of \<open>Events\<close>; \<open>command_stream\<close> and \<open>command_expected\<close> are
  the stream and the expected sequence it appends at (a registration appends at sequence 0 of
  the stream of its task).
\<close>

datatype event_command =
    AppendEvents string string int "NewEvent list" "Idempotency option" "AttestationNonce option"
  | AppendFenced string string string Lease int "NewEvent list" "Idempotency option" "AttestationNonce option"
  | RegisterRevision ContractRevisionBinding NewEvent Idempotency AttestationNonce

fun run_command :: "(nat \<Rightarrow> datetime) \<Rightarrow> (nat \<Rightarrow> string) \<Rightarrow> event_command \<Rightarrow> event_db \<Rightarrow> StoredEvent list result \<times> event_db" where
  "run_command clk ids (AppendEvents et ei ex evs idem nonce) = append_events clk ids et ei ex evs idem nonce"
| "run_command clk ids (AppendFenced et ei task l ex evs idem nonce) = append_fenced clk ids et ei task l ex evs idem nonce"
| "run_command clk ids (RegisterRevision b e i n) = append_contract_revision_registration clk ids b e i n"

fun command_stream :: "event_command \<Rightarrow> string \<times> string" where
  "command_stream (AppendEvents et ei ex evs idem nonce) = (et, ei)"
| "command_stream (AppendFenced et ei task l ex evs idem nonce) = (et, ei)"
| "command_stream (RegisterRevision b e i n) = (''task'', cb_bundle_id b)"

fun command_expected :: "event_command \<Rightarrow> int" where
  "command_expected (AppendEvents et ei ex evs idem nonce) = ex"
| "command_expected (AppendFenced et ei task l ex evs idem nonce) = ex"
| "command_expected (RegisterRevision b e i n) = 0"

fun command_events :: "event_command \<Rightarrow> NewEvent list" where
  "command_events (AppendEvents et ei ex evs idem nonce) = evs"
| "command_events (AppendFenced et ei task l ex evs idem nonce) = evs"
| "command_events (RegisterRevision b e i n) = [e]"

fun command_idempotency :: "event_command \<Rightarrow> Idempotency option" where
  "command_idempotency (AppendEvents et ei ex evs idem nonce) = idem"
| "command_idempotency (AppendFenced et ei task l ex evs idem nonce) = idem"
| "command_idempotency (RegisterRevision b e i n) = Some i"

fun command_nonce :: "event_command \<Rightarrow> AttestationNonce option" where
  "command_nonce (AppendEvents et ei ex evs idem nonce) = nonce"
| "command_nonce (AppendFenced et ei task l ex evs idem nonce) = nonce"
| "command_nonce (RegisterRevision b e i n) = Some n"

fun command_wf :: "event_command \<Rightarrow> bool" where
  "command_wf (RegisterRevision b e i n) \<longleftrightarrow> event_wf e \<and> ContractRevisionBinding_init b = Inr b"
| "command_wf c \<longleftrightarrow> list_all event_wf (command_events c)"

text \<open>The command is a registration of a binding the store already holds.\<close>

fun redelivers :: "event_db \<Rightarrow> event_command \<Rightarrow> bool" where
  "redelivers db (RegisterRevision b e i n) \<longleftrightarrow> b \<in> fst ` set (contract_revision_bindings db)"
| "redelivers db c \<longleftrightarrow> False"

lemma command_step: "run_command clk ids c db = (r, db') \<Longrightarrow> command_wf c \<Longrightarrow> \<forall>k. ids k \<noteq> [] \<Longrightarrow> event_step db db'"
  by (cases c) (auto intro: event_step.intros)

lemma append_locked_sequence:
  assumes "append_locked clk ids et ei ex evs idem checked nonce db = Inr (stored, db')"
    and "checked \<or> existing_idempotency db idem = Inr None"
  shows "current_sequence db et ei = ex \<and> current_sequence db' et ei = ex + int (length evs)"
  using assms(1)
  by (cases rule: append_locked_cases) (use assms(2) in \<open>auto simp: current_sequence_effect\<close>)

lemma append_locked_nonce:
  assumes "append_locked clk ids et ei ex evs idem checked (Some n) db = Inr (stored, db')"
    and "checked \<or> existing_idempotency db idem = Inr None"
  shows "attestation_nonce_uses db (nonce_key n) = None \<and> attestation_nonce_uses db' (nonce_key n) \<noteq> None"
  using assms(1)
  by (cases rule: append_locked_cases) (use assms(2) in \<open>auto simp: append_effect_def\<close>)

text \<open>
  A command leaves the store as it is up to new idempotency records, or it appended events by
  the locked append, under a fresh idempotency key.
\<close>

lemma command_cases:
  assumes "run_command clk ids c db = (r, db')"
  obtains (recorded) recs where "idempotency_records db \<subseteq>\<^sub>m recs" "db' = db\<lparr>idempotency_records := recs\<rparr>"
  | (appended) checked stored db1 where "existing_idempotency db (command_idempotency c) = Inr None"
    "append_locked clk ids (fst (command_stream c)) (snd (command_stream c)) (command_expected c) (command_events c)
       (command_idempotency c) checked (command_nonce c) db = Inr (stored, db1)"
    "entity_versions db' = entity_versions db1" "attestation_nonce_uses db' = attestation_nonce_uses db1"
    "command_events c \<noteq> []"
proof (cases c)
  case (AppendEvents et ei ex evs idem nonce)
  then have "append_events clk ids et ei ex evs idem nonce db = (r, db')" using assms by simp
  then show thesis
  proof (cases rule: append_events_cases)
    case unchanged
    then show thesis using recorded [of "idempotency_records db"] by simp
  next
    case (wrote stored)
    from wrote(3) show thesis
    proof (cases rule: append_locked_cases)
      case replay
      then show thesis using recorded [of "idempotency_records db"] by simp
    qed (use wrote AppendEvents in \<open>auto intro: appended\<close>)
  qed
next
  case (AppendFenced et ei task l ex evs idem nonce)
  then have "append_fenced clk ids et ei task l ex evs idem nonce db = (r, db')" using assms by simp
  then show thesis
  proof (cases rule: append_fenced_cases)
    case unchanged
    then show thesis using recorded [of "idempotency_records db"] by simp
  qed (use AppendFenced in \<open>auto intro: appended\<close>)
next
  case (RegisterRevision b e i n)
  then have "append_contract_revision_registration clk ids b e i n db = (r, db')" using assms by simp
  then show thesis
  proof (cases rule: registration_cases)
    case unchanged
    then show thesis using recorded [of "idempotency_records db"] by simp
  next
    case (wrote stored)
    from wrote(2) show thesis
    proof (cases rule: register_locked_cases)
      case replay
      then show thesis using recorded [of "idempotency_records db"] by simp
    next
      case (linked eid at)
      then show thesis by (intro recorded) (auto simp: existing_none map_le_upd)
    qed (use RegisterRevision in \<open>auto intro: appended\<close>)
  qed
qed

text \<open>
  A command whose locked append cannot succeed at most records a redelivery; under a fresh key
  it fails and changes nothing, unless it is the redelivery of a registration.
\<close>

lemma command_blocked:
  assumes blocked: "\<And>checked p. checked \<or> existing_idempotency db (command_idempotency c) = Inr None \<Longrightarrow>
      append_locked clk ids (fst (command_stream c)) (snd (command_stream c)) (command_expected c) (command_events c)
        (command_idempotency c) checked (command_nonce c) db = Inr p \<Longrightarrow> False"
  shows "(\<exists>recs. idempotency_records db \<subseteq>\<^sub>m recs \<and>
      snd (run_command clk ids c db) = db\<lparr>idempotency_records := recs\<rparr>) \<and>
    (existing_idempotency db (command_idempotency c) = Inr None \<and> \<not> redelivers db c \<longrightarrow>
       (\<exists>e. run_command clk ids c db = (Inl e, db)))"
proof
  obtain r db' where run: "run_command clk ids c db = (r, db')" by fastforce
  then show "\<exists>recs. idempotency_records db \<subseteq>\<^sub>m recs \<and>
      snd (run_command clk ids c db) = db\<lparr>idempotency_records := recs\<rparr>"
  proof (cases rule: command_cases)
    case (recorded recs)
    then show ?thesis using run by auto
  next
    case (appended checked stored db1)
    then show ?thesis using blocked [of checked "(stored, db1)"] by simp
  qed
  show "existing_idempotency db (command_idempotency c) = Inr None \<and> \<not> redelivers db c \<longrightarrow>
       (\<exists>e. run_command clk ids c db = (Inl e, db))"
  proof (intro impI, elim conjE)
    assume fresh: "existing_idempotency db (command_idempotency c) = Inr None" and new: "\<not> redelivers db c"
    have no: "\<exists>e. append_locked clk ids (fst (command_stream c)) (snd (command_stream c)) (command_expected c)
        (command_events c) (command_idempotency c) checked (command_nonce c) db = Inl e" for checked
      using blocked fresh by (metis old.sum.exhaust)
    show "\<exists>e. run_command clk ids c db = (Inl e, db)"
    proof (cases c)
      case (AppendEvents et ei ex evs idem nonce)
      then show ?thesis
        using no [of False] by (auto simp: append_events_def write_transaction_def split: sum.splits)
    next
      case (AppendFenced et ei task l ex evs idem nonce)
      then show ?thesis
        using no [of True] fresh
        by (auto simp: append_fenced_def write_transaction_def split: sum.splits)
          (metis Inl_Inr_False sum.exhaust bindE.simps)+
    next
      case (RegisterRevision b e i n)
      have "\<not> register_locked clk ids b e i n db = Inr (stored, db'')" for stored db''
      proof
        assume "register_locked clk ids b e i n db = Inr (stored, db'')"
        then show False
          by (cases rule: register_locked_cases)
            (use fresh new no [of True] RegisterRevision in \<open>auto simp: image_iff Bex_def\<close>)
      qed
      then show ?thesis
        using RegisterRevision
        by (cases "register_locked clk ids b e i n db")
          (auto simp: append_contract_revision_registration_def write_transaction_def split: sum.splits)
    qed
  qed
qed

text \<open>A command that appended events moved its stream on and consumed its nonce.\<close>

lemma command_appended:
  assumes "run_command clk ids c db = (r, db')" "events db' \<noteq> events db" "command_stream c = (et, ei)"
  shows "current_sequence db' et ei > command_expected c"
    and "command_nonce c = Some n \<Longrightarrow> attestation_nonce_uses db' (nonce_key n) \<noteq> None"
proof -
  from assms(1) have "current_sequence db' et ei > command_expected c \<and>
    (command_nonce c = Some n \<longrightarrow> attestation_nonce_uses db' (nonce_key n) \<noteq> None)"
  proof (cases rule: command_cases)
    case (appended checked stored db1)
    have "current_sequence db' et ei = current_sequence db1 et ei" using appended(3) by (simp add: current_sequence_def)
    moreover have "checked \<or> existing_idempotency db (command_idempotency c) = Inr None" using appended(1) by simp
    ultimately show ?thesis
      using append_locked_sequence [OF appended(2)] append_locked_nonce [of clk ids et ei _ _ _ checked n db stored db1]
        appended(2,4,5) assms(3) by auto
  qed (use assms(2) in auto)
  then show "current_sequence db' et ei > command_expected c"
    "command_nonce c = Some n \<Longrightarrow> attestation_nonce_uses db' (nonce_key n) \<noteq> None" by auto
qed

text \<open>
  C9. No lost update: once any command (a plain append, a fenced append or a registration, with or
  without an idempotency key) has appended events to a stream at an expected sequence, no later
  command of any of these kinds and under any key appends to that stream at the same expected
  sequence, however many transactions lie in between: it leaves the store as it is up to
  a new idempotency record. Under an unused key, or none, it fails and writes nothing at all;
  the one exception is a redelivered registration of a binding the store already holds.
\<close>

theorem no_lost_update:
  assumes "event_inv db" "run_command clk ids c db = (r, db1)" "events db1 \<noteq> events db"
    and "command_wf c" "\<forall>k. ids k \<noteq> []" "event_step\<^sup>*\<^sup>* db1 db2"
    and "command_stream c' = command_stream c" "command_expected c' = command_expected c"
  shows "(\<exists>recs. idempotency_records db2 \<subseteq>\<^sub>m recs \<and>
      snd (run_command clk' ids' c' db2) = db2\<lparr>idempotency_records := recs\<rparr>) \<and>
    (existing_idempotency db2 (command_idempotency c') = Inr None \<and> \<not> redelivers db2 c' \<longrightarrow>
       (\<exists>e. run_command clk' ids' c' db2 = (Inl e, db2)))"
proof -
  obtain et ei where s: "command_stream c = (et, ei)" by fastforce
  have "current_sequence db1 et ei > command_expected c" using command_appended(1) [OF assms(2,3) s] .
  then have "current_sequence db2 et ei > command_expected c"
    using current_sequence_steps [OF assms(6) event_inv_step [OF command_step [OF assms(2,4,5)] assms(1)], of et ei]
    by simp
  then show ?thesis
    using s assms(7,8) append_locked_sequence by (intro command_blocked) fastforce
qed

section \<open>Replay\<close>

lemma replays_steps:
  assumes "event_step\<^sup>*\<^sup>* db db'" "replays db i stored"
  shows "replays db' i stored"
proof -
  obtain row l where "idempotency_records db (id_scope i, id_key i) = Some row" "ir_request_hash row = id_request_hash i"
    "ir_event_ids_json row = canonical_json (JStrs l)" "l \<noteq> []" "distinct l" "[] \<notin> set l" "events_by_ids db l = Inr stored"
    using assms(2) unfolding replays_def by blast
  moreover have "events_by_ids db' l = Inr stored"
    using events_by_ids_prefix [OF event_log.log_steps [OF assms(1)]] calculation by blast
  ultimately show ?thesis
    unfolding replays_def using idempotency_table.table_steps [OF assms(1)] by blast
qed

lemma append_locked_replays:
  assumes "append_locked clk ids et ei ex evs (Some i) checked nonce db = Inr (stored, db')"
    and "event_inv db" "evs \<noteq> []" "\<forall>k. ids k \<noteq> []"
  shows "replays db' i stored"
  using assms(1)
proof (cases rule: append_locked_cases)
  case replay
  then show ?thesis using existing_replays assms(2) by (auto simp: event_inv_def)
next
  case (wrote at0 at)
  let ?l = "map ids [0..<length evs]"
  have "[] \<notin> set ?l" using assms(4) by (metis (no_types) imageE list.set_map)
  moreover have "idempotency_records db' (id_scope i, id_key i) = Some
      \<lparr>ir_request_hash = id_request_hash i, ir_event_ids_json = canonical_json (JStrs ?l), ir_created_at = at\<rparr>"
    unfolding wrote(3) append_effect_def by simp
  ultimately show ?thesis
    unfolding replays_def using assms(3) wrote(6,8) by (intro exI conjI) auto
qed

lemma append_events_replayed:
  assumes "replays db i stored" "validate_append_request et ei ex evs = Inr ()"
    and "\<not> (et = ''task'' \<and> list_ex (\<lambda>e. ne_event_type e = ''task.registered'') evs)"
  shows "append_events clk ids et ei ex evs (Some i) nonce db = (Inr stored, db)"
  using assms replays_existing [OF assms(1)]
  by (simp add: append_events_def write_transaction_def append_locked_def)

text \<open>
  C16. A committed command is replayed, never repeated: submitting the same request again
  under its idempotency key, after any other transactions and with any clock and fresh
  identifiers, returns the events of the first commit and changes nothing; the same key with
  another request hash is refused.
\<close>

theorem idempotent_replay:
  assumes "event_inv db" "append_events clk ids et ei ex evs (Some i) nonce db = (Inr stored, db1)"
    and "\<forall>k. ids k \<noteq> []" "event_step\<^sup>*\<^sup>* db1 db2"
  shows "append_events clk' ids' et ei ex evs (Some i) nonce' db2 = (Inr stored, db2) \<and>
    (id_scope j = id_scope i \<and> id_key j = id_key i \<and> id_request_hash j \<noteq> id_request_hash i \<longrightarrow>
      (\<exists>m. append_events clk' ids' et ei ex evs (Some j) nonce' db2 = (Inl (IdempotencyConflict m), db2)))"
proof -
  have v: "validate_append_request et ei ex evs = Inr ()"
    "\<not> (et = ''task'' \<and> list_ex (\<lambda>e. ne_event_type e = ''task.registered'') evs)"
    and al: "append_locked clk ids et ei ex evs (Some i) False nonce db = Inr (stored, db1)"
    using assms(2)
    by (auto simp: append_events_def write_transaction_def bindE_eq_Inr require_eq_Inr split: sum.splits prod.splits)
  have r: "replays db2 i stored"
    using replays_steps [OF assms(4) append_locked_replays [OF al assms(1) append_request_nonempty [OF v(1)] assms(3)]] .
  moreover have "\<exists>m. existing_idempotency db2 (Some j) = Inl (IdempotencyConflict m)"
    if "id_scope j = id_scope i" "id_key j = id_key i" "id_request_hash j \<noteq> id_request_hash i"
    using r that existing_idempotency_conflict [of db2 j] by (auto simp: replays_def)
  ultimately show ?thesis
    using append_events_replayed v by (auto simp: append_events_def write_transaction_def append_locked_def)
qed

text \<open>
  C26. An attestation nonce authorises one state change: once any command (a plain append, a
  fenced append or a registration) has appended events under a nonce, no later command that
  presents a nonce with the same purpose, key and text changes the store, up to a new idempotency
  record. Under an unused idempotency key, or none, it fails and writes nothing at all. The
  exception the source documents is redelivery: a registration of a binding the store already
  holds may succeed under a new key with a used nonce; it records that key and nothing else.
\<close>

theorem nonce_used_once:
  assumes "run_command clk ids c db = (r, db1)" "events db1 \<noteq> events db" "command_nonce c = Some n"
    and "event_step\<^sup>*\<^sup>* db1 db2" "command_nonce c' = Some n'" "nonce_key n' = nonce_key n"
  shows "(\<exists>recs. idempotency_records db2 \<subseteq>\<^sub>m recs \<and>
      snd (run_command clk' ids' c' db2) = db2\<lparr>idempotency_records := recs\<rparr>) \<and>
    (existing_idempotency db2 (command_idempotency c') = Inr None \<and> \<not> redelivers db2 c' \<longrightarrow>
       (\<exists>e. run_command clk' ids' c' db2 = (Inl e, db2)))"
proof -
  obtain v where "attestation_nonce_uses db1 (nonce_key n) = Some v"
    using command_appended(2) [OF assms(1,2) prod.collapse [symmetric] assms(3)] by blast
  then have "attestation_nonce_uses db2 (nonce_key n') = Some v"
    using nonce_table.table_steps [OF assms(4)] assms(6) by metis
  then show ?thesis
    using assms(5) append_locked_nonce by (intro command_blocked) fastforce
qed

section \<open>Fences\<close>

lemma assert_current_fence_Inr:
  "assert_current_fence c task l db = Inr u \<longleftrightarrow> ls_job_id l = task \<and> assert_current c l db = Inr u"
  by (cases "worker_leases db task")
    (auto simp: assert_current_fence_def assert_current_def event_utc_now_def lease_utc_now_def result_simps
      require_def split: if_splits)

text \<open>
  C27. Only the current lease holder commits: if a fenced append changed the store, then the
  presented lease belongs to the task and was current in the very state the transaction
  saw, and every event it wrote names the task as its bundle.
\<close>

theorem fenced_commit_is_authorised:
  assumes "append_fenced clk ids et ei task l ex evs idem nonce db = (r, db')" "db' \<noteq> db"
  shows "ls_job_id l = task \<and> assert_current (clk 2) l db = Inr () \<and>
    (\<forall>e \<in> set evs. bundle_id_of (ne_payload e) = Some task) \<and>
    (\<exists>stored. r = Inr stored)"
  using assms(1)
proof (cases rule: append_fenced_cases)
  case (wrote stored)
  have "validate_fenced_task_binding task evs = Inr ()"
    using assms by (auto simp: append_fenced_def bindE_eq_Inr split: sum.splits)
  then have "\<forall>e \<in> set evs. bundle_id_of (ne_payload e) = Some task"
    by (auto simp: validate_fenced_task_binding_def result_simps list_all_iff)
  then show ?thesis using wrote by (simp add: assert_current_fence_Inr)
qed (use assms(2) in simp)

text \<open>
  C24. A superseded worker cannot commit: once another claim of the job returned a different
  fencing token, no fenced append under the old lease changes the store in any later state,
  whatever transactions of whatever clients lie in between.
\<close>

theorem superseded_worker_cannot_commit:
  assumes "event_inv db" "claim c1 job h1 ttl1 db = (Inr l1, db1)" "event_step\<^sup>*\<^sup>* db1 db2"
    and "claim c2 job h2 ttl2 db2 = (Inr l2, db3)" "ls_fencing_token l2 \<noteq> ls_fencing_token l1"
    and "event_step\<^sup>*\<^sup>* db3 db4"
  shows "snd (append_fenced clk ids et ei task l1 ex evs idem nonce db4) = db4"
proof -
  have s1: "event_step db db1" and s3: "event_step db2 db3"
    using assms(2,4) by (auto intro: event_step.lease lease_step.claim)
  have inv1: "event_inv db1" using event_inv_step s1 assms(1) by blast
  have s13: "event_step\<^sup>*\<^sup>* db1 db3" using assms(3) s3 by simp
  have h: "recorded_holder db1 job = Some (h1, ls_fencing_token l1)"
    "recorded_holder db3 job = Some (h2, ls_fencing_token l2)"
    using claim_recorded [OF assms(2)] claim_recorded [OF assms(4)] claim_Inr [OF assms(2)] claim_Inr [OF assms(4)]
    by simp_all
  have inv3: "event_inv db3" using event_inv_steps s13 inv1 by blast
  have "ls_fencing_token l1 < last_issued db3 job"
    using store_leases.one_holder [OF s13 inv1 h] assms(5) store_leases.holder_issued [OF inv3 h(2)] by simp
  then have no: "recorded_holder db4 job \<noteq> Some (ls_holder_id l1, ls_fencing_token l1)"
    using store_leases.stale_forever assms(6) inv3 by blast
  obtain r db' where a: "append_fenced clk ids et ei task l1 ex evs idem nonce db4 = (r, db')" by fastforce
  then have "db' = db4"
  proof (cases rule: append_fenced_cases)
    case (wrote stored)
    then show ?thesis
      using no claim_Inr [OF assms(2)] assert_current_Inr by (auto simp: assert_current_fence_Inr)
  qed simp
  then show ?thesis using a by simp
qed

section \<open>Contract revisions\<close>

lemma projection_row_unique:
  assumes "binding_inv db" "(b, eid) \<in> set (contract_revision_bindings db)"
  shows "contract_revision_projection_row db (binding_key b) = Some (b, eid)"
  using find_distinct [of "binding_key \<circ> fst" "contract_revision_bindings db" "(b, eid)"] assms
  by (auto simp: contract_revision_projection_row_def binding_inv_def)

lemma match_projected:
  assumes "assert_registration_events_match db b stored = Inr ()"
  shows "\<exists>eid. (b, eid) \<in> set (contract_revision_bindings db)"
proof -
  obtain row where row: "contract_revision_projection_row db (binding_key b) = Some row"
    "registration_binding_from_projection_row row = Inr b"
    using assms
    by (auto simp: assert_registration_events_match_def result_simps split: list.splits option.splits if_splits)
  then have "row \<in> set (contract_revision_bindings db)" "fst row = b"
    by (auto simp: contract_revision_projection_row_def find_Some_iff registration_binding_from_projection_row_def
        ContractRevisionBinding_init_def result_simps)
  then show ?thesis by (metis prod.collapse)
qed

lemma registered_binding:
  assumes "register_locked clk ids b e i n db = Inr (stored, db')"
  shows "\<exists>eid. (b, eid) \<in> set (contract_revision_bindings db')"
  using assms by (cases rule: register_locked_cases) (auto dest: match_projected)

text \<open>
  A frozen contract revision is bound once and for all: after a registration committed,
  any later registration that names the same contract revision or the same bundle, but is
  not the identical binding, fails and leaves the store unchanged, whatever happened in
  between.
\<close>

theorem contract_revision_bound_once:
  assumes "event_inv db" "append_contract_revision_registration clk ids b e i n db = (Inr stored, db1)"
    and "event_wf e" "\<forall>k. ids k \<noteq> []" "ContractRevisionBinding_init b = Inr b" "event_step\<^sup>*\<^sup>* db1 db2"
    and "binding_key b' = binding_key b \<or> cb_bundle_id b' = cb_bundle_id b" "b' \<noteq> b"
    and "event_wf e'" "\<forall>k. ids' k \<noteq> []" "ContractRevisionBinding_init b' = Inr b'"
  shows "\<exists>err. append_contract_revision_registration clk' ids' b' e' i' n' db2 = (Inl err, db2)"
proof -
  have "event_step db db1" using assms by (intro event_step.register)
  then have inv2: "event_inv db2" using assms(1,6) event_inv_step event_inv_steps by blast
  have "register_locked clk ids b e i n db = Inr (stored, db1)"
    using assms(2) by (auto simp: append_contract_revision_registration_def write_transaction_def
        split: sum.splits prod.splits)
  then obtain eid where "(b, eid) \<in> set (contract_revision_bindings db1)" using registered_binding by blast
  then have b: "(b, eid) \<in> set (contract_revision_bindings db2)"
    using binding_log.log_steps [OF assms(6)] by (auto simp: prefix_def)
  have False if r: "register_locked clk' ids' b' e' i' n' db2 = Inr p" for p
  proof -
    obtain s db3 where p: "p = (s, db3)" by fastforce
    then obtain eid' where b': "(b', eid') \<in> set (contract_revision_bindings db3)"
      using registered_binding r by blast
    have "(b, eid) \<in> set (contract_revision_bindings db3)"
      using register_locked_extends [of clk' ids' b' e' i' n' db2 s db3] r p b
      by (auto simp: extends_def prefix_def)
    moreover have "binding_inv db3"
      using register_locked_inv [of clk' ids' b' e' i' n' db2 s db3] r p inv2 assms(9-11)
      by (auto simp: event_inv_def)
    then have "inj_on (binding_key \<circ> fst) (set (contract_revision_bindings db3))"
      "inj_on (cb_bundle_id \<circ> fst) (set (contract_revision_bindings db3))"
      by (auto simp: binding_inv_def distinct_map)
    ultimately have "(b, eid) = (b', eid')"
      using b' assms(7) by (metis comp_apply fst_conv inj_onD)
    then show False using assms(8) by simp
  qed
  then show ?thesis
    by (cases "register_locked clk' ids' b' e' i' n' db2")
      (auto simp: append_contract_revision_registration_def write_transaction_def split: sum.splits)
qed

section \<open>Opening a store\<close>

lemma expected_bindings_Inr:
  "expected_bindings rows acc = Inr expected \<Longrightarrow>
     \<exists>bs. list_all2 (\<lambda>row b. registration_binding_from_event_row row = Inr b) rows bs \<and>
       expected = acc @ zip bs (map er_event_id rows)"
proof (induction rows acc rule: expected_bindings.induct)
  case (2 row rows acc)
  then obtain b where b: "registration_binding_from_event_row row = Inr b"
    and rest: "expected_bindings rows (acc @ [(b, er_event_id row)]) = Inr expected"
    by (auto simp: result_simps)
  obtain bs where "list_all2 (\<lambda>row b. registration_binding_from_event_row row = Inr b) rows bs"
    "expected = (acc @ [(b, er_event_id row)]) @ zip bs (map er_event_id rows)"
    using 2 b rest by (auto simp: result_simps)
  then show ?case using b by (intro exI [of _ "b # bs"]) simp
qed simp

lemma backfill_Inr:
  assumes "backfill_bindings projected rest db = Inr db'"
  shows "set (contract_revision_bindings db') = set (contract_revision_bindings db) \<union> (set rest - set projected) \<and>
    set rest \<subseteq> set (contract_revision_bindings db') \<union> set projected \<and> events db' = events db"
  using assms
proof (induction projected rest db arbitrary: db' rule: backfill_bindings.induct)
  case (2 projected b eid rest db)
  show ?case
  proof (cases "find (\<lambda>row. binding_key (fst row) = binding_key b) projected")
    case None
    then have new: "(b, eid) \<notin> set projected" by (auto simp: find_None_iff)
    obtain db1 where ins: "insert_contract_revision_binding b eid db = Inr db1"
      and rest: "backfill_bindings projected rest db1 = Inr db'"
      using 2(3) None by (auto simp: result_simps)
    have db1: "set (contract_revision_bindings db1) = insert (b, eid) (set (contract_revision_bindings db))"
      "events db1 = events db"
      using ins by (auto simp: insert_contract_revision_binding_def split: if_splits)
    have IH: "set (contract_revision_bindings db') = set (contract_revision_bindings db1) \<union> (set rest - set projected)"
      "set rest \<subseteq> set (contract_revision_bindings db') \<union> set projected" "events db' = events db1"
      using 2(1) [OF None _ rest] ins by auto
    have "set (contract_revision_bindings db')
        = set (contract_revision_bindings db) \<union> (set ((b, eid) # rest) - set projected)"
      unfolding IH(1) db1(1) using new by auto
    moreover have "set ((b, eid) # rest) \<subseteq> set (contract_revision_bindings db') \<union> set projected"
      using IH(1,2) db1(1) by auto
    ultimately show ?thesis using IH(3) db1(2) by metis
  next
    case (Some existing)
    then have e: "existing = (b, eid)" "backfill_bindings projected rest db = Inr db'"
      using 2(3) by (auto split: if_splits)
    moreover have "existing \<in> set projected" using Some by (auto simp: find_Some_iff)
    ultimately show ?thesis using 2(2) [OF Some] by auto
  qed
qed simp

lemma projected_rows:
  assumes "map_resultE (\<lambda>row. bindE (registration_binding_from_projection_row row) (\<lambda>b. Inr (b, snd row))) rows = Inr projected"
  shows "projected = rows"
  using assms unfolding map_resultE_Inr
  by (induction rows projected rule: list_all2_induct)
    (auto simp: result_simps registration_binding_from_projection_row_def ContractRevisionBinding_init_def)

lemma backfill_agrees:
  assumes "backfill_bindings projected rest db = Inr db'" "(b, eid) \<in> set rest" "row \<in> set projected"
    and "binding_key (fst row) = binding_key b" "distinct (map (binding_key \<circ> fst) projected)"
  shows "row = (b, eid)"
  using assms
proof (induction projected rest db arbitrary: db' rule: backfill_bindings.induct)
  case (2 projected b' eid' rest db)
  show ?case
  proof (cases "find (\<lambda>row. binding_key (fst row) = binding_key b') projected")
    case None
    then obtain db1 where "insert_contract_revision_binding b' eid' db = Inr db1"
      "backfill_bindings projected rest db1 = Inr db'"
      using 2(3) by (auto simp: result_simps)
    moreover have "(b, eid) \<noteq> (b', eid')"
      using None 2(5,6) unfolding find_None_iff by (metis prod.inject)
    then have "(b, eid) \<in> set rest" using 2(4) by auto
    ultimately show ?thesis using 2(1) [OF None] 2(5-7) by (auto simp: result_simps)
  next
    case (Some existing)
    then have e: "existing = (b', eid')" "backfill_bindings projected rest db = Inr db'"
      using 2(3) by (auto split: if_splits)
    show ?thesis
    proof (cases "(b, eid) = (b', eid')")
      case True
      then have "find (\<lambda>y. (binding_key \<circ> fst) y = (binding_key \<circ> fst) row) projected = Some row"
        using 2(5,7) by (intro find_distinct)
      then show ?thesis using Some e True 2(6) by simp
    next
      case False
      then show ?thesis using 2(2) [OF Some] e 2(4-7) by auto
    qed
  qed
qed simp

lemma list_all2_left: "list_all2 P xs ys \<Longrightarrow> x \<in> set xs \<Longrightarrow> \<exists>y. P x y"
  by (induction rule: list_all2_induct) auto

lemma zip_bindings_set:
  "list_all2 (\<lambda>row b. f row = Inr b) rows bs \<Longrightarrow>
     set (zip bs (map g rows)) = {(b, g row) | row b. row \<in> set rows \<and> f row = Inr b}"
  by (induction rows bs rule: list_all2_induct) auto

text \<open>
  C29. Opening a store repairs or refuses: if the initialisation of the contract-revision
  projection succeeds, the projection afterwards contains exactly the bindings of the
  registration events in the log, each with the event that registered it, every registration
  event in the log carries a valid binding, and no event was changed.
\<close>

theorem initialized_projection_is_canonical:
  assumes "initialize_contract_revision_bindings db = (Inr (), db')"
    and "distinct (map (binding_key \<circ> fst) (contract_revision_bindings db))"
  shows "events db' = events db \<and>
    set (contract_revision_bindings db')
      = {(b, er_event_id row) | row b. row \<in> set (events db) \<and> is_registration row \<and>
           registration_binding_from_event_row row = Inr b} \<and>
    (\<forall>row \<in> set (events db). is_registration row \<longrightarrow> (\<exists>b. registration_binding_from_event_row row = Inr b))"
proof -
  let ?rows = "sort_key er_global_position (filter is_registration (events db))"
  let ?old = "contract_revision_bindings db"
  obtain expected where ex: "expected_bindings ?rows [] = Inr expected"
    and sub: "set (map (binding_key \<circ> fst) ?old) \<subseteq> set (map (binding_key \<circ> fst) expected)"
    and bf: "backfill_bindings ?old expected db = Inr db'"
    using assms(1)
    by (auto simp: initialize_contract_revision_bindings_def write_transaction_def result_simps
        split: sum.splits dest!: projected_rows)
  obtain bs where bs: "list_all2 (\<lambda>row b. registration_binding_from_event_row row = Inr b) ?rows bs"
    "expected = zip bs (map er_event_id ?rows)"
    using expected_bindings_Inr [OF ex] by auto
  have "set ?old \<subseteq> set expected"
  proof
    fix row assume row: "row \<in> set ?old"
    then obtain b eid where "(b, eid) \<in> set expected" "binding_key (fst row) = binding_key b"
      using sub by fastforce
    then show "row \<in> set expected" using backfill_agrees [OF bf _ row _ assms(2)] by metis
  qed
  then have "set (contract_revision_bindings db') = set expected"
    using backfill_Inr [OF bf] by auto
  also have "\<dots> = {(b, er_event_id row) | row b. row \<in> set ?rows \<and> registration_binding_from_event_row row = Inr b}"
    unfolding bs(2) using zip_bindings_set [OF bs(1)] .
  finally have set': "set (contract_revision_bindings db')
      = {(b, er_event_id row) | row b. row \<in> set ?rows \<and> registration_binding_from_event_row row = Inr b}" .
  have "\<exists>b. registration_binding_from_event_row row = Inr b" if "row \<in> set ?rows" for row
    using list_all2_left [OF bs(1) that] by blast
  then have valid: "\<forall>row \<in> set (events db). is_registration row \<longrightarrow> (\<exists>b. registration_binding_from_event_row row = Inr b)"
    by simp
  have rows: "row \<in> set ?rows \<longleftrightarrow> row \<in> set (events db) \<and> is_registration row" for row
    by auto
  have "set (contract_revision_bindings db')
      = {(b, er_event_id row) | row b. row \<in> set (events db) \<and> is_registration row \<and>
           registration_binding_from_event_row row = Inr b}"
    unfolding set' rows by (simp only: conj_assoc)
  moreover have "events db' = events db" using backfill_Inr [OF bf] by blast
  ultimately show ?thesis using valid by blast
qed

section \<open>Witnesses\<close>

definition sample_ids :: "nat \<Rightarrow> string" where
  "sample_ids k = replicate (Suc k) (CHR ''x'')"

lemma sample_ids [simp]: "sample_ids k \<noteq> []" "map sample_ids [0..<Suc 0] = [''x'']"
  by (simp_all add: sample_ids_def)

definition sample_event :: "string \<Rightarrow> NewEvent" where
  "sample_event t = \<lparr>ne_event_type = t, ne_payload =
     [(''bundle_hash'', JStr (replicate 64 (CHR ''0''))), (''bundle_id'', JStr ''j''), (''contract_hash'', JStr (replicate 64 (CHR ''0''))),
      (''contract_id'', JStr ''a''), (''revision'', JInt 1)], ne_metadata = []\<rparr>"

lemma sample_event_wf: "event_wf (sample_event t)"
  by (simp add: event_wf_def sample_event_def)

lemma sample_request:
  "validate_append_request ''j'' ''j'' 0 [sample_event ''a''] = Inr ()"
  "validate_fenced_task_binding ''j'' [sample_event ''a''] = Inr ()"
  by (simp_all add: validate_append_request_def validate_fenced_task_binding_def require_all.simps sample_nonblank
      sample_event_def bundle_id_of_def obj_get_def truthy_def)

definition sample_commit :: "Idempotency option \<Rightarrow> AttestationNonce option \<Rightarrow> event_db \<Rightarrow> event_db" where
  "sample_commit idem nonce =
     append_effect sample_ids ''j'' ''j'' 0 [sample_event ''a''] idem nonce
       (utc_micros_text (utc 0)) (utc_micros_text (utc 0))"

definition sample_stored :: "StoredEvent list" where
  "sample_stored = stored_events sample_ids ''j'' ''j'' 0 (utc_micros_text (utc 0)) 0 0 [sample_event ''a'']"

lemma sample_locked:
  assumes "event_inv db" "events db = []" "idempotency_records db = (\<lambda>_. None)" "attestation_nonce_uses db = (\<lambda>_. None)"
  shows "append_locked (\<lambda>_. utc 0) sample_ids ''j'' ''j'' 0 [sample_event ''a''] idem checked nonce db
    = Inr (sample_stored, sample_commit idem nonce db)"
proof -
  have "current_sequence db ''j'' ''j'' = 0"
    using assms(1,2) by (simp add: event_inv_def current_sequence_length)
  moreover have "existing_idempotency db idem = Inr None"
    using assms(3) by (simp add: existing_idempotency_def split: option.split)
  ultimately show ?thesis
    unfolding sample_stored_def sample_commit_def
    by (subst append_locked_succeeds) (use assms in \<open>simp_all add: sample_event_wf as_utc_def\<close>)
qed

lemma sample_appended:
  "append_events (\<lambda>_. utc 0) sample_ids ''j'' ''j'' 0 [sample_event ''a''] idem nonce empty_store
     = (Inr sample_stored, sample_commit idem nonce empty_store)"
  using sample_locked [OF empty_store_inv, of idem False nonce]
  by (simp add: append_events_def sample_request write_transaction_def empty_store_def)

lemma sample_steps: "event_step\<^sup>*\<^sup>* empty_store (sample_commit None None empty_store)"
proof -
  have "event_step empty_store (sample_commit None None empty_store)"
    by (rule event_step.append [OF sample_appended]) (simp_all add: sample_event_wf)
  then show ?thesis by simp
qed

theorem streams_are_contiguous_witness:
  "map er_global_position (events (sample_commit None None empty_store)) = [1]"
  using streams_are_contiguous [OF sample_steps, of "''j''" "''j''"] by (simp add: sample_commit_def empty_store_def)

theorem history_is_immutable_witness:
  "prefix (events empty_store) (events (sample_commit None None empty_store))"
  using history_is_immutable [OF sample_steps] by blast

theorem append_commits_witness:
  "current_sequence (sample_commit None None empty_store) ''j'' ''j'' = 1"
  using append_commits [OF empty_store_inv, of "''j''" "''j''" 0 "[sample_event ''a'']" None None "\<lambda>_. utc 0" sample_ids]
    sample_request(1) sample_appended [of None None]
  by (simp add: sample_event_wf empty_store_def current_sequence_def existing_idempotency_def)

definition sample_idempotency :: "string \<Rightarrow> Idempotency" where
  "sample_idempotency h = \<lparr>id_scope = ''a'', id_key = ''b'', id_request_hash = h\<rparr>"

text \<open>A first append under one key, and a fenced append of the same task under another.\<close>

theorem no_lost_update_witness:
  "\<exists>e. append_fenced (\<lambda>_. utc 1) sample_ids ''j'' ''j'' ''j'' (sample_lease ''a'' 1 5) 0 [sample_event ''b'']
      (Some (sample_idempotency ''1''\<lparr>id_key := ''c''\<rparr>)) None (sample_commit (Some (sample_idempotency ''1'')) None empty_store)
    = (Inl e, sample_commit (Some (sample_idempotency ''1'')) None empty_store)"
proof -
  let ?db1 = "sample_commit (Some (sample_idempotency ''1'')) None empty_store"
  let ?c = "AppendEvents ''j'' ''j'' 0 [sample_event ''a''] (Some (sample_idempotency ''1'')) None"
  let ?c' = "AppendFenced ''j'' ''j'' ''j'' (sample_lease ''a'' 1 5) 0 [sample_event ''b'']
    (Some (sample_idempotency ''1''\<lparr>id_key := ''c''\<rparr>)) None"
  have run: "run_command (\<lambda>_. utc 0) sample_ids ?c empty_store = (Inr sample_stored, ?db1)"
    by (simp add: sample_appended)
  have new: "events ?db1 \<noteq> events empty_store" by (simp add: sample_commit_def empty_store_def)
  have "command_wf ?c" "\<forall>k. sample_ids k \<noteq> []" by (simp_all add: sample_event_wf)
  from no_lost_update [OF empty_store_inv run new this rtranclp.rtrancl_refl,
      of ?c' "\<lambda>_. utc 1" sample_ids]
  show ?thesis
    by (simp add: existing_idempotency_def sample_commit_def append_effect_def empty_store_def sample_idempotency_def)
qed

theorem idempotent_replay_witness:
  "append_events (\<lambda>_. utc 9) (\<lambda>_. ''z'') ''j'' ''j'' 0 [sample_event ''a''] (Some (sample_idempotency ''1'')) None
     (sample_commit (Some (sample_idempotency ''1'')) None empty_store)
   = (Inr sample_stored, sample_commit (Some (sample_idempotency ''1'')) None empty_store)"
  using idempotent_replay [OF empty_store_inv sample_appended, of "sample_idempotency ''1''" None
      "sample_commit (Some (sample_idempotency ''1'')) None empty_store" "\<lambda>_. utc 9" "\<lambda>_. ''z''" None] by simp

definition sample_nonce :: AttestationNonce where
  "sample_nonce = \<lparr>an_purpose = ''registration'', an_key_id = ''k'', an_nonce = ''0123456789abcdef'', an_payload_hash = ''1''\<rparr>"

theorem nonce_used_once_witness:
  "\<exists>e. append_events (\<lambda>_. utc 1) (\<lambda>_. ''y'') ''j'' ''b'' 0 [sample_event ''a''] None (Some sample_nonce)
        (sample_commit None (Some sample_nonce) empty_store) = (Inl e, sample_commit None (Some sample_nonce) empty_store)"
proof -
  let ?db1 = "sample_commit None (Some sample_nonce) empty_store"
  have run: "run_command (\<lambda>_. utc 0) sample_ids (AppendEvents ''j'' ''j'' 0 [sample_event ''a''] None (Some sample_nonce)) empty_store
      = (Inr sample_stored, ?db1)"
    by (simp add: sample_appended)
  have new: "events ?db1 \<noteq> events empty_store" by (simp add: sample_commit_def empty_store_def)
  from nonce_used_once [OF run new _ rtranclp.rtrancl_refl _ refl, of sample_nonce
      "AppendEvents ''j'' ''b'' 0 [sample_event ''a''] None (Some sample_nonce)" "\<lambda>_. utc 1" "\<lambda>_. ''y''"]
  show ?thesis by (simp add: existing_idempotency_def)
qed

lemma sample_store_claims:
  "claim (utc 0) ''j'' ''a'' 5 empty_store = (Inr (sample_lease ''a'' 1 5), grant 0 ''j'' ''a'' 5 empty_store)"
  "claim (utc 7) ''j'' ''b'' 5 (grant 0 ''j'' ''a'' 5 empty_store)
     = (Inr (sample_lease ''b'' 2 12), grant 7 ''j'' ''b'' 5 (grant 0 ''j'' ''a'' 5 empty_store))"
  by (simp_all add: claim_def lease_utc_now_def require_all.simps sample_nonblank live_row_def
      empty_store_def next_token_def Lease_init_def sample_lease_def)

lemma sample_grant_inv: "event_inv (grant 0 ''j'' ''a'' 5 empty_store)"
proof -
  have "event_step empty_store (grant 0 ''j'' ''a'' 5 empty_store)"
    by (intro event_step.lease lease_step.claim [OF sample_store_claims(1)])
  then show ?thesis using event_inv_step empty_store_inv by blast
qed

lemma sample_grant_tables [simp]:
  "events (grant n j h t db) = events db" "idempotency_records (grant n j h t db) = idempotency_records db"
  "attestation_nonce_uses (grant n j h t db) = attestation_nonce_uses db"
  by (simp_all add: grant_def Let_def)

lemma sample_fenced:
  "append_fenced (\<lambda>_. utc 0) sample_ids ''j'' ''j'' ''j'' (sample_lease ''a'' 1 5) 0 [sample_event ''a''] None None
       (grant 0 ''j'' ''a'' 5 empty_store)
     = (Inr sample_stored, sample_commit None None (grant 0 ''j'' ''a'' 5 empty_store))"
proof -
  have "assert_current_fence (utc 0) ''j'' (sample_lease ''a'' 1 5) (grant 0 ''j'' ''a'' 5 empty_store) = Inr ()"
    by (simp add: assert_current_fence_def sample_lease_def event_utc_now_def as_utc_def row_matches_def
        empty_store_def next_token_def require_def)
  then show ?thesis
    using sample_locked [OF sample_grant_inv, of None True None]
    by (simp add: append_fenced_def sample_request sample_nonblank require_def write_transaction_def
        existing_idempotency_def empty_store_def)
qed

theorem fenced_commit_is_authorised_witness:
  "assert_current (utc 0) (sample_lease ''a'' 1 5) (grant 0 ''j'' ''a'' 5 empty_store) = Inr ()"
proof -
  have "events (sample_commit None None (grant 0 ''j'' ''a'' 5 empty_store)) \<noteq> events (grant 0 ''j'' ''a'' 5 empty_store)"
    by (simp add: sample_commit_def empty_store_def)
  then have "sample_commit None None (grant 0 ''j'' ''a'' 5 empty_store) \<noteq> grant 0 ''j'' ''a'' 5 empty_store" by metis
  from fenced_commit_is_authorised [OF sample_fenced this] show ?thesis by simp
qed

theorem superseded_worker_cannot_commit_witness:
  "snd (append_fenced (\<lambda>_. utc 8) sample_ids ''j'' ''j'' ''j'' (sample_lease ''a'' 1 5) 0 [sample_event ''a''] None None
      (grant 7 ''j'' ''b'' 5 (grant 0 ''j'' ''a'' 5 empty_store)))
    = grant 7 ''j'' ''b'' 5 (grant 0 ''j'' ''a'' 5 empty_store)"
  by (rule superseded_worker_cannot_commit [OF empty_store_inv sample_store_claims(1) rtranclp.rtrancl_refl
        sample_store_claims(2) _ rtranclp.rtrancl_refl]) (simp add: sample_lease_def)

definition sample_binding :: "char \<Rightarrow> ContractRevisionBinding" where
  "sample_binding c = \<lparr>cb_contract_id = ''a'', cb_revision = 1, cb_bundle_id = ''j'',
     cb_bundle_hash = replicate 64 c, cb_contract_hash = replicate 64 (CHR ''0'')\<rparr>"

lemma sample_binding_init: "c \<in> set ''01'' \<Longrightarrow> ContractRevisionBinding_init (sample_binding c) = Inr (sample_binding c)"
  by (auto simp: ContractRevisionBinding_init_def sample_binding_def require_all.simps sample_nonblank is_sha256_text_def
      all_chars_def list_all_iff char_class_defs)

definition sample_registered :: event_db where
  "sample_registered = (append_effect sample_ids ''task'' ''j'' 0 [sample_event ''task.registered'']
     (Some (sample_idempotency ''1'')) (Some sample_nonce) (utc_micros_text (utc 0)) (utc_micros_text (utc 0)) empty_store)
     \<lparr>contract_revision_bindings := [(sample_binding (CHR ''0''), ''x'')]\<rparr>"

lemma sample_registration:
  "\<exists>stored. append_contract_revision_registration (\<lambda>_. utc 0) sample_ids (sample_binding (CHR ''0''))
     (sample_event ''task.registered'') (sample_idempotency ''1'') sample_nonce empty_store = (Inr stored, sample_registered)"
proof -
  have none: "existing_idempotency empty_store (Some (sample_idempotency ''1'')) = Inr None"
    "attestation_nonce_uses empty_store = (\<lambda>_. None)" "events empty_store = []"
    "contract_revision_bindings empty_store = []"
    by (simp_all add: existing_idempotency_def empty_store_def)
  have "append_locked (\<lambda>_. utc 0) sample_ids ''task'' ''j'' 0 [sample_event ''task.registered'']
      (Some (sample_idempotency ''1'')) True (Some sample_nonce) empty_store
    = Inr (stored_events sample_ids ''task'' ''j'' 0 (utc_micros_text (as_utc (utc 0))) 0 0 [sample_event ''task.registered''],
       append_effect sample_ids ''task'' ''j'' 0 [sample_event ''task.registered'']
         (Some (sample_idempotency ''1'')) (Some sample_nonce) (utc_micros_text (as_utc (utc 0))) (utc_micros_text (as_utc (utc 0))) empty_store)"
    by (subst append_locked_succeeds)
      (simp_all add: empty_store_inv none sample_event_wf, simp add: current_sequence_def empty_store_def)
  then have "register_locked (\<lambda>_. utc 0) sample_ids (sample_binding (CHR ''0'')) (sample_event ''task.registered'')
      (sample_idempotency ''1'') sample_nonce empty_store
    = Inr (stored_events sample_ids ''task'' ''j'' 0 (utc_micros_text (utc 0)) 0 0 [sample_event ''task.registered''], sample_registered)"
    by (simp add: register_locked_def none contract_revision_projection_row_def sample_binding_def Let_def
        insert_contract_revision_binding_def sample_registered_def append_effect_def sample_ids_def as_utc_def
        del: canonical_json.simps)
  moreover have "validate_append_request ''task'' ''j'' 0 [sample_event ''task.registered''] = Inr ()"
    by (simp add: validate_append_request_def require_all.simps sample_event_def sample_nonblank)
      (simp add: nonblank_def py_strip_def strip_by_def py_isspace_def)
  ultimately show ?thesis
    by (simp add: append_contract_revision_registration_def sample_event_def sample_binding_def require_def write_transaction_def)
qed

theorem contract_revision_bound_once_witness:
  "\<exists>err. append_contract_revision_registration (\<lambda>_. utc 1) (\<lambda>_. ''y'') (sample_binding (CHR ''1''))
     (sample_event ''task.registered'') (sample_idempotency ''2'') sample_nonce sample_registered = (Inl err, sample_registered)"
proof -
  obtain stored where r: "append_contract_revision_registration (\<lambda>_. utc 0) sample_ids (sample_binding (CHR ''0''))
     (sample_event ''task.registered'') (sample_idempotency ''1'') sample_nonce empty_store = (Inr stored, sample_registered)"
    using sample_registration by blast
  have "replicate 64 (CHR ''1'') \<noteq> replicate 64 (CHR ''0'')" by simp
  then have "sample_binding (CHR ''1'') \<noteq> sample_binding (CHR ''0'')" by (simp add: sample_binding_def)
  moreover have "binding_key (sample_binding (CHR ''1'')) = binding_key (sample_binding (CHR ''0''))"
    by (simp add: binding_key_def sample_binding_def)
  ultimately show ?thesis
    by (intro contract_revision_bound_once [OF empty_store_inv r sample_event_wf _ _ rtranclp.rtrancl_refl])
      (auto simp: sample_event_wf sample_binding_init)
qed

lemma sample_row_binding:
  "registration_binding_from_event_row (hd (events sample_registered)) = Inr (sample_binding (CHR ''0''))"
proof -
  have "load_canonical_json_object (canonical_json (JObj (ne_payload (sample_event ''task.registered''))))
      = Inr (ne_payload (sample_event ''task.registered''))"
    using sample_event_wf [of "''task.registered''"]
    by (simp add: load_object_dump event_wf_def norm_members_def sample_event_def del: canonical_json.simps)
  moreover have "registration_binding_from_payload (ne_payload (sample_event ''task.registered'')) = Inr (sample_binding (CHR ''0''))"
    using sample_binding_init [of "CHR ''0''"]
    by (simp add: registration_binding_from_payload_def required_text_def obj_get_def sample_event_def sample_binding_def)
  ultimately show ?thesis
    by (simp add: registration_binding_from_event_row_def sample_registered_def empty_store_def
        sample_binding_def require_def del: canonical_json.simps)
qed

theorem initialized_projection_is_canonical_witness:
  "set (contract_revision_bindings sample_registered) =
     {(b, er_event_id row) | row b. row \<in> set (events sample_registered) \<and> is_registration row \<and>
       registration_binding_from_event_row row = Inr b}"
proof -
  let ?db = "sample_registered\<lparr>contract_revision_bindings := []\<rparr>"
  obtain row where row: "events sample_registered = [row]" "is_registration row" "er_event_id row = ''x''"
    "er_global_position row = 1"
    by (simp add: sample_registered_def empty_store_def is_registration_def sample_event_def sample_ids_def
        del: canonical_json.simps)
  then have "registration_binding_from_event_row row = Inr (sample_binding (CHR ''0''))"
    using sample_row_binding by simp
  moreover have "contract_revision_bindings sample_registered = [(sample_binding (CHR ''0''), ''x'')]"
    by (simp add: sample_registered_def)
  moreover have "cb_revision (sample_binding (CHR ''0'')) = 1" by (simp add: sample_binding_def)
  ultimately have "initialize_contract_revision_bindings ?db = (Inr (), sample_registered)"
    using row by (simp add: initialize_contract_revision_bindings_def write_transaction_def require_def
        insert_contract_revision_binding_def)
  from initialized_projection_is_canonical [OF this] show ?thesis by simp
qed

end
