(* ===== verification/ServiceBase.thy ===== *)
theory ServiceBase
  imports CanonicalType Artifacts EventProps
begin

text \<open>
  \<open>service.py\<close>, first part: field access to event payloads, the task binding that a
  registration event records, and its reconstruction from the event. Shown: the binding read
  back from a registration payload is the binding that was registered.
\<close>

section \<open>Field access\<close>

definition corrupt :: exn where
  "corrupt = InvalidTransition ''corrupt control-plane payload''"

definition sv_required_text :: "json_object \<Rightarrow> string \<Rightarrow> string result" where
  "sv_required_text payload k =
     (case get_value payload k of JStr s \<Rightarrow> if s = [] then Inl corrupt else Inr s | _ \<Rightarrow> Inl corrupt)"

definition sv_required_nonblank_text :: "json_object \<Rightarrow> string \<Rightarrow> string result" where
  "sv_required_nonblank_text payload k =
     bindE (sv_required_text payload k) (\<lambda>s.
     bindE (require (nonblank s) (InvalidTransition ''must not be blank'')) (\<lambda>_. Inr s))"

definition sv_optional_text :: "json_object \<Rightarrow> string \<Rightarrow> string option result" where
  "sv_optional_text payload k =
     (case get_value payload k of
        JNull \<Rightarrow> Inr None
      | JStr s \<Rightarrow> if s = [] then Inl corrupt else Inr (Some s)
      | _ \<Rightarrow> Inl corrupt)"

definition sv_required_int :: "json_object \<Rightarrow> string \<Rightarrow> int result" where
  "sv_required_int payload k = (case get_value payload k of JInt i \<Rightarrow> Inr i | _ \<Rightarrow> Inl corrupt)"

definition sv_required_object :: "json_object \<Rightarrow> string \<Rightarrow> json_object result" where
  "sv_required_object payload k = (case get_value payload k of JObj kvs \<Rightarrow> Inr kvs | _ \<Rightarrow> Inl corrupt)"

definition sv_required_list :: "json_object \<Rightarrow> string \<Rightarrow> json list result" where
  "sv_required_list payload k = (case get_value payload k of JList vs \<Rightarrow> Inr vs | _ \<Rightarrow> Inl corrupt)"

definition sv_required_texts :: "json_object \<Rightarrow> string \<Rightarrow> string list result" where
  "sv_required_texts payload k = bindE (sv_required_list payload k) (map_resultE (\<lambda>v.
     case v of JStr s \<Rightarrow> if s = [] then Inl corrupt else Inr s | _ \<Rightarrow> Inl corrupt))"

text \<open>\<open>_json_object\<close>: a round trip through the event encoder; only dictionaries pass.\<close>

definition sv_json_object :: "json \<Rightarrow> json_object result" where
  "sv_json_object v =
     (case v of JObj kvs \<Rightarrow> Inr (json_object_of kvs) | _ \<Rightarrow> Inl (TypeError ''event payload must be a JSON object''))"

definition sv_stable_identifier :: "string \<Rightarrow> StableIdentifierV1 result" where
  "sv_stable_identifier v =
     (let (namespace, separator, _) = rpartition (CHR '':'') (removeprefix urn_prefix v) in
      if separator = [] \<or> namespace = []
      then Inl (InvalidTransition ''stored task binding has an invalid stable identifier'')
      else catchE is_value_error (InvalidTransition ''stored task binding has an invalid stable identifier'')
             (StableIdentifierV1_init \<lparr>si_namespace = namespace, si_value = v\<rparr>))"

section \<open>Task bindings\<close>

record TaskBinding =
  tk_bundle_id :: string
  tk_bundle_hash :: string
  tk_contract_id :: string
  tk_revision :: int
  tk_contract_hash :: string
  tk_proof_boundary_hash :: string
  tk_environment_hash :: string
  tk_lean_version :: string
  tk_mathlib_revision :: string
  tk_lake_manifest_hash :: "string option"
  tk_worker_image_digest :: string
  tk_wrapper_protocol :: string
  tk_command_policy_hash :: string
  tk_axiom_profile :: string
  tk_axioms_allowlist :: "string set"
  tk_canonical_type_assurance :: "string option"
  tk_canonical_type_promotion_authority :: bool
  tk_bundle_artifact :: ArtifactRef
  tk_fidelity_evidence_artifact :: "ArtifactRef option"
  tk_graph_nodes :: "json_object list"

definition sha256_ref :: "string \<Rightarrow> int \<Rightarrow> ArtifactRef" where
  "sha256_ref d n = \<lparr>af_digest = d, af_size = n, af_algorithm = ''sha256''\<rparr>"

definition artifact_payload :: "ArtifactRef \<Rightarrow> string \<Rightarrow> json" where
  "artifact_payload r kind = JObj
     [(''digest'', JStr (af_digest r)), (''size'', JInt (af_size r)), (''uri'', JStr (artifact_uri r)),
      (''kind'', JStr kind), (''media_type'', JStr ''application/json'')]"

text \<open>Every edge of a valid graph ends in one of its nodes, so no dictionary access of the loop fails.\<close>

definition graph_node :: "FormalizationTaskBundleV1 \<Rightarrow> string \<Rightarrow> edge list \<Rightarrow> string \<times> string \<times> string \<Rightarrow> json_object" where
  "graph_node bundle graph_name edges node =
     (let (node_id, label, kind) = node in json_object_of
       [(''id'', JStr node_id), (''bundle_id'', JStr (si_value (tb_bundle_id bundle))), (''label'', JStr label),
        (''graph'', JStr graph_name), (''status'', JStr ''frozen''), (''revision'', JInt (sc_revision (tb_contract bundle))),
        (''kind'', JStr kind),
        (''dependencies'', JStrs (sort (map (\<lambda>e. fst (snd e)) (filter (\<lambda>e. snd (snd e) = node_id) edges))))])"

definition bundle_graph_nodes :: "FormalizationTaskBundleV1 \<Rightarrow> json_object list" where
  "bundle_graph_nodes bundle =
     (let g = tb_graphs bundle; m = gb_mathematical g; f = gb_formal g; e = gb_execution g in
      map (\<lambda>n. graph_node bundle ''mathematical'' (map math_edge (mg_edges m))
             (si_value (mn_node_id n), mn_label n, MathematicalNodeKindV1_value (mn_kind n))) (mg_nodes m)
      @ map (\<lambda>n. graph_node bundle ''formal'' (map formal_edge (fg_edges f))
             (si_value (fn_node_id n), fn_declaration_name n, FormalNodeKindV1_value (fn_kind n))) (fg_nodes f)
      @ map (\<lambda>n. graph_node bundle ''execution'' (map execution_edge (eg_edges e))
             (si_value (en_node_id n), en_label n, ExecutionNodeKindV1_value (en_kind n))) (eg_nodes e))"

definition policy_wrapper_protocol :: "OciVerifierExecutionPolicy \<Rightarrow> string" where
  "policy_wrapper_protocol p =
     (case p of PolicyV1 _ \<Rightarrow> ''autolean.oci-lean-wrapper.v1'' | PolicyV2 _ \<Rightarrow> ''autolean.oci-lean-wrapper.v2'')"

definition policy_command_policy_hash :: "OciVerifierExecutionPolicy \<Rightarrow> DigestV1" where
  "policy_command_policy_hash p =
     (case p of PolicyV1 x \<Rightarrow> OciVerifierExecutionPolicyV1_command_policy_hash x
      | PolicyV2 x \<Rightarrow> OciVerifierExecutionPolicyV2_command_policy_hash x)"

definition binding_from_bundle :: "FormalizationTaskBundleV1 \<Rightarrow> TaskBinding" where
  "binding_from_bundle bundle =
     (let contract = tb_contract bundle; env = fs_environment (sc_formal contract);
          policy = le_verifier_execution_policy env in
      \<lparr>tk_bundle_id = si_value (tb_bundle_id bundle), tk_bundle_hash = dg_value (handoff_hash bundle),
       tk_contract_id = si_value (sc_contract_id contract), tk_revision = sc_revision contract,
       tk_contract_hash = dg_value (semantic_hash contract),
       tk_proof_boundary_hash = dg_value (pb_boundary_hash (tb_proof_boundary bundle)),
       tk_environment_hash = dg_value (le_environment_hash env), tk_lean_version = le_lean_version env,
       tk_mathlib_revision = le_mathlib_revision env,
       tk_lake_manifest_hash = map_option dg_value (le_lake_manifest_hash env),
       tk_worker_image_digest = policy_worker_image_digest policy, tk_wrapper_protocol = policy_wrapper_protocol policy,
       tk_command_policy_hash = dg_value (policy_command_policy_hash policy),
       tk_axiom_profile = AxiomProfileV1_value (tp_axiom_profile (sc_policy contract)),
       tk_axioms_allowlist = set (fs_axioms_allowlist (sc_formal contract)),
       tk_canonical_type_assurance = None, tk_canonical_type_promotion_authority = False,
       tk_bundle_artifact = sha256_ref (replicate 64 (CHR ''0'')) 0,
       tk_fidelity_evidence_artifact =
         map_option (\<lambda>r. sha256_ref (dg_value (fa_digest r)) (fa_size r)) (tb_fidelity_evidence bundle),
       tk_graph_nodes = bundle_graph_nodes bundle\<rparr>)"

definition attestation_summary :: "AttestationV1 \<Rightarrow> json" where
  "attestation_summary a = JObj
     [(''purpose'', JStr (AttestationPurposeV1_value (at_purpose a))), (''key_id'', JStr (at_key_id a)),
      (''payload_hash'', JStr (dg_value (at_payload_hash a))), (''evidence_identity'', JStr (at_evidence_identity a)),
      (''expires_at'', JStr (isoformat (at_expires_at a)))]"

definition attestation_nonce :: "AttestationV1 \<Rightarrow> AttestationNonce result" where
  "attestation_nonce a = AttestationNonce_init
     \<lparr>an_purpose = AttestationPurposeV1_value (at_purpose a), an_key_id = at_key_id a, an_nonce = at_nonce a,
      an_payload_hash = dg_value (at_payload_hash a)\<rparr>"

definition registration_payload :: "TaskBinding \<Rightarrow> AttestationV1 \<Rightarrow> json_object" where
  "registration_payload b builder_attestation = json_object_of
     [(''bundle_id'', JStr (tk_bundle_id b)), (''bundle_hash'', JStr (tk_bundle_hash b)),
      (''contract_id'', JStr (tk_contract_id b)), (''revision'', JInt (tk_revision b)),
      (''contract_hash'', JStr (tk_contract_hash b)), (''proof_boundary_hash'', JStr (tk_proof_boundary_hash b)),
      (''environment_hash'', JStr (tk_environment_hash b)), (''lean_version'', JStr (tk_lean_version b)),
      (''mathlib_revision'', JStr (tk_mathlib_revision b)),
      (''lake_manifest_hash'', JOpt JStr (tk_lake_manifest_hash b)),
      (''worker_image_digest'', JStr (tk_worker_image_digest b)), (''wrapper_protocol'', JStr (tk_wrapper_protocol b)),
      (''command_policy_hash'', JStr (tk_command_policy_hash b)), (''axiom_profile'', JStr (tk_axiom_profile b)),
      (''axioms_allowlist'', JStrs (sorted_list_of_set (tk_axioms_allowlist b))),
      (''canonical_type_assurance'', JOpt JStr (tk_canonical_type_assurance b)),
      (''canonical_type_promotion_authority'', JBool (tk_canonical_type_promotion_authority b)),
      (''bundle_artifact'', artifact_payload (tk_bundle_artifact b) ''bundle''),
      (''fidelity_evidence_artifact'',
        JOpt (\<lambda>r. artifact_payload r ''builder_fidelity_evidence'') (tk_fidelity_evidence_artifact b)),
      (''builder_attestation'', attestation_summary builder_attestation),
      (''graph_nodes'', JList (map JObj (tk_graph_nodes b)))]"

definition artifact_ref_from :: "json_object \<Rightarrow> ArtifactRef result" where
  "artifact_ref_from p =
     bindE (sv_required_text p ''digest'') (\<lambda>digest.
     bindE (sv_required_int p ''size'') (\<lambda>n. ArtifactRef_init (sha256_ref digest n)))"

definition assurance_from :: "json_object \<Rightarrow> string option result" where
  "assurance_from payload =
     (case get_value payload ''canonical_type_assurance'' of
        JNull \<Rightarrow> Inr None
      | JStr a \<Rightarrow> if a \<in> {''scripted_fake'', ''local_oci_prefreeze''} then Inr (Some a) else Inl corrupt
      | _ \<Rightarrow> Inl corrupt)"

definition binding_from_event :: "StoredEvent \<Rightarrow> TaskBinding result" where
  "binding_from_event event =
     (let payload = se_payload event in
     bindE (sv_required_object payload ''bundle_artifact'') (\<lambda>artifact.
     bindE (case get_value payload ''fidelity_evidence_artifact'' of
              JNull \<Rightarrow> Inr None | JObj p \<Rightarrow> Inr (Some p) | _ \<Rightarrow> Inl corrupt) (\<lambda>fidelity_payload.
     bindE (assurance_from payload) (\<lambda>assurance.
     bindE (require (case obj_get payload ''canonical_type_promotion_authority'' of
                       None \<Rightarrow> True | Some v \<Rightarrow> v = JBool False)
       (InvalidTransition ''canonical type registration event claims promotion authority'')) (\<lambda>_.
     bindE (sv_required_list payload ''graph_nodes'') (\<lambda>graph_nodes.
     bindE (sv_required_text payload ''bundle_id'') (\<lambda>bundle_id.
     bindE (sv_required_text payload ''bundle_hash'') (\<lambda>bundle_hash.
     bindE (sv_required_text payload ''contract_id'') (\<lambda>contract_id.
     bindE (sv_required_int payload ''revision'') (\<lambda>revision.
     bindE (sv_required_text payload ''contract_hash'') (\<lambda>contract_hash.
     bindE (sv_required_text payload ''proof_boundary_hash'') (\<lambda>proof_boundary_hash.
     bindE (sv_required_text payload ''environment_hash'') (\<lambda>environment_hash.
     bindE (sv_required_text payload ''lean_version'') (\<lambda>lean_version.
     bindE (sv_required_text payload ''mathlib_revision'') (\<lambda>mathlib_revision.
     bindE (sv_optional_text payload ''lake_manifest_hash'') (\<lambda>lake_manifest_hash.
     bindE (sv_required_text payload ''worker_image_digest'') (\<lambda>worker_image_digest.
     bindE (sv_required_text payload ''wrapper_protocol'') (\<lambda>wrapper_protocol.
     bindE (sv_required_text payload ''command_policy_hash'') (\<lambda>command_policy_hash.
     bindE (sv_required_text payload ''axiom_profile'') (\<lambda>axiom_profile.
     bindE (sv_required_texts payload ''axioms_allowlist'') (\<lambda>axioms.
     bindE (artifact_ref_from artifact) (\<lambda>bundle_artifact.
     bindE (case fidelity_payload of None \<Rightarrow> Inr None
            | Some p \<Rightarrow> bindE (artifact_ref_from p) (\<lambda>r. Inr (Some r))) (\<lambda>fidelity_artifact.
     bindE (map_resultE sv_json_object graph_nodes) (\<lambda>nodes. Inr
       \<lparr>tk_bundle_id = bundle_id, tk_bundle_hash = bundle_hash, tk_contract_id = contract_id, tk_revision = revision,
        tk_contract_hash = contract_hash, tk_proof_boundary_hash = proof_boundary_hash,
        tk_environment_hash = environment_hash, tk_lean_version = lean_version, tk_mathlib_revision = mathlib_revision,
        tk_lake_manifest_hash = lake_manifest_hash, tk_worker_image_digest = worker_image_digest,
        tk_wrapper_protocol = wrapper_protocol, tk_command_policy_hash = command_policy_hash,
        tk_axiom_profile = axiom_profile, tk_axioms_allowlist = set axioms, tk_canonical_type_assurance = assurance,
        tk_canonical_type_promotion_authority = False, tk_bundle_artifact = bundle_artifact,
        tk_fidelity_evidence_artifact = fidelity_artifact, tk_graph_nodes = nodes\<rparr>))))))))))))))))))))))))"

definition same_logical_binding :: "TaskBinding \<Rightarrow> TaskBinding \<Rightarrow> bool" where
  "same_logical_binding l r \<longleftrightarrow> l\<lparr>tk_bundle_artifact := tk_bundle_artifact r\<rparr> = r"

definition get_binding :: "event_db \<Rightarrow> string \<Rightarrow> TaskBinding option result" where
  "get_binding db bundle_id =
     bindE (read_stream db ''task'' bundle_id 0) (\<lambda>evs.
     case find (\<lambda>e. se_event_type e = ''task.registered'') evs of
       None \<Rightarrow> Inr None
     | Some registered \<Rightarrow> bindE (binding_from_event registered) (\<lambda>b. Inr (Some b)))"

definition require_binding :: "event_db \<Rightarrow> string \<Rightarrow> TaskBinding result" where
  "require_binding db bundle_id =
     bindE (get_binding db bundle_id) (\<lambda>b.
     case b of None \<Rightarrow> Inl (TaskNotFound ''bundle is not registered'') | Some x \<Rightarrow> Inr x)"

section \<open>A registration reads back\<close>

lemma norm_members_idem:
  assumes "distinct (map fst kvs)"
  shows "norm_members (norm_members kvs) = norm_members kvs"
proof -
  have "json_norm (json_norm (JObj kvs)) = json_norm (JObj kvs)" by (rule json_norm_idem)
  then show ?thesis by (simp add: json_norm_members del: json_norm.simps)
qed

definition ref_ok :: "ArtifactRef \<Rightarrow> bool" where
  "ref_ok r \<longleftrightarrow> sha256_ref (af_digest r) (af_size r) = r \<and> ArtifactRef_init r = Inr r \<and> af_digest r \<noteq> []"

definition binding_ok :: "TaskBinding \<Rightarrow> bool" where
  "binding_ok b \<longleftrightarrow>
     list_all (\<lambda>s. s \<noteq> []) [tk_bundle_id b, tk_bundle_hash b, tk_contract_id b, tk_contract_hash b,
       tk_proof_boundary_hash b, tk_environment_hash b, tk_lean_version b, tk_mathlib_revision b,
       tk_worker_image_digest b, tk_wrapper_protocol b, tk_command_policy_hash b, tk_axiom_profile b] \<and>
     opt_all (\<lambda>s. s \<noteq> []) (tk_lake_manifest_hash b) \<and>
     finite (tk_axioms_allowlist b) \<and> [] \<notin> tk_axioms_allowlist b \<and>
     opt_all (\<lambda>a. a \<in> {''scripted_fake'', ''local_oci_prefreeze''}) (tk_canonical_type_assurance b) \<and>
     \<not> tk_canonical_type_promotion_authority b \<and> ref_ok (tk_bundle_artifact b) \<and>
     opt_all ref_ok (tk_fidelity_evidence_artifact b) \<and>
     list_all (\<lambda>n. json_object_of n = n) (tk_graph_nodes b)"

lemma artifact_payload_read:
  "ref_ok r \<Longrightarrow> json_norm (artifact_payload r k) = JObj p \<Longrightarrow> artifact_ref_from p = Inr r"
proof -
  let ?kvs = "[(''digest'', JStr (af_digest r)), (''size'', JInt (af_size r)), (''uri'', JStr (artifact_uri r)),
      (''kind'', JStr k), (''media_type'', JStr ''application/json'')]"
  assume ok: "ref_ok r" and p: "json_norm (artifact_payload r k) = JObj p"
  have "p = json_object_of ?kvs"
    using p by (simp add: artifact_payload_def json_norm_members json_object_of_def del: json_norm.simps)
  moreover have "distinct (map fst ?kvs)" by simp
  ultimately have "get_value p ''digest'' = JStr (af_digest r)" "get_value p ''size'' = JInt (af_size r)"
    using get_value_norm [of ?kvs] by (simp_all add: get_value_def obj_get_def)
  then show ?thesis
    using ok by (simp add: artifact_ref_from_def sv_required_text_def sv_required_int_def ref_ok_def)
qed

lemma texts_read: "[] \<notin> set l \<Longrightarrow> map_resultE (\<lambda>v. case v of JStr s \<Rightarrow> if s = [] then Inl corrupt else Inr s | _ \<Rightarrow> Inl corrupt)
    (map JStr l) = Inr l"
  by (induction l) auto

lemma nodes_read: "list_all (\<lambda>n. json_object_of n = n) ns \<Longrightarrow> map_resultE sv_json_object (map JObj ns) = Inr ns"
  by (induction ns) (auto simp: sv_json_object_def)

lemma norm_nodes:
  "list_all (\<lambda>n. json_object_of n = n) ns \<Longrightarrow> json_norm (JList (map JObj ns)) = JList (map JObj ns)"
  by (induction ns) (auto simp: json_norm_members json_object_of_def simp del: json_norm.simps(2))

lemma norm_strs: "json_norm (JStrs l) = JStrs l"
  by (rule json_strs_wf)

text \<open>
  The binding that the service reconstructs from a registration event is the one it put there.
\<close>

lemma registration_read_back:
  assumes ok: "binding_ok b" and e: "se_payload e = json_object_of (registration_payload b a)"
  shows "binding_from_event e = Inr b"
proof -
  let ?p = "se_payload e"
  note p = e [unfolded registration_payload_def]
  have get: "get_value ?p k = json_norm (get_value
     [(''bundle_id'', JStr (tk_bundle_id b)), (''bundle_hash'', JStr (tk_bundle_hash b)),
      (''contract_id'', JStr (tk_contract_id b)), (''revision'', JInt (tk_revision b)),
      (''contract_hash'', JStr (tk_contract_hash b)), (''proof_boundary_hash'', JStr (tk_proof_boundary_hash b)),
      (''environment_hash'', JStr (tk_environment_hash b)), (''lean_version'', JStr (tk_lean_version b)),
      (''mathlib_revision'', JStr (tk_mathlib_revision b)),
      (''lake_manifest_hash'', JOpt JStr (tk_lake_manifest_hash b)),
      (''worker_image_digest'', JStr (tk_worker_image_digest b)), (''wrapper_protocol'', JStr (tk_wrapper_protocol b)),
      (''command_policy_hash'', JStr (tk_command_policy_hash b)), (''axiom_profile'', JStr (tk_axiom_profile b)),
      (''axioms_allowlist'', JStrs (sorted_list_of_set (tk_axioms_allowlist b))),
      (''canonical_type_assurance'', JOpt JStr (tk_canonical_type_assurance b)),
      (''canonical_type_promotion_authority'', JBool (tk_canonical_type_promotion_authority b)),
      (''bundle_artifact'', artifact_payload (tk_bundle_artifact b) ''bundle''),
      (''fidelity_evidence_artifact'',
        JOpt (\<lambda>r. artifact_payload r ''builder_fidelity_evidence'') (tk_fidelity_evidence_artifact b)),
      (''builder_attestation'', attestation_summary a),
      (''graph_nodes'', JList (map JObj (tk_graph_nodes b)))] k)" (is "_ = json_norm (get_value ?kvs k)") for k
  proof -
    have d: "distinct (map fst ?kvs)" by simp
    have "?p = json_object_of ?kvs"
      unfolding p json_object_of_def norm_members_idem [OF d] ..
    then show ?thesis using get_value_norm [OF d] by simp
  qed
  have obj: "obj_get ?p ''canonical_type_promotion_authority'' = Some (JBool False)"
    using get [of "''canonical_type_promotion_authority''"] ok
    by (simp add: get_value_def obj_get_def binding_ok_def split: option.splits)
  have texts: "get_value ?p ''bundle_id'' = JStr (tk_bundle_id b)" "get_value ?p ''bundle_hash'' = JStr (tk_bundle_hash b)"
    "get_value ?p ''contract_id'' = JStr (tk_contract_id b)" "get_value ?p ''contract_hash'' = JStr (tk_contract_hash b)"
    "get_value ?p ''proof_boundary_hash'' = JStr (tk_proof_boundary_hash b)"
    "get_value ?p ''environment_hash'' = JStr (tk_environment_hash b)"
    "get_value ?p ''lean_version'' = JStr (tk_lean_version b)" "get_value ?p ''mathlib_revision'' = JStr (tk_mathlib_revision b)"
    "get_value ?p ''worker_image_digest'' = JStr (tk_worker_image_digest b)"
    "get_value ?p ''wrapper_protocol'' = JStr (tk_wrapper_protocol b)"
    "get_value ?p ''command_policy_hash'' = JStr (tk_command_policy_hash b)"
    "get_value ?p ''axiom_profile'' = JStr (tk_axiom_profile b)" "get_value ?p ''revision'' = JInt (tk_revision b)"
    unfolding get by (simp_all add: get_value_def obj_get_def)
  have opts: "get_value ?p ''lake_manifest_hash'' = JOpt JStr (tk_lake_manifest_hash b)"
    "get_value ?p ''canonical_type_assurance'' = JOpt JStr (tk_canonical_type_assurance b)"
    unfolding get by (simp_all add: get_value_def obj_get_def JOpt_def split: option.splits)
  have lists: "get_value ?p ''axioms_allowlist'' = JStrs (sorted_list_of_set (tk_axioms_allowlist b))"
    "get_value ?p ''graph_nodes'' = JList (map JObj (tk_graph_nodes b))"
    unfolding get using ok norm_nodes [of "tk_graph_nodes b"]
    by (simp_all add: get_value_def obj_get_def norm_strs binding_ok_def del: json_norm.simps)
  obtain q where q: "get_value ?p ''bundle_artifact'' = JObj q" "artifact_ref_from q = Inr (tk_bundle_artifact b)"
  proof -
    have "get_value ?p ''bundle_artifact'' = json_norm (artifact_payload (tk_bundle_artifact b) ''bundle'')"
      unfolding get by (simp add: get_value_def obj_get_def)
    then show thesis
      using that artifact_payload_read [of "tk_bundle_artifact b" "''bundle''"] ok
      by (simp add: binding_ok_def artifact_payload_def json_norm_members del: json_norm.simps)
  qed
  have fid: "(case get_value ?p ''fidelity_evidence_artifact'' of
              JNull \<Rightarrow> Inr None | JObj p \<Rightarrow> Inr (Some p) | _ \<Rightarrow> Inl corrupt)
      = Inr (map_option (\<lambda>r. case json_norm (artifact_payload r ''builder_fidelity_evidence'') of JObj p \<Rightarrow> p)
          (tk_fidelity_evidence_artifact b))"
    unfolding get
    by (cases "tk_fidelity_evidence_artifact b")
      (simp_all add: get_value_def obj_get_def JOpt_def artifact_payload_def json_norm_members del: json_norm.simps(2))
  have fid2: "artifact_ref_from (case json_norm (artifact_payload r ''builder_fidelity_evidence'') of JObj p \<Rightarrow> p) = Inr r"
    if "tk_fidelity_evidence_artifact b = Some r" for r
    using artifact_payload_read [of r "''builder_fidelity_evidence''"] ok that
    by (simp add: binding_ok_def artifact_payload_def json_norm_members del: json_norm.simps)
  have assurance: "assurance_from ?p = Inr (tk_canonical_type_assurance b)"
    using ok by (cases "tk_canonical_type_assurance b") (auto simp: assurance_from_def opts JOpt_def binding_ok_def)
  have lake: "sv_optional_text ?p ''lake_manifest_hash'' = Inr (tk_lake_manifest_hash b)"
    using ok by (cases "tk_lake_manifest_hash b") (auto simp: sv_optional_text_def opts JOpt_def binding_ok_def)
  have axioms: "sv_required_texts ?p ''axioms_allowlist'' = Inr (sorted_list_of_set (tk_axioms_allowlist b))"
    using ok texts_read [of "sorted_list_of_set (tk_axioms_allowlist b)"]
    by (simp add: sv_required_texts_def sv_required_list_def lists binding_ok_def)
  show ?thesis
    using ok nodes_read [of "tk_graph_nodes b"] fid2
    by (cases "tk_fidelity_evidence_artifact b")
      (simp_all add: binding_from_event_def Let_def fid obj q assurance lake axioms texts lists sv_required_text_def
        sv_required_int_def sv_required_object_def sv_required_list_def binding_ok_def)
qed

end
