(* ===== verification/ServiceFidelity.thy ===== *)
theory ServiceFidelity
  imports ServiceBase
begin

text \<open>
  \<open>service.py\<close>, second part: the check of the Builder fidelity artifact at registration. The
  artifact is read from the blob store, must be canonical JSON, and must reproduce the
  generation task, the source spans and the contract facts of the frozen bundle.
\<close>

section \<open>Canonical JSON artifacts\<close>

fun is_artifact_error :: "exn \<Rightarrow> bool" where
  "is_artifact_error (ArtifactCorruption m) = True"
| "is_artifact_error (ArtifactNotFound m) = True"
| "is_artifact_error _ = False"

text \<open>
  Bytes that are not ASCII are refused whether or not they decode as UTF-8: canonical JSON
  text is ASCII, so the final comparison fails, and a decoding error is refused alike.
\<close>

definition read_canonical_json_artifact :: "store_fs \<Rightarrow> string \<Rightarrow> json_object result" where
  "read_canonical_json_artifact fs digest =
     bindE (catchE is_artifact_error (InvalidTransition ''artifact is unavailable or corrupt'')
       (get_bytes fs (Inr digest))) (\<lambda>raw.
     case (if list_all (\<lambda>c. code c < 128) raw then json_loads raw else None) of
       None \<Rightarrow> Inl (InvalidTransition ''artifact is not strict JSON'')
     | Some (JObj parsed) \<Rightarrow>
         bindE (require (utf8 (canonical_json (JObj parsed)) = raw)
           (InvalidTransition ''artifact is not canonically serialized'')) (\<lambda>_. Inr (json_object_of parsed))
     | Some _ \<Rightarrow> Inl (InvalidTransition ''artifact must contain a JSON object''))"

definition require_exact_object_keys :: "json_object \<Rightarrow> string list \<Rightarrow> unit result" where
  "require_exact_object_keys payload expected =
     require (set (map fst payload) = set expected) (InvalidTransition ''unexpected or missing fields'')"

definition required_fidelity_digest :: "json_object \<Rightarrow> string \<Rightarrow> HashKindV1 \<Rightarrow> DigestV1 result" where
  "required_fidelity_digest payload k expected_kind =
     bindE (sv_required_object payload k) (\<lambda>raw.
     bindE (require_exact_object_keys raw digest_fields) (\<lambda>_.
     bindE (catchE is_value_error (InvalidTransition ''invalid digest'') (DigestV1_validate raw)) (\<lambda>d.
     bindE (require (dg_kind d = expected_kind) (InvalidTransition ''unexpected digest kind'')) (\<lambda>_. Inr d))))"

section \<open>The Builder projection of the task\<close>

definition fidelity_artifact_fields :: "string list" where
  "fidelity_artifact_fields =
     [''schema_version'', ''task'', ''generation_task'', ''generation_task_hash'', ''candidates'', ''mutation_agent_id'',
      ''mutation_probes'', ''review'', ''automatic_checks'', ''additional_signoffs'']"

definition source_claim_span_fields :: "string list" where
  "source_claim_span_fields = [''span_id'', ''locator'', ''content_hash'', ''permitted_excerpt'']"

definition semantic_obligation_fields :: "string list" where
  "semantic_obligation_fields =
     [''obligation_id'', ''kind'', ''description'', ''source_span_ids'', ''normalized_fragment'', ''lean_fragment'', ''authority'']"

definition semantic_obligation_kinds :: "string list" where
  "semantic_obligation_kinds =
     [''quantifier_order'', ''assumption'', ''conclusion'', ''side_condition'', ''definition'', ''edge_case'', ''non_vacuity'']"

fun claims_by_id :: "json list \<Rightarrow> (string \<times> json_object) list \<Rightarrow> (string \<times> json_object) list result" where
  "claims_by_id [] acc = Inr acc"
| "claims_by_id (v # vs) acc =
     (case v of
        JObj raw \<Rightarrow>
          (let claim = json_object_of raw in
           bindE (require_exact_object_keys claim source_claim_span_fields) (\<lambda>_.
           bindE (sv_required_text claim ''span_id'') (\<lambda>span_id.
           bindE (require (span_id \<notin> set (map fst acc))
             (InvalidTransition ''source span identifiers must be unique'')) (\<lambda>_.
           claims_by_id vs (acc @ [(span_id, claim)])))))
      | _ \<Rightarrow> Inl (InvalidTransition ''Builder fidelity artifact task source spans are invalid''))"

definition frozen_span :: "FormalizationTaskBundleV1 \<Rightarrow> string \<Rightarrow> SourceSpanV1 option" where
  "frozen_span bundle i = find (\<lambda>s. si_value (ss_span_id s) = i) (rev (sr_spans (sc_source (tb_contract bundle))))"

definition project_span :: "FormalizationTaskBundleV1 \<Rightarrow> json_object \<Rightarrow> json_object result" where
  "project_span bundle entry =
     bindE (sv_required_text entry ''span_id'') (\<lambda>span_id.
     case frozen_span bundle span_id of
       None \<Rightarrow> Inl (KeyError span_id)
     | Some span \<Rightarrow>
         bindE (sv_required_text entry ''locator'') (\<lambda>locator.
         bindE (require (locator = ss_locator span) (InvalidTransition ''source span locator differs'')) (\<lambda>_.
         bindE (required_fidelity_digest entry ''content_hash'' SOURCE_SPAN) (\<lambda>content_hash.
         bindE (require (content_hash = ss_content_hash span) (InvalidTransition ''source span hash differs'')) (\<lambda>_.
         bindE (sv_required_text entry ''permitted_excerpt'') (\<lambda>excerpt.
         bindE (require (nonblank excerpt \<and> digest_text SOURCE_SPAN excerpt = content_hash)
           (InvalidTransition ''source excerpt differs from hash'')) (\<lambda>_.
         bindE (require (opt_all (\<lambda>x. excerpt = x) (ss_permitted_excerpt span))
           (InvalidTransition ''source excerpt differs from frozen span'')) (\<lambda>_.
         Inr (json_object_of
           [(''span_id'', JStr (si_value (ss_span_id span))), (''locator'', JStr (ss_locator span)),
            (''content_hash'', dump_DigestV1 (ss_content_hash span)), (''permitted_excerpt'', JStr excerpt)])))))))))"

definition source_claim_span_projection :: "FormalizationTaskBundleV1 \<Rightarrow> json_object \<Rightarrow> json_object list result" where
  "source_claim_span_projection bundle task =
     bindE (sv_required_list task ''source_spans'') (\<lambda>claims.
     bindE (claims_by_id claims []) (\<lambda>by_id.
     bindE (require (claims \<noteq> [] \<and>
         set (map fst by_id) = set (map (si_value \<circ> ss_span_id) (sr_spans (sc_source (tb_contract bundle)))))
       (InvalidTransition ''source spans differ from frozen spans'')) (\<lambda>_.
     bindE (map_resultE (project_span bundle) (map snd by_id)) (\<lambda>projection.
     bindE (require (map snd by_id = projection) (InvalidTransition ''source spans differ from frozen spans'')) (\<lambda>_.
     Inr projection)))))"

definition project_obligation ::
  "FormalizationTaskBundleV1 \<Rightarrow> string set \<Rightarrow> string set \<Rightarrow> json \<Rightarrow> (string \<times> json_object) result" where
  "project_obligation bundle frozen_span_ids seen v =
     (case v of
        JObj raw \<Rightarrow>
          (let ob = json_object_of raw in
           bindE (require_exact_object_keys ob semantic_obligation_fields) (\<lambda>_.
           bindE (sv_required_nonblank_text ob ''obligation_id'') (\<lambda>obligation_id.
           bindE (require (obligation_id \<notin> seen) (InvalidTransition ''obligation identifiers must be unique'')) (\<lambda>_.
           bindE (sv_required_text ob ''kind'') (\<lambda>kind.
           bindE (require (kind \<in> set semantic_obligation_kinds) (InvalidTransition ''obligation kind is invalid'')) (\<lambda>_.
           bindE (sv_required_nonblank_text ob ''description'') (\<lambda>_.
           bindE (sv_required_texts ob ''source_span_ids'') (\<lambda>source_span_ids.
           bindE (require (source_span_ids \<noteq> [] \<and> distinct source_span_ids \<and> set source_span_ids \<subseteq> frozen_span_ids)
             (InvalidTransition ''obligation source spans are invalid'')) (\<lambda>_.
           bindE (sv_required_nonblank_text ob ''normalized_fragment'') (\<lambda>normalized_fragment.
           bindE (require (py_contains normalized_fragment (ms_normalized_statement (sc_mathematics (tb_contract bundle))))
             (InvalidTransition ''obligation fragment is absent from the normalized statement'')) (\<lambda>_.
           bindE (sv_required_nonblank_text ob ''lean_fragment'') (\<lambda>_.
           bindE (sv_required_text ob ''authority'') (\<lambda>authority.
           bindE (require (authority = ''expert'') (InvalidTransition ''obligation authority is invalid'')) (\<lambda>_.
           Inr (obligation_id, json_object_of
             [(''obligation_id'', JStr obligation_id), (''kind'', JStr kind),
              (''source_span_ids'', JStrs source_span_ids), (''normalized_fragment'', JStr normalized_fragment)])))))))))))))))
      | _ \<Rightarrow> Inl (InvalidTransition ''Builder fidelity artifact task obligations are invalid''))"

fun project_obligations ::
  "FormalizationTaskBundleV1 \<Rightarrow> string set \<Rightarrow> json list \<Rightarrow> (string \<times> json_object) list \<Rightarrow> json_object list result" where
  "project_obligations bundle frozen_span_ids [] acc = Inr (map snd acc)"
| "project_obligations bundle frozen_span_ids (v # vs) acc =
     bindE (project_obligation bundle frozen_span_ids (set (map fst acc)) v) (\<lambda>entry.
     project_obligations bundle frozen_span_ids vs (acc @ [entry]))"

definition generation_task_projection ::
  "FormalizationTaskBundleV1 \<Rightarrow> json_object \<Rightarrow> json_object list \<Rightarrow> json_object result" where
  "generation_task_projection bundle task source_spans =
     (let contract = tb_contract bundle; formal = sc_formal contract in
     bindE (sv_required_list task ''obligations'') (\<lambda>vs.
     bindE (project_obligations bundle (set (map (si_value \<circ> ss_span_id) (sr_spans (sc_source contract)))) vs []) (\<lambda>obligations.
     bindE (require (obligations \<noteq> []) (InvalidTransition ''task requires semantic obligations'')) (\<lambda>_.
     Inr (json_object_of
       [(''source_spans'', JList (map JObj source_spans)),
        (''mathematics'', dump_MathematicalSpecificationV1 (sc_mathematics contract)),
        (''formalization'', JObj
          [(''task_kind'', JStr (TaskKindV1_value (sc_task_kind contract))),
           (''declaration_name'', JStr (fs_declaration_name formal)), (''namespace'', JStr (fs_namespace formal)),
           (''lean_version'', JStr (le_lean_version (fs_environment formal))),
           (''mathlib_revision'', JStr (le_mathlib_revision (fs_environment formal))),
           (''imports_allowlist'', JStrs (fs_imports_allowlist formal)),
           (''axioms_allowlist'', JStrs (fs_axioms_allowlist formal)),
           (''rendering_profile'', JStr ''autolean.full-declaration-canonical-type.v1'')]),
        (''obligations'', JList (map JObj obligations))])))))"

definition validate_candidate_generation_task_hashes :: "json_object \<Rightarrow> DigestV1 \<Rightarrow> unit result" where
  "validate_candidate_generation_task_hashes payload generation_task_hash =
     bindE (sv_required_list payload ''candidates'') (\<lambda>candidates.
     bindE (require (length candidates \<ge> 2)
       (InvalidTransition ''Builder fidelity artifact requires at least two candidates'')) (\<lambda>_.
     forE (\<lambda>v. case v of
         JObj raw \<Rightarrow>
           bindE (required_fidelity_digest (json_object_of raw) ''generation_task_hash'' PROMPT) (\<lambda>h.
           require (h = generation_task_hash) (InvalidTransition ''candidate has a different generation task hash''))
       | _ \<Rightarrow> Inl (InvalidTransition ''candidate must be a JSON object'')) candidates))"

section \<open>The check\<close>

definition verify_builder_fidelity_artifact ::
  "bool \<Rightarrow> bool \<Rightarrow> store_fs \<Rightarrow> FormalizationTaskBundleV1 \<Rightarrow> (ArtifactRef option \<times> string option) result" where
  "verify_builder_fidelity_artifact allow_unreviewed allow_non_authoritative fs bundle =
     (let contract = tb_contract bundle in
     case (sc_fidelity contract, tb_fidelity_evidence bundle) of
       (None, None) \<Rightarrow>
         if allow_unreviewed then Inr (None, None)
         else Inl (InvalidTransition ''a canonical Builder fidelity artifact is required before registration'')
     | (Some fidelity, Some reference) \<Rightarrow>
         bindE (ArtifactRef_init (sha256_ref (dg_value (fa_digest reference)) (fa_size reference))) (\<lambda>artifact.
         bindE (catchE is_artifact_error (InvalidTransition ''Builder fidelity artifact is unavailable or corrupt'')
           (verify_artifact fs artifact)) (\<lambda>_.
         bindE (read_canonical_json_artifact fs (af_digest artifact)) (\<lambda>payload.
         bindE (require (get_value payload ''schema_version'' = JStr ''autolean.builder-fidelity-evidence.v1'')
           (InvalidTransition ''Builder fidelity artifact has an unexpected schema'')) (\<lambda>_.
         bindE (require_exact_object_keys payload fidelity_artifact_fields) (\<lambda>_.
         bindE (sv_required_object payload ''task'') (\<lambda>task.
         bindE (sv_required_object payload ''generation_task'') (\<lambda>generation_task.
         bindE (source_claim_span_projection bundle task) (\<lambda>source_spans.
         bindE (generation_task_projection bundle task source_spans) (\<lambda>expected_generation_task.
         bindE (require (generation_task = expected_generation_task)
           (InvalidTransition ''generation task differs from the Builder projection'')) (\<lambda>_.
         let generation_task_hash = digest_bytes PROMPT (canonical_json_bytes (JObj generation_task)) in
         bindE (required_fidelity_digest payload ''generation_task_hash'' PROMPT) (\<lambda>declared.
         bindE (require (declared = generation_task_hash)
           (InvalidTransition ''generation task does not match generation_task_hash'')) (\<lambda>_.
         bindE (validate_candidate_generation_task_hashes payload generation_task_hash) (\<lambda>_.
         bindE (validate_canonical_type_check bundle payload task generation_task_hash allow_non_authoritative) (\<lambda>admission.
         bindE (sv_required_object task ''source_hash'') (\<lambda>source_hash.
         bindE (sv_required_object task ''selected_statement_hash'') (\<lambda>statement_hash.
         bindE (map_resultE id
           [differs (sv_required_text task ''contract_id'') (Inr (si_value (sc_contract_id contract))),
            bindE (sv_required_int task ''revision'') (\<lambda>r. Inr (r \<noteq> sc_revision contract)),
            differs (sv_required_text source_hash ''value'') (Inr (dg_value (sr_content_hash (sc_source contract)))),
            differs (sv_required_text statement_hash ''value'') (Inr (dg_value (fs_statement_source_hash (sc_formal contract)))),
            differs (sv_required_text task ''normalized_statement'') (Inr (ms_normalized_statement (sc_mathematics contract))),
            differs (sv_required_text task ''selected_lean_statement'') (Inr (fs_lean_statement_source (sc_formal contract))),
            Inr (fr_evidence_hash fidelity \<noteq> fa_digest reference)]) (\<lambda>mismatches.
         bindE (require (list_all Not mismatches)
           (InvalidTransition ''Builder fidelity artifact has a different contract fact'')) (\<lambda>_.
         Inr (Some artifact, Some (ca_assurance admission))))))))))))))))))))
     | _ \<Rightarrow> Inl (InvalidTransition ''reviewed Builder handoffs require a canonical fidelity artifact reference''))"

end
