(* ===== verification/GatewayContracts.thy ===== *)
theory GatewayContracts
  imports Submissions
begin

text \<open>
  \<open>verification_gateway.py\<close>: the requests a verifier sends to the signing gateway. A request
  carries the lease it is made under, the verified facts, and the hash of the payload the
  gateway will attest; the constructor recomputes this hash. Shown: the hash in a valid
  request commits to its lease and its facts, so no attestation of that hash can vouch for
  any other request.
\<close>

section \<open>Lease and context\<close>

definition safe_id :: "string \<Rightarrow> bool" where
  "safe_id = ident_pattern ''._:-'' 256"

record VerificationSigningLeaseBindingV1 =
  vsl_bundle_id :: StableIdentifierV1
  vsl_worker_id :: string
  vsl_fencing_token :: int
  vsl_expires_at :: datetime

definition VerificationSigningLeaseBindingV1_strip :: "VerificationSigningLeaseBindingV1 \<Rightarrow> VerificationSigningLeaseBindingV1" where
  "VerificationSigningLeaseBindingV1_strip x = x\<lparr>vsl_worker_id := strip_ws (vsl_worker_id x)\<rparr>"

definition dump_VerificationSigningLeaseBindingV1 :: "VerificationSigningLeaseBindingV1 \<Rightarrow> json" where
  "dump_VerificationSigningLeaseBindingV1 x = JObj
     [(''schema_version'', JStr ''autolean.verification-signing-lease.v1''),
      (''bundle_id'', dump_StableIdentifierV1 (vsl_bundle_id x)),
      (''worker_id'', JStr (vsl_worker_id x)),
      (''fencing_token'', JInt (vsl_fencing_token x)),
      (''expires_at'', dump_datetime (vsl_expires_at x))]"

definition VerificationSigningLeaseBindingV1_guards :: "VerificationSigningLeaseBindingV1 \<Rightarrow> checks" where
  "VerificationSigningLeaseBindingV1_guards x = [((vsl_worker_id x) \<noteq> [], ''worker_id min_length''),
     (length (vsl_worker_id x) \<le> 256, ''worker_id max_length''),
     ((vsl_fencing_token x) > 0, ''fencing_token gt''),
     (safe_id (vsl_worker_id x), ''verification signing worker_id is not a safe identifier''),
     (aware (vsl_expires_at x), ''verification signing lease expiry must be timezone-aware'')]"

definition VerificationSigningLeaseBindingV1_init :: "VerificationSigningLeaseBindingV1 \<Rightarrow> VerificationSigningLeaseBindingV1 result" where
  "VerificationSigningLeaseBindingV1_init = construct VerificationSigningLeaseBindingV1_strip VerificationSigningLeaseBindingV1_guards"

interpretation vsl_model: contract_model VerificationSigningLeaseBindingV1_strip VerificationSigningLeaseBindingV1_guards
  by unfold_locales (simp add: VerificationSigningLeaseBindingV1_strip_def)

record VerificationSigningContextV1 =
  vsc_bundle_id :: StableIdentifierV1
  vsc_bundle_hash :: DigestV1
  vsc_proof_id :: StableIdentifierV1
  vsc_proof_submission_artifact_digest :: string
  vsc_contract_id :: StableIdentifierV1
  vsc_revision :: int
  vsc_contract_hash :: DigestV1
  vsc_proof_boundary_hash :: DigestV1
  vsc_environment_hash :: DigestV1
  vsc_dependency_manifest_hash :: DigestV1
  vsc_report_id :: StableIdentifierV1
  vsc_verification_report_hash :: DigestV1
  vsc_verifier_id :: string
  vsc_evidence_identity :: StableIdentifierV1
  vsc_verification_evidence_hash :: DigestV1
  vsc_evidence_artifact_digest :: string

definition VerificationSigningContextV1_strip :: "VerificationSigningContextV1 \<Rightarrow> VerificationSigningContextV1" where
  "VerificationSigningContextV1_strip x = x\<lparr>vsc_proof_submission_artifact_digest := strip_ws (vsc_proof_submission_artifact_digest x),
     vsc_verifier_id := strip_ws (vsc_verifier_id x),
     vsc_evidence_artifact_digest := strip_ws (vsc_evidence_artifact_digest x)\<rparr>"

definition dump_VerificationSigningContextV1 :: "VerificationSigningContextV1 \<Rightarrow> json" where
  "dump_VerificationSigningContextV1 x = JObj
     [(''schema_version'', JStr ''autolean.verification-signing-context.v1''),
      (''bundle_id'', dump_StableIdentifierV1 (vsc_bundle_id x)),
      (''bundle_hash'', dump_DigestV1 (vsc_bundle_hash x)),
      (''proof_id'', dump_StableIdentifierV1 (vsc_proof_id x)),
      (''proof_submission_artifact_digest'', JStr (vsc_proof_submission_artifact_digest x)),
      (''contract_id'', dump_StableIdentifierV1 (vsc_contract_id x)),
      (''revision'', JInt (vsc_revision x)),
      (''contract_hash'', dump_DigestV1 (vsc_contract_hash x)),
      (''proof_boundary_hash'', dump_DigestV1 (vsc_proof_boundary_hash x)),
      (''environment_hash'', dump_DigestV1 (vsc_environment_hash x)),
      (''dependency_manifest_hash'', dump_DigestV1 (vsc_dependency_manifest_hash x)),
      (''report_id'', dump_StableIdentifierV1 (vsc_report_id x)),
      (''verification_report_hash'', dump_DigestV1 (vsc_verification_report_hash x)),
      (''verifier_id'', JStr (vsc_verifier_id x)),
      (''evidence_identity'', dump_StableIdentifierV1 (vsc_evidence_identity x)),
      (''verification_evidence_hash'', dump_DigestV1 (vsc_verification_evidence_hash x)),
      (''evidence_artifact_digest'', JStr (vsc_evidence_artifact_digest x))]"

definition VerificationSigningContextV1_guards :: "VerificationSigningContextV1 \<Rightarrow> checks" where
  "VerificationSigningContextV1_guards x = [(is_sha256_text (vsc_proof_submission_artifact_digest x), ''proof_submission_artifact_digest pattern''),
     ((vsc_revision x) \<ge> 1, ''revision ge''),
     ((vsc_verifier_id x) \<noteq> [], ''verifier_id min_length''),
     (length (vsc_verifier_id x) \<le> 256, ''verifier_id max_length''),
     (is_sha256_text (vsc_evidence_artifact_digest x), ''evidence_artifact_digest pattern''),
     (dg_kind (vsc_bundle_hash x) = BUNDLE, ''bundle_hash kind''),
     (dg_kind (vsc_contract_hash x) = CONTRACT, ''contract_hash kind''),
     (dg_kind (vsc_proof_boundary_hash x) = PROOF_BOUNDARY, ''proof_boundary_hash kind''),
     (dg_kind (vsc_environment_hash x) = ENVIRONMENT, ''environment_hash kind''),
     (dg_kind (vsc_dependency_manifest_hash x) = DEPENDENCY_MANIFEST, ''dependency_manifest_hash kind''),
     (dg_kind (vsc_verification_report_hash x) = VERIFICATION_REPORT, ''verification_report_hash kind''),
     (dg_kind (vsc_verification_evidence_hash x) = VERIFICATION_EVIDENCE, ''verification_evidence_hash kind''),
     (safe_id (vsc_verifier_id x), ''verification signing verifier_id is not a safe identifier'')]"

definition VerificationSigningContextV1_init :: "VerificationSigningContextV1 \<Rightarrow> VerificationSigningContextV1 result" where
  "VerificationSigningContextV1_init = construct VerificationSigningContextV1_strip VerificationSigningContextV1_guards"

interpretation vsc_model: contract_model VerificationSigningContextV1_strip VerificationSigningContextV1_guards
  by unfold_locales (simp add: VerificationSigningContextV1_strip_def)

definition context_hash :: "VerificationSigningContextV1 \<Rightarrow> DigestV1" where
  "context_hash c = digest_model ATTESTATION_PAYLOAD (dump_VerificationSigningContextV1 c)"

definition verification_gateway_attestation_payload ::
  "VerificationSigningLeaseBindingV1 \<Rightarrow> VerificationSigningContextV1 \<Rightarrow> json_object result" where
  "verification_gateway_attestation_payload lease ctx =
     bindE (require (vsl_bundle_id lease = vsc_bundle_id ctx)
       (ValueError ''verification signing lease and context name different bundles'')) (\<lambda>_.
     Inr [(''schema_version'', JStr ''autolean.verification-gateway-attestation-payload.v1''),
          (''lease'', dump_VerificationSigningLeaseBindingV1 lease),
          (''context'', dump_VerificationSigningContextV1 ctx)])"

section \<open>Requests\<close>

record VerificationSigningRequestV1 =
  vsr_request_id :: StableIdentifierV1
  vsr_request_nonce :: string
  vsr_idempotency_key :: string
  vsr_requested_at :: datetime
  vsr_expires_at :: datetime
  vsr_lease :: VerificationSigningLeaseBindingV1
  vsr_context :: VerificationSigningContextV1
  vsr_canonical_payload_hash :: DigestV1

definition VerificationSigningRequestV1_strip :: "VerificationSigningRequestV1 \<Rightarrow> VerificationSigningRequestV1" where
  "VerificationSigningRequestV1_strip x = x\<lparr>vsr_request_nonce := strip_ws (vsr_request_nonce x),
     vsr_idempotency_key := strip_ws (vsr_idempotency_key x)\<rparr>"

definition dump_VerificationSigningRequestV1 :: "VerificationSigningRequestV1 \<Rightarrow> json" where
  "dump_VerificationSigningRequestV1 x = JObj
     [(''schema_version'', JStr ''autolean.verification-signing-request.v1''),
      (''request_id'', dump_StableIdentifierV1 (vsr_request_id x)),
      (''request_nonce'', JStr (vsr_request_nonce x)),
      (''idempotency_key'', JStr (vsr_idempotency_key x)),
      (''requested_at'', dump_datetime (vsr_requested_at x)),
      (''expires_at'', dump_datetime (vsr_expires_at x)),
      (''lease'', dump_VerificationSigningLeaseBindingV1 (vsr_lease x)),
      (''context'', dump_VerificationSigningContextV1 (vsr_context x)),
      (''canonical_payload_hash'', dump_DigestV1 (vsr_canonical_payload_hash x))]"

definition VerificationSigningRequestV1_guards :: "VerificationSigningRequestV1 \<Rightarrow> checks" where
  "VerificationSigningRequestV1_guards x = [(length (vsr_request_nonce x) \<ge> 16, ''request_nonce min_length''),
     (length (vsr_request_nonce x) \<le> 256, ''request_nonce max_length''),
     ((vsr_idempotency_key x) \<noteq> [], ''idempotency_key min_length''),
     (length (vsr_idempotency_key x) \<le> 256, ''idempotency_key max_length''),
     (nonce_pattern (vsr_request_nonce x), ''verification signing request nonce is not a safe V1 nonce''),
     (safe_id (vsr_idempotency_key x), ''verification signing idempotency key is not a safe identifier''),
     (aware (vsr_requested_at x) \<and> aware (vsr_expires_at x), ''verification signing request timestamps must be timezone-aware''),
     (dt_us (vsr_expires_at x) > dt_us (vsr_requested_at x), ''verification signing request expiry must be after request time''),
     (dt_us (vsr_expires_at x) \<le> dt_us (vsl_expires_at (vsr_lease x)), ''verification signing request must not outlive its lease''),
     (dg_kind (vsr_canonical_payload_hash x) = ATTESTATION_PAYLOAD, ''canonical_payload_hash kind''),
     (vsl_bundle_id (vsr_lease x) = vsc_bundle_id (vsr_context x), ''verification signing lease and context name different bundles''),
     ((case verification_gateway_attestation_payload (vsr_lease x) (vsr_context x) of Inl _ \<Rightarrow> False | Inr payload \<Rightarrow> dg_value (vsr_canonical_payload_hash x) = dg_value (attestation_payload_hash AP_VERIFICATION payload)), ''verification signing request canonical payload hash does not match'')]"

definition VerificationSigningRequestV1_init :: "VerificationSigningRequestV1 \<Rightarrow> VerificationSigningRequestV1 result" where
  "VerificationSigningRequestV1_init = construct VerificationSigningRequestV1_strip VerificationSigningRequestV1_guards"

interpretation vsr_model: contract_model VerificationSigningRequestV1_strip VerificationSigningRequestV1_guards
  by unfold_locales (simp add: VerificationSigningRequestV1_strip_def)

definition signing_request_hash :: "VerificationSigningRequestV1 \<Rightarrow> DigestV1" where
  "signing_request_hash r = digest_model ATTESTATION_PAYLOAD (dump_VerificationSigningRequestV1 r)"

section \<open>What a request commits to\<close>

lemma signing_request_payload:
  assumes "VerificationSigningRequestV1_init raw = Inr r"
  obtains p where "verification_gateway_attestation_payload (vsr_lease r) (vsr_context r) = Inr p"
    and "vsr_canonical_payload_hash r = attestation_payload_hash AP_VERIFICATION p"
proof -
  have g: "list_all fst (VerificationSigningRequestV1_guards r)"
    using assms by (auto simp: VerificationSigningRequestV1_init_def construct_Inr)
  then obtain p where p: "verification_gateway_attestation_payload (vsr_lease r) (vsr_context r) = Inr p"
    "dg_value (vsr_canonical_payload_hash r) = dg_value (attestation_payload_hash AP_VERIFICATION p)"
    by (auto simp: VerificationSigningRequestV1_guards_def split: sum.splits)
  moreover have "dg_kind (vsr_canonical_payload_hash r) = ATTESTATION_PAYLOAD"
    using g by (simp add: VerificationSigningRequestV1_guards_def)
  ultimately show thesis
    by (intro that [OF p(1)] DigestV1.equality) (simp_all add: attestation_payload_hash_def)
qed

lemma gateway_payload_wf:
  "verification_gateway_attestation_payload l c = Inr p \<Longrightarrow> json_wf (JObj p)"
  by (auto simp: verification_gateway_attestation_payload_def result_simps
      dump_VerificationSigningLeaseBindingV1_def dump_VerificationSigningContextV1_def
      dump_StableIdentifierV1_def dump_DigestV1_def dump_datetime_def)

lemma gateway_payload_fields:
  assumes "verification_gateway_attestation_payload l c = Inr p" "verification_gateway_attestation_payload l' c' = Inr p'"
    and "json_norm (JObj p) = json_norm (JObj p')"
  shows "json_norm (dump_VerificationSigningLeaseBindingV1 l) = json_norm (dump_VerificationSigningLeaseBindingV1 l') \<and>
    json_norm (dump_VerificationSigningContextV1 c) = json_norm (dump_VerificationSigningContextV1 c')"
proof -
  have "dump_field (JObj p) f = dump_field (JObj p') f" for f
    using json_norm_field [OF gateway_payload_wf gateway_payload_wf assms(3)] assms(1,2) by blast
  from this [of "''lease''"] this [of "''context''"] show ?thesis
    using assms(1,2) by (auto simp: verification_gateway_attestation_payload_def result_simps obj_get_def)
qed

lemma lease_dump_determines:
  assumes "json_norm (dump_VerificationSigningLeaseBindingV1 l) = json_norm (dump_VerificationSigningLeaseBindingV1 l')"
  shows "vsl_bundle_id l = vsl_bundle_id l' \<and> vsl_worker_id l = vsl_worker_id l' \<and> vsl_fencing_token l = vsl_fencing_token l'"
proof -
  have wf: "json_wf (dump_VerificationSigningLeaseBindingV1 x)" for x
    by (simp add: dump_VerificationSigningLeaseBindingV1_def dump_StableIdentifierV1_def dump_datetime_def)
  have "dump_field (dump_VerificationSigningLeaseBindingV1 l) f = dump_field (dump_VerificationSigningLeaseBindingV1 l') f" for f
    using json_norm_field [OF wf wf assms] .
  from this [of "''bundle_id''"] this [of "''worker_id''"] this [of "''fencing_token''"] show ?thesis
    by (auto simp: dump_VerificationSigningLeaseBindingV1_def obj_get_def dump_StableIdentifierV1_def
        intro: StableIdentifierV1.equality)
qed

text \<open>
  A signing request commits to exactly what will be signed: if a verifier keyring
  accepts an attestation of the hash in a valid request for the payload of some lease and
  some context, then this lease has the bundle, worker and fencing token of the request and
  the context is the request's, unless the two payload envelopes themselves are a SHA-256
  collision. Moreover the request ends no later than its lease.
\<close>

theorem signing_request_commits:
  assumes "VerificationSigningRequestV1_init raw = Inr r"
    and "verification_gateway_attestation_payload l c = Inr p"
    and "HmacAttestationVerifierV1_verify keys now a AP_VERIFICATION p = Inr ()"
    and "dg_value (at_payload_hash a) = dg_value (vsr_canonical_payload_hash r)"
  shows "dt_us (vsr_expires_at r) \<le> dt_us (vsl_expires_at (vsr_lease r)) \<and>
    (\<exists>q. verification_gateway_attestation_payload (vsr_lease r) (vsr_context r) = Inr q \<and>
      (vsl_bundle_id l = vsl_bundle_id (vsr_lease r) \<and> vsl_worker_id l = vsl_worker_id (vsr_lease r) \<and>
       vsl_fencing_token l = vsl_fencing_token (vsr_lease r) \<and>
       json_norm (dump_VerificationSigningContextV1 c) = json_norm (dump_VerificationSigningContextV1 (vsr_context r))
       \<or> json_collision (payload_envelope AP_VERIFICATION p) (payload_envelope AP_VERIFICATION q)))"
proof -
  obtain q where q: "verification_gateway_attestation_payload (vsr_lease r) (vsr_context r) = Inr q"
    "vsr_canonical_payload_hash r = attestation_payload_hash AP_VERIFICATION q"
    using signing_request_payload [OF assms(1)] .
  have "dg_value (attestation_payload_hash AP_VERIFICATION p) = dg_value (attestation_payload_hash AP_VERIFICATION q)"
    using assms(3) unfolding HmacAttestationVerifierV1_verify_Inr assms(4) q(2) by metis
  moreover have "json_wf (payload_envelope AP_VERIFICATION p)" "json_wf (payload_envelope AP_VERIFICATION q)"
    using gateway_payload_wf [OF assms(2)] gateway_payload_wf [OF q(1)] by (simp_all add: payload_envelope_def)
  ultimately have "json_norm (payload_envelope AP_VERIFICATION p) = json_norm (payload_envelope AP_VERIFICATION q) \<or>
      json_collision (payload_envelope AP_VERIFICATION p) (payload_envelope AP_VERIFICATION q)"
    unfolding json_collision_def using json_hash.hash_binds by (simp add: attestation_payload_hash_def)
  then have "json_norm (JObj p) = json_norm (JObj q) \<or>
      json_collision (payload_envelope AP_VERIFICATION p) (payload_envelope AP_VERIFICATION q)"
    by (auto simp: payload_envelope_def)
  moreover have "dt_us (vsr_expires_at r) \<le> dt_us (vsl_expires_at (vsr_lease r))"
    using assms(1) by (auto simp: VerificationSigningRequestV1_init_def construct_Inr VerificationSigningRequestV1_guards_def)
  ultimately show ?thesis
    using q(1) gateway_payload_fields [OF assms(2) q(1)] lease_dump_determines by metis
qed

section \<open>A sample request\<close>

definition sample_signing_lease :: VerificationSigningLeaseBindingV1 where
  "sample_signing_lease = \<lparr>vsl_bundle_id = sample_id ''bundle'', vsl_worker_id = ''w'', vsl_fencing_token = 3,
     vsl_expires_at = utc 9\<rparr>"

definition sample_signing_context :: VerificationSigningContextV1 where
  "sample_signing_context =
     \<lparr>vsc_bundle_id = sample_id ''bundle'', vsc_bundle_hash = digest_text BUNDLE ''b'', vsc_proof_id = sample_id ''proof'',
      vsc_proof_submission_artifact_digest = replicate 64 (CHR ''0''), vsc_contract_id = sample_id ''contract'',
      vsc_revision = 1, vsc_contract_hash = digest_text CONTRACT ''c'',
      vsc_proof_boundary_hash = digest_text PROOF_BOUNDARY ''p'', vsc_environment_hash = digest_text ENVIRONMENT ''e'',
      vsc_dependency_manifest_hash = digest_text DEPENDENCY_MANIFEST ''d'', vsc_report_id = sample_id ''report'',
      vsc_verification_report_hash = digest_text VERIFICATION_REPORT ''r'', vsc_verifier_id = ''v'',
      vsc_evidence_identity = sample_id ''evidence'',
      vsc_verification_evidence_hash = digest_text VERIFICATION_EVIDENCE ''v'',
      vsc_evidence_artifact_digest = replicate 64 (CHR ''0'')\<rparr>"

definition sample_signing_payload :: json_object where
  "sample_signing_payload =
     [(''schema_version'', JStr ''autolean.verification-gateway-attestation-payload.v1''),
      (''lease'', dump_VerificationSigningLeaseBindingV1 sample_signing_lease),
      (''context'', dump_VerificationSigningContextV1 sample_signing_context)]"

definition sample_signing_request :: VerificationSigningRequestV1 where
  "sample_signing_request =
     \<lparr>vsr_request_id = sample_id ''request'', vsr_request_nonce = ''aaaaaaaaaaaaaaaa'', vsr_idempotency_key = ''k'',
      vsr_requested_at = utc 0, vsr_expires_at = utc 5, vsr_lease = sample_signing_lease,
      vsr_context = sample_signing_context,
      vsr_canonical_payload_hash = attestation_payload_hash AP_VERIFICATION sample_signing_payload\<rparr>"

lemma sample_signing_payload:
  "verification_gateway_attestation_payload sample_signing_lease sample_signing_context = Inr sample_signing_payload"
  by (simp add: verification_gateway_attestation_payload_def sample_signing_payload_def require_def
      sample_signing_lease_def sample_signing_context_def)

lemma sample_signing_request_ok: "VerificationSigningRequestV1_init sample_signing_request = Inr sample_signing_request"
proof -
  have "strip_ws ''aaaaaaaaaaaaaaaa'' = ''aaaaaaaaaaaaaaaa''" "strip_ws ''k'' = ''k''"
    by (auto intro!: strip_ws_ends simp: white_space_def)
  then have "VerificationSigningRequestV1_strip sample_signing_request = sample_signing_request"
    by (simp add: VerificationSigningRequestV1_strip_def sample_signing_request_def)
  moreover have "list_all fst (VerificationSigningRequestV1_guards sample_signing_request)"
    using sample_signing_payload
    by (simp add: VerificationSigningRequestV1_guards_def sample_signing_request_def nonce_pattern_def safe_id_def
        ident_pattern_def char_class_defs all_chars_iff attestation_payload_hash_def)
      (simp add: sample_signing_lease_def sample_signing_context_def)
  ultimately show ?thesis by (simp add: VerificationSigningRequestV1_init_def construct_Inr)
qed

theorem signing_request_commits_witness:
  "vsl_fencing_token sample_signing_lease = vsl_fencing_token (vsr_lease sample_signing_request) \<or>
    json_collision (payload_envelope AP_VERIFICATION sample_signing_payload) (payload_envelope AP_VERIFICATION sample_signing_payload)"
  using signing_request_commits [OF sample_signing_request_ok sample_signing_payload sample_attested(1) [of AP_VERIFICATION]]
    sample_signing_payload
  by (auto simp: sample_attested(2) sample_signing_request_def)

end
