(* ===== verification/Service.thy ===== *)
theory Service
  imports ServiceFidelity GatewayContracts
begin

text \<open>
  \<open>service.py\<close>, third part: the commands of the control plane. The state is the event
  database and the blob store. What a command does not determine is an argument: clocks,
  identifiers, what other processes do to the blob store while a blob is written, and
  (\<open>am_between\<close>) the transactions of other clients that commit between the reads of a command
  and its final transaction. Parsing of stored JSON into contract models is done by
  pydantic and is a field of the control plane, as is the attestation verifier.
\<close>

section \<open>State and parameters\<close>

datatype evidence_artifact =
    EvidenceV1 VerificationEvidenceArtifactV1 | EvidenceV2 VerificationEvidenceArtifactV2

record control_plane =
  cp_verify :: "datetime \<Rightarrow> AttestationV1 \<Rightarrow> AttestationPurposeV1 \<Rightarrow> json_object \<Rightarrow> unit result"
  cp_allow_direct_verifier_attestations :: bool
  cp_allow_unreviewed_bundles :: bool
  cp_allow_non_authoritative_evidence :: bool
  cp_parse_bundle :: "json_object \<Rightarrow> FormalizationTaskBundleV1 result"
  cp_parse_submission :: "json_object \<Rightarrow> ProofSubmissionV1 result"
  cp_parse_evidence_v1 :: "json_object \<Rightarrow> VerificationEvidenceArtifactV1 result"
  cp_parse_evidence_v2 :: "json_object \<Rightarrow> VerificationEvidenceArtifactV2 result"

record ambient =
  am_clk :: "nat \<Rightarrow> datetime"
  am_ids :: "nat \<Rightarrow> string"
  am_lease_clock :: datetime
  am_verify_clock :: "nat \<Rightarrow> datetime"
  am_others :: "store_fs \<Rightarrow> store_fs"
  am_between :: "event_db \<Rightarrow> event_db"

record cp_state =
  st_db :: event_db
  st_files :: store_fs

record ClaimReceipt =
  rc_lease :: Lease
  rc_event :: StoredEvent

record VerificationOutcome =
  vo_accepted :: bool
  vo_reasons :: "string list"
  vo_event :: StoredEvent

text \<open>The constant fields of an outcome: \<open>not_a_promotion\<close> and \<open>test-only-local\<close>.\<close>

section \<open>Replays\<close>

definition sv_idempotency :: "string \<Rightarrow> string \<Rightarrow> json \<Rightarrow> Idempotency result" where
  "sv_idempotency scope key semantic_request = Idempotency_init
     \<lparr>id_scope = scope, id_key = key, id_request_hash = request_hash semantic_request\<rparr>"

definition replayed_event :: "event_db \<Rightarrow> Idempotency \<Rightarrow> StoredEvent option result" where
  "replayed_event db idempotency =
     bindE (lookup_idempotency db idempotency) (\<lambda>evs.
     case evs of
       None \<Rightarrow> Inr None
     | Some [e] \<Rightarrow> Inr (Some e)
     | Some _ \<Rightarrow> Inl (InvalidTransition ''corrupt idempotency record references multiple command events''))"

text \<open>
  \<open>datetime.fromisoformat\<close> on the texts \<open>isoformat\<close> writes: a date, \<open>T\<close>, a time with optional
  microseconds, and an optional offset. The other ISO 8601 forms it also reads are never
  written by the program and are refused here.
\<close>

definition digits_value :: "string \<Rightarrow> int option" where
  "digits_value s = (if s \<noteq> [] \<and> list_all is_digit s
     then Some (foldl (\<lambda>n c. 10 * n + int (code c) - 48) 0 s) else None)"

definition days_in_month :: "int \<Rightarrow> int \<Rightarrow> int" where
  "days_in_month y m = (if m = 12 then 31 else days_before_month y (m + 1) - days_before_month y m)"

definition parse_offset :: "string \<Rightarrow> int option option" where
  "parse_offset s =
     (if s = [] then Some None
      else if length s = 6 \<and> s ! 0 \<in> set ''+-'' \<and> s ! 3 = CHR '':'' then
        (case (digits_value (take 2 (drop 1 s)), digits_value (drop 4 s)) of
           (Some h, Some m) \<Rightarrow>
             if h < 24 \<and> m < 60 then Some (Some ((if s ! 0 = CHR ''-'' then - 1 else 1) * (60 * h + m))) else None
         | _ \<Rightarrow> None)
      else None)"

definition fromisoformat :: "string \<Rightarrow> datetime option" where
  "fromisoformat s =
     (let date_time = take 19 s; rest = drop 19 s;
          micros = (if prefix ''.'' rest then digits_value (take 6 (tl rest)) else Some 0);
          zone = (if prefix ''.'' rest then drop 7 rest else rest)
      in if length date_time = 19 \<and> s ! 4 = CHR ''-'' \<and> s ! 7 = CHR ''-'' \<and> s ! 10 = CHR ''T''
           \<and> s ! 13 = CHR '':'' \<and> s ! 16 = CHR '':'' \<and> (prefix ''.'' rest \<longrightarrow> length (takeWhile is_digit (tl rest)) = 6)
         then
           (case (map digits_value [take 4 s, take 2 (drop 5 s), take 2 (drop 8 s), take 2 (drop 11 s), take 2 (drop 14 s),
                    take 2 (drop 17 s)], micros, parse_offset zone) of
              ([Some y, Some mo, Some d, Some h, Some mi, Some sec], Some us, Some off) \<Rightarrow>
                if 1 \<le> y \<and> 1 \<le> mo \<and> mo \<le> 12 \<and> 1 \<le> d \<and> d \<le> days_in_month y mo \<and> h < 24 \<and> mi < 60 \<and> sec < 60
                then Some \<lparr>dt_us = (((ymd2ord y mo d - ymd2ord 1970 1 1) * 86400 + h * 3600 + mi * 60 + sec
                         - (case off of None \<Rightarrow> 0 | Some m \<Rightarrow> m * 60)) * 1000000) + us, dt_tz = off\<rparr>
                else None
            | _ \<Rightarrow> None)
         else None)"

definition claim_receipt_from_event :: "string \<Rightarrow> StoredEvent \<Rightarrow> ClaimReceipt result" where
  "claim_receipt_from_event bundle_id event =
     bindE (sv_required_text (se_payload event) ''expires_at'') (\<lambda>expires_at_text.
     case fromisoformat (replace_char (CHR ''Z'') ''+00:00'' expires_at_text) of
       None \<Rightarrow> Inl (InvalidTransition ''corrupt claimed-task expiry timestamp'')
     | Some expires_at \<Rightarrow>
         bindE (sv_required_text (se_payload event) ''worker_id'') (\<lambda>worker_id.
         bindE (sv_required_int (se_payload event) ''fencing_token'') (\<lambda>token.
         bindE (Lease_init \<lparr>ls_job_id = bundle_id, ls_holder_id = worker_id, ls_fencing_token = token,
           ls_expires_at = expires_at\<rparr>) (\<lambda>lease.
         Inr \<lparr>rc_lease = lease, rc_event = event\<rparr>))))"

definition field_or :: "json_object \<Rightarrow> string \<Rightarrow> string \<Rightarrow> json" where
  "field_or payload k d = (case obj_get payload k of None \<Rightarrow> JStr d | Some v \<Rightarrow> v)"

definition verification_outcome_from_event :: "StoredEvent \<Rightarrow> VerificationOutcome result" where
  "verification_outcome_from_event event =
     (case get_value (se_payload event) ''accepted'' of
        JBool accepted \<Rightarrow>
          bindE (sv_required_texts (se_payload event) ''reasons'') (\<lambda>reasons.
          bindE (require (field_or (se_payload event) ''promotion_state'' ''not_a_promotion'' = JStr ''not_a_promotion'')
            (InvalidTransition ''local verification event claims promotion authority'')) (\<lambda>_.
          bindE (require (field_or (se_payload event) ''execution_authority_class'' ''test-only-local'' = JStr ''test-only-local'')
            (InvalidTransition ''local verification event claims a production authority'')) (\<lambda>_.
          Inr \<lparr>vo_accepted = accepted, vo_reasons = reasons, vo_event = event\<rparr>)))
      | _ \<Rightarrow> Inl (InvalidTransition ''corrupt verification event acceptance flag''))"

definition lease_identity :: "Lease \<Rightarrow> json" where
  "lease_identity l = JObj
     [(''job_id'', JStr (ls_job_id l)), (''holder_id'', JStr (ls_holder_id l)),
      (''fencing_token'', JInt (ls_fencing_token l))]"

definition assert_lease :: "datetime \<Rightarrow> string \<Rightarrow> Lease \<Rightarrow> event_db \<Rightarrow> unit result" where
  "assert_lease clock bundle_id l db =
     bindE (require (ls_job_id l = bundle_id) (InvalidTransition ''lease belongs to a different bundle'')) (\<lambda>_.
     assert_current clock l db)"

text \<open>\<open>put_json(model.model_dump(mode="json"))\<close> on the files of a state.\<close>

definition put_model :: "ambient \<Rightarrow> json \<Rightarrow> cp_state \<Rightarrow> ArtifactRef result \<times> cp_state" where
  "put_model am dump st =
     (case put_json (am_others am) dump (st_files st) of (r, fs) \<Rightarrow> (r, st\<lparr>st_files := fs\<rparr>))"

text \<open>The final transaction of a command, after those of other clients.\<close>

definition commit :: "ambient \<Rightarrow> (event_db \<Rightarrow> 'a result \<times> event_db) \<Rightarrow> cp_state \<Rightarrow> 'a result \<times> cp_state" where
  "commit am tx st = (case tx (am_between am (st_db st)) of (r, db) \<Rightarrow> (r, st\<lparr>st_db := db\<rparr>))"

section \<open>Registration\<close>

definition verify_builder_attestation ::
  "control_plane \<Rightarrow> datetime \<Rightarrow> FormalizationTaskBundleV1 \<Rightarrow> AttestationV1 result" where
  "verify_builder_attestation cp now bundle =
     (case tb_builder_attestation bundle of
        None \<Rightarrow> Inl (InvalidTransition ''a trusted Builder attestation is required before registration'')
      | Some a \<Rightarrow>
          bindE (catchE is_attestation_error (InvalidTransition ''Builder attestation was rejected'')
            (bindE (builder_attestation_payload bundle) (\<lambda>payload. cp_verify cp now a AP_BUILDER_FREEZE payload))) (\<lambda>_.
          Inr a))"

fun is_registration_refusal :: "exn \<Rightarrow> bool" where
  "is_registration_refusal (AttestationReplay m) = True"
| "is_registration_refusal (ContractRevisionConflict m) = True"
| "is_registration_refusal _ = False"

definition contract_binding :: "TaskBinding \<Rightarrow> ContractRevisionBinding" where
  "contract_binding b =
     \<lparr>cb_contract_id = tk_contract_id b, cb_revision = tk_revision b, cb_bundle_id = tk_bundle_id b,
      cb_bundle_hash = tk_bundle_hash b, cb_contract_hash = tk_contract_hash b\<rparr>"

definition registration_request :: "FormalizationTaskBundleV1 \<Rightarrow> json" where
  "registration_request bundle = JObj
     [(''bundle_id'', JStr (si_value (tb_bundle_id bundle))), (''bundle_hash'', JStr (dg_value (handoff_hash bundle))),
      (''builder_attestation_signature'', JOpt JStr (map_option at_signature (tb_builder_attestation bundle)))]"

text \<open>What is checked before anything is written: a replay, or the facts to register.\<close>

definition prepare_registration ::
  "control_plane \<Rightarrow> ambient \<Rightarrow> FormalizationTaskBundleV1 \<Rightarrow> string \<Rightarrow> cp_state
     \<Rightarrow> (Idempotency \<times> (TaskBinding + AttestationV1 \<times> ArtifactRef option \<times> string option)) result" where
  "prepare_registration cp am bundle idempotency_key st =
     bindE (require (case sc_freeze (tb_contract bundle) of None \<Rightarrow> False
         | Some f \<Rightarrow> fz_source_preparation_id f \<noteq> None \<and> fz_source_preparation_hash f \<noteq> None)
       (InvalidTransition ''Builder handoff requires committed source-preparation evidence'')) (\<lambda>_.
     bindE (sv_idempotency ''register_bundle'' idempotency_key (registration_request bundle)) (\<lambda>idempotency.
     bindE (replayed_event (st_db st) idempotency) (\<lambda>replayed.
     case replayed of
       Some event \<Rightarrow> bindE (binding_from_event event) (\<lambda>b. Inr (idempotency, Inl b))
     | None \<Rightarrow>
         bindE (verify_builder_attestation cp (am_verify_clock am 0) bundle) (\<lambda>attestation.
         bindE (verify_builder_fidelity_artifact (cp_allow_unreviewed_bundles cp)
           (cp_allow_non_authoritative_evidence cp) (st_files st) bundle) (\<lambda>(fidelity_artifact, assurance).
         Inr (idempotency, Inr (attestation, fidelity_artifact, assurance)))))))"

definition bound_task :: "FormalizationTaskBundleV1 \<Rightarrow> ArtifactRef \<Rightarrow> ArtifactRef option \<Rightarrow> string option \<Rightarrow> TaskBinding" where
  "bound_task bundle artifact fidelity_artifact assurance =
     (binding_from_bundle bundle)
       \<lparr>tk_canonical_type_assurance := assurance, tk_canonical_type_promotion_authority := False,
        tk_bundle_artifact := artifact, tk_fidelity_evidence_artifact := fidelity_artifact\<rparr>"

definition register_bundle ::
  "control_plane \<Rightarrow> ambient \<Rightarrow> FormalizationTaskBundleV1 \<Rightarrow> string \<Rightarrow> cp_state \<Rightarrow> TaskBinding result \<times> cp_state" where
  "register_bundle cp am bundle idempotency_key st =
     (case prepare_registration cp am bundle idempotency_key st of
        Inl e \<Rightarrow> (Inl e, st)
      | Inr (idempotency, Inl b) \<Rightarrow> (Inr b, st)
      | Inr (idempotency, Inr (attestation, fidelity_artifact, assurance)) \<Rightarrow>
          (case put_model am (dump_FormalizationTaskBundleV1 bundle) st of
             (Inl e, st1) \<Rightarrow> (Inl e, st1)
           | (Inr artifact, st1) \<Rightarrow>
               let binding = bound_task bundle artifact fidelity_artifact assurance in
               (case bindE (ContractRevisionBinding_init (contract_binding binding)) (\<lambda>cb.
                     bindE (attestation_nonce attestation) (\<lambda>nonce. Inr (cb, nonce))) of
                  Inl e \<Rightarrow> (Inl e, st1)
                | Inr (cb, nonce) \<Rightarrow>
                    (case commit am (append_contract_revision_registration (am_clk am) (am_ids am) cb
                            \<lparr>ne_event_type = ''task.registered'', ne_payload = registration_payload binding attestation,
                             ne_metadata = []\<rparr> idempotency nonce) st1 of
                       (r, st2) \<Rightarrow>
                         (bindE (catchE is_registration_refusal
                              (InvalidTransition ''Builder attestation nonce was replayed or revision is already bound'') r) (\<lambda>evs.
                          bindE (binding_from_event (hd evs)) (\<lambda>stored.
                          bindE (require (same_logical_binding stored binding)
                            (ProjectionError ''canonical registration event disagrees with the requested immutable bundle'')) (\<lambda>_.
                          Inr stored))), st2)))))"

section \<open>Claims\<close>

definition claim_request :: "string \<Rightarrow> string \<Rightarrow> json \<Rightarrow> json" where
  "claim_request bundle_id worker_id ttl_seconds = JObj
     [(''bundle_id'', JStr bundle_id), (''worker_id'', JStr worker_id), (''ttl_seconds'', ttl_seconds)]"

text \<open>The lifetime comes twice: as the number of the request and as its microseconds.\<close>

definition prepare_claim ::
  "string \<Rightarrow> string \<Rightarrow> json \<Rightarrow> string \<Rightarrow> cp_state \<Rightarrow> (Idempotency \<times> ClaimReceipt option) result" where
  "prepare_claim bundle_id worker_id ttl_seconds idempotency_key st =
     bindE (sv_idempotency ''claim'' idempotency_key (claim_request bundle_id worker_id ttl_seconds)) (\<lambda>idempotency.
     bindE (replayed_event (st_db st) idempotency) (\<lambda>replayed.
     case replayed of
       Some event \<Rightarrow> bindE (claim_receipt_from_event bundle_id event) (\<lambda>r. Inr (idempotency, Some r))
     | None \<Rightarrow> bindE (require_binding (st_db st) bundle_id) (\<lambda>_. Inr (idempotency, None))))"

definition claimed_event :: "string \<Rightarrow> Lease \<Rightarrow> NewEvent" where
  "claimed_event worker_id lease =
     \<lparr>ne_event_type = ''task.claimed'', ne_payload = json_object_of
        [(''worker_id'', JStr worker_id), (''fencing_token'', JInt (ls_fencing_token lease)),
         (''expires_at'', JStr (isoformat (ls_expires_at lease)))], ne_metadata = []\<rparr>"

definition claim_task ::
  "ambient \<Rightarrow> string \<Rightarrow> string \<Rightarrow> json \<Rightarrow> int \<Rightarrow> string \<Rightarrow> cp_state \<Rightarrow> ClaimReceipt result \<times> cp_state" where
  "claim_task am bundle_id worker_id ttl_seconds ttl idempotency_key st =
     (case prepare_claim bundle_id worker_id ttl_seconds idempotency_key st of
        Inl e \<Rightarrow> (Inl e, st)
      | Inr (idempotency, Some receipt) \<Rightarrow> (Inr receipt, st)
      | Inr (idempotency, None) \<Rightarrow>
          (case claim (am_lease_clock am) bundle_id worker_id ttl (st_db st) of
             (Inl e, db1) \<Rightarrow> (Inl e, st\<lparr>st_db := db1\<rparr>)
           | (Inr lease, db1) \<Rightarrow>
               (case commit am (append_events (am_clk am) (am_ids am) ''task'' bundle_id
                       (current_sequence db1 ''task'' bundle_id) [claimed_event worker_id lease]
                       (Some idempotency) None) (st\<lparr>st_db := db1\<rparr>) of
                  (r, st2) \<Rightarrow> (bindE r (\<lambda>evs. Inr \<lparr>rc_lease = lease, rc_event = hd evs\<rparr>), st2))))"

section \<open>Fenced evidence\<close>

text \<open>
  \<open>submit_proof\<close>, \<open>report_gap\<close> and \<open>request_contract_change\<close> have one shape: a replay check,
  checks against the binding and the lease, storing the model, one fenced append.
\<close>

definition fenced_request :: "string \<Rightarrow> Lease \<Rightarrow> string \<Rightarrow> json \<Rightarrow> json" where
  "fenced_request bundle_id l label dump = JObj
     [(''bundle_id'', JStr bundle_id), (''lease'', lease_identity l), (label, dump)]"

definition prepare_fenced ::
  "ambient \<Rightarrow> string \<Rightarrow> Lease \<Rightarrow> string \<Rightarrow> string \<Rightarrow> json \<Rightarrow> (TaskBinding \<Rightarrow> unit result) \<Rightarrow> cp_state
     \<Rightarrow> (Idempotency \<times> StoredEvent option) result" where
  "prepare_fenced am bundle_id l scope idempotency_key semantic_request check st =
     bindE (sv_idempotency scope idempotency_key semantic_request) (\<lambda>idempotency.
     bindE (replayed_event (st_db st) idempotency) (\<lambda>replayed.
     case replayed of
       Some event \<Rightarrow> Inr (idempotency, Some event)
     | None \<Rightarrow>
         bindE (require_binding (st_db st) bundle_id) (\<lambda>binding.
         bindE (assert_lease (am_lease_clock am) bundle_id l (st_db st)) (\<lambda>_.
         bindE (check binding) (\<lambda>_. Inr (idempotency, None))))))"

definition fenced_command ::
  "ambient \<Rightarrow> string \<Rightarrow> Lease \<Rightarrow> string \<Rightarrow> string \<Rightarrow> string \<Rightarrow> json \<Rightarrow> (TaskBinding \<Rightarrow> unit result)
     \<Rightarrow> string \<Rightarrow> string \<Rightarrow> string \<Rightarrow> (ArtifactRef \<Rightarrow> json_object) \<Rightarrow> cp_state \<Rightarrow> StoredEvent result \<times> cp_state" where
  "fenced_command am bundle_id l scope label idempotency_key dump check entity_type entity_id event_type payload st =
     (case prepare_fenced am bundle_id l scope idempotency_key (fenced_request bundle_id l label dump) check st of
        Inl e \<Rightarrow> (Inl e, st)
      | Inr (idempotency, Some event) \<Rightarrow> (Inr event, st)
      | Inr (idempotency, None) \<Rightarrow>
          (case put_model am dump st of
             (Inl e, st1) \<Rightarrow> (Inl e, st1)
           | (Inr artifact, st1) \<Rightarrow>
               (case commit am (append_fenced (am_clk am) (am_ids am) entity_type entity_id bundle_id l 0
                       [\<lparr>ne_event_type = event_type, ne_payload = json_object_of (payload artifact), ne_metadata = []\<rparr>]
                       (Some idempotency) None) st1 of
                  (r, st2) \<Rightarrow> (bindE r (\<lambda>evs. Inr (hd evs)), st2))))"

definition validate_report_binding :: "TaskBinding \<Rightarrow> string \<Rightarrow> int \<Rightarrow> string \<Rightarrow> unit result" where
  "validate_report_binding b contract_id revision contract_hash =
     bindE (require (contract_id = tk_contract_id b) (InvalidTransition ''report binds a different stable contract ID'')) (\<lambda>_.
     bindE (require (revision = tk_revision b) (InvalidTransition ''report binds a different contract revision'')) (\<lambda>_.
     require (contract_hash = tk_contract_hash b) (InvalidTransition ''report binds a different frozen contract hash'')))"

definition validate_proof_binding :: "TaskBinding \<Rightarrow> ProofSubmissionV1 \<Rightarrow> unit result" where
  "validate_proof_binding b s =
     bindE (validate_report_binding b (si_value (ps_contract_id s)) (ps_revision s) (dg_value (ps_contract_hash s))) (\<lambda>_.
     bindE (require (dg_value (ps_environment_hash s) = tk_environment_hash b)
       (InvalidTransition ''proof submission environment does not match the frozen bundle'')) (\<lambda>_.
     require (dg_value (ps_proof_boundary_hash s) = tk_proof_boundary_hash b)
       (InvalidTransition ''proof submission does not bind the frozen proof boundary'')))"

text \<open>The regular expression for placeholders, \<open>\b(?:sorry|admit)\b|sorryAx\<close>, searched anywhere.\<close>

definition word_break :: "char option \<Rightarrow> bool" where
  "word_break c = (case c of None \<Rightarrow> True | Some x \<Rightarrow> \<not> is_word_char x)"

definition first_char :: "string \<Rightarrow> char option" where
  "first_char s = (case s of [] \<Rightarrow> None | c # _ \<Rightarrow> Some c)"

fun placeholder_from :: "char option \<Rightarrow> string \<Rightarrow> bool" where
  "placeholder_from before [] \<longleftrightarrow> False"
| "placeholder_from before (c # s) \<longleftrightarrow>
     list_ex (\<lambda>w. prefix w (c # s) \<and> word_break before \<and> word_break (first_char (drop (length w) (c # s))))
       [''sorry'', ''admit''] \<or>
     prefix ''sorryAx'' (c # s) \<or> placeholder_from (Some c) s"

definition has_placeholder :: "string \<Rightarrow> bool" where
  "has_placeholder = placeholder_from None"

definition model_attribution :: "ProofSubmissionV1 \<Rightarrow> string \<times> string" where
  "model_attribution s =
     (let traces = filter (\<lambda>t. pt_actor_kind t = AK_MODEL \<and> truthy (pt_provider t) \<and> truthy (pt_model_name t)) (ps_provenance s) in
      if traces = [] then (''unattributed'', ''unattributed'')
      else (the (pt_provider (last traces)), the (pt_model_name (last traces))))"

definition proof_payload :: "string \<Rightarrow> Lease \<Rightarrow> ProofSubmissionV1 \<Rightarrow> ArtifactRef \<Rightarrow> json_object" where
  "proof_payload bundle_id l s artifact =
     [(''bundle_id'', JStr bundle_id), (''proof_id'', JStr (si_value (ps_proof_id s))),
      (''contract_id'', JStr (si_value (ps_contract_id s))), (''revision'', JInt (ps_revision s)),
      (''contract_hash'', JStr (dg_value (ps_contract_hash s))),
      (''proof_boundary_hash'', JStr (dg_value (ps_proof_boundary_hash s))),
      (''environment_hash'', JStr (dg_value (ps_environment_hash s))),
      (''dependency_manifest_hash'', JStr (dg_value (proof_dependency_manifest_hash s))),
      (''provider'', JStr (fst (model_attribution s))), (''model'', JStr (snd (model_attribution s))),
      (''input_tokens'', JInt (mt_input_tokens (ps_metrics s))), (''output_tokens'', JInt (mt_output_tokens (ps_metrics s))),
      (''cached_input_tokens'', JInt (mt_cached_input_tokens (ps_metrics s))),
      (''cost_usd'', JFloat (mt_cost_usd (ps_metrics s))), (''duration_ms'', JInt (mt_elapsed_ms (ps_metrics s))),
      (''proof_artifact'', artifact_payload artifact ''proof_submission''), (''fencing_token'', JInt (ls_fencing_token l))]"

definition submit_proof ::
  "ambient \<Rightarrow> string \<Rightarrow> Lease \<Rightarrow> ProofSubmissionV1 \<Rightarrow> string \<Rightarrow> cp_state \<Rightarrow> StoredEvent result \<times> cp_state" where
  "submit_proof am bundle_id l s idempotency_key =
     fenced_command am bundle_id l ''submit_proof'' ''submission'' idempotency_key (dump_ProofSubmissionV1 s)
       (\<lambda>b. bindE (validate_proof_binding b s) (\<lambda>_.
          require (\<not> has_placeholder (ps_proof_source s))
            (InvalidTransition ''proof submissions may not contain sorry, admit, or sorryAx'')))
       ''proof'' (si_value (ps_proof_id s)) ''proof.submitted'' (proof_payload bundle_id l s)"

definition report_gap ::
  "ambient \<Rightarrow> string \<Rightarrow> Lease \<Rightarrow> GapReportV1 \<Rightarrow> string \<Rightarrow> cp_state \<Rightarrow> StoredEvent result \<times> cp_state" where
  "report_gap am bundle_id l r idempotency_key =
     fenced_command am bundle_id l ''report_gap'' ''report'' idempotency_key (dump_GapReportV1 r)
       (\<lambda>b. validate_report_binding b (si_value (gr_contract_id r)) (gr_revision r) (dg_value (gr_contract_hash r)))
       ''gap'' (si_value (gr_report_id r)) ''gap.reported''
       (\<lambda>artifact.
         [(''bundle_id'', JStr bundle_id), (''report_id'', JStr (si_value (gr_report_id r))),
          (''kind'', JStr (GapKindV1_value (gr_kind r))), (''contract_hash'', JStr (dg_value (gr_contract_hash r))),
          (''gap_artifact'', artifact_payload artifact ''gap_report''), (''fencing_token'', JInt (ls_fencing_token l))])"

definition request_contract_change ::
  "ambient \<Rightarrow> string \<Rightarrow> Lease \<Rightarrow> ContractChangeRequestV1 \<Rightarrow> string \<Rightarrow> cp_state \<Rightarrow> StoredEvent result \<times> cp_state" where
  "request_contract_change am bundle_id l r idempotency_key =
     fenced_command am bundle_id l ''request_contract_change'' ''request'' idempotency_key (dump_ContractChangeRequestV1 r)
       (\<lambda>b. validate_report_binding b (si_value (cr_contract_id r)) (cr_old_revision r) (dg_value (cr_old_contract_hash r)))
       ''contract_change_request'' (si_value (cr_request_id r)) ''contract_change.requested''
       (\<lambda>artifact.
         [(''bundle_id'', JStr bundle_id), (''request_id'', JStr (si_value (cr_request_id r))),
          (''contract_id'', JStr (si_value (cr_contract_id r))), (''old_revision'', JInt (cr_old_revision r)),
          (''old_contract_hash'', JStr (dg_value (cr_old_contract_hash r))),
          (''request_artifact'', artifact_payload artifact ''contract_change_request''),
          (''fencing_token'', JInt (ls_fencing_token l))])"

end
