(* ===== verification/ServiceVerify.thy ===== *)
theory ServiceVerify
  imports Service
begin

text \<open>
  \<open>service.py\<close>, fourth part: \<open>verify_submission\<close> and the checks behind it. A verdict is
  recorded for a submitted proof after the report has been compared with the frozen binding,
  its attestation verified (by the lease-bound gateway payload, or by the direct payload
  where a test setting allows it), and the stored evidence artifact, bundle and proof
  compared with each other byte for byte.
\<close>

section \<open>Checks of the report\<close>

definition proof_event :: "event_db \<Rightarrow> string \<Rightarrow> StoredEvent result" where
  "proof_event db proof_id =
     bindE (read_stream db ''proof'' proof_id 0) (\<lambda>evs.
     case find (\<lambda>e. se_event_type e = ''proof.submitted'') evs of
       None \<Rightarrow> Inl (TaskNotFound ''proof has not been submitted'')
     | Some e \<Rightarrow> Inr e)"

definition validate_verification_binding :: "TaskBinding \<Rightarrow> VerificationReportV1 \<Rightarrow> StoredEvent \<Rightarrow> unit result" where
  "validate_verification_binding b report event =
     (let payload = se_payload event in
     bindE (sv_required_text payload ''contract_hash'') (\<lambda>contract_hash.
     bindE (require (contract_hash = dg_value (vr_contract_hash report))
       (InvalidTransition ''verification report does not bind the submitted proof contract'')) (\<lambda>_.
     bindE (sv_required_text payload ''proof_boundary_hash'') (\<lambda>proof_boundary_hash.
     bindE (require (proof_boundary_hash = dg_value (vr_proof_boundary_hash report))
       (InvalidTransition ''verification report does not bind the submitted proof boundary'')) (\<lambda>_.
     bindE (require (dg_value (vr_contract_hash report) = tk_contract_hash b)
       (InvalidTransition ''verification report does not bind the frozen bundle'')) (\<lambda>_.
     bindE (require (dg_value (vr_proof_boundary_hash report) = tk_proof_boundary_hash b)
       (InvalidTransition ''verification report does not bind the frozen proof boundary'')) (\<lambda>_.
     bindE (require (dg_value (vr_environment_hash report) = tk_environment_hash b)
       (InvalidTransition ''verification ran in a different environment'')) (\<lambda>_.
     require (AxiomProfileV1_value (vr_axiom_profile report) = tk_axiom_profile b)
       (InvalidTransition ''verification used a different axiom profile'')))))))))"

definition verification_failures :: "TaskBinding \<Rightarrow> VerificationReportV1 \<Rightarrow> string list" where
  "verification_failures b report =
     (let observed = set (vr_observed_axioms report);
          unapproved = observed - tk_axioms_allowlist b in
      (if vr_independent report then [] else [''verification report is not independent'']) @
      (if vr_kernel_passed report then [] else [''Lean kernel verification failed'']) @
      (if vr_build_passed report then [] else [''clean build failed'']) @
      (if vr_dependency_check_passed report then [] else [''dependency boundary check failed'']) @
      (if vr_clean_environment report then [] else [''verification did not use a clean environment'']) @
      (if ''sorryAx'' \<in> observed then [''sorryAx is prohibited''] else []) @
      (if unapproved \<noteq> {} then [''unapproved axioms: '' @ join_with '', '' (sorted_list_of_set unapproved)] else []) @
      (if tk_axiom_profile b = AxiomProfileV1_value AX_STRICT \<and> observed \<noteq> {}
       then [''strict axiom profile permits no observed axioms''] else []))"

definition validate_verification_evidence ::
  "TaskBinding \<Rightarrow> VerificationReportV1 \<Rightarrow> string \<Rightarrow> unit result" where
  "validate_verification_evidence b report expected_dependency_hash =
     (case vr_evidence report of
        None \<Rightarrow> Inl (InvalidTransition ''verifier-owned environment evidence is required'')
      | Some e \<Rightarrow> forE (\<lambda>(ok, m). require ok (InvalidTransition m))
          [(dg_value (ev_environment_hash e) = tk_environment_hash b, ''verification evidence has a different environment hash''),
           (ev_environment_hash e = vr_environment_hash report, ''verification evidence does not bind the reported environment''),
           (ev_lean_version e = tk_lean_version b, ''verification evidence has a different Lean version''),
           (ev_mathlib_revision e = tk_mathlib_revision b, ''verification evidence has a different mathlib revision''),
           (map_option dg_value (ev_lake_manifest_hash e) = tk_lake_manifest_hash b,
              ''verification evidence has a different Lake manifest''),
           (dg_value (ev_dependency_manifest_hash e) = expected_dependency_hash,
              ''verification evidence has a different dependency manifest''),
           (ev_worker_image_digest e = tk_worker_image_digest b, ''verification evidence has a different worker image''),
           (ev_wrapper_protocol e = tk_wrapper_protocol b, ''verification evidence has a different wrapper protocol''),
           (dg_value (ev_command_policy_hash e) = tk_command_policy_hash b,
              ''verification evidence has a different command policy'')])"

section \<open>The evidence artifact\<close>

definition dump_evidence_artifact :: "evidence_artifact \<Rightarrow> json" where
  "dump_evidence_artifact a =
     (case a of EvidenceV1 x \<Rightarrow> dump_VerificationEvidenceArtifactV1 x | EvidenceV2 x \<Rightarrow> dump_VerificationEvidenceArtifactV2 x)"

definition read_verification_evidence_artifact ::
  "control_plane \<Rightarrow> store_fs \<Rightarrow> string \<Rightarrow> evidence_artifact result" where
  "read_verification_evidence_artifact cp fs digest =
     bindE (read_canonical_json_artifact fs digest) (\<lambda>raw.
     bindE (if get_value raw ''schema_version'' = JStr ''autolean.verification-evidence-artifact.v1''
         then catchE is_value_error (InvalidTransition ''verifier evidence artifact has an invalid schema'')
           (bindE (cp_parse_evidence_v1 cp raw) (\<lambda>x. Inr (EvidenceV1 x)))
         else if get_value raw ''schema_version'' = JStr ''autolean.verification-evidence-artifact.v2''
         then catchE is_value_error (InvalidTransition ''verifier evidence artifact has an invalid schema'')
           (bindE (cp_parse_evidence_v2 cp raw) (\<lambda>x. Inr (EvidenceV2 x)))
         else Inl (InvalidTransition ''verifier evidence artifact has an unsupported schema'')) (\<lambda>artifact.
     bindE (catchE is_artifact_error (InvalidTransition ''verifier evidence artifact is unavailable or corrupt'')
       (get_bytes fs (Inr digest))) (\<lambda>original.
     bindE (require (utf8 (canonical_json (dump_evidence_artifact artifact)) = original)
       (InvalidTransition ''verifier evidence artifact is not canonical V1 JSON'')) (\<lambda>_.
     Inr artifact))))"

text \<open>
  The checks read only fields that both versions have, under the same names; the view of a
  V2 artifact as a V1 artifact has just these.
\<close>

definition evidence_oci :: "evidence_artifact \<Rightarrow> OciVerificationArtifactV1" where
  "evidence_oci a = (case a of EvidenceV1 x \<Rightarrow> va1_oci x
     | EvidenceV2 x \<Rightarrow> (let o2 = va2_oci x in
         \<lparr>oa1_worker_image_digest = oa2_worker_image_digest o2, oa1_wrapper_protocol = oa2_wrapper_protocol o2,
          oa1_command_policy_hash = oa2_command_policy_hash o2, oa1_command_hash = oa2_command_hash o2,
          oa1_candidate_sha256 = oa2_candidate_sha256 o2, oa1_trusted_statement_sha256 = oa2_trusted_statement_sha256 o2,
          oa1_bundle_manifest_sha256 = oa2_bundle_manifest_sha256 o2\<rparr>))"

definition evidence_view :: "evidence_artifact \<Rightarrow> VerificationEvidenceArtifactV1" where
  "evidence_view a = (case a of EvidenceV1 x \<Rightarrow> x
     | EvidenceV2 x \<Rightarrow>
         \<lparr>va1_evidence_id = va2_evidence_id x, va1_bundle_id = va2_bundle_id x, va1_bundle_hash = va2_bundle_hash x,
          va1_contract_id = va2_contract_id x, va1_revision = va2_revision x, va1_contract_hash = va2_contract_hash x,
          va1_proof_id = va2_proof_id x, va1_proof_boundary_hash = va2_proof_boundary_hash x,
          va1_proof_submission_artifact_digest = va2_proof_submission_artifact_digest x,
          va1_dependency_manifest_hash = va2_dependency_manifest_hash x,
          va1_verification_report_id = va2_verification_report_id x,
          va1_verification_observation_hash = va2_verification_observation_hash x,
          va1_environment = va2_environment x, va1_oci = evidence_oci a\<rparr>)"

definition evidence_checks ::
  "TaskBinding \<Rightarrow> VerificationReportV1 \<Rightarrow> VerificationEvidenceV1 \<Rightarrow> string \<Rightarrow> string \<Rightarrow> VerificationEvidenceArtifactV1 \<Rightarrow> checks" where
  "evidence_checks b report e proof_digest expected_dependency_hash a =
     [(va1_evidence_id a = ev_evidence_id e, ''different evidence identity''),
      (si_value (va1_bundle_id a) = tk_bundle_id b, ''different bundle ID''),
      (dg_value (va1_bundle_hash a) = tk_bundle_hash b, ''different bundle hash''),
      (si_value (va1_contract_id a) = tk_contract_id b, ''different contract ID''),
      (va1_revision a = tk_revision b, ''different contract revision''),
      (dg_value (va1_contract_hash a) = tk_contract_hash b, ''different contract hash''),
      (va1_proof_id a = vr_proof_id report, ''different proof ID''),
      (va1_proof_boundary_hash a = vr_proof_boundary_hash report, ''different proof boundary''),
      (va1_proof_submission_artifact_digest a = proof_digest, ''different submitted proof artifact''),
      (dg_value (va1_dependency_manifest_hash a) = expected_dependency_hash, ''different dependency manifest''),
      (va1_verification_report_id a = vr_report_id report, ''different verification report''),
      (ve_environment_hash (va1_environment a) = ev_environment_hash e, ''different environment hash''),
      (ve_lean_version (va1_environment a) = ev_lean_version e, ''different Lean version''),
      (ve_mathlib_revision (va1_environment a) = ev_mathlib_revision e, ''different mathlib revision''),
      (ve_lake_manifest_hash (va1_environment a) = ev_lake_manifest_hash e, ''different Lake manifest''),
      (oa1_worker_image_digest (va1_oci a) = ev_worker_image_digest e, ''different worker image''),
      (oa1_wrapper_protocol (va1_oci a) = ev_wrapper_protocol e, ''different wrapper protocol''),
      (oa1_command_policy_hash (va1_oci a) = ev_command_policy_hash e, ''different command policy''),
      (oa1_command_hash (va1_oci a) = ev_command_hash e, ''different invocation command hash'')]"

definition unsigned_report :: "VerificationReportV1 \<Rightarrow> VerificationReportV1 result" where
  "unsigned_report report = VerificationReportV1_init (report\<lparr>vr_evidence := None, vr_verifier_attestation := None\<rparr>)"

definition candidate_source :: "ProofBoundaryV1 \<Rightarrow> ProofSubmissionV1 \<Rightarrow> string" where
  "candidate_source boundary s =
     pb_trusted_statement_source boundary @ '' := '' @ py_rstrip (ps_proof_source s) @ [CHR 0x0A, CHR 0x0A] @
     ''#print axioms '' @ pb_expected_declaration boundary @ [CHR 0x0A]"

definition validate_stored_handoff ::
  "control_plane \<Rightarrow> store_fs \<Rightarrow> TaskBinding \<Rightarrow> VerificationReportV1 \<Rightarrow> string \<Rightarrow> OciVerificationArtifactV1 \<Rightarrow> unit result" where
  "validate_stored_handoff cp fs b report proof_digest oci =
     bindE (read_canonical_json_artifact fs (af_digest (tk_bundle_artifact b))) (\<lambda>bundle_payload.
     bindE (read_canonical_json_artifact fs proof_digest) (\<lambda>proof_payload.
     bindE (catchE is_value_error (InvalidTransition ''stored frozen bundle or submitted proof is malformed'')
       (bindE (cp_parse_bundle cp bundle_payload) (\<lambda>bundle.
        bindE (cp_parse_submission cp proof_payload) (\<lambda>submission. Inr (bundle, submission))))) (\<lambda>(bundle, submission).
     bindE (require (si_value (tb_bundle_id bundle) = tk_bundle_id b \<and> dg_value (handoff_hash bundle) = tk_bundle_hash b \<and>
         dg_value (semantic_hash (tb_contract bundle)) = tk_contract_hash b \<and>
         dg_value (pb_boundary_hash (tb_proof_boundary bundle)) = tk_proof_boundary_hash b)
       (InvalidTransition ''stored frozen bundle does not match its registered binding'')) (\<lambda>_.
     bindE (require (ps_proof_id submission = vr_proof_id report \<and> si_value (ps_contract_id submission) = tk_contract_id b \<and>
         ps_revision submission = tk_revision b \<and> dg_value (ps_contract_hash submission) = tk_contract_hash b \<and>
         dg_value (ps_proof_boundary_hash submission) = tk_proof_boundary_hash b \<and>
         dg_value (ps_environment_hash submission) = tk_environment_hash b)
       (InvalidTransition ''stored submitted proof does not match its registered binding'')) (\<lambda>_.
     let boundary = tb_proof_boundary bundle in
     bindE (require (oa1_candidate_sha256 oci = sha256_hexdigest (utf8 (candidate_source boundary submission)))
       (InvalidTransition ''verifier evidence artifact does not bind the submitted proof bytes'')) (\<lambda>_.
     bindE (require (oa1_trusted_statement_sha256 oci = dg_value (pb_trusted_statement_hash boundary))
       (InvalidTransition ''verifier evidence artifact does not bind frozen statement bytes'')) (\<lambda>_.
     require (oa1_bundle_manifest_sha256 oci = dg_value (pb_solver_manifest_hash boundary))
       (InvalidTransition ''verifier evidence artifact does not bind frozen workspace manifest''))))))))"

definition validate_execution_lease :: "bool \<Rightarrow> Lease \<Rightarrow> evidence_artifact \<Rightarrow> unit result" where
  "validate_execution_lease require_authoritative l artifact =
     (case artifact of
        EvidenceV1 _ \<Rightarrow> require (\<not> require_authoritative)
          (InvalidTransition ''gateway-attested verification requires lease-bound V2 execution evidence'')
      | EvidenceV2 x \<Rightarrow> (let authority = oa2_execution_authority (va2_oci x) in
          require (oe_worker_id authority = ls_holder_id l \<and> oe_fencing_token authority = ls_fencing_token l \<and>
              dt_us (oe_expires_at authority) = dt_us (ls_expires_at l))
            (InvalidTransition ''verifier evidence artifact has a different execution lease'')))"

definition validate_verification_evidence_artifact ::
  "control_plane \<Rightarrow> store_fs \<Rightarrow> TaskBinding \<Rightarrow> VerificationReportV1 \<Rightarrow> string \<Rightarrow> string \<Rightarrow> Lease \<Rightarrow> bool
     \<Rightarrow> evidence_artifact \<Rightarrow> unit result" where
  "validate_verification_evidence_artifact cp fs b report proof_digest expected_dependency_hash l require_authoritative artifact =
     (case vr_evidence report of
        None \<Rightarrow> Inl (InvalidTransition ''verifier-owned environment evidence is required'')
      | Some e \<Rightarrow>
          let view = evidence_view artifact; oci = va1_oci view in
          bindE (validate_execution_lease require_authoritative l artifact) (\<lambda>_.
          bindE (forE (\<lambda>(ok, m). require ok (InvalidTransition m))
            (evidence_checks b report e proof_digest expected_dependency_hash view)) (\<lambda>_.
          bindE (unsigned_report report) (\<lambda>unsigned.
          bindE (require (va1_verification_observation_hash view = report_hash unsigned)
            (InvalidTransition ''verifier evidence artifact does not bind the unsigned verification observation'')) (\<lambda>_.
          bindE (require (oa1_worker_image_digest oci = tk_worker_image_digest b)
            (InvalidTransition ''verifier evidence artifact has an unapproved worker image'')) (\<lambda>_.
          bindE (require (oa1_wrapper_protocol oci = tk_wrapper_protocol b)
            (InvalidTransition ''verifier evidence artifact has an unapproved wrapper protocol'')) (\<lambda>_.
          bindE (require (dg_value (oa1_command_policy_hash oci) = tk_command_policy_hash b)
            (InvalidTransition ''verifier evidence artifact has an unapproved command policy'')) (\<lambda>_.
          validate_stored_handoff cp fs b report proof_digest oci))))))))"

section \<open>The attestation of a verdict\<close>

definition gateway_context ::
  "TaskBinding \<Rightarrow> VerificationReportV1 \<Rightarrow> VerificationEvidenceV1 \<Rightarrow> string \<Rightarrow> VerificationSigningContextV1 result" where
  "gateway_context b report e proof_digest =
     bindE (sv_stable_identifier (tk_bundle_id b)) (\<lambda>bundle_id.
     bindE (DigestV1_init \<lparr>dg_kind = BUNDLE, dg_value = tk_bundle_hash b\<rparr>) (\<lambda>bundle_hash.
     bindE (sv_stable_identifier (tk_contract_id b)) (\<lambda>contract_id.
     VerificationSigningContextV1_init
       \<lparr>vsc_bundle_id = bundle_id, vsc_bundle_hash = bundle_hash, vsc_proof_id = vr_proof_id report,
        vsc_proof_submission_artifact_digest = proof_digest, vsc_contract_id = contract_id, vsc_revision = tk_revision b,
        vsc_contract_hash = vr_contract_hash report, vsc_proof_boundary_hash = vr_proof_boundary_hash report,
        vsc_environment_hash = vr_environment_hash report,
        vsc_dependency_manifest_hash = ev_dependency_manifest_hash e, vsc_report_id = vr_report_id report,
        vsc_verification_report_hash = report_hash report, vsc_verifier_id = vr_verifier_id report,
        vsc_evidence_identity = ev_evidence_id e, vsc_verification_evidence_hash = evidence_hash e,
        vsc_evidence_artifact_digest = ev_evidence_artifact_digest e\<rparr>)))"

definition gateway_lease :: "VerificationSigningContextV1 \<Rightarrow> Lease \<Rightarrow> VerificationSigningLeaseBindingV1 result" where
  "gateway_lease ctx l = VerificationSigningLeaseBindingV1_init
     \<lparr>vsl_bundle_id = vsc_bundle_id ctx, vsl_worker_id = ls_holder_id l, vsl_fencing_token = ls_fencing_token l,
      vsl_expires_at = ls_expires_at l\<rparr>"

text \<open>The two ways to verify; the value says whether the gateway payload was attested.\<close>

definition direct_verification_payload ::
  "TaskBinding \<Rightarrow> VerificationReportV1 \<Rightarrow> string \<Rightarrow> json_object result" where
  "direct_verification_payload b report proof_digest =
     verification_attestation_payload (tk_bundle_id b) (tk_bundle_hash b) proof_digest (tk_contract_id b)
       (tk_revision b) (vr_contract_hash report) (vr_proof_boundary_hash report) (vr_environment_hash report) report"

definition gateway_attested ::
  "control_plane \<Rightarrow> (nat \<Rightarrow> datetime) \<Rightarrow> TaskBinding \<Rightarrow> VerificationReportV1 \<Rightarrow> AttestationV1 \<Rightarrow> string \<Rightarrow> Lease
     \<Rightarrow> VerificationSigningLeaseBindingV1 \<Rightarrow> VerificationSigningContextV1 \<Rightarrow> bool result" where
  "gateway_attested cp clock b report a proof_digest l signing_lease ctx =
     (case bindE (verification_gateway_attestation_payload signing_lease ctx) (cp_verify cp (clock 0) a AP_VERIFICATION) of
        Inr _ \<Rightarrow>
          bindE (require (dt_us (at_expires_at a) \<le> dt_us (ls_expires_at l))
            (InvalidTransition ''verifier gateway attestation outlives its fenced lease'')) (\<lambda>_. Inr True)
      | Inl err \<Rightarrow>
          if \<not> is_attestation_error err then Inl err
          else if \<not> cp_allow_direct_verifier_attestations cp
          then Inl (InvalidTransition ''lease-bound verifier gateway attestation was rejected'')
          else bindE (catchE is_attestation_error (InvalidTransition ''verification attestation was rejected'')
            (bindE (direct_verification_payload b report proof_digest) (cp_verify cp (clock 1) a AP_VERIFICATION))) (\<lambda>_.
          Inr False))"

definition verify_verification_attestation ::
  "control_plane \<Rightarrow> (nat \<Rightarrow> datetime) \<Rightarrow> store_fs \<Rightarrow> TaskBinding \<Rightarrow> VerificationReportV1 \<Rightarrow> StoredEvent \<Rightarrow> Lease
     \<Rightarrow> AttestationV1 result" where
  "verify_verification_attestation cp clock fs b report event l =
     (case (vr_verifier_attestation report, vr_evidence report) of
        (None, _) \<Rightarrow> Inl (InvalidTransition ''an independent verifier attestation is required'')
      | (Some _, None) \<Rightarrow> Inl (InvalidTransition ''verifier-owned environment evidence is required'')
      | (Some a, Some e) \<Rightarrow>
          bindE (sv_required_object (se_payload event) ''proof_artifact'') (\<lambda>proof_artifact.
          bindE (sv_required_text proof_artifact ''digest'') (\<lambda>proof_digest.
          bindE (sv_required_text (se_payload event) ''dependency_manifest_hash'') (\<lambda>dependency_hash.
          bindE (validate_verification_evidence b report dependency_hash) (\<lambda>_.
          bindE (require (at_evidence_identity a = si_value (ev_evidence_id e))
            (InvalidTransition ''verifier attestation does not bind its evidence identity'')) (\<lambda>_.
          bindE (gateway_context b report e proof_digest) (\<lambda>ctx.
          bindE (gateway_lease ctx l) (\<lambda>signing_lease.
          bindE (gateway_attested cp clock b report a proof_digest l signing_lease ctx) (\<lambda>authoritative.
          bindE (read_verification_evidence_artifact cp fs (ev_evidence_artifact_digest e)) (\<lambda>artifact.
          bindE (validate_verification_evidence_artifact cp fs b report proof_digest dependency_hash l authoritative artifact) (\<lambda>_.
          Inr a)))))))))))"

section \<open>Recording a verdict\<close>

definition verdict_payload ::
  "string \<Rightarrow> Lease \<Rightarrow> VerificationReportV1 \<Rightarrow> string list \<Rightarrow> AttestationV1 \<Rightarrow> ArtifactRef \<Rightarrow> json_object" where
  "verdict_payload bundle_id l report reasons a artifact = json_object_of
     [(''bundle_id'', JStr bundle_id), (''report_id'', JStr (si_value (vr_report_id report))),
      (''proof_id'', JStr (si_value (vr_proof_id report))), (''contract_hash'', JStr (dg_value (vr_contract_hash report))),
      (''proof_boundary_hash'', JStr (dg_value (vr_proof_boundary_hash report))), (''accepted'', JBool (reasons = [])),
      (''reasons'', JStrs reasons), (''promotion_state'', JStr ''not_a_promotion''),
      (''execution_authority_class'', JStr ''test-only-local''), (''verifier_attestation'', attestation_summary a),
      (''verification_artifact'', artifact_payload artifact ''verification_report''),
      (''fencing_token'', JInt (ls_fencing_token l))]"

definition verdict_event ::
  "string \<Rightarrow> Lease \<Rightarrow> VerificationReportV1 \<Rightarrow> string list \<Rightarrow> AttestationV1 \<Rightarrow> ArtifactRef \<Rightarrow> NewEvent" where
  "verdict_event bundle_id l report reasons a artifact =
     \<lparr>ne_event_type = (if reasons = [] then ''verification.accepted'' else ''verification.rejected''),
      ne_payload = verdict_payload bundle_id l report reasons a artifact, ne_metadata = []\<rparr>"

fun is_verdict_refusal :: "exn \<Rightarrow> bool" where
  "is_verdict_refusal (AttestationReplay m) = True"
| "is_verdict_refusal (ConcurrencyError et ei expected actual) = True"
| "is_verdict_refusal _ = False"

text \<open>What is checked before anything is written: a replayed outcome, or the attestation and the reasons.\<close>

definition prepare_verdict ::
  "control_plane \<Rightarrow> ambient \<Rightarrow> string \<Rightarrow> Lease \<Rightarrow> VerificationReportV1 \<Rightarrow> string \<Rightarrow> cp_state
     \<Rightarrow> (Idempotency \<times> (VerificationOutcome + AttestationV1 \<times> string list)) result" where
  "prepare_verdict cp am bundle_id l report idempotency_key st =
     bindE (sv_idempotency ''verify_submission'' idempotency_key
       (fenced_request bundle_id l ''report'' (dump_VerificationReportV1 report))) (\<lambda>idempotency.
     bindE (replayed_event (st_db st) idempotency) (\<lambda>replayed.
     case replayed of
       Some event \<Rightarrow> bindE (verification_outcome_from_event event) (\<lambda>outcome. Inr (idempotency, Inl outcome))
     | None \<Rightarrow>
         bindE (require_binding (st_db st) bundle_id) (\<lambda>b.
         bindE (assert_lease (am_lease_clock am) bundle_id l (st_db st)) (\<lambda>_.
         bindE (proof_event (st_db st) (si_value (vr_proof_id report))) (\<lambda>event.
         bindE (validate_verification_binding b report event) (\<lambda>_.
         bindE (verify_verification_attestation cp (am_verify_clock am) (st_files st) b report event l) (\<lambda>a.
         Inr (idempotency, Inr (a, verification_failures b report)))))))))"

definition verify_submission ::
  "control_plane \<Rightarrow> ambient \<Rightarrow> string \<Rightarrow> Lease \<Rightarrow> VerificationReportV1 \<Rightarrow> string \<Rightarrow> cp_state
     \<Rightarrow> VerificationOutcome result \<times> cp_state" where
  "verify_submission cp am bundle_id l report idempotency_key st =
     (case prepare_verdict cp am bundle_id l report idempotency_key st of
        Inl e \<Rightarrow> (Inl e, st)
      | Inr (idempotency, Inl outcome) \<Rightarrow> (Inr outcome, st)
      | Inr (idempotency, Inr (a, reasons)) \<Rightarrow>
          (case put_model am (dump_VerificationReportV1 report) st of
             (Inl e, st1) \<Rightarrow> (Inl e, st1)
           | (Inr artifact, st1) \<Rightarrow>
               (case attestation_nonce a of
                  Inl e \<Rightarrow> (Inl e, st1)
                | Inr nonce \<Rightarrow>
                    (case commit am (append_fenced (am_clk am) (am_ids am) ''verification'' (si_value (vr_proof_id report))
                            bundle_id l 0 [verdict_event bundle_id l report reasons a artifact] (Some idempotency) (Some nonce)) st1 of
                       (r, st2) \<Rightarrow>
                         (bindE (catchE is_verdict_refusal (InvalidTransition
                              ''verification attestation was replayed or proof already has a terminal verification verdict'') r)
                            (\<lambda>evs. Inr \<lparr>vo_accepted = (reasons = []), vo_reasons = reasons, vo_event = hd evs\<rparr>), st2)))))"

end
