(* ===== verification/ServiceSample.thy ===== *)
theory ServiceSample
  imports ServiceVerify EventProps
begin

text \<open>
  A complete run of the control plane on small data, used by the witnesses: a registered
  bundle, a current lease, a submitted proof, its evidence artifact in the blob store, and
  an accepting report that a keyring verifies for the lease-bound gateway payload.
\<close>

section \<open>Values\<close>

definition demo_binding :: TaskBinding where
  "demo_binding = bound_task sample_bundle (sha256_ref (sha256_hexdigest ''{}'') 2) None None"

definition demo_submission :: ProofSubmissionV1 where
  "demo_submission =
     \<lparr>ps_proof_id = sample_id ''proof'', ps_contract_id = sample_id ''contract'', ps_revision = 1,
      ps_contract_hash = semantic_hash sample_contract,
      ps_proof_boundary_hash = pb_boundary_hash (tb_proof_boundary sample_bundle), ps_proof_source = ''trivial'',
      ps_proof_source_hash = digest_text PROOF_SOURCE ''trivial'', ps_environment_hash = digest_text ENVIRONMENT ''env'',
      ps_dependency_manifest = [], ps_provenance = [],
      ps_metrics = \<lparr>mt_input_tokens = 0, mt_output_tokens = 0, mt_cached_input_tokens = 0, mt_cost_usd = ''0.0'', mt_elapsed_ms = 0\<rparr>,
      ps_status = PS_CANDIDATE, ps_submitted_at = utc 3\<rparr>"

definition demo_lease :: Lease where
  "demo_lease = \<lparr>ls_job_id = si_value (sample_id ''bundle''), ls_holder_id = ''w'', ls_fencing_token = 1, ls_expires_at = utc 20000000\<rparr>"

definition demo_observation :: VerificationReportV1 where
  "demo_observation = sample_report\<lparr>vr_contract_hash := semantic_hash sample_contract,
     vr_proof_boundary_hash := pb_boundary_hash (tb_proof_boundary sample_bundle)\<rparr>"

definition demo_policy_hash :: DigestV1 where
  "demo_policy_hash = policy_command_policy_hash (le_verifier_execution_policy sample_environment)"

definition demo_artifact :: VerificationEvidenceArtifactV2 where
  "demo_artifact =
     \<lparr>va2_evidence_id = sample_id ''evidence'', va2_bundle_id = sample_id ''bundle'', va2_bundle_hash = handoff_hash sample_bundle,
      va2_contract_id = sample_id ''contract'', va2_revision = 1, va2_contract_hash = semantic_hash sample_contract,
      va2_proof_id = sample_id ''proof'', va2_proof_boundary_hash = pb_boundary_hash (tb_proof_boundary sample_bundle),
      va2_proof_submission_artifact_digest = sha256_hexdigest ''{}'',
      va2_dependency_manifest_hash = proof_dependency_manifest_hash demo_submission,
      va2_verification_report_id = sample_id ''report'', va2_verification_observation_hash = report_hash demo_observation,
      va2_environment = \<lparr>ve_environment_hash = digest_text ENVIRONMENT ''env'', ve_lean_version = ''4.9.0'',
        ve_mathlib_revision = ''abc'', ve_lake_manifest_hash = None\<rparr>,
      va2_oci = sample_oci\<lparr>oa2_wrapper_protocol := ''autolean.oci-lean-wrapper.v1'',
        oa2_command_policy_hash := demo_policy_hash,
        oa2_candidate_sha256 := sha256_hexdigest (utf8 (candidate_source (tb_proof_boundary sample_bundle) demo_submission)),
        oa2_trusted_statement_sha256 := dg_value (pb_trusted_statement_hash (tb_proof_boundary sample_bundle)),
        oa2_bundle_manifest_sha256 := dg_value (pb_solver_manifest_hash (tb_proof_boundary sample_bundle)),
        oa2_execution_authority := \<lparr>oe_execution_claim_hash = replicate 64 (CHR ''5''), oe_worker_id = ''w'',
          oe_fencing_token = 1, oe_expires_at = utc 20000000, oe_wrapper_identity_hash = replicate 64 (CHR ''6'')\<rparr>\<rparr>\<rparr>"

definition demo_artifact_bytes :: string where
  "demo_artifact_bytes = utf8 (canonical_json (dump_VerificationEvidenceArtifactV2 demo_artifact))"

definition demo_evidence :: VerificationEvidenceV1 where
  "demo_evidence =
     \<lparr>ev_evidence_id = sample_id ''evidence'', ev_environment_hash = digest_text ENVIRONMENT ''env'',
      ev_worker_image_digest = ''sha256:'' @ replicate 64 (CHR ''0''), ev_wrapper_protocol = ''autolean.oci-lean-wrapper.v1'',
      ev_lean_version = ''4.9.0'', ev_mathlib_revision = ''abc'', ev_lake_manifest_hash = None,
      ev_dependency_manifest_hash = proof_dependency_manifest_hash demo_submission,
      ev_command_policy_hash = demo_policy_hash, ev_command_hash = oa2_command_hash sample_oci,
      ev_evidence_artifact_digest = sha256_hexdigest demo_artifact_bytes, ev_captured_at = utc 3\<rparr>"

definition demo_unsigned :: VerificationReportV1 where
  "demo_unsigned = demo_observation\<lparr>vr_evidence := Some demo_evidence\<rparr>"

definition demo_context :: VerificationSigningContextV1 where
  "demo_context =
     \<lparr>vsc_bundle_id = sample_id ''bundle'', vsc_bundle_hash = handoff_hash sample_bundle, vsc_proof_id = sample_id ''proof'',
      vsc_proof_submission_artifact_digest = sha256_hexdigest ''{}'', vsc_contract_id = sample_id ''contract'', vsc_revision = 1,
      vsc_contract_hash = semantic_hash sample_contract,
      vsc_proof_boundary_hash = pb_boundary_hash (tb_proof_boundary sample_bundle),
      vsc_environment_hash = digest_text ENVIRONMENT ''env'',
      vsc_dependency_manifest_hash = proof_dependency_manifest_hash demo_submission, vsc_report_id = sample_id ''report'',
      vsc_verification_report_hash = report_hash demo_unsigned, vsc_verifier_id = ''v'',
      vsc_evidence_identity = sample_id ''evidence'', vsc_verification_evidence_hash = evidence_hash demo_evidence,
      vsc_evidence_artifact_digest = sha256_hexdigest demo_artifact_bytes\<rparr>"

definition demo_signing_lease :: VerificationSigningLeaseBindingV1 where
  "demo_signing_lease = \<lparr>vsl_bundle_id = sample_id ''bundle'', vsl_worker_id = ''w'', vsl_fencing_token = 1, vsl_expires_at = utc 20000000\<rparr>"

definition demo_payload :: json_object where
  "demo_payload =
     [(''schema_version'', JStr ''autolean.verification-gateway-attestation-payload.v1''),
      (''lease'', dump_VerificationSigningLeaseBindingV1 demo_signing_lease),
      (''context'', dump_VerificationSigningContextV1 demo_context)]"

definition demo_attestation :: AttestationV1 where
  "demo_attestation =
     (let unsigned = (sample_attestation AP_VERIFICATION demo_payload)\<lparr>at_evidence_identity := si_value (sample_id ''evidence'')\<rparr>
      in unsigned\<lparr>at_signature := attestation_signature (hk_secret sample_key) unsigned\<rparr>)"

definition demo_report :: VerificationReportV1 where
  "demo_report = demo_unsigned\<lparr>vr_verifier_attestation := Some demo_attestation\<rparr>"

definition demo_cp :: control_plane where
  "demo_cp =
     \<lparr>cp_verify = HmacAttestationVerifierV1_verify [(''k1'', sample_key_for AP_VERIFICATION)],
      cp_allow_direct_verifier_attestations = False, cp_allow_unreviewed_bundles = False,
      cp_allow_non_authoritative_evidence = False, cp_parse_bundle = (\<lambda>_. Inr sample_bundle),
      cp_parse_submission = (\<lambda>_. Inr demo_submission), cp_parse_evidence_v1 = (\<lambda>_. Inl (ValueError ''schema'')),
      cp_parse_evidence_v2 = (\<lambda>_. Inr demo_artifact)\<rparr>"

section \<open>The state\<close>

definition demo_ids :: "char \<Rightarrow> nat \<Rightarrow> string" where
  "demo_ids c k = replicate (Suc k) c"

definition demo_events_db :: event_db where
  "demo_events_db =
     append_effect (demo_ids (CHR ''p'')) ''proof'' (si_value (sample_id ''proof'')) 0
       [\<lparr>ne_event_type = ''proof.submitted'', ne_payload = json_object_of
          (proof_payload (si_value (sample_id ''bundle'')) demo_lease demo_submission (sha256_ref (sha256_hexdigest ''{}'') 2)),
         ne_metadata = []\<rparr>] None None '''' ''''
     (append_effect (demo_ids (CHR ''r'')) ''task'' (si_value (sample_id ''bundle'')) 0
       [\<lparr>ne_event_type = ''task.registered'', ne_payload = registration_payload demo_binding demo_attestation, ne_metadata = []\<rparr>]
       None None '''' ''''
     (grant 0 (si_value (sample_id ''bundle'')) ''w'' 20000000 empty_store))"

definition demo_fs :: store_fs where
  "demo_fs = (\<lambda>p.
     if p = blob_path (sha256_hexdigest demo_artifact_bytes) then Some (FileNode demo_artifact_bytes)
     else if p = blob_path (sha256_hexdigest ''{}'') then Some (FileNode ''{}'')
     else if p \<in> {[], [''sha256'']} then Some DirNode else None)"

definition demo_ambient :: ambient where
  "demo_ambient = \<lparr>am_clk = (\<lambda>_. utc 1), am_ids = demo_ids (CHR ''v''), am_lease_clock = utc 1, am_verify_clock = (\<lambda>_. utc 1),
     am_others = id, am_between = id\<rparr>"

definition demo_state :: cp_state where
  "demo_state = \<lparr>st_db = demo_events_db, st_files = demo_fs\<rparr>"

section \<open>The binding\<close>

lemma sha_nonempty [simp]: "sha256_hexdigest m \<noteq> []"
  using sha256_hexdigest_shape [of m] by (auto simp: is_sha256_text_def)

lemma digest_value_nonempty [simp]: "dg_value (digest_model k v) \<noteq> []" "dg_value (digest_text k s) \<noteq> []"
  by simp_all

lemma semantic_hash_sha [simp]: "is_sha256_text (dg_value (semantic_hash c))" "dg_kind (semantic_hash c) = CONTRACT"
  "is_sha256_text (dg_value (handoff_hash t))" "dg_kind (handoff_hash t) = BUNDLE"
  by (simp_all add: semantic_hash_def handoff_hash_def)

lemma sha_text_nonempty: "is_sha256_text s \<Longrightarrow> s \<noteq> []"
  by (auto simp: is_sha256_text_def)


lemma demo_boundary_hash [simp]:
  "is_sha256_text (dg_value (pb_boundary_hash (tb_proof_boundary sample_bundle)))"
  "dg_kind (pb_boundary_hash (tb_proof_boundary sample_bundle)) = PROOF_BOUNDARY"
  by (simp_all add: sample_bundle_def boundary_of_def Let_def)

lemma demo_bundle_parts:
  "tb_bundle_id sample_bundle = sample_id ''bundle''" "bundle_graph_nodes sample_bundle = []"
  "sc_contract_id sample_contract = sample_id ''contract''" "sc_revision sample_contract = 1"
  "tp_axiom_profile (sc_policy sample_contract) = AX_STRICT"
  by (simp_all add: sample_bundle_def sample_graphs_def bundle_graph_nodes_def) (simp_all add: sample_contract_def sample_draft_def)

lemma demo_environment_parts:
  "fs_environment sample_formal = sample_environment" "fs_axioms_allowlist sample_formal = []"
  "le_environment_hash sample_environment = digest_text ENVIRONMENT ''env''" "le_lean_version sample_environment = ''4.9.0''"
  "le_mathlib_revision sample_environment = ''abc''" "le_lake_manifest_hash sample_environment = None"
  "policy_worker_image_digest (le_verifier_execution_policy sample_environment) = ''sha256:'' @ replicate 64 (CHR ''0'')"
  "policy_wrapper_protocol (le_verifier_execution_policy sample_environment) = ''autolean.oci-lean-wrapper.v1''"
  by (simp_all add: sample_formal_def sample_environment_def policy_worker_image_digest_def policy_wrapper_protocol_def)

lemma demo_binding_simps [simp]:
  "tk_bundle_id demo_binding = si_value (sample_id ''bundle'')" "tk_bundle_hash demo_binding = dg_value (handoff_hash sample_bundle)"
  "tk_contract_id demo_binding = si_value (sample_id ''contract'')" "tk_revision demo_binding = 1"
  "tk_contract_hash demo_binding = dg_value (semantic_hash sample_contract)"
  "tk_proof_boundary_hash demo_binding = dg_value (pb_boundary_hash (tb_proof_boundary sample_bundle))"
  "tk_environment_hash demo_binding = dg_value (digest_text ENVIRONMENT ''env'')"
  "tk_lean_version demo_binding = ''4.9.0''" "tk_mathlib_revision demo_binding = ''abc''"
  "tk_lake_manifest_hash demo_binding = None" "tk_worker_image_digest demo_binding = ''sha256:'' @ replicate 64 (CHR ''0'')"
  "tk_wrapper_protocol demo_binding = ''autolean.oci-lean-wrapper.v1''"
  "tk_command_policy_hash demo_binding = dg_value demo_policy_hash"
  "tk_axiom_profile demo_binding = ''strict''" "tk_axioms_allowlist demo_binding = {}"
  "tk_canonical_type_assurance demo_binding = None" "tk_canonical_type_promotion_authority demo_binding = False"
  "tk_bundle_artifact demo_binding = sha256_ref (sha256_hexdigest ''{}'') 2"
  "tk_fidelity_evidence_artifact demo_binding = None" "tk_graph_nodes demo_binding = []"
  by (simp_all add: demo_binding_def bound_task_def binding_from_bundle_def Let_def demo_bundle_parts demo_environment_parts
      demo_policy_hash_def)

lemma demo_policy_sha [simp]: "is_sha256_text (dg_value demo_policy_hash)" "dg_kind demo_policy_hash = VERIFICATION_COMMAND"
  by (simp_all add: demo_policy_hash_def sample_environment_def policy_command_policy_hash_def
      OciVerifierExecutionPolicyV1_command_policy_hash_def)

lemma demo_binding_ok: "binding_ok demo_binding"
  by (simp add: binding_ok_def ref_ok_def sha256_ref_def ArtifactRef_init_def result_simps sha_text_nonempty) (simp add: sample_id_def)

section \<open>The database\<close>

lemma demo_ids [simp]: "demo_ids c k \<noteq> []" "map (demo_ids c) [0..<Suc 0] = [[c]]" "demo_ids c 0 = [c]"
  by (simp_all add: demo_ids_def)

lemma demo_nonblank: "nonblank (si_value (sample_id n))" "nonblank ''w''" "nonblank ''verification''" "nonblank ''verification.accepted''"
  by (simp_all add: sample_id_def nonblank_def py_strip_def strip_by_def urn_prefix_def py_isspace_def)

lemma demo_id_nonempty: "si_value (sample_id n) \<noteq> []"
  by (simp add: sample_id_def)

lemma demo_claim:
  "claim (utc 0) (si_value (sample_id ''bundle'')) ''w'' 20000000 empty_store
     = (Inr demo_lease, grant 0 (si_value (sample_id ''bundle'')) ''w'' 20000000 empty_store)"
  by (simp add: claim_def lease_utc_now_def require_all.simps demo_nonblank live_row_def
      empty_store_def next_token_def Lease_init_def demo_lease_def as_utc_def)

lemma demo_grant_inv: "event_inv (grant 0 (si_value (sample_id ''bundle'')) ''w'' 20000000 empty_store)"
  using event_inv_step [OF event_step.lease [OF lease_step.claim [OF demo_claim]] empty_store_inv] .

lemma event_wf_object: "event_wf \<lparr>ne_event_type = t, ne_payload = json_object_of kvs, ne_metadata = []\<rparr> \<longleftrightarrow> json_wf (JObj kvs)"
proof -
  have "json_wf (JObj (norm_members kvs)) = json_wf (JObj kvs)"
    using json_norm_wf [of "JObj kvs"] by (simp only: json_norm_members)
  then show ?thesis by (simp add: event_wf_def json_object_of_def del: json_wf.simps) simp
qed

lemma demo_events_wf:
  "event_wf \<lparr>ne_event_type = t, ne_payload = registration_payload demo_binding demo_attestation, ne_metadata = []\<rparr>"
  "event_wf \<lparr>ne_event_type = t, ne_payload = json_object_of (proof_payload bid demo_lease demo_submission r), ne_metadata = []\<rparr>"
proof -
  have "float_text_ok ''0.0''" by code_simp
  then show "event_wf \<lparr>ne_event_type = t, ne_payload = json_object_of (proof_payload bid demo_lease demo_submission r), ne_metadata = []\<rparr>"
    by (simp add: proof_payload_def event_wf_object artifact_payload_def demo_submission_def)
qed (simp add: registration_payload_def event_wf_object artifact_payload_def attestation_summary_def JOpt_def)

lemma demo_sequences:
  "current_sequence (append_effect ids et ei ex evs idem nonce at0 at db) et' ei'
     = (if et' = et \<and> ei' = ei then ex + int (length evs) else current_sequence db et' ei')"
  "current_sequence (grant n j h t empty_store) et ei = 0"
  "events (empty_store) = []"
  by (simp_all add: append_effect_def current_sequence_def grant_def Let_def empty_store_def)

lemma demo_inv: "event_inv demo_events_db"
  unfolding demo_events_db_def
  by (intro event_inv_effect) (simp_all add: demo_grant_inv demo_events_wf demo_sequences new_rows_ids)

definition demo_registration_event :: NewEvent where
  "demo_registration_event =
     \<lparr>ne_event_type = ''task.registered'', ne_payload = registration_payload demo_binding demo_attestation, ne_metadata = []\<rparr>"

definition demo_proof_event :: NewEvent where
  "demo_proof_event =
     \<lparr>ne_event_type = ''proof.submitted'', ne_payload = json_object_of
        (proof_payload (si_value (sample_id ''bundle'')) demo_lease demo_submission (sha256_ref (sha256_hexdigest ''{}'') 2)),
      ne_metadata = []\<rparr>"

definition demo_registration :: StoredEvent where
  "demo_registration = hd (stored_events (demo_ids (CHR ''r'')) ''task'' (si_value (sample_id ''bundle'')) 0 '''' 0 0
     [demo_registration_event])"

definition demo_submitted :: StoredEvent where
  "demo_submitted = hd (stored_events (demo_ids (CHR ''p'')) ''proof'' (si_value (sample_id ''proof'')) 0 '''' 0 1
     [demo_proof_event])"

lemma demo_events:
  "events demo_events_db =
     new_rows (demo_ids (CHR ''r'')) ''task'' (si_value (sample_id ''bundle'')) 0 '''' 0 0 [demo_registration_event] @
     new_rows (demo_ids (CHR ''p'')) ''proof'' (si_value (sample_id ''proof'')) 0 '''' 0 1 [demo_proof_event]"
  unfolding demo_events_db_def append_effect_def demo_registration_event_def demo_proof_event_def
  by (simp add: demo_sequences del: new_rows.simps)

lemma demo_streams:
  "read_stream demo_events_db ''task'' (si_value (sample_id ''bundle'')) 0 = Inr [demo_registration]"
  "read_stream demo_events_db ''proof'' (si_value (sample_id ''proof'')) 0 = Inr [demo_submitted]"
proof -
  have wf: "list_all event_wf [demo_registration_event]" "list_all event_wf [demo_proof_event]"
    using demo_events_wf by (simp_all add: demo_registration_event_def demo_proof_event_def)
  have "log_inv demo_events_db" using demo_inv by (simp add: event_inv_def)
  note read = read_stream_rows [OF this]
  show "read_stream demo_events_db ''task'' (si_value (sample_id ''bundle'')) 0 = Inr [demo_registration]"
    "read_stream demo_events_db ''proof'' (si_value (sample_id ''proof'')) 0 = Inr [demo_submitted]"
    unfolding read demo_events demo_registration_def demo_submitted_def
    using map_resultE_map_Inr [OF new_rows_read [OF wf(1)]] map_resultE_map_Inr [OF new_rows_read [OF wf(2)]]
    by (simp_all add: new_rows_stream del: new_rows.simps)
qed

lemma demo_found: "require_binding demo_events_db (si_value (sample_id ''bundle'')) = Inr demo_binding"
proof -
  have "se_payload demo_registration = json_object_of (registration_payload demo_binding demo_attestation)"
    by (simp add: demo_registration_def demo_registration_event_def json_object_of_def)
  then have "binding_from_event demo_registration = Inr demo_binding"
    by (rule registration_read_back [OF demo_binding_ok])
  moreover have "se_event_type demo_registration = ''task.registered''"
    by (simp add: demo_registration_def demo_registration_event_def)
  ultimately show ?thesis by (simp add: require_binding_def get_binding_def demo_streams)
qed

lemma demo_proof_found: "proof_event demo_events_db (si_value (sample_id ''proof'')) = Inr demo_submitted"
  by (simp add: proof_event_def demo_streams) (simp add: demo_submitted_def demo_proof_event_def)

lemma demo_leases: "worker_leases demo_events_db = worker_leases (grant 0 (si_value (sample_id ''bundle'')) ''w'' 20000000 empty_store)"
  by (simp add: demo_events_db_def append_effect_def)

lemma demo_lease_current:
  "assert_lease (utc 1) (si_value (sample_id ''bundle'')) demo_lease demo_events_db = Inr ()"
  "assert_current_fence (utc 1) (si_value (sample_id ''bundle'')) demo_lease demo_events_db = Inr ()"
  by (simp_all add: assert_current_fence_Inr assert_lease_def assert_current_def demo_leases demo_lease_def lease_utc_now_def
      as_utc_def row_matches_def require_def grant_def Let_def next_token_def empty_store_def)

section \<open>The checks\<close>

lemma demo_submitted_value:
  "get_value (se_payload demo_submitted) k = json_norm (get_value
     (proof_payload (si_value (sample_id ''bundle'')) demo_lease demo_submission (sha256_ref (sha256_hexdigest ''{}'') 2)) k)"
proof -
  have d: "distinct (map fst (proof_payload b l s r))" for b l s r by (simp add: proof_payload_def)
  have "se_payload demo_submitted = json_object_of
      (proof_payload (si_value (sample_id ''bundle'')) demo_lease demo_submission (sha256_ref (sha256_hexdigest ''{}'') 2))"
    by (simp add: demo_submitted_def demo_proof_event_def json_object_of_def norm_members_idem [OF d])
  then show ?thesis using get_value_norm [OF d] by metis
qed

lemma demo_submitted_fields:
  "sv_required_text (se_payload demo_submitted) ''contract_hash'' = Inr (dg_value (semantic_hash sample_contract))"
  "sv_required_text (se_payload demo_submitted) ''proof_boundary_hash''
     = Inr (dg_value (pb_boundary_hash (tb_proof_boundary sample_bundle)))"
  "sv_required_text (se_payload demo_submitted) ''dependency_manifest_hash''
     = Inr (dg_value (proof_dependency_manifest_hash demo_submission))"
  "\<exists>p. sv_required_object (se_payload demo_submitted) ''proof_artifact'' = Inr p \<and>
     sv_required_text p ''digest'' = Inr (sha256_hexdigest ''{}'')"
proof -
  note v = demo_submitted_value
  show "sv_required_text (se_payload demo_submitted) ''contract_hash'' = Inr (dg_value (semantic_hash sample_contract))"
    "sv_required_text (se_payload demo_submitted) ''proof_boundary_hash''
       = Inr (dg_value (pb_boundary_hash (tb_proof_boundary sample_bundle)))"
    "sv_required_text (se_payload demo_submitted) ''dependency_manifest_hash''
       = Inr (dg_value (proof_dependency_manifest_hash demo_submission))"
    unfolding sv_required_text_def v
    by (simp_all add: proof_payload_def get_value_def obj_get_def sha_text_nonempty) (simp_all add: demo_submission_def sha_text_nonempty
        proof_dependency_manifest_hash_def)
  let ?kvs = "[(''digest'', JStr (sha256_hexdigest ''{}'')), (''size'', JInt 2),
      (''uri'', JStr (artifact_uri (sha256_ref (sha256_hexdigest ''{}'') 2))),
      (''kind'', JStr ''proof_submission''), (''media_type'', JStr ''application/json'')]"
  have "get_value (se_payload demo_submitted) ''proof_artifact'' = JObj (json_object_of ?kvs)"
    unfolding v by (simp add: proof_payload_def get_value_def obj_get_def artifact_payload_def json_norm_members
        json_object_of_def sha256_ref_def del: json_norm.simps)
  moreover have "get_value (json_object_of ?kvs) ''digest'' = JStr (sha256_hexdigest ''{}'')"
    using get_value_norm [of ?kvs "''digest''"] by (simp add: get_value_def obj_get_def)
  ultimately show "\<exists>p. sv_required_object (se_payload demo_submitted) ''proof_artifact'' = Inr p \<and>
     sv_required_text p ''digest'' = Inr (sha256_hexdigest ''{}'')"
    by (simp add: sv_required_object_def sv_required_text_def)
qed

lemma demo_report_simps [simp]:
  "vr_proof_id demo_report = sample_id ''proof''" "vr_report_id demo_report = sample_id ''report''"
  "vr_contract_hash demo_report = semantic_hash sample_contract"
  "vr_proof_boundary_hash demo_report = pb_boundary_hash (tb_proof_boundary sample_bundle)"
  "vr_environment_hash demo_report = digest_text ENVIRONMENT ''env''" "vr_axiom_profile demo_report = AX_STRICT"
  "vr_evidence demo_report = Some demo_evidence" "vr_verifier_attestation demo_report = Some demo_attestation"
  "vr_verifier_id demo_report = ''v''" "vr_observed_axioms demo_report = []"
  "vr_independent demo_report" "vr_kernel_passed demo_report" "vr_build_passed demo_report"
  "vr_dependency_check_passed demo_report" "vr_clean_environment demo_report"
  by (simp_all add: demo_report_def demo_unsigned_def demo_observation_def sample_report_def)

lemma demo_binding_checked:
  "validate_verification_binding demo_binding demo_report demo_submitted = Inr ()"
  "verification_failures demo_binding demo_report = []"
  "validate_verification_evidence demo_binding demo_report (dg_value (proof_dependency_manifest_hash demo_submission)) = Inr ()"
  by (simp_all add: validate_verification_binding_def demo_submitted_fields require_def verification_failures_def
      validate_verification_evidence_def demo_evidence_def)

lemma demo_identifiers:
  "sv_stable_identifier (si_value (sample_id ''bundle'')) = Inr (sample_id ''bundle'')"
  "sv_stable_identifier (si_value (sample_id ''contract'')) = Inr (sample_id ''contract'')"
  by code_simp+

lemma demo_report_hash: "report_hash demo_report = report_hash demo_unsigned"
  by (simp add: report_hash_def dump_VerificationReportV1_def demo_report_def)

lemma one_char_strip: "strip_ws ''v'' = ''v''" "strip_ws ''w'' = ''w''"
  by (auto intro!: strip_ws_ends simp: white_space_def)

lemma demo_gateway_context: "gateway_context demo_binding demo_report demo_evidence (sha256_hexdigest ''{}'') = Inr demo_context"
proof -
  have d: "DigestV1_init \<lparr>dg_kind = BUNDLE, dg_value = dg_value (handoff_hash sample_bundle)\<rparr> = Inr (handoff_hash sample_bundle)"
    by (subst DigestV1_init_fixed) (auto intro: DigestV1.equality)
  have "VerificationSigningContextV1_strip demo_context = demo_context"
    by (simp add: VerificationSigningContextV1_strip_def demo_context_def one_char_strip strip_sha256_text)
  moreover have "list_all fst (VerificationSigningContextV1_guards demo_context)"
    by (simp add: VerificationSigningContextV1_guards_def demo_context_def safe_id_def ident_pattern_def char_class_defs
        report_hash_def evidence_hash_def proof_dependency_manifest_hash_def)
  ultimately have "VerificationSigningContextV1_init demo_context = Inr demo_context"
    by (simp add: VerificationSigningContextV1_init_def construct_Inr)
  then show ?thesis
    by (simp add: gateway_context_def demo_identifiers d demo_report_hash) (simp add: demo_context_def demo_evidence_def)
qed

lemma demo_gateway_lease: "gateway_lease demo_context demo_lease = Inr demo_signing_lease"
proof -
  have "VerificationSigningLeaseBindingV1_init demo_signing_lease = Inr demo_signing_lease"
    by (simp add: VerificationSigningLeaseBindingV1_init_def construct_Inr VerificationSigningLeaseBindingV1_strip_def
        VerificationSigningLeaseBindingV1_guards_def demo_signing_lease_def one_char_strip safe_id_def ident_pattern_def char_class_defs)
  then show ?thesis by (simp add: gateway_lease_def demo_context_def demo_lease_def demo_signing_lease_def)
qed

lemma demo_attested:
  "gateway_attested demo_cp (\<lambda>_. utc 1) demo_binding demo_report demo_attestation (sha256_hexdigest ''{}'') demo_lease
     demo_signing_lease demo_context = Inr True"
proof -
  have "verification_gateway_attestation_payload demo_signing_lease demo_context = Inr demo_payload"
    by (simp add: verification_gateway_attestation_payload_def demo_payload_def require_def demo_signing_lease_def demo_context_def)
  moreover have "HmacAttestationVerifierV1_verify [(''k1'', sample_key_for AP_VERIFICATION)] (utc 1) demo_attestation
      AP_VERIFICATION demo_payload = Inr ()"
    by (simp add: HmacAttestationVerifierV1_verify_Inr demo_attestation_def sample_attestation_def Let_def sample_key_def
        sample_key_for_def attestation_signature_def signature_message_def signature_envelope_def)
  moreover have "dt_us (at_expires_at demo_attestation) \<le> dt_us (ls_expires_at demo_lease)"
    by (simp add: demo_attestation_def sample_attestation_def Let_def demo_lease_def)
  ultimately show ?thesis by (simp add: gateway_attested_def demo_cp_def require_def)
qed

section \<open>The stored files\<close>

abbreviation (input) ascii_text :: "string \<Rightarrow> bool" where
  "ascii_text s \<equiv> all_chars (\<lambda>c. code c < 128) s"

lemma hex_digit_ascii: "n < 16 \<Longrightarrow> code (hex_digit n) < 128"
  by (simp add: hex_digit_def)

lemma escape_ascii: "ascii_text (escape_char c)"
proof -
  have "code c div 16 < 16" "code c mod 16 < 16" using less_mult_imp_div_less [of "code c" 16 16] by simp_all
  then show ?thesis by (simp add: escape_char_def hex_digit_ascii)
qed

lemma number_ascii: "all_chars number_char s \<Longrightarrow> ascii_text s"
  by (auto simp: all_chars_iff number_char_def is_digit_def)

lemma quote_ascii: "ascii_text (quote_text s)"
  using escape_ascii by (auto simp: quote_text_def all_chars_iff)

lemma join_ascii: "ascii_text sep \<Longrightarrow> \<forall>x \<in> set xs. ascii_text x \<Longrightarrow> ascii_text (join_with sep xs)"
  by (induction sep xs rule: join_with.induct) simp_all

lemma canonical_json_ascii: "json_wf v \<Longrightarrow> ascii_text (canonical_json v)"
proof (induction v rule: json_wf.induct)
  case (2 vs)
  then show ?case by (auto simp: list_all_iff intro!: join_ascii)
next
  case (3 kvs)
  then show ?case by (auto simp: list_all_iff quote_ascii intro!: join_ascii)
qed (auto simp: number_ascii [OF float_text_number] number_ascii [OF int_text_number] quote_ascii)

lemma read_canonical_stored:
  assumes "get_bytes fs (Inr d) = Inr (utf8 (canonical_json (JObj kvs)))" "json_wf (JObj kvs)"
  shows "read_canonical_json_artifact fs d = Inr (json_object_of kvs)"
proof -
  have a: "ascii_text (canonical_json (JObj kvs))" by (rule canonical_json_ascii [OF assms(2)])
  have u: "utf8 (canonical_json (JObj kvs)) = canonical_json (JObj kvs)" by (rule utf8_ascii [OF a])
  have l: "json_loads (canonical_json (JObj kvs)) = Some (JObj (norm_members kvs))"
    using json_loads_canonical [OF assms(2)] by (simp add: json_norm_members del: json_norm.simps canonical_json.simps)
  have n: "canonical_json (JObj (norm_members kvs)) = canonical_json (JObj kvs)"
    using canonical_json_norm [of "JObj kvs"] assms(2) by (simp add: json_norm_members del: json_norm.simps canonical_json.simps)
  have "norm_members (norm_members kvs) = norm_members kvs" using norm_members_idem assms(2) by simp
  then show ?thesis
    using assms(1) a u l n
    by (simp add: read_canonical_json_artifact_def all_chars_def require_def json_object_of_def del: canonical_json.simps)
qed

lemma demo_artifact_wf: "json_wf (dump_VerificationEvidenceArtifactV2 demo_artifact)"
  by (simp add: dump_VerificationEvidenceArtifactV2_def dump_VerificationArtifactEnvironmentV1_def
      dump_OciVerificationArtifactV2_def dump_OciExecutionAuthorityV1_def dump_StableIdentifierV1_def dump_DigestV1_def
      dump_datetime_def JOpt_def split: option.split)

lemma blob_path_inj: "blob_path d = blob_path d' \<longleftrightarrow> d = d'"
  by (auto simp: blob_path_def)

lemma demo_healthy: "healthy demo_fs"
  unfolding healthy_def demo_fs_def by (auto simp: blob_path_inj) (auto simp: blob_path_def)

lemma demo_bytes:
  "get_bytes demo_fs (Inr (sha256_hexdigest demo_artifact_bytes)) = Inr demo_artifact_bytes"
  "\<exists>data \<in> {''{}'', demo_artifact_bytes}. get_bytes demo_fs (Inr (sha256_hexdigest ''{}'')) = Inr data"
proof -
  show "get_bytes demo_fs (Inr (sha256_hexdigest demo_artifact_bytes)) = Inr demo_artifact_bytes"
    by (simp add: get_bytes_Inr handle_digest_def healthy_path_for_digest [OF demo_healthy]) (simp add: demo_fs_def)
  show "\<exists>data \<in> {''{}'', demo_artifact_bytes}. get_bytes demo_fs (Inr (sha256_hexdigest ''{}'')) = Inr data"
  proof -
    have "demo_fs (blob_path (sha256_hexdigest ''{}'')) =
        Some (FileNode (if sha256_hexdigest ''{}'' = sha256_hexdigest demo_artifact_bytes then demo_artifact_bytes else ''{}''))"
      by (simp add: demo_fs_def blob_path_inj)
    then show ?thesis
      by (auto simp: get_bytes_Inr handle_digest_def healthy_path_for_digest [OF demo_healthy])
  qed
qed

lemma demo_read_objects:
  "\<exists>p. read_canonical_json_artifact demo_fs (sha256_hexdigest ''{}'') = Inr p"
  "\<exists>p. read_canonical_json_artifact demo_fs (sha256_hexdigest demo_artifact_bytes) = Inr p \<and>
     get_value p ''schema_version'' = JStr ''autolean.verification-evidence-artifact.v2''"
proof -
  obtain kvs where kvs: "dump_VerificationEvidenceArtifactV2 demo_artifact = JObj kvs"
    "get_value kvs ''schema_version'' = JStr ''autolean.verification-evidence-artifact.v2''"
    by (simp add: dump_VerificationEvidenceArtifactV2_def get_value_def obj_get_def)
  have read: "get_bytes demo_fs (Inr d) = Inr demo_artifact_bytes \<Longrightarrow> read_canonical_json_artifact demo_fs d = Inr (json_object_of kvs)" for d
    using read_canonical_stored [of demo_fs d kvs] demo_artifact_wf kvs(1) by (simp add: demo_artifact_bytes_def)
  have "distinct (map fst kvs)" using demo_artifact_wf kvs(1) by simp
  then show "\<exists>p. read_canonical_json_artifact demo_fs (sha256_hexdigest demo_artifact_bytes) = Inr p \<and>
     get_value p ''schema_version'' = JStr ''autolean.verification-evidence-artifact.v2''"
    using read [OF demo_bytes(1)] get_value_norm [of kvs] kvs(2) by simp
  have "utf8 (canonical_json (JObj [])) = ''{}''" by (simp add: utf8_def utf8_char_def)
  then have "get_bytes demo_fs (Inr (sha256_hexdigest ''{}'')) = Inr ''{}'' \<Longrightarrow>
      \<exists>p. read_canonical_json_artifact demo_fs (sha256_hexdigest ''{}'') = Inr p"
    using read_canonical_stored [of demo_fs "sha256_hexdigest ''{}''" "[]"] by auto
  then show "\<exists>p. read_canonical_json_artifact demo_fs (sha256_hexdigest ''{}'') = Inr p"
    using demo_bytes(2) read by blast
qed

lemma demo_evidence_read: "read_verification_evidence_artifact demo_cp demo_fs (sha256_hexdigest demo_artifact_bytes) = Inr (EvidenceV2 demo_artifact)"
proof -
  obtain p where "read_canonical_json_artifact demo_fs (sha256_hexdigest demo_artifact_bytes) = Inr p"
    "get_value p ''schema_version'' = JStr ''autolean.verification-evidence-artifact.v2''"
    using demo_read_objects(2) by blast
  then show ?thesis
    by (simp add: read_verification_evidence_artifact_def demo_cp_def demo_bytes dump_evidence_artifact_def require_def)
      (simp add: demo_artifact_bytes_def)
qed

lemma demo_handoff:
  "validate_stored_handoff demo_cp demo_fs demo_binding demo_report (sha256_hexdigest ''{}'') (evidence_oci (EvidenceV2 demo_artifact)) = Inr ()"
proof -
  obtain p where "read_canonical_json_artifact demo_fs (sha256_hexdigest ''{}'') = Inr p"
    using demo_read_objects(1) by blast
  then show ?thesis
    by (simp add: validate_stored_handoff_def demo_cp_def sha256_ref_def require_def Let_def)
      (simp add: demo_submission_def evidence_oci_def demo_artifact_def Let_def sample_bundle_def)
qed

lemma demo_unsigned_report: "unsigned_report demo_report = Inr demo_observation"
proof -
  have "demo_report\<lparr>vr_evidence := None, vr_verifier_attestation := None\<rparr> = demo_observation"
    by (simp add: demo_report_def demo_unsigned_def demo_observation_def sample_report_def)
  moreover have "strip_ws ''d'' = ''d''" by (auto intro!: strip_ws_ends simp: white_space_def)
  then have "VerificationReportV1_init demo_observation = Inr demo_observation"
    by (simp add: VerificationReportV1_init_def construct_Inr VerificationReportV1_strip_def VerificationReportV1_guards_def
        demo_observation_def sample_report_def one_char_strip)
  ultimately show ?thesis by (simp add: unsigned_report_def)
qed

lemma demo_artifact_checked:
  "validate_verification_evidence_artifact demo_cp demo_fs demo_binding demo_report (sha256_hexdigest ''{}'')
     (dg_value (proof_dependency_manifest_hash demo_submission)) demo_lease True (EvidenceV2 demo_artifact) = Inr ()"
proof -
  let ?v = "evidence_view (EvidenceV2 demo_artifact)"
  have oci: "va1_oci ?v = evidence_oci (EvidenceV2 demo_artifact)" by (simp add: evidence_view_def)
  have lease: "validate_execution_lease True demo_lease (EvidenceV2 demo_artifact) = Inr ()"
    by (simp add: validate_execution_lease_def demo_artifact_def demo_lease_def require_def)
  have checks: "list_all fst (evidence_checks demo_binding demo_report demo_evidence (sha256_hexdigest ''{}'')
      (dg_value (proof_dependency_manifest_hash demo_submission)) ?v)"
    by (simp add: evidence_checks_def evidence_view_def evidence_oci_def demo_artifact_def Let_def demo_evidence_def)
      (simp add: sample_oci_def Let_def)
  have "forE (\<lambda>(ok, m). require ok (InvalidTransition m)) (evidence_checks demo_binding demo_report demo_evidence
      (sha256_hexdigest ''{}'') (dg_value (proof_dependency_manifest_hash demo_submission)) ?v) = Inr ()"
    using checks by (simp add: forE_Inr list_all_iff case_prod_unfold require_def)
  moreover have "oa1_worker_image_digest (evidence_oci (EvidenceV2 demo_artifact)) = tk_worker_image_digest demo_binding"
    "oa1_wrapper_protocol (evidence_oci (EvidenceV2 demo_artifact)) = tk_wrapper_protocol demo_binding"
    "dg_value (oa1_command_policy_hash (evidence_oci (EvidenceV2 demo_artifact))) = tk_command_policy_hash demo_binding"
    "va1_verification_observation_hash ?v = report_hash demo_observation"
    by (simp_all add: evidence_view_def evidence_oci_def demo_artifact_def Let_def) (simp add: sample_oci_def Let_def)
  ultimately show ?thesis
    using lease demo_handoff demo_unsigned_report
    by (simp add: validate_verification_evidence_artifact_def oci Let_def require_def)
qed

lemma demo_verified:
  "verify_verification_attestation demo_cp (\<lambda>_. utc 1) demo_fs demo_binding demo_report demo_submitted demo_lease = Inr demo_attestation"
proof -
  obtain p where p: "sv_required_object (se_payload demo_submitted) ''proof_artifact'' = Inr p"
    "sv_required_text p ''digest'' = Inr (sha256_hexdigest ''{}'')"
    using demo_submitted_fields(4) by blast
  have "at_evidence_identity demo_attestation = si_value (ev_evidence_id demo_evidence)"
    by (simp add: demo_attestation_def Let_def demo_evidence_def)
  moreover have "ev_evidence_artifact_digest demo_evidence = sha256_hexdigest demo_artifact_bytes" by (simp add: demo_evidence_def)
  ultimately show ?thesis
    by (simp add: verify_verification_attestation_def p demo_submitted_fields demo_binding_checked require_def demo_gateway_context
        demo_gateway_lease demo_attested demo_evidence_read demo_artifact_checked)
qed

section \<open>The verdict\<close>

lemma demo_key_ok:
  "sv_idempotency ''verify_submission'' ''k'' request =
     Inr \<lparr>id_scope = ''verify_submission'', id_key = ''k'', id_request_hash = request_hash request\<rparr>"
  using sha256_hexdigest_shape [of "utf8 (canonical_json request)"]
  by (simp add: sv_idempotency_def Idempotency_init_def require_all.simps request_hash_def nonblank_def py_strip_def
      strip_by_def py_isspace_def is_sha256_text_def)

lemma demo_prepared:
  "\<exists>idem. prepare_verdict demo_cp demo_ambient (si_value (sample_id ''bundle'')) demo_lease demo_report ''k'' demo_state
     = Inr (idem, Inr (demo_attestation, []))"
proof -
  have "idempotency_records demo_events_db = (\<lambda>_. None)"
    by (simp add: demo_events_db_def append_effect_def empty_store_def)
  then have "replayed_event demo_events_db i = Inr None" for i
    by (simp add: replayed_event_def lookup_idempotency_def existing_idempotency_def)
  then show ?thesis
    by (simp add: prepare_verdict_def demo_key_ok demo_state_def demo_ambient_def demo_found demo_lease_current
        demo_proof_found demo_binding_checked demo_verified)
qed

lemma demo_idempotent: "idempotency_records demo_events_db = (\<lambda>_. None)" "attestation_nonce_uses demo_events_db = (\<lambda>_. None)"
  by (simp_all add: demo_events_db_def append_effect_def empty_store_def)

lemma demo_nonce: "\<exists>n. attestation_nonce demo_attestation = Inr n"
proof -
  have "at_purpose demo_attestation = AP_VERIFICATION" "at_key_id demo_attestation = ''k1''" "at_nonce demo_attestation = ''aaaaaaaaaaaaaaaa''"
    "at_payload_hash demo_attestation = attestation_payload_hash AP_VERIFICATION demo_payload"
    by (simp_all add: demo_attestation_def sample_attestation_def Let_def)
  then show ?thesis
    by (simp add: attestation_nonce_def AttestationNonce_init_def require_all.simps attestation_nonce_pattern_def char_class_defs
        attestation_payload_hash_def nonblank_def py_strip_def strip_by_def py_isspace_def)
qed

text \<open>
  The report is stored and the verdict recorded, unless the bytes of the report collide
  with bytes the store already holds.
\<close>

lemma demo_verdict:
  "(\<exists>outcome st'. verify_submission demo_cp demo_ambient (si_value (sample_id ''bundle'')) demo_lease demo_report ''k'' demo_state
       = (Inr outcome, st') \<and> vo_accepted outcome \<and> events (st_db st') \<noteq> events demo_events_db) \<or>
   (\<exists>stored \<in> {''{}'', demo_artifact_bytes}.
       collides sha256_hexdigest stored (utf8 (canonical_json (dump_VerificationReportV1 demo_report))))"
proof -
  let ?data = "utf8 (canonical_json (dump_VerificationReportV1 demo_report))"
  obtain r fs' where put: "put_bytes id ?data demo_fs = (r, fs')"
    "(\<exists>ref. r = Inr ref) \<or> (\<exists>stored. demo_fs (blob_path (sha256_hexdigest ?data)) = Some (FileNode stored) \<and>
       collides sha256_hexdigest stored ?data)"
  proof (cases "demo_fs (blob_path (sha256_hexdigest ?data))")
    case None
    then show thesis using that fresh_put [OF demo_healthy] by blast
  next
    case (Some x)
    obtain r fs' where p: "put_bytes id ?data demo_fs = (r, fs')" "demo_fs \<subseteq>\<^sub>m fs'"
      "(\<exists>ref. r = Inr ref) \<or> (\<exists>stored. fs' (blob_path (sha256_hexdigest ?data)) = Some (FileNode stored) \<and>
         collides sha256_hexdigest stored ?data)"
      using healthy_put [OF demo_healthy, of id ?data] by auto
    moreover have "fs' (blob_path (sha256_hexdigest ?data)) = demo_fs (blob_path (sha256_hexdigest ?data))"
      using Some p(2) by (metis domI map_le_def)
    ultimately show thesis using that by auto
  qed
  obtain idem where prep: "prepare_verdict demo_cp demo_ambient (si_value (sample_id ''bundle'')) demo_lease demo_report ''k'' demo_state
     = Inr (idem, Inr (demo_attestation, []))" using demo_prepared by blast
  obtain n where n: "attestation_nonce demo_attestation = Inr n" using demo_nonce by blast
  show ?thesis
  proof (cases "\<exists>ref. r = Inr ref")
    case True
    then obtain ref where ref: "r = Inr ref" by blast
    let ?ev = "verdict_event (si_value (sample_id ''bundle'')) demo_lease demo_report [] demo_attestation ref"
    have wf: "list_all event_wf [?ev]"
      by (simp add: verdict_event_def verdict_payload_def event_wf_object artifact_payload_def attestation_summary_def)
    have "validate_append_request ''verification'' (si_value (sample_id ''proof'')) 0 [?ev] = Inr ()"
      by (simp add: validate_append_request_def require_all.simps demo_nonblank verdict_event_def)
    moreover have "bundle_id_of (ne_payload ?ev) = Some (si_value (sample_id ''bundle''))"
    proof -
      have "obj_get (ne_payload ?ev) ''bundle_id'' = Some (JStr (si_value (sample_id ''bundle'')))"
        by (simp add: verdict_event_def verdict_payload_def json_object_of_def obj_get_def map_of_norm_members)
      then show ?thesis by (simp add: bundle_id_of_def)
    qed
    ultimately have "append_fenced (\<lambda>_. utc 1) (demo_ids (CHR ''v'')) ''verification'' (si_value (sample_id ''proof''))
        (si_value (sample_id ''bundle'')) demo_lease 0 [?ev] (Some idem) (Some n) demo_events_db =
        write_transaction (append_locked (\<lambda>_. utc 1) (demo_ids (CHR ''v'')) ''verification'' (si_value (sample_id ''proof'')) 0
          [?ev] (Some idem) True (Some n)) demo_events_db"
      by (simp add: append_fenced_def demo_nonblank require_def validate_fenced_task_binding_def require_all.simps truthy_def
          demo_id_nonempty existing_idempotency_def demo_idempotent write_transaction_def demo_lease_current)
    moreover have "append_locked (\<lambda>_. utc 1) (demo_ids (CHR ''v'')) ''verification'' (si_value (sample_id ''proof'')) 0
          [?ev] (Some idem) True (Some n) demo_events_db =
        Inr (stored_events (demo_ids (CHR ''v'')) ''verification'' (si_value (sample_id ''proof'')) 0 (utc_micros_text (as_utc (utc 1))) 0
            (length (events demo_events_db)) [?ev],
          append_effect (demo_ids (CHR ''v'')) ''verification'' (si_value (sample_id ''proof'')) 0 [?ev] (Some idem) (Some n)
            (utc_micros_text (as_utc (utc 1))) (utc_micros_text (as_utc (utc 1))) demo_events_db)"
    proof (rule append_locked_succeeds [OF demo_inv])
      show "current_sequence demo_events_db ''verification'' (si_value (sample_id ''proof'')) = 0"
        by (simp add: demo_events_db_def demo_sequences)
      show "set (map (demo_ids (CHR ''v'')) [0..<length [?ev]]) \<inter> set (map er_event_id (events demo_events_db)) = {}"
        by (simp add: demo_events)
    qed (use wf in \<open>simp_all add: existing_idempotency_def demo_idempotent\<close>)
    ultimately have fenced: "append_fenced (\<lambda>_. utc 1) (demo_ids (CHR ''v'')) ''verification'' (si_value (sample_id ''proof''))
        (si_value (sample_id ''bundle'')) demo_lease 0 [?ev] (Some idem) (Some n) demo_events_db =
        (Inr (stored_events (demo_ids (CHR ''v'')) ''verification'' (si_value (sample_id ''proof'')) 0 (utc_micros_text (as_utc (utc 1))) 0
            (length (events demo_events_db)) [?ev]),
          append_effect (demo_ids (CHR ''v'')) ''verification'' (si_value (sample_id ''proof'')) 0 [?ev] (Some idem) (Some n)
            (utc_micros_text (as_utc (utc 1))) (utc_micros_text (as_utc (utc 1))) demo_events_db)" (is "_ = (_, ?db')")
      by (simp add: write_transaction_def)
    have put': "put_model demo_ambient (dump_VerificationReportV1 demo_report) demo_state = (Inr ref, demo_state\<lparr>st_files := fs'\<rparr>)"
      using put(1) ref by (simp add: put_model_def put_json_def demo_ambient_def demo_state_def)
    have c: "commit demo_ambient (append_fenced (am_clk demo_ambient) (am_ids demo_ambient) ''verification''
          (si_value (sample_id ''proof'')) (si_value (sample_id ''bundle'')) demo_lease 0 [?ev] (Some idem) (Some n))
        (demo_state\<lparr>st_files := fs'\<rparr>) = (fst (append_fenced (\<lambda>_. utc 1) (demo_ids (CHR ''v'')) ''verification'' (si_value (sample_id ''proof''))
        (si_value (sample_id ''bundle'')) demo_lease 0 [?ev] (Some idem) (Some n) demo_events_db), \<lparr>st_db = ?db', st_files = fs'\<rparr>)"
      using fenced by (simp add: commit_def demo_ambient_def demo_state_def del: stored_events.simps)
    have "events ?db' \<noteq> events demo_events_db" by (simp add: append_effect_def)
    then show ?thesis
      using prep put' n c fenced
      by (auto simp: verify_submission_def)
  next
    case False
    then show ?thesis using put(2) by (auto simp: demo_fs_def split: if_splits)
  qed
qed

section \<open>A registration\<close>

definition demo_unattested :: FormalizationTaskBundleV1 where
  "demo_unattested = sample_bundle\<lparr>tb_contract := sample_contract\<lparr>sc_freeze := map_option
     (\<lambda>f. f\<lparr>fz_source_preparation_id := Some (sample_id ''prep''),
        fz_source_preparation_hash := Some (digest_text SOURCE_PREPARATION ''prep'')\<rparr>) (sc_freeze sample_contract)\<rparr>\<rparr>"

definition demo_builder_payload :: json_object where
  "demo_builder_payload = (case builder_attestation_payload demo_unattested of Inr p \<Rightarrow> p | Inl _ \<Rightarrow> [])"

definition demo_bundle :: FormalizationTaskBundleV1 where
  "demo_bundle = demo_unattested\<lparr>tb_builder_attestation := Some (sample_attestation AP_BUILDER_FREEZE demo_builder_payload)\<rparr>"

definition demo_builder_cp :: control_plane where
  "demo_builder_cp = demo_cp\<lparr>cp_verify := HmacAttestationVerifierV1_verify [(''k1'', sample_key_for AP_BUILDER_FREEZE)],
     cp_allow_unreviewed_bundles := True\<rparr>"

lemma demo_bundle_simps [simp]:
  "tb_builder_attestation demo_bundle = Some (sample_attestation AP_BUILDER_FREEZE demo_builder_payload)"
  "tb_fidelity_evidence demo_bundle = None" "sc_fidelity (tb_contract demo_bundle) = None"
  "tb_bundle_id demo_bundle = sample_id ''bundle''"
  by (simp_all add: demo_bundle_def demo_unattested_def) (simp add: sample_bundle_def)

lemma demo_builder_payload: "builder_attestation_payload demo_bundle = Inr demo_builder_payload"
proof -
  have "builder_attestation_payload demo_bundle = builder_attestation_payload demo_unattested"
    by (simp add: builder_attestation_payload_def demo_bundle_def handoff_hash_def dump_FormalizationTaskBundleV1_def Let_def)
  moreover have "\<exists>p. builder_attestation_payload demo_unattested = Inr p"
    by (simp add: builder_attestation_payload_def Let_def freeze_evidence_hash_def demo_unattested_def)
      (simp add: sample_contract_def)
  ultimately show ?thesis by (auto simp: demo_builder_payload_def)
qed

lemma demo_registration_prepared:
  "\<exists>idem. prepare_registration demo_builder_cp demo_ambient demo_bundle ''k'' \<lparr>st_db = empty_store, st_files = sample_store\<rparr>
     = Inr (idem, Inr (sample_attestation AP_BUILDER_FREEZE demo_builder_payload, None, None))"
proof -
  have "verify_builder_attestation demo_builder_cp (utc 1) demo_bundle = Inr (sample_attestation AP_BUILDER_FREEZE demo_builder_payload)"
    by (simp add: verify_builder_attestation_def demo_builder_payload demo_builder_cp_def sample_attested)
  moreover have "verify_builder_fidelity_artifact True nonauth fs demo_bundle = Inr (None, None)" for nonauth fs
    by (simp add: verify_builder_fidelity_artifact_def Let_def)
  moreover have "replayed_event empty_store i = Inr None" for i
    by (simp add: replayed_event_def lookup_idempotency_def existing_idempotency_def empty_store_def)
  moreover have "\<exists>i. sv_idempotency ''register_bundle'' ''k'' request = Inr i" for request
    using sha256_hexdigest_shape [of "utf8 (canonical_json request)"]
    by (simp add: sv_idempotency_def Idempotency_init_def require_all.simps request_hash_def nonblank_def py_strip_def
        strip_by_def py_isspace_def is_sha256_text_def)
  moreover have "case sc_freeze (tb_contract demo_bundle) of None \<Rightarrow> False
      | Some f \<Rightarrow> fz_source_preparation_id f \<noteq> None \<and> fz_source_preparation_hash f \<noteq> None"
    by (simp add: demo_bundle_def demo_unattested_def) (simp add: sample_contract_def)
  ultimately show ?thesis
    by (simp add: prepare_registration_def demo_ambient_def demo_builder_cp_def require_def) (metis bindE.simps(2))
qed

lemma demo_bound_ok:
  assumes "ref_ok artifact"
  shows "binding_ok (bound_task demo_bundle artifact None None)"
  using assms
  by (simp add: binding_ok_def bound_task_def binding_from_bundle_def Let_def demo_bundle_def demo_unattested_def
      sample_bundle_def sample_graphs_def bundle_graph_nodes_def sample_environment_def sample_formal_def sha_text_nonempty
      policy_worker_image_digest_def policy_wrapper_protocol_def policy_command_policy_hash_def
      OciVerifierExecutionPolicyV1_command_policy_hash_def)
    (simp add: sample_contract_def sample_draft_def sample_formal_def sample_environment_def demo_id_nonempty boundary_of_def Let_def sha_text_nonempty)

lemma put_ref_ok: "put_bytes others data fs = (Inr ref, fs') \<Longrightarrow> ref_ok ref"
  by (auto simp: put_bytes_def Let_def ref_ok_def sha256_ref_def ArtifactRef_init_def result_simps
      split: sum.splits prod.splits if_splits)

lemma demo_contract_binding:
  "ContractRevisionBinding_init (contract_binding (bound_task demo_bundle artifact None None))
     = Inr (contract_binding (bound_task demo_bundle artifact None None))"
  "cb_bundle_id (contract_binding (bound_task demo_bundle artifact None None)) = si_value (sample_id ''bundle'')"
  "cb_revision (contract_binding (bound_task demo_bundle artifact None None)) = 1"
  by (simp_all add: ContractRevisionBinding_init_def require_all.simps contract_binding_def bound_task_def
      binding_from_bundle_def Let_def demo_nonblank)
    (simp_all add: demo_bundle_def demo_unattested_def sample_contract_def sample_draft_def demo_nonblank)

lemma demo_registration_appended:
  assumes "event_wf e" "ne_event_type e = ''task.registered''" "cb_bundle_id cb = si_value (sample_id ''bundle'')" "cb_revision cb > 0"
  shows "\<exists>stored db'. append_contract_revision_registration (\<lambda>_. utc 1) (demo_ids (CHR ''v'')) cb e idem nonce empty_store
      = (Inr stored, db') \<and> se_payload (hd stored) = norm_members (ne_payload e) \<and> events db' \<noteq> []"
proof -
  have none: "existing_idempotency empty_store (Some idem) = Inr None"
    "attestation_nonce_uses empty_store = (\<lambda>_. None)" "events empty_store = []" "contract_revision_bindings empty_store = []"
    "current_sequence empty_store ''task'' (si_value (sample_id ''bundle'')) = 0"
    by (simp_all add: existing_idempotency_def empty_store_def current_sequence_def)
  have "append_locked (\<lambda>_. utc 1) (demo_ids (CHR ''v'')) ''task'' (si_value (sample_id ''bundle'')) 0 [e] (Some idem) True (Some nonce) empty_store
      = Inr (stored_events (demo_ids (CHR ''v'')) ''task'' (si_value (sample_id ''bundle'')) 0 (utc_micros_text (as_utc (utc 1))) 0 0 [e],
        append_effect (demo_ids (CHR ''v'')) ''task'' (si_value (sample_id ''bundle'')) 0 [e] (Some idem) (Some nonce)
          (utc_micros_text (as_utc (utc 1))) (utc_micros_text (as_utc (utc 1))) empty_store)"
    by (subst append_locked_succeeds) (use assms(1) in \<open>simp_all add: empty_store_inv none\<close>)
  then have "\<exists>stored db'. register_locked (\<lambda>_. utc 1) (demo_ids (CHR ''v'')) cb e idem nonce empty_store = Inr (stored, db') \<and>
      se_payload (hd stored) = norm_members (ne_payload e) \<and> events db' \<noteq> []"
    using assms(3,4)
    by (simp add: register_locked_def none contract_revision_projection_row_def Let_def insert_contract_revision_binding_def
        append_effect_def del: canonical_json.simps)
  moreover have "validate_append_request ''task'' (cb_bundle_id cb) 0 [e] = Inr ()"
    using assms(2,3) by (simp add: validate_append_request_def require_all.simps demo_nonblank)
      (simp add: nonblank_def py_strip_def strip_by_def py_isspace_def)
  ultimately show ?thesis
    using assms(2) by (auto simp: append_contract_revision_registration_def require_def write_transaction_def)
qed

lemma demo_registered:
  "\<exists>b st'. register_bundle demo_builder_cp demo_ambient demo_bundle ''k'' \<lparr>st_db = empty_store, st_files = sample_store\<rparr> = (Inr b, st')
     \<and> events (st_db st') \<noteq> []"
proof -
  let ?st = "\<lparr>st_db = empty_store, st_files = sample_store\<rparr>"
  let ?a = "sample_attestation AP_BUILDER_FREEZE demo_builder_payload"
  obtain ref fs' where put: "put_bytes id (utf8 (canonical_json (dump_FormalizationTaskBundleV1 demo_bundle))) sample_store = (Inr ref, fs')"
    using sample_put by blast
  let ?b = "bound_task demo_bundle ref None None"
  let ?e = "\<lparr>ne_event_type = ''task.registered'', ne_payload = registration_payload ?b ?a, ne_metadata = []\<rparr> :: NewEvent"
  obtain idem where prep: "prepare_registration demo_builder_cp demo_ambient demo_bundle ''k'' ?st = Inr (idem, Inr (?a, None, None))"
    using demo_registration_prepared by blast
  have nonce: "\<exists>n. attestation_nonce ?a = Inr n"
    by (simp add: attestation_nonce_def AttestationNonce_init_def require_all.simps attestation_nonce_pattern_def char_class_defs
        attestation_payload_hash_def nonblank_def py_strip_def strip_by_def py_isspace_def sample_attestation_def Let_def)
  then obtain n where n: "attestation_nonce ?a = Inr n" by blast
  have ok: "binding_ok ?b" using demo_bound_ok put_ref_ok [OF put] by blast
  have nodes: "tk_graph_nodes ?b = []"
    by (simp add: bound_task_def binding_from_bundle_def Let_def bundle_graph_nodes_def demo_bundle_def demo_unattested_def
        sample_bundle_def sample_graphs_def)
  have wf: "event_wf ?e"
    by (simp add: registration_payload_def event_wf_object artifact_payload_def attestation_summary_def JOpt_def nodes list_all_iff
        split: option.split)
  obtain stored db' where reg: "append_contract_revision_registration (\<lambda>_. utc 1) (demo_ids (CHR ''v'')) (contract_binding ?b) ?e idem n
      empty_store = (Inr stored, db')" "se_payload (hd stored) = norm_members (registration_payload ?b ?a)" "events db' \<noteq> []"
    using demo_registration_appended [OF wf _ demo_contract_binding(2), of ref] demo_contract_binding(3) by fastforce
  have read: "binding_from_event (hd stored) = Inr ?b"
    using registration_read_back [OF ok] reg(2) by (simp add: json_object_of_def)
  have put': "put_model demo_ambient (dump_FormalizationTaskBundleV1 demo_bundle) ?st = (Inr ref, ?st\<lparr>st_files := fs'\<rparr>)"
    using put by (simp add: put_model_def put_json_def demo_ambient_def)
  have c: "commit demo_ambient (append_contract_revision_registration (am_clk demo_ambient) (am_ids demo_ambient) (contract_binding ?b) ?e
      idem n) (?st\<lparr>st_files := fs'\<rparr>) = (Inr stored, \<lparr>st_db = db', st_files = fs'\<rparr>)"
    using reg(1) by (simp add: commit_def demo_ambient_def)
  have "same_logical_binding ?b ?b" by (simp add: same_logical_binding_def)
  then have "register_bundle demo_builder_cp demo_ambient demo_bundle ''k'' ?st = (Inr ?b, \<lparr>st_db = db', st_files = fs'\<rparr>)"
    using prep put' n c read demo_contract_binding(1) [of ref] by (simp add: register_bundle_def require_def)
  then show ?thesis using reg(3) by simp
qed

end
