(* ===== verification/ServiceProps.thy ===== *)
theory ServiceProps
  imports ServiceSample
begin

text \<open>
  What the commands of the control plane guarantee, over whole runs: every command acts on
  the database by transactions of the event store, nothing but a current lease holder's
  checked evidence is recorded, a verdict says what the report and its attested evidence
  say, and the first verdict and the first registration are final.
\<close>

section \<open>Shape of the commands\<close>

lemma put_model_db: "put_model am dump st = (r, st1) \<Longrightarrow> st_db st1 = st_db st"
  by (auto simp: put_model_def split: prod.splits)

lemma commit_db: "commit am tx st = (r, st') \<Longrightarrow> tx (am_between am (st_db st)) = (r, st_db st')"
  by (auto simp: commit_def split: prod.splits)

lemma prepare_fenced_Inr:
  assumes "prepare_fenced am bundle_id l scope key request check st = Inr (idem, None)"
  shows "\<exists>b. require_binding (st_db st) bundle_id = Inr b \<and>
    assert_lease (am_lease_clock am) bundle_id l (st_db st) = Inr () \<and> check b = Inr ()"
  using assms by (auto simp: prepare_fenced_def result_simps split: option.splits)

lemma fenced_command_cases:
  assumes "fenced_command am bundle_id l scope label key dump check et ei event_type payload st = (r, st')"
  obtains (quiet) "st_db st' = st_db st"
  | (tried) b idem artifact r' where "require_binding (st_db st) bundle_id = Inr b"
      "assert_lease (am_lease_clock am) bundle_id l (st_db st) = Inr ()" "check b = Inr ()"
      "append_fenced (am_clk am) (am_ids am) et ei bundle_id l 0
         [\<lparr>ne_event_type = event_type, ne_payload = json_object_of (payload artifact), ne_metadata = []\<rparr>]
         (Some idem) None (am_between am (st_db st)) = (r', st_db st')"
      "r = bindE r' (\<lambda>evs. Inr (hd evs))"
proof (cases "prepare_fenced am bundle_id l scope key (fenced_request bundle_id l label dump) check st")
  case (Inl e)
  then show thesis using assms quiet by (simp add: fenced_command_def)
next
  case (Inr p)
  obtain idem replay where p: "p = (idem, replay)" by fastforce
  show thesis
  proof (cases replay)
    case (Some e)
    then show thesis using assms quiet Inr p by (simp add: fenced_command_def)
  next
    case None
    note prep = prepare_fenced_Inr [OF Inr [unfolded p None]]
    obtain q st1 where put: "put_model am dump st = (q, st1)" by fastforce
    show thesis
    proof (cases q)
      case (Inl e)
      then show thesis using assms quiet \<open>prepare_fenced _ _ _ _ _ _ _ _ = _\<close> p None put put_model_db [OF put]
        by (simp add: fenced_command_def)
    next
      case q: (Inr artifact)
      then show thesis
        using assms Inr p None put put_model_db [OF put] prep tried [of _ artifact idem]
        by (auto simp: fenced_command_def split: prod.splits dest!: commit_db)
    qed
  qed
qed

lemma verify_submission_cases:
  assumes "verify_submission cp am bundle_id l report key st = (r, st')"
  obtains (quiet) "st_db st' = st_db st"
  | (tried) b event a idem artifact nonce r' where "require_binding (st_db st) bundle_id = Inr b"
      "assert_lease (am_lease_clock am) bundle_id l (st_db st) = Inr ()"
      "proof_event (st_db st) (si_value (vr_proof_id report)) = Inr event"
      "validate_verification_binding b report event = Inr ()"
      "verify_verification_attestation cp (am_verify_clock am) (st_files st) b report event l = Inr a"
      "attestation_nonce a = Inr nonce"
      "append_fenced (am_clk am) (am_ids am) ''verification'' (si_value (vr_proof_id report)) bundle_id l 0
         [verdict_event bundle_id l report (verification_failures b report) a artifact]
         (Some idem) (Some nonce) (am_between am (st_db st)) = (r', st_db st')"
      "r = bindE (catchE is_verdict_refusal (InvalidTransition
           ''verification attestation was replayed or proof already has a terminal verification verdict'') r')
         (\<lambda>evs. Inr \<lparr>vo_accepted = (verification_failures b report = []),
            vo_reasons = verification_failures b report, vo_event = hd evs\<rparr>)"
proof (cases "prepare_verdict cp am bundle_id l report key st")
  case (Inl e)
  then show thesis using assms quiet by (simp add: verify_submission_def)
next
  case (Inr p)
  obtain idem replay where p: "p = (idem, replay)" by fastforce
  show thesis
  proof (cases replay)
    case (Inl e)
    then show thesis using assms quiet Inr p by (simp add: verify_submission_def)
  next
    case rep: (Inr ar)
    obtain a reasons where ar: "ar = (a, reasons)" by fastforce
    obtain b event where prep: "require_binding (st_db st) bundle_id = Inr b"
      "assert_lease (am_lease_clock am) bundle_id l (st_db st) = Inr ()"
      "proof_event (st_db st) (si_value (vr_proof_id report)) = Inr event"
      "validate_verification_binding b report event = Inr ()"
      "verify_verification_attestation cp (am_verify_clock am) (st_files st) b report event l = Inr a"
      "reasons = verification_failures b report"
      using Inr by (auto simp: p rep ar prepare_verdict_def result_simps split: option.splits)
    obtain q st1 where put: "put_model am (dump_VerificationReportV1 report) st = (q, st1)" by fastforce
    show thesis
    proof (cases "\<exists>artifact nonce. q = Inr artifact \<and> attestation_nonce a = Inr nonce")
      case False
      then have "st_db st' = st_db st"
        using assms Inr p rep ar put put_model_db [OF put] by (auto simp: verify_submission_def split: sum.splits)
      then show thesis by (rule quiet)
    next
      case True
      then obtain artifact nonce where q: "q = Inr artifact" "attestation_nonce a = Inr nonce" by blast
      obtain r' st2 where c: "commit am (append_fenced (am_clk am) (am_ids am) ''verification'' (si_value (vr_proof_id report))
            bundle_id l 0 [verdict_event bundle_id l report reasons a artifact] (Some idem) (Some nonce)) st1 = (r', st2)"
        by fastforce
      have "st2 = st'" and r: "r = bindE (catchE is_verdict_refusal (InvalidTransition
           ''verification attestation was replayed or proof already has a terminal verification verdict'') r')
         (\<lambda>evs. Inr \<lparr>vo_accepted = (reasons = []), vo_reasons = reasons, vo_event = hd evs\<rparr>)"
        using assms Inr p rep ar put q c by (simp_all add: verify_submission_def)
      then show thesis
        using tried [OF prep(1-5) q(2) _ r [unfolded prep(6)], of artifact idem] commit_db [OF c] put_model_db [OF put] prep(6)
        by simp
    qed
  qed
qed

lemma prepare_registration_Inr:
  assumes "prepare_registration cp am bundle key st = Inr (idem, Inr (a, fidelity, assurance))"
  shows "verify_builder_attestation cp (am_verify_clock am 0) bundle = Inr a \<and>
    verify_builder_fidelity_artifact (cp_allow_unreviewed_bundles cp) (cp_allow_non_authoritative_evidence cp)
      (st_files st) bundle = Inr (fidelity, assurance)"
  using assms by (auto simp: prepare_registration_def result_simps split: option.splits)

lemma register_bundle_cases:
  assumes "register_bundle cp am bundle key st = (r, st')"
  obtains (quiet) "st_db st' = st_db st"
  | (tried) a fidelity assurance artifact idem nonce r' where
      "verify_builder_attestation cp (am_verify_clock am 0) bundle = Inr a"
      "verify_builder_fidelity_artifact (cp_allow_unreviewed_bundles cp) (cp_allow_non_authoritative_evidence cp)
         (st_files st) bundle = Inr (fidelity, assurance)"
      "ContractRevisionBinding_init (contract_binding (bound_task bundle artifact fidelity assurance))
         = Inr (contract_binding (bound_task bundle artifact fidelity assurance))"
      "append_contract_revision_registration (am_clk am) (am_ids am)
         (contract_binding (bound_task bundle artifact fidelity assurance))
         \<lparr>ne_event_type = ''task.registered'',
          ne_payload = registration_payload (bound_task bundle artifact fidelity assurance) a, ne_metadata = []\<rparr>
         idem nonce (am_between am (st_db st)) = (r', st_db st')"
      "r = bindE (catchE is_registration_refusal
             (InvalidTransition ''Builder attestation nonce was replayed or revision is already bound'') r') (\<lambda>evs.
           bindE (binding_from_event (hd evs)) (\<lambda>stored.
           bindE (require (same_logical_binding stored (bound_task bundle artifact fidelity assurance))
             (ProjectionError ''canonical registration event disagrees with the requested immutable bundle'')) (\<lambda>_.
           Inr stored)))"
proof (cases "prepare_registration cp am bundle key st")
  case (Inl e)
  then show thesis using assms quiet by (simp add: register_bundle_def)
next
  case (Inr p)
  obtain idem replay where p: "p = (idem, replay)" by fastforce
  show thesis
  proof (cases replay)
    case (Inl e)
    then show thesis using assms quiet Inr p by (simp add: register_bundle_def)
  next
    case rep: (Inr t)
    obtain a fidelity assurance where t: "t = (a, fidelity, assurance)" by (metis prod_cases3)
    note prep = prepare_registration_Inr [OF Inr [unfolded p rep t]]
    obtain q st1 where put: "put_model am (dump_FormalizationTaskBundleV1 bundle) st = (q, st1)" by fastforce
    define b where "b = (\<lambda>artifact. bound_task bundle artifact fidelity assurance)"
    show thesis
    proof (cases "\<exists>artifact cb nonce. q = Inr artifact \<and> ContractRevisionBinding_init (contract_binding (b artifact)) = Inr cb
        \<and> attestation_nonce a = Inr nonce")
      case False
      then have "st_db st' = st_db st"
        using assms Inr p rep t put put_model_db [OF put] unfolding b_def
        by (cases q; cases "attestation_nonce a")
          (auto simp: register_bundle_def result_simps Let_def split: sum.splits)
      then show thesis by (rule quiet)
    next
      case True
      then obtain artifact cb nonce where q: "q = Inr artifact" "ContractRevisionBinding_init (contract_binding (b artifact)) = Inr cb"
        "attestation_nonce a = Inr nonce" by blast
      have cb: "cb = contract_binding (b artifact)"
        using q(2) by (auto simp: ContractRevisionBinding_init_def result_simps)
      obtain r' st2 where c: "commit am (append_contract_revision_registration (am_clk am) (am_ids am) cb
            \<lparr>ne_event_type = ''task.registered'', ne_payload = registration_payload (b artifact) a, ne_metadata = []\<rparr>
            idem nonce) st1 = (r', st2)"
        by fastforce
      have "st2 = st'" and r: "r = bindE (catchE is_registration_refusal
             (InvalidTransition ''Builder attestation nonce was replayed or revision is already bound'') r') (\<lambda>evs.
           bindE (binding_from_event (hd evs)) (\<lambda>stored.
           bindE (require (same_logical_binding stored (b artifact))
             (ProjectionError ''canonical registration event disagrees with the requested immutable bundle'')) (\<lambda>_.
           Inr stored)))"
        using assms Inr p rep t put q c unfolding b_def by (simp_all add: register_bundle_def)
      then show thesis
        using tried [of a fidelity assurance artifact idem nonce r'] prep commit_db [OF c] put_model_db [OF put] q cb
        unfolding b_def by simp
    qed
  qed
qed

lemma claim_task_cases:
  assumes "claim_task am bundle_id worker ttl_seconds ttl key st = (r, st')"
  obtains (quiet) "st_db st' = st_db st"
  | (unclaimed) e where "claim (am_lease_clock am) bundle_id worker ttl (st_db st) = (Inl e, st_db st')" "r = Inl e"
  | (tried) l db1 idem r' where "claim (am_lease_clock am) bundle_id worker ttl (st_db st) = (Inr l, db1)"
      "append_events (am_clk am) (am_ids am) ''task'' bundle_id (current_sequence db1 ''task'' bundle_id)
         [claimed_event worker l] (Some idem) None (am_between am db1) = (r', st_db st')"
      "r = bindE r' (\<lambda>evs. Inr \<lparr>rc_lease = l, rc_event = hd evs\<rparr>)"
proof (cases "prepare_claim bundle_id worker ttl_seconds key st")
  case (Inl e)
  then show thesis using assms quiet by (simp add: claim_task_def)
next
  case (Inr p)
  obtain idem replay where p: "p = (idem, replay)" by fastforce
  show thesis
  proof (cases replay)
    case (Some e)
    then show thesis using assms quiet Inr p by (simp add: claim_task_def)
  next
    case None
    obtain q db1 where q: "claim (am_lease_clock am) bundle_id worker ttl (st_db st) = (q, db1)" by fastforce
    show thesis
    proof (cases q)
      case (Inl e)
      then show thesis using assms unclaimed q \<open>prepare_claim _ _ _ _ _ = _\<close> p None by (auto simp: claim_task_def)
    next
      case q': (Inr l)
      then show thesis
        using assms q Inr p None tried [of l db1 idem] by (auto simp: claim_task_def split: prod.splits dest!: commit_db)
    qed
  qed
qed

section \<open>Commands are transactions of the event store\<close>

text \<open>
  What a command meets: other clients that use the event store as this one does, and fresh
  identifiers. \<open>service_step\<close> is one command of any client, whatever it returns. The cost in
  a submission is the text of a finite float.
\<close>

definition fair_ambient :: "ambient \<Rightarrow> bool" where
  "fair_ambient am \<longleftrightarrow> (\<forall>db. event_step\<^sup>*\<^sup>* db (am_between am db)) \<and> (\<forall>k. am_ids am k \<noteq> [])"

inductive service_step :: "control_plane \<Rightarrow> cp_state \<Rightarrow> cp_state \<Rightarrow> bool" for cp where
  register: "register_bundle cp am bundle key st = (r, st') \<Longrightarrow> fair_ambient am \<Longrightarrow> service_step cp st st'"
| claim: "claim_task am bundle_id worker ttl_seconds ttl key st = (c, st') \<Longrightarrow> fair_ambient am \<Longrightarrow> service_step cp st st'"
| submit: "submit_proof am bundle_id l s key st = (e, st') \<Longrightarrow> fair_ambient am \<Longrightarrow>
    float_text_ok (mt_cost_usd (ps_metrics s)) \<Longrightarrow> service_step cp st st'"
| gap: "report_gap am bundle_id l g key st = (e, st') \<Longrightarrow> fair_ambient am \<Longrightarrow> service_step cp st st'"
| change: "request_contract_change am bundle_id l c key st = (e, st') \<Longrightarrow> fair_ambient am \<Longrightarrow> service_step cp st st'"
| verify: "verify_submission cp am bundle_id l report key st = (v, st') \<Longrightarrow> fair_ambient am \<Longrightarrow> service_step cp st st'"

lemma texts_wf [simp]: "list_all json_wf (map JStr l)"
  by (simp add: list_all_iff)

lemma artifact_payload_wf [simp]: "json_wf (artifact_payload r k)"
  by (simp add: artifact_payload_def)

lemma summary_wf [simp]: "json_wf (attestation_summary a)"
  by (simp add: attestation_summary_def)

lemma JOpt_wf: "(\<And>x. o' = Some x \<Longrightarrow> json_wf (f x)) \<Longrightarrow> json_wf (JOpt f o')"
  by (simp add: JOpt_def split: option.splits)

lemma verdict_event_wf: "event_wf (verdict_event bundle_id l report reasons a artifact)"
  unfolding verdict_event_def verdict_payload_def event_wf_object by (simp add: json_strs_wf)

lemma claimed_event_wf: "event_wf (claimed_event worker l)"
  unfolding claimed_event_def event_wf_object by simp

lemma graph_node_wf: "json_wf (JObj (graph_node bundle g es n))"
proof -
  have "event_wf \<lparr>ne_event_type = [], ne_payload = graph_node bundle g es n, ne_metadata = []\<rparr>"
    by (cases n) (simp add: graph_node_def event_wf_object json_strs_wf)
  then show ?thesis by (simp add: event_wf_def)
qed

lemma bound_task_nodes [simp]: "tk_graph_nodes (bound_task bundle artifact fidelity assurance) = bundle_graph_nodes bundle"
  by (simp add: bound_task_def binding_from_bundle_def Let_def)

lemma registration_event_wf:
  "event_wf \<lparr>ne_event_type = t, ne_payload = registration_payload (bound_task bundle artifact fidelity assurance) a, ne_metadata = []\<rparr>"
proof -
  have "list_all json_wf (map JObj (bundle_graph_nodes bundle))"
    by (auto simp: bundle_graph_nodes_def Let_def list_all_iff graph_node_wf simp del: json_wf.simps)
  then show ?thesis
    unfolding registration_payload_def event_wf_object by (simp add: json_strs_wf JOpt_wf)
qed

lemma fenced_command_steps:
  assumes "fenced_command am bundle_id l scope label key dump check et ei event_type payload st = (r, st')" "fair_ambient am"
    and "\<And>artifact. json_wf (JObj (payload artifact))"
  shows "event_step\<^sup>*\<^sup>* (st_db st) (st_db st')"
  using assms(1)
proof (cases rule: fenced_command_cases)
  case (tried b idem artifact r')
  have "event_step (am_between am (st_db st)) (st_db st')"
    by (rule event_step.fenced [OF tried(4)]) (use assms(2,3) in \<open>simp_all add: event_wf_object fair_ambient_def\<close>)
  then show ?thesis using assms(2) by (auto simp: fair_ambient_def intro: rtranclp.rtrancl_into_rtrancl)
qed simp

lemma verify_submission_steps:
  assumes "verify_submission cp am bundle_id l report key st = (r, st')" "fair_ambient am"
  shows "event_step\<^sup>*\<^sup>* (st_db st) (st_db st')"
  using assms(1)
proof (cases rule: verify_submission_cases)
  case (tried b event a idem artifact nonce r')
  have "event_step (am_between am (st_db st)) (st_db st')"
    by (rule event_step.fenced [OF tried(7)]) (use assms(2) in \<open>simp_all add: verdict_event_wf fair_ambient_def\<close>)
  then show ?thesis using assms(2) by (auto simp: fair_ambient_def intro: rtranclp.rtrancl_into_rtrancl)
qed simp

lemma register_bundle_steps:
  assumes "register_bundle cp am bundle key st = (r, st')" "fair_ambient am"
  shows "event_step\<^sup>*\<^sup>* (st_db st) (st_db st')"
  using assms(1)
proof (cases rule: register_bundle_cases)
  case (tried a fidelity assurance artifact idem nonce r')
  have "event_step (am_between am (st_db st)) (st_db st')"
    by (rule event_step.register [OF tried(4)])
      (use assms(2) tried(3) in \<open>simp_all add: registration_event_wf fair_ambient_def\<close>)
  then show ?thesis using assms(2) by (auto simp: fair_ambient_def intro: rtranclp.rtrancl_into_rtrancl)
qed simp

lemma claim_task_steps:
  assumes "claim_task am bundle_id worker ttl_seconds ttl key st = (r, st')" "fair_ambient am"
  shows "event_step\<^sup>*\<^sup>* (st_db st) (st_db st')"
  using assms(1)
proof (cases rule: claim_task_cases)
  case (unclaimed e)
  then show ?thesis using lease_step.claim event_step.lease by blast
next
  case (tried l db1 idem r')
  have "event_step (st_db st) db1" using tried(1) by (blast intro: event_step.lease lease_step.claim)
  moreover have "event_step (am_between am db1) (st_db st')"
    by (rule event_step.append [OF tried(2)]) (use assms(2) in \<open>simp_all add: claimed_event_wf fair_ambient_def\<close>)
  moreover have "event_step\<^sup>*\<^sup>* db1 (am_between am db1)" using assms(2) by (simp add: fair_ambient_def)
  ultimately show ?thesis by (meson converse_rtranclp_into_rtranclp rtranclp.rtrancl_into_rtrancl)
qed simp

lemma service_step_events: "service_step cp st st' \<Longrightarrow> event_step\<^sup>*\<^sup>* (st_db st) (st_db st')"
proof (induction rule: service_step.induct)
  case (submit am bundle_id l s key st e st')
  then show ?case unfolding submit_proof_def
    by (elim fenced_command_steps) (simp_all add: proof_payload_def)
next
  case (gap am bundle_id l g key st e st')
  then show ?case unfolding report_gap_def by (elim fenced_command_steps) simp_all
next
  case (change am bundle_id l c key st e st')
  then show ?case unfolding request_contract_change_def by (elim fenced_command_steps) simp_all
qed (auto intro: register_bundle_steps claim_task_steps verify_submission_steps)

lemma service_steps_events: "(service_step cp)\<^sup>*\<^sup>* st st' \<Longrightarrow> event_step\<^sup>*\<^sup>* (st_db st) (st_db st')"
  by (induction rule: rtranclp_induct) (auto dest: service_step_events)

section \<open>Verdicts\<close>

text \<open>The specification of an acceptable report, and of the attestation of a verdict.\<close>

definition clean_report :: "TaskBinding \<Rightarrow> VerificationReportV1 \<Rightarrow> bool" where
  "clean_report b report \<longleftrightarrow>
     vr_independent report \<and> vr_kernel_passed report \<and> vr_build_passed report \<and> vr_dependency_check_passed report \<and>
     vr_clean_environment report \<and> set (vr_observed_axioms report) \<subseteq> tk_axioms_allowlist b - {''sorryAx''} \<and>
     (tk_axiom_profile b = ''strict'' \<longrightarrow> vr_observed_axioms report = [])"

lemma failures_Nil: "verification_failures b report = [] \<longleftrightarrow> clean_report b report"
  by (auto simp: verification_failures_def clean_report_def Let_def)

definition attested ::
  "control_plane \<Rightarrow> (nat \<Rightarrow> datetime) \<Rightarrow> TaskBinding \<Rightarrow> VerificationReportV1 \<Rightarrow> VerificationEvidenceV1 \<Rightarrow> Lease \<Rightarrow> string
     \<Rightarrow> AttestationV1 \<Rightarrow> bool \<Rightarrow> bool" where
  "attested cp clock b report e l proof_digest a authoritative \<longleftrightarrow>
     (if authoritative
      then \<exists>ctx signing_lease p. gateway_context b report e proof_digest = Inr ctx \<and> gateway_lease ctx l = Inr signing_lease \<and>
        verification_gateway_attestation_payload signing_lease ctx = Inr p \<and>
        cp_verify cp (clock 0) a AP_VERIFICATION p = Inr () \<and> dt_us (at_expires_at a) \<le> dt_us (ls_expires_at l)
      else cp_allow_direct_verifier_attestations cp \<and>
        (\<exists>p. direct_verification_payload b report proof_digest = Inr p \<and> cp_verify cp (clock 1) a AP_VERIFICATION p = Inr ()))"

text \<open>What the stored bytes must say of the proof that was checked.\<close>

definition bound_evidence ::
  "control_plane \<Rightarrow> store_fs \<Rightarrow> TaskBinding \<Rightarrow> VerificationReportV1 \<Rightarrow> VerificationEvidenceV1 \<Rightarrow> Lease \<Rightarrow> string \<Rightarrow> bool \<Rightarrow> bool" where
  "bound_evidence cp fs b report e l proof_digest authoritative \<longleftrightarrow>
     (\<exists>artifact bundle_payload bundle proof_payload submission.
        get_bytes fs (Inr (ev_evidence_artifact_digest e)) = Inr (utf8 (canonical_json (dump_evidence_artifact artifact))) \<and>
        read_canonical_json_artifact fs (af_digest (tk_bundle_artifact b)) = Inr bundle_payload \<and>
        cp_parse_bundle cp bundle_payload = Inr bundle \<and> dg_value (handoff_hash bundle) = tk_bundle_hash b \<and>
        read_canonical_json_artifact fs proof_digest = Inr proof_payload \<and>
        cp_parse_submission cp proof_payload = Inr submission \<and> ps_proof_id submission = vr_proof_id report \<and>
        oa1_candidate_sha256 (evidence_oci artifact) =
          sha256_hexdigest (utf8 (candidate_source (tb_proof_boundary bundle) submission)) \<and>
        oa1_trusted_statement_sha256 (evidence_oci artifact) = dg_value (pb_trusted_statement_hash (tb_proof_boundary bundle)) \<and>
        oa1_worker_image_digest (evidence_oci artifact) = tk_worker_image_digest b \<and>
        (authoritative \<longrightarrow> (\<exists>x. artifact = EvidenceV2 x \<and>
           oe_worker_id (oa2_execution_authority (va2_oci x)) = ls_holder_id l \<and>
           oe_fencing_token (oa2_execution_authority (va2_oci x)) = ls_fencing_token l)))"

lemma evidence_view_oci [simp]: "va1_oci (evidence_view artifact) = evidence_oci artifact"
  by (simp add: evidence_view_def evidence_oci_def split: evidence_artifact.splits)

lemma gateway_attested_Inr:
  assumes "gateway_attested cp clock b report a proof_digest l signing_lease ctx = Inr authoritative"
    and "gateway_context b report e proof_digest = Inr ctx" "gateway_lease ctx l = Inr signing_lease"
  shows "attested cp clock b report e l proof_digest a authoritative"
  using assms
  by (auto simp: gateway_attested_def attested_def result_simps split: sum.splits if_splits)

lemma stored_handoff_Inr:
  assumes "validate_stored_handoff cp fs b report proof_digest oci = Inr ()"
  shows "\<exists>bundle_payload bundle proof_payload submission.
    read_canonical_json_artifact fs (af_digest (tk_bundle_artifact b)) = Inr bundle_payload \<and>
    cp_parse_bundle cp bundle_payload = Inr bundle \<and> dg_value (handoff_hash bundle) = tk_bundle_hash b \<and>
    read_canonical_json_artifact fs proof_digest = Inr proof_payload \<and>
    cp_parse_submission cp proof_payload = Inr submission \<and> ps_proof_id submission = vr_proof_id report \<and>
    oa1_candidate_sha256 oci = sha256_hexdigest (utf8 (candidate_source (tb_proof_boundary bundle) submission)) \<and>
    oa1_trusted_statement_sha256 oci = dg_value (pb_trusted_statement_hash (tb_proof_boundary bundle))"
  using assms by (auto simp: validate_stored_handoff_def result_simps Let_def)

lemma evidence_artifact_Inr:
  assumes "read_verification_evidence_artifact cp fs digest = Inr artifact"
  shows "get_bytes fs (Inr digest) = Inr (utf8 (canonical_json (dump_evidence_artifact artifact)))"
  using assms by (auto simp: read_verification_evidence_artifact_def result_simps)

lemma verification_attestation_Inr:
  assumes "verify_verification_attestation cp clock fs b report event l = Inr a"
  obtains e proof_artifact proof_digest authoritative where "vr_verifier_attestation report = Some a" "vr_evidence report = Some e"
    "sv_required_object (se_payload event) ''proof_artifact'' = Inr proof_artifact"
    "sv_required_text proof_artifact ''digest'' = Inr proof_digest"
    "attested cp clock b report e l proof_digest a authoritative"
    "bound_evidence cp fs b report e l proof_digest authoritative"
proof -
  obtain e proof_artifact proof_digest dependency_hash ctx signing_lease authoritative artifact where
    ok: "vr_verifier_attestation report = Some a" "vr_evidence report = Some e"
    "sv_required_object (se_payload event) ''proof_artifact'' = Inr proof_artifact"
    "sv_required_text proof_artifact ''digest'' = Inr proof_digest"
    "gateway_context b report e proof_digest = Inr ctx" "gateway_lease ctx l = Inr signing_lease"
    "gateway_attested cp clock b report a proof_digest l signing_lease ctx = Inr authoritative"
    "read_verification_evidence_artifact cp fs (ev_evidence_artifact_digest e) = Inr artifact"
    "validate_verification_evidence_artifact cp fs b report proof_digest dependency_hash l authoritative artifact = Inr ()"
    using assms by (auto simp: verify_verification_attestation_def result_simps split: option.splits)
  have v: "validate_execution_lease authoritative l artifact = Inr ()"
    "oa1_worker_image_digest (evidence_oci artifact) = tk_worker_image_digest b"
    "validate_stored_handoff cp fs b report proof_digest (evidence_oci artifact) = Inr ()"
    using ok(2,9) by (auto simp: validate_verification_evidence_artifact_def result_simps Let_def)
  have "authoritative \<longrightarrow> (\<exists>x. artifact = EvidenceV2 x \<and>
      oe_worker_id (oa2_execution_authority (va2_oci x)) = ls_holder_id l \<and>
      oe_fencing_token (oa2_execution_authority (va2_oci x)) = ls_fencing_token l)"
    using v(1) by (auto simp: validate_execution_lease_def result_simps Let_def split: evidence_artifact.splits)
  then have "bound_evidence cp fs b report e l proof_digest authoritative"
    unfolding bound_evidence_def using evidence_artifact_Inr [OF ok(8)] v(2) stored_handoff_Inr [OF v(3)] by blast
  then show thesis using that ok gateway_attested_Inr [OF ok(7,5,6)] by blast
qed

text \<open>A command wrote if its own transaction changed what it and the other clients left.\<close>

definition wrote :: "ambient \<Rightarrow> cp_state \<Rightarrow> cp_state \<Rightarrow> bool" where
  "wrote am st st' \<longleftrightarrow> st_db st' \<notin> {st_db st, am_between am (st_db st)}"

lemma append_fenced_wrote:
  assumes "append_fenced clk ids et ei task l ex [ev] (Some idem) nonce db = (r, db')" "db' \<noteq> db"
  shows "ls_job_id l = task \<and> assert_current (clk 2) l db = Inr () \<and> current_sequence db et ei = ex \<and>
    current_sequence db' et ei = ex + 1 \<and> (\<exists>stored. r = Inr stored) \<and>
    (\<exists>row. events db' = events db @ [row] \<and> er_entity_type row = et \<and> er_entity_id row = ei \<and>
       er_event_type row = ne_event_type ev \<and> er_payload_json row = canonical_json (JObj (ne_payload ev)))"
  using assms(1)
proof (cases rule: append_fenced_cases)
  case (wrote stored)
  show ?thesis
    using wrote(5)
  proof (cases rule: append_locked_cases)
    case (wrote at0 at)
    then show ?thesis
      using \<open>assert_current_fence _ _ _ _ = _\<close> \<open>r = _\<close>
      by (simp add: assert_current_fence_Inr current_sequence_effect del: canonical_json.simps)
  qed simp
qed (use assms(2) in simp)

lemma written_verdict:
  assumes "verify_submission cp am bundle_id l report key st = (r, st')" "wrote am st st'"
  shows "\<exists>b event a e proof_artifact proof_digest authoritative outcome row.
    require_binding (st_db st) bundle_id = Inr b \<and>
    proof_event (st_db st) (si_value (vr_proof_id report)) = Inr event \<and>
    dg_value (vr_contract_hash report) = tk_contract_hash b \<and>
    dg_value (vr_proof_boundary_hash report) = tk_proof_boundary_hash b \<and>
    dg_value (vr_environment_hash report) = tk_environment_hash b \<and>
    vr_verifier_attestation report = Some a \<and> vr_evidence report = Some e \<and>
    sv_required_object (se_payload event) ''proof_artifact'' = Inr proof_artifact \<and>
    sv_required_text proof_artifact ''digest'' = Inr proof_digest \<and>
    attested cp (am_verify_clock am) b report e l proof_digest a authoritative \<and>
    bound_evidence cp (st_files st) b report e l proof_digest authoritative \<and>
    ls_job_id l = bundle_id \<and> assert_current (am_clk am 2) l (am_between am (st_db st)) = Inr () \<and>
    events (st_db st') = events (am_between am (st_db st)) @ [row] \<and>
    er_entity_type row = ''verification'' \<and> er_entity_id row = si_value (vr_proof_id report) \<and>
    er_event_type row = (if clean_report b report then ''verification.accepted'' else ''verification.rejected'') \<and>
    r = Inr outcome \<and> vo_accepted outcome = clean_report b report"
  using assms(1)
proof (cases rule: verify_submission_cases)
  case (tried b event a idem artifact nonce r')
  have "st_db st' \<noteq> am_between am (st_db st)" using assms(2) by (simp add: wrote_def)
  note w = append_fenced_wrote [OF tried(7) this]
  obtain stored row where row: "r' = Inr stored" "events (st_db st') = events (am_between am (st_db st)) @ [row]"
    "er_entity_type row = ''verification''" "er_entity_id row = si_value (vr_proof_id report)"
    "er_event_type row = (if clean_report b report then ''verification.accepted'' else ''verification.rejected'')"
    using w by (auto simp: verdict_event_def failures_Nil)
  have out: "\<exists>outcome. r = Inr outcome \<and> vo_accepted outcome = clean_report b report"
    using tried(8) row(1) by (simp add: failures_Nil)
  have hashes: "dg_value (vr_contract_hash report) = tk_contract_hash b"
    "dg_value (vr_proof_boundary_hash report) = tk_proof_boundary_hash b"
    "dg_value (vr_environment_hash report) = tk_environment_hash b"
    using tried(4) by (auto simp: validate_verification_binding_def Let_def result_simps)
  show ?thesis
    using tried(5)
    by (rule verification_attestation_Inr) (use tried(1,3) hashes w row out in blast)
qed (use assms(2) in \<open>simp add: wrote_def\<close>)

text \<open>
  C1. A verdict is earned: whenever \<open>verify_submission\<close> writes, the bundle was registered and
  the proof submitted, the report names their contract, proof boundary and environment, its
  attestation was verified (for the gateway payload of exactly this lease and report, unless
  direct attestations are allowed for tests), the evidence artifact stored under the attested
  digest names the bytes of the very statement and proof that are stored for the task and
  the approved worker image, and the lease was current in the committing transaction. What
  is written is one event, and it accepts the proof exactly if the report is clean: all
  checks passed and only allowed axioms were observed.
\<close>

theorem verdict_is_earned:
  "case verify_submission cp am bundle_id l report key st of (r, st') \<Rightarrow>
    st_db st' \<in> {st_db st, am_between am (st_db st)} \<or>
    (\<exists>b event a e proof_artifact proof_digest authoritative outcome row.
    require_binding (st_db st) bundle_id = Inr b \<and>
    proof_event (st_db st) (si_value (vr_proof_id report)) = Inr event \<and>
    dg_value (vr_contract_hash report) = tk_contract_hash b \<and>
    dg_value (vr_proof_boundary_hash report) = tk_proof_boundary_hash b \<and>
    dg_value (vr_environment_hash report) = tk_environment_hash b \<and>
    vr_verifier_attestation report = Some a \<and> vr_evidence report = Some e \<and>
    sv_required_object (se_payload event) ''proof_artifact'' = Inr proof_artifact \<and>
    sv_required_text proof_artifact ''digest'' = Inr proof_digest \<and>
    attested cp (am_verify_clock am) b report e l proof_digest a authoritative \<and>
    bound_evidence cp (st_files st) b report e l proof_digest authoritative \<and>
    ls_job_id l = bundle_id \<and> assert_current (am_clk am 2) l (am_between am (st_db st)) = Inr () \<and>
    events (st_db st') = events (am_between am (st_db st)) @ [row] \<and>
    er_entity_type row = ''verification'' \<and> er_entity_id row = si_value (vr_proof_id report) \<and>
    er_event_type row = (if clean_report b report then ''verification.accepted'' else ''verification.rejected'') \<and>
    r = Inr outcome \<and> vo_accepted outcome = clean_report b report)"
proof -
  obtain r st' where v: "verify_submission cp am bundle_id l report key st = (r, st')" by fastforce
  show ?thesis
    unfolding v prod.case
    by (cases "wrote am st st'") (use written_verdict [OF v] in blast, simp add: wrote_def)
qed

lemma verdict_sequences:
  assumes "verify_submission cp am bundle_id l report key st = (r, st')" "wrote am st st'"
  shows "current_sequence (am_between am (st_db st)) ''verification'' (si_value (vr_proof_id report)) = 0"
    "current_sequence (st_db st') ''verification'' (si_value (vr_proof_id report)) = 1"
    "\<exists>outcome. r = Inr outcome"
  using assms(1) by (cases rule: verify_submission_cases; use assms(2) append_fenced_wrote in \<open>fastforce simp: wrote_def\<close>)+

text \<open>
  C2. A verdict is final: once an event of the verdict stream of a proof is recorded, no later
  call of \<open>verify_submission\<close> for that proof, by any client, under any lease, report, key and
  settings, records another one, whatever commands are run in between.
\<close>

theorem verdict_is_final:
  assumes "event_inv (st_db st)" "row \<in> set (events (st_db st))" "er_entity_type row = ''verification''"
    and "er_entity_id row = si_value (vr_proof_id report)" "(service_step cp)\<^sup>*\<^sup>* st st2"
    and "verify_submission cp' am bundle_id l report key st2 = (r, st3)" "fair_ambient am"
  shows "st_db st3 \<in> {st_db st2, am_between am (st_db st2)}"
proof (rule ccontr)
  assume "st_db st3 \<notin> {st_db st2, am_between am (st_db st2)}"
  then have w3: "wrote am st2 st3" by (simp add: wrote_def)
  let ?p = "si_value (vr_proof_id report)"
  have "row \<in> set (filter (in_stream ''verification'' ?p) (events (st_db st)))"
    using assms(2-4) by (simp add: in_stream_def)
  then have "filter (in_stream ''verification'' ?p) (events (st_db st)) \<noteq> []" by (metis list.set(1) empty_iff)
  then have "current_sequence (st_db st) ''verification'' ?p \<ge> 1"
    using current_sequence_length [of "st_db st"] assms(1) by (simp add: event_inv_def Suc_le_eq)
  moreover have "event_step\<^sup>*\<^sup>* (st_db st) (am_between am (st_db st2))"
    using service_steps_events [OF assms(5)] assms(7) by (meson fair_ambient_def rtranclp_trans)
  ultimately have "current_sequence (am_between am (st_db st2)) ''verification'' ?p \<ge> 1"
    using current_sequence_steps [OF _ assms(1)] by (meson order_trans)
  then show False using verdict_sequences(1) [OF assms(6) w3] by simp
qed

section \<open>Registrations\<close>

lemma first_registration:
  assumes inv: "event_inv db" and db1: "event_inv db1" "events db1 = events db @ [row]"
    and row: "in_stream ''task'' bundle_id row" "row_to_event row = Inr e" "se_event_type e = ''task.registered''"
    and first: "current_sequence db ''task'' bundle_id = 0" and steps: "event_step\<^sup>*\<^sup>* db1 db2"
    and b: "binding_from_event e = Inr b"
  shows "require_binding db2 bundle_id = Inr b"
proof -
  have inv2: "log_inv db2" using event_inv_steps [OF steps db1(1)] by (simp add: event_inv_def)
  obtain t where ev: "events db2 = events db @ row # t"
    using event_log.log_steps [OF steps] db1(2) by (auto simp: prefix_def)
  have "filter (in_stream ''task'' bundle_id) (events db) = []"
    using current_sequence_length [of db] inv first by (simp add: event_inv_def)
  then have rows: "filter (in_stream ''task'' bundle_id) (events db2) = row # filter (in_stream ''task'' bundle_id) t"
    using ev row(1) by simp
  have "\<forall>r \<in> set (filter (in_stream ''task'' bundle_id) t). \<exists>s. row_to_event r = Inr s"
    using inv2 ev unfolding log_inv_def by auto
  then obtain more where "map_resultE row_to_event (filter (in_stream ''task'' bundle_id) t) = Inr more"
    using map_resultE_readable by blast
  then have "read_stream db2 ''task'' bundle_id 0 = Inr (e # more)"
    using read_stream_rows [OF inv2] rows row(2) by simp
  then show ?thesis using row(3) b by (simp add: require_binding_def get_binding_def)
qed

text \<open>
  C3. A registration is permanent: when \<open>register_bundle\<close> appends the registration of a bundle
  and returns its binding, the Builder's attestation and the fidelity evidence of the bundle
  have been verified, the binding has the hashes of the bundle, and this binding is what
  every later command finds for the bundle, whatever commands are run in between.
\<close>

theorem registration_is_permanent:
  assumes "event_inv (st_db st)" "register_bundle cp am bundle key st = (Inr b, st1)" "fair_ambient am"
    and "events (st_db st1) \<noteq> events (st_db st)" "events (st_db st1) \<noteq> events (am_between am (st_db st))"
    and "(service_step cp)\<^sup>*\<^sup>* st1 st2"
  shows "require_binding (st_db st2) (si_value (tb_bundle_id bundle)) = Inr b \<and>
    (\<exists>a. verify_builder_attestation cp (am_verify_clock am 0) bundle = Inr a) \<and>
    (\<exists>f. verify_builder_fidelity_artifact (cp_allow_unreviewed_bundles cp) (cp_allow_non_authoritative_evidence cp)
       (st_files st) bundle = Inr f) \<and>
    tk_bundle_hash b = dg_value (handoff_hash bundle) \<and>
    tk_contract_hash b = dg_value (semantic_hash (tb_contract bundle)) \<and>
    tk_proof_boundary_hash b = dg_value (pb_boundary_hash (tb_proof_boundary bundle)) \<and>
    tk_axioms_allowlist b = set (fs_axioms_allowlist (sc_formal (tb_contract bundle)))"
  using assms(2)
proof (cases rule: register_bundle_cases)
  case (tried a fidelity assurance artifact idem nonce r')
  let ?b = "bound_task bundle artifact fidelity assurance"
  let ?db = "am_between am (st_db st)"
  have inv: "event_inv ?db" using assms(1,3) event_inv_steps by (metis fair_ambient_def)
  obtain stored where reg: "register_locked (am_clk am) (am_ids am) (contract_binding ?b)
      \<lparr>ne_event_type = ''task.registered'', ne_payload = registration_payload ?b a, ne_metadata = []\<rparr> idem nonce ?db
      = Inr (stored, st_db st1)" and r': "r' = Inr stored"
    using tried(4) assms(5) by (cases rule: registration_cases) auto
  have b: "binding_from_event (hd stored) = Inr b" "same_logical_binding b ?b"
    using tried(5) [symmetric] r' by (auto simp: result_simps)
  have inv1: "event_inv (st_db st1)"
    using register_bundle_steps [OF assms(2,3)] assms(1) event_inv_steps by blast
  let ?e = "\<lparr>ne_event_type = ''task.registered'', ne_payload = registration_payload ?b a, ne_metadata = []\<rparr> :: NewEvent"
  obtain row where row: "events (st_db st1) = events ?db @ [row]" "in_stream ''task'' (tk_bundle_id ?b) row"
    "row_to_event row = Inr (hd stored)" "se_event_type (hd stored) = ''task.registered''"
    "current_sequence ?db ''task'' (tk_bundle_id ?b) = 0"
    using reg
  proof (cases rule: register_locked_cases)
    case (registered db1)
    show thesis
      using registered(2)
    proof (cases rule: append_locked_cases)
      case (wrote at0 at)
      have ids: "\<forall>k. am_ids am k \<noteq> []" using assms(3) by (simp add: fair_ambient_def)
      have "stored = stored_events (am_ids am) ''task'' (cb_bundle_id (contract_binding ?b)) 0 at 0 (length (events ?db)) [?e]"
        using events_by_ids_effect [OF _ wrote(2) _ ids wrote(6,7)] wrote(3,8) inv registration_event_wf
        by (simp add: event_inv_def)
      moreover have "map row_to_event (new_rows (am_ids am) ''task'' (cb_bundle_id (contract_binding ?b)) 0 at 0 (length (events ?db)) [?e])
          = map Inr (stored_events (am_ids am) ''task'' (cb_bundle_id (contract_binding ?b)) 0 at 0 (length (events ?db)) [?e])"
        by (rule new_rows_read) (simp add: registration_event_wf)
      ultimately show thesis
        using that registered(3) wrote(2,3) by (auto simp: contract_binding_def in_stream_def simp del: canonical_json.simps)
    qed simp
  qed (use assms(5) in simp_all)
  have id: "tk_bundle_id ?b = si_value (tb_bundle_id bundle)" by (simp add: bound_task_def binding_from_bundle_def Let_def)
  have "require_binding (st_db st2) (tk_bundle_id ?b) = Inr b"
    by (rule first_registration [OF inv inv1 row service_steps_events [OF assms(6)] b(1)])
  moreover have "f (b\<lparr>tk_bundle_artifact := tk_bundle_artifact ?b\<rparr>) = f ?b" for f :: "TaskBinding \<Rightarrow> string"
    using b(2) by (simp only: same_logical_binding_def)
  from this [of tk_bundle_hash] this [of tk_contract_hash] this [of tk_proof_boundary_hash]
  have "tk_bundle_hash b = tk_bundle_hash ?b" "tk_contract_hash b = tk_contract_hash ?b"
    "tk_proof_boundary_hash b = tk_proof_boundary_hash ?b"
    by simp_all
  moreover have "tk_axioms_allowlist (b\<lparr>tk_bundle_artifact := tk_bundle_artifact ?b\<rparr>) = tk_axioms_allowlist ?b"
    using b(2) by (simp only: same_logical_binding_def)
  ultimately show ?thesis
    using tried(1,2) id by (simp add: bound_task_def binding_from_bundle_def Let_def)
qed (use assms(4) in simp)

section \<open>Proof submissions\<close>

lemma written_submission:
  assumes "submit_proof am bundle_id l s key st = (r, st')" "wrote am st st'"
  shows "\<exists>b row. require_binding (st_db st) bundle_id = Inr b \<and> \<not> has_placeholder (ps_proof_source s) \<and>
    si_value (ps_contract_id s) = tk_contract_id b \<and> ps_revision s = tk_revision b \<and>
    dg_value (ps_contract_hash s) = tk_contract_hash b \<and> dg_value (ps_environment_hash s) = tk_environment_hash b \<and>
    dg_value (ps_proof_boundary_hash s) = tk_proof_boundary_hash b \<and>
    ls_job_id l = bundle_id \<and> assert_current (am_clk am 2) l (am_between am (st_db st)) = Inr () \<and>
    events (st_db st') = events (am_between am (st_db st)) @ [row] \<and> er_event_type row = ''proof.submitted'' \<and>
    er_entity_id row = si_value (ps_proof_id s)"
  using assms(1) unfolding submit_proof_def
proof (cases rule: fenced_command_cases)
  case (tried b idem artifact r')
  have "st_db st' \<noteq> am_between am (st_db st)" using assms(2) by (simp add: wrote_def)
  note w = append_fenced_wrote [OF tried(4) this]
  have "\<not> has_placeholder (ps_proof_source s)" "validate_proof_binding b s = Inr ()"
    using tried(3) by (auto simp: result_simps)
  then show ?thesis
    using tried(1) w by (auto simp: validate_proof_binding_def validate_report_binding_def result_simps)
qed (use assms(2) in \<open>simp add: wrote_def\<close>)

text \<open>
  C7. Only admissible proofs are recorded: whenever \<open>submit_proof\<close> writes, the proof source has
  no placeholder, the submission names the contract, revision, environment and proof boundary
  of the registered bundle, the lease was current in the committing transaction, and what is
  written is one \<open>proof.submitted\<close> event.
\<close>

theorem submitted_proof_is_admissible:
  "case submit_proof am bundle_id l s key st of (r, st') \<Rightarrow>
    st_db st' \<in> {st_db st, am_between am (st_db st)} \<or>
    (\<exists>b row. require_binding (st_db st) bundle_id = Inr b \<and> \<not> has_placeholder (ps_proof_source s) \<and>
    si_value (ps_contract_id s) = tk_contract_id b \<and> ps_revision s = tk_revision b \<and>
    dg_value (ps_contract_hash s) = tk_contract_hash b \<and> dg_value (ps_environment_hash s) = tk_environment_hash b \<and>
    dg_value (ps_proof_boundary_hash s) = tk_proof_boundary_hash b \<and>
    ls_job_id l = bundle_id \<and> assert_current (am_clk am 2) l (am_between am (st_db st)) = Inr () \<and>
    events (st_db st') = events (am_between am (st_db st)) @ [row] \<and> er_event_type row = ''proof.submitted'' \<and>
    er_entity_id row = si_value (ps_proof_id s))"
proof -
  obtain r st' where v: "submit_proof am bundle_id l s key st = (r, st')" by fastforce
  show ?thesis
    unfolding v prod.case
    by (cases "wrote am st st'") (use written_submission [OF v] in blast, simp add: wrote_def)
qed

definition untouched :: "ambient \<Rightarrow> cp_state \<Rightarrow> 'a result \<times> cp_state \<Rightarrow> bool" where
  "untouched am st run = (case run of (Inl e, st') \<Rightarrow> st_db st' \<in> {st_db st, am_between am (st_db st)} | (Inr _, _) \<Rightarrow> True)"

text \<open>
  C6. A refused command leaves no trace in the database: when \<open>verify_submission\<close>,
  \<open>submit_proof\<close>, \<open>report_gap\<close> or \<open>request_contract_change\<close> ends in an error, whether from a
  check, the blob store or the final transaction, the database is as the other clients left it.
\<close>

theorem refused_commands_write_nothing:
  "untouched am st (verify_submission cp am bundle_id l report key st) \<and>
   untouched am st (submit_proof am bundle_id l s key st) \<and>
   untouched am st (report_gap am bundle_id l g key st) \<and>
   untouched am st (request_contract_change am bundle_id l c key st)"
proof -
  have fenced: "untouched am st (fenced_command am bundle_id l scope label key dump check et ei event_type payload st)"
    for scope label dump check et ei event_type payload
  proof -
    obtain r st' where v: "fenced_command am bundle_id l scope label key dump check et ei event_type payload st = (r, st')" by fastforce
    show ?thesis
      using v by (cases rule: fenced_command_cases)
        (use v append_fenced_wrote in \<open>fastforce simp: untouched_def split: sum.splits\<close>)+
  qed
  obtain r st' where v: "verify_submission cp am bundle_id l report key st = (r, st')" by fastforce
  have "untouched am st (verify_submission cp am bundle_id l report key st)"
    using verdict_sequences(3) [OF v] v by (auto simp: untouched_def wrote_def split: sum.splits)
  then show ?thesis using fenced unfolding submit_proof_def report_gap_def request_contract_change_def by blast
qed

section \<open>The scanner for placeholders\<close>

definition last_char :: "string \<Rightarrow> char option" where
  "last_char s = (if s = [] then None else Some (last s))"

definition placeholder_at :: "char option \<Rightarrow> string \<Rightarrow> bool" where
  "placeholder_at before s \<longleftrightarrow> (\<exists>w v. s = w @ v \<and> (w = ''sorryAx'' \<or>
     w \<in> {''sorry'', ''admit''} \<and> word_break before \<and> word_break (first_char v)))"

lemma hits_split:
  "(\<exists>w v. s = w @ v \<and> (w = x \<or> w \<in> W \<and> A \<and> B v)) \<longleftrightarrow> (\<exists>v. s = x @ v) \<or> (\<exists>w \<in> W. \<exists>v. s = w @ v \<and> A \<and> B v)"
  by blast

lemma hits_split_ctx:
  "(\<exists>u w v. s = u @ w @ v \<and> (w = x \<or> w \<in> W \<and> A u \<and> B v)) \<longleftrightarrow>
     (\<exists>u v. s = u @ x @ v) \<or> (\<exists>u w v. s = u @ w @ v \<and> w \<in> W \<and> A u \<and> B v)"
  by blast

lemma placeholder_at_code:
  "placeholder_at before s \<longleftrightarrow>
     list_ex (\<lambda>w. prefix w s \<and> word_break before \<and> word_break (first_char (drop (length w) s))) [''sorry'', ''admit''] \<or>
     prefix ''sorryAx'' s"
proof -
  have hit: "prefix w s \<and> P (drop (length w) s) \<longleftrightarrow> (\<exists>v. s = w @ v \<and> P v)" for w P
    by (auto simp: prefix_def)
  have "placeholder_at before s \<longleftrightarrow> prefix ''sorryAx'' s \<or>
      (\<exists>w \<in> set [''sorry'', ''admit'']. \<exists>v. s = w @ v \<and> word_break before \<and> word_break (first_char v))"
    unfolding placeholder_at_def hits_split prefix_def by simp
  then show ?thesis
    unfolding list_ex_iff hit [where P = "\<lambda>v. word_break before \<and> word_break (first_char v)"] by (simp only: disj_commute)
qed

lemma placeholder_from_iff:
  "placeholder_from before s \<longleftrightarrow>
     (\<exists>u t. s = u @ t \<and> placeholder_at (if u = [] then before else last_char u) t)"
proof (induction s arbitrary: before)
  case Nil
  then show ?case by (auto simp: placeholder_at_def)
next
  case (Cons c s)
  have "(\<exists>u t. c # s = u @ t \<and> placeholder_at (if u = [] then before else last_char u) t) \<longleftrightarrow>
      placeholder_at before (c # s) \<or> (\<exists>u t. s = u @ t \<and> placeholder_at (if u = [] then Some c else last_char u) t)"
    (is "(\<exists>u t. ?P u t) = (_ \<or> (\<exists>u t. ?Q u t))")
  proof -
    have "?P (c # u) t \<longleftrightarrow> ?Q u t" for u t by (auto simp: last_char_def)
    moreover have "?P u t \<Longrightarrow> u = [] \<and> t = c # s \<or> (\<exists>u'. u = c # u')" for u t by (cases u) auto
    moreover have "?P [] t \<longleftrightarrow> t = c # s \<and> placeholder_at before (c # s)" for t by auto
    ultimately show ?thesis by (smt (verit, del_insts))
  qed
  then show ?case using Cons.IH [of "Some c"] placeholder_at_code by simp
qed

text \<open>
  C8. The scanner for placeholders is the regular expression it stands for: it finds exactly the
  texts that contain \<open>sorryAx\<close>, or the word \<open>sorry\<close> or \<open>admit\<close> with no word character on either side.
\<close>

theorem placeholder_scanner_correct:
  "has_placeholder s \<longleftrightarrow>
     sublist ''sorryAx'' s \<or>
     (\<exists>u w v. s = u @ w @ v \<and> w \<in> {''sorry'', ''admit''} \<and> word_break (last_char u) \<and> word_break (first_char v))"
proof -
  have "(if u = [] then None else last_char u) = last_char u" for u by (simp add: last_char_def)
  then have "has_placeholder s \<longleftrightarrow> (\<exists>u t. s = u @ t \<and> placeholder_at (last_char u) t)"
    unfolding has_placeholder_def placeholder_from_iff by simp
  also have "\<dots> \<longleftrightarrow> (\<exists>u w v. s = u @ w @ v \<and> (w = ''sorryAx'' \<or>
      w \<in> {''sorry'', ''admit''} \<and> word_break (last_char u) \<and> word_break (first_char v)))"
    unfolding placeholder_at_def by (simp only: ex_simps(1) [symmetric] ex_simps(2) [symmetric]) blast
  also have "\<dots> \<longleftrightarrow> (\<exists>u v. s = u @ ''sorryAx'' @ v) \<or>
     (\<exists>u w v. s = u @ w @ v \<and> w \<in> {''sorry'', ''admit''} \<and> word_break (last_char u) \<and> word_break (first_char v))"
    by (rule hits_split_ctx)
  finally show ?thesis unfolding sublist_def .
qed

section \<open>Witnesses\<close>

lemma demo_fair: "fair_ambient demo_ambient"
  by (simp add: fair_ambient_def demo_ambient_def)

text \<open>The sample verdict is written, and earned, unless the bytes of its report collide with stored bytes.\<close>

theorem verdict_is_earned_witness:
  "(\<exists>outcome st' b. verify_submission demo_cp demo_ambient (si_value (sample_id ''bundle'')) demo_lease demo_report ''k'' demo_state
      = (Inr outcome, st') \<and> vo_accepted outcome \<and> clean_report b demo_report) \<or>
   (\<exists>stored \<in> {''{}'', demo_artifact_bytes}.
      collides sha256_hexdigest stored (utf8 (canonical_json (dump_VerificationReportV1 demo_report))))"
proof (rule disjE [OF demo_verdict])
  assume "\<exists>outcome st'. verify_submission demo_cp demo_ambient (si_value (sample_id ''bundle'')) demo_lease demo_report ''k'' demo_state
      = (Inr outcome, st') \<and> vo_accepted outcome \<and> events (st_db st') \<noteq> events demo_events_db"
  then obtain outcome st' where v: "verify_submission demo_cp demo_ambient (si_value (sample_id ''bundle'')) demo_lease demo_report ''k''
      demo_state = (Inr outcome, st')" "vo_accepted outcome" "events (st_db st') \<noteq> events demo_events_db" by blast
  have "st_db st' \<notin> {st_db demo_state, am_between demo_ambient (st_db demo_state)}"
    using v(3) by (auto simp: demo_state_def demo_ambient_def)
  then have "\<exists>b. clean_report b demo_report"
    using verdict_is_earned [where cp = demo_cp and am = demo_ambient and bundle_id = "si_value (sample_id ''bundle'')" and
        l = demo_lease and report = demo_report and key = "''k''" and st = demo_state]
      v(1,2) by auto
  then show ?thesis using v(1,2) by blast
qed blast

theorem verdict_is_final_witness:
  "\<exists>db r st3. event_inv db \<and> length (events db) = 1 \<and>
     verify_submission demo_cp demo_ambient (si_value (sample_id ''bundle'')) demo_lease demo_report ''k'' \<lparr>st_db = db, st_files = demo_fs\<rparr>
       = (r, st3) \<and> st_db st3 = db"
proof -
  define db where "db = append_effect (demo_ids (CHR ''p'')) ''verification'' (si_value (sample_id ''proof'')) 0 [demo_proof_event]
    None None ''t'' ''t'' empty_store"
  let ?st = "\<lparr>st_db = db, st_files = demo_fs\<rparr>"
  have seq: "current_sequence empty_store ''verification'' (si_value (sample_id ''proof'')) = 0"
    by (simp add: current_sequence_def empty_store_def)
  have wf: "list_all event_wf [demo_proof_event]" using demo_events_wf by (simp add: demo_proof_event_def)
  have inv: "event_inv db"
    unfolding db_def by (rule event_inv_effect [OF empty_store_inv seq wf]) (simp_all add: empty_store_def)
  obtain row where row: "events db = [row]" "er_entity_type row = ''verification''" "er_entity_id row = si_value (sample_id ''proof'')"
    by (simp add: db_def append_effect_def empty_store_def del: canonical_json.simps)
  obtain r st3 where v: "verify_submission demo_cp demo_ambient (si_value (sample_id ''bundle'')) demo_lease demo_report ''k'' ?st = (r, st3)"
    by fastforce
  have "st_db st3 \<in> {st_db ?st, am_between demo_ambient (st_db ?st)}"
    by (rule verdict_is_final [where st = ?st and row = row and cp = demo_cp, OF _ _ _ _ _ v demo_fair])
      (use inv row in simp_all)
  then show ?thesis using v inv row(1) by (intro exI [of _ db] exI [of _ r] exI [of _ st3]) (simp add: demo_ambient_def)
qed

theorem registration_is_permanent_witness:
  "\<exists>b st1. register_bundle demo_builder_cp demo_ambient demo_bundle ''k'' \<lparr>st_db = empty_store, st_files = sample_store\<rparr> = (Inr b, st1)
     \<and> require_binding (st_db st1) (si_value (sample_id ''bundle'')) = Inr b"
proof -
  obtain b st1 where r: "register_bundle demo_builder_cp demo_ambient demo_bundle ''k'' \<lparr>st_db = empty_store, st_files = sample_store\<rparr>
      = (Inr b, st1)" "events (st_db st1) \<noteq> []" using demo_registered by blast
  have "events empty_store = []" by (simp add: empty_store_def)
  then have "require_binding (st_db st1) (si_value (tb_bundle_id demo_bundle)) = Inr b"
    using registration_is_permanent [OF _ r(1) demo_fair _ _ rtranclp.rtrancl_refl] r(2) empty_store_inv
    by (auto simp: demo_ambient_def)
  then show ?thesis using r(1) by auto
qed

end
