(* ===== verification/Projection.thy ===== *)
theory Projection
  imports Events Payloads "HOL-Library.AList" "HOL-Library.Product_Lexorder"
begin

text \<open>
  \<open>projection.py\<close>: the read-only dashboard snapshot, rebuilt from stored events. Python
  dictionaries, which keep the order of insertion, are association lists with
  \<open>AList.update\<close>; the sets whose iteration order is left open by Python are lists in order of
  insertion, and no result depends on that order. The reading of the clock is an argument.
  Writing the exported file is not modelled, its bytes are.
\<close>

section \<open>Access to payloads\<close>

definition pj_optional_text :: "json_object \<Rightarrow> string \<Rightarrow> string option" where
  "pj_optional_text payload k = (case get_value payload k of JStr s \<Rightarrow> if s = [] then None else Some s | _ \<Rightarrow> None)"

definition pj_optional_list :: "json_object \<Rightarrow> string \<Rightarrow> json list" where
  "pj_optional_list payload k = (case get_value payload k of JList vs \<Rightarrow> vs | _ \<Rightarrow> [])"

definition pj_optional_int :: "json_object \<Rightarrow> string \<Rightarrow> int option" where
  "pj_optional_int payload k = (case get_value payload k of JInt i \<Rightarrow> if i \<ge> 0 then Some i else None | _ \<Rightarrow> None)"

text \<open>
  \<open>float(i)\<close> prints as below for the integers up to \<open>2 ^ 53\<close>; a larger cost, which the source rounds, is
  outside the model.
\<close>

definition pj_optional_float :: "json_object \<Rightarrow> string \<Rightarrow> string option" where
  "pj_optional_float payload k =
     (case get_value payload k of
        JInt i \<Rightarrow> if i < 0 then None else Some (int_text i @ ''.0'')
      | JFloat t \<Rightarrow> if float_ge_zero t then Some t else None
      | _ \<Rightarrow> None)"

definition text_or :: "string option \<Rightarrow> string \<Rightarrow> string" where
  "text_or x d = (case x of None \<Rightarrow> d | Some s \<Rightarrow> s)"

definition artifact_digest :: "json_object \<Rightarrow> string \<Rightarrow> string option" where
  "artifact_digest payload k = (case get_value payload k of JObj a \<Rightarrow> pj_optional_text a ''digest'' | _ \<Rightarrow> None)"

definition event_task_id :: "StoredEvent \<Rightarrow> string option" where
  "event_task_id event =
     (case pj_optional_text (se_payload event) ''bundle_id'' of
        Some i \<Rightarrow> Some i
      | None \<Rightarrow> if se_entity_type event = ''task'' \<and> se_entity_id event \<noteq> [] then Some (se_entity_id event) else None)"

definition value_or :: "json_object \<Rightarrow> string \<Rightarrow> json \<Rightarrow> json" where
  "value_or payload k d = (case obj_get payload k of None \<Rightarrow> d | Some v \<Rightarrow> v)"

definition verification_accepted :: "StoredEvent \<Rightarrow> bool result" where
  "verification_accepted event =
     (let payload = se_payload event in
     bindE (require (value_or payload ''promotion_state'' (JStr ''not_a_promotion'') = JStr ''not_a_promotion'')
       (ProjectionError ''local verification event claims promotion authority'')) (\<lambda>_.
     bindE (require (value_or payload ''execution_authority_class'' (JStr ''test-only-local'') = JStr ''test-only-local'')
       (ProjectionError ''local verification event claims a production authority'')) (\<lambda>_.
     case get_value payload ''accepted'' of
       JBool accepted \<Rightarrow>
         bindE (require (se_event_type event = (if accepted then ''verification.accepted'' else ''verification.rejected''))
           (ProjectionError ''verification event type conflicts with its acceptance flag'')) (\<lambda>_. Inr accepted)
     | _ \<Rightarrow> Inl (ProjectionError ''verification acceptance flag must be a boolean''))))"

section \<open>Public views\<close>

definition public_id :: "string \<Rightarrow> string \<Rightarrow> string \<Rightarrow> string" where
  "public_id bundle_id graph identifier = ''dashboard-node|'' @ bundle_id @ ''|'' @ graph @ ''|'' @ identifier"

fun nonempty_texts :: "json list \<Rightarrow> string list" where
  "nonempty_texts [] = []"
| "nonempty_texts (JStr s # vs) = (if s = [] then nonempty_texts vs else s # nonempty_texts vs)"
| "nonempty_texts (_ # vs) = nonempty_texts vs"

definition public_identity_node :: "json_object \<Rightarrow> string option \<Rightarrow> json_object option" where
  "public_identity_node raw event_bundle_id =
     (case (pj_optional_text raw ''id'', pj_optional_text raw ''graph'',
            (case event_bundle_id of None \<Rightarrow> pj_optional_text raw ''bundle_id'' | Some b \<Rightarrow> Some b),
            pj_optional_text raw ''label'', pj_optional_text raw ''status'', pj_optional_int raw ''revision'', pj_optional_text raw ''kind'') of
        (Some source_node_id, Some graph, Some bundle_id, Some label, Some status, Some revision, Some kind) \<Rightarrow>
          if graph \<notin> {''mathematical'', ''formal'', ''execution''} \<or> revision < 1 then None
          else Some (json_object_of
            [(''bundle_id'', JStr bundle_id),
             (''dependencies'', JStrs (map (public_id bundle_id graph) (nonempty_texts (pj_optional_list raw ''dependencies'')))),
             (''graph'', JStr graph), (''id'', JStr (public_id bundle_id graph source_node_id)), (''kind'', JStr kind),
             (''label'', JStr label), (''revision'', JInt revision), (''source_node_id'', JStr source_node_id),
             (''status'', JStr status), (''task_id'', JStr bundle_id),
             (''updated_at'', JOpt JStr (pj_optional_text raw ''updated_at''))])
      | _ \<Rightarrow> None)"

definition public_node :: "json_object \<Rightarrow> json_object" where
  "public_node node = json_object_of (filter (\<lambda>kv. fst kv \<noteq> ''bundle_id'') node)"

definition run_from_submission :: "json_object \<Rightarrow> string \<Rightarrow> json_object" where
  "run_from_submission payload proof_id = json_object_of
     [(''id'', JStr proof_id), (''task_id'', JStr (text_or (pj_optional_text payload ''bundle_id'') ''unknown'')),
      (''provider'', JStr (text_or (pj_optional_text payload ''provider'') ''unattributed'')),
      (''model'', JStr (text_or (pj_optional_text payload ''model'') ''unattributed'')), (''status'', JStr ''candidate''),
      (''verification'', JStr ''pending''), (''duration_ms'', JOpt JInt (pj_optional_int payload ''duration_ms'')),
      (''input_tokens'', JInt (case pj_optional_int payload ''input_tokens'' of None \<Rightarrow> 0 | Some i \<Rightarrow> i)),
      (''output_tokens'', JInt (case pj_optional_int payload ''output_tokens'' of None \<Rightarrow> 0 | Some i \<Rightarrow> i)),
      (''cost_usd'', JFloat (case pj_optional_float payload ''cost_usd'' of None \<Rightarrow> ''0.0''
         | Some t \<Rightarrow> if fst (float_scaled t) = 0 then ''0.0'' else t))]"

definition capture_artifact :: "json_object \<Rightarrow> string \<Rightarrow> (string \<times> json_object) list \<Rightarrow> (string \<times> json_object) list" where
  "capture_artifact payload k target =
     (case get_value payload k of
        JObj artifact \<Rightarrow>
          (case pj_optional_text artifact ''digest'' of
             None \<Rightarrow> target
           | Some digest \<Rightarrow> AList.update digest (json_object_of
               [(''digest'', JStr digest),
                (''media_type'', JStr (text_or (pj_optional_text artifact ''media_type'') ''application/octet-stream'')),
                (''size'', value_or artifact ''size'' (JInt 0)),
                (''kind'', JStr (text_or (pj_optional_text artifact ''kind'') ''artifact''))]) target)
      | _ \<Rightarrow> target)"

definition event_view :: "StoredEvent \<Rightarrow> string option \<Rightarrow> json_object" where
  "event_view event task_id = json_object_of
     [(''sequence'', JInt (se_global_position event)), (''event_type'', JStr (se_event_type event)),
      (''entity_id'', JStr (text_or task_id (se_entity_id event))), (''task_id'', JOpt JStr task_id),
      (''occurred_at'', JStr (se_recorded_at event)),
      (''summary'', JStr (replace_char (CHR ''.'') '' '' (se_event_type event)))]"

definition set_task_status :: "string \<Rightarrow> string \<Rightarrow> (string \<times> json_object) list \<Rightarrow> (string \<times> json_object) list" where
  "set_task_status bundle_id status nodes = map (\<lambda>(i, node).
     (i, if get_value node ''bundle_id'' = JStr bundle_id then AList.update ''status'' (JStr status) node else node)) nodes"

section \<open>Leverage of mathematical nodes\<close>

text \<open>
  \<open>_transitive_dependents\<close>: the stack \<open>pending\<close> (here \<open>todo\<close>) is kept with its top first, so that \<open>pop\<close> takes
  the head and \<open>extend\<close> puts the new items, reversed, in front.
\<close>

function transitive_loop ::
  "(string \<times> string list) list \<Rightarrow> string \<Rightarrow> string list \<Rightarrow> string list \<Rightarrow> string list result" where
  "transitive_loop dependents node_id [] seen = Inr seen"
| "transitive_loop dependents node_id (candidate # todo) seen =
     (if candidate \<in> set seen \<or> candidate = node_id then transitive_loop dependents node_id todo seen
      else case map_of dependents candidate of
             None \<Rightarrow> Inl (KeyError candidate)
           | Some next \<Rightarrow> transitive_loop dependents node_id (rev next @ todo) (candidate # seen))"
  by pat_completeness auto

termination
proof (relation "measures [\<lambda>(d, n, todo, seen). card (fst ` set d - set seen), \<lambda>(d, n, todo, seen). length todo]")
  fix d :: "(string \<times> string list) list" and n c todo seen "next"
  assume new: "\<not> (c \<in> set seen \<or> c = n)" and found: "map_of d c = Some next"
  have "c \<in> fst ` set d" using map_of_SomeD [OF found] by force
  then have "fst ` set d - set (c # seen) \<subset> fst ` set d - set seen" using new by auto
  then show "((d, n, rev next @ todo, c # seen), d, n, c # todo, seen)
      \<in> measures [\<lambda>(d, n, todo, seen). card (fst ` set d - set seen), \<lambda>(d, n, todo, seen). length todo]"
    by (simp add: psubset_card_mono)
qed auto

definition transitive_dependents :: "(string \<times> string list) list \<Rightarrow> string \<Rightarrow> nat result" where
  "transitive_dependents dependents node_id =
     (case map_of dependents node_id of
        None \<Rightarrow> Inl (KeyError node_id)
      | Some first \<Rightarrow> bindE (transitive_loop dependents node_id (rev first) []) (\<lambda>seen. Inr (length seen)))"

record leverage_row =
  lv_node_id :: string
  lv_source_node_id :: string
  lv_label :: string
  lv_direct_dependents :: int
  lv_transitive_dependents :: "int option"

record MathematicalDependencyLeverage =
  ml_node_count :: int
  ml_mode :: string
  ml_rows :: "leverage_row list"

definition exact_transitive_leverage_node_limit :: nat where
  "exact_transitive_leverage_node_limit = 512"

text \<open>
  The text of a field of a node. The source reads \<open>node["id"]\<close>, which raises on a node without one; its only
  caller passes nodes the projection itself made, all with an \<open>id\<close>, so the \<open>[]\<close> below is never read there.
\<close>

definition node_text :: "json_object \<Rightarrow> string \<Rightarrow> string" where
  "node_text node k = (case get_value node k of JStr s \<Rightarrow> s | _ \<Rightarrow> [])"

definition set_add :: "string \<Rightarrow> string list \<Rightarrow> string list" where
  "set_add x xs = (if x \<in> set xs then xs else xs @ [x])"

definition add_dependent :: "string \<Rightarrow> string \<Rightarrow> (string \<times> string list) list \<Rightarrow> (string \<times> string list) list" where
  "add_dependent node_id dependency dependents =
     (case map_of dependents dependency of
        None \<Rightarrow> dependents
      | Some xs \<Rightarrow> AList.update dependency (set_add node_id xs) dependents)"

definition node_dependents :: "json_object list \<Rightarrow> (string \<times> string list) list" where
  "node_dependents task_nodes =
     fold (\<lambda>node. fold (add_dependent (node_text node ''id'')) (nonempty_texts (pj_optional_list node ''dependencies''))) task_nodes
       (map (\<lambda>i. (i, [])) (remdups (map (\<lambda>node. node_text node ''id'') task_nodes)))"

definition leverage_of :: "(string \<times> string list) list \<Rightarrow> bool \<Rightarrow> json_object \<Rightarrow> leverage_row result" where
  "leverage_of dependents exact node =
     (let node_id = node_text node ''id'' in
     bindE (if exact then bindE (transitive_dependents dependents node_id) (\<lambda>n. Inr (Some (int n))) else Inr None) (\<lambda>transitive.
     Inr \<lparr>lv_node_id = node_id, lv_source_node_id = text_or (pj_optional_text node ''source_node_id'') node_id,
          lv_label = text_or (pj_optional_text node ''label'') node_id,
          lv_direct_dependents = int (length (case map_of dependents node_id of None \<Rightarrow> [] | Some xs \<Rightarrow> xs)),
          lv_transitive_dependents = transitive\<rparr>))"

definition task_leverage :: "json_object list \<Rightarrow> MathematicalDependencyLeverage result" where
  "task_leverage task_nodes =
     (let exact = length task_nodes \<le> exact_transitive_leverage_node_limit in
     bindE (map_resultE (leverage_of (node_dependents task_nodes) exact) task_nodes) (\<lambda>projected. Inr
       \<lparr>ml_node_count = int (length task_nodes), ml_mode = (if exact then ''exact_transitive'' else ''direct_only_over_limit''),
        ml_rows =
          (if exact then sort_key (\<lambda>r. (- the (lv_transitive_dependents r), - lv_direct_dependents r, lv_node_id r)) projected
           else sort_key (\<lambda>r. (- lv_direct_dependents r, lv_node_id r)) projected)\<rparr>))"

definition add_task_node :: "json_object \<Rightarrow> (string \<times> json_object list) list \<Rightarrow> (string \<times> json_object list) list" where
  "add_task_node node by_task =
     (if get_value node ''graph'' \<noteq> JStr ''mathematical'' then by_task
      else case pj_optional_text node ''bundle_id'' of
        None \<Rightarrow> by_task
      | Some task_id \<Rightarrow>
          AList.update task_id ((case map_of by_task task_id of None \<Rightarrow> [] | Some ns \<Rightarrow> ns) @ [node]) by_task)"

definition mathematical_dependency_leverage ::
  "(string \<times> json_object) list \<Rightarrow> (string \<times> MathematicalDependencyLeverage) list result" where
  "mathematical_dependency_leverage nodes =
     map_resultE (\<lambda>(task_id, task_nodes). bindE (task_leverage task_nodes) (\<lambda>l. Inr (task_id, l)))
       (fold add_task_node (map snd nodes) [])"

definition leverage_row_view :: "leverage_row \<Rightarrow> json" where
  "leverage_row_view r = JObj (json_object_of
     [(''node_id'', JStr (lv_node_id r)), (''source_node_id'', JStr (lv_source_node_id r)), (''label'', JStr (lv_label r)),
      (''direct_dependents'', JInt (lv_direct_dependents r)), (''transitive_dependents'', JOpt JInt (lv_transitive_dependents r))])"

section \<open>Phase feedback\<close>

record PhaseFeedbackState =
  ph_task_id :: string
  ph_registration_event :: StoredEvent
  ph_builder_fidelity :: json_object
  ph_relevant_events :: "StoredEvent list"
  ph_submitted_proof_ids :: "string list"
  ph_accepted_proof_ids :: "string list"
  ph_rejected_proof_ids :: "string list"
  ph_unresolved_review_ids :: "string list"
  ph_unresolved_reviews :: "json_object list"
  ph_milestones :: "json_object list"

definition prover_verification_state :: "string list \<Rightarrow> string list \<Rightarrow> string list \<Rightarrow> string list \<Rightarrow> string" where
  "prover_verification_state submitted pending_ids accepted rejected =
     (if submitted = [] then ''not_submitted''
      else if length (filter (\<lambda>items. items \<noteq> []) [pending_ids, accepted, rejected]) > 1 then ''mixed_candidates''
      else if pending_ids \<noteq> [] then ''candidate_pending_verification''
      else if accepted \<noteq> [] then ''verified_candidate_available''
      else ''all_candidates_rejected'')"

definition attestation_keys :: "string list" where
  "attestation_keys = [''purpose'', ''key_id'', ''payload_hash'', ''evidence_identity'', ''expires_at'']"

definition phase_feedback_registration :: "StoredEvent \<Rightarrow> string option \<Rightarrow> PhaseFeedbackState option" where
  "phase_feedback_registration event task_id =
     (let payload = se_payload event in
      case (task_id, pj_optional_text payload ''contract_id'', pj_optional_int payload ''revision'',
            pj_optional_text payload ''contract_hash'', pj_optional_text payload ''bundle_hash'', get_value payload ''builder_attestation'') of
        (Some task_id, Some contract_id, Some revision, Some contract_hash, Some bundle_hash, JObj builder_attestation) \<Rightarrow>
          if revision < 1 \<or> list_ex (\<lambda>k. pj_optional_text builder_attestation k = None) attestation_keys then None
          else
            let evidence_digest = artifact_digest payload ''fidelity_evidence_artifact'' in
            Some \<lparr>ph_task_id = task_id, ph_registration_event = event,
              ph_builder_fidelity = json_object_of
                [(''state'', JStr (if evidence_digest \<noteq> None then ''frozen_attested_with_evidence''
                   else ''frozen_attested_without_public_evidence'')),
                 (''contract_id'', JStr contract_id), (''revision'', JInt revision), (''contract_hash'', JStr contract_hash),
                 (''bundle_hash'', JStr bundle_hash), (''registration_event_sequence'', JInt (se_global_position event)),
                 (''registration_event_id'', JStr (se_event_id event)), (''registered_at'', JStr (se_recorded_at event)),
                 (''evidence_digest'', JOpt JStr evidence_digest)],
              ph_relevant_events = [], ph_submitted_proof_ids = [], ph_accepted_proof_ids = [], ph_rejected_proof_ids = [],
              ph_unresolved_review_ids = [], ph_unresolved_reviews = [], ph_milestones = []\<rparr>
      | _ \<Rightarrow> None)"

definition text_only :: "json \<Rightarrow> json" where
  "text_only v = (case v of JStr s \<Rightarrow> JStr s | _ \<Rightarrow> JNull)"

definition feedback_milestone ::
  "string \<Rightarrow> string \<Rightarrow> StoredEvent \<Rightarrow> json \<Rightarrow> string option \<Rightarrow> json \<Rightarrow> json_object" where
  "feedback_milestone phase state event evidence_digest proof_id review_assumption_id = json_object_of
     [(''phase'', JStr phase), (''state'', JStr state), (''source_event_sequence'', JInt (se_global_position event)),
      (''source_event_id'', JStr (se_event_id event)), (''occurred_at'', JStr (se_recorded_at event)),
      (''evidence_digest'', text_only evidence_digest), (''proof_id'', JOpt JStr proof_id),
      (''review_assumption_id'', text_only review_assumption_id)]"

definition unresolved_review_assumption :: "StoredEvent \<Rightarrow> json_object" where
  "unresolved_review_assumption event =
     (let payload = se_payload event; is_gap = (se_event_type event = ''gap.reported'') in json_object_of
     [(''id'', JStr (text_or (pj_optional_text payload (if is_gap then ''report_id'' else ''request_id'')) (se_event_id event))),
      (''kind'', JStr (if is_gap then ''gap'' else ''contract_change'')), (''state'', JStr ''unresolved''),
      (''source_event_sequence'', JInt (se_global_position event)), (''source_event_id'', JStr (se_event_id event)),
      (''opened_at'', JStr (se_recorded_at event)),
      (''evidence_digest'', JOpt JStr (artifact_digest payload (if is_gap then ''gap_artifact'' else ''request_artifact'')))])"

fun fold_resultE :: "('a \<Rightarrow> 'b \<Rightarrow> 'b result) \<Rightarrow> 'a list \<Rightarrow> 'b \<Rightarrow> 'b result" where
  "fold_resultE f [] s = Inr s"
| "fold_resultE f (x # xs) s = bindE (f x s) (fold_resultE f xs)"

type_synonym feedback_states = "(string \<times> PhaseFeedbackState) list"

text \<open>The first loop of \<open>_phase_feedback\<close>: one state per complete registration.\<close>

definition register_feedback :: "StoredEvent \<Rightarrow> feedback_states \<Rightarrow> feedback_states result" where
  "register_feedback event states =
     (if se_event_type event \<noteq> ''task.registered'' then Inr states
      else case phase_feedback_registration event (event_task_id event) of
        None \<Rightarrow> Inr states
      | Some state \<Rightarrow>
          bindE (require (map_of states (ph_task_id state) = None)
            (ProjectionError ''duplicate registered bundle in phase feedback projection'')) (\<lambda>_.
          Inr (AList.update (ph_task_id state) state states)))"

definition submitted_proof_id :: "StoredEvent \<Rightarrow> string" where
  "submitted_proof_id event = text_or (pj_optional_text (se_payload event) ''proof_id'') (se_entity_id event)"

definition is_verification :: "StoredEvent \<Rightarrow> bool" where
  "is_verification event \<longleftrightarrow> prefix ''verification.'' (se_event_type event)"

definition is_review :: "StoredEvent \<Rightarrow> bool" where
  "is_review event \<longleftrightarrow> se_event_type event \<in> {''gap.reported'', ''contract_change.requested''}"

definition feedback_registered :: "StoredEvent \<Rightarrow> PhaseFeedbackState \<Rightarrow> PhaseFeedbackState" where
  "feedback_registered event state = state
     \<lparr>ph_relevant_events := ph_relevant_events state @ [event],
      ph_milestones := ph_milestones state @ [feedback_milestone ''builder_fidelity'' ''recorded'' event
        (get_value (ph_builder_fidelity state) ''evidence_digest'') None JNull]\<rparr>"

definition feedback_submitted :: "StoredEvent \<Rightarrow> PhaseFeedbackState \<Rightarrow> PhaseFeedbackState result" where
  "feedback_submitted event state =
     (let proof_id = submitted_proof_id event in
     bindE (require (proof_id \<notin> set (ph_submitted_proof_ids state))
       (ProjectionError ''duplicate proof submission in phase feedback projection'')) (\<lambda>_. Inr (state
     \<lparr>ph_relevant_events := ph_relevant_events state @ [event],
      ph_submitted_proof_ids := ph_submitted_proof_ids state @ [proof_id],
      ph_milestones := ph_milestones state @ [feedback_milestone ''prover_candidate'' ''pending'' event
        (JOpt JStr (artifact_digest (se_payload event) ''proof_artifact'')) (Some proof_id) JNull]\<rparr>)))"

definition feedback_verified :: "StoredEvent \<Rightarrow> PhaseFeedbackState \<Rightarrow> PhaseFeedbackState result" where
  "feedback_verified event state =
     (case pj_optional_text (se_payload event) ''proof_id'' of
        None \<Rightarrow> Inl (ProjectionError ''phase feedback verification has no matching proof submission'')
      | Some proof_id \<Rightarrow>
     bindE (require (proof_id \<in> set (ph_submitted_proof_ids state))
       (ProjectionError ''phase feedback verification has no matching proof submission'')) (\<lambda>_.
     bindE (require (proof_id \<notin> set (ph_accepted_proof_ids state) \<and> proof_id \<notin> set (ph_rejected_proof_ids state))
       (ProjectionError ''duplicate terminal verification in phase feedback projection'')) (\<lambda>_.
     bindE (verification_accepted event) (\<lambda>accepted. Inr (state
     \<lparr>ph_relevant_events := ph_relevant_events state @ [event],
      ph_accepted_proof_ids := ph_accepted_proof_ids state @ (if accepted then [proof_id] else []),
      ph_rejected_proof_ids := ph_rejected_proof_ids state @ (if accepted then [] else [proof_id]),
      ph_milestones := ph_milestones state @ [feedback_milestone ''prover_verification''
        (if accepted then ''accepted'' else ''rejected'') event
        (JOpt JStr (artifact_digest (se_payload event) ''verification_artifact'')) (Some proof_id) JNull]\<rparr>)))))"

definition feedback_reviewed :: "StoredEvent \<Rightarrow> PhaseFeedbackState \<Rightarrow> PhaseFeedbackState result" where
  "feedback_reviewed event state =
     (let review = unresolved_review_assumption event; review_id = node_text review ''id'' in
     bindE (require (review_id \<notin> set (ph_unresolved_review_ids state))
       (ProjectionError ''duplicate human-review assumption in phase feedback projection'')) (\<lambda>_. Inr (state
     \<lparr>ph_relevant_events := ph_relevant_events state @ [event],
      ph_unresolved_review_ids := set_add review_id (ph_unresolved_review_ids state),
      ph_unresolved_reviews := ph_unresolved_reviews state @ [review],
      ph_milestones := ph_milestones state @ [feedback_milestone ''human_review'' ''unresolved'' event
        (get_value review ''evidence_digest'') None (get_value review ''id'')]\<rparr>)))"

definition feedback_event :: "StoredEvent \<Rightarrow> PhaseFeedbackState \<Rightarrow> PhaseFeedbackState result" where
  "feedback_event event state =
     bindE (require (se_global_position event \<ge> se_global_position (ph_registration_event state))
       (ProjectionError ''phase feedback event precedes its registered bundle'')) (\<lambda>_.
     if se_event_type event = ''task.registered'' then Inr (feedback_registered event state)
     else if se_event_type event = ''proof.submitted'' then feedback_submitted event state
     else if is_verification event then feedback_verified event state
     else if is_review event then feedback_reviewed event state
     else Inr state)"

text \<open>One turn of the second loop of \<open>_phase_feedback\<close>.\<close>

definition observe_feedback :: "StoredEvent \<Rightarrow> feedback_states \<Rightarrow> feedback_states result" where
  "observe_feedback event states =
     (case event_task_id event of
        None \<Rightarrow> Inr states
      | Some task_id \<Rightarrow>
          (case map_of states task_id of
             None \<Rightarrow> Inr states
           | Some state \<Rightarrow> bindE (feedback_event event state) (\<lambda>state'. Inr (AList.update task_id state' states))))"

definition feedback_states_of :: "StoredEvent list \<Rightarrow> feedback_states result" where
  "feedback_states_of evs = bindE (fold_resultE register_feedback evs []) (fold_resultE observe_feedback evs)"

definition pending_proof_ids :: "PhaseFeedbackState \<Rightarrow> string list" where
  "pending_proof_ids state = filter
     (\<lambda>p. p \<notin> set (ph_accepted_proof_ids state) \<and> p \<notin> set (ph_rejected_proof_ids state)) (ph_submitted_proof_ids state)"

definition replay_view :: "StoredEvent list \<Rightarrow> StoredEvent list \<Rightarrow> json_object" where
  "replay_view evs relevant =
     (let head_event = last evs; final = last relevant in
     [(''first_relevant_event_sequence'', JInt (se_global_position (hd relevant))),
      (''last_relevant_event_sequence'', JInt (se_global_position final)),
      (''last_relevant_event_id'', JStr (se_event_id final)),
      (''last_relevant_event_recorded_at'', JStr (se_recorded_at final)),
      (''relevant_event_count'', JInt (int (length relevant))),
      (''relevant_event_sequences'', JList (map (\<lambda>e. JInt (se_global_position e)) relevant)),
      (''replay_head_event_sequence'', JInt (se_global_position head_event)),
      (''replay_head_event_id'', JStr (se_event_id head_event)),
      (''replay_head_recorded_at'', JStr (se_recorded_at head_event)),
      (''events_observed_after_last_relevant'',
         JInt (int (length (filter (\<lambda>e. se_global_position e > se_global_position final) evs)))),
      (''last_relevant_event_is_replay_head'', JBool (se_global_position final = se_global_position head_event)),
      (''freshness_scope'', JStr ''bounded_to_replayed_events'')])"

definition no_leverage :: MathematicalDependencyLeverage where
  "no_leverage = \<lparr>ml_node_count = 0, ml_mode = ''exact_transitive'', ml_rows = []\<rparr>"

definition feedback_row ::
  "StoredEvent list \<Rightarrow> (string \<times> MathematicalDependencyLeverage) list \<Rightarrow> string \<times> PhaseFeedbackState \<Rightarrow> json_object result" where
  "feedback_row evs leverage_by_task entry =
     (let (task_id, state) = entry;
          leverage = (case map_of leverage_by_task task_id of None \<Rightarrow> no_leverage | Some l \<Rightarrow> l) in
     bindE (require (ph_relevant_events state \<noteq> [])
       (ProjectionError ''registered phase feedback has no replay source events'')) (\<lambda>_. Inr (json_object_of
     [(''schema_version'', JStr ''phase-feedback.v1''), (''task_id'', JStr task_id),
      (''builder_fidelity'', JObj (ph_builder_fidelity state)),
      (''prover_verification'', JObj
        [(''state'', JStr (prover_verification_state (ph_submitted_proof_ids state) (pending_proof_ids state)
            (ph_accepted_proof_ids state) (ph_rejected_proof_ids state))),
         (''submitted_proof_ids'', JStrs (ph_submitted_proof_ids state)),
         (''pending_proof_ids'', JStrs (pending_proof_ids state)),
         (''accepted_proof_ids'', JStrs (ph_accepted_proof_ids state)),
         (''rejected_proof_ids'', JStrs (ph_rejected_proof_ids state))]),
      (''unresolved_human_review_assumptions'', JList (map JObj (ph_unresolved_reviews state))),
      (''mathematical_dependency_node_count'', JInt (ml_node_count leverage)),
      (''dependency_leverage_exact_node_limit'', JInt (int exact_transitive_leverage_node_limit)),
      (''dependency_leverage_mode'', JStr (ml_mode leverage)),
      (''mathematical_dependency_leverage'', JList (map leverage_row_view (ml_rows leverage))),
      (''milestones'', JList (map JObj (ph_milestones state))),
      (''replay'', JObj (replay_view evs (ph_relevant_events state))),
      (''promotion_state'', JStr ''not_a_promotion'')])))"

definition phase_feedback :: "StoredEvent list \<Rightarrow> (string \<times> json_object) list \<Rightarrow> json_object list result" where
  "phase_feedback evs nodes =
     bindE (feedback_states_of evs) (\<lambda>states.
     bindE (mathematical_dependency_leverage nodes) (\<lambda>leverage_by_task.
     map_resultE (feedback_row evs leverage_by_task) (sort_key fst states)))"

section \<open>The snapshot\<close>

record snapshot_state =
  sn_nodes :: "(string \<times> json_object) list"
  sn_runs :: "(string \<times> json_object) list"
  sn_artifacts :: "(string \<times> json_object) list"
  sn_event_views :: "json_object list"
  sn_active_bundles :: "string list"
  sn_blocked_bundles :: "string list"

definition initial_snapshot :: snapshot_state where
  "initial_snapshot = \<lparr>sn_nodes = [], sn_runs = [], sn_artifacts = [], sn_event_views = [], sn_active_bundles = [], sn_blocked_bundles = []\<rparr>"

definition add_node :: "string option \<Rightarrow> json \<Rightarrow> (string \<times> json_object) list \<Rightarrow> (string \<times> json_object) list" where
  "add_node bundle_id raw nodes =
     (case raw of
        JObj raw_node \<Rightarrow>
          (case public_identity_node raw_node bundle_id of
             None \<Rightarrow> nodes
           | Some node \<Rightarrow> AList.update (node_text node ''id'') node nodes)
      | _ \<Rightarrow> nodes)"

definition settle_run :: "bool \<Rightarrow> string option \<Rightarrow> (string \<times> json_object) list \<Rightarrow> (string \<times> json_object) list" where
  "settle_run accepted verified_proof_id runs =
     (case verified_proof_id of
        None \<Rightarrow> runs
      | Some p \<Rightarrow>
          (case map_of runs p of
             None \<Rightarrow> runs
           | Some run \<Rightarrow> AList.update p
               (AList.update ''verification'' (JStr (if accepted then ''accepted'' else ''rejected''))
                 (AList.update ''status'' (JStr (if accepted then ''succeeded'' else ''failed'')) run)) runs))"

text \<open>A gap or a contract change blocks its task.\<close>

definition block_task :: "string \<Rightarrow> string \<Rightarrow> json_object \<Rightarrow> snapshot_state \<Rightarrow> snapshot_state" where
  "block_task bundle_id artifact_key payload s = s
     \<lparr>sn_blocked_bundles := set_add bundle_id (sn_blocked_bundles s),
      sn_active_bundles := removeAll bundle_id (sn_active_bundles s),
      sn_nodes := set_task_status bundle_id ''blocked'' (sn_nodes s),
      sn_artifacts := capture_artifact payload artifact_key (sn_artifacts s)\<rparr>"

definition settle_task :: "bool \<Rightarrow> string option \<Rightarrow> snapshot_state \<Rightarrow> snapshot_state" where
  "settle_task accepted task_id s =
     (case task_id of
        None \<Rightarrow> s
      | Some bundle_id \<Rightarrow> s
          \<lparr>sn_active_bundles := removeAll bundle_id (sn_active_bundles s),
           sn_nodes := set_task_status bundle_id (if accepted then ''verified'' else ''blocked'') (sn_nodes s),
           sn_blocked_bundles := (if accepted then sn_blocked_bundles s else set_add bundle_id (sn_blocked_bundles s))\<rparr>)"

definition apply_event :: "StoredEvent \<Rightarrow> snapshot_state \<Rightarrow> snapshot_state result" where
  "apply_event event s =
     (let payload = se_payload event; task_id = event_task_id event; t = se_event_type event in
      if t = ''task.registered'' then Inr (s
        \<lparr>sn_nodes := fold (add_node task_id) (pj_optional_list payload ''graph_nodes'') (sn_nodes s),
         sn_artifacts := capture_artifact payload ''bundle_artifact'' (sn_artifacts s)\<rparr>)
      else if t = ''task.claimed'' \<and> task_id \<noteq> None then Inr (s
        \<lparr>sn_active_bundles := set_add (the task_id) (sn_active_bundles s),
         sn_nodes := set_task_status (the task_id) ''running'' (sn_nodes s)\<rparr>)
      else if t = ''proof.submitted'' then
        let proof_id = submitted_proof_id event in Inr (s
        \<lparr>sn_runs := AList.update proof_id (run_from_submission payload proof_id) (sn_runs s),
         sn_artifacts := capture_artifact payload ''proof_artifact'' (sn_artifacts s)\<rparr>)
      else if t = ''gap.reported'' \<and> task_id \<noteq> None then Inr (block_task (the task_id) ''gap_artifact'' payload s)
      else if t = ''contract_change.requested'' \<and> task_id \<noteq> None then Inr (block_task (the task_id) ''request_artifact'' payload s)
      else if is_verification event then
        bindE (verification_accepted event) (\<lambda>accepted.
        let s1 = s\<lparr>sn_runs := settle_run accepted (pj_optional_text payload ''proof_id'') (sn_runs s)\<rparr>;
            s2 = settle_task accepted task_id s1 in
        Inr (s2\<lparr>sn_artifacts := capture_artifact payload ''verification_artifact'' (sn_artifacts s2)\<rparr>))
      else Inr s)"

definition snapshot_step :: "StoredEvent \<Rightarrow> snapshot_state \<Rightarrow> snapshot_state result" where
  "snapshot_step event s = bindE (apply_event event s) (\<lambda>s'.
     Inr (s'\<lparr>sn_event_views := sn_event_views s' @ [event_view event (event_task_id event)]\<rparr>))"

definition metric_view :: "string \<Rightarrow> nat \<Rightarrow> json" where
  "metric_view label n = JObj [(''label'', JStr label), (''value'', JInt (int n))]"

definition snapshot_view :: "string \<Rightarrow> nat \<Rightarrow> snapshot_state \<Rightarrow> json_object list \<Rightarrow> json_object" where
  "snapshot_view generated_at event_count s feedback = json_object_of
     [(''overview'', JObj
        [(''generated_at'', JStr generated_at), (''mission'', JStr ''Open problem portfolio''),
         (''metrics'', JList [metric_view ''events'' event_count, metric_view ''artifacts'' (length (sn_artifacts s))]),
         (''active_runs'', JInt (int (length (sn_active_bundles s)))),
         (''blocked_nodes'', JInt (int (length (sn_blocked_bundles s))))]),
      (''nodes'', JList (map (\<lambda>kv. JObj (public_node (snd kv))) (sn_nodes s))),
      (''runs'', JList (map (\<lambda>kv. JObj (snd kv)) (sn_runs s))),
      (''artifacts'', JList (map (\<lambda>kv. JObj (snd kv)) (sn_artifacts s))),
      (''events'', JList (map JObj (sn_event_views s))),
      (''phase_feedback'', JList (map JObj feedback))]"

text \<open>\<open>DashboardProjection(events).snapshot()\<close>, given the text of the clock.\<close>

definition projection_events :: "StoredEvent list \<Rightarrow> StoredEvent list" where
  "projection_events evs = sort_key se_global_position evs"

definition snapshot :: "string \<Rightarrow> StoredEvent list \<Rightarrow> json_object result" where
  "snapshot generated_at evs =
     (let ordered = projection_events evs in
     bindE (fold_resultE snapshot_step ordered initial_snapshot) (\<lambda>s.
     bindE (phase_feedback ordered (sn_nodes s)) (\<lambda>feedback.
     Inr (snapshot_view generated_at (length ordered) s feedback))))"

text \<open>The bytes \<open>export_dashboard_projection\<close> puts in place of the destination.\<close>

definition export_dashboard_projection :: "string \<Rightarrow> StoredEvent list \<Rightarrow> string result" where
  "export_dashboard_projection generated_at evs = bindE (snapshot generated_at evs) (\<lambda>s. Inr (canonical_json (JObj s)))"

end
