(* ===== verification/ProjectionProps.thy ===== *)
theory ProjectionProps
  imports Projection
begin

text \<open>
  What the dashboard snapshot promises: its dependency counts are the sizes of the sets of
  nodes that reach a node, its feedback on a task is exactly the evidence of that task's events,
  it reads no other part of an event than an allowlist, and it depends on the events only as a
  set ordered by position.
\<close>

section \<open>Transitive dependents\<close>

definition edges :: "(string \<times> string list) list \<Rightarrow> (string \<times> string) set" where
  "edges d = {(a, b). \<exists>xs. map_of d a = Some xs \<and> b \<in> set xs}"

definition dict_keys :: "('a \<times> 'b) list \<Rightarrow> 'a set" where
  "dict_keys d = fst ` set d"

lemma dict_keysE: "k \<in> dict_keys d \<Longrightarrow> \<exists>v. map_of d k = Some v"
  unfolding dict_keys_def by (metis map_of_eq_None_iff not_None_eq)

lemma dict_keysI: "map_of d k = Some v \<Longrightarrow> k \<in> dict_keys d"
  unfolding dict_keys_def by (force dest: map_of_SomeD)

definition closed_graph :: "(string \<times> string list) list \<Rightarrow> bool" where
  "closed_graph d \<longleftrightarrow> (\<forall>a xs. map_of d a = Some xs \<longrightarrow> set xs \<subseteq> dict_keys d)"

definition reached :: "(string \<times> string list) list \<Rightarrow> string \<Rightarrow> string set" where
  "reached d n = {m. (n, m) \<in> (edges d)\<^sup>+ \<and> m \<noteq> n}"

text \<open>What the traversal has found is reachable, and what it has found leads to what it has found or still has to visit.\<close>

definition traversal_inv :: "(string \<times> string list) list \<Rightarrow> string \<Rightarrow> string list \<Rightarrow> string list \<Rightarrow> bool" where
  "traversal_inv d n todo seen \<longleftrightarrow>
     distinct seen \<and> set seen \<subseteq> reached d n \<and> set todo \<subseteq> {m. (n, m) \<in> (edges d)\<^sup>+} \<and>
     edges d `` insert n (set seen) \<subseteq> insert n (set seen \<union> set todo)"

lemma edge_iff: "map_of d a = Some xs \<Longrightarrow> (a, b) \<in> edges d \<longleftrightarrow> b \<in> set xs"
  by (simp add: edges_def)

lemma edgeE:
  assumes "(a, b) \<in> edges d"
  obtains xs where "map_of d a = Some xs" "b \<in> set xs"
  using assms by (auto simp: edges_def)

lemma edge_closed: "closed_graph d \<Longrightarrow> (a, b) \<in> edges d \<Longrightarrow> \<exists>xs. map_of d b = Some xs"
  by (rule dict_keysE, elim edgeE, unfold closed_graph_def) (metis subsetD)

lemma edges_closed:
  assumes "closed_graph d" "(a, b) \<in> (edges d)\<^sup>+"
  shows "\<exists>xs. map_of d b = Some xs"
  using assms(2) by (cases rule: tranclE) (auto dest: edge_closed [OF assms(1)])

lemma closed_set_reached:
  assumes "edges d `` insert n S \<subseteq> insert n S"
  shows "reached d n \<subseteq> S"
proof
  fix m assume m: "m \<in> reached d n"
  then have "(n, m) \<in> (edges d)\<^sup>+" by (simp add: reached_def)
  then have "m \<in> insert n S" by (induction rule: trancl_induct) (use assms in auto)
  then show "m \<in> S" using m by (simp add: reached_def)
qed

lemma transitive_loop_correct:
  assumes "closed_graph d" "traversal_inv d n todo seen"
  shows "\<exists>seen'. transitive_loop d n todo seen = Inr seen' \<and> distinct seen' \<and> set seen' = reached d n"
  using assms
proof (induction d n todo seen rule: transitive_loop.induct)
  case (1 d n seen)
  then have "reached d n \<subseteq> set seen" by (intro closed_set_reached) (simp add: traversal_inv_def)
  then show ?case using 1 by (auto simp: traversal_inv_def)
next
  case (2 d n c todo seen)
  show ?case
  proof (cases "c \<in> set seen \<or> c = n")
    case True
    then have "traversal_inv d n todo seen" using 2(4) by (auto simp: traversal_inv_def)
    with True 2(1,3) show ?thesis by simp
  next
    case False
    have c: "(n, c) \<in> (edges d)\<^sup>+" using 2(4) by (simp add: traversal_inv_def)
    then obtain xs where xs: "map_of d c = Some xs" using edges_closed [OF 2(3)] by blast
    then have step: "edges d `` {c} = set xs" by (auto simp: edges_def)
    then have "set xs \<subseteq> {m. (n, m) \<in> (edges d)\<^sup>+}" using c by (auto intro: trancl_into_trancl)
    then have "traversal_inv d n (rev xs @ todo) (c # seen)"
      using 2(4) False c step by (auto simp: traversal_inv_def reached_def)
    with False xs 2(2,3) show ?thesis by simp
  qed
qed

lemma transitive_dependents_correct:
  assumes "closed_graph d" "n \<in> dict_keys d"
  shows "transitive_dependents d n = Inr (card (reached d n))"
proof -
  obtain xs where xs: "map_of d n = Some xs" using dict_keysE [OF assms(2)] by blast
  then have "traversal_inv d n (rev xs) []" by (auto simp: traversal_inv_def edges_def)
  from transitive_loop_correct [OF assms(1) this] obtain seen where
    "transitive_loop d n (rev xs) [] = Inr seen" "distinct seen" "set seen = reached d n" by blast
  then show ?thesis using xs by (simp add: transitive_dependents_def distinct_card [symmetric])
qed

section \<open>The dependents of a task's nodes\<close>

definition depends_on :: "json_object list \<Rightarrow> (string \<times> string) set" where
  "depends_on ns = {(b, a). \<exists>node \<in> set ns. a = node_text node ''id'' \<and>
     b \<in> set (nonempty_texts (pj_optional_list node ''dependencies'')) \<and> b \<in> (\<lambda>m. node_text m ''id'') ` set ns}"

definition node_ids :: "json_object list \<Rightarrow> string set" where
  "node_ids ns = (\<lambda>m. node_text m ''id'') ` set ns"

lemma dom_add_dependent [simp]: "dict_keys (add_dependent a b d) = dict_keys d"
  using dict_keysI by (force simp: add_dependent_def dict_keys_def dom_update [unfolded dom_map_of_conv_image_fst] split: option.splits)

lemma edges_add_dependent:
  "edges (add_dependent a b d) = edges d \<union> (if b \<in> dict_keys d then {(b, a)} else {})"
proof (cases "map_of d b")
  case None
  moreover from None have "b \<notin> dict_keys d" using dict_keysE [of b d] by auto
  ultimately show ?thesis by (simp add: add_dependent_def)
next
  case (Some xs)
  then have "b \<in> dict_keys d" by (rule dict_keysI)
  then show ?thesis using Some
    by (auto simp: add_dependent_def edges_def set_add_def update_conv' split: if_splits)
qed

lemma dom_fold_add_dependent [simp]: "dict_keys (fold (add_dependent a) bs d) = dict_keys d"
  by (induction bs arbitrary: d) simp_all

lemma edges_fold_add_dependent:
  "edges (fold (add_dependent a) bs d) = edges d \<union> {(b, a) | b. b \<in> set bs \<and> b \<in> dict_keys d}"
  by (induction bs arbitrary: d) (auto simp: edges_add_dependent)

abbreviation node_deps :: "json_object \<Rightarrow> string list" where
  "node_deps node \<equiv> nonempty_texts (pj_optional_list node ''dependencies'')"

abbreviation add_node_edges :: "json_object \<Rightarrow> (string \<times> string list) list \<Rightarrow> (string \<times> string list) list" where
  "add_node_edges node \<equiv> fold (add_dependent (node_text node ''id'')) (node_deps node)"

lemma dom_fold_nodes [simp]: "dict_keys (fold add_node_edges ns d) = dict_keys d"
  by (induction ns arbitrary: d) simp_all

lemma edges_fold_nodes:
  "edges (fold add_node_edges ns d) =
     edges d \<union> {(b, node_text node ''id'') | b node. node \<in> set ns \<and> b \<in> set (node_deps node) \<and> b \<in> dict_keys d}"
  by (induction ns arbitrary: d) (auto simp: edges_fold_add_dependent)

definition distinct_values :: "('a \<times> 'b list) list \<Rightarrow> bool" where
  "distinct_values d \<longleftrightarrow> (\<forall>x xs. map_of d x = Some xs \<longrightarrow> distinct xs)"

lemma distinct_valuesD: "distinct_values d \<Longrightarrow> map_of d x = Some xs \<Longrightarrow> distinct xs"
  unfolding distinct_values_def by iprover

lemma distinct_values_add:
  assumes "distinct_values d"
  shows "distinct_values (add_dependent a b d)"
proof (cases "map_of d b")
  case (Some xs)
  then have "distinct (set_add a xs)" using distinct_valuesD [OF assms Some] by (simp add: set_add_def)
  moreover have "distinct ys" if "map_of (AList.update b (set_add a xs) d) x = Some ys" for x ys
    using that calculation distinct_valuesD [OF assms, of x ys] by (cases "x = b") (simp_all add: update_conv')
  ultimately show ?thesis unfolding distinct_values_def add_dependent_def by (simp only: Some option.case) iprover
qed (use assms in \<open>simp add: add_dependent_def\<close>)

lemma distinct_values_fold: "distinct_values d \<Longrightarrow> distinct_values (fold (add_dependent a) bs d)"
  by (induction bs arbitrary: d) (simp_all add: distinct_values_add)

lemma distinct_values_nodes: "distinct_values d \<Longrightarrow> distinct_values (fold add_node_edges ns d)"
  by (induction ns arbitrary: d) (simp_all add: distinct_values_fold)

lemma map_of_const: "map_of (map (\<lambda>i. (i, c)) is) x = (if x \<in> set is then Some c else None)"
  by (induction "is") auto

lemma keys_node_dependents: "dict_keys (node_dependents ns) = node_ids ns"
  by (simp add: node_dependents_def node_ids_def dict_keys_def [of "map _ _"] image_image)

lemma edges_node_dependents: "edges (node_dependents ns) = depends_on ns"
proof -
  have "edges (map (\<lambda>i. (i, [])) (remdups (map (\<lambda>node. node_text node ''id'') ns))) = {}"
    by (simp add: edges_def map_of_const)
  then show ?thesis by (auto simp: node_dependents_def edges_fold_nodes depends_on_def dict_keys_def image_image)
qed

lemma distinct_node_dependents: "distinct_values (node_dependents ns)"
  unfolding node_dependents_def
  by (rule distinct_values_nodes) (simp add: distinct_values_def map_of_const)

lemma closed_node_dependents: "closed_graph (node_dependents ns)"
proof -
  have "b \<in> node_ids ns" if "(a, b) \<in> edges (node_dependents ns)" for a b
    using that by (auto simp: edges_node_dependents depends_on_def node_ids_def)
  then show ?thesis unfolding closed_graph_def keys_node_dependents by (force simp: edges_def)
qed

lemma direct_dependents_card:
  assumes "map_of (node_dependents ns) i = Some xs"
  shows "length xs = card {m. (i, m) \<in> depends_on ns}"
proof -
  have "{m. (i, m) \<in> depends_on ns} = set xs"
    by (simp add: edges_node_dependents [symmetric] edge_iff [OF assms])
  then show ?thesis using distinct_valuesD [OF distinct_node_dependents assms] by (simp add: distinct_card)
qed

lemma leverage_of_node:
  assumes "node \<in> set ns"
  defines "i \<equiv> node_text node ''id''"
  shows "leverage_of (node_dependents ns) exact node = Inr
    \<lparr>lv_node_id = i, lv_source_node_id = text_or (pj_optional_text node ''source_node_id'') i,
     lv_label = text_or (pj_optional_text node ''label'') i,
     lv_direct_dependents = int (card {m. (i, m) \<in> depends_on ns}),
     lv_transitive_dependents = (if exact then Some (int (card {m. (i, m) \<in> (depends_on ns)\<^sup>+ \<and> m \<noteq> i})) else None)\<rparr>"
proof -
  have i: "i \<in> dict_keys (node_dependents ns)" unfolding keys_node_dependents i_def node_ids_def using assms(1) by simp
  then obtain xs where xs: "map_of (node_dependents ns) i = Some xs" using dict_keysE [OF i] by blast
  show ?thesis
    using transitive_dependents_correct [OF closed_node_dependents i] direct_dependents_card [OF xs] xs
    by (simp add: leverage_of_def Let_def i_def [symmetric] reached_def edges_node_dependents)
qed

text \<open>
  The reference: the row of a node counts the nodes that name it as a dependency and, in a task
  of at most 512 nodes, the other nodes that depend on it through any number of steps.
\<close>

definition leverage_reference :: "json_object list \<Rightarrow> bool \<Rightarrow> json_object \<Rightarrow> leverage_row" where
  "leverage_reference ns exact node =
     (let i = node_text node ''id'' in
      \<lparr>lv_node_id = i, lv_source_node_id = text_or (pj_optional_text node ''source_node_id'') i,
       lv_label = text_or (pj_optional_text node ''label'') i,
       lv_direct_dependents = int (card {m. (i, m) \<in> depends_on ns}),
       lv_transitive_dependents =
         (if exact then Some (int (card {m. (i, m) \<in> (depends_on ns)\<^sup>+ \<and> m \<noteq> i})) else None)\<rparr>)"

definition task_leverage_reference :: "json_object list \<Rightarrow> MathematicalDependencyLeverage" where
  "task_leverage_reference ns =
     (let exact = length ns \<le> 512; rows = map (leverage_reference ns exact) ns in
      \<lparr>ml_node_count = int (length ns), ml_mode = (if exact then ''exact_transitive'' else ''direct_only_over_limit''),
       ml_rows =
         (if exact then sort_key (\<lambda>r. (- the (lv_transitive_dependents r), - lv_direct_dependents r, lv_node_id r)) rows
          else sort_key (\<lambda>r. (- lv_direct_dependents r, lv_node_id r)) rows)\<rparr>)"

lemma task_leverage_correct: "task_leverage ns = Inr (task_leverage_reference ns)"
proof -
  have "map_resultE (leverage_of (node_dependents ns) exact) ns = Inr (map (leverage_reference ns exact) ns)" for exact
    by (rule map_resultE_all) (simp add: leverage_of_node leverage_reference_def Let_def)
  then show ?thesis
    by (simp add: task_leverage_def task_leverage_reference_def Let_def exact_transitive_leverage_node_limit_def)
qed

definition is_task_node :: "string \<Rightarrow> json_object \<Rightarrow> bool" where
  "is_task_node t node \<longleftrightarrow> get_value node ''graph'' = JStr ''mathematical'' \<and> pj_optional_text node ''bundle_id'' = Some t"

definition task_nodes_of :: "json_object list \<Rightarrow> string \<Rightarrow> json_object list option" where
  "task_nodes_of ns t = (if filter (is_task_node t) ns = [] then None else Some (filter (is_task_node t) ns))"

lemma map_of_add_task_node:
  "map_of (add_task_node node d) t =
     (if is_task_node t node then Some ((case map_of d t of None \<Rightarrow> [] | Some ns \<Rightarrow> ns) @ [node]) else map_of d t)"
  by (auto simp: add_task_node_def is_task_node_def update_conv' split: option.splits)

lemma map_of_group: "map_of (fold add_task_node ns []) t = task_nodes_of ns t"
proof -
  have "map_of (fold add_task_node ns d) t =
      (if filter (is_task_node t) ns = [] then map_of d t
       else Some ((case map_of d t of None \<Rightarrow> [] | Some ms \<Rightarrow> ms) @ filter (is_task_node t) ns))" for d
    by (induction ns arbitrary: d) (auto simp: map_of_add_task_node split: option.splits)
  then show ?thesis by (simp add: task_nodes_of_def)
qed

lemma map_of_map_snd: "map_of (map (\<lambda>(k, v). (k, f v)) kvs) t = map_option f (map_of kvs t)"
  by (induction kvs) auto

lemma leverage_reference_eq:
  "mathematical_dependency_leverage nodes =
     Inr (map (\<lambda>(t, ns). (t, task_leverage_reference ns)) (fold add_task_node (map snd nodes) []))"
  unfolding mathematical_dependency_leverage_def
  by (rule map_resultE_all) (auto simp: task_leverage_correct)

text \<open>
  C40. The dependency leverage of the dashboard agrees with its declarative reference on every
  graph: the computation returns, it has an entry for a task exactly when the task has
  mathematical nodes, and the entry's rows are those nodes in the stated order, each with the
  number of its direct dependents and, for at most 512 nodes, of the nodes that reach it
  through dependencies, itself not counted even on a cycle.
\<close>

theorem dependency_leverage_exact:
  "\<exists>res. mathematical_dependency_leverage nodes = Inr res \<and>
     (\<forall>t. map_of res t = map_option task_leverage_reference (task_nodes_of (map snd nodes) t))"
  by (simp add: leverage_reference_eq map_of_map_snd map_of_group)

end
