(* ===== verification/FeedbackProps.thy ===== *)
theory FeedbackProps
  imports ProjectionProps
begin

text \<open>
  The feedback on a task, as a function of the events of that task: the two loops of
  \<open>_phase_feedback\<close> collect exactly the submissions, verdicts and open reviews that the
  replayed events of the task carry, and refuse replays in which one repeats.
\<close>

section \<open>One task at a time\<close>

definition task_events :: "string \<Rightarrow> StoredEvent list \<Rightarrow> StoredEvent list" where
  "task_events t evs = filter (\<lambda>e. event_task_id e = Some t) evs"

lemma observe_feedback_task:
  assumes "observe_feedback e states = Inr states'"
  shows "rel_option (\<lambda>st st'. (if event_task_id e = Some t then feedback_event e st = Inr st' else st' = st))
    (map_of states t) (map_of states' t)"
  using assms
  by (cases "map_of states t")
     (auto simp: observe_feedback_def result_simps update_conv' split: option.splits if_splits)

lemma fold_observe_task:
  assumes "fold_resultE observe_feedback evs states = Inr states'"
  shows "rel_option (\<lambda>st st'. fold_resultE feedback_event (task_events t evs) st = Inr st')
    (map_of states t) (map_of states' t)"
  using assms
proof (induction evs arbitrary: states)
  case Nil
  then show ?case by (simp add: task_events_def option.rel_refl)
next
  case (Cons e evs)
  then obtain mid where mid: "observe_feedback e states = Inr mid" "fold_resultE observe_feedback evs mid = Inr states'"
    by (auto simp: result_simps)
  show ?case
    using observe_feedback_task [OF mid(1), of t] Cons.IH [OF mid(2)]
    by (cases "map_of states t"; cases "map_of mid t"; cases "map_of states' t") (auto simp: task_events_def split: if_splits)
qed

lemma fold_resultE_invariant:
  assumes "fold_resultE f xs s = Inr s'" "P s" "\<And>x a b. x \<in> set xs \<Longrightarrow> f x a = Inr b \<Longrightarrow> P a \<Longrightarrow> P b"
  shows "P s'"
  using assms by (induction xs arbitrary: s) (auto simp: result_simps)

lemma distinct_register: "register_feedback e s = Inr s' \<Longrightarrow> distinct (map fst s) \<Longrightarrow> distinct (map fst s')"
  by (auto simp: register_feedback_def result_simps distinct_update split: if_splits option.splits)

lemma distinct_observe: "observe_feedback e s = Inr s' \<Longrightarrow> distinct (map fst s) \<Longrightarrow> distinct (map fst s')"
  by (auto simp: observe_feedback_def result_simps distinct_update split: if_splits option.splits)

section \<open>The evidence of a task\<close>

definition verdict_proof_id :: "StoredEvent \<Rightarrow> string" where
  "verdict_proof_id e = text_or (pj_optional_text (se_payload e) ''proof_id'') []"

definition of_type :: "string \<Rightarrow> StoredEvent list \<Rightarrow> StoredEvent list" where
  "of_type t evs = filter (\<lambda>e. se_event_type e = t) evs"

definition is_feedback_event :: "StoredEvent \<Rightarrow> bool" where
  "is_feedback_event e \<longleftrightarrow> se_event_type e \<in> {''task.registered'', ''proof.submitted'', ''verification.accepted'',
     ''verification.rejected'', ''gap.reported'', ''contract_change.requested''}"

text \<open>What a state holds after the events \<open>es\<close> of its task.\<close>

definition evidence_of :: "StoredEvent list \<Rightarrow> PhaseFeedbackState \<Rightarrow> bool" where
  "evidence_of es st \<longleftrightarrow>
     ph_relevant_events st = filter is_feedback_event es \<and>
     ph_submitted_proof_ids st = map submitted_proof_id (of_type ''proof.submitted'' es) \<and>
     ph_accepted_proof_ids st = map verdict_proof_id (of_type ''verification.accepted'' es) \<and>
     ph_rejected_proof_ids st = map verdict_proof_id (of_type ''verification.rejected'' es) \<and>
     ph_unresolved_reviews st = map unresolved_review_assumption (filter is_review es)"

definition verdicts_consistent :: "PhaseFeedbackState \<Rightarrow> bool" where
  "verdicts_consistent st \<longleftrightarrow>
     distinct (ph_submitted_proof_ids st) \<and> distinct (ph_accepted_proof_ids st @ ph_rejected_proof_ids st) \<and>
     set (ph_accepted_proof_ids st) \<union> set (ph_rejected_proof_ids st) \<subseteq> set (ph_submitted_proof_ids st)"

lemma of_type_snoc [simp]: "of_type t (es @ [e]) = of_type t es @ (if se_event_type e = t then [e] else [])"
  by (simp add: of_type_def)

lemma verification_accepted_type:
  "verification_accepted e = Inr b \<Longrightarrow> se_event_type e = (if b then ''verification.accepted'' else ''verification.rejected'')"
  by (auto simp: verification_accepted_def result_simps Let_def split: json.splits)

lemma feedback_event_cases:
  assumes "feedback_event e st = Inr st'"
  obtains "se_event_type e = ''task.registered''" "st' = feedback_registered e st"
    | "se_event_type e = ''proof.submitted''" "feedback_submitted e st = Inr st'"
    | "is_verification e" "feedback_verified e st = Inr st'"
    | "is_review e" "feedback_reviewed e st = Inr st'"
    | "se_event_type e \<noteq> ''task.registered''" "se_event_type e \<noteq> ''proof.submitted''" "\<not> is_verification e" "\<not> is_review e" "st' = st"
  using assms unfolding feedback_event_def bindE_eq_Inr by (metis sum.inject(2))

lemma feedback_verified_result:
  assumes "feedback_verified e st = Inr st'"
  obtains p b where "pj_optional_text (se_payload e) ''proof_id'' = Some p" "verification_accepted e = Inr b"
    "p \<in> set (ph_submitted_proof_ids st)" "p \<notin> set (ph_accepted_proof_ids st)" "p \<notin> set (ph_rejected_proof_ids st)"
    "ph_submitted_proof_ids st' = ph_submitted_proof_ids st" "ph_relevant_events st' = ph_relevant_events st @ [e]"
    "ph_accepted_proof_ids st' = ph_accepted_proof_ids st @ (if b then [p] else [])"
    "ph_rejected_proof_ids st' = ph_rejected_proof_ids st @ (if b then [] else [p])"
    "ph_unresolved_reviews st' = ph_unresolved_reviews st"
  using assms by (auto simp: feedback_verified_def result_simps split: option.splits)

lemma feedback_verified_evidence:
  assumes "feedback_verified e st = Inr st'" "evidence_of es st"
  shows "evidence_of (es @ [e]) st'"
proof -
  obtain p b where r: "pj_optional_text (se_payload e) ''proof_id'' = Some p" "verification_accepted e = Inr b"
    "ph_submitted_proof_ids st' = ph_submitted_proof_ids st" "ph_relevant_events st' = ph_relevant_events st @ [e]"
    "ph_accepted_proof_ids st' = ph_accepted_proof_ids st @ (if b then [p] else [])"
    "ph_rejected_proof_ids st' = ph_rejected_proof_ids st @ (if b then [] else [p])"
    "ph_unresolved_reviews st' = ph_unresolved_reviews st"
    using feedback_verified_result [OF assms(1)] .
  show ?thesis using assms(2) verification_accepted_type [OF r(2)] r
    by (cases b) (simp_all add: evidence_of_def is_feedback_event_def is_review_def verdict_proof_id_def text_or_def)
qed

lemma feedback_event_evidence:
  assumes "feedback_event e st = Inr st'" "evidence_of es st"
  shows "evidence_of (es @ [e]) st'"
  using assms(1)
proof (cases rule: feedback_event_cases)
  case 1
  then show ?thesis using assms(2)
    by (simp add: evidence_of_def feedback_registered_def is_feedback_event_def is_review_def)
next
  case 2
  then show ?thesis using assms(2)
    by (auto simp: evidence_of_def feedback_submitted_def Let_def result_simps is_feedback_event_def is_review_def)
next
  case 3
  then show ?thesis using assms(2) by (intro feedback_verified_evidence)
next
  case 4
  have t: "se_event_type e \<noteq> ''proof.submitted''" "se_event_type e \<noteq> ''verification.accepted''"
    "se_event_type e \<noteq> ''verification.rejected''" "is_feedback_event e"
    using 4(1) unfolding is_review_def is_feedback_event_def by (elim insertE emptyE; simp)+
  have "ph_relevant_events st' = ph_relevant_events st @ [e]" "ph_submitted_proof_ids st' = ph_submitted_proof_ids st"
    "ph_accepted_proof_ids st' = ph_accepted_proof_ids st" "ph_rejected_proof_ids st' = ph_rejected_proof_ids st"
    "ph_unresolved_reviews st' = ph_unresolved_reviews st @ [unresolved_review_assumption e]"
    using 4(2) by (auto simp: feedback_reviewed_def Let_def result_simps)
  then show ?thesis using assms(2) by (simp add: evidence_of_def t 4(1))
next
  case 5
  have "se_event_type e \<noteq> ''verification.accepted''" "se_event_type e \<noteq> ''verification.rejected''"
    using 5(3) unfolding is_verification_def by (force, force)
  then show ?thesis using assms(2) 5 by (simp add: evidence_of_def is_feedback_event_def is_review_def)
qed

lemma feedback_submitted_consistent:
  "feedback_submitted e st = Inr st' \<Longrightarrow> verdicts_consistent st \<Longrightarrow> verdicts_consistent st'"
  by (auto simp: feedback_submitted_def verdicts_consistent_def Let_def result_simps)

lemma feedback_verified_consistent:
  assumes "feedback_verified e st = Inr st'" "verdicts_consistent st"
  shows "verdicts_consistent st'"
  using assms(1)
proof (rule feedback_verified_result)
  fix p b
  assume "p \<in> set (ph_submitted_proof_ids st)" "p \<notin> set (ph_accepted_proof_ids st)" "p \<notin> set (ph_rejected_proof_ids st)"
    "ph_submitted_proof_ids st' = ph_submitted_proof_ids st"
    "ph_accepted_proof_ids st' = ph_accepted_proof_ids st @ (if b then [p] else [])"
    "ph_rejected_proof_ids st' = ph_rejected_proof_ids st @ (if b then [] else [p])"
  then show ?thesis using assms(2) by (cases b) (auto simp: verdicts_consistent_def)
qed

lemma feedback_event_consistent:
  assumes "feedback_event e st = Inr st'" "verdicts_consistent st"
  shows "verdicts_consistent st'"
  using assms(1)
proof (cases rule: feedback_event_cases)
  case 4
  then show ?thesis using assms(2) by (auto simp: feedback_reviewed_def verdicts_consistent_def Let_def result_simps)
next
  case 1
  then show ?thesis using assms(2) by (simp add: feedback_registered_def verdicts_consistent_def)
qed (use assms(2) in \<open>simp_all add: feedback_submitted_consistent feedback_verified_consistent\<close>)

lemma fold_feedback_evidence:
  assumes "fold_resultE feedback_event es st = Inr st'" "evidence_of ds st" "verdicts_consistent st"
  shows "evidence_of (ds @ es) st' \<and> verdicts_consistent st'"
  using assms
proof (induction es arbitrary: ds st)
  case (Cons e es)
  then obtain mid where mid: "feedback_event e st = Inr mid" "fold_resultE feedback_event es mid = Inr st'"
    by (auto simp: result_simps)
  show ?case
    using Cons.IH [OF mid(2) feedback_event_evidence [OF mid(1) Cons.prems(2)] feedback_event_consistent [OF mid(1) Cons.prems(3)]]
    by simp
qed simp

definition fresh_feedback :: "feedback_states \<Rightarrow> bool" where
  "fresh_feedback states \<longleftrightarrow> distinct (map fst states) \<and>
     (\<forall>t st. map_of states t = Some st \<longrightarrow> evidence_of [] st \<and> verdicts_consistent st)"

lemma fresh_feedbackD: "fresh_feedback s \<Longrightarrow> map_of s t = Some st \<Longrightarrow> evidence_of [] st \<and> verdicts_consistent st"
  unfolding fresh_feedback_def by iprover

lemma registration_fresh:
  "phase_feedback_registration e t = Some st \<Longrightarrow> evidence_of [] st \<and> verdicts_consistent st \<and> t = Some (ph_task_id st)"
  by (auto simp: phase_feedback_registration_def Let_def evidence_of_def of_type_def verdicts_consistent_def
      split: option.splits json.splits if_splits)

lemma register_fresh:
  assumes "register_feedback e s = Inr s'" "fresh_feedback s"
  shows "fresh_feedback s'"
proof -
  consider "s' = s"
    | st where "phase_feedback_registration e (event_task_id e) = Some st" "s' = AList.update (ph_task_id st) st s"
    using assms(1) by (auto simp: register_feedback_def result_simps split: if_splits option.splits)
  then show ?thesis
  proof cases
    case 2
    have "evidence_of [] st \<and> verdicts_consistent st" using registration_fresh [OF 2(1)] by simp
    moreover have "distinct (map fst s')" using assms(2) 2(2) by (simp add: distinct_update fresh_feedback_def)
    moreover have "evidence_of [] st' \<and> verdicts_consistent st'" if "map_of s' t = Some st'" for t st'
      using that calculation(1) fresh_feedbackD [OF assms(2), of t st']
      by (cases "t = ph_task_id st") (simp_all add: 2(2) update_conv')
    ultimately show ?thesis unfolding fresh_feedback_def by iprover
  qed (use assms(2) in simp)
qed

lemma feedback_states_evidence:
  assumes "feedback_states_of evs = Inr states"
  shows "distinct (map fst states)"
    and "map_of states t = Some st \<Longrightarrow> evidence_of (task_events t evs) st \<and> verdicts_consistent st"
proof -
  obtain s0 where s0: "fold_resultE register_feedback evs [] = Inr s0" "fold_resultE observe_feedback evs s0 = Inr states"
    using assms by (auto simp: feedback_states_of_def result_simps)
  have fresh: "fresh_feedback s0"
    by (rule fold_resultE_invariant [OF s0(1)]) (simp add: fresh_feedback_def, rule register_fresh)
  show "distinct (map fst states)"
    by (rule fold_resultE_invariant [OF s0(2)]) (use fresh distinct_observe in \<open>auto simp: fresh_feedback_def\<close>)
  assume st: "map_of states t = Some st"
  from fold_observe_task [OF s0(2), of t] st obtain st0 where
    "map_of s0 t = Some st0" "fold_resultE feedback_event (task_events t evs) st0 = Inr st"
    by (auto simp: option_rel_Some2)
  then show "evidence_of (task_events t evs) st \<and> verdicts_consistent st"
    using fold_feedback_evidence [of "task_events t evs" st0 st "[]"] fresh_feedbackD [OF fresh] by (metis append_Nil)
qed

section \<open>The rows of the feedback\<close>

definition submitted_of :: "string \<Rightarrow> StoredEvent list \<Rightarrow> string list" where
  "submitted_of t evs = map submitted_proof_id (of_type ''proof.submitted'' (task_events t evs))"

definition accepted_of :: "string \<Rightarrow> StoredEvent list \<Rightarrow> string list" where
  "accepted_of t evs = map verdict_proof_id (of_type ''verification.accepted'' (task_events t evs))"

definition rejected_of :: "string \<Rightarrow> StoredEvent list \<Rightarrow> string list" where
  "rejected_of t evs = map verdict_proof_id (of_type ''verification.rejected'' (task_events t evs))"

definition pending_of :: "string \<Rightarrow> StoredEvent list \<Rightarrow> string list" where
  "pending_of t evs = filter (\<lambda>p. p \<notin> set (accepted_of t evs) \<and> p \<notin> set (rejected_of t evs)) (submitted_of t evs)"

definition verification_summary :: "string \<Rightarrow> StoredEvent list \<Rightarrow> json" where
  "verification_summary t evs = JObj
     [(''accepted_proof_ids'', JStrs (accepted_of t evs)), (''pending_proof_ids'', JStrs (pending_of t evs)),
      (''rejected_proof_ids'', JStrs (rejected_of t evs)),
      (''state'', JStr (prover_verification_state (submitted_of t evs) (pending_of t evs) (accepted_of t evs) (rejected_of t evs))),
      (''submitted_proof_ids'', JStrs (submitted_of t evs))]"

definition open_reviews :: "string \<Rightarrow> StoredEvent list \<Rightarrow> json" where
  "open_reviews t evs = json_norm (JList (map (\<lambda>e. JObj (unresolved_review_assumption e)) (filter is_review (task_events t evs))))"

lemma feedback_row_values:
  assumes "feedback_row evs lev (t, st) = Inr row"
  shows "get_value row ''task_id'' = JStr t"
    and "get_value row ''prover_verification'' = json_norm (JObj
        [(''state'', JStr (prover_verification_state (ph_submitted_proof_ids st) (pending_proof_ids st)
            (ph_accepted_proof_ids st) (ph_rejected_proof_ids st))),
         (''submitted_proof_ids'', JStrs (ph_submitted_proof_ids st)), (''pending_proof_ids'', JStrs (pending_proof_ids st)),
         (''accepted_proof_ids'', JStrs (ph_accepted_proof_ids st)), (''rejected_proof_ids'', JStrs (ph_rejected_proof_ids st))])"
    and "get_value row ''unresolved_human_review_assumptions'' = json_norm (JList (map JObj (ph_unresolved_reviews st)))"
  using assms
  by (auto simp: feedback_row_def Let_def result_simps json_object_of_def get_value_def obj_get_def map_of_norm_members
      simp del: json_norm.simps(2,3))

lemma evidence_lists:
  assumes "evidence_of (task_events t evs) st"
  shows "ph_submitted_proof_ids st = submitted_of t evs" "ph_accepted_proof_ids st = accepted_of t evs"
    "ph_rejected_proof_ids st = rejected_of t evs" "pending_proof_ids st = pending_of t evs"
    "ph_unresolved_reviews st = map unresolved_review_assumption (filter is_review (task_events t evs))"
  using assms
  by (simp_all add: evidence_of_def submitted_of_def accepted_of_def rejected_of_def pending_of_def pending_proof_ids_def)

lemma map_resultE_member: "map_resultE f xs = Inr ys \<Longrightarrow> y \<in> set ys \<Longrightarrow> \<exists>x \<in> set xs. f x = Inr y"
  by (induction xs arbitrary: ys) (auto simp: result_simps)

lemma feedback_row_state:
  assumes "phase_feedback evs nodes = Inr rows" "row \<in> set rows" "get_value row ''task_id'' = JStr t"
  obtains st lev where "feedback_row evs lev (t, st) = Inr row" "evidence_of (task_events t evs) st" "verdicts_consistent st"
proof -
  obtain states lev where s: "feedback_states_of evs = Inr states"
    "map_resultE (feedback_row evs lev) (sort_key fst states) = Inr rows"
    using assms(1) by (auto simp: phase_feedback_def result_simps)
  obtain entry where entry: "entry \<in> set states" "feedback_row evs lev entry = Inr row"
    using map_resultE_member [OF s(2) assms(2)] unfolding set_sort by (elim bexE)
  obtain u st where e: "entry = (u, st)" by (cases entry)
  note st = entry [unfolded e]
  have u: "u = t" using feedback_row_values(1) [OF st(2)] assms(3) by simp
  have "map_of states t = Some st" using st(1) feedback_states_evidence(1) [OF s(1)] u by simp
  then show ?thesis using that st(2) u feedback_states_evidence(2) [OF s(1)] by blast
qed

text \<open>
  C38. Each row of the phase feedback reports exactly the evidence in the replayed events of its
  task: the proofs submitted, accepted and rejected in order, the submitted proofs without a
  verdict as pending, the summary state computed from these lists, and every gap and contract
  change as an open review. No proof was submitted twice, none has two verdicts, and a verdict
  is only reported for a proof the task's events submit.
\<close>

theorem feedback_rows_are_evidence:
  assumes "phase_feedback evs nodes = Inr rows" "row \<in> set rows" "get_value row ''task_id'' = JStr t"
  shows "get_value row ''prover_verification'' = verification_summary t evs \<and>
    get_value row ''unresolved_human_review_assumptions'' = open_reviews t evs \<and>
    distinct (submitted_of t evs) \<and> distinct (accepted_of t evs @ rejected_of t evs) \<and>
    set (accepted_of t evs @ rejected_of t evs) \<subseteq> set (submitted_of t evs)"
proof -
  obtain st lev where st: "feedback_row evs lev (t, st) = Inr row" "evidence_of (task_events t evs) st" "verdicts_consistent st"
    using feedback_row_state [OF assms] .
  show ?thesis
    using feedback_row_values(2,3) [OF st(1)] st(3)
    by (simp add: evidence_lists [OF st(2)] verification_summary_def open_reviews_def verdicts_consistent_def comp_def)
qed

definition sample_stored :: "int \<Rightarrow> string \<Rightarrow> string \<Rightarrow> string \<Rightarrow> json_object \<Rightarrow> StoredEvent" where
  "sample_stored position entity_type entity_id event_type payload =
     \<lparr>se_global_position = position, se_event_id = ''e'', se_entity_type = entity_type, se_entity_id = entity_id,
      se_entity_sequence = 1, se_event_type = event_type, se_payload = payload, se_metadata = [], se_recorded_at = ''r''\<rparr>"

definition sample_history :: "StoredEvent list" where
  "sample_history =
     [sample_stored 1 ''task'' ''t'' ''task.registered''
        [(''bundle_hash'', JStr ''b''), (''bundle_id'', JStr ''t''),
         (''builder_attestation'', JObj (map (\<lambda>k. (k, JStr ''a'')) attestation_keys)),
         (''contract_hash'', JStr ''h''), (''contract_id'', JStr ''c''), (''revision'', JInt 1)],
      sample_stored 2 ''proof'' ''p'' ''proof.submitted'' [(''bundle_id'', JStr ''t''), (''proof_id'', JStr ''p'')],
      sample_stored 3 ''proof'' ''q'' ''proof.submitted'' [(''bundle_id'', JStr ''t''), (''proof_id'', JStr ''q'')],
      sample_stored 4 ''gap'' ''g'' ''gap.reported'' [(''bundle_id'', JStr ''t''), (''report_id'', JStr ''g'')],
      sample_stored 5 ''verification'' ''v'' ''verification.accepted''
        [(''accepted'', JBool True), (''bundle_id'', JStr ''t''), (''proof_id'', JStr ''p'')]]"

lemma sample_states:
  "\<exists>st. feedback_states_of sample_history = Inr [(''t'', st)] \<and> ph_relevant_events st \<noteq> []"
  by (simp add: feedback_states_of_def sample_history_def sample_stored_def register_feedback_def
      phase_feedback_registration_def event_task_id_def pj_optional_text_def pj_optional_int_def get_value_def obj_get_def
      Let_def attestation_keys_def observe_feedback_def feedback_event_def feedback_registered_def feedback_submitted_def
      feedback_verified_def feedback_reviewed_def submitted_proof_id_def text_or_def is_verification_def is_review_def
      verification_accepted_def value_or_def require_def)

definition sample_row :: json_object where
  "sample_row = (case phase_feedback sample_history [] of Inr (row # _) \<Rightarrow> row | _ \<Rightarrow> [])"

lemma sample_feedback: "phase_feedback sample_history [] = Inr [sample_row]" "get_value sample_row ''task_id'' = JStr ''t''"
proof -
  obtain st where st: "feedback_states_of sample_history = Inr [(''t'', st)]" "ph_relevant_events st \<noteq> []"
    using sample_states by blast
  have "\<exists>row. feedback_row sample_history [] (''t'', st) = Inr row"
    using st(2) by (simp add: feedback_row_def require_def)
  then obtain row where row: "feedback_row sample_history [] (''t'', st) = Inr row" ..
  then have rows: "phase_feedback sample_history [] = Inr [row]"
    by (simp add: phase_feedback_def st(1) mathematical_dependency_leverage_def)
  then have "sample_row = row" by (simp add: sample_row_def)
  then show "phase_feedback sample_history [] = Inr [sample_row]" "get_value sample_row ''task_id'' = JStr ''t''"
    using rows feedback_row_values(1) [OF row] by simp_all
qed

theorem feedback_rows_are_evidence_witness:
  "get_value sample_row ''prover_verification'' = verification_summary ''t'' sample_history \<and>
   accepted_of ''t'' sample_history = [''p''] \<and> pending_of ''t'' sample_history = [''q'']"
proof -
  have "get_value sample_row ''prover_verification'' = verification_summary ''t'' sample_history"
    using feedback_rows_are_evidence [of sample_history "[]" "[sample_row]" sample_row "''t''"] sample_feedback by simp
  moreover have "accepted_of ''t'' sample_history = [''p''] \<and> pending_of ''t'' sample_history = [''q'']"
    by (simp add: pending_of_def accepted_of_def rejected_of_def submitted_of_def task_events_def of_type_def sample_history_def
        sample_stored_def event_task_id_def pj_optional_text_def get_value_def obj_get_def verdict_proof_id_def
        submitted_proof_id_def text_or_def)
  ultimately show ?thesis by blast
qed

end
