(* ===== verification/SnapshotProps.thy ===== *)
theory SnapshotProps
  imports FeedbackProps
begin

text \<open>
  The snapshot is lossy by construction: it is the same when everything outside an allowlist
  of fields is removed from the events first. It is also a function of the set of events
  and their positions, not of the order in which they were collected.
\<close>

section \<open>The public part of an event\<close>

definition scalar_keys :: "string list" where
  "scalar_keys = [''bundle_id'', ''promotion_state'', ''execution_authority_class'', ''accepted'', ''proof_id'',
     ''provider'', ''model'', ''duration_ms'', ''input_tokens'', ''output_tokens'', ''cost_usd'', ''contract_id'',
     ''revision'', ''contract_hash'', ''bundle_hash'', ''report_id'', ''request_id'']"

definition artifact_keys :: "string list" where
  "artifact_keys = [''bundle_artifact'', ''proof_artifact'', ''gap_artifact'', ''request_artifact'',
     ''verification_artifact'', ''fidelity_evidence_artifact'']"

definition public_artifact_keys :: "string list" where
  "public_artifact_keys = [''digest'', ''media_type'', ''size'', ''kind'']"

definition public_node_keys :: "string list" where
  "public_node_keys = [''id'', ''graph'', ''bundle_id'', ''label'', ''status'', ''revision'', ''kind'', ''dependencies'', ''updated_at'']"

definition keep_keys :: "string list \<Rightarrow> json_object \<Rightarrow> json_object" where
  "keep_keys ks obj = filter (\<lambda>kv. fst kv \<in> set ks) obj"

definition keep_fields :: "string list \<Rightarrow> json \<Rightarrow> json" where
  "keep_fields ks v = (case v of JObj obj \<Rightarrow> JObj (keep_keys ks obj) | _ \<Rightarrow> v)"

definition public_value :: "string \<Rightarrow> json \<Rightarrow> json" where
  "public_value k v =
     (if k \<in> set artifact_keys then keep_fields public_artifact_keys v
      else if k = ''builder_attestation'' then keep_fields attestation_keys v
      else if k = ''graph_nodes'' then (case v of JList vs \<Rightarrow> JList (map (keep_fields public_node_keys) vs) | _ \<Rightarrow> v)
      else v)"

definition public_keys :: "string list" where
  "public_keys = scalar_keys @ artifact_keys @ [''builder_attestation'', ''graph_nodes'']"

definition public_payload :: "json_object \<Rightarrow> json_object" where
  "public_payload payload = map (\<lambda>kv. (fst kv, public_value (fst kv) (snd kv))) (keep_keys public_keys payload)"

definition public_event :: "StoredEvent \<Rightarrow> StoredEvent" where
  "public_event e = e\<lparr>se_payload := public_payload (se_payload e), se_metadata := []\<rparr>"

lemma scalar_keys_members [simp]:
  "''bundle_id'' \<in> set scalar_keys" "''promotion_state'' \<in> set scalar_keys" "''execution_authority_class'' \<in> set scalar_keys" "''accepted'' \<in> set scalar_keys" "''proof_id'' \<in> set scalar_keys" "''provider'' \<in> set scalar_keys" "''model'' \<in> set scalar_keys" "''duration_ms'' \<in> set scalar_keys" "''input_tokens'' \<in> set scalar_keys" "''output_tokens'' \<in> set scalar_keys" "''cost_usd'' \<in> set scalar_keys" "''contract_id'' \<in> set scalar_keys" "''revision'' \<in> set scalar_keys" "''contract_hash'' \<in> set scalar_keys" "''bundle_hash'' \<in> set scalar_keys" "''report_id'' \<in> set scalar_keys" "''request_id'' \<in> set scalar_keys"
  by (simp_all add: scalar_keys_def)

lemma artifact_keys_members [simp]:
  "''bundle_artifact'' \<in> set artifact_keys" "''proof_artifact'' \<in> set artifact_keys" "''gap_artifact'' \<in> set artifact_keys" "''request_artifact'' \<in> set artifact_keys" "''verification_artifact'' \<in> set artifact_keys" "''fidelity_evidence_artifact'' \<in> set artifact_keys"
  by (simp_all add: artifact_keys_def)

lemma public_artifact_keys_members [simp]:
  "''digest'' \<in> set public_artifact_keys" "''media_type'' \<in> set public_artifact_keys" "''size'' \<in> set public_artifact_keys" "''kind'' \<in> set public_artifact_keys"
  by (simp_all add: public_artifact_keys_def)

lemma public_node_keys_members [simp]:
  "''id'' \<in> set public_node_keys" "''graph'' \<in> set public_node_keys" "''bundle_id'' \<in> set public_node_keys" "''label'' \<in> set public_node_keys" "''status'' \<in> set public_node_keys" "''revision'' \<in> set public_node_keys" "''kind'' \<in> set public_node_keys" "''dependencies'' \<in> set public_node_keys" "''updated_at'' \<in> set public_node_keys"
  by (simp_all add: public_node_keys_def)

lemma obj_get_keep: "obj_get (keep_keys ks obj) k = (if k \<in> set ks then obj_get obj k else None)"
  by (induction obj) (auto simp: keep_keys_def obj_get_def)

lemma map_of_indexed: "map_of (map (\<lambda>kv. (fst kv, f (fst kv) (snd kv))) kvs) k = map_option (f k) (map_of kvs k)"
  by (induction kvs) auto

lemma obj_get_public:
  "obj_get (public_payload p) k = (if k \<in> set public_keys then map_option (public_value k) (obj_get p k) else None)"
  using obj_get_keep [of public_keys p k]
  by (simp add: public_payload_def obj_get_def map_of_indexed)

lemma list_memE:
  assumes "x \<in> set (y # ys)"
  obtains "x = y" | "x \<in> set ys"
  using assms by auto

lemma public_scalar: "k \<in> set scalar_keys \<Longrightarrow> public_value k v = v"
  unfolding scalar_keys_def by (elim list_memE) (simp_all add: public_value_def artifact_keys_def)

lemma obj_get_scalar: "k \<in> set scalar_keys \<Longrightarrow> obj_get (public_payload p) k = obj_get p k"
  by (simp add: obj_get_public public_scalar public_keys_def option.map_ident cong: map_option_cong)

lemma scalar_access:
  assumes "k \<in> set scalar_keys"
  shows "get_value (public_payload p) k = get_value p k" "pj_optional_text (public_payload p) k = pj_optional_text p k"
    "pj_optional_int (public_payload p) k = pj_optional_int p k" "pj_optional_float (public_payload p) k = pj_optional_float p k"
    "value_or (public_payload p) k d = value_or p k d"
  by (simp_all add: get_value_def pj_optional_text_def pj_optional_int_def pj_optional_float_def value_or_def obj_get_scalar [OF assms])

lemmas scalar_public = scalar_keys_members [THEN scalar_access(1)] scalar_keys_members [THEN scalar_access(2)]
  scalar_keys_members [THEN scalar_access(3)] scalar_keys_members [THEN scalar_access(4)]
  scalar_keys_members [THEN scalar_access(5)]

lemma kept_access:
  assumes "k \<in> set ks"
  shows "get_value (keep_keys ks p) k = get_value p k" "pj_optional_text (keep_keys ks p) k = pj_optional_text p k"
    "pj_optional_int (keep_keys ks p) k = pj_optional_int p k" "pj_optional_list (keep_keys ks p) k = pj_optional_list p k"
    "value_or (keep_keys ks p) k d = value_or p k d"
  using assms
  by (simp_all add: get_value_def pj_optional_text_def pj_optional_int_def pj_optional_list_def value_or_def obj_get_keep)

lemmas node_access = public_node_keys_members [THEN kept_access(2)] public_node_keys_members [THEN kept_access(3)]
  public_node_keys_members [THEN kept_access(4)]

lemma get_value_artifact:
  assumes "k \<in> set artifact_keys"
  shows "get_value (public_payload p) k = keep_fields public_artifact_keys (get_value p k)"
  using assms by (simp add: get_value_def obj_get_public public_keys_def public_value_def keep_fields_def split: option.splits)

lemma public_digest: "k \<in> set artifact_keys \<Longrightarrow> artifact_digest (public_payload p) k = artifact_digest p k"
  by (simp add: artifact_digest_def get_value_artifact keep_fields_def kept_access split: json.splits)

lemma public_capture: "k \<in> set artifact_keys \<Longrightarrow> capture_artifact (public_payload p) k d = capture_artifact p k d"
  by (simp add: capture_artifact_def get_value_artifact keep_fields_def kept_access split: json.splits option.splits)

lemma public_node_view: "public_identity_node (keep_keys public_node_keys raw) b = public_identity_node raw b"
  unfolding public_identity_node_def node_access ..

lemmas artifact_public = artifact_keys_members [THEN public_capture] artifact_keys_members [THEN public_digest]

section \<open>Events and their public part\<close>

lemma public_event_simps [simp]:
  "se_payload (public_event e) = public_payload (se_payload e)" "se_event_type (public_event e) = se_event_type e"
  "se_entity_id (public_event e) = se_entity_id e" "se_entity_type (public_event e) = se_entity_type e"
  "se_global_position (public_event e) = se_global_position e" "se_event_id (public_event e) = se_event_id e"
  "se_recorded_at (public_event e) = se_recorded_at e"
  by (simp_all add: public_event_def)

lemma public_task_id [simp]: "event_task_id (public_event e) = event_task_id e"
  unfolding event_task_id_def public_event_simps scalar_public ..

lemma public_proof_id [simp]: "submitted_proof_id (public_event e) = submitted_proof_id e"
  unfolding submitted_proof_id_def public_event_simps scalar_public ..

lemma public_accepted [simp]: "verification_accepted (public_event e) = verification_accepted e"
  unfolding verification_accepted_def Let_def public_event_simps scalar_public ..

lemma public_run: "run_from_submission (public_payload p) i = run_from_submission p i"
  unfolding run_from_submission_def scalar_public ..

lemma public_event_view: "event_view (public_event e) t = event_view e t"
  by (simp add: event_view_def)

lemma public_review: "unresolved_review_assumption (public_event e) = unresolved_review_assumption e"
  by (simp add: unresolved_review_assumption_def Let_def scalar_public artifact_public)

lemma public_milestone [simp]: "feedback_milestone ph st (public_event e) d p r = feedback_milestone ph st e d p r"
  by (simp add: feedback_milestone_def)

lemma public_graph_nodes:
  "pj_optional_list (public_payload p) ''graph_nodes'' = map (keep_fields public_node_keys) (pj_optional_list p ''graph_nodes'')"
  by (simp add: pj_optional_list_def get_value_def obj_get_public public_keys_def public_value_def artifact_keys_def
      split: option.splits json.splits)

lemma add_public_node: "add_node b (keep_fields public_node_keys raw) d = add_node b raw d"
  by (simp add: add_node_def keep_fields_def public_node_view split: json.splits)

lemma public_nodes: "fold (add_node b) (map (keep_fields public_node_keys) raws) d = fold (add_node b) raws d"
  by (induction raws arbitrary: d) (simp_all add: add_public_node)

lemma public_step: "snapshot_step (public_event e) s = snapshot_step e s"
proof -
  have "apply_event (public_event e) s = apply_event e s"
    unfolding apply_event_def block_task_def Let_def is_verification_def public_event_simps public_task_id public_proof_id
      public_accepted scalar_public public_graph_nodes public_nodes public_run artifact_public ..
  then show ?thesis by (simp add: snapshot_step_def public_event_view)
qed

section \<open>Feedback on the public part\<close>

definition public_feedback :: "PhaseFeedbackState \<Rightarrow> PhaseFeedbackState" where
  "public_feedback st = st\<lparr>ph_registration_event := public_event (ph_registration_event st),
     ph_relevant_events := map public_event (ph_relevant_events st)\<rparr>"

definition map_res :: "('a \<Rightarrow> 'b) \<Rightarrow> 'a result \<Rightarrow> 'b result" where
  "map_res f r = bindE r (\<lambda>x. Inr (f x))"

lemma map_res_simps [simp]: "map_res f (Inr x) = Inr (f x)" "map_res f (Inl e) = Inl e"
  by (simp_all add: map_res_def)

lemma map_res_bind: "map_res f (bindE m g) = bindE m (\<lambda>x. map_res f (g x))"
  by (simp add: map_res_def bindE_assoc)

lemma map_res_if: "map_res f (if b then x else y) = (if b then map_res f x else map_res f y)"
  by simp

lemma public_feedback_simps [simp]:
  "ph_task_id (public_feedback st) = ph_task_id st" "ph_builder_fidelity (public_feedback st) = ph_builder_fidelity st"
  "ph_submitted_proof_ids (public_feedback st) = ph_submitted_proof_ids st"
  "ph_accepted_proof_ids (public_feedback st) = ph_accepted_proof_ids st"
  "ph_rejected_proof_ids (public_feedback st) = ph_rejected_proof_ids st"
  "ph_unresolved_review_ids (public_feedback st) = ph_unresolved_review_ids st"
  "ph_unresolved_reviews (public_feedback st) = ph_unresolved_reviews st"
  "ph_milestones (public_feedback st) = ph_milestones st"
  "ph_registration_event (public_feedback st) = public_event (ph_registration_event st)"
  "ph_relevant_events (public_feedback st) = map public_event (ph_relevant_events st)"
  by (simp_all add: public_feedback_def)

lemma public_submitted:
  "feedback_submitted (public_event e) (public_feedback st) = map_res public_feedback (feedback_submitted e st)"
  unfolding feedback_submitted_def Let_def map_res_bind map_res_simps public_proof_id
  by (cases st) (simp add: public_feedback_def artifact_public)

lemma public_reviewed:
  "feedback_reviewed (public_event e) (public_feedback st) = map_res public_feedback (feedback_reviewed e st)"
  unfolding feedback_reviewed_def Let_def map_res_bind map_res_simps public_review
  by (cases st) (simp add: public_feedback_def)

lemma public_verified:
  "feedback_verified (public_event e) (public_feedback st) = map_res public_feedback (feedback_verified e st)"
proof (cases "pj_optional_text (se_payload e) ''proof_id''")
  case (Some p)
  show ?thesis
    unfolding feedback_verified_def public_event_simps scalar_public artifact_public public_accepted public_feedback_simps
      public_milestone Some option.case map_res_bind map_res_simps
    by (cases st) (simp add: public_feedback_def)
qed (simp add: feedback_verified_def scalar_public)

lemma public_registered: "feedback_registered (public_event e) (public_feedback st) = public_feedback (feedback_registered e st)"
  by (cases st) (simp add: feedback_registered_def public_feedback_def)

lemma public_feedback_event:
  "feedback_event (public_event e) (public_feedback st) = map_res public_feedback (feedback_event e st)"
  unfolding feedback_event_def map_res_bind map_res_if public_registered public_submitted public_reviewed public_verified
  by (simp add: is_verification_def is_review_def)

lemma public_attestation:
  assumes "get_value p ''builder_attestation'' = v"
  shows "get_value (public_payload p) ''builder_attestation'' = keep_fields attestation_keys v"
  using assms by (simp add: get_value_def obj_get_public public_keys_def public_value_def artifact_keys_def keep_fields_def
      split: option.splits)

lemma public_registration:
  "phase_feedback_registration (public_event e) t = map_option public_feedback (phase_feedback_registration e t)"
proof (cases "get_value (se_payload e) ''builder_attestation''")
  case (JObj a)
  have keep: "get_value (public_payload (se_payload e)) ''builder_attestation'' = JObj (keep_keys attestation_keys a)"
    by (simp add: public_attestation [OF JObj] keep_fields_def)
  have same: "list_ex (\<lambda>k. pj_optional_text (keep_keys attestation_keys a) k = None) attestation_keys =
      list_ex (\<lambda>k. pj_optional_text a k = None) attestation_keys"
    by (auto simp: list_ex_iff kept_access)
  show ?thesis
    unfolding phase_feedback_registration_def Let_def public_event_simps scalar_public artifact_public keep JObj
    by (simp add: same public_feedback_def split: option.splits)
qed (simp_all add: phase_feedback_registration_def Let_def public_attestation keep_fields_def scalar_public split: option.splits)

definition public_states :: "feedback_states \<Rightarrow> feedback_states" where
  "public_states states = map (\<lambda>(t, st). (t, public_feedback st)) states"

lemma map_of_public: "map_of (public_states d) t = map_option public_feedback (map_of d t)"
  by (simp add: public_states_def map_of_map_snd)

lemma public_update: "AList.update t (public_feedback st) (public_states d) = public_states (AList.update t st d)"
  by (induction d) (auto simp: public_states_def)

lemma registration_task: "phase_feedback_registration e t = Some st \<Longrightarrow> t = Some (ph_task_id st)"
  by (simp add: registration_fresh)

lemma public_register:
  "register_feedback (public_event e) (public_states d) = map_res public_states (register_feedback e d)"
  by (cases "phase_feedback_registration e (event_task_id e)")
     (simp_all add: register_feedback_def public_registration map_of_public map_res_bind public_update)

lemma public_observe: "observe_feedback (public_event e) (public_states d) = map_res public_states (observe_feedback e d)"
proof (cases "event_task_id e")
  case (Some t)
  show ?thesis
  proof (cases "map_of d t")
    case st: (Some st)
    show ?thesis
      by (cases "feedback_event e st")
         (simp_all add: observe_feedback_def Some st map_of_public public_feedback_event public_update)
  qed (simp add: observe_feedback_def Some map_of_public)
qed (simp add: observe_feedback_def)

lemma fold_public:
  assumes "\<And>e s. f (public_event e) (g s) = map_res g (f e s)"
  shows "fold_resultE f (map public_event evs) (g s) = map_res g (fold_resultE f evs s)"
proof (induction evs arbitrary: s)
  case (Cons e evs)
  show ?case by (cases "f e s") (simp_all add: assms Cons)
qed simp

lemma public_feedback_states: "feedback_states_of (map public_event evs) = map_res public_states (feedback_states_of evs)"
proof -
  have "fold_resultE register_feedback (map public_event evs) (public_states []) =
      map_res public_states (fold_resultE register_feedback evs [])"
    by (rule fold_public) (rule public_register)
  then have "fold_resultE register_feedback (map public_event evs) [] = map_res public_states (fold_resultE register_feedback evs [])"
    by (simp add: public_states_def)
  moreover have "fold_resultE observe_feedback (map public_event evs) (public_states d) =
      map_res public_states (fold_resultE observe_feedback evs d)" for d
    by (rule fold_public) (rule public_observe)
  ultimately show ?thesis
    by (cases "fold_resultE register_feedback evs []") (simp_all add: feedback_states_of_def)
qed

lemma public_replay:
  assumes "evs \<noteq> []" "rel \<noteq> []"
  shows "replay_view (map public_event evs) (map public_event rel) = replay_view evs rel"
  using assms by (simp add: replay_view_def Let_def last_map list.map_sel filter_map comp_def)

lemma public_pending: "pending_proof_ids (public_feedback st) = pending_proof_ids st"
  by (simp add: pending_proof_ids_def)

lemma public_row:
  assumes "evs \<noteq> []"
  shows "feedback_row (map public_event evs) lev (t, public_feedback st) = feedback_row evs lev (t, st)"
proof (cases "ph_relevant_events st = []")
  case False
  then show ?thesis
    unfolding feedback_row_def Let_def prod.case public_feedback_simps public_pending public_replay [OF assms False] by simp
qed (simp add: feedback_row_def require_def)

lemma sort_public: "sort_key fst (public_states d) = public_states (sort_key fst d)"
proof -
  have "insort_key fst (t, public_feedback st) (public_states d) = public_states (insort_key fst (t, st) d)" for t st d
    by (induction d) (auto simp: public_states_def)
  then show ?thesis by (induction d) (auto simp: public_states_def)
qed

lemma public_rows:
  "evs \<noteq> [] \<Longrightarrow> map_resultE (feedback_row (map public_event evs) lev) (public_states d) = map_resultE (feedback_row evs lev) d"
  by (induction d) (auto simp: public_states_def public_row)

lemma public_phase_feedback: "phase_feedback (map public_event evs) nodes = phase_feedback evs nodes"
proof (cases "evs = []")
  case False
  then show ?thesis
    by (cases "feedback_states_of evs") (simp_all add: phase_feedback_def public_feedback_states sort_public public_rows)
qed simp

lemma public_projection_events: "projection_events (map public_event evs) = map public_event (projection_events evs)"
proof -
  have "insort_key se_global_position (public_event e) (map public_event evs) = map public_event (insort_key se_global_position e evs)" for e evs
    by (induction evs) auto
  then show ?thesis unfolding projection_events_def by (induction evs) auto
qed

text \<open>
  C39. The dashboard never exposes what it does not list: the snapshot of the stored events is
  the snapshot of their public parts, in which the metadata and every payload field outside the
  allowlist are gone, artifacts keep digest, media type, size and kind only, attestations keep
  five named fields only, and graph nodes keep the nine fields shown. Two histories with the
  same public parts give the same snapshot, with the same errors.
\<close>

theorem snapshot_reads_public_parts_only:
  "snapshot now (map public_event evs) = snapshot now evs"
proof -
  have "fold_resultE snapshot_step (map public_event es) s = fold_resultE snapshot_step es s" for es s
    by (induction es arbitrary: s) (simp_all add: public_step cong: bindE_cong)
  then show ?thesis by (simp add: snapshot_def Let_def public_projection_events public_phase_feedback)
qed

section \<open>Order of collection\<close>

lemma sorted_by_position_unique:
  assumes "set evs = set evs'" "distinct (map se_global_position evs)" "distinct (map se_global_position evs')"
  shows "projection_events evs = projection_events evs'"
proof (rule map_sorted_distinct_set_unique [where f = se_global_position])
  have "inj_on se_global_position (set evs)" using assms(2) by (simp add: distinct_map)
  then show "inj_on se_global_position (set (projection_events evs) \<union> set (projection_events evs'))"
    by (simp add: projection_events_def assms(1))
  have "distinct (map se_global_position (projection_events es))" if "distinct (map se_global_position es)" for es
    using that by (simp add: projection_events_def distinct_map)
  with assms(2,3) show "distinct (map se_global_position (projection_events evs))" "distinct (map se_global_position (projection_events evs'))"
    by simp_all
qed (simp_all add: projection_events_def assms(1))

text \<open>
  The exported projection depends on the events as a set: collected in any other order,
  they give the same snapshot and the same bytes, because replay follows the positions.
\<close>

theorem projection_is_order_independent:
  assumes "set evs = set evs'" "distinct (map se_global_position evs)" "distinct (map se_global_position evs')"
  shows "snapshot now evs = snapshot now evs' \<and> export_dashboard_projection now evs = export_dashboard_projection now evs'"
  using sorted_by_position_unique [OF assms] by (simp add: snapshot_def export_dashboard_projection_def)

theorem projection_is_order_independent_witness:
  "export_dashboard_projection ''now'' (rev sample_history) = export_dashboard_projection ''now'' sample_history"
proof -
  have d: "distinct (map se_global_position sample_history)" by (simp add: sample_history_def sample_stored_def)
  then have "distinct (map se_global_position (rev sample_history))" by (simp add: rev_map [symmetric])
  then show ?thesis using projection_is_order_independent [of "rev sample_history" sample_history "''now''"] d by simp
qed

end
