(* ===== verification/Authorization.thy ===== *)
theory Authorization
  imports Submissions
begin

text \<open>
  \<open>authorization.py\<close>: the signed capability to call a model for one bundle under one lease.
  \<open>nfkc_casefold\<close> is \<open>unicodedata.normalize("NFKC", s).casefold()\<close> on the code points below
  256, which it maps one by one; the result may leave that range and is a list of code
  points. Shown: no accepted identifier hides a forbidden name behind case or compatibility
  characters, the cost reserved for a call covers every usage within the reserved tokens,
  and one attestation vouches for one capability only.
\<close>

section \<open>Public identifiers\<close>

definition nfkc_casefold_char :: "char \<Rightarrow> nat list" where
  "nfkc_casefold_char c =
     (let n = code c in
      if 65 \<le> n \<and> n \<le> 90 then [n + 32]
      else if 192 \<le> n \<and> n \<le> 222 \<and> n \<noteq> 215 then [n + 32]
      else if n = 160 then [32]
      else if n = 168 then [32, 776]
      else if n = 170 then [97]
      else if n = 175 then [32, 772]
      else if n = 178 then [50]
      else if n = 179 then [51]
      else if n = 180 then [32, 769]
      else if n = 181 then [956]
      else if n = 184 then [32, 807]
      else if n = 185 then [49]
      else if n = 186 then [111]
      else if n = 188 then [49, 8260, 52]
      else if n = 189 then [49, 8260, 50]
      else if n = 190 then [51, 8260, 52]
      else if n = 223 then [115, 115]
      else [n])"

definition nfkc_casefold :: "string \<Rightarrow> nat list" where
  "nfkc_casefold s = concat (map nfkc_casefold_char s)"

fun occurs_in :: "'a list \<Rightarrow> 'a list \<Rightarrow> bool" where
  "occurs_in p [] \<longleftrightarrow> p = []"
| "occurs_in p (x # xs) \<longleftrightarrow> prefix p (x # xs) \<or> occurs_in p xs"

definition forbidden_identifiers :: "string list" where
  "forbidden_identifiers = [''anthropic'', ''claude'']"

definition validate_public_identifier :: "string \<Rightarrow> checks" where
  "validate_public_identifier v =
     [(v \<noteq> [] \<and> v = py_strip v \<and> \<not> list_ex py_isspace v, ''must be a non-empty identifier without whitespace''),
      (\<not> list_ex (\<lambda>c. code c < 32 \<or> code c = 127) v, ''must not contain control characters''),
      (\<not> list_ex (\<lambda>t. occurs_in (map code t) (nfkc_casefold v)) forbidden_identifiers,
       ''Anthropic and Claude identifiers are not permitted in AutoLean'')]"

definition public_identifier :: "string \<Rightarrow> bool" where
  "public_identifier v \<longleftrightarrow> list_all fst (validate_public_identifier v)"

section \<open>Bindings, prices and budgets\<close>

record ModelExecutionProviderBindingV1 =
  mb_registry_name :: string
  mb_provider_id :: string
  mb_model_id :: string
  mb_model_revision :: string
  mb_endpoint_class :: EndpointClassV1
  mb_configuration_hash :: DigestV1

definition ModelExecutionProviderBindingV1_strip :: "ModelExecutionProviderBindingV1 \<Rightarrow> ModelExecutionProviderBindingV1" where
  "ModelExecutionProviderBindingV1_strip x = x\<lparr>mb_registry_name := strip_ws (mb_registry_name x),
     mb_provider_id := strip_ws (mb_provider_id x),
     mb_model_id := strip_ws (mb_model_id x),
     mb_model_revision := strip_ws (mb_model_revision x)\<rparr>"

definition dump_ModelExecutionProviderBindingV1 :: "ModelExecutionProviderBindingV1 \<Rightarrow> json" where
  "dump_ModelExecutionProviderBindingV1 x = JObj
     [(''registry_name'', JStr (mb_registry_name x)),
      (''provider_id'', JStr (mb_provider_id x)),
      (''model_id'', JStr (mb_model_id x)),
      (''model_revision'', JStr (mb_model_revision x)),
      (''endpoint_class'', JStr (EndpointClassV1_value (mb_endpoint_class x))),
      (''configuration_hash'', dump_DigestV1 (mb_configuration_hash x))]"

definition ModelExecutionProviderBindingV1_guards :: "ModelExecutionProviderBindingV1 \<Rightarrow> checks" where
  "ModelExecutionProviderBindingV1_guards x = [((mb_registry_name x) \<noteq> [], ''registry_name min_length''),
     (length (mb_registry_name x) \<le> 128, ''registry_name max_length''),
     ((mb_provider_id x) \<noteq> [], ''provider_id min_length''),
     (length (mb_provider_id x) \<le> 256, ''provider_id max_length''),
     ((mb_model_id x) \<noteq> [], ''model_id min_length''),
     (length (mb_model_id x) \<le> 512, ''model_id max_length''),
     ((mb_model_revision x) \<noteq> [], ''model_revision min_length''),
     (length (mb_model_revision x) \<le> 512, ''model_revision max_length''),
     (public_identifier (mb_registry_name x), ''registry_name''),
     (public_identifier (mb_provider_id x), ''provider_id''),
     (public_identifier (mb_model_id x), ''model_id''),
     (public_identifier (mb_model_revision x), ''model_revision''),
     (map code (mb_registry_name x) = nfkc_casefold (mb_registry_name x), ''registry_name must use its canonical lower-case routing form''),
     (mb_endpoint_class x \<notin> {EC_NONE, EC_EXTERNAL}, ''model execution requires a local or operator-approved external endpoint''),
     (dg_kind (mb_configuration_hash x) = CONFIG, ''configuration_hash kind'')]"

definition ModelExecutionProviderBindingV1_init :: "ModelExecutionProviderBindingV1 \<Rightarrow> ModelExecutionProviderBindingV1 result" where
  "ModelExecutionProviderBindingV1_init = construct ModelExecutionProviderBindingV1_strip ModelExecutionProviderBindingV1_guards"

interpretation mb_model: contract_model ModelExecutionProviderBindingV1_strip ModelExecutionProviderBindingV1_guards
  by unfold_locales (simp add: ModelExecutionProviderBindingV1_strip_def)

record ModelExecutionPricingV1 =
  mp_input_microusd_per_token :: int
  mp_cached_input_microusd_per_token :: int
  mp_output_microusd_per_token :: int

definition dump_ModelExecutionPricingV1 :: "ModelExecutionPricingV1 \<Rightarrow> json" where
  "dump_ModelExecutionPricingV1 x = JObj
     [(''input_microusd_per_token'', JInt (mp_input_microusd_per_token x)),
      (''cached_input_microusd_per_token'', JInt (mp_cached_input_microusd_per_token x)),
      (''output_microusd_per_token'', JInt (mp_output_microusd_per_token x))]"

definition ModelExecutionPricingV1_guards :: "ModelExecutionPricingV1 \<Rightarrow> checks" where
  "ModelExecutionPricingV1_guards x = [((mp_input_microusd_per_token x) \<ge> 0, ''input_microusd_per_token ge''),
     ((mp_cached_input_microusd_per_token x) \<ge> 0, ''cached_input_microusd_per_token ge''),
     ((mp_output_microusd_per_token x) \<ge> 0, ''output_microusd_per_token ge'')]"

definition ModelExecutionPricingV1_init :: "ModelExecutionPricingV1 \<Rightarrow> ModelExecutionPricingV1 result" where
  "ModelExecutionPricingV1_init = construct id ModelExecutionPricingV1_guards"

interpretation mp_model: contract_model id ModelExecutionPricingV1_guards
  by unfold_locales simp

definition cost_for_usage :: "ModelExecutionPricingV1 \<Rightarrow> int \<Rightarrow> int \<Rightarrow> int \<Rightarrow> int result" where
  "cost_for_usage p input_tokens cached_input_tokens output_tokens =
     bindE (require (min (min input_tokens cached_input_tokens) output_tokens \<ge> 0)
       (ValueError ''token usage must be non-negative'')) (\<lambda>_.
     bindE (require (cached_input_tokens \<le> input_tokens)
       (ValueError ''cached input tokens cannot exceed input tokens'')) (\<lambda>_.
     Inr ((input_tokens - cached_input_tokens) * mp_input_microusd_per_token p
        + cached_input_tokens * mp_cached_input_microusd_per_token p
        + output_tokens * mp_output_microusd_per_token p)))"

definition reserve_cost :: "ModelExecutionPricingV1 \<Rightarrow> int \<Rightarrow> int \<Rightarrow> int result" where
  "reserve_cost p max_input_tokens max_output_tokens =
     bindE (require (min max_input_tokens max_output_tokens \<ge> 0)
       (ValueError ''token reservation must be non-negative'')) (\<lambda>_.
     Inr (max (mp_input_microusd_per_token p) (mp_cached_input_microusd_per_token p) * max_input_tokens
        + mp_output_microusd_per_token p * max_output_tokens))"

record ModelExecutionBudgetV1 =
  mbu_max_attempts :: int
  mbu_max_input_tokens :: int
  mbu_max_output_tokens :: int
  mbu_max_total_tokens :: int
  mbu_max_cost_microusd :: int

definition dump_ModelExecutionBudgetV1 :: "ModelExecutionBudgetV1 \<Rightarrow> json" where
  "dump_ModelExecutionBudgetV1 x = JObj
     [(''max_attempts'', JInt (mbu_max_attempts x)),
      (''max_input_tokens'', JInt (mbu_max_input_tokens x)),
      (''max_output_tokens'', JInt (mbu_max_output_tokens x)),
      (''max_total_tokens'', JInt (mbu_max_total_tokens x)),
      (''max_cost_microusd'', JInt (mbu_max_cost_microusd x))]"

definition ModelExecutionBudgetV1_guards :: "ModelExecutionBudgetV1 \<Rightarrow> checks" where
  "ModelExecutionBudgetV1_guards x = [((mbu_max_attempts x) \<ge> 1, ''max_attempts ge''),
     ((mbu_max_input_tokens x) \<ge> 1, ''max_input_tokens ge''),
     ((mbu_max_output_tokens x) \<ge> 1, ''max_output_tokens ge''),
     ((mbu_max_total_tokens x) \<ge> 2, ''max_total_tokens ge''),
     ((mbu_max_cost_microusd x) \<ge> 0, ''max_cost_microusd ge''),
     (mbu_max_input_tokens x + mbu_max_output_tokens x \<le> mbu_max_total_tokens x, ''max_total_tokens must cover one permitted request'')]"

definition ModelExecutionBudgetV1_init :: "ModelExecutionBudgetV1 \<Rightarrow> ModelExecutionBudgetV1 result" where
  "ModelExecutionBudgetV1_init = construct id ModelExecutionBudgetV1_guards"

interpretation mbu_model: contract_model id ModelExecutionBudgetV1_guards
  by unfold_locales simp

record ModelEgressPolicyV1 =
  meg_rights_id :: StableIdentifierV1
  meg_overall_decision :: PermissionDecisionV1
  meg_model_egress :: PermissionDecisionV1
  meg_allowed_endpoint_classes :: "EndpointClassV1 list"

definition dump_ModelEgressPolicyV1 :: "ModelEgressPolicyV1 \<Rightarrow> json" where
  "dump_ModelEgressPolicyV1 x = JObj
     [(''rights_id'', dump_StableIdentifierV1 (meg_rights_id x)),
      (''overall_decision'', JStr (PermissionDecisionV1_value (meg_overall_decision x))),
      (''model_egress'', JStr (PermissionDecisionV1_value (meg_model_egress x))),
      (''allowed_endpoint_classes'', JList (map (\<lambda>v. JStr (EndpointClassV1_value v)) (meg_allowed_endpoint_classes x)))]"

definition ModelEgressPolicyV1_guards :: "ModelEgressPolicyV1 \<Rightarrow> checks" where
  "ModelEgressPolicyV1_guards x = [(distinct (meg_allowed_endpoint_classes x), ''allowed_endpoint_classes must not contain duplicates'')]"

definition ModelEgressPolicyV1_init :: "ModelEgressPolicyV1 \<Rightarrow> ModelEgressPolicyV1 result" where
  "ModelEgressPolicyV1_init = construct id ModelEgressPolicyV1_guards"

interpretation meg_model: contract_model id ModelEgressPolicyV1_guards
  by unfold_locales simp

definition permits :: "ModelEgressPolicyV1 \<Rightarrow> EndpointClassV1 \<Rightarrow> bool" where
  "permits p endpoint_class =
     (if meg_overall_decision p \<in> {PD_UNKNOWN, PD_DENY} then False
      else if endpoint_class = EC_LOCAL then True
      else endpoint_class = EC_APPROVED_EXTERNAL \<and> meg_model_egress p = PD_ALLOW \<and>
        endpoint_class \<in> set (meg_allowed_endpoint_classes p))"

section \<open>Capabilities\<close>

record ModelExecutionProviderApprovalV1 =
  ma_approval_id :: StableIdentifierV1
  ma_binding :: ModelExecutionProviderBindingV1
  ma_pricing :: ModelExecutionPricingV1
  ma_approved_by :: string
  ma_approved_at :: datetime
  ma_enabled :: bool

definition ModelExecutionProviderApprovalV1_strip :: "ModelExecutionProviderApprovalV1 \<Rightarrow> ModelExecutionProviderApprovalV1" where
  "ModelExecutionProviderApprovalV1_strip x = x\<lparr>ma_approved_by := strip_ws (ma_approved_by x)\<rparr>"

definition dump_ModelExecutionProviderApprovalV1 :: "ModelExecutionProviderApprovalV1 \<Rightarrow> json" where
  "dump_ModelExecutionProviderApprovalV1 x = JObj
     [(''approval_id'', dump_StableIdentifierV1 (ma_approval_id x)),
      (''binding'', dump_ModelExecutionProviderBindingV1 (ma_binding x)),
      (''pricing'', dump_ModelExecutionPricingV1 (ma_pricing x)),
      (''approved_by'', JStr (ma_approved_by x)),
      (''approved_at'', dump_datetime (ma_approved_at x)),
      (''enabled'', JBool (ma_enabled x))]"

definition ModelExecutionProviderApprovalV1_guards :: "ModelExecutionProviderApprovalV1 \<Rightarrow> checks" where
  "ModelExecutionProviderApprovalV1_guards x = [((ma_approved_by x) \<noteq> [], ''approved_by min_length''),
     (length (ma_approved_by x) \<le> 256, ''approved_by max_length''),
     (aware (ma_approved_at x), ''provider approval timestamp must be timezone-aware'')]"

definition ModelExecutionProviderApprovalV1_init :: "ModelExecutionProviderApprovalV1 \<Rightarrow> ModelExecutionProviderApprovalV1 result" where
  "ModelExecutionProviderApprovalV1_init = construct ModelExecutionProviderApprovalV1_strip ModelExecutionProviderApprovalV1_guards"

interpretation ma_model: contract_model ModelExecutionProviderApprovalV1_strip ModelExecutionProviderApprovalV1_guards
  by unfold_locales (simp add: ModelExecutionProviderApprovalV1_strip_def)

definition approval_hash :: "ModelExecutionProviderApprovalV1 \<Rightarrow> DigestV1" where
  "approval_hash a = digest_model MODEL_EXECUTION_APPROVAL (dump_ModelExecutionProviderApprovalV1 a)"

record ModelExecutionLeaseBindingV1 =
  ml_bundle_id :: StableIdentifierV1
  ml_worker_id :: string
  ml_fencing_token :: int
  ml_expires_at :: datetime

definition ModelExecutionLeaseBindingV1_strip :: "ModelExecutionLeaseBindingV1 \<Rightarrow> ModelExecutionLeaseBindingV1" where
  "ModelExecutionLeaseBindingV1_strip x = x\<lparr>ml_worker_id := strip_ws (ml_worker_id x)\<rparr>"

definition dump_ModelExecutionLeaseBindingV1 :: "ModelExecutionLeaseBindingV1 \<Rightarrow> json" where
  "dump_ModelExecutionLeaseBindingV1 x = JObj
     [(''bundle_id'', dump_StableIdentifierV1 (ml_bundle_id x)),
      (''worker_id'', JStr (ml_worker_id x)),
      (''fencing_token'', JInt (ml_fencing_token x)),
      (''expires_at'', dump_datetime (ml_expires_at x))]"

definition ModelExecutionLeaseBindingV1_guards :: "ModelExecutionLeaseBindingV1 \<Rightarrow> checks" where
  "ModelExecutionLeaseBindingV1_guards x = [((ml_worker_id x) \<noteq> [], ''worker_id min_length''),
     (length (ml_worker_id x) \<le> 256, ''worker_id max_length''),
     ((ml_fencing_token x) \<ge> 1, ''fencing_token ge''),
     (public_identifier (ml_worker_id x), ''worker_id''),
     (aware (ml_expires_at x), ''model execution lease expiry must be timezone-aware'')]"

definition ModelExecutionLeaseBindingV1_init :: "ModelExecutionLeaseBindingV1 \<Rightarrow> ModelExecutionLeaseBindingV1 result" where
  "ModelExecutionLeaseBindingV1_init = construct ModelExecutionLeaseBindingV1_strip ModelExecutionLeaseBindingV1_guards"

interpretation ml_model: contract_model ModelExecutionLeaseBindingV1_strip ModelExecutionLeaseBindingV1_guards
  by unfold_locales (simp add: ModelExecutionLeaseBindingV1_strip_def)

record ModelExecutionAuthorizationV1 =
  mx_authorization_id :: StableIdentifierV1
  mx_bundle_id :: StableIdentifierV1
  mx_bundle_hash :: DigestV1
  mx_contract_id :: StableIdentifierV1
  mx_revision :: int
  mx_contract_hash :: DigestV1
  mx_environment_hash :: DigestV1
  mx_lease :: ModelExecutionLeaseBindingV1
  mx_context_pack_hash :: DigestV1
  mx_request_hash :: DigestV1
  mx_egress_policy :: ModelEgressPolicyV1
  mx_approval_snapshot :: ModelExecutionProviderApprovalV1
  mx_budget :: ModelExecutionBudgetV1
  mx_issued_at :: datetime
  mx_expires_at :: datetime
  mx_attestation :: "AttestationV1 option"

definition dump_ModelExecutionAuthorizationV1 :: "ModelExecutionAuthorizationV1 \<Rightarrow> json" where
  "dump_ModelExecutionAuthorizationV1 x = JObj
     [(''schema_version'', JStr ''1.0''),
      (''authorization_id'', dump_StableIdentifierV1 (mx_authorization_id x)),
      (''bundle_id'', dump_StableIdentifierV1 (mx_bundle_id x)),
      (''bundle_hash'', dump_DigestV1 (mx_bundle_hash x)),
      (''contract_id'', dump_StableIdentifierV1 (mx_contract_id x)),
      (''revision'', JInt (mx_revision x)),
      (''contract_hash'', dump_DigestV1 (mx_contract_hash x)),
      (''environment_hash'', dump_DigestV1 (mx_environment_hash x)),
      (''lease'', dump_ModelExecutionLeaseBindingV1 (mx_lease x)),
      (''context_pack_hash'', dump_DigestV1 (mx_context_pack_hash x)),
      (''request_hash'', dump_DigestV1 (mx_request_hash x)),
      (''egress_policy'', dump_ModelEgressPolicyV1 (mx_egress_policy x)),
      (''approval_snapshot'', dump_ModelExecutionProviderApprovalV1 (mx_approval_snapshot x)),
      (''budget'', dump_ModelExecutionBudgetV1 (mx_budget x)),
      (''issued_at'', dump_datetime (mx_issued_at x)),
      (''expires_at'', dump_datetime (mx_expires_at x)),
      (''attestation'', JOpt dump_AttestationV1 (mx_attestation x))]"

definition authorization_provider :: "ModelExecutionAuthorizationV1 \<Rightarrow> ModelExecutionProviderBindingV1" where
  "authorization_provider x = ma_binding (mx_approval_snapshot x)"

definition ModelExecutionAuthorizationV1_guards :: "ModelExecutionAuthorizationV1 \<Rightarrow> checks" where
  "ModelExecutionAuthorizationV1_guards x = [((mx_revision x) \<ge> 1, ''revision ge''),
     (dg_kind (mx_bundle_hash x) = BUNDLE, ''bundle_hash kind''),
     (dg_kind (mx_contract_hash x) = CONTRACT, ''contract_hash kind''),
     (dg_kind (mx_environment_hash x) = ENVIRONMENT, ''environment_hash kind''),
     (dg_kind (mx_context_pack_hash x) = PROMPT, ''context_pack_hash kind''),
     (dg_kind (mx_request_hash x) = PROMPT, ''request_hash kind''),
     (aware (mx_issued_at x) \<and> aware (mx_expires_at x), ''authorization timestamps must be timezone-aware''),
     (dt_us (mx_expires_at x) > dt_us (mx_issued_at x), ''authorization expiry must be after issuance''),
     (ml_bundle_id (mx_lease x) = mx_bundle_id x, ''model execution lease binds a different bundle''),
     (dt_us (mx_expires_at x) \<le> dt_us (ml_expires_at (mx_lease x)), ''model execution authorization outlives its worker lease''),
     (ma_enabled (mx_approval_snapshot x), ''model execution authorization requires an enabled provider approval''),
     (permits (mx_egress_policy x) (mb_endpoint_class (authorization_provider x)), ''frozen source rights do not permit the selected model endpoint''),
     (opt_all (\<lambda>a. at_purpose a = AP_MODEL_EXECUTION) (mx_attestation x), ''authorization attestation must use the model_execution purpose'')]"

definition ModelExecutionAuthorizationV1_init :: "ModelExecutionAuthorizationV1 \<Rightarrow> ModelExecutionAuthorizationV1 result" where
  "ModelExecutionAuthorizationV1_init = construct id ModelExecutionAuthorizationV1_guards"

interpretation mx_model: contract_model id ModelExecutionAuthorizationV1_guards
  by unfold_locales simp

definition authorization_hash :: "ModelExecutionAuthorizationV1 \<Rightarrow> DigestV1" where
  "authorization_hash x = digest_model MODEL_EXECUTION_AUTHORIZATION
     (dump_exclude [''attestation''] (dump_ModelExecutionAuthorizationV1 x))"

record ModelExecutionReservationV1 =
  mv_reservation_id :: StableIdentifierV1
  mv_authorization_id :: StableIdentifierV1
  mv_attempt_number :: int
  mv_reserved_input_tokens :: int
  mv_reserved_output_tokens :: int
  mv_reserved_cost_microusd :: int
  mv_reserved_at :: datetime

definition dump_ModelExecutionReservationV1 :: "ModelExecutionReservationV1 \<Rightarrow> json" where
  "dump_ModelExecutionReservationV1 x = JObj
     [(''reservation_id'', dump_StableIdentifierV1 (mv_reservation_id x)),
      (''authorization_id'', dump_StableIdentifierV1 (mv_authorization_id x)),
      (''attempt_number'', JInt (mv_attempt_number x)),
      (''reserved_input_tokens'', JInt (mv_reserved_input_tokens x)),
      (''reserved_output_tokens'', JInt (mv_reserved_output_tokens x)),
      (''reserved_cost_microusd'', JInt (mv_reserved_cost_microusd x)),
      (''reserved_at'', dump_datetime (mv_reserved_at x))]"

definition ModelExecutionReservationV1_guards :: "ModelExecutionReservationV1 \<Rightarrow> checks" where
  "ModelExecutionReservationV1_guards x = [((mv_attempt_number x) \<ge> 1, ''attempt_number ge''),
     ((mv_reserved_input_tokens x) \<ge> 1, ''reserved_input_tokens ge''),
     ((mv_reserved_output_tokens x) \<ge> 1, ''reserved_output_tokens ge''),
     ((mv_reserved_cost_microusd x) \<ge> 0, ''reserved_cost_microusd ge''),
     (aware (mv_reserved_at x), ''reservation timestamp must be timezone-aware'')]"

definition ModelExecutionReservationV1_init :: "ModelExecutionReservationV1 \<Rightarrow> ModelExecutionReservationV1 result" where
  "ModelExecutionReservationV1_init = construct id ModelExecutionReservationV1_guards"

interpretation mv_model: contract_model id ModelExecutionReservationV1_guards
  by unfold_locales simp

definition model_execution_authorization_payload :: "ModelExecutionAuthorizationV1 \<Rightarrow> json_object" where
  "model_execution_authorization_payload x =
     [(''schema_version'', JStr ''autolean.model-execution-authorization-payload.v1''),
      (''authorization'', dump_exclude [''attestation''] (dump_ModelExecutionAuthorizationV1 x)),
      (''approval_hash'', JStr (dg_value (approval_hash (mx_approval_snapshot x)))),
      (''authorization_hash'', JStr (dg_value (authorization_hash x)))]"

section \<open>Identifiers\<close>

lemma occurs_in_iff: "occurs_in p xs \<longleftrightarrow> sublist p xs"
  by (induction xs) (auto simp: sublist_Cons_right)

lemma nfkc_casefold_append [simp]: "nfkc_casefold (s @ t) = nfkc_casefold s @ nfkc_casefold t"
  by (simp add: nfkc_casefold_def)

lemma public_identifier_spelling:
  assumes "public_identifier v" "t \<in> set forbidden_identifiers" "v = a @ m @ b"
  shows "nfkc_casefold m \<noteq> map code t"
proof
  assume "nfkc_casefold m = map code t"
  then have "occurs_in (map code t) (nfkc_casefold v)"
    unfolding occurs_in_iff sublist_def assms(3) nfkc_casefold_append by blast
  then show False
    using assms(1,2) by (auto simp: public_identifier_def validate_public_identifier_def list_ex_iff)
qed

section \<open>Costs\<close>

text \<open>
  A reservation is enough: for every valid price schedule, the actual cost of a call
  whose input and output tokens stay within the reserved ones, however many of the input
  tokens were cached, is non-negative and at most the cost reserved before the call.
\<close>

theorem reservation_covers_usage:
  assumes "ModelExecutionPricingV1_init p = Inr p"
    and "reserve_cost p max_input max_output = Inr reserved"
    and "cost_for_usage p input cached output = Inr cost"
    and "input \<le> max_input" "output \<le> max_output"
  shows "0 \<le> cost \<and> cost \<le> reserved"
proof -
  let ?i = "mp_input_microusd_per_token p" and ?c = "mp_cached_input_microusd_per_token p"
    and ?o = "mp_output_microusd_per_token p"
  have pos: "?i \<ge> 0" "?c \<ge> 0" "?o \<ge> 0"
    using assms(1) by (auto simp: ModelExecutionPricingV1_init_def construct_Inr ModelExecutionPricingV1_guards_def)
  have u: "input \<ge> 0" "cached \<ge> 0" "output \<ge> 0" "cached \<le> input"
    and cost: "cost = (input - cached) * ?i + cached * ?c + output * ?o"
    using assms(3) by (auto simp: cost_for_usage_def result_simps)
  have r: "reserved = max ?i ?c * max_input + ?o * max_output"
    using assms(2) by (auto simp: reserve_cost_def result_simps)
  have "(input - cached) * ?i + cached * ?c \<le> (input - cached) * max ?i ?c + cached * max ?i ?c"
    using u by (intro add_mono mult_left_mono) auto
  also have "\<dots> = max ?i ?c * input" by (simp add: algebra_simps)
  also have "\<dots> \<le> max ?i ?c * max_input" using assms(4) pos by (intro mult_left_mono) auto
  finally have "(input - cached) * ?i + cached * ?c \<le> max ?i ?c * max_input" .
  moreover have "output * ?o \<le> ?o * max_output"
    using assms(5) pos by (metis mult.commute mult_left_mono)
  moreover have "0 \<le> cost" unfolding cost using u pos by simp
  ultimately show ?thesis unfolding cost r by simp
qed

theorem reservation_covers_usage_witness:
  "reserve_cost \<lparr>mp_input_microusd_per_token = 3, mp_cached_input_microusd_per_token = 1, mp_output_microusd_per_token = 5\<rparr> 10 4 = Inr 50 \<and>
   cost_for_usage \<lparr>mp_input_microusd_per_token = 3, mp_cached_input_microusd_per_token = 1, mp_output_microusd_per_token = 5\<rparr> 8 2 4 = Inr 40 \<and>
   (40 :: int) \<le> 50"
proof -
  let ?p = "\<lparr>mp_input_microusd_per_token = 3, mp_cached_input_microusd_per_token = 1, mp_output_microusd_per_token = 5\<rparr>"
  have p: "ModelExecutionPricingV1_init ?p = Inr ?p"
    by (simp add: ModelExecutionPricingV1_init_def construct_Inr ModelExecutionPricingV1_guards_def)
  have r: "reserve_cost ?p 10 4 = Inr 50" by (simp add: reserve_cost_def require_def)
  have c: "cost_for_usage ?p 8 2 4 = Inr 40" by (simp add: cost_for_usage_def require_def)
  show ?thesis using reservation_covers_usage [OF p r c] r c by simp
qed

section \<open>Capabilities\<close>

lemma authorization_wf:
  "json_wf (dump_exclude [''attestation''] (dump_ModelExecutionAuthorizationV1 x))"
  by (simp add: dump_ModelExecutionAuthorizationV1_def dump_ModelExecutionLeaseBindingV1_def dump_ModelEgressPolicyV1_def
      dump_ModelExecutionProviderApprovalV1_def dump_ModelExecutionProviderBindingV1_def dump_ModelExecutionPricingV1_def
      dump_ModelExecutionBudgetV1_def dump_StableIdentifierV1_def dump_DigestV1_def dump_datetime_def list_all_iff)

text \<open>
  One attestation, one capability: an attestation accepted for the payloads of two
  model-execution authorizations was accepted for the same capability, equal in every field
  but the attestation itself, unless the two payload envelopes are a SHA-256 collision.
\<close>

theorem authorization_attestation_binds:
  assumes "HmacAttestationVerifierV1_verify keys now a AP_MODEL_EXECUTION (model_execution_authorization_payload x) = Inr ()"
    and "HmacAttestationVerifierV1_verify keys now' a AP_MODEL_EXECUTION (model_execution_authorization_payload y) = Inr ()"
  shows "(\<forall>f. f \<noteq> ''attestation'' \<longrightarrow>
       dump_field (dump_ModelExecutionAuthorizationV1 x) f = dump_field (dump_ModelExecutionAuthorizationV1 y) f) \<or>
    json_collision (payload_envelope AP_MODEL_EXECUTION (model_execution_authorization_payload x))
      (payload_envelope AP_MODEL_EXECUTION (model_execution_authorization_payload y))"
proof -
  have wf: "json_wf (JObj (model_execution_authorization_payload z))" for z
    using authorization_wf by (simp add: model_execution_authorization_payload_def del: dump_exclude.simps)
  have "dump_field (dump_ModelExecutionAuthorizationV1 x) f = dump_field (dump_ModelExecutionAuthorizationV1 y) f"
    if eq: "json_norm (JObj (model_execution_authorization_payload x)) = json_norm (JObj (model_execution_authorization_payload y))"
      and f: "f \<noteq> ''attestation''" for f
  proof -
    have "json_norm (dump_exclude [''attestation''] (dump_ModelExecutionAuthorizationV1 x))
        = json_norm (dump_exclude [''attestation''] (dump_ModelExecutionAuthorizationV1 y))"
      using json_norm_field [OF wf wf eq, of "''authorization''"]
      by (simp add: model_execution_authorization_payload_def obj_get_def del: dump_exclude.simps)
    from json_norm_field [OF authorization_wf authorization_wf this, of f] show ?thesis
      using f by (simp add: dump_exclude_field del: dump_exclude.simps)
  qed
  then show ?thesis using hmac_verifier.payload_bound [OF assms wf wf] by blast
qed

section \<open>A sample capability\<close>

definition sample_authorization :: ModelExecutionAuthorizationV1 where
  "sample_authorization =
     \<lparr>mx_authorization_id = sample_id ''auth'', mx_bundle_id = sample_id ''bundle'', mx_bundle_hash = digest_text BUNDLE ''b'',
      mx_contract_id = sample_id ''contract'', mx_revision = 1, mx_contract_hash = digest_text CONTRACT ''c'',
      mx_environment_hash = digest_text ENVIRONMENT ''e'',
      mx_lease = \<lparr>ml_bundle_id = sample_id ''bundle'', ml_worker_id = ''w'', ml_fencing_token = 1, ml_expires_at = utc 9\<rparr>,
      mx_context_pack_hash = digest_text PROMPT ''p'', mx_request_hash = digest_text PROMPT ''r'',
      mx_egress_policy = \<lparr>meg_rights_id = sample_id ''rights'', meg_overall_decision = PD_ALLOW, meg_model_egress = PD_ALLOW,
        meg_allowed_endpoint_classes = [EC_LOCAL]\<rparr>,
      mx_approval_snapshot = \<lparr>ma_approval_id = sample_id ''approval'',
        ma_binding = \<lparr>mb_registry_name = ''local'', mb_provider_id = ''p'', mb_model_id = ''m'', mb_model_revision = ''1'',
          mb_endpoint_class = EC_LOCAL, mb_configuration_hash = digest_text CONFIG ''c''\<rparr>,
        ma_pricing = \<lparr>mp_input_microusd_per_token = 3, mp_cached_input_microusd_per_token = 1, mp_output_microusd_per_token = 5\<rparr>,
        ma_approved_by = ''op'', ma_approved_at = utc 0, ma_enabled = True\<rparr>,
      mx_budget = \<lparr>mbu_max_attempts = 2, mbu_max_input_tokens = 10, mbu_max_output_tokens = 4, mbu_max_total_tokens = 28,
        mbu_max_cost_microusd = 100\<rparr>,
      mx_issued_at = utc 0, mx_expires_at = utc 8, mx_attestation = None\<rparr>"

lemma sample_authorization_ok: "ModelExecutionAuthorizationV1_init sample_authorization = Inr sample_authorization"
  by (simp add: ModelExecutionAuthorizationV1_init_def construct_Inr ModelExecutionAuthorizationV1_guards_def
      sample_authorization_def authorization_provider_def permits_def)

theorem authorization_attestation_binds_witness:
  "\<exists>a. HmacAttestationVerifierV1_verify [(''k1'', sample_key_for AP_MODEL_EXECUTION)] (utc 1) a AP_MODEL_EXECUTION
         (model_execution_authorization_payload sample_authorization) = Inr () \<and>
     (dump_field (dump_ModelExecutionAuthorizationV1 sample_authorization) ''budget''
        = dump_field (dump_ModelExecutionAuthorizationV1 sample_authorization) ''budget'' \<or>
      json_collision (payload_envelope AP_MODEL_EXECUTION (model_execution_authorization_payload sample_authorization))
        (payload_envelope AP_MODEL_EXECUTION (model_execution_authorization_payload sample_authorization)))"
  using authorization_attestation_binds [OF sample_attested(1) sample_attested(1)] sample_attested(1) by blast

end
