(* ===== verification/ModelLedger.thy ===== *)
theory ModelLedger
  imports Service Authorization "HOL-Library.AList"
begin

text \<open>
  \<open>model_authorization.py\<close>: the control plane's authority over calls of models. Its tables live
  in the database of the event store and are append-only: operator approvals of providers,
  issued capabilities, a ledger of reservations, settlements, abandonments and revocations,
  and a ledger of the health of providers. An operation reads, checks and ends in one
  transaction. Clock readings and random identifiers are arguments, numbered by the place
  that reads them; so are the transactions of other clients before the final one.
\<close>

section \<open>Numbers of seconds\<close>

text \<open>A number of seconds, as JSON prints it, with the microseconds \<open>timedelta\<close> makes of it.\<close>

record duration =
  du_number :: json
  du_us :: int

definition is_number :: "json \<Rightarrow> bool" where
  "is_number v = (case v of JInt i \<Rightarrow> True | JFloat t \<Rightarrow> True | _ \<Rightarrow> False)"

abbreviation refused :: "string \<Rightarrow> exn" where
  "refused m \<equiv> ModelExecutionAuthorizationError m"

section \<open>Tables\<close>

datatype ledger_event = LE_RESERVED | LE_SETTLED | LE_ABANDONED | LE_REVOKED

record ledger_row =
  lg_event_id :: string
  lg_authorization_id :: string
  lg_reservation_id :: "string option"
  lg_attempt_number :: "int option"
  lg_event_type :: ledger_event
  lg_reserved_input_tokens :: "int option"
  lg_reserved_output_tokens :: "int option"
  lg_reserved_cost_microusd :: "int option"
  lg_actual_input_tokens :: "int option"
  lg_actual_cached_input_tokens :: "int option"
  lg_actual_output_tokens :: "int option"
  lg_actual_cost_microusd :: "int option"
  lg_reason :: "string option"
  lg_recorded_at :: string

record health_row =
  hr_event_id :: string
  hr_binding_hash :: string
  hr_binding_json :: string
  hr_authorization_id :: string
  hr_reservation_id :: string
  hr_event_type :: string
  hr_failure_code :: "string option"
  hr_recorded_at :: string

record authorization_row =
  ar_authorization_hash :: string
  ar_authorization_json :: string
  ar_issue_request_hash :: string
  ar_issued_at :: string

record approval_row =
  pr_approval_hash :: string
  pr_approval_json :: string
  pr_registration_request_hash :: string
  pr_registered_at :: string

record ledger_db = event_db +
  md_authorizations :: "string \<Rightarrow> authorization_row option"
  md_approvals :: "string \<Rightarrow> approval_row option"
  md_approval_idempotency :: "string \<Rightarrow> (string \<times> string) option"
  md_idempotency :: "string \<times> string \<Rightarrow> (string \<times> string) option"
  md_ledger :: "ledger_row list"
  md_health :: "health_row list"

type_synonym 'a ledger_tx = "ledger_db \<Rightarrow> ('a \<times> ledger_db) result"

definition ledger_transaction :: "'a ledger_tx \<Rightarrow> ledger_db \<Rightarrow> 'a result \<times> ledger_db" where
  "ledger_transaction body db =
     (case body db of Inl e \<Rightarrow> (Inl e, db) | Inr (x, db') \<Rightarrow> (Inr x, db'))"

section \<open>The service\<close>

text \<open>
  Signer and verifier are protocols of the contracts package; the parsers are pydantic's
  \<open>model_validate_json\<close>, whose every failure the service reports alike.
\<close>

record model_service =
  ms_sign :: "AttestationPurposeV1 \<Rightarrow> json_object \<Rightarrow> string \<Rightarrow> duration \<Rightarrow> AttestationV1 result"
  ms_verify :: "datetime \<Rightarrow> AttestationV1 \<Rightarrow> AttestationPurposeV1 \<Rightarrow> json_object \<Rightarrow> unit result"
  ms_parse_authorization :: "string \<Rightarrow> ModelExecutionAuthorizationV1 option"
  ms_parse_approval :: "string \<Rightarrow> ModelExecutionProviderApprovalV1 option"
  ms_max_ttl_seconds :: duration
  ms_provider_failure_threshold :: int
  ms_provider_failure_cooldown_seconds :: duration

definition validate_max_ttl_seconds :: "duration \<Rightarrow> duration result" where
  "validate_max_ttl_seconds d =
     bindE (require (is_number (du_number d) \<and> du_us d > 0)
       (refused ''model authorization max_ttl_seconds must be finite and positive'')) (\<lambda>_.
     bindE (require (du_us d \<le> 3600 * 1000000)
       (refused ''model authorization max_ttl_seconds exceeds the one-hour hard cap'')) (\<lambda>_. Inr d))"

definition validate_provider_failure_threshold :: "int \<Rightarrow> int result" where
  "validate_provider_failure_threshold v =
     bindE (require (1 \<le> v \<and> v \<le> 100)
       (refused ''provider failure threshold must be an integer between 1 and 100'')) (\<lambda>_. Inr v)"

definition validate_provider_failure_cooldown_seconds :: "duration \<Rightarrow> duration result" where
  "validate_provider_failure_cooldown_seconds d =
     bindE (require (is_number (du_number d) \<and> 1000000 \<le> du_us d \<and> du_us d \<le> 86400 * 1000000)
       (refused ''provider failure cooldown must be between 1 and 86400 seconds'')) (\<lambda>_. Inr d)"

definition model_service_init :: "model_service \<Rightarrow> model_service result" where
  "model_service_init s =
     bindE (validate_max_ttl_seconds (ms_max_ttl_seconds s)) (\<lambda>_.
     bindE (validate_provider_failure_threshold (ms_provider_failure_threshold s)) (\<lambda>_.
     bindE (validate_provider_failure_cooldown_seconds (ms_provider_failure_cooldown_seconds s)) (\<lambda>_. Inr s)))"

record model_ambient =
  mt_clock :: "nat \<Rightarrow> datetime"
  mt_lease_clock :: "nat \<Rightarrow> datetime"
  mt_verify_clock :: "nat \<Rightarrow> datetime"
  mt_ids :: "nat \<Rightarrow> string"
  mt_between :: "ledger_db \<Rightarrow> ledger_db"

definition ledger_now :: "model_ambient \<Rightarrow> nat \<Rightarrow> datetime result" where
  "ledger_now am i =
     (if aware (mt_clock am i) then Inr (as_utc (mt_clock am i))
      else Inl (refused ''model authorization clock returned a naive timestamp''))"

section \<open>Appending rows\<close>

text \<open>SQLite stores integers of 64 bits; binding a larger one raises \<open>OverflowError\<close>.\<close>

definition fits_sqlite :: "int option \<Rightarrow> bool" where
  "fits_sqlite v = opt_all (\<lambda>i. - (2 ^ 63) \<le> i \<and> i < 2 ^ 63) v"

definition row_integers :: "ledger_row \<Rightarrow> int option list" where
  "row_integers r = [lg_attempt_number r, lg_reserved_input_tokens r, lg_reserved_output_tokens r,
     lg_reserved_cost_microusd r, lg_actual_input_tokens r, lg_actual_cached_input_tokens r,
     lg_actual_output_tokens r, lg_actual_cost_microusd r]"

definition insert_ledger :: "ledger_row \<Rightarrow> ledger_db \<Rightarrow> ledger_db result" where
  "insert_ledger r db =
     bindE (require (list_all fits_sqlite (row_integers r)) (OverflowError ''Python int too large to convert to SQLite INTEGER'')) (\<lambda>_.
     bindE (require (lg_event_id r \<notin> set (map lg_event_id (md_ledger db))) (IntegrityError ''event_id'')) (\<lambda>_.
     Inr (db\<lparr>md_ledger := md_ledger db @ [r]\<rparr>)))"

definition empty_ledger_row :: ledger_row where
  "empty_ledger_row = \<lparr>lg_event_id = [], lg_authorization_id = [], lg_reservation_id = None, lg_attempt_number = None,
     lg_event_type = LE_REVOKED, lg_reserved_input_tokens = None, lg_reserved_output_tokens = None,
     lg_reserved_cost_microusd = None, lg_actual_input_tokens = None, lg_actual_cached_input_tokens = None,
     lg_actual_output_tokens = None, lg_actual_cost_microusd = None, lg_reason = None, lg_recorded_at = []\<rparr>"

text \<open>\<open>_append_ledger_event\<close>: the given columns, with a fresh identifier and the time.\<close>

definition append_ledger_event :: "model_ambient \<Rightarrow> nat \<Rightarrow> nat \<Rightarrow> ledger_row \<Rightarrow> ledger_db \<Rightarrow> ledger_db result" where
  "append_ledger_event am clock_index id_index row db =
     bindE (ledger_now am clock_index) (\<lambda>now.
     insert_ledger (row\<lparr>lg_event_id := mt_ids am id_index, lg_recorded_at := utc_micros_text now\<rparr>) db)"

definition insert_health :: "health_row \<Rightarrow> ledger_db \<Rightarrow> ledger_db result" where
  "insert_health r db =
     bindE (require (hr_event_id r \<notin> set (map hr_event_id (md_health db))) (IntegrityError ''event_id'')) (\<lambda>_.
     bindE (require ((hr_event_type r = ''failure'' \<and> hr_failure_code r \<noteq> None) \<or>
         (hr_event_type r = ''success'' \<and> hr_failure_code r = None)) (IntegrityError ''health event'')) (\<lambda>_.
     Inr (db\<lparr>md_health := md_health db @ [r]\<rparr>)))"

definition provider_failure_codes :: "string list" where
  "provider_failure_codes = [''probe_failed_v1'', ''probe_invalid_v1'', ''probe_capability_mismatch_v1'',
     ''generation_failed_v1'', ''response_invalid_v1'', ''settlement_rejected_v1'', ''local_policy_rejected_v1'']"

definition provider_health_failure_codes :: "string list" where
  "provider_health_failure_codes = [''probe_failed_v1'', ''probe_invalid_v1'', ''generation_failed_v1'', ''response_invalid_v1'']"

definition validate_provider_failure_code :: "string \<Rightarrow> unit result" where
  "validate_provider_failure_code c =
     require (c \<in> set provider_failure_codes) (refused ''provider failure code must be a stable V1 code'')"

definition provider_binding_payload :: "ModelExecutionProviderBindingV1 \<Rightarrow> json" where
  "provider_binding_payload provider = JObj
     [(''schema_version'', JStr ''autolean.provider-circuit-binding.v1''),
      (''provider'', dump_ModelExecutionProviderBindingV1 provider)]"

definition provider_binding_record :: "ModelExecutionProviderBindingV1 \<Rightarrow> string \<times> string" where
  "provider_binding_record provider =
     (request_hash (provider_binding_payload provider), canonical_json (provider_binding_payload provider))"

definition append_provider_health_event ::
  "model_ambient \<Rightarrow> nat \<Rightarrow> nat \<Rightarrow> ModelExecutionProviderBindingV1 \<Rightarrow> string \<Rightarrow> string \<Rightarrow> string \<Rightarrow> string option
     \<Rightarrow> ledger_db \<Rightarrow> ledger_db result" where
  "append_provider_health_event am clock_index id_index provider authorization_id reservation_id event_type failure_code db =
     bindE (if event_type = ''failure'' then
         (case failure_code of
            None \<Rightarrow> Inl (refused ''provider health failure requires a failure code'')
          | Some c \<Rightarrow>
              bindE (validate_provider_failure_code c) (\<lambda>_.
              require (c \<in> set provider_health_failure_codes)
                (refused ''non-health failure code cannot advance the provider circuit'')))
       else require (failure_code = None) (refused ''provider health success cannot contain a failure code'')) (\<lambda>_.
     bindE (ledger_now am clock_index) (\<lambda>now.
     insert_health
       \<lparr>hr_event_id = mt_ids am id_index, hr_binding_hash = fst (provider_binding_record provider),
        hr_binding_json = snd (provider_binding_record provider), hr_authorization_id = authorization_id,
        hr_reservation_id = reservation_id, hr_event_type = event_type, hr_failure_code = failure_code,
        hr_recorded_at = utc_micros_text now\<rparr> db))"

section \<open>Reading the tables\<close>

definition stored_authorization :: "model_service \<Rightarrow> ledger_db \<Rightarrow> string \<Rightarrow> ModelExecutionAuthorizationV1 result" where
  "stored_authorization ms db authorization_id =
     (case md_authorizations db authorization_id of
        None \<Rightarrow> Inl (refused ''model execution authorization is unknown'')
      | Some row \<Rightarrow>
          (case ms_parse_authorization ms (ar_authorization_json row) of
             None \<Rightarrow> Inl (refused ''stored model execution authorization is corrupt'')
           | Some a \<Rightarrow>
               bindE (require (ar_authorization_hash row = dg_value (authorization_hash a))
                 (refused ''stored model execution authorization hash is corrupt'')) (\<lambda>_. Inr a)))"

definition stored_provider_approval :: "model_service \<Rightarrow> ledger_db \<Rightarrow> string \<Rightarrow> ModelExecutionProviderApprovalV1 result" where
  "stored_provider_approval ms db approval_id =
     (case md_approvals db approval_id of
        None \<Rightarrow> Inl (refused ''model execution provider approval is not registered'')
      | Some row \<Rightarrow>
          (case ms_parse_approval ms (pr_approval_json row) of
             None \<Rightarrow> Inl (refused ''stored model execution provider approval is corrupt'')
           | Some a \<Rightarrow>
               bindE (require (si_value (ma_approval_id a) = approval_id \<and> pr_approval_hash row = dg_value (approval_hash a))
                 (refused ''stored model execution provider approval hash is corrupt'')) (\<lambda>_. Inr a)))"

definition idempotent_authorization ::
  "model_service \<Rightarrow> ledger_db \<Rightarrow> string \<Rightarrow> string \<Rightarrow> string \<Rightarrow> ModelExecutionAuthorizationV1 option result" where
  "idempotent_authorization ms db scope k request_digest =
     (case md_idempotency db (scope, k) of
        None \<Rightarrow> Inr None
      | Some (digest, authorization_id) \<Rightarrow>
          bindE (require (digest = request_digest)
            (refused ''model authorization idempotency key was reused for a different request'')) (\<lambda>_.
          bindE (stored_authorization ms db authorization_id) (\<lambda>a. Inr (Some a))))"

definition idempotent_provider_approval ::
  "model_service \<Rightarrow> ledger_db \<Rightarrow> string \<Rightarrow> string \<Rightarrow> ModelExecutionProviderApprovalV1 option result" where
  "idempotent_provider_approval ms db k request_digest =
     (case md_approval_idempotency db k of
        None \<Rightarrow> Inr None
      | Some (digest, approval_id) \<Rightarrow>
          bindE (require (digest = request_digest)
            (refused ''provider approval idempotency key was reused for a different request'')) (\<lambda>_.
          bindE (stored_provider_approval ms db approval_id) (\<lambda>a. Inr (Some a))))"

definition record_authorization_idempotency :: "string \<Rightarrow> string \<Rightarrow> string \<Rightarrow> string \<Rightarrow> ledger_db \<Rightarrow> ledger_db result" where
  "record_authorization_idempotency scope k request_digest authorization_id db =
     bindE (require (md_idempotency db (scope, k) = None) (IntegrityError ''scope, key'')) (\<lambda>_.
     Inr (db\<lparr>md_idempotency := (md_idempotency db)((scope, k) \<mapsto> (request_digest, authorization_id))\<rparr>))"

definition record_provider_approval_idempotency :: "string \<Rightarrow> string \<Rightarrow> string \<Rightarrow> ledger_db \<Rightarrow> ledger_db result" where
  "record_provider_approval_idempotency k request_digest approval_id db =
     bindE (require (md_approval_idempotency db k = None) (IntegrityError ''key'')) (\<lambda>_.
     Inr (db\<lparr>md_approval_idempotency := (md_approval_idempotency db)(k \<mapsto> (request_digest, approval_id))\<rparr>))"

definition is_revoked :: "ledger_db \<Rightarrow> string \<Rightarrow> bool" where
  "is_revoked db authorization_id =
     list_ex (\<lambda>r. lg_authorization_id r = authorization_id \<and> lg_event_type r = LE_REVOKED) (md_ledger db)"

section \<open>The state of reservations\<close>

datatype reservation_status = RS_RESERVED | RS_SETTLED | RS_ABANDONED

record ReservationState =
  rs_reservation_id :: string
  rs_attempt_number :: int
  rs_reserved_input_tokens :: int
  rs_reserved_output_tokens :: int
  rs_reserved_cost_microusd :: int
  rs_state :: reservation_status
  rs_actual_input_tokens :: "int option"
  rs_actual_cached_input_tokens :: "int option"
  rs_actual_output_tokens :: "int option"
  rs_actual_cost_microusd :: "int option"
  rs_failure_code :: "string option"

record UsageTotals =
  ut_attempts :: int
  ut_input_tokens :: int
  ut_output_tokens :: int
  ut_total_tokens :: int
  ut_cost_microusd :: int

type_synonym reservation_states = "(string \<times> ReservationState) list"

definition required_nonnegative_int :: "int option \<Rightarrow> int \<Rightarrow> int result" where
  "required_nonnegative_int v minimum =
     (case v of
        None \<Rightarrow> Inl (refused ''authorization ledger has invalid integer'')
      | Some i \<Rightarrow> bindE (require (i \<ge> minimum) (refused ''authorization ledger has invalid integer'')) (\<lambda>_. Inr i))"

definition reserved_state :: "string \<Rightarrow> ledger_row \<Rightarrow> ReservationState result" where
  "reserved_state i row =
     bindE (required_nonnegative_int (lg_attempt_number row) 1) (\<lambda>attempt.
     bindE (required_nonnegative_int (lg_reserved_input_tokens row) 1) (\<lambda>input.
     bindE (required_nonnegative_int (lg_reserved_output_tokens row) 1) (\<lambda>output.
     bindE (required_nonnegative_int (lg_reserved_cost_microusd row) 0) (\<lambda>cost. Inr
       \<lparr>rs_reservation_id = i, rs_attempt_number = attempt, rs_reserved_input_tokens = input, rs_reserved_output_tokens = output,
        rs_reserved_cost_microusd = cost, rs_state = RS_RESERVED, rs_actual_input_tokens = None,
        rs_actual_cached_input_tokens = None, rs_actual_output_tokens = None, rs_actual_cost_microusd = None,
        rs_failure_code = None\<rparr>))))"

definition abandoned_state :: "ReservationState \<Rightarrow> ledger_row \<Rightarrow> ReservationState result" where
  "abandoned_state s row =
     bindE (case lg_reason row of None \<Rightarrow> Inr () | Some c \<Rightarrow> validate_provider_failure_code c) (\<lambda>_.
     Inr (s\<lparr>rs_state := RS_ABANDONED, rs_failure_code := lg_reason row\<rparr>))"

definition settled_state :: "ReservationState \<Rightarrow> ledger_row \<Rightarrow> ReservationState result" where
  "settled_state s row =
     bindE (required_nonnegative_int (lg_actual_input_tokens row) 0) (\<lambda>input.
     bindE (required_nonnegative_int (lg_actual_cached_input_tokens row) 0) (\<lambda>cached.
     bindE (required_nonnegative_int (lg_actual_output_tokens row) 0) (\<lambda>output.
     bindE (required_nonnegative_int (lg_actual_cost_microusd row) 0) (\<lambda>cost.
     Inr (s\<lparr>rs_state := RS_SETTLED, rs_actual_input_tokens := Some input, rs_actual_cached_input_tokens := Some cached,
            rs_actual_output_tokens := Some output, rs_actual_cost_microusd := Some cost\<rparr>)))))"

definition reservation_step :: "ledger_row \<Rightarrow> reservation_states \<Rightarrow> reservation_states result" where
  "reservation_step row states =
     (if lg_event_type row = LE_REVOKED then Inr states
      else case lg_reservation_id row of
        None \<Rightarrow> Inl (refused ''authorization ledger has an invalid reservation'')
      | Some i \<Rightarrow>
     bindE (require (i \<noteq> []) (refused ''authorization ledger has an invalid reservation'')) (\<lambda>_.
     if lg_event_type row = LE_RESERVED then
       bindE (require (map_of states i = None) (refused ''authorization ledger reserved twice'')) (\<lambda>_.
       bindE (reserved_state i row) (\<lambda>s. Inr (states @ [(i, s)])))
     else
       (case map_of states i of
          None \<Rightarrow> Inl (refused ''authorization ledger transition is invalid'')
        | Some s \<Rightarrow>
            bindE (require (rs_state s = RS_RESERVED) (refused ''authorization ledger transition is invalid'')) (\<lambda>_.
            bindE (if lg_event_type row = LE_ABANDONED then abandoned_state s row else settled_state s row) (\<lambda>s'.
            Inr (AList.update i s' states))))))"

fun replay_reservations :: "ledger_row list \<Rightarrow> reservation_states \<Rightarrow> reservation_states result" where
  "replay_reservations [] states = Inr states"
| "replay_reservations (row # rows) states = bindE (reservation_step row states) (replay_reservations rows)"

definition authorization_rows :: "ledger_db \<Rightarrow> string \<Rightarrow> ledger_row list" where
  "authorization_rows db authorization_id = filter (\<lambda>r. lg_authorization_id r = authorization_id) (md_ledger db)"

definition reservation_states :: "ledger_db \<Rightarrow> string \<Rightarrow> reservation_states result" where
  "reservation_states db authorization_id = replay_reservations (authorization_rows db authorization_id) []"

fun add_usage :: "ReservationState list \<Rightarrow> int \<Rightarrow> int \<Rightarrow> int \<Rightarrow> (int \<times> int \<times> int) result" where
  "add_usage [] input output cost = Inr (input, output, cost)"
| "add_usage (s # ss) input output cost =
     (case rs_state s of
        RS_ABANDONED \<Rightarrow> add_usage ss input output cost
      | RS_RESERVED \<Rightarrow>
          add_usage ss (input + rs_reserved_input_tokens s) (output + rs_reserved_output_tokens s) (cost + rs_reserved_cost_microusd s)
      | RS_SETTLED \<Rightarrow>
          (case (rs_actual_input_tokens s, rs_actual_output_tokens s, rs_actual_cost_microusd s) of
             (Some i, Some out, Some c) \<Rightarrow> add_usage ss (input + i) (output + out) (cost + c)
           | _ \<Rightarrow> Inl (refused ''settled authorization ledger row is corrupt'')))"

definition usage_totals :: "reservation_states \<Rightarrow> UsageTotals result" where
  "usage_totals states =
     bindE (add_usage (map snd states) 0 0 0) (\<lambda>(input, output, cost). Inr
       \<lparr>ut_attempts = int (length states), ut_input_tokens = input, ut_output_tokens = output,
        ut_total_tokens = input + output, ut_cost_microusd = cost\<rparr>)"

definition assert_reservation_matches :: "ModelExecutionReservationV1 \<Rightarrow> ReservationState option \<Rightarrow> ReservationState result" where
  "assert_reservation_matches reservation state =
     (case state of
        None \<Rightarrow> Inl (refused ''model execution reservation is unknown'')
      | Some s \<Rightarrow>
          bindE (require (mv_attempt_number reservation = rs_attempt_number s \<and>
              mv_reserved_input_tokens reservation = rs_reserved_input_tokens s \<and>
              mv_reserved_output_tokens reservation = rs_reserved_output_tokens s \<and>
              mv_reserved_cost_microusd reservation = rs_reserved_cost_microusd s)
            (refused ''model execution reservation differs from the control-plane ledger'')) (\<lambda>_. Inr s))"

section \<open>Health of providers\<close>

definition parse_provider_health_timestamp :: "string \<Rightarrow> datetime result" where
  "parse_provider_health_timestamp v =
     (case fromisoformat (replace_char (CHR ''Z'') ''+00:00'' v) of
        None \<Rightarrow> Inl (refused ''provider health ledger contains an invalid timestamp'')
      | Some t \<Rightarrow>
          bindE (require (aware t \<and> utc_micros_text t = v)
            (refused ''provider health ledger contains a non-canonical timestamp'')) (\<lambda>_. Inr (as_utc t)))"

fun count_failures :: "string \<Rightarrow> health_row list \<Rightarrow> int \<Rightarrow> datetime option \<Rightarrow> (int \<times> datetime option) result" where
  "count_failures binding_json [] n latest = Inr (n, latest)"
| "count_failures binding_json (row # rows) n latest =
     bindE (require (hr_binding_json row = binding_json)
       (refused ''provider health ledger binding hash collision or corruption'')) (\<lambda>_.
     if hr_event_type row = ''success'' then
       bindE (require (hr_failure_code row = None) (refused ''provider health success event contains a failure code'')) (\<lambda>_.
       Inr (n, latest))
     else
       bindE (require (hr_event_type row = ''failure'') (refused ''provider health ledger contains an invalid event'')) (\<lambda>_.
       case hr_failure_code row of
         None \<Rightarrow> Inl (refused ''provider health failure event has no failure code'')
       | Some c \<Rightarrow>
           bindE (validate_provider_failure_code c) (\<lambda>_.
           bindE (require (c \<in> set provider_health_failure_codes)
             (refused ''provider health ledger contains a non-health failure code'')) (\<lambda>_.
           bindE (parse_provider_health_timestamp (hr_recorded_at row)) (\<lambda>at.
           count_failures binding_json rows (n + 1) (case latest of None \<Rightarrow> Some at | Some t \<Rightarrow> Some t))))))"

definition binding_health :: "ledger_db \<Rightarrow> string \<Rightarrow> health_row list" where
  "binding_health db binding_hash = rev (filter (\<lambda>r. hr_binding_hash r = binding_hash) (md_health db))"

definition assert_provider_circuit_closed ::
  "model_service \<Rightarrow> model_ambient \<Rightarrow> nat \<Rightarrow> ledger_db \<Rightarrow> ModelExecutionProviderBindingV1 \<Rightarrow> unit result" where
  "assert_provider_circuit_closed ms am clock_index db provider =
     (let (binding_hash, binding_json) = provider_binding_record provider; threshold = ms_provider_failure_threshold ms in
     bindE (count_failures binding_json (take (nat threshold) (binding_health db binding_hash)) 0 None) (\<lambda>(failures, latest).
     case latest of
       None \<Rightarrow> Inr ()
     | Some at \<Rightarrow>
         if failures < threshold then Inr ()
         else bindE (ledger_now am clock_index) (\<lambda>now.
           require (\<not> dt_us now < dt_us at + du_us (ms_provider_failure_cooldown_seconds ms))
             (refused ''provider circuit is open for the authorized provider binding''))))"

section \<open>Checks of a capability\<close>

definition verify_capability :: "model_service \<Rightarrow> model_ambient \<Rightarrow> nat \<Rightarrow> ModelExecutionAuthorizationV1 \<Rightarrow> unit result" where
  "verify_capability ms am i authorization =
     (case mx_attestation authorization of
        None \<Rightarrow> Inl (refused ''model execution authorization is missing a control-plane attestation'')
      | Some attestation \<Rightarrow>
     bindE (require (\<not> dt_us (at_expires_at attestation) < dt_us (mx_expires_at authorization))
       (refused ''model execution attestation expires before its authorization capability'')) (\<lambda>_.
     bindE (ledger_now am i) (\<lambda>now.
     bindE (require (\<not> dt_us (mx_expires_at authorization) \<le> dt_us now)
       (refused ''model execution authorization has expired'')) (\<lambda>_.
     catchE is_attestation_error (refused ''model execution authorization attestation was rejected'')
       (ms_verify ms (mt_verify_clock am i) attestation AP_MODEL_EXECUTION (model_execution_authorization_payload authorization))))))"

definition validate_request_hashes :: "DigestV1 option \<Rightarrow> DigestV1 \<Rightarrow> unit result" where
  "validate_request_hashes context_pack_hash outbound_request_hash =
     bindE (require (case context_pack_hash of None \<Rightarrow> False | Some d \<Rightarrow> dg_kind d = PROMPT)
       (refused ''model execution context_pack_hash must be a prompt digest'')) (\<lambda>_.
     require (dg_kind outbound_request_hash = PROMPT) (refused ''model execution request_hash must be a prompt digest''))"

definition validate_request_limits ::
  "ModelExecutionAuthorizationV1 \<Rightarrow> ModelExecutionProviderBindingV1 \<Rightarrow> int \<Rightarrow> int \<Rightarrow> DigestV1 option \<Rightarrow> DigestV1 \<Rightarrow> unit result" where
  "validate_request_limits authorization provider input output context_pack_hash outbound_request_hash =
     bindE (require (authorization_provider authorization = provider)
       (refused ''model execution authorization does not permit the selected provider binding'')) (\<lambda>_.
     bindE (validate_request_hashes context_pack_hash outbound_request_hash) (\<lambda>_.
     bindE (require (context_pack_hash = Some (mx_context_pack_hash authorization))
       (refused ''model execution authorization does not bind this ContextPack'')) (\<lambda>_.
     bindE (require (outbound_request_hash = mx_request_hash authorization)
       (refused ''model execution authorization does not bind this outbound request'')) (\<lambda>_.
     bindE (require (input > 0 \<and> output > 0) (refused ''requested token limits must be positive integers'')) (\<lambda>_.
     bindE (require (input \<le> mbu_max_input_tokens (mx_budget authorization))
       (refused ''requested input tokens exceed authorization budget'')) (\<lambda>_.
     bindE (require (output \<le> mbu_max_output_tokens (mx_budget authorization))
       (refused ''requested output tokens exceed authorization budget'')) (\<lambda>_.
     require (input + output \<le> mbu_max_total_tokens (mx_budget authorization))
       (refused ''requested total tokens exceed authorization budget''))))))))"

definition assert_same_capability :: "ModelExecutionAuthorizationV1 \<Rightarrow> ModelExecutionAuthorizationV1 \<Rightarrow> unit result" where
  "assert_same_capability stored supplied =
     require (canonical_json (dump_ModelExecutionAuthorizationV1 stored) = canonical_json (dump_ModelExecutionAuthorizationV1 supplied))
       (refused ''supplied model execution authorization differs from the control-plane record'')"

definition lease_of_binding :: "ModelExecutionLeaseBindingV1 \<Rightarrow> Lease result" where
  "lease_of_binding l = Lease_init
     \<lparr>ls_job_id = si_value (ml_bundle_id l), ls_holder_id = ml_worker_id l, ls_fencing_token = ml_fencing_token l,
      ls_expires_at = ml_expires_at l\<rparr>"

definition assert_active :: "model_ambient \<Rightarrow> nat \<Rightarrow> ledger_db \<Rightarrow> ModelExecutionAuthorizationV1 \<Rightarrow> unit result" where
  "assert_active am i db authorization =
     bindE (ledger_now am i) (\<lambda>now.
     bindE (require (\<not> dt_us (mx_expires_at authorization) \<le> dt_us now)
       (refused ''model execution authorization has expired'')) (\<lambda>_.
     bindE (require (\<not> is_revoked db (si_value (mx_authorization_id authorization)))
       (refused ''model execution authorization has been revoked'')) (\<lambda>_.
     catchE is_stale_fence (refused ''model execution worker lease is stale or expired'')
       (bindE (lease_of_binding (mx_lease authorization)) (\<lambda>l. assert_current (mt_lease_clock am i) l db)))))"

section \<open>Operator approvals\<close>

definition approval_request :: "ModelExecutionProviderApprovalV1 \<Rightarrow> json" where
  "approval_request approval = JObj
     [(''schema_version'', JStr ''autolean.operator-provider-approval-registration-request.v1''),
      (''approval_id'', JStr (si_value (ma_approval_id approval))),
      (''approval_hash'', JStr (dg_value (approval_hash approval)))]"

definition register_approval_tx ::
  "model_service \<Rightarrow> ModelExecutionProviderApprovalV1 \<Rightarrow> string \<Rightarrow> datetime \<Rightarrow> ModelExecutionProviderApprovalV1 ledger_tx" where
  "register_approval_tx ms approval k now db =
     (let digest = request_hash (approval_request approval); i = si_value (ma_approval_id approval) in
     bindE (idempotent_provider_approval ms db k digest) (\<lambda>replay.
     case replay of
       Some a \<Rightarrow> Inr (a, db)
     | None \<Rightarrow>
         (case md_approvals db i of
            Some existing \<Rightarrow>
              bindE (require (pr_approval_hash existing = dg_value (approval_hash approval))
                (refused ''provider approval ID is already bound to a different immutable record'')) (\<lambda>_.
              bindE (stored_provider_approval ms db i) (\<lambda>stored.
              bindE (record_provider_approval_idempotency k digest (si_value (ma_approval_id stored)) db) (\<lambda>db'.
              Inr (stored, db'))))
          | None \<Rightarrow>
              bindE (record_provider_approval_idempotency k digest i (db\<lparr>md_approvals := (md_approvals db)(i \<mapsto>
                  \<lparr>pr_approval_hash = dg_value (approval_hash approval),
                   pr_approval_json = canonical_json (dump_ModelExecutionProviderApprovalV1 approval),
                   pr_registration_request_hash = digest, pr_registered_at = utc_micros_text now\<rparr>)\<rparr>)) (\<lambda>db'.
              Inr (approval, db')))))"

definition register_operator_approval ::
  "model_service \<Rightarrow> model_ambient \<Rightarrow> ModelExecutionProviderApprovalV1 \<Rightarrow> string \<Rightarrow> ledger_db
     \<Rightarrow> ModelExecutionProviderApprovalV1 result \<times> ledger_db" where
  "register_operator_approval ms am approval idempotency_key db =
     (case bindE (require (ma_enabled approval)
             (refused ''operator provider approval registration requires an enabled approval'')) (\<lambda>_.
           bindE (require (nonblank idempotency_key)
             (refused ''provider approval registration idempotency key must not be empty'')) (\<lambda>_. ledger_now am 0)) of
        Inl e \<Rightarrow> (Inl e, db)
      | Inr now \<Rightarrow> ledger_transaction (register_approval_tx ms approval idempotency_key now) db)"

section \<open>Issuing a capability\<close>

definition validate_ttl :: "model_service \<Rightarrow> duration \<Rightarrow> unit result" where
  "validate_ttl ms ttl =
     bindE (require (is_number (du_number ttl) \<and> du_us ttl > 0)
       (refused ''authorization ttl_seconds must be finite and positive'')) (\<lambda>_.
     require (du_us ttl \<le> du_us (ms_max_ttl_seconds ms))
       (refused ''authorization ttl_seconds exceeds the configured maximum''))"

definition assert_bundle_binding :: "ledger_db \<Rightarrow> FormalizationTaskBundleV1 \<Rightarrow> TaskBinding result" where
  "assert_bundle_binding db bundle =
     bindE (require_binding (event_db.truncate db) (si_value (tb_bundle_id bundle))) (\<lambda>b.
     bindE (require (tk_bundle_hash b = dg_value (handoff_hash bundle)
         \<and> tk_contract_id b = si_value (sc_contract_id (tb_contract bundle))
         \<and> tk_revision b = sc_revision (tb_contract bundle)
         \<and> tk_contract_hash b = dg_value (semantic_hash (tb_contract bundle))
         \<and> tk_environment_hash b = dg_value (le_environment_hash (fs_environment (sc_formal (tb_contract bundle)))))
       (refused ''model authorization bundle does not match the registered frozen task'')) (\<lambda>_. Inr b))"

definition assert_current_issue_lease :: "model_ambient \<Rightarrow> ledger_db \<Rightarrow> FormalizationTaskBundleV1 \<Rightarrow> Lease \<Rightarrow> unit result" where
  "assert_current_issue_lease am db bundle l =
     bindE (require (ls_job_id l = si_value (tb_bundle_id bundle))
       (refused ''model execution lease belongs to a different frozen bundle'')) (\<lambda>_.
     catchE is_stale_fence (refused ''model execution lease is stale or expired'') (assert_current (mt_lease_clock am 0) l db))"

definition egress_policy_of :: "FormalizationTaskBundleV1 \<Rightarrow> ModelEgressPolicyV1 result" where
  "egress_policy_of bundle =
     (let rights = sc_rights (tb_contract bundle) in ModelEgressPolicyV1_init
      \<lparr>meg_rights_id = rr_rights_id rights, meg_overall_decision = rr_overall_decision rights,
       meg_model_egress = rr_model_egress rights, meg_allowed_endpoint_classes = rr_allowed_endpoint_classes rights\<rparr>)"

definition draft_authorization ::
  "FormalizationTaskBundleV1 \<Rightarrow> StableIdentifierV1 \<Rightarrow> ModelExecutionProviderApprovalV1 \<Rightarrow> ModelEgressPolicyV1
     \<Rightarrow> ModelExecutionBudgetV1 \<Rightarrow> Lease \<Rightarrow> DigestV1 \<Rightarrow> DigestV1 \<Rightarrow> datetime \<Rightarrow> datetime \<Rightarrow> ModelExecutionAuthorizationV1 result" where
  "draft_authorization bundle authorization_id approval egress_policy budget l context_pack_hash outbound_request_hash now expires_at =
     bindE (ModelExecutionLeaseBindingV1_init
       \<lparr>ml_bundle_id = tb_bundle_id bundle, ml_worker_id = ls_holder_id l, ml_fencing_token = ls_fencing_token l,
        ml_expires_at = ls_expires_at l\<rparr>) (\<lambda>binding.
     ModelExecutionAuthorizationV1_init
       \<lparr>mx_authorization_id = authorization_id, mx_bundle_id = tb_bundle_id bundle, mx_bundle_hash = handoff_hash bundle,
        mx_contract_id = sc_contract_id (tb_contract bundle), mx_revision = sc_revision (tb_contract bundle),
        mx_contract_hash = semantic_hash (tb_contract bundle),
        mx_environment_hash = le_environment_hash (fs_environment (sc_formal (tb_contract bundle))),
        mx_lease = binding, mx_context_pack_hash = context_pack_hash, mx_request_hash = outbound_request_hash,
        mx_egress_policy = egress_policy, mx_approval_snapshot = approval, mx_budget = budget, mx_issued_at = now,
        mx_expires_at = expires_at, mx_attestation = None\<rparr>)"

definition issue_request ::
  "StableIdentifierV1 \<Rightarrow> TaskBinding \<Rightarrow> ModelExecutionProviderApprovalV1 \<Rightarrow> ModelExecutionBudgetV1 \<Rightarrow> ModelExecutionAuthorizationV1
     \<Rightarrow> DigestV1 \<Rightarrow> DigestV1 \<Rightarrow> duration \<Rightarrow> json" where
  "issue_request authorization_id b approval budget draft context_pack_hash outbound_request_hash ttl = JObj
     [(''schema_version'', JStr ''autolean.model-execution-issue-request.v1''),
      (''authorization_id'', JStr (si_value authorization_id)), (''bundle_hash'', JStr (tk_bundle_hash b)),
      (''approval_id'', JStr (si_value (ma_approval_id approval))), (''approval_hash'', JStr (dg_value (approval_hash approval))),
      (''budget'', dump_ModelExecutionBudgetV1 budget), (''lease'', dump_ModelExecutionLeaseBindingV1 (mx_lease draft)),
      (''context_pack_hash'', dump_DigestV1 context_pack_hash), (''request_hash'', dump_DigestV1 outbound_request_hash),
      (''ttl_seconds'', du_number ttl)]"

text \<open>Everything \<open>issue\<close> does before its transaction: the signed capability, the digest of the request and the time.\<close>

definition prepare_issue ::
  "model_service \<Rightarrow> model_ambient \<Rightarrow> FormalizationTaskBundleV1 \<Rightarrow> StableIdentifierV1 \<Rightarrow> StableIdentifierV1 \<Rightarrow> ModelExecutionBudgetV1
     \<Rightarrow> Lease \<Rightarrow> DigestV1 \<Rightarrow> DigestV1 \<Rightarrow> duration \<Rightarrow> string \<Rightarrow> ledger_db \<Rightarrow> (ModelExecutionAuthorizationV1 \<times> string \<times> datetime) result" where
  "prepare_issue ms am bundle authorization_id approval_id budget l context_pack_hash outbound_request_hash ttl idempotency_key db =
     bindE (validate_ttl ms ttl) (\<lambda>_.
     bindE (require (nonblank idempotency_key) (refused ''authorization idempotency key must not be empty'')) (\<lambda>_.
     bindE (assert_bundle_binding db bundle) (\<lambda>b.
     bindE (assert_current_issue_lease am db bundle l) (\<lambda>_.
     bindE (validate_request_hashes (Some context_pack_hash) outbound_request_hash) (\<lambda>_.
     bindE (stored_provider_approval ms db (si_value approval_id)) (\<lambda>approval.
     bindE (require (ma_enabled approval) (refused ''selected provider approval is disabled'')) (\<lambda>_.
     bindE (egress_policy_of bundle) (\<lambda>egress_policy.
     bindE (require (permits egress_policy (mb_endpoint_class (ma_binding approval)))
       (refused ''frozen source rights do not permit the selected model endpoint'')) (\<lambda>_.
     bindE (ledger_now am 0) (\<lambda>now.
     let expires_at = now\<lparr>dt_us := dt_us now + du_us ttl\<rparr> in
     bindE (require (\<not> dt_us expires_at > dt_us (ls_expires_at l))
       (refused ''model execution authorization must expire no later than its current worker lease'')) (\<lambda>_.
     bindE (draft_authorization bundle authorization_id approval egress_policy budget l context_pack_hash
       outbound_request_hash now expires_at) (\<lambda>draft.
     bindE (catchE is_attestation_error (refused ''control-plane model authorization could not be attested'')
       (ms_sign ms AP_MODEL_EXECUTION (model_execution_authorization_payload draft)
         (''model-execution-authorization:'' @ si_value authorization_id) ttl)) (\<lambda>attestation.
     bindE (model_copy ModelExecutionAuthorizationV1_init (\<lambda>x. x\<lparr>mx_attestation := Some attestation\<rparr>) draft) (\<lambda>authorization.
     bindE (verify_capability ms am 1 authorization) (\<lambda>_.
     Inr (authorization, request_hash (issue_request authorization_id b approval budget draft context_pack_hash
       outbound_request_hash ttl), now))))))))))))))))"

definition issue_scope :: string where
  "issue_scope = ''issue_model_execution_authorization''"

definition revoke_scope :: string where
  "revoke_scope = ''revoke_model_execution_authorization''"

definition issue_tx ::
  "model_service \<Rightarrow> ModelExecutionAuthorizationV1 \<Rightarrow> string \<Rightarrow> datetime \<Rightarrow> string \<Rightarrow> ModelExecutionAuthorizationV1 ledger_tx" where
  "issue_tx ms authorization digest now k db =
     (let i = si_value (mx_authorization_id authorization) in
     bindE (idempotent_authorization ms db issue_scope k digest) (\<lambda>replay.
     case replay of
       Some a \<Rightarrow> Inr (a, db)
     | None \<Rightarrow>
         (case md_authorizations db i of
            Some existing \<Rightarrow>
              bindE (require (ar_issue_request_hash existing = digest)
                (refused ''authorization ID is already bound to a different issue request'')) (\<lambda>_.
              bindE (stored_authorization ms db i) (\<lambda>stored.
              bindE (record_authorization_idempotency issue_scope k digest (si_value (mx_authorization_id stored)) db) (\<lambda>db'.
              Inr (stored, db'))))
          | None \<Rightarrow>
              bindE (record_authorization_idempotency issue_scope k digest i
                (db\<lparr>md_authorizations := (md_authorizations db)(i \<mapsto>
                  \<lparr>ar_authorization_hash = dg_value (authorization_hash authorization),
                   ar_authorization_json = canonical_json (dump_ModelExecutionAuthorizationV1 authorization),
                   ar_issue_request_hash = digest, ar_issued_at = utc_micros_text now\<rparr>)\<rparr>)) (\<lambda>db'.
              Inr (authorization, db')))))"

definition issue_authorization ::
  "model_service \<Rightarrow> model_ambient \<Rightarrow> FormalizationTaskBundleV1 \<Rightarrow> StableIdentifierV1 \<Rightarrow> StableIdentifierV1 \<Rightarrow> ModelExecutionBudgetV1
     \<Rightarrow> Lease \<Rightarrow> DigestV1 \<Rightarrow> DigestV1 \<Rightarrow> duration \<Rightarrow> string \<Rightarrow> ledger_db \<Rightarrow> ModelExecutionAuthorizationV1 result \<times> ledger_db" where
  "issue_authorization ms am bundle authorization_id approval_id budget l context_pack_hash outbound_request_hash ttl idempotency_key db =
     (case prepare_issue ms am bundle authorization_id approval_id budget l context_pack_hash outbound_request_hash ttl idempotency_key db of
        Inl e \<Rightarrow> (Inl e, db)
      | Inr (authorization, digest, now) \<Rightarrow>
          ledger_transaction (issue_tx ms authorization digest now idempotency_key) (mt_between am db))"

section \<open>Revocation\<close>

definition revocation_code :: "string \<Rightarrow> bool" where
  "revocation_code s \<longleftrightarrow> s \<noteq> [] \<and> length s \<le> 64 \<and> is_lower (hd s) \<and>
     all_chars (\<lambda>c. is_lower c \<or> is_digit c \<or> c = CHR ''_'' \<or> c = CHR ''-'') (tl s)"

definition revocation_request :: "StableIdentifierV1 \<Rightarrow> string \<Rightarrow> json" where
  "revocation_request authorization_id reason = JObj
     [(''schema_version'', JStr ''autolean.model-execution-revocation-request.v1''),
      (''authorization_id'', JStr (si_value authorization_id)), (''reason'', JStr reason)]"

definition revoke_tx :: "model_service \<Rightarrow> model_ambient \<Rightarrow> string \<Rightarrow> string \<Rightarrow> string \<Rightarrow> string \<Rightarrow> unit ledger_tx" where
  "revoke_tx ms am i reason digest k db =
     bindE (idempotent_authorization ms db revoke_scope k digest) (\<lambda>replay.
     if replay \<noteq> None then Inr ((), db)
     else
       bindE (stored_authorization ms db i) (\<lambda>_.
       bindE (if is_revoked db i then Inr db
              else append_ledger_event am 0 0 (empty_ledger_row
                \<lparr>lg_authorization_id := i, lg_event_type := LE_REVOKED, lg_reason := Some reason\<rparr>) db) (\<lambda>db1.
       bindE (record_authorization_idempotency revoke_scope k digest i db1) (\<lambda>db2. Inr ((), db2)))))"

definition revoke ::
  "model_service \<Rightarrow> model_ambient \<Rightarrow> StableIdentifierV1 \<Rightarrow> string \<Rightarrow> string \<Rightarrow> ledger_db \<Rightarrow> unit result \<times> ledger_db" where
  "revoke ms am authorization_id reason idempotency_key db =
     (case bindE (require (revocation_code reason) (refused ''revocation reason must be a safe V1 code'')) (\<lambda>_.
           require (nonblank idempotency_key) (refused ''revocation idempotency key must not be empty'')) of
        Inl e \<Rightarrow> (Inl e, db)
      | Inr _ \<Rightarrow> ledger_transaction (revoke_tx ms am (si_value authorization_id) reason
          (request_hash (revocation_request authorization_id reason)) idempotency_key) db)"

section \<open>Reserving an attempt\<close>

text \<open>The checks of \<open>preflight\<close>, repeated inside the transaction of \<open>reserve\<close>.\<close>

definition assert_usable ::
  "model_service \<Rightarrow> model_ambient \<Rightarrow> ledger_db \<Rightarrow> ModelExecutionAuthorizationV1 \<Rightarrow> ModelExecutionProviderBindingV1 \<Rightarrow> unit result" where
  "assert_usable ms am db authorization provider =
     bindE (stored_authorization ms db (si_value (mx_authorization_id authorization))) (\<lambda>stored.
     bindE (assert_same_capability stored authorization) (\<lambda>_.
     bindE (assert_active am 1 db authorization) (\<lambda>_.
     assert_provider_circuit_closed ms am 2 db provider)))"

definition preflight ::
  "model_service \<Rightarrow> model_ambient \<Rightarrow> ModelExecutionAuthorizationV1 \<Rightarrow> ModelExecutionProviderBindingV1 \<Rightarrow> int \<Rightarrow> int
     \<Rightarrow> DigestV1 option \<Rightarrow> DigestV1 \<Rightarrow> ledger_db \<Rightarrow> unit result" where
  "preflight ms am authorization provider input output context_pack_hash outbound_request_hash db =
     bindE (verify_capability ms am 0 authorization) (\<lambda>_.
     bindE (validate_request_limits authorization provider input output context_pack_hash outbound_request_hash) (\<lambda>_.
     assert_usable ms am db authorization provider))"

definition check_budget :: "ModelExecutionBudgetV1 \<Rightarrow> UsageTotals \<Rightarrow> int \<Rightarrow> int \<Rightarrow> int result \<Rightarrow> int result" where
  "check_budget budget totals input output reservation_cost =
     bindE (require (\<not> ut_attempts totals \<ge> mbu_max_attempts budget)
       (refused ''model execution authorization attempt budget exhausted'')) (\<lambda>_.
     bindE reservation_cost (\<lambda>cost.
     bindE (require (\<not> ut_input_tokens totals + input > mbu_max_input_tokens budget)
       (refused ''model execution input-token budget exhausted'')) (\<lambda>_.
     bindE (require (\<not> ut_output_tokens totals + output > mbu_max_output_tokens budget)
       (refused ''model execution output-token budget exhausted'')) (\<lambda>_.
     bindE (require (\<not> ut_total_tokens totals + input + output > mbu_max_total_tokens budget)
       (refused ''model execution total-token budget exhausted'')) (\<lambda>_.
     bindE (require (\<not> ut_cost_microusd totals + cost > mbu_max_cost_microusd budget)
       (refused ''model execution cost budget exhausted'')) (\<lambda>_. Inr cost))))))"

definition reservation_name :: "ModelExecutionAuthorizationV1 \<Rightarrow> int \<Rightarrow> string \<Rightarrow> string" where
  "reservation_name authorization attempt_number uuid =
     si_value (mx_authorization_id authorization) @ '':'' @ int_text attempt_number @ '':'' @ uuid"

definition reserve_tx ::
  "model_service \<Rightarrow> model_ambient \<Rightarrow> ModelExecutionAuthorizationV1 \<Rightarrow> ModelExecutionProviderBindingV1 \<Rightarrow> int \<Rightarrow> int
     \<Rightarrow> ModelExecutionReservationV1 ledger_tx" where
  "reserve_tx ms am authorization provider input output db =
     bindE (assert_usable ms am db authorization provider) (\<lambda>_.
     bindE (reservation_states db (si_value (mx_authorization_id authorization))) (\<lambda>states.
     bindE (usage_totals states) (\<lambda>totals.
     bindE (check_budget (mx_budget authorization) totals input output
       (reserve_cost (ma_pricing (mx_approval_snapshot authorization)) input output)) (\<lambda>cost.
     bindE (ledger_now am 3) (\<lambda>now.
     let attempt_number = ut_attempts totals + 1 in
     bindE (stable_identifier ''model-execution-reservation'' (reservation_name authorization attempt_number (mt_ids am 0))) (\<lambda>i.
     bindE (ModelExecutionReservationV1_init
       \<lparr>mv_reservation_id = i, mv_authorization_id = mx_authorization_id authorization, mv_attempt_number = attempt_number,
        mv_reserved_input_tokens = input, mv_reserved_output_tokens = output, mv_reserved_cost_microusd = cost,
        mv_reserved_at = now\<rparr>) (\<lambda>reservation.
     bindE (append_ledger_event am 4 1 (empty_ledger_row
       \<lparr>lg_authorization_id := si_value (mx_authorization_id authorization),
        lg_reservation_id := Some (si_value (mv_reservation_id reservation)), lg_attempt_number := Some attempt_number,
        lg_event_type := LE_RESERVED, lg_reserved_input_tokens := Some (mv_reserved_input_tokens reservation),
        lg_reserved_output_tokens := Some (mv_reserved_output_tokens reservation),
        lg_reserved_cost_microusd := Some (mv_reserved_cost_microusd reservation)\<rparr>) db) (\<lambda>db'.
     Inr (reservation, db')))))))))"

definition reserve ::
  "model_service \<Rightarrow> model_ambient \<Rightarrow> ModelExecutionAuthorizationV1 \<Rightarrow> ModelExecutionProviderBindingV1 \<Rightarrow> int \<Rightarrow> int
     \<Rightarrow> DigestV1 option \<Rightarrow> DigestV1 \<Rightarrow> ledger_db \<Rightarrow> ModelExecutionReservationV1 result \<times> ledger_db" where
  "reserve ms am authorization provider input output context_pack_hash outbound_request_hash db =
     (case bindE (verify_capability ms am 0 authorization) (\<lambda>_.
           validate_request_limits authorization provider input output context_pack_hash outbound_request_hash) of
        Inl e \<Rightarrow> (Inl e, db)
      | Inr _ \<Rightarrow> ledger_transaction (reserve_tx ms am authorization provider input output) db)"

section \<open>Settling and abandoning\<close>

definition settle_tx ::
  "model_service \<Rightarrow> model_ambient \<Rightarrow> ModelExecutionReservationV1 \<Rightarrow> int \<Rightarrow> int \<Rightarrow> int \<Rightarrow> unit ledger_tx" where
  "settle_tx ms am reservation input cached output db =
     bindE (stored_authorization ms db (si_value (mv_authorization_id reservation))) (\<lambda>authorization.
     let i = si_value (mx_authorization_id authorization); rid = si_value (mv_reservation_id reservation) in
     bindE (verify_capability ms am 0 authorization) (\<lambda>_.
     bindE (assert_active am 1 db authorization) (\<lambda>_.
     bindE (reservation_states db i) (\<lambda>states.
     bindE (assert_reservation_matches reservation (map_of states rid)) (\<lambda>s.
     if rs_state s = RS_SETTLED then
       bindE (require ((rs_actual_input_tokens s, rs_actual_cached_input_tokens s, rs_actual_output_tokens s)
           = (Some input, Some cached, Some output))
         (refused ''model execution settlement replay has different usage'')) (\<lambda>_. Inr ((), db))
     else
       bindE (require (rs_state s = RS_RESERVED) (refused ''model execution reservation is not active'')) (\<lambda>_.
       bindE (cost_for_usage (ma_pricing (mx_approval_snapshot authorization)) input cached output) (\<lambda>cost.
       bindE (require (\<not> (input > rs_reserved_input_tokens s \<or> output > rs_reserved_output_tokens s
           \<or> cost > rs_reserved_cost_microusd s))
         (refused ''provider usage exceeded the pre-authorized model execution reservation'')) (\<lambda>_.
       bindE (append_ledger_event am 2 0 (empty_ledger_row
         \<lparr>lg_authorization_id := i, lg_reservation_id := Some rid, lg_attempt_number := Some (mv_attempt_number reservation),
          lg_event_type := LE_SETTLED, lg_actual_input_tokens := Some input, lg_actual_cached_input_tokens := Some cached,
          lg_actual_output_tokens := Some output, lg_actual_cost_microusd := Some cost\<rparr>) db) (\<lambda>db1.
       bindE (append_provider_health_event am 3 1 (authorization_provider authorization) i rid ''success'' None db1) (\<lambda>db2.
       Inr ((), db2)))))))))))"

definition settle ::
  "model_service \<Rightarrow> model_ambient \<Rightarrow> ModelExecutionReservationV1 \<Rightarrow> int \<Rightarrow> int \<Rightarrow> int \<Rightarrow> ledger_db \<Rightarrow> unit result \<times> ledger_db" where
  "settle ms am reservation input cached output db =
     (case bindE (require (\<not> min (min input cached) output < 0) (refused ''model execution usage must be non-negative'')) (\<lambda>_.
           require (\<not> cached > input) (refused ''cached input tokens cannot exceed input tokens'')) of
        Inl e \<Rightarrow> (Inl e, db)
      | Inr _ \<Rightarrow> ledger_transaction (settle_tx ms am reservation input cached output) db)"

definition abandon_tx :: "model_service \<Rightarrow> model_ambient \<Rightarrow> ModelExecutionReservationV1 \<Rightarrow> string \<Rightarrow> unit ledger_tx" where
  "abandon_tx ms am reservation failure_code db =
     bindE (stored_authorization ms db (si_value (mv_authorization_id reservation))) (\<lambda>authorization.
     let i = si_value (mx_authorization_id authorization); rid = si_value (mv_reservation_id reservation) in
     bindE (reservation_states db i) (\<lambda>states.
     bindE (assert_reservation_matches reservation (map_of states rid)) (\<lambda>s.
     if rs_state s = RS_SETTLED then Inr ((), db)
     else if rs_state s = RS_ABANDONED then
       bindE (require (\<not> (rs_failure_code s \<noteq> None \<and> rs_failure_code s \<noteq> Some failure_code))
         (refused ''model execution abandonment replay has a different failure code'')) (\<lambda>_. Inr ((), db))
     else
       bindE (append_ledger_event am 0 0 (empty_ledger_row
         \<lparr>lg_authorization_id := i, lg_reservation_id := Some rid, lg_attempt_number := Some (mv_attempt_number reservation),
          lg_event_type := LE_ABANDONED, lg_reason := Some failure_code\<rparr>) db) (\<lambda>db1.
       bindE (if failure_code \<in> set provider_health_failure_codes
              then append_provider_health_event am 1 1 (authorization_provider authorization) i rid ''failure'' (Some failure_code) db1
              else Inr db1) (\<lambda>db2.
       Inr ((), db2))))))"

definition abandon ::
  "model_service \<Rightarrow> model_ambient \<Rightarrow> ModelExecutionReservationV1 \<Rightarrow> string \<Rightarrow> ledger_db \<Rightarrow> unit result \<times> ledger_db" where
  "abandon ms am reservation failure_code db =
     (case validate_provider_failure_code failure_code of
        Inl e \<Rightarrow> (Inl e, db)
      | Inr _ \<Rightarrow> ledger_transaction (abandon_tx ms am reservation failure_code) db)"

end
