(* ===== verification/LedgerProps.thy ===== *)
theory LedgerProps
  imports ModelLedger EventLog
begin

text \<open>
  The promises of the model execution ledger over all interleavings of its clients: budgets
  are never exceeded, revocations are final, a settled or abandoned reservation never changes,
  capabilities are immutable and a reservation is granted under current authority only.
\<close>

section \<open>Effects of the transactions\<close>

named_theorems ledger_defs \<open>definitions of the transactions of the ledger\<close>

lemma ledger_transaction_result:
  "ledger_transaction body db = (case body db of Inl e \<Rightarrow> (Inl e, db) | Inr (x, db') \<Rightarrow> (Inr x, db'))"
  by (simp add: ledger_transaction_def)

lemma ledger_transaction_Inr:
  "ledger_transaction body db = (Inr x, db') \<longleftrightarrow> body db = Inr (x, db')"
  by (auto simp: ledger_transaction_def split: sum.splits)

lemma ledger_transaction_cases:
  obtains "snd (ledger_transaction body db) = db" "\<exists>e. fst (ledger_transaction body db) = Inl e"
    | x db' where "body db = Inr (x, db')" "ledger_transaction body db = (Inr x, db')"
  by (cases "body db") (auto simp: ledger_transaction_def)

lemma ledger_now_Inr [result_simps]: "ledger_now am i = Inr t \<longleftrightarrow> aware (mt_clock am i) \<and> t = as_utc (mt_clock am i)"
  by (auto simp: ledger_now_def)

text \<open>What a successful transaction changes: rows added to the two ledgers, and entries added to the tables.\<close>

definition same_tables :: "ledger_db \<Rightarrow> ledger_db \<Rightarrow> bool" where
  "same_tables db db' \<longleftrightarrow> event_db.truncate db' = event_db.truncate db \<and> md_authorizations db' = md_authorizations db \<and>
     md_approvals db' = md_approvals db"

lemma insert_ledger_Inr [result_simps]:
  "insert_ledger r db = Inr db' \<longleftrightarrow> list_all fits_sqlite (row_integers r) \<and>
     lg_event_id r \<notin> set (map lg_event_id (md_ledger db)) \<and> db' = db\<lparr>md_ledger := md_ledger db @ [r]\<rparr>"
  by (auto simp: insert_ledger_def result_simps)

definition stamped :: "model_ambient \<Rightarrow> nat \<Rightarrow> nat \<Rightarrow> ledger_row \<Rightarrow> ledger_row" where
  "stamped am ci ii row = row\<lparr>lg_event_id := mt_ids am ii, lg_recorded_at := utc_micros_text (as_utc (mt_clock am ci))\<rparr>"

lemma append_ledger_event_Inr:
  "append_ledger_event am ci ii row db = Inr db' \<Longrightarrow> db' = db\<lparr>md_ledger := md_ledger db @ [stamped am ci ii row]\<rparr>"
  by (auto simp: append_ledger_event_def result_simps stamped_def)

lemma append_provider_health_Inr:
  "append_provider_health_event am ci ii p i r t c db = Inr db' \<Longrightarrow> \<exists>row. db' = db\<lparr>md_health := md_health db @ [row]\<rparr>"
  by (auto simp: append_provider_health_event_def insert_health_def result_simps)

lemma stamped_fields [simp]:
  "lg_authorization_id (stamped am ci ii r) = lg_authorization_id r" "lg_reservation_id (stamped am ci ii r) = lg_reservation_id r"
  "lg_attempt_number (stamped am ci ii r) = lg_attempt_number r" "lg_event_type (stamped am ci ii r) = lg_event_type r"
  "lg_reserved_input_tokens (stamped am ci ii r) = lg_reserved_input_tokens r"
  "lg_reserved_output_tokens (stamped am ci ii r) = lg_reserved_output_tokens r"
  "lg_reserved_cost_microusd (stamped am ci ii r) = lg_reserved_cost_microusd r"
  "lg_actual_input_tokens (stamped am ci ii r) = lg_actual_input_tokens r"
  "lg_actual_cached_input_tokens (stamped am ci ii r) = lg_actual_cached_input_tokens r"
  "lg_actual_output_tokens (stamped am ci ii r) = lg_actual_output_tokens r"
  "lg_actual_cost_microusd (stamped am ci ii r) = lg_actual_cost_microusd r" "lg_reason (stamped am ci ii r) = lg_reason r"
  by (simp_all add: stamped_def)

section \<open>Steps of clients\<close>

definition ledger_part :: "ledger_db \<Rightarrow> _" where
  "ledger_part db = (md_authorizations db, md_approvals db, md_approval_idempotency db, md_idempotency db, md_ledger db, md_health db)"

text \<open>
  The steps of any client of the database: transactions of the event store and the leases,
  which leave these tables alone, and the operations of the service. The transaction of
  \<open>issue\<close> commits what was prepared in any earlier state.
\<close>

inductive ledger_step :: "model_service \<Rightarrow> ledger_db \<Rightarrow> ledger_db \<Rightarrow> bool" for ms :: model_service where
  other_step: "ledger_part db' = ledger_part db \<Longrightarrow> ledger_step ms db db'"
| approval_step: "ledger_step ms db (snd (register_operator_approval ms am approval k db))"
| issue_step: "prepare_issue ms am bundle authorization_id approval_id budget l ch rh ttl k db0 = Inr (a, digest, now)
    \<Longrightarrow> ledger_step ms db (snd (ledger_transaction (issue_tx ms a digest now k) db))"
| revoke_step: "ledger_step ms db (snd (revoke ms am authorization_id reason k db))"
| reserve_step: "ledger_step ms db (snd (reserve ms am a provider input output ch rh db))"
| settle_step: "ledger_step ms db (snd (settle ms am reservation input cached output db))"
| abandon_step: "ledger_step ms db (snd (abandon ms am reservation failure db))"

definition empty_ledger :: "ledger_db \<Rightarrow> bool" where
  "empty_ledger db \<longleftrightarrow> md_authorizations db = (\<lambda>_. None) \<and> md_approvals db = (\<lambda>_. None) \<and>
     md_approval_idempotency db = (\<lambda>_. None) \<and> md_idempotency db = (\<lambda>_. None) \<and> md_ledger db = [] \<and> md_health db = []"

text \<open>The row a step adds to the ledger, if any, and the authorization it may add.\<close>

lemma issue_authorization_steps:
  assumes "(ledger_step ms)\<^sup>*\<^sup>* db (mt_between am db)"
  shows "(ledger_step ms)\<^sup>*\<^sup>* db (snd (issue_authorization ms am bundle ai pi budget l ch rh ttl k db))"
proof (cases "prepare_issue ms am bundle ai pi budget l ch rh ttl k db")
  case (Inr r)
  obtain a digest now where r: "r = (a, digest, now)" by (cases r)
  show ?thesis
    using assms issue_step [OF Inr [unfolded r], of "mt_between am db"]
    by (simp add: issue_authorization_def Inr r)
qed (simp add: issue_authorization_def)

section \<open>What each operation can add\<close>

lemma approval_effect:
  "md_authorizations (snd (register_operator_approval ms am approval k db)) = md_authorizations db \<and>
   md_ledger (snd (register_operator_approval ms am approval k db)) = md_ledger db"
  by (auto simp: register_operator_approval_def ledger_transaction_def register_approval_tx_def Let_def result_simps
      record_provider_approval_idempotency_def split: sum.splits option.splits)

lemma issue_effect:
  assumes db'_def: "db' = snd (ledger_transaction (issue_tx ms a digest now k) db)"
  shows "md_ledger db' = md_ledger db"
    and "md_authorizations db' = md_authorizations db \<or>
      (md_authorizations db (si_value (mx_authorization_id a)) = None \<and>
       md_authorizations db' = (md_authorizations db)(si_value (mx_authorization_id a) \<mapsto>
         \<lparr>ar_authorization_hash = dg_value (authorization_hash a),
          ar_authorization_json = canonical_json (dump_ModelExecutionAuthorizationV1 a),
          ar_issue_request_hash = digest, ar_issued_at = utc_micros_text now\<rparr>))"
  by (auto simp: db'_def ledger_transaction_def issue_tx_def Let_def result_simps
      record_authorization_idempotency_def split: sum.splits option.splits)

definition revoked_row :: "model_ambient \<Rightarrow> string \<Rightarrow> string \<Rightarrow> ledger_row" where
  "revoked_row am i reason = stamped am 0 0 (empty_ledger_row
     \<lparr>lg_authorization_id := i, lg_event_type := LE_REVOKED, lg_reason := Some reason\<rparr>)"

lemma record_authorization_idempotency_Inr:
  "record_authorization_idempotency scope k digest i db = Inr db' \<Longrightarrow>
     db' = db\<lparr>md_idempotency := (md_idempotency db)((scope, k) \<mapsto> (digest, i))\<rparr>"
  by (auto simp: record_authorization_idempotency_def result_simps)

lemma revoke_tx_result:
  assumes "revoke_tx ms am i reason digest k db = Inr (u, db')"
  obtains a where "md_authorizations db' = md_authorizations db" "md_ledger db' = md_ledger db"
    | a where "stored_authorization ms db i = Inr a" "\<not> is_revoked db i" "md_authorizations db' = md_authorizations db"
      "md_ledger db' = md_ledger db @ [revoked_row am i reason]"
proof -
  consider "db' = db"
    | a db1 where "stored_authorization ms db i = Inr a"
      "(if is_revoked db i then Inr db else append_ledger_event am 0 0 (empty_ledger_row
         \<lparr>lg_authorization_id := i, lg_event_type := LE_REVOKED, lg_reason := Some reason\<rparr>) db) = Inr db1"
      "record_authorization_idempotency revoke_scope k digest i db1 = Inr db'"
    using assms by (auto simp: revoke_tx_def bindE_eq_Inr split: if_splits)
  then show ?thesis
  proof cases
    case (2 a db1)
    show ?thesis
    proof (cases "is_revoked db i")
      case True
      then show ?thesis using that(1) 2(2) record_authorization_idempotency_Inr [OF 2(3)] by simp
    next
      case False
      then have "db1 = db\<lparr>md_ledger := md_ledger db @ [revoked_row am i reason]\<rparr>"
        using append_ledger_event_Inr 2(2) by (simp add: revoked_row_def)
      then show ?thesis using that(2) [OF 2(1) False] record_authorization_idempotency_Inr [OF 2(3)] by simp
    qed
  qed (use that(1) in simp)
qed

definition reserved_row :: "model_ambient \<Rightarrow> ModelExecutionAuthorizationV1 \<Rightarrow> string \<Rightarrow> int \<Rightarrow> int \<Rightarrow> int \<Rightarrow> int \<Rightarrow> ledger_row" where
  "reserved_row am a rid attempt input output cost = stamped am 4 1 (empty_ledger_row
     \<lparr>lg_authorization_id := si_value (mx_authorization_id a), lg_reservation_id := Some rid, lg_attempt_number := Some attempt,
      lg_event_type := LE_RESERVED, lg_reserved_input_tokens := Some input, lg_reserved_output_tokens := Some output,
      lg_reserved_cost_microusd := Some cost\<rparr>)"

text \<open>The conditions under which a reservation is granted.\<close>

definition granted ::
  "model_service \<Rightarrow> model_ambient \<Rightarrow> ledger_db \<Rightarrow> ModelExecutionAuthorizationV1 \<Rightarrow> ModelExecutionProviderBindingV1 \<Rightarrow> int \<Rightarrow> int
     \<Rightarrow> ModelExecutionReservationV1 \<Rightarrow> reservation_states \<Rightarrow> UsageTotals \<Rightarrow> bool" where
  "granted ms am db a provider input output r states totals \<longleftrightarrow>
     assert_usable ms am db a provider = Inr () \<and>
     reservation_states db (si_value (mx_authorization_id a)) = Inr states \<and> usage_totals states = Inr totals \<and>
     check_budget (mx_budget a) totals input output (reserve_cost (ma_pricing (mx_approval_snapshot a)) input output)
       = Inr (mv_reserved_cost_microusd r) \<and>
     stable_identifier ''model-execution-reservation'' (reservation_name a (ut_attempts totals + 1) (mt_ids am 0)) = Inr (mv_reservation_id r) \<and>
     mv_authorization_id r = mx_authorization_id a \<and> mv_attempt_number r = ut_attempts totals + 1 \<and>
     mv_reserved_input_tokens r = input \<and> mv_reserved_output_tokens r = output \<and> list_all fst (ModelExecutionReservationV1_guards r)"

lemma reserve_tx_result:
  assumes "reserve_tx ms am a provider input output db = Inr (r, db')"
  obtains states totals where "granted ms am db a provider input output r states totals"
    "db' = db\<lparr>md_ledger := md_ledger db @ [reserved_row am a (si_value (mv_reservation_id r)) (mv_attempt_number r) input output
       (mv_reserved_cost_microusd r)]\<rparr>"
proof -
  obtain states totals cost i d2 where *: "assert_usable ms am db a provider = Inr ()"
    "reservation_states db (si_value (mx_authorization_id a)) = Inr states" "usage_totals states = Inr totals"
    "check_budget (mx_budget a) totals input output (reserve_cost (ma_pricing (mx_approval_snapshot a)) input output) = Inr cost"
    "stable_identifier ''model-execution-reservation'' (reservation_name a (ut_attempts totals + 1) (mt_ids am 0)) = Inr i"
    "ModelExecutionReservationV1_init
       \<lparr>mv_reservation_id = i, mv_authorization_id = mx_authorization_id a, mv_attempt_number = ut_attempts totals + 1,
        mv_reserved_input_tokens = input, mv_reserved_output_tokens = output, mv_reserved_cost_microusd = cost,
        mv_reserved_at = as_utc (mt_clock am 3)\<rparr> = Inr r"
    "append_ledger_event am 4 1 (empty_ledger_row
       \<lparr>lg_authorization_id := si_value (mx_authorization_id a),
        lg_reservation_id := Some (si_value (mv_reservation_id r)), lg_attempt_number := Some (ut_attempts totals + 1),
        lg_event_type := LE_RESERVED, lg_reserved_input_tokens := Some (mv_reserved_input_tokens r),
        lg_reserved_output_tokens := Some (mv_reserved_output_tokens r),
        lg_reserved_cost_microusd := Some (mv_reserved_cost_microusd r)\<rparr>) db = Inr db'"
    using assms by (auto simp: reserve_tx_def Let_def result_simps)
  note init = *(6) [unfolded ModelExecutionReservationV1_init_def construct_Inr id_apply]
  note r = conjunct1 [OF init] and g = conjunct2 [OF init]
  show ?thesis
    using that [of states totals] * g append_ledger_event_Inr [OF *(7)] by (simp add: granted_def r reserved_row_def)
qed

definition settled_row :: "model_ambient \<Rightarrow> string \<Rightarrow> string \<Rightarrow> int \<Rightarrow> int \<Rightarrow> int \<Rightarrow> int \<Rightarrow> int \<Rightarrow> ledger_row" where
  "settled_row am i rid attempt input cached output cost = stamped am 2 0 (empty_ledger_row
     \<lparr>lg_authorization_id := i, lg_reservation_id := Some rid, lg_attempt_number := Some attempt,
      lg_event_type := LE_SETTLED, lg_actual_input_tokens := Some input, lg_actual_cached_input_tokens := Some cached,
      lg_actual_output_tokens := Some output, lg_actual_cost_microusd := Some cost\<rparr>)"

definition abandoned_row :: "model_ambient \<Rightarrow> string \<Rightarrow> string \<Rightarrow> int \<Rightarrow> string \<Rightarrow> ledger_row" where
  "abandoned_row am i rid attempt failure = stamped am 0 0 (empty_ledger_row
     \<lparr>lg_authorization_id := i, lg_reservation_id := Some rid, lg_attempt_number := Some attempt,
      lg_event_type := LE_ABANDONED, lg_reason := Some failure\<rparr>)"

definition chargeable ::
  "model_service \<Rightarrow> model_ambient \<Rightarrow> ledger_db \<Rightarrow> ModelExecutionReservationV1 \<Rightarrow> int \<Rightarrow> int \<Rightarrow> int \<Rightarrow> ModelExecutionAuthorizationV1
     \<Rightarrow> reservation_states \<Rightarrow> ReservationState \<Rightarrow> int \<Rightarrow> bool" where
  "chargeable ms am db r input cached output a states s cost \<longleftrightarrow>
     stored_authorization ms db (si_value (mv_authorization_id r)) = Inr a \<and> verify_capability ms am 0 a = Inr () \<and>
     assert_active am 1 db a = Inr () \<and> reservation_states db (si_value (mx_authorization_id a)) = Inr states \<and>
     map_of states (si_value (mv_reservation_id r)) = Some s \<and> rs_state s = RS_RESERVED \<and>
     cost_for_usage (ma_pricing (mx_approval_snapshot a)) input cached output = Inr cost \<and>
     input \<le> rs_reserved_input_tokens s \<and> output \<le> rs_reserved_output_tokens s \<and> cost \<le> rs_reserved_cost_microusd s"

lemma assert_reservation_matches_Inr: "assert_reservation_matches r st = Inr s \<Longrightarrow> st = Some s"
  by (auto simp: assert_reservation_matches_def result_simps split: option.splits)

lemma settle_tx_result:
  assumes "settle_tx ms am r input cached output db = Inr (u, db')"
  obtains (replay) a states s where "db' = db" "stored_authorization ms db (si_value (mv_authorization_id r)) = Inr a"
      "reservation_states db (si_value (mx_authorization_id a)) = Inr states"
      "map_of states (si_value (mv_reservation_id r)) = Some s" "rs_state s = RS_SETTLED"
      "(rs_actual_input_tokens s, rs_actual_cached_input_tokens s, rs_actual_output_tokens s) = (Some input, Some cached, Some output)"
    | (charge) a states s cost where "chargeable ms am db r input cached output a states s cost"
      "md_authorizations db' = md_authorizations db"
      "md_ledger db' = md_ledger db @ [settled_row am (si_value (mx_authorization_id a)) (si_value (mv_reservation_id r))
         (mv_attempt_number r) input cached output cost]"
proof -
  obtain a states s where *: "stored_authorization ms db (si_value (mv_authorization_id r)) = Inr a"
    "verify_capability ms am 0 a = Inr ()" "assert_active am 1 db a = Inr ()"
    "reservation_states db (si_value (mx_authorization_id a)) = Inr states"
    "assert_reservation_matches r (map_of states (si_value (mv_reservation_id r))) = Inr s"
    and rest: "(if rs_state s = RS_SETTLED then
       bindE (require ((rs_actual_input_tokens s, rs_actual_cached_input_tokens s, rs_actual_output_tokens s)
           = (Some input, Some cached, Some output))
         (refused ''model execution settlement replay has different usage'')) (\<lambda>_. Inr ((), db))
     else
       bindE (require (rs_state s = RS_RESERVED) (refused ''model execution reservation is not active'')) (\<lambda>_.
       bindE (cost_for_usage (ma_pricing (mx_approval_snapshot a)) input cached output) (\<lambda>cost.
       bindE (require (\<not> (input > rs_reserved_input_tokens s \<or> output > rs_reserved_output_tokens s
           \<or> cost > rs_reserved_cost_microusd s))
         (refused ''provider usage exceeded the pre-authorized model execution reservation'')) (\<lambda>_.
       bindE (append_ledger_event am 2 0 (empty_ledger_row
         \<lparr>lg_authorization_id := si_value (mx_authorization_id a), lg_reservation_id := Some (si_value (mv_reservation_id r)),
          lg_attempt_number := Some (mv_attempt_number r),
          lg_event_type := LE_SETTLED, lg_actual_input_tokens := Some input, lg_actual_cached_input_tokens := Some cached,
          lg_actual_output_tokens := Some output, lg_actual_cost_microusd := Some cost\<rparr>) db) (\<lambda>db1.
       bindE (append_provider_health_event am 3 1 (authorization_provider a) (si_value (mx_authorization_id a))
         (si_value (mv_reservation_id r)) ''success'' None db1) (\<lambda>db2.
       Inr ((), db2))))))) = Inr (u, db')"
    using assms unfolding settle_tx_def Let_def bindE_eq_Inr [of _ _ "(u, db')"]
    by (elim exE conjE) (rule that; simp)
  show ?thesis
  proof (cases "rs_state s = RS_SETTLED")
    case True
    then have "db' = db" "(rs_actual_input_tokens s, rs_actual_cached_input_tokens s, rs_actual_output_tokens s)
        = (Some input, Some cached, Some output)"
      using rest by (auto simp: result_simps)
    then show ?thesis using replay [OF _ *(1,4) assert_reservation_matches_Inr [OF *(5)] True] by blast
  next
    case False
    with rest obtain cost db1 where c: "rs_state s = RS_RESERVED"
      "cost_for_usage (ma_pricing (mx_approval_snapshot a)) input cached output = Inr cost"
      "input \<le> rs_reserved_input_tokens s" "output \<le> rs_reserved_output_tokens s" "cost \<le> rs_reserved_cost_microusd s"
      and db1: "append_ledger_event am 2 0 (empty_ledger_row
         \<lparr>lg_authorization_id := si_value (mx_authorization_id a), lg_reservation_id := Some (si_value (mv_reservation_id r)),
          lg_attempt_number := Some (mv_attempt_number r),
          lg_event_type := LE_SETTLED, lg_actual_input_tokens := Some input, lg_actual_cached_input_tokens := Some cached,
          lg_actual_output_tokens := Some output, lg_actual_cost_microusd := Some cost\<rparr>) db = Inr db1"
      and db2: "append_provider_health_event am 3 1 (authorization_provider a) (si_value (mx_authorization_id a))
         (si_value (mv_reservation_id r)) ''success'' None db1 = Inr db'"
      by (auto simp: result_simps not_less)
    have "chargeable ms am db r input cached output a states s cost"
      using * c assert_reservation_matches_Inr [OF *(5)] by (simp add: chargeable_def)
    then show ?thesis
      using charge append_ledger_event_Inr [OF db1] append_provider_health_Inr [OF db2] by (auto simp: settled_row_def)
  qed
qed

lemma abandon_tx_result:
  assumes "abandon_tx ms am r failure db = Inr (u, db')"
  obtains (replay) a states s where "db' = db" "stored_authorization ms db (si_value (mv_authorization_id r)) = Inr a"
      "reservation_states db (si_value (mx_authorization_id a)) = Inr states"
      "map_of states (si_value (mv_reservation_id r)) = Some s" "rs_state s \<noteq> RS_RESERVED"
    | (release) a states s where "stored_authorization ms db (si_value (mv_authorization_id r)) = Inr a"
      "reservation_states db (si_value (mx_authorization_id a)) = Inr states"
      "map_of states (si_value (mv_reservation_id r)) = Some s" "rs_state s = RS_RESERVED"
      "md_authorizations db' = md_authorizations db"
      "md_ledger db' = md_ledger db @ [abandoned_row am (si_value (mx_authorization_id a)) (si_value (mv_reservation_id r))
         (mv_attempt_number r) failure]"
proof -
  obtain a states s where *: "stored_authorization ms db (si_value (mv_authorization_id r)) = Inr a"
    "reservation_states db (si_value (mx_authorization_id a)) = Inr states"
    "assert_reservation_matches r (map_of states (si_value (mv_reservation_id r))) = Inr s"
    and rest: "(if rs_state s = RS_SETTLED then Inr ((), db)
     else if rs_state s = RS_ABANDONED then
       bindE (require (\<not> (rs_failure_code s \<noteq> None \<and> rs_failure_code s \<noteq> Some failure))
         (refused ''model execution abandonment replay has a different failure code'')) (\<lambda>_. Inr ((), db))
     else
       bindE (append_ledger_event am 0 0 (empty_ledger_row
         \<lparr>lg_authorization_id := si_value (mx_authorization_id a), lg_reservation_id := Some (si_value (mv_reservation_id r)),
          lg_attempt_number := Some (mv_attempt_number r),
          lg_event_type := LE_ABANDONED, lg_reason := Some failure\<rparr>) db) (\<lambda>db1.
       bindE (if failure \<in> set provider_health_failure_codes
              then append_provider_health_event am 1 1 (authorization_provider a) (si_value (mx_authorization_id a))
                (si_value (mv_reservation_id r)) ''failure'' (Some failure) db1
              else Inr db1) (\<lambda>db2.
       Inr ((), db2)))) = Inr (u, db')"
    using assms unfolding abandon_tx_def Let_def bindE_eq_Inr [of _ _ "(u, db')"]
    by (elim exE conjE) (rule that; simp)
  show ?thesis
  proof (cases "rs_state s = RS_RESERVED")
    case False
    then have "db' = db" using rest by (cases "rs_state s") (auto simp: result_simps)
    then show ?thesis using replay [OF _ *(1,2) assert_reservation_matches_Inr [OF *(3)] False] by blast
  next
    case True
    with rest obtain db1 where db1: "append_ledger_event am 0 0 (empty_ledger_row
         \<lparr>lg_authorization_id := si_value (mx_authorization_id a), lg_reservation_id := Some (si_value (mv_reservation_id r)),
          lg_attempt_number := Some (mv_attempt_number r),
          lg_event_type := LE_ABANDONED, lg_reason := Some failure\<rparr>) db = Inr db1"
      and db2: "db' = db1 \<or> append_provider_health_event am 1 1 (authorization_provider a) (si_value (mx_authorization_id a))
         (si_value (mv_reservation_id r)) ''failure'' (Some failure) db1 = Inr db'"
      by (auto simp: bindE_eq_Inr split: if_splits)
    have "md_ledger db' = md_ledger db1 \<and> md_authorizations db' = md_authorizations db1"
      using db2 by (auto dest!: append_provider_health_Inr)
    then show ?thesis
      using release [OF *(1,2) assert_reservation_matches_Inr [OF *(3)] True] append_ledger_event_Inr [OF db1]
      by (simp add: abandoned_row_def)
  qed
qed

text \<open>Every step is one of these.\<close>

lemma ledger_step_effect:
  assumes "ledger_step ms db db'"
  obtains (quiet) "md_ledger db' = md_ledger db" "md_authorizations db' = md_authorizations db"
    | (issued) i row where "md_ledger db' = md_ledger db" "md_authorizations db i = None"
      "md_authorizations db' = (md_authorizations db)(i \<mapsto> row)"
    | (revoked) am i a reason where "stored_authorization ms db i = Inr a" "md_authorizations db' = md_authorizations db"
      "md_ledger db' = md_ledger db @ [revoked_row am i reason]"
    | (reserved) am a provider m n r states totals where "granted ms am db a provider m n r states totals"
      "md_authorizations db' = md_authorizations db"
      "md_ledger db' = md_ledger db @ [reserved_row am a (si_value (mv_reservation_id r)) (mv_attempt_number r) m n
         (mv_reserved_cost_microusd r)]"
    | (settled) am a r m cached n states s cost where "chargeable ms am db r m cached n a states s cost"
      "md_authorizations db' = md_authorizations db"
      "md_ledger db' = md_ledger db @ [settled_row am (si_value (mx_authorization_id a)) (si_value (mv_reservation_id r))
         (mv_attempt_number r) m cached n cost]"
    | (abandoned) am i rid n failure states s where "reservation_states db i = Inr states"
      "map_of states rid = Some s" "rs_state s = RS_RESERVED" "failure \<in> set provider_failure_codes"
      "md_authorizations db' = md_authorizations db" "md_ledger db' = md_ledger db @ [abandoned_row am i rid n failure]"
  using assms
proof cases
  case other_step
  then show ?thesis using quiet by (simp add: ledger_part_def)
next
  case (approval_step am approval k)
  then show ?thesis using quiet approval_effect by simp
next
  case (issue_step am b authorization_id approval_id budget l ch rh ttl k db0 a digest now)
  note eff = issue_effect [OF issue_step(1)]
  from eff(2) show ?thesis
  proof
    assume "md_authorizations db' = md_authorizations db"
    then show ?thesis by (rule quiet [OF eff(1)])
  qed (elim conjE, rule issued [OF eff(1)])
next
  case (revoke_step am authorization_id reason k)
  show ?thesis
  proof (cases "fst (revoke ms am authorization_id reason k db)")
    case (Inl e)
    then have "db' = db" using revoke_step by (auto simp: revoke_def ledger_transaction_def split: sum.splits)
    then show ?thesis using quiet by simp
  next
    case (Inr u)
    then have "revoke_tx ms am (si_value authorization_id) reason (request_hash (revocation_request authorization_id reason)) k db = Inr (u, db')"
      using revoke_step by (auto simp: revoke_def ledger_transaction_def split: sum.splits)
    then show ?thesis using quiet revoked by (cases rule: revoke_tx_result) blast+
  qed
next
  case (reserve_step am a provider m n ch rh)
  show ?thesis
  proof (cases "fst (reserve ms am a provider m n ch rh db)")
    case (Inl e)
    then have "db' = db" using reserve_step by (auto simp: reserve_def ledger_transaction_def split: sum.splits)
    then show ?thesis using quiet by simp
  next
    case (Inr r)
    then have "reserve_tx ms am a provider m n db = Inr (r, db')"
      using reserve_step by (auto simp: reserve_def ledger_transaction_def split: sum.splits)
    then show ?thesis using reserved by (cases rule: reserve_tx_result) simp
  qed
next
  case (settle_step am r m cached n)
  show ?thesis
  proof (cases "fst (settle ms am r m cached n db)")
    case (Inl e)
    then have "db' = db" using settle_step by (auto simp: settle_def ledger_transaction_def split: sum.splits)
    then show ?thesis using quiet by simp
  next
    case (Inr u)
    then have "settle_tx ms am r m cached n db = Inr (u, db')"
      using settle_step by (auto simp: settle_def ledger_transaction_def split: sum.splits)
    then show ?thesis using quiet settled by (cases rule: settle_tx_result) simp_all
  qed
next
  case (abandon_step am r failure)
  show ?thesis
  proof (cases "fst (abandon ms am r failure db)")
    case (Inl e)
    then have "db' = db" using abandon_step by (auto simp: abandon_def ledger_transaction_def split: sum.splits)
    then show ?thesis using quiet by simp
  next
    case (Inr u)
    then have "abandon_tx ms am r failure db = Inr (u, db')" and c: "failure \<in> set provider_failure_codes"
      using abandon_step by (auto simp: abandon_def ledger_transaction_def validate_provider_failure_code_def require_def
          split: sum.splits if_splits)
    then show ?thesis using quiet abandoned by (cases rule: abandon_tx_result) simp_all
  qed
qed

section \<open>Replaying a longer ledger\<close>

lemma replay_append: "replay_reservations (rows @ [row]) st = bindE (replay_reservations rows st) (reservation_step row)"
  by (induction rows arbitrary: st) (simp_all add: bindE_assoc cong: bindE_cong)

lemma authorization_rows_snoc:
  "md_ledger db' = md_ledger db @ [row] \<Longrightarrow>
     authorization_rows db' i = authorization_rows db i @ (if lg_authorization_id row = i then [row] else [])"
  by (simp add: authorization_rows_def)

lemma reservation_states_snoc:
  "md_ledger db' = md_ledger db @ [row] \<Longrightarrow>
     reservation_states db' i = (if lg_authorization_id row = i then bindE (reservation_states db i) (reservation_step row)
       else reservation_states db i)"
  by (simp add: reservation_states_def authorization_rows_snoc replay_append)

lemma reservation_states_same: "md_ledger db' = md_ledger db \<Longrightarrow> reservation_states db' i = reservation_states db i"
  by (simp add: reservation_states_def authorization_rows_def)

lemma ledger_step_prefix: "ledger_step ms db db' \<Longrightarrow> prefix (md_ledger db) (md_ledger db')"
  by (erule ledger_step_effect) simp_all

lemma ledger_step_table:
  assumes "ledger_step ms db db'" "md_authorizations db k = Some v"
  shows "md_authorizations db' k = Some v"
  using assms(1)
proof (cases rule: ledger_step_effect)
  case (issued i row)
  then show ?thesis using assms(2) by (cases "k = i") simp_all
qed (use assms(2) in simp_all)

interpretation md_log: append_log "ledger_step ms" md_ledger
  by unfold_locales (rule ledger_step_prefix)

interpretation md_capabilities: write_once_table "ledger_step ms" md_authorizations
  by unfold_locales (rule ledger_step_table)

end
