(* ===== verification/LedgerBudget.thy ===== *)
theory LedgerBudget
  imports LedgerProps
begin

text \<open>
  Budgets of the model execution ledger: what replaying the rows of a capability adds up to,
  and that no interleaving of clients spends more than the capability allows.
\<close>

section \<open>Usage as sums\<close>

definition used_input :: "ReservationState \<Rightarrow> int" where
  "used_input s = (case rs_state s of RS_ABANDONED \<Rightarrow> 0 | RS_RESERVED \<Rightarrow> rs_reserved_input_tokens s
     | RS_SETTLED \<Rightarrow> the (rs_actual_input_tokens s))"

definition used_output :: "ReservationState \<Rightarrow> int" where
  "used_output s = (case rs_state s of RS_ABANDONED \<Rightarrow> 0 | RS_RESERVED \<Rightarrow> rs_reserved_output_tokens s
     | RS_SETTLED \<Rightarrow> the (rs_actual_output_tokens s))"

definition used_cost :: "ReservationState \<Rightarrow> int" where
  "used_cost s = (case rs_state s of RS_ABANDONED \<Rightarrow> 0 | RS_RESERVED \<Rightarrow> rs_reserved_cost_microusd s
     | RS_SETTLED \<Rightarrow> the (rs_actual_cost_microusd s))"

definition state_wf :: "ReservationState \<Rightarrow> bool" where
  "state_wf s \<longleftrightarrow> rs_reserved_input_tokens s \<ge> 1 \<and> rs_reserved_output_tokens s \<ge> 1 \<and> rs_reserved_cost_microusd s \<ge> 0 \<and>
     (rs_state s = RS_SETTLED \<longrightarrow> (\<exists>i out c. rs_actual_input_tokens s = Some i \<and> rs_actual_output_tokens s = Some out \<and>
        rs_actual_cost_microusd s = Some c \<and> i \<ge> 0 \<and> out \<ge> 0 \<and> c \<ge> 0))"

definition states_wf :: "reservation_states \<Rightarrow> bool" where
  "states_wf states \<longleftrightarrow> distinct (map fst states) \<and> (\<forall>s \<in> snd ` set states. state_wf s)"

abbreviation total :: "(ReservationState \<Rightarrow> int) \<Rightarrow> reservation_states \<Rightarrow> int" where
  "total f states \<equiv> (\<Sum>x\<leftarrow>states. f (snd x))"

lemma add_usage_sum:
  "\<forall>s \<in> set ss. state_wf s \<Longrightarrow> add_usage ss a b c =
     Inr (a + (\<Sum>s\<leftarrow>ss. used_input s), b + (\<Sum>s\<leftarrow>ss. used_output s), c + (\<Sum>s\<leftarrow>ss. used_cost s))"
proof (induction ss arbitrary: a b c)
  case (Cons s ss)
  then show ?case
    by (cases "rs_state s") (auto simp: used_input_def used_output_def used_cost_def state_wf_def)
qed simp

lemma usage_totals_sum:
  "states_wf states \<Longrightarrow> usage_totals states = Inr
     \<lparr>ut_attempts = int (length states), ut_input_tokens = total used_input states, ut_output_tokens = total used_output states,
      ut_total_tokens = total used_input states + total used_output states, ut_cost_microusd = total used_cost states\<rparr>"
  by (simp add: usage_totals_def states_wf_def add_usage_sum comp_def)

lemma total_update:
  assumes "distinct (map fst d)" "map_of d k = Some s"
  shows "total f (AList.update k s' d) = total f d - f s + f s'"
  using assms by (induction d) (auto simp: update_conv split: if_splits)

lemma used_nonneg: "state_wf s \<Longrightarrow> used_input s \<ge> 0 \<and> used_output s \<ge> 0 \<and> used_cost s \<ge> 0"
  by (cases "rs_state s") (auto simp: state_wf_def used_input_def used_output_def used_cost_def)

section \<open>Well-formed replays\<close>

lemma required_nonnegative_int_Inr [result_simps]: "required_nonnegative_int v m = Inr i \<longleftrightarrow> v = Some i \<and> i \<ge> m"
  by (auto simp: required_nonnegative_int_def result_simps split: option.splits)

lemma snd_update: "snd ` set (AList.update k v d) \<subseteq> insert v (snd ` set d)"
  by (induction d) auto

lemma map_of_snd: "map_of d k = Some s \<Longrightarrow> s \<in> snd ` set d"
  by (force dest: map_of_SomeD)

lemma reservation_step_cases:
  assumes "reservation_step row states = Inr states'"
  obtains (skip) "lg_event_type row = LE_REVOKED" "states' = states"
    | (reserve) i s where "lg_event_type row = LE_RESERVED" "lg_reservation_id row = Some i" "map_of states i = None"
      "reserved_state i row = Inr s" "states' = states @ [(i, s)]"
    | (finish) i s s' where "lg_event_type row \<noteq> LE_RESERVED" "lg_reservation_id row = Some i" "map_of states i = Some s"
      "rs_state s = RS_RESERVED"
      "(if lg_event_type row = LE_ABANDONED then abandoned_state s row else settled_state s row) = Inr s'"
      "states' = AList.update i s' states"
proof (cases "lg_event_type row = LE_REVOKED")
  case True
  then show ?thesis using skip assms by (simp add: reservation_step_def)
next
  case other: False
  show ?thesis
  proof (cases "lg_reservation_id row")
    case None
    then show ?thesis using other assms by (simp add: reservation_step_def)
  next
    case i: (Some i)
    show ?thesis
    proof (cases "lg_event_type row = LE_RESERVED")
      case True
      with assms other i obtain s where "map_of states i = None" "reserved_state i row = Inr s" "states' = states @ [(i, s)]"
        unfolding reservation_step_def bindE_eq_Inr require_eq_Inr by (simp add: bindE_eq_Inr require_eq_Inr) blast
      then show ?thesis by (rule reserve [OF True i])
    next
      case False
      show ?thesis
      proof (cases "map_of states i")
        case None
        then show ?thesis using assms other i False by (simp add: reservation_step_def bindE_eq_Inr)
      next
        case (Some s)
        with assms other i False obtain s' where "rs_state s = RS_RESERVED"
          "(if lg_event_type row = LE_ABANDONED then abandoned_state s row else settled_state s row) = Inr s'"
          "states' = AList.update i s' states"
          by (simp add: reservation_step_def bindE_eq_Inr require_eq_Inr) blast
        then show ?thesis by (rule finish [OF False i Some])
      qed
    qed
  qed
qed

lemma finished_wf:
  assumes "(if lg_event_type row = LE_ABANDONED then abandoned_state s row else settled_state s row) = Inr s'" "state_wf s"
  shows "state_wf s'"
  using assms by (cases "lg_event_type row = LE_ABANDONED")
    (auto simp: abandoned_state_def settled_state_def result_simps state_wf_def)

lemma reservation_step_wf:
  assumes "reservation_step row states = Inr states'" "states_wf states"
  shows "states_wf states'"
  using assms(1)
proof (cases rule: reservation_step_cases)
  case (reserve i s)
  then have "state_wf s" "i \<notin> fst ` set states" by (auto simp: reserved_state_def result_simps state_wf_def map_of_eq_None_iff)
  then show ?thesis using assms(2) reserve(5) by (auto simp: states_wf_def)
next
  case (finish i s s')
  have "state_wf s'" using finished_wf [OF finish(5)] finish(3) assms(2) map_of_snd by (force simp: states_wf_def)
  then have "\<forall>x \<in> snd ` set states'. state_wf x"
    using assms(2) snd_update [of i s' states] unfolding states_wf_def finish(6) by blast
  then show ?thesis using assms(2) unfolding states_wf_def finish(6) by (simp add: distinct_update)
qed (use assms(2) in simp)

lemma replay_wf: "replay_reservations rows st = Inr st' \<Longrightarrow> states_wf st \<Longrightarrow> states_wf st'"
  by (induction rows arbitrary: st) (auto simp: bindE_eq_Inr dest: reservation_step_wf)

lemma reservation_states_wf: "reservation_states db i = Inr states \<Longrightarrow> states_wf states"
  unfolding reservation_states_def by (erule replay_wf) (simp add: states_wf_def)

section \<open>Staying within the budget\<close>

definition within :: "ModelExecutionBudgetV1 \<Rightarrow> reservation_states \<Rightarrow> bool" where
  "within b states \<longleftrightarrow> int (length states) \<le> mbu_max_attempts b \<and> total used_input states \<le> mbu_max_input_tokens b \<and>
     total used_output states \<le> mbu_max_output_tokens b \<and>
     total used_input states + total used_output states \<le> mbu_max_total_tokens b \<and>
     total used_cost states \<le> mbu_max_cost_microusd b"

text \<open>The parser of stored capabilities returns valid models, as pydantic's validation documents.\<close>

definition parser_sound :: "model_service \<Rightarrow> bool" where
  "parser_sound ms \<longleftrightarrow> (\<forall>t a. ms_parse_authorization ms t = Some a \<longrightarrow>
     list_all fst (ModelExecutionAuthorizationV1_guards a) \<and> list_all fst (ModelExecutionBudgetV1_guards (mx_budget a)) \<and>
     list_all fst (ModelExecutionPricingV1_guards (ma_pricing (mx_approval_snapshot a))))"

lemma stored_valid:
  "parser_sound ms \<Longrightarrow> stored_authorization ms db i = Inr a \<Longrightarrow>
     list_all fst (ModelExecutionBudgetV1_guards (mx_budget a)) \<and>
     list_all fst (ModelExecutionPricingV1_guards (ma_pricing (mx_approval_snapshot a)))"
  by (auto simp: stored_authorization_def parser_sound_def result_simps split: option.splits)

lemma within_empty: "list_all fst (ModelExecutionBudgetV1_guards b) \<Longrightarrow> within b []"
  by (simp add: within_def ModelExecutionBudgetV1_guards_def)

lemma authorization_dump_wf: "json_wf (dump_ModelExecutionAuthorizationV1 x)"
  by (simp add: dump_ModelExecutionAuthorizationV1_def dump_ModelExecutionLeaseBindingV1_def dump_ModelEgressPolicyV1_def
      dump_ModelExecutionProviderApprovalV1_def dump_ModelExecutionProviderBindingV1_def dump_ModelExecutionPricingV1_def
      dump_ModelExecutionBudgetV1_def dump_StableIdentifierV1_def dump_DigestV1_def dump_datetime_def dump_AttestationV1_def
      JOpt_def list_all_iff split: option.splits)

lemma same_capability_fields:
  "assert_same_capability a b = Inr () \<Longrightarrow>
     dump_field (dump_ModelExecutionAuthorizationV1 a) f = dump_field (dump_ModelExecutionAuthorizationV1 b) f"
  unfolding assert_same_capability_def require_eq_Inr json_codec.encode_eq_iff [OF authorization_dump_wf authorization_dump_wf]
  by (rule json_norm_field [OF authorization_dump_wf authorization_dump_wf])

lemma budget_dump_inj:
  "json_norm (dump_ModelExecutionBudgetV1 b) = json_norm (dump_ModelExecutionBudgetV1 c) \<Longrightarrow> b = c"
  by (cases b; cases c) (simp add: dump_ModelExecutionBudgetV1_def)

lemma same_capability_budget:
  assumes "assert_same_capability a b = Inr ()"
  shows "mx_budget a = mx_budget b"
proof (rule budget_dump_inj)
  have "dump_field (dump_ModelExecutionAuthorizationV1 x) ''budget'' = Some (json_norm (dump_ModelExecutionBudgetV1 (mx_budget x)))" for x
    by (simp add: dump_ModelExecutionAuthorizationV1_def obj_get_def del: json_norm.simps)
  then show "json_norm (dump_ModelExecutionBudgetV1 (mx_budget a)) = json_norm (dump_ModelExecutionBudgetV1 (mx_budget b))"
    using same_capability_fields [OF assms, of "''budget''"] by simp
qed

lemma within_finish:
  assumes "within b states" "states_wf states" "map_of states i = Some s"
    and "used_input s' \<le> used_input s" "used_output s' \<le> used_output s" "used_cost s' \<le> used_cost s"
  shows "within b (AList.update i s' states)"
proof -
  have d: "distinct (map fst states)" using assms(2) by (simp add: states_wf_def)
  have k: "i \<in> fst ` set states" using assms(3) by (force dest: map_of_SomeD)
  have "map fst (AList.update i s' states) = map fst states" using k by (simp add: update_keys)
  then have "length (AList.update i s' states) = length states" by (rule map_eq_imp_length_eq)
  then show ?thesis using assms(1,4-6) by (simp add: within_def total_update [OF d assms(3)])
qed

lemma check_budget_within:
  assumes "check_budget b totals m n rc = Inr c" "usage_totals states = Inr totals" "states_wf states"
    and "used_input s = m" "used_output s = n" "used_cost s = c"
  shows "within b (states @ [(i, s)])"
  using assms by (auto simp: check_budget_def result_simps usage_totals_sum within_def)

lemma stored_authorization_same: "md_authorizations db' = md_authorizations db \<Longrightarrow> stored_authorization ms db' i = stored_authorization ms db i"
  by (simp add: stored_authorization_def)

lemma granted_stored:
  assumes "granted ms am db a p m n r states totals"
  shows "\<exists>st. stored_authorization ms db (si_value (mx_authorization_id a)) = Inr st \<and> assert_same_capability st a = Inr ()"
proof -
  have "assert_usable ms am db a p = Inr ()" using assms by (simp add: granted_def)
  then show ?thesis unfolding assert_usable_def bindE_eq_Inr by auto
qed

lemma grant_within:
  assumes g: "granted ms am db a p m n r states totals"
    and st: "stored_authorization ms db (si_value (mx_authorization_id a)) = Inr a'"
    and step: "reservation_step (reserved_row am a (si_value (mv_reservation_id r)) (mv_attempt_number r) m n (mv_reserved_cost_microusd r))
      states = Inr states'"
  shows "within (mx_budget a') states'"
proof -
  have b: "mx_budget a' = mx_budget a"
    using granted_stored [OF g] st by (auto intro: same_capability_budget)
  have wf: "states_wf states" using g by (auto simp: granted_def intro: reservation_states_wf)
  from step show ?thesis
  proof (cases rule: reservation_step_cases)
    case (reserve i s)
    have "used_input s = m" "used_output s = n" "used_cost s = mv_reserved_cost_microusd r"
      using reserve(4) by (auto simp: reserved_state_def reserved_row_def result_simps used_input_def used_output_def used_cost_def)
    moreover have "check_budget (mx_budget a) totals m n (reserve_cost (ma_pricing (mx_approval_snapshot a)) m n)
        = Inr (mv_reserved_cost_microusd r)" "usage_totals states = Inr totals"
      using g by (simp_all add: granted_def)
    ultimately show ?thesis unfolding b reserve(5) using wf by (intro check_budget_within)
  qed (simp_all add: reserved_row_def)
qed

lemma settle_within:
  assumes c: "chargeable ms am db r m ca n a states s cost" and w: "within b states"
    and step: "reservation_step (settled_row am' i (si_value (mv_reservation_id r)) k m ca n cost) states = Inr states'"
  shows "within b states'"
proof -
  have wf: "states_wf states" using c by (auto simp: chargeable_def intro: reservation_states_wf)
  from step show ?thesis
  proof (cases rule: reservation_step_cases)
    case (finish j s0 s')
    have s0: "j = si_value (mv_reservation_id r)" "s0 = s" using finish(2,3) c by (auto simp: settled_row_def chargeable_def)
    have "used_input s' = m" "used_output s' = n" "used_cost s' = cost"
      using finish(5) by (auto simp: settled_row_def settled_state_def result_simps used_input_def used_output_def used_cost_def)
    then show ?thesis
      unfolding finish(6) using c w wf finish(3,4) s0
      by (intro within_finish) (auto simp: chargeable_def used_input_def used_output_def used_cost_def)
  qed (simp_all add: settled_row_def)
qed

lemma abandon_within:
  assumes w: "within b states" and wf: "states_wf states"
    and step: "reservation_step (abandoned_row am i rid k failure) states = Inr states'"
  shows "within b states'"
  using step
proof (cases rule: reservation_step_cases)
  case (finish j s s')
  have "state_wf s" using finish(3) wf map_of_snd by (force simp: states_wf_def)
  then have "used_input s' \<le> used_input s" "used_output s' \<le> used_output s" "used_cost s' \<le> used_cost s"
    using finish(5) used_nonneg [of s]
    by (auto simp: abandoned_row_def abandoned_state_def result_simps used_input_def [of s'] used_output_def [of s'] used_cost_def [of s'])
  then show ?thesis unfolding finish(6) using w wf finish(3) by (intro within_finish)
qed (simp_all add: abandoned_row_def)

definition budget_inv :: "model_service \<Rightarrow> ledger_db \<Rightarrow> bool" where
  "budget_inv ms db \<longleftrightarrow> (\<forall>row \<in> set (md_ledger db). md_authorizations db (lg_authorization_id row) \<noteq> None) \<and>
     (\<forall>i a states. stored_authorization ms db i = Inr a \<longrightarrow> reservation_states db i = Inr states \<longrightarrow> within (mx_budget a) states)"

lemma budget_invD:
  "budget_inv ms db \<Longrightarrow> stored_authorization ms db i = Inr a \<Longrightarrow> reservation_states db i = Inr states \<Longrightarrow> within (mx_budget a) states"
  unfolding budget_inv_def by iprover

text \<open>A row for a known capability keeps the invariant when it keeps this capability within its budget.\<close>

lemma budget_inv_snoc:
  assumes inv: "budget_inv ms db" and same: "md_authorizations db' = md_authorizations db"
    and row: "md_ledger db' = md_ledger db @ [row]" and known: "md_authorizations db (lg_authorization_id row) \<noteq> None"
    and keep: "\<And>a states states'. stored_authorization ms db (lg_authorization_id row) = Inr a \<Longrightarrow>
      reservation_states db (lg_authorization_id row) = Inr states \<Longrightarrow> within (mx_budget a) states \<Longrightarrow>
      reservation_step row states = Inr states' \<Longrightarrow> within (mx_budget a) states'"
  shows "budget_inv ms db'"
  unfolding budget_inv_def
proof (intro conjI allI impI)
  show "\<forall>x \<in> set (md_ledger db'). md_authorizations db' (lg_authorization_id x) \<noteq> None"
    using inv known by (simp add: budget_inv_def same row)
  fix i a states
  assume st: "stored_authorization ms db' i = Inr a" and states: "reservation_states db' i = Inr states"
  have st0: "stored_authorization ms db i = Inr a" using st by (simp add: stored_authorization_same [OF same])
  show "within (mx_budget a) states"
  proof (cases "lg_authorization_id row = i")
    case True
    then obtain old where old: "reservation_states db i = Inr old" "reservation_step row old = Inr states"
      using states by (auto simp: reservation_states_snoc [OF row] bindE_eq_Inr)
    then show ?thesis using keep [of a old states] budget_invD [OF inv st0 old(1)] st0 True by simp
  next
    case False
    then show ?thesis using states budget_invD [OF inv st0] by (simp add: reservation_states_snoc [OF row])
  qed
qed

lemma known_row:
  assumes "reservation_states db i = Inr states" "map_of states rid = Some s" "budget_inv ms db"
  shows "md_authorizations db i \<noteq> None"
proof (cases "authorization_rows db i")
  case Nil
  then show ?thesis using assms(1,2) by (simp add: reservation_states_def)
next
  case (Cons row rows)
  then have "row \<in> set (authorization_rows db i)" by simp
  then have "row \<in> set (md_ledger db)" "lg_authorization_id row = i" by (auto simp: authorization_rows_def)
  then show ?thesis using assms(3) unfolding budget_inv_def by blast
qed

lemma stored_known: "stored_authorization ms db i = Inr a \<Longrightarrow> md_authorizations db i \<noteq> None"
  by (auto simp: stored_authorization_def split: option.splits)

lemma budget_inv_step:
  assumes "ledger_step ms db db'" and inv: "budget_inv ms db" and sound: "parser_sound ms"
  shows "budget_inv ms db'"
  using assms(1)
proof (cases rule: ledger_step_effect)
  case quiet
  show ?thesis
    using inv unfolding budget_inv_def stored_authorization_same [OF quiet(2)] reservation_states_same [OF quiet(1)] quiet .
next
  case (issued i row)
  show ?thesis unfolding budget_inv_def
  proof (intro conjI allI impI)
    show "\<forall>x \<in> set (md_ledger db'). md_authorizations db' (lg_authorization_id x) \<noteq> None"
      using inv by (simp add: budget_inv_def issued)
    fix j a states
    assume st: "stored_authorization ms db' j = Inr a" and states: "reservation_states db' j = Inr states"
    show "within (mx_budget a) states"
    proof (cases "j = i")
      case True
      have "authorization_rows db i = []"
        using inv issued(2) by (auto simp: budget_inv_def authorization_rows_def filter_empty_conv)
      then have "states = []" using states [unfolded reservation_states_same [OF issued(1)]] True by (simp add: reservation_states_def)
      then show ?thesis using stored_valid [OF sound st] within_empty by simp
    next
      case False
      then have "stored_authorization ms db j = Inr a" using st by (simp add: stored_authorization_def issued(3))
      then show ?thesis using budget_invD [OF inv] states by (simp add: reservation_states_same [OF issued(1)])
    qed
  qed
next
  case (revoked am i a reason)
  show ?thesis
  proof (rule budget_inv_snoc [OF inv revoked(2,3)])
    show "md_authorizations db (lg_authorization_id (revoked_row am i reason)) \<noteq> None"
      using stored_known [OF revoked(1)] by (simp add: revoked_row_def)
  qed (simp add: revoked_row_def reservation_step_def)
next
  case (reserved am a provider m n r states totals)
  have i: "lg_authorization_id (reserved_row am a (si_value (mv_reservation_id r)) (mv_attempt_number r) m n (mv_reserved_cost_microusd r))
      = si_value (mx_authorization_id a)"
    by (simp add: reserved_row_def)
  show ?thesis
  proof (rule budget_inv_snoc [OF inv reserved(2,3)], unfold i)
    show "md_authorizations db (si_value (mx_authorization_id a)) \<noteq> None"
      using granted_stored [OF reserved(1)] stored_known by blast
    fix a' old new
    assume "stored_authorization ms db (si_value (mx_authorization_id a)) = Inr a'"
      "reservation_states db (si_value (mx_authorization_id a)) = Inr old"
      "reservation_step (reserved_row am a (si_value (mv_reservation_id r)) (mv_attempt_number r) m n (mv_reserved_cost_microusd r)) old = Inr new"
    moreover have "old = states" using calculation(2) reserved(1) by (simp add: granted_def)
    ultimately show "within (mx_budget a') new" using grant_within [OF reserved(1)] by simp
  qed
next
  case (settled am a r m cached n states s cost)
  have i: "lg_authorization_id (settled_row am (si_value (mx_authorization_id a)) (si_value (mv_reservation_id r))
      (mv_attempt_number r) m cached n cost) = si_value (mx_authorization_id a)"
    by (simp add: settled_row_def)
  show ?thesis
  proof (rule budget_inv_snoc [OF inv settled(2,3)], unfold i)
    have c: "reservation_states db (si_value (mx_authorization_id a)) = Inr states"
      "map_of states (si_value (mv_reservation_id r)) = Some s"
      using settled(1) by (simp_all add: chargeable_def)
    show "md_authorizations db (si_value (mx_authorization_id a)) \<noteq> None" by (rule known_row [OF c inv])
    fix a' old new
    assume "reservation_states db (si_value (mx_authorization_id a)) = Inr old" "within (mx_budget a') old"
      "reservation_step (settled_row am (si_value (mx_authorization_id a)) (si_value (mv_reservation_id r))
         (mv_attempt_number r) m cached n cost) old = Inr new"
    moreover have "old = states" using calculation(1) c(1) by simp
    ultimately show "within (mx_budget a') new" using settle_within [OF settled(1)] by simp
  qed
next
  case (abandoned am i rid k failure states s)
  have i: "lg_authorization_id (abandoned_row am i rid k failure) = i" by (simp add: abandoned_row_def)
  show ?thesis
  proof (rule budget_inv_snoc [OF inv abandoned(5,6)], unfold i)
    show "md_authorizations db i \<noteq> None" by (rule known_row [OF abandoned(1,2) inv])
    fix a' old new
    assume "reservation_states db i = Inr old" "within (mx_budget a') old"
      "reservation_step (abandoned_row am i rid k failure) old = Inr new"
    then show "within (mx_budget a') new" using abandon_within reservation_states_wf by blast
  qed
qed

section \<open>The ledger stays readable\<close>

definition reserved_ids :: "ledger_db \<Rightarrow> string \<Rightarrow> string option list" where
  "reserved_ids db i = map lg_reservation_id (filter (\<lambda>r. lg_event_type r = LE_RESERVED) (authorization_rows db i))"

lemma reserved_ids_snoc:
  "md_ledger db' = md_ledger db @ [row] \<Longrightarrow> reserved_ids db' i =
     reserved_ids db i @ (if lg_authorization_id row = i \<and> lg_event_type row = LE_RESERVED then [lg_reservation_id row] else [])"
  by (simp add: reserved_ids_def authorization_rows_snoc)

lemma replay_keys:
  assumes "replay_reservations rows st = Inr st'"
  shows "Some ` fst ` set st' \<subseteq> Some ` fst ` set st \<union> set (map lg_reservation_id (filter (\<lambda>r. lg_event_type r = LE_RESERVED) rows))"
  using assms
proof (induction rows arbitrary: st)
  case (Cons row rows)
  then obtain mid where mid: "reservation_step row st = Inr mid" "replay_reservations rows mid = Inr st'"
    by (auto simp: bindE_eq_Inr)
  from mid(1) have "Some ` fst ` set mid \<subseteq> Some ` fst ` set st \<union> (if lg_event_type row = LE_RESERVED then {lg_reservation_id row} else {})"
  proof (cases rule: reservation_step_cases)
    case (finish i s s')
    then have "i \<in> fst ` set st" by (force dest: map_of_SomeD)
    then show ?thesis using finish(6) by (simp add: dom_update [unfolded dom_map_of_conv_image_fst] insert_absorb)
  qed auto
  with Cons.IH [OF mid(2)] show ?case
    by (cases "lg_event_type row = LE_RESERVED") (simp_all, blast+)
qed simp

lemma reserved_before:
  assumes "reservation_states db i = Inr states" "map_of states rid = Some s"
  shows "Some rid \<in> set (reserved_ids db i)"
proof -
  have "rid \<in> fst ` set states" using assms(2) by (force dest: map_of_SomeD)
  then have "Some rid \<in> Some ` fst ` set states" by blast
  then show ?thesis
    using replay_keys [OF assms(1) [unfolded reservation_states_def]] by (auto simp: reserved_ids_def)
qed

lemma replay_nonempty:
  "replay_reservations rows st = Inr st' \<Longrightarrow> [] \<notin> fst ` set st \<Longrightarrow> [] \<notin> fst ` set st'"
proof (induction rows arbitrary: st)
  case (Cons row rows)
  then obtain mid where mid: "reservation_step row st = Inr mid" "replay_reservations rows mid = Inr st'"
    by (auto simp: bindE_eq_Inr)
  have ne: "lg_event_type row \<noteq> LE_REVOKED \<Longrightarrow> lg_reservation_id row \<noteq> Some []"
    using mid(1) by (auto simp: reservation_step_def require_def)
  from mid(1) have "[] \<notin> fst ` set mid"
  proof (cases rule: reservation_step_cases)
    case (finish i s s')
    then have "i \<in> fst ` set st" by (force dest: map_of_SomeD)
    then show ?thesis using finish(6) Cons.prems(2) by (simp add: dom_update [unfolded dom_map_of_conv_image_fst] insert_absorb)
  qed (use Cons.prems(2) ne in auto)
  then show ?case using Cons.IH [OF mid(2)] by blast
qed simp

lemma nonempty_keys: "reservation_states db i = Inr states \<Longrightarrow> [] \<notin> fst ` set states"
  unfolding reservation_states_def by (erule replay_nonempty) simp

definition readable :: "ledger_db \<Rightarrow> string \<Rightarrow> bool" where
  "readable db i \<longleftrightarrow> (\<exists>states. reservation_states db i = Inr states) \<or> \<not> distinct (reserved_ids db i)"

lemma readable_snoc:
  assumes "readable db i" "md_ledger db' = md_ledger db @ [row]"
    and "\<And>states. lg_authorization_id row = i \<Longrightarrow> reservation_states db i = Inr states \<Longrightarrow>
      distinct (reserved_ids db' i) \<Longrightarrow> \<exists>new. reservation_step row states = Inr new"
  shows "readable db' i"
proof (cases "distinct (reserved_ids db' i)")
  case True
  then obtain states where st: "reservation_states db i = Inr states"
    using assms(1) by (auto simp: readable_def reserved_ids_snoc [OF assms(2)] split: if_splits)
  then show ?thesis
    using assms(3) [OF _ st True] by (auto simp: readable_def reservation_states_snoc [OF assms(2)])
qed (simp add: readable_def)

lemma readable_step:
  assumes "ledger_step ms db db'" and sound: "parser_sound ms" and ok: "readable db i"
  shows "readable db' i"
  using assms(1)
proof (cases rule: ledger_step_effect)
  case quiet
  then show ?thesis using ok by (simp add: readable_def reservation_states_def reserved_ids_def authorization_rows_def)
next
  case (issued j row)
  then show ?thesis using ok by (simp add: readable_def reservation_states_def reserved_ids_def authorization_rows_def)
next
  case (revoked am j a reason)
  show ?thesis by (rule readable_snoc [OF ok revoked(3)]) (simp add: revoked_row_def reservation_step_def)
next
  case (reserved am a provider m n r states totals)
  have g: "mv_attempt_number r \<ge> 1" "m \<ge> 1" "n \<ge> 1" "mv_reserved_cost_microusd r \<ge> 0" "si_value (mv_reservation_id r) \<noteq> []"
    using reserved(1) by (auto simp: granted_def ModelExecutionReservationV1_guards_def stable_identifier_result urn_prefix_def)
  show ?thesis
  proof (rule readable_snoc [OF ok reserved(3)])
    fix old
    assume i: "lg_authorization_id (reserved_row am a (si_value (mv_reservation_id r)) (mv_attempt_number r) m n
        (mv_reserved_cost_microusd r)) = i" and old: "reservation_states db i = Inr old" and d: "distinct (reserved_ids db' i)"
    have "Some (si_value (mv_reservation_id r)) \<notin> set (reserved_ids db i)"
      using d i by (simp add: reserved_ids_snoc [OF reserved(3)]) (simp add: reserved_row_def)
    then have "map_of old (si_value (mv_reservation_id r)) = None" using reserved_before [OF old] by (cases "map_of old (si_value (mv_reservation_id r))") auto
    then show "\<exists>new. reservation_step (reserved_row am a (si_value (mv_reservation_id r)) (mv_attempt_number r) m n
        (mv_reserved_cost_microusd r)) old = Inr new"
      using g by (simp add: reservation_step_def reserved_row_def reserved_state_def required_nonnegative_int_def require_def)
  qed
next
  case (settled am a r m cached n states s cost)
  have price: "list_all fst (ModelExecutionPricingV1_guards (ma_pricing (mx_approval_snapshot a)))"
    using stored_valid [OF sound] settled(1) by (auto simp: chargeable_def)
  have c: "cost_for_usage (ma_pricing (mx_approval_snapshot a)) m cached n = Inr cost" "map_of states (si_value (mv_reservation_id r)) = Some s"
    "rs_state s = RS_RESERVED" "reservation_states db (si_value (mx_authorization_id a)) = Inr states"
    using settled(1) by (simp_all add: chargeable_def)
  have pos: "m \<ge> 0" "cached \<ge> 0" "n \<ge> 0" "cached \<le> m" using c(1) by (auto simp: cost_for_usage_def result_simps)
  have "cost \<ge> 0" using c(1) price pos by (auto simp: cost_for_usage_def result_simps ModelExecutionPricingV1_guards_def)
  show ?thesis
  proof (rule readable_snoc [OF ok settled(3)])
    fix old
    assume "lg_authorization_id (settled_row am (si_value (mx_authorization_id a)) (si_value (mv_reservation_id r))
        (mv_attempt_number r) m cached n cost) = i" "reservation_states db i = Inr old"
    then have "old = states" using c(4) by (simp add: settled_row_def)
    moreover have "si_value (mv_reservation_id r) \<noteq> []" using c(2) nonempty_keys [OF c(4)] by (force dest: map_of_SomeD)
    ultimately show "\<exists>new. reservation_step (settled_row am (si_value (mx_authorization_id a)) (si_value (mv_reservation_id r))
        (mv_attempt_number r) m cached n cost) old = Inr new"
      using c pos \<open>cost \<ge> 0\<close>
      by (simp add: reservation_step_def settled_row_def settled_state_def required_nonnegative_int_def require_def)
  qed
next
  case (abandoned am j rid k failure states s)
  show ?thesis
  proof (rule readable_snoc [OF ok abandoned(6)])
    fix old
    assume "lg_authorization_id (abandoned_row am j rid k failure) = i" "reservation_states db i = Inr old"
    then have "old = states" using abandoned(1) by (simp add: abandoned_row_def)
    moreover have "rid \<noteq> []" using abandoned(2) nonempty_keys [OF abandoned(1)] by (force dest: map_of_SomeD)
    ultimately show "\<exists>new. reservation_step (abandoned_row am j rid k failure) old = Inr new"
      using abandoned(2-4)
      by (simp add: reservation_step_def abandoned_row_def abandoned_state_def validate_provider_failure_code_def require_def)
  qed
qed

end
