(* ===== verification/LedgerClaims.thy ===== *)
theory LedgerClaims
  imports LedgerBudget
begin

text \<open>
  The properties of the model execution ledger, with a sample run in which a signed capability
  is used once.
\<close>

section \<open>A sample service\<close>

text \<open>A signed capability for given hashes of context and request, and a ledger that has just issued it.\<close>

definition draft_for :: "DigestV1 \<Rightarrow> DigestV1 \<Rightarrow> ModelExecutionAuthorizationV1" where
  "draft_for ch rh = sample_authorization\<lparr>mx_context_pack_hash := ch, mx_request_hash := rh\<rparr>"

definition capability_for :: "DigestV1 \<Rightarrow> DigestV1 \<Rightarrow> ModelExecutionAuthorizationV1" where
  "capability_for ch rh = (draft_for ch rh)\<lparr>mx_attestation := Some (sample_attestation AP_MODEL_EXECUTION
     (model_execution_authorization_payload (draft_for ch rh)))\<rparr>"

definition service_for :: "DigestV1 \<Rightarrow> DigestV1 \<Rightarrow> model_service" where
  "service_for ch rh = \<lparr>ms_sign = (\<lambda>p payload i ttl. Inr (sample_attestation p payload)),
     ms_verify = HmacAttestationVerifierV1_verify [(''k1'', sample_key_for AP_MODEL_EXECUTION)],
     ms_parse_authorization = (\<lambda>t. if t = canonical_json (dump_ModelExecutionAuthorizationV1 (capability_for ch rh))
       then Some (capability_for ch rh) else None),
     ms_parse_approval = (\<lambda>t. None), ms_max_ttl_seconds = \<lparr>du_number = JInt 60, du_us = 60000000\<rparr>,
     ms_provider_failure_threshold = 3, ms_provider_failure_cooldown_seconds = \<lparr>du_number = JInt 60, du_us = 60000000\<rparr>\<rparr>"

definition demo_clock :: model_ambient where
  "demo_clock = \<lparr>mt_clock = (\<lambda>_. utc 1), mt_lease_clock = (\<lambda>_. utc 1), mt_verify_clock = (\<lambda>_. utc 1),
     mt_ids = (\<lambda>n. if n = 0 then ''u'' else ''e''), mt_between = id\<rparr>"

definition ledger_for :: "DigestV1 \<Rightarrow> DigestV1 \<Rightarrow> ledger_db" where
  "ledger_for ch rh = \<lparr>worker_leases = [si_value (sample_id ''bundle'') \<mapsto>
       \<lparr>lr_holder_id = ''w'', lr_fencing_token = 1, lr_expires_at = 9, lr_updated_at = 0\<rparr>],
     lease_counters = [si_value (sample_id ''bundle'') \<mapsto> 1], events = [], entity_versions = (\<lambda>_. None),
     idempotency_records = (\<lambda>_. None), attestation_nonce_uses = (\<lambda>_. None), contract_revision_bindings = [],
     md_authorizations = [si_value (sample_id ''auth'') \<mapsto>
       \<lparr>ar_authorization_hash = dg_value (authorization_hash (capability_for ch rh)),
        ar_authorization_json = canonical_json (dump_ModelExecutionAuthorizationV1 (capability_for ch rh)),
        ar_issue_request_hash = ''h'', ar_issued_at = ''t''\<rparr>],
     md_approvals = (\<lambda>_. None), md_approval_idempotency = (\<lambda>_. None), md_idempotency = (\<lambda>_. None),
     md_ledger = [], md_health = []\<rparr>"

lemma sound_for:
  assumes "dg_kind ch = PROMPT" "dg_kind rh = PROMPT"
  shows "parser_sound (service_for ch rh)"
  using assms by (simp add: parser_sound_def service_for_def capability_for_def draft_for_def sample_authorization_def
      ModelExecutionAuthorizationV1_guards_def ModelExecutionBudgetV1_guards_def ModelExecutionPricingV1_guards_def
      authorization_provider_def permits_def sample_attestation_def)

lemma capability_fields [simp]:
  "mx_authorization_id (capability_for ch rh) = sample_id ''auth''" "mx_expires_at (capability_for ch rh) = utc 8"
  "mx_budget (capability_for ch rh) = mx_budget sample_authorization"
  "mx_approval_snapshot (capability_for ch rh) = mx_approval_snapshot sample_authorization"
  "mx_lease (capability_for ch rh) = mx_lease sample_authorization"
  "mx_context_pack_hash (capability_for ch rh) = ch" "mx_request_hash (capability_for ch rh) = rh"
  by (simp_all add: capability_for_def draft_for_def sample_authorization_def)

lemma exclude_attestation:
  "dump_exclude [''attestation''] (dump_ModelExecutionAuthorizationV1 (x\<lparr>mx_attestation := a\<rparr>)) =
     dump_exclude [''attestation''] (dump_ModelExecutionAuthorizationV1 x)"
  by (simp add: dump_ModelExecutionAuthorizationV1_def)

lemma capability_payload:
  "model_execution_authorization_payload (capability_for ch rh) = model_execution_authorization_payload (draft_for ch rh)"
  by (simp add: model_execution_authorization_payload_def capability_for_def authorization_hash_def exclude_attestation
      del: dump_exclude.simps)

lemma capability_verified: "verify_capability (service_for ch rh) demo_clock i (capability_for ch rh) = Inr ()"
proof -
  have a: "mx_attestation (capability_for ch rh) = Some (sample_attestation AP_MODEL_EXECUTION
      (model_execution_authorization_payload (draft_for ch rh)))"
    by (simp add: capability_for_def)
  have e: "at_expires_at (sample_attestation p q) = utc 10" for p q by (simp add: sample_attestation_def Let_def)
  show ?thesis
    unfolding verify_capability_def a option.case capability_payload
    by (simp add: e utc_def demo_clock_def ledger_now_def aware_def as_utc_def require_def service_for_def sample_attested(1) [unfolded utc_def])
qed

text \<open>What holds in every ledger that differs from the sample in its rows only.\<close>

lemma stored_for:
  assumes "md_authorizations db = md_authorizations (ledger_for ch rh)"
  shows "stored_authorization (service_for ch rh) db (si_value (sample_id ''auth'')) = Inr (capability_for ch rh)"
  using assms by (simp add: stored_authorization_def ledger_for_def service_for_def require_def)

lemma demo_texts: "nonblank (si_value (sample_id n))" "nonblank ''w''" "si_value (sample_id n) \<noteq> []"
  by (simp_all add: sample_id_def nonblank_def py_strip_def strip_by_def urn_prefix_def py_isspace_def)

lemma demo_now: "ledger_now demo_clock i = Inr (utc 1)"
  by (simp add: ledger_now_def demo_clock_def utc_def aware_def as_utc_def)

lemma active_for:
  assumes "worker_leases db = worker_leases (ledger_for ch rh)" "\<forall>row \<in> set (md_ledger db). lg_event_type row \<noteq> LE_REVOKED"
  shows "assert_active demo_clock i db (capability_for ch rh) = Inr ()"
proof -
  have l: "lease_of_binding (mx_lease sample_authorization) = Inr
    \<lparr>ls_job_id = si_value (sample_id ''bundle''), ls_holder_id = ''w'', ls_fencing_token = 1, ls_expires_at = utc 9\<rparr>"
    by (simp add: lease_of_binding_def sample_authorization_def Lease_init_def demo_texts utc_def aware_def require_all.simps)
  have c: "assert_current (utc 1)
    \<lparr>ls_job_id = si_value (sample_id ''bundle''), ls_holder_id = ''w'', ls_fencing_token = 1, ls_expires_at = utc 9\<rparr> db = Inr ()"
    using assms(1) by (simp add: assert_current_def lease_utc_now_def utc_def aware_def as_utc_def ledger_for_def row_matches_def require_def)
  have "mt_lease_clock demo_clock i = utc 1" by (simp add: demo_clock_def)
  moreover have "\<not> is_revoked db j" for j using assms(2) by (auto simp: is_revoked_def list_ex_iff)
  ultimately show ?thesis
    by (simp add: assert_active_def demo_now l c utc_def [of 8] utc_def [of 1] c [unfolded utc_def [of 1]])
qed

lemma same_capability_refl: "assert_same_capability a a = Inr ()"
  by (simp add: assert_same_capability_def)

lemma usable_for: "assert_usable (service_for ch rh) demo_clock (ledger_for ch rh) (capability_for ch rh) p = Inr ()"
proof -
  have rows: "md_ledger (ledger_for ch rh) = []" "md_health (ledger_for ch rh) = []" by (simp_all add: ledger_for_def)
  have "assert_provider_circuit_closed (service_for ch rh) am i (ledger_for ch rh) p = Inr ()" for am i
    by (simp add: assert_provider_circuit_closed_def binding_health_def rows split: prod.splits)
  then show ?thesis
    using rows by (simp add: stored_for active_for assert_usable_def same_capability_refl)
qed

lemma states_for: "reservation_states (ledger_for ch rh) i = Inr []"
  by (simp add: reservation_states_def authorization_rows_def ledger_for_def)

lemma demo_totals: "usage_totals [] = Inr \<lparr>ut_attempts = 0, ut_input_tokens = 0, ut_output_tokens = 0, ut_total_tokens = 0, ut_cost_microusd = 0\<rparr>"
  by (simp add: usage_totals_def)

text \<open>The one reservation the sample run makes, for four tokens of input and two of output.\<close>

definition demo_reservation :: "StableIdentifierV1 \<Rightarrow> ModelExecutionReservationV1" where
  "demo_reservation i = \<lparr>mv_reservation_id = i, mv_authorization_id = sample_id ''auth'', mv_attempt_number = 1,
    mv_reserved_input_tokens = 4, mv_reserved_output_tokens = 2, mv_reserved_cost_microusd = 22, mv_reserved_at = utc 1\<rparr>"

definition demo_row :: "DigestV1 \<Rightarrow> DigestV1 \<Rightarrow> StableIdentifierV1 \<Rightarrow> ledger_row" where
  "demo_row ch rh i = reserved_row demo_clock (capability_for ch rh) (si_value i) 1 4 2 22"

lemma reserve_for:
  assumes "dg_kind ch = PROMPT" "dg_kind rh = PROMPT"
  shows "\<exists>i. reserve (service_for ch rh) demo_clock (capability_for ch rh) (authorization_provider (capability_for ch rh)) 4 2
     (Some ch) rh (ledger_for ch rh) = (Inr (demo_reservation i), (ledger_for ch rh)\<lparr>md_ledger := [demo_row ch rh i]\<rparr>) \<and>
     si_value i \<noteq> []"
proof -
  have limits: "validate_request_limits (capability_for ch rh) (authorization_provider (capability_for ch rh)) 4 2 (Some ch) rh = Inr ()"
    using assms by (simp add: validate_request_limits_def validate_request_hashes_def require_def sample_authorization_def)
  have budget: "check_budget (mx_budget (capability_for ch rh))
      \<lparr>ut_attempts = 0, ut_input_tokens = 0, ut_output_tokens = 0, ut_total_tokens = 0, ut_cost_microusd = 0\<rparr> 4 2
      (reserve_cost (ma_pricing (mx_approval_snapshot (capability_for ch rh))) 4 2) = Inr 22"
    by (simp add: check_budget_def reserve_cost_def require_def sample_authorization_def)
  have "nonblank ''model-execution-reservation'' \<and> length (normalized_namespace ''model-execution-reservation'') \<le> 128 \<and>
      all_chars namespace_char (normalized_namespace ''model-execution-reservation'')"
    by code_simp
  then obtain i where i: "stable_identifier ''model-execution-reservation'' (reservation_name (capability_for ch rh) 1 ''u'') = Inr i"
    by (simp add: stable_identifier_result reservation_name_def)
  have r: "ModelExecutionReservationV1_init (demo_reservation i) = Inr (demo_reservation i)"
    by (simp add: ModelExecutionReservationV1_init_def construct_Inr ModelExecutionReservationV1_guards_def demo_reservation_def utc_def aware_def)
  have ids: "mt_ids demo_clock 0 = ''u''" by (simp add: demo_clock_def)
  have row: "append_ledger_event demo_clock 4 1 (empty_ledger_row
       \<lparr>lg_authorization_id := si_value (sample_id ''auth''), lg_reservation_id := Some (si_value i), lg_attempt_number := Some 1,
        lg_event_type := LE_RESERVED, lg_reserved_input_tokens := Some 4,
        lg_reserved_output_tokens := Some 2, lg_reserved_cost_microusd := Some 22\<rparr>) (ledger_for ch rh)
      = Inr ((ledger_for ch rh)\<lparr>md_ledger := [demo_row ch rh i]\<rparr>)"
    by (simp add: append_ledger_event_def demo_now insert_ledger_Inr stamped_def demo_row_def reserved_row_def row_integers_def
        fits_sqlite_def empty_ledger_row_def ledger_for_def opt_all_def) (simp add: demo_clock_def utc_def as_utc_def)
  have "reserve_tx (service_for ch rh) demo_clock (capability_for ch rh) (authorization_provider (capability_for ch rh)) 4 2 (ledger_for ch rh)
      = Inr (demo_reservation i, (ledger_for ch rh)\<lparr>md_ledger := [demo_row ch rh i]\<rparr>)"
    unfolding reserve_tx_def usable_for states_for demo_totals bindE.simps budget demo_now ids Let_def UsageTotals.select_convs add_0 i
    using r row by (simp add: demo_reservation_def)
  then show ?thesis
    unfolding reserve_def capability_verified limits using i
    by (intro exI [of _ i]) (auto simp: ledger_transaction_def stable_identifier_result)
qed

text \<open>The sample reservation settles at three tokens of input and one of output.\<close>

definition demo_settled :: "DigestV1 \<Rightarrow> DigestV1 \<Rightarrow> StableIdentifierV1 \<Rightarrow> ledger_db" where
  "demo_settled ch rh i = snd (settle (service_for ch rh) demo_clock (demo_reservation i) 3 0 1
     ((ledger_for ch rh)\<lparr>md_ledger := [demo_row ch rh i]\<rparr>))"

lemma settle_for:
  assumes "si_value i \<noteq> []"
  shows "settle (service_for ch rh) demo_clock (demo_reservation i) 3 0 1 ((ledger_for ch rh)\<lparr>md_ledger := [demo_row ch rh i]\<rparr>)
    = (Inr (), demo_settled ch rh i)"
proof -
  let ?db = "(ledger_for ch rh)\<lparr>md_ledger := [demo_row ch rh i]\<rparr>"
  have stored: "stored_authorization (service_for ch rh) ?db (si_value (sample_id ''auth'')) = Inr (capability_for ch rh)"
    by (rule stored_for) simp
  have row: "lg_event_type (demo_row ch rh i) = LE_RESERVED" "lg_authorization_id (demo_row ch rh i) = si_value (sample_id ''auth'')"
    "lg_reservation_id (demo_row ch rh i) = Some (si_value i)" "lg_attempt_number (demo_row ch rh i) = Some 1"
    "lg_reserved_input_tokens (demo_row ch rh i) = Some 4" "lg_reserved_output_tokens (demo_row ch rh i) = Some 2"
    "lg_reserved_cost_microusd (demo_row ch rh i) = Some 22" "lg_event_id (demo_row ch rh i) = ''e''"
    by (simp_all add: demo_row_def reserved_row_def stamped_def) (simp add: demo_clock_def)
  have active: "assert_active demo_clock 1 ?db (capability_for ch rh) = Inr ()"
    by (rule active_for) (simp_all add: row)
  have states: "reservation_states ?db (si_value (sample_id ''auth'')) = Inr [(si_value i,
      \<lparr>rs_reservation_id = si_value i, rs_attempt_number = 1, rs_reserved_input_tokens = 4, rs_reserved_output_tokens = 2,
        rs_reserved_cost_microusd = 22, rs_state = RS_RESERVED, rs_actual_input_tokens = None,
        rs_actual_cached_input_tokens = None, rs_actual_output_tokens = None, rs_actual_cost_microusd = None,
        rs_failure_code = None\<rparr>)]"
    using assms by (simp add: reservation_states_def authorization_rows_def row reservation_step_def reserved_state_def
        required_nonnegative_int_def require_def)
  have cost: "cost_for_usage (ma_pricing (mx_approval_snapshot sample_authorization)) 3 0 1 = Inr 14"
    by (simp add: cost_for_usage_def require_def sample_authorization_def)
  have ids: "mt_ids demo_clock 0 = ''u''" by (simp add: demo_clock_def)
  have appended: "\<exists>db1. append_ledger_event demo_clock 2 0 (empty_ledger_row
       \<lparr>lg_authorization_id := si_value (sample_id ''auth''), lg_reservation_id := Some (si_value i), lg_attempt_number := Some 1,
        lg_event_type := LE_SETTLED, lg_actual_input_tokens := Some 3, lg_actual_cached_input_tokens := Some 0,
        lg_actual_output_tokens := Some 1, lg_actual_cost_microusd := Some 14\<rparr>) ?db = Inr db1 \<and> md_health db1 = []"
    by (simp add: append_ledger_event_def demo_now insert_ledger_Inr row_integers_def fits_sqlite_def
        empty_ledger_row_def opt_all_def row ids) (simp add: ledger_for_def)
  have health: "\<exists>db2. append_provider_health_event demo_clock 3 1 p x y ''success'' None db1 = Inr db2"
    if "md_health db1 = []" for p x y and db1 :: ledger_db
    using that by (simp add: append_provider_health_event_def demo_now require_def insert_health_def)
  obtain db1 where db1: "append_ledger_event demo_clock 2 0 (empty_ledger_row
       \<lparr>lg_authorization_id := si_value (sample_id ''auth''), lg_reservation_id := Some (si_value i), lg_attempt_number := Some 1,
        lg_event_type := LE_SETTLED, lg_actual_input_tokens := Some 3, lg_actual_cached_input_tokens := Some 0,
        lg_actual_output_tokens := Some 1, lg_actual_cost_microusd := Some 14\<rparr>) ?db = Inr db1" "md_health db1 = []"
    using appended by blast
  obtain db2 where db2: "append_provider_health_event demo_clock 3 1 (authorization_provider (capability_for ch rh))
      (si_value (sample_id ''auth'')) (si_value i) ''success'' None db1 = Inr db2"
    using health [OF db1(2)] by blast
  have "settle_tx (service_for ch rh) demo_clock (demo_reservation i) 3 0 1 ?db = Inr ((), db2)"
    using db1(1) db2
    by (simp add: settle_tx_def demo_reservation_def stored capability_verified active states assert_reservation_matches_def
        require_def cost Let_def del: One_nat_def)
  then show ?thesis
    by (auto simp: demo_settled_def settle_def require_def ledger_transaction_def)
qed

abbreviation demo_capability :: ModelExecutionAuthorizationV1 where
  "demo_capability \<equiv> capability_for (digest_text PROMPT ''p'') (digest_text PROMPT ''r'')"

abbreviation demo_service :: model_service where
  "demo_service \<equiv> service_for (digest_text PROMPT ''p'') (digest_text PROMPT ''r'')"

abbreviation demo_ledger :: ledger_db where
  "demo_ledger \<equiv> ledger_for (digest_text PROMPT ''p'') (digest_text PROMPT ''r'')"

lemma demo_sound: "parser_sound demo_service"
  by (rule sound_for) (simp_all add: digest_text_def digest_bytes_def)

lemma demo_reserve:
  "\<exists>r db. reserve demo_service demo_clock demo_capability (authorization_provider demo_capability) 4 2
     (Some (digest_text PROMPT ''p'')) (digest_text PROMPT ''r'') demo_ledger = (Inr r, db) \<and> length (md_ledger db) = 1 \<and>
     stored_authorization demo_service db (si_value (sample_id ''auth'')) = Inr demo_capability"
proof -
  have "stored_authorization demo_service (demo_ledger\<lparr>md_ledger := rows\<rparr>) (si_value (sample_id ''auth'')) = Inr demo_capability" for rows
    by (rule stored_for) simp
  moreover have "dg_kind (digest_text PROMPT s) = PROMPT" for s by (simp add: digest_text_def digest_bytes_def)
  ultimately show ?thesis using reserve_for [of "digest_text PROMPT ''p''" "digest_text PROMPT ''r''"] by force
qed

section \<open>Properties\<close>

lemma reachable_invariants:
  assumes "(ledger_step ms)\<^sup>*\<^sup>* db0 db" "parser_sound ms" "md_ledger db0 = []"
  shows "budget_inv ms db \<and> readable db i"
  using assms(1)
proof (induction rule: rtranclp_induct)
  case base
  have none: "reservation_states db0 j = Inr []" for j
    by (simp add: reservation_states_def authorization_rows_def assms(3))
  then show ?case
    using stored_valid [OF assms(2)] within_empty by (auto simp: budget_inv_def readable_def assms(3))
next
  case (step db db')
  then show ?case using budget_inv_step readable_step assms(2) by blast
qed

definition spent_within :: "ModelExecutionBudgetV1 \<Rightarrow> UsageTotals \<Rightarrow> bool" where
  "spent_within b t \<longleftrightarrow> ut_attempts t \<le> mbu_max_attempts b \<and>
     0 \<le> ut_input_tokens t \<and> ut_input_tokens t \<le> mbu_max_input_tokens b \<and>
     0 \<le> ut_output_tokens t \<and> ut_output_tokens t \<le> mbu_max_output_tokens b \<and>
     ut_total_tokens t \<le> mbu_max_total_tokens b \<and> 0 \<le> ut_cost_microusd t \<and> ut_cost_microusd t \<le> mbu_max_cost_microusd b"

lemma totals_nonneg:
  assumes "states_wf states"
  shows "total used_input states \<ge> 0 \<and> total used_output states \<ge> 0 \<and> total used_cost states \<ge> 0"
proof -
  have "used_input (snd x) \<ge> 0 \<and> used_output (snd x) \<ge> 0 \<and> used_cost (snd x) \<ge> 0" if "x \<in> set states" for x
    using assms that by (intro used_nonneg) (simp add: states_wf_def)
  then show ?thesis by (auto intro!: sum_list_nonneg)
qed

text \<open>
  C10. Model budgets are never exceeded: however clients reserve, settle, abandon, revoke and
  issue, concurrently and with crashes between transactions, the ledger of a stored capability
  can be replayed and its attempts, tokens and cost are within the budget the capability was
  signed for. The one exception is a ledger in which a reservation identifier occurs twice, a
  collision of name-based identifiers, and such a ledger admits no further reservation.
\<close>

theorem budget_never_exceeded:
  assumes "parser_sound ms" "md_ledger db0 = []" "(ledger_step ms)\<^sup>*\<^sup>* db0 db" "stored_authorization ms db i = Inr a"
  shows "(\<exists>states totals. reservation_states db i = Inr states \<and> usage_totals states = Inr totals \<and>
      spent_within (mx_budget a) totals) \<or>
    (\<not> distinct (reserved_ids db i) \<and> (\<exists>e. reservation_states db i = Inl e))"
proof (cases "reservation_states db i")
  case (Inl e)
  then show ?thesis using reachable_invariants [where i = i, OF assms(3,1,2)] by (simp add: readable_def)
next
  case (Inr states)
  have wf: "states_wf states" by (rule reservation_states_wf [OF Inr])
  have "within (mx_budget a) states" using budget_invD [OF _ assms(4) Inr] reachable_invariants [OF assms(3,1,2)] by blast
  then show ?thesis
    using Inr usage_totals_sum [OF wf] totals_nonneg [OF wf] by (simp add: within_def spent_within_def)
qed

theorem budget_never_exceeded_witness:
  "\<exists>db. (ledger_step demo_service)\<^sup>*\<^sup>* demo_ledger db \<and> length (md_ledger db) = 1 \<and>
     ((\<exists>states totals. reservation_states db (si_value (sample_id ''auth'')) = Inr states \<and> usage_totals states = Inr totals \<and>
         spent_within (mx_budget demo_capability) totals) \<or>
      (\<not> distinct (reserved_ids db (si_value (sample_id ''auth''))) \<and>
       (\<exists>e. reservation_states db (si_value (sample_id ''auth'')) = Inl e)))"
proof -
  obtain r db where db: "reserve demo_service demo_clock demo_capability (authorization_provider demo_capability) 4 2
     (Some (digest_text PROMPT ''p'')) (digest_text PROMPT ''r'') demo_ledger = (Inr r, db)" "length (md_ledger db) = 1"
     "stored_authorization demo_service db (si_value (sample_id ''auth'')) = Inr demo_capability"
    using demo_reserve by blast
  have steps: "(ledger_step demo_service)\<^sup>*\<^sup>* demo_ledger db"
    using reserve_step [of demo_service demo_ledger] db(1) by (metis r_into_rtranclp snd_conv)
  have "md_ledger demo_ledger = []" by (simp add: ledger_for_def)
  from budget_never_exceeded [OF demo_sound this steps db(3)] show ?thesis using steps db(2) by blast
qed

lemma revoked_kept: "(ledger_step ms)\<^sup>*\<^sup>* db db' \<Longrightarrow> is_revoked db i \<Longrightarrow> is_revoked db' i"
  using md_log.log_steps [of ms db db'] by (auto simp: is_revoked_def prefix_def)

lemma assert_active_revoked: "is_revoked db (si_value (mx_authorization_id a)) \<Longrightarrow> assert_active am i db a \<noteq> Inr u"
  by (auto simp: assert_active_def bindE_eq_Inr require_eq_Inr)

lemma assert_usable_revoked: "is_revoked db (si_value (mx_authorization_id a)) \<Longrightarrow> assert_usable ms am db a p \<noteq> Inr u"
  using assert_active_revoked by (auto simp: assert_usable_def bindE_eq_Inr)

lemma reserve_fails:
  assumes "assert_usable ms am db a p \<noteq> Inr ()"
  shows "\<exists>e. reserve ms am a p m n ch rh db = (Inl e, db)"
proof -
  have "\<nexists>x. reserve_tx ms am a p m n db = Inr x" using assms by (auto simp: reserve_tx_def bindE_eq_Inr)
  then obtain e where "reserve_tx ms am a p m n db = Inl e" by (cases "reserve_tx ms am a p m n db") auto
  then show ?thesis by (simp add: reserve_def ledger_transaction_def split: sum.splits)
qed

text \<open>
  C11. A revocation is final: after it, at no later time and for no arguments, can the
  capability pass preflight, reserve an attempt or settle one; each of these fails and writes
  nothing.
\<close>

theorem revocation_is_final:
  assumes "is_revoked db (si_value (mx_authorization_id a))" "(ledger_step ms)\<^sup>*\<^sup>* db db'"
  shows "(\<exists>e. preflight ms am a provider m n ch rh db' = Inl e) \<and>
    (\<exists>e. reserve ms am a provider m n ch rh db' = (Inl e, db')) \<and>
    (stored_authorization ms db' (si_value (mv_authorization_id r)) = Inr a \<longrightarrow>
      (\<exists>e. settle ms am r input cached out db' = (Inl e, db')))"
proof (intro conjI impI)
  have rev: "is_revoked db' (si_value (mx_authorization_id a))" by (rule revoked_kept [OF assms(2,1)])
  have unusable: "assert_usable ms am db' a provider \<noteq> Inr ()" by (rule assert_usable_revoked [OF rev])
  then have "preflight ms am a provider m n ch rh db' \<noteq> Inr ()" by (auto simp: preflight_def bindE_eq_Inr)
  then show "\<exists>e. preflight ms am a provider m n ch rh db' = Inl e" by (cases "preflight ms am a provider m n ch rh db'") auto
  show "\<exists>e. reserve ms am a provider m n ch rh db' = (Inl e, db')" by (rule reserve_fails [OF unusable])
  assume st: "stored_authorization ms db' (si_value (mv_authorization_id r)) = Inr a"
  have "settle_tx ms am r input cached out db' \<noteq> Inr x" for x
    using assert_active_revoked [OF rev] by (auto simp: settle_tx_def st bindE_eq_Inr Let_def)
  then obtain e where "settle_tx ms am r input cached out db' = Inl e" by (cases "settle_tx ms am r input cached out db'") auto
  then show "\<exists>e. settle ms am r input cached out db' = (Inl e, db')"
    by (simp add: settle_def ledger_transaction_def split: sum.splits)
qed

theorem revocation_is_final_witness:
  "\<exists>db. is_revoked db (si_value (sample_id ''auth'')) \<and>
     (\<exists>e. preflight demo_service demo_clock demo_capability (authorization_provider demo_capability) 4 2
       (Some (digest_text PROMPT ''p'')) (digest_text PROMPT ''r'') db = Inl e)"
proof -
  let ?db = "demo_ledger\<lparr>md_ledger := [revoked_row demo_clock (si_value (sample_id ''auth'')) ''stop'']\<rparr>"
  have "is_revoked ?db (si_value (mx_authorization_id demo_capability))" by (simp add: is_revoked_def revoked_row_def empty_ledger_row_def)
  from revocation_is_final [OF this, of demo_service ?db] this show ?thesis by (intro exI [of _ ?db]) simp
qed

text \<open>What holds when a reservation is granted.\<close>

definition currently_leased :: "ledger_db \<Rightarrow> datetime \<Rightarrow> ModelExecutionLeaseBindingV1 \<Rightarrow> bool" where
  "currently_leased db now l \<longleftrightarrow> (\<exists>row. worker_leases db (si_value (ml_bundle_id l)) = Some row \<and>
     lr_holder_id row = ml_worker_id l \<and> lr_fencing_token row = ml_fencing_token l \<and> lr_expires_at row > dt_us now)"

lemma assert_active_Inr:
  assumes "assert_active am i db a = Inr u"
  shows "dt_us (mx_expires_at a) > dt_us (mt_clock am i)" "\<not> is_revoked db (si_value (mx_authorization_id a))"
    "currently_leased db (mt_lease_clock am i) (mx_lease a)"
proof -
  obtain l where l: "lease_of_binding (mx_lease a) = Inr l" "assert_current (mt_lease_clock am i) l db = Inr u"
    and rest: "dt_us (mx_expires_at a) > dt_us (mt_clock am i)" "\<not> is_revoked db (si_value (mx_authorization_id a))"
    using assms by (auto simp: assert_active_def result_simps not_le as_utc_def utc_def)
  have "l = \<lparr>ls_job_id = si_value (ml_bundle_id (mx_lease a)), ls_holder_id = ml_worker_id (mx_lease a),
      ls_fencing_token = ml_fencing_token (mx_lease a), ls_expires_at = ml_expires_at (mx_lease a)\<rparr>"
    using l(1) by (auto simp: lease_of_binding_def Lease_init_def bindE_eq_Inr)
  then show "currently_leased db (mt_lease_clock am i) (mx_lease a)"
    using l(2) by (auto simp: assert_current_def lease_utc_now_def result_simps row_matches_def currently_leased_def not_le
        as_utc_def utc_def split: option.splits if_splits)
  show "dt_us (mx_expires_at a) > dt_us (mt_clock am i)" "\<not> is_revoked db (si_value (mx_authorization_id a))" by fact+
qed

lemma verify_capability_Inr:
  "verify_capability ms am i a = Inr u \<Longrightarrow> \<exists>t. mx_attestation a = Some t \<and>
     ms_verify ms (mt_verify_clock am i) t AP_MODEL_EXECUTION (model_execution_authorization_payload a) = Inr ()"
  by (auto simp: verify_capability_def result_simps split: option.splits)

lemma reserve_Inr:
  assumes "reserve ms am a provider m n ch rh db = (Inr r, db')"
  obtains states totals where "verify_capability ms am 0 a = Inr ()" "validate_request_limits a provider m n ch rh = Inr ()"
    "granted ms am db a provider m n r states totals" "assert_active am 1 db a = Inr ()"
    "db' = db\<lparr>md_ledger := md_ledger db @ [reserved_row am a (si_value (mv_reservation_id r)) (mv_attempt_number r) m n
       (mv_reserved_cost_microusd r)]\<rparr>"
proof -
  have v: "verify_capability ms am 0 a = Inr ()" and l: "validate_request_limits a provider m n ch rh = Inr ()"
    and tx: "reserve_tx ms am a provider m n db = Inr (r, db')"
    using assms by (auto simp: reserve_def ledger_transaction_def bindE_eq_Inr split: sum.splits)
  obtain states totals where g: "granted ms am db a provider m n r states totals"
    and db': "db' = db\<lparr>md_ledger := md_ledger db @ [reserved_row am a (si_value (mv_reservation_id r)) (mv_attempt_number r) m n
       (mv_reserved_cost_microusd r)]\<rparr>"
    using reserve_tx_result [OF tx] .
  have "assert_usable ms am db a provider = Inr ()" using g by (simp add: granted_def)
  then have "assert_active am 1 db a = Inr ()" by (auto simp: assert_usable_def bindE_eq_Inr)
  then show thesis using that v l g db' by blast
qed

text \<open>
  C12. A model is called only under current authority: whenever \<open>reserve\<close> grants a reservation,
  the capability carries an attestation the verifier accepts for its payload, it is the one
  the control plane stored, it binds the provider, the context and the outbound request, it
  has not expired and is not revoked, and its worker still holds the task's lease with the
  same fencing token; the whole effect is one ledger row with the tokens and cost reserved.
\<close>

theorem reservation_needs_authority:
  assumes "reserve ms am a provider m n ch rh db = (Inr r, db')"
  shows "(\<exists>t. mx_attestation a = Some t \<and>
      ms_verify ms (mt_verify_clock am 0) t AP_MODEL_EXECUTION (model_execution_authorization_payload a) = Inr ()) \<and>
    (\<exists>st. stored_authorization ms db (si_value (mx_authorization_id a)) = Inr st \<and>
      (\<forall>f. dump_field (dump_ModelExecutionAuthorizationV1 st) f = dump_field (dump_ModelExecutionAuthorizationV1 a) f)) \<and>
    authorization_provider a = provider \<and> ch = Some (mx_context_pack_hash a) \<and> rh = mx_request_hash a \<and>
    dt_us (mx_expires_at a) > dt_us (mt_clock am 1) \<and> \<not> is_revoked db (si_value (mx_authorization_id a)) \<and>
    currently_leased db (mt_lease_clock am 1) (mx_lease a) \<and>
    (\<exists>row. db' = db\<lparr>md_ledger := md_ledger db @ [row]\<rparr> \<and> lg_event_type row = LE_RESERVED \<and>
      lg_authorization_id row = si_value (mx_authorization_id a) \<and> lg_reserved_input_tokens row = Some m \<and>
      lg_reserved_output_tokens row = Some n \<and> lg_reserved_cost_microusd row = Some (mv_reserved_cost_microusd r))"
proof -
  obtain states totals where v: "verify_capability ms am 0 a = Inr ()" and l: "validate_request_limits a provider m n ch rh = Inr ()"
    and g: "granted ms am db a provider m n r states totals" and act: "assert_active am 1 db a = Inr ()"
    and db': "db' = db\<lparr>md_ledger := md_ledger db @ [reserved_row am a (si_value (mv_reservation_id r)) (mv_attempt_number r) m n
       (mv_reserved_cost_microusd r)]\<rparr>"
    by (rule reserve_Inr [OF assms])
  have lim: "authorization_provider a = provider" "ch = Some (mx_context_pack_hash a)" "rh = mx_request_hash a"
    using l by (auto simp: validate_request_limits_def result_simps)
  have row: "\<exists>row. db' = db\<lparr>md_ledger := md_ledger db @ [row]\<rparr> \<and> lg_event_type row = LE_RESERVED \<and>
      lg_authorization_id row = si_value (mx_authorization_id a) \<and> lg_reserved_input_tokens row = Some m \<and>
      lg_reserved_output_tokens row = Some n \<and> lg_reserved_cost_microusd row = Some (mv_reserved_cost_microusd r)"
    unfolding db' by (intro exI conjI, rule refl) (simp_all add: reserved_row_def)
  show ?thesis
    using verify_capability_Inr [OF v] granted_stored [OF g] same_capability_fields lim assert_active_Inr [OF act] row by blast
qed

theorem reservation_needs_authority_witness:
  "\<exists>r db. reserve demo_service demo_clock demo_capability (authorization_provider demo_capability) 4 2
     (Some (digest_text PROMPT ''p'')) (digest_text PROMPT ''r'') demo_ledger = (Inr r, db) \<and>
     currently_leased demo_ledger (utc 1) (mx_lease demo_capability)"
proof -
  obtain r db where db: "reserve demo_service demo_clock demo_capability (authorization_provider demo_capability) 4 2
     (Some (digest_text PROMPT ''p'')) (digest_text PROMPT ''r'') demo_ledger = (Inr r, db)"
    using demo_reserve by blast
  have "mt_lease_clock demo_clock 1 = utc 1" by (simp add: demo_clock_def)
  then show ?thesis using reservation_needs_authority [OF db] db by auto
qed

section \<open>Terminal states\<close>

lemma reservation_step_terminal:
  assumes "reservation_step row states = Inr states'" "map_of states rid = Some s" "rs_state s \<noteq> RS_RESERVED"
  shows "map_of states' rid = Some s"
  using assms(1)
proof (cases rule: reservation_step_cases)
  case (finish i s0 s')
  then have "i \<noteq> rid" using assms(2,3) by auto
  then show ?thesis using finish(6) assms(2) by (simp add: update_conv')
qed (use assms(2) in \<open>auto simp: map_add_Some_iff\<close>)

lemma replay_terminal:
  "replay_reservations rows st = Inr st' \<Longrightarrow> map_of st rid = Some s \<Longrightarrow> rs_state s \<noteq> RS_RESERVED \<Longrightarrow> map_of st' rid = Some s"
  by (induction rows arbitrary: st) (auto simp: bindE_eq_Inr dest: reservation_step_terminal)

lemma replay_append_rows: "replay_reservations (xs @ ys) st = bindE (replay_reservations xs st) (replay_reservations ys)"
  by (induction xs arbitrary: st) (simp_all add: bindE_assoc cong: bindE_cong)

text \<open>
  C13. A settlement is final: a reservation that was settled, or abandoned, keeps its state and
  its usage in every later replay of the ledger; it is neither charged again nor released.
\<close>

theorem finished_reservations_never_change:
  assumes "(ledger_step ms)\<^sup>*\<^sup>* db db'" "reservation_states db i = Inr states" "map_of states rid = Some s"
    and "rs_state s \<noteq> RS_RESERVED" "reservation_states db' i = Inr states'"
  shows "map_of states' rid = Some s"
proof -
  obtain rows where "md_ledger db' = md_ledger db @ rows" using md_log.log_steps [OF assms(1)] by (auto simp: prefix_def)
  then have "replay_reservations (filter (\<lambda>r. lg_authorization_id r = i) rows) states = Inr states'"
    using assms(2,5) by (simp add: reservation_states_def authorization_rows_def replay_append_rows)
  then show ?thesis using replay_terminal assms(3,4) by blast
qed

definition demo_finished :: ledger_db where
  "demo_finished = demo_ledger\<lparr>md_ledger := [reserved_row demo_clock demo_capability ''r'' 1 4 2 22,
     abandoned_row demo_clock (si_value (sample_id ''auth'')) ''r'' 1 ''generation_failed_v1'']\<rparr>"

theorem finished_reservations_never_change_witness:
  "\<exists>s states. reservation_states demo_finished (si_value (sample_id ''auth'')) = Inr states \<and>
     map_of states ''r'' = Some s \<and> rs_state s = RS_ABANDONED"
proof -
  obtain s where s: "reservation_states demo_finished (si_value (sample_id ''auth'')) = Inr [(''r'', s)]" "rs_state s = RS_ABANDONED"
    by (simp add: reservation_states_def authorization_rows_def demo_finished_def reserved_row_def abandoned_row_def
        reservation_step_def reserved_state_def abandoned_state_def required_nonnegative_int_def require_def empty_ledger_row_def
        validate_provider_failure_code_def provider_failure_codes_def)
  have "map_of [(''r'', s)] ''r'' = Some s"
    using finished_reservations_never_change [OF rtranclp.rtrancl_refl s(1) _ _ s(1)] s(2) by simp
  then show ?thesis using s by blast
qed

section \<open>Issued capabilities\<close>

lemma ledger_transaction_fst: "ledger_transaction body db = (Inr x, db') \<Longrightarrow> body db = Inr (x, db')"
  by (simp add: ledger_transaction_Inr)

lemma issue_tx_fresh:
  assumes "issue_tx ms a digest now k db = Inr (a', db')" "md_authorizations db' \<noteq> md_authorizations db"
  shows "a' = a \<and> md_authorizations db (si_value (mx_authorization_id a)) = None \<and>
    (\<exists>row. md_authorizations db' = (md_authorizations db)(si_value (mx_authorization_id a) \<mapsto> row) \<and>
      ar_authorization_json row = canonical_json (dump_ModelExecutionAuthorizationV1 a) \<and>
      ar_authorization_hash row = dg_value (authorization_hash a))"
  using assms
  by (auto simp: issue_tx_def Let_def bindE_eq_Inr dest!: record_authorization_idempotency_Inr split: option.splits)

lemma draft_authorization_Inr:
  assumes "draft_authorization bundle i approval egress budget l ch rh now e = Inr d"
  shows "mx_authorization_id d = i \<and> mx_bundle_id d = tb_bundle_id bundle \<and> mx_bundle_hash d = handoff_hash bundle \<and>
    mx_contract_hash d = semantic_hash (tb_contract bundle) \<and> mx_context_pack_hash d = ch \<and> mx_request_hash d = rh \<and>
    mx_egress_policy d = egress \<and> mx_approval_snapshot d = approval \<and> mx_budget d = budget \<and> mx_expires_at d = e \<and>
    ml_fencing_token (mx_lease d) = ls_fencing_token l \<and> ml_bundle_id (mx_lease d) = tb_bundle_id bundle"
  using assms by (auto simp: draft_authorization_def bindE_eq_Inr ModelExecutionAuthorizationV1_init_def
      ModelExecutionLeaseBindingV1_init_def construct_Inr ModelExecutionLeaseBindingV1_strip_def)

lemma prepare_issue_Inr:
  assumes "prepare_issue ms am bundle i pi budget l ch rh ttl k db = Inr (a, digest, now)"
  obtains b approval egress d t where "assert_bundle_binding db bundle = Inr b" "assert_current_issue_lease am db bundle l = Inr ()"
    "stored_provider_approval ms db (si_value pi) = Inr approval" "ma_enabled approval" "egress_policy_of bundle = Inr egress"
    "permits egress (mb_endpoint_class (ma_binding approval))" "du_us ttl \<le> du_us (ms_max_ttl_seconds ms)"
    "draft_authorization bundle i approval egress budget l ch rh now (now\<lparr>dt_us := dt_us now + du_us ttl\<rparr>) = Inr d"
    "dt_us now + du_us ttl \<le> dt_us (ls_expires_at l)" "a = d\<lparr>mx_attestation := Some t\<rparr>" "verify_capability ms am 1 a = Inr ()"
proof -
  show ?thesis
    using assms that unfolding prepare_issue_def Let_def
    by (auto simp: bindE_eq_Inr require_eq_Inr validate_ttl_def model_copy_def ModelExecutionAuthorizationV1_init_def construct_Inr not_less)
qed

end
