(* ===== verification/Receipts.thy ===== *)
theory Receipts
  imports GatewayContracts Service
begin

text \<open>
  \<open>verifier_signing_gateway.py\<close>, first part: receipts of independent executions, their
  authentication, and the policy that says which verifiers a gateway trusts. Authenticators
  are a protocol of the program: anything with a \<open>verify\<close> method; the HMAC authenticator of
  the test fixtures is one of them.
\<close>

section \<open>Receipts\<close>

datatype IndependentExecutionClassV1 = PRODUCTION | TEST_ONLY

record IndependentExecutionReceiptAuthenticationV1 =
  ra_key_id :: string
  ra_algorithm :: string
  ra_authenticated_receipt_hash :: string
  ra_signature :: string

definition hex_between :: "nat \<Rightarrow> nat \<Rightarrow> string \<Rightarrow> bool" where
  "hex_between m n s \<longleftrightarrow> m \<le> length s \<and> length s \<le> n \<and> all_chars is_hex s"

definition validate_authentication :: "IndependentExecutionReceiptAuthenticationV1 \<Rightarrow> unit result" where
  "validate_authentication a = require_all
     [(safe_id (ra_key_id a), ''key ID''),
      (ident_pattern ''._-'' 128 (ra_algorithm a), ''algorithm''),
      (is_sha256_text (ra_authenticated_receipt_hash a), ''receipt hash''),
      (hex_between 64 512 (ra_signature a), ''signature'')]"

record IndependentExecutionReceiptV1 =
  re_receipt_id :: string
  re_verifier_id :: string
  re_checked_at :: datetime
  re_request_hash :: string
  re_evidence_artifact_digest :: string
  re_evidence_digest :: string
  re_execution_claim_hash :: string
  re_receipt_hash :: string
  re_authentication :: "IndependentExecutionReceiptAuthenticationV1 option"

definition receipt_timestamp :: "datetime \<Rightarrow> string result" where
  "receipt_timestamp t =
     bindE (require (aware t) (ValueError ''independent execution receipt timestamp must be timezone-aware'')) (\<lambda>_.
     Inr (utc_micros_text t))"

definition receipt_payload :: "string \<Rightarrow> IndependentExecutionReceiptV1 \<Rightarrow> json" where
  "receipt_payload timestamp r = JObj
     [(''schema_version'', JStr ''autolean.independent-execution-receipt.v1''),
      (''receipt_id'', JStr (re_receipt_id r)), (''verifier_id'', JStr (re_verifier_id r)), (''checked_at'', JStr timestamp),
      (''request_hash'', JStr (re_request_hash r)), (''evidence_artifact_digest'', JStr (re_evidence_artifact_digest r)),
      (''evidence_digest'', JStr (re_evidence_digest r)), (''execution_claim_hash'', JStr (re_execution_claim_hash r))]"

text \<open>\<open>create\<close> takes the public fields of a receipt and computes its hash; the envelope is absent.\<close>

definition create_receipt :: "IndependentExecutionReceiptV1 \<Rightarrow> IndependentExecutionReceiptV1 result" where
  "create_receipt r =
     bindE (receipt_timestamp (re_checked_at r)) (\<lambda>timestamp.
     Inr (r\<lparr>re_receipt_hash := sha256_hexdigest (utf8 (canonical_json (receipt_payload timestamp r))), re_authentication := None\<rparr>))"

definition validate_receipt :: "IndependentExecutionReceiptV1 \<Rightarrow> unit result" where
  "validate_receipt r =
     bindE (require_all
       [(aware (re_checked_at r), ''timestamp must be timezone-aware''),
        (safe_id (re_receipt_id r), ''receipt ID''), (safe_id (re_verifier_id r), ''verifier ID''),
        (is_sha256_text (re_request_hash r), ''request hash''),
        (is_sha256_text (re_evidence_artifact_digest r), ''evidence artifact digest''),
        (is_sha256_text (re_evidence_digest r), ''evidence digest''),
        (is_sha256_text (re_execution_claim_hash r), ''execution claim hash''),
        (is_sha256_text (re_receipt_hash r), ''receipt hash'')]) (\<lambda>_.
     bindE (create_receipt r) (\<lambda>expected.
     bindE (require (re_receipt_hash r = re_receipt_hash expected)
       (ValueError ''independent execution receipt hash does not match its public fields'')) (\<lambda>_.
     case re_authentication r of
       None \<Rightarrow> Inr ()
     | Some a \<Rightarrow>
         bindE (validate_authentication a) (\<lambda>_.
         require (ra_authenticated_receipt_hash a = re_receipt_hash r)
           (ValueError ''independent execution receipt authentication binds another receipt hash'')))))"

section \<open>The HMAC authenticator of the fixtures\<close>

record FixtureHmacIndependentExecutionReceiptAuthenticator =
  fh_key_id :: string
  fh_secret :: string

definition fixture_algorithm :: string where
  "fixture_algorithm = ''hmac-sha256-test-v1''"

definition FixtureHmac_init ::
  "FixtureHmacIndependentExecutionReceiptAuthenticator \<Rightarrow> FixtureHmacIndependentExecutionReceiptAuthenticator result" where
  "FixtureHmac_init f =
     bindE (require_all
       [(safe_id (fh_key_id f), ''independent receipt key ID is invalid''),
        (\<not> length (fh_secret f) < 32, ''independent receipt HMAC secret must contain at least 32 bytes'')]) (\<lambda>_. Inr f)"

definition fixture_message :: "string \<Rightarrow> IndependentExecutionReceiptV1 \<Rightarrow> json" where
  "fixture_message key_id r = JObj
     [(''schema_version'', JStr ''autolean.independent-execution-receipt-auth.v1''),
      (''algorithm'', JStr fixture_algorithm), (''key_id'', JStr key_id),
      (''verifier_id'', JStr (re_verifier_id r)), (''receipt_hash'', JStr (re_receipt_hash r))]"

definition fixture_signature :: "FixtureHmacIndependentExecutionReceiptAuthenticator \<Rightarrow> IndependentExecutionReceiptV1 \<Rightarrow> string" where
  "fixture_signature f r = hmac_hex (fh_secret f) (utf8 (canonical_json (fixture_message (fh_key_id f) r)))"

definition fixture_authenticate ::
  "FixtureHmacIndependentExecutionReceiptAuthenticator \<Rightarrow> IndependentExecutionReceiptV1 \<Rightarrow> IndependentExecutionReceiptV1 result" where
  "fixture_authenticate f r =
     bindE (validate_receipt r) (\<lambda>_.
     Inr (r\<lparr>re_authentication := Some \<lparr>ra_key_id = fh_key_id f, ra_algorithm = fixture_algorithm,
       ra_authenticated_receipt_hash = re_receipt_hash r, ra_signature = fixture_signature f r\<rparr>\<rparr>))"

definition fixture_verify ::
  "FixtureHmacIndependentExecutionReceiptAuthenticator \<Rightarrow> IndependentExecutionReceiptV1 \<Rightarrow> unit result" where
  "fixture_verify f r =
     bindE (validate_receipt r) (\<lambda>_.
     case re_authentication r of
       None \<Rightarrow> Inl (ValueError ''independent execution receipt is unauthenticated'')
     | Some a \<Rightarrow>
         require (\<not> (ra_key_id a \<noteq> fh_key_id f \<or> ra_algorithm a \<noteq> fixture_algorithm \<or> ra_signature a \<noteq> fixture_signature f r))
           (ValueError ''independent execution receipt authentication does not verify''))"

section \<open>Trust policies\<close>

text \<open>An authenticator: its \<open>verify\<close> and its \<open>execution_class\<close>, where it has one.\<close>

record receipt_authenticator =
  au_verify :: "IndependentExecutionReceiptV1 \<Rightarrow> unit result"
  au_execution_class :: "IndependentExecutionClassV1 option"

definition fixture_authenticator :: "FixtureHmacIndependentExecutionReceiptAuthenticator \<Rightarrow> receipt_authenticator" where
  "fixture_authenticator f = \<lparr>au_verify = fixture_verify f, au_execution_class = Some TEST_ONLY\<rparr>"

record TrustedIndependentExecutionVerifierV1 =
  ti_verifier_id :: string
  ti_authentication_key_id :: string
  ti_execution_class :: IndependentExecutionClassV1
  ti_authenticator :: receipt_authenticator

definition TrustedIndependentExecutionVerifierV1_init ::
  "TrustedIndependentExecutionVerifierV1 \<Rightarrow> TrustedIndependentExecutionVerifierV1 result" where
  "TrustedIndependentExecutionVerifierV1_init v =
     bindE (require_all [(safe_id (ti_verifier_id v), ''verifier ID''),
       (safe_id (ti_authentication_key_id v), ''authentication key ID'')]) (\<lambda>_. Inr v)"

record IndependentExecutionTrustPolicyV1 =
  tp_gateway_signing_key_id :: string
  tp_execution_class :: IndependentExecutionClassV1
  tp_trusted_verifiers :: "(string \<times> TrustedIndependentExecutionVerifierV1) list"

definition trusted_entry_checks ::
  "IndependentExecutionTrustPolicyV1 \<Rightarrow> string \<times> TrustedIndependentExecutionVerifierV1 \<Rightarrow> checks" where
  "trusted_entry_checks p entry =
     (let (verifier_id, identity) = entry in
     [(verifier_id = ti_verifier_id identity, ''independent verifier allowlist keys must match verifier IDs''),
      (ti_authentication_key_id identity \<noteq> tp_gateway_signing_key_id p,
         ''independent verifier authentication key must differ from gateway signing key''),
      (\<not> (tp_execution_class p = PRODUCTION \<and> ti_execution_class identity \<noteq> PRODUCTION),
         ''production authority cannot trust a test-only execution verifier''),
      (\<not> (tp_execution_class p = PRODUCTION \<and> au_execution_class (ti_authenticator identity) = Some TEST_ONLY),
         ''production authority cannot trust a test-only receipt key'')])"

definition IndependentExecutionTrustPolicyV1_init ::
  "IndependentExecutionTrustPolicyV1 \<Rightarrow> IndependentExecutionTrustPolicyV1 result" where
  "IndependentExecutionTrustPolicyV1_init p =
     bindE (require_all [(safe_id (tp_gateway_signing_key_id p), ''gateway signing key ID is invalid''),
       (tp_trusted_verifiers p \<noteq> [], ''independent execution trust policy requires a verifier allowlist'')]) (\<lambda>_.
     bindE (forE (\<lambda>entry. require_all (trusted_entry_checks p entry)) (tp_trusted_verifiers p)) (\<lambda>_. Inr p))"

definition policy_authenticate :: "IndependentExecutionTrustPolicyV1 \<Rightarrow> IndependentExecutionReceiptV1 \<Rightarrow> unit result" where
  "policy_authenticate p r =
     (case re_authentication r of
        None \<Rightarrow> Inl (ValueError ''independent execution receipt is unauthenticated'')
      | Some a \<Rightarrow>
          (case map_of (tp_trusted_verifiers p) (re_verifier_id r) of
             None \<Rightarrow> Inl (ValueError ''independent execution receipt verifier ID is not allowlisted'')
           | Some identity \<Rightarrow>
               bindE (require (ra_key_id a = ti_authentication_key_id identity)
                 (ValueError ''independent execution receipt uses an untrusted authentication key'')) (\<lambda>_.
               au_verify (ti_authenticator identity) r)))"

end
