(* ===== verification/SigningGateway.thy ===== *)
theory SigningGateway
  imports Receipts
begin

text \<open>
  \<open>verifier_signing_gateway.py\<close>, second part: the gateway itself. A request is checked against
  the lease, the registered task, the submitted proof and the stored evidence; an independent
  verifier runs the proof again; the request is reserved in a ledger that admits every request
  identifier, nonce, idempotency key and payload once; only then is it signed, and the result
  is recorded. The evidence parser, the independent verifier, the signer and the verifier of
  attestations are fields of the gateway.
\<close>

section \<open>State\<close>

datatype request_state = RQ_PENDING | RQ_ISSUED | RQ_FAILED

record signing_row =
  sr_request_id :: string
  sr_request_nonce :: string
  sr_idempotency_key :: string
  sr_request_hash :: string
  sr_canonical_payload_hash :: string
  sr_bundle_id :: string
  sr_proof_id :: string
  sr_fencing_token :: int
  sr_evidence_artifact_digest :: string
  sr_receipt_id :: "string option"
  sr_receipt_hash :: "string option"
  sr_verifier_id :: "string option"
  sr_checked_at :: "string option"
  sr_claim_hash :: "string option"
  sr_key_id :: "string option"
  sr_algorithm :: "string option"
  sr_signature :: "string option"
  sr_state :: request_state
  sr_attestation_json :: "string option"
  sr_failure_code :: "string option"
  sr_reserved_at :: string
  sr_completed_at :: "string option"

record signing_db = event_db +
  vg_requests :: "signing_row list"

record signing_state =
  sg_db :: signing_db
  sg_files :: store_fs

record signing_gateway =
  gw_sign :: "AttestationPurposeV1 \<Rightarrow> json_object \<Rightarrow> string \<Rightarrow> int \<Rightarrow> AttestationV1 result"
  gw_verify :: "datetime \<Rightarrow> AttestationV1 \<Rightarrow> AttestationPurposeV1 \<Rightarrow> json_object \<Rightarrow> unit result"
  gw_execute :: "VerificationSigningRequestV1 \<Rightarrow> VerificationEvidenceArtifactV2 \<Rightarrow> IndependentExecutionReceiptV1 result"
  gw_trust_policy :: IndependentExecutionTrustPolicyV1
  gw_approved_image_identities :: "(string \<times> string) list"
  gw_max_ttl_us :: int
  gw_parse_evidence :: "json_object \<Rightarrow> VerificationEvidenceArtifactV2 result"
  gw_parse_attestation :: "string \<Rightarrow> AttestationV1 option"

text \<open>
  Clock readings, numbered by the place that takes them, and what other clients do to the
  database and the blob store between the steps of one request.
\<close>

record gateway_ambient =
  gm_clock :: "nat \<Rightarrow> datetime"
  gm_lease_clock :: "nat \<Rightarrow> datetime"
  gm_verify_clock :: "nat \<Rightarrow> datetime"
  gm_between :: "nat \<Rightarrow> signing_state \<Rightarrow> signing_state"

abbreviation rejected :: "string \<Rightarrow> exn" where
  "rejected m \<equiv> VerificationSigningGatewayRejected m"

abbreviation unavailable :: "string \<Rightarrow> exn" where
  "unavailable m \<equiv> VerificationSigningGatewayUnavailable m"

text \<open>\<open>ProductionAuthorityUnavailable\<close> is a subclass of the unavailable error.\<close>

fun is_gateway_error :: "exn \<Rightarrow> bool" where
  "is_gateway_error (VerificationSigningGatewayRejected m) = True"
| "is_gateway_error (VerificationSigningGatewayReplay m) = True"
| "is_gateway_error (VerificationSigningGatewayUnavailable m) = True"
| "is_gateway_error _ = False"

fun is_integrity_error :: "exn \<Rightarrow> bool" where
  "is_integrity_error (IntegrityError m) = True"
| "is_integrity_error _ = False"

definition gateway_init :: "signing_gateway \<Rightarrow> signing_gateway result" where
  "gateway_init gw =
     bindE (require (\<not> (gw_max_ttl_us gw \<le> 0 \<or> gw_max_ttl_us gw > 900 * 1000000))
       (ValueError ''verifier gateway max TTL must be positive and at most 15 minutes'')) (\<lambda>_.
     bindE (require (tp_execution_class (gw_trust_policy gw) \<noteq> PRODUCTION)
       (unavailable ''production verifier authority requires a future independent remote service'')) (\<lambda>_.
     bindE (require (gw_approved_image_identities gw \<noteq> [])
       (ValueError ''verifier gateway requires an approved image identity registry'')) (\<lambda>_.
     bindE (forE (\<lambda>(image_digest, identity_hash). require_all
         [(image_digest_pattern image_digest, ''approved verifier image digest is invalid''),
          (is_sha256_text identity_hash, ''approved verifier identity hash is invalid'')])
       (gw_approved_image_identities gw)) (\<lambda>_. Inr gw))))"

definition gateway_now :: "gateway_ambient \<Rightarrow> nat \<Rightarrow> datetime result" where
  "gateway_now am i =
     (if aware (gm_clock am i) then Inr (as_utc (gm_clock am i))
      else Inl (unavailable ''verifier signing gateway clock returned a naive timestamp''))"

definition signing_transaction :: "(signing_db \<Rightarrow> ('a \<times> signing_db) result) \<Rightarrow> signing_state \<Rightarrow> 'a result \<times> signing_state" where
  "signing_transaction body s =
     (case body (sg_db s) of Inl e \<Rightarrow> (Inl e, s) | Inr (x, db) \<Rightarrow> (Inr x, s\<lparr>sg_db := db\<rparr>))"

section \<open>The request and its bindings\<close>

definition validate_request_time :: "signing_gateway \<Rightarrow> VerificationSigningRequestV1 \<Rightarrow> datetime \<Rightarrow> unit result" where
  "validate_request_time gw request now =
     bindE (require (\<not> dt_us (vsr_requested_at request) > dt_us now) (rejected ''verification signing request is from future'')) (\<lambda>_.
     bindE (require (\<not> dt_us (vsr_expires_at request) \<le> dt_us now) (rejected ''verification signing request has expired'')) (\<lambda>_.
     require (\<not> dt_us (vsr_expires_at request) - dt_us (vsr_requested_at request) > gw_max_ttl_us gw)
       (rejected ''verification signing request exceeds the gateway TTL policy'')))"

definition validate_task_binding :: "TaskBinding \<Rightarrow> VerificationSigningContextV1 \<Rightarrow> unit result" where
  "validate_task_binding b c = forE (\<lambda>(ok, m). require ok (rejected m))
     [(tk_bundle_id b = si_value (vsc_bundle_id c), ''bundle ID''),
      (tk_bundle_hash b = dg_value (vsc_bundle_hash c), ''bundle hash''),
      (tk_contract_id b = si_value (vsc_contract_id c), ''contract ID''),
      (tk_revision b = vsc_revision c, ''contract revision''),
      (tk_contract_hash b = dg_value (vsc_contract_hash c), ''contract hash''),
      (tk_proof_boundary_hash b = dg_value (vsc_proof_boundary_hash c), ''proof boundary''),
      (tk_environment_hash b = dg_value (vsc_environment_hash c), ''environment'')]"

definition gateway_proof_event :: "signing_db \<Rightarrow> string \<Rightarrow> StoredEvent result" where
  "gateway_proof_event db proof_id =
     bindE (read_stream (event_db.truncate db) ''proof'' proof_id 0) (\<lambda>evs.
     case find (\<lambda>e. se_event_type e = ''proof.submitted'') evs of
       None \<Rightarrow> Inl (rejected ''verification signing proof has not been submitted'')
     | Some e \<Rightarrow> Inr e)"

text \<open>Python's \<open>==\<close> of a JSON value and an integer: booleans and integral floats are numbers too.\<close>

definition json_equals_int :: "json \<Rightarrow> int \<Rightarrow> bool" where
  "json_equals_int v n =
     (case v of
        JInt i \<Rightarrow> i = n
      | JBool b \<Rightarrow> (if b then 1 else 0) = n
      | JFloat t \<Rightarrow> t = int_text n @ ''.0''
      | _ \<Rightarrow> False)"

definition proof_artifact_digest :: "json_object \<Rightarrow> json" where
  "proof_artifact_digest payload =
     (case get_value payload ''proof_artifact'' of JObj a \<Rightarrow> get_value a ''digest'' | _ \<Rightarrow> JNull)"

definition validate_gateway_proof_binding :: "VerificationSigningContextV1 \<Rightarrow> json_object \<Rightarrow> unit result" where
  "validate_gateway_proof_binding c payload = forE (\<lambda>(ok, m). require ok (rejected m))
     [(get_value payload ''bundle_id'' = JStr (si_value (vsc_bundle_id c)), ''bundle ID''),
      (get_value payload ''proof_id'' = JStr (si_value (vsc_proof_id c)), ''proof ID''),
      (get_value payload ''contract_id'' = JStr (si_value (vsc_contract_id c)), ''contract ID''),
      (json_equals_int (get_value payload ''revision'') (vsc_revision c), ''contract revision''),
      (get_value payload ''contract_hash'' = JStr (dg_value (vsc_contract_hash c)), ''contract hash''),
      (get_value payload ''proof_boundary_hash'' = JStr (dg_value (vsc_proof_boundary_hash c)), ''proof boundary''),
      (get_value payload ''environment_hash'' = JStr (dg_value (vsc_environment_hash c)), ''environment''),
      (get_value payload ''dependency_manifest_hash'' = JStr (dg_value (vsc_dependency_manifest_hash c)), ''dependency manifest''),
      (proof_artifact_digest payload = JStr (vsc_proof_submission_artifact_digest c), ''proof artifact digest'')]"

text \<open>
  The stored bytes must be the canonical text of a JSON object, and of the artifact parsed
  from it. Bytes that are not ASCII fail the first comparison, as canonical text is ASCII.
\<close>

definition read_evidence_artifact :: "signing_gateway \<Rightarrow> store_fs \<Rightarrow> string \<Rightarrow> VerificationEvidenceArtifactV2 result" where
  "read_evidence_artifact gw fs digest =
     bindE (catchE is_artifact_error (rejected ''verification signing evidence artifact is unavailable or corrupt'')
       (get_bytes fs (Inr digest))) (\<lambda>raw.
     bindE (case (if list_all (\<lambda>c. code c < 128) raw then json_loads raw else None) of
         Some (JObj parsed) \<Rightarrow>
           if utf8 (canonical_json (JObj parsed)) = raw
           then catchE is_value_error (rejected ''verification signing evidence artifact is not canonical V2 JSON'')
             (gw_parse_evidence gw (json_object_of parsed))
           else Inl (rejected ''verification signing evidence artifact is not canonical V2 JSON'')
       | _ \<Rightarrow> Inl (rejected ''verification signing evidence artifact is not canonical V2 JSON'')) (\<lambda>artifact.
     bindE (require (utf8 (canonical_json (dump_VerificationEvidenceArtifactV2 artifact)) = raw)
       (rejected ''verification signing evidence artifact was normalized during validation'')) (\<lambda>_.
     Inr artifact)))"

definition validate_evidence_binding ::
  "signing_gateway \<Rightarrow> TaskBinding \<Rightarrow> VerificationSigningContextV1 \<Rightarrow> VerificationSigningLeaseBindingV1
     \<Rightarrow> VerificationEvidenceArtifactV2 \<Rightarrow> unit result" where
  "validate_evidence_binding gw b c lease a =
     (let authority = oa2_execution_authority (va2_oci a);
          approved = map_of (gw_approved_image_identities gw) (tk_worker_image_digest b) in
      forE (\<lambda>(ok, m). require ok (rejected m))
     [(va2_evidence_id a = vsc_evidence_identity c, ''evidence identity''),
      (va2_bundle_id a = vsc_bundle_id c, ''bundle ID''),
      (va2_bundle_hash a = vsc_bundle_hash c, ''bundle hash''),
      (va2_contract_id a = vsc_contract_id c, ''contract ID''),
      (va2_revision a = vsc_revision c, ''contract revision''),
      (va2_contract_hash a = vsc_contract_hash c, ''contract hash''),
      (va2_proof_id a = vsc_proof_id c, ''proof ID''),
      (va2_proof_boundary_hash a = vsc_proof_boundary_hash c, ''proof boundary''),
      (va2_proof_submission_artifact_digest a = vsc_proof_submission_artifact_digest c, ''proof artifact digest''),
      (va2_dependency_manifest_hash a = vsc_dependency_manifest_hash c, ''dependency manifest''),
      (va2_verification_report_id a = vsc_report_id c, ''report ID''),
      (ve_environment_hash (va2_environment a) = vsc_environment_hash c, ''environment''),
      (oa2_worker_image_digest (va2_oci a) = tk_worker_image_digest b, ''worker image''),
      (oa2_wrapper_protocol (va2_oci a) = tk_wrapper_protocol b, ''wrapper protocol''),
      (dg_value (oa2_command_policy_hash (va2_oci a)) = tk_command_policy_hash b, ''command policy''),
      (oe_worker_id authority = vsl_worker_id lease, ''execution lease holder''),
      (oe_fencing_token authority = vsl_fencing_token lease, ''execution lease fence''),
      (dt_us (oe_expires_at authority) = dt_us (vsl_expires_at lease), ''execution lease expiry''),
      (approved \<noteq> None, ''approved image identity''),
      (approved = Some (oe_wrapper_identity_hash authority), ''image-owned verifier identity'')])"

definition assert_current_signing_lease ::
  "gateway_ambient \<Rightarrow> nat \<Rightarrow> VerificationSigningRequestV1 \<Rightarrow> signing_db \<Rightarrow> unit result" where
  "assert_current_signing_lease am i request db =
     (let l = vsr_lease request in
     bindE (current (gm_lease_clock am i) (si_value (vsc_bundle_id (vsr_context request))) db) (\<lambda>found.
     case found of
       None \<Rightarrow> Inl (rejected ''verification signing lease is not current'')
     | Some cur \<Rightarrow>
         bindE (require (\<not> (ls_holder_id cur \<noteq> vsl_worker_id l \<or> ls_fencing_token cur \<noteq> vsl_fencing_token l
             \<or> dt_us (ls_expires_at cur) \<noteq> dt_us (vsl_expires_at l)))
           (rejected ''verification signing lease holder, fence, or expiry does not match'')) (\<lambda>_.
         require (\<not> dt_us (vsr_expires_at request) > dt_us (ls_expires_at cur))
           (rejected ''verification signing request outlives the authoritative lease''))))"

definition assert_authoritative_binding ::
  "signing_gateway \<Rightarrow> gateway_ambient \<Rightarrow> nat \<Rightarrow> VerificationSigningRequestV1 \<Rightarrow> signing_state \<Rightarrow> VerificationEvidenceArtifactV2 result" where
  "assert_authoritative_binding gw am i request s =
     (let c = vsr_context request; l = vsr_lease request in
     bindE (require (vsl_bundle_id l = vsc_bundle_id c)
       (rejected ''verification signing lease and context name different bundles'')) (\<lambda>_.
     bindE (assert_current_signing_lease am i request (sg_db s)) (\<lambda>_.
     bindE (require_binding (event_db.truncate (sg_db s)) (si_value (vsc_bundle_id c))) (\<lambda>b.
     bindE (validate_task_binding b c) (\<lambda>_.
     bindE (gateway_proof_event (sg_db s) (si_value (vsc_proof_id c))) (\<lambda>event.
     bindE (validate_gateway_proof_binding c (se_payload event)) (\<lambda>_.
     bindE (read_evidence_artifact gw (sg_files s) (vsc_evidence_artifact_digest c)) (\<lambda>artifact.
     bindE (validate_evidence_binding gw b c l artifact) (\<lambda>_.
     Inr artifact)))))))))"

section \<open>Receipts of the execution\<close>

definition receipt_checks ::
  "VerificationSigningRequestV1 \<Rightarrow> VerificationEvidenceArtifactV2 \<Rightarrow> IndependentExecutionReceiptV1 \<Rightarrow> datetime \<Rightarrow> (bool \<times> string) list" where
  "receipt_checks request artifact r now =
     [(\<not> dt_us (re_checked_at r) < dt_us (vsr_requested_at request), ''predates its signing request''),
      (\<not> dt_us (re_checked_at r) > dt_us (vsl_expires_at (vsr_lease request)), ''outlives its execution lease''),
      (\<not> dt_us (re_checked_at r) > dt_us now, ''is from the future''),
      (re_request_hash r = dg_value (signing_request_hash request), ''request hash''),
      (re_evidence_artifact_digest r = vsc_evidence_artifact_digest (vsr_context request), ''evidence artifact digest''),
      (re_evidence_digest r = dg_value (vsc_verification_evidence_hash (vsr_context request)), ''evidence digest''),
      (re_execution_claim_hash r = oe_execution_claim_hash (oa2_execution_authority (va2_oci artifact)), ''execution claim hash'')]"

definition validate_execution_receipt ::
  "signing_gateway \<Rightarrow> gateway_ambient \<Rightarrow> nat \<Rightarrow> VerificationSigningRequestV1 \<Rightarrow> VerificationEvidenceArtifactV2
     \<Rightarrow> IndependentExecutionReceiptV1 \<Rightarrow> unit result" where
  "validate_execution_receipt gw am i request artifact r =
     bindE (catchE is_value_error (rejected ''independent execution receipt is malformed, unauthenticated, or untrusted'')
       (bindE (validate_receipt r) (\<lambda>_. policy_authenticate (gw_trust_policy gw) r))) (\<lambda>_.
     bindE (gateway_now am i) (\<lambda>now.
     forE (\<lambda>(ok, m). require ok (rejected m)) (receipt_checks request artifact r now)))"

definition independently_verify_execution ::
  "signing_gateway \<Rightarrow> gateway_ambient \<Rightarrow> nat \<Rightarrow> VerificationSigningRequestV1 \<Rightarrow> VerificationEvidenceArtifactV2
     \<Rightarrow> IndependentExecutionReceiptV1 result" where
  "independently_verify_execution gw am i request artifact =
     bindE (catchE (\<lambda>e. \<not> is_gateway_error e) (unavailable ''independent execution verifier is unavailable'')
       (gw_execute gw request artifact)) (\<lambda>r.
     bindE (validate_execution_receipt gw am i request artifact r) (\<lambda>_. Inr r))"

section \<open>The ledger of requests\<close>

record IssuedRequestReplay =
  ip_attestation :: AttestationV1
  ip_receipt :: IndependentExecutionReceiptV1

definition row_receipt_fields :: "signing_row \<Rightarrow> string option list" where
  "row_receipt_fields row = [sr_receipt_id row, sr_receipt_hash row, sr_verifier_id row, sr_checked_at row, sr_claim_hash row,
     sr_key_id row, sr_algorithm row, sr_signature row]"

definition ledger_receipt :: "VerificationSigningRequestV1 \<Rightarrow> signing_row \<Rightarrow> IndependentExecutionReceiptV1 result" where
  "ledger_receipt request row =
     (case fromisoformat (replace_char (CHR ''Z'') ''+00:00'' (the (sr_checked_at row))) of
        None \<Rightarrow> Inl (ValueError ''Invalid isoformat string'')
      | Some checked_at \<Rightarrow> Inr
          \<lparr>re_receipt_id = the (sr_receipt_id row), re_verifier_id = the (sr_verifier_id row), re_checked_at = checked_at,
           re_request_hash = dg_value (signing_request_hash request),
           re_evidence_artifact_digest = vsc_evidence_artifact_digest (vsr_context request),
           re_evidence_digest = dg_value (vsc_verification_evidence_hash (vsr_context request)),
           re_execution_claim_hash = the (sr_claim_hash row), re_receipt_hash = the (sr_receipt_hash row),
           re_authentication = Some \<lparr>ra_key_id = the (sr_key_id row), ra_algorithm = the (sr_algorithm row),
             ra_authenticated_receipt_hash = the (sr_receipt_hash row), ra_signature = the (sr_signature row)\<rparr>\<rparr>)"

definition receipt_from_ledger :: "VerificationSigningRequestV1 \<Rightarrow> signing_row \<Rightarrow> IndependentExecutionReceiptV1 result" where
  "receipt_from_ledger request row =
     bindE (require (None \<notin> set (row_receipt_fields row))
       (ValueError ''issued verifier signing request has no persisted execution receipt'')) (\<lambda>_.
     bindE (require (sr_evidence_artifact_digest row = vsc_evidence_artifact_digest (vsr_context request))
       (ValueError ''issued verifier signing request has another evidence artifact'')) (\<lambda>_.
     ledger_receipt request row))"

definition receipt_from_ledger_unchecked :: "VerificationSigningRequestV1 \<Rightarrow> signing_row \<Rightarrow> IndependentExecutionReceiptV1 result" where
  "receipt_from_ledger_unchecked request row =
     bindE (require (sr_evidence_artifact_digest row = vsc_evidence_artifact_digest (vsr_context request))
       (ValueError ''issued verifier signing request has another evidence artifact'')) (\<lambda>_.
     bindE (require (None \<notin> set (row_receipt_fields row))
       (ValueError ''issued verifier signing request has no persisted execution receipt'')) (\<lambda>_.
     ledger_receipt request row))"

text \<open>The row of an idempotency key, and what both readers of the ledger make of it.\<close>

definition row_of_key :: "signing_db \<Rightarrow> string \<Rightarrow> signing_row option" where
  "row_of_key db k = find (\<lambda>row. sr_idempotency_key row = k) (vg_requests db)"

definition replay_of_row ::
  "signing_gateway \<Rightarrow> (VerificationSigningRequestV1 \<Rightarrow> signing_row \<Rightarrow> IndependentExecutionReceiptV1 result)
     \<Rightarrow> VerificationSigningRequestV1 \<Rightarrow> signing_row \<Rightarrow> IssuedRequestReplay result" where
  "replay_of_row gw receipt_of request row =
     bindE (require (sr_request_hash row = dg_value (signing_request_hash request))
       (VerificationSigningGatewayReplay ''verification signing idempotency key was reused for another request'')) (\<lambda>_.
     case (sr_state row, sr_attestation_json row) of
       (RQ_ISSUED, Some serialized) \<Rightarrow>
         catchE is_value_error (unavailable ''stored verification attestation or execution receipt is malformed'')
           (bindE (case gw_parse_attestation gw serialized of
                None \<Rightarrow> Inl (ValueError ''attestation'') | Some a \<Rightarrow> Inr a) (\<lambda>a.
            bindE (receipt_of request row) (\<lambda>r. Inr \<lparr>ip_attestation = a, ip_receipt = r\<rparr>)))
     | _ \<Rightarrow> Inl (unavailable ''verification signing request did not reach an issued state''))"

definition load_issued_replay ::
  "signing_gateway \<Rightarrow> VerificationSigningRequestV1 \<Rightarrow> signing_db \<Rightarrow> IssuedRequestReplay option result" where
  "load_issued_replay gw request db =
     (case row_of_key db (vsr_idempotency_key request) of
        None \<Rightarrow> Inr None
      | Some row \<Rightarrow> bindE (replay_of_row gw receipt_from_ledger request row) (\<lambda>p. Inr (Some p)))"

definition validate_issued_attestation ::
  "signing_gateway \<Rightarrow> VerificationSigningRequestV1 \<Rightarrow> AttestationV1 \<Rightarrow> unit result" where
  "validate_issued_attestation gw request a = forE (\<lambda>(ok, m). require ok (unavailable m))
     [(at_purpose a = AP_VERIFICATION, ''verifier gateway returned a different attestation purpose''),
      (at_key_id a = tp_gateway_signing_key_id (gw_trust_policy gw),
         ''verifier gateway returned an attestation from another signing key''),
      (at_evidence_identity a = si_value (vsc_evidence_identity (vsr_context request)),
         ''verifier gateway returned a different evidence identity''),
      (dg_value (at_payload_hash a) = dg_value (vsr_canonical_payload_hash request),
         ''verifier gateway returned a different canonical payload hash''),
      (\<not> dt_us (at_expires_at a) > dt_us (vsr_expires_at request),
         ''verifier gateway attestation outlives its request or lease'')]"

definition validate_issued_replay ::
  "signing_gateway \<Rightarrow> gateway_ambient \<Rightarrow> nat \<Rightarrow> VerificationSigningRequestV1 \<Rightarrow> VerificationEvidenceArtifactV2
     \<Rightarrow> IssuedRequestReplay \<Rightarrow> unit result" where
  "validate_issued_replay gw am i request artifact p =
     bindE (catchE is_attestation_error (unavailable ''stored verification attestation no longer validates'')
       (bindE (verification_gateway_attestation_payload (vsr_lease request) (vsr_context request)) (\<lambda>payload.
        gw_verify gw (gm_verify_clock am i) (ip_attestation p) AP_VERIFICATION payload))) (\<lambda>_.
     bindE (validate_issued_attestation gw request (ip_attestation p)) (\<lambda>_.
     validate_execution_receipt gw am i request artifact (ip_receipt p)))"

section \<open>Transactions on the ledger\<close>

text \<open>The constraints of the table: a primary key, three unique columns, a check and 64-bit integers.\<close>

definition insert_request :: "signing_row \<Rightarrow> signing_db \<Rightarrow> signing_db result" where
  "insert_request row db =
     (let rows = vg_requests db in
     bindE (require (- (2 ^ 63) \<le> sr_fencing_token row \<and> sr_fencing_token row < 2 ^ 63)
       (OverflowError ''Python int too large to convert to SQLite INTEGER'')) (\<lambda>_.
     bindE (require (sr_fencing_token row > 0) (IntegrityError ''fencing_token'')) (\<lambda>_.
     bindE (require (sr_request_id row \<notin> set (map sr_request_id rows)
         \<and> sr_request_nonce row \<notin> set (map sr_request_nonce rows)
         \<and> sr_idempotency_key row \<notin> set (map sr_idempotency_key rows)
         \<and> sr_canonical_payload_hash row \<notin> set (map sr_canonical_payload_hash rows)) (IntegrityError ''UNIQUE'')) (\<lambda>_.
     Inr (db\<lparr>vg_requests := rows @ [row]\<rparr>)))))"

definition pending_row ::
  "VerificationSigningRequestV1 \<Rightarrow> IndependentExecutionReceiptV1 \<Rightarrow> IndependentExecutionReceiptAuthenticationV1 \<Rightarrow> datetime \<Rightarrow> signing_row" where
  "pending_row request r a now =
     \<lparr>sr_request_id = si_value (vsr_request_id request), sr_request_nonce = vsr_request_nonce request,
      sr_idempotency_key = vsr_idempotency_key request, sr_request_hash = dg_value (signing_request_hash request),
      sr_canonical_payload_hash = dg_value (vsr_canonical_payload_hash request),
      sr_bundle_id = si_value (vsc_bundle_id (vsr_context request)), sr_proof_id = si_value (vsc_proof_id (vsr_context request)),
      sr_fencing_token = vsl_fencing_token (vsr_lease request),
      sr_evidence_artifact_digest = vsc_evidence_artifact_digest (vsr_context request),
      sr_receipt_id = Some (re_receipt_id r), sr_receipt_hash = Some (re_receipt_hash r), sr_verifier_id = Some (re_verifier_id r),
      sr_checked_at = Some (utc_micros_text (re_checked_at r)), sr_claim_hash = Some (re_execution_claim_hash r),
      sr_key_id = Some (ra_key_id a), sr_algorithm = Some (ra_algorithm a), sr_signature = Some (ra_signature a),
      sr_state = RQ_PENDING, sr_attestation_json = None, sr_failure_code = None, sr_reserved_at = utc_micros_text now,
      sr_completed_at = None\<rparr>"

definition reserve_request_tx ::
  "signing_gateway \<Rightarrow> VerificationSigningRequestV1 \<Rightarrow> IndependentExecutionReceiptV1 \<Rightarrow> datetime \<Rightarrow> signing_db
     \<Rightarrow> (IssuedRequestReplay option \<times> signing_db) result" where
  "reserve_request_tx gw request r now db =
     (case row_of_key db (vsr_idempotency_key request) of
        Some row \<Rightarrow> bindE (replay_of_row gw receipt_from_ledger_unchecked request row) (\<lambda>p. Inr (Some p, db))
      | None \<Rightarrow>
          (case re_authentication r of
             None \<Rightarrow> Inl (ValueError ''cannot reserve an unauthenticated execution receipt'')
           | Some a \<Rightarrow>
               bindE (catchE is_integrity_error
                   (VerificationSigningGatewayReplay ''verification signing request, nonce, or canonical payload was replayed'')
                   (insert_request (pending_row request r a now) db)) (\<lambda>db'. Inr (None, db'))))"

definition is_pending :: "string \<Rightarrow> signing_row \<Rightarrow> bool" where
  "is_pending i row \<longleftrightarrow> sr_request_id row = i \<and> sr_state row = RQ_PENDING"

definition update_pending :: "string \<Rightarrow> (signing_row \<Rightarrow> signing_row) \<Rightarrow> signing_db \<Rightarrow> signing_db" where
  "update_pending i f db = db\<lparr>vg_requests := map (\<lambda>row. if is_pending i row then f row else row) (vg_requests db)\<rparr>"

definition record_issued_tx ::
  "gateway_ambient \<Rightarrow> nat \<Rightarrow> VerificationSigningRequestV1 \<Rightarrow> AttestationV1 \<Rightarrow> signing_db \<Rightarrow> (unit \<times> signing_db) result" where
  "record_issued_tx am i request a db =
     (let rid = si_value (vsr_request_id request) in
     bindE (gateway_now am i) (\<lambda>now.
     bindE (require (length (filter (is_pending rid) (vg_requests db)) = 1)
       (unavailable ''verification signing ledger changed before issuance completed'')) (\<lambda>_.
     Inr ((), update_pending rid (\<lambda>row. row\<lparr>sr_state := RQ_ISSUED,
       sr_attestation_json := Some (canonical_json (dump_AttestationV1 a)), sr_completed_at := Some (utc_micros_text now)\<rparr>) db))))"

definition mark_failed_tx ::
  "gateway_ambient \<Rightarrow> nat \<Rightarrow> VerificationSigningRequestV1 \<Rightarrow> string \<Rightarrow> signing_db \<Rightarrow> (unit \<times> signing_db) result" where
  "mark_failed_tx am i request reason db =
     bindE (gateway_now am i) (\<lambda>now.
     Inr ((), update_pending (si_value (vsr_request_id request)) (\<lambda>row. row\<lparr>sr_state := RQ_FAILED,
       sr_failure_code := Some reason, sr_completed_at := Some (utc_micros_text now)\<rparr>) db))"

text \<open>An error path: the request is marked as failed and the error raised, unless marking itself raises.\<close>

definition fail_request ::
  "gateway_ambient \<Rightarrow> VerificationSigningRequestV1 \<Rightarrow> string \<Rightarrow> exn \<Rightarrow> signing_state \<Rightarrow> 'a result \<times> signing_state" where
  "fail_request am request reason e s =
     (case signing_transaction (mark_failed_tx am 5 request reason) s of
        (Inl e', s') \<Rightarrow> (Inl e', s')
      | (Inr _, s') \<Rightarrow> (Inl e, s'))"

section \<open>Issuing\<close>

definition return_replay ::
  "signing_gateway \<Rightarrow> gateway_ambient \<Rightarrow> nat \<Rightarrow> VerificationSigningRequestV1 \<Rightarrow> VerificationEvidenceArtifactV2
     \<Rightarrow> IssuedRequestReplay \<Rightarrow> signing_state \<Rightarrow> AttestationV1 result \<times> signing_state" where
  "return_replay gw am i request artifact p s =
     (bindE (validate_issued_replay gw am i request artifact p) (\<lambda>_. Inr (ip_attestation p)), s)"

text \<open>
  The guarded part: bindings again, signature, verification of the signature, and bindings once
  more, with other clients in between. It reads the two states and writes nothing.
\<close>

definition sign_guarded ::
  "signing_gateway \<Rightarrow> gateway_ambient \<Rightarrow> VerificationSigningRequestV1 \<Rightarrow> json_object \<Rightarrow> int \<Rightarrow> signing_state \<Rightarrow> signing_state
     \<Rightarrow> AttestationV1 result" where
  "sign_guarded gw am request payload ttl before after =
     bindE (assert_authoritative_binding gw am 2 request before) (\<lambda>_.
     bindE (gw_sign gw AP_VERIFICATION payload (si_value (vsc_evidence_identity (vsr_context request))) ttl) (\<lambda>a.
     bindE (gw_verify gw (gm_verify_clock am 6) a AP_VERIFICATION payload) (\<lambda>_.
     bindE (validate_issued_attestation gw request a) (\<lambda>_.
     bindE (assert_authoritative_binding gw am 3 request after) (\<lambda>_. Inr a)))))"

definition signing_failure :: "exn \<Rightarrow> string \<times> exn" where
  "signing_failure e =
     (if is_attestation_error e \<or> is_gateway_error e \<or> is_stale_fence e \<or> is_value_error e
      then (''authority_unavailable_or_binding_changed'', unavailable ''verifier signing authority did not issue a usable attestation'')
      else (''signer_unavailable'', unavailable ''verifier signing authority is unavailable''))"

text \<open>What \<open>issue\<close> does once the request is reserved.\<close>

definition sign_reserved ::
  "signing_gateway \<Rightarrow> gateway_ambient \<Rightarrow> VerificationSigningRequestV1 \<Rightarrow> signing_state \<Rightarrow> AttestationV1 result \<times> signing_state" where
  "sign_reserved gw am request s =
     (case bindE (verification_gateway_attestation_payload (vsr_lease request) (vsr_context request)) (\<lambda>payload.
           bindE (gateway_now am 4) (\<lambda>signing_now. Inr (payload, signing_now))) of
        Inl e \<Rightarrow> (Inl e, s)
      | Inr (payload, signing_now) \<Rightarrow>
          (case validate_request_time gw request signing_now of
             Inl e \<Rightarrow> fail_request am request ''request_expired_before_signing'' e s
           | Inr _ \<Rightarrow>
              (let ttl = dt_us (vsr_expires_at request) - dt_us signing_now - 1000000 in
               if ttl \<le> 0 then fail_request am request ''insufficient_signing_ttl''
                   (rejected ''verification signing request has insufficient remaining authority'') s
               else
                 (let s1 = gm_between am 2 s; s2 = gm_between am 3 s1; s3 = gm_between am 4 s2 in
                  case sign_guarded gw am request payload ttl s1 s2 of
                    Inl e \<Rightarrow> fail_request am request (fst (signing_failure e)) (snd (signing_failure e)) s3
                  | Inr a \<Rightarrow>
                      (case signing_transaction (record_issued_tx am 5 request a) s3 of
                         (Inl e, s') \<Rightarrow> (Inl e, s')
                       | (Inr _, s') \<Rightarrow> (Inr a, s'))))))"

definition issue_signature ::
  "signing_gateway \<Rightarrow> gateway_ambient \<Rightarrow> VerificationSigningRequestV1 \<Rightarrow> signing_state \<Rightarrow> AttestationV1 result \<times> signing_state" where
  "issue_signature gw am request s =
     (case bindE (require (tp_execution_class (gw_trust_policy gw) \<noteq> PRODUCTION)
             (unavailable ''local verifier signing gateway cannot issue production authority'')) (\<lambda>_.
           bindE (gateway_now am 0) (\<lambda>now.
           bindE (validate_request_time gw request now) (\<lambda>_.
           bindE (assert_authoritative_binding gw am 0 request s) (\<lambda>artifact.
           bindE (load_issued_replay gw request (sg_db s)) (\<lambda>replay. Inr (now, artifact, replay)))))) of
        Inl e \<Rightarrow> (Inl e, s)
      | Inr (now, artifact, Some p) \<Rightarrow> return_replay gw am 1 request artifact p s
      | Inr (now, artifact, None) \<Rightarrow>
          (let s1 = gm_between am 0 s; s2 = gm_between am 1 s1 in
           case bindE (independently_verify_execution gw am 1 request artifact) (\<lambda>receipt.
                bindE (assert_authoritative_binding gw am 1 request s1) (\<lambda>artifact'.
                bindE (validate_execution_receipt gw am 2 request artifact' receipt) (\<lambda>_. Inr (receipt, artifact')))) of
             Inl e \<Rightarrow> (Inl e, s2)
           | Inr (receipt, artifact') \<Rightarrow>
               (case signing_transaction (reserve_request_tx gw request receipt now) s2 of
                  (Inl e, s') \<Rightarrow> (Inl e, s')
                | (Inr (Some p), s') \<Rightarrow> return_replay gw am 3 request artifact' p s'
                | (Inr None, s') \<Rightarrow> sign_reserved gw am request s')))"

end
