(* ===== verification/GatewayProps.thy ===== *)
theory GatewayProps
  imports SigningGateway EventLog
begin

text \<open>
  The signing gateway under the steps of its clients: the rows of its ledger are identified once
  and finished once, and the outcomes of \<open>issue\<close> with the authority behind each of them.
\<close>

section \<open>The ledger under the steps of its clients\<close>

text \<open>
  Steps of any client: whatever leaves the ledger alone, and the three transactions on it, each
  with any arguments.
\<close>

inductive signing_step :: "signing_gateway \<Rightarrow> signing_state \<Rightarrow> signing_state \<Rightarrow> bool" for gw :: signing_gateway where
  other_step: "vg_requests (sg_db s') = vg_requests (sg_db s) \<Longrightarrow> signing_step gw s s'"
| reserve_step: "signing_step gw s (snd (signing_transaction (reserve_request_tx gw request r now) s))"
| record_step: "signing_step gw s (snd (signing_transaction (record_issued_tx am i request a) s))"
| fail_step: "signing_step gw s (snd (signing_transaction (mark_failed_tx am i request reason) s))"

definition row_complete :: "signing_row \<Rightarrow> bool" where
  "row_complete row \<longleftrightarrow> None \<notin> set (row_receipt_fields row) \<and> (sr_attestation_json row \<noteq> None \<longleftrightarrow> sr_state row = RQ_ISSUED) \<and>
     (sr_failure_code row \<noteq> None \<longleftrightarrow> sr_state row = RQ_FAILED) \<and> (sr_completed_at row = None \<longleftrightarrow> sr_state row = RQ_PENDING)"

definition ledger_inv :: "signing_state \<Rightarrow> bool" where
  "ledger_inv s \<longleftrightarrow> (let rows = vg_requests (sg_db s) in
     distinct (map sr_request_id rows) \<and> distinct (map sr_request_nonce rows) \<and> distinct (map sr_idempotency_key rows) \<and>
     distinct (map sr_canonical_payload_hash rows) \<and> list_all row_complete rows)"

lemma gateway_now_Inr [result_simps]: "gateway_now am i = Inr t \<longleftrightarrow> aware (gm_clock am i) \<and> t = as_utc (gm_clock am i)"
  by (auto simp: gateway_now_def)

lemma signing_transaction_Inr:
  "signing_transaction body s = (Inr x, s') \<longleftrightarrow> (\<exists>db. body (sg_db s) = Inr (x, db) \<and> s' = s\<lparr>sg_db := db\<rparr>)"
  by (auto simp: signing_transaction_def split: sum.splits)

lemma signing_transaction_Inl: "signing_transaction body s = (Inl e, s') \<Longrightarrow> s' = s"
  by (auto simp: signing_transaction_def split: sum.splits)

lemma insert_request_Inr:
  "insert_request row db = Inr db' \<longleftrightarrow> 0 < sr_fencing_token row \<and> sr_fencing_token row < 2 ^ 63 \<and>
     sr_request_id row \<notin> set (map sr_request_id (vg_requests db)) \<and>
     sr_request_nonce row \<notin> set (map sr_request_nonce (vg_requests db)) \<and>
     sr_idempotency_key row \<notin> set (map sr_idempotency_key (vg_requests db)) \<and>
     sr_canonical_payload_hash row \<notin> set (map sr_canonical_payload_hash (vg_requests db)) \<and>
     db' = db\<lparr>vg_requests := vg_requests db @ [row]\<rparr>"
  by (auto simp: insert_request_def Let_def result_simps)

lemma reserve_request_tx_cases:
  assumes "reserve_request_tx gw request r now db = Inr (p, db')"
  obtains (found) row q where "row_of_key db (vsr_idempotency_key request) = Some row"
      "replay_of_row gw receipt_from_ledger_unchecked request row = Inr q" "p = Some q" "db' = db"
    | (fresh) a where "row_of_key db (vsr_idempotency_key request) = None" "re_authentication r = Some a" "p = None"
      "insert_request (pending_row request r a now) db = Inr db'"
  using assms by (auto simp: reserve_request_tx_def result_simps split: option.splits)

text \<open>What a step does to the rows: nothing, a new pending row, or an end of the pending row of one request.\<close>

definition ends_row :: "signing_row \<Rightarrow> signing_row \<Rightarrow> bool" where
  "ends_row row row' \<longleftrightarrow> sr_state row' \<noteq> RQ_PENDING \<and> (row_complete row \<longrightarrow> row_complete row') \<and>
     row'\<lparr>sr_state := sr_state row, sr_attestation_json := sr_attestation_json row, sr_failure_code := sr_failure_code row,
       sr_completed_at := sr_completed_at row\<rparr> = row"

lemma signing_step_cases:
  assumes "signing_step gw s s'"
  obtains (same) "vg_requests (sg_db s') = vg_requests (sg_db s)"
    | (added) row where "insert_request row (sg_db s) = Inr (sg_db s')" "row_complete row" "sr_state row = RQ_PENDING"
    | (ended) i f where "sg_db s' = update_pending i f (sg_db s)" "\<And>row. sr_state row = RQ_PENDING \<Longrightarrow> ends_row row (f row)"
  using assms
proof (cases rule: signing_step.cases)
  case (reserve_step request r now)
  show ?thesis
  proof (cases "reserve_request_tx gw request r now (sg_db s)")
    case (Inr pdb)
    obtain p db where pdb: "pdb = (p, db)" by (cases pdb)
    from Inr [unfolded pdb] show ?thesis
    proof (cases rule: reserve_request_tx_cases)
      case (fresh a)
      then show ?thesis
        using added [of "pending_row request r a now"] reserve_step Inr pdb
        by (simp add: signing_transaction_def row_complete_def pending_row_def row_receipt_fields_def)
    qed (use same reserve_step Inr pdb in \<open>simp add: signing_transaction_def\<close>)
  qed (use same reserve_step in \<open>simp add: signing_transaction_def\<close>)
next
  case (record_step am i request a)
  then show ?thesis
    using same ended [of "si_value (vsr_request_id request)" "\<lambda>row. row\<lparr>sr_state := RQ_ISSUED,
       sr_attestation_json := Some (canonical_json (dump_AttestationV1 a)), sr_completed_at := Some (utc_micros_text (as_utc (gm_clock am i)))\<rparr>"]
    by (auto simp: signing_transaction_def record_issued_tx_def Let_def ends_row_def row_complete_def row_receipt_fields_def
        gateway_now_def require_def split: sum.splits if_splits)
next
  case (fail_step am i request reason)
  then show ?thesis
    using same ended [of "si_value (vsr_request_id request)" "\<lambda>row. row\<lparr>sr_state := RQ_FAILED,
       sr_failure_code := Some reason, sr_completed_at := Some (utc_micros_text (as_utc (gm_clock am i)))\<rparr>"]
    by (auto simp: signing_transaction_def mark_failed_tx_def ends_row_def row_complete_def row_receipt_fields_def
        gateway_now_def split: sum.splits if_splits)
qed (use same in simp)

text \<open>The columns that identify a request; no update touches them.\<close>

definition row_identity :: "signing_row \<Rightarrow> signing_row" where
  "row_identity row = row\<lparr>sr_state := RQ_PENDING, sr_attestation_json := None, sr_failure_code := None, sr_completed_at := None\<rparr>"

lemma row_identity_columns [simp]:
  "sr_request_id (row_identity row) = sr_request_id row" "sr_request_nonce (row_identity row) = sr_request_nonce row"
  "sr_idempotency_key (row_identity row) = sr_idempotency_key row" "sr_request_hash (row_identity row) = sr_request_hash row"
  "sr_canonical_payload_hash (row_identity row) = sr_canonical_payload_hash row"
  by (simp_all add: row_identity_def)

lemma ends_row_identity: "ends_row row row' \<Longrightarrow> row_identity row' = row_identity row"
  by (cases row; cases row') (auto simp: ends_row_def row_identity_def)

lemma update_pending_rows:
  assumes "\<And>row. sr_state row = RQ_PENDING \<Longrightarrow> ends_row row (f row)"
  shows "map row_identity (vg_requests (update_pending i f db)) = map row_identity (vg_requests db)"
  using ends_row_identity [OF assms] by (simp add: update_pending_def is_pending_def)

lemma identity_column:
  assumes "map row_identity rows = map row_identity rows'" "\<And>row. col (row_identity row) = col row"
  shows "map col rows = map col rows'"
proof -
  have "map col (map row_identity rows) = map col (map row_identity rows')" by (simp only: assms(1))
  then show ?thesis by (simp only: map_map comp_def assms(2))
qed

lemma ledger_inv_step:
  assumes "signing_step gw s s'" "ledger_inv s"
  shows "ledger_inv s'"
  using assms(1)
proof (cases rule: signing_step_cases)
  case same
  then show ?thesis using assms(2) by (simp add: ledger_inv_def)
next
  case (added row)
  then show ?thesis using assms(2) by (auto simp: ledger_inv_def Let_def insert_request_Inr)
next
  case (ended i f)
  note same = identity_column [OF update_pending_rows [of f i "sg_db s", OF ended(2), folded ended(1)]]
  have cols: "map sr_request_id (vg_requests (sg_db s')) = map sr_request_id (vg_requests (sg_db s))"
    "map sr_request_nonce (vg_requests (sg_db s')) = map sr_request_nonce (vg_requests (sg_db s))"
    "map sr_idempotency_key (vg_requests (sg_db s')) = map sr_idempotency_key (vg_requests (sg_db s))"
    "map sr_canonical_payload_hash (vg_requests (sg_db s')) = map sr_canonical_payload_hash (vg_requests (sg_db s))"
    by (simp_all add: same)
  have "list_all row_complete (vg_requests (sg_db s'))"
    using assms(2) ended(2) by (auto simp: ledger_inv_def Let_def ended(1) update_pending_def is_pending_def list_all_iff ends_row_def)
  then show ?thesis using assms(2) by (simp add: ledger_inv_def Let_def cols)
qed

lemma ledger_inv_steps: "(signing_step gw)\<^sup>*\<^sup>* s s' \<Longrightarrow> ledger_inv s \<Longrightarrow> ledger_inv s'"
  by (induction rule: rtranclp_induct) (auto intro: ledger_inv_step)

section \<open>Rows that never change\<close>

lemma find_append_Some: "find p xs = Some x \<Longrightarrow> find p (xs @ ys) = Some x"
  by (induction xs) (auto split: if_splits)

lemma row_of_key_append: "row_of_key db k = Some row \<Longrightarrow> vg_requests db' = vg_requests db @ rows \<Longrightarrow> row_of_key db' k = Some row"
  by (simp add: row_of_key_def find_append_Some)

lemma find_map_key:
  assumes "\<And>row. key (g row) = key row"
  shows "find (\<lambda>row. key row = k) (map g rows) = map_option g (find (\<lambda>row. key row = k) rows)"
  by (induction rows) (auto simp: assms)

lemma row_of_key_update:
  assumes "\<And>row. sr_state row = RQ_PENDING \<Longrightarrow> ends_row row (f row)"
  shows "row_of_key (update_pending i f db) k = map_option (\<lambda>row. if is_pending i row then f row else row) (row_of_key db k)"
proof -
  have "sr_idempotency_key (if is_pending i row then f row else row) = sr_idempotency_key row" for row
    using ends_row_identity [OF assms, of row] row_identity_columns(3) by (metis is_pending_def)
  then show ?thesis by (simp add: row_of_key_def update_pending_def find_map_key)
qed

definition finished_row :: "signing_state \<Rightarrow> string \<Rightarrow> signing_row option" where
  "finished_row s k = (case row_of_key (sg_db s) k of
     Some row \<Rightarrow> if sr_state row = RQ_PENDING then None else Some row | None \<Rightarrow> None)"

definition reserved_row_of :: "signing_state \<Rightarrow> string \<Rightarrow> signing_row option" where
  "reserved_row_of s k = map_option row_identity (row_of_key (sg_db s) k)"

lemma row_of_key_step:
  assumes "signing_step gw s s'" "row_of_key (sg_db s) k = Some row"
  obtains row' where "row_of_key (sg_db s') k = Some row'" "row_identity row' = row_identity row"
    "sr_state row \<noteq> RQ_PENDING \<Longrightarrow> row' = row"
  using assms(1)
proof (cases rule: signing_step_cases)
  case same
  then show ?thesis using that assms(2) by (simp add: row_of_key_def)
next
  case (added new)
  then have "row_of_key (sg_db s') k = Some row"
    using row_of_key_append [OF assms(2), of "sg_db s'" "[new]"] by (simp add: insert_request_Inr)
  then show ?thesis using that by simp
next
  case (ended i f)
  have "row_of_key (sg_db s') k = Some (if is_pending i row then f row else row)"
    unfolding ended(1) using row_of_key_update [OF ended(2)] assms(2) by simp
  then show ?thesis using that ends_row_identity [OF ended(2)] by (auto simp: is_pending_def split: if_splits)
qed

interpretation finished_rows: write_once_table "signing_step gw" finished_row
  by unfold_locales (auto simp: finished_row_def split: option.splits if_splits elim!: row_of_key_step)

interpretation reserved_rows: write_once_table "signing_step gw" reserved_row_of
  by unfold_locales (auto simp: reserved_row_of_def elim!: row_of_key_step)

section \<open>What an issued attestation means\<close>

text \<open>A reader of the ledger that found a row for the request, with what it returned.\<close>

definition replayed_from ::
  "signing_gateway \<Rightarrow> VerificationSigningRequestV1 \<Rightarrow> signing_state \<Rightarrow> IssuedRequestReplay \<Rightarrow> bool" where
  "replayed_from gw request s p \<longleftrightarrow> (\<exists>row. finished_row s (vsr_idempotency_key request) = Some row \<and> sr_state row = RQ_ISSUED \<and>
     sr_request_hash row = dg_value (signing_request_hash request) \<and>
     (\<exists>t. sr_attestation_json row = Some t \<and> gw_parse_attestation gw t = Some (ip_attestation p)) \<and>
     ledger_receipt request row = Inr (ip_receipt p))"

lemma replay_of_row_Inr:
  assumes "replay_of_row gw receipt_of request row = Inr p" "row_of_key (sg_db s) (vsr_idempotency_key request) = Some row"
    and "\<And>r. receipt_of request row = Inr r \<Longrightarrow> ledger_receipt request row = Inr r"
  shows "replayed_from gw request s p"
  using assms unfolding replay_of_row_def replayed_from_def finished_row_def
  by (auto simp: result_simps split: request_state.splits option.splits)

lemma load_issued_replay_Some:
  assumes "load_issued_replay gw request (sg_db s) = Inr (Some p)"
  shows "replayed_from gw request s p"
proof -
  obtain row where "row_of_key (sg_db s) (vsr_idempotency_key request) = Some row"
    "replay_of_row gw receipt_from_ledger request row = Inr p"
    using assms by (auto simp: load_issued_replay_def result_simps split: option.splits)
  then show ?thesis
    by (intro replay_of_row_Inr [where receipt_of = receipt_from_ledger]) (auto simp: receipt_from_ledger_def result_simps)
qed

lemma issue_signature_Inr:
  assumes "issue_signature gw am request s = (Inr a, s')"
  obtains (stored) artifact p where "tp_execution_class (gw_trust_policy gw) \<noteq> PRODUCTION"
      "assert_authoritative_binding gw am 0 request s = Inr artifact" "replayed_from gw request s p"
      "validate_issued_replay gw am 1 request artifact p = Inr ()" "a = ip_attestation p" "s' = s"
    | (raced) artifact p where "tp_execution_class (gw_trust_policy gw) \<noteq> PRODUCTION"
      "assert_authoritative_binding gw am 1 request (gm_between am 0 s) = Inr artifact" "replayed_from gw request s' p"
      "load_issued_replay gw request (sg_db s) = Inr None" "validate_issued_replay gw am 3 request artifact p = Inr ()" "a = ip_attestation p" "s' = gm_between am 1 (gm_between am 0 s)"
    | (signed) artifact receipt now t where "tp_execution_class (gw_trust_policy gw) \<noteq> PRODUCTION"
      "assert_authoritative_binding gw am 1 request (gm_between am 0 s) = Inr artifact"
      "validate_execution_receipt gw am 2 request artifact receipt = Inr ()" "load_issued_replay gw request (sg_db s) = Inr None"
      "signing_transaction (reserve_request_tx gw request receipt now) (gm_between am 1 (gm_between am 0 s)) = (Inr None, t)"
      "sign_reserved gw am request t = (Inr a, s')"
proof -
  obtain now artifact replay where *: "tp_execution_class (gw_trust_policy gw) \<noteq> PRODUCTION"
    "assert_authoritative_binding gw am 0 request s = Inr artifact" "load_issued_replay gw request (sg_db s) = Inr replay"
    and rest: "(case (now, artifact, replay) of
        (now, artifact, Some p) \<Rightarrow> return_replay gw am 1 request artifact p s
      | (now, artifact, None) \<Rightarrow>
          (let s1 = gm_between am 0 s; s2 = gm_between am 1 s1 in
           case bindE (independently_verify_execution gw am 1 request artifact) (\<lambda>receipt.
                bindE (assert_authoritative_binding gw am 1 request s1) (\<lambda>artifact'.
                bindE (validate_execution_receipt gw am 2 request artifact' receipt) (\<lambda>_. Inr (receipt, artifact')))) of
             Inl e \<Rightarrow> (Inl e, s2)
           | Inr (receipt, artifact') \<Rightarrow>
               (case signing_transaction (reserve_request_tx gw request receipt now) s2 of
                  (Inl e, s') \<Rightarrow> (Inl e, s')
                | (Inr (Some p), s') \<Rightarrow> return_replay gw am 3 request artifact' p s'
                | (Inr None, s') \<Rightarrow> sign_reserved gw am request s'))) = (Inr a, s')"
    using assms unfolding issue_signature_def by (auto simp: result_simps split: sum.splits)
  show ?thesis
  proof (cases replay)
    case (Some p)
    then show ?thesis
      using stored [OF *(1,2) load_issued_replay_Some] *(3) rest by (auto simp: return_replay_def result_simps)
  next
    case None
    with rest obtain receipt artifact' where b: "assert_authoritative_binding gw am 1 request (gm_between am 0 s) = Inr artifact'"
      "validate_execution_receipt gw am 2 request artifact' receipt = Inr ()"
      and c: "(case signing_transaction (reserve_request_tx gw request receipt now) (gm_between am 1 (gm_between am 0 s)) of
                  (Inl e, s') \<Rightarrow> (Inl e, s')
                | (Inr (Some p), s') \<Rightarrow> return_replay gw am 3 request artifact' p s'
                | (Inr None, s') \<Rightarrow> sign_reserved gw am request s') = (Inr a, s')"
      by (auto simp: Let_def result_simps split: sum.splits)
    from c obtain p t where t: "signing_transaction (reserve_request_tx gw request receipt now) (gm_between am 1 (gm_between am 0 s)) = (Inr p, t)"
      by (auto split: prod.splits sum.splits)
    show ?thesis
    proof (cases p)
      case None
      then show ?thesis using signed [OF *(1) b] *(3) t c \<open>replay = None\<close> by simp
    next
      case (Some q)
      let ?s = "gm_between am 1 (gm_between am 0 s)"
      obtain db where db: "reserve_request_tx gw request receipt now (sg_db ?s) = Inr (Some q, db)" "t = ?s\<lparr>sg_db := db\<rparr>"
        using t Some by (auto simp: signing_transaction_Inr)
      then obtain row where row: "row_of_key (sg_db ?s) (vsr_idempotency_key request) = Some row"
        "replay_of_row gw receipt_from_ledger_unchecked request row = Inr q" "t = ?s"
        by (auto elim!: reserve_request_tx_cases)
      have "replayed_from gw request ?s q"
        by (rule replay_of_row_Inr [OF row(2,1)]) (auto simp: receipt_from_ledger_unchecked_def result_simps)
      moreover have "return_replay gw am 3 request artifact' q ?s = (Inr a, s')" using c t Some row(3) by simp
      then have v: "validate_issued_replay gw am 3 request artifact' q = Inr ()" "a = ip_attestation q" "s' = ?s"
        by (auto simp: return_replay_def result_simps)
      ultimately show ?thesis using *(3) \<open>replay = None\<close> by (intro raced [OF *(1) b(1) _ _ v]) (simp_all add: v(3))
    qed
  qed
qed

lemma fail_request_Inl [simp]: "fail_request am request reason e s \<noteq> (Inr a, s')"
  by (auto simp: fail_request_def split: prod.splits sum.splits)

lemma sign_reserved_Inr:
  assumes "sign_reserved gw am request t = (Inr a, s')"
  obtains payload ttl where "verification_gateway_attestation_payload (vsr_lease request) (vsr_context request) = Inr payload"
    "validate_request_time gw request (as_utc (gm_clock am 4)) = Inr ()"
    "sign_guarded gw am request payload ttl (gm_between am 2 t) (gm_between am 3 (gm_between am 2 t)) = Inr a"
    "signing_transaction (record_issued_tx am 5 request a) (gm_between am 4 (gm_between am 3 (gm_between am 2 t))) = (Inr (), s')"
proof -
  obtain payload where p: "verification_gateway_attestation_payload (vsr_lease request) (vsr_context request) = Inr payload" "aware (gm_clock am 4)"
    using assms by (auto simp: sign_reserved_def result_simps split: sum.splits)
  have v: "validate_request_time gw request (as_utc (gm_clock am 4)) = Inr ()"
    using assms p
    by (cases "validate_request_time gw request (as_utc (gm_clock am 4))") (auto simp: sign_reserved_def gateway_now_def)
  show ?thesis
    using assms p v that
    by (auto simp: sign_reserved_def gateway_now_def Let_def split: if_splits sum.splits prod.splits)
qed

text \<open>
  The authority behind a signature, read off the tables: a live lease row with the holder and
  the fencing token of the request, the registered task with the context's values, a submitted
  proof with the same values, and stored evidence whose bytes have the digest of the context
  and say the same, produced by an approved image under the same lease.
\<close>

definition lease_authority :: "datetime \<Rightarrow> VerificationSigningRequestV1 \<Rightarrow> signing_db \<Rightarrow> bool" where
  "lease_authority clock request db \<longleftrightarrow> (\<exists>row. worker_leases db (si_value (vsc_bundle_id (vsr_context request))) = Some row \<and>
     lr_holder_id row = vsl_worker_id (vsr_lease request) \<and> lr_fencing_token row = vsl_fencing_token (vsr_lease request) \<and>
     lr_expires_at row = dt_us (vsl_expires_at (vsr_lease request)) \<and> dt_us clock < lr_expires_at row \<and>
     dt_us (vsr_expires_at request) \<le> lr_expires_at row)"

definition task_authority :: "TaskBinding \<Rightarrow> VerificationSigningContextV1 \<Rightarrow> bool" where
  "task_authority b c \<longleftrightarrow> tk_bundle_hash b = dg_value (vsc_bundle_hash c) \<and> tk_contract_id b = si_value (vsc_contract_id c) \<and>
     tk_revision b = vsc_revision c \<and> tk_contract_hash b = dg_value (vsc_contract_hash c) \<and>
     tk_proof_boundary_hash b = dg_value (vsc_proof_boundary_hash c) \<and> tk_environment_hash b = dg_value (vsc_environment_hash c)"

definition proof_authority :: "signing_db \<Rightarrow> VerificationSigningContextV1 \<Rightarrow> bool" where
  "proof_authority db c \<longleftrightarrow> (\<exists>evs e. read_stream (event_db.truncate db) ''proof'' (si_value (vsc_proof_id c)) 0 = Inr evs \<and>
     e \<in> set evs \<and> se_event_type e = ''proof.submitted'' \<and>
     get_value (se_payload e) ''bundle_id'' = JStr (si_value (vsc_bundle_id c)) \<and>
     get_value (se_payload e) ''contract_hash'' = JStr (dg_value (vsc_contract_hash c)) \<and>
     get_value (se_payload e) ''proof_boundary_hash'' = JStr (dg_value (vsc_proof_boundary_hash c)) \<and>
     proof_artifact_digest (se_payload e) = JStr (vsc_proof_submission_artifact_digest c))"

definition evidence_authority ::
  "signing_gateway \<Rightarrow> TaskBinding \<Rightarrow> VerificationSigningRequestV1 \<Rightarrow> store_fs \<Rightarrow> VerificationEvidenceArtifactV2 \<Rightarrow> bool" where
  "evidence_authority gw b request fs a \<longleftrightarrow> (let c = vsr_context request; e = oa2_execution_authority (va2_oci a) in
     fs (blob_path (vsc_evidence_artifact_digest c)) = Some (FileNode (utf8 (canonical_json (dump_VerificationEvidenceArtifactV2 a)))) \<and>
     sha256_hexdigest (utf8 (canonical_json (dump_VerificationEvidenceArtifactV2 a))) = vsc_evidence_artifact_digest c \<and>
     va2_evidence_id a = vsc_evidence_identity c \<and> va2_bundle_hash a = vsc_bundle_hash c \<and> va2_contract_hash a = vsc_contract_hash c \<and>
     va2_proof_id a = vsc_proof_id c \<and> va2_proof_boundary_hash a = vsc_proof_boundary_hash c \<and>
     va2_proof_submission_artifact_digest a = vsc_proof_submission_artifact_digest c \<and> va2_verification_report_id a = vsc_report_id c \<and>
     oe_worker_id e = vsl_worker_id (vsr_lease request) \<and> oe_fencing_token e = vsl_fencing_token (vsr_lease request) \<and>
     map_of (gw_approved_image_identities gw) (tk_worker_image_digest b) = Some (oe_wrapper_identity_hash e))"

definition holds_authority ::
  "signing_gateway \<Rightarrow> datetime \<Rightarrow> VerificationSigningRequestV1 \<Rightarrow> signing_state \<Rightarrow> VerificationEvidenceArtifactV2 \<Rightarrow> bool" where
  "holds_authority gw clock request s a \<longleftrightarrow> lease_authority clock request (sg_db s) \<and>
     (\<exists>b. require_binding (event_db.truncate (sg_db s)) (si_value (vsc_bundle_id (vsr_context request))) = Inr b \<and>
        task_authority b (vsr_context request) \<and> evidence_authority gw b request (sg_files s) a) \<and>
     proof_authority (sg_db s) (vsr_context request)"

lemma assert_current_signing_lease_Inr:
  assumes "assert_current_signing_lease am i request db = Inr u"
  shows "lease_authority (gm_lease_clock am i) request db"
  using assms
  by (auto simp: assert_current_signing_lease_def Let_def current_def row_to_lease_def Lease_init_def lease_utc_now_def
      lease_authority_def result_simps split: option.splits if_splits)

lemma gateway_proof_event_Inr:
  assumes "gateway_proof_event db i = Inr e"
  shows "\<exists>evs. read_stream (event_db.truncate db) ''proof'' i 0 = Inr evs \<and> e \<in> set evs \<and> se_event_type e = ''proof.submitted''"
proof -
  obtain evs where "read_stream (event_db.truncate db) ''proof'' i 0 = Inr evs" "find (\<lambda>e. se_event_type e = ''proof.submitted'') evs = Some e"
    using assms by (auto simp: gateway_proof_event_def bindE_eq_Inr split: option.splits)
  then show ?thesis by (auto simp: find_Some_iff)
qed

lemma read_evidence_artifact_Inr:
  assumes "read_evidence_artifact gw fs digest = Inr a"
  shows "fs (blob_path digest) = Some (FileNode (utf8 (canonical_json (dump_VerificationEvidenceArtifactV2 a)))) \<and>
    sha256_hexdigest (utf8 (canonical_json (dump_VerificationEvidenceArtifactV2 a))) = digest"
proof -
  obtain raw where raw: "get_bytes fs (Inr digest) = Inr raw" "utf8 (canonical_json (dump_VerificationEvidenceArtifactV2 a)) = raw"
    using assms by (auto simp: read_evidence_artifact_def result_simps)
  then show ?thesis using path_for_digest_Inr by (auto simp: get_bytes_Inr handle_digest_def)
qed

lemma assert_authoritative_binding_Inr:
  assumes "assert_authoritative_binding gw am i request s = Inr a"
  shows "holds_authority gw (gm_lease_clock am i) request s a"
proof -
  obtain b e where *: "assert_current_signing_lease am i request (sg_db s) = Inr ()"
    "require_binding (event_db.truncate (sg_db s)) (si_value (vsc_bundle_id (vsr_context request))) = Inr b"
    "validate_task_binding b (vsr_context request) = Inr ()"
    "gateway_proof_event (sg_db s) (si_value (vsc_proof_id (vsr_context request))) = Inr e"
    "validate_gateway_proof_binding (vsr_context request) (se_payload e) = Inr ()"
    "read_evidence_artifact gw (sg_files s) (vsc_evidence_artifact_digest (vsr_context request)) = Inr a"
    "validate_evidence_binding gw b (vsr_context request) (vsr_lease request) a = Inr ()"
    using assms by (auto simp: assert_authoritative_binding_def Let_def result_simps)
  have "task_authority b (vsr_context request)"
    using *(3) by (simp add: validate_task_binding_def task_authority_def result_simps)
  moreover have "proof_authority (sg_db s) (vsr_context request)"
    using gateway_proof_event_Inr [OF *(4)] *(5)
    by (auto simp: validate_gateway_proof_binding_def proof_authority_def result_simps)
  moreover have "evidence_authority gw b request (sg_files s) a"
    using *(7) read_evidence_artifact_Inr [OF *(6)]
    by (simp add: validate_evidence_binding_def evidence_authority_def Let_def result_simps)
  ultimately show ?thesis
    using assert_current_signing_lease_Inr [OF *(1)] *(2) by (auto simp: holds_authority_def)
qed

text \<open>A receipt of a trusted verifier for this request, this evidence and this execution.\<close>

definition trusted_receipt ::
  "signing_gateway \<Rightarrow> VerificationSigningRequestV1 \<Rightarrow> VerificationEvidenceArtifactV2 \<Rightarrow> IndependentExecutionReceiptV1 \<Rightarrow> bool" where
  "trusted_receipt gw request a r \<longleftrightarrow>
     (\<exists>envelope identity. re_authentication r = Some envelope \<and>
        map_of (tp_trusted_verifiers (gw_trust_policy gw)) (re_verifier_id r) = Some identity \<and>
        ra_key_id envelope = ti_authentication_key_id identity \<and> ra_authenticated_receipt_hash envelope = re_receipt_hash r \<and>
        au_verify (ti_authenticator identity) r = Inr ()) \<and>
     re_receipt_hash r = sha256_hexdigest (utf8 (canonical_json (receipt_payload (utc_micros_text (re_checked_at r)) r))) \<and>
     re_request_hash r = dg_value (signing_request_hash request) \<and>
     re_evidence_artifact_digest r = vsc_evidence_artifact_digest (vsr_context request) \<and>
     re_execution_claim_hash r = oe_execution_claim_hash (oa2_execution_authority (va2_oci a)) \<and>
     dt_us (vsr_requested_at request) \<le> dt_us (re_checked_at r) \<and> dt_us (re_checked_at r) \<le> dt_us (vsl_expires_at (vsr_lease request))"

lemma validate_receipt_Inr:
  assumes "validate_receipt r = Inr ()"
  shows "re_receipt_hash r = sha256_hexdigest (utf8 (canonical_json (receipt_payload (utc_micros_text (re_checked_at r)) r))) \<and>
    (\<forall>a. re_authentication r = Some a \<longrightarrow> ra_authenticated_receipt_hash a = re_receipt_hash r)"
  using assms by (auto simp: validate_receipt_def create_receipt_def receipt_timestamp_def result_simps)

lemma validate_execution_receipt_Inr:
  assumes "validate_execution_receipt gw am i request a r = Inr ()"
  shows "trusted_receipt gw request a r"
proof -
  have v: "validate_receipt r = Inr ()" and p: "policy_authenticate (gw_trust_policy gw) r = Inr ()"
    and c: "list_all (\<lambda>(ok, m). ok) (receipt_checks request a r (as_utc (gm_clock am i)))"
    using assms by (auto simp: validate_execution_receipt_def result_simps list_all_iff)
  from p obtain envelope identity where e: "re_authentication r = Some envelope"
    "map_of (tp_trusted_verifiers (gw_trust_policy gw)) (re_verifier_id r) = Some identity"
    "ra_key_id envelope = ti_authentication_key_id identity" "au_verify (ti_authenticator identity) r = Inr ()"
    by (auto simp: policy_authenticate_def result_simps split: option.splits)
  show ?thesis
    unfolding trusted_receipt_def using e validate_receipt_Inr [OF v] c by (auto simp: receipt_checks_def)
qed

definition attests :: "signing_gateway \<Rightarrow> datetime \<Rightarrow> VerificationSigningRequestV1 \<Rightarrow> AttestationV1 \<Rightarrow> bool" where
  "attests gw clock request a \<longleftrightarrow>
     (\<exists>payload. verification_gateway_attestation_payload (vsr_lease request) (vsr_context request) = Inr payload \<and>
        gw_verify gw clock a AP_VERIFICATION payload = Inr ()) \<and>
     at_purpose a = AP_VERIFICATION \<and> at_key_id a = tp_gateway_signing_key_id (gw_trust_policy gw) \<and>
     at_evidence_identity a = si_value (vsc_evidence_identity (vsr_context request)) \<and>
     dg_value (at_payload_hash a) = dg_value (vsr_canonical_payload_hash request) \<and>
     dt_us (at_expires_at a) \<le> dt_us (vsr_expires_at request)"

lemma validate_issued_replay_Inr:
  assumes "validate_issued_replay gw am i request artifact p = Inr ()"
  shows "attests gw (gm_verify_clock am i) request (ip_attestation p) \<and> trusted_receipt gw request artifact (ip_receipt p)"
proof
  show "trusted_receipt gw request artifact (ip_receipt p)"
    using assms by (intro validate_execution_receipt_Inr [of gw am i]) (auto simp: validate_issued_replay_def result_simps)
  show "attests gw (gm_verify_clock am i) request (ip_attestation p)"
    using assms by (auto simp: validate_issued_replay_def validate_issued_attestation_def attests_def result_simps)
qed

lemma sign_guarded_Inr:
  assumes "sign_guarded gw am request payload ttl t t' = Inr a"
    and "verification_gateway_attestation_payload (vsr_lease request) (vsr_context request) = Inr payload"
  shows "attests gw (gm_verify_clock am 6) request a \<and> (\<exists>artifact. holds_authority gw (gm_lease_clock am 2) request t artifact) \<and>
    (\<exists>artifact. holds_authority gw (gm_lease_clock am 3) request t' artifact)"
  using assms assert_authoritative_binding_Inr
  by (auto simp: sign_guarded_def validate_issued_attestation_def attests_def result_simps) blast+

end
