(* ===== verification/GatewayClaims.thy ===== *)
theory GatewayClaims
  imports GatewayProps ServiceSample
begin

text \<open>
  The promises of the signing gateway over all interleavings of its clients: an attestation
  is returned only for what the control plane holds, under one idempotency key there is one
  attestation, and a request that failed is never signed. A sample run signs one request.
\<close>

section \<open>What a successful call leaves behind\<close>

text \<open>Between the steps of one call other clients act through the same transactions.\<close>

definition fair_gateway :: "signing_gateway \<Rightarrow> gateway_ambient \<Rightarrow> bool" where
  "fair_gateway gw am \<longleftrightarrow> (\<forall>i t. (signing_step gw)\<^sup>*\<^sup>* t (gm_between am i t))"

lemma fair_steps: "fair_gateway gw am \<Longrightarrow> (signing_step gw)\<^sup>*\<^sup>* s t \<Longrightarrow> (signing_step gw)\<^sup>*\<^sup>* s (gm_between am i t)"
  unfolding fair_gateway_def by (blast intro: rtranclp_trans)

lemma reserved_row:
  assumes "signing_transaction (reserve_request_tx gw request r now) s = (Inr None, t)"
  shows "\<exists>row. row_of_key (sg_db t) (vsr_idempotency_key request) = Some row \<and> sr_request_id row = si_value (vsr_request_id request) \<and>
     sr_request_hash row = dg_value (signing_request_hash request)"
proof -
  obtain db where db: "reserve_request_tx gw request r now (sg_db s) = Inr (None, db)" "t = s\<lparr>sg_db := db\<rparr>"
    using assms by (auto simp: signing_transaction_Inr)
  then obtain env where none: "row_of_key (sg_db s) (vsr_idempotency_key request) = None"
    and ins: "insert_request (pending_row request r env now) (sg_db s) = Inr db"
    by (auto elim!: reserve_request_tx_cases)
  have key: "find p (xs @ [x]) = Some x" if "find p xs = None" "p x" for p xs and x :: signing_row
    using that by (induction xs) (auto split: if_splits)
  have "row_of_key db (vsr_idempotency_key request) = Some (pending_row request r env now)"
    using key none ins by (simp add: row_of_key_def insert_request_Inr pending_row_def)
  then show ?thesis by (simp add: db(2) pending_row_def)
qed

lemma recorded_row:
  assumes "signing_transaction (record_issued_tx am i request a) s = (Inr (), s')" "ledger_inv s"
    and "row_of_key (sg_db s) k = Some row" "sr_request_id row = si_value (vsr_request_id request)"
  shows "\<exists>row'. finished_row s' k = Some row' \<and> sr_state row' = RQ_ISSUED \<and> sr_request_hash row' = sr_request_hash row \<and>
    sr_attestation_json row' = Some (canonical_json (dump_AttestationV1 a))"
proof -
  let ?i = "si_value (vsr_request_id request)"
  define f where "f row = row\<lparr>sr_state := RQ_ISSUED, sr_attestation_json := Some (canonical_json (dump_AttestationV1 a)),
     sr_completed_at := Some (utc_micros_text (as_utc (gm_clock am i)))\<rparr>" for row :: signing_row
  have one: "length (filter (is_pending ?i) (vg_requests (sg_db s))) = 1" and db': "sg_db s' = update_pending ?i f (sg_db s)"
    using assms(1) by (auto simp: signing_transaction_Inr record_issued_tx_def Let_def result_simps f_def [abs_def])
  have "filter (is_pending ?i) (vg_requests (sg_db s)) \<noteq> []" using one by auto
  then obtain x where x: "x \<in> set (vg_requests (sg_db s))" "is_pending ?i x" by (auto simp: filter_empty_conv)
  have mem: "row \<in> set (vg_requests (sg_db s))" using assms(3) by (auto simp: row_of_key_def find_Some_iff)
  have "distinct (map sr_request_id (vg_requests (sg_db s)))" using assms(2) by (simp add: ledger_inv_def Let_def)
  then have "x = row" using x mem assms(4) by (metis distinct_map inj_on_eq_iff is_pending_def)
  then have p: "is_pending ?i row" using x(2) by simp
  have key: "sr_idempotency_key (if is_pending ?i row then f row else row) = sr_idempotency_key row" for row by (simp add: f_def)
  have "row_of_key (sg_db s') k = map_option (\<lambda>row. if is_pending ?i row then f row else row) (row_of_key (sg_db s) k)"
    unfolding db' row_of_key_def update_pending_def using find_map_key [of sr_idempotency_key, OF key] by simp
  then show ?thesis using assms(3) p by (simp add: finished_row_def f_def)
qed

text \<open>After a successful call the ledger holds the issued attestation under the request's key.\<close>

lemma issued_row:
  assumes "issue_signature gw am request s = (Inr a, s')" "fair_gateway gw am" "ledger_inv s"
    and "gw_parse_attestation gw (canonical_json (dump_AttestationV1 a)) = Some a"
  shows "\<exists>row t. finished_row s' (vsr_idempotency_key request) = Some row \<and> sr_state row = RQ_ISSUED \<and>
    sr_request_hash row = dg_value (signing_request_hash request) \<and> sr_attestation_json row = Some t \<and> gw_parse_attestation gw t = Some a"
  using assms(1)
proof (cases rule: issue_signature_Inr)
  case (signed artifact receipt now t)
  let ?k = "vsr_idempotency_key request" and ?u = "gm_between am 4 (gm_between am 3 (gm_between am 2 t))"
  have rec: "signing_transaction (record_issued_tx am 5 request a) ?u = (Inr (), s')" using sign_reserved_Inr [OF signed(6)] .
  obtain row where row: "row_of_key (sg_db t) ?k = Some row" "sr_request_id row = si_value (vsr_request_id request)"
    "sr_request_hash row = dg_value (signing_request_hash request)"
    using reserved_row [OF signed(5)] by blast
  have steps: "(signing_step gw)\<^sup>*\<^sup>* t ?u" using fair_steps [OF assms(2)] by blast
  have "(signing_step gw)\<^sup>*\<^sup>* s t"
    using fair_steps [OF assms(2)] reserve_step [of gw "gm_between am 1 (gm_between am 0 s)" request receipt now] signed(5)
    by (metis rtranclp.rtrancl_into_rtrancl rtranclp.rtrancl_refl snd_conv)
  then have inv: "ledger_inv ?u" using ledger_inv_steps steps assms(3) by blast
  have "reserved_row_of ?u ?k = Some (row_identity row)"
    using reserved_rows.table_steps [OF steps] row(1) by (simp add: reserved_row_of_def)
  then obtain row' where row': "row_of_key (sg_db ?u) ?k = Some row'" "row_identity row' = row_identity row"
    by (auto simp: reserved_row_of_def)
  then have "sr_request_id row' = si_value (vsr_request_id request)" "sr_request_hash row' = dg_value (signing_request_hash request)"
    using row row_identity_columns(1,4) by metis+
  then show ?thesis using recorded_row [OF rec inv row'(1)] assms(4) by auto
qed (auto simp: replayed_from_def)

section \<open>A sample gateway\<close>

definition demo_authenticator :: FixtureHmacIndependentExecutionReceiptAuthenticator where
  "demo_authenticator = \<lparr>fh_key_id = ''k2'', fh_secret = replicate 32 (CHR ''x'')\<rparr>"

definition demo_trust_policy :: IndependentExecutionTrustPolicyV1 where
  "demo_trust_policy = \<lparr>tp_gateway_signing_key_id = ''k1'', tp_execution_class = TEST_ONLY,
     tp_trusted_verifiers = [(''iv'', \<lparr>ti_verifier_id = ''iv'', ti_authentication_key_id = ''k2'', ti_execution_class = TEST_ONLY,
       ti_authenticator = fixture_authenticator demo_authenticator\<rparr>)]\<rparr>"

definition demo_request :: VerificationSigningRequestV1 where
  "demo_request =
     \<lparr>vsr_request_id = sample_id ''request'', vsr_request_nonce = ''aaaaaaaaaaaaaaaa'', vsr_idempotency_key = ''k'',
      vsr_requested_at = utc 0, vsr_expires_at = utc 2000000, vsr_lease = demo_signing_lease, vsr_context = demo_context,
      vsr_canonical_payload_hash = attestation_payload_hash AP_VERIFICATION demo_payload\<rparr>"

definition demo_plain_receipt :: IndependentExecutionReceiptV1 where
  "demo_plain_receipt = (let r =
     \<lparr>re_receipt_id = ''r'', re_verifier_id = ''iv'', re_checked_at = utc 1,
      re_request_hash = dg_value (signing_request_hash demo_request),
      re_evidence_artifact_digest = sha256_hexdigest demo_artifact_bytes,
      re_evidence_digest = dg_value (evidence_hash demo_evidence), re_execution_claim_hash = replicate 64 (CHR ''5''),
      re_receipt_hash = [], re_authentication = None\<rparr>
     in r\<lparr>re_receipt_hash := sha256_hexdigest (utf8 (canonical_json (receipt_payload (utc_micros_text (utc 1)) r)))\<rparr>)"

definition demo_envelope :: IndependentExecutionReceiptAuthenticationV1 where
  "demo_envelope = \<lparr>ra_key_id = ''k2'', ra_algorithm = fixture_algorithm, ra_authenticated_receipt_hash = re_receipt_hash demo_plain_receipt,
     ra_signature = fixture_signature demo_authenticator demo_plain_receipt\<rparr>"

definition demo_receipt :: IndependentExecutionReceiptV1 where
  "demo_receipt = demo_plain_receipt\<lparr>re_authentication := Some demo_envelope\<rparr>"

definition demo_gateway :: signing_gateway where
  "demo_gateway =
     \<lparr>gw_sign = (\<lambda>purpose payload identity ttl. Inr demo_attestation), gw_verify = cp_verify demo_cp,
      gw_execute = (\<lambda>request artifact. Inr demo_receipt), gw_trust_policy = demo_trust_policy,
      gw_approved_image_identities = [(''sha256:'' @ replicate 64 (CHR ''0''), replicate 64 (CHR ''6''))],
      gw_max_ttl_us = 300000000, gw_parse_evidence = (\<lambda>_. Inr demo_artifact),
      gw_parse_attestation = (\<lambda>t. if t = canonical_json (dump_AttestationV1 demo_attestation) then Some demo_attestation else None)\<rparr>"

definition demo_clocks :: gateway_ambient where
  "demo_clocks = \<lparr>gm_clock = (\<lambda>_. utc 1), gm_lease_clock = (\<lambda>_. utc 1), gm_verify_clock = (\<lambda>_. utc 1), gm_between = (\<lambda>_ s. s)\<rparr>"

definition signing_state_of :: "signing_row list \<Rightarrow> signing_state" where
  "signing_state_of rows = \<lparr>sg_db = event_db.extend demo_events_db \<lparr>vg_requests = rows\<rparr>, sg_files = demo_fs\<rparr>"

lemma signing_state_of [simp]:
  "event_db.truncate (sg_db (signing_state_of rows)) = demo_events_db" "vg_requests (sg_db (signing_state_of rows)) = rows"
  "worker_leases (sg_db (signing_state_of rows)) = worker_leases demo_events_db" "sg_files (signing_state_of rows) = demo_fs"
  "(sg_db (signing_state_of rows))\<lparr>vg_requests := rows'\<rparr> = sg_db (signing_state_of rows')"
  "(signing_state_of rows)\<lparr>sg_db := sg_db (signing_state_of rows')\<rparr> = signing_state_of rows'"
  by (simp_all add: signing_state_of_def event_db.defs)

lemma demo_gateway_parts [simp]:
  "gateway_init demo_gateway = Inr demo_gateway" "tp_execution_class (gw_trust_policy demo_gateway) = TEST_ONLY"
  "gateway_now demo_clocks i = Inr (utc 1)" "gm_between demo_clocks i s = s" "gm_lease_clock demo_clocks i = utc 1"
  "gm_verify_clock demo_clocks i = utc 1" "gw_execute demo_gateway request artifact = Inr demo_receipt"
  "gw_sign demo_gateway purpose payload identity ttl = Inr demo_attestation"
  by (simp_all add: gateway_init_def demo_gateway_def demo_trust_policy_def gateway_now_def demo_clocks_def utc_def aware_def as_utc_def
      require_def require_all.simps image_digest_pattern_def is_sha256_text_def all_chars_iff char_class_defs)

lemma demo_request_parts [simp]:
  "vsr_lease demo_request = demo_signing_lease" "vsr_context demo_request = demo_context" "vsr_idempotency_key demo_request = ''k''"
  "vsr_requested_at demo_request = utc 0" "vsr_expires_at demo_request = utc 2000000"
  "vsr_canonical_payload_hash demo_request = attestation_payload_hash AP_VERIFICATION demo_payload"
  by (simp_all add: demo_request_def)

lemma demo_payload_built: "verification_gateway_attestation_payload demo_signing_lease demo_context = Inr demo_payload"
  by (simp add: verification_gateway_attestation_payload_def demo_payload_def require_def demo_signing_lease_def demo_context_def)

lemma demo_attestation_verified: "gw_verify demo_gateway (utc 1) demo_attestation AP_VERIFICATION demo_payload = Inr ()"
  by (simp add: demo_gateway_def demo_cp_def HmacAttestationVerifierV1_verify_Inr demo_attestation_def sample_attestation_def Let_def
      sample_key_def sample_key_for_def attestation_signature_def signature_message_def signature_envelope_def)

lemma demo_attestation_valid: "validate_issued_attestation demo_gateway demo_request demo_attestation = Inr ()"
  by (simp add: validate_issued_attestation_def require_def demo_gateway_def demo_trust_policy_def)
    (simp add: demo_attestation_def sample_attestation_def Let_def demo_context_def)

lemma demo_time_valid: "validate_request_time demo_gateway demo_request (utc 1) = Inr ()"
  by (simp add: validate_request_time_def require_def demo_gateway_def)

lemma demo_signing_lease_current: "assert_current_signing_lease demo_clocks i demo_request (sg_db (signing_state_of rows)) = Inr ()"
  by (simp add: assert_current_signing_lease_def Let_def current_def require_all.simps demo_nonblank lease_utc_now_def as_utc_def
      demo_leases grant_def next_token_def empty_store_def row_to_lease_def Lease_init_def require_def demo_context_def demo_signing_lease_def)

lemma demo_proof_values:
  "validate_gateway_proof_binding demo_context (se_payload demo_submitted) = Inr ()"
proof -
  let ?p = "proof_payload (si_value (sample_id ''bundle'')) demo_lease demo_submission (sha256_ref (sha256_hexdigest ''{}'') 2)"
  have v: "get_value (se_payload demo_submitted) k = json_norm (get_value ?p k)" for k by (rule demo_submitted_value)
  obtain p where p: "sv_required_object (se_payload demo_submitted) ''proof_artifact'' = Inr p"
    "sv_required_text p ''digest'' = Inr (sha256_hexdigest ''{}'')"
    using demo_submitted_fields(4) by blast
  then have "proof_artifact_digest (se_payload demo_submitted) = JStr (sha256_hexdigest ''{}'')"
    by (auto simp: proof_artifact_digest_def sv_required_object_def sv_required_text_def split: json.splits if_splits)
  then show ?thesis
    by (simp add: validate_gateway_proof_binding_def require_def v demo_context_def)
      (simp add: proof_payload_def get_value_def obj_get_def demo_submission_def json_equals_int_def)
qed

lemma demo_authoritative: "assert_authoritative_binding demo_gateway demo_clocks i demo_request (signing_state_of rows) = Inr demo_artifact"
proof -
  have found: "gateway_proof_event (sg_db (signing_state_of rows)) (si_value (vsc_proof_id demo_context)) = Inr demo_submitted"
    using demo_proof_found by (auto simp: gateway_proof_event_def proof_event_def demo_context_def demo_streams split: option.splits if_splits)
  have task: "validate_task_binding demo_binding demo_context = Inr ()"
    by (simp add: validate_task_binding_def require_def demo_context_def)
  obtain kvs where kvs: "dump_VerificationEvidenceArtifactV2 demo_artifact = JObj kvs"
    by (simp add: dump_VerificationEvidenceArtifactV2_def)
  have raw: "demo_artifact_bytes = utf8 (canonical_json (JObj kvs))" by (simp only: demo_artifact_bytes_def kvs)
  have "read_canonical_json_artifact demo_fs (sha256_hexdigest demo_artifact_bytes) = Inr (json_object_of kvs)"
    using read_canonical_stored [of demo_fs "sha256_hexdigest demo_artifact_bytes" kvs] demo_artifact_wf demo_bytes(1) kvs raw by simp
  then have read: "read_evidence_artifact demo_gateway demo_fs (vsc_evidence_artifact_digest demo_context) = Inr demo_artifact"
    using demo_bytes(1) raw kvs
    by (auto simp: read_evidence_artifact_def read_canonical_json_artifact_def demo_context_def demo_gateway_def require_def
        split: option.splits json.splits if_splits)
  have evidence: "validate_evidence_binding demo_gateway demo_binding demo_context demo_signing_lease demo_artifact = Inr ()"
    by (simp add: validate_evidence_binding_def Let_def require_def demo_gateway_def)
      (simp add: demo_artifact_def demo_context_def demo_signing_lease_def sample_oci_def)
  have ids: "vsl_bundle_id demo_signing_lease = vsc_bundle_id demo_context" "vsc_bundle_id demo_context = sample_id ''bundle''"
    by (simp_all add: demo_signing_lease_def demo_context_def)
  show ?thesis
    by (simp add: assert_authoritative_binding_def Let_def demo_signing_lease_current demo_found task found demo_proof_values read
        evidence ids)
qed

lemma demo_receipt_parts [simp]:
  "re_receipt_id demo_plain_receipt = ''r''" "re_verifier_id demo_plain_receipt = ''iv''" "re_checked_at demo_plain_receipt = utc 1"
  "re_request_hash demo_plain_receipt = dg_value (signing_request_hash demo_request)"
  "re_evidence_artifact_digest demo_plain_receipt = sha256_hexdigest demo_artifact_bytes"
  "re_evidence_digest demo_plain_receipt = dg_value (evidence_hash demo_evidence)"
  "re_execution_claim_hash demo_plain_receipt = replicate 64 (CHR ''5'')" "re_authentication demo_plain_receipt = None"
  "receipt_payload t (r\<lparr>re_authentication := a\<rparr>) = receipt_payload t r"
  "receipt_payload t (r\<lparr>re_receipt_hash := h\<rparr>) = receipt_payload t r"
  "re_receipt_hash demo_plain_receipt = sha256_hexdigest (utf8 (canonical_json (receipt_payload (utc_micros_text (utc 1)) demo_plain_receipt)))"
  "re_authentication demo_receipt = Some demo_envelope"
  by (simp_all add: demo_plain_receipt_def demo_receipt_def Let_def receipt_payload_def)

lemma demo_receipt_copies:
  "re_receipt_id demo_receipt = ''r''" "re_verifier_id demo_receipt = ''iv''" "re_checked_at demo_receipt = utc 1"
  "re_request_hash demo_receipt = dg_value (signing_request_hash demo_request)"
  "re_evidence_artifact_digest demo_receipt = sha256_hexdigest demo_artifact_bytes"
  "re_evidence_digest demo_receipt = dg_value (evidence_hash demo_evidence)"
  "re_execution_claim_hash demo_receipt = replicate 64 (CHR ''5'')"
  "re_receipt_hash demo_receipt = re_receipt_hash demo_plain_receipt"
  "receipt_payload t demo_receipt = receipt_payload t demo_plain_receipt"
  "fixture_signature f demo_receipt = fixture_signature f demo_plain_receipt"
  by (simp_all add: demo_receipt_def fixture_signature_def fixture_message_def del: demo_receipt_parts(11))

lemma demo_safe_ids: "safe_id ''r''" "safe_id ''iv''" "safe_id ''k2''" "ident_pattern ''._-'' 128 fixture_algorithm"
  by code_simp+

lemma demo_envelope_valid: "validate_authentication demo_envelope = Inr ()"
proof -
  have "hex_between 64 512 (fixture_signature demo_authenticator demo_plain_receipt)"
    using hmac_hex_shape [of "fh_secret demo_authenticator"
        "utf8 (canonical_json (fixture_message (fh_key_id demo_authenticator) demo_plain_receipt))"]
    by (simp add: hex_between_def fixture_signature_def is_sha256_text_def)
  then show ?thesis
    by (simp add: validate_authentication_def require_all.simps demo_envelope_def demo_safe_ids)
qed

lemma demo_receipt_valid: "validate_receipt demo_receipt = Inr ()"
proof -
  have sha: "is_sha256_text (replicate 64 (CHR ''5''))" "is_sha256_text (dg_value (signing_request_hash demo_request))"
    "is_sha256_text (dg_value (evidence_hash demo_evidence))"
    by (simp_all add: is_sha256_text_def all_chars_iff char_class_defs signing_request_hash_def evidence_hash_def)
      (simp_all add: sha256_hexdigest_shape [unfolded is_sha256_text_def all_chars_iff char_class_defs])
  have "ra_authenticated_receipt_hash demo_envelope = re_receipt_hash demo_plain_receipt" by (simp add: demo_envelope_def)
  then show ?thesis
    by (simp add: validate_receipt_def require_all.simps create_receipt_def receipt_timestamp_def demo_receipt_copies demo_safe_ids sha
        demo_envelope_valid require_def)
qed

lemma demo_receipt_accepted: "validate_execution_receipt demo_gateway demo_clocks i demo_request demo_artifact demo_receipt = Inr ()"
proof -
  have "fixture_verify demo_authenticator demo_receipt = Inr ()"
    by (simp add: fixture_verify_def demo_receipt_valid demo_envelope_def require_def demo_receipt_copies)
      (simp add: demo_authenticator_def)
  then have "policy_authenticate (gw_trust_policy demo_gateway) demo_receipt = Inr ()"
    by (simp add: policy_authenticate_def demo_gateway_def demo_trust_policy_def demo_receipt_copies fixture_authenticator_def
        demo_envelope_def require_def)
  moreover have "list_all (\<lambda>(ok, m). ok) (receipt_checks demo_request demo_artifact demo_receipt (utc 1))"
    by (simp add: receipt_checks_def demo_receipt_copies del: demo_receipt_parts)
      (simp add: demo_context_def demo_artifact_def demo_signing_lease_def)
  ultimately show ?thesis
    by (simp add: validate_execution_receipt_def demo_receipt_valid forE_Inr list_all_iff case_prod_beta require_def)
qed

definition demo_pending :: signing_row where
  "demo_pending = pending_row demo_request demo_receipt demo_envelope (utc 1)"

definition demo_issued :: signing_row where
  "demo_issued = demo_pending\<lparr>sr_state := RQ_ISSUED, sr_attestation_json := Some (canonical_json (dump_AttestationV1 demo_attestation)),
     sr_completed_at := Some (utc_micros_text (utc 1))\<rparr>"

lemma demo_reserved:
  "signing_transaction (reserve_request_tx demo_gateway demo_request demo_receipt (utc 1)) (signing_state_of [])
     = (Inr None, signing_state_of [demo_pending])"
proof -
  have "insert_request demo_pending (sg_db (signing_state_of [])) = Inr (sg_db (signing_state_of [demo_pending]))"
    by (simp add: insert_request_Inr) (simp add: demo_pending_def pending_row_def demo_signing_lease_def)
  then show ?thesis
    by (simp add: signing_transaction_def reserve_request_tx_def row_of_key_def demo_pending_def)
qed

lemma demo_recorded:
  "signing_transaction (record_issued_tx demo_clocks i demo_request demo_attestation) (signing_state_of [demo_pending])
     = (Inr (), signing_state_of [demo_issued])"
proof -
  have p: "is_pending (si_value (vsr_request_id demo_request)) demo_pending"
    by (simp add: is_pending_def demo_pending_def pending_row_def)
  then show ?thesis
    by (simp add: signing_transaction_def record_issued_tx_def Let_def require_def update_pending_def) (simp add: demo_issued_def)
qed

lemma demo_signed: "issue_signature demo_gateway demo_clocks demo_request (signing_state_of []) = (Inr demo_attestation, signing_state_of [demo_issued])"
proof -
  have none: "load_issued_replay demo_gateway demo_request (sg_db (signing_state_of [])) = Inr None"
    by (simp add: load_issued_replay_def row_of_key_def)
  have "sign_guarded demo_gateway demo_clocks demo_request demo_payload ttl (signing_state_of rows) (signing_state_of rows') = Inr demo_attestation"
    for ttl rows rows'
    by (simp add: sign_guarded_def demo_authoritative demo_attestation_verified demo_attestation_valid)
  then have "sign_reserved demo_gateway demo_clocks demo_request (signing_state_of [demo_pending]) = (Inr demo_attestation, signing_state_of [demo_issued])"
    by (simp add: sign_reserved_def demo_payload_built demo_time_valid demo_recorded)
  then show ?thesis
    by (simp add: issue_signature_def require_def demo_time_valid demo_authoritative none independently_verify_execution_def
        demo_receipt_accepted demo_reserved)
qed

text \<open>A second call finds the issued row.\<close>

lemma demo_checked_at: "fromisoformat (replace_char (CHR ''Z'') ''+00:00'' (utc_micros_text (utc 1))) = Some (utc 1)"
  by code_simp

lemma demo_repeated: "issue_signature demo_gateway demo_clocks demo_request (signing_state_of [demo_issued]) = (Inr demo_attestation, signing_state_of [demo_issued])"
proof -
  have key: "sr_idempotency_key demo_issued = ''k''" "sr_request_hash demo_issued = dg_value (signing_request_hash demo_request)"
    "sr_state demo_issued = RQ_ISSUED" "sr_attestation_json demo_issued = Some (canonical_json (dump_AttestationV1 demo_attestation))"
    by (simp_all add: demo_issued_def demo_pending_def pending_row_def)
  have "ledger_receipt demo_request demo_issued = Inr demo_receipt"
    by (simp add: ledger_receipt_def demo_issued_def demo_pending_def pending_row_def demo_receipt_copies demo_checked_at)
      (rule IndependentExecutionReceiptV1.equality; simp add: demo_receipt_copies demo_envelope_def demo_context_def)
  moreover have "None \<notin> set (row_receipt_fields demo_issued)" "sr_evidence_artifact_digest demo_issued = vsc_evidence_artifact_digest demo_context"
    by (simp_all add: row_receipt_fields_def demo_issued_def demo_pending_def pending_row_def)
  ultimately have "receipt_from_ledger demo_request demo_issued = Inr demo_receipt" by (simp add: receipt_from_ledger_def require_def)
  then have "load_issued_replay demo_gateway demo_request (sg_db (signing_state_of [demo_issued]))
      = Inr (Some \<lparr>ip_attestation = demo_attestation, ip_receipt = demo_receipt\<rparr>)"
    by (simp add: load_issued_replay_def row_of_key_def key replay_of_row_def require_def) (simp add: demo_gateway_def)
  moreover have "validate_issued_replay demo_gateway demo_clocks 1 demo_request demo_artifact
      \<lparr>ip_attestation = demo_attestation, ip_receipt = demo_receipt\<rparr> = Inr ()"
    by (simp add: validate_issued_replay_def demo_payload_built demo_attestation_verified demo_attestation_valid demo_receipt_accepted)
  ultimately show ?thesis
    by (simp add: issue_signature_def require_def demo_time_valid demo_authoritative return_replay_def)
qed

section \<open>Properties\<close>

text \<open>
  C4. A signature is earned: an attestation that \<open>issue\<close> returns was verified for exactly the
  lease and context of the request, under the gateway's own key, and does not outlive the
  request; the request's worker held the live lease of the task, the task is registered with
  the context's values, the proof was submitted with them, the stored evidence has the digest
  of the context and names the same lease and an approved image, and a trusted verifier
  signed a receipt for this request and this evidence. A new signature moreover has this
  authority immediately before and after signing. No gateway of the production class signs.
\<close>

theorem issued_attestation_is_earned:
  assumes "issue_signature gw am request s = (Inr a, s')"
  shows "tp_execution_class (gw_trust_policy gw) = TEST_ONLY \<and> (\<exists>i. attests gw (gm_verify_clock am i) request a) \<and>
    (\<exists>i st artifact r. st \<in> {s, gm_between am 0 s} \<and> holds_authority gw (gm_lease_clock am i) request st artifact \<and>
       trusted_receipt gw request artifact r) \<and>
    ((\<exists>p. replayed_from gw request s' p \<and> a = ip_attestation p) \<or>
     (\<exists>t artifact artifact'. holds_authority gw (gm_lease_clock am 2) request (gm_between am 2 t) artifact \<and>
        holds_authority gw (gm_lease_clock am 3) request (gm_between am 3 (gm_between am 2 t)) artifact'))"
proof -
  have test: "c \<noteq> PRODUCTION \<Longrightarrow> c = TEST_ONLY" for c by (cases c) auto
  from assms show ?thesis
  proof (cases rule: issue_signature_Inr)
    case (stored artifact p)
    then show ?thesis
      using test [OF stored(1)] assert_authoritative_binding_Inr [OF stored(2)] validate_issued_replay_Inr [OF stored(4)] by blast
  next
    case (raced artifact p)
    then show ?thesis
      using test [OF raced(1)] assert_authoritative_binding_Inr [OF raced(2)] validate_issued_replay_Inr [OF raced(5)] by blast
  next
    case (signed artifact receipt now t)
    obtain payload ttl where p: "verification_gateway_attestation_payload (vsr_lease request) (vsr_context request) = Inr payload"
      "sign_guarded gw am request payload ttl (gm_between am 2 t) (gm_between am 3 (gm_between am 2 t)) = Inr a"
      using sign_reserved_Inr [OF signed(6)] .
    show ?thesis
      using test [OF signed(1)] assert_authoritative_binding_Inr [OF signed(2)] validate_execution_receipt_Inr [OF signed(3)]
        sign_guarded_Inr [OF p(2,1)] by blast
  qed
qed

text \<open>
  C5. One request, one attestation: once the gateway returned an attestation for a request, any
  later call with the same idempotency key that returns at all, whatever happened in between
  and however many calls were made, returns the same attestation, and only for the same request;
  it does not sign again.
\<close>

theorem attestation_is_issued_once:
  assumes "issue_signature gw am request s = (Inr a, s1)" "fair_gateway gw am" "ledger_inv s"
    and "gw_parse_attestation gw (canonical_json (dump_AttestationV1 a)) = Some a"
    and "(signing_step gw)\<^sup>*\<^sup>* s1 s2" "vsr_idempotency_key request' = vsr_idempotency_key request"
    and "issue_signature gw am' request' s2 = (Inr a', s3)"
  shows "a' = a \<and> dg_value (signing_request_hash request') = dg_value (signing_request_hash request) \<and> s3 = s2"
proof -
  obtain row t where row: "finished_row s1 (vsr_idempotency_key request) = Some row" "sr_state row = RQ_ISSUED"
    "sr_request_hash row = dg_value (signing_request_hash request)" "sr_attestation_json row = Some t" "gw_parse_attestation gw t = Some a"
    using issued_row [OF assms(1-4)] by blast
  have fin: "finished_row s2 (vsr_idempotency_key request') = Some row"
    using finished_rows.table_steps [OF assms(5) row(1)] assms(6) by simp
  from assms(7) show ?thesis
  proof (cases rule: issue_signature_Inr)
    case (stored artifact p)
    then show ?thesis using row fin by (simp add: replayed_from_def)
  next
    case (raced artifact p)
    then show ?thesis using fin by (auto simp: load_issued_replay_def finished_row_def result_simps split: option.splits)
  next
    case (signed artifact receipt now t)
    then show ?thesis using fin by (auto simp: load_issued_replay_def finished_row_def result_simps split: option.splits)
  qed
qed

text \<open>
  C15. The ledger of requests is sound and final: from an empty ledger, every reachable ledger
  has every request identifier, nonce, idempotency key and payload hash at most once, every
  row carries its execution receipt, and an attestation exactly when it is issued; and a row
  that is issued or failed is in every later ledger, unchanged.
\<close>

theorem finished_requests_are_final:
  assumes "vg_requests (sg_db s0) = []" "(signing_step gw)\<^sup>*\<^sup>* s0 s" "(signing_step gw)\<^sup>*\<^sup>* s s'"
  shows "ledger_inv s \<and> (\<forall>row \<in> set (vg_requests (sg_db s)). sr_state row \<noteq> RQ_PENDING \<longrightarrow> row \<in> set (vg_requests (sg_db s')))"
proof -
  have inv: "ledger_inv s" using ledger_inv_steps [OF assms(2)] assms(1) by (simp add: ledger_inv_def)
  have "row \<in> set (vg_requests (sg_db s'))" if row: "row \<in> set (vg_requests (sg_db s))" "sr_state row \<noteq> RQ_PENDING" for row
  proof -
    let ?k = "sr_idempotency_key row"
    obtain x where x: "row_of_key (sg_db s) ?k = Some x"
      using row(1) by (cases "row_of_key (sg_db s) ?k") (auto simp: row_of_key_def find_None_iff)
    then have "x \<in> set (vg_requests (sg_db s))" "sr_idempotency_key x = ?k" by (auto simp: row_of_key_def find_Some_iff)
    moreover have "distinct (map sr_idempotency_key (vg_requests (sg_db s)))" using inv by (simp add: ledger_inv_def Let_def)
    ultimately have "x = row" using row(1) by (metis distinct_map inj_on_eq_iff)
    then have "finished_row s' ?k = Some row"
      using finished_rows.table_steps [OF assms(3)] x row(2) by (simp add: finished_row_def)
    then have "row_of_key (sg_db s') ?k = Some row" by (auto simp: finished_row_def split: option.splits if_splits)
    then show ?thesis by (auto simp: row_of_key_def find_Some_iff)
  qed
  then show ?thesis using inv by blast
qed

text \<open>
  A failed request stays failed: once a request is marked as failed, no call under its
  idempotency key returns an attestation, however often it is tried again and whatever other
  clients do, and the refusal leaves the state alone.
\<close>

theorem failed_request_is_never_signed:
  assumes "finished_row s (vsr_idempotency_key request) = Some row" "sr_state row = RQ_FAILED" "(signing_step gw)\<^sup>*\<^sup>* s s'"
  shows "\<exists>e. issue_signature gw am request s' = (Inl e, s')"
proof -
  have "finished_row s' (vsr_idempotency_key request) = Some row" by (rule finished_rows.table_steps [OF assms(3,1)])
  then have "row_of_key (sg_db s') (vsr_idempotency_key request) = Some row"
    by (auto simp: finished_row_def split: option.splits if_splits)
  then have "load_issued_replay gw request (sg_db s') \<noteq> Inr r" for r
    using assms(2) by (auto simp: load_issued_replay_def replay_of_row_def result_simps)
  then obtain e where "load_issued_replay gw request (sg_db s') = Inl e" by (metis sum.exhaust)
  then show ?thesis by (auto simp: issue_signature_def result_simps split: sum.splits)
qed

section \<open>Witnesses\<close>

lemma demo_gateway_fair: "fair_gateway demo_gateway demo_clocks"
  by (simp add: fair_gateway_def)

lemma demo_empty_inv: "ledger_inv (signing_state_of [])"
  by (simp add: ledger_inv_def)

lemma demo_run: "(signing_step demo_gateway)\<^sup>*\<^sup>* (signing_state_of []) (signing_state_of [demo_issued])"
proof -
  have "signing_step demo_gateway (signing_state_of []) (signing_state_of [demo_pending])"
    using reserve_step [of demo_gateway "signing_state_of []" demo_request demo_receipt "utc 1"] by (simp add: demo_reserved)
  moreover have "signing_step demo_gateway (signing_state_of [demo_pending]) (signing_state_of [demo_issued])"
    using record_step [of demo_gateway "signing_state_of [demo_pending]" demo_clocks 5 demo_request demo_attestation] by (simp add: demo_recorded)
  ultimately show ?thesis by (rule rtranclp.rtrancl_into_rtrancl [OF r_into_rtranclp])
qed

theorem issued_attestation_is_earned_witness:
  "\<exists>artifact r. holds_authority demo_gateway (utc 1) demo_request (signing_state_of []) artifact \<and>
     trusted_receipt demo_gateway demo_request artifact r"
  using issued_attestation_is_earned [OF demo_signed] by auto

theorem attestation_is_issued_once_witness:
  "\<exists>a s. issue_signature demo_gateway demo_clocks demo_request (signing_state_of []) = (Inr a, s) \<and>
     issue_signature demo_gateway demo_clocks demo_request s = (Inr a, s)"
proof -
  have "gw_parse_attestation demo_gateway (canonical_json (dump_AttestationV1 demo_attestation)) = Some demo_attestation"
    by (simp add: demo_gateway_def)
  from attestation_is_issued_once [OF demo_signed demo_gateway_fair demo_empty_inv this rtranclp.rtrancl_refl refl demo_repeated]
  show ?thesis using demo_signed demo_repeated by blast
qed

theorem finished_requests_are_final_witness:
  "ledger_inv (signing_state_of [demo_issued]) \<and> demo_issued \<in> set (vg_requests (sg_db (signing_state_of [demo_issued])))"
  using finished_requests_are_final [OF _ demo_run rtranclp.rtrancl_refl] by simp

definition demo_failed :: signing_row where
  "demo_failed = demo_pending\<lparr>sr_state := RQ_FAILED, sr_failure_code := Some ''signer_unavailable'',
     sr_completed_at := Some (utc_micros_text (utc 1))\<rparr>"

theorem failed_request_is_never_signed_witness:
  "\<exists>e. issue_signature demo_gateway demo_clocks demo_request (signing_state_of [demo_failed]) = (Inl e, signing_state_of [demo_failed])"
proof -
  have "finished_row (signing_state_of [demo_failed]) (vsr_idempotency_key demo_request) = Some demo_failed" "sr_state demo_failed = RQ_FAILED"
    by (simp_all add: finished_row_def row_of_key_def demo_failed_def demo_pending_def pending_row_def)
  from failed_request_is_never_signed [OF this rtranclp.rtrancl_refl] show ?thesis .
qed

end
