(* ===== verification/TypeGate.thy ===== *)
theory TypeGate
  imports CanonicalType
begin

text \<open>
  \<open>canonical_type_gate.py\<close>, first part: the requests to a query of Lean's canonical types, the
  facts it returns and their validation against the raw output of the query. A failed check is
  a \<open>CanonicalTypeGateError\<close>; a chain of conditions joined by \<open>or\<close> is evaluated in order, and the
  accessors inside it may raise.
\<close>

section \<open>Checks\<close>

definition gate_require :: "bool \<Rightarrow> string \<Rightarrow> unit result" where
  "gate_require ok m = require ok (CanonicalTypeGateError m)"

definition gate_refuse :: "bool result list \<Rightarrow> string \<Rightarrow> unit result" where
  "gate_refuse ms m = bindE (orE ms) (\<lambda>bad. gate_require (\<not> bad) m)"

lemma gate_require_Inr [result_simps]: "gate_require ok m = Inr u \<longleftrightarrow> ok"
  by (simp add: gate_require_def result_simps)

lemma gate_refuse_Inr [result_simps]: "gate_refuse ms m = Inr u \<longleftrightarrow> list_all (\<lambda>m. m = Inr False) ms"
proof -
  have "gate_refuse ms m = Inr u \<longleftrightarrow> orE ms = Inr False"
    by (cases "orE ms") (auto simp: gate_refuse_def result_simps)
  then show ?thesis by (simp add: orE_False)
qed

text \<open>\<open>value.strip()\<close> is not empty and is the value itself.\<close>

definition trimmed :: "string \<Rightarrow> bool" where
  "trimmed v \<longleftrightarrow> nonblank v \<and> v = py_strip v"

definition require_sha256 :: "string \<Rightarrow> unit result" where
  "require_sha256 v = gate_require (is_sha256_text v) ''canonical query value is not a SHA-256 digest''"

section \<open>Access to the raw output\<close>

definition require_exact_query_fields :: "json_object \<Rightarrow> string list \<Rightarrow> unit result" where
  "require_exact_query_fields v expected =
     gate_require (set (map fst v) = set expected) ''canonical query value has unexpected fields''"

definition query_object :: "json_object \<Rightarrow> string \<Rightarrow> json_object result" where
  "query_object v k =
     (case get_value v k of JObj kvs \<Rightarrow> Inr kvs | _ \<Rightarrow> Inl (CanonicalTypeGateError ''canonical query value is not an object''))"

definition query_list :: "json_object \<Rightarrow> string \<Rightarrow> json list result" where
  "query_list v k =
     (case get_value v k of JList vs \<Rightarrow> Inr vs | _ \<Rightarrow> Inl (CanonicalTypeGateError ''canonical query value is not a list''))"

definition query_text :: "json_object \<Rightarrow> string \<Rightarrow> string result" where
  "query_text v k =
     (case get_value v k of
        JStr s \<Rightarrow> if s = [] then Inl (CanonicalTypeGateError ''canonical query value is not text'') else Inr s
      | _ \<Rightarrow> Inl (CanonicalTypeGateError ''canonical query value is not text''))"

definition name_item :: "json \<Rightarrow> string result" where
  "name_item v =
     (case v of
        JStr s \<Rightarrow> if s = [] then Inl (CanonicalTypeGateError ''canonical query value is not a name list'') else Inr s
      | _ \<Rightarrow> Inl (CanonicalTypeGateError ''canonical query value is not a name list''))"

definition query_names :: "json_object \<Rightarrow> string \<Rightarrow> string list result" where
  "query_names v k =
     bindE (query_list v k) (\<lambda>vs.
     bindE (map_resultE name_item vs) (\<lambda>names.
     bindE (gate_require (names = sorted_set names \<and> list_all (\<lambda>s. s = py_strip s) names)
       ''canonical query value is not sorted and unique'') (\<lambda>_. Inr names)))"

definition query_sha256 :: "json_object \<Rightarrow> string \<Rightarrow> string result" where
  "query_sha256 v k = bindE (query_text v k) (\<lambda>s. bindE (require_sha256 s) (\<lambda>_. Inr s))"

text \<open>
  The canonical encoding is ASCII, so decoding it gives the canonical text. Text that is not
  canonical is refused whether or not a loader accepts it.
\<close>

definition parse_query_output :: "string \<Rightarrow> json_object result" where
  "parse_query_output s =
     (case json_loads s of
        Some (JObj parsed) \<Rightarrow>
          bindE (gate_require (canonical_json (JObj parsed) = s)
            ''canonical query output is not strict canonical JSON'') (\<lambda>_. Inr parsed)
      | _ \<Rightarrow> Inl (CanonicalTypeGateError ''canonical query output is not strict canonical JSON''))"

section \<open>Requests\<close>

record CanonicalTypeQueryRequest =
  cq_subject_id :: string
  cq_statement_source :: string
  cq_statement_source_hash :: DigestV1
  cq_declaration :: string
  cq_namespace :: string
  cq_imports_allowlist :: "string list"

definition CanonicalTypeQueryRequest_init :: "CanonicalTypeQueryRequest \<Rightarrow> CanonicalTypeQueryRequest result" where
  "CanonicalTypeQueryRequest_init r =
     bindE (gate_require (list_all trimmed [cq_subject_id r, cq_statement_source r, cq_declaration r, cq_namespace r])
       ''canonical query text must be trimmed'') (\<lambda>_.
     bindE (gate_require (cq_statement_source_hash r = digest_text STATEMENT_SOURCE (cq_statement_source r))
       ''canonical query statement source differs from its bound hash'') (\<lambda>_.
     Inr r))"

definition render_oci_type_query_source :: "CanonicalTypeQueryRequest \<Rightarrow> string result" where
  "render_oci_type_query_source r =
     (let statement = cq_statement_source r in
      bindE (if py_contains '':='' statement then Inr statement
             else case header_keyword statement of
                    None \<Rightarrow> Inl (CanonicalTypeGateError ''canonical type query requires a theorem or lemma declaration'')
                  | Some kw \<Rightarrow> Inr (''axiom'' @ drop (length kw) statement)) (\<lambda>carrier.
      let imports = map (\<lambda>name. ''import '' @ name) (cq_imports_allowlist r);
          lines = imports @ (if imports = [] then [] else [[]])
            @ [''namespace '' @ cq_namespace r, [], carrier, []]
      in Inr (join_with [CHR 0x0A] lines)))"

section \<open>The environment of a query\<close>

datatype CanonicalTypeQueryAssurance = SCRIPTED_FAKE | LOCAL_OCI_PREFREEZE

fun CanonicalTypeQueryAssurance_value :: "CanonicalTypeQueryAssurance \<Rightarrow> string" where
  "CanonicalTypeQueryAssurance_value SCRIPTED_FAKE = ''scripted_fake''"
| "CanonicalTypeQueryAssurance_value LOCAL_OCI_PREFREEZE = ''local_oci_prefreeze''"

fun assurance_profiles :: "CanonicalTypeQueryAssurance \<Rightarrow> string list" where
  "assurance_profiles SCRIPTED_FAKE =
     [''autolean_builder.testing.ScriptedCanonicalTypeQuery'', ''autolean.scripted-canonical-query.v1'',
      ''autolean.scripted-canonical-query.v1'', ''autolean.scripted-header.v1'']"
| "assurance_profiles LOCAL_OCI_PREFREEZE =
     [''scripts.oci_mathlib_worker.query_declarations'', ''autolean.mathlib-declaration-query-evidence.v1'',
      ''autolean.mathlib-declaration-query.v1'', ''autolean.declaration-type-observation.v1'']"

definition type_format :: string where
  "type_format = ''autolean.lean-pp-expr.v1''"

record CanonicalTypeEnvironmentFacts =
  ef_assurance :: CanonicalTypeQueryAssurance
  ef_adapter_id :: string
  ef_image :: string
  ef_worker_image_digest :: string
  ef_lean_version :: string
  ef_mathlib_revision :: string
  ef_lake_manifest_sha256 :: "string option"
  ef_type_format :: string
  ef_query_schema_version :: string
  ef_query_protocol :: string
  ef_query_identity_sha256 :: string
  ef_build_receipt_canonical_sha256 :: string
  ef_execution_policy_sha256 :: string
  ef_source_inputs_sha256 :: string
  ef_source_rendering_profile :: string

definition environment_facts_validate :: "CanonicalTypeEnvironmentFacts \<Rightarrow> unit result" where
  "environment_facts_validate e =
     bindE (gate_require (list_all trimmed
         [ef_adapter_id e, ef_image e, ef_lean_version e, ef_mathlib_revision e,
          ef_query_schema_version e, ef_query_protocol e, ef_source_rendering_profile e])
       ''canonical query environment text must be trimmed'') (\<lambda>_.
     bindE (gate_require (image_digest_pattern (ef_worker_image_digest e))
       ''canonical query environment has an invalid worker image digest'') (\<lambda>_.
     bindE (gate_require (py_endswith (ef_image e) (''@'' @ ef_worker_image_digest e))
       ''canonical query image reference differs from its digest'') (\<lambda>_.
     bindE (gate_require (ef_type_format e = type_format)
       ''canonical query type format is unsupported'') (\<lambda>_.
     bindE (gate_require
         ([ef_adapter_id e, ef_query_schema_version e, ef_query_protocol e, ef_source_rendering_profile e]
          = assurance_profiles (ef_assurance e))
       ''canonical query assurance differs from its closed execution profile'') (\<lambda>_.
     bindE (forE require_sha256
         [ef_query_identity_sha256 e, ef_build_receipt_canonical_sha256 e,
          ef_execution_policy_sha256 e, ef_source_inputs_sha256 e]) (\<lambda>_.
     case ef_lake_manifest_sha256 e of None \<Rightarrow> Inr () | Some h \<Rightarrow> require_sha256 h))))))"

definition environment_facts_payload :: "CanonicalTypeEnvironmentFacts \<Rightarrow> json" where
  "environment_facts_payload e = JObj
     [(''assurance'', JStr (CanonicalTypeQueryAssurance_value (ef_assurance e))),
      (''adapter_id'', JStr (ef_adapter_id e)),
      (''image'', JStr (ef_image e)),
      (''worker_image_digest'', JStr (ef_worker_image_digest e)),
      (''lean_version'', JStr (ef_lean_version e)),
      (''mathlib_revision'', JStr (ef_mathlib_revision e)),
      (''lake_manifest_sha256'', JOpt JStr (ef_lake_manifest_sha256 e)),
      (''type_format'', JStr (ef_type_format e)),
      (''query_schema_version'', JStr (ef_query_schema_version e)),
      (''query_protocol'', JStr (ef_query_protocol e)),
      (''query_identity_sha256'', JStr (ef_query_identity_sha256 e)),
      (''build_receipt_canonical_sha256'', JStr (ef_build_receipt_canonical_sha256 e)),
      (''execution_policy_sha256'', JStr (ef_execution_policy_sha256 e)),
      (''source_inputs_sha256'', JStr (ef_source_inputs_sha256 e)),
      (''source_rendering_profile'', JStr (ef_source_rendering_profile e))]"

definition environment_facts_content_sha256 :: "CanonicalTypeEnvironmentFacts \<Rightarrow> string" where
  "environment_facts_content_sha256 e = sha256_hexdigest (canonical_json_bytes (environment_facts_payload e))"

section \<open>The facts of one query\<close>

record CanonicalTypeQueryFacts =
  qf_query_output_canonical_json :: string
  qf_query_output_sha256 :: string
  qf_source_snapshot_sha256 :: string
  qf_sealed_candidate_sha256 :: string
  qf_candidate_direct_imports_sha256 :: string
  qf_module_import_closure_sha256 :: string
  qf_observed_axioms :: "string list"
  qf_observed_axioms_sha256 :: string

definition query_facts_validate :: "CanonicalTypeQueryFacts \<Rightarrow> unit result" where
  "query_facts_validate q =
     bindE (parse_query_output (qf_query_output_canonical_json q)) (\<lambda>query_output.
     bindE (gate_require
         (qf_query_output_sha256 q = sha256_hexdigest (canonical_json_bytes (JObj query_output)))
       ''canonical query output text differs from its hash'') (\<lambda>_.
     bindE (forE require_sha256
         [qf_source_snapshot_sha256 q, qf_sealed_candidate_sha256 q, qf_candidate_direct_imports_sha256 q,
          qf_module_import_closure_sha256 q, qf_observed_axioms_sha256 q]) (\<lambda>_.
     bindE (gate_require
         (qf_observed_axioms q = sort (qf_observed_axioms q) \<and> distinct (qf_observed_axioms q)
          \<and> list_all (\<lambda>a. a \<noteq> [] \<and> a = py_strip a) (qf_observed_axioms q))
       ''canonical query observed axioms must be sorted, unique, trimmed names'') (\<lambda>_.
     gate_require (qf_observed_axioms_sha256 q = line_hash (JStrs (qf_observed_axioms q)))
       ''canonical query observed axiom text differs from its hash''))))"

definition query_facts_payload :: "CanonicalTypeQueryFacts \<Rightarrow> json" where
  "query_facts_payload q = JObj
     [(''query_output_canonical_json'', JStr (qf_query_output_canonical_json q)),
      (''query_output_sha256'', JStr (qf_query_output_sha256 q)),
      (''source_snapshot_sha256'', JStr (qf_source_snapshot_sha256 q)),
      (''sealed_candidate_sha256'', JStr (qf_sealed_candidate_sha256 q)),
      (''candidate_direct_imports_sha256'', JStr (qf_candidate_direct_imports_sha256 q)),
      (''module_import_closure_sha256'', JStr (qf_module_import_closure_sha256 q)),
      (''observed_axioms'', JStrs (qf_observed_axioms q)),
      (''observed_axioms_sha256'', JStr (qf_observed_axioms_sha256 q))]"

record CanonicalTypeQueryResult =
  qr_declaration :: string
  qr_canonical_type :: string
  qr_canonical_type_sha256 :: string
  qr_environment :: CanonicalTypeEnvironmentFacts
  qr_query :: CanonicalTypeQueryFacts

section \<open>Bindings and observations\<close>

record CanonicalTypeGateBinding =
  gb_contract_id :: string
  gb_revision :: int
  gb_draft_contract_hash :: DigestV1
  gb_source_hash :: DigestV1
  gb_generation_task_hash :: DigestV1
  gb_selected_statement_hash :: DigestV1
  gb_environment_hash :: DigestV1
  gb_declaration :: string
  gb_lean_version :: string
  gb_mathlib_revision :: string
  gb_lake_manifest_sha256 :: "string option"
  gb_worker_image_digest :: string
  gb_expected_elaborated_type :: string
  gb_expected_elaborated_type_hash :: DigestV1

record CanonicalTypeObservation =
  co_subject_id :: string
  co_statement_source_hash :: DigestV1
  co_declaration :: string
  co_canonical_type :: string
  co_canonical_type_hash :: DigestV1
  co_canonical_type_sha256 :: string
  co_environment_facts_sha256 :: string
  co_query :: CanonicalTypeQueryFacts

definition observation_from_result ::
  "CanonicalTypeQueryRequest \<Rightarrow> CanonicalTypeQueryResult \<Rightarrow> CanonicalTypeObservation" where
  "observation_from_result request r =
     \<lparr>co_subject_id = cq_subject_id request,
      co_statement_source_hash = cq_statement_source_hash request,
      co_declaration = qr_declaration r,
      co_canonical_type = qr_canonical_type r,
      co_canonical_type_hash = digest_text ELABORATED_TYPE (qr_canonical_type r),
      co_canonical_type_sha256 = qr_canonical_type_sha256 r,
      co_environment_facts_sha256 = environment_facts_content_sha256 (qr_environment r),
      co_query = qr_query r\<rparr>"

definition observation_payload :: "CanonicalTypeObservation \<Rightarrow> json" where
  "observation_payload b = JObj
     [(''subject_id'', JStr (co_subject_id b)),
      (''statement_source_hash'', dump_DigestV1 (co_statement_source_hash b)),
      (''declaration'', JStr (co_declaration b)),
      (''canonical_type'', JStr (co_canonical_type b)),
      (''canonical_type_hash'', dump_DigestV1 (co_canonical_type_hash b)),
      (''canonical_type_sha256'', JStr (co_canonical_type_sha256 b)),
      (''environment_facts_sha256'', JStr (co_environment_facts_sha256 b)),
      (''query'', query_facts_payload (co_query b))]"

definition assert_environment_matches_binding ::
  "CanonicalTypeEnvironmentFacts \<Rightarrow> CanonicalTypeGateBinding \<Rightarrow> unit result" where
  "assert_environment_matches_binding e b =
     gate_require
       (ef_worker_image_digest e = gb_worker_image_digest b \<and> ef_lean_version e = gb_lean_version b
        \<and> ef_mathlib_revision e = gb_mathlib_revision b
        \<and> (gb_lake_manifest_sha256 b \<noteq> None \<longrightarrow> ef_lake_manifest_sha256 e = gb_lake_manifest_sha256 b))
       ''canonical query environment differs from the contract-bound environment''"

section \<open>The raw output of a query\<close>

definition assert_scripted_query_output_binds ::
  "json_object \<Rightarrow> CanonicalTypeObservation \<Rightarrow> CanonicalTypeQueryRequest \<Rightarrow> unit result" where
  "assert_scripted_query_output_binds doc b r =
     bindE (require_exact_query_fields doc scripted_raw_fields) (\<lambda>_.
     bindE (query_names doc ''observed_axioms'') (\<lambda>axioms.
     gate_refuse
       [differs (query_text doc ''schema_version'') (Inr ''autolean.scripted-canonical-query-output.v1''),
        differs (query_text doc ''subject_id'') (Inr (cq_subject_id r)),
        bindE (query_object doc ''statement_source_hash'') (\<lambda>h.
          Inr (json_norm (JObj h) \<noteq> json_norm (dump_DigestV1 (cq_statement_source_hash r)))),
        differs (query_text doc ''declaration'') (Inr (cq_declaration r)),
        differs (query_text doc ''canonical_type'') (Inr (co_canonical_type b)),
        differs (query_sha256 doc ''canonical_type_sha256'') (Inr (co_canonical_type_sha256 b)),
        differs (query_names doc ''imports_allowlist'') (Inr (cq_imports_allowlist r)),
        differs (query_sha256 doc ''source_snapshot_sha256'') (Inr (sha256_hexdigest (utf8 (cq_statement_source r)))),
        Inr (axioms \<noteq> qf_observed_axioms (co_query b)),
        differs (query_sha256 doc ''observed_axioms_sha256'') (Inr (qf_observed_axioms_sha256 (co_query b)))]
       ''scripted raw query output is detached''))"

definition image_identity_fields :: "string list" where
  "image_identity_fields =
     [''query_helper_path'', ''query_helper_sha256'', ''schema_version'', ''wrapper_path'', ''wrapper_sha256'']"

definition assert_local_oci_query_output_binds ::
  "json_object \<Rightarrow> CanonicalTypeObservation \<Rightarrow> CanonicalTypeEnvironmentFacts \<Rightarrow> CanonicalTypeQueryRequest \<Rightarrow> unit result" where
  "assert_local_oci_query_output_binds doc b e r =
     bindE (require_exact_query_fields doc local_raw_fields) (\<lambda>_.
     bindE (query_object doc ''observation'') (\<lambda>raw.
     bindE (require_exact_query_fields raw local_observation_fields) (\<lambda>_.
     bindE (query_list raw ''declarations'') (\<lambda>declarations.
     bindE (case declarations of [JObj decl] \<Rightarrow> Inr decl
            | _ \<Rightarrow> Inl (CanonicalTypeGateError ''local OCI raw query output must contain exactly one declaration'')) (\<lambda>decl.
     bindE (require_exact_query_fields decl local_declaration_fields) (\<lambda>_.
     bindE (query_object doc ''execution_policy'') (\<lambda>policy.
     bindE (require_exact_query_fields policy local_execution_policy_fields) (\<lambda>_.
     bindE (query_list policy ''phases'') (\<lambda>phases.
     bindE (case filter is_query_phase phases of [JObj phase] \<Rightarrow> Inr phase
            | _ \<Rightarrow> Inl (CanonicalTypeGateError ''local OCI execution policy has no unique query phase'')) (\<lambda>phase.
     bindE (query_object raw ''image_identity'') (\<lambda>identity.
     bindE (require_exact_query_fields identity image_identity_fields) (\<lambda>_.
     bindE (query_names raw ''candidate_direct_imports'') (\<lambda>direct_imports.
     bindE (query_names raw ''module_import_closure'') (\<lambda>import_closure.
     bindE (query_names decl ''observed_axioms'') (\<lambda>axioms.
     bindE (render_oci_type_query_source r) (\<lambda>rendered.
     let expected_snapshot = sha256_hexdigest (utf8 rendered) in
     gate_refuse
       [differs (query_text doc ''schema_version'') (Inr (ef_query_schema_version e)),
        differs (query_text doc ''image'') (Inr (ef_image e)),
        differs (query_sha256 doc ''build_receipt_canonical_sha256'') (Inr (ef_build_receipt_canonical_sha256 e)),
        differs (query_sha256 doc ''execution_policy_sha256'') (Inr (ef_execution_policy_sha256 e)),
        Inr (line_hash (JObj policy) \<noteq> ef_execution_policy_sha256 e),
        differs (query_text policy ''image'') (Inr (ef_image e)),
        differs (query_text policy ''schema_version'') (Inr ''autolean.mathlib-declaration-execution-policy.v1''),
        Inr (get_value phase ''declarations'' \<noteq> JList [JStr (cq_declaration r)]),
        Inr (get_value phase ''protocol'' \<noteq> JStr (ef_query_protocol e)),
        differs (query_sha256 doc ''source_inputs_sha256'') (Inr (ef_source_inputs_sha256 e)),
        differs (query_sha256 doc ''source_snapshot_sha256'') (Inr expected_snapshot),
        differs (query_sha256 doc ''source_snapshot_sha256'') (Inr (qf_source_snapshot_sha256 (co_query b))),
        differs (query_sha256 doc ''sealed_candidate_sha256'') (Inr (qf_sealed_candidate_sha256 (co_query b))),
        Inr (sha256_hexdigest (canonical_json_bytes (JObj identity)) \<noteq> ef_query_identity_sha256 e),
        differs (query_text identity ''schema_version'') (Inr ''autolean.image-owned-declaration-query-identity.v1''),
        differs (query_text identity ''query_helper_path'') (Inr ''/opt/autolean/lib/AutoleanMathlibDeclarationQuery.lean''),
        differs (query_text identity ''wrapper_path'') (Inr ''/opt/autolean/bin/autolean-mathlib-declaration-query''),
        Inr (line_hash (JStrs direct_imports) \<noteq> qf_candidate_direct_imports_sha256 (co_query b)),
        differs (query_sha256 raw ''candidate_direct_imports_sha256'') (Inr (qf_candidate_direct_imports_sha256 (co_query b))),
        Inr (line_hash (JStrs import_closure) \<noteq> qf_module_import_closure_sha256 (co_query b)),
        differs (query_sha256 raw ''module_import_closure_sha256'') (Inr (qf_module_import_closure_sha256 (co_query b))),
        Inr (\<not> set direct_imports \<subseteq> set import_closure),
        Inr (''Candidate'' \<notin> set import_closure),
        Inr (\<not> set (cq_imports_allowlist r) \<subseteq> set direct_imports),
        Inr (\<not> set direct_imports \<subseteq> set (cq_imports_allowlist r) \<union> {''Init''}),
        differs (query_text decl ''declaration'') (Inr (co_declaration b)),
        differs (query_text decl ''canonical_type'') (Inr (co_canonical_type b)),
        differs (query_sha256 decl ''canonical_type_sha256'') (Inr (co_canonical_type_sha256 b)),
        Inr (axioms \<noteq> qf_observed_axioms (co_query b)),
        differs (query_sha256 decl ''observed_axioms_sha256'') (Inr (qf_observed_axioms_sha256 (co_query b)))]
       ''local OCI raw query output is detached''))))))))))))))))"

definition assert_raw_query_output_binds ::
  "CanonicalTypeObservation \<Rightarrow> CanonicalTypeEnvironmentFacts \<Rightarrow> CanonicalTypeQueryRequest \<Rightarrow> unit result" where
  "assert_raw_query_output_binds b e r =
     bindE (parse_query_output (qf_query_output_canonical_json (co_query b))) (\<lambda>doc.
     case ef_assurance e of
       SCRIPTED_FAKE \<Rightarrow> assert_scripted_query_output_binds doc b r
     | LOCAL_OCI_PREFREEZE \<Rightarrow> assert_local_oci_query_output_binds doc b e r)"

end
