(* ===== verification/TypeGateRun.thy ===== *)
theory TypeGateRun
  imports TypeGate
begin

text \<open>
  \<open>canonical_type_gate.py\<close>, second part: the evidence of one gate execution, the gate that
  queries the reference and every candidate, and the record of the selected statement that
  Builder hands on; with the scripted query of \<open>testing.py\<close>. Shown: evidence exists only if
  every freshly queried candidate has, to the letter, the type bound by the contract.
\<close>

section \<open>Evidence\<close>

record CanonicalTypeGateEvidence =
  ge_contract_id :: string
  ge_revision :: int
  ge_draft_contract_hash :: DigestV1
  ge_source_hash :: DigestV1
  ge_generation_task_hash :: DigestV1
  ge_selected_statement_hash :: DigestV1
  ge_environment_hash :: DigestV1
  ge_expected_elaborated_type_hash :: DigestV1
  ge_environment :: CanonicalTypeEnvironmentFacts
  ge_reference :: CanonicalTypeObservation
  ge_candidates :: "CanonicalTypeObservation list"
  ge_promotion_authority :: bool

definition assert_requests_bind_binding ::
  "CanonicalTypeGateBinding \<Rightarrow> CanonicalTypeQueryRequest \<Rightarrow> CanonicalTypeQueryRequest list \<Rightarrow> unit result" where
  "assert_requests_bind_binding b reference candidates =
     gate_require
       (cq_subject_id reference = ''contract-selected-reference''
        \<and> cq_statement_source_hash reference = gb_selected_statement_hash b
        \<and> cq_declaration reference = gb_declaration b
        \<and> list_all (\<lambda>request. cq_declaration request = gb_declaration b) candidates)
       ''canonical type query request differs from the contract binding''"

definition assert_observation_binds_request ::
  "CanonicalTypeObservation \<Rightarrow> CanonicalTypeQueryRequest \<Rightarrow> CanonicalTypeEnvironmentFacts \<Rightarrow> unit result" where
  "assert_observation_binds_request b r e =
     bindE (query_facts_validate (co_query b)) (\<lambda>_.
     bindE (gate_require
         (co_subject_id b = cq_subject_id r \<and> co_statement_source_hash b = cq_statement_source_hash r
          \<and> co_declaration b = cq_declaration r
          \<and> co_environment_facts_sha256 b = environment_facts_content_sha256 e
          \<and> co_canonical_type_hash b = digest_text ELABORATED_TYPE (co_canonical_type b)
          \<and> co_canonical_type_sha256 b = sha256_hexdigest (utf8 (co_canonical_type b)))
       ''canonical type observation is detached from its request'') (\<lambda>_.
     assert_raw_query_output_binds b e r))"

definition assert_observation_binds_requestless ::
  "CanonicalTypeObservation \<Rightarrow> CanonicalTypeEnvironmentFacts \<Rightarrow> unit result" where
  "assert_observation_binds_requestless b e =
     bindE (query_facts_validate (co_query b)) (\<lambda>_.
     gate_require
       (co_environment_facts_sha256 b = environment_facts_content_sha256 e
        \<and> co_canonical_type_hash b = digest_text ELABORATED_TYPE (co_canonical_type b)
        \<and> co_canonical_type_sha256 b = sha256_hexdigest (utf8 (co_canonical_type b)))
       ''Builder statement observation is internally detached'')"

definition gate_evidence_assert_binds ::
  "CanonicalTypeGateEvidence \<Rightarrow> CanonicalTypeGateBinding \<Rightarrow> CanonicalTypeQueryRequest
     \<Rightarrow> CanonicalTypeQueryRequest list \<Rightarrow> unit result" where
  "gate_evidence_assert_binds ev b reference candidates =
     bindE (gate_require (\<not> ge_promotion_authority ev)
       ''canonical type evidence cannot claim promotion authority'') (\<lambda>_.
     bindE (gate_require
         (ge_contract_id ev = gb_contract_id b \<and> ge_revision ev = gb_revision b
          \<and> ge_draft_contract_hash ev = gb_draft_contract_hash b \<and> ge_source_hash ev = gb_source_hash b
          \<and> ge_generation_task_hash ev = gb_generation_task_hash b
          \<and> ge_selected_statement_hash ev = gb_selected_statement_hash b
          \<and> ge_environment_hash ev = gb_environment_hash b
          \<and> ge_expected_elaborated_type_hash ev = gb_expected_elaborated_type_hash b)
       ''canonical type gate evidence is bound to another Builder task'') (\<lambda>_.
     bindE (environment_facts_validate (ge_environment ev)) (\<lambda>_.
     bindE (assert_environment_matches_binding (ge_environment ev) b) (\<lambda>_.
     bindE (gate_require (length (ge_candidates ev) = length candidates)
       ''canonical type gate candidate evidence count differs from the task'') (\<lambda>_.
     bindE (assert_requests_bind_binding b reference candidates) (\<lambda>_.
     bindE (assert_observation_binds_request (ge_reference ev) reference (ge_environment ev)) (\<lambda>_.
     bindE (gate_require
         (co_canonical_type (ge_reference ev) = gb_expected_elaborated_type b
          \<and> co_canonical_type_hash (ge_reference ev) = gb_expected_elaborated_type_hash b)
       ''fresh reference canonical type drifted from the contract-bound value'') (\<lambda>_.
     forE (\<lambda>(observation, request).
       bindE (assert_observation_binds_request observation request (ge_environment ev)) (\<lambda>_.
       gate_require
         (co_canonical_type observation = co_canonical_type (ge_reference ev)
          \<and> co_canonical_type_hash observation = co_canonical_type_hash (ge_reference ev)
          \<and> co_canonical_type_sha256 observation = co_canonical_type_sha256 (ge_reference ev))
         ''candidate canonical type differs from the reference''))
       (zip (ge_candidates ev) candidates)))))))))"

definition gate_evidence_payload :: "CanonicalTypeGateEvidence \<Rightarrow> json" where
  "gate_evidence_payload ev = JObj
     [(''schema_version'', JStr ''autolean.builder-canonical-type-gate.v1''),
      (''claim'', JStr ''exact_canonical_printer_text_identity''),
      (''definitional_equivalence_claimed'', JBool False),
      (''semantic_equivalence_claimed'', JBool False),
      (''promotion_authority'', JBool (ge_promotion_authority ev)),
      (''contract_id'', JStr (ge_contract_id ev)),
      (''revision'', JInt (ge_revision ev)),
      (''draft_contract_hash'', dump_DigestV1 (ge_draft_contract_hash ev)),
      (''source_hash'', dump_DigestV1 (ge_source_hash ev)),
      (''generation_task_hash'', dump_DigestV1 (ge_generation_task_hash ev)),
      (''selected_statement_hash'', dump_DigestV1 (ge_selected_statement_hash ev)),
      (''environment_hash'', dump_DigestV1 (ge_environment_hash ev)),
      (''expected_elaborated_type_hash'', dump_DigestV1 (ge_expected_elaborated_type_hash ev)),
      (''environment'', environment_facts_payload (ge_environment ev)),
      (''reference'', observation_payload (ge_reference ev)),
      (''candidates'', JList (map observation_payload (ge_candidates ev)))]"

definition gate_evidence_record_hash :: "CanonicalTypeGateEvidence \<Rightarrow> DigestV1" where
  "gate_evidence_record_hash ev = digest_bytes FREEZE_EVIDENCE (canonical_json_bytes (gate_evidence_payload ev))"

text \<open>Decoding the canonical bytes as ASCII gives the canonical text.\<close>

definition automatic_evidence :: "CanonicalTypeGateEvidence \<Rightarrow> string" where
  "automatic_evidence ev = canonical_json (JObj
     [(''schema_version'', JStr ''autolean.builder-canonical-type-check.v1''),
      (''record'', gate_evidence_payload ev),
      (''record_hash'', dump_DigestV1 (gate_evidence_record_hash ev))])"

section \<open>The gate\<close>

text \<open>
  A query compiles and inspects a declaration outside the program. It is a parameter: its
  answer to a request may depend on the number of calls made before. It may raise, or return
  something that is not a query result.
\<close>

datatype query_outcome =
    QueryRaises string
  | QueryReturnsOther
  | QueryReturns CanonicalTypeQueryResult

type_synonym canonical_type_query = "nat \<Rightarrow> CanonicalTypeQueryRequest \<Rightarrow> query_outcome"

definition run_query :: "canonical_type_query \<Rightarrow> nat \<Rightarrow> CanonicalTypeQueryRequest \<Rightarrow> CanonicalTypeQueryResult result" where
  "run_query query n request =
     (case query n request of
        QueryRaises m \<Rightarrow> Inl (CanonicalTypeGateError ''canonical type query failed'')
      | QueryReturnsOther \<Rightarrow> Inl (CanonicalTypeGateError ''canonical type query returned an invalid result'')
      | QueryReturns r \<Rightarrow> Inr r)"

definition validate_query_result ::
  "CanonicalTypeQueryResult \<Rightarrow> CanonicalTypeQueryRequest \<Rightarrow> CanonicalTypeGateBinding \<Rightarrow> unit result" where
  "validate_query_result r request b =
     bindE (environment_facts_validate (qr_environment r)) (\<lambda>_.
     bindE (query_facts_validate (qr_query r)) (\<lambda>_.
     bindE (assert_environment_matches_binding (qr_environment r) b) (\<lambda>_.
     bindE (gate_require (qr_declaration r = cq_declaration request)
       ''canonical query returned another declaration'') (\<lambda>_.
     bindE (gate_require
         (qr_canonical_type r \<noteq> [] \<and> length (qr_canonical_type r) \<le> 1000000
          \<and> \<not> list_ex (\<lambda>c. c \<in> set (qr_canonical_type r)) [CHR 0x00, CHR 0x0A, CHR 0x0D])
       ''canonical query returned invalid type text'') (\<lambda>_.
     bindE (gate_require (qr_canonical_type_sha256 r = sha256_hexdigest (utf8 (qr_canonical_type r)))
       ''canonical query type text/hash mismatch'') (\<lambda>_.
     assert_raw_query_output_binds (observation_from_result request r) (qr_environment r) request))))))"

text \<open>The loop over the candidates; the reference was call 0, the next candidate is call \<open>n\<close>.\<close>

fun observe_candidates ::
  "canonical_type_query \<Rightarrow> CanonicalTypeGateBinding \<Rightarrow> CanonicalTypeQueryResult \<Rightarrow> nat
     \<Rightarrow> CanonicalTypeQueryRequest list \<Rightarrow> CanonicalTypeObservation list result" where
  "observe_candidates query b ref n [] = Inr []"
| "observe_candidates query b ref n (request # requests) =
     bindE (run_query query n request) (\<lambda>r.
     bindE (validate_query_result r request b) (\<lambda>_.
     bindE (gate_require (qr_environment r = qr_environment ref)
       ''candidate query environment differs from the reference'') (\<lambda>_.
     bindE (gate_require
         (qr_canonical_type r = qr_canonical_type ref \<and> qr_canonical_type_sha256 r = qr_canonical_type_sha256 ref)
       ''candidate canonical type differs from the reference'') (\<lambda>_.
     bindE (observe_candidates query b ref (Suc n) requests) (\<lambda>observations.
     Inr (observation_from_result request r # observations))))))"

definition run_canonical_type_gate ::
  "canonical_type_query \<Rightarrow> CanonicalTypeGateBinding \<Rightarrow> CanonicalTypeQueryRequest
     \<Rightarrow> CanonicalTypeQueryRequest list \<Rightarrow> CanonicalTypeGateEvidence result" where
  "run_canonical_type_gate query b reference candidates =
     bindE (gate_require (\<not> length candidates < 2)
       ''canonical type gate requires at least two independent candidates'') (\<lambda>_.
     bindE (assert_requests_bind_binding b reference candidates) (\<lambda>_.
     bindE (run_query query 0 reference) (\<lambda>ref.
     bindE (validate_query_result ref reference b) (\<lambda>_.
     bindE (gate_require
         (qr_canonical_type ref = gb_expected_elaborated_type b
          \<and> digest_text ELABORATED_TYPE (qr_canonical_type ref) = gb_expected_elaborated_type_hash b)
       ''fresh reference canonical type drifted from the contract-bound value'') (\<lambda>_.
     bindE (observe_candidates query b ref 1 candidates) (\<lambda>observations.
     let evidence =
       \<lparr>ge_contract_id = gb_contract_id b, ge_revision = gb_revision b,
        ge_draft_contract_hash = gb_draft_contract_hash b, ge_source_hash = gb_source_hash b,
        ge_generation_task_hash = gb_generation_task_hash b,
        ge_selected_statement_hash = gb_selected_statement_hash b,
        ge_environment_hash = gb_environment_hash b,
        ge_expected_elaborated_type_hash = gb_expected_elaborated_type_hash b,
        ge_environment = qr_environment ref,
        ge_reference = observation_from_result reference ref,
        ge_candidates = observations,
        ge_promotion_authority = False\<rparr>
     in bindE (gate_evidence_assert_binds evidence b reference candidates) (\<lambda>_. Inr evidence)))))))"

section \<open>The observation of the selected statement\<close>

record BuilderStatementObservationEvidence =
  so_contract_id :: string
  so_revision :: int
  so_contract_hash :: DigestV1
  so_selected_statement_hash :: DigestV1
  so_environment_hash :: DigestV1
  so_declaration :: string
  so_observation :: CanonicalTypeObservation
  so_environment :: CanonicalTypeEnvironmentFacts
  so_carrier_non_proof :: bool
  so_promotion_authority :: bool
  so_prover_submission_eligible :: bool
  so_public_protocol_command :: string

definition from_gate_evidence :: "CanonicalTypeGateEvidence \<Rightarrow> DigestV1 \<Rightarrow> BuilderStatementObservationEvidence" where
  "from_gate_evidence ev contract_hash =
     \<lparr>so_contract_id = ge_contract_id ev, so_revision = ge_revision ev, so_contract_hash = contract_hash,
      so_selected_statement_hash = ge_selected_statement_hash ev, so_environment_hash = ge_environment_hash ev,
      so_declaration = co_declaration (ge_reference ev), so_observation = ge_reference ev,
      so_environment = ge_environment ev, so_carrier_non_proof = True, so_promotion_authority = False,
      so_prover_submission_eligible = False, so_public_protocol_command = ''builder_statement_observation''\<rparr>"

definition assert_internal_only :: "BuilderStatementObservationEvidence \<Rightarrow> unit result" where
  "assert_internal_only x =
     bindE (gate_require
         (so_carrier_non_proof x \<and> \<not> so_promotion_authority x \<and> \<not> so_prover_submission_eligible x
          \<and> so_public_protocol_command x = ''builder_statement_observation'')
       ''Builder statement observation cannot be promoted as proof evidence'') (\<lambda>_.
     bindE (require_digest_kind (so_contract_hash x) CONTRACT) (\<lambda>_.
     bindE (require_digest_kind (so_selected_statement_hash x) STATEMENT_SOURCE) (\<lambda>_.
     bindE (require_digest_kind (so_environment_hash x) ENVIRONMENT) (\<lambda>_.
     bindE (environment_facts_validate (so_environment x)) (\<lambda>_.
     bindE (assert_observation_binds_requestless (so_observation x) (so_environment x)) (\<lambda>_.
     gate_require
       (co_statement_source_hash (so_observation x) = so_selected_statement_hash x
        \<and> co_declaration (so_observation x) = so_declaration x
        \<and> co_environment_facts_sha256 (so_observation x) = environment_facts_content_sha256 (so_environment x))
       ''Builder statement observation is detached from its frozen boundary''))))))"

definition assert_binds_frozen_contract ::
  "BuilderStatementObservationEvidence \<Rightarrow> string \<Rightarrow> int \<Rightarrow> DigestV1 \<Rightarrow> DigestV1 \<Rightarrow> DigestV1 \<Rightarrow> string
     \<Rightarrow> DigestV1 \<Rightarrow> unit result" where
  "assert_binds_frozen_contract x contract_id revision contract_hash selected_statement_hash environment_hash
     declaration expected_elaborated_type_hash =
     bindE (assert_internal_only x) (\<lambda>_.
     bindE (require_digest_kind expected_elaborated_type_hash ELABORATED_TYPE) (\<lambda>_.
     gate_require
       (so_contract_id x = contract_id \<and> so_revision x = revision \<and> so_contract_hash x = contract_hash
        \<and> so_selected_statement_hash x = selected_statement_hash \<and> so_environment_hash x = environment_hash
        \<and> so_declaration x = declaration
        \<and> co_canonical_type_hash (so_observation x) = expected_elaborated_type_hash)
       ''Builder statement observation does not bind the frozen Prover boundary''))"

definition statement_observation_payload :: "BuilderStatementObservationEvidence \<Rightarrow> json result" where
  "statement_observation_payload x =
     bindE (assert_internal_only x) (\<lambda>_. Inr (JObj
       [(''schema_version'', JStr ''autolean.builder-statement-observation-evidence.v1''),
        (''authority'', JStr ''builder_internal_prefreeze_observation''),
        (''carrier_non_proof'', JBool (so_carrier_non_proof x)),
        (''promotion_authority'', JBool (so_promotion_authority x)),
        (''prover_submission_eligible'', JBool (so_prover_submission_eligible x)),
        (''public_protocol_command'', JStr (so_public_protocol_command x)),
        (''contract_id'', JStr (so_contract_id x)),
        (''revision'', JInt (so_revision x)),
        (''contract_hash'', dump_DigestV1 (so_contract_hash x)),
        (''selected_statement_hash'', dump_DigestV1 (so_selected_statement_hash x)),
        (''environment_hash'', dump_DigestV1 (so_environment_hash x)),
        (''declaration'', JStr (so_declaration x)),
        (''canonical_type_hash'', dump_DigestV1 (co_canonical_type_hash (so_observation x))),
        (''canonical_type_sha256'', JStr (co_canonical_type_sha256 (so_observation x))),
        (''environment'', environment_facts_payload (so_environment x)),
        (''observation'', observation_payload (so_observation x))]))"

definition statement_observation_record_hash :: "BuilderStatementObservationEvidence \<Rightarrow> DigestV1 result" where
  "statement_observation_record_hash x =
     bindE (statement_observation_payload x) (\<lambda>payload.
     Inr (digest_bytes FREEZE_EVIDENCE (canonical_json_bytes payload)))"

section \<open>The scripted query\<close>

record ScriptedCanonicalTypeQuery =
  st_canonical_types_by_statement_sha256 :: "(string \<times> string) list"
  st_worker_image_digest :: string
  st_lean_version :: string
  st_mathlib_revision :: string
  st_lake_manifest_sha256 :: "string option"
  st_fixture_id :: string

definition text_sha256 :: "string \<Rightarrow> string" where
  "text_sha256 v = sha256_hexdigest (utf8 v)"

definition scripted_output :: "CanonicalTypeQueryRequest \<Rightarrow> string \<Rightarrow> json" where
  "scripted_output r canonical_type = JObj
     [(''canonical_type'', JStr canonical_type),
      (''canonical_type_sha256'', JStr (text_sha256 canonical_type)),
      (''declaration'', JStr (cq_declaration r)),
      (''imports_allowlist'', JStrs (cq_imports_allowlist r)),
      (''observed_axioms'', JStrs []),
      (''observed_axioms_sha256'', JStr (text_sha256 (''[]'' @ [CHR 0x0A]))),
      (''schema_version'', JStr ''autolean.scripted-canonical-query-output.v1''),
      (''source_snapshot_sha256'', JStr (text_sha256 (cq_statement_source r))),
      (''statement_source_hash'', dump_DigestV1 (cq_statement_source_hash r)),
      (''subject_id'', JStr (cq_subject_id r))]"

definition scripted_environment :: "ScriptedCanonicalTypeQuery \<Rightarrow> CanonicalTypeEnvironmentFacts" where
  "scripted_environment s =
     \<lparr>ef_assurance = SCRIPTED_FAKE,
      ef_adapter_id = ''autolean_builder.testing.ScriptedCanonicalTypeQuery'',
      ef_image = ''autolean/scripted-builder-query@'' @ st_worker_image_digest s,
      ef_worker_image_digest = st_worker_image_digest s,
      ef_lean_version = st_lean_version s, ef_mathlib_revision = st_mathlib_revision s,
      ef_lake_manifest_sha256 = st_lake_manifest_sha256 s,
      ef_type_format = ''autolean.lean-pp-expr.v1'',
      ef_query_schema_version = ''autolean.scripted-canonical-query.v1'',
      ef_query_protocol = ''autolean.scripted-canonical-query.v1'',
      ef_query_identity_sha256 = text_sha256 (st_fixture_id s @ '':query-identity''),
      ef_build_receipt_canonical_sha256 = text_sha256 (st_fixture_id s @ '':build-receipt''),
      ef_execution_policy_sha256 = text_sha256 (st_fixture_id s @ '':execution-policy''),
      ef_source_inputs_sha256 = text_sha256 (st_fixture_id s @ '':source-inputs''),
      ef_source_rendering_profile = ''autolean.scripted-header.v1''\<rparr>"

definition scripted_query :: "ScriptedCanonicalTypeQuery \<Rightarrow> canonical_type_query" where
  "scripted_query s n r =
     (case map_of (dict_of (st_canonical_types_by_statement_sha256 s)) (dg_value (cq_statement_source_hash r)) of
        None \<Rightarrow> QueryRaises ''scripted canonical query has no result for the statement hash''
      | Some canonical_type \<Rightarrow>
          let identity = st_fixture_id s @ '':'' @ cq_subject_id r;
              output = canonical_json (scripted_output r canonical_type)
          in QueryReturns
            \<lparr>qr_declaration = cq_declaration r,
             qr_canonical_type = canonical_type,
             qr_canonical_type_sha256 = text_sha256 canonical_type,
             qr_environment = scripted_environment s,
             qr_query =
               \<lparr>qf_query_output_canonical_json = output,
                qf_query_output_sha256 = text_sha256 output,
                qf_source_snapshot_sha256 = text_sha256 (cq_statement_source r),
                qf_sealed_candidate_sha256 = text_sha256 (identity @ '':sealed-candidate''),
                qf_candidate_direct_imports_sha256 = text_sha256 (st_fixture_id s @ '':direct-imports''),
                qf_module_import_closure_sha256 = text_sha256 (st_fixture_id s @ '':import-closure''),
                qf_observed_axioms = [],
                qf_observed_axioms_sha256 = text_sha256 (''[]'' @ [CHR 0x0A])\<rparr>\<rparr>)"

section \<open>What the gate shows\<close>

lemma run_query_Inr [result_simps]: "run_query query n r = Inr x \<longleftrightarrow> query n r = QueryReturns x"
  by (auto simp: run_query_def split: query_outcome.splits)

lemma observe_candidates_Inr:
  "observe_candidates query b ref n requests = Inr os \<Longrightarrow>
     length os = length requests \<and>
     (\<forall>i < length requests. \<exists>r. query (n + i) (requests ! i) = QueryReturns r \<and>
        qr_environment r = qr_environment ref \<and> qr_canonical_type r = qr_canonical_type ref \<and>
        os ! i = observation_from_result (requests ! i) r)"
proof (induction requests arbitrary: n os)
  case (Cons request requests)
  then obtain r rest where r: "query n request = QueryReturns r" "qr_environment r = qr_environment ref"
      "qr_canonical_type r = qr_canonical_type ref"
    and os: "os = observation_from_result request r # rest"
    and rest: "observe_candidates query b ref (Suc n) requests = Inr rest"
    by (auto simp: result_simps)
  show ?case
    using Cons.IH [OF rest] r os by (auto simp: nth_Cons split: nat.splits)
qed simp

lemma run_canonical_type_gate_Inr:
  assumes "run_canonical_type_gate query b reference candidates = Inr ev"
  shows "\<exists>ref. query 0 reference = QueryReturns ref \<and>
    validate_query_result ref reference b = Inr () \<and>
    qr_canonical_type ref = gb_expected_elaborated_type b \<and>
    2 \<le> length candidates \<and>
    observe_candidates query b ref 1 candidates = Inr (ge_candidates ev) \<and>
    ge_environment ev = qr_environment ref \<and> ge_reference ev = observation_from_result reference ref \<and>
    \<not> ge_promotion_authority ev \<and>
    gate_evidence_assert_binds ev b reference candidates = Inr ()"
  using assms by (auto simp: run_canonical_type_gate_def Let_def result_simps)

end
