(* ===== verification/Harness.thy ===== *)
theory Harness
  imports TypeGateRun
begin

text \<open>
  \<open>fidelity_harness.py\<close>, first part: the claims, obligations and tasks given to translation
  agents, their proposals and the candidates bound to them, the verdicts of a reviewer, and the
  checks over each of them. Failed checks are \<open>FidelityHarnessError\<close>s.
\<close>

definition harness_require :: "bool \<Rightarrow> string \<Rightarrow> unit result" where
  "harness_require ok m = require ok (FidelityHarnessError m)"

lemma harness_require_Inr [result_simps]: "harness_require ok m = Inr u \<longleftrightarrow> ok"
  by (simp add: harness_require_def result_simps)

section \<open>Source claims and obligations\<close>

definition required_mutations :: "MutationKindV1 list" where
  "required_mutations =
     [MK_DROP_ASSUMPTION, MK_SWAP_QUANTIFIERS, MK_WEAKEN_RELATION, MK_REMOVE_SIDE_CONDITION, MK_DROP_NONEMPTY,
      MK_DROP_FINITE, MK_DROP_NOETHERIAN, MK_REVERSE_PARAMETERS, MK_VACUITY]"

datatype EvidenceAuthority = EA_AUTOMATIC | EA_EXPERT

fun EvidenceAuthority_value :: "EvidenceAuthority \<Rightarrow> string" where
  "EvidenceAuthority_value EA_AUTOMATIC = ''automatic''"
| "EvidenceAuthority_value EA_EXPERT = ''expert''"

datatype SemanticObligationKind =
    OB_QUANTIFIER_ORDER | OB_ASSUMPTION | OB_CONCLUSION | OB_SIDE_CONDITION | OB_DEFINITION
  | OB_EDGE_CASE | OB_NON_VACUITY

fun SemanticObligationKind_value :: "SemanticObligationKind \<Rightarrow> string" where
  "SemanticObligationKind_value OB_QUANTIFIER_ORDER = ''quantifier_order''"
| "SemanticObligationKind_value OB_ASSUMPTION = ''assumption''"
| "SemanticObligationKind_value OB_CONCLUSION = ''conclusion''"
| "SemanticObligationKind_value OB_SIDE_CONDITION = ''side_condition''"
| "SemanticObligationKind_value OB_DEFINITION = ''definition''"
| "SemanticObligationKind_value OB_EDGE_CASE = ''edge_case''"
| "SemanticObligationKind_value OB_NON_VACUITY = ''non_vacuity''"

record SourceClaimSpan =
  cl_span_id :: StableIdentifierV1
  cl_locator :: string
  cl_content_hash :: DigestV1
  cl_permitted_excerpt :: string

definition SourceClaimSpan_init :: "SourceClaimSpan \<Rightarrow> SourceClaimSpan result" where
  "SourceClaimSpan_init x =
     bindE (harness_require (nonblank (cl_locator x) \<and> nonblank (cl_permitted_excerpt x))
       ''statement translation requires a located, permitted source excerpt'') (\<lambda>_.
     bindE (harness_require (cl_content_hash x = digest_text SOURCE_SPAN (cl_permitted_excerpt x))
       ''statement translation excerpt differs from its public span hash'') (\<lambda>_. Inr x))"

definition source_claim_payload :: "SourceClaimSpan \<Rightarrow> json" where
  "source_claim_payload x = JObj
     [(''span_id'', JStr (si_value (cl_span_id x))),
      (''locator'', JStr (cl_locator x)),
      (''content_hash'', dump_DigestV1 (cl_content_hash x)),
      (''permitted_excerpt'', JStr (cl_permitted_excerpt x))]"

definition claim_matches_span :: "SourceClaimSpan \<Rightarrow> SourceSpanV1 \<Rightarrow> bool" where
  "claim_matches_span claim public \<longleftrightarrow>
     cl_locator claim = ss_locator public \<and> cl_content_hash claim = ss_content_hash public \<and>
     opt_all (\<lambda>e. cl_permitted_excerpt claim = e) (ss_permitted_excerpt public)"

definition assert_source_claims_bind_contract :: "StatementContractV1 \<Rightarrow> SourceClaimSpan list \<Rightarrow> unit result" where
  "assert_source_claims_bind_contract c claims =
     (let contract_spans = dict_of (map (\<lambda>span. (ss_span_id span, span)) (sr_spans (sc_source c)));
          claim_spans = dict_of (map (\<lambda>span. (cl_span_id span, span)) claims)
      in bindE (harness_require
           (length claim_spans = length claims \<and> claim_spans \<noteq> []
            \<and> set (map fst claim_spans) = set (map fst contract_spans))
           ''private source claims differ from the public contract span set'') (\<lambda>_.
         forE (\<lambda>(span_id, claim).
           case map_of contract_spans span_id of
             None \<Rightarrow> Inl (KeyError ''span'')
           | Some public_span \<Rightarrow> harness_require (claim_matches_span claim public_span)
               ''private source claim differs from its public contract span binding'') claim_spans))"

record SemanticObligation =
  so_obligation_id :: string
  so_kind :: SemanticObligationKind
  so_description :: string
  so_source_span_ids :: "StableIdentifierV1 list"
  so_normalized_fragment :: string
  so_lean_fragment :: string
  so_authority :: EvidenceAuthority

definition SemanticObligation_init :: "SemanticObligation \<Rightarrow> SemanticObligation result" where
  "SemanticObligation_init x =
     bindE (harness_require (nonblank (so_obligation_id x)) ''semantic obligation identifiers must not be empty'') (\<lambda>_.
     bindE (harness_require (nonblank (so_description x)) ''semantic obligation descriptions must not be empty'') (\<lambda>_.
     bindE (harness_require (so_source_span_ids x \<noteq> []) ''semantic obligations must cite at least one source span'') (\<lambda>_.
     bindE (harness_require (distinct (so_source_span_ids x)) ''semantic obligation source span identifiers must be unique'') (\<lambda>_.
     bindE (harness_require (nonblank (so_normalized_fragment x) \<and> nonblank (so_lean_fragment x))
       ''semantic obligations require normalized and Lean target fragments'') (\<lambda>_.
     bindE (harness_require (so_authority x = EA_EXPERT) ''semantic obligations always require expert judgement'') (\<lambda>_.
     Inr x))))))"

definition semantic_obligation_payload :: "SemanticObligation \<Rightarrow> json" where
  "semantic_obligation_payload x = JObj
     [(''obligation_id'', JStr (so_obligation_id x)),
      (''kind'', JStr (SemanticObligationKind_value (so_kind x))),
      (''description'', JStr (so_description x)),
      (''source_span_ids'', JStrs (map si_value (so_source_span_ids x))),
      (''normalized_fragment'', JStr (so_normalized_fragment x)),
      (''lean_fragment'', JStr (so_lean_fragment x)),
      (''authority'', JStr (EvidenceAuthority_value (so_authority x)))]"

section \<open>The translation task\<close>

record TranslationTask =
  tt_contract_id :: StableIdentifierV1
  tt_revision :: int
  tt_draft_contract_hash :: DigestV1
  tt_source_hash :: DigestV1
  tt_source_spans :: "SourceClaimSpan list"
  tt_informal_statement :: string
  tt_normalized_statement :: string
  tt_normalized_statement_sha256 :: string
  tt_selected_lean_statement :: string
  tt_selected_statement_hash :: DigestV1
  tt_obligations :: "SemanticObligation list"

definition obligation_fits :: "TranslationTask \<Rightarrow> SemanticObligation \<Rightarrow> unit result" where
  "obligation_fits task x =
     bindE (harness_require (set (so_source_span_ids x) \<subseteq> set (map cl_span_id (tt_source_spans task)))
       ''semantic obligation cites an unknown source span'') (\<lambda>_.
     bindE (harness_require (py_contains (so_normalized_fragment x) (tt_normalized_statement task))
       ''normalized obligation fragment is absent'') (\<lambda>_.
     harness_require (py_contains (so_lean_fragment x) (tt_selected_lean_statement task))
       ''Lean obligation fragment is absent''))"

definition required_obligation_kinds :: "MathematicalSpecificationV1 \<Rightarrow> SemanticObligationKind list" where
  "required_obligation_kinds m =
     [OB_QUANTIFIER_ORDER, OB_CONCLUSION, OB_NON_VACUITY]
     @ (if ms_assumptions m = [] then [] else [OB_ASSUMPTION])
     @ (if ms_definitions m = [] then [] else [OB_DEFINITION])
     @ (if ms_edge_cases m = [] then [] else [OB_EDGE_CASE])"

definition validate_obligations :: "TranslationTask \<Rightarrow> StatementContractV1 \<Rightarrow> unit result" where
  "validate_obligations task c =
     bindE (harness_require (tt_obligations task \<noteq> []) ''at least one semantic obligation is required'') (\<lambda>_.
     bindE (harness_require (distinct (map so_obligation_id (tt_obligations task)))
       ''semantic obligation identifiers must be unique'') (\<lambda>_.
     bindE (forE (obligation_fits task) (tt_obligations task)) (\<lambda>_.
     harness_require
       (set (required_obligation_kinds (sc_mathematics c)) \<subseteq> set (map so_kind (tt_obligations task)))
       ''missing semantic obligation kinds'')))"

definition claims_of_contract :: "StatementContractV1 \<Rightarrow> SourceClaimSpan list result" where
  "claims_of_contract c = map_resultE (\<lambda>span. SourceClaimSpan_init
     \<lparr>cl_span_id = ss_span_id span, cl_locator = ss_locator span, cl_content_hash = ss_content_hash span,
      cl_permitted_excerpt = (case ss_permitted_excerpt span of None \<Rightarrow> [] | Some e \<Rightarrow> e)\<rparr>)
     (sr_spans (sc_source c))"

definition task_of_contract ::
  "StatementContractV1 \<Rightarrow> SemanticObligation list \<Rightarrow> SourceClaimSpan list \<Rightarrow> TranslationTask" where
  "task_of_contract c obligations spans =
     \<lparr>tt_contract_id = sc_contract_id c, tt_revision = sc_revision c, tt_draft_contract_hash = semantic_hash c,
      tt_source_hash = sr_content_hash (sc_source c), tt_source_spans = spans,
      tt_informal_statement = ms_informal_statement (sc_mathematics c),
      tt_normalized_statement = ms_normalized_statement (sc_mathematics c),
      tt_normalized_statement_sha256 = sha256_hexdigest (utf8 (ms_normalized_statement (sc_mathematics c))),
      tt_selected_lean_statement = fs_lean_statement_source (sc_formal c),
      tt_selected_statement_hash = fs_statement_source_hash (sc_formal c),
      tt_obligations = obligations\<rparr>"

definition TranslationTask_from_contract ::
  "StatementContractV1 \<Rightarrow> SemanticObligation list \<Rightarrow> SourceClaimSpan list option \<Rightarrow> TranslationTask result" where
  "TranslationTask_from_contract c obligations source_claims =
     bindE (case source_claims of None \<Rightarrow> claims_of_contract c | Some claims \<Rightarrow> Inr claims) (\<lambda>spans.
     bindE (assert_source_claims_bind_contract c spans) (\<lambda>_.
     let task = task_of_contract c obligations spans in
     bindE (validate_obligations task c) (\<lambda>_. Inr task)))"

definition translation_task_payload :: "TranslationTask \<Rightarrow> json" where
  "translation_task_payload t = JObj
     [(''contract_id'', JStr (si_value (tt_contract_id t))),
      (''revision'', JInt (tt_revision t)),
      (''draft_contract_hash'', dump_DigestV1 (tt_draft_contract_hash t)),
      (''source_hash'', dump_DigestV1 (tt_source_hash t)),
      (''source_spans'', JList (map source_claim_payload (tt_source_spans t))),
      (''informal_statement'', JStr (tt_informal_statement t)),
      (''normalized_statement'', JStr (tt_normalized_statement t)),
      (''normalized_statement_sha256'', JStr (tt_normalized_statement_sha256 t)),
      (''selected_lean_statement'', JStr (tt_selected_lean_statement t)),
      (''selected_statement_hash'', dump_DigestV1 (tt_selected_statement_hash t)),
      (''obligations'', JList (map semantic_obligation_payload (tt_obligations t)))]"

section \<open>The generation task\<close>

record CandidateGenerationObligation =
  go_obligation_id :: string
  go_kind :: SemanticObligationKind
  go_source_span_ids :: "StableIdentifierV1 list"
  go_normalized_fragment :: string

definition from_semantic_obligation :: "SemanticObligation \<Rightarrow> CandidateGenerationObligation result" where
  "from_semantic_obligation x =
     bindE (harness_require (nonblank (so_obligation_id x)) ''candidate-generation obligations require an id'') (\<lambda>_.
     bindE (harness_require (so_source_span_ids x \<noteq> [] \<and> nonblank (so_normalized_fragment x))
       ''candidate-generation obligations require source spans and normalized text'') (\<lambda>_.
     Inr \<lparr>go_obligation_id = so_obligation_id x, go_kind = so_kind x, go_source_span_ids = so_source_span_ids x,
          go_normalized_fragment = so_normalized_fragment x\<rparr>))"

definition generation_obligation_payload :: "CandidateGenerationObligation \<Rightarrow> json" where
  "generation_obligation_payload x = JObj
     [(''obligation_id'', JStr (go_obligation_id x)),
      (''kind'', JStr (SemanticObligationKind_value (go_kind x))),
      (''source_span_ids'', JStrs (map si_value (go_source_span_ids x))),
      (''normalized_fragment'', JStr (go_normalized_fragment x))]"

record CandidateGenerationEnvelope =
  gv_task_kind :: TaskKindV1
  gv_declaration_name :: string
  gv_namespace :: string
  gv_lean_version :: string
  gv_mathlib_revision :: string
  gv_imports_allowlist :: "string list"
  gv_axioms_allowlist :: "string list"
  gv_rendering_profile :: string

definition rendering_profile :: string where
  "rendering_profile = ''autolean.full-declaration-canonical-type.v1''"

definition CandidateGenerationEnvelope_init :: "CandidateGenerationEnvelope \<Rightarrow> CandidateGenerationEnvelope result" where
  "CandidateGenerationEnvelope_init x =
     bindE (harness_require (list_all trimmed
         [gv_declaration_name x, gv_namespace x, gv_lean_version x, gv_mathlib_revision x])
       ''candidate-generation value must be trimmed text'') (\<lambda>_.
     bindE (harness_require (gv_rendering_profile x = rendering_profile)
       ''candidate-generation rendering profile is unsupported'') (\<lambda>_. Inr x))"

definition envelope_of_contract :: "StatementContractV1 \<Rightarrow> CandidateGenerationEnvelope result" where
  "envelope_of_contract c =
     (let f = sc_formal c in CandidateGenerationEnvelope_init
       \<lparr>gv_task_kind = sc_task_kind c, gv_declaration_name = fs_declaration_name f, gv_namespace = fs_namespace f,
        gv_lean_version = le_lean_version (fs_environment f), gv_mathlib_revision = le_mathlib_revision (fs_environment f),
        gv_imports_allowlist = fs_imports_allowlist f, gv_axioms_allowlist = fs_axioms_allowlist f,
        gv_rendering_profile = rendering_profile\<rparr>)"

definition envelope_payload :: "CandidateGenerationEnvelope \<Rightarrow> json" where
  "envelope_payload x = JObj
     [(''task_kind'', JStr (TaskKindV1_value (gv_task_kind x))),
      (''declaration_name'', JStr (gv_declaration_name x)),
      (''namespace'', JStr (gv_namespace x)),
      (''lean_version'', JStr (gv_lean_version x)),
      (''mathlib_revision'', JStr (gv_mathlib_revision x)),
      (''imports_allowlist'', JStrs (gv_imports_allowlist x)),
      (''axioms_allowlist'', JStrs (gv_axioms_allowlist x)),
      (''rendering_profile'', JStr (gv_rendering_profile x))]"

record CandidateGenerationTask =
  gt_source_spans :: "SourceClaimSpan list"
  gt_mathematics :: MathematicalSpecificationV1
  gt_formalization :: CandidateGenerationEnvelope
  gt_obligations :: "CandidateGenerationObligation list"

definition CandidateGenerationTask_init :: "CandidateGenerationTask \<Rightarrow> CandidateGenerationTask result" where
  "CandidateGenerationTask_init x =
     bindE (harness_require (gt_source_spans x \<noteq> []) ''candidate generation requires at least one source span'') (\<lambda>_.
     bindE (harness_require (gt_obligations x \<noteq> []) ''candidate generation requires semantic obligations'') (\<lambda>_.
     bindE (harness_require (distinct (map go_obligation_id (gt_obligations x)))
       ''candidate-generation obligation identifiers must be unique'') (\<lambda>_.
     bindE (harness_require
         (list_all (\<lambda>item. set (go_source_span_ids item) \<subseteq> set (map cl_span_id (gt_source_spans x))) (gt_obligations x))
       ''candidate-generation obligation cites an unknown source span'') (\<lambda>_.
     bindE (harness_require
         (list_all (\<lambda>item. py_contains (go_normalized_fragment item) (ms_normalized_statement (gt_mathematics x)))
           (gt_obligations x))
       ''candidate-generation obligation is absent from the normalized statement'') (\<lambda>_.
     Inr x)))))"

definition CandidateGenerationTask_from_contract :: "StatementContractV1 \<Rightarrow> TranslationTask \<Rightarrow> CandidateGenerationTask result" where
  "CandidateGenerationTask_from_contract c task =
     bindE (envelope_of_contract c) (\<lambda>envelope.
     bindE (map_resultE from_semantic_obligation (tt_obligations task)) (\<lambda>obligations.
     CandidateGenerationTask_init
       \<lparr>gt_source_spans = tt_source_spans task, gt_mathematics = sc_mathematics c,
        gt_formalization = envelope, gt_obligations = obligations\<rparr>))"

definition generation_task_payload :: "CandidateGenerationTask \<Rightarrow> json" where
  "generation_task_payload x = JObj
     [(''source_spans'', JList (map source_claim_payload (gt_source_spans x))),
      (''mathematics'', dump_MathematicalSpecificationV1 (gt_mathematics x)),
      (''formalization'', envelope_payload (gt_formalization x)),
      (''obligations'', JList (map generation_obligation_payload (gt_obligations x)))]"

definition generation_task_hash :: "CandidateGenerationTask \<Rightarrow> DigestV1" where
  "generation_task_hash x = digest_bytes PROMPT (canonical_json_bytes (generation_task_payload x))"

section \<open>Proposals and candidates\<close>

record CandidateProposal =
  cp_candidate_id :: string
  cp_lean_statement_source :: string
  cp_reverse_rendering :: string
  cp_covered_obligation_ids :: "string list"

definition CandidateProposal_init :: "CandidateProposal \<Rightarrow> CandidateProposal result" where
  "CandidateProposal_init x =
     bindE (harness_require (list_all nonblank [cp_candidate_id x, cp_lean_statement_source x, cp_reverse_rendering x])
       ''candidate proposal text must not be empty'') (\<lambda>_.
     bindE (harness_require (cp_covered_obligation_ids x \<noteq> [])
       ''candidate proposal must declare semantic obligation coverage'') (\<lambda>_. Inr x))"

record CandidateFormalization =
  cf_candidate_id :: string
  cf_actor_id :: string
  cf_independence_group :: string
  cf_contract_id :: StableIdentifierV1
  cf_revision :: int
  cf_draft_contract_hash :: DigestV1
  cf_source_hash :: DigestV1
  cf_normalized_statement_sha256 :: string
  cf_generation_task_hash :: DigestV1
  cf_lean_statement_source :: string
  cf_reverse_rendering :: string
  cf_covered_obligation_ids :: "string list"

definition CandidateFormalization_init :: "CandidateFormalization \<Rightarrow> CandidateFormalization result" where
  "CandidateFormalization_init x =
     bindE (harness_require (list_all nonblank
         [cf_candidate_id x, cf_actor_id x, cf_independence_group x, cf_lean_statement_source x, cf_reverse_rendering x])
       ''candidate text must not be empty'') (\<lambda>_.
     bindE (harness_require (\<not> cf_revision x < 1) ''candidate contract revision must be positive'') (\<lambda>_.
     bindE (harness_require (length (cf_normalized_statement_sha256 x) = 64)
       ''candidate normalized statement hash is invalid'') (\<lambda>_.
     bindE (harness_require (cf_covered_obligation_ids x \<noteq> [])
       ''candidate must declare semantic obligation coverage'') (\<lambda>_. Inr x))))"

definition candidate_payload :: "CandidateFormalization \<Rightarrow> json" where
  "candidate_payload x = JObj
     [(''candidate_id'', JStr (cf_candidate_id x)),
      (''actor_id'', JStr (cf_actor_id x)),
      (''independence_group'', JStr (cf_independence_group x)),
      (''contract_id'', JStr (si_value (cf_contract_id x))),
      (''revision'', JInt (cf_revision x)),
      (''draft_contract_hash'', dump_DigestV1 (cf_draft_contract_hash x)),
      (''source_hash'', dump_DigestV1 (cf_source_hash x)),
      (''normalized_statement_sha256'', JStr (cf_normalized_statement_sha256 x)),
      (''generation_task_hash'', dump_DigestV1 (cf_generation_task_hash x)),
      (''lean_statement_source'', JStr (cf_lean_statement_source x)),
      (''reverse_rendering'', JStr (cf_reverse_rendering x)),
      (''covered_obligation_ids'', JStrs (cf_covered_obligation_ids x))]"

definition candidate_statement_hash :: "CandidateFormalization \<Rightarrow> DigestV1" where
  "candidate_statement_hash x = digest_text STATEMENT_SOURCE (cf_lean_statement_source x)"

definition candidate_evidence_hash :: "CandidateFormalization \<Rightarrow> DigestV1" where
  "candidate_evidence_hash x = digest_bytes FREEZE_EVIDENCE (canonical_json_bytes (candidate_payload x))"

section \<open>Agents and their registration\<close>

text \<open>
  Agents are parameters. A declared identity is \<open>None\<close> where the object carries something that
  is not a string; a call may raise, and a translator may return something else than a proposal.
\<close>

datatype 'a agent_outcome = AgentRaises exn | AgentReturnsOther | AgentReturns 'a

record TranslationAgentV2 =
  ta_actor_id :: "string option"
  ta_independence_group :: "string option"
  ta_translate :: "CandidateGenerationTask \<Rightarrow> CandidateProposal agent_outcome"

record TranslationAgentRegistration =
  tr_agent :: TranslationAgentV2
  tr_actor_id :: string
  tr_independence_group :: string

definition validated_role_identity :: "string option \<Rightarrow> string result" where
  "validated_role_identity v =
     (case v of None \<Rightarrow> Inl (FidelityHarnessError ''role identity must be trimmed text'')
      | Some s \<Rightarrow> bindE (harness_require (trimmed s) ''role identity must be trimmed text'') (\<lambda>_. Inr s))"

definition register_translation_agent :: "TranslationAgentV2 \<Rightarrow> TranslationAgentRegistration result" where
  "register_translation_agent agent =
     bindE (validated_role_identity (ta_actor_id agent)) (\<lambda>actor_id.
     bindE (validated_role_identity (ta_independence_group agent)) (\<lambda>group.
     Inr \<lparr>tr_agent = agent, tr_actor_id = actor_id, tr_independence_group = group\<rparr>))"

definition register_translation_agents :: "TranslationAgentV2 list \<Rightarrow> TranslationAgentRegistration list result" where
  "register_translation_agents agents =
     bindE (harness_require (\<not> length agents < 2) ''at least two translation agents are required'') (\<lambda>_.
     bindE (map_resultE register_translation_agent agents) (\<lambda>registrations.
     bindE (harness_require (distinct (map tr_actor_id registrations))
       ''translation agents must have distinct actor identities'') (\<lambda>_.
     bindE (harness_require (\<not> length (remdups (map tr_independence_group registrations)) < 2)
       ''translation agents require two independence groups'') (\<lambda>_. Inr registrations))))"

text \<open>The agent builds the proposal, whose constructor checks run in its call.\<close>

definition call_translator :: "TranslationAgentRegistration \<Rightarrow> CandidateGenerationTask \<Rightarrow> CandidateProposal result" where
  "call_translator registration generation_task =
     (case ta_translate (tr_agent registration) generation_task of
        AgentRaises e \<Rightarrow> Inl e
      | AgentReturnsOther \<Rightarrow> Inl (FidelityHarnessError ''translation agent must return a CandidateProposal'')
      | AgentReturns p \<Rightarrow> CandidateProposal_init p)"

definition bind_candidate_proposal ::
  "TranslationTask \<Rightarrow> CandidateGenerationTask \<Rightarrow> TranslationAgentRegistration \<Rightarrow> CandidateProposal
     \<Rightarrow> CandidateFormalization result" where
  "bind_candidate_proposal task generation_task registration p = CandidateFormalization_init
     \<lparr>cf_candidate_id = cp_candidate_id p, cf_actor_id = tr_actor_id registration,
      cf_independence_group = tr_independence_group registration, cf_contract_id = tt_contract_id task,
      cf_revision = tt_revision task, cf_draft_contract_hash = tt_draft_contract_hash task,
      cf_source_hash = tt_source_hash task, cf_normalized_statement_sha256 = tt_normalized_statement_sha256 task,
      cf_generation_task_hash = generation_task_hash generation_task,
      cf_lean_statement_source = cp_lean_statement_source p, cf_reverse_rendering = cp_reverse_rendering p,
      cf_covered_obligation_ids = cp_covered_obligation_ids p\<rparr>"

record SelectedStatementBaseline =
  sb_contract_id :: StableIdentifierV1
  sb_revision :: int
  sb_lean_statement_source :: string
  sb_statement_source_hash :: DigestV1

definition baseline_from_task :: "TranslationTask \<Rightarrow> SelectedStatementBaseline result" where
  "baseline_from_task task =
     (let b = \<lparr>sb_contract_id = tt_contract_id task, sb_revision = tt_revision task,
               sb_lean_statement_source = tt_selected_lean_statement task,
               sb_statement_source_hash = tt_selected_statement_hash task\<rparr>
      in bindE (harness_require (\<not> (sb_revision b < 1 \<or> \<not> nonblank (sb_lean_statement_source b)))
           ''selected statement mutation baseline is invalid'') (\<lambda>_.
         bindE (harness_require (sb_statement_source_hash b = digest_text STATEMENT_SOURCE (sb_lean_statement_source b))
           ''selected statement mutation baseline differs from its hash'') (\<lambda>_. Inr b)))"

record MutationSuiteAgent =
  ma_actor_id :: "string option"
  ma_generate :: "TranslationTask \<Rightarrow> SelectedStatementBaseline \<Rightarrow> MutationProbeV1 list result"

section \<open>Verdicts\<close>

record ObligationReviewVerdict =
  ov_obligation_id :: string
  ov_decision :: DecisionV1
  ov_rationale :: string

definition obligation_verdict_payload :: "ObligationReviewVerdict \<Rightarrow> json" where
  "obligation_verdict_payload x = JObj
     [(''obligation_id'', JStr (ov_obligation_id x)),
      (''decision'', JStr (DecisionV1_value (ov_decision x))),
      (''rationale'', JStr (ov_rationale x))]"

definition obligation_verdict_check :: "ObligationReviewVerdict \<Rightarrow> unit result" where
  "obligation_verdict_check x = harness_require (nonblank (ov_obligation_id x) \<and> nonblank (ov_rationale x))
     ''obligation verdicts require an id and rationale''"

record CandidateReviewVerdict =
  cv_candidate_id :: string
  cv_candidate_hash :: DigestV1
  cv_decision :: DecisionV1
  cv_reverse_render_equivalent :: bool
  cv_obligation_verdicts :: "ObligationReviewVerdict list"
  cv_rationale :: string

definition candidate_verdict_check :: "CandidateReviewVerdict \<Rightarrow> unit result" where
  "candidate_verdict_check x = harness_require (nonblank (cv_candidate_id x) \<and> nonblank (cv_rationale x))
     ''candidate verdicts require an id and rationale''"

definition candidate_verdict_payload :: "CandidateReviewVerdict \<Rightarrow> json" where
  "candidate_verdict_payload x = JObj
     [(''candidate_id'', JStr (cv_candidate_id x)),
      (''candidate_hash'', dump_DigestV1 (cv_candidate_hash x)),
      (''decision'', JStr (DecisionV1_value (cv_decision x))),
      (''reverse_render_equivalent'', JBool (cv_reverse_render_equivalent x)),
      (''obligation_verdicts'', JList (map obligation_verdict_payload (cv_obligation_verdicts x))),
      (''rationale'', JStr (cv_rationale x))]"

record MutationReviewVerdict =
  mv_probe_id :: StableIdentifierV1
  mv_detected :: bool
  mv_rationale :: string

definition mutation_verdict_check :: "MutationReviewVerdict \<Rightarrow> unit result" where
  "mutation_verdict_check x = harness_require (nonblank (mv_rationale x)) ''mutation verdict rationale must not be empty''"

definition mutation_verdict_payload :: "MutationReviewVerdict \<Rightarrow> json" where
  "mutation_verdict_payload x = JObj
     [(''probe_id'', JStr (si_value (mv_probe_id x))),
      (''detected'', JBool (mv_detected x)),
      (''rationale'', JStr (mv_rationale x))]"

record SemanticReviewVerdict =
  sv_review_id :: string
  sv_reviewer_id :: string
  sv_independent :: bool
  sv_decision :: DecisionV1
  sv_source_to_normalized_equivalent :: bool
  sv_source_to_normalized_evidence :: string
  sv_candidate_verdicts :: "CandidateReviewVerdict list"
  sv_mutation_verdicts :: "MutationReviewVerdict list"
  sv_positive_example_valid :: bool
  sv_positive_example_evidence :: string
  sv_negative_example_valid :: bool
  sv_negative_example_evidence :: string
  sv_non_vacuous :: bool
  sv_non_vacuity_evidence :: string
  sv_rationale :: string

text \<open>The constructor checks of a verdict and of the verdicts it is built from.\<close>

definition SemanticReviewVerdict_init :: "SemanticReviewVerdict \<Rightarrow> SemanticReviewVerdict result" where
  "SemanticReviewVerdict_init x =
     bindE (forE (\<lambda>v. bindE (forE obligation_verdict_check (cv_obligation_verdicts v)) (\<lambda>_. candidate_verdict_check v))
       (sv_candidate_verdicts x)) (\<lambda>_.
     bindE (forE mutation_verdict_check (sv_mutation_verdicts x)) (\<lambda>_.
     bindE (harness_require (list_all nonblank
         [sv_review_id x, sv_reviewer_id x, sv_source_to_normalized_evidence x, sv_positive_example_evidence x,
          sv_negative_example_evidence x, sv_non_vacuity_evidence x, sv_rationale x])
       ''semantic verdict text must not be empty'') (\<lambda>_. Inr x)))"

definition semantic_verdict_payload :: "SemanticReviewVerdict \<Rightarrow> json" where
  "semantic_verdict_payload x = JObj
     [(''review_id'', JStr (sv_review_id x)),
      (''reviewer_id'', JStr (sv_reviewer_id x)),
      (''independent'', JBool (sv_independent x)),
      (''decision'', JStr (DecisionV1_value (sv_decision x))),
      (''source_to_normalized_equivalent'', JBool (sv_source_to_normalized_equivalent x)),
      (''source_to_normalized_evidence'', JStr (sv_source_to_normalized_evidence x)),
      (''candidate_verdicts'', JList (map candidate_verdict_payload (sv_candidate_verdicts x))),
      (''mutation_verdicts'', JList (map mutation_verdict_payload (sv_mutation_verdicts x))),
      (''positive_example_valid'', JBool (sv_positive_example_valid x)),
      (''positive_example_evidence'', JStr (sv_positive_example_evidence x)),
      (''negative_example_valid'', JBool (sv_negative_example_valid x)),
      (''negative_example_evidence'', JStr (sv_negative_example_evidence x)),
      (''non_vacuous'', JBool (sv_non_vacuous x)),
      (''non_vacuity_evidence'', JStr (sv_non_vacuity_evidence x)),
      (''rationale'', JStr (sv_rationale x))]"

record SemanticReviewPacket =
  rp_task :: TranslationTask
  rp_candidates :: "CandidateFormalization list"
  rp_mutation_probes :: "MutationProbeV1 list"

record SemanticReviewAgent =
  ra_reviewer_id :: "string option"
  ra_review :: "SemanticReviewPacket \<Rightarrow> SemanticReviewVerdict result"

end
