(* ===== verification/HarnessRun.thy ===== *)
theory HarnessRun
  imports Harness
begin

text \<open>
  \<open>fidelity_harness.py\<close>, second part: the automatic checks, the fidelity evaluation with the
  binding checks that Builder repeats before a freeze, the report, and the run of the harness
  over its agents.
\<close>

section \<open>Automatic checks\<close>

record AutomaticCheckResult =
  ac_check_name :: string
  ac_authority :: EvidenceAuthority
  ac_passed :: bool
  ac_evidence :: string

definition automatic_check_payload :: "AutomaticCheckResult \<Rightarrow> json" where
  "automatic_check_payload x = JObj
     [(''check_name'', JStr (ac_check_name x)),
      (''authority'', JStr (EvidenceAuthority_value (ac_authority x))),
      (''passed'', JBool (ac_passed x)),
      (''evidence'', JStr (ac_evidence x))]"

definition candidate_bound_to_task :: "TranslationTask \<Rightarrow> CandidateGenerationTask \<Rightarrow> CandidateFormalization \<Rightarrow> bool" where
  "candidate_bound_to_task task generation_task x \<longleftrightarrow>
     cf_contract_id x = tt_contract_id task \<and> cf_revision x = tt_revision task \<and>
     cf_draft_contract_hash x = tt_draft_contract_hash task \<and> cf_source_hash x = tt_source_hash task \<and>
     cf_normalized_statement_sha256 x = tt_normalized_statement_sha256 task \<and>
     cf_generation_task_hash x = generation_task_hash generation_task"

definition candidate_structure_results :: "CandidateGenerationTask \<Rightarrow> AutomaticCheckResult list" where
  "candidate_structure_results generation_task =
     [\<lparr>ac_check_name = ''candidate_contract_bindings'', ac_authority = EA_AUTOMATIC, ac_passed = True,
       ac_evidence = ''all candidate hashes and revision bindings match the translation task; ''
         @ ''generation_task_hash='' @ dg_value (generation_task_hash generation_task) @ ''; ''
         @ ''statement identity is checked by the canonical elaborated-type gate''\<rparr>,
      \<lparr>ac_check_name = ''candidate_independence'', ac_authority = EA_AUTOMATIC, ac_passed = True,
       ac_evidence = ''candidate actors and independence groups are distinct''\<rparr>,
      \<lparr>ac_check_name = ''obligation_coverage'', ac_authority = EA_AUTOMATIC, ac_passed = True,
       ac_evidence = ''every candidate declares every required semantic obligation''\<rparr>]"

definition candidate_structure_checks ::
  "TranslationTask \<Rightarrow> CandidateGenerationTask \<Rightarrow> CandidateFormalization list \<Rightarrow> AutomaticCheckResult list result" where
  "candidate_structure_checks task generation_task candidates =
     bindE (harness_require (\<not> length candidates < 2) ''at least two translation candidates are required'') (\<lambda>_.
     bindE (harness_require (distinct (map cf_candidate_id candidates)) ''candidate identifiers must be unique'') (\<lambda>_.
     bindE (harness_require (distinct (map cf_actor_id candidates)) ''candidate actor identities must be distinct'') (\<lambda>_.
     bindE (harness_require (\<not> length (remdups (map cf_independence_group candidates)) < 2)
       ''candidates require two independence groups'') (\<lambda>_.
     bindE (forE (\<lambda>x.
         bindE (harness_require (candidate_bound_to_task task generation_task x)
           ''candidate is not bound to the translation task'') (\<lambda>_.
         harness_require
           (distinct (cf_covered_obligation_ids x)
            \<and> set (cf_covered_obligation_ids x) = set (map so_obligation_id (tt_obligations task)))
           ''candidate semantic obligation coverage is incomplete'')) candidates) (\<lambda>_.
     Inr (candidate_structure_results generation_task))))))"

definition mutation_structure_checks ::
  "TranslationTask \<Rightarrow> string \<Rightarrow> MutationProbeV1 list \<Rightarrow> AutomaticCheckResult list result" where
  "mutation_structure_checks task mutation_agent_id probes =
     bindE (harness_require (nonblank mutation_agent_id) ''mutation agent identity must not be empty'') (\<lambda>_.
     bindE (harness_require (distinct (map mp_kind probes)) ''mutation suite contains duplicate mutation kinds'') (\<lambda>_.
     bindE (harness_require (distinct (map mp_probe_id probes)) ''mutation suite contains duplicate probe identifiers'') (\<lambda>_.
     bindE (harness_require (set required_mutations \<subseteq> set (map mp_kind probes)) ''mutation suite is incomplete'') (\<lambda>_.
     bindE (harness_require
         (\<not> list_ex (\<lambda>item. item = tt_selected_lean_statement task) (map mp_mutated_statement_source probes))
       ''mutation suite contains an unchanged statement'') (\<lambda>_.
     bindE (harness_require (distinct (map mp_mutated_statement_source probes))
       ''mutation suite reuses one statement for multiple probes'') (\<lambda>_.
     Inr [\<lparr>ac_check_name = ''mutation_suite_shape'', ac_authority = EA_AUTOMATIC, ac_passed = True,
       ac_evidence = ''agent='' @ mutation_agent_id @ ''; all required mutation kinds are unique ''
         @ ''and change the contract-selected statement bytes; ''
         @ ''baseline_statement_hash='' @ dg_value (tt_selected_statement_hash task)\<rparr>]))))))"

definition canonical_type_automatic_check :: "CanonicalTypeGateEvidence \<Rightarrow> AutomaticCheckResult" where
  "canonical_type_automatic_check ev =
     \<lparr>ac_check_name = ''canonical_elaborated_type_identity'', ac_authority = EA_AUTOMATIC, ac_passed = True,
      ac_evidence = automatic_evidence ev\<rparr>"

definition candidate_type_request :: "FormalSpecificationV1 \<Rightarrow> CandidateFormalization \<Rightarrow> CanonicalTypeQueryRequest result" where
  "candidate_type_request f x = CanonicalTypeQueryRequest_init
     \<lparr>cq_subject_id = cf_candidate_id x, cq_statement_source = cf_lean_statement_source x,
      cq_statement_source_hash = candidate_statement_hash x,
      cq_declaration = fs_namespace f @ ''.'' @ fs_declaration_name f, cq_namespace = fs_namespace f,
      cq_imports_allowlist = fs_imports_allowlist f\<rparr>"

definition canonical_type_gate_inputs ::
  "StatementContractV1 \<Rightarrow> TranslationTask \<Rightarrow> CandidateGenerationTask \<Rightarrow> CandidateFormalization list
     \<Rightarrow> (CanonicalTypeGateBinding \<times> CanonicalTypeQueryRequest \<times> CanonicalTypeQueryRequest list) result" where
  "canonical_type_gate_inputs c task generation_task candidates =
     (let f = sc_formal c; env = fs_environment f; declaration = fs_namespace f @ ''.'' @ fs_declaration_name f in
      case (fs_elaborated_type f, fs_elaborated_type_hash f) of
        (Some elaborated_type, Some elaborated_type_hash) \<Rightarrow>
          let binding =
            \<lparr>gb_contract_id = si_value (tt_contract_id task), gb_revision = tt_revision task,
             gb_draft_contract_hash = tt_draft_contract_hash task, gb_source_hash = tt_source_hash task,
             gb_generation_task_hash = generation_task_hash generation_task,
             gb_selected_statement_hash = tt_selected_statement_hash task,
             gb_environment_hash = le_environment_hash env, gb_declaration = declaration,
             gb_lean_version = le_lean_version env, gb_mathlib_revision = le_mathlib_revision env,
             gb_lake_manifest_sha256 = map_option dg_value (le_lake_manifest_hash env),
             gb_worker_image_digest = policy_worker_image_digest (le_verifier_execution_policy env),
             gb_expected_elaborated_type = elaborated_type,
             gb_expected_elaborated_type_hash = elaborated_type_hash\<rparr>
          in bindE (CanonicalTypeQueryRequest_init
               \<lparr>cq_subject_id = ''contract-selected-reference'', cq_statement_source = tt_selected_lean_statement task,
                cq_statement_source_hash = tt_selected_statement_hash task, cq_declaration = declaration,
                cq_namespace = fs_namespace f, cq_imports_allowlist = fs_imports_allowlist f\<rparr>) (\<lambda>reference.
             bindE (map_resultE (candidate_type_request f) candidates) (\<lambda>requests.
             Inr (binding, reference, requests)))
      | _ \<Rightarrow> Inl (FidelityHarnessError ''canonical type gate requires a contract-bound elaborated type''))"

section \<open>The shape of a review\<close>

definition candidate_verdict_fits :: "TranslationTask \<Rightarrow> (string \<times> CandidateFormalization) list \<Rightarrow> CandidateReviewVerdict \<Rightarrow> unit result" where
  "candidate_verdict_fits task candidate_by_id verdict =
     (case map_of candidate_by_id (cv_candidate_id verdict) of
        None \<Rightarrow> Inl (KeyError ''candidate'')
      | Some candidate \<Rightarrow>
          bindE (harness_require (cv_candidate_hash verdict = candidate_evidence_hash candidate)
            ''candidate review verdict hash does not match evidence'') (\<lambda>_.
          bindE (harness_require (distinct (map ov_obligation_id (cv_obligation_verdicts verdict)))
            ''obligation review verdict identifiers must be unique'') (\<lambda>_.
          harness_require
            (set (map ov_obligation_id (cv_obligation_verdicts verdict)) = set (map so_obligation_id (tt_obligations task)))
            ''expert review must cover every semantic obligation'')))"

definition assert_review_structure :: "SemanticReviewPacket \<Rightarrow> SemanticReviewVerdict \<Rightarrow> unit result" where
  "assert_review_structure packet review =
     bindE (harness_require (sv_independent review) ''semantic review must be independently authored'') (\<lambda>_.
     let candidate_by_id = dict_of (map (\<lambda>item. (cf_candidate_id item, item)) (rp_candidates packet));
         verdict_by_id = dict_of (map (\<lambda>item. (cv_candidate_id item, item)) (sv_candidate_verdicts review)) in
     bindE (harness_require (length verdict_by_id = length (sv_candidate_verdicts review))
       ''candidate review verdict identifiers must be unique'') (\<lambda>_.
     bindE (harness_require (set (map fst verdict_by_id) = set (map fst candidate_by_id))
       ''semantic review must cover every candidate exactly once'') (\<lambda>_.
     bindE (forE (candidate_verdict_fits (rp_task packet) candidate_by_id) (map snd verdict_by_id)) (\<lambda>_.
     bindE (harness_require (distinct (map mv_probe_id (sv_mutation_verdicts review)))
       ''mutation review verdict identifiers must be unique'') (\<lambda>_.
     harness_require
       (set (map mv_probe_id (sv_mutation_verdicts review)) = set (map mp_probe_id (rp_mutation_probes packet)))
       ''expert review must cover every mutation probe'')))))"

definition assert_declared_actor_separation ::
  "CandidateFormalization list \<Rightarrow> string \<Rightarrow> SemanticReviewVerdict \<Rightarrow> ReviewerSignoffV1 list \<Rightarrow> unit result" where
  "assert_declared_actor_separation candidates mutation_agent_id review additional_signoffs =
     (let execution_actor_ids = mutation_agent_id # map cf_actor_id candidates;
          independent = filter rs_independent additional_signoffs in
      bindE (harness_require (mutation_agent_id \<notin> set (map cf_actor_id candidates))
        ''mutation agent identity must differ from every translation agent'') (\<lambda>_.
      bindE (harness_require (sv_reviewer_id review \<notin> set execution_actor_ids)
        ''semantic reviewer identity must differ from translation and mutation agents'') (\<lambda>_.
      bindE (harness_require (distinct (map rs_signoff_id additional_signoffs))
        ''additional signoff identifiers must be unique'') (\<lambda>_.
      bindE (forE (\<lambda>signoff. harness_require (rs_reviewer_id signoff \<notin> set execution_actor_ids)
          ''independent signoff identity must differ from execution agents'') independent) (\<lambda>_.
      harness_require (distinct (sv_reviewer_id review # map rs_reviewer_id independent))
        ''independent review roles require distinct reviewer identities'')))))"

section \<open>The evaluation and its hash\<close>

definition evaluation_payload ::
  "TranslationTask \<Rightarrow> CandidateGenerationTask \<Rightarrow> CandidateFormalization list \<Rightarrow> string \<Rightarrow> MutationProbeV1 list
     \<Rightarrow> SemanticReviewVerdict \<Rightarrow> AutomaticCheckResult list \<Rightarrow> ReviewerSignoffV1 list \<Rightarrow> json" where
  "evaluation_payload task generation_task candidates mutation_agent_id probes review automatic_checks additional_signoffs = JObj
     [(''schema_version'', JStr ''autolean.builder-fidelity-evidence.v1''),
      (''task'', translation_task_payload task),
      (''generation_task'', generation_task_payload generation_task),
      (''generation_task_hash'', dump_DigestV1 (generation_task_hash generation_task)),
      (''candidates'', JList (map candidate_payload candidates)),
      (''mutation_agent_id'', JStr mutation_agent_id),
      (''mutation_probes'', JList (map dump_MutationProbeV1 probes)),
      (''review'', semantic_verdict_payload review),
      (''automatic_checks'', JList (map automatic_check_payload automatic_checks)),
      (''additional_signoffs'', JList (map dump_ReviewerSignoffV1 additional_signoffs))]"

definition evaluation_hash ::
  "TranslationTask \<Rightarrow> CandidateGenerationTask \<Rightarrow> CandidateFormalization list \<Rightarrow> string \<Rightarrow> MutationProbeV1 list
     \<Rightarrow> SemanticReviewVerdict \<Rightarrow> AutomaticCheckResult list \<Rightarrow> ReviewerSignoffV1 list \<Rightarrow> DigestV1" where
  "evaluation_hash task generation_task candidates mutation_agent_id probes review automatic_checks additional_signoffs =
     digest_bytes FREEZE_EVIDENCE (canonical_json_bytes
       (evaluation_payload task generation_task candidates mutation_agent_id probes review automatic_checks additional_signoffs))"

record FidelityEvaluation =
  fe_task :: TranslationTask
  fe_generation_task :: CandidateGenerationTask
  fe_candidates :: "CandidateFormalization list"
  fe_canonical_type_gate :: CanonicalTypeGateEvidence
  fe_mutation_agent_id :: string
  fe_mutation_probes :: "MutationProbeV1 list"
  fe_review :: SemanticReviewVerdict
  fe_automatic_checks :: "AutomaticCheckResult list"
  fe_additional_signoffs :: "ReviewerSignoffV1 list"
  fe_evidence_hash :: DigestV1
  fe_report :: FidelityReportV1

definition evaluation_artifact_payload :: "FidelityEvaluation \<Rightarrow> json" where
  "evaluation_artifact_payload x = evaluation_payload (fe_task x) (fe_generation_task x) (fe_candidates x) (fe_mutation_agent_id x)
     (fe_mutation_probes x) (fe_review x) (fe_automatic_checks x) (fe_additional_signoffs x)"

definition render_artifact :: "FidelityEvaluation \<Rightarrow> string" where
  "render_artifact x = canonical_json_bytes (evaluation_artifact_payload x)"

definition builder_statement_observation :: "FidelityEvaluation \<Rightarrow> DigestV1 \<Rightarrow> BuilderStatementObservationEvidence" where
  "builder_statement_observation x contract_hash = from_gate_evidence (fe_canonical_type_gate x) contract_hash"

fun check_key :: "FidelityCheckKindV1 \<Rightarrow> string result" where
  "check_key FCK_SOURCE_PRESERVATION = Inr ''source''"
| "check_key FCK_REVERSE_RENDER = Inr ''reverse''"
| "check_key FCK_INDEPENDENT_TRANSLATION = Inr ''independent''"
| "check_key FCK_POSITIVE_EXAMPLE = Inr ''positive''"
| "check_key FCK_NEGATIVE_EXAMPLE = Inr ''negative''"
| "check_key FCK_NON_VACUITY = Inr ''non-vacuity''"
| "check_key _ = Inl (KeyError ''check kind'')"

definition evidence_marker :: "DigestV1 \<Rightarrow> string" where
  "evidence_marker h = ''harness_evidence_sha256='' @ dg_value h"

definition marked :: "DigestV1 \<Rightarrow> string \<Rightarrow> string" where
  "marked h text = evidence_marker h @ ''; '' @ text"

definition candidates_accepted :: "SemanticReviewVerdict \<Rightarrow> bool" where
  "candidates_accepted review \<longleftrightarrow> list_all (\<lambda>item. cv_decision item = DC_ACCEPT) (sv_candidate_verdicts review)"

definition obligations_accepted :: "SemanticReviewVerdict \<Rightarrow> bool" where
  "obligations_accepted review \<longleftrightarrow>
     list_all (\<lambda>candidate. list_all (\<lambda>item. ov_decision item = DC_ACCEPT) (cv_obligation_verdicts candidate))
       (sv_candidate_verdicts review)"

text \<open>What \<open>assert_binds\<close> expects of the six checks: kind, outcome and evidence.\<close>

definition expected_checks :: "FidelityEvaluation \<Rightarrow> (FidelityCheckKindV1 \<times> bool \<times> string) list" where
  "expected_checks x =
     (let review = fe_review x in
      [(FCK_SOURCE_PRESERVATION, sv_source_to_normalized_equivalent review \<and> obligations_accepted review,
         sv_source_to_normalized_evidence review),
       (FCK_REVERSE_RENDER,
         list_all cv_reverse_render_equivalent (sv_candidate_verdicts review) \<and> candidates_accepted review,
         ''expert reviewed every reverse rendering''),
       (FCK_INDEPENDENT_TRANSLATION, candidates_accepted review \<and> length (fe_candidates x) \<ge> 2,
         ''expert compared candidates from separately declared registrations''),
       (FCK_POSITIVE_EXAMPLE, sv_positive_example_valid review, sv_positive_example_evidence review),
       (FCK_NEGATIVE_EXAMPLE, sv_negative_example_valid review, sv_negative_example_evidence review),
       (FCK_NON_VACUITY, sv_non_vacuous review, sv_non_vacuity_evidence review)])"

definition report_check_binds ::
  "DigestV1 \<Rightarrow> SemanticReviewVerdict \<Rightarrow> (FidelityCheckKindV1 \<times> FidelityCheckV1) list
     \<Rightarrow> FidelityCheckKindV1 \<times> bool \<times> string \<Rightarrow> unit result" where
  "report_check_binds expected review check_by_kind entry =
     (case entry of (kind, passed, evidence) \<Rightarrow>
      case map_of check_by_kind kind of
        None \<Rightarrow> Inl (KeyError ''check kind'')
      | Some check \<Rightarrow>
          bindE (check_key kind) (\<lambda>key.
          bindE (stable_identifier ''builder-fidelity-check'' (dg_value expected @ '':'' @ key)) (\<lambda>expected_check_id.
          harness_require
            (fc_check_id check = expected_check_id \<and> fc_passed check = passed \<and> fc_evidence check = marked expected evidence
             \<and> fc_reviewer_id check = sv_reviewer_id review \<and> fc_independent check = sv_independent review)
            ''fidelity report check differs from expert evidence'')))"

definition mutation_result_binds :: "DigestV1 \<Rightarrow> SemanticReviewVerdict \<Rightarrow> MutationResultV1 \<Rightarrow> unit result" where
  "mutation_result_binds expected review r =
     (case map_of (dict_of (map (\<lambda>item. (mv_probe_id item, item)) (sv_mutation_verdicts review))) (mp_probe_id (mr_probe r)) of
        None \<Rightarrow> Inl (KeyError ''probe'')
      | Some verdict \<Rightarrow>
          harness_require
            (mr_detected r = mv_detected verdict \<and> mr_evidence r = marked expected (mv_rationale verdict)
             \<and> mr_executed_by r = sv_reviewer_id review)
            ''mutation results do not match the expert verdict'')"

definition assert_report_binds :: "FidelityEvaluation \<Rightarrow> StatementContractV1 \<Rightarrow> DigestV1 \<Rightarrow> unit result" where
  "assert_report_binds x c expected =
     (let report = fe_report x; review = fe_review x in
      bindE (stable_identifier ''builder-fidelity-report'' (dg_value expected)) (\<lambda>expected_report_id.
      bindE (harness_require (fr_report_id report = expected_report_id)
        ''fidelity report is not bound to harness evidence'') (\<lambda>_.
      bindE (harness_require (fr_risk_level report = tp_fidelity_risk (sc_policy c))
        ''fidelity report risk differs from the contract policy'') (\<lambda>_.
      let check_by_kind = dict_of (map (\<lambda>item. (fc_kind item, item)) (fr_checks report)) in
      bindE (harness_require
          (length check_by_kind = length (fr_checks report)
           \<and> set (map fst check_by_kind) = set (map fst (expected_checks x)))
        ''fidelity report check set differs from the harness'') (\<lambda>_.
      bindE (forE (report_check_binds expected review check_by_kind) (expected_checks x)) (\<lambda>_.
      bindE (harness_require (map mr_probe (fr_mutation_results report) = fe_mutation_probes x)
        ''fidelity report mutation probes differ from the harness'') (\<lambda>_.
      bindE (forE (mutation_result_binds expected review) (fr_mutation_results report)) (\<lambda>_.
      bindE (harness_require (length (fr_signoffs report) = 1 + length (fe_additional_signoffs x))
        ''fidelity report signoff set differs from the harness'') (\<lambda>_.
      let semantic_signoff = hd (fr_signoffs report) in
      bindE (stable_identifier ''builder-semantic-signoff'' (dg_value expected @ '':'' @ sv_review_id review)) (\<lambda>expected_signoff_id.
      harness_require
        (rs_signoff_id semantic_signoff = expected_signoff_id \<and> rs_reviewer_id semantic_signoff = sv_reviewer_id review
         \<and> rs_role semantic_signoff = RL_SEMANTIC_REVIEWER \<and> rs_decision semantic_signoff = sv_decision review
         \<and> rs_independent semantic_signoff = sv_independent review
         \<and> rs_rationale semantic_signoff = marked expected (sv_rationale review)
         \<and> tl (fr_signoffs report) = fe_additional_signoffs x)
        ''fidelity report signoffs differ from expert evidence''))))))))))"

definition is_gate_failure :: "exn \<Rightarrow> bool" where
  "is_gate_failure e = (case e of CanonicalTypeGateError m \<Rightarrow> True | _ \<Rightarrow> False)"

definition expected_automatic_checks :: "FidelityEvaluation \<Rightarrow> AutomaticCheckResult list result" where
  "expected_automatic_checks x =
     bindE (candidate_structure_checks (fe_task x) (fe_generation_task x) (fe_candidates x)) (\<lambda>candidate_checks.
     bindE (mutation_structure_checks (fe_task x) (fe_mutation_agent_id x) (fe_mutation_probes x)) (\<lambda>mutation_checks.
     Inr (candidate_checks @ [canonical_type_automatic_check (fe_canonical_type_gate x)] @ mutation_checks)))"

definition evaluation_assert_binds :: "FidelityEvaluation \<Rightarrow> StatementContractV1 \<Rightarrow> unit result" where
  "evaluation_assert_binds x c =
     (let task = fe_task x in
      bindE (harness_require (tt_contract_id task = sc_contract_id c \<and> tt_revision task = sc_revision c)
        ''fidelity evaluation targets another contract revision'') (\<lambda>_.
      bindE (harness_require (tt_draft_contract_hash task = semantic_hash c)
        ''draft contract changed after fidelity evaluation'') (\<lambda>_.
      bindE (TranslationTask_from_contract c (tt_obligations task) (Some (tt_source_spans task))) (\<lambda>expected_task.
      bindE (harness_require (task = expected_task)
        ''translation task does not reproduce from the draft contract'') (\<lambda>_.
      bindE (CandidateGenerationTask_from_contract c expected_task) (\<lambda>expected_generation_task.
      bindE (harness_require (fe_generation_task x = expected_generation_task)
        ''candidate-generation task does not reproduce from the draft contract'') (\<lambda>_.
      bindE (canonical_type_gate_inputs c task (fe_generation_task x) (fe_candidates x)) (\<lambda>(binding, reference, requests).
      bindE (catchE is_gate_failure (FidelityHarnessError ''canonical type gate'')
        (gate_evidence_assert_binds (fe_canonical_type_gate x) binding reference requests)) (\<lambda>_.
      bindE (expected_automatic_checks x) (\<lambda>expected_automatic.
      bindE (harness_require (fe_automatic_checks x = expected_automatic)
        ''automatic check results do not match the evidence'') (\<lambda>_.
      bindE (assert_review_structure
          \<lparr>rp_task = task, rp_candidates = fe_candidates x, rp_mutation_probes = fe_mutation_probes x\<rparr> (fe_review x)) (\<lambda>_.
      bindE (assert_declared_actor_separation (fe_candidates x) (fe_mutation_agent_id x) (fe_review x)
        (fe_additional_signoffs x)) (\<lambda>_.
      let expected = evaluation_hash task (fe_generation_task x) (fe_candidates x) (fe_mutation_agent_id x)
            (fe_mutation_probes x) (fe_review x) (fe_automatic_checks x) (fe_additional_signoffs x) in
      bindE (harness_require (fe_evidence_hash x = expected)
        ''fidelity evaluation evidence hash is inconsistent'') (\<lambda>_.
      assert_report_binds x c expected))))))))))))))"

section \<open>The report\<close>

definition make_check ::
  "DigestV1 \<Rightarrow> SemanticReviewVerdict \<Rightarrow> FidelityCheckKindV1 \<Rightarrow> bool \<Rightarrow> string \<Rightarrow> FidelityCheckV1 result" where
  "make_check harness_hash review kind passed evidence =
     bindE (check_key kind) (\<lambda>key.
     bindE (stable_identifier ''builder-fidelity-check'' (dg_value harness_hash @ '':'' @ key)) (\<lambda>check_id.
     FidelityCheckV1_init
       \<lparr>fc_check_id = check_id, fc_kind = kind, fc_passed = passed, fc_evidence = marked harness_hash evidence,
        fc_reviewer_id = sv_reviewer_id review, fc_independent = sv_independent review\<rparr>))"

definition build_checks ::
  "CandidateFormalization list \<Rightarrow> SemanticReviewVerdict \<Rightarrow> DigestV1 \<Rightarrow> FidelityCheckV1 list result" where
  "build_checks candidates review harness_hash =
     (let make = make_check harness_hash review;
          reverse_render_accepted = list_all cv_reverse_render_equivalent (sv_candidate_verdicts review) in
      bindE (make FCK_SOURCE_PRESERVATION (sv_source_to_normalized_equivalent review \<and> obligations_accepted review)
        (sv_source_to_normalized_evidence review)) (\<lambda>source.
      bindE (make FCK_REVERSE_RENDER (reverse_render_accepted \<and> candidates_accepted review)
        ''expert reviewed every reverse rendering'') (\<lambda>reverse.
      bindE (make FCK_INDEPENDENT_TRANSLATION (candidates_accepted review \<and> length candidates \<ge> 2)
        ''expert compared candidates from separately declared registrations'') (\<lambda>independent.
      bindE (make FCK_POSITIVE_EXAMPLE (sv_positive_example_valid review) (sv_positive_example_evidence review)) (\<lambda>positive.
      bindE (make FCK_NEGATIVE_EXAMPLE (sv_negative_example_valid review) (sv_negative_example_evidence review)) (\<lambda>negative.
      bindE (make FCK_NON_VACUITY (sv_non_vacuous review) (sv_non_vacuity_evidence review)) (\<lambda>non_vacuity.
      Inr [source, reverse, independent, positive, negative, non_vacuity])))))))"

definition make_mutation_result :: "SemanticReviewVerdict \<Rightarrow> DigestV1 \<Rightarrow> MutationProbeV1 \<Rightarrow> MutationResultV1 result" where
  "make_mutation_result review harness_hash probe =
     (case map_of (dict_of (map (\<lambda>item. (mv_probe_id item, item)) (sv_mutation_verdicts review))) (mp_probe_id probe) of
        None \<Rightarrow> Inl (KeyError ''probe'')
      | Some verdict \<Rightarrow> MutationResultV1_init
          \<lparr>mr_probe = probe, mr_detected = mv_detected verdict, mr_evidence = marked harness_hash (mv_rationale verdict),
           mr_executed_by = sv_reviewer_id review\<rparr>)"

definition harness_now :: "datetime \<Rightarrow> datetime result" where
  "harness_now reading =
     bindE (harness_require (aware reading) ''statement fidelity clock must return a timezone-aware datetime'')
       (\<lambda>_. Inr (as_utc reading))"

definition build_report ::
  "datetime \<Rightarrow> StatementContractV1 \<Rightarrow> CandidateFormalization list \<Rightarrow> MutationProbeV1 list \<Rightarrow> SemanticReviewVerdict
     \<Rightarrow> DigestV1 \<Rightarrow> ReviewerSignoffV1 list \<Rightarrow> FidelityReportV1 result" where
  "build_report reading c candidates probes review harness_hash additional_signoffs =
     bindE (harness_now reading) (\<lambda>recorded_at.
     bindE (build_checks candidates review harness_hash) (\<lambda>checks.
     bindE (map_resultE (make_mutation_result review harness_hash) probes) (\<lambda>mutation_results.
     bindE (stable_identifier ''builder-semantic-signoff'' (dg_value harness_hash @ '':'' @ sv_review_id review)) (\<lambda>signoff_id.
     bindE (ReviewerSignoffV1_init
       \<lparr>rs_signoff_id = signoff_id, rs_reviewer_id = sv_reviewer_id review, rs_role = RL_SEMANTIC_REVIEWER,
        rs_decision = sv_decision review, rs_independent = sv_independent review,
        rs_rationale = marked harness_hash (sv_rationale review), rs_reviewed_at = recorded_at\<rparr>) (\<lambda>signoff.
     bindE (stable_identifier ''builder-fidelity-report'' (dg_value harness_hash)) (\<lambda>report_id.
     FidelityReportV1_init
       \<lparr>fr_report_id = report_id, fr_evidence_hash = harness_hash, fr_risk_level = tp_fidelity_risk (sc_policy c),
        fr_checks = checks, fr_mutation_results = mutation_results, fr_signoffs = signoff # additional_signoffs,
        fr_generated_at = recorded_at\<rparr>))))))"

section \<open>The run\<close>

definition validate_candidates ::
  "TranslationTask \<Rightarrow> CandidateGenerationTask \<Rightarrow> TranslationAgentRegistration list \<Rightarrow> CandidateFormalization list
     \<Rightarrow> AutomaticCheckResult list result" where
  "validate_candidates task generation_task registrations candidates =
     bindE (harness_require (\<not> (length registrations < 2 \<or> length candidates \<noteq> length registrations))
       ''at least two translation agents are required'') (\<lambda>_.
     bindE (forE (\<lambda>(registration, candidate). harness_require
         (cf_actor_id candidate = tr_actor_id registration
          \<and> cf_independence_group candidate = tr_independence_group registration)
         ''candidate misrepresents its generating agent'') (zip registrations candidates)) (\<lambda>_.
     candidate_structure_checks task generation_task candidates))"

definition validate_review_structure :: "SemanticReviewPacket \<Rightarrow> string \<Rightarrow> SemanticReviewVerdict \<Rightarrow> unit result" where
  "validate_review_structure packet reviewer_id review =
     bindE (harness_require (sv_reviewer_id review = reviewer_id) ''semantic verdict misrepresents its reviewer'') (\<lambda>_.
     bindE (harness_require (sv_independent review) ''semantic review must be independently authored'') (\<lambda>_.
     assert_review_structure packet review))"

record harness_agents =
  ha_query :: canonical_type_query
  ha_translators :: "TranslationAgentV2 list"
  ha_mutation_agent :: MutationSuiteAgent
  ha_reviewer :: SemanticReviewAgent

definition generate_candidates ::
  "TranslationTask \<Rightarrow> CandidateGenerationTask \<Rightarrow> TranslationAgentRegistration list \<Rightarrow> CandidateFormalization list result" where
  "generate_candidates task generation_task = map_resultE (\<lambda>registration.
     bindE (call_translator registration generation_task) (\<lambda>proposal.
     bind_candidate_proposal task generation_task registration proposal))"

definition harness_evaluate ::
  "harness_agents \<Rightarrow> datetime \<Rightarrow> StatementContractV1 \<Rightarrow> SemanticObligation list \<Rightarrow> SourceClaimSpan list option
     \<Rightarrow> ReviewerSignoffV1 list \<Rightarrow> FidelityEvaluation result" where
  "harness_evaluate agents reading c obligations source_claims additional_signoffs =
     bindE (register_translation_agents (ha_translators agents)) (\<lambda>registrations.
     bindE (validated_role_identity (ma_actor_id (ha_mutation_agent agents))) (\<lambda>mutation_agent_id.
     bindE (validated_role_identity (ra_reviewer_id (ha_reviewer agents))) (\<lambda>reviewer_id.
     bindE (TranslationTask_from_contract c obligations source_claims) (\<lambda>task.
     bindE (CandidateGenerationTask_from_contract c task) (\<lambda>generation_task.
     bindE (generate_candidates task generation_task registrations) (\<lambda>candidates.
     bindE (validate_candidates task generation_task registrations candidates) (\<lambda>candidate_checks.
     bindE (canonical_type_gate_inputs c task generation_task candidates) (\<lambda>(binding, reference, requests).
     bindE (catchE is_gate_failure (FidelityHarnessError ''canonical type gate'')
       (run_canonical_type_gate (ha_query agents) binding reference requests)) (\<lambda>gate.
     bindE (baseline_from_task task) (\<lambda>baseline.
     bindE (ma_generate (ha_mutation_agent agents) task baseline) (\<lambda>probes.
     bindE (mutation_structure_checks task mutation_agent_id probes) (\<lambda>mutation_checks.
     let automatic_checks = candidate_checks @ [canonical_type_automatic_check gate] @ mutation_checks;
         packet = \<lparr>rp_task = task, rp_candidates = candidates, rp_mutation_probes = probes\<rparr> in
     bindE (bindE (ra_review (ha_reviewer agents) packet) SemanticReviewVerdict_init) (\<lambda>review.
     bindE (validate_review_structure packet reviewer_id review) (\<lambda>_.
     bindE (assert_declared_actor_separation candidates mutation_agent_id review additional_signoffs) (\<lambda>_.
     let harness_hash = evaluation_hash task generation_task candidates mutation_agent_id probes review
           automatic_checks additional_signoffs in
     bindE (build_report reading c candidates probes review harness_hash additional_signoffs) (\<lambda>report.
     Inr
       \<lparr>fe_task = task, fe_generation_task = generation_task, fe_candidates = candidates, fe_canonical_type_gate = gate,
        fe_mutation_agent_id = mutation_agent_id, fe_mutation_probes = probes, fe_review = review,
        fe_automatic_checks = automatic_checks, fe_additional_signoffs = additional_signoffs,
        fe_evidence_hash = harness_hash, fe_report = report\<rparr>))))))))))))))))"

text \<open>The run ends by checking its own evaluation against the contract.\<close>

definition harness_run ::
  "harness_agents \<Rightarrow> datetime \<Rightarrow> StatementContractV1 \<Rightarrow> SemanticObligation list \<Rightarrow> SourceClaimSpan list option
     \<Rightarrow> ReviewerSignoffV1 list \<Rightarrow> FidelityEvaluation result" where
  "harness_run agents reading c obligations source_claims additional_signoffs =
     bindE (harness_evaluate agents reading c obligations source_claims additional_signoffs) (\<lambda>evaluation.
     bindE (evaluation_assert_binds evaluation c) (\<lambda>_. Inr evaluation))"

end
