(* ===== verification/TypeGateProps.thy ===== *)
theory TypeGateProps
  imports TypeGateRun
begin

text \<open>
  Theorems about the canonical type gate: what evidence establishes, and that the scripted
  query of the test fixtures passes the gate exactly when it answers with the bound type.
\<close>

section \<open>The scripted query is valid\<close>

lemma parse_query_output_canonical:
  assumes "json_wf (JObj kvs)"
  shows "parse_query_output (canonical_json (JObj kvs)) = Inr (json_object_of kvs)"
  using json_loads_canonical [OF assms] canonical_json_norm [of "JObj kvs"]
  by (simp add: parse_query_output_def gate_require_def json_norm_members json_object_of_def
      del: json_norm.simps canonical_json.simps)

definition scripted_fields :: "CanonicalTypeQueryRequest \<Rightarrow> string \<Rightarrow> json_object" where
  "scripted_fields r t = (case scripted_output r t of JObj kvs \<Rightarrow> kvs | _ \<Rightarrow> [])"

lemma scripted_output_fields: "scripted_output r t = JObj (scripted_fields r t)"
  by (simp add: scripted_fields_def scripted_output_def)

lemma scripted_fields_wf: "json_wf (JObj (scripted_fields r t))" "distinct (map fst (scripted_fields r t))"
  by (simp_all add: scripted_fields_def scripted_output_def list_all_iff)

lemma scripted_document:
  "parse_query_output (canonical_json (scripted_output r t)) = Inr (json_object_of (scripted_fields r t))"
  "canonical_json_bytes (JObj (json_object_of (scripted_fields r t))) = utf8 (canonical_json (scripted_output r t))"
  using parse_query_output_canonical [OF scripted_fields_wf(1)]
    canonical_json_norm [of "JObj (scripted_fields r t)"]
  by (simp_all add: scripted_output_fields canonical_json_bytes_def json_norm_members json_object_of_def
      del: canonical_json.simps json_norm.simps)

lemma scripted_keys: "set (map fst (json_object_of (scripted_fields r t))) = set scripted_raw_fields"
proof -
  have "set (map fst (json_object_of kvs)) = set (map fst kvs)" for kvs
    by (auto simp: json_object_of_def norm_members_def image_iff)
  then show ?thesis by (auto simp: scripted_fields_def scripted_output_def scripted_raw_fields_def)
qed

lemma scripted_values:
  fixes r t
  defines "d \<equiv> json_object_of (scripted_fields r t)"
  shows "get_value d ''schema_version'' = JStr ''autolean.scripted-canonical-query-output.v1''"
    "get_value d ''subject_id'' = JStr (cq_subject_id r)" "get_value d ''declaration'' = JStr (cq_declaration r)"
    "get_value d ''canonical_type'' = JStr t" "get_value d ''canonical_type_sha256'' = JStr (text_sha256 t)"
    "get_value d ''imports_allowlist'' = json_norm (JStrs (cq_imports_allowlist r))"
    "get_value d ''observed_axioms'' = json_norm (JStrs [])"
    "get_value d ''observed_axioms_sha256'' = JStr (text_sha256 (''[]'' @ [CHR 0x0A]))"
    "get_value d ''source_snapshot_sha256'' = JStr (text_sha256 (cq_statement_source r))"
    "get_value d ''statement_source_hash'' = json_norm (dump_DigestV1 (cq_statement_source_hash r))"
  unfolding d_def get_value_norm [OF scripted_fields_wf(2)]
  by (simp_all add: scripted_fields_def scripted_output_def get_value_def obj_get_def)

lemma name_items: "list_all (\<lambda>s. s \<noteq> []) xs \<Longrightarrow> map_resultE name_item (map (json_norm \<circ> JStr) xs) = Inr xs"
  by (induction xs) (simp_all add: name_item_def)

definition name_list_ok :: "string list \<Rightarrow> bool" where
  "name_list_ok xs \<longleftrightarrow> xs = sorted_set xs \<and> list_all (\<lambda>s. s \<noteq> [] \<and> s = py_strip s) xs"

lemma query_names_ok:
  assumes "get_value kvs k = json_norm (JStrs xs)" "name_list_ok xs"
  shows "query_names kvs k = Inr xs"
proof -
  have "map_resultE name_item (map (json_norm \<circ> JStr) xs) = Inr xs"
    by (rule name_items) (use assms(2) in \<open>auto simp: name_list_ok_def list_all_iff\<close>)
  then show ?thesis
    using assms by (auto simp: query_names_def query_list_def gate_require_def require_def name_list_ok_def list_all_iff)
qed

lemma query_text_ok: "get_value kvs k = JStr s \<Longrightarrow> s \<noteq> [] \<Longrightarrow> query_text kvs k = Inr s"
  by (simp add: query_text_def)

lemma query_sha256_ok: "get_value kvs k = JStr s \<Longrightarrow> is_sha256_text s \<Longrightarrow> query_sha256 kvs k = Inr s"
  by (auto simp: query_sha256_def query_text_def require_sha256_def gate_require_def is_sha256_text_def)

lemma text_sha256_shape [simp]: "is_sha256_text (text_sha256 v)"
  by (simp add: text_sha256_def)

text \<open>What the scripted query needs of its own fields and of a request.\<close>

definition scripted_ok :: "ScriptedCanonicalTypeQuery \<Rightarrow> bool" where
  "scripted_ok s \<longleftrightarrow> image_digest_pattern (st_worker_image_digest s) \<and> trimmed (st_lean_version s) \<and>
     trimmed (st_mathlib_revision s) \<and> opt_all is_sha256_text (st_lake_manifest_sha256 s) \<and>
     trimmed (''autolean/scripted-builder-query@'' @ st_worker_image_digest s)"

definition type_text_ok :: "string \<Rightarrow> bool" where
  "type_text_ok t \<longleftrightarrow> t \<noteq> [] \<and> length t \<le> 1000000 \<and> \<not> list_ex (\<lambda>c. c \<in> set t) [CHR 0x00, CHR 0x0A, CHR 0x0D]"

definition scripted_request_ok :: "CanonicalTypeQueryRequest \<Rightarrow> bool" where
  "scripted_request_ok r \<longleftrightarrow> cq_subject_id r \<noteq> [] \<and> cq_declaration r \<noteq> [] \<and> name_list_ok (cq_imports_allowlist r)"

lemma scripted_texts: "list_all trimmed
    [''autolean_builder.testing.ScriptedCanonicalTypeQuery'', ''autolean.scripted-canonical-query.v1'', ''autolean.scripted-header.v1'']"
  by (simp add: trimmed_def nonblank_def py_strip_def strip_by_def py_isspace_def)

lemma scripted_environment_valid: "scripted_ok s \<Longrightarrow> environment_facts_validate (scripted_environment s) = Inr ()"
  using scripted_texts
  by (simp add: environment_facts_validate_def result_simps scripted_environment_def scripted_ok_def
      py_endswith_def suffix_def type_format_def require_sha256_def opt_all_def split: option.splits)

lemma scripted_facts_valid:
  assumes "scripted_query s n r = QueryReturns x"
  shows "query_facts_validate (qr_query x) = Inr ()"
proof -
  obtain t where x: "qf_query_output_canonical_json (qr_query x) = canonical_json (scripted_output r t)"
    "qf_query_output_sha256 (qr_query x) = text_sha256 (canonical_json (scripted_output r t))"
    "qf_observed_axioms (qr_query x) = []" "qf_observed_axioms_sha256 (qr_query x) = text_sha256 (''[]'' @ [CHR 0x0A])"
    "list_all is_sha256_text [qf_source_snapshot_sha256 (qr_query x), qf_sealed_candidate_sha256 (qr_query x),
       qf_candidate_direct_imports_sha256 (qr_query x), qf_module_import_closure_sha256 (qr_query x)]"
    using assms by (auto simp: scripted_query_def Let_def split: option.splits)
  have "text_sha256 (''[]'' @ [CHR 0x0A]) = line_hash (JStrs [])"
    by (simp add: text_sha256_def line_hash_def canonical_json_bytes_def utf8_def utf8_char_def)
  then show ?thesis
    using x scripted_document [of r t] text_sha256_shape [of "''[]'' @ [CHR 0x0A]"]
    by (simp add: query_facts_validate_def result_simps require_sha256_def text_sha256_def)
qed

lemma scripted_raw_binds:
  assumes "scripted_query s n r = QueryReturns x" "scripted_request_ok r" "qr_canonical_type x \<noteq> []"
  shows "assert_raw_query_output_binds (observation_from_result r x) (qr_environment x) r = Inr ()"
proof -
  let ?t = "qr_canonical_type x" and ?d = "json_object_of (scripted_fields r (qr_canonical_type x))"
  have x: "qf_query_output_canonical_json (qr_query x) = canonical_json (scripted_output r ?t)"
    "qf_observed_axioms (qr_query x) = []" "qf_observed_axioms_sha256 (qr_query x) = text_sha256 (''[]'' @ [CHR 0x0A])"
    "qr_canonical_type_sha256 x = text_sha256 ?t" "ef_assurance (qr_environment x) = SCRIPTED_FAKE"
    using assms(1) by (auto simp: scripted_query_def scripted_environment_def Let_def split: option.splits)
  have ax: "query_names ?d ''observed_axioms'' = Inr []"
    by (rule query_names_ok) (simp_all add: scripted_values name_list_ok_def sorted_set_def)
  have im: "query_names ?d ''imports_allowlist'' = Inr (cq_imports_allowlist r)"
    by (rule query_names_ok) (use assms(2) in \<open>simp_all add: scripted_values scripted_request_ok_def\<close>)
  have tx: "query_text ?d ''schema_version'' = Inr ''autolean.scripted-canonical-query-output.v1''"
    "query_text ?d ''subject_id'' = Inr (cq_subject_id r)" "query_text ?d ''declaration'' = Inr (cq_declaration r)"
    "query_text ?d ''canonical_type'' = Inr ?t"
    by (rule query_text_ok; use assms(2,3) in \<open>simp add: scripted_values scripted_request_ok_def\<close>)+
  have sh: "query_sha256 ?d ''canonical_type_sha256'' = Inr (text_sha256 ?t)"
    "query_sha256 ?d ''source_snapshot_sha256'' = Inr (text_sha256 (cq_statement_source r))"
    "query_sha256 ?d ''observed_axioms_sha256'' = Inr (text_sha256 (''[]'' @ [CHR 0x0A]))"
    by (rule query_sha256_ok; simp add: scripted_values)+
  have ob: "query_object ?d ''statement_source_hash''
      = Inr (case json_norm (dump_DigestV1 (cq_statement_source_hash r)) of JObj kvs \<Rightarrow> kvs | _ \<Rightarrow> [])"
    by (simp add: query_object_def scripted_values dump_DigestV1_def)
  have nm: "json_norm (JObj (case json_norm (dump_DigestV1 h) of JObj kvs \<Rightarrow> kvs | _ \<Rightarrow> [])) = json_norm (dump_DigestV1 h)" for h
    using json_norm_idem [of "dump_DigestV1 h"] by (simp add: dump_DigestV1_def)
  have "assert_scripted_query_output_binds ?d (observation_from_result r x) r = Inr ()"
    using x scripted_keys [of r ?t]
    by (simp add: assert_scripted_query_output_binds_def require_exact_query_fields_def result_simps ax im tx sh ob nm
        observation_from_result_def text_sha256_def del: json_norm.simps)
  then show ?thesis
    using x scripted_document [of r ?t] by (simp add: assert_raw_query_output_binds_def observation_from_result_def)
qed


section \<open>When the gate accepts the scripted query\<close>

definition scripted_binding_ok :: "ScriptedCanonicalTypeQuery \<Rightarrow> CanonicalTypeGateBinding \<Rightarrow> bool" where
  "scripted_binding_ok s b \<longleftrightarrow> scripted_ok s \<and> type_text_ok (gb_expected_elaborated_type b) \<and>
     gb_expected_elaborated_type_hash b = digest_text ELABORATED_TYPE (gb_expected_elaborated_type b) \<and>
     st_worker_image_digest s = gb_worker_image_digest b \<and> st_lean_version s = gb_lean_version b \<and>
     st_mathlib_revision s = gb_mathlib_revision b \<and> st_lake_manifest_sha256 s = gb_lake_manifest_sha256 b"

definition scripted_answer :: "ScriptedCanonicalTypeQuery \<Rightarrow> CanonicalTypeQueryRequest \<Rightarrow> string option" where
  "scripted_answer s r = map_of (dict_of (st_canonical_types_by_statement_sha256 s)) (dg_value (cq_statement_source_hash r))"

lemma scripted_query_answer:
  assumes "scripted_answer s r = Some t"
  obtains x where "scripted_query s n r = QueryReturns x" "qr_canonical_type x = t"
    "qr_canonical_type_sha256 x = text_sha256 t" "qr_declaration x = cq_declaration r"
    "qr_environment x = scripted_environment s"
  using assms by (auto simp: scripted_query_def scripted_answer_def Let_def)

lemma scripted_result_valid:
  assumes x: "scripted_query s n r = QueryReturns x" "scripted_answer s r = Some (gb_expected_elaborated_type b)"
    and ok: "scripted_binding_ok s b" "scripted_request_ok r"
  shows "validate_query_result x r b = Inr ()"
    and "assert_observation_binds_request (observation_from_result r x) r (scripted_environment s) = Inr ()"
proof -
  have f: "qr_canonical_type x = gb_expected_elaborated_type b"
    "qr_canonical_type_sha256 x = text_sha256 (gb_expected_elaborated_type b)"
    "qr_declaration x = cq_declaration r" "qr_environment x = scripted_environment s"
    using x by (auto simp: scripted_query_def scripted_answer_def Let_def)
  have t: "type_text_ok (qr_canonical_type x)" "scripted_ok s" using ok f by (auto simp: scripted_binding_ok_def)
  then have raw: "assert_raw_query_output_binds (observation_from_result r x) (scripted_environment s) r = Inr ()"
    using scripted_raw_binds [OF x(1) ok(2)] f by (simp add: type_text_ok_def)
  have m: "assert_environment_matches_binding (scripted_environment s) b = Inr ()"
    using ok(1) by (auto simp: assert_environment_matches_binding_def result_simps scripted_binding_ok_def scripted_environment_def)
  show "validate_query_result x r b = Inr ()"
    using scripted_environment_valid [OF t(2)] scripted_facts_valid [OF x(1)] m raw f t
    by (simp add: validate_query_result_def gate_require_def text_sha256_def type_text_ok_def)
  show "assert_observation_binds_request (observation_from_result r x) r (scripted_environment s) = Inr ()"
    using scripted_facts_valid [OF x(1)] raw f
    by (simp add: assert_observation_binds_request_def observation_from_result_def gate_require_def text_sha256_def)
qed

lemma scripted_observations:
  assumes "scripted_binding_ok s b" "qr_environment ref = scripted_environment s"
    and "qr_canonical_type ref = gb_expected_elaborated_type b"
    and "qr_canonical_type_sha256 ref = text_sha256 (gb_expected_elaborated_type b)"
    and "list_all (\<lambda>r. scripted_request_ok r \<and> scripted_answer s r = Some (gb_expected_elaborated_type b)) requests"
  shows "\<exists>os. observe_candidates (scripted_query s) b ref n requests = Inr os \<and>
    list_all2 (\<lambda>ob r. assert_observation_binds_request ob r (scripted_environment s) = Inr () \<and>
      co_canonical_type ob = gb_expected_elaborated_type b \<and>
      co_canonical_type_hash ob = digest_text ELABORATED_TYPE (gb_expected_elaborated_type b) \<and>
      co_canonical_type_sha256 ob = text_sha256 (gb_expected_elaborated_type b)) os requests"
  using assms(5)
proof (induction requests arbitrary: n)
  case (Cons r requests)
  then have r: "scripted_request_ok r" "scripted_answer s r = Some (gb_expected_elaborated_type b)" by auto
  obtain x where x: "scripted_query s n r = QueryReturns x" "qr_canonical_type x = gb_expected_elaborated_type b"
    "qr_canonical_type_sha256 x = text_sha256 (gb_expected_elaborated_type b)" "qr_environment x = scripted_environment s"
    using scripted_query_answer [OF r(2)] by metis
  obtain os where os: "observe_candidates (scripted_query s) b ref (Suc n) requests = Inr os"
    "list_all2 (\<lambda>ob r. assert_observation_binds_request ob r (scripted_environment s) = Inr () \<and>
      co_canonical_type ob = gb_expected_elaborated_type b \<and>
      co_canonical_type_hash ob = digest_text ELABORATED_TYPE (gb_expected_elaborated_type b) \<and>
      co_canonical_type_sha256 ob = text_sha256 (gb_expected_elaborated_type b)) os requests"
    using Cons by auto
  show ?case
    using x os scripted_result_valid [OF x(1) r(2) assms(1) r(1)] assms(2-4)
    by (auto simp: run_query_def gate_require_def observation_from_result_def intro!: exI [of _ "observation_from_result r x # os"])
qed simp

lemma scripted_gate_accepts:
  assumes ok: "scripted_binding_ok s b" and len: "2 \<le> length candidates"
    and bind: "assert_requests_bind_binding b reference candidates = Inr ()"
    and answers: "list_all (\<lambda>r. scripted_request_ok r \<and> scripted_answer s r = Some (gb_expected_elaborated_type b))
      (reference # candidates)"
  shows "\<exists>ev. run_canonical_type_gate (scripted_query s) b reference candidates = Inr ev"
proof -
  let ?t = "gb_expected_elaborated_type b"
  have r: "scripted_request_ok reference" "scripted_answer s reference = Some ?t" using answers by auto
  obtain x where x: "scripted_query s 0 reference = QueryReturns x" "qr_canonical_type x = ?t"
    "qr_canonical_type_sha256 x = text_sha256 ?t" "qr_environment x = scripted_environment s"
    using scripted_query_answer [OF r(2)] by metis
  obtain os where os: "observe_candidates (scripted_query s) b x 1 candidates = Inr os"
    "list_all2 (\<lambda>ob r. assert_observation_binds_request ob r (scripted_environment s) = Inr () \<and>
      co_canonical_type ob = ?t \<and> co_canonical_type_hash ob = digest_text ELABORATED_TYPE ?t \<and>
      co_canonical_type_sha256 ob = text_sha256 ?t) os candidates"
    using scripted_observations [OF ok x(4,2,3)] answers by auto
  have v: "validate_query_result x reference b = Inr ()"
    "assert_observation_binds_request (observation_from_result reference x) reference (scripted_environment s) = Inr ()"
    using scripted_result_valid [OF x(1) r(2) ok r(1)] by auto
  have m: "environment_facts_validate (scripted_environment s) = Inr ()"
    "assert_environment_matches_binding (scripted_environment s) b = Inr ()"
    "digest_text ELABORATED_TYPE ?t = gb_expected_elaborated_type_hash b"
    using ok scripted_environment_valid [of s]
    by (simp_all add: assert_environment_matches_binding_def result_simps scripted_binding_ok_def)
      (simp_all add: scripted_environment_def)
  have obs: "length os = length candidates" "list_all (\<lambda>(observation, request).
      assert_observation_binds_request observation request (scripted_environment s) = Inr () \<and>
      co_canonical_type observation = ?t \<and> co_canonical_type_hash observation = gb_expected_elaborated_type_hash b \<and>
      co_canonical_type_sha256 observation = text_sha256 ?t) (zip os candidates)"
    using os(2) m(3) by (auto simp: list_all2_iff list_all_iff)
  show ?thesis
    using x v m os(1) obs len bind
    by (simp add: run_canonical_type_gate_def run_query_def gate_require_def Let_def gate_evidence_assert_binds_def
        observation_from_result_def result_simps list_all_iff split_beta)
qed

section \<open>What evidence establishes\<close>

text \<open>
  C23. The gate returns evidence only if it queried the selected statement and then each of at
  least two candidates, in order, and every answer was, to the letter, the elaborated type
  bound by the contract, in one environment that matches the contract; the evidence records
  these answers, never claims promotion authority, and passes its own validation.
\<close>

theorem canonical_type_gate_is_exact:
  assumes "run_canonical_type_gate query b reference candidates = Inr ev"
  shows "2 \<le> length candidates \<and> length (ge_candidates ev) = length candidates \<and>
    (\<exists>r. query 0 reference = QueryReturns r \<and> qr_canonical_type r = gb_expected_elaborated_type b \<and>
       qr_environment r = ge_environment ev \<and> ge_reference ev = observation_from_result reference r) \<and>
    (\<forall>i < length candidates. \<exists>r. query (Suc i) (candidates ! i) = QueryReturns r \<and>
       qr_canonical_type r = gb_expected_elaborated_type b \<and> qr_environment r = ge_environment ev \<and>
       ge_candidates ev ! i = observation_from_result (candidates ! i) r) \<and>
    ef_worker_image_digest (ge_environment ev) = gb_worker_image_digest b \<and>
    ef_lean_version (ge_environment ev) = gb_lean_version b \<and>
    ef_mathlib_revision (ge_environment ev) = gb_mathlib_revision b \<and>
    \<not> ge_promotion_authority ev \<and> gate_evidence_assert_binds ev b reference candidates = Inr ()"
proof -
  obtain ref where ref: "query 0 reference = QueryReturns ref" "qr_canonical_type ref = gb_expected_elaborated_type b"
    "2 \<le> length candidates" "observe_candidates query b ref 1 candidates = Inr (ge_candidates ev)"
    "ge_environment ev = qr_environment ref" "ge_reference ev = observation_from_result reference ref"
    "\<not> ge_promotion_authority ev" "gate_evidence_assert_binds ev b reference candidates = Inr ()"
    using run_canonical_type_gate_Inr [OF assms] by blast
  have env: "ef_worker_image_digest (ge_environment ev) = gb_worker_image_digest b"
    "ef_lean_version (ge_environment ev) = gb_lean_version b"
    "ef_mathlib_revision (ge_environment ev) = gb_mathlib_revision b"
    using ref(8) by (auto simp: gate_evidence_assert_binds_def assert_environment_matches_binding_def result_simps)
  show ?thesis using observe_candidates_Inr [OF ref(4)] ref env by auto
qed

section \<open>A sample run of the gate\<close>

definition demo_statements :: "string list" where
  "demo_statements = [''theorem foo : True'', ''lemma foo : True'', ''theorem foo (_ : True) : True'']"

definition demo_scripted :: ScriptedCanonicalTypeQuery where
  "demo_scripted =
     \<lparr>st_canonical_types_by_statement_sha256 = map (\<lambda>s. (sha256_hexdigest (utf8 s), ''True'')) demo_statements,
      st_worker_image_digest = ''sha256:'' @ replicate 64 (CHR ''0''), st_lean_version = ''4.9.0'',
      st_mathlib_revision = ''abc'', st_lake_manifest_sha256 = None, st_fixture_id = ''default''\<rparr>"

definition demo_type_request :: "string \<Rightarrow> string \<Rightarrow> CanonicalTypeQueryRequest" where
  "demo_type_request subject statement =
     \<lparr>cq_subject_id = subject, cq_statement_source = statement,
      cq_statement_source_hash = digest_text STATEMENT_SOURCE statement, cq_declaration = ''N.M.foo'',
      cq_namespace = ''N.M'', cq_imports_allowlist = [''Mathlib'']\<rparr>"

definition demo_type_binding :: CanonicalTypeGateBinding where
  "demo_type_binding =
     \<lparr>gb_contract_id = ''c'', gb_revision = 1, gb_draft_contract_hash = digest_text CONTRACT ''c'',
      gb_source_hash = digest_text SOURCE_BYTES ''book'', gb_generation_task_hash = digest_text PROMPT ''task'',
      gb_selected_statement_hash = digest_text STATEMENT_SOURCE ''theorem foo : True'',
      gb_environment_hash = digest_text ENVIRONMENT ''env'', gb_declaration = ''N.M.foo'', gb_lean_version = ''4.9.0'',
      gb_mathlib_revision = ''abc'', gb_lake_manifest_sha256 = None,
      gb_worker_image_digest = ''sha256:'' @ replicate 64 (CHR ''0''),
      gb_expected_elaborated_type = ''True'', gb_expected_elaborated_type_hash = digest_text ELABORATED_TYPE ''True''\<rparr>"

lemma demo_scripted_answer:
  "s \<in> set demo_statements \<Longrightarrow> cq_statement_source_hash r = digest_text k s \<Longrightarrow> scripted_answer demo_scripted r = Some ''True''"
  by (auto simp: scripted_answer_def demo_scripted_def demo_statements_def map_of_dict_of)

lemma demo_scripted_ok: "scripted_ok demo_scripted"
proof -
  have "strip_by py_isspace (''autolean/scripted-builder-query@sha256:'' @ replicate 64 (CHR ''0''))
      = ''autolean/scripted-builder-query@sha256:'' @ replicate 64 (CHR ''0'')"
    by (rule strip_by_fixpoint) (simp add: py_isspace_def last_append)
  then show ?thesis
    by (simp add: scripted_ok_def demo_scripted_def trimmed_def nonblank_def py_strip_def image_digest_pattern_def
        is_sha256_text_def all_chars_iff char_class_defs)
      (simp add: strip_by_def py_isspace_def)
qed

lemma demo_type_request_ok: "subject \<noteq> [] \<Longrightarrow> scripted_request_ok (demo_type_request subject s)"
  by (simp add: scripted_request_ok_def demo_type_request_def name_list_ok_def sorted_set_def py_strip_def strip_by_def
      py_isspace_def)

lemma demo_type_binding_ok: "scripted_binding_ok demo_scripted demo_type_binding"
  using demo_scripted_ok
  by (simp add: scripted_binding_ok_def) (simp add: demo_type_binding_def demo_scripted_def type_text_ok_def)

theorem canonical_type_gate_is_exact_witness:
  "\<exists>ev. run_canonical_type_gate (scripted_query demo_scripted) demo_type_binding
      (demo_type_request ''contract-selected-reference'' ''theorem foo : True'')
      [demo_type_request ''a'' ''theorem foo : True'', demo_type_request ''b'' ''lemma foo : True''] = Inr ev \<and>
    length (ge_candidates ev) = 2"
proof -
  let ?c = "[demo_type_request ''a'' ''theorem foo : True'', demo_type_request ''b'' ''lemma foo : True'']"
  let ?r = "demo_type_request ''contract-selected-reference'' ''theorem foo : True''"
  have "scripted_answer demo_scripted (demo_type_request i s) = Some ''True''" if "s \<in> set demo_statements" for i s
    by (rule demo_scripted_answer [OF that]) (simp add: demo_type_request_def)
  then have "list_all (\<lambda>r. scripted_request_ok r \<and> scripted_answer demo_scripted r = Some (gb_expected_elaborated_type demo_type_binding)) (?r # ?c)"
    by (simp add: demo_type_request_ok demo_statements_def demo_type_binding_def)
  moreover have "assert_requests_bind_binding demo_type_binding ?r ?c = Inr ()"
    by (simp add: assert_requests_bind_binding_def result_simps demo_type_binding_def demo_type_request_def)
  ultimately obtain ev where ev: "run_canonical_type_gate (scripted_query demo_scripted) demo_type_binding ?r ?c = Inr ev"
    using scripted_gate_accepts [OF demo_type_binding_ok, of ?c] by auto
  show ?thesis using canonical_type_gate_is_exact [OF ev] ev by auto
qed

end
