(* ===== verification/HarnessProps.thy ===== *)
theory HarnessProps
  imports HarnessRun TypeGateProps
begin

text \<open>
  Lemmas about the fidelity harness: what the task of a translator depends on, the successful
  steps of an evaluation, and the report compared with the evidence it was built from.
\<close>

section \<open>What translators see\<close>

definition public_task ::
  "StatementContractV1 \<Rightarrow> TaskKindV1 \<times> MathematicalSpecificationV1 \<times> SourceSpanV1 list \<times> string list \<times> string list \<times> string list" where
  "public_task c =
     (sc_task_kind c, sc_mathematics c, sr_spans (sc_source c),
      [fs_declaration_name (sc_formal c), fs_namespace (sc_formal c),
       le_lean_version (fs_environment (sc_formal c)), le_mathlib_revision (fs_environment (sc_formal c))],
      fs_imports_allowlist (sc_formal c), fs_axioms_allowlist (sc_formal c))"

definition blind_part :: "SemanticObligation \<Rightarrow> string \<times> SemanticObligationKind \<times> StableIdentifierV1 list \<times> string" where
  "blind_part x = (so_obligation_id x, so_kind x, so_source_span_ids x, so_normalized_fragment x)"

definition answer_part :: "CandidateFormalization \<Rightarrow> string list \<times> string list" where
  "answer_part x =
     ([cf_candidate_id x, cf_actor_id x, cf_independence_group x, cf_lean_statement_source x, cf_reverse_rendering x],
      cf_covered_obligation_ids x)"

lemma TranslationTask_from_contract_Inr:
  "TranslationTask_from_contract c obls claims = Inr t \<Longrightarrow>
     \<exists>spans. (case claims of None \<Rightarrow> claims_of_contract c | Some cs \<Rightarrow> Inr cs) = Inr spans \<and>
       assert_source_claims_bind_contract c spans = Inr () \<and> t = task_of_contract c obls spans \<and>
       validate_obligations t c = Inr ()"
  by (auto simp: TranslationTask_from_contract_def Let_def result_simps)

lemma task_of_contract_simps [simp]:
  "tt_obligations (task_of_contract c obls spans) = obls" "tt_source_spans (task_of_contract c obls spans) = spans"
  "tt_contract_id (task_of_contract c obls spans) = sc_contract_id c"
  "tt_revision (task_of_contract c obls spans) = sc_revision c"
  "tt_draft_contract_hash (task_of_contract c obls spans) = semantic_hash c"
  "tt_selected_lean_statement (task_of_contract c obls spans) = fs_lean_statement_source (sc_formal c)"
  "tt_selected_statement_hash (task_of_contract c obls spans) = fs_statement_source_hash (sc_formal c)"
  by (simp_all add: task_of_contract_def)

lemma from_semantic_obligation_blind:
  "blind_part x = blind_part y \<Longrightarrow> from_semantic_obligation x = from_semantic_obligation y"
  by (simp add: blind_part_def from_semantic_obligation_def)

lemma map_from_semantic_obligation_blind:
  "map blind_part xs = map blind_part ys \<Longrightarrow>
     map_resultE from_semantic_obligation xs = map_resultE from_semantic_obligation ys"
proof (induction xs arbitrary: ys)
  case (Cons x xs)
  then obtain y ys' where y: "ys = y # ys'" "blind_part x = blind_part y" "map blind_part xs = map blind_part ys'"
    by (cases ys) auto
  have "from_semantic_obligation x = from_semantic_obligation y"
    using y(2) by (rule from_semantic_obligation_blind)
  moreover have "map_resultE from_semantic_obligation xs = map_resultE from_semantic_obligation ys'"
    using Cons.IH y(3) by blast
  ultimately show ?case using y(1) by simp
qed simp

lemma generation_task_blind:
  assumes "TranslationTask_from_contract c obls claims = Inr t" "TranslationTask_from_contract c' obls' claims = Inr t'"
    and "CandidateGenerationTask_from_contract c t = Inr g" "CandidateGenerationTask_from_contract c' t' = Inr g'"
    and p: "public_task c = public_task c'" and b: "map blind_part obls = map blind_part obls'"
  shows "g = g'"
proof -
  obtain spans spans' where s: "t = task_of_contract c obls spans" "t' = task_of_contract c' obls' spans'"
    "(case claims of None \<Rightarrow> claims_of_contract c | Some cs \<Rightarrow> Inr cs) = Inr spans"
    "(case claims of None \<Rightarrow> claims_of_contract c' | Some cs \<Rightarrow> Inr cs) = Inr spans'"
    using assms(1,2) by (metis TranslationTask_from_contract_Inr)
  have "claims_of_contract c = claims_of_contract c'"
    using p by (simp add: claims_of_contract_def public_task_def)
  then have "spans = spans'" using s(3,4) by (cases claims) simp_all
  moreover have "envelope_of_contract c = envelope_of_contract c'" "sc_mathematics c = sc_mathematics c'"
    using p by (simp_all add: envelope_of_contract_def public_task_def Let_def)
  ultimately show ?thesis
    using assms(3,4) s(1,2) map_from_semantic_obligation_blind [OF b]
    by (simp add: CandidateGenerationTask_from_contract_def)
qed

lemma bind_candidate_answer:
  "bind_candidate_proposal t g r p = Inr x \<Longrightarrow> answer_part x =
     ([cp_candidate_id p, tr_actor_id r, tr_independence_group r, cp_lean_statement_source p, cp_reverse_rendering p],
      cp_covered_obligation_ids p)"
  by (auto simp: bind_candidate_proposal_def CandidateFormalization_init_def result_simps answer_part_def)

lemma generate_candidates_answers:
  "generate_candidates t g rs = Inr xs \<Longrightarrow> generate_candidates t' g rs = Inr ys \<Longrightarrow>
     map answer_part xs = map answer_part ys"
  unfolding generate_candidates_def
  by (induction rs arbitrary: xs ys) (auto simp: result_simps bind_candidate_answer)

text \<open>The successful steps of an evaluation, by name.\<close>

lemma harness_evaluate_Inr:
  assumes "harness_evaluate agents reading c obls claims signoffs = Inr ev"
  shows "\<exists>registrations candidate_checks mutation_checks binding reference requests baseline reviewer_id.
    register_translation_agents (ha_translators agents) = Inr registrations \<and>
    TranslationTask_from_contract c obls claims = Inr (fe_task ev) \<and>
    CandidateGenerationTask_from_contract c (fe_task ev) = Inr (fe_generation_task ev) \<and>
    generate_candidates (fe_task ev) (fe_generation_task ev) registrations = Inr (fe_candidates ev) \<and>
    candidate_structure_checks (fe_task ev) (fe_generation_task ev) (fe_candidates ev) = Inr candidate_checks \<and>
    canonical_type_gate_inputs c (fe_task ev) (fe_generation_task ev) (fe_candidates ev) = Inr (binding, reference, requests) \<and>
    run_canonical_type_gate (ha_query agents) binding reference requests = Inr (fe_canonical_type_gate ev) \<and>
    baseline_from_task (fe_task ev) = Inr baseline \<and>
    mutation_structure_checks (fe_task ev) (fe_mutation_agent_id ev) (fe_mutation_probes ev) = Inr mutation_checks \<and>
    fe_automatic_checks ev =
      candidate_checks @ [canonical_type_automatic_check (fe_canonical_type_gate ev)] @ mutation_checks \<and>
    SemanticReviewVerdict_init (fe_review ev) = Inr (fe_review ev) \<and>
    validated_role_identity (ra_reviewer_id (ha_reviewer agents)) = Inr reviewer_id \<and>
    sv_reviewer_id (fe_review ev) = reviewer_id \<and>
    assert_review_structure
      \<lparr>rp_task = fe_task ev, rp_candidates = fe_candidates ev, rp_mutation_probes = fe_mutation_probes ev\<rparr> (fe_review ev) = Inr () \<and>
    assert_declared_actor_separation (fe_candidates ev) (fe_mutation_agent_id ev) (fe_review ev) (fe_additional_signoffs ev) = Inr () \<and>
    fe_evidence_hash ev = evaluation_hash (fe_task ev) (fe_generation_task ev) (fe_candidates ev) (fe_mutation_agent_id ev)
      (fe_mutation_probes ev) (fe_review ev) (fe_automatic_checks ev) (fe_additional_signoffs ev) \<and>
    build_report reading c (fe_candidates ev) (fe_mutation_probes ev) (fe_review ev) (fe_evidence_hash ev)
      (fe_additional_signoffs ev) = Inr (fe_report ev) \<and> fe_additional_signoffs ev = signoffs"
proof -
  have init: "SemanticReviewVerdict_init v = Inr w \<Longrightarrow> w = v" for v w
    by (auto simp: SemanticReviewVerdict_init_def result_simps)
  from assms show ?thesis
    apply (clarsimp simp: harness_evaluate_def Let_def result_simps validate_candidates_def validate_review_structure_def)
    apply (frule init)
    apply clarsimp
    done
qed

section \<open>The run accepts its own evaluation\<close>

lemma evaluate_rebinds:
  assumes "harness_evaluate agents reading c obls claims signoffs = Inr ev"
  shows "evaluation_assert_binds ev c = assert_report_binds ev c (fe_evidence_hash ev)"
proof -
  obtain registrations candidate_checks mutation_checks binding reference requests where
    t: "TranslationTask_from_contract c obls claims = Inr (fe_task ev)"
    and g: "CandidateGenerationTask_from_contract c (fe_task ev) = Inr (fe_generation_task ev)"
    and cc: "candidate_structure_checks (fe_task ev) (fe_generation_task ev) (fe_candidates ev) = Inr candidate_checks"
    and i: "canonical_type_gate_inputs c (fe_task ev) (fe_generation_task ev) (fe_candidates ev) = Inr (binding, reference, requests)"
    and r: "run_canonical_type_gate (ha_query agents) binding reference requests = Inr (fe_canonical_type_gate ev)"
    and mc: "mutation_structure_checks (fe_task ev) (fe_mutation_agent_id ev) (fe_mutation_probes ev) = Inr mutation_checks"
    and ac: "fe_automatic_checks ev = candidate_checks @ [canonical_type_automatic_check (fe_canonical_type_gate ev)] @ mutation_checks"
    and rs: "assert_review_structure
      \<lparr>rp_task = fe_task ev, rp_candidates = fe_candidates ev, rp_mutation_probes = fe_mutation_probes ev\<rparr> (fe_review ev) = Inr ()"
    and sep: "assert_declared_actor_separation (fe_candidates ev) (fe_mutation_agent_id ev) (fe_review ev) (fe_additional_signoffs ev) = Inr ()"
    and h: "fe_evidence_hash ev = evaluation_hash (fe_task ev) (fe_generation_task ev) (fe_candidates ev) (fe_mutation_agent_id ev)
      (fe_mutation_probes ev) (fe_review ev) (fe_automatic_checks ev) (fe_additional_signoffs ev)"
    using harness_evaluate_Inr [OF assms] by blast
  obtain spans where sp: "assert_source_claims_bind_contract c spans = Inr ()" "fe_task ev = task_of_contract c obls spans"
    "validate_obligations (fe_task ev) c = Inr ()"
    using TranslationTask_from_contract_Inr [OF t] by blast
  then have re: "TranslationTask_from_contract c (tt_obligations (fe_task ev)) (Some (tt_source_spans (fe_task ev))) = Inr (fe_task ev)"
    by (simp add: TranslationTask_from_contract_def Let_def)
  have b: "tt_contract_id (fe_task ev) = sc_contract_id c" "tt_revision (fe_task ev) = sc_revision c"
    "tt_draft_contract_hash (fe_task ev) = semantic_hash c"
    using sp(2) by simp_all
  have gate: "gate_evidence_assert_binds (fe_canonical_type_gate ev) binding reference requests = Inr ()"
    using run_canonical_type_gate_Inr [OF r] by blast
  have auto_checks: "expected_automatic_checks ev = Inr (fe_automatic_checks ev)"
    using cc mc ac by (simp add: expected_automatic_checks_def)
  show ?thesis
    unfolding evaluation_assert_binds_def Let_def
    using re b g i gate auto_checks rs sep h by (simp add: harness_require_def)
qed

text \<open>A text that keeps its end when white space is trimmed.\<close>

definition ends_clean :: "string \<Rightarrow> bool" where
  "ends_clean t \<longleftrightarrow> \<not> white_space (last t)"

definition review_texts :: "SemanticReviewVerdict \<Rightarrow> string list" where
  "review_texts v =
     [sv_source_to_normalized_evidence v, sv_positive_example_evidence v, sv_negative_example_evidence v,
      sv_non_vacuity_evidence v, sv_rationale v] @ map mv_rationale (sv_mutation_verdicts v)"

lemma strip_marked:
  assumes "t \<noteq> []"
  shows "strip_ws (marked h t) = marked h t \<longleftrightarrow> ends_clean t"
proof -
  have m: "marked h t \<noteq> []" "hd (marked h t) = CHR ''h''" "last (marked h t) = last t"
    using assms by (simp_all add: marked_def evidence_marker_def)
  show ?thesis
  proof
    assume "strip_ws (marked h t) = marked h t"
    then show "ends_clean t"
      using strip_by_ends [of white_space "marked h t"] m by (simp add: strip_ws_def ends_clean_def)
  next
    assume "ends_clean t"
    then show "strip_ws (marked h t) = marked h t"
      using m unfolding ends_clean_def by (intro strip_ws_ends) (simp add: white_space_def)
  qed
qed

lemma trimmed_strip_ws: "trimmed s \<Longrightarrow> strip_ws s = s"
proof (rule strip_ws_ends)
  assume t: "trimmed s"
  then have "strip_by py_isspace s \<noteq> []" "strip_by py_isspace s = s"
    by (auto simp: trimmed_def nonblank_def py_strip_def)
  then show "s = [] \<or> \<not> white_space (hd s) \<and> \<not> white_space (last s)"
    using strip_by_ends [of py_isspace s] white_space_isspace by metis
qed

lemma nonblank_nonempty: "nonblank t \<Longrightarrow> t \<noteq> []"
  by (auto simp: nonblank_def py_strip_def strip_by_def)

lemma make_check_Inr:
  "make_check h v k passed e = Inr chk \<Longrightarrow> \<exists>key i. check_key k = Inr key \<and>
     stable_identifier ''builder-fidelity-check'' (dg_value h @ '':'' @ key) = Inr i \<and>
     chk = \<lparr>fc_check_id = i, fc_kind = k, fc_passed = passed, fc_evidence = strip_ws (marked h e),
       fc_reviewer_id = strip_ws (sv_reviewer_id v), fc_independent = sv_independent v\<rparr>"
  by (auto simp: make_check_def result_simps FidelityCheckV1_init_def construct_Inr FidelityCheckV1_strip_def)

lemma report_check_binds_made:
  assumes "make_check h v k passed e = Inr chk" "map_of cs k = Some chk" "strip_ws (sv_reviewer_id v) = sv_reviewer_id v"
  shows "report_check_binds h v cs (k, passed, e) = Inr () \<longleftrightarrow> strip_ws (marked h e) = marked h e"
  using make_check_Inr [OF assms(1)] assms(2,3) by (auto simp: report_check_binds_def result_simps)

lemma constant_evidence:
  "ends_clean ''expert reviewed every reverse rendering''"
  "ends_clean ''expert compared candidates from separately declared registrations''"
  by (simp_all add: ends_clean_def white_space_def)

lemma made_checks_bind:
  assumes "build_checks (fe_candidates ev) (fe_review ev) h = Inr checks"
    and rev: "strip_ws (sv_reviewer_id (fe_review ev)) = sv_reviewer_id (fe_review ev)"
    and texts: "list_all (\<lambda>t. t \<noteq> []) (review_texts (fe_review ev))"
  shows "forE (report_check_binds h (fe_review ev) (dict_of (map (\<lambda>item. (fc_kind item, item)) checks))) (expected_checks ev) = Inr ()
     \<longleftrightarrow> list_all ends_clean [sv_source_to_normalized_evidence (fe_review ev), sv_positive_example_evidence (fe_review ev),
           sv_negative_example_evidence (fe_review ev), sv_non_vacuity_evidence (fe_review ev)]"
    and "distinct (map fc_kind checks)" "set (map fc_kind checks) = set (map fst (expected_checks ev))"
proof -
  let ?v = "fe_review ev"
  obtain c1 c2 c3 c4 c5 c6 where m:
    "make_check h ?v FCK_SOURCE_PRESERVATION (sv_source_to_normalized_equivalent ?v \<and> obligations_accepted ?v)
       (sv_source_to_normalized_evidence ?v) = Inr c1"
    "make_check h ?v FCK_REVERSE_RENDER (list_all cv_reverse_render_equivalent (sv_candidate_verdicts ?v) \<and> candidates_accepted ?v)
       ''expert reviewed every reverse rendering'' = Inr c2"
    "make_check h ?v FCK_INDEPENDENT_TRANSLATION (candidates_accepted ?v \<and> length (fe_candidates ev) \<ge> 2)
       ''expert compared candidates from separately declared registrations'' = Inr c3"
    "make_check h ?v FCK_POSITIVE_EXAMPLE (sv_positive_example_valid ?v) (sv_positive_example_evidence ?v) = Inr c4"
    "make_check h ?v FCK_NEGATIVE_EXAMPLE (sv_negative_example_valid ?v) (sv_negative_example_evidence ?v) = Inr c5"
    "make_check h ?v FCK_NON_VACUITY (sv_non_vacuous ?v) (sv_non_vacuity_evidence ?v) = Inr c6"
    and checks: "checks = [c1, c2, c3, c4, c5, c6]"
    using assms(1) by (auto simp: build_checks_def Let_def result_simps)
  have k: "map fc_kind checks = [FCK_SOURCE_PRESERVATION, FCK_REVERSE_RENDER, FCK_INDEPENDENT_TRANSLATION,
      FCK_POSITIVE_EXAMPLE, FCK_NEGATIVE_EXAMPLE, FCK_NON_VACUITY]"
    using m [THEN make_check_Inr] checks by auto
  show "distinct (map fc_kind checks)" by (simp add: k)
  show "set (map fc_kind checks) = set (map fst (expected_checks ev))"
    by (simp add: k expected_checks_def Let_def)
  have "dict_of (map (\<lambda>item. (fc_kind item, item)) checks) = map (\<lambda>item. (fc_kind item, item)) checks"
    by (rule dict_of_distinct) (use k in \<open>simp add: comp_def\<close>)
  then have look: "map_of (dict_of (map (\<lambda>item. (fc_kind item, item)) checks)) FCK_SOURCE_PRESERVATION = Some c1"
    "map_of (dict_of (map (\<lambda>item. (fc_kind item, item)) checks)) FCK_REVERSE_RENDER = Some c2"
    "map_of (dict_of (map (\<lambda>item. (fc_kind item, item)) checks)) FCK_INDEPENDENT_TRANSLATION = Some c3"
    "map_of (dict_of (map (\<lambda>item. (fc_kind item, item)) checks)) FCK_POSITIVE_EXAMPLE = Some c4"
    "map_of (dict_of (map (\<lambda>item. (fc_kind item, item)) checks)) FCK_NEGATIVE_EXAMPLE = Some c5"
    "map_of (dict_of (map (\<lambda>item. (fc_kind item, item)) checks)) FCK_NON_VACUITY = Some c6"
    using k checks by simp_all
  show "forE (report_check_binds h (fe_review ev) (dict_of (map (\<lambda>item. (fc_kind item, item)) checks))) (expected_checks ev) = Inr ()
     \<longleftrightarrow> list_all ends_clean [sv_source_to_normalized_evidence (fe_review ev), sv_positive_example_evidence (fe_review ev),
           sv_negative_example_evidence (fe_review ev), sv_non_vacuity_evidence (fe_review ev)]"
    using texts constant_evidence unfolding forE_Inr
    by (simp add: expected_checks_def Let_def review_texts_def strip_marked
        report_check_binds_made [OF m(1) look(1) rev] report_check_binds_made [OF m(2) look(2) rev]
        report_check_binds_made [OF m(3) look(3) rev] report_check_binds_made [OF m(4) look(4) rev]
        report_check_binds_made [OF m(5) look(5) rev] report_check_binds_made [OF m(6) look(6) rev])
qed

lemma make_mutation_result_Inr:
  "make_mutation_result v h probe = Inr r \<Longrightarrow> \<exists>verdict.
     map_of (dict_of (map (\<lambda>item. (mv_probe_id item, item)) (sv_mutation_verdicts v))) (mp_probe_id probe) = Some verdict \<and>
     r = \<lparr>mr_probe = probe, mr_detected = mv_detected verdict, mr_evidence = strip_ws (marked h (mv_rationale verdict)),
       mr_executed_by = strip_ws (sv_reviewer_id v)\<rparr>"
  by (auto simp: make_mutation_result_def MutationResultV1_init_def construct_Inr MutationResultV1_strip_def split: option.splits)

lemma made_mutation_result_binds:
  assumes "make_mutation_result v h probe = Inr r" "strip_ws (sv_reviewer_id v) = sv_reviewer_id v"
    and "\<forall>m \<in> set (sv_mutation_verdicts v). mv_rationale m \<noteq> []"
  shows "mr_probe r = probe"
    "mutation_result_binds h v r = Inr () \<longleftrightarrow> (\<forall>m \<in> set (sv_mutation_verdicts v).
       map_of (dict_of (map (\<lambda>item. (mv_probe_id item, item)) (sv_mutation_verdicts v))) (mp_probe_id probe) = Some m
         \<longrightarrow> ends_clean (mv_rationale m))"
proof -
  let ?d = "map (\<lambda>item. (mv_probe_id item, item)) (sv_mutation_verdicts v)"
  obtain m where m: "map_of (dict_of ?d) (mp_probe_id probe) = Some m" and
    r: "r = \<lparr>mr_probe = probe, mr_detected = mv_detected m, mr_evidence = strip_ws (marked h (mv_rationale m)),
      mr_executed_by = strip_ws (sv_reviewer_id v)\<rparr>"
    using make_mutation_result_Inr [OF assms(1)] by blast
  show "mr_probe r = probe" by (simp add: r)
  have "m \<in> set (sv_mutation_verdicts v)"
    using m by (auto simp: map_of_dict_of dest!: map_of_SomeD)
  then show "mutation_result_binds h v r = Inr () \<longleftrightarrow> (\<forall>m \<in> set (sv_mutation_verdicts v).
       map_of (dict_of ?d) (mp_probe_id probe) = Some m \<longrightarrow> ends_clean (mv_rationale m))"
    using m assms(2,3) by (auto simp: mutation_result_binds_def r result_simps strip_marked)
qed

lemma made_mutation_results_bind:
  assumes results: "map_resultE (make_mutation_result v h) probes = Inr results"
    and rev: "strip_ws (sv_reviewer_id v) = sv_reviewer_id v"
    and texts: "\<forall>m \<in> set (sv_mutation_verdicts v). mv_rationale m \<noteq> []"
    and d: "distinct (map mv_probe_id (sv_mutation_verdicts v))"
    and ids: "set (map mv_probe_id (sv_mutation_verdicts v)) = set (map mp_probe_id probes)"
  shows "map mr_probe results = probes"
    "forE (mutation_result_binds h v) results = Inr () \<longleftrightarrow> (\<forall>m \<in> set (sv_mutation_verdicts v). ends_clean (mv_rationale m))"
proof -
  let ?d = "dict_of (map (\<lambda>item. (mv_probe_id item, item)) (sv_mutation_verdicts v))"
  have all2: "list_all2 (\<lambda>p r. make_mutation_result v h p = Inr r) probes results"
    using results by (simp add: map_resultE_Inr)
  then show "map mr_probe results = probes"
    by (induction rule: list_all2_induct) (simp_all add: made_mutation_result_binds(1) [OF _ rev texts])
  have look: "map_of ?d (mv_probe_id m) = Some m" if "m \<in> set (sv_mutation_verdicts v)" for m
    using that d by (subst dict_of_distinct) (auto simp: comp_def intro!: map_of_is_SomeI)
  have "forE (mutation_result_binds h v) results = Inr () \<longleftrightarrow>
      list_all (\<lambda>p. \<forall>m \<in> set (sv_mutation_verdicts v). map_of ?d (mp_probe_id p) = Some m \<longrightarrow> ends_clean (mv_rationale m)) probes"
    unfolding forE_Inr using all2
    by (induction rule: list_all2_induct) (simp_all add: made_mutation_result_binds(2) [OF _ rev texts])
  also have "\<dots> \<longleftrightarrow> (\<forall>m \<in> set (sv_mutation_verdicts v). ends_clean (mv_rationale m))"
  proof
    assume all: "list_all (\<lambda>p. \<forall>m \<in> set (sv_mutation_verdicts v). map_of ?d (mp_probe_id p) = Some m \<longrightarrow> ends_clean (mv_rationale m)) probes"
    show "\<forall>m \<in> set (sv_mutation_verdicts v). ends_clean (mv_rationale m)"
    proof
      fix m assume m: "m \<in> set (sv_mutation_verdicts v)"
      then have "mv_probe_id m \<in> set (map mp_probe_id probes)" unfolding ids [symmetric] by simp
      then obtain p where "p \<in> set probes" "mp_probe_id p = mv_probe_id m" by auto
      then show "ends_clean (mv_rationale m)" using all m look [OF m] by (auto simp: list_all_iff)
    qed
  qed (auto simp: list_all_iff)
  finally show "forE (mutation_result_binds h v) results = Inr () \<longleftrightarrow> (\<forall>m \<in> set (sv_mutation_verdicts v). ends_clean (mv_rationale m))" .
qed

text \<open>The report against its own evidence.\<close>

lemma built_report_Inr:
  assumes "build_report reading c candidates probes v h signoffs = Inr report"
  shows "\<exists>checks results i j signoff. build_checks candidates v h = Inr checks \<and>
    map_resultE (make_mutation_result v h) probes = Inr results \<and>
    stable_identifier ''builder-semantic-signoff'' (dg_value h @ '':'' @ sv_review_id v) = Inr i \<and>
    stable_identifier ''builder-fidelity-report'' (dg_value h) = Inr j \<and>
    signoff = \<lparr>rs_signoff_id = i, rs_reviewer_id = strip_ws (sv_reviewer_id v), rs_role = RL_SEMANTIC_REVIEWER,
      rs_decision = sv_decision v, rs_independent = sv_independent v, rs_rationale = strip_ws (marked h (sv_rationale v)),
      rs_reviewed_at = as_utc reading\<rparr> \<and>
    report = \<lparr>fr_report_id = j, fr_evidence_hash = h, fr_risk_level = tp_fidelity_risk (sc_policy c), fr_checks = checks,
      fr_mutation_results = results, fr_signoffs = signoff # signoffs, fr_generated_at = as_utc reading\<rparr>"
  using assms
  by (auto simp: build_report_def harness_now_def result_simps ReviewerSignoffV1_init_def FidelityReportV1_init_def
      construct_Inr ReviewerSignoffV1_strip_def)

lemma built_report_binds:
  assumes report: "build_report reading c (fe_candidates ev) (fe_mutation_probes ev) (fe_review ev) h (fe_additional_signoffs ev)
      = Inr (fe_report ev)"
    and rev: "strip_ws (sv_reviewer_id (fe_review ev)) = sv_reviewer_id (fe_review ev)"
    and texts: "list_all (\<lambda>t. t \<noteq> []) (review_texts (fe_review ev))"
    and d: "distinct (map mv_probe_id (sv_mutation_verdicts (fe_review ev)))"
    and ids: "set (map mv_probe_id (sv_mutation_verdicts (fe_review ev))) = set (map mp_probe_id (fe_mutation_probes ev))"
  shows "assert_report_binds ev c h = Inr () \<longleftrightarrow> list_all ends_clean (review_texts (fe_review ev))"
proof -
  let ?v = "fe_review ev"
  obtain checks results i j signoff where
    checks: "build_checks (fe_candidates ev) ?v h = Inr checks"
    and results: "map_resultE (make_mutation_result ?v h) (fe_mutation_probes ev) = Inr results"
    and i: "stable_identifier ''builder-semantic-signoff'' (dg_value h @ '':'' @ sv_review_id ?v) = Inr i"
    and j: "stable_identifier ''builder-fidelity-report'' (dg_value h) = Inr j"
    and so: "signoff = \<lparr>rs_signoff_id = i, rs_reviewer_id = strip_ws (sv_reviewer_id ?v), rs_role = RL_SEMANTIC_REVIEWER,
      rs_decision = sv_decision ?v, rs_independent = sv_independent ?v, rs_rationale = strip_ws (marked h (sv_rationale ?v)),
      rs_reviewed_at = as_utc reading\<rparr>"
    and r: "fe_report ev = \<lparr>fr_report_id = j, fr_evidence_hash = h, fr_risk_level = tp_fidelity_risk (sc_policy c), fr_checks = checks,
      fr_mutation_results = results, fr_signoffs = signoff # fe_additional_signoffs ev, fr_generated_at = as_utc reading\<rparr>"
    using built_report_Inr [OF report] by blast
  note c = made_checks_bind [OF checks rev texts]
  have mt: "\<forall>m \<in> set (sv_mutation_verdicts ?v). mv_rationale m \<noteq> []"
    using texts by (simp add: review_texts_def list_all_iff)
  note m = made_mutation_results_bind [OF results rev mt d ids]
  have dd: "dict_of (map (\<lambda>item. (fc_kind item, item)) checks) = map (\<lambda>item. (fc_kind item, item)) checks"
    by (rule dict_of_distinct) (use c(2) in \<open>simp add: comp_def\<close>)
  have n: "length (dict_of (map (\<lambda>item. (fc_kind item, item)) checks)) = length checks"
    "set (map fst (dict_of (map (\<lambda>item. (fc_kind item, item)) checks))) = set (map fst (expected_checks ev))"
    unfolding dd c(3) [symmetric] by (simp_all add: image_image)
  have s: "rs_rationale signoff = marked h (sv_rationale ?v) \<longleftrightarrow> ends_clean (sv_rationale ?v)"
    using texts by (simp add: so strip_marked review_texts_def)
  have parts: "list_all ends_clean (review_texts ?v) \<longleftrightarrow>
      list_all ends_clean [sv_source_to_normalized_evidence ?v, sv_positive_example_evidence ?v,
           sv_negative_example_evidence ?v, sv_non_vacuity_evidence ?v] \<and>
      (\<forall>m \<in> set (sv_mutation_verdicts ?v). ends_clean (mv_rationale m)) \<and> ends_clean (sv_rationale ?v)"
    by (auto simp: review_texts_def list_all_iff)
  show ?thesis
    unfolding assert_report_binds_def Let_def bindE_eq_Inr parts c(1) [symmetric] m(2) [symmetric]
    using i n(2) by (simp add: r j n(1) m(1) s harness_require_Inr so rev) (auto simp: s [unfolded so, simplified])
qed

lemma accepted_review_texts:
  "SemanticReviewVerdict_init v = Inr w \<Longrightarrow> list_all (\<lambda>t. t \<noteq> []) (review_texts v)"
  by (auto simp: SemanticReviewVerdict_init_def result_simps review_texts_def list_all_iff mutation_verdict_check_def
      dest: nonblank_nonempty)

lemma validated_role_identity_strip: "validated_role_identity x = Inr i \<Longrightarrow> strip_ws i = i"
  by (auto simp: validated_role_identity_def result_simps split: option.splits intro: trimmed_strip_ws)

lemma review_structure_mutations:
  "assert_review_structure packet v = Inr () \<Longrightarrow> distinct (map mv_probe_id (sv_mutation_verdicts v)) \<and>
     set (map mv_probe_id (sv_mutation_verdicts v)) = set (map mp_probe_id (rp_mutation_probes packet))"
  by (simp add: assert_review_structure_def Let_def result_simps)

lemma evaluate_binds_iff:
  assumes "harness_evaluate agents reading c obls claims signoffs = Inr ev"
  shows "evaluation_assert_binds ev c = Inr () \<longleftrightarrow> list_all ends_clean (review_texts (fe_review ev))"
proof -
  obtain reviewer_id where
    v: "SemanticReviewVerdict_init (fe_review ev) = Inr (fe_review ev)"
    and i: "validated_role_identity (ra_reviewer_id (ha_reviewer agents)) = Inr reviewer_id" "sv_reviewer_id (fe_review ev) = reviewer_id"
    and s: "assert_review_structure
      \<lparr>rp_task = fe_task ev, rp_candidates = fe_candidates ev, rp_mutation_probes = fe_mutation_probes ev\<rparr> (fe_review ev) = Inr ()"
    and r: "build_report reading c (fe_candidates ev) (fe_mutation_probes ev) (fe_review ev) (fe_evidence_hash ev)
      (fe_additional_signoffs ev) = Inr (fe_report ev)"
    using harness_evaluate_Inr [OF assms] by blast
  have "assert_report_binds ev c (fe_evidence_hash ev) = Inr () \<longleftrightarrow> list_all ends_clean (review_texts (fe_review ev))"
    using built_report_binds [OF r] validated_role_identity_strip [OF i(1)] i(2) accepted_review_texts [OF v]
      review_structure_mutations [OF s] by simp
  then show ?thesis by (simp add: evaluate_rebinds [OF assms])
qed

end
