(* ===== verification/HarnessSample.thy ===== *)
theory HarnessSample
  imports HarnessProps
begin

text \<open>
  A complete run of the fidelity harness on a small contract: two translators, a mutation agent
  with one probe of every required kind, a scripted canonical type query and a reviewer that
  accepts everything, whose rationale is the parameter of the sample.
\<close>

definition harness_span :: SourceSpanV1 where
  "harness_span =
     \<lparr>ss_span_id = sample_id ''span'', ss_locator = ''l'', ss_content_hash = digest_text SOURCE_SPAN ''n'',
      ss_start_offset = None, ss_end_offset = None, ss_permitted_excerpt = Some ''n''\<rparr>"

definition harness_formal :: "string \<Rightarrow> FormalSpecificationV1" where
  "harness_formal stm = sample_formal\<lparr>fs_lean_statement_source := stm,
     fs_statement_source_hash := digest_text STATEMENT_SOURCE stm\<rparr>"

definition harness_contract :: "string \<Rightarrow> StatementContractV1" where
  "harness_contract stm = sample_draft\<lparr>sc_source := (sc_source sample_draft)\<lparr>sr_spans := [harness_span]\<rparr>,
     sc_rights := (sc_rights sample_draft)\<lparr>rr_overall_decision := PD_RESTRICTED, rr_reviewed_by := Some ''lawyer'',
       rr_reviewed_at := Some (utc 0)\<rparr>,
     sc_alignments := [\<lparr>al_source_span_id = sample_id ''span'', al_formal_target = ''foo'', al_relation = ''states'',
       al_confidence = ''1.0'', al_reviewer_id = None\<rparr>],
     sc_formal := harness_formal stm\<rparr>"

definition harness_obligation :: "SemanticObligationKind \<Rightarrow> SemanticObligation" where
  "harness_obligation k =
     \<lparr>so_obligation_id = SemanticObligationKind_value k, so_kind = k, so_description = ''d'',
      so_source_span_ids = [sample_id ''span''], so_normalized_fragment = ''n'', so_lean_fragment = ''True'',
      so_authority = EA_EXPERT\<rparr>"

definition harness_obligations :: "SemanticObligation list" where
  "harness_obligations = map harness_obligation [OB_QUANTIFIER_ORDER, OB_CONCLUSION, OB_NON_VACUITY]"

definition harness_translator :: "string \<Rightarrow> string \<Rightarrow> TranslationAgentV2" where
  "harness_translator name statement =
     \<lparr>ta_actor_id = Some name, ta_independence_group = Some name,
      ta_translate = (\<lambda>g. AgentReturns
        \<lparr>cp_candidate_id = name, cp_lean_statement_source = statement, cp_reverse_rendering = ''n'',
         cp_covered_obligation_ids = map go_obligation_id (gt_obligations g)\<rparr>)\<rparr>"

definition harness_probe :: "MutationKindV1 \<times> char \<Rightarrow> MutationProbeV1" where
  "harness_probe = (\<lambda>(k, x).
     \<lparr>mp_probe_id = sample_id [x], mp_kind = k, mp_target_path = ''statement'', mp_expected_failure = ''rejected'',
      mp_mutated_statement_source = [x]\<rparr>)"

definition harness_probes :: "MutationProbeV1 list" where
  "harness_probes = map harness_probe (zip required_mutations ''abcdefghi'')"

definition harness_candidate_verdict :: "SemanticReviewPacket \<Rightarrow> CandidateFormalization \<Rightarrow> CandidateReviewVerdict" where
  "harness_candidate_verdict p x =
     \<lparr>cv_candidate_id = cf_candidate_id x, cv_candidate_hash = candidate_evidence_hash x, cv_decision = DC_ACCEPT,
      cv_reverse_render_equivalent = True,
      cv_obligation_verdicts = map (\<lambda>ob. \<lparr>ov_obligation_id = so_obligation_id ob, ov_decision = DC_ACCEPT,
        ov_rationale = ''e''\<rparr>) (tt_obligations (rp_task p)),
      cv_rationale = ''e''\<rparr>"

definition harness_verdict :: "string \<Rightarrow> SemanticReviewPacket \<Rightarrow> SemanticReviewVerdict" where
  "harness_verdict rationale p =
     \<lparr>sv_review_id = ''review'', sv_reviewer_id = ''expert'', sv_independent = True, sv_decision = DC_ACCEPT,
      sv_source_to_normalized_equivalent = True, sv_source_to_normalized_evidence = ''e'',
      sv_candidate_verdicts = map (harness_candidate_verdict p) (rp_candidates p),
      sv_mutation_verdicts = map (\<lambda>probe. \<lparr>mv_probe_id = mp_probe_id probe, mv_detected = True, mv_rationale = ''e''\<rparr>)
        (rp_mutation_probes p),
      sv_positive_example_valid = True, sv_positive_example_evidence = ''e'',
      sv_negative_example_valid = True, sv_negative_example_evidence = ''e'',
      sv_non_vacuous = True, sv_non_vacuity_evidence = ''e'', sv_rationale = rationale\<rparr>"

definition harness_demo :: "string \<Rightarrow> harness_agents" where
  "harness_demo rationale =
     \<lparr>ha_query = scripted_query demo_scripted,
      ha_translators = [harness_translator ''a'' ''theorem foo : True'', harness_translator ''b'' ''lemma foo : True''],
      ha_mutation_agent = \<lparr>ma_actor_id = Some ''m'', ma_generate = (\<lambda>task baseline. Inr harness_probes)\<rparr>,
      ha_reviewer = \<lparr>ra_reviewer_id = Some ''expert'', ra_review = (\<lambda>p. Inr (harness_verdict rationale p))\<rparr>\<rparr>"

definition harness_claim :: SourceClaimSpan where
  "harness_claim =
     \<lparr>cl_span_id = sample_id ''span'', cl_locator = ''l'', cl_content_hash = digest_text SOURCE_SPAN ''n'',
      cl_permitted_excerpt = ''n''\<rparr>"

definition harness_task :: "string \<Rightarrow> TranslationTask" where
  "harness_task stm = task_of_contract (harness_contract stm) harness_obligations [harness_claim]"

definition harness_generation_task :: CandidateGenerationTask where
  "harness_generation_task =
     \<lparr>gt_source_spans = [harness_claim], gt_mathematics = sc_mathematics sample_draft,
      gt_formalization =
        \<lparr>gv_task_kind = TK_KNOWN_THEOREM, gv_declaration_name = ''foo'', gv_namespace = ''N.M'', gv_lean_version = ''4.9.0'',
         gv_mathlib_revision = ''abc'', gv_imports_allowlist = [''Mathlib''], gv_axioms_allowlist = [],
         gv_rendering_profile = rendering_profile\<rparr>,
      gt_obligations = map (\<lambda>k. \<lparr>go_obligation_id = SemanticObligationKind_value k, go_kind = k,
        go_source_span_ids = [sample_id ''span''], go_normalized_fragment = ''n''\<rparr>)
        [OB_QUANTIFIER_ORDER, OB_CONCLUSION, OB_NON_VACUITY]\<rparr>"

definition harness_candidate :: "string \<Rightarrow> string \<Rightarrow> string \<Rightarrow> CandidateFormalization" where
  "harness_candidate stm name statement =
     \<lparr>cf_candidate_id = name, cf_actor_id = name, cf_independence_group = name,
      cf_contract_id = tt_contract_id (harness_task stm), cf_revision = 1,
      cf_draft_contract_hash = tt_draft_contract_hash (harness_task stm), cf_source_hash = tt_source_hash (harness_task stm),
      cf_normalized_statement_sha256 = tt_normalized_statement_sha256 (harness_task stm),
      cf_generation_task_hash = generation_task_hash harness_generation_task,
      cf_lean_statement_source = statement, cf_reverse_rendering = ''n'',
      cf_covered_obligation_ids = map SemanticObligationKind_value [OB_QUANTIFIER_ORDER, OB_CONCLUSION, OB_NON_VACUITY]\<rparr>"

definition harness_candidates :: "string \<Rightarrow> CandidateFormalization list" where
  "harness_candidates stm = [harness_candidate stm ''a'' ''theorem foo : True'', harness_candidate stm ''b'' ''lemma foo : True'']"

lemma harness_contract_simps [simp]:
  "sc_formal (harness_contract stm) = harness_formal stm" "sc_mathematics (harness_contract stm) = sc_mathematics sample_draft"
  "sc_contract_id (harness_contract stm) = sample_id ''contract''" "sc_revision (harness_contract stm) = 1"
  "sc_task_kind (harness_contract stm) = TK_KNOWN_THEOREM" "sr_spans (sc_source (harness_contract stm)) = [harness_span]"
  by (simp_all add: harness_contract_def sample_draft_def)

lemma short_texts [simp]:
  "nonblank ''n''" "nonblank ''d''" "nonblank ''e''" "nonblank ''l''" "nonblank ''True''" "nonblank ''quantifier_order''"
  "nonblank ''conclusion''" "nonblank ''non_vacuity''" "nonblank ''a''" "nonblank ''b''" "nonblank ''m''"
  "nonblank ''theorem foo : True''" "nonblank ''lemma foo : True''" "nonblank ''review''" "nonblank ''expert''"
  "trimmed ''a''" "trimmed ''b''" "trimmed ''m''" "trimmed ''expert''" "trimmed ''foo''" "trimmed ''N.M''" "trimmed ''4.9.0''"
  "trimmed ''abc''" "trimmed ''N.M.foo''" "trimmed ''theorem foo : True''" "trimmed ''lemma foo : True''"
  "trimmed ''contract-selected-reference''"
  by (simp_all add: trimmed_def nonblank_def py_strip_def strip_by_def py_isspace_def)

lemma fragments [simp]:
  "py_contains ''n'' ''n''" "stm \<in> set demo_statements \<Longrightarrow> py_contains ''True'' stm"
  by (auto simp: py_contains_def sublist_Cons_right demo_statements_def)

lemma demo_statement_text [simp]:
  "stm \<in> set demo_statements \<Longrightarrow> nonblank stm" "stm \<in> set demo_statements \<Longrightarrow> trimmed stm"
  "stm \<in> set demo_statements \<Longrightarrow> [x] \<noteq> stm"
  by (auto simp: demo_statements_def trimmed_def nonblank_def py_strip_def strip_by_def py_isspace_def)

lemma sample_draft_mathematics [simp]:
  "ms_normalized_statement (sc_mathematics sample_draft) = ''n''"
  "ms_assumptions (sc_mathematics sample_draft) = []" "ms_definitions (sc_mathematics sample_draft) = []"
  "ms_edge_cases (sc_mathematics sample_draft) = []"
  by (simp_all add: sample_draft_def)

lemma harness_task_made:
  assumes stm: "stm \<in> set demo_statements"
  shows "TranslationTask_from_contract (harness_contract stm) harness_obligations None = Inr (harness_task stm)"
proof -
  have claims: "claims_of_contract (harness_contract stm) = Inr [harness_claim]"
    by (simp add: claims_of_contract_def SourceClaimSpan_init_def harness_require_def harness_span_def harness_claim_def)
  have bind: "assert_source_claims_bind_contract (harness_contract stm) [harness_claim] = Inr ()"
    by (simp add: assert_source_claims_bind_contract_def harness_require_def claim_matches_span_def harness_span_def
        harness_claim_def opt_all_def dict_of_def)
  have "validate_obligations (harness_task stm) (harness_contract stm) = Inr ()"
    by (simp add: validate_obligations_def harness_task_def harness_obligations_def harness_obligation_def result_simps
        obligation_fits_def required_obligation_kinds_def harness_claim_def)
      (simp add: task_of_contract_def harness_formal_def stm)
  then show ?thesis
    by (simp add: TranslationTask_from_contract_def claims bind Let_def flip: harness_task_def)
qed

lemma harness_generation_task_made:
  "CandidateGenerationTask_from_contract (harness_contract stm) (harness_task stm) = Inr harness_generation_task"
  by (simp add: CandidateGenerationTask_from_contract_def envelope_of_contract_def CandidateGenerationEnvelope_init_def
      harness_task_def harness_obligations_def from_semantic_obligation_def harness_obligation_def harness_require_def
      CandidateGenerationTask_init_def harness_generation_task_def harness_formal_def sample_formal_def sample_environment_def harness_claim_def)

lemma harness_task_simps [simp]:
  "tt_contract_id (harness_task stm) = sample_id ''contract''" "tt_revision (harness_task stm) = 1"
  "tt_obligations (harness_task stm) = harness_obligations" "tt_selected_lean_statement (harness_task stm) = stm"
  "tt_selected_statement_hash (harness_task stm) = digest_text STATEMENT_SOURCE stm"
  "length (tt_normalized_statement_sha256 (harness_task stm)) = 64"
  by (simp_all add: harness_task_def)
    (simp_all add: task_of_contract_def harness_formal_def sha256_hexdigest_def)

definition harness_registrations :: "TranslationAgentRegistration list" where
  "harness_registrations = map (\<lambda>(n, s). \<lparr>tr_agent = harness_translator n s, tr_actor_id = n, tr_independence_group = n\<rparr>)
     [(''a'', ''theorem foo : True''), (''b'', ''lemma foo : True'')]"

lemma harness_registrations_made:
  "register_translation_agents (ha_translators (harness_demo t)) = Inr harness_registrations"
  by (simp add: register_translation_agents_def harness_demo_def register_translation_agent_def validated_role_identity_def
      harness_require_def harness_registrations_def harness_translator_def)

lemma harness_candidates_made:
  "generate_candidates (harness_task stm) harness_generation_task harness_registrations = Inr (harness_candidates stm)"
  by (simp add: generate_candidates_def harness_registrations_def call_translator_def harness_translator_def
      CandidateProposal_init_def bind_candidate_proposal_def CandidateFormalization_init_def harness_require_def
      harness_candidates_def harness_candidate_def harness_generation_task_def)

lemma harness_candidates_valid:
  "validate_candidates (harness_task stm) harness_generation_task harness_registrations (harness_candidates stm)
     = Inr (candidate_structure_results harness_generation_task)"
  by (simp add: validate_candidates_def harness_registrations_def harness_candidates_def harness_require_def
      candidate_structure_checks_def candidate_bound_to_task_def harness_candidate_def harness_obligations_def
      harness_obligation_def)

definition harness_binding :: "string \<Rightarrow> CanonicalTypeGateBinding" where
  "harness_binding stm =
     \<lparr>gb_contract_id = si_value (sample_id ''contract''), gb_revision = 1,
      gb_draft_contract_hash = tt_draft_contract_hash (harness_task stm), gb_source_hash = tt_source_hash (harness_task stm),
      gb_generation_task_hash = generation_task_hash harness_generation_task,
      gb_selected_statement_hash = digest_text STATEMENT_SOURCE stm,
      gb_environment_hash = digest_text ENVIRONMENT ''env'', gb_declaration = ''N.M.foo'', gb_lean_version = ''4.9.0'',
      gb_mathlib_revision = ''abc'', gb_lake_manifest_sha256 = None,
      gb_worker_image_digest = ''sha256:'' @ replicate 64 (CHR ''0''),
      gb_expected_elaborated_type = ''True'', gb_expected_elaborated_type_hash = digest_text ELABORATED_TYPE ''True''\<rparr>"

definition harness_requests :: "CanonicalTypeQueryRequest list" where
  "harness_requests = [demo_type_request ''a'' ''theorem foo : True'', demo_type_request ''b'' ''lemma foo : True'']"

lemma harness_gate_inputs:
  assumes stm: "stm \<in> set demo_statements"
  shows "canonical_type_gate_inputs (harness_contract stm) (harness_task stm) harness_generation_task (harness_candidates stm)
     = Inr (harness_binding stm, demo_type_request ''contract-selected-reference'' stm, harness_requests)"
proof -
  have "candidate_type_request (harness_formal stm) (harness_candidate stm n s) = Inr (demo_type_request n s)"
    if "trimmed n" "trimmed s" for n s
    using that by (simp add: candidate_type_request_def CanonicalTypeQueryRequest_init_def gate_require_def harness_formal_def sample_formal_def
        harness_candidate_def candidate_statement_hash_def demo_type_request_def)
  then show ?thesis
    by (simp add: canonical_type_gate_inputs_def harness_candidates_def harness_requests_def
        CanonicalTypeQueryRequest_init_def gate_require_def)
      (simp add: harness_formal_def sample_formal_def sample_environment_def stm Let_def CanonicalTypeQueryRequest_init_def gate_require_def
        demo_type_request_def harness_binding_def policy_worker_image_digest_def)
qed

lemma harness_gate_accepts:
  assumes stm: "stm \<in> set demo_statements"
  shows "\<exists>gate. run_canonical_type_gate (scripted_query demo_scripted) (harness_binding stm)
     (demo_type_request ''contract-selected-reference'' stm) harness_requests = Inr gate"
proof (rule scripted_gate_accepts)
  show "scripted_binding_ok demo_scripted (harness_binding stm)"
    using demo_scripted_ok
    by (simp add: scripted_binding_ok_def) (simp add: harness_binding_def demo_scripted_def type_text_ok_def)
  show "2 \<le> length harness_requests" by (simp add: harness_requests_def)
  show "assert_requests_bind_binding (harness_binding stm)
      (demo_type_request ''contract-selected-reference'' stm) harness_requests = Inr ()"
    by (simp add: assert_requests_bind_binding_def result_simps harness_binding_def harness_requests_def demo_type_request_def)
  have "scripted_answer demo_scripted (demo_type_request i s) = Some ''True''" if "s \<in> set demo_statements" for i s
    by (rule demo_scripted_answer [OF that]) (simp add: demo_type_request_def)
  then show "list_all (\<lambda>r. scripted_request_ok r \<and> scripted_answer demo_scripted r = Some (gb_expected_elaborated_type (harness_binding stm)))
      (demo_type_request ''contract-selected-reference'' stm # harness_requests)"
    using stm by (simp add: demo_type_request_ok demo_statements_def harness_binding_def harness_requests_def)
qed

lemma harness_baseline:
  assumes stm: "stm \<in> set demo_statements"
  shows "\<exists>baseline. baseline_from_task (harness_task stm) = Inr baseline"
  using stm by (simp add: baseline_from_task_def harness_require_def)

lemma sample_id_eq [simp]: "sample_id a = sample_id b \<longleftrightarrow> a = b"
  by (auto simp: sample_id_def)

lemma harness_probes_fields [simp]:
  "map mp_kind harness_probes = required_mutations" "map mp_probe_id harness_probes = map (\<lambda>x. sample_id [x]) ''abcdefghi''"
  "map mp_mutated_statement_source harness_probes = map (\<lambda>x. [x]) ''abcdefghi''"
  by (simp_all add: harness_probes_def harness_probe_def required_mutations_def)

lemma harness_probes_valid:
  assumes stm: "stm \<in> set demo_statements"
  shows "\<exists>checks. mutation_structure_checks (harness_task stm) ''m'' harness_probes = Inr checks"
  using stm by (simp add: mutation_structure_checks_def harness_require_def) (simp add: required_mutations_def)

definition harness_packet :: "string \<Rightarrow> SemanticReviewPacket" where
  "harness_packet stm = \<lparr>rp_task = harness_task stm, rp_candidates = harness_candidates stm, rp_mutation_probes = harness_probes\<rparr>"

lemma harness_obligation_ids [simp]:
  "map so_obligation_id harness_obligations = map SemanticObligationKind_value [OB_QUANTIFIER_ORDER, OB_CONCLUSION, OB_NON_VACUITY]"
  "x \<in> set harness_obligations \<Longrightarrow> nonblank (so_obligation_id x)"
  by (auto simp: harness_obligations_def harness_obligation_def)

lemma harness_candidate_ids [simp]:
  "map cf_candidate_id (harness_candidates stm) = [''a'', ''b'']" "x \<in> set (harness_candidates stm) \<Longrightarrow> nonblank (cf_candidate_id x)"
  by (auto simp: harness_candidates_def harness_candidate_def)

lemma harness_verdict_made:
  assumes "nonblank t"
  shows "SemanticReviewVerdict_init (harness_verdict t (harness_packet stm)) = Inr (harness_verdict t (harness_packet stm))"
proof -
  let ?v = "harness_verdict t (harness_packet stm)"
  have "candidate_verdict_check v = Inr () \<and> forE obligation_verdict_check (cv_obligation_verdicts v) = Inr ()"
    if "v \<in> set (sv_candidate_verdicts ?v)" for v
    using that by (auto simp: harness_verdict_def harness_candidate_verdict_def harness_packet_def forE_Inr list_all_iff
        candidate_verdict_check_def obligation_verdict_check_def harness_require_Inr)
  then have c: "forE (\<lambda>v. bindE (forE obligation_verdict_check (cv_obligation_verdicts v)) (\<lambda>_. candidate_verdict_check v))
      (sv_candidate_verdicts ?v) = Inr ()"
    unfolding forE_Inr [where f = "\<lambda>v. bindE (forE obligation_verdict_check (cv_obligation_verdicts v)) (\<lambda>_. candidate_verdict_check v)"]
    by (simp add: list_all_iff)
  have m: "forE mutation_verdict_check (sv_mutation_verdicts ?v) = Inr ()"
    unfolding forE_Inr by (simp add: list_all_iff harness_verdict_def mutation_verdict_check_def harness_require_Inr)
  show ?thesis
    unfolding SemanticReviewVerdict_init_def c m
    by (simp add: harness_require_def) (simp add: harness_verdict_def assms)
qed

lemma harness_verdict_fits:
  "validate_review_structure (harness_packet stm) ''expert'' (harness_verdict t (harness_packet stm)) = Inr ()"
proof -
  let ?v = "harness_verdict t (harness_packet stm)" and ?cs = "map (\<lambda>item. (cf_candidate_id item, item)) (harness_candidates stm)"
  let ?vs = "map (\<lambda>item. (cv_candidate_id item, item)) (sv_candidate_verdicts (harness_verdict t (harness_packet stm)))"
  have ids: "map cv_candidate_id (sv_candidate_verdicts ?v) = [''a'', ''b'']"
    by (simp add: harness_verdict_def harness_candidate_verdict_def harness_packet_def comp_def harness_candidate_ids(1) [of stm, symmetric] del: harness_candidate_ids(1))
  have d: "dict_of ?vs = ?vs" "dict_of ?cs = ?cs"
    by (rule dict_of_distinct; use ids in \<open>simp add: comp_def\<close>)+
  have "candidate_verdict_fits (harness_task stm) ?cs (harness_candidate_verdict (harness_packet stm) x) = Inr ()"
    if "x \<in> set (harness_candidates stm)" for x
  proof -
    have "map_of ?cs (cf_candidate_id x) = Some x"
      by (rule map_of_is_SomeI) (use that in \<open>auto simp: comp_def\<close>)
    then show ?thesis
      by (simp add: candidate_verdict_fits_def harness_candidate_verdict_def harness_packet_def harness_require_def comp_def)
  qed
  then have fits: "forE (candidate_verdict_fits (harness_task stm) ?cs) (map snd ?vs) = Inr ()"
    unfolding forE_Inr by (simp add: list_all_iff harness_verdict_def harness_packet_def)
  have "map mv_probe_id (sv_mutation_verdicts ?v) = map mp_probe_id harness_probes"
    by (simp add: harness_verdict_def harness_packet_def comp_def del: harness_probes_fields)
  moreover have "sv_reviewer_id ?v = ''expert''" "sv_independent ?v"
    by (simp_all add: harness_verdict_def)
  ultimately show ?thesis
    unfolding validate_review_structure_def assert_review_structure_def Let_def
    using d fits ids by (simp add: harness_packet_def harness_require_def comp_def del: set_map)
qed

lemma harness_actors_separate:
  "assert_declared_actor_separation (harness_candidates stm) ''m'' (harness_verdict t (harness_packet stm)) [] = Inr ()"
  by (simp add: assert_declared_actor_separation_def harness_candidates_def harness_candidate_def harness_require_def
      harness_verdict_def)

lemma builder_identifier:
  assumes "ns \<in> {''builder-fidelity-check'', ''builder-semantic-signoff'', ''builder-fidelity-report''}" "key \<noteq> []"
  shows "\<exists>i. stable_identifier ns key = Inr i"
proof -
  have "list_all (\<lambda>ns. nonblank ns \<and> length (normalized_namespace ns) \<le> 128 \<and> all_chars namespace_char (normalized_namespace ns))
      [''builder-fidelity-check'', ''builder-semantic-signoff'', ''builder-fidelity-report'']"
    by code_simp
  then show ?thesis using assms by (auto simp: stable_identifier_result)
qed

lemma strip_marked_nonempty: "strip_ws (marked h t) \<noteq> []"
proof
  assume "strip_ws (marked h t) = []"
  then have "list_all white_space (marked h t)"
    by (auto simp: strip_ws_def strip_by_def dropWhile_eq_Nil_conv list_all_iff dest: set_dropWhileD)
      (metis (no_types) dropWhile_eq_Cons_conv dropWhile_eq_Nil_conv list.exhaust list.set_intros(1) set_dropWhileD)
  then show False by (simp add: marked_def evidence_marker_def white_space_def)
qed

lemma harness_check_made: "check_key k = Inr key \<Longrightarrow> \<exists>chk. make_check h v k passed e = Inr chk"
proof -
  assume "check_key k = Inr key"
  moreover obtain i where "stable_identifier ''builder-fidelity-check'' (dg_value h @ '':'' @ key) = Inr i"
    using builder_identifier [of "''builder-fidelity-check''" "dg_value h @ '':'' @ key"] by auto
  ultimately show ?thesis
    by (simp add: make_check_def FidelityCheckV1_init_def construct_Inr FidelityCheckV1_strip_def FidelityCheckV1_guards_def
        strip_marked_nonempty)
qed

lemma harness_checks_made: "\<exists>checks. build_checks candidates v h = Inr checks"
  using harness_check_made [of FCK_SOURCE_PRESERVATION] harness_check_made [of FCK_REVERSE_RENDER]
    harness_check_made [of FCK_INDEPENDENT_TRANSLATION] harness_check_made [of FCK_POSITIVE_EXAMPLE]
    harness_check_made [of FCK_NEGATIVE_EXAMPLE] harness_check_made [of FCK_NON_VACUITY]
  by (simp add: build_checks_def Let_def result_simps) metis

lemma harness_results_made:
  "\<exists>results. map_resultE (make_mutation_result (harness_verdict t (harness_packet stm)) h) harness_probes = Inr results"
proof -
  let ?v = "harness_verdict t (harness_packet stm)"
  let ?d = "map (\<lambda>item. (mv_probe_id item, item)) (sv_mutation_verdicts ?v)"
  have ids: "map mv_probe_id (sv_mutation_verdicts ?v) = map mp_probe_id harness_probes"
    by (simp add: harness_verdict_def harness_packet_def comp_def del: harness_probes_fields)
  have "distinct (map mp_probe_id harness_probes)" by simp
  then have d: "dict_of ?d = ?d"
    by (intro dict_of_distinct) (simp add: comp_def ids)
  have "\<exists>r. make_mutation_result ?v h p = Inr r" if p: "p \<in> set harness_probes" for p
  proof -
    have "mp_probe_id p \<in> fst ` set ?d"
      using p ids by (metis (no_types, lifting) fst_conv image_image image_set list.set_map imageI image_cong)
    then obtain m where "map_of ?d (mp_probe_id p) = Some m" by (metis map_of_eq_None_iff not_None_eq)
    then show ?thesis
      by (simp add: make_mutation_result_def d MutationResultV1_init_def construct_Inr MutationResultV1_strip_def
          MutationResultV1_guards_def strip_marked_nonempty)
        (simp add: harness_verdict_def strip_ws_ends white_space_def)
  qed
  then obtain g where "\<forall>p \<in> set harness_probes. make_mutation_result ?v h p = Inr (g p)" by metis
  then show ?thesis using map_resultE_all by blast
qed

lemma harness_report_made:
  assumes h: "h = digest_bytes FREEZE_EVIDENCE payload" and "aware reading"
  shows "\<exists>report. build_report reading c candidates harness_probes (harness_verdict t (harness_packet stm)) h [] = Inr report"
proof -
  let ?v = "harness_verdict t (harness_packet stm)"
  have nonempty: "dg_value h \<noteq> []"
    using sha256_hexdigest_shape [of payload] by (auto simp: h digest_bytes_def is_sha256_text_def)
  obtain checks where "build_checks candidates ?v h = Inr checks" using harness_checks_made by blast
  moreover obtain results where "map_resultE (make_mutation_result ?v h) harness_probes = Inr results"
    using harness_results_made by blast
  moreover obtain i where "stable_identifier ''builder-semantic-signoff'' (dg_value h @ '':'' @ sv_review_id ?v) = Inr i"
    using builder_identifier [of "''builder-semantic-signoff''" "dg_value h @ '':'' @ sv_review_id ?v"] by auto
  moreover obtain j where "stable_identifier ''builder-fidelity-report'' (dg_value h) = Inr j"
    using builder_identifier [of "''builder-fidelity-report''" "dg_value h"] nonempty by auto
  moreover have "\<exists>signoff. ReviewerSignoffV1_init
      \<lparr>rs_signoff_id = i, rs_reviewer_id = sv_reviewer_id ?v, rs_role = RL_SEMANTIC_REVIEWER,
        rs_decision = sv_decision ?v, rs_independent = sv_independent ?v,
        rs_rationale = marked h (sv_rationale ?v), rs_reviewed_at = as_utc reading\<rparr> = Inr signoff"
    by (simp add: ReviewerSignoffV1_init_def construct_Inr ReviewerSignoffV1_strip_def ReviewerSignoffV1_guards_def
        strip_marked_nonempty)
      (simp add: harness_verdict_def strip_ws_ends white_space_def)
  moreover have "FidelityReportV1_init r = Inr r" if "fr_evidence_hash r = h" for r
    using that by (simp add: FidelityReportV1_init_def construct_Inr FidelityReportV1_guards_def h digest_bytes_def)
  ultimately show ?thesis
    using assms(2) by (auto simp: build_report_def harness_now_def harness_require_def)
qed

lemma harness_demo_evaluates:
  assumes stm: "stm \<in> set demo_statements" and "nonblank t" "aware reading"
  shows "\<exists>ev. harness_evaluate (harness_demo t) reading (harness_contract stm) harness_obligations None [] = Inr ev \<and>
    fe_candidates ev = harness_candidates stm \<and> fe_mutation_probes ev = harness_probes \<and>
    fe_review ev = harness_verdict t (harness_packet stm)"
proof -
  obtain gate where gate: "run_canonical_type_gate (scripted_query demo_scripted) (harness_binding stm)
     (demo_type_request ''contract-selected-reference'' stm) harness_requests = Inr gate"
    using harness_gate_accepts [OF stm] by blast
  obtain baseline where baseline: "baseline_from_task (harness_task stm) = Inr baseline"
    using harness_baseline [OF stm] by blast
  obtain checks where checks: "mutation_structure_checks (harness_task stm) ''m'' harness_probes = Inr checks"
    using harness_probes_valid [OF stm] by blast
  define v where "v = harness_verdict t (harness_packet stm)"
  define acs where "acs = candidate_structure_results harness_generation_task @ [canonical_type_automatic_check gate] @ checks"
  define h where "h = evaluation_hash (harness_task stm) harness_generation_task (harness_candidates stm) ''m'' harness_probes v acs []"
  obtain report where report: "build_report reading (harness_contract stm) (harness_candidates stm) harness_probes v h [] = Inr report"
    using harness_report_made [OF _ assms(3)] unfolding h_def evaluation_hash_def v_def by blast
  have roles: "validated_role_identity (Some ''m'') = Inr ''m''" "validated_role_identity (Some ''expert'') = Inr ''expert''"
    by (simp_all add: validated_role_identity_def harness_require_def)
  have parts: "ma_actor_id (ha_mutation_agent (harness_demo t)) = Some ''m''"
    "ra_reviewer_id (ha_reviewer (harness_demo t)) = Some ''expert''" "ha_query (harness_demo t) = scripted_query demo_scripted"
    "ma_generate (ha_mutation_agent (harness_demo t)) task b = Inr harness_probes"
    "ra_review (ha_reviewer (harness_demo t)) (harness_packet stm) = Inr v" for task b
    by (simp_all add: harness_demo_def v_def)
  have v: "SemanticReviewVerdict_init v = Inr v" "validate_review_structure (harness_packet stm) ''expert'' v = Inr ()"
    "assert_declared_actor_separation (harness_candidates stm) ''m'' v [] = Inr ()"
    unfolding v_def by (rule harness_verdict_made [OF assms(2)] harness_verdict_fits harness_actors_separate)+
  let ?ev = "\<lparr>fe_task = harness_task stm, fe_generation_task = harness_generation_task, fe_candidates = harness_candidates stm,
    fe_canonical_type_gate = gate, fe_mutation_agent_id = ''m'', fe_mutation_probes = harness_probes, fe_review = v,
    fe_automatic_checks = acs, fe_additional_signoffs = [], fe_evidence_hash = h, fe_report = report\<rparr>"
  have "harness_evaluate (harness_demo t) reading (harness_contract stm) harness_obligations None [] = Inr ?ev"
    unfolding harness_evaluate_def Let_def harness_registrations_made parts roles bindE.simps harness_task_made [OF stm]
      harness_generation_task_made harness_candidates_made harness_candidates_valid harness_gate_inputs [OF stm] prod.case gate
      baseline checks harness_packet_def [symmetric] v acs_def [symmetric] h_def [symmetric] report catchE.simps
    by (rule refl)
  then show ?thesis unfolding v_def by auto
qed

end
