(* ===== verification/HarnessClaims.thy ===== *)
theory HarnessClaims
  imports HarnessSample
begin

text \<open>
  The theorems about the fidelity harness, each applied at the sample run: translation agents
  see nothing of the selected Lean statement, and the run accepts its own evaluation exactly
  when the texts of the reviewer survive the trimming of the report's contracts.
\<close>

text \<open>
  C17. Translation agents are blind to the selected formalization: two evaluations whose
  contracts agree in the mathematics, the source spans and the declaration's name and
  environment, and whose obligations agree outside their Lean fragments, give the same
  translators the same task and so record the same answers, whatever the selected Lean
  statement, the other agents, the query, the clock and the signoffs are.
\<close>

theorem translators_are_blind:
  assumes "harness_evaluate agents reading c obls claims signoffs = Inr ev"
    and "harness_evaluate agents' reading' c' obls' claims signoffs' = Inr ev'"
    and "ha_translators agents = ha_translators agents'"
    and "public_task c = public_task c'" "map blind_part obls = map blind_part obls'"
  shows "fe_generation_task ev = fe_generation_task ev' \<and>
    map answer_part (fe_candidates ev) = map answer_part (fe_candidates ev')"
proof -
  obtain rs where a: "register_translation_agents (ha_translators agents) = Inr rs"
    "TranslationTask_from_contract c obls claims = Inr (fe_task ev)"
    "CandidateGenerationTask_from_contract c (fe_task ev) = Inr (fe_generation_task ev)"
    "generate_candidates (fe_task ev) (fe_generation_task ev) rs = Inr (fe_candidates ev)"
    using harness_evaluate_Inr [OF assms(1)] by blast
  obtain rs' where b: "register_translation_agents (ha_translators agents') = Inr rs'"
    "TranslationTask_from_contract c' obls' claims = Inr (fe_task ev')"
    "CandidateGenerationTask_from_contract c' (fe_task ev') = Inr (fe_generation_task ev')"
    "generate_candidates (fe_task ev') (fe_generation_task ev') rs' = Inr (fe_candidates ev')"
    using harness_evaluate_Inr [OF assms(2)] by blast
  have g: "fe_generation_task ev = fe_generation_task ev'"
    by (rule generation_task_blind [OF a(2) b(2) a(3) b(3) assms(4,5)])
  have "rs = rs'" using a(1) b(1) assms(3) by simp
  then show ?thesis using g generate_candidates_answers [OF a(4)] b(4) by metis
qed

lemma utc_aware [simp]: "aware (utc n)"
  by (simp add: utc_def aware_def)

theorem translators_are_blind_witness:
  "\<exists>ev ev'. harness_evaluate (harness_demo ''ok'') (utc 1) (harness_contract ''theorem foo : True'') harness_obligations None []
      = Inr ev \<and>
    harness_evaluate (harness_demo ''no'') (utc 2) (harness_contract ''lemma foo : True'') harness_obligations None [] = Inr ev' \<and>
    fe_generation_task ev = fe_generation_task ev' \<and> length (fe_candidates ev) = 2 \<and>
    map answer_part (fe_candidates ev) = map answer_part (fe_candidates ev')"
proof -
  have t: "nonblank ''ok''" "nonblank ''no''" by (simp_all add: nonblank_def py_strip_def strip_by_def py_isspace_def)
  have s: "''theorem foo : True'' \<in> set demo_statements" "''lemma foo : True'' \<in> set demo_statements"
    by (simp_all add: demo_statements_def)
  obtain ev where ev: "harness_evaluate (harness_demo ''ok'') (utc 1) (harness_contract ''theorem foo : True'')
      harness_obligations None [] = Inr ev" "fe_candidates ev = harness_candidates ''theorem foo : True''"
    using harness_demo_evaluates [OF s(1) t(1) utc_aware] by blast
  obtain ev' where ev': "harness_evaluate (harness_demo ''no'') (utc 2) (harness_contract ''lemma foo : True'')
      harness_obligations None [] = Inr ev'"
    using harness_demo_evaluates [OF s(2) t(2) utc_aware] by blast
  have same: "ha_translators (harness_demo ''ok'') = ha_translators (harness_demo ''no'')"
    "public_task (harness_contract ''theorem foo : True'') = public_task (harness_contract ''lemma foo : True'')"
    by (simp_all add: harness_demo_def public_task_def harness_formal_def)
  show ?thesis
    using translators_are_blind [OF ev(1) ev' same refl] ev ev' by (auto simp: harness_candidates_def)
qed

text \<open>
  C18. The run returns the evaluation it made exactly when no text of the reviewer that enters
  the report ends in white space: every other check that the evaluation makes of itself holds
  by construction, and a text with trailing white space is trimmed by the report's contracts
  and then compared with the untrimmed text.
\<close>

theorem harness_accepts_itself:
  assumes "harness_evaluate agents reading c obls claims signoffs = Inr ev"
  shows "harness_run agents reading c obls claims signoffs = Inr ev \<longleftrightarrow>
    list_all ends_clean (review_texts (fe_review ev))"
  by (simp add: harness_run_def assms result_simps evaluate_binds_iff [OF assms])

theorem harness_accepts_itself_witness:
  "(\<exists>ev. harness_run (harness_demo ''ok'') (utc 1) (harness_contract ''theorem foo : True'') harness_obligations None []
      = Inr ev) \<and>
   (\<exists>ev. harness_evaluate (harness_demo ''ok '') (utc 1) (harness_contract ''theorem foo : True'') harness_obligations None []
      = Inr ev \<and>
     harness_run (harness_demo ''ok '') (utc 1) (harness_contract ''theorem foo : True'') harness_obligations None [] \<noteq> Inr ev)"
proof -
  have t: "nonblank ''ok''" "nonblank ''ok ''" by (simp_all add: nonblank_def py_strip_def strip_by_def py_isspace_def)
  have s: "''theorem foo : True'' \<in> set demo_statements" by (simp add: demo_statements_def)
  obtain ev where ev: "harness_evaluate (harness_demo ''ok'') (utc 1) (harness_contract ''theorem foo : True'')
      harness_obligations None [] = Inr ev" "fe_review ev = harness_verdict ''ok'' (harness_packet ''theorem foo : True'')"
    using harness_demo_evaluates [OF s t(1) utc_aware] by blast
  obtain ev' where ev': "harness_evaluate (harness_demo ''ok '') (utc 1) (harness_contract ''theorem foo : True'')
      harness_obligations None [] = Inr ev'" "fe_review ev' = harness_verdict ''ok '' (harness_packet ''theorem foo : True'')"
    using harness_demo_evaluates [OF s t(2) utc_aware] by blast
  have "list_all ends_clean (review_texts (fe_review ev))" "\<not> list_all ends_clean (review_texts (fe_review ev'))"
    by (simp_all add: ev(2) ev'(2) review_texts_def harness_verdict_def ends_clean_def white_space_def list_all_iff)
  then show ?thesis using harness_accepts_itself [OF ev(1)] harness_accepts_itself [OF ev'(1)] ev ev' by blast
qed

end
