(* ===== verification/SourcePrep.thy ===== *)
theory SourcePrep
  imports ModelLedger EventLog
begin

text \<open>
  \<open>source_preparation.py\<close>: the record that binds a draft contract to the packet it was
  prepared from, and the append-only ledger that holds one record for every contract
  revision. The path checks and the settings of a connection are code of the file system and
  of SQLite; a ledger is its two tables, and a method is one transaction on them.
\<close>

section \<open>The record\<close>

record SourcePreparationRecordV1 =
  sp_preparation_id :: StableIdentifierV1
  sp_contract_id :: StableIdentifierV1
  sp_revision :: int
  sp_packet_sha256 :: string
  sp_contract_sha256 :: string
  sp_rights_sha256 :: string
  sp_spans_sha256 :: string
  sp_manifest_sha256 :: string
  sp_artifact_sha256 :: string
  sp_parent_artifact_sha256 :: string

definition sp_require :: "bool \<Rightarrow> string \<Rightarrow> unit result" where
  "sp_require ok m = require ok (SourcePreparationError m)"

lemma sp_require_Inr [result_simps]: "sp_require ok m = Inr u \<longleftrightarrow> ok"
  by (simp add: sp_require_def result_simps)

definition preparation_digests :: "SourcePreparationRecordV1 \<Rightarrow> string list" where
  "preparation_digests r =
     [sp_packet_sha256 r, sp_contract_sha256 r, sp_rights_sha256 r, sp_spans_sha256 r, sp_manifest_sha256 r,
      sp_artifact_sha256 r, sp_parent_artifact_sha256 r]"

definition SourcePreparationRecordV1_init :: "SourcePreparationRecordV1 \<Rightarrow> SourcePreparationRecordV1 result" where
  "SourcePreparationRecordV1_init r =
     bindE (sp_require (si_namespace (sp_preparation_id r) = ''source-preparation'')
       ''preparation_id must use the source-preparation namespace'') (\<lambda>_.
     bindE (sp_require (\<not> sp_revision r < 1) ''source-preparation revision must be positive'') (\<lambda>_.
     bindE (forE (\<lambda>v. sp_require (is_sha256_text v) ''must be a lowercase SHA-256 digest'') (preparation_digests r))
       (\<lambda>_. Inr r)))"

definition preparation_json_bytes :: "SourcePreparationRecordV1 \<Rightarrow> string" where
  "preparation_json_bytes r = canonical_json_bytes (JObj
     [(''schema_version'', JStr ''autolean.source-preparation-record.v1''),
      (''preparation_id'', dump_StableIdentifierV1 (sp_preparation_id r)),
      (''contract_id'', dump_StableIdentifierV1 (sp_contract_id r)),
      (''revision'', JInt (sp_revision r)),
      (''packet_sha256'', JStr (sp_packet_sha256 r)),
      (''contract_sha256'', JStr (sp_contract_sha256 r)),
      (''rights_sha256'', JStr (sp_rights_sha256 r)),
      (''spans_sha256'', JStr (sp_spans_sha256 r)),
      (''manifest_sha256'', JStr (sp_manifest_sha256 r)),
      (''artifact_sha256'', JStr (sp_artifact_sha256 r)),
      (''parent_artifact_sha256'', JStr (sp_parent_artifact_sha256 r))])"

definition preparation_artifact_digest :: "SourcePreparationRecordV1 \<Rightarrow> DigestV1" where
  "preparation_artifact_digest r = digest_bytes SOURCE_PREPARATION (preparation_json_bytes r)"

definition preparation_assert_binds_contract :: "SourcePreparationRecordV1 \<Rightarrow> StatementContractV1 \<Rightarrow> unit result" where
  "preparation_assert_binds_contract r c =
     bindE (sp_require (sp_contract_id r = sc_contract_id c) ''source preparation binds another contract ID'') (\<lambda>_.
     bindE (sp_require (sp_revision r = sc_revision c) ''source preparation binds another contract revision'') (\<lambda>_.
     sp_require (sp_contract_sha256 r = dg_value (digest_model CONTRACT (dump_StatementContractV1 c)))
       ''source preparation binds another contract hash''))"

section \<open>The ledger\<close>

record preparation_row =
  pr_preparation_id :: string
  pr_contract_id :: string
  pr_revision :: int
  pr_digests :: "string list"

definition database_values :: "SourcePreparationRecordV1 \<Rightarrow> preparation_row" where
  "database_values r =
     \<lparr>pr_preparation_id = si_value (sp_preparation_id r), pr_contract_id = si_value (sp_contract_id r),
      pr_revision = sp_revision r, pr_digests = preparation_digests r\<rparr>"

record preparation_db =
  pd_schema_version :: "string option"
  pd_rows :: "preparation_row list"

definition row_matches_preparation :: "preparation_row \<Rightarrow> SourcePreparationRecordV1 \<Rightarrow> bool" where
  "row_matches_preparation row r \<longleftrightarrow> row = database_values r"

definition same_preparation_key :: "preparation_row \<Rightarrow> preparation_row \<Rightarrow> bool" where
  "same_preparation_key a b \<longleftrightarrow>
     pr_preparation_id a = pr_preparation_id b \<or> (pr_contract_id a = pr_contract_id b \<and> pr_revision a = pr_revision b)"

definition insert_preparation :: "preparation_row \<Rightarrow> preparation_db \<Rightarrow> preparation_db result" where
  "insert_preparation row db =
     bindE (require (pr_revision row \<ge> 1) (IntegrityError ''revision'')) (\<lambda>_.
     bindE (require (\<not> list_ex (same_preparation_key row) (pd_rows db)) (IntegrityError ''source_preparations'')) (\<lambda>_.
     Inr (db\<lparr>pd_rows := pd_rows db @ [row]\<rparr>)))"

text \<open>\<open>record\<close>: insert once, replay identically, reject a conflict. A failure rolls back.\<close>

definition record_preparation :: "SourcePreparationRecordV1 \<Rightarrow> preparation_db \<Rightarrow> preparation_db result" where
  "record_preparation r db =
     bindE (require (fits_sqlite (Some (sp_revision r))) (OverflowError ''Python int too large to convert to SQLite INTEGER'')) (\<lambda>_.
     let existing = filter (same_preparation_key (database_values r)) (pd_rows db) in
     if existing \<noteq> []
     then bindE (sp_require (length existing = 1 \<and> row_matches_preparation (hd existing) r)
            ''source preparation conflicts with the append-only contract revision'') (\<lambda>_. Inr db)
     else insert_preparation (database_values r) db)"

definition require_preparation :: "SourcePreparationRecordV1 \<Rightarrow> preparation_db \<Rightarrow> unit result" where
  "require_preparation r db =
     (let rows = filter (\<lambda>row. pr_preparation_id row = si_value (sp_preparation_id r)) (pd_rows db) in
      bindE (sp_require (length rows = 1) ''source preparation is absent from the authority ledger'') (\<lambda>_.
      sp_require (row_matches_preparation (hd rows) r) ''source preparation differs from the authority ledger''))"

definition preparation_schema_version :: string where
  "preparation_schema_version = ''autolean.source-preparation-ledger.v1''"

definition initialize_preparations :: "preparation_db \<Rightarrow> preparation_db result" where
  "initialize_preparations db =
     (case pd_schema_version db of
        None \<Rightarrow> Inr (db\<lparr>pd_schema_version := Some preparation_schema_version\<rparr>)
      | Some v \<Rightarrow> bindE (sp_require (v = preparation_schema_version)
          ''source-preparation ledger schema version is unsupported'') (\<lambda>_. Inr db))"

section \<open>Records are permanent\<close>

text \<open>The steps of any number of processes on one ledger file.\<close>

inductive preparation_step :: "preparation_db \<Rightarrow> preparation_db \<Rightarrow> bool" where
  opened: "initialize_preparations db = Inr db' \<Longrightarrow> preparation_step db db'"
| recorded: "record_preparation r db = Inr db' \<Longrightarrow> preparation_step db db'"

definition fresh_preparations :: preparation_db where
  "fresh_preparations = \<lparr>pd_schema_version = None, pd_rows = []\<rparr>"

definition preparations_inv :: "preparation_db \<Rightarrow> bool" where
  "preparations_inv db \<longleftrightarrow> distinct (map pr_preparation_id (pd_rows db)) \<and>
     distinct (map (\<lambda>row. (pr_contract_id row, pr_revision row)) (pd_rows db)) \<and>
     list_all (\<lambda>row. pr_revision row \<ge> 1) (pd_rows db)"

lemma preparation_step_cases:
  assumes "preparation_step db db'"
  obtains "pd_rows db' = pd_rows db"
  | row where "pd_rows db' = pd_rows db @ [row]" "\<not> list_ex (same_preparation_key row) (pd_rows db)" "pr_revision row \<ge> 1"
  using assms
  by cases (auto simp: initialize_preparations_def record_preparation_def insert_preparation_def Let_def result_simps
      split: option.splits if_splits)

lemma preparations_inv_step: "preparations_inv db \<Longrightarrow> preparation_step db db' \<Longrightarrow> preparations_inv db'"
  by (erule preparation_step_cases)
    (auto simp: preparations_inv_def list_ex_iff same_preparation_key_def)

lemma preparations_inv_reachable: "preparation_step\<^sup>*\<^sup>* fresh_preparations db \<Longrightarrow> preparations_inv db"
proof (induction rule: rtranclp_induct)
  case base
  show ?case by (simp add: fresh_preparations_def preparations_inv_def)
qed (rule preparations_inv_step)

interpretation pd_log: append_log preparation_step pd_rows
  by unfold_locales (erule preparation_step_cases; simp)

lemma same_key_unique:
  assumes "preparations_inv db" "row \<in> set (pd_rows db)"
  shows "filter (\<lambda>x. pr_preparation_id x = pr_preparation_id row) (pd_rows db) = [row]"
proof -
  have "distinct (map pr_preparation_id rows) \<Longrightarrow> row \<in> set rows \<Longrightarrow>
      filter (\<lambda>x. pr_preparation_id x = pr_preparation_id row) rows = [row]" for rows
    by (induction rows) (auto simp: filter_empty_conv image_iff)
  then show ?thesis using assms by (simp add: preparations_inv_def)
qed

lemma require_preparation_Inr:
  assumes "preparations_inv db"
  shows "require_preparation r db = Inr () \<longleftrightarrow> database_values r \<in> set (pd_rows db)"
proof
  assume "require_preparation r db = Inr ()"
  then show "database_values r \<in> set (pd_rows db)"
    by (cases "filter (\<lambda>row. pr_preparation_id row = si_value (sp_preparation_id r)) (pd_rows db)")
      (auto simp: require_preparation_def row_matches_preparation_def Let_def result_simps filter_eq_Cons_iff)
next
  assume "database_values r \<in> set (pd_rows db)"
  then show "require_preparation r db = Inr ()"
    using same_key_unique [OF assms]
    by (fastforce simp: require_preparation_def row_matches_preparation_def Let_def result_simps database_values_def)
qed

lemma record_preparation_present:
  assumes "record_preparation r db = Inr db'"
  shows "database_values r \<in> set (pd_rows db')"
  using assms
  by (cases "filter (same_preparation_key (database_values r)) (pd_rows db)")
    (auto simp: record_preparation_def row_matches_preparation_def insert_preparation_def Let_def result_simps filter_eq_Cons_iff)

lemma same_key_same_row:
  "preparations_inv db \<Longrightarrow> a \<in> set (pd_rows db) \<Longrightarrow> b \<in> set (pd_rows db) \<Longrightarrow> same_preparation_key a b \<Longrightarrow> a = b"
  by (auto simp: preparations_inv_def same_preparation_key_def distinct_map inj_on_def)

text \<open>
  C22. A recorded source preparation is permanent: after \<open>record\<close> committed, whatever records
  are written and however often the ledger is opened again, \<open>require\<close> accepts the record and
  accepts no other one with its identifier or its contract revision, and recording such a
  record fails as a conflict.
\<close>

theorem source_preparation_is_permanent:
  assumes "preparation_step\<^sup>*\<^sup>* fresh_preparations db" "record_preparation r db = Inr db1"
    and "preparation_step\<^sup>*\<^sup>* db1 db2"
  shows "require_preparation r db2 = Inr () \<and>
    (\<forall>s. same_preparation_key (database_values s) (database_values r) \<and> database_values s \<noteq> database_values r \<longrightarrow>
      require_preparation s db2 \<noteq> Inr () \<and> (\<forall>db3. record_preparation s db2 \<noteq> Inr db3))"
proof -
  have "preparation_step db db1" using assms(2) by (rule preparation_step.recorded)
  then have inv: "preparations_inv db2"
    using assms(1,3) preparations_inv_reachable by (meson rtranclp.rtrancl_into_rtrancl rtranclp_trans)
  have r: "database_values r \<in> set (pd_rows db2)"
    using record_preparation_present [OF assms(2)] pd_log.log_steps [OF assms(3)] by (auto simp: prefix_def)
  have other: "require_preparation s db2 \<noteq> Inr () \<and> (\<forall>db3. record_preparation s db2 \<noteq> Inr db3)"
    if s: "same_preparation_key (database_values s) (database_values r)" "database_values s \<noteq> database_values r" for s
  proof -
    have "database_values s \<notin> set (pd_rows db2)" using same_key_same_row [OF inv _ r s(1)] s(2) by blast
    moreover have "database_values r \<in> set (filter (same_preparation_key (database_values s)) (pd_rows db2))"
      using r s(1) by simp
    ultimately show ?thesis
      using require_preparation_Inr [OF inv, of s]
      by (cases "filter (same_preparation_key (database_values s)) (pd_rows db2)")
        (auto simp: record_preparation_def row_matches_preparation_def Let_def result_simps filter_eq_Cons_iff)
  qed
  show ?thesis using require_preparation_Inr [OF inv] r other by blast
qed

definition sample_preparation :: "string \<Rightarrow> SourcePreparationRecordV1" where
  "sample_preparation packet =
     \<lparr>sp_preparation_id = sample_id ''source-preparation'', sp_contract_id = sample_id ''contract'', sp_revision = 1,
      sp_packet_sha256 = packet, sp_contract_sha256 = dg_value (digest_model CONTRACT (dump_StatementContractV1 sample_draft)),
      sp_rights_sha256 = packet, sp_spans_sha256 = packet, sp_manifest_sha256 = packet, sp_artifact_sha256 = packet,
      sp_parent_artifact_sha256 = packet\<rparr>"

definition sample_preparations :: preparation_db where
  "sample_preparations =
     \<lparr>pd_schema_version = None, pd_rows = [database_values (sample_preparation (replicate 64 (CHR ''0'')))]\<rparr>"

theorem source_preparation_is_permanent_witness:
  "record_preparation (sample_preparation (replicate 64 (CHR ''0''))) fresh_preparations = Inr sample_preparations \<and>
   require_preparation (sample_preparation (replicate 64 (CHR ''0''))) sample_preparations = Inr () \<and>
   require_preparation (sample_preparation (replicate 64 (CHR ''1''))) sample_preparations \<noteq> Inr () \<and>
   (\<forall>db3. record_preparation (sample_preparation (replicate 64 (CHR ''1''))) sample_preparations \<noteq> Inr db3)"
proof -
  have r: "record_preparation (sample_preparation (replicate 64 (CHR ''0''))) fresh_preparations = Inr sample_preparations"
    by (simp add: record_preparation_def fresh_preparations_def insert_preparation_def sample_preparations_def require_def
        fits_sqlite_def opt_all_def Let_def database_values_def sample_preparation_def)
  have "same_preparation_key (database_values (sample_preparation (replicate 64 (CHR ''1''))))
      (database_values (sample_preparation (replicate 64 (CHR ''0'')))) \<and>
    database_values (sample_preparation (replicate 64 (CHR ''1''))) \<noteq> database_values (sample_preparation (replicate 64 (CHR ''0'')))"
    by (simp add: same_preparation_key_def database_values_def sample_preparation_def preparation_digests_def)
  then show ?thesis
    using source_preparation_is_permanent [OF rtranclp.rtrancl_refl r rtranclp.rtrancl_refl] r by blast
qed

end
