(* ===== verification/Workflow.thy ===== *)
theory Workflow
  imports HarnessRun SourcePrep
begin

text \<open>
  Builder's \<open>workflow.py\<close>: the staged case of a contract, the freeze gate, freezing a reviewed
  draft, the bridge to the Prover and the next revision of a contract. The parts of a contract
  are values their classes accepted, so the validation of a dumped contract is the check of
  the contract itself. The signer of the bridge is a parameter, as is the reading of the clock.
\<close>

definition builder_require :: "bool \<Rightarrow> string \<Rightarrow> unit result" where
  "builder_require ok m = require ok (BuilderError m)"

lemma builder_require_Inr [result_simps]: "builder_require ok m = Inr u \<longleftrightarrow> ok"
  by (simp add: builder_require_def result_simps)

section \<open>Stages\<close>

datatype BuilderStage =
    ST_INGESTED | ST_RIGHTS_REVIEWED | ST_NORMALIZED | ST_MATHLIB_MAPPED | ST_CANDIDATES_REVIEWED
  | ST_FIDELITY_REVIEWED | ST_FROZEN | ST_BRIDGED

fun stage_successor :: "BuilderStage \<Rightarrow> BuilderStage option" where
  "stage_successor ST_INGESTED = Some ST_RIGHTS_REVIEWED"
| "stage_successor ST_RIGHTS_REVIEWED = Some ST_NORMALIZED"
| "stage_successor ST_NORMALIZED = Some ST_MATHLIB_MAPPED"
| "stage_successor ST_MATHLIB_MAPPED = Some ST_CANDIDATES_REVIEWED"
| "stage_successor ST_CANDIDATES_REVIEWED = Some ST_FIDELITY_REVIEWED"
| "stage_successor ST_FIDELITY_REVIEWED = Some ST_FROZEN"
| "stage_successor ST_FROZEN = Some ST_BRIDGED"
| "stage_successor ST_BRIDGED = None"

record BuilderCase =
  bc_contract :: StatementContractV1
  bc_stage :: BuilderStage
  bc_candidates :: "CandidateFormalization list"
  bc_fidelity :: "FidelityReportV1 option"

definition BuilderCase_init :: "BuilderCase \<Rightarrow> BuilderCase result" where
  "BuilderCase_init x =
     bindE (if bc_stage x \<in> {ST_FROZEN, ST_BRIDGED}
       then builder_require (sc_status (bc_contract x) = SS_FROZEN)
         ''a frozen Builder stage requires a frozen statement contract''
       else builder_require (sc_status (bc_contract x) = SS_DRAFT)
         ''pre-freeze Builder stages require a draft statement contract'') (\<lambda>_. Inr x)"

definition new_case :: "StatementContractV1 \<Rightarrow> BuilderCase result" where
  "new_case c = BuilderCase_init \<lparr>bc_contract = c, bc_stage = ST_INGESTED, bc_candidates = [], bc_fidelity = None\<rparr>"

definition advance :: "BuilderStage \<Rightarrow> BuilderCase \<Rightarrow> BuilderCase result" where
  "advance next_stage x =
     bindE (builder_require (stage_successor (bc_stage x) = Some next_stage) ''invalid Builder transition'') (\<lambda>_.
     BuilderCase_init (x\<lparr>bc_stage := next_stage\<rparr>))"

definition with_candidates :: "CandidateFormalization list \<Rightarrow> BuilderCase \<Rightarrow> BuilderCase result" where
  "with_candidates candidates x =
     bindE (builder_require (bc_stage x = ST_MATHLIB_MAPPED) ''candidates can only be attached after mathlib mapping'') (\<lambda>_.
     bindE (BuilderCase_init (x\<lparr>bc_candidates := candidates\<rparr>)) (advance ST_CANDIDATES_REVIEWED))"

definition with_fidelity :: "FidelityReportV1 \<Rightarrow> BuilderCase \<Rightarrow> BuilderCase result" where
  "with_fidelity report x =
     bindE (builder_require (bc_stage x = ST_CANDIDATES_REVIEWED) ''fidelity evidence can only follow candidate review'') (\<lambda>_.
     bindE (BuilderCase_init (x\<lparr>bc_fidelity := Some report\<rparr>)) (advance ST_FIDELITY_REVIEWED))"

definition with_evaluation :: "FidelityEvaluation \<Rightarrow> BuilderCase \<Rightarrow> BuilderCase result" where
  "with_evaluation ev x =
     bindE (builder_require (bc_stage x = ST_MATHLIB_MAPPED) ''fidelity evaluation can only follow mathlib mapping'') (\<lambda>_.
     bindE (evaluation_assert_binds ev (bc_contract x)) (\<lambda>_.
     bindE (bindE (BuilderCase_init (x\<lparr>bc_candidates := fe_candidates ev\<rparr>)) (advance ST_CANDIDATES_REVIEWED)) (\<lambda>reviewed.
     bindE (BuilderCase_init (reviewed\<lparr>bc_fidelity := Some (fe_report ev)\<rparr>)) (advance ST_FIDELITY_REVIEWED))))"

section \<open>The freeze gate\<close>

definition gate_base_checks :: "FidelityCheckKindV1 list" where
  "gate_base_checks =
     [FCK_SOURCE_PRESERVATION, FCK_REVERSE_RENDER, FCK_INDEPENDENT_TRANSLATION, FCK_POSITIVE_EXAMPLE,
      FCK_NEGATIVE_EXAMPLE, FCK_NON_VACUITY]"

definition gate_base_mutations :: "MutationKindV1 list" where
  "gate_base_mutations =
     [MK_DROP_ASSUMPTION, MK_SWAP_QUANTIFIERS, MK_WEAKEN_RELATION, MK_REMOVE_SIDE_CONDITION, MK_DROP_NONEMPTY,
      MK_DROP_FINITE, MK_DROP_NOETHERIAN, MK_REVERSE_PARAMETERS, MK_VACUITY]"

text \<open>A failure is reported where its condition holds.\<close>

definition failure_if :: "bool \<Rightarrow> string \<Rightarrow> string list" where
  "failure_if b m = (if b then [m] else [])"

lemma failure_if_Nil [simp]: "failure_if b m = [] \<longleftrightarrow> \<not> b"
  by (simp add: failure_if_def)

definition candidate_failures :: "CandidateFormalization list \<Rightarrow> string list" where
  "candidate_failures candidates =
     failure_if (\<not> distinct (map cf_candidate_id candidates)) ''candidate identifiers must be unique''
     @ failure_if (length (remdups (map cf_independence_group candidates)) < 2)
         ''two independent formalization candidates are required''
     @ failure_if (length (remdups (map cf_actor_id candidates)) < 2)
         ''independent formalization candidates require distinct actors''"

definition mutation_failures :: "StatementContractV1 \<Rightarrow> FidelityReportV1 \<Rightarrow> MutationKindV1 \<Rightarrow> string list" where
  "mutation_failures c report kind =
     (case map_of (dict_of (map (\<lambda>item. (mp_kind (mr_probe item), item)) (fr_mutation_results report))) kind of
        None \<Rightarrow> [''mutation probe was not detected: '' @ MutationKindV1_value kind]
      | Some r \<Rightarrow>
          if \<not> mr_detected r then [''mutation probe was not detected: '' @ MutationKindV1_value kind]
          else failure_if (mp_mutated_statement_source (mr_probe r) = fs_lean_statement_source (sc_formal c))
            (''mutation probe did not change the statement: '' @ MutationKindV1_value kind))"

definition accepting_independent :: "FidelityReportV1 \<Rightarrow> ReviewerSignoffV1 list" where
  "accepting_independent report = filter (\<lambda>item. rs_decision item = DC_ACCEPT \<and> rs_independent item) (fr_signoffs report)"

definition independent_reviewers :: "ReviewerRoleV1 \<Rightarrow> FidelityReportV1 \<Rightarrow> string list" where
  "independent_reviewers role report =
     remdups (map rs_reviewer_id (filter (\<lambda>item. rs_role item = role) (accepting_independent report)))"

definition fidelity_failures :: "StatementContractV1 \<Rightarrow> FidelityReportV1 \<Rightarrow> string list" where
  "fidelity_failures c report =
     (let passed_checks = map fc_kind (filter fc_passed (fr_checks report));
          independent_roles = set (map rs_role (accepting_independent report));
          risk = tp_fidelity_risk (sc_policy c); open_problem = tp_open_problem (sc_policy c) in
      failure_if (\<not> set gate_base_checks \<subseteq> set passed_checks) ''missing successful fidelity checks''
      @ failure_if (\<not> list_ex (\<lambda>item. fc_kind item = FCK_INDEPENDENT_TRANSLATION \<and> fc_passed item \<and> fc_independent item)
            (fr_checks report))
          ''independent translation evidence requires an independent reviewer''
      @ concat (map (mutation_failures c report) gate_base_mutations)
      @ failure_if (RL_SEMANTIC_REVIEWER \<notin> independent_roles) ''an independent semantic reviewer must accept the statement''
      @ failure_if (risk \<in> {FR_L2_REUSABLE_API, FR_L3_RESEARCH} \<and> RL_LIBRARY_REVIEWER \<notin> independent_roles)
          ''reusable APIs require an independent library review''
      @ failure_if (risk = FR_L3_RESEARCH
            \<and> int (length (independent_reviewers RL_DOMAIN_EXPERT report)) < opp_required_domain_expert_reviews open_problem)
          ''research-level statements require independent domain signoff''
      @ failure_if (sc_task_kind c = TK_OPEN_CONJECTURE
            \<and> int (length (independent_reviewers RL_INDEPENDENT_VERIFIER report)) < opp_required_independent_verifiers open_problem)
          ''open conjectures require independent verifier signoff''
      @ failure_if (sc_task_kind c = TK_OPEN_CONJECTURE \<and> tp_release_tier (sc_policy c) \<noteq> RT_CONJECTURE_QUARANTINE)
          ''open conjectures must remain quarantined'')"

definition blocking_ambiguity :: "AmbiguityV1 \<Rightarrow> bool" where
  "blocking_ambiguity a \<longleftrightarrow> am_severity a = AS_BLOCKING \<and> (am_resolution a = None \<or> am_resolved_by a = None)"

definition freeze_failures ::
  "StatementContractV1 \<Rightarrow> CandidateFormalization list \<Rightarrow> FidelityReportV1 \<Rightarrow> string list" where
  "freeze_failures c candidates report =
     failure_if (sc_status c \<noteq> SS_DRAFT) ''only a draft contract may be frozen''
     @ failure_if (sr_spans (sc_source c) = []) ''a frozen contract requires at least one cited source span''
     @ failure_if (sc_alignments c = []) ''a frozen contract requires source-to-formal alignments''
     @ failure_if (rr_overall_decision (sc_rights c) \<in> {PD_UNKNOWN, PD_DENY}) ''source rights must be reviewed before freezing''
     @ failure_if (\<not> truthy (rr_reviewed_by (sc_rights c)) \<or> rr_reviewed_at (sc_rights c) = None)
         ''source rights require a reviewer and review timestamp''
     @ failure_if (list_ex blocking_ambiguity (ms_ambiguities (sc_mathematics c)))
         ''all blocking mathematical ambiguities must be resolved''
     @ failure_if (fs_elaborated_type (sc_formal c) = None) ''the Lean declaration must be elaborated before freezing''
     @ failure_if (fr_risk_level report \<noteq> tp_fidelity_risk (sc_policy c)) ''fidelity risk level must match task policy''
     @ candidate_failures candidates
     @ fidelity_failures c report"

definition FreezeGate_validate ::
  "StatementContractV1 \<Rightarrow> CandidateFormalization list \<Rightarrow> FidelityReportV1 \<Rightarrow> unit result" where
  "FreezeGate_validate c candidates report =
     (let failures = freeze_failures c candidates report in
      require (failures = []) (FreezeRejected (join_with ''; '' failures)))"

section \<open>Freezing and bridging\<close>

definition freeze_record ::
  "StatementContractV1 \<Rightarrow> SourcePreparationRecordV1 \<Rightarrow> string \<Rightarrow> datetime \<Rightarrow> FreezeRecordV1 result" where
  "freeze_record reviewed preparation frozen_by time = FreezeRecordV1_init
     \<lparr>fz_contract_hash = semantic_hash reviewed, fz_source_hash = sr_content_hash (sc_source reviewed),
      fz_source_preparation_id = Some (sp_preparation_id preparation),
      fz_source_preparation_hash = Some (preparation_artifact_digest preparation),
      fz_statement_source_hash = fs_statement_source_hash (sc_formal reviewed),
      fz_elaborated_type_hash = fs_elaborated_type_hash (sc_formal reviewed),
      fz_frozen_by = frozen_by, fz_frozen_at = time\<rparr>"

definition is_preparation_error :: "exn \<Rightarrow> bool" where
  "is_preparation_error e = (case e of SourcePreparationError m \<Rightarrow> True | _ \<Rightarrow> False)"

definition freeze_reviewed_contract ::
  "datetime \<Rightarrow> StatementContractV1 \<Rightarrow> FidelityEvaluation \<Rightarrow> SourcePreparationRecordV1 \<Rightarrow> string \<Rightarrow> datetime option
     \<Rightarrow> StatementContractV1 result" where
  "freeze_reviewed_contract now c ev preparation frozen_by frozen_at =
     bindE (builder_require (nonblank frozen_by) ''frozen_by must not be empty'') (\<lambda>_.
     bindE (catchE is_preparation_error (FreezeRejected ''source preparation'') (preparation_assert_binds_contract preparation c)) (\<lambda>_.
     bindE (catchE is_value_error (FreezeRejected ''fidelity evaluation'') (evaluation_assert_binds ev c)) (\<lambda>_.
     bindE (FreezeGate_validate c (fe_candidates ev) (fe_report ev)) (\<lambda>_.
     bindE (StatementContractV1_init (c\<lparr>sc_fidelity := Some (fe_report ev)\<rparr>)) (\<lambda>reviewed.
     bindE (freeze_record reviewed preparation frozen_by (case frozen_at of None \<Rightarrow> now | Some t \<Rightarrow> t)) (\<lambda>freeze.
     StatementContractV1_init (reviewed\<lparr>sc_status := SS_FROZEN, sc_freeze := Some freeze\<rparr>)))))))"

type_synonym attestation_issuer = "AttestationPurposeV1 \<Rightarrow> json_object \<Rightarrow> string \<Rightarrow> int \<Rightarrow> AttestationV1 result"

definition bridge_requirements ::
  "StatementContractV1 \<Rightarrow> string \<Rightarrow> FidelityEvidenceArtifactRefV1 \<Rightarrow> string \<Rightarrow> unit result" where
  "bridge_requirements c bundle_key evidence evidence_identity =
     bindE (builder_require (sc_status c = SS_FROZEN) ''only a frozen contract may cross the Builder-Prover boundary'') (\<lambda>_.
     bindE (builder_require (case sc_freeze c of None \<Rightarrow> False
         | Some f \<Rightarrow> fz_source_preparation_id f \<noteq> None \<and> fz_source_preparation_hash f \<noteq> None)
       ''the Builder-Prover bridge requires source-preparation evidence'') (\<lambda>_.
     bindE (builder_require (nonblank bundle_key) ''bundle_key must not be empty'') (\<lambda>_.
     bindE (builder_require (nonblank evidence_identity) ''evidence_identity must not be empty'') (\<lambda>_.
     case sc_fidelity c of
       None \<Rightarrow> Inl (BuilderError ''only a fidelity-reviewed contract may cross the bridge'')
     | Some report \<Rightarrow> builder_require (fa_digest evidence = fr_evidence_hash report)
         ''fidelity artifact does not bind the frozen fidelity report''))))"

definition bridge_frozen_contract ::
  "attestation_issuer \<Rightarrow> datetime \<Rightarrow> StatementContractV1 \<Rightarrow> GraphBundleV1 \<Rightarrow> string \<Rightarrow> FidelityEvidenceArtifactRefV1
     \<Rightarrow> string \<Rightarrow> int \<Rightarrow> datetime option \<Rightarrow> FormalizationTaskBundleV1 result" where
  "bridge_frozen_contract issue now c graphs bundle_key evidence evidence_identity ttl issued_at =
     bindE (bridge_requirements c bundle_key evidence evidence_identity) (\<lambda>_.
     bindE (stable_identifier ''bundle'' bundle_key) (\<lambda>bundle_id.
     bindE (build_proof_boundary c) (\<lambda>boundary.
     bindE (FormalizationTaskBundleV1_init
       \<lparr>tb_bundle_id = bundle_id, tb_contract = c, tb_graphs = graphs,
        tb_graph_snapshot_hash = digest_model GRAPH_SNAPSHOT (dump_GraphBundleV1 graphs),
        tb_proof_boundary = boundary, tb_fidelity_evidence = Some evidence,
        tb_issued_at = (case issued_at of None \<Rightarrow> now | Some t \<Rightarrow> t), tb_builder_attestation = None\<rparr>) (\<lambda>unsigned.
     bindE (catchE is_value_error (BuilderError ''Builder attestation could not be issued'')
       (bindE (builder_attestation_payload unsigned) (\<lambda>payload. issue AP_BUILDER_FREEZE payload evidence_identity ttl))) (\<lambda>attestation.
     model_copy FormalizationTaskBundleV1_init (\<lambda>b. b\<lparr>tb_builder_attestation := Some attestation\<rparr>) unsigned)))))"

definition create_next_revision ::
  "StatementContractV1 \<Rightarrow> StatementContractV1 \<Rightarrow> ContractChangeRequestV1 option \<Rightarrow> StatementContractV1 result" where
  "create_next_revision previous replacement request =
     bindE (builder_require (sc_contract_id replacement = sc_contract_id previous)
       ''a new contract revision must retain the stable contract ID'') (\<lambda>_.
     bindE (builder_require (sc_revision replacement = sc_revision previous + 1)
       ''contract revisions must increase by exactly one'') (\<lambda>_.
     bindE (builder_require (\<not> (sc_status replacement \<noteq> SS_DRAFT \<or> sc_freeze replacement \<noteq> None))
       ''a replacement revision must begin as an unfrozen draft'') (\<lambda>_.
     bindE (case request of None \<Rightarrow> Inr ()
       | Some r \<Rightarrow>
           bindE (builder_require (\<not> (cr_contract_id r \<noteq> sc_contract_id previous \<or> cr_old_revision r \<noteq> sc_revision previous))
             ''contract change request does not target the previous revision'') (\<lambda>_.
           builder_require (cr_old_contract_hash r = semantic_hash previous)
             ''contract change request does not bind the previous revision'')) (\<lambda>_.
     Inr replacement))))"

end
