(* ===== verification/WorkflowProps.thy ===== *)
theory WorkflowProps
  imports Workflow HarnessProps
begin

text \<open>
  Lemmas about Builder's workflow: what a bound evaluation says of its reviewer, what the freeze
  gate adds to it, and what the bridge makes of a frozen contract.
\<close>

section \<open>What a bound evaluation says\<close>

lemma dict_of_length_distinct:
  assumes "length (dict_of d) = length d"
  shows "distinct (map fst d)"
proof (rule card_distinct)
  have "card (set (map fst d)) = card (set (map fst (dict_of d)))" by (simp only: fst_set_dict_of)
  also have "\<dots> = length (dict_of d)" using distinct_card [OF distinct_dict_of [of d]] by simp
  finally show "card (set (map fst d)) = length (map fst d)" using assms by simp
qed

definition reviewed_candidate :: "TranslationTask \<Rightarrow> SemanticReviewVerdict \<Rightarrow> CandidateFormalization \<Rightarrow> CandidateReviewVerdict \<Rightarrow> bool" where
  "reviewed_candidate task review x v \<longleftrightarrow>
     v \<in> set (sv_candidate_verdicts review) \<and> cv_candidate_id v = cf_candidate_id x \<and>
     cv_candidate_hash v = candidate_evidence_hash x \<and>
     set (map ov_obligation_id (cv_obligation_verdicts v)) = set (map so_obligation_id (tt_obligations task))"

lemma bound_evaluation_Inr:
  assumes "evaluation_assert_binds ev c = Inr ()"
  shows "tt_draft_contract_hash (fe_task ev) = semantic_hash c \<and>
    distinct (map cf_candidate_id (fe_candidates ev)) \<and>
    assert_review_structure
      \<lparr>rp_task = fe_task ev, rp_candidates = fe_candidates ev, rp_mutation_probes = fe_mutation_probes ev\<rparr> (fe_review ev) = Inr () \<and>
    (\<exists>h. assert_report_binds ev c h = Inr ())"
  using assms
  by (auto simp: evaluation_assert_binds_def Let_def result_simps expected_automatic_checks_def candidate_structure_checks_def)

lemma bound_candidate_reviewed:
  assumes "assert_review_structure \<lparr>rp_task = task, rp_candidates = candidates, rp_mutation_probes = probes\<rparr> review = Inr ()"
    and "distinct (map cf_candidate_id candidates)" "x \<in> set candidates"
  shows "\<exists>v. reviewed_candidate task review x v"
proof -
  let ?cs = "map (\<lambda>item. (cf_candidate_id item, item)) candidates"
  let ?vs = "map (\<lambda>item. (cv_candidate_id item, item)) (sv_candidate_verdicts review)"
  have s: "length (dict_of ?vs) = length ?vs" "set (map fst (dict_of ?vs)) = set (map fst (dict_of ?cs))"
    "list_all (\<lambda>v. candidate_verdict_fits task (dict_of ?cs) v = Inr ()) (map snd (dict_of ?vs))"
    using assms(1) by (simp_all add: assert_review_structure_def Let_def result_simps)
  have d: "dict_of ?vs = ?vs" "dict_of ?cs = ?cs"
    using dict_of_length_distinct [OF s(1)] assms(2) by (auto intro!: dict_of_distinct simp: comp_def)
  have "cf_candidate_id x \<in> set (map fst ?vs)"
    using s(2) assms(3) unfolding d by force
  then obtain v where v: "v \<in> set (sv_candidate_verdicts review)" "cv_candidate_id v = cf_candidate_id x" by auto
  have "map_of ?cs (cv_candidate_id v) = Some x"
    unfolding v(2) by (rule map_of_is_SomeI) (use assms(2,3) in \<open>auto simp: comp_def\<close>)
  moreover have "candidate_verdict_fits task ?cs v = Inr ()"
    using s(3) v(1) unfolding d by (simp add: list_all_iff)
  ultimately show ?thesis
    using v by (auto simp: candidate_verdict_fits_def reviewed_candidate_def result_simps)
qed

lemma bound_check_passed:
  assumes "assert_report_binds ev c h = Inr ()" "(k, passed, e) \<in> set (expected_checks ev)"
    and "chk \<in> set (fr_checks (fe_report ev))" "fc_kind chk = k" "fc_passed chk"
  shows passed
proof -
  let ?d = "map (\<lambda>item. (fc_kind item, item)) (fr_checks (fe_report ev))"
  have s: "length (dict_of ?d) = length ?d"
    "list_all (\<lambda>entry. report_check_binds h (fe_review ev) (dict_of ?d) entry = Inr ()) (expected_checks ev)"
    using assms(1) by (simp_all add: assert_report_binds_def Let_def result_simps)
  have d: "distinct (map fst ?d)" by (rule dict_of_length_distinct [OF s(1)])
  have "map_of (dict_of ?d) k = Some chk"
    unfolding dict_of_distinct [OF d] by (rule map_of_is_SomeI [OF d]) (use assms(3,4) in auto)
  moreover have "report_check_binds h (fe_review ev) (dict_of ?d) (k, passed, e) = Inr ()"
    using s(2) assms(2) by (simp add: list_all_iff)
  ultimately show ?thesis using assms(5) by (auto simp: report_check_binds_def result_simps)
qed

lemma bound_mutation_detected:
  assumes "assert_report_binds ev c h = Inr ()" "r \<in> set (fr_mutation_results (fe_report ev))" "mr_detected r"
  shows "mr_probe r \<in> set (fe_mutation_probes ev) \<and>
    (\<exists>v \<in> set (sv_mutation_verdicts (fe_review ev)). mv_probe_id v = mp_probe_id (mr_probe r) \<and> mv_detected v)"
proof -
  have s: "map mr_probe (fr_mutation_results (fe_report ev)) = fe_mutation_probes ev"
    "mutation_result_binds h (fe_review ev) r = Inr ()"
    using assms(1,2) by (simp_all add: assert_report_binds_def Let_def result_simps list_all_iff)
  have "mr_probe r \<in> set (fe_mutation_probes ev)" using assms(2) unfolding s(1) [symmetric] by simp
  then show ?thesis
    using s(2) assms(3)
    by (force simp: mutation_result_binds_def result_simps map_of_dict_of split: option.splits dest!: map_of_SomeD)
qed

section \<open>What the gate adds\<close>

lemma gate_Inr:
  "FreezeGate_validate c candidates report = Inr () \<longleftrightarrow> freeze_failures c candidates report = []"
  by (simp add: FreezeGate_validate_def Let_def result_simps)

lemma gate_check_passed:
  assumes "fidelity_failures c report = []" "k \<in> set gate_base_checks"
  shows "\<exists>chk \<in> set (fr_checks report). fc_kind chk = k \<and> fc_passed chk"
  using assms by (auto simp: fidelity_failures_def Let_def)

lemma gate_mutation_detected:
  assumes "fidelity_failures c report = []" "k \<in> set gate_base_mutations"
  shows "\<exists>r \<in> set (fr_mutation_results report). mp_kind (mr_probe r) = k \<and> mr_detected r \<and>
    mp_mutated_statement_source (mr_probe r) \<noteq> fs_lean_statement_source (sc_formal c)"
proof -
  have "mutation_failures c report k = []"
    using assms by (simp add: fidelity_failures_def Let_def)
  then obtain r where "map_of (dict_of (map (\<lambda>item. (mp_kind (mr_probe item), item)) (fr_mutation_results report))) k = Some r"
    "mr_detected r" "mp_mutated_statement_source (mr_probe r) \<noteq> fs_lean_statement_source (sc_formal c)"
    by (auto simp: mutation_failures_def split: option.splits if_splits)
  then show ?thesis by (auto simp: map_of_dict_of dest!: map_of_SomeD)
qed

lemma gate_semantic_reviewer:
  assumes "fidelity_failures c report = []"
  shows "\<exists>s \<in> set (fr_signoffs report). rs_role s = RL_SEMANTIC_REVIEWER \<and> rs_independent s \<and> rs_decision s = DC_ACCEPT"
proof -
  have "RL_SEMANTIC_REVIEWER \<in> rs_role ` set (accepting_independent report)"
    using assms by (simp add: fidelity_failures_def Let_def)
  then show ?thesis unfolding accepting_independent_def by force
qed

text \<open>The verdict of a reviewer whose report passes the gate.\<close>

definition accepted_throughout :: "FidelityEvaluation \<Rightarrow> bool" where
  "accepted_throughout ev \<longleftrightarrow>
     (let review = fe_review ev in
      sv_independent review \<and> sv_source_to_normalized_equivalent review \<and> sv_positive_example_valid review \<and>
      sv_negative_example_valid review \<and> sv_non_vacuous review \<and> 2 \<le> length (fe_candidates ev) \<and>
      list_all (\<lambda>x. \<exists>v. reviewed_candidate (fe_task ev) review x v \<and> cv_decision v = DC_ACCEPT \<and>
        cv_reverse_render_equivalent v \<and> list_all (\<lambda>item. ov_decision item = DC_ACCEPT) (cv_obligation_verdicts v))
        (fe_candidates ev))"

lemma gate_accepted_throughout:
  assumes bind: "evaluation_assert_binds ev c = Inr ()" and gate: "fidelity_failures c (fe_report ev) = []"
  shows "accepted_throughout ev"
proof -
  let ?v = "fe_review ev"
  obtain h where b: "distinct (map cf_candidate_id (fe_candidates ev))" "assert_report_binds ev c h = Inr ()"
    "assert_review_structure
      \<lparr>rp_task = fe_task ev, rp_candidates = fe_candidates ev, rp_mutation_probes = fe_mutation_probes ev\<rparr> ?v = Inr ()"
    using bound_evaluation_Inr [OF bind] by blast
  have passed: p if "(k, p, e) \<in> set (expected_checks ev)" "k \<in> set gate_base_checks" for k p e
    using bound_check_passed [OF b(2) that(1)] gate_check_passed [OF gate that(2)] by blast
  have source: "sv_source_to_normalized_equivalent ?v \<and> obligations_accepted ?v"
    by (rule passed [of FCK_SOURCE_PRESERVATION]) (simp_all add: expected_checks_def Let_def gate_base_checks_def)
  have reverse: "list_all cv_reverse_render_equivalent (sv_candidate_verdicts ?v) \<and> candidates_accepted ?v"
    by (rule passed [of FCK_REVERSE_RENDER]) (simp_all add: expected_checks_def Let_def gate_base_checks_def)
  have two: "candidates_accepted ?v \<and> length (fe_candidates ev) \<ge> 2"
    by (rule passed [of FCK_INDEPENDENT_TRANSLATION]) (simp_all add: expected_checks_def Let_def gate_base_checks_def)
  have positive: "sv_positive_example_valid ?v"
    by (rule passed [of FCK_POSITIVE_EXAMPLE]) (simp_all add: expected_checks_def Let_def gate_base_checks_def)
  have negative: "sv_negative_example_valid ?v"
    by (rule passed [of FCK_NEGATIVE_EXAMPLE]) (simp_all add: expected_checks_def Let_def gate_base_checks_def)
  have non_vacuous: "sv_non_vacuous ?v"
    by (rule passed [of FCK_NON_VACUITY]) (simp_all add: expected_checks_def Let_def gate_base_checks_def)
  have independent: "sv_independent ?v" using b(3) by (simp add: assert_review_structure_def result_simps)
  have "\<exists>v. reviewed_candidate (fe_task ev) ?v x v \<and> cv_decision v = DC_ACCEPT \<and> cv_reverse_render_equivalent v \<and>
      list_all (\<lambda>item. ov_decision item = DC_ACCEPT) (cv_obligation_verdicts v)" if x: "x \<in> set (fe_candidates ev)" for x
  proof -
    obtain v where v: "reviewed_candidate (fe_task ev) ?v x v" using bound_candidate_reviewed [OF b(3,1) x] by blast
    then have "v \<in> set (sv_candidate_verdicts ?v)" by (simp add: reviewed_candidate_def)
    then show ?thesis
      using v source reverse by (auto simp: candidates_accepted_def obligations_accepted_def list_all_iff)
  qed
  then show ?thesis
    using source two positive negative non_vacuous independent unfolding accepted_throughout_def Let_def list_all_iff by blast
qed

end
