(* ===== verification/WorkflowSample.thy ===== *)
theory WorkflowSample
  imports WorkflowProps HarnessSample
begin

text \<open>
  The sample contract of the harness, frozen with the evaluation of the sample run and bridged
  with a Builder key.
\<close>

section \<open>The report of the sample run passes the gate\<close>

lemma built_checks_fields:
  "build_checks candidates v h = Inr checks \<Longrightarrow> map (\<lambda>chk. (fc_kind chk, fc_passed chk, fc_independent chk)) checks =
     [(FCK_SOURCE_PRESERVATION, sv_source_to_normalized_equivalent v \<and> obligations_accepted v, sv_independent v),
      (FCK_REVERSE_RENDER, list_all cv_reverse_render_equivalent (sv_candidate_verdicts v) \<and> candidates_accepted v, sv_independent v),
      (FCK_INDEPENDENT_TRANSLATION, candidates_accepted v \<and> length candidates \<ge> 2, sv_independent v),
      (FCK_POSITIVE_EXAMPLE, sv_positive_example_valid v, sv_independent v),
      (FCK_NEGATIVE_EXAMPLE, sv_negative_example_valid v, sv_independent v),
      (FCK_NON_VACUITY, sv_non_vacuous v, sv_independent v)]"
  by (auto simp: build_checks_def Let_def result_simps dest!: make_check_Inr)

lemma harness_verdict_accepts:
  "obligations_accepted (harness_verdict t p)" "candidates_accepted (harness_verdict t p)"
  "list_all cv_reverse_render_equivalent (sv_candidate_verdicts (harness_verdict t p))"
  by (simp_all add: obligations_accepted_def candidates_accepted_def list_all_iff harness_verdict_def harness_candidate_verdict_def)

lemma harness_checks_pass:
  assumes "build_checks (harness_candidates stm) (harness_verdict t p) h = Inr checks"
  shows "set gate_base_checks \<subseteq> set (map fc_kind (filter fc_passed checks))"
    "list_ex (\<lambda>item. fc_kind item = FCK_INDEPENDENT_TRANSLATION \<and> fc_passed item \<and> fc_independent item) checks"
proof -
  have fields: "map (\<lambda>chk. (fc_kind chk, fc_passed chk, fc_independent chk)) checks = map (\<lambda>k. (k, True, True)) gate_base_checks"
    using built_checks_fields [OF assms] harness_verdict_accepts [of t p]
    by (simp add: gate_base_checks_def harness_candidates_def) (simp add: harness_verdict_def)
  have item: "\<exists>chk \<in> set checks. fc_kind chk = k \<and> fc_passed chk \<and> fc_independent chk" if "k \<in> set gate_base_checks" for k
  proof -
    have "(k, True, True) \<in> set (map (\<lambda>chk. (fc_kind chk, fc_passed chk, fc_independent chk)) checks)"
      unfolding fields using that by simp
    then show ?thesis by auto
  qed
  show "set gate_base_checks \<subseteq> set (map fc_kind (filter fc_passed checks))"
    using item by fastforce
  show "list_ex (\<lambda>item. fc_kind item = FCK_INDEPENDENT_TRANSLATION \<and> fc_passed item \<and> fc_independent item) checks"
    using item [of FCK_INDEPENDENT_TRANSLATION] by (auto simp: gate_base_checks_def list_ex_iff)
qed

lemma harness_result_fields:
  assumes "make_mutation_result (harness_verdict t p) h probe = Inr r"
  shows "mr_probe r = probe \<and> mr_detected r"
proof -
  obtain m where m: "map_of (dict_of (map (\<lambda>item. (mv_probe_id item, item)) (sv_mutation_verdicts (harness_verdict t p))))
      (mp_probe_id probe) = Some m" "mr_probe r = probe" "mr_detected r = mv_detected m"
    using make_mutation_result_Inr [OF assms] by auto
  then have "m \<in> set (sv_mutation_verdicts (harness_verdict t p))" by (auto simp: map_of_dict_of dest!: map_of_SomeD)
  then have "mv_detected m" by (auto simp: harness_verdict_def)
  then show ?thesis using m by simp
qed

lemma harness_mutations_pass:
  assumes results: "map_resultE (make_mutation_result (harness_verdict t p) h) harness_probes = Inr results"
    and stm: "stm \<in> set demo_statements" and k: "k \<in> set gate_base_mutations"
    and r: "fr_mutation_results report = results" "fs_lean_statement_source (sc_formal c) = stm"
  shows "mutation_failures c report k = []"
proof -
  let ?d = "map (\<lambda>item. (mp_kind (mr_probe item), item)) results"
  have all2: "list_all2 (\<lambda>q r. mr_probe r = q \<and> mr_detected r) harness_probes results"
    using results harness_result_fields unfolding map_resultE_Inr by (rule list_all2_mono)
  then have probes: "map mr_probe results = harness_probes"
    by (induction rule: list_all2_induct) auto
  have detected: "list_all mr_detected results"
    using all2 by (induction rule: list_all2_induct) auto
  have "map fst ?d = map mp_kind (map mr_probe results)" by simp
  then have kinds: "map fst ?d = required_mutations" unfolding probes by simp
  then have d: "distinct (map fst ?d)" by (simp only:) (simp add: required_mutations_def)
  have "k \<in> set (map fst ?d)" using k unfolding kinds by (simp add: required_mutations_def gate_base_mutations_def)
  then obtain item where item: "item \<in> set results" "mp_kind (mr_probe item) = k" by auto
  have look: "map_of (dict_of ?d) k = Some item"
    unfolding dict_of_distinct [OF d] by (rule map_of_is_SomeI [OF d]) (use item in auto)
  have "mr_probe item \<in> set harness_probes" using item(1) unfolding probes [symmetric] by simp
  then have "mp_mutated_statement_source (mr_probe item) \<in> set (map mp_mutated_statement_source harness_probes)"
    by (simp only: set_map imageI)
  then obtain x where "mp_mutated_statement_source (mr_probe item) = [x]"
    unfolding harness_probes_fields set_map by (auto simp only: image_iff)
  then have "mp_mutated_statement_source (mr_probe item) \<noteq> stm"
    using demo_statement_text(3) [OF stm, of x] by metis
  then show ?thesis
    using look detected item(1) by (simp add: mutation_failures_def r list_all_iff)
qed

lemma harness_report_passes:
  assumes ev: "harness_evaluate (harness_demo t) reading (harness_contract stm) harness_obligations None [] = Inr ev"
    and parts: "fe_candidates ev = harness_candidates stm" "fe_mutation_probes ev = harness_probes"
      "fe_review ev = harness_verdict t (harness_packet stm)"
    and stm: "stm \<in> set demo_statements"
  shows "freeze_failures (harness_contract stm) (fe_candidates ev) (fe_report ev) = []"
proof -
  let ?v = "harness_verdict t (harness_packet stm)" and ?c = "harness_contract stm"
  obtain h where report: "build_report reading ?c (harness_candidates stm) harness_probes ?v h (fe_additional_signoffs ev) = Inr (fe_report ev)"
    using harness_evaluate_Inr [OF ev] parts by auto
  obtain checks results i j signoff where
    checks: "build_checks (harness_candidates stm) ?v h = Inr checks"
    and results: "map_resultE (make_mutation_result ?v h) harness_probes = Inr results"
    and so: "signoff = \<lparr>rs_signoff_id = i, rs_reviewer_id = strip_ws (sv_reviewer_id ?v), rs_role = RL_SEMANTIC_REVIEWER,
      rs_decision = sv_decision ?v, rs_independent = sv_independent ?v, rs_rationale = strip_ws (marked h (sv_rationale ?v)),
      rs_reviewed_at = as_utc reading\<rparr>"
    and r: "fe_report ev = \<lparr>fr_report_id = j, fr_evidence_hash = h, fr_risk_level = tp_fidelity_risk (sc_policy ?c), fr_checks = checks,
      fr_mutation_results = results, fr_signoffs = signoff # fe_additional_signoffs ev, fr_generated_at = as_utc reading\<rparr>"
    using built_report_Inr [OF report] by blast
  have f: "fr_checks (fe_report ev) = checks" "fr_mutation_results (fe_report ev) = results"
    "fr_risk_level (fe_report ev) = FR_L1_SIMPLE"
    by (simp_all add: r) (simp add: harness_contract_def sample_draft_def)
  have policy: "tp_fidelity_risk (sc_policy ?c) = FR_L1_SIMPLE" by (simp add: harness_contract_def sample_draft_def)
  have "fs_lean_statement_source (sc_formal ?c) = stm" by (simp add: harness_formal_def)
  then have mutations: "concat (map (mutation_failures ?c (fe_report ev)) gate_base_mutations) = []"
    using harness_mutations_pass [OF results stm _ f(2)] by simp
  have "signoff \<in> set (accepting_independent (fe_report ev))"
    unfolding accepting_independent_def r by (simp add: so) (simp add: harness_verdict_def)
  then have signed: "RL_SEMANTIC_REVIEWER \<in> rs_role ` set (accepting_independent (fe_report ev))"
    using so by force
  have "fidelity_failures ?c (fe_report ev) = []"
    using harness_checks_pass [OF checks] mutations signed
    by (simp add: fidelity_failures_def Let_def f policy)
  moreover have "candidate_failures (harness_candidates stm) = []"
    by (simp add: candidate_failures_def harness_candidates_def harness_candidate_def)
  ultimately show ?thesis
    by (simp add: freeze_failures_def parts(1) policy f(3))
      (simp add: harness_contract_def harness_formal_def sample_formal_def sample_draft_def truthy_def)
qed

section \<open>Freezing the sample\<close>

definition harness_preparation :: "string \<Rightarrow> SourcePreparationRecordV1" where
  "harness_preparation stm = (sample_preparation (replicate 64 (CHR ''0'')))
     \<lparr>sp_contract_sha256 := dg_value (digest_model CONTRACT (dump_StatementContractV1 (harness_contract stm)))\<rparr>"

definition harness_freeze :: "string \<Rightarrow> FidelityReportV1 \<Rightarrow> FreezeRecordV1" where
  "harness_freeze stm report =
     \<lparr>fz_contract_hash = semantic_hash (harness_contract stm\<lparr>sc_fidelity := Some report\<rparr>),
      fz_source_hash = digest_text SOURCE_BYTES ''book'',
      fz_source_preparation_id = Some (sample_id ''source-preparation''),
      fz_source_preparation_hash = Some (preparation_artifact_digest (harness_preparation stm)),
      fz_statement_source_hash = digest_text STATEMENT_SOURCE stm,
      fz_elaborated_type_hash = Some (digest_text ELABORATED_TYPE ''True''),
      fz_frozen_by = ''me'', fz_frozen_at = utc 9\<rparr>"

definition harness_frozen :: "string \<Rightarrow> FidelityReportV1 \<Rightarrow> StatementContractV1" where
  "harness_frozen stm report = harness_contract stm
     \<lparr>sc_fidelity := Some report, sc_status := SS_FROZEN, sc_freeze := Some (harness_freeze stm report)\<rparr>"

lemma harness_prepared: "preparation_assert_binds_contract (harness_preparation stm) (harness_contract stm) = Inr ()"
  by (simp add: preparation_assert_binds_contract_def result_simps harness_preparation_def sample_preparation_def)

lemma harness_contract_parts [simp]:
  "sc_status (harness_contract stm) = SS_DRAFT" "sc_freeze (harness_contract stm) = None"
  "sr_content_hash (sc_source (harness_contract stm)) = digest_text SOURCE_BYTES ''book''"
  "fs_statement_source_hash (harness_formal stm) = digest_text STATEMENT_SOURCE stm"
  "fs_elaborated_type_hash (harness_formal stm) = Some (digest_text ELABORATED_TYPE ''True'')"
  by (simp_all add: harness_contract_def sample_draft_def harness_formal_def sample_formal_def)

lemma harness_reviewed_ok:
  "StatementContractV1_init (harness_contract stm\<lparr>sc_fidelity := Some report\<rparr>) = Inr (harness_contract stm\<lparr>sc_fidelity := Some report\<rparr>)"
  by (simp add: StatementContractV1_init_def construct_Inr StatementContractV1_guards_def)
    (simp add: harness_contract_def sample_draft_def harness_span_def)

lemma harness_freeze_made:
  "freeze_record (harness_contract stm\<lparr>sc_fidelity := Some report\<rparr>) (harness_preparation stm) ''me'' (utc 9)
     = Inr (harness_freeze stm report)"
  by (simp add: freeze_record_def FreezeRecordV1_init_def construct_Inr FreezeRecordV1_strip_def FreezeRecordV1_guards_def
      strip_ws_ends white_space_def harness_freeze_def semantic_hash_def preparation_artifact_digest_def digest_model_def digest_bytes_def
      digest_text_def opt_all_def)
    (simp add: harness_preparation_def sample_preparation_def sample_id_def)

lemma harness_frozen_ok: "StatementContractV1_init (harness_frozen stm report) = Inr (harness_frozen stm report)"
proof -
  have "list_all fst (StatementContractV1_guards (harness_contract stm\<lparr>sc_fidelity := Some report\<rparr>))"
    using harness_reviewed_ok by (simp add: StatementContractV1_init_def construct_Inr)
  then have "list_all fst (StatementContractV1_guards (harness_frozen stm report))"
    by (simp add: StatementContractV1_guards_def harness_frozen_def harness_freeze_def opt_all_def)
  then show ?thesis by (simp add: StatementContractV1_init_def construct_Inr)
qed

lemma harness_demo_freezes:
  assumes stm: "stm \<in> set demo_statements" and t: "nonblank t" "ends_clean t" and reading: "aware reading"
  shows "\<exists>ev. harness_evaluate (harness_demo t) reading (harness_contract stm) harness_obligations None [] = Inr ev \<and>
    freeze_reviewed_contract (utc 9) (harness_contract stm) ev (harness_preparation stm) ''me'' None
      = Inr (harness_frozen stm (fe_report ev))"
proof -
  obtain ev where ev: "harness_evaluate (harness_demo t) reading (harness_contract stm) harness_obligations None [] = Inr ev"
    and parts: "fe_candidates ev = harness_candidates stm" "fe_mutation_probes ev = harness_probes"
      "fe_review ev = harness_verdict t (harness_packet stm)"
    using harness_demo_evaluates [OF stm t(1) reading] by blast
  have "list_all ends_clean (review_texts (fe_review ev))"
    using t(2) by (simp add: parts(3) review_texts_def harness_verdict_def list_all_iff) (simp add: ends_clean_def white_space_def)
  then have bind: "evaluation_assert_binds ev (harness_contract stm) = Inr ()" using evaluate_binds_iff [OF ev] by simp
  have gate: "FreezeGate_validate (harness_contract stm) (fe_candidates ev) (fe_report ev) = Inr ()"
    using harness_report_passes [OF ev parts stm] by (simp add: gate_Inr)
  have by_me: "nonblank ''me''" by (simp add: nonblank_def py_strip_def strip_by_def py_isspace_def)
  have "freeze_reviewed_contract (utc 9) (harness_contract stm) ev (harness_preparation stm) ''me'' None
      = Inr (harness_frozen stm (fe_report ev))"
    unfolding freeze_reviewed_contract_def harness_prepared bind gate catchE.simps bindE.simps harness_reviewed_ok option.case
      harness_freeze_made
    using harness_frozen_ok [of stm "fe_report ev"] by_me by (simp add: builder_require_def harness_frozen_def)
  then show ?thesis using ev by blast
qed

section \<open>Bridging the sample\<close>

lemma harness_frozen_fields [simp]:
  "sc_formal (harness_frozen stm report) = harness_formal stm" "sc_status (harness_frozen stm report) = SS_FROZEN"
  "sc_fidelity (harness_frozen stm report) = Some report" "sc_freeze (harness_frozen stm report) = Some (harness_freeze stm report)"
  by (simp_all add: harness_frozen_def)

lemma harness_formal_sample: "harness_formal ''theorem foo : True'' = sample_formal"
  by (simp add: harness_formal_def sample_formal_def)

lemma harness_boundary:
  "\<exists>boundary. build_proof_boundary (harness_frozen ''theorem foo : True'' report) = Inr boundary"
proof -
  let ?c = "harness_frozen ''theorem foo : True'' report"
  have r: "renderable ?c"
    using sample_renderable(1) by (simp add: renderable_def harness_formal_sample)
  then obtain src where src: "render_trusted_statement ?c = Inr src"
    using render_Inr [of ?c] unfolding renderable_def by blast
  show ?thesis
    by (rule exI, rule build_proof_boundary_succeeds [where h = "digest_text ELABORATED_TYPE ''True''", OF _ _ src])
      (use r sample_renderable(2) in \<open>simp_all add: harness_formal_sample sample_formal_def sample_environment_def digest_text_def digest_bytes_def\<close>)
qed

lemma builder_key_issues:
  "\<exists>a. HmacAttestationSignerV1_issue (sample_key_for AP_BUILDER_FREEZE) (utc 0) ''aaaaaaaaaaaaaaaa'' AP_BUILDER_FREEZE payload ''e'' 10 None = Inr a"
proof -
  have "\<exists>a. HmacAttestationSignerV1_issue (sample_key_for AP_BUILDER_FREEZE) (utc 0) ''aaaaaaaaaaaaaaaa'' AP_BUILDER_FREEZE payload
      ''e'' 10 (Some ''aaaaaaaaaaaaaaaa'') = Inr a"
    using sample_key_ok
    by (intro issue_succeeds)
      (simp_all add: sample_key_for_def sample_key_def HmacAttestationKeyV1_init_def result_simps nonblank_def py_strip_def
        strip_ws_def strip_by_def py_isspace_def white_space_def utc_def aware_def nonce_pattern_def char_class_defs)
  then show ?thesis by (simp add: HmacAttestationSignerV1_issue_def)
qed

definition builder_issue :: attestation_issuer where
  "builder_issue = (\<lambda>p payload identity ttl.
     HmacAttestationSignerV1_issue (sample_key_for AP_BUILDER_FREEZE) (utc 0) ''aaaaaaaaaaaaaaaa'' p payload identity ttl None)"

lemma harness_bridges:
  "\<exists>b. bridge_frozen_contract builder_issue (utc 9) (harness_frozen ''theorem foo : True'' report) sample_graphs ''bundle''
     \<lparr>fa_digest = fr_evidence_hash report, fa_size = 1\<rparr> ''e'' 10 None = Inr b"
proof -
  let ?c = "harness_frozen ''theorem foo : True'' report" and ?e = "\<lparr>fa_digest = fr_evidence_hash report, fa_size = 1\<rparr>"
  have texts: "nonblank ''bundle''" "nonblank ''e''" by (simp_all add: nonblank_def py_strip_def strip_by_def py_isspace_def)
  have req: "bridge_requirements ?c ''bundle'' ?e ''e'' = Inr ()"
    by (simp add: bridge_requirements_def builder_require_def texts harness_freeze_def)
  have "nonblank ''bundle'' \<and> length (normalized_namespace ''bundle'') \<le> 128 \<and>
      all_chars namespace_char (normalized_namespace ''bundle'')"
    by code_simp
  then obtain i where i: "stable_identifier ''bundle'' ''bundle'' = Inr i" by (simp add: stable_identifier_result)
  obtain boundary where boundary: "build_proof_boundary ?c = Inr boundary" using harness_boundary by blast
  let ?u = "\<lparr>tb_bundle_id = i, tb_contract = ?c, tb_graphs = sample_graphs,
        tb_graph_snapshot_hash = digest_model GRAPH_SNAPSHOT (dump_GraphBundleV1 sample_graphs),
        tb_proof_boundary = boundary, tb_fidelity_evidence = Some ?e, tb_issued_at = utc 9, tb_builder_attestation = None\<rparr>"
  have accepted: "FormalizationTaskBundleV1_init (?u\<lparr>tb_builder_attestation := a\<rparr>) = Inr (?u\<lparr>tb_builder_attestation := a\<rparr>)"
    if "opt_all (\<lambda>a. at_purpose a = AP_BUILDER_FREEZE) a" for a
    using built_boundary_is_accepted [of "?u\<lparr>tb_builder_attestation := a\<rparr>"] that boundary sample_renderable(2)
    by (simp add: harness_formal_sample)
  obtain payload where payload: "builder_attestation_payload ?u = Inr payload"
    by (simp add: builder_attestation_payload_def Let_def freeze_evidence_hash_def)
  obtain a where a: "builder_issue AP_BUILDER_FREEZE payload ''e'' 10 = Inr a"
    using builder_key_issues [of payload] by (auto simp: builder_issue_def)
  then have "at_purpose a = AP_BUILDER_FREEZE" using issue_Inr unfolding builder_issue_def by blast
  then show ?thesis
    using req i boundary accepted [of None] accepted [of "Some a"] payload a
    by (simp add: bridge_frozen_contract_def model_copy_def)
qed

end
