(* ===== verification/WorkflowClaims.thy ===== *)
theory WorkflowClaims
  imports WorkflowSample
begin

text \<open>
  The theorems about Builder's workflow: a frozen contract was accepted by its reviewer in
  every respect, a bridged bundle carries an attestation that verifies, and the staged case
  of a contract never leaves its linear order and never reaches the frozen stages.
\<close>

section \<open>Freezing\<close>

lemma frozen_contract_parts:
  assumes "freeze_reviewed_contract now c ev preparation frozen_by frozen_at = Inr frozen"
  shows "preparation_assert_binds_contract preparation c = Inr ()" "evaluation_assert_binds ev c = Inr ()"
    "freeze_failures c (fe_candidates ev) (fe_report ev) = []"
    "\<exists>f. frozen = c\<lparr>sc_fidelity := Some (fe_report ev), sc_status := SS_FROZEN, sc_freeze := Some f\<rparr> \<and>
      fz_source_preparation_hash f = Some (preparation_artifact_digest preparation)"
    "list_all fst (StatementContractV1_guards frozen)"
    "list_all fst (StatementContractV1_guards (c\<lparr>sc_fidelity := Some (fe_report ev)\<rparr>))"
  using assms
  by (auto simp: freeze_reviewed_contract_def result_simps gate_Inr StatementContractV1_init_def construct_Inr
      freeze_record_def FreezeRecordV1_init_def FreezeRecordV1_strip_def)

text \<open>
  C19. What freezing promises: the frozen contract is the reviewed draft with its report and its
  freeze record, the record commits to the contract and to the source preparation of exactly
  this draft, and the review was an acceptance throughout: every candidate and every
  obligation was accepted by the independent reviewer of the evaluation of this draft, every
  required mutation of the statement was made and detected, and an independent semantic
  reviewer signed.
\<close>

theorem frozen_contract_is_reviewed:
  assumes "freeze_reviewed_contract now c ev preparation frozen_by frozen_at = Inr frozen"
  shows "sc_status c = SS_DRAFT \<and> tt_draft_contract_hash (fe_task ev) = semantic_hash c \<and>
    sp_contract_sha256 preparation = dg_value (digest_model CONTRACT (dump_StatementContractV1 c)) \<and>
    frozen\<lparr>sc_fidelity := sc_fidelity c, sc_status := SS_DRAFT, sc_freeze := None\<rparr> = c \<and>
    sc_status frozen = SS_FROZEN \<and> sc_fidelity frozen = Some (fe_report ev) \<and>
    (\<exists>f. sc_freeze frozen = Some f \<and> fz_contract_hash f = semantic_hash frozen \<and>
      fz_source_preparation_hash f = Some (preparation_artifact_digest preparation)) \<and>
    accepted_throughout ev \<and>
    (\<forall>k \<in> set gate_base_mutations. \<exists>p \<in> set (fe_mutation_probes ev). mp_kind p = k \<and>
      mp_mutated_statement_source p \<noteq> fs_lean_statement_source (sc_formal frozen) \<and>
      (\<exists>v \<in> set (sv_mutation_verdicts (fe_review ev)). mv_probe_id v = mp_probe_id p \<and> mv_detected v)) \<and>
    (\<exists>s \<in> set (fr_signoffs (fe_report ev)). rs_role s = RL_SEMANTIC_REVIEWER \<and> rs_independent s \<and> rs_decision s = DC_ACCEPT)"
proof -
  note parts = frozen_contract_parts [OF assms]
  obtain f where f: "frozen = c\<lparr>sc_fidelity := Some (fe_report ev), sc_status := SS_FROZEN, sc_freeze := Some f\<rparr>"
    "fz_source_preparation_hash f = Some (preparation_artifact_digest preparation)"
    using parts(4) by blast
  obtain h where h: "assert_report_binds ev c h = Inr ()" "tt_draft_contract_hash (fe_task ev) = semantic_hash c"
    using bound_evaluation_Inr [OF parts(2)] by blast
  have gate: "sc_status c = SS_DRAFT" "fidelity_failures c (fe_report ev) = []"
    using parts(3) by (simp_all add: freeze_failures_def)
  have "sc_freeze c = None" using parts(6) gate(1) by (simp add: StatementContractV1_guards_def)
  then have same: "frozen\<lparr>sc_fidelity := sc_fidelity c, sc_status := SS_DRAFT, sc_freeze := None\<rparr> = c"
    using gate(1) by (intro StatementContractV1.equality) (simp_all add: f)
  have "fz_contract_hash f = semantic_hash frozen"
    using parts(5) by (simp add: StatementContractV1_guards_def f)
  then have committed: "\<exists>f. sc_freeze frozen = Some f \<and> fz_contract_hash f = semantic_hash frozen \<and>
      fz_source_preparation_hash f = Some (preparation_artifact_digest preparation)"
    using f by simp
  have mutations: "\<exists>p \<in> set (fe_mutation_probes ev). mp_kind p = k \<and>
      mp_mutated_statement_source p \<noteq> fs_lean_statement_source (sc_formal frozen) \<and>
      (\<exists>v \<in> set (sv_mutation_verdicts (fe_review ev)). mv_probe_id v = mp_probe_id p \<and> mv_detected v)"
    if "k \<in> set gate_base_mutations" for k
    using gate_mutation_detected [OF gate(2) that] bound_mutation_detected [OF h(1)] by (fastforce simp: f)
  have "sp_contract_sha256 preparation = dg_value (digest_model CONTRACT (dump_StatementContractV1 c))"
    using parts(1) by (simp add: preparation_assert_binds_contract_def result_simps)
  moreover have "sc_status frozen = SS_FROZEN" "sc_fidelity frozen = Some (fe_report ev)" by (simp_all add: f)
  ultimately show ?thesis
    using gate(1) h(2) same committed gate_accepted_throughout [OF parts(2) gate(2)] mutations gate_semantic_reviewer [OF gate(2)]
    by blast
qed

theorem frozen_contract_is_reviewed_witness:
  "\<exists>ev frozen. freeze_reviewed_contract (utc 9) (harness_contract ''theorem foo : True'') ev
      (harness_preparation ''theorem foo : True'') ''me'' None = Inr frozen \<and>
    sc_status frozen = SS_FROZEN \<and> accepted_throughout ev"
proof -
  have t: "nonblank ''ok''" "ends_clean ''ok''"
    by (simp_all add: nonblank_def py_strip_def strip_by_def py_isspace_def ends_clean_def white_space_def)
  have s: "''theorem foo : True'' \<in> set demo_statements" by (simp add: demo_statements_def)
  obtain ev where ev: "freeze_reviewed_contract (utc 9) (harness_contract ''theorem foo : True'') ev
      (harness_preparation ''theorem foo : True'') ''me'' None = Inr (harness_frozen ''theorem foo : True'' (fe_report ev))"
    using harness_demo_freezes [OF s t, of "utc 1"] by (auto simp: utc_def aware_def)
  show ?thesis using frozen_contract_is_reviewed [OF ev] ev by blast
qed

section \<open>Bridging\<close>

lemma builder_payload_unattested [simp]:
  "builder_attestation_payload (b\<lparr>tb_builder_attestation := a\<rparr>) = builder_attestation_payload b"
  by (simp add: builder_attestation_payload_def handoff_hash_def dump_FormalizationTaskBundleV1_def)

text \<open>
  C20. What crosses the bridge is accepted on the other side: when the bridge returns a bundle
  signed with a Builder key, the bundle is valid, it carries the frozen contract with the
  proof boundary built from it and the artifact of its fidelity report, and its attestation
  verifies against its own payload under every keyring with the key of the signer during the
  lifetime of the attestation.
\<close>

theorem bridged_bundle_is_accepted:
  assumes bridge: "bridge_frozen_contract (\<lambda>p payload identity ttl. HmacAttestationSignerV1_issue key now token p payload identity ttl None)
      reading c graphs bundle_key evidence identity ttl issued_at = Inr b"
    and key: "HmacAttestationKeyV1_init key = Inr key" "hk_allowed_purposes key = {AP_BUILDER_FREEZE}"
    and ring: "map_of keys (hk_key_id key) = Some key"
    and window: "aware now'" "dt_us now \<le> dt_us now'" "dt_us now' < dt_us now + ttl"
  shows "FormalizationTaskBundleV1_init b = Inr b \<and> tb_contract b = c \<and> sc_status c = SS_FROZEN \<and>
    build_proof_boundary c = Inr (tb_proof_boundary b) \<and>
    map_option fa_digest (tb_fidelity_evidence b) = map_option fr_evidence_hash (sc_fidelity c) \<and>
    (\<exists>a payload. tb_builder_attestation b = Some a \<and> builder_attestation_payload b = Inr payload \<and>
      HmacAttestationVerifierV1_verify keys now' a AP_BUILDER_FREEZE payload = Inr ())"
proof -
  obtain bundle_id boundary payload a unsigned where
    u: "unsigned = \<lparr>tb_bundle_id = bundle_id, tb_contract = c, tb_graphs = graphs,
        tb_graph_snapshot_hash = digest_model GRAPH_SNAPSHOT (dump_GraphBundleV1 graphs),
        tb_proof_boundary = boundary, tb_fidelity_evidence = Some evidence,
        tb_issued_at = (case issued_at of None \<Rightarrow> reading | Some t \<Rightarrow> t), tb_builder_attestation = None\<rparr>"
    and req: "bridge_requirements c bundle_key evidence identity = Inr ()"
    and boundary: "build_proof_boundary c = Inr boundary"
    and payload: "builder_attestation_payload unsigned = Inr payload"
    and a: "HmacAttestationSignerV1_issue key now token AP_BUILDER_FREEZE payload identity ttl None = Inr a"
    and b: "FormalizationTaskBundleV1_init (unsigned\<lparr>tb_builder_attestation := Some a\<rparr>) = Inr b"
    using bridge by (auto simp: bridge_frozen_contract_def result_simps model_copy_def FormalizationTaskBundleV1_init_def construct_Inr)
  have b': "b = unsigned\<lparr>tb_builder_attestation := Some a\<rparr>" "FormalizationTaskBundleV1_init b = Inr b"
    using b by (auto simp: FormalizationTaskBundleV1_init_def construct_Inr)
  have "HmacAttestationVerifierV1_verify keys now' a AP_BUILDER_FREEZE payload = Inr ()"
    using attestation_issue_verify [OF a key(1) ring _ window] key(2) by simp
  moreover have "sc_status c = SS_FROZEN" "map_option fr_evidence_hash (sc_fidelity c) = Some (fa_digest evidence)"
    using req by (auto simp: bridge_requirements_def result_simps split: option.splits)
  moreover have "builder_attestation_payload b = Inr payload" using payload by (simp add: b'(1))
  moreover have "tb_contract b = c" "tb_proof_boundary b = boundary" "tb_fidelity_evidence b = Some evidence"
    "tb_builder_attestation b = Some a"
    by (simp_all add: b'(1) u)
  ultimately show ?thesis using b'(2) boundary by auto
qed

theorem bridged_bundle_is_accepted_witness:
  "\<exists>ev frozen b a payload. freeze_reviewed_contract (utc 9) (harness_contract ''theorem foo : True'') ev
      (harness_preparation ''theorem foo : True'') ''me'' None = Inr frozen \<and>
    bridge_frozen_contract builder_issue (utc 9) frozen sample_graphs ''bundle''
      \<lparr>fa_digest = fr_evidence_hash (fe_report ev), fa_size = 1\<rparr> ''e'' 10 None = Inr b \<and>
    tb_builder_attestation b = Some a \<and> builder_attestation_payload b = Inr payload \<and>
    HmacAttestationVerifierV1_verify [(''k1'', sample_key_for AP_BUILDER_FREEZE)] (utc 9) a AP_BUILDER_FREEZE payload = Inr ()"
proof -
  have t: "nonblank ''ok''" "ends_clean ''ok''"
    by (simp_all add: nonblank_def py_strip_def strip_by_def py_isspace_def ends_clean_def white_space_def)
  have s: "''theorem foo : True'' \<in> set demo_statements" by (simp add: demo_statements_def)
  have key: "HmacAttestationKeyV1_init (sample_key_for AP_BUILDER_FREEZE) = Inr (sample_key_for AP_BUILDER_FREEZE)"
    "hk_allowed_purposes (sample_key_for AP_BUILDER_FREEZE) = {AP_BUILDER_FREEZE}" "hk_key_id (sample_key_for AP_BUILDER_FREEZE) = ''k1''"
    using sample_key_ok by (auto simp: sample_key_for_def sample_key_def HmacAttestationKeyV1_init_def result_simps)
  have utc: "aware (utc n)" "dt_us (utc n) = n" for n by (simp_all add: utc_def aware_def)
  obtain ev where ev: "freeze_reviewed_contract (utc 9) (harness_contract ''theorem foo : True'') ev
      (harness_preparation ''theorem foo : True'') ''me'' None = Inr (harness_frozen ''theorem foo : True'' (fe_report ev))"
    using harness_demo_freezes [OF s t utc(1)] by blast
  obtain b where b: "bridge_frozen_contract builder_issue (utc 9) (harness_frozen ''theorem foo : True'' (fe_report ev))
      sample_graphs ''bundle'' \<lparr>fa_digest = fr_evidence_hash (fe_report ev), fa_size = 1\<rparr> ''e'' 10 None = Inr b"
    using harness_bridges by blast
  have "\<exists>a payload. tb_builder_attestation b = Some a \<and> builder_attestation_payload b = Inr payload \<and>
      HmacAttestationVerifierV1_verify [(''k1'', sample_key_for AP_BUILDER_FREEZE)] (utc 9) a AP_BUILDER_FREEZE payload = Inr ()"
    using bridged_bundle_is_accepted [OF b [unfolded builder_issue_def] key(1,2),
        of "[(''k1'', sample_key_for AP_BUILDER_FREEZE)]" "utc 9"] key(3) utc
    by simp
  then show ?thesis using ev b by blast
qed

section \<open>Stages\<close>

text \<open>The operations a client of a case can apply.\<close>

inductive case_step :: "BuilderCase \<Rightarrow> BuilderCase \<Rightarrow> bool" where
  advanced: "advance s x = Inr y \<Longrightarrow> case_step x y"
| candidates: "with_candidates cs x = Inr y \<Longrightarrow> case_step x y"
| fidelity: "with_fidelity r x = Inr y \<Longrightarrow> case_step x y"
| evaluation: "with_evaluation ev x = Inr y \<Longrightarrow> case_step x y"

inductive_simps case_step_iff: "case_step x y"

fun stage_rank :: "BuilderStage \<Rightarrow> nat" where
  "stage_rank ST_INGESTED = 0"
| "stage_rank ST_RIGHTS_REVIEWED = 1"
| "stage_rank ST_NORMALIZED = 2"
| "stage_rank ST_MATHLIB_MAPPED = 3"
| "stage_rank ST_CANDIDATES_REVIEWED = 4"
| "stage_rank ST_FIDELITY_REVIEWED = 5"
| "stage_rank ST_FROZEN = 6"
| "stage_rank ST_BRIDGED = 7"

lemma stage_successor_rank: "stage_successor s = Some t \<Longrightarrow> stage_rank t = Suc (stage_rank s)"
  by (cases s) auto

lemma BuilderCase_init_Inr:
  "BuilderCase_init x = Inr y \<longleftrightarrow> y = x \<and>
     sc_status (bc_contract x) = (if stage_rank (bc_stage x) \<ge> 6 then SS_FROZEN else SS_DRAFT)"
  by (cases "bc_stage x") (auto simp: BuilderCase_init_def result_simps)

lemma advance_Inr:
  "advance s x = Inr y \<Longrightarrow> y = x\<lparr>bc_stage := s\<rparr> \<and> stage_rank s = Suc (stage_rank (bc_stage x)) \<and>
     BuilderCase_init y = Inr y"
  by (auto simp: advance_def result_simps BuilderCase_init_Inr stage_successor_rank)

lemma case_step_effect:
  assumes "case_step x y"
  shows "bc_contract y = bc_contract x \<and> stage_rank (bc_stage x) < stage_rank (bc_stage y) \<and> BuilderCase_init y = Inr y"
  using assms
  by cases (auto simp: with_candidates_def with_fidelity_def with_evaluation_def result_simps BuilderCase_init_Inr dest!: advance_Inr)

text \<open>
  C21. The workflow of a case ends: from a new case, any sequence of operations that succeed has
  at most five steps, keeps the contract and leaves it a draft, so the stages of a frozen
  statement are not reached by operations of a case.
\<close>

theorem builder_workflow_ends:
  assumes "new_case c = Inr x" "(case_step ^^ n) x y"
  shows "n \<le> 5 \<and> n \<le> stage_rank (bc_stage y) \<and> bc_contract y = c \<and> sc_status c = SS_DRAFT \<and>
    bc_stage y \<notin> {ST_FROZEN, ST_BRIDGED}"
proof -
  have x: "bc_contract x = c" "bc_stage x = ST_INGESTED" "BuilderCase_init x = Inr x" "sc_status c = SS_DRAFT"
    using assms(1) by (auto simp: new_case_def BuilderCase_init_Inr)
  have "bc_contract y = c \<and> n \<le> stage_rank (bc_stage y) \<and> BuilderCase_init y = Inr y"
    using assms(2)
  proof (induction n arbitrary: y)
    case 0
    then show ?case using x by simp
  next
    case (Suc n)
    then obtain z where "(case_step ^^ n) x z" "case_step z y" by auto
    then show ?case using Suc.IH [of z] case_step_effect [of z y] by auto
  qed
  moreover from this have "stage_rank (bc_stage y) < 6"
    using x(4) by (auto simp: BuilderCase_init_Inr split: if_splits)
  ultimately show ?thesis using x(4) by (cases "bc_stage y") auto
qed

theorem builder_workflow_ends_witness:
  "\<exists>x y z. new_case (harness_contract ''theorem foo : True'') = Inr x \<and> case_step x y \<and> case_step y z \<and>
     bc_stage z = ST_NORMALIZED \<and> bc_stage z \<notin> {ST_FROZEN, ST_BRIDGED}"
proof -
  let ?c = "harness_contract ''theorem foo : True''"
  obtain x where x: "new_case ?c = Inr x" "bc_contract x = ?c" "bc_stage x = ST_INGESTED"
    by (auto simp: new_case_def BuilderCase_init_Inr)
  let ?y = "x\<lparr>bc_stage := ST_RIGHTS_REVIEWED\<rparr>" and ?z = "x\<lparr>bc_stage := ST_NORMALIZED\<rparr>"
  have s: "advance ST_RIGHTS_REVIEWED x = Inr ?y" "advance ST_NORMALIZED ?y = Inr ?z"
    using x(2,3) by (simp_all add: advance_def builder_require_def BuilderCase_init_Inr)
  then have steps: "case_step x ?y" "case_step ?y ?z" by (auto intro: case_step.advanced)
  then have "(case_step ^^ 2) x ?z" by (auto simp: numeral_2_eq_2)
  then show ?thesis using builder_workflow_ends [OF x(1)] x(1) steps by fastforce
qed

end
