(* ===== verification/Dependencies.thy ===== *)
theory Dependencies
  imports Hashing Payloads
begin

text \<open>
  The Prover's \<open>proof_dependencies.py\<close>: strictly parsed evidence of what a Lean proof depends on,
  the frozen policy of allowed and denied declarations, and the decision. Shown: what the parser
  accepts it prints and reads back unchanged; a decision is given exactly when the closure of
  the dependencies lies inside the allowed declarations of the same target; nothing denied and
  not the target itself is then reached, and the digests of the decision commit to both records.
\<close>

section \<open>Names\<close>

definition query_schema :: string where
  "query_schema = ''autolean.proof-dependency-query-spike.v2''"

definition policy_schema :: string where
  "policy_schema = ''autolean.proof-dependency-policy-spike.v1''"

definition dependency_traversal :: string where
  "dependency_traversal = ''target-proof-value-then-declaration-type-and-value-transitive.v1''"

definition max_declarations :: nat where
  "max_declarations = 100000"

definition max_name_chars :: nat where
  "max_name_chars = 4096"

definition evidence_fields :: "string list" where
  "evidence_fields = [''candidate_declaration_count'', ''candidate_module_dependencies'', ''declaration'',
     ''direct_proof_dependencies'', ''proof_dependency_closure'', ''schema_version'', ''traversal'']"

definition policy_fields :: "string list" where
  "policy_fields = [''allowed_dependencies'', ''denied_dependencies'', ''schema_version'', ''target_declaration'']"

text \<open>\<open>^[A-Za-z][A-Za-z0-9_]*(?:\.[A-Za-z][A-Za-z0-9_]*)+$\<close>\<close>

definition name_part :: "string \<Rightarrow> bool" where
  "name_part p \<longleftrightarrow> p \<noteq> [] \<and> (is_lower (hd p) \<or> is_upper (hd p)) \<and> all_chars (\<lambda>c. is_alnum c \<or> c = CHR ''_'') (tl p)"

definition target_pattern :: "string \<Rightarrow> bool" where
  "target_pattern s \<longleftrightarrow> length (split_char (CHR ''.'') s) \<ge> 2 \<and> list_all name_part (split_char (CHR ''.'') s)"

definition evidence_require :: "bool \<Rightarrow> string \<Rightarrow> unit result" where
  "evidence_require ok m = require ok (ProofDependencyEvidenceError m)"

lemma evidence_require_Inr [result_simps]: "evidence_require ok m = Inr u \<longleftrightarrow> ok"
  by (simp add: evidence_require_def result_simps)

definition canonical_name :: "string \<Rightarrow> bool" where
  "canonical_name s \<longleftrightarrow> s \<noteq> [] \<and> s = py_strip s \<and> length s \<le> max_name_chars \<and>
     CHR 0x00 \<notin> set s \<and> CHR 0x0A \<notin> set s \<and> CHR 0x0D \<notin> set s"

definition dependency_name :: "json \<Rightarrow> string result" where
  "dependency_name v =
     (case v of
        JStr s \<Rightarrow> bindE (evidence_require (canonical_name s) ''not a canonical declaration name'') (\<lambda>_. Inr s)
      | _ \<Rightarrow> Inl (ProofDependencyEvidenceError ''not a canonical declaration name''))"

definition dependency_names :: "json \<Rightarrow> string list result" where
  "dependency_names v =
     (case v of
        JList vs \<Rightarrow>
          bindE (map_resultE dependency_name vs) (\<lambda>names.
          bindE (evidence_require (length names \<le> max_declarations) ''exceeds the declaration limit'') (\<lambda>_.
          bindE (evidence_require (names = sort names \<and> length names = length (remdups names))
            ''must be sorted and unique'') (\<lambda>_. Inr names)))
      | _ \<Rightarrow> Inl (ProofDependencyEvidenceError ''must be a list''))"

definition canonical_sha256 :: "json \<Rightarrow> string" where
  "canonical_sha256 payload = sha256_hexdigest (canonical_json_bytes payload)"

section \<open>Evidence\<close>

record ProofDependencyEvidence =
  de_declaration :: string
  de_candidate_declaration_count :: int
  de_direct_proof_dependencies :: "string list"
  de_proof_dependency_closure :: "string list"
  de_candidate_module_dependencies :: "string list"
  de_schema_version :: string
  de_traversal :: string

definition declaration_count :: "json \<Rightarrow> int result" where
  "declaration_count v =
     (case v of
        JInt i \<Rightarrow> bindE (evidence_require (\<not> (i \<le> 0 \<or> i > int max_declarations))
          ''candidate declaration count is invalid'') (\<lambda>_. Inr i)
      | _ \<Rightarrow> Inl (ProofDependencyEvidenceError ''candidate declaration count is invalid''))"

definition evidence_from_mapping :: "json_object \<Rightarrow> ProofDependencyEvidence result" where
  "evidence_from_mapping raw =
     bindE (evidence_require (set (map fst raw) = set evidence_fields)
       ''proof dependency evidence has unexpected or missing fields'') (\<lambda>_.
     bindE (evidence_require (get_value raw ''schema_version'' = JStr query_schema)
       ''proof dependency evidence uses an unsupported schema'') (\<lambda>_.
     bindE (evidence_require (get_value raw ''traversal'' = JStr dependency_traversal)
       ''proof dependency evidence uses an unsupported traversal'') (\<lambda>_.
     bindE (declaration_count (get_value raw ''candidate_declaration_count'')) (\<lambda>count.
     bindE (dependency_name (get_value raw ''declaration'')) (\<lambda>declaration.
     bindE (evidence_require (target_pattern declaration) ''target declaration is not a canonical dotted name'') (\<lambda>_.
     bindE (dependency_names (get_value raw ''direct_proof_dependencies'')) (\<lambda>direct.
     bindE (dependency_names (get_value raw ''proof_dependency_closure'')) (\<lambda>closure.
     bindE (dependency_names (get_value raw ''candidate_module_dependencies'')) (\<lambda>candidate_module.
     bindE (evidence_require (set direct \<subseteq> set closure) ''proof dependency closure omits a direct dependency'') (\<lambda>_.
     bindE (evidence_require (set candidate_module \<subseteq> set closure)
       ''Candidate-module dependencies are outside the proof dependency closure'') (\<lambda>_.
     bindE (evidence_require (\<not> int (length candidate_module) > count)
       ''Candidate-module dependency count exceeds the Candidate module'') (\<lambda>_.
     bindE (evidence_require (declaration \<notin> set closure)
       ''proof dependency closure refers to its own target declaration'') (\<lambda>_. Inr
       \<lparr>de_declaration = declaration, de_candidate_declaration_count = count, de_direct_proof_dependencies = direct,
        de_proof_dependency_closure = closure, de_candidate_module_dependencies = candidate_module,
        de_schema_version = query_schema, de_traversal = dependency_traversal\<rparr>)))))))))))))"

definition evidence_to_mapping :: "ProofDependencyEvidence \<Rightarrow> json_object" where
  "evidence_to_mapping e =
     [(''candidate_declaration_count'', JInt (de_candidate_declaration_count e)),
      (''candidate_module_dependencies'', JStrs (de_candidate_module_dependencies e)),
      (''declaration'', JStr (de_declaration e)),
      (''direct_proof_dependencies'', JStrs (de_direct_proof_dependencies e)),
      (''proof_dependency_closure'', JStrs (de_proof_dependency_closure e)),
      (''schema_version'', JStr (de_schema_version e)),
      (''traversal'', JStr (de_traversal e))]"

definition evidence_canonical_sha256 :: "ProofDependencyEvidence \<Rightarrow> string" where
  "evidence_canonical_sha256 e = canonical_sha256 (JObj (evidence_to_mapping e))"

section \<open>Policy\<close>

record ProofDependencyPolicy =
  dp_target_declaration :: string
  dp_allowed_dependencies :: "string list"
  dp_denied_dependencies :: "string list"
  dp_schema_version :: string

definition policy_from_mapping :: "json_object \<Rightarrow> ProofDependencyPolicy result" where
  "policy_from_mapping raw =
     bindE (evidence_require (set (map fst raw) = set policy_fields)
       ''proof dependency policy has unexpected or missing fields'') (\<lambda>_.
     bindE (evidence_require (get_value raw ''schema_version'' = JStr policy_schema)
       ''proof dependency policy uses an unsupported schema'') (\<lambda>_.
     bindE (dependency_name (get_value raw ''target_declaration'')) (\<lambda>target.
     bindE (evidence_require (target_pattern target) ''policy target declaration is not a canonical dotted name'') (\<lambda>_.
     bindE (dependency_names (get_value raw ''allowed_dependencies'')) (\<lambda>allowed.
     bindE (dependency_names (get_value raw ''denied_dependencies'')) (\<lambda>denied.
     bindE (evidence_require (set allowed \<inter> set denied = {})
       ''proof dependency allowlist and denylist overlap'') (\<lambda>_.
     bindE (evidence_require (target \<in> set denied)
       ''proof dependency denylist must include the target declaration'') (\<lambda>_. Inr
       \<lparr>dp_target_declaration = target, dp_allowed_dependencies = allowed, dp_denied_dependencies = denied,
        dp_schema_version = policy_schema\<rparr>))))))))"

definition policy_to_mapping :: "ProofDependencyPolicy \<Rightarrow> json_object" where
  "policy_to_mapping p =
     [(''allowed_dependencies'', JStrs (dp_allowed_dependencies p)),
      (''denied_dependencies'', JStrs (dp_denied_dependencies p)),
      (''schema_version'', JStr (dp_schema_version p)),
      (''target_declaration'', JStr (dp_target_declaration p))]"

definition policy_canonical_sha256 :: "ProofDependencyPolicy \<Rightarrow> string" where
  "policy_canonical_sha256 p = canonical_sha256 (JObj (policy_to_mapping p))"

section \<open>Decision\<close>

record ProofDependencyDecision =
  dd_accepted :: bool
  dd_target_declaration :: string
  dd_policy_sha256 :: string
  dd_evidence_sha256 :: string
  dd_direct_dependency_count :: int
  dd_closure_dependency_count :: int

definition decision_to_mapping :: "ProofDependencyDecision \<Rightarrow> json_object" where
  "decision_to_mapping d =
     [(''accepted'', JBool (dd_accepted d)),
      (''closure_dependency_count'', JInt (dd_closure_dependency_count d)),
      (''direct_dependency_count'', JInt (dd_direct_dependency_count d)),
      (''evidence_sha256'', JStr (dd_evidence_sha256 d)),
      (''policy_sha256'', JStr (dd_policy_sha256 d)),
      (''schema_version'', JStr ''autolean.proof-dependency-decision-spike.v1''),
      (''target_declaration'', JStr (dd_target_declaration d))]"

definition evaluate_proof_dependency_policy ::
  "ProofDependencyEvidence \<Rightarrow> ProofDependencyPolicy \<Rightarrow> ProofDependencyDecision result" where
  "evaluate_proof_dependency_policy evidence policy =
     bindE (require (de_declaration evidence = dp_target_declaration policy)
       (ProofDependencyRejected ''proof dependency evidence names a different target declaration'')) (\<lambda>_.
     let observed = de_proof_dependency_closure evidence;
         denied = filter (\<lambda>n. n \<in> set (dp_denied_dependencies policy)) observed;
         unapproved = filter (\<lambda>n. n \<notin> set (dp_allowed_dependencies policy)) observed in
     bindE (require (denied = []) (ProofDependencyRejected
       (''proof dependency closure contains denied declarations: '' @ join_with '', '' (sorted_set denied)))) (\<lambda>_.
     bindE (require (unapproved = []) (ProofDependencyRejected
       (''proof dependency closure contains unapproved declarations: '' @ join_with '', '' (sorted_set unapproved)))) (\<lambda>_. Inr
       \<lparr>dd_accepted = True, dd_target_declaration = de_declaration evidence,
        dd_policy_sha256 = policy_canonical_sha256 policy, dd_evidence_sha256 = evidence_canonical_sha256 evidence,
        dd_direct_dependency_count = int (length (de_direct_proof_dependencies evidence)),
        dd_closure_dependency_count = int (length (de_proof_dependency_closure evidence))\<rparr>)))"

section \<open>Reading back\<close>

lemma dependency_name_Inr [result_simps]: "dependency_name v = Inr s \<longleftrightarrow> v = JStr s \<and> canonical_name s"
  by (auto simp: dependency_name_def result_simps split: json.splits)

lemma read_names: "map_resultE dependency_name vs = Inr names \<longleftrightarrow> vs = map JStr names \<and> list_all canonical_name names"
proof (induction vs arbitrary: names)
  case (Cons v vs)
  have "map_resultE dependency_name (v # vs) = Inr names \<longleftrightarrow>
      (\<exists>n ns. v = JStr n \<and> canonical_name n \<and> vs = map JStr ns \<and> list_all canonical_name ns \<and> names = n # ns)"
    by (simp add: bindE_eq_Inr dependency_name_Inr Cons.IH) blast
  then show ?case by (cases names) auto
qed auto

definition name_list :: "string list \<Rightarrow> bool" where
  "name_list names \<longleftrightarrow> list_all canonical_name names \<and> length names \<le> max_declarations \<and> sorted names \<and> distinct names"

lemma sort_fixed: "names = sort names \<longleftrightarrow> sorted names"
proof
  assume "names = sort names"
  then show "sorted names" by (rule ssubst) (rule sorted_sort)
qed (simp add: sorted_sort_id)

lemma remdups_fixed: "length names = length (remdups names) \<longleftrightarrow> distinct names"
  using length_remdups_eq [of names] remdups_id_iff_distinct [of names] by argo

lemma strs_inject [simp]: "map JStr xs = map JStr ys \<longleftrightarrow> xs = ys"
  by (rule inj_map_eq_map) (simp add: inj_def)

lemma dependency_names_Inr [result_simps]: "dependency_names v = Inr names \<longleftrightarrow> v = JStrs names \<and> name_list names"
  by (cases v) (auto simp: dependency_names_def name_list_def result_simps read_names sort_fixed remdups_fixed
      simp del: length_remdups_eq)

lemma declaration_count_Inr [result_simps]: "declaration_count v = Inr i \<longleftrightarrow> v = JInt i \<and> 0 < i \<and> i \<le> int max_declarations"
  by (cases v) (auto simp: declaration_count_def result_simps)

definition evidence_valid :: "ProofDependencyEvidence \<Rightarrow> bool" where
  "evidence_valid e \<longleftrightarrow> de_schema_version e = query_schema \<and> de_traversal e = dependency_traversal \<and>
     0 < de_candidate_declaration_count e \<and> de_candidate_declaration_count e \<le> int max_declarations \<and>
     canonical_name (de_declaration e) \<and> target_pattern (de_declaration e) \<and>
     list_all name_list [de_direct_proof_dependencies e, de_proof_dependency_closure e, de_candidate_module_dependencies e] \<and>
     set (de_direct_proof_dependencies e) \<subseteq> set (de_proof_dependency_closure e) \<and>
     set (de_candidate_module_dependencies e) \<subseteq> set (de_proof_dependency_closure e) \<and>
     int (length (de_candidate_module_dependencies e)) \<le> de_candidate_declaration_count e \<and>
     de_declaration e \<notin> set (de_proof_dependency_closure e)"

definition policy_valid :: "ProofDependencyPolicy \<Rightarrow> bool" where
  "policy_valid p \<longleftrightarrow> dp_schema_version p = policy_schema \<and> canonical_name (dp_target_declaration p) \<and>
     target_pattern (dp_target_declaration p) \<and> name_list (dp_allowed_dependencies p) \<and> name_list (dp_denied_dependencies p) \<and>
     set (dp_allowed_dependencies p) \<inter> set (dp_denied_dependencies p) = {} \<and>
     dp_target_declaration p \<in> set (dp_denied_dependencies p)"

lemma evidence_from_mapping_valid: "evidence_from_mapping raw = Inr e \<Longrightarrow> evidence_valid e"
  unfolding evidence_from_mapping_def evidence_valid_def by (simp only: result_simps) auto

lemma policy_from_mapping_valid: "policy_from_mapping raw = Inr p \<Longrightarrow> policy_valid p"
  unfolding policy_from_mapping_def policy_valid_def by (simp only: result_simps) auto

lemma evidence_mapping_fields: "set (map fst (evidence_to_mapping e)) = set evidence_fields"
  by (simp add: evidence_to_mapping_def evidence_fields_def)

lemma evidence_mapping_values:
  "get_value (evidence_to_mapping e) ''candidate_declaration_count'' = JInt (de_candidate_declaration_count e)"
  "get_value (evidence_to_mapping e) ''candidate_module_dependencies'' = JStrs (de_candidate_module_dependencies e)"
  "get_value (evidence_to_mapping e) ''declaration'' = JStr (de_declaration e)"
  "get_value (evidence_to_mapping e) ''direct_proof_dependencies'' = JStrs (de_direct_proof_dependencies e)"
  "get_value (evidence_to_mapping e) ''proof_dependency_closure'' = JStrs (de_proof_dependency_closure e)"
  "get_value (evidence_to_mapping e) ''schema_version'' = JStr (de_schema_version e)"
  "get_value (evidence_to_mapping e) ''traversal'' = JStr (de_traversal e)"
  by (simp_all add: get_value_def obj_get_def evidence_to_mapping_def)

lemma policy_mapping_fields: "set (map fst (policy_to_mapping p)) = set policy_fields"
  by (simp add: policy_to_mapping_def policy_fields_def)

lemma policy_mapping_values:
  "get_value (policy_to_mapping p) ''allowed_dependencies'' = JStrs (dp_allowed_dependencies p)"
  "get_value (policy_to_mapping p) ''denied_dependencies'' = JStrs (dp_denied_dependencies p)"
  "get_value (policy_to_mapping p) ''schema_version'' = JStr (dp_schema_version p)"
  "get_value (policy_to_mapping p) ''target_declaration'' = JStr (dp_target_declaration p)"
  by (simp_all add: get_value_def obj_get_def policy_to_mapping_def)

text \<open>Parsing is a left inverse of printing on the records the parser makes.\<close>

lemma evidence_round_trip: "evidence_valid e \<Longrightarrow> evidence_from_mapping (evidence_to_mapping e) = Inr e"
  unfolding evidence_from_mapping_def evidence_valid_def by (simp only: result_simps evidence_mapping_fields evidence_mapping_values) simp

lemma policy_round_trip: "policy_valid p \<Longrightarrow> policy_from_mapping (policy_to_mapping p) = Inr p"
  unfolding policy_from_mapping_def policy_valid_def by (simp only: result_simps policy_mapping_fields policy_mapping_values) simp

section \<open>Digests of the records\<close>

lemma evidence_mapping_wf: "json_wf (JObj (evidence_to_mapping e))"
  by (simp add: evidence_to_mapping_def list_all_iff)

lemma policy_mapping_wf: "json_wf (JObj (policy_to_mapping p))"
  by (simp add: policy_to_mapping_def list_all_iff)

lemma strs_norm: "json_norm (JStrs xs) = JStrs xs"
  by (induction xs) simp_all

lemma dump_field_value:
  assumes "dump_field (JObj a) k = dump_field (JObj b) k" "get_value a k = v" "get_value b k = w" "v \<noteq> JNull" "w \<noteq> JNull"
  shows "json_norm v = json_norm w"
  using assms by (auto simp: get_value_def split: option.splits)

lemma canonical_sha256_binds:
  assumes "canonical_sha256 v = canonical_sha256 w" "json_wf v" "json_wf w"
  shows "json_norm v = json_norm w \<or> json_collision v w"
proof (cases "canonical_json_bytes v = canonical_json_bytes w")
  case True
  then have "canonical_json v = canonical_json w" by (simp add: canonical_json_bytes_def utf8_inj)
  then show ?thesis using json_codec.encode_eq_iff assms(2,3) by blast
qed (use assms(1) in \<open>simp add: json_collision_def collides_def canonical_sha256_def\<close>)

lemma evidence_mapping_norm:
  assumes "json_norm (JObj (evidence_to_mapping e)) = json_norm (JObj (evidence_to_mapping e'))"
  shows "e = e'"
proof -
  have f: "dump_field (JObj (evidence_to_mapping e)) k = dump_field (JObj (evidence_to_mapping e')) k" for k
    by (rule json_norm_field [OF evidence_mapping_wf evidence_mapping_wf assms])
  note vals = dump_field_value [OF f evidence_mapping_values(1) evidence_mapping_values(1)]
    dump_field_value [OF f evidence_mapping_values(2) evidence_mapping_values(2)]
    dump_field_value [OF f evidence_mapping_values(3) evidence_mapping_values(3)]
    dump_field_value [OF f evidence_mapping_values(4) evidence_mapping_values(4)]
    dump_field_value [OF f evidence_mapping_values(5) evidence_mapping_values(5)]
    dump_field_value [OF f evidence_mapping_values(6) evidence_mapping_values(6)]
    dump_field_value [OF f evidence_mapping_values(7) evidence_mapping_values(7)]
  show ?thesis using vals unfolding strs_norm by simp
qed

lemma policy_mapping_norm:
  assumes "json_norm (JObj (policy_to_mapping p)) = json_norm (JObj (policy_to_mapping p'))"
  shows "p = p'"
proof -
  have f: "dump_field (JObj (policy_to_mapping p)) k = dump_field (JObj (policy_to_mapping p')) k" for k
    by (rule json_norm_field [OF policy_mapping_wf policy_mapping_wf assms])
  note vals = dump_field_value [OF f policy_mapping_values(1) policy_mapping_values(1)]
    dump_field_value [OF f policy_mapping_values(2) policy_mapping_values(2)]
    dump_field_value [OF f policy_mapping_values(3) policy_mapping_values(3)]
    dump_field_value [OF f policy_mapping_values(4) policy_mapping_values(4)]
  show ?thesis using vals unfolding strs_norm by simp
qed

section \<open>Properties\<close>

lemma evaluate_Inr:
  "evaluate_proof_dependency_policy e p = Inr d \<longleftrightarrow>
     de_declaration e = dp_target_declaration p \<and>
     set (de_proof_dependency_closure e) \<inter> set (dp_denied_dependencies p) = {} \<and>
     set (de_proof_dependency_closure e) \<subseteq> set (dp_allowed_dependencies p) \<and>
     d = \<lparr>dd_accepted = True, dd_target_declaration = de_declaration e,
        dd_policy_sha256 = policy_canonical_sha256 p, dd_evidence_sha256 = evidence_canonical_sha256 e,
        dd_direct_dependency_count = int (length (de_direct_proof_dependencies e)),
        dd_closure_dependency_count = int (length (de_proof_dependency_closure e))\<rparr>"
  by (auto simp: evaluate_proof_dependency_policy_def Let_def result_simps filter_empty_conv)

text \<open>
  The dependency gate is exact. For parsed evidence and a parsed policy a decision is given
  exactly when both name the same target and every declaration of the transitive closure, and so
  every direct dependency, is explicitly allowed; then nothing denied and not the target itself
  is used. What was parsed prints and parses back unchanged, and the decision commits to it: a
  decision with the same digests on other evidence or another policy is a SHA-256 collision of
  the two printed records.
\<close>

theorem dependency_gate_is_exact:
  assumes "evidence_from_mapping raw_evidence = Inr e" "policy_from_mapping raw_policy = Inr p"
  shows "((\<exists>d. evaluate_proof_dependency_policy e p = Inr d) \<longleftrightarrow>
      de_declaration e = dp_target_declaration p \<and> set (de_proof_dependency_closure e) \<subseteq> set (dp_allowed_dependencies p)) \<and>
    (\<forall>d. evaluate_proof_dependency_policy e p = Inr d \<longrightarrow>
      set (de_direct_proof_dependencies e) \<subseteq> set (dp_allowed_dependencies p) - set (dp_denied_dependencies p) \<and>
      dp_target_declaration p \<notin> set (de_proof_dependency_closure e) \<and>
      evidence_from_mapping (evidence_to_mapping e) = Inr e \<and> policy_from_mapping (policy_to_mapping p) = Inr p \<and>
      (\<forall>e' p' d'. evaluate_proof_dependency_policy e' p' = Inr d' \<and> dd_evidence_sha256 d' = dd_evidence_sha256 d \<and>
          dd_policy_sha256 d' = dd_policy_sha256 d \<longrightarrow>
        e' = e \<and> p' = p \<or> json_collision (JObj (evidence_to_mapping e')) (JObj (evidence_to_mapping e)) \<or>
        json_collision (JObj (policy_to_mapping p')) (JObj (policy_to_mapping p))))"
proof (intro conjI allI impI)
  note e = evidence_from_mapping_valid [OF assms(1)] and p = policy_from_mapping_valid [OF assms(2)]
  show "(\<exists>d. evaluate_proof_dependency_policy e p = Inr d) \<longleftrightarrow>
      de_declaration e = dp_target_declaration p \<and> set (de_proof_dependency_closure e) \<subseteq> set (dp_allowed_dependencies p)"
    using p by (auto simp: evaluate_Inr policy_valid_def)
  fix d assume d: "evaluate_proof_dependency_policy e p = Inr d"
  show "set (de_direct_proof_dependencies e) \<subseteq> set (dp_allowed_dependencies p) - set (dp_denied_dependencies p)"
    "dp_target_declaration p \<notin> set (de_proof_dependency_closure e)"
    using d e by (auto simp: evaluate_Inr evidence_valid_def)
  show "evidence_from_mapping (evidence_to_mapping e) = Inr e" "policy_from_mapping (policy_to_mapping p) = Inr p"
    by (rule evidence_round_trip [OF e], rule policy_round_trip [OF p])
  fix e' p' d'
  assume "evaluate_proof_dependency_policy e' p' = Inr d' \<and> dd_evidence_sha256 d' = dd_evidence_sha256 d \<and>
    dd_policy_sha256 d' = dd_policy_sha256 d"
  then have "evidence_canonical_sha256 e' = evidence_canonical_sha256 e" "policy_canonical_sha256 p' = policy_canonical_sha256 p"
    using d by (auto simp: evaluate_Inr)
  then have "e' = e \<or> json_collision (JObj (evidence_to_mapping e')) (JObj (evidence_to_mapping e))"
    "p' = p \<or> json_collision (JObj (policy_to_mapping p')) (JObj (policy_to_mapping p))"
    using canonical_sha256_binds [OF _ evidence_mapping_wf evidence_mapping_wf, of e' e]
      canonical_sha256_binds [OF _ policy_mapping_wf policy_mapping_wf, of p' p] evidence_mapping_norm policy_mapping_norm
    unfolding evidence_canonical_sha256_def policy_canonical_sha256_def by blast+
  then show "e' = e \<and> p' = p \<or> json_collision (JObj (evidence_to_mapping e')) (JObj (evidence_to_mapping e)) \<or>
      json_collision (JObj (policy_to_mapping p')) (JObj (policy_to_mapping p))"
    by blast
qed

definition sample_evidence :: ProofDependencyEvidence where
  "sample_evidence = \<lparr>de_declaration = ''A.t'', de_candidate_declaration_count = 1, de_direct_proof_dependencies = [''B.x''],
     de_proof_dependency_closure = [''B.x'', ''B.y''], de_candidate_module_dependencies = [],
     de_schema_version = query_schema, de_traversal = dependency_traversal\<rparr>"

definition sample_dependency_policy :: ProofDependencyPolicy where
  "sample_dependency_policy = \<lparr>dp_target_declaration = ''A.t'', dp_allowed_dependencies = [''B.x'', ''B.y'', ''B.z''],
     dp_denied_dependencies = [''A.t''], dp_schema_version = policy_schema\<rparr>"

lemma sample_names:
  "canonical_name ''A.t'' \<and> canonical_name ''B.x'' \<and> canonical_name ''B.y'' \<and> canonical_name ''B.z'' \<and> target_pattern ''A.t''"
  by code_simp

lemma sample_sorted: "sorted [''B.x'', ''B.y'', ''B.z'']" "sorted [''B.x'', ''B.y'']"
  by code_simp+

lemma sample_records_valid: "evidence_valid sample_evidence" "policy_valid sample_dependency_policy"
  using sample_names sample_sorted
  by (simp_all add: evidence_valid_def sample_evidence_def name_list_def max_declarations_def policy_valid_def
      sample_dependency_policy_def)

theorem dependency_gate_is_exact_witness:
  "\<exists>d. evaluate_proof_dependency_policy sample_evidence sample_dependency_policy = Inr d \<and> dd_closure_dependency_count d = 2"
proof -
  have "\<exists>d. evaluate_proof_dependency_policy sample_evidence sample_dependency_policy = Inr d"
    using dependency_gate_is_exact [OF evidence_round_trip [OF sample_records_valid(1)] policy_round_trip [OF sample_records_valid(2)]]
    by (simp add: sample_evidence_def sample_dependency_policy_def)
  then show ?thesis by (auto simp: evaluate_Inr sample_evidence_def)
qed

end
