(* ===== verification/Context.thy ===== *)
theory Context
  imports Handoff
begin

text \<open>
  The Prover's \<open>context.py\<close>: role-scoped context packs projected from a frozen bundle. Shown: a pack
  is made only where the rights record permits the endpoint, every role but the planner sees the
  formal side only, and the identity of a pack determines it and the prompt rendered from it.
\<close>

section \<open>Packs\<close>

datatype SpecialistRole = ROLE_PLANNER | ROLE_RETRIEVER | ROLE_TACTIC | ROLE_VERIFIER

fun SpecialistRole_value :: "SpecialistRole \<Rightarrow> string" where
  "SpecialistRole_value ROLE_PLANNER = ''planner''"
| "SpecialistRole_value ROLE_RETRIEVER = ''retriever''"
| "SpecialistRole_value ROLE_TACTIC = ''tactic''"
| "SpecialistRole_value ROLE_VERIFIER = ''verifier''"

lemma SpecialistRole_value_inj [simp]: "SpecialistRole_value a = SpecialistRole_value b \<longleftrightarrow> a = b"
  by (cases a; cases b; simp)

record ContextItem =
  ci_kind :: string
  ci_text :: string

definition ContextItem_init :: "string \<times> string \<Rightarrow> ContextItem result" where
  "ContextItem_init = (\<lambda>(kind, text).
     bindE (require (nonblank kind \<and> nonblank text)
       (ProofValidationError ''validation_error'' ''context items need a kind and non-empty text'')) (\<lambda>_.
     Inr \<lparr>ci_kind = kind, ci_text = text\<rparr>))"

record ContextPack =
  cp_role :: SpecialistRole
  cp_contract_id :: string
  cp_revision :: int
  cp_contract_hash :: string
  cp_proof_boundary_hash :: string
  cp_items :: "ContextItem list"

definition newline :: string where
  "newline = [CHR 0x0A]"

definition render_pack :: "ContextPack \<Rightarrow> string" where
  "render_pack pack = join_with (newline @ newline)
     (map (\<lambda>item. ''['' @ ci_kind item @ '']'' @ newline @ ci_text item) (cp_items pack))"

definition dump_ContextItem :: "ContextItem \<Rightarrow> json" where
  "dump_ContextItem item = JObj [(''kind'', JStr (ci_kind item)), (''text'', JStr (ci_text item))]"

definition pack_payload :: "ContextPack \<Rightarrow> json" where
  "pack_payload pack = JObj
     [(''schema_version'', JStr ''autolean.context-pack.v1''),
      (''role'', JStr (SpecialistRole_value (cp_role pack))),
      (''contract_id'', JStr (cp_contract_id pack)),
      (''revision'', JInt (cp_revision pack)),
      (''contract_hash'', JStr (cp_contract_hash pack)),
      (''proof_boundary_hash'', JStr (cp_proof_boundary_hash pack)),
      (''items'', JList (map dump_ContextItem (cp_items pack)))]"

definition content_hash :: "ContextPack \<Rightarrow> DigestV1" where
  "content_hash pack = digest_model PROMPT (pack_payload pack)"

section \<open>The builder of packs\<close>

definition authorize_egress :: "FormalizationTaskBundleV1 \<Rightarrow> EndpointClassV1 \<Rightarrow> unit result" where
  "authorize_egress bundle endpoint =
     (let rights = sc_rights (tb_contract bundle) in
      if rr_overall_decision rights \<in> {PD_UNKNOWN, PD_DENY} then
        Inl (PolicyViolation ''unreviewed or denied source rights cannot enter a model context'')
      else if endpoint = EC_NONE then Inl (PolicyViolation ''a model context requires a concrete endpoint class'')
      else if endpoint = EC_LOCAL then Inr ()
      else if rr_model_egress rights \<noteq> PD_ALLOW then
        Inl (PolicyViolation ''source rights do not permit external model egress'')
      else if endpoint \<notin> set (rr_allowed_endpoint_classes rights) then
        Inl (PolicyViolation ''endpoint class is not approved by the source rights record'')
      else Inr ())"

definition formal_frontier :: "FormalizationTaskBundleV1 \<Rightarrow> int \<Rightarrow> string" where
  "formal_frontier bundle limit =
     (let nodes = take (nat limit) (fg_nodes (gb_formal (tb_graphs bundle))) in
      if nodes = [] then ''(no formal graph nodes recorded)''
      else join_with newline
        (map (\<lambda>node. FormalNodeKindV1_value (fn_kind node) @ '': '' @ fn_declaration_name node) nodes))"

definition base_items :: "StatementContractV1 \<Rightarrow> (string \<times> string) list" where
  "base_items contract =
     [(''contract'', ''id='' @ si_value (sc_contract_id contract) @ '' revision='' @ int_text (sc_revision contract)),
      (''lean_statement'', fs_lean_statement_source (sc_formal contract)),
      (''environment'', join_with newline
         [''lean='' @ le_lean_version (fs_environment (sc_formal contract)),
          ''mathlib='' @ le_mathlib_revision (fs_environment (sc_formal contract)),
          ''imports='' @ join_with '', '' (fs_imports_allowlist (sc_formal contract))])]"

definition or_none :: "string \<Rightarrow> string" where
  "or_none s = (if s = [] then ''(none)'' else s)"

fun role_items :: "SpecialistRole \<Rightarrow> FormalizationTaskBundleV1 \<Rightarrow> int \<Rightarrow> (string \<times> string) list" where
  "role_items ROLE_PLANNER bundle limit =
     [(''normalized_mathematics'', ms_normalized_statement (sc_mathematics (tb_contract bundle))),
      (''assumptions'', or_none (join_with newline (ms_assumptions (sc_mathematics (tb_contract bundle)))))]"
| "role_items ROLE_RETRIEVER bundle limit = [(''formal_frontier'', formal_frontier bundle limit)]"
| "role_items ROLE_TACTIC bundle limit = [(''proof_boundary'', ''Submit only a proof term for the frozen declaration.'')]"
| "role_items ROLE_VERIFIER bundle limit = [(''verification_boundary'',
     ''Kernel build, immutable statement comparison, and axiom allowlist are required.'')]"

definition build_pack :: "FormalizationTaskBundleV1 \<Rightarrow> SpecialistRole \<Rightarrow> EndpointClassV1 \<Rightarrow> int \<Rightarrow> ContextPack result" where
  "build_pack bundle role endpoint_class max_graph_nodes =
     bindE (require (\<not> max_graph_nodes \<le> 0) (ValueError ''max_graph_nodes must be positive'')) (\<lambda>_.
     bindE (authorize_egress bundle endpoint_class) (\<lambda>_.
     let contract = tb_contract bundle in
     bindE (map_resultE ContextItem_init (base_items contract @ role_items role bundle max_graph_nodes)) (\<lambda>items. Inr
       \<lparr>cp_role = role, cp_contract_id = si_value (sc_contract_id contract), cp_revision = sc_revision contract,
        cp_contract_hash = dg_value (semantic_hash contract),
        cp_proof_boundary_hash = dg_value (pb_boundary_hash (tb_proof_boundary bundle)), cp_items = items\<rparr>)))"

section \<open>Properties\<close>

definition egress_permitted :: "RightsRecordV1 \<Rightarrow> EndpointClassV1 \<Rightarrow> bool" where
  "egress_permitted rights endpoint \<longleftrightarrow> rr_overall_decision rights \<in> {PD_ALLOW, PD_RESTRICTED} \<and> endpoint \<noteq> EC_NONE \<and>
     (endpoint = EC_LOCAL \<or> rr_model_egress rights = PD_ALLOW \<and> endpoint \<in> set (rr_allowed_endpoint_classes rights))"

lemma authorize_egress_iff: "authorize_egress bundle endpoint = Inr u \<longleftrightarrow> egress_permitted (sc_rights (tb_contract bundle)) endpoint"
  by (cases "rr_overall_decision (sc_rights (tb_contract bundle))")
    (auto simp: authorize_egress_def egress_permitted_def Let_def)

lemma build_pack_Inr:
  "build_pack bundle role endpoint n = Inr pack \<longleftrightarrow> n > 0 \<and> egress_permitted (sc_rights (tb_contract bundle)) endpoint \<and>
     map_resultE ContextItem_init (base_items (tb_contract bundle) @ role_items role bundle n) = Inr (cp_items pack) \<and>
     pack = \<lparr>cp_role = role, cp_contract_id = si_value (sc_contract_id (tb_contract bundle)),
        cp_revision = sc_revision (tb_contract bundle), cp_contract_hash = dg_value (semantic_hash (tb_contract bundle)),
        cp_proof_boundary_hash = dg_value (pb_boundary_hash (tb_proof_boundary bundle)), cp_items = cp_items pack\<rparr>"
  by (auto simp: build_pack_def Let_def bindE_eq_Inr require_eq_Inr authorize_egress_iff)

lemma items_wf: "json_wf (JList (map dump_ContextItem items))"
  by (simp add: dump_ContextItem_def list_all_iff)

lemma pack_payload_wf: "json_wf (pack_payload pack)"
  using items_wf by (simp add: pack_payload_def)

lemma items_inj: "json_norm (JList (map dump_ContextItem xs)) = json_norm (JList (map dump_ContextItem ys)) \<Longrightarrow> xs = ys"
proof -
  have inj: "inj (\<lambda>item. json_norm (dump_ContextItem item))"
    by (rule injI) (simp add: dump_ContextItem_def ContextItem.equality)
  assume "json_norm (JList (map dump_ContextItem xs)) = json_norm (JList (map dump_ContextItem ys))"
  then have "map (\<lambda>item. json_norm (dump_ContextItem item)) xs = map (\<lambda>item. json_norm (dump_ContextItem item)) ys"
    by (simp add: comp_def)
  then show "xs = ys" using inj_map_eq_map [OF inj] by blast
qed

lemma pack_payload_inj: "json_norm (pack_payload p) = json_norm (pack_payload q) \<Longrightarrow> p = q"
proof (rule ContextPack.equality)
  assume eq: "json_norm (pack_payload p) = json_norm (pack_payload q)"
  have f: "dump_field (pack_payload p) k = dump_field (pack_payload q) k" for k
    by (rule json_norm_field [OF pack_payload_wf pack_payload_wf eq])
  have g: "dump_field (pack_payload x) ''items'' = Some (json_norm (JList (map dump_ContextItem (cp_items x))))" for x
    by (simp add: pack_payload_def obj_get_def)
  show "cp_items p = cp_items q" using f [of "''items''"] unfolding g by (intro items_inj) (rule option.inject [THEN iffD1])
  show "cp_role p = cp_role q" using f [of "''role''"] by (simp add: pack_payload_def obj_get_def)
  show "cp_contract_id p = cp_contract_id q" using f [of "''contract_id''"] by (simp add: pack_payload_def obj_get_def)
  show "cp_revision p = cp_revision q" using f [of "''revision''"] by (simp add: pack_payload_def obj_get_def)
  show "cp_contract_hash p = cp_contract_hash q" using f [of "''contract_hash''"] by (simp add: pack_payload_def obj_get_def)
  show "cp_proof_boundary_hash p = cp_proof_boundary_hash q"
    using f [of "''proof_boundary_hash''"] by (simp add: pack_payload_def obj_get_def)
qed simp

lemma content_hash_binds:
  assumes "content_hash p = content_hash q"
  shows "p = q \<or> json_collision (pack_payload p) (pack_payload q)"
proof -
  have "sha256_hexdigest (canonical_json_bytes (pack_payload p)) = sha256_hexdigest (canonical_json_bytes (pack_payload q))"
    using arg_cong [OF assms, of dg_value] by (simp add: content_hash_def)
  then show ?thesis
    using json_hash.hash_binds [OF pack_payload_wf pack_payload_wf] pack_payload_inj by (auto simp: json_collision_def)
qed

text \<open>The informal side of a contract replaced by another one.\<close>

definition with_mathematics :: "MathematicalSpecificationV1 \<Rightarrow> FormalizationTaskBundleV1 \<Rightarrow> FormalizationTaskBundleV1" where
  "with_mathematics m bundle = bundle\<lparr>tb_contract := (tb_contract bundle)\<lparr>sc_mathematics := m\<rparr>\<rparr>"

lemma scoped_items:
  assumes "role \<noteq> ROLE_PLANNER"
  shows "base_items (tb_contract (with_mathematics m bundle)) @ role_items role (with_mathematics m bundle) n =
    base_items (tb_contract bundle) @ role_items role bundle n"
  using assms by (cases role) (simp_all add: with_mathematics_def base_items_def formal_frontier_def)

text \<open>
  Context packs are permitted and scoped. A pack for a role is built only if the rights of
  the bundle were decided and permit the class of the endpoint; it names the frozen contract and
  its proof boundary; the packs of every role but the planner, and the prompts rendered from
  them, do not depend on the informal mathematics of the contract; and two packs with the same
  content hash are the same pack, with the same prompt, or their payloads collide under SHA-256.
\<close>

theorem context_packs_are_scoped:
  assumes "build_pack bundle role endpoint n = Inr pack"
  shows "egress_permitted (sc_rights (tb_contract bundle)) endpoint \<and>
    cp_contract_hash pack = dg_value (semantic_hash (tb_contract bundle)) \<and>
    cp_proof_boundary_hash pack = dg_value (pb_boundary_hash (tb_proof_boundary bundle)) \<and>
    (role \<noteq> ROLE_PLANNER \<longrightarrow> (\<exists>other. build_pack (with_mathematics m bundle) role endpoint n = Inr other \<and>
      cp_items other = cp_items pack \<and> render_pack other = render_pack pack)) \<and>
    (\<forall>other. content_hash other = content_hash pack \<longrightarrow> other = pack \<or> json_collision (pack_payload other) (pack_payload pack))"
proof (intro conjI allI impI)
  note b = assms [unfolded build_pack_Inr]
  show "egress_permitted (sc_rights (tb_contract bundle)) endpoint" using b by blast
  show "cp_contract_hash pack = dg_value (semantic_hash (tb_contract bundle))"
    "cp_proof_boundary_hash pack = dg_value (pb_boundary_hash (tb_proof_boundary bundle))"
    using b by (metis ContextPack.select_convs(4,5))+
  show "other = pack \<or> json_collision (pack_payload other) (pack_payload pack)" if "content_hash other = content_hash pack" for other
    by (rule content_hash_binds [OF that])
next
  assume role: "role \<noteq> ROLE_PLANNER"
  let ?b = "with_mathematics m bundle"
  define other where "other = \<lparr>cp_role = role, cp_contract_id = si_value (sc_contract_id (tb_contract ?b)),
    cp_revision = sc_revision (tb_contract ?b), cp_contract_hash = dg_value (semantic_hash (tb_contract ?b)),
    cp_proof_boundary_hash = dg_value (pb_boundary_hash (tb_proof_boundary ?b)), cp_items = cp_items pack\<rparr>"
  have "map_resultE ContextItem_init (base_items (tb_contract ?b) @ role_items role ?b n) = Inr (cp_items pack)"
    unfolding scoped_items [OF role] using assms unfolding build_pack_Inr by blast
  moreover have "sc_rights (tb_contract ?b) = sc_rights (tb_contract bundle)" by (simp add: with_mathematics_def)
  ultimately have "build_pack ?b role endpoint n = Inr other"
    using assms unfolding build_pack_Inr by (simp add: other_def)
  then show "\<exists>other. build_pack ?b role endpoint n = Inr other \<and> cp_items other = cp_items pack \<and> render_pack other = render_pack pack"
    by (auto simp: other_def render_pack_def)
qed


definition permitted_bundle :: FormalizationTaskBundleV1 where
  "permitted_bundle = sample_bundle\<lparr>tb_contract := sample_contract\<lparr>sc_rights := (sc_rights sample_contract)\<lparr>rr_overall_decision := PD_ALLOW\<rparr>\<rparr>\<rparr>"

lemma nonblank_text: "c \<in> set s \<Longrightarrow> \<not> py_isspace c \<Longrightarrow> nonblank s"
  unfolding nonblank_rstrip by (auto simp: py_rstrip_def dropWhile_eq_Nil_conv)

lemma ContextItem_init_Inr: "nonblank k \<Longrightarrow> nonblank t \<Longrightarrow> ContextItem_init (k, t) = Inr \<lparr>ci_kind = k, ci_text = t\<rparr>"
  by (simp add: ContextItem_init_def require_def)

lemma item_texts:
  "nonblank ''contract'' \<and> nonblank ''lean_statement'' \<and> nonblank ''environment'' \<and> nonblank ''proof_boundary'' \<and>
   nonblank ''theorem foo : True'' \<and> nonblank ''Submit only a proof term for the frozen declaration.''"
  by (simp add: nonblank_rstrip py_rstrip_def py_isspace_def)

lemma prefixed_text: "c \<in> set s \<Longrightarrow> \<not> py_isspace c \<Longrightarrow> nonblank (s @ t)"
  by (rule nonblank_text [of c]) simp_all

lemma permitted_pack: "\<exists>pack. build_pack permitted_bundle ROLE_TACTIC EC_LOCAL 24 = Inr pack"
proof -
  let ?c = "tb_contract permitted_bundle"
  have "nonblank (''id='' @ t)" "nonblank (join_with newline ((''lean='' @ u) # v # w))" for t u v w
    by (rule prefixed_text [of "CHR ''i''"], simp, simp add: py_isspace_def)
      (simp, rule prefixed_text [of "CHR ''l''" "''lean=''", simplified], simp add: py_isspace_def)
  moreover have "fs_lean_statement_source (sc_formal ?c) = ''theorem foo : True''"
    by (simp add: permitted_bundle_def sample_contract_def sample_draft_def sample_formal_def)
  ultimately have "\<exists>items. map_resultE ContextItem_init (base_items ?c @ role_items ROLE_TACTIC permitted_bundle 24) = Inr items"
    using item_texts by (simp add: base_items_def ContextItem_init_Inr append.simps [where 'a = "string \<times> string"]
        del: join_with.simps append.simps)
  moreover have "authorize_egress permitted_bundle EC_LOCAL = Inr ()"
    by (simp add: authorize_egress_def Let_def permitted_bundle_def)
  ultimately show ?thesis by (auto simp: build_pack_def Let_def require_def simp del: role_items.simps)
qed

theorem context_packs_are_scoped_witness:
  "\<exists>pack other. build_pack permitted_bundle ROLE_TACTIC EC_LOCAL 24 = Inr pack \<and>
     build_pack (with_mathematics (sc_mathematics sample_contract) permitted_bundle) ROLE_TACTIC EC_LOCAL 24 = Inr other \<and>
     render_pack other = render_pack pack"
  using permitted_pack context_packs_are_scoped [of permitted_bundle ROLE_TACTIC EC_LOCAL 24 _ "sc_mathematics sample_contract"] by blast

end
