(* ===== verification/Providers.thy ===== *)
theory Providers
  imports Context Authorization Payloads
begin

text \<open>
  The Prover's provider interface: identifiers and secret references (\<open>providers/policy.py\<close>),
  capabilities, requests, responses and usage (\<open>providers/base.py\<close>), the failure codes of
  \<open>providers/authorization.py\<close> and the scripted provider of \<open>providers/fake.py\<close>. A provider is what
  reading its properties returns and what a call returns, over a state of its own; an object of
  another type than declared is \<open>None\<close>. Shown: what a request hash commits to, and that
  registry names are already in the canonical form of a binding.
\<close>

section \<open>Identifiers and secrets\<close>

text \<open>\<open>_validate_identifier\<close> returns the normal form, a list of code points.\<close>

definition validate_identifier :: "string \<Rightarrow> nat list result" where
  "validate_identifier v =
     bindE (require (v \<noteq> []) (ConfigurationError ''must be a non-empty string'')) (\<lambda>_.
     bindE (require (\<not> (v \<noteq> py_strip v \<or> list_ex py_isspace v)) (ConfigurationError ''must not contain whitespace'')) (\<lambda>_.
     bindE (require (\<not> list_ex (\<lambda>c. code c < 32 \<or> code c = 127) v)
       (ConfigurationError ''must not contain control characters'')) (\<lambda>_.
     bindE (require (\<not> list_ex (\<lambda>t. occurs_in (map code t) (nfkc_casefold v)) forbidden_identifiers)
       (PolicyViolation ''Anthropic and Claude identifiers are not permitted in AutoLean'')) (\<lambda>_.
     Inr (nfkc_casefold v)))))"

definition validate_provider_identity :: "string \<Rightarrow> string \<Rightarrow> unit result" where
  "validate_provider_identity provider_id model_id =
     bindE (validate_identifier provider_id) (\<lambda>_. bindE (validate_identifier model_id) (\<lambda>_. Inr ()))"

definition validate_registry_name :: "string \<Rightarrow> nat list result" where
  "validate_registry_name name = validate_identifier name"

text \<open>\<open>^[a-z][a-z0-9_-]{0,63}$\<close> and \<open>^[A-Z][A-Z0-9_]*$\<close>\<close>

definition reasoning_effort_pattern :: "string \<Rightarrow> bool" where
  "reasoning_effort_pattern s \<longleftrightarrow> s \<noteq> [] \<and> length s \<le> 64 \<and> is_lower (hd s) \<and>
     all_chars (\<lambda>c. is_lower c \<or> is_digit c \<or> c = CHR ''_'' \<or> c = CHR ''-'') (tl s)"

definition env_name_pattern :: "string \<Rightarrow> bool" where
  "env_name_pattern s \<longleftrightarrow> s \<noteq> [] \<and> is_upper (hd s) \<and> all_chars (\<lambda>c. is_upper c \<or> is_digit c \<or> c = CHR ''_'') (tl s)"

definition validate_reasoning_effort :: "string option \<Rightarrow> unit result" where
  "validate_reasoning_effort v =
     (case v of
        None \<Rightarrow> Inr ()
      | Some s \<Rightarrow> require (reasoning_effort_pattern s) (ConfigurationError ''must be a lower-case identifier''))"

definition validate_secret_reference :: "string option \<Rightarrow> unit result" where
  "validate_secret_reference v =
     (case v of
        None \<Rightarrow> Inr ()
      | Some s \<Rightarrow> require (env_name_pattern s)
          (ConfigurationError ''API credentials must be referenced by a valid environment variable name''))"

definition resolve_secret_reference :: "string option \<Rightarrow> (string \<Rightarrow> string option) \<Rightarrow> string option result" where
  "resolve_secret_reference v environment =
     (case v of
        None \<Rightarrow> Inr None
      | Some name \<Rightarrow>
          (case environment name of
             None \<Rightarrow> Inl (ConfigurationError ''required API key environment variable is unset or unsafe'')
           | Some secret \<Rightarrow>
               bindE (require (secret \<noteq> [] \<and> CHR 0x0D \<notin> set secret \<and> CHR 0x0A \<notin> set secret)
                 (ConfigurationError ''required API key environment variable is unset or unsafe'')) (\<lambda>_. Inr (Some secret))))"

section \<open>Capabilities\<close>

datatype Capability =
    TEXT_GENERATION | USAGE_ACCOUNTING | REASONING_EFFORT | TOOL_CALLING | STREAMING | LOCAL_EXECUTION | CUSTOM_ENDPOINT

fun Capability_value :: "Capability \<Rightarrow> string" where
  "Capability_value TEXT_GENERATION = ''text_generation''"
| "Capability_value USAGE_ACCOUNTING = ''usage_accounting''"
| "Capability_value REASONING_EFFORT = ''reasoning_effort''"
| "Capability_value TOOL_CALLING = ''tool_calling''"
| "Capability_value STREAMING = ''streaming''"
| "Capability_value LOCAL_EXECUTION = ''local_execution''"
| "Capability_value CUSTOM_ENDPOINT = ''custom_endpoint''"

lemma Capability_value_inj [simp]: "Capability_value a = Capability_value b \<longleftrightarrow> a = b"
  by (cases a; cases b; simp)

definition all_capabilities :: "Capability list" where
  "all_capabilities = [TEXT_GENERATION, USAGE_ACCOUNTING, REASONING_EFFORT, TOOL_CALLING, STREAMING, LOCAL_EXECUTION, CUSTOM_ENDPOINT]"

text \<open>\<open>sorted(c.value for c in capabilities)\<close>\<close>

definition capability_names :: "Capability set \<Rightarrow> string list" where
  "capability_names cs = sort (map Capability_value (filter (\<lambda>c. c \<in> cs) all_capabilities))"

definition require_capabilities :: "Capability set \<Rightarrow> Capability set \<Rightarrow> string \<Rightarrow> unit result" where
  "require_capabilities values required provider_id =
     (let missing = required - values in
      require (missing = {}) (CapabilityError
        (''provider '' @ provider_id @ '' lacks required capabilities: '' @ join_with '', '' (capability_names missing))))"

section \<open>Requests\<close>

record ToolSpec =
  tl_name :: string
  tl_description :: string
  tl_parameters :: json_object
  tl_strict :: bool

definition ToolSpec_init :: "ToolSpec \<Rightarrow> ToolSpec result" where
  "ToolSpec_init t =
     bindE (require (tl_name t \<noteq> [] \<and> filter (\<lambda>c. c \<noteq> CHR ''_'') (tl_name t) \<noteq> [] \<and> all_chars is_word_char (tl_name t))
       (ConfigurationError ''invalid tool name'')) (\<lambda>_. Inr t)"

record TokenUsage =
  tu_input_tokens :: int
  tu_output_tokens :: int
  tu_cached_input_tokens :: int

definition TokenUsage_init :: "TokenUsage \<Rightarrow> TokenUsage result" where
  "TokenUsage_init u =
     bindE (require (\<not> list_ex (\<lambda>v. v < 0) [tu_input_tokens u, tu_output_tokens u, tu_cached_input_tokens u])
       (ConfigurationError ''token usage must contain non-negative integer values'')) (\<lambda>_.
     bindE (require (\<not> tu_cached_input_tokens u > tu_input_tokens u)
       (ConfigurationError ''cached_input_tokens cannot exceed input_tokens'')) (\<lambda>_. Inr u))"

record ModelRequest =
  mq_prompt :: string
  mq_system_prompt :: "string option"
  mq_max_input_tokens :: int
  mq_max_output_tokens :: int
  mq_reasoning_effort :: "string option"
  mq_tools :: "ToolSpec list"
  mq_required_capabilities :: "Capability set"
  mq_working_directory :: "string option"
  mq_context_pack_hash :: "DigestV1 option"

text \<open>A \<open>Path\<close> is its POSIX text.\<close>

definition ModelRequest_init :: "ModelRequest \<Rightarrow> ModelRequest result" where
  "ModelRequest_init q =
     bindE (require (nonblank (mq_prompt q)) (ConfigurationError ''model prompt cannot be empty'')) (\<lambda>_.
     bindE (require (\<not> mq_max_input_tokens q \<le> 0) (ConfigurationError ''max_input_tokens must be positive'')) (\<lambda>_.
     bindE (require (\<not> mq_max_output_tokens q \<le> 0) (ConfigurationError ''max_output_tokens must be positive'')) (\<lambda>_.
     bindE (validate_reasoning_effort (mq_reasoning_effort q)) (\<lambda>_.
     bindE (require (opt_all (\<lambda>d. prefix ''/'' d) (mq_working_directory q))
       (ConfigurationError ''working_directory must be an absolute path'')) (\<lambda>_.
     bindE (case mq_context_pack_hash q of
         None \<Rightarrow> Inr ()
       | Some d \<Rightarrow> catchE is_value_error (ConfigurationError ''context_pack_hash'') (require_digest_kind d PROMPT)) (\<lambda>_.
     Inr q))))))"

definition from_context_pack ::
  "ContextPack \<Rightarrow> string option \<Rightarrow> int \<Rightarrow> int \<Rightarrow> string option \<Rightarrow> ToolSpec list \<Rightarrow> Capability set \<Rightarrow> string option
     \<Rightarrow> ModelRequest result" where
  "from_context_pack pack system_prompt max_input max_output effort tools required directory =
     ModelRequest_init
       \<lparr>mq_prompt = render_pack pack, mq_system_prompt = system_prompt, mq_max_input_tokens = max_input,
        mq_max_output_tokens = max_output, mq_reasoning_effort = effort, mq_tools = tools,
        mq_required_capabilities = required, mq_working_directory = directory,
        mq_context_pack_hash = Some (content_hash pack)\<rparr>"

definition dump_ToolSpec :: "ToolSpec \<Rightarrow> json" where
  "dump_ToolSpec t = JObj
     [(''name'', JStr (tl_name t)), (''description'', JStr (tl_description t)),
      (''parameters'', JObj (tl_parameters t)), (''strict'', JBool (tl_strict t))]"

definition request_payload :: "ModelRequest \<Rightarrow> json" where
  "request_payload q = JObj
     [(''schema_version'', JStr ''autolean.model-request.v1''),
      (''prompt'', JStr (mq_prompt q)),
      (''system_prompt'', JOpt JStr (mq_system_prompt q)),
      (''max_input_tokens'', JInt (mq_max_input_tokens q)),
      (''max_output_tokens'', JInt (mq_max_output_tokens q)),
      (''reasoning_effort'', JOpt JStr (mq_reasoning_effort q)),
      (''tools'', JList (map dump_ToolSpec (mq_tools q))),
      (''required_capabilities'', JStrs (capability_names (mq_required_capabilities q))),
      (''working_directory'', JOpt JStr (mq_working_directory q)),
      (''context_pack_hash'', JOpt dump_DigestV1 (mq_context_pack_hash q))]"

definition outbound_request_hash :: "ModelRequest \<Rightarrow> DigestV1" where
  "outbound_request_hash q = digest_model PROMPT (request_payload q)"

definition inferred_capabilities :: "ModelRequest \<Rightarrow> Capability set" where
  "inferred_capabilities q = mq_required_capabilities q \<union> {TEXT_GENERATION} \<union>
     (if mq_reasoning_effort q \<noteq> None then {REASONING_EFFORT} else {}) \<union>
     (if mq_tools q \<noteq> [] then {TOOL_CALLING} else {}) \<union>
     (if mq_working_directory q \<noteq> None then {LOCAL_EXECUTION} else {})"

section \<open>Responses and providers\<close>

record ToolCall =
  tc_call_id :: string
  tc_name :: string
  tc_arguments_json :: string

record ModelResponse =
  mr_provider_id :: string
  mr_model_id :: string
  mr_text :: string
  mr_response_id :: "string option"
  mr_tool_calls :: "ToolCall list"
  mr_usage :: TokenUsage

record provider_view =
  vw_provider_id :: string
  vw_model_id :: string
  vw_capabilities :: "Capability set"
  vw_endpoint_class :: EndpointClassV1
  vw_configuration_hash :: DigestV1

text \<open>A provider and its probe, over the state \<open>'p\<close> of what they talk to.\<close>

record 'p provider =
  pv_read :: "'p \<Rightarrow> provider_view option result"
  pv_probe :: "'p \<Rightarrow> Capability set option result \<times> 'p"
  pv_generate :: "ModelRequest \<Rightarrow> 'p \<Rightarrow> ModelResponse option result \<times> 'p"

definition require_request_capabilities :: "provider_view \<Rightarrow> ModelRequest \<Rightarrow> unit result" where
  "require_request_capabilities view q =
     require_capabilities (vw_capabilities view) (inferred_capabilities q) (vw_provider_id view)"

datatype ProviderFailureCodeV1 =
    PROBE_FAILED | PROBE_INVALID | PROBE_CAPABILITY_MISMATCH | GENERATION_FAILED | RESPONSE_INVALID
  | SETTLEMENT_REJECTED | LOCAL_POLICY_REJECTED

fun ProviderFailureCodeV1_value :: "ProviderFailureCodeV1 \<Rightarrow> string" where
  "ProviderFailureCodeV1_value PROBE_FAILED = ''probe_failed_v1''"
| "ProviderFailureCodeV1_value PROBE_INVALID = ''probe_invalid_v1''"
| "ProviderFailureCodeV1_value PROBE_CAPABILITY_MISMATCH = ''probe_capability_mismatch_v1''"
| "ProviderFailureCodeV1_value GENERATION_FAILED = ''generation_failed_v1''"
| "ProviderFailureCodeV1_value RESPONSE_INVALID = ''response_invalid_v1''"
| "ProviderFailureCodeV1_value SETTLEMENT_REJECTED = ''settlement_rejected_v1''"
| "ProviderFailureCodeV1_value LOCAL_POLICY_REJECTED = ''local_policy_rejected_v1''"

section \<open>The scripted provider\<close>

text \<open>Its state is the position of the next response; a response is a text or a whole \<open>ModelResponse\<close>.\<close>

record fake_config =
  fk_responses :: "(string + ModelResponse) list"
  fk_model_id :: string
  fk_capabilities :: "Capability set"

definition fake_provider_id :: string where
  "fake_provider_id = ''fake''"

definition fake_init :: "fake_config \<Rightarrow> fake_config result" where
  "fake_init f = bindE (validate_provider_identity fake_provider_id (fk_model_id f)) (\<lambda>_. Inr f)"

definition fake_configuration_hash :: "fake_config \<Rightarrow> DigestV1" where
  "fake_configuration_hash f = digest_model CONFIG (JObj
     [(''schema_version'', JStr ''autolean.provider-config.fake.v1''),
      (''provider_id'', JStr fake_provider_id), (''model_id'', JStr (fk_model_id f)),
      (''endpoint_class'', JStr (EndpointClassV1_value EC_LOCAL)),
      (''capabilities'', JStrs (capability_names (fk_capabilities f)))])"

definition fake_view :: "fake_config \<Rightarrow> provider_view" where
  "fake_view f = \<lparr>vw_provider_id = fake_provider_id, vw_model_id = fk_model_id f, vw_capabilities = fk_capabilities f,
     vw_endpoint_class = EC_LOCAL, vw_configuration_hash = fake_configuration_hash f\<rparr>"

definition fake_generate :: "fake_config \<Rightarrow> ModelRequest \<Rightarrow> nat \<Rightarrow> ModelResponse option result \<times> nat" where
  "fake_generate f q next_index =
     (case require_request_capabilities (fake_view f) q of
        Inl e \<Rightarrow> (Inl e, next_index)
      | Inr _ \<Rightarrow>
          if next_index \<ge> length (fk_responses f) then
            (Inl (ProviderResponseError ''fake provider has no scripted response remaining''), next_index)
          else
            (case fk_responses f ! next_index of
               Inr response \<Rightarrow>
                 (if mr_provider_id response \<noteq> fake_provider_id \<or> mr_model_id response \<noteq> fk_model_id f then
                    (Inl (ProviderResponseError ''fake provider response identity does not match its configuration''), Suc next_index)
                  else (Inr (Some response), Suc next_index))
             | Inl text \<Rightarrow>
                 (Inr (Some \<lparr>mr_provider_id = fake_provider_id, mr_model_id = fk_model_id f, mr_text = text, mr_response_id = None,
                    mr_tool_calls = [], mr_usage = \<lparr>tu_input_tokens = 1, tu_output_tokens = 1, tu_cached_input_tokens = 0\<rparr>\<rparr>),
                  Suc next_index)))"

text \<open>\<open>StaticCapabilityProbe\<close> with the capabilities \<open>observed\<close>.\<close>

definition static_probe :: "Capability set \<Rightarrow> 'p \<Rightarrow> Capability set option result \<times> 'p" where
  "static_probe observed p = (Inr (Some observed), p)"

definition fake_provider :: "fake_config \<Rightarrow> Capability set \<Rightarrow> nat provider" where
  "fake_provider f observed =
     \<lparr>pv_read = (\<lambda>_. Inr (Some (fake_view f))), pv_probe = static_probe observed, pv_generate = fake_generate f\<rparr>"

section \<open>Lemmas\<close>

lemma all_capabilities_complete: "c \<in> set all_capabilities"
  by (cases c) (simp_all add: all_capabilities_def)

lemma capability_names_inj: "capability_names a = capability_names b \<Longrightarrow> a = b"
proof -
  have "set (capability_names x) = Capability_value ` x" for x
    using all_capabilities_complete by (auto simp: capability_names_def)
  moreover have "inj Capability_value" by (rule injI) simp
  moreover assume "capability_names a = capability_names b"
  ultimately show "a = b" by (metis inj_image_eq_iff)
qed

lemma require_capabilities_Inr [result_simps]: "require_capabilities have_caps required i = Inr u \<longleftrightarrow> required \<subseteq> have_caps"
  by (auto simp: require_capabilities_def Let_def require_eq_Inr)

lemma validate_identifier_public: "validate_identifier v = Inr k \<longleftrightarrow> public_identifier v \<and> k = nfkc_casefold v"
  by (auto simp: validate_identifier_def result_simps public_identifier_def validate_public_identifier_def)

definition request_wf :: "ModelRequest \<Rightarrow> bool" where
  "request_wf q \<longleftrightarrow> list_all (\<lambda>t. json_wf (JObj (tl_parameters t))) (mq_tools q)"

lemma strs_wf: "json_wf (JStrs xs)"
  by (simp add: list_all_iff)

lemma opt_digest_wf: "json_wf (JOpt dump_DigestV1 x)" "json_wf (JOpt JStr y)"
  by (cases x, simp_all add: JOpt_def, cases y, simp_all)

lemma request_payload_wf: "request_wf q \<Longrightarrow> json_wf (request_payload q)"
  using opt_digest_wf strs_wf by (simp add: request_payload_def request_wf_def dump_ToolSpec_def list_all_iff)

text \<open>Equal request hashes come from equal prompts, limits, capabilities, directories and context packs.\<close>

lemma opt_str_inj: "json_norm (JOpt JStr x) = json_norm (JOpt JStr y) \<longleftrightarrow> x = y"
  by (cases x; cases y) (simp_all add: JOpt_def)

lemma opt_digest_inj: "json_norm (JOpt dump_DigestV1 x) = json_norm (JOpt dump_DigestV1 y) \<longleftrightarrow> x = y"
proof -
  have "json_norm (dump_DigestV1 d) \<noteq> JNull" for d by (simp add: dump_DigestV1_def)
  then show ?thesis by (cases x; cases y) (auto simp: JOpt_def dump_DigestV1_inj dest: sym)
qed

lemma strs_inj: "json_norm (JStrs xs) = json_norm (JStrs ys) \<longleftrightarrow> xs = ys"
  using inj_map_eq_map [of "json_norm \<circ> JStr" xs ys] by (simp add: inj_def)

definition same_outbound :: "ModelRequest \<Rightarrow> ModelRequest \<Rightarrow> bool" where
  "same_outbound q r \<longleftrightarrow> mq_prompt q = mq_prompt r \<and> mq_system_prompt q = mq_system_prompt r \<and>
     mq_max_input_tokens q = mq_max_input_tokens r \<and> mq_max_output_tokens q = mq_max_output_tokens r \<and>
     mq_reasoning_effort q = mq_reasoning_effort r \<and>
     json_norm (JList (map dump_ToolSpec (mq_tools q))) = json_norm (JList (map dump_ToolSpec (mq_tools r))) \<and>
     mq_required_capabilities q = mq_required_capabilities r \<and> mq_working_directory q = mq_working_directory r \<and>
     mq_context_pack_hash q = mq_context_pack_hash r"

lemma request_payload_field:
  "dump_field (request_payload q) ''prompt'' = Some (JStr (mq_prompt q))"
  "dump_field (request_payload q) ''system_prompt'' = Some (json_norm (JOpt JStr (mq_system_prompt q)))"
  "dump_field (request_payload q) ''max_input_tokens'' = Some (JInt (mq_max_input_tokens q))"
  "dump_field (request_payload q) ''max_output_tokens'' = Some (JInt (mq_max_output_tokens q))"
  "dump_field (request_payload q) ''reasoning_effort'' = Some (json_norm (JOpt JStr (mq_reasoning_effort q)))"
  "dump_field (request_payload q) ''tools'' = Some (json_norm (JList (map dump_ToolSpec (mq_tools q))))"
  "dump_field (request_payload q) ''required_capabilities'' = Some (json_norm (JStrs (capability_names (mq_required_capabilities q))))"
  "dump_field (request_payload q) ''working_directory'' = Some (json_norm (JOpt JStr (mq_working_directory q)))"
  "dump_field (request_payload q) ''context_pack_hash'' = Some (json_norm (JOpt dump_DigestV1 (mq_context_pack_hash q)))"
  by (simp_all add: request_payload_def obj_get_def)

lemma outbound_request_hash_binds:
  assumes "outbound_request_hash q = outbound_request_hash r" "request_wf q" "request_wf r"
  shows "same_outbound q r \<or> json_collision (request_payload q) (request_payload r)"
proof -
  have "sha256_hexdigest (canonical_json_bytes (request_payload q)) = sha256_hexdigest (canonical_json_bytes (request_payload r))"
    using arg_cong [OF assms(1), of dg_value] by (simp add: outbound_request_hash_def)
  then consider "json_norm (request_payload q) = json_norm (request_payload r)" | "json_collision (request_payload q) (request_payload r)"
    using json_hash.hash_binds [OF request_payload_wf request_payload_wf] assms(2,3) by (auto simp: json_collision_def)
  then show ?thesis
  proof cases
    case 1
    have f: "dump_field (request_payload q) k = dump_field (request_payload r) k" for k
      by (rule json_norm_field [OF request_payload_wf request_payload_wf 1]) (rule assms(2), rule assms(3))
    show ?thesis
      using f [of "''prompt''"] f [of "''system_prompt''"] f [of "''max_input_tokens''"] f [of "''max_output_tokens''"]
        f [of "''reasoning_effort''"] f [of "''tools''"] f [of "''required_capabilities''"] f [of "''working_directory''"]
        f [of "''context_pack_hash''"] capability_names_inj
      unfolding request_payload_field option.inject strs_inj opt_str_inj opt_digest_inj json.inject same_outbound_def
      by blast
  qed simp
qed

end
