(* ===== verification/Registry.thy ===== *)
theory Registry
  imports Providers
begin

text \<open>
  \<open>providers/registry.py\<close>: the only place of the Prover that calls a model. A registry maps routing
  names to registered providers; \<open>generate\<close> reserves an attempt of a signed capability at the
  authorization gate, probes and calls the provider, checks the response and settles, or
  abandons the reservation with a stable failure code. The gate is the protocol of
  \<open>providers/authorization.py\<close>, over a state of its own. The locale \<open>authorization_gate\<close> is what a
  client may assume of a gate; shown in it: what every outcome of \<open>generate\<close> leaves behind.
  Reading the properties of a provider does not change its state, and the parameters of a tool
  are JSON, so the hash of a request always exists.
\<close>

section \<open>The gate\<close>

record 's gate =
  ga_preflight :: "ModelExecutionAuthorizationV1 \<Rightarrow> ModelExecutionProviderBindingV1 \<Rightarrow> int \<Rightarrow> int \<Rightarrow> DigestV1 option \<Rightarrow> DigestV1
    \<Rightarrow> 's \<Rightarrow> unit result \<times> 's"
  ga_reserve :: "ModelExecutionAuthorizationV1 \<Rightarrow> ModelExecutionProviderBindingV1 \<Rightarrow> int \<Rightarrow> int \<Rightarrow> DigestV1 option \<Rightarrow> DigestV1
    \<Rightarrow> 's \<Rightarrow> ModelExecutionReservationV1 result \<times> 's"
  ga_settle :: "ModelExecutionReservationV1 \<Rightarrow> int \<Rightarrow> int \<Rightarrow> int \<Rightarrow> 's \<Rightarrow> unit result \<times> 's"
  ga_abandon :: "ModelExecutionReservationV1 \<Rightarrow> string \<Rightarrow> 's \<Rightarrow> unit result \<times> 's"

section \<open>Registration\<close>

record 'p registered_provider =
  rp_provider :: "'p provider"
  rp_provider_id :: string
  rp_model_id :: string
  rp_model_revision :: string
  rp_endpoint_class :: EndpointClassV1
  rp_configuration_hash :: DigestV1
  rp_binding :: ModelExecutionProviderBindingV1
  rp_declared_capabilities :: "Capability set"

type_synonym 'p registry = "string \<Rightarrow> 'p registered_provider option"

definition read_provider_binding :: "'p provider \<Rightarrow> 'p \<Rightarrow> provider_view result" where
  "read_provider_binding provider p =
     (case pv_read provider p of
        Inl _ \<Rightarrow> Inl (ConfigurationError ''provider properties could not be read during registration'')
      | Inr None \<Rightarrow> Inl (ConfigurationError ''provider properties do not have their declared types'')
      | Inr (Some view) \<Rightarrow> Inr view)"

definition assert_provider_binding :: "'p registered_provider \<Rightarrow> 'p \<Rightarrow> unit result" where
  "assert_provider_binding registered p =
     bindE (read_provider_binding (rp_provider registered) p) (\<lambda>view.
     bindE (validate_provider_identity (vw_provider_id view) (vw_model_id view)) (\<lambda>_.
     require (\<not> (vw_provider_id view \<noteq> rp_provider_id registered \<or> vw_model_id view \<noteq> rp_model_id registered \<or>
         vw_endpoint_class view \<noteq> rp_endpoint_class registered \<or>
         vw_configuration_hash view \<noteq> rp_configuration_hash registered \<or>
         vw_capabilities view \<noteq> rp_declared_capabilities registered))
       (PolicyViolation ''provider changed identity, model, endpoint, configuration, or declared capabilities'')))"

text \<open>
  A routing name as text. A name whose normal form leaves the code points below 256 is no
  text of the model and is refused here.
\<close>

definition registry_text :: "nat list \<Rightarrow> string result" where
  "registry_text points =
     (if list_all (\<lambda>n. n < 256) points then Inr (map char_of points) else Inl (ValueError ''registry name''))"

definition register ::
  "string \<Rightarrow> 'p provider \<Rightarrow> EndpointClassV1 \<Rightarrow> string \<Rightarrow> 'p \<Rightarrow> 'p registry \<Rightarrow> 'p registry result" where
  "register name provider endpoint_class model_revision p registry =
     bindE (bindE (validate_registry_name name) registry_text) (\<lambda>registry_key.
     bindE (read_provider_binding provider p) (\<lambda>view.
     bindE (validate_provider_identity (vw_provider_id view) (vw_model_id view)) (\<lambda>_.
     bindE (require (endpoint_class = vw_endpoint_class view)
       (PolicyViolation ''registered endpoint_class does not match the provider's configured endpoint'')) (\<lambda>_.
     bindE (ModelExecutionProviderBindingV1_init
       \<lparr>mb_registry_name = registry_key, mb_provider_id = vw_provider_id view, mb_model_id = vw_model_id view,
        mb_model_revision = model_revision, mb_endpoint_class = endpoint_class,
        mb_configuration_hash = vw_configuration_hash view\<rparr>) (\<lambda>binding.
     bindE (require (registry registry_key = None)
       (ConfigurationError ''provider registry name is already registered'')) (\<lambda>_.
     Inr (registry(registry_key \<mapsto>
       \<lparr>rp_provider = provider, rp_provider_id = vw_provider_id view, rp_model_id = vw_model_id view,
        rp_model_revision = model_revision, rp_endpoint_class = endpoint_class,
        rp_configuration_hash = vw_configuration_hash view, rp_binding = binding,
        rp_declared_capabilities = vw_capabilities view\<rparr>))))))))"

section \<open>Generation\<close>

text \<open>\<open>except (CapabilityError, ConfigurationError, PolicyViolation)\<close>\<close>

fun is_local_policy_error :: "exn \<Rightarrow> bool" where
  "is_local_policy_error (CapabilityError m) = True"
| "is_local_policy_error (ConfigurationError m) = True"
| "is_local_policy_error (PolicyViolation m) = True"
| "is_local_policy_error e = False"

definition response_ok :: "'p registered_provider \<Rightarrow> ModelRequest \<Rightarrow> ModelResponse \<Rightarrow> bool" where
  "response_ok registered q response \<longleftrightarrow>
     \<not> (mr_provider_id response \<noteq> rp_provider_id registered \<or> mr_model_id response \<noteq> rp_model_id registered \<or>
        tu_input_tokens (mr_usage response) \<le> 0 \<or> tu_input_tokens (mr_usage response) > mq_max_input_tokens q \<or>
        tu_output_tokens (mr_usage response) < 0 \<or> tu_output_tokens (mr_usage response) > mq_max_output_tokens q \<or>
        tu_cached_input_tokens (mr_usage response) > tu_input_tokens (mr_usage response))"

text \<open>The steps under a reservation: the response, or the error with the failure code of its place.\<close>

type_synonym attempt = "(exn \<times> ProviderFailureCodeV1) + ModelResponse"

definition call_provider ::
  "'p registered_provider \<Rightarrow> ModelRequest \<Rightarrow> Capability set \<Rightarrow> 'p \<Rightarrow> attempt \<times> 'p" where
  "call_provider registered q requested p =
     (let (observed, p1) = pv_probe (rp_provider registered) p in
      case observed of
        Inl _ \<Rightarrow> (Inl (CapabilityError ''provider capability probe failed'', PROBE_FAILED), p1)
      | Inr None \<Rightarrow> (Inl (CapabilityError ''provider capability probe returned invalid evidence'', PROBE_INVALID), p1)
      | Inr (Some capabilities) \<Rightarrow>
          (case assert_provider_binding registered p1 of
             Inl e \<Rightarrow> (Inl (e, LOCAL_POLICY_REJECTED), p1)
           | Inr _ \<Rightarrow>
               (case require_capabilities capabilities requested (rp_provider_id registered) of
                  Inl _ \<Rightarrow> (Inl (CapabilityError ''provider capability probe did not satisfy the authorized request'',
                    PROBE_CAPABILITY_MISMATCH), p1)
                | Inr _ \<Rightarrow>
                    (let (reply, p2) = pv_generate (rp_provider registered) q p1 in
                     case reply of
                       Inl e \<Rightarrow>
                         (if is_local_policy_error e
                          then (Inl (PolicyViolation ''provider generation violated local policy'', LOCAL_POLICY_REJECTED), p2)
                          else (Inl (ProviderResponseError ''provider generation failed'', GENERATION_FAILED), p2))
                     | Inr None \<Rightarrow> (Inl (ProviderResponseError ''provider returned an invalid authorized response'', RESPONSE_INVALID), p2)
                     | Inr (Some response) \<Rightarrow>
                         (if \<not> response_ok registered q response then
                            (Inl (ProviderResponseError ''provider returned an invalid authorized response'', RESPONSE_INVALID), p2)
                          else
                            (case assert_provider_binding registered p2 of
                               Inl e \<Rightarrow> (Inl (e, LOCAL_POLICY_REJECTED), p2)
                             | Inr _ \<Rightarrow> (Inr response, p2)))))))"

definition settle_response :: "'s gate \<Rightarrow> ModelExecutionReservationV1 \<Rightarrow> attempt \<Rightarrow> 's \<Rightarrow> attempt \<times> 's" where
  "settle_response g reservation a s =
     (case a of
        Inl e \<Rightarrow> (Inl e, s)
      | Inr response \<Rightarrow>
          (case ga_settle g reservation (tu_input_tokens (mr_usage response)) (tu_cached_input_tokens (mr_usage response))
              (tu_output_tokens (mr_usage response)) s of
             (Inl _, s') \<Rightarrow> (Inl (PolicyViolation ''model execution settlement was denied'', SETTLEMENT_REJECTED), s')
           | (Inr _, s') \<Rightarrow> (Inr response, s')))"

abbreviation accounting_unavailable :: exn where
  "accounting_unavailable \<equiv> PolicyViolation ''model execution failure accounting was unavailable''"

text \<open>The \<open>finally\<close> clause.\<close>

definition finish_attempt :: "'s gate \<Rightarrow> ModelExecutionReservationV1 \<Rightarrow> attempt \<Rightarrow> 's \<Rightarrow> ModelResponse result \<times> 's" where
  "finish_attempt g reservation a s =
     (case a of
        Inr response \<Rightarrow> (Inr response, s)
      | Inl (e, failure_code) \<Rightarrow>
          (case ga_abandon g reservation (ProviderFailureCodeV1_value failure_code) s of
             (Inl _, s') \<Rightarrow> (Inl accounting_unavailable, s')
           | (Inr _, s') \<Rightarrow> (Inl e, s')))"

definition denied :: exn where
  "denied = PolicyViolation ''model execution authorization was denied''"

definition generate ::
  "'s gate option \<Rightarrow> 'p registry \<Rightarrow> ModelExecutionAuthorizationV1 \<Rightarrow> ModelRequest \<Rightarrow> 's \<Rightarrow> 'p
     \<Rightarrow> ModelResponse result \<times> 's \<times> 'p" where
  "generate gate_option registry authorization q s p =
     (case gate_option of
        None \<Rightarrow> (Inl (PolicyViolation ''model generation requires an injected authorization gate''), s, p)
      | Some g \<Rightarrow>
      case registry (mb_registry_name (authorization_provider authorization)) of
        None \<Rightarrow> (Inl (ConfigurationError ''unknown model provider''), s, p)
      | Some registered \<Rightarrow>
      case assert_provider_binding registered p of
        Inl e \<Rightarrow> (Inl e, s, p)
      | Inr _ \<Rightarrow>
      let requested = inferred_capabilities q \<union> {USAGE_ACCOUNTING} in
      case ga_preflight g authorization (rp_binding registered) (mq_max_input_tokens q) (mq_max_output_tokens q)
          (mq_context_pack_hash q) (outbound_request_hash q) s of
        (Inl _, s1) \<Rightarrow> (Inl denied, s1, p)
      | (Inr _, s1) \<Rightarrow>
      case require_capabilities (rp_declared_capabilities registered) requested (rp_provider_id registered) of
        Inl e \<Rightarrow> (Inl e, s1, p)
      | Inr _ \<Rightarrow>
      case ga_reserve g authorization (rp_binding registered) (mq_max_input_tokens q) (mq_max_output_tokens q)
          (mq_context_pack_hash q) (outbound_request_hash q) s1 of
        (Inl _, s2) \<Rightarrow> (Inl denied, s2, p)
      | (Inr reservation, s2) \<Rightarrow>
      let (called, p') = call_provider registered q requested p;
          (settled, s3) = settle_response g reservation called s2;
          (outcome, s4) = finish_attempt g reservation settled s3 in
      (outcome, s4, p'))"

section \<open>Lemmas on registration\<close>

text \<open>What is registered under a name: its binding repeats the registered identity.\<close>

definition registered_ok :: "string \<Rightarrow> 'p registered_provider \<Rightarrow> bool" where
  "registered_ok name r \<longleftrightarrow> mb_registry_name (rp_binding r) = name \<and> mb_provider_id (rp_binding r) = rp_provider_id r \<and>
     mb_model_id (rp_binding r) = rp_model_id r \<and> mb_endpoint_class (rp_binding r) = rp_endpoint_class r \<and>
     mb_configuration_hash (rp_binding r) = rp_configuration_hash r \<and>
     list_all fst (ModelExecutionProviderBindingV1_guards (rp_binding r))"

definition registry_ok :: "'p registry \<Rightarrow> bool" where
  "registry_ok registry \<longleftrightarrow> (\<forall>name r. registry name = Some r \<longrightarrow> registered_ok name r)"

lemma no_space_stripped:
  assumes "\<not> list_ex py_isspace v"
  shows "strip_ws v = v"
proof (rule strip_ws_all)
  fix c assume "c \<in> set v"
  then have "\<not> py_isspace c" using assms by (auto simp: list_ex_iff)
  then show "\<not> white_space c" by (auto simp: py_isspace_def white_space_def)
qed

lemma public_identifier_stripped: "public_identifier v \<Longrightarrow> strip_ws v = v"
  by (rule no_space_stripped) (simp add: public_identifier_def validate_public_identifier_def)

lemma nfkc_no_space:
  assumes "\<not> py_isspace c" "\<forall>n \<in> set (nfkc_casefold_char c). n < 256" "n \<in> set (nfkc_casefold_char c)"
  shows "\<not> white_space (char_of n)"
proof -
  have "n < 256" using assms(2,3) by blast
  have "n \<notin> {9, 10, 11, 12, 13, 32, 133, 160}"
    using assms(3) \<open>n < 256\<close> assms(1,2) unfolding nfkc_casefold_char_def Let_def py_isspace_def
    by (simp split: if_split_asm) linarith?
  then show ?thesis using \<open>n < 256\<close> by (auto simp: white_space_def)
qed

text \<open>A registry key has no white space, so the binding keeps it as it is.\<close>

lemma registry_key_stripped:
  assumes "validate_registry_name name = Inr points" "registry_text points = Inr k"
  shows "strip_ws k = k"
proof (rule strip_ws_all)
  have p: "points = concat (map nfkc_casefold_char name)" "\<forall>n \<in> set points. n < 256" "k = map char_of points"
    and v: "\<not> list_ex py_isspace name"
    using assms by (auto simp: validate_registry_name_def validate_identifier_public nfkc_casefold_def registry_text_def
        public_identifier_def validate_public_identifier_def list_all_iff split: if_splits)
  fix c assume "c \<in> set k"
  then obtain d n where d: "d \<in> set name" "n \<in> set (nfkc_casefold_char d)" "c = char_of n" using p by auto
  then have "\<not> py_isspace d" "\<forall>n \<in> set (nfkc_casefold_char d). n < 256"
    using v p(1,2) by (auto simp: list_ex_iff)
  then show "\<not> white_space c" using nfkc_no_space d(2) unfolding d(3) by blast
qed

lemma register_ok:
  assumes "registry_ok registry" "register name provider endpoint_class revision p registry = Inr registry'"
  shows "registry_ok registry'"
proof -
  obtain points k and view :: provider_view and binding where *: "validate_registry_name name = Inr points" "registry_text points = Inr k"
    "validate_provider_identity (vw_provider_id view) (vw_model_id view) = Inr ()"
    "ModelExecutionProviderBindingV1_init
       \<lparr>mb_registry_name = k, mb_provider_id = vw_provider_id view, mb_model_id = vw_model_id view,
        mb_model_revision = revision, mb_endpoint_class = endpoint_class,
        mb_configuration_hash = vw_configuration_hash view\<rparr> = Inr binding"
    and r: "registry(k \<mapsto>
       \<lparr>rp_provider = provider, rp_provider_id = vw_provider_id view, rp_model_id = vw_model_id view,
        rp_model_revision = revision, rp_endpoint_class = endpoint_class,
        rp_configuration_hash = vw_configuration_hash view, rp_binding = binding,
        rp_declared_capabilities = vw_capabilities view\<rparr>) = registry'"
    using assms(2) by (simp add: register_def bindE_eq_Inr require_eq_Inr) (elim exE conjE, rule that, assumption+)
  have "public_identifier (vw_provider_id view)" "public_identifier (vw_model_id view)"
    using *(3) by (auto simp: validate_provider_identity_def bindE_eq_Inr validate_identifier_public)
  then have "registered_ok k \<lparr>rp_provider = provider, rp_provider_id = vw_provider_id view, rp_model_id = vw_model_id view,
        rp_model_revision = revision, rp_endpoint_class = endpoint_class,
        rp_configuration_hash = vw_configuration_hash view, rp_binding = binding,
        rp_declared_capabilities = vw_capabilities view\<rparr>"
    using *(4) registry_key_stripped [OF *(1,2)] public_identifier_stripped
    by (auto simp: registered_ok_def ModelExecutionProviderBindingV1_init_def construct_Inr ModelExecutionProviderBindingV1_strip_def)
  then show ?thesis using assms(1) by (auto simp: registry_ok_def r [symmetric])
qed

section \<open>What a call leaves behind\<close>

lemma finish_attempt_outcome:
  "finish_attempt g r a s = (Inr response, s') \<longleftrightarrow> a = Inr response \<and> s' = s"
  by (auto simp: finish_attempt_def split: sum.splits prod.splits)

lemma settle_response_outcome:
  "settle_response g r a s = (Inr response, s') \<longleftrightarrow> a = Inr response \<and>
     (\<exists>u. ga_settle g r (tu_input_tokens (mr_usage response)) (tu_cached_input_tokens (mr_usage response))
       (tu_output_tokens (mr_usage response)) s = (Inr u, s'))"
  by (auto simp: settle_response_def split: sum.splits prod.splits)

lemma call_provider_response:
  "call_provider registered q requested p = (Inr response, p') \<Longrightarrow> response_ok registered q response \<and>
     assert_provider_binding registered p' = Inr ()"
  by (auto simp: call_provider_def Let_def split: sum.splits prod.splits option.splits if_splits)

text \<open>
  A call either stops before the provider is contacted, with an error, or it runs under a
  reservation, on a provider that still is what was registered.
\<close>

lemma generate_cases:
  assumes "generate (Some g) registry a q s p = (result, s', p')"
  obtains (early) e where "result = Inl e" "s' = s" "p' = p"
    | (refused) e registered pre s1 where "result = Inl e" "p' = p"
      "registry (mb_registry_name (authorization_provider a)) = Some registered"
      "ga_preflight g a (rp_binding registered) (mq_max_input_tokens q) (mq_max_output_tokens q)
         (mq_context_pack_hash q) (outbound_request_hash q) s = (pre, s1)"
      "s' = s1 \<or> (\<exists>e. ga_reserve g a (rp_binding registered) (mq_max_input_tokens q) (mq_max_output_tokens q)
         (mq_context_pack_hash q) (outbound_request_hash q) s1 = (Inl e, s'))"
    | (ran) registered s1 s2 s3 r called settled where
      "registry (mb_registry_name (authorization_provider a)) = Some registered" "assert_provider_binding registered p = Inr ()"
      "ga_preflight g a (rp_binding registered) (mq_max_input_tokens q) (mq_max_output_tokens q)
         (mq_context_pack_hash q) (outbound_request_hash q) s = (Inr (), s1)"
      "inferred_capabilities q \<union> {USAGE_ACCOUNTING} \<subseteq> rp_declared_capabilities registered"
      "ga_reserve g a (rp_binding registered) (mq_max_input_tokens q) (mq_max_output_tokens q)
         (mq_context_pack_hash q) (outbound_request_hash q) s1 = (Inr r, s2)"
      "call_provider registered q (inferred_capabilities q \<union> {USAGE_ACCOUNTING}) p = (called, p')"
      "settle_response g r called s2 = (settled, s3)" "finish_attempt g r settled s3 = (result, s')"
proof -
  note d = assms [unfolded generate_def option.case Let_def]
  show ?thesis
  proof (cases "registry (mb_registry_name (authorization_provider a))")
    case None
    then show ?thesis using d by (auto intro: early)
  next
    case (Some registered)
    show ?thesis
    proof (cases "assert_provider_binding registered p")
      case (Inl e)
      then show ?thesis using d Some by (auto intro: early)
    next
      case (Inr u)
      obtain pre s1 where pre: "ga_preflight g a (rp_binding registered) (mq_max_input_tokens q) (mq_max_output_tokens q)
         (mq_context_pack_hash q) (outbound_request_hash q) s = (pre, s1)" by fastforce
      obtain res s2 where res: "ga_reserve g a (rp_binding registered) (mq_max_input_tokens q) (mq_max_output_tokens q)
         (mq_context_pack_hash q) (outbound_request_hash q) s1 = (res, s2)" by fastforce
      note d' = d [unfolded Some option.case Inr sum.case pre prod.case res]
      show ?thesis
      proof (cases "\<exists>e. pre = Inl e \<or> res = Inl e \<or>
          require_capabilities (rp_declared_capabilities registered) (inferred_capabilities q \<union> {USAGE_ACCOUNTING}) (rp_provider_id registered) = Inl e")
        case True
        then obtain e where "result = Inl e" "p' = p" "s' = s1 \<or> (\<exists>e. res = Inl e) \<and> s' = s2"
          using d' by (auto split: sum.splits)
        then show ?thesis using res by (intro refused [OF _ _ Some pre]) auto
      next
        case False
        then obtain r where ok: "pre = Inr ()" "res = Inr r"
          "require_capabilities (rp_declared_capabilities registered) (inferred_capabilities q \<union> {USAGE_ACCOUNTING}) (rp_provider_id registered) = Inr ()"
          by (metis old.unit.exhaust sumE)
        obtain called p2 where called: "call_provider registered q (inferred_capabilities q \<union> {USAGE_ACCOUNTING}) p = (called, p2)" by fastforce
        obtain settled s3 where settled: "settle_response g r called s2 = (settled, s3)" by fastforce
        obtain outcome s4 where outcome: "finish_attempt g r settled s3 = (outcome, s4)" by fastforce
        have "outcome = result" "s4 = s'" "p2 = p'"
          using d' [unfolded ok sum.case called prod.case settled outcome] by simp_all
        then show ?thesis
          using ran [OF Some _ pre [unfolded ok] _ res [unfolded ok] called [unfolded \<open>p2 = p'\<close>] settled] outcome ok(3) Inr
          by (simp add: require_capabilities_Inr)
      qed
    qed
  qed
qed

text \<open>
  What a client may assume of a gate: a preflight and a refused reservation write nothing, a
  granted reservation was authorised for exactly the call asked for, a settlement records the
  usage, and an abandoned reservation is finished. The writes of other clients are idle.
\<close>

locale authorization_gate =
  fixes g :: "'s gate"
    and idle :: "'s \<Rightarrow> 's \<Rightarrow> bool"
    and authorised :: "ModelExecutionAuthorizationV1 \<Rightarrow> ModelExecutionProviderBindingV1 \<Rightarrow> int \<Rightarrow> int \<Rightarrow> DigestV1 option \<Rightarrow> DigestV1
      \<Rightarrow> ModelExecutionReservationV1 \<Rightarrow> 's \<Rightarrow> 's \<Rightarrow> bool"
    and charged :: "ModelExecutionReservationV1 \<Rightarrow> int \<Rightarrow> int \<Rightarrow> int \<Rightarrow> 's \<Rightarrow> bool"
    and finished :: "ModelExecutionReservationV1 \<Rightarrow> 's \<Rightarrow> bool"
  assumes idle_refl: "idle s s"
    and idle_trans: "idle s s1 \<Longrightarrow> idle s1 s2 \<Longrightarrow> idle s s2"
    and preflight_idle: "ga_preflight g a b m n ch rh s = (x, s') \<Longrightarrow> idle s s'"
    and refused_idle: "ga_reserve g a b m n ch rh s = (Inl e, s') \<Longrightarrow> idle s s'"
    and reserve_authorised: "ga_reserve g a b m n ch rh s = (Inr r, s') \<Longrightarrow> authorised a b m n ch rh r s s'"
    and settle_charged: "ga_settle g r m c n s = (Inr u, s') \<Longrightarrow> charged r m c n s'"
    and abandon_finished: "ga_abandon g r f s = (Inr u, s') \<Longrightarrow> finished r s'"
begin

lemma response_charged:
  assumes "settle_response g r called s2 = (settled, s3)" "finish_attempt g r settled s3 = (Inr response, s')"
  shows "called = Inr response \<and> charged r (tu_input_tokens (mr_usage response)) (tu_cached_input_tokens (mr_usage response))
    (tu_output_tokens (mr_usage response)) s'"
  using assms settle_charged by (auto simp: finish_attempt_outcome settle_response_outcome)

lemma error_finished:
  assumes "finish_attempt g r settled s3 = (Inl e, s')"
  shows "finished r s' \<or> e = accounting_unavailable"
  using assms abandon_finished [of r] by (cases settled) (auto simp: finish_attempt_def split: sum.splits prod.splits)

lemma generate_outcome:
  assumes "generate (Some g) registry a q s p = (result, s', p')"
  shows "(\<exists>e. result = Inl e \<and> p' = p \<and> idle s s') \<or>
    (\<exists>registered r s1 s2. registry (mb_registry_name (authorization_provider a)) = Some registered \<and>
      assert_provider_binding registered p = Inr () \<and>
      inferred_capabilities q \<union> {USAGE_ACCOUNTING} \<subseteq> rp_declared_capabilities registered \<and>
      idle s s1 \<and> authorised a (rp_binding registered) (mq_max_input_tokens q) (mq_max_output_tokens q)
        (mq_context_pack_hash q) (outbound_request_hash q) r s1 s2 \<and>
      (case result of
         Inr response \<Rightarrow> response_ok registered q response \<and> assert_provider_binding registered p' = Inr () \<and>
           charged r (tu_input_tokens (mr_usage response)) (tu_cached_input_tokens (mr_usage response))
             (tu_output_tokens (mr_usage response)) s'
       | Inl e \<Rightarrow> finished r s' \<or> e = accounting_unavailable))"
  using assms
proof (cases rule: generate_cases)
  case (refused e registered pre s1)
  note i = preflight_idle [OF refused(4)]
  have "idle s s'" using refused(5) i idle_trans [OF i] refused_idle by (elim disjE exE) simp_all
  then show ?thesis using refused(1,2) by simp
next
  case (ran registered s1 s2 s3 r called settled)
  have "case result of
         Inr response \<Rightarrow> response_ok registered q response \<and> assert_provider_binding registered p' = Inr () \<and>
           charged r (tu_input_tokens (mr_usage response)) (tu_cached_input_tokens (mr_usage response))
             (tu_output_tokens (mr_usage response)) s'
       | Inl e \<Rightarrow> finished r s' \<or> e = accounting_unavailable"
  proof (cases result)
    case (Inl e)
    then show ?thesis using error_finished ran(8) by simp
  next
    case (Inr response)
    note c = response_charged [OF ran(7) ran(8) [unfolded Inr]]
    then show ?thesis using call_provider_response [OF ran(6) [unfolded conjunct1 [OF c]]] Inr by simp
  qed
  then show ?thesis using ran(1,2,4) preflight_idle [OF ran(3)] reserve_authorised [OF ran(5)] by blast
qed (use idle_refl in blast)

end

end
