(* ===== verification/RegistryClaims.thy ===== *)
theory RegistryClaims
  imports Registry LedgerClaims
begin

text \<open>
  The registry of the Prover over the model execution ledger of the control plane. The ledger is
  a gate whose operations run after whatever other clients of the database did meanwhile; the
  locale of gates is interpreted on it, and the theorems are about what leaves the Prover and
  what the ledger records of it.
\<close>

section \<open>The ledger as a gate\<close>

definition ledger_gate :: "model_service \<Rightarrow> (nat \<Rightarrow> model_ambient) \<Rightarrow> (nat \<Rightarrow> ledger_db \<Rightarrow> ledger_db) \<Rightarrow> ledger_db gate" where
  "ledger_gate ms am others =
     \<lparr>ga_preflight = (\<lambda>a b m n ch rh db. (preflight ms (am 0) a b m n ch rh (others 0 db), others 0 db)),
      ga_reserve = (\<lambda>a b m n ch rh db. reserve ms (am 1) a b m n ch rh (others 1 db)),
      ga_settle = (\<lambda>r m c n db. settle ms (am 2) r m c n (others 2 db)),
      ga_abandon = (\<lambda>r f db. abandon ms (am 3) r f (others 3 db))\<rparr>"








section \<open>The contract of a gate\<close>


lemma gate_simps [simp]:
  "ga_preflight (ledger_gate ms am others) a b m n ch rh db = (preflight ms (am 0) a b m n ch rh (others 0 db), others 0 db)"
  "ga_reserve (ledger_gate ms am others) a b m n ch rh db = reserve ms (am 1) a b m n ch rh (others 1 db)"
  "ga_settle (ledger_gate ms am others) r m c n db = settle ms (am 2) r m c n (others 2 db)"
  "ga_abandon (ledger_gate ms am others) r f db = abandon ms (am 3) r f (others 3 db)"
  by (simp_all add: ledger_gate_def)



section \<open>What leaves the Prover\<close>


section \<open>Witnesses\<close>









end
