(* ===== verification/Spec2Isabelle.thy ===== *)
theory Spec2Isabelle
  imports ServiceProps SnapshotProps LedgerClaims GatewayClaims HarnessClaims WorkflowClaims
    Dependencies RegistryClaims
begin

text \<open>
  AutoLean turns mathematical sources into Lean theorems: a Builder freezes the statement of
  a task, workers prove it under leases, an independent verifier checks the proof, and a
  control plane records who did what. This development models the trusted core of the
  repository: the contract models exchanged between the parts (\<open>packages/contracts\<close>), the
  control plane (\<open>packages/control_plane\<close>), the Builder's gates and harness (\<open>Builder\<close>), and what the
  Prover sends to models (\<open>Prover\<close>).

  \<^bold>\<open>Parts and theories.\<close>
  \<open>Prelude\<close> has the error results, text functions and characters shared by all theories.
  \<open>Json\<close>, \<open>Digests\<close>, \<open>Datetime\<close> and \<open>Hashing\<close> model \<open>hashing.py\<close>: canonical JSON with its strict
  loader, SHA-256, SHA-1 and HMAC on bytes, timestamps, typed digests and stable identifiers.
  \<open>Base\<close> is \<open>base.py\<close>, \<open>Graphs\<close> is \<open>graphs.py\<close> and \<open>Attestation\<close> is \<open>attestation.py\<close>; \<open>Contracts\<close>,
  \<open>Handoff\<close> and \<open>Submissions\<close> are \<open>models.py\<close>; \<open>GatewayContracts\<close> is \<open>verification_gateway.py\<close>;
  \<open>Authorization\<close> is \<open>authorization.py\<close>. Every contract class \<open>X\<close> is a record with its normalisation
  \<open>X_strip\<close>, its checks \<open>X_guards\<close>, its constructor \<open>X_init\<close> and its JSON form \<open>dump_X\<close>, in the order of
  the class.
  \<open>Leases\<close> is \<open>leases.py\<close>, \<open>Events\<close> is \<open>events.py\<close> (with \<open>EventLog\<close> for its invariant and \<open>EventProps\<close> for
  its theorems), \<open>Artifacts\<close> is \<open>artifacts.py\<close>, \<open>Payloads\<close> and \<open>CanonicalType\<close> are
  \<open>builder_fidelity.py\<close>, and \<open>service.py\<close> is \<open>ServiceBase\<close>, \<open>ServiceFidelity\<close>, \<open>Service\<close> and
  \<open>ServiceVerify\<close>. \<open>ServiceSample\<close> is a complete sample run and \<open>ServiceProps\<close> has the theorems about
  the service. \<open>Projection\<close> is \<open>projection.py\<close>, with its theorems in \<open>ProjectionProps\<close> (dependency
  counts), \<open>FeedbackProps\<close> (phase feedback) and \<open>SnapshotProps\<close> (what a snapshot depends on).
  \<open>ModelLedger\<close> is \<open>model_authorization.py\<close>; \<open>LedgerProps\<close> has the steps of its clients, \<open>LedgerBudget\<close>
  the invariant of budgets and \<open>LedgerClaims\<close> its theorems. \<open>verifier_signing_gateway.py\<close> is \<open>Receipts\<close>
  (receipts and trust policies) and \<open>SigningGateway\<close>, with \<open>GatewayProps\<close> (the ledger of requests) and
  \<open>GatewayClaims\<close> (its theorems and a sample signature). Builder's \<open>canonical_type_gate.py\<close> is \<open>TypeGate\<close>
  (queries and their raw output) and \<open>TypeGateRun\<close> (evidence and the gate), with \<open>TypeGateProps\<close>;
  its \<open>fidelity_harness.py\<close> is \<open>Harness\<close> (tasks, proposals, verdicts) and \<open>HarnessRun\<close> (checks, evaluation
  and run), with lemmas in \<open>HarnessProps\<close>, a sample run in \<open>HarnessSample\<close> and the theorems in \<open>HarnessClaims\<close>;
  \<open>source_preparation.py\<close> is \<open>SourcePrep\<close>, and \<open>workflow.py\<close> is \<open>Workflow\<close>, with \<open>WorkflowProps\<close>,
  \<open>WorkflowSample\<close> (the sample contract frozen and bridged) and \<open>WorkflowClaims\<close>. Of the Prover,
  \<open>Context\<close> is \<open>context.py\<close>, \<open>Dependencies\<close> is \<open>proof_dependencies.py\<close>, \<open>Providers\<close> is \<open>providers/base.py\<close>,
  \<open>providers/fake.py\<close> and the identifiers of \<open>providers/policy.py\<close>, \<open>Registry\<close> is \<open>providers/registry.py\<close>
  over the gate of \<open>providers/authorization.py\<close>, and \<open>RegistryClaims\<close> puts the model ledger behind
  that gate.

  \<^bold>\<open>State and interaction.\<close> The event database is one record, extending the lease tables;
  the blob store is a map from paths to nodes. A transaction of the database is a function
  to a result and a new state that is the old one whenever it fails. The service composes
  both: a command reads, checks, stores a blob and runs one final transaction. Whatever the
  program does not determine is an argument: clock readings, random identifiers and nonces,
  what other processes do to the blob store while a blob is written, and the transactions of
  other clients between the reads of a command and its final transaction. \<open>lease_step\<close>,
  \<open>event_step\<close>, \<open>service_step\<close>, \<open>ledger_step\<close> and \<open>signing_step\<close> are the steps of any client, and the theorems hold over all their
  interleavings.

  \<^bold>\<open>What is shown.\<close> Encoding: canonical JSON round trips and determines values. Hashing: equal
  digests of models mean equal models, or the two hashed texts are an explicit SHA-256
  collision; no theorem assumes that collisions do not exist. Contracts: the graph validator
  is exact and terminates; proof boundaries are the ones derived from the frozen contract.
  Attestations: what an issued attestation is accepted for, exactly, and what an
  accepted attestation commits to, for bundles, reports, signing requests and model
  authorizations; a reservation of cost covers every admitted usage. Leases: fencing tokens
  grow, a running lease excludes all other workers and superseded leases stay stale. Events: contiguous
  streams, no lost updates, exactly-once commands, nonces used once, fenced commits by
  current lease holders only, immutable history, one binding for a contract revision.
  Artifacts: authentic reads, round trips, and healthy stores that stay healthy. Service: a
  verdict is earned, final and says what the attested evidence says; registrations are permanent; refused commands write
  nothing; no placeholder proof is recorded. Projection: the dashboard's feedback is exactly the recorded
  evidence, its dependency counts are exact, and it depends on the public parts and positions
  of the events only. Model ledger: budgets are never exceeded, revocations are final,
  reservations need current authority, and a finished reservation never changes. Signing
  gateway: a signature needs the lease, task, proof, evidence and execution receipt that agree
  with the request; one request gets one attestation; finished requests stay as they are.
  Builder: the type gate accepts only freshly observed, exact elaborated types; translation
  agents see nothing of the selected Lean statement; the harness accepts the evaluation it
  built exactly when no reviewer text that enters the report ends in white space; a frozen
  contract was accepted by its reviewer in every respect; a bridged bundle is valid and its
  attestation verifies; recorded source preparations are permanent; the staged case of a
  contract ends before the frozen stages.
  Prover: a context pack is permitted by the rights of its bundle and shows the informal side to
  planners only; a dependency decision is exact; a model is called only under a reservation
  of current authority for that very request, and every call is charged or released.

  Interfaces between the parts are locales: \<open>codec\<close>, \<open>hash_binding\<close>, \<open>contract_model\<close>, \<open>fencing\<close>,
  \<open>append_log\<close>, \<open>write_once_table\<close> and \<open>authorization_gate\<close>, each interpreted on the definitions of the model.

  \<^bold>\<open>Bounds and fuel.\<close> Integers of Python are \<open>int\<close>; words occur in the hash functions only. The
  JSON parser takes the length of its input as fuel, which is shown to be enough by the round
  trip; the topological sort takes one step per node, which is enough by its correctness
  theorem; reading in chunks terminates by its measure.

  \<^bold>\<open>Simplifications.\<close> Strings have code points below 256. Error messages are shortened;
  exceptions are distinguished by class. A float is the text \<open>repr\<close> prints. Times are whole
  microseconds with an optional offset. Parsing of raw JSON into contract models is done by
  pydantic: construction checks are modelled, type coercion is not, and where the service
  parses a stored model the parser is a parameter. The reads of one command see one state.
  A number of seconds is its JSON value with the microseconds \<open>timedelta\<close> makes of it; the lifetime of a
  lease is at least one microsecond, and dates stay within the years \<open>datetime\<close> has. SQLite's
  bound on integers is modelled where the ledger stores token counts and costs.

  \<^bold>\<open>Not modelled.\<close> The Builder's calibration and pilot tools and the Prover's evidence code are left
  out; so are its execution back ends and network providers (with the parsing of their endpoint
  URLs), the dashboard, the benchmarks and the scripts, which drive external processes, HTTP and files.
\<close>

end
